(* ===== verification/Prelude.thy ===== *)
theory Prelude
  imports
    Main
    "HOL-Library.Word"
    "HOL-Library.AList"
    "HOL-Library.List_Lexorder"
    "HOL-Library.Sublist"
begin

text \<open>
  Shared vocabulary of the development.

  \<^item> Bytes, byte strings and the machine integers of the Rust code (\<open>u8\<close>, \<open>u16\<close>,
    \<open>u32\<close>, \<open>u64\<close>) as words; \<open>usize\<close> as \<open>nat\<close> with its 64-bit limit written
    out where the code uses a checked operation.
  \<^item> The \<open>Result\<close> type as a sum (\<open>Inl\<close> the error), with the combinators that the
    \<open>?\<close> operator, \<open>ok_or\<close>, \<open>map_err\<close> and early-return loops translate to.
  \<^item> Big-endian byte encodings (\<open>to_be_bytes\<close>) and length-prefixed fields, with their
    injectivity.
  \<^item> Key/value rows (\<open>HashMap<Vec<u8>, Vec<u8>>\<close>) as association lists with distinct
    keys, and the facts on sorting rows by key that the storage proofs share.
\<close>

named_theorems result_simps \<open>how the Result combinators succeed and fail\<close>
named_theorems row_simps \<open>lookups in updated rows\<close>

section \<open>Machine types\<close>

type_synonym byte = "8 word"
type_synonym bytes = "byte list"
type_synonym u16 = "16 word"
type_synonym u32 = "32 word"
type_synonym u64 = "64 word"

definition ascii :: "string \<Rightarrow> bytes" where
  "ascii s = map of_char s"

definition starts_with :: "bytes \<Rightarrow> bytes \<Rightarrow> bool" where
  "starts_with xs p \<longleftrightarrow> prefix p xs"

definition usize_checked_add :: "nat \<Rightarrow> nat \<Rightarrow> nat option" where
  "usize_checked_add a b = (if a + b < 2 ^ 64 then Some (a + b) else None)"

lemma usize_checked_add_Some_iff: "usize_checked_add a b = Some c \<longleftrightarrow> c = a + b \<and> c < 2 ^ 64"
  by (auto simp: usize_checked_add_def)

lemma usize_checked_add_fits: "a + b < 2 ^ 64 \<Longrightarrow> usize_checked_add a b = Some (a + b)"
  by (simp add: usize_checked_add_def)

definition u64_checked_succ :: "u64 \<Rightarrow> u64 option" where
  "u64_checked_succ e = (if e = - 1 then None else Some (e + 1))"

lemma u64_checked_succ_Some_iff:
  "u64_checked_succ e = Some e' \<longleftrightarrow> unat e + 1 < 2 ^ 64 \<and> unat e' = unat e + 1"
proof (cases "e = - 1")
  case True
  moreover have "unat (- 1 :: u64) = 2 ^ 64 - 1"
    by (simp add: unsigned_minus_1_eq_mask mask_eq_exp_minus_1)
  ultimately show ?thesis
    by (simp add: u64_checked_succ_def)
next
  case False
  then have "unat (e + 1) = unat e + 1"
    by (metis add.right_neutral add_eq_0_iff2 unatSuc Suc_eq_plus1 add.commute)
  moreover have "unat (e + 1) < 2 ^ 64"
    using unsigned_less [where w = "e + 1"] by simp
  moreover have "e + 1 = e' \<longleftrightarrow> unat e' = unat (e + 1)"
    by (auto simp: word_unat_eq_iff)
  ultimately show ?thesis
    using False by (simp add: u64_checked_succ_def)
qed

section \<open>Results\<close>

definition bindE :: "'e + 'a \<Rightarrow> ('a \<Rightarrow> 'e + 'b) \<Rightarrow> 'e + 'b" where
  "bindE m f = (case m of Inl e \<Rightarrow> Inl e | Inr a \<Rightarrow> f a)"

definition require :: "bool \<Rightarrow> 'e \<Rightarrow> 'e + unit" where
  "require c e = (if c then Inr () else Inl e)"

definition ok_or :: "'a option \<Rightarrow> 'e \<Rightarrow> 'e + 'a" where
  "ok_or x e = (case x of None \<Rightarrow> Inl e | Some a \<Rightarrow> Inr a)"

definition map_err :: "('e \<Rightarrow> 'f) \<Rightarrow> 'e + 'a \<Rightarrow> 'f + 'a" where
  "map_err f m = (case m of Inl e \<Rightarrow> Inl (f e) | Inr a \<Rightarrow> Inr a)"

fun eachE :: "('a \<Rightarrow> 'e + unit) \<Rightarrow> 'a list \<Rightarrow> 'e + unit" where
  "eachE f [] = Inr ()"
| "eachE f (x # xs) = bindE (f x) (\<lambda>_. eachE f xs)"

fun foldE :: "('s \<Rightarrow> 'a \<Rightarrow> 'e + 's) \<Rightarrow> 's \<Rightarrow> 'a list \<Rightarrow> 'e + 's" where
  "foldE f s [] = Inr s"
| "foldE f s (x # xs) = bindE (f s x) (\<lambda>s'. foldE f s' xs)"

definition is_ok :: "'e + 'a \<Rightarrow> bool" where
  "is_ok m \<longleftrightarrow> (case m of Inl _ \<Rightarrow> False | Inr _ \<Rightarrow> True)"

lemma bindE_simps [simp]: "bindE (Inl e) f = Inl e" "bindE (Inr a) f = f a"
  by (simp_all add: bindE_def)

lemma bindE_Inr_iff [result_simps]: "bindE m f = Inr b \<longleftrightarrow> (\<exists>a. m = Inr a \<and> f a = Inr b)"
  by (cases m) auto

lemma bindE_Inl_iff:
  "bindE m f = Inl e \<longleftrightarrow> m = Inl e \<or> (\<exists>a. m = Inr a \<and> f a = Inl e)"
  by (cases m) auto

lemma bindE_assoc: "bindE (bindE m f) g = bindE m (\<lambda>x. bindE (f x) g)"
  by (cases m) simp_all

lemma require_Inr_iff [result_simps]: "require c e = Inr u \<longleftrightarrow> c"
  by (simp add: require_def)

lemma require_Inl_iff: "require c e = Inl e' \<longleftrightarrow> \<not> c \<and> e' = e"
  by (auto simp: require_def)

lemma require_simps [simp]: "require True e = Inr ()" "require False e = Inl e"
  by (simp_all add: require_def)

lemma ok_or_Inr_iff [result_simps]: "ok_or x e = Inr a \<longleftrightarrow> x = Some a"
  by (cases x) (simp_all add: ok_or_def)

lemma ok_or_Inl_iff: "ok_or x e = Inl e' \<longleftrightarrow> x = None \<and> e' = e"
  by (cases x) (auto simp: ok_or_def)

lemma ok_or_simps [simp]: "ok_or None e = Inl e" "ok_or (Some a) e = Inr a"
  by (simp_all add: ok_or_def)

lemma map_err_Inr_iff [result_simps]: "map_err f m = Inr a \<longleftrightarrow> m = Inr a"
  by (cases m) (simp_all add: map_err_def)

lemma map_err_simps [simp]: "map_err f (Inl e) = Inl (f e)" "map_err f (Inr a) = Inr a"
  by (simp_all add: map_err_def)

lemma eachE_Inr_iff [result_simps]: "eachE f xs = Inr u \<longleftrightarrow> (\<forall>x \<in> set xs. f x = Inr ())"
  by (induction xs) (auto simp: bindE_Inr_iff)

lemma is_ok_iff: "is_ok m \<longleftrightarrow> (\<exists>a. m = Inr a)"
  by (cases m) (simp_all add: is_ok_def)

lemma if_Inl_Inr_iff [result_simps]: "(if c then Inl e else m) = Inr a \<longleftrightarrow> \<not> c \<and> m = Inr a"
  by simp

lemma foldE_append: "foldE f s (xs @ ys) = bindE (foldE f s xs) (\<lambda>t. foldE f t ys)"
  by (induction xs arbitrary: s) (simp_all add: bindE_assoc)

section \<open>Big-endian integers and length-prefixed fields\<close>

definition be_bytes :: "nat \<Rightarrow> 'n::len word \<Rightarrow> bytes" where
  "be_bytes k w = map (\<lambda>i. ucast (drop_bit (8 * (k - 1 - i)) w)) [0..<k]"

definition be16 :: "u16 \<Rightarrow> bytes" where "be16 = be_bytes 2"
definition be32 :: "u32 \<Rightarrow> bytes" where "be32 = be_bytes 4"
definition be64 :: "u64 \<Rightarrow> bytes" where "be64 = be_bytes 8"

lemma length_be_bytes [simp]: "length (be_bytes k w) = k"
  by (simp add: be_bytes_def)

lemma length_be [simp]: "length (be16 a) = 2" "length (be32 b) = 4" "length (be64 c) = 8"
  by (simp_all add: be16_def be32_def be64_def)

lemma be_bytes_inj:
  fixes a b :: "'n::len word"
  assumes eq: "be_bytes k a = be_bytes k b" and k: "LENGTH('n) = 8 * k"
  shows "a = b"
proof (rule bit_word_eqI)
  fix n
  assume n: "n < LENGTH('n)"
  define i where "i = k - 1 - n div 8"
  from n k have "n div 8 < k" by auto
  then have i: "i < k" and pos: "8 * (k - 1 - i) = 8 * (n div 8)"
    by (auto simp: i_def)
  from eq i have "be_bytes k a ! i = be_bytes k b ! i" by simp
  with i pos have "(ucast (drop_bit (8 * (n div 8)) a) :: byte) = ucast (drop_bit (8 * (n div 8)) b)"
    by (simp add: be_bytes_def)
  then have "bit (ucast (drop_bit (8 * (n div 8)) a) :: byte) (n mod 8)
      = bit (ucast (drop_bit (8 * (n div 8)) b) :: byte) (n mod 8)"
    by simp
  then show "bit a n = bit b n"
    by (simp add: bit_ucast_iff bit_drop_bit_eq)
qed

lemma be16_inj [simp]: "be16 a = be16 b \<longleftrightarrow> a = b"
  by (auto simp: be16_def dest: be_bytes_inj)

lemma be32_inj [simp]: "be32 a = be32 b \<longleftrightarrow> a = b"
  by (auto simp: be32_def dest: be_bytes_inj)

lemma be64_inj [simp]: "be64 a = be64 b \<longleftrightarrow> a = b"
  by (auto simp: be64_def dest: be_bytes_inj)

lemma append_same_length_eq:
  "length a = length b \<Longrightarrow> a @ x = b @ y \<longleftrightarrow> a = b \<and> x = y"
  by simp

lemma be_append_inj [simp]:
  "be32 a @ x = be32 b @ y \<longleftrightarrow> a = b \<and> x = y"
  "be64 c @ x = be64 d @ y \<longleftrightarrow> c = d \<and> x = y"
  by (simp_all add: append_same_length_eq)

text \<open>A field written as its length in four bytes followed by its content.\<close>

definition len_prefixed :: "bytes \<Rightarrow> bytes" where
  "len_prefixed v = be32 (of_nat (length v)) @ v"

lemma unat_u32_of_nat: "a < 2 ^ 32 \<Longrightarrow> unat (of_nat a :: u32) = a"
  by (simp add: unat_of_nat take_bit_nat_eq_self)

lemma of_nat_u32_inj:
  "a < 2 ^ 32 \<Longrightarrow> b < 2 ^ 32 \<Longrightarrow> (of_nat a :: u32) = of_nat b \<longleftrightarrow> a = b"
  using unat_u32_of_nat by metis

lemma len_prefixed_append_inj:
  assumes "length v < 2 ^ 32" "length w < 2 ^ 32"
  shows "len_prefixed v @ x = len_prefixed w @ y \<longleftrightarrow> v = w \<and> x = y"
proof -
  have "(of_nat (length v) :: u32) = of_nat (length w) \<Longrightarrow> length v = length w"
    using of_nat_u32_inj [OF assms] by simp
  then show ?thesis
    by (auto simp: len_prefixed_def)
qed

text \<open>A sequence of self-delimiting fields of known number determines its elements.\<close>

lemma concat_map_inj:
  assumes "\<And>x y u v. ok x \<Longrightarrow> ok y \<Longrightarrow> f x @ u = f y @ v \<Longrightarrow> g x = g y \<and> u = v"
    and "length xs = length ys" "\<forall>x \<in> set xs. ok x" "\<forall>y \<in> set ys. ok y"
    and "concat (map f xs) @ u = concat (map f ys) @ v"
  shows "map g xs = map g ys \<and> u = v"
  using assms(2-)
proof (induction xs ys rule: list_induct2)
  case Nil
  then show ?case by simp
next
  case (Cons x xs y ys)
  then have "f x @ concat (map f xs) @ u = f y @ concat (map f ys) @ v" by simp
  with Cons.prems assms(1) have "g x = g y" "concat (map f xs) @ u = concat (map f ys) @ v"
    by (metis list.set_intros(1))+
  with Cons show ?case by simp
qed

section \<open>Key/value rows\<close>

type_synonym rows = "(bytes \<times> bytes) list"

definition rows_ok :: "rows \<Rightarrow> bool" where
  "rows_ok r \<longleftrightarrow> distinct (map fst r)"

lemma rows_ok_update [intro, simp]: "rows_ok r \<Longrightarrow> rows_ok (AList.update k v r)"
  by (simp add: rows_ok_def distinct_update)

lemma rows_ok_delete [intro, simp]: "rows_ok r \<Longrightarrow> rows_ok (AList.delete k r)"
  by (simp add: rows_ok_def distinct_delete)

lemma rows_ok_Nil [simp]: "rows_ok []"
  by (simp add: rows_ok_def)

lemma map_of_update [row_simps]: "map_of (AList.update k v r) = (map_of r)(k \<mapsto> v)"
  by (rule update_conv')

lemma map_of_delete [row_simps]: "map_of (AList.delete k r) = (map_of r)(k := None)"
  by (rule delete_conv')

lemma map_of_rev_distinct:
  "distinct (map fst xs) \<Longrightarrow> map_of (rev xs) = map_of xs"
  by (intro map_of_inject_set [THEN iffD2]) (simp_all flip: rev_map)

lemma mem_keys_iff: "k \<in> set (map fst r) \<longleftrightarrow> map_of r k \<noteq> None"
  by (simp add: map_of_eq_None_iff)

lemma rows_set_eq_iff:
  assumes "rows_ok a" "rows_ok b"
  shows "set a = set b \<longleftrightarrow> map_of a = map_of b"
proof
  assume "set a = set b"
  with assms show "map_of a = map_of b"
    by (metis map_of_inject_set rows_ok_def)
next
  assume "map_of a = map_of b"
  with assms show "set a = set b"
    by (metis map_of_inject_set rows_ok_def)
qed

text \<open>
  Sorting rows by key: with distinct keys the sorted list depends on the set of rows only,
  so the iteration order of the hash map cannot be observed through it.
\<close>

lemma sort_key_cong_set:
  fixes f :: "'a \<Rightarrow> 'k::linorder"
  assumes "distinct (map f xs)" "distinct (map f ys)" "set xs = set ys"
  shows "sort_key f xs = sort_key f ys"
proof -
  have inj: "inj_on f (set xs)"
    using assms(1) by (simp add: distinct_map)
  have "map f (sort_key f xs) = map f (sort_key f ys)"
    by (rule sorted_distinct_set_unique) (use assms in \<open>simp_all add: distinct_map\<close>)
  moreover have "set (sort_key f xs) \<union> set (sort_key f ys) = set xs"
    using assms(3) by simp
  ultimately show ?thesis
    using inj by (simp add: inj_on_map_eq_map)
qed

end
