(* ===== verification/Effects.thy ===== *)
theory Effects
  imports Prelude
begin

text \<open>
  Stateful results. A method that takes \<open>&self\<close>, mutates the rows behind the mutex and
  returns a \<open>Result\<close> is a function from the state to the result and the state after it;
  the state is returned on the error path too, as the mutations made before a \<open>?\<close>
  stay in the map. \<open>keeps P m\<close> says that \<open>m\<close> preserves \<open>P\<close> on both paths; its rules are
  collected in \<open>keeps_intros\<close>, so that preservation by a composed method is one call of
  the classical reasoner.
\<close>

named_theorems keeps_intros \<open>preservation of a state predicate by a stateful result\<close>

type_synonym ('s, 'e, 'a) eff = "'s \<Rightarrow> ('e + 'a) \<times> 's"

definition returnS :: "'a \<Rightarrow> ('s, 'e, 'a) eff" where
  "returnS a = (\<lambda>s. (Inr a, s))"

definition liftS :: "'e + 'a \<Rightarrow> ('s, 'e, 'a) eff" where
  "liftS m = (\<lambda>s. (m, s))"

definition bindS :: "('s, 'e, 'a) eff \<Rightarrow> ('a \<Rightarrow> ('s, 'e, 'b) eff) \<Rightarrow> ('s, 'e, 'b) eff" where
  "bindS m f = (\<lambda>s. case m s of (Inl e, s') \<Rightarrow> (Inl e, s') | (Inr a, s') \<Rightarrow> f a s')"

definition getsS :: "('s \<Rightarrow> 'a) \<Rightarrow> ('s, 'e, 'a) eff" where
  "getsS f = (\<lambda>s. (Inr (f s), s))"

definition modifyS :: "('s \<Rightarrow> 's) \<Rightarrow> ('s, 'e, unit) eff" where
  "modifyS f = (\<lambda>s. (Inr (), f s))"

definition readS :: "('s \<Rightarrow> 'e + 'a) \<Rightarrow> ('s, 'e, 'a) eff" where
  "readS f = (\<lambda>s. (f s, s))"

fun eachS :: "('a \<Rightarrow> ('s, 'e, unit) eff) \<Rightarrow> 'a list \<Rightarrow> ('s, 'e, unit) eff" where
  "eachS f [] = returnS ()"
| "eachS f (x # xs) = bindS (f x) (\<lambda>_. eachS f xs)"

fun timesS :: "nat \<Rightarrow> ('s, 'e, 'a) eff \<Rightarrow> ('s, 'e, 'a list) eff" where
  "timesS 0 m = returnS []"
| "timesS (Suc n) m = bindS m (\<lambda>x. bindS (timesS n m) (\<lambda>xs. returnS (x # xs)))"

fun mapE :: "('a \<Rightarrow> 'e + 'b) \<Rightarrow> 'a list \<Rightarrow> 'e + 'b list" where
  "mapE f [] = Inr []"
| "mapE f (x # xs) = bindE (f x) (\<lambda>y. bindE (mapE f xs) (\<lambda>ys. Inr (y # ys)))"

lemma mapE_Inr_iff [result_simps]:
  "mapE f xs = Inr ys \<longleftrightarrow> list_all2 (\<lambda>x y. f x = Inr y) xs ys"
  by (induction xs arbitrary: ys) (auto simp: bindE_Inr_iff list_all2_Cons1)

lemma run_simps [simp]:
  "returnS a s = (Inr a, s)"
  "liftS m s = (m, s)"
  "getsS f s = (Inr (f s), s)"
  "modifyS g s = (Inr (), g s)"
  "readS r s = (r s, s)"
  by (simp_all add: returnS_def liftS_def getsS_def modifyS_def readS_def)

lemma run_bindS: "bindS m f s = (case m s of (Inl e, s') \<Rightarrow> (Inl e, s') | (Inr a, s') \<Rightarrow> f a s')"
  by (simp add: bindS_def)

lemma run_bindS_Inr [simp]: "m s = (Inr a, s') \<Longrightarrow> bindS m f s = f a s'"
  by (simp add: bindS_def)

lemma run_bindS_Inl [simp]: "m s = (Inl e, s') \<Longrightarrow> bindS m f s = (Inl e, s')"
  by (simp add: bindS_def)

lemma bindS_assoc: "bindS (bindS m f) g = bindS m (\<lambda>x. bindS (f x) g)"
  by (rule ext) (simp add: bindS_def split: prod.splits sum.splits)

lemma run_bindS_ok_iff [result_simps]:
  "bindS m f s = (Inr b, t) \<longleftrightarrow> (\<exists>a s'. m s = (Inr a, s') \<and> f a s' = (Inr b, t))"
  by (auto simp: bindS_def split: prod.splits sum.splits)

lemma eachS_Cons_ok:
  "eachS f (x # xs) s = (Inr u, t) \<longleftrightarrow>
     (\<exists>s1. f x s = (Inr (), s1) \<and> eachS f xs s1 = (Inr u, t))"
  by (auto simp: run_bindS_ok_iff)

definition keeps :: "('s \<Rightarrow> bool) \<Rightarrow> ('s, 'e, 'a) eff \<Rightarrow> bool" where
  "keeps P m \<longleftrightarrow> (\<forall>s. P s \<longrightarrow> P (snd (m s)))"

lemma keepsD: "keeps P m \<Longrightarrow> P s \<Longrightarrow> P (snd (m s))"
  by (simp add: keeps_def)

lemma keeps_returnS [keeps_intros]: "keeps P (returnS a)"
  by (simp add: keeps_def)

lemma keeps_liftS [keeps_intros]: "keeps P (liftS m)"
  by (simp add: keeps_def)

lemma keeps_getsS [keeps_intros]: "keeps P (getsS f)"
  by (simp add: keeps_def)

lemma keeps_readS [keeps_intros]: "keeps P (readS f)"
  by (simp add: keeps_def)

lemma keeps_modifyS: "(\<And>s. P s \<Longrightarrow> P (f s)) \<Longrightarrow> keeps P (modifyS f)"
  by (simp add: keeps_def)

lemma keeps_bindS [keeps_intros]:
  "keeps P m \<Longrightarrow> (\<And>a. keeps P (f a)) \<Longrightarrow> keeps P (bindS m f)"
  unfolding keeps_def bindS_def by (force split: prod.splits sum.splits)

lemma keeps_eachS [keeps_intros]:
  "(\<And>x. x \<in> set xs \<Longrightarrow> keeps P (f x)) \<Longrightarrow> keeps P (eachS f xs)"
  by (induction xs) (auto intro!: keeps_intros)

end
