(* ===== verification/Cursor.thy ===== *)
theory Cursor
  imports Effects
begin

text \<open>
  Readers over the remaining input, as the cursors of the account-envelope codecs: a cursor is
  its remaining bytes, \<open>read_array\<close> takes a fixed number of them or fails with the error of the
  codec. \<open>cursor_simps\<close> characterises a successful read by the bytes it consumed, so that a
  decoder is taken apart into the encoding of what it returns.
\<close>

named_theorems cursor_simps \<open>a successful read determines the bytes consumed\<close>

section \<open>Integers from big-endian bytes\<close>

definition word_of_be :: "bytes \<Rightarrow> 'n::len word" where
  "word_of_be b = of_nat (foldl (\<lambda>n x. 256 * n + unat x) 0 b)"

lemma horner_digits:
  fixes n :: nat
  shows "foldl (\<lambda>n x. 256 * n + x) 0 (map (\<lambda>i. (n div 256 ^ (k - 1 - i)) mod 256) [0..<k]) = n mod 256 ^ k"
proof (induction k arbitrary: n)
  case (Suc k)
  have "map (\<lambda>i. (n div 256 ^ (Suc k - 1 - i)) mod 256) [0..<k]
      = map (\<lambda>i. (n div 256 div 256 ^ (k - 1 - i)) mod 256) [0..<k]"
  proof (rule map_cong [OF refl])
    fix i assume "i \<in> set [0..<k]"
    then have "Suc k - 1 - i = Suc (k - 1 - i)" by auto
    then show "(n div 256 ^ (Suc k - 1 - i)) mod 256 = (n div 256 div 256 ^ (k - 1 - i)) mod 256"
      by (simp add: div_mult2_eq)
  qed
  then have "foldl (\<lambda>n x. 256 * n + x) 0 (map (\<lambda>i. (n div 256 ^ (Suc k - 1 - i)) mod 256) [0..<Suc k])
      = 256 * (n div 256 mod 256 ^ k) + n mod 256"
    using Suc [of "n div 256"] by (simp only: upt_Suc_append zero_le map_append foldl_append) simp
  also have "\<dots> = n mod 256 ^ Suc k"
    by (metis mod_mult2_eq power_Suc)
  finally show ?case .
qed simp

lemma digits_of_be:
  "map (\<lambda>i. (foldl (\<lambda>n x. 256 * n + unat (x :: byte)) 0 v div 256 ^ (length v - 1 - i)) mod 256) [0..<length v]
    = map unat v"
proof (induction v rule: rev_induct)
  case (snoc x v)
  define n where "n = foldl (\<lambda>n x. 256 * n + unat x) 0 v"
  let ?N = "256 * n + unat x"
  have x: "unat x < 256" using unsigned_less [of x] by simp
  have "map (\<lambda>i. ((256 * n + unat x) div 256 ^ (Suc (length v) - 1 - i)) mod 256) [0..<length v]
      = map (\<lambda>i. (n div 256 ^ (length v - 1 - i)) mod 256) [0..<length v]"
  proof (rule map_cong [OF refl])
    fix i assume "i \<in> set [0..<length v]"
    then have "Suc (length v) - 1 - i = Suc (length v - 1 - i)" by auto
    then show "(256 * n + unat x) div 256 ^ (Suc (length v) - 1 - i) mod 256
        = n div 256 ^ (length v - 1 - i) mod 256"
      using x by (simp add: div_mult2_eq)
  qed
  moreover have "?N mod 256 = unat x" using x by simp
  ultimately have "map (\<lambda>i. (?N div 256 ^ (Suc (length v) - 1 - i)) mod 256) [0..<Suc (length v)]
      = map unat (v @ [x])"
    using snoc by (simp only: upt_Suc_append zero_le map_append n_def) simp
  then show ?case by (simp add: n_def)
qed simp

lemma unat_be_digit:
  "unat (ucast (drop_bit (8 * j) w) :: byte) = (unat (w :: 'n::len word) div 256 ^ j) mod 256"
proof -
  have p: "(2 :: nat) ^ (8 * j) = 256 ^ j" by (simp add: power_mult)
  show ?thesis
    unfolding unsigned_ucast_eq unat_drop_bit_eq by (simp add: drop_bit_eq_div take_bit_eq_mod p)
qed

lemma unat_be_bytes:
  "map unat (be_bytes k w) = map (\<lambda>i. (unat w div 256 ^ (k - 1 - i)) mod 256) [0..<k]"
  by (simp add: be_bytes_def unat_be_digit)

lemma word_of_be_bytes:
  assumes k: "LENGTH('n) = 8 * k"
  shows "word_of_be (be_bytes k (w :: 'n::len word)) = w"
proof -
  have "foldl (\<lambda>n x. 256 * n + unat x) 0 (be_bytes k w)
      = foldl (\<lambda>n x. 256 * n + x) 0 (map unat (be_bytes k w))"
    by (simp add: foldl_map)
  then have "foldl (\<lambda>n x. 256 * n + unat x) 0 (be_bytes k w) = unat w mod 256 ^ k"
    by (simp only: unat_be_bytes horner_digits)
  also have "\<dots> = unat w"
  proof -
    have "unat w < 2 ^ LENGTH('n)" by (rule unsigned_less)
    then show ?thesis by (simp add: k power_mult)
  qed
  finally show ?thesis by (simp add: word_of_be_def)
qed

lemma foldl_be_less: "foldl (\<lambda>n x. 256 * n + unat (x :: byte)) 0 v < 256 ^ length v"
proof (induction v rule: rev_induct)
  case (snoc x v)
  have "unat x < 256" using unsigned_less [of x] by simp
  with snoc show ?case by simp
qed simp

lemma be_bytes_word_of_be:
  assumes k: "LENGTH('n) = 8 * k" and v: "length v = k"
  shows "be_bytes k (word_of_be v :: 'n::len word) = v"
proof -
  define n where "n = foldl (\<lambda>n x. 256 * n + unat (x :: byte)) 0 v"
  have "n < 2 ^ LENGTH('n)"
    using foldl_be_less [of v] v by (simp add: n_def k power_mult)
  then have "unat (word_of_be v :: 'n word) = n"
    by (simp add: word_of_be_def n_def [symmetric] unat_of_nat take_bit_nat_eq_self)
  then have "map unat (be_bytes k (word_of_be v :: 'n word)) = map unat v"
    using digits_of_be [of v] v by (simp add: unat_be_bytes n_def)
  then show ?thesis
    using inj_map_eq_map [of "unat :: byte \<Rightarrow> nat"] unsigned_word_eqI by (metis injI)
qed

section \<open>Reading\<close>

definition read_array :: "'e \<Rightarrow> nat \<Rightarrow> (bytes, 'e, bytes) eff" where
  "read_array e n = (\<lambda>s. if n \<le> length s then (Inr (take n s), drop n s) else (Inl e, s))"

definition read_u8 :: "'e \<Rightarrow> (bytes, 'e, byte) eff" where
  "read_u8 e = bindS (read_array e 1) (\<lambda>b. returnS (hd b))"

definition read_u16 :: "'e \<Rightarrow> (bytes, 'e, u16) eff" where
  "read_u16 e = bindS (read_array e 2) (\<lambda>b. returnS (word_of_be b))"

definition read_u64 :: "'e \<Rightarrow> (bytes, 'e, u64) eff" where
  "read_u64 e = bindS (read_array e 8) (\<lambda>b. returnS (word_of_be b))"

definition is_finished :: "(bytes, 'e, bool) eff" where
  "is_finished = getsS (\<lambda>s. s = [])"

text \<open>Reading a whole input: what is left unread is not observed.\<close>

definition run_reader :: "(bytes, 'e, 'a) eff \<Rightarrow> bytes \<Rightarrow> 'e + 'a" where
  "run_reader m input = fst (m input)"

lemma read_array_Inr_iff [cursor_simps]:
  "read_array e n s = (Inr v, r) \<longleftrightarrow> s = v @ r \<and> length v = n"
  by (auto simp: read_array_def)

lemma read_u8_Inr_iff [cursor_simps]: "read_u8 e s = (Inr v, r) \<longleftrightarrow> s = v # r"
  by (auto simp: read_u8_def run_bindS_ok_iff read_array_Inr_iff length_Suc_conv)

lemma word_of_be_iff:
  assumes "LENGTH('n) = 8 * k"
  shows "(\<exists>b. length b = k \<and> s = b @ r \<and> word_of_be b = (v :: 'n::len word)) \<longleftrightarrow> s = be_bytes k v @ r"
  using word_of_be_bytes [OF assms] be_bytes_word_of_be [OF assms] by auto

lemma read_u16_Inr_iff [cursor_simps]: "read_u16 e s = (Inr v, r) \<longleftrightarrow> s = be16 v @ r"
  using word_of_be_iff [of 2 s r v]
  by (auto simp: read_u16_def run_bindS_ok_iff read_array_Inr_iff be16_def)

lemma read_u64_Inr_iff [cursor_simps]: "read_u64 e s = (Inr v, r) \<longleftrightarrow> s = be64 v @ r"
  using word_of_be_iff [of 8 s r v]
  by (auto simp: read_u64_def run_bindS_ok_iff read_array_Inr_iff be64_def)

lemma is_finished_iff [cursor_simps]: "is_finished s = (Inr f, r) \<longleftrightarrow> r = s \<and> f = (s = [])"
  by (auto simp: is_finished_def)

lemma run_reader_Inr_iff: "run_reader m input = Inr a \<longleftrightarrow> (\<exists>r. m input = (Inr a, r))"
  by (cases "m input") (simp add: run_reader_def)

lemma liftS_ok_iff [cursor_simps]: "liftS m s = (Inr a, r) \<longleftrightarrow> m = Inr a \<and> r = s"
  by auto

lemma if_liftS_Inl_iff [cursor_simps]:
  "(if c then liftS (Inl e) else m) s = (Inr a, r) \<longleftrightarrow> \<not> c \<and> m s = (Inr a, r)"
  by simp

lemma returnS_ok_iff [cursor_simps]: "returnS a s = (Inr b, r) \<longleftrightarrow> b = a \<and> r = s"
  by auto

lemmas cursor_bind [cursor_simps] = run_bindS_ok_iff

text \<open>Running a reader on what its writer wrote.\<close>

named_theorems cursor_run \<open>a read of what was written\<close>

lemma read_written [cursor_run]:
  "length v = n \<Longrightarrow> read_array e n (v @ r) = (Inr v, r)"
  "length v = n \<Longrightarrow> read_array e n v = (Inr v, [])"
  "read_u8 e (x # r) = (Inr x, r)"
  "read_u16 e (be16 a @ r) = (Inr a, r)"
  "read_u64 e (be64 b @ r) = (Inr b, r)"
  by (simp_all add: cursor_simps)

lemma is_finished_run [cursor_run]: "is_finished s = (Inr (s = []), s)"
  by (simp add: is_finished_def)

section \<open>Exact readers\<close>

text \<open>
  A reader is exact for an encoding when it succeeds on precisely the encodings of the valid
  values, whatever follows them, and consumes what it returns. Then it is deterministic in both
  directions, and so is its repetition.
\<close>

locale exact_reader =
  fixes rd :: "(bytes, 'e, 'a) eff" and enc :: "'a \<Rightarrow> bytes" and valid :: "'a \<Rightarrow> bool"
  assumes exact: "rd s = (Inr v, r) \<longleftrightarrow> valid v \<and> s = enc v @ r"
begin

lemma reads_back: "valid v \<Longrightarrow> rd (enc v @ r) = (Inr v, r)"
  by (simp add: exact)

lemma enc_append_inj: "valid v \<Longrightarrow> valid w \<Longrightarrow> enc v @ r = enc w @ q \<Longrightarrow> v = w \<and> r = q"
  by (metis reads_back Pair_inject sum.inject(2))

lemma times_exact:
  "timesS n rd s = (Inr vs, r) \<longleftrightarrow>
     length vs = n \<and> (\<forall>v \<in> set vs. valid v) \<and> s = concat (map enc vs) @ r"
proof (induction n arbitrary: s vs)
  case 0
  then show ?case by auto
next
  case (Suc n)
  have "timesS (Suc n) rd s = (Inr vs, r) \<longleftrightarrow>
      (\<exists>v q ws. rd s = (Inr v, q) \<and> timesS n rd q = (Inr ws, r) \<and> vs = v # ws)"
    by (simp add: run_bindS_ok_iff) blast
  also have "\<dots> \<longleftrightarrow> (\<exists>v ws. vs = v # ws \<and> valid v \<and> length ws = n \<and> (\<forall>w \<in> set ws. valid w) \<and>
      s = enc v @ concat (map enc ws) @ r)"
    unfolding exact Suc by blast
  also have "\<dots> \<longleftrightarrow> length vs = Suc n \<and> (\<forall>v \<in> set vs. valid v) \<and> s = concat (map enc vs) @ r"
    by (cases vs) auto
  finally show ?case .
qed

end

end
