(* ===== verification/EnvelopeTypes.thy ===== *)
theory EnvelopeTypes
  imports Cursor
begin

unbundle bit_operations_syntax

text \<open>
  Types, bounds and authorities of the account envelope:
  \<open>rust/src/api/account_envelope/types.rs\<close>. A fixed array \<open>[u8; n]\<close> is a byte string; that it
  has its length is part of the well-formedness predicates, which the readers establish.
  \<open>AccountEnvelopeErrorV1\<close> is its code.
\<close>

section \<open>Bounds\<close>

definition FORMAT_VERSION_V1 :: byte where "FORMAT_VERSION_V1 = 1"
definition PRIVATE_BUNDLE_ACTIVE_BYTES :: nat where "PRIVATE_BUNDLE_ACTIVE_BYTES = 187"
definition PRIVATE_BUNDLE_RETIRED_BYTES :: nat where "PRIVATE_BUNDLE_RETIRED_BYTES = 155"
definition PRIVATE_BUNDLE_MAX_BYTES :: nat where "PRIVATE_BUNDLE_MAX_BYTES = 256"
definition PUBLIC_BUNDLE_TBS_BYTES :: nat where "PUBLIC_BUNDLE_TBS_BYTES = 107"
definition SELF_SIGNED_CANDIDATE_BYTES :: nat where "SELF_SIGNED_CANDIDATE_BYTES = 171"
definition PUBLIC_BUNDLE_NO_TRANSITION_BYTES :: nat where "PUBLIC_BUNDLE_NO_TRANSITION_BYTES = 172"
definition PUBLIC_BUNDLE_ROTATION_BYTES :: nat where "PUBLIC_BUNDLE_ROTATION_BYTES = 236"
definition PUBLIC_BUNDLE_MAX_BYTES :: nat where "PUBLIC_BUNDLE_MAX_BYTES = 256"
definition KEY_BYTES :: nat where "KEY_BYTES = 32"
definition SIGNATURE_BYTES :: nat where "SIGNATURE_BYTES = 64"
definition MAX_WEB_SAFE_INTEGER :: u64 where "MAX_WEB_SAFE_INTEGER = push_bit 53 1 - 1"
definition INVITATION_HEADER_BYTES :: nat where "INVITATION_HEADER_BYTES = 115"
definition INVITATION_ENVELOPE_MAX_BYTES :: nat where "INVITATION_ENVELOPE_MAX_BYTES = 4096"
definition INVITATION_CANONICAL_ENVELOPE_MAX_BYTES :: nat where
  "INVITATION_CANONICAL_ENVELOPE_MAX_BYTES = 2277"
definition INVITATION_INNER_MAX_BYTES :: nat where "INVITATION_INNER_MAX_BYTES = 1817"
definition INVITATION_TITLE_MAX_CODE_POINTS :: nat where "INVITATION_TITLE_MAX_CODE_POINTS = 120"
definition INVITATION_TITLE_MAX_BYTES :: nat where "INVITATION_TITLE_MAX_BYTES = 512"
definition INVITATION_TAG_MAX_COUNT :: nat where "INVITATION_TAG_MAX_COUNT = 10"
definition INVITATION_TAG_MAX_CODE_POINTS :: nat where "INVITATION_TAG_MAX_CODE_POINTS = 32"
definition INVITATION_TAG_MAX_BYTES :: nat where "INVITATION_TAG_MAX_BYTES = 128"
definition INVITATION_MAX_LIFETIME_MS :: u64 where
  "INVITATION_MAX_LIFETIME_MS = 7 * 24 * 60 * 60 * 1000"
definition CONTINUITY_MAX_LINKS :: nat where "CONTINUITY_MAX_LINKS = 32"
definition CONTINUITY_MAX_CANONICAL_BYTES :: nat where "CONTINUITY_MAX_CANONICAL_BYTES = 65536"

definition HPKE_KEM_ID :: u16 where "HPKE_KEM_ID = 0x0020"
definition HPKE_KDF_ID :: u16 where "HPKE_KDF_ID = 0x0001"
definition HPKE_AEAD_ID :: u16 where "HPKE_AEAD_ID = 0x0001"
definition SIGNATURE_SCHEME_ID :: u16 where "SIGNATURE_SCHEME_ID = 0x0807"

lemmas envelope_sizes =
  PRIVATE_BUNDLE_ACTIVE_BYTES_def PRIVATE_BUNDLE_RETIRED_BYTES_def PRIVATE_BUNDLE_MAX_BYTES_def
  PUBLIC_BUNDLE_TBS_BYTES_def SELF_SIGNED_CANDIDATE_BYTES_def PUBLIC_BUNDLE_NO_TRANSITION_BYTES_def
  PUBLIC_BUNDLE_ROTATION_BYTES_def PUBLIC_BUNDLE_MAX_BYTES_def KEY_BYTES_def SIGNATURE_BYTES_def
  INVITATION_HEADER_BYTES_def INVITATION_ENVELOPE_MAX_BYTES_def
  INVITATION_CANONICAL_ENVELOPE_MAX_BYTES_def

section \<open>Errors and authorities\<close>

datatype AccountEnvelopeErrorCodeV1 =
    AuthorityMismatch | UnsupportedVersion | NonCanonicalEncoding | SignatureInvalid
  | HpkeOpenFailed | PlaintextSchemaInvalid | BoundsExceeded | PrivateBundleInvalid
  | InternalCryptoFailure

definition is_canonical_uuid :: "bytes \<Rightarrow> bool" where
  "is_canonical_uuid v \<longleftrightarrow>
     list_ex (\<lambda>b. b \<noteq> 0) v \<and> (v ! 8) AND 0xC0 = 0x80 \<and>
     1 \<le> drop_bit 4 (v ! 6) \<and> drop_bit 4 (v ! 6) \<le> 8"

definition in_web_range :: "u64 \<Rightarrow> bool" where
  "in_web_range n \<longleftrightarrow> n \<noteq> 0 \<and> n \<le> MAX_WEB_SAFE_INTEGER"

record AccountEnvelopePrivateBundleAuthorityV1 =
  ba_account_id :: bytes
  ba_generation :: u64
  ba_root_installation_id :: bytes
  ba_root_authority_generation :: u64

definition validate_bundle_authority ::
  "AccountEnvelopePrivateBundleAuthorityV1 \<Rightarrow> AccountEnvelopeErrorCodeV1 + unit" where
  "validate_bundle_authority a =
     (if \<not> is_canonical_uuid (ba_account_id a) \<or> \<not> is_canonical_uuid (ba_root_installation_id a)
         \<or> ba_generation a = 0 \<or> ba_generation a > MAX_WEB_SAFE_INTEGER
         \<or> ba_root_authority_generation a = 0 \<or> ba_root_authority_generation a > MAX_WEB_SAFE_INTEGER
      then Inl AuthorityMismatch else Inr ())"

datatype AccountEnvelopeActivationKindV1 = Initial | Rotation | ContinuityReset

fun activation_kind_as_u8 :: "AccountEnvelopeActivationKindV1 \<Rightarrow> byte" where
  "activation_kind_as_u8 Initial = 1"
| "activation_kind_as_u8 Rotation = 2"
| "activation_kind_as_u8 ContinuityReset = 3"

definition activation_kind_from_u8 ::
  "byte \<Rightarrow> AccountEnvelopeErrorCodeV1 + AccountEnvelopeActivationKindV1" where
  "activation_kind_from_u8 v =
     (if v = 1 then Inr Initial else if v = 2 then Inr Rotation
      else if v = 3 then Inr ContinuityReset else Inl NonCanonicalEncoding)"

datatype AccountEnvelopeResetReasonV1 =
    IdentityReset | ChatStoreReset | RootInstallationMove | RootOrDatabaseKeyLoss
  | AccountRecovery | Compromise

fun reset_reason_value :: "AccountEnvelopeResetReasonV1 \<Rightarrow> byte" where
  "reset_reason_value IdentityReset = 1"
| "reset_reason_value ChatStoreReset = 2"
| "reset_reason_value RootInstallationMove = 3"
| "reset_reason_value RootOrDatabaseKeyLoss = 4"
| "reset_reason_value AccountRecovery = 5"
| "reset_reason_value Compromise = 6"

definition reset_reason_new ::
  "byte \<Rightarrow> AccountEnvelopeErrorCodeV1 + AccountEnvelopeResetReasonV1" where
  "reset_reason_new v =
     (if v = 1 then Inr IdentityReset else if v = 2 then Inr ChatStoreReset
      else if v = 3 then Inr RootInstallationMove else if v = 4 then Inr RootOrDatabaseKeyLoss
      else if v = 5 then Inr AccountRecovery else if v = 6 then Inr Compromise
      else Inl NonCanonicalEncoding)"

datatype PrivateBundleStateV1 = ActiveFull | RetiredDecryptOnly

fun bundle_state_as_u8 :: "PrivateBundleStateV1 \<Rightarrow> byte" where
  "bundle_state_as_u8 ActiveFull = 1"
| "bundle_state_as_u8 RetiredDecryptOnly = 2"

definition bundle_state_from_u8 :: "byte \<Rightarrow> AccountEnvelopeErrorCodeV1 + PrivateBundleStateV1" where
  "bundle_state_from_u8 v =
     (if v = 1 then Inr ActiveFull else if v = 2 then Inr RetiredDecryptOnly
      else Inl PrivateBundleInvalid)"

record DecodedPrivateBundleV1 =
  db_state :: PrivateBundleStateV1
  db_authority :: AccountEnvelopePrivateBundleAuthorityV1
  db_hpke_private_key :: bytes
  db_hpke_public_key :: bytes
  db_signature_private_key :: "bytes option"
  db_signature_public_key :: bytes

record AccountEnvelopePublicBundleSummaryV1 =
  sm_account_id :: bytes
  sm_generation :: u64
  sm_hpke_public_key :: bytes
  sm_signature_public_key :: bytes
  sm_activation_kind :: AccountEnvelopeActivationKindV1
  sm_previous_generation :: u64
  sm_reset_reason :: "AccountEnvelopeResetReasonV1 option"
  sm_digest_sha256 :: bytes

datatype SelfSignedPublicBundleResultV1 =
    CanonicalPublicBundle bytes | NonPublishableRotationCandidate bytes

record AuthorizeSuccessorPublicBundleResultV1 =
  authorized_canonical_successor_public_bundle :: bytes
  retired_previous_private_bundle_candidate :: bytes

section \<open>Invitations\<close>

datatype AccountEnvelopePaddingClassV1 = Bytes512 | Bytes1024 | Bytes2048

fun padding_class_as_u8 :: "AccountEnvelopePaddingClassV1 \<Rightarrow> byte" where
  "padding_class_as_u8 Bytes512 = 1"
| "padding_class_as_u8 Bytes1024 = 2"
| "padding_class_as_u8 Bytes2048 = 3"

definition padding_class_from_u8 ::
  "byte \<Rightarrow> AccountEnvelopeErrorCodeV1 + AccountEnvelopePaddingClassV1" where
  "padding_class_from_u8 v =
     (if v = 1 then Inr Bytes512 else if v = 2 then Inr Bytes1024
      else if v = 3 then Inr Bytes2048 else Inl NonCanonicalEncoding)"

fun plaintext_bytes :: "AccountEnvelopePaddingClassV1 \<Rightarrow> nat" where
  "plaintext_bytes Bytes512 = 512"
| "plaintext_bytes Bytes1024 = 1024"
| "plaintext_bytes Bytes2048 = 2048"

definition ciphertext_bytes :: "AccountEnvelopePaddingClassV1 \<Rightarrow> nat" where
  "ciphertext_bytes p = plaintext_bytes p + 16"

text \<open>A \<open>String\<close> is the list of its code points.\<close>

type_synonym utext = "nat list"

record ContextInvitationPreviewV1 =
  preview_title :: "utext option"
  preview_tags :: "utext list"

record ContextInvitationAuthorityV1 =
  ia_envelope_id :: bytes
  ia_invite_id :: bytes
  ia_sender_account_id :: bytes
  ia_sender_generation :: u64
  ia_recipient_account_id :: bytes
  ia_recipient_generation :: u64
  ia_authority_attempt :: u64
  ia_relay_slot_version :: u64
  ia_server_created_at_unix_ms :: u64
  ia_server_expires_at_unix_ms :: u64
  ia_padding_class :: AccountEnvelopePaddingClassV1

definition validate_invitation_authority ::
  "ContextInvitationAuthorityV1 \<Rightarrow> AccountEnvelopeErrorCodeV1 + unit" where
  "validate_invitation_authority a =
     (if ia_server_expires_at_unix_ms a < ia_server_created_at_unix_ms a then Inl AuthorityMismatch
      else
        let lifetime = ia_server_expires_at_unix_ms a - ia_server_created_at_unix_ms a in
        if \<not> is_canonical_uuid (ia_envelope_id a) \<or> \<not> is_canonical_uuid (ia_invite_id a)
           \<or> \<not> is_canonical_uuid (ia_sender_account_id a)
           \<or> \<not> is_canonical_uuid (ia_recipient_account_id a)
           \<or> ia_sender_generation a = 0 \<or> ia_sender_generation a > MAX_WEB_SAFE_INTEGER
           \<or> ia_recipient_generation a = 0 \<or> ia_recipient_generation a > MAX_WEB_SAFE_INTEGER
           \<or> ia_authority_attempt a = 0 \<or> ia_authority_attempt a > MAX_WEB_SAFE_INTEGER
           \<or> ia_relay_slot_version a \<noteq> 1
           \<or> ia_server_created_at_unix_ms a = 0
           \<or> ia_server_created_at_unix_ms a > MAX_WEB_SAFE_INTEGER
           \<or> ia_server_expires_at_unix_ms a > MAX_WEB_SAFE_INTEGER
           \<or> lifetime = 0 \<or> lifetime > INVITATION_MAX_LIFETIME_MS
        then Inl AuthorityMismatch else Inr ())"

record ExpectedContextInvitationAuthorityV1 =
  ea_invitation :: ContextInvitationAuthorityV1
  ea_local_root_installation_id :: bytes
  ea_local_root_authority_generation :: u64

definition validate_expected_invitation ::
  "ExpectedContextInvitationAuthorityV1 \<Rightarrow> AccountEnvelopeErrorCodeV1 + unit" where
  "validate_expected_invitation x =
     bindE (validate_invitation_authority (ea_invitation x)) (\<lambda>_.
     if \<not> is_canonical_uuid (ea_local_root_installation_id x)
        \<or> ea_local_root_authority_generation x = 0
        \<or> ea_local_root_authority_generation x > MAX_WEB_SAFE_INTEGER
     then Inl AuthorityMismatch else Inr ())"

section \<open>Continuity\<close>

datatype AccountEnvelopeContinuityDispositionV1 =
    FirstObservation | PinnedUnchanged | RotationChainVerified | ResetAnchorRequiresAcceptance
  | ManualReanchorVerified

record VerifyContinuityResponseResultV1 =
  vc_disposition :: AccountEnvelopeContinuityDispositionV1
  vc_verified_public_bundle :: bytes
  vc_verified_summary :: AccountEnvelopePublicBundleSummaryV1

section \<open>Code points of the enums\<close>

lemma activation_kind_round [cursor_simps]:
  "activation_kind_from_u8 v = Inr k \<longleftrightarrow> v = activation_kind_as_u8 k"
  by (cases k) (auto simp: activation_kind_from_u8_def)

lemma reset_reason_round [cursor_simps]:
  "reset_reason_new v = Inr k \<longleftrightarrow> v = reset_reason_value k"
  by (cases k) (auto simp: reset_reason_new_def)

lemma reset_reason_nonzero [simp]: "reset_reason_value k \<noteq> 0"
  by (cases k) simp_all

lemma bundle_state_round [cursor_simps]:
  "bundle_state_from_u8 v = Inr k \<longleftrightarrow> v = bundle_state_as_u8 k"
  by (cases k) (auto simp: bundle_state_from_u8_def)

lemma padding_class_round [cursor_simps]:
  "padding_class_from_u8 v = Inr k \<longleftrightarrow> v = padding_class_as_u8 k"
  by (cases k) (auto simp: padding_class_from_u8_def)

lemma web_range_iff:
  "validate_bundle_authority a = Inr u \<longleftrightarrow>
     is_canonical_uuid (ba_account_id a) \<and> is_canonical_uuid (ba_root_installation_id a) \<and>
     in_web_range (ba_generation a) \<and> in_web_range (ba_root_authority_generation a)"
  by (auto simp: validate_bundle_authority_def in_web_range_def)

end
