(* ===== verification/EnvelopeCodec.thy ===== *)
theory EnvelopeCodec
  imports EnvelopeTypes
begin

text \<open>
  Private and public key bundles: \<open>rust/src/api/account_envelope/codec.rs\<close>. Each decoder reads
  fixed fields with a cursor and then checks ranges; each is shown to accept exactly the
  encodings of the well-formed values, so encodings are unique and canonical.
\<close>

section \<open>Private bundles\<close>

definition suite_bytes :: bytes where
  "suite_bytes = be16 HPKE_KEM_ID @ be16 HPKE_KDF_ID @ be16 HPKE_AEAD_ID @ be16 SIGNATURE_SCHEME_ID"

definition encode_private_bundle :: "DecodedPrivateBundleV1 \<Rightarrow> bytes" where
  "encode_private_bundle b =
     [FORMAT_VERSION_V1] @ [bundle_state_as_u8 (db_state b)] @ ba_account_id (db_authority b)
       @ be64 (ba_generation (db_authority b)) @ ba_root_installation_id (db_authority b)
       @ be64 (ba_root_authority_generation (db_authority b))
       @ be16 HPKE_KEM_ID @ be16 HPKE_KDF_ID @ be16 HPKE_AEAD_ID @ be16 SIGNATURE_SCHEME_ID
       @ db_hpke_private_key b @ db_hpke_public_key b
       @ (case db_signature_private_key b of Some k \<Rightarrow> [1] @ k | None \<Rightarrow> [0])
       @ db_signature_public_key b"

text \<open>The four suite identifiers, compared one after the other.\<close>

definition read_suite :: "AccountEnvelopeErrorCodeV1 \<Rightarrow> (bytes, AccountEnvelopeErrorCodeV1, unit) eff" where
  "read_suite err =
     bindS (read_u16 NonCanonicalEncoding) (\<lambda>kem. if kem \<noteq> HPKE_KEM_ID then liftS (Inl err) else
     bindS (read_u16 NonCanonicalEncoding) (\<lambda>kdf. if kdf \<noteq> HPKE_KDF_ID then liftS (Inl err) else
     bindS (read_u16 NonCanonicalEncoding) (\<lambda>aead. if aead \<noteq> HPKE_AEAD_ID then liftS (Inl err) else
     bindS (read_u16 NonCanonicalEncoding) (\<lambda>sig. if sig \<noteq> SIGNATURE_SCHEME_ID then liftS (Inl err) else
     returnS ()))))"

text \<open>The presence byte of an optional field of \<open>n\<close> bytes.\<close>

definition read_optional ::
  "AccountEnvelopeErrorCodeV1 \<Rightarrow> nat \<Rightarrow> (bytes, AccountEnvelopeErrorCodeV1, bytes option) eff" where
  "read_optional err n =
     bindS (read_u8 NonCanonicalEncoding) (\<lambda>t.
     if t = 0 then returnS None
     else if t = 1 then bindS (read_array NonCanonicalEncoding n) (\<lambda>v. returnS (Some v))
     else liftS (Inl err))"

definition all_zero :: "bytes \<Rightarrow> bool" where
  "all_zero v \<longleftrightarrow> list_all (\<lambda>b. b = 0) v"

definition state_allows_key :: "PrivateBundleStateV1 \<Rightarrow> bytes option \<Rightarrow> bool" where
  "state_allows_key s k \<longleftrightarrow> (s = ActiveFull \<longleftrightarrow> k \<noteq> None)"

definition private_bundle_reader :: "(bytes, AccountEnvelopeErrorCodeV1, DecodedPrivateBundleV1) eff" where
  "private_bundle_reader =
     bindS (read_u8 NonCanonicalEncoding) (\<lambda>version.
     if version \<noteq> FORMAT_VERSION_V1 then liftS (Inl PrivateBundleInvalid) else
     bindS (read_u8 NonCanonicalEncoding) (\<lambda>raw_state.
     bindS (liftS (bundle_state_from_u8 raw_state)) (\<lambda>state.
     bindS (read_array NonCanonicalEncoding 16) (\<lambda>account.
     bindS (read_u64 NonCanonicalEncoding) (\<lambda>gen.
     bindS (read_array NonCanonicalEncoding 16) (\<lambda>root.
     bindS (read_u64 NonCanonicalEncoding) (\<lambda>root_gen.
     let authority = \<lparr>ba_account_id = account, ba_generation = gen,
           ba_root_installation_id = root, ba_root_authority_generation = root_gen\<rparr> in
     bindS (liftS (map_err (\<lambda>_. PrivateBundleInvalid) (validate_bundle_authority authority))) (\<lambda>_.
     bindS (read_suite PrivateBundleInvalid) (\<lambda>_.
     bindS (read_array NonCanonicalEncoding KEY_BYTES) (\<lambda>hpke_private.
     bindS (read_array NonCanonicalEncoding KEY_BYTES) (\<lambda>hpke_public.
     bindS (read_optional PrivateBundleInvalid KEY_BYTES) (\<lambda>sig_private.
     bindS (read_array NonCanonicalEncoding KEY_BYTES) (\<lambda>sig_public.
     bindS is_finished (\<lambda>finished.
     if \<not> finished \<or> all_zero hpke_private \<or> all_zero hpke_public \<or> all_zero sig_public
        \<or> \<not> state_allows_key state sig_private
     then liftS (Inl PrivateBundleInvalid)
     else returnS \<lparr>db_state = state, db_authority = authority, db_hpke_private_key = hpke_private,
       db_hpke_public_key = hpke_public, db_signature_private_key = sig_private,
       db_signature_public_key = sig_public\<rparr>))))))))))))))"

definition decode_private_bundle :: "bytes \<Rightarrow> AccountEnvelopeErrorCodeV1 + DecodedPrivateBundleV1" where
  "decode_private_bundle input =
     (if length input > PRIVATE_BUNDLE_MAX_BYTES then Inl PrivateBundleInvalid
      else if length input \<noteq> PRIVATE_BUNDLE_ACTIVE_BYTES \<and> length input \<noteq> PRIVATE_BUNDLE_RETIRED_BYTES
      then Inl PrivateBundleInvalid
      else run_reader private_bundle_reader input)"

section \<open>Public bundles\<close>

record PublicBundleTbsV1 =
  tb_account_id :: bytes
  tb_generation :: u64
  tb_hpke_public_key :: bytes
  tb_signature_public_key :: bytes
  tb_activation_kind :: AccountEnvelopeActivationKindV1
  tb_previous_generation :: u64
  tb_reset_reason :: "AccountEnvelopeResetReasonV1 option"

record ParsedPublicBundleV1 =
  px_tbs :: PublicBundleTbsV1
  px_tbs_bytes :: bytes
  px_self_signature :: bytes
  px_transition_signature :: "bytes option"

definition encode_public_bundle_tbs :: "PublicBundleTbsV1 \<Rightarrow> bytes" where
  "encode_public_bundle_tbs t =
     [FORMAT_VERSION_V1] @ tb_account_id t @ be64 (tb_generation t)
       @ be16 HPKE_KEM_ID @ be16 HPKE_KDF_ID @ be16 HPKE_AEAD_ID @ be16 SIGNATURE_SCHEME_ID
       @ tb_hpke_public_key t @ tb_signature_public_key t
       @ [activation_kind_as_u8 (tb_activation_kind t)] @ be64 (tb_previous_generation t)
       @ [case tb_reset_reason t of None \<Rightarrow> 0 | Some r \<Rightarrow> reset_reason_value r]"

definition encode_complete_public_bundle :: "bytes \<Rightarrow> bytes \<Rightarrow> bytes option \<Rightarrow> bytes" where
  "encode_complete_public_bundle tbs self_signature transition =
     tbs @ self_signature @ (case transition of Some s \<Rightarrow> [1] @ s | None \<Rightarrow> [0])"

definition encode_rotation_candidate :: "bytes \<Rightarrow> bytes \<Rightarrow> bytes" where
  "encode_rotation_candidate tbs self_signature = tbs @ self_signature"

definition public_bundle_tbs_reader :: "(bytes, AccountEnvelopeErrorCodeV1, PublicBundleTbsV1) eff" where
  "public_bundle_tbs_reader =
     bindS (read_u8 NonCanonicalEncoding) (\<lambda>version.
     if version \<noteq> FORMAT_VERSION_V1 then liftS (Inl UnsupportedVersion) else
     bindS (read_array NonCanonicalEncoding 16) (\<lambda>account.
     bindS (read_u64 NonCanonicalEncoding) (\<lambda>gen.
     bindS (read_suite NonCanonicalEncoding) (\<lambda>_.
     bindS (read_array NonCanonicalEncoding KEY_BYTES) (\<lambda>hpke_public.
     bindS (read_array NonCanonicalEncoding KEY_BYTES) (\<lambda>sig_public.
     bindS (read_u8 NonCanonicalEncoding) (\<lambda>raw_kind.
     bindS (liftS (activation_kind_from_u8 raw_kind)) (\<lambda>kind.
     bindS (read_u64 NonCanonicalEncoding) (\<lambda>previous.
     bindS (read_u8 NonCanonicalEncoding) (\<lambda>raw_reason.
     bindS is_finished (\<lambda>finished.
     if \<not> finished \<or> \<not> is_canonical_uuid account \<or> gen = 0 \<or> gen > MAX_WEB_SAFE_INTEGER
        \<or> previous > MAX_WEB_SAFE_INTEGER \<or> all_zero hpke_public \<or> all_zero sig_public
     then liftS (Inl NonCanonicalEncoding)
     else
     bindS (liftS (if raw_reason = 0 then Inr None
                   else bindE (reset_reason_new raw_reason) (\<lambda>r. Inr (Some r)))) (\<lambda>reason.
     returnS \<lparr>tb_account_id = account, tb_generation = gen, tb_hpke_public_key = hpke_public,
       tb_signature_public_key = sig_public, tb_activation_kind = kind,
       tb_previous_generation = previous, tb_reset_reason = reason\<rparr>))))))))))))"

definition parse_public_bundle_tbs :: "bytes \<Rightarrow> AccountEnvelopeErrorCodeV1 + PublicBundleTbsV1" where
  "parse_public_bundle_tbs input = run_reader public_bundle_tbs_reader input"

definition validate_bundle_shape ::
  "PublicBundleTbsV1 \<Rightarrow> bool \<Rightarrow> AccountEnvelopeErrorCodeV1 + unit" where
  "validate_bundle_shape t has_transition =
     (let valid = (case tb_activation_kind t of
          Initial \<Rightarrow> tb_generation t = 1 \<and> tb_previous_generation t = 0
            \<and> tb_reset_reason t = None \<and> \<not> has_transition
        | Rotation \<Rightarrow> tb_generation t > 1 \<and> tb_previous_generation t = tb_generation t - 1
            \<and> tb_reset_reason t = None \<and> has_transition
        | ContinuityReset \<Rightarrow> tb_generation t > 1 \<and> tb_previous_generation t = tb_generation t - 1
            \<and> tb_reset_reason t \<noteq> None \<and> \<not> has_transition) in
      if \<not> valid then Inl NonCanonicalEncoding else Inr ())"

definition complete_public_bundle_reader ::
  "(bytes, AccountEnvelopeErrorCodeV1, ParsedPublicBundleV1) eff" where
  "complete_public_bundle_reader =
     bindS (read_array NonCanonicalEncoding PUBLIC_BUNDLE_TBS_BYTES) (\<lambda>tbs_bytes.
     bindS (liftS (parse_public_bundle_tbs tbs_bytes)) (\<lambda>tbs.
     bindS (read_array NonCanonicalEncoding SIGNATURE_BYTES) (\<lambda>self_signature.
     bindS (read_optional NonCanonicalEncoding SIGNATURE_BYTES) (\<lambda>transition.
     bindS is_finished (\<lambda>finished.
     if \<not> finished then liftS (Inl NonCanonicalEncoding) else
     bindS (liftS (validate_bundle_shape tbs (transition \<noteq> None))) (\<lambda>_.
     returnS \<lparr>px_tbs = tbs, px_tbs_bytes = tbs_bytes, px_self_signature = self_signature,
       px_transition_signature = transition\<rparr>))))))"

definition parse_complete_public_bundle ::
  "bytes \<Rightarrow> AccountEnvelopeErrorCodeV1 + ParsedPublicBundleV1" where
  "parse_complete_public_bundle input =
     (if length input > PUBLIC_BUNDLE_MAX_BYTES
         \<or> length input \<noteq> PUBLIC_BUNDLE_NO_TRANSITION_BYTES \<and> length input \<noteq> PUBLIC_BUNDLE_ROTATION_BYTES
      then Inl NonCanonicalEncoding
      else run_reader complete_public_bundle_reader input)"

definition rotation_candidate_reader ::
  "(bytes, AccountEnvelopeErrorCodeV1, ParsedPublicBundleV1) eff" where
  "rotation_candidate_reader =
     bindS (read_array NonCanonicalEncoding PUBLIC_BUNDLE_TBS_BYTES) (\<lambda>tbs_bytes.
     bindS (liftS (parse_public_bundle_tbs tbs_bytes)) (\<lambda>tbs.
     bindS (read_array NonCanonicalEncoding SIGNATURE_BYTES) (\<lambda>self_signature.
     bindS is_finished (\<lambda>finished.
     if \<not> finished \<or> tb_activation_kind tbs \<noteq> Rotation then liftS (Inl NonCanonicalEncoding) else
     bindS (liftS (validate_bundle_shape tbs True)) (\<lambda>_.
     returnS \<lparr>px_tbs = tbs, px_tbs_bytes = tbs_bytes, px_self_signature = self_signature,
       px_transition_signature = None\<rparr>)))))"

definition parse_rotation_candidate ::
  "bytes \<Rightarrow> AccountEnvelopeErrorCodeV1 + ParsedPublicBundleV1" where
  "parse_rotation_candidate input =
     (if length input \<noteq> SELF_SIGNED_CANDIDATE_BYTES then Inl NonCanonicalEncoding
      else run_reader rotation_candidate_reader input)"

section \<open>What the decoders accept\<close>

lemma read_suite_iff [cursor_simps]: "read_suite e s = (Inr u, r) \<longleftrightarrow> s = suite_bytes @ r"
  by (auto simp: read_suite_def cursor_simps suite_bytes_def)

lemma read_optional_iff [cursor_simps]:
  "read_optional e n s = (Inr v, r) \<longleftrightarrow>
     s = (case v of Some x \<Rightarrow> [1] @ x | None \<Rightarrow> [0]) @ r \<and> (\<forall>x. v = Some x \<longrightarrow> length x = n)"
proof (cases v)
  case None
  then show ?thesis by (auto simp: read_optional_def cursor_simps intro!: exI [of _ "0 :: byte"])
next
  case (Some x)
  then show ?thesis by (auto simp: read_optional_def cursor_simps)
qed

lemma read_optional_run [cursor_run]:
  "\<forall>x. v = Some x \<longrightarrow> length x = n \<Longrightarrow>
   read_optional e n ((case v of Some x \<Rightarrow> [1] @ x | None \<Rightarrow> [0]) @ r) = (Inr v, r)"
  "\<forall>x. v = Some x \<longrightarrow> length x = n \<Longrightarrow>
   read_optional e n (case v of Some x \<Rightarrow> [1] @ x | None \<Rightarrow> [0]) = (Inr v, [])"
  by (simp_all add: read_optional_iff)

lemma read_suite_run [cursor_run]:
  "read_suite e (be16 HPKE_KEM_ID @ be16 HPKE_KDF_ID @ be16 HPKE_AEAD_ID @ be16 SIGNATURE_SCHEME_ID @ r)
    = (Inr (), r)"
  by (simp add: read_suite_iff suite_bytes_def)

lemma enum_runs [cursor_run]:
  "bundle_state_from_u8 (bundle_state_as_u8 k) = Inr k"
  "activation_kind_from_u8 (activation_kind_as_u8 a) = Inr a"
  "reset_reason_new (reset_reason_value q) = Inr q"
  by (simp_all add: cursor_simps)

definition bundle_authority_ok :: "AccountEnvelopePrivateBundleAuthorityV1 \<Rightarrow> bool" where
  "bundle_authority_ok a \<longleftrightarrow>
     length (ba_account_id a) = 16 \<and> length (ba_root_installation_id a) = 16 \<and>
     validate_bundle_authority a = Inr ()"

definition private_bundle_ok :: "DecodedPrivateBundleV1 \<Rightarrow> bool" where
  "private_bundle_ok b \<longleftrightarrow>
     bundle_authority_ok (db_authority b) \<and>
     length (db_hpke_private_key b) = 32 \<and> \<not> all_zero (db_hpke_private_key b) \<and>
     length (db_hpke_public_key b) = 32 \<and> \<not> all_zero (db_hpke_public_key b) \<and>
     length (db_signature_public_key b) = 32 \<and> \<not> all_zero (db_signature_public_key b) \<and>
     (\<forall>k. db_signature_private_key b = Some k \<longrightarrow> length k = 32) \<and>
     state_allows_key (db_state b) (db_signature_private_key b)"

lemma length_encode_private_bundle:
  assumes "private_bundle_ok b"
  shows "length (encode_private_bundle b) =
    (case db_state b of ActiveFull \<Rightarrow> PRIVATE_BUNDLE_ACTIVE_BYTES | RetiredDecryptOnly \<Rightarrow> PRIVATE_BUNDLE_RETIRED_BYTES)"
  using assms
  by (auto simp: encode_private_bundle_def private_bundle_ok_def bundle_authority_ok_def
      state_allows_key_def envelope_sizes split: option.splits PrivateBundleStateV1.splits)

lemma private_bundle_reader_iff:
  "private_bundle_reader input = (Inr b, r) \<longleftrightarrow>
     r = [] \<and> private_bundle_ok b \<and> input = encode_private_bundle b"
proof
  assume "private_bundle_reader input = (Inr b, r)"
  then show "r = [] \<and> private_bundle_ok b \<and> input = encode_private_bundle b"
    unfolding private_bundle_reader_def Let_def
    by (simp only: cursor_simps map_err_Inr_iff if_liftS_Inl_iff)
      (auto simp: private_bundle_ok_def bundle_authority_ok_def KEY_BYTES_def
        encode_private_bundle_def suite_bytes_def)
next
  assume "r = [] \<and> private_bundle_ok b \<and> input = encode_private_bundle b"
  then show "private_bundle_reader input = (Inr b, r)"
    by (cases "db_authority b")
      (simp add: private_bundle_reader_def private_bundle_ok_def bundle_authority_ok_def KEY_BYTES_def
        encode_private_bundle_def cursor_run)
qed

lemma decode_private_bundle_Inr_iff:
  "decode_private_bundle input = Inr b \<longleftrightarrow> private_bundle_ok b \<and> input = encode_private_bundle b"
proof -
  have "length (encode_private_bundle b) \<le> PRIVATE_BUNDLE_MAX_BYTES \<and>
      (length (encode_private_bundle b) = PRIVATE_BUNDLE_ACTIVE_BYTES \<or>
       length (encode_private_bundle b) = PRIVATE_BUNDLE_RETIRED_BYTES)" if "private_bundle_ok b"
    using length_encode_private_bundle [OF that]
    by (auto simp: envelope_sizes split: PrivateBundleStateV1.splits)
  then show ?thesis
    by (auto simp: decode_private_bundle_def run_reader_Inr_iff private_bundle_reader_iff)
qed

definition tbs_ok :: "PublicBundleTbsV1 \<Rightarrow> bool" where
  "tbs_ok t \<longleftrightarrow>
     length (tb_account_id t) = 16 \<and> is_canonical_uuid (tb_account_id t) \<and>
     in_web_range (tb_generation t) \<and> tb_previous_generation t \<le> MAX_WEB_SAFE_INTEGER \<and>
     length (tb_hpke_public_key t) = 32 \<and> \<not> all_zero (tb_hpke_public_key t) \<and>
     length (tb_signature_public_key t) = 32 \<and> \<not> all_zero (tb_signature_public_key t)"

lemma length_encode_public_bundle_tbs:
  "tbs_ok t \<Longrightarrow> length (encode_public_bundle_tbs t) = PUBLIC_BUNDLE_TBS_BYTES"
  by (simp add: tbs_ok_def encode_public_bundle_tbs_def envelope_sizes)

lemma reason_read_iff:
  "(if x = 0 then Inr None else bindE (reset_reason_new x) (\<lambda>r. Inr (Some r))) = Inr q \<longleftrightarrow>
     x = (case q of None \<Rightarrow> 0 | Some r \<Rightarrow> reset_reason_value r)"
  by (cases q) (auto simp: bindE_Inr_iff reset_reason_round)

lemma reason_run [cursor_run]:
  "(if (case q of None \<Rightarrow> 0 | Some r \<Rightarrow> reset_reason_value r) = 0 then Inr None
    else bindE (reset_reason_new (case q of None \<Rightarrow> 0 | Some r \<Rightarrow> reset_reason_value r)) (\<lambda>r. Inr (Some r)))
   = Inr q"
  by (simp add: reason_read_iff)

lemma public_bundle_tbs_reader_iff:
  "public_bundle_tbs_reader input = (Inr t, r) \<longleftrightarrow>
     r = [] \<and> tbs_ok t \<and> input = encode_public_bundle_tbs t"
proof
  assume "public_bundle_tbs_reader input = (Inr t, r)"
  then show "r = [] \<and> tbs_ok t \<and> input = encode_public_bundle_tbs t"
    unfolding public_bundle_tbs_reader_def
    by (simp only: cursor_simps if_liftS_Inl_iff reason_read_iff)
      (auto simp: tbs_ok_def in_web_range_def KEY_BYTES_def encode_public_bundle_tbs_def suite_bytes_def)
next
  assume "r = [] \<and> tbs_ok t \<and> input = encode_public_bundle_tbs t"
  then show "public_bundle_tbs_reader input = (Inr t, r)"
    by (simp add: public_bundle_tbs_reader_def tbs_ok_def in_web_range_def KEY_BYTES_def
        encode_public_bundle_tbs_def cursor_run not_less)
qed

lemma parse_public_bundle_tbs_Inr_iff:
  "parse_public_bundle_tbs input = Inr t \<longleftrightarrow> tbs_ok t \<and> input = encode_public_bundle_tbs t"
  by (auto simp: parse_public_bundle_tbs_def run_reader_Inr_iff public_bundle_tbs_reader_iff)

text \<open>A public bundle whose fields, signatures and shape are well formed.\<close>

definition shape_ok :: "PublicBundleTbsV1 \<Rightarrow> bool \<Rightarrow> bool" where
  "shape_ok t has_transition \<longleftrightarrow> validate_bundle_shape t has_transition = Inr ()"

definition parsed_ok :: "ParsedPublicBundleV1 \<Rightarrow> bool" where
  "parsed_ok p \<longleftrightarrow>
     tbs_ok (px_tbs p) \<and> px_tbs_bytes p = encode_public_bundle_tbs (px_tbs p) \<and>
     length (px_self_signature p) = 64"

definition encode_parsed :: "ParsedPublicBundleV1 \<Rightarrow> bytes" where
  "encode_parsed p = encode_complete_public_bundle (px_tbs_bytes p) (px_self_signature p)
     (px_transition_signature p)"

lemma parse_complete_public_bundle_Inr_iff:
  "parse_complete_public_bundle input = Inr p \<longleftrightarrow>
     parsed_ok p \<and> (\<forall>s. px_transition_signature p = Some s \<longrightarrow> length s = 64) \<and>
     shape_ok (px_tbs p) (px_transition_signature p \<noteq> None) \<and> input = encode_parsed p"
proof
  assume "parse_complete_public_bundle input = Inr p"
  then obtain r where "complete_public_bundle_reader input = (Inr p, r)"
    by (auto simp: parse_complete_public_bundle_def run_reader_Inr_iff if_Inl_Inr_iff)
  then show "parsed_ok p \<and> (\<forall>s. px_transition_signature p = Some s \<longrightarrow> length s = 64) \<and>
     shape_ok (px_tbs p) (px_transition_signature p \<noteq> None) \<and> input = encode_parsed p"
    unfolding complete_public_bundle_reader_def
    by (simp only: cursor_simps if_liftS_Inl_iff parse_public_bundle_tbs_Inr_iff)
      (auto simp: parsed_ok_def shape_ok_def encode_parsed_def encode_complete_public_bundle_def
        SIGNATURE_BYTES_def)
next
  assume p: "parsed_ok p \<and> (\<forall>s. px_transition_signature p = Some s \<longrightarrow> length s = 64) \<and>
     shape_ok (px_tbs p) (px_transition_signature p \<noteq> None) \<and> input = encode_parsed p"
  then have tbs: "length (px_tbs_bytes p) = PUBLIC_BUNDLE_TBS_BYTES"
    "parse_public_bundle_tbs (px_tbs_bytes p) = Inr (px_tbs p)"
    using length_encode_public_bundle_tbs [of "px_tbs p"]
    by (simp_all add: parsed_ok_def parse_public_bundle_tbs_Inr_iff)
  have "complete_public_bundle_reader input = (Inr p, [])"
    using p tbs
    by (simp add: complete_public_bundle_reader_def parsed_ok_def shape_ok_def encode_parsed_def
        encode_complete_public_bundle_def SIGNATURE_BYTES_def cursor_run)
  moreover have "length input = PUBLIC_BUNDLE_NO_TRANSITION_BYTES \<or> length input = PUBLIC_BUNDLE_ROTATION_BYTES"
    using p tbs
    by (auto simp: parsed_ok_def encode_parsed_def encode_complete_public_bundle_def envelope_sizes
        split: option.splits)
  ultimately show "parse_complete_public_bundle input = Inr p"
    by (auto simp: parse_complete_public_bundle_def run_reader_Inr_iff envelope_sizes)
qed

lemma parse_rotation_candidate_Inr_iff:
  "parse_rotation_candidate input = Inr p \<longleftrightarrow>
     parsed_ok p \<and> px_transition_signature p = None \<and> tb_activation_kind (px_tbs p) = Rotation \<and>
     shape_ok (px_tbs p) True \<and> input = encode_rotation_candidate (px_tbs_bytes p) (px_self_signature p)"
proof
  assume "parse_rotation_candidate input = Inr p"
  then obtain r where "rotation_candidate_reader input = (Inr p, r)"
    by (auto simp: parse_rotation_candidate_def run_reader_Inr_iff if_Inl_Inr_iff)
  then show "parsed_ok p \<and> px_transition_signature p = None \<and> tb_activation_kind (px_tbs p) = Rotation \<and>
     shape_ok (px_tbs p) True \<and> input = encode_rotation_candidate (px_tbs_bytes p) (px_self_signature p)"
    unfolding rotation_candidate_reader_def
    by (simp only: cursor_simps if_liftS_Inl_iff parse_public_bundle_tbs_Inr_iff)
      (auto simp: parsed_ok_def shape_ok_def encode_rotation_candidate_def SIGNATURE_BYTES_def)
next
  assume p: "parsed_ok p \<and> px_transition_signature p = None \<and> tb_activation_kind (px_tbs p) = Rotation \<and>
     shape_ok (px_tbs p) True \<and> input = encode_rotation_candidate (px_tbs_bytes p) (px_self_signature p)"
  then have tbs: "length (px_tbs_bytes p) = PUBLIC_BUNDLE_TBS_BYTES"
    "parse_public_bundle_tbs (px_tbs_bytes p) = Inr (px_tbs p)"
    using length_encode_public_bundle_tbs [of "px_tbs p"]
    by (simp_all add: parsed_ok_def parse_public_bundle_tbs_Inr_iff)
  have "rotation_candidate_reader input = (Inr p, [])"
    using p tbs
    by (simp add: rotation_candidate_reader_def parsed_ok_def shape_ok_def
        encode_rotation_candidate_def SIGNATURE_BYTES_def cursor_run)
  then show "parse_rotation_candidate input = Inr p"
    using p tbs
    by (auto simp: parse_rotation_candidate_def run_reader_Inr_iff envelope_sizes parsed_ok_def
        encode_rotation_candidate_def)
qed

lemma shape_ok_generation:
  "shape_ok t b \<Longrightarrow> tb_activation_kind t \<noteq> Initial \<Longrightarrow>
   tb_generation t > 1 \<and> tb_previous_generation t = tb_generation t - 1"
  by (auto simp: shape_ok_def validate_bundle_shape_def Let_def
      split: AccountEnvelopeActivationKindV1.splits if_splits)

end
