(* ===== verification/EnvelopeCrypto.thy ===== *)
theory EnvelopeCrypto
  imports EnvelopeCodec
begin

text \<open>
  The cryptography of the account envelope: \<open>rust/src/api/account_envelope/crypto.rs\<close>. The
  provider (\<open>openmls_rust_crypto\<close> and \<open>sha2\<close>) at the fixed suite of the code is the record
  \<open>crypto\<close>; a function that draws randomness takes a number that names the draw. What the code
  relies on is stated for a pair of keys: \<open>signature_pair\<close> and \<open>hpke_pair\<close>.
\<close>

record crypto =
  random_vec :: "nat \<Rightarrow> nat \<Rightarrow> bytes option"
  derive_hpke_keypair :: "bytes \<Rightarrow> (bytes \<times> bytes) option"
  signature_key_gen :: "nat \<Rightarrow> (bytes \<times> bytes) option"
  ed25519_sign :: "bytes \<Rightarrow> bytes \<Rightarrow> bytes option"
  ed25519_verify :: "bytes \<Rightarrow> bytes \<Rightarrow> bytes \<Rightarrow> bool"
  hpke_seal :: "nat \<Rightarrow> bytes \<Rightarrow> bytes \<Rightarrow> bytes \<Rightarrow> bytes \<Rightarrow> (bytes \<times> bytes) option"
  hpke_open :: "bytes \<Rightarrow> bytes \<Rightarrow> bytes \<Rightarrow> bytes \<Rightarrow> bytes \<Rightarrow> bytes option"
  sha256 :: "bytes \<Rightarrow> bytes"

text \<open>A signature made with the private key verifies under the public one and has 64 bytes.\<close>

definition signature_pair :: "crypto \<Rightarrow> bytes \<Rightarrow> bytes \<Rightarrow> bool" where
  "signature_pair K private_key public_key \<longleftrightarrow>
     (\<forall>m. \<exists>s. ed25519_sign K m private_key = Some s \<and> length s = 64 \<and> ed25519_verify K m public_key s)"

text \<open>
  What is sealed to the public key opens with the private one under the same context; an
  encapsulated key of X25519 has 32 bytes and AES-GCM adds a tag of 16 bytes.
\<close>

definition hpke_pair :: "crypto \<Rightarrow> bytes \<Rightarrow> bytes \<Rightarrow> bool" where
  "hpke_pair K private_key public_key \<longleftrightarrow>
     (\<forall>draw info aad pt. \<exists>kem ct. hpke_seal K draw public_key info aad pt = Some (kem, ct) \<and>
        length kem = 32 \<and> length ct = length pt + 16 \<and> hpke_open K kem ct private_key info aad = Some pt)"

section \<open>Domains\<close>

definition BUNDLE_SELF_SIGNATURE_DOMAIN_V1 :: bytes where
  "BUNDLE_SELF_SIGNATURE_DOMAIN_V1 = ascii ''openmls_dart/account-envelope/bundle-self-signature/v1'' @ [0]"
definition BUNDLE_TRANSITION_SIGNATURE_DOMAIN_V1 :: bytes where
  "BUNDLE_TRANSITION_SIGNATURE_DOMAIN_V1 =
     ascii ''openmls_dart/account-envelope/bundle-transition-signature/v1'' @ [0]"
definition BUNDLE_DIGEST_DOMAIN_V1 :: bytes where
  "BUNDLE_DIGEST_DOMAIN_V1 = ascii ''openmls_dart/account-envelope/bundle-digest/v1'' @ [0]"
definition ENVELOPE_SIGNATURE_DOMAIN_V1 :: bytes where
  "ENVELOPE_SIGNATURE_DOMAIN_V1 = ascii ''openmls_dart/account-envelope/envelope-signature/v1'' @ [0]"
definition HPKE_CONTEXT_DOMAIN_V1 :: bytes where
  "HPKE_CONTEXT_DOMAIN_V1 = ascii ''openmls_dart/account-envelope/hpke-context/v1'' @ [0]"
definition KEY_SELF_TEST_INFO_V1 :: bytes where
  "KEY_SELF_TEST_INFO_V1 = ascii ''openmls_dart/account-envelope/key-self-test/v1'' @ [0]"
definition KEY_SELF_TEST_AAD_V1 :: bytes where
  "KEY_SELF_TEST_AAD_V1 = ascii ''account-envelope-key-pair''"
definition KEY_SELF_TEST_PLAINTEXT_V1 :: bytes where
  "KEY_SELF_TEST_PLAINTEXT_V1 = ascii ''ok''"
definition SIGNATURE_TRANSCRIPT_MAX_BYTES :: nat where "SIGNATURE_TRANSCRIPT_MAX_BYTES = 4096"

section \<open>Signatures over a domain and a message\<close>

definition transcript :: "bytes \<Rightarrow> bytes list \<Rightarrow> AccountEnvelopeErrorCodeV1 + bytes" where
  "transcript domain parts =
     bindE (foldE (\<lambda>total part. ok_or (usize_checked_add total (length part)) BoundsExceeded)
       (length domain) parts) (\<lambda>total.
     if total > SIGNATURE_TRANSCRIPT_MAX_BYTES then Inl BoundsExceeded
     else Inr (domain @ concat parts))"

text \<open>\<open>exact_key\<close> and \<open>exact_signature\<close>: the conversion to an array of fixed length.\<close>

definition exact_key :: "bytes \<Rightarrow> AccountEnvelopeErrorCodeV1 + bytes" where
  "exact_key input = (if length input = KEY_BYTES then Inr input else Inl InternalCryptoFailure)"

definition exact_signature :: "bytes \<Rightarrow> AccountEnvelopeErrorCodeV1 + bytes" where
  "exact_signature input =
     (if length input = SIGNATURE_BYTES then Inr input else Inl InternalCryptoFailure)"

definition sign_domain_message ::
  "crypto \<Rightarrow> bytes \<Rightarrow> bytes list \<Rightarrow> bytes \<Rightarrow> AccountEnvelopeErrorCodeV1 + bytes" where
  "sign_domain_message K domain parts private_key =
     bindE (transcript domain parts) (\<lambda>t.
     bindE (ok_or (ed25519_sign K t private_key) InternalCryptoFailure) (\<lambda>signature.
     exact_signature signature))"

definition verify_domain_signature ::
  "crypto \<Rightarrow> bytes \<Rightarrow> bytes list \<Rightarrow> bytes \<Rightarrow> bytes \<Rightarrow> AccountEnvelopeErrorCodeV1 + unit" where
  "verify_domain_signature K domain parts public_key signature =
     bindE (transcript domain parts) (\<lambda>t.
     require (ed25519_verify K t public_key signature) SignatureInvalid)"

section \<open>Key bundles\<close>

definition validate_private_bundle_crypto ::
  "crypto \<Rightarrow> nat \<Rightarrow> DecodedPrivateBundleV1 \<Rightarrow> AccountEnvelopeErrorCodeV1 + unit" where
  "validate_private_bundle_crypto K draw b =
     bindE (case db_signature_private_key b of
         None \<Rightarrow> Inr ()
       | Some private_key \<Rightarrow>
           bindE (ok_or (ed25519_sign K KEY_SELF_TEST_INFO_V1 private_key) PrivateBundleInvalid) (\<lambda>signature.
           require (ed25519_verify K KEY_SELF_TEST_INFO_V1 (db_signature_public_key b) signature)
             PrivateBundleInvalid)) (\<lambda>_.
     bindE (ok_or (hpke_seal K draw (db_hpke_public_key b) KEY_SELF_TEST_INFO_V1 KEY_SELF_TEST_AAD_V1
       KEY_SELF_TEST_PLAINTEXT_V1) PrivateBundleInvalid) (\<lambda>(kem, ct).
     bindE (ok_or (hpke_open K kem ct (db_hpke_private_key b) KEY_SELF_TEST_INFO_V1 KEY_SELF_TEST_AAD_V1)
       PrivateBundleInvalid) (\<lambda>opened.
     if opened \<noteq> KEY_SELF_TEST_PLAINTEXT_V1 then Inl PrivateBundleInvalid else Inr ())))"

definition generate_private_bundle ::
  "crypto \<Rightarrow> nat \<Rightarrow> AccountEnvelopePrivateBundleAuthorityV1
    \<Rightarrow> AccountEnvelopeErrorCodeV1 + DecodedPrivateBundleV1" where
  "generate_private_bundle K draw authority =
     bindE (ok_or (random_vec K draw KEY_BYTES) InternalCryptoFailure) (\<lambda>ikm.
     bindE (ok_or (derive_hpke_keypair K ikm) InternalCryptoFailure) (\<lambda>(hpke_private, hpke_public).
     bindE (ok_or (signature_key_gen K (draw + 1)) InternalCryptoFailure) (\<lambda>(sig_private, sig_public).
     bindE (exact_key hpke_private) (\<lambda>hpke_private_key.
     bindE (exact_key hpke_public) (\<lambda>hpke_public_key.
     bindE (exact_key sig_private) (\<lambda>sig_private_key.
     bindE (exact_key sig_public) (\<lambda>sig_public_key.
     let bundle = \<lparr>db_state = ActiveFull, db_authority = authority,
           db_hpke_private_key = hpke_private_key, db_hpke_public_key = hpke_public_key,
           db_signature_private_key = Some sig_private_key, db_signature_public_key = sig_public_key\<rparr> in
     bindE (validate_private_bundle_crypto K (draw + 2) bundle) (\<lambda>_. Inr bundle))))))))"

section \<open>Invitations\<close>

definition hpke_seal_invitation ::
  "crypto \<Rightarrow> nat \<Rightarrow> bytes \<Rightarrow> bytes \<Rightarrow> bytes \<Rightarrow> AccountEnvelopeErrorCodeV1 + bytes \<times> bytes" where
  "hpke_seal_invitation K draw recipient_public_key header plaintext =
     bindE (ok_or (hpke_seal K draw recipient_public_key HPKE_CONTEXT_DOMAIN_V1 header plaintext)
       InternalCryptoFailure) (\<lambda>(kem, ct).
     bindE (exact_key kem) (\<lambda>encapsulation. Inr (encapsulation, ct)))"

definition hpke_open_invitation ::
  "crypto \<Rightarrow> bytes \<Rightarrow> bytes \<Rightarrow> bytes \<Rightarrow> bytes \<Rightarrow> AccountEnvelopeErrorCodeV1 + bytes" where
  "hpke_open_invitation K recipient_private_key header encapsulation ciphertext =
     ok_or (hpke_open K encapsulation ciphertext recipient_private_key HPKE_CONTEXT_DOMAIN_V1 header)
       HpkeOpenFailed"

section \<open>Laws\<close>

lemma transcript_fold:
  "foldE (\<lambda>total part. ok_or (usize_checked_add total (length part)) BoundsExceeded) n parts = Inr m
    \<longleftrightarrow> m = n + length (concat parts) \<and> (parts = [] \<or> m < 2 ^ 64)"
proof (induction parts arbitrary: n)
  case (Cons part parts)
  have "foldE (\<lambda>total part. ok_or (usize_checked_add total (length part)) BoundsExceeded) n (part # parts) = Inr m
      \<longleftrightarrow> n + length part < 2 ^ 64 \<and> m = n + length part + length (concat parts) \<and> (parts = [] \<or> m < 2 ^ 64)"
    unfolding foldE.simps bindE_Inr_iff ok_or_Inr_iff usize_checked_add_Some_iff
    by (simp add: Cons)
  also have "\<dots> \<longleftrightarrow> m = n + length (concat (part # parts)) \<and> (part # parts = [] \<or> m < 2 ^ 64)"
    by (cases parts) auto
  finally show ?case .
qed auto

lemma transcript_Inr_iff:
  "transcript domain parts = Inr t \<longleftrightarrow>
     t = domain @ concat parts \<and> length domain + length (concat parts) \<le> SIGNATURE_TRANSCRIPT_MAX_BYTES"
  by (auto simp: transcript_def bindE_Inr_iff if_Inl_Inr_iff transcript_fold SIGNATURE_TRANSCRIPT_MAX_BYTES_def)

lemma verify_domain_signature_Inr_iff:
  "verify_domain_signature K domain parts public_key signature = Inr u \<longleftrightarrow>
     length domain + length (concat parts) \<le> SIGNATURE_TRANSCRIPT_MAX_BYTES \<and>
     ed25519_verify K (domain @ concat parts) public_key signature"
  by (auto simp: verify_domain_signature_def bindE_Inr_iff transcript_Inr_iff require_Inr_iff)

lemma sign_domain_message_Inr_iff:
  "sign_domain_message K domain parts private_key = Inr s \<longleftrightarrow>
     length domain + length (concat parts) \<le> SIGNATURE_TRANSCRIPT_MAX_BYTES \<and>
     ed25519_sign K (domain @ concat parts) private_key = Some s \<and> length s = 64"
  by (auto simp: sign_domain_message_def bindE_Inr_iff transcript_Inr_iff ok_or_Inr_iff
      exact_signature_def SIGNATURE_BYTES_def)

lemma sign_with_pair:
  assumes "signature_pair K private_key public_key"
    and "length domain + length (concat parts) \<le> SIGNATURE_TRANSCRIPT_MAX_BYTES"
  obtains s where "sign_domain_message K domain parts private_key = Inr s" "length s = 64"
    "verify_domain_signature K domain parts public_key s = Inr ()"
    "ed25519_verify K (domain @ concat parts) public_key s"
  using assms unfolding signature_pair_def sign_domain_message_Inr_iff verify_domain_signature_Inr_iff
  by blast

text \<open>
  The domains end at their first zero byte, so that no domain is a prefix of another one and a
  transcript determines its domain and its message.
\<close>

definition domains :: "bytes list" where
  "domains = [BUNDLE_SELF_SIGNATURE_DOMAIN_V1, BUNDLE_TRANSITION_SIGNATURE_DOMAIN_V1,
     BUNDLE_DIGEST_DOMAIN_V1, ENVELOPE_SIGNATURE_DOMAIN_V1, KEY_SELF_TEST_INFO_V1]"

definition zero_terminated :: "bytes \<Rightarrow> bool" where
  "zero_terminated d \<longleftrightarrow> (\<exists>p. d = p @ [0] \<and> 0 \<notin> set p)"

lemma zero_terminated_append_inj:
  assumes "zero_terminated d" "zero_terminated e" "d @ x = e @ y"
  shows "d = e \<and> x = y"
proof -
  from assms obtain p q where p: "d = p @ [0]" "0 \<notin> set p" and q: "e = q @ [0]" "0 \<notin> set q"
    by (auto simp: zero_terminated_def)
  have tw: "takeWhile (\<lambda>b. b \<noteq> 0) (v @ 0 # w) = v" if "0 \<notin> set v" for v w :: bytes
    using that by (induction v) auto
  have "p = q" using assms(3) tw [OF p(2), of x] tw [OF q(2), of y] by (simp add: p q)
  with assms(3) show ?thesis by (simp add: p q)
qed

lemma domains_zero_terminated: "\<forall>d \<in> set domains. zero_terminated d"
proof -
  have a: "zero_terminated d" if "d \<noteq> []" "last d = 0" "0 \<notin> set (butlast d)" for d
    using that by (metis zero_terminated_def append_butlast_last_id)
  show ?thesis
    unfolding domains_def
    by (simp add: BUNDLE_SELF_SIGNATURE_DOMAIN_V1_def BUNDLE_TRANSITION_SIGNATURE_DOMAIN_V1_def
        BUNDLE_DIGEST_DOMAIN_V1_def ENVELOPE_SIGNATURE_DOMAIN_V1_def KEY_SELF_TEST_INFO_V1_def ascii_def a)
qed

lemma domain_lengths:
  "length BUNDLE_SELF_SIGNATURE_DOMAIN_V1 = 55" "length BUNDLE_TRANSITION_SIGNATURE_DOMAIN_V1 = 61"
  "length ENVELOPE_SIGNATURE_DOMAIN_V1 = 52"
  by (simp_all add: BUNDLE_SELF_SIGNATURE_DOMAIN_V1_def BUNDLE_TRANSITION_SIGNATURE_DOMAIN_V1_def
      ENVELOPE_SIGNATURE_DOMAIN_V1_def ascii_def)

lemma transcripts_separate:
  assumes "transcript d parts = Inr t" "transcript e parts' = Inr t"
    and "d \<in> set domains" "e \<in> set domains"
  shows "d = e \<and> concat parts = concat parts'"
  using zero_terminated_append_inj [of d e "concat parts" "concat parts'"] assms domains_zero_terminated
  by (auto simp: transcript_Inr_iff)

end
