(* ===== verification/EnvelopeText.thy ===== *)
theory EnvelopeText
  imports EnvelopeTypes CaseFoldTable
begin

text \<open>
  Text of the invitation preview: \<open>rust/src/api/account_envelope/invitation.rs\<close>, the functions on
  strings, with the UTF-8 coding and the binary search of the Rust standard library that they
  use. A string is the list of its code points. The crate \<open>unicode_normalization\<close> is the record
  \<open>unicode\<close>: its composition \<open>nfc\<close> and its quick check \<open>is_nfc_quick\<close>.
\<close>

section \<open>UTF-8\<close>

definition is_scalar :: "nat \<Rightarrow> bool" where
  "is_scalar c \<longleftrightarrow> c < 0xD800 \<or> 0xDFFF < c \<and> c < 0x110000"

definition utf8_char :: "nat \<Rightarrow> bytes" where
  "utf8_char c = map of_nat
     (if c < 0x80 then [c]
      else if c < 0x800 then [0xC0 + c div 64, 0x80 + c mod 64]
      else if c < 0x10000 then [0xE0 + c div 64 div 64, 0x80 + c div 64 mod 64, 0x80 + c mod 64]
      else [0xF0 + c div 64 div 64 div 64, 0x80 + c div 64 div 64 mod 64, 0x80 + c div 64 mod 64,
            0x80 + c mod 64])"

definition utf8 :: "utext \<Rightarrow> bytes" where
  "utf8 t = concat (map utf8_char t)"

text \<open>
  The next character, as the validation of the standard library reads it: the lead byte gives
  the width and the range of the second byte, which excludes overlong forms, surrogates and
  values beyond the last code point.
\<close>

definition continuation :: "nat \<Rightarrow> nat \<Rightarrow> nat \<times> bytes \<Rightarrow> (nat \<times> bytes) option" where
  "continuation lo hi = (\<lambda>(acc, s). case s of
       [] \<Rightarrow> None
     | b # r \<Rightarrow> if lo \<le> unat b \<and> unat b \<le> hi then Some (acc * 64 + (unat b - 0x80), r) else None)"

definition utf8_next :: "bytes \<Rightarrow> (nat \<times> bytes) option" where
  "utf8_next s = (case s of [] \<Rightarrow> None | b # r \<Rightarrow>
     (let x = unat b; tail = continuation 0x80 0xBF in
      if x < 0x80 then Some (x, r)
      else if x < 0xC2 then None
      else if x < 0xE0 then tail (x - 0xC0, r)
      else if x < 0xF0 then
        Option.bind (continuation (if x = 0xE0 then 0xA0 else 0x80) (if x = 0xED then 0x9F else 0xBF)
          (x - 0xE0, r)) tail
      else if x < 0xF5 then
        Option.bind (Option.bind (continuation (if x = 0xF0 then 0x90 else 0x80)
          (if x = 0xF4 then 0x8F else 0xBF) (x - 0xF0, r)) tail) tail
      else None))"

lemma unat_of_nat_byte: "n < 256 \<Longrightarrow> unat (of_nat n :: byte) = n"
  by (simp add: unat_of_nat take_bit_nat_eq_self)

lemma continuation_Some_iff:
  assumes "0x80 \<le> lo" "hi \<le> 0xBF"
  shows "continuation lo hi (acc, s) = Some (c, r) \<longleftrightarrow>
    c div 64 = acc \<and> lo \<le> 0x80 + c mod 64 \<and> 0x80 + c mod 64 \<le> hi \<and> s = of_nat (0x80 + c mod 64) # r"
proof
  assume "continuation lo hi (acc, s) = Some (c, r)"
  then obtain b where s: "s = b # r" and b: "lo \<le> unat b" "unat b \<le> hi"
    and c: "c = acc * 64 + (unat b - 0x80)"
    by (auto simp: continuation_def split: list.splits if_splits)
  have "unat b - 0x80 < 64" using b assms by linarith
  then have "c div 64 = acc" and m: "c mod 64 = unat b - 0x80"
    by (simp_all add: c)
  moreover have "0x80 + c mod 64 = unat b" using b assms by (simp add: m)
  moreover have "of_nat (0x80 + c mod 64) = b"
    by (simp only: \<open>0x80 + c mod 64 = unat b\<close>) simp
  ultimately show "c div 64 = acc \<and> lo \<le> 0x80 + c mod 64 \<and> 0x80 + c mod 64 \<le> hi \<and>
      s = of_nat (0x80 + c mod 64) # r"
    using b s by simp
next
  assume c: "c div 64 = acc \<and> lo \<le> 0x80 + c mod 64 \<and> 0x80 + c mod 64 \<le> hi \<and>
      s = of_nat (0x80 + c mod 64) # r"
  have "unat (of_nat (0x80 + c mod 64) :: byte) = 0x80 + c mod 64"
    by (rule unat_of_nat_byte) (use mod_less_divisor [of 64 c] in linarith)
  then show "continuation lo hi (acc, s) = Some (c, r)"
    using c by (auto simp: continuation_def)
qed

lemma utf8_next_Cons:
  fixes b :: byte
  defines "x \<equiv> unat b"
  shows "utf8_next (b # s) = Some (c, r) \<longleftrightarrow>
     x < 0x80 \<and> c = x \<and> r = s
   \<or> 0xC2 \<le> x \<and> x < 0xE0 \<and> c div 64 = x - 0xC0 \<and> s = [of_nat (0x80 + c mod 64)] @ r
   \<or> 0xE0 \<le> x \<and> x < 0xF0 \<and> c div 64 div 64 = x - 0xE0
       \<and> (x = 0xE0 \<longrightarrow> 0x20 \<le> c div 64 mod 64) \<and> (x = 0xED \<longrightarrow> c div 64 mod 64 \<le> 0x1F)
       \<and> s = [of_nat (0x80 + c div 64 mod 64), of_nat (0x80 + c mod 64)] @ r
   \<or> 0xF0 \<le> x \<and> x < 0xF5 \<and> c div 64 div 64 div 64 = x - 0xF0
       \<and> (x = 0xF0 \<longrightarrow> 0x10 \<le> c div 64 div 64 mod 64) \<and> (x = 0xF4 \<longrightarrow> c div 64 div 64 mod 64 \<le> 0x0F)
       \<and> s = [of_nat (0x80 + c div 64 div 64 mod 64), of_nat (0x80 + c div 64 mod 64),
              of_nat (0x80 + c mod 64)] @ r"
proof -
  have le: "0x80 + n mod 64 \<le> (0xBF :: nat)" for n :: nat
    using mod_less_divisor [of 64 n] by linarith
  have le63: "n mod 64 \<le> (63 :: nat)" for n :: nat
    using mod_less_divisor [of 64 n] by linarith
  consider "x < 0x80" | "0x80 \<le> x" "x < 0xC2" | "0xC2 \<le> x" "x < 0xE0" | "0xE0 \<le> x" "x < 0xF0"
    | "0xF0 \<le> x" "x < 0xF5" | "0xF5 \<le> x" by linarith
  then show ?thesis
  proof cases
    case 4
    define lo hi where "lo = (if x = 0xE0 then 0xA0 else 0x80 :: nat)"
      and "hi = (if x = 0xED then 0x9F else 0xBF :: nat)"
    have "0x80 \<le> lo" "hi \<le> 0xBF" by (auto simp: lo_def hi_def)
    note cs = continuation_Some_iff [OF this]
    show ?thesis
      using 4 unfolding utf8_next_def
      by (auto simp: Let_def x_def [symmetric] lo_def [symmetric] hi_def [symmetric] bind_eq_Some_conv cs
          continuation_Some_iff le) (auto simp: lo_def hi_def le63 split: if_splits)
  next
    case 5
    define lo hi where "lo = (if x = 0xF0 then 0x90 else 0x80 :: nat)"
      and "hi = (if x = 0xF4 then 0x8F else 0xBF :: nat)"
    have "0x80 \<le> lo" "hi \<le> 0xBF" by (auto simp: lo_def hi_def)
    note cs = continuation_Some_iff [OF this]
    show ?thesis
      using 5 unfolding utf8_next_def
      by (auto simp: Let_def x_def [symmetric] lo_def [symmetric] hi_def [symmetric] bind_eq_Some_conv cs
          continuation_Some_iff le) (auto simp: lo_def hi_def le63 split: if_splits)
  qed (auto simp: utf8_next_def Let_def x_def [symmetric] continuation_Some_iff le)
qed

lemma utf8_next_Some_iff: "utf8_next s = Some (c, r) \<longleftrightarrow> is_scalar c \<and> s = utf8_char c @ r"
proof
  assume n: "utf8_next s = Some (c, r)"
  then obtain b q where s: "s = b # q" by (cases s) (auto simp: utf8_next_def)
  have lead: "b = of_nat (unat b)" by simp
  define d where "d = c div 64"
  define e where "e = d div 64"
  have cd: "c = 64 * d + c mod 64" and de: "d = 64 * e + d mod 64" and ef: "e = 64 * (e div 64) + e mod 64"
    by (simp_all add: d_def e_def)
  have m: "c mod 64 < 64" "d mod 64 < 64" "e mod 64 < 64" by simp_all
  from n [unfolded s utf8_next_Cons] consider
      "unat b < 0x80" "c = unat b" "r = q"
    | "0xC2 \<le> unat b" "unat b < 0xE0" "d = unat b - 0xC0" "q = [of_nat (0x80 + c mod 64)] @ r"
    | "0xE0 \<le> unat b" "unat b < 0xF0" "e = unat b - 0xE0" "unat b = 0xE0 \<longrightarrow> 0x20 \<le> d mod 64"
      "unat b = 0xED \<longrightarrow> d mod 64 \<le> 0x1F" "q = [of_nat (0x80 + d mod 64), of_nat (0x80 + c mod 64)] @ r"
    | "0xF0 \<le> unat b" "unat b < 0xF5" "e div 64 = unat b - 0xF0" "unat b = 0xF0 \<longrightarrow> 0x10 \<le> e mod 64"
      "unat b = 0xF4 \<longrightarrow> e mod 64 \<le> 0x0F"
      "q = [of_nat (0x80 + e mod 64), of_nat (0x80 + d mod 64), of_nat (0x80 + c mod 64)] @ r"
    unfolding d_def e_def by blast
  then show "is_scalar c \<and> s = utf8_char c @ r"
  proof cases
    case 1
    then show ?thesis by (simp add: is_scalar_def utf8_char_def s)
  next
    case 2
    then have c: "0x80 \<le> c" "c < 0x800" using cd m by linarith+
    have "0xC0 + d = unat b" using 2 by simp
    then have "of_nat (0xC0 + d) = b" using lead by metis
    with 2 c show ?thesis by (simp add: is_scalar_def utf8_char_def s flip: d_def)
  next
    case 3
    then have c: "0x800 \<le> c" "c < 0x10000" using cd de m by linarith+
    have "e < 0xD \<or> e = 0xD \<and> d mod 64 \<le> 0x1F \<or> 0xD < e \<and> e < 0x10" using 3 by auto
    then have sc: "is_scalar c" unfolding is_scalar_def using cd de m by (elim disjE) linarith+
    have "0xE0 + e = unat b" using 3 by simp
    then have "of_nat (0xE0 + e) = b" using lead by metis
    with 3 c sc show ?thesis by (simp add: utf8_char_def s flip: d_def e_def)
  next
    case 4
    then have c: "0x10000 \<le> c" using cd de ef m by linarith
    have "e div 64 < 4 \<or> e div 64 = 4 \<and> e mod 64 \<le> 0x0F" using 4 by auto
    then have "c < 0x110000" using cd de ef m by (elim disjE) linarith+
    with c have sc: "is_scalar c" by (simp add: is_scalar_def)
    have "0xF0 + e div 64 = unat b" using 4 by simp
    then have "of_nat (0xF0 + e div 64) = b" using lead by metis
    with 4 c sc show ?thesis by (simp add: utf8_char_def s flip: d_def e_def)
  qed
next
  assume c: "is_scalar c \<and> s = utf8_char c @ r"
  define d where "d = c div 64"
  define e where "e = d div 64"
  have cd: "c = 64 * d + c mod 64" and de: "d = 64 * e + d mod 64" and ef: "e = 64 * (e div 64) + e mod 64"
    by (simp_all add: d_def e_def)
  have m: "c mod 64 < 64" "d mod 64 < 64" "e mod 64 < 64" by simp_all
  consider "c < 0x80" | "0x80 \<le> c" "c < 0x800" | "0x800 \<le> c" "c < 0x10000" | "0x10000 \<le> c" by linarith
  then show "utf8_next s = Some (c, r)"
  proof cases
    case 1
    then have "unat (of_nat c :: byte) = c" by (simp add: unat_of_nat_byte)
    with 1 c show ?thesis by (simp add: utf8_char_def utf8_next_Cons)
  next
    case 2
    then have d: "2 \<le> d" "d < 0x20" using cd m by linarith+
    then have "unat (of_nat (0xC0 + d) :: byte) = 0xC0 + d" by (intro unat_of_nat_byte) simp
    with 2 c d show ?thesis by (simp add: utf8_char_def utf8_next_Cons flip: d_def)
  next
    case 3
    then have e: "e < 0x10" "e = 0 \<longrightarrow> 0x20 \<le> d mod 64" "e = 0xD \<longrightarrow> d mod 64 \<le> 0x1F"
      using cd de m c [unfolded is_scalar_def] by linarith+
    then have "unat (of_nat (0xE0 + e) :: byte) = 0xE0 + e" by (intro unat_of_nat_byte) simp
    with 3 c e show ?thesis by (simp add: utf8_char_def utf8_next_Cons flip: d_def e_def)
  next
    case 4
    then have "c < 0x110000" using c by (auto simp: is_scalar_def)
    then have f: "e div 64 < 5" "e div 64 = 0 \<longrightarrow> 0x10 \<le> e mod 64" "e div 64 = 4 \<longrightarrow> e mod 64 \<le> 0x0F"
      using cd de ef m 4 by linarith+
    then have "unat (of_nat (0xF0 + e div 64) :: byte) = 0xF0 + e div 64"
      by (intro unat_of_nat_byte) simp
    with 4 c f show ?thesis by (simp add: utf8_char_def utf8_next_Cons flip: d_def e_def)
  qed
qed

text \<open>\<open>std::str::from_utf8\<close>: every character is at least one byte, so the loop ends.\<close>

lemma utf8_char_not_Nil [simp]: "utf8_char c \<noteq> []"
  by (simp add: utf8_char_def)

function utf8_decode :: "bytes \<Rightarrow> utext option" where
  "utf8_decode s = (if s = [] then Some [] else case utf8_next s of
       None \<Rightarrow> None
     | Some (c, r) \<Rightarrow> map_option ((#) c) (utf8_decode r))"
  by auto
termination
  by (relation "measure length") (auto simp: utf8_next_Some_iff)

declare utf8_decode.simps [simp del]

definition text_ok :: "utext \<Rightarrow> bool" where
  "text_ok t \<longleftrightarrow> (\<forall>c \<in> set t. is_scalar c)"

lemma text_ok_simps [simp]:
  "text_ok []" "text_ok (c # t) \<longleftrightarrow> is_scalar c \<and> text_ok t" "text_ok (t @ u) \<longleftrightarrow> text_ok t \<and> text_ok u"
  "text_ok (rev t) \<longleftrightarrow> text_ok t"
  by (auto simp: text_ok_def)

lemma utf8_simps [simp]: "utf8 [] = []" "utf8 (c # t) = utf8_char c @ utf8 t"
  by (simp_all add: utf8_def)

lemma utf8_eq_Nil_iff [simp]: "utf8 t = [] \<longleftrightarrow> t = []"
  by (cases t) simp_all

lemma utf8_decode_Some_iff: "utf8_decode s = Some t \<longleftrightarrow> text_ok t \<and> s = utf8 t"
proof
  show "utf8_decode s = Some t \<Longrightarrow> text_ok t \<and> s = utf8 t"
  proof (induction s arbitrary: t rule: utf8_decode.induct)
    case (1 s)
    show ?case
    proof (cases "s = []")
      case True
      with 1 show ?thesis by (simp add: utf8_decode.simps)
    next
      case False
      with 1(2) obtain c r u where n: "utf8_next s = Some (c, r)" and u: "utf8_decode r = Some u"
        and t: "t = c # u"
        by (auto simp: utf8_decode.simps [of s] split: option.splits)
      from 1(1) [OF False n refl u] n show ?thesis
        by (simp add: t utf8_next_Some_iff)
    qed
  qed
next
  show "text_ok t \<and> s = utf8 t \<Longrightarrow> utf8_decode s = Some t"
  proof (induction t arbitrary: s)
    case Nil
    then show ?case by (simp add: utf8_decode.simps)
  next
    case (Cons c t)
    then have "utf8_next s = Some (c, utf8 t)" "utf8_decode (utf8 t) = Some t" "s \<noteq> []"
      by (auto simp: utf8_next_Some_iff)
    then show ?case by (simp add: utf8_decode.simps [of s])
  qed
qed

lemma utf8_decode_utf8 [simp]: "text_ok t \<Longrightarrow> utf8_decode (utf8 t) = Some t"
  by (simp add: utf8_decode_Some_iff)

section \<open>White space\<close>

definition is_unicode_17_white_space :: "nat \<Rightarrow> bool" where
  "is_unicode_17_white_space c \<longleftrightarrow>
     0x9 \<le> c \<and> c \<le> 0xD \<or> c = 0x20 \<or> c = 0x85 \<or> c = 0xA0 \<or> c = 0x1680
   \<or> 0x2000 \<le> c \<and> c \<le> 0x200A \<or> c = 0x2028 \<or> c = 0x2029 \<or> c = 0x202F \<or> c = 0x205F \<or> c = 0x3000"

definition trim_matches :: "(nat \<Rightarrow> bool) \<Rightarrow> utext \<Rightarrow> utext" where
  "trim_matches p t = rev (dropWhile p (rev (dropWhile p t)))"

definition untrimmed :: "utext \<Rightarrow> bool" where
  "untrimmed t \<longleftrightarrow> is_unicode_17_white_space (hd t) \<or> is_unicode_17_white_space (last t)"

lemma text_ok_trim: "text_ok t \<Longrightarrow> text_ok (trim_matches p t)"
  by (auto simp: trim_matches_def text_ok_def dest!: set_dropWhileD)

lemma trim_ends:
  assumes "trim_matches p t \<noteq> []"
  shows "\<not> p (hd (trim_matches p t)) \<and> \<not> p (last (trim_matches p t))"
proof -
  let ?d = "dropWhile p t"
  let ?r = "dropWhile p (rev ?d)"
  have r: "?r \<noteq> []" using assms by (simp add: trim_matches_def)
  then have "\<not> p (hd ?r)" by (rule hd_dropWhile)
  moreover have "?d \<noteq> []" using r by (metis dropWhile.simps(1) rev.simps(1))
  then have "\<not> p (hd ?d)" by (rule hd_dropWhile)
  moreover have "last ?r = hd ?d"
  proof -
    have "rev ?d = takeWhile p (rev ?d) @ ?r" by simp
    then have "last (rev ?d) = last ?r" using r by (metis last_appendR)
    then show ?thesis using \<open>?d \<noteq> []\<close> by (simp add: last_rev)
  qed
  ultimately show ?thesis using r by (simp add: trim_matches_def hd_rev last_rev)
qed

section \<open>Normalization\<close>

datatype IsNormalized = Yes | No | Maybe

record unicode =
  nfc :: "utext \<Rightarrow> utext"
  is_nfc_quick :: "utext \<Rightarrow> IsNormalized"

definition normalize_bounded_text ::
  "unicode \<Rightarrow> utext \<Rightarrow> nat \<Rightarrow> nat \<Rightarrow> AccountEnvelopeErrorCodeV1 + utext" where
  "normalize_bounded_text U input max_code_points max_bytes =
     (let trimmed = trim_matches is_unicode_17_white_space input in
      if trimmed = [] then Inl PlaintextSchemaInvalid
      else
        let normalized = nfc U trimmed in
        if length (utf8 normalized) > max_bytes \<or> length normalized > max_code_points
        then Inl BoundsExceeded else Inr normalized)"

definition canonical_str :: "unicode \<Rightarrow> bytes \<Rightarrow> AccountEnvelopeErrorCodeV1 + utext" where
  "canonical_str U input =
     bindE (ok_or (utf8_decode input) PlaintextSchemaInvalid) (\<lambda>value.
     if value = [] \<or> is_unicode_17_white_space (hd value) \<or> is_unicode_17_white_space (last value)
        \<or> is_nfc_quick U value \<noteq> Yes
     then Inl PlaintextSchemaInvalid else Inr value)"

text \<open>What a decoder accepts as the text of a field.\<close>

definition canonical_text :: "unicode \<Rightarrow> utext \<Rightarrow> bool" where
  "canonical_text U t \<longleftrightarrow> text_ok t \<and> t \<noteq> [] \<and> \<not> untrimmed t \<and> is_nfc_quick U t = Yes"

lemma canonical_str_Inr_iff:
  "canonical_str U input = Inr t \<longleftrightarrow> canonical_text U t \<and> input = utf8 t"
  by (auto simp: canonical_str_def canonical_text_def untrimmed_def result_simps utf8_decode_Some_iff)

section \<open>Case folding\<close>

text \<open>
  \<open>slice::binary_search_by_key\<close>: a window of the slice that is halved until one element is
  left; \<open>Err\<close> is \<open>None\<close>, since the code does not use the insertion point.
\<close>

function search_window :: "('k::linorder \<times> 'v) list \<Rightarrow> 'k \<Rightarrow> nat \<Rightarrow> nat \<Rightarrow> nat" where
  "search_window xs key base n =
     (if n \<le> 1 then base
      else
        let half = n div 2; mid = base + half in
        search_window xs key (if key < fst (xs ! mid) then base else mid) (n - half))"
  by auto
termination
  by (relation "measure (\<lambda>(_, _, _, n). n)") auto

declare search_window.simps [simp del]

definition binary_search_by_key :: "('k::linorder \<times> 'v) list \<Rightarrow> 'k \<Rightarrow> nat option" where
  "binary_search_by_key xs key =
     (if xs = [] then None
      else
        let base = search_window xs key 0 (length xs) in
        if fst (xs ! base) = key then Some base else None)"

definition default_case_fold :: "utext \<Rightarrow> utext" where
  "default_case_fold input = concat (map (\<lambda>c.
     case binary_search_by_key FULL_DEFAULT_CASE_FOLD c of
       Some i \<Rightarrow> snd (FULL_DEFAULT_CASE_FOLD ! i)
     | None \<Rightarrow> [c]) input)"

definition reject_folded_duplicate_refs :: "utext list \<Rightarrow> AccountEnvelopeErrorCodeV1 + unit" where
  "reject_folded_duplicate_refs values =
     bindE (foldE (\<lambda>folded v.
       let candidate = default_case_fold v in
       if list_ex (\<lambda>existing. existing = candidate) folded then Inl PlaintextSchemaInvalid
       else Inr (folded @ [candidate])) [] values) (\<lambda>_. Inr ())"

definition reject_folded_duplicates :: "utext list \<Rightarrow> AccountEnvelopeErrorCodeV1 + unit" where
  "reject_folded_duplicates values = reject_folded_duplicate_refs values"

text \<open>On strictly ascending keys the search finds exactly what a lookup finds.\<close>

definition ascending :: "('k::linorder \<times> 'v) list \<Rightarrow> bool" where
  "ascending xs \<longleftrightarrow> sorted_wrt (<) (map fst xs)"

lemma ascending_less:
  assumes "ascending xs" "i < length xs" "j < length xs"
  shows "fst (xs ! i) < fst (xs ! j) \<longleftrightarrow> i < j"
proof -
  have *: "a < b \<Longrightarrow> b < length xs \<Longrightarrow> fst (xs ! a) < fst (xs ! b)" for a b
    using assms(1) sorted_wrt_nth_less [of "(<)" "map fst xs" a b] by (simp add: ascending_def)
  show ?thesis
    using * [of i j] * [of j i] assms(2,3) by (metis less_asym linorder_neqE_nat order_less_irrefl)
qed

lemma search_window_finds:
  assumes asc: "ascending xs" and i: "i < length xs"
  shows "base \<le> i \<Longrightarrow> i < base + n \<Longrightarrow> base + n \<le> length xs \<Longrightarrow>
    search_window xs (fst (xs ! i)) base n = i"
proof (induction n arbitrary: base rule: less_induct)
  case (less n)
  show ?case
  proof (cases "n \<le> 1")
    case True
    with less.prems show ?thesis by (simp add: search_window.simps)
  next
    case False
    let ?half = "n div 2"
    have lt: "n - ?half < n" and half: "0 < ?half" "?half < n" "?half \<le> n - ?half" using False by auto
    have cmp: "fst (xs ! i) < fst (xs ! (base + ?half)) \<longleftrightarrow> i < base + ?half"
      using ascending_less [OF asc i] less.prems half by simp
    show ?thesis
      using False less.IH [OF lt, of base] less.IH [OF lt, of "base + ?half"] less.prems half
      by (subst search_window.simps) (auto simp: Let_def cmp)
  qed
qed

lemma search_window_bound: "0 < n \<Longrightarrow> search_window xs key base n < base + n"
proof (induction xs key base n rule: search_window.induct)
  case (1 xs key base n)
  show ?case
  proof (cases "n \<le> 1")
    case True
    with 1 show ?thesis by (simp add: search_window.simps)
  next
    case False
    have "search_window xs key (if key < fst (xs ! (base + n div 2)) then base else base + n div 2)
        (n - n div 2) < (if key < fst (xs ! (base + n div 2)) then base else base + n div 2) + (n - n div 2)"
      using 1(1) [OF False refl refl] False by simp
    also have "\<dots> \<le> base + n" by simp
    finally show ?thesis using False by (simp add: search_window.simps [of _ _ _ n] Let_def)
  qed
qed

lemma binary_search_Some_iff:
  assumes "ascending xs"
  shows "binary_search_by_key xs key = Some i \<longleftrightarrow> i < length xs \<and> fst (xs ! i) = key"
proof
  assume "binary_search_by_key xs key = Some i"
  then show "i < length xs \<and> fst (xs ! i) = key"
    using search_window_bound [of "length xs" xs key 0]
    by (auto simp: binary_search_by_key_def Let_def split: if_splits)
next
  assume i: "i < length xs \<and> fst (xs ! i) = key"
  then have "search_window xs key 0 (length xs) = i"
    using search_window_finds [OF assms, of i 0 "length xs"] by auto
  then show "binary_search_by_key xs key = Some i"
    using i by (auto simp: binary_search_by_key_def Let_def)
qed

lemma ascending_map_of:
  assumes "ascending xs" "i < length xs"
  shows "map_of xs (fst (xs ! i)) = Some (snd (xs ! i))"
proof -
  have "distinct (map fst xs)"
    using assms(1) by (simp add: ascending_def strict_sorted_iff)
  then show ?thesis using assms(2) by simp
qed

lemma binary_search_lookup:
  assumes "ascending xs"
  shows "map_option (\<lambda>i. snd (xs ! i)) (binary_search_by_key xs key) = map_of xs key"
proof (cases "binary_search_by_key xs key")
  case None
  have "key \<notin> fst ` set xs"
    using None binary_search_Some_iff [OF assms, of key] by (force simp: in_set_conv_nth)
  then have "map_of xs key = None" by (simp add: map_of_eq_None_iff)
  with None show ?thesis by simp
next
  case (Some i)
  then show ?thesis
    using binary_search_Some_iff [OF assms, of key i] ascending_map_of [OF assms, of i] by auto
qed

lemma last_key_append:
  "last_key lo xs = Some m \<Longrightarrow> last_key lo (xs @ ys) = last_key m ys"
  by (induction lo xs rule: last_key.induct) (auto split: if_splits)

lemma last_key_above: "last_key lo xs = Some m \<Longrightarrow> \<forall>k \<in> fst ` set xs. lo < k"
  by (induction lo xs rule: last_key.induct) (force split: if_splits)+

lemma last_key_ascending: "last_key lo xs = Some m \<Longrightarrow> ascending xs"
proof (induction lo xs rule: last_key.induct)
  case (2 lo k v t)
  then have "last_key k t = Some m" "ascending t" by (auto split: if_splits)
  then show ?case using last_key_above [of k t m] by (auto simp: ascending_def)
qed (simp add: ascending_def)

lemmas last_keys = last_key_1 last_key_2 last_key_3 last_key_4 last_key_5 last_key_6 last_key_7
  last_key_8 last_key_9 last_key_10 last_key_11

lemma case_fold_ascending: "ascending FULL_DEFAULT_CASE_FOLD"
proof -
  have "last_key 0 FULL_DEFAULT_CASE_FOLD = Some 125217"
    unfolding FULL_DEFAULT_CASE_FOLD_def by (simp only: last_key_append [OF last_key_1]
        last_key_append [OF last_key_2] last_key_append [OF last_key_3] last_key_append [OF last_key_4]
        last_key_append [OF last_key_5] last_key_append [OF last_key_6] last_key_append [OF last_key_7]
        last_key_append [OF last_key_8] last_key_append [OF last_key_9] last_key_append [OF last_key_10]
        last_key_11)
  then show ?thesis by (rule last_key_ascending)
qed

definition fold_char :: "nat \<Rightarrow> nat list" where
  "fold_char c = (case map_of FULL_DEFAULT_CASE_FOLD c of Some v \<Rightarrow> v | None \<Rightarrow> [c])"

lemma default_case_fold_lookup: "default_case_fold t = concat (map fold_char t)"
proof -
  have "(case binary_search_by_key FULL_DEFAULT_CASE_FOLD c of
      Some i \<Rightarrow> snd (FULL_DEFAULT_CASE_FOLD ! i) | None \<Rightarrow> [c]) = fold_char c" for c
    unfolding fold_char_def binary_search_lookup [OF case_fold_ascending, symmetric]
    by (simp split: option.splits)
  then show ?thesis by (simp add: default_case_fold_def)
qed

text \<open>The table on characters of the first block, by which concrete texts are folded.\<close>

lemma fold_char_small:
  assumes "c \<le> 428"
  shows "fold_char c = (case map_of case_fold_1 c of Some v \<Rightarrow> v | None \<Rightarrow> [c])"
proof -
  define rest where "rest = case_fold_2 @ case_fold_3 @ case_fold_4 @ case_fold_5 @
     case_fold_6 @ case_fold_7 @ case_fold_8 @ case_fold_9 @ case_fold_10 @ case_fold_11"
  have "last_key 428 rest = Some 125217"
    unfolding rest_def by (simp only: last_key_append [OF last_key_2] last_key_append [OF last_key_3]
        last_key_append [OF last_key_4] last_key_append [OF last_key_5] last_key_append [OF last_key_6]
        last_key_append [OF last_key_7] last_key_append [OF last_key_8] last_key_append [OF last_key_9]
        last_key_append [OF last_key_10] last_key_11)
  then have "c \<notin> fst ` set rest" using last_key_above assms by fastforce
  then have "map_of rest c = None" by (simp add: map_of_eq_None_iff)
  then show ?thesis
    by (simp add: fold_char_def FULL_DEFAULT_CASE_FOLD_def map_add_def split: option.splits flip: rest_def)
qed

section \<open>Duplicates\<close>

lemma fold_duplicates_iff:
  "is_ok (foldE (\<lambda>folded v.
       let candidate = default_case_fold v in
       if list_ex (\<lambda>existing. existing = candidate) folded then Inl PlaintextSchemaInvalid
       else Inr (folded @ [candidate])) acc values) \<longleftrightarrow>
   distinct (map default_case_fold values) \<and> set acc \<inter> default_case_fold ` set values = {}"
  by (induction "values" arbitrary: acc) (auto simp: Let_def list_ex_iff is_ok_def)

lemma reject_folded_duplicates_Inr_iff:
  "reject_folded_duplicate_refs values = Inr u \<longleftrightarrow> distinct (map default_case_fold values)"
  using fold_duplicates_iff [of "[]" "values"]
  by (auto simp: reject_folded_duplicate_refs_def result_simps is_ok_iff)

end
