(* ===== verification/Invitation.thy ===== *)
theory Invitation
  imports EnvelopeText EnvelopeCodec
begin

text \<open>
  The sealed context invitation: \<open>rust/src/api/account_envelope/invitation.rs\<close>. The encrypted
  preview (a title and tags in canonical Unicode), the clear header with the authority of the
  invitation, and the envelope around both. The decoders are shown to accept exactly the
  encodings of the well-formed values.
\<close>

definition CONTEXT_INVITATION_PURPOSE_V1 :: byte where "CONTEXT_INVITATION_PURPOSE_V1 = 1"

text \<open>\<open>Option::map(f).transpose()\<close>\<close>

definition opt_mapE :: "('a \<Rightarrow> 'e + 'b) \<Rightarrow> 'a option \<Rightarrow> 'e + 'b option" where
  "opt_mapE f x = (case x of None \<Rightarrow> Inr None | Some v \<Rightarrow> bindE (f v) (\<lambda>r. Inr (Some r)))"

lemma opt_mapE_Inr_iff [result_simps]:
  "opt_mapE f x = Inr y \<longleftrightarrow> rel_option (\<lambda>a b. f a = Inr b) x y"
  by (cases x; cases y) (auto simp: opt_mapE_def bindE_Inr_iff)

section \<open>The preview\<close>

definition write_bounded_string :: "bytes \<Rightarrow> utext \<Rightarrow> AccountEnvelopeErrorCodeV1 + bytes" where
  "write_bounded_string out v =
     (if length (utf8 v) < 2 ^ 16 then Inr (out @ be16 (of_nat (length (utf8 v))) @ utf8 v)
      else Inl BoundsExceeded)"

definition estimated_size :: "utext option \<Rightarrow> utext list \<Rightarrow> AccountEnvelopeErrorCodeV1 + nat" where
  "estimated_size title tags =
     bindE (ok_or (usize_checked_add 2 (case title of None \<Rightarrow> 0 | Some v \<Rightarrow> 2 + length (utf8 v)))
       BoundsExceeded) (\<lambda>total.
     foldE (\<lambda>sum v. ok_or (usize_checked_add sum (2 + length (utf8 v))) BoundsExceeded) total tags)"

definition canonicalize_and_encode_preview ::
  "unicode \<Rightarrow> ContextInvitationPreviewV1 \<Rightarrow> AccountEnvelopeErrorCodeV1 + bytes" where
  "canonicalize_and_encode_preview U p =
     (if length (preview_tags p) > INVITATION_TAG_MAX_COUNT then Inl BoundsExceeded else
      bindE (opt_mapE (\<lambda>v. normalize_bounded_text U v INVITATION_TITLE_MAX_CODE_POINTS
        INVITATION_TITLE_MAX_BYTES) (preview_title p)) (\<lambda>title.
      bindE (mapE (\<lambda>tag. normalize_bounded_text U tag INVITATION_TAG_MAX_CODE_POINTS
        INVITATION_TAG_MAX_BYTES) (preview_tags p)) (\<lambda>tags.
      bindE (reject_folded_duplicates tags) (\<lambda>_.
      bindE (estimated_size title tags) (\<lambda>estimated.
      if estimated > INVITATION_INNER_MAX_BYTES then Inl BoundsExceeded else
      bindE (case title of Some v \<Rightarrow> write_bounded_string [1] v | None \<Rightarrow> Inr [0]) (\<lambda>out.
      foldE write_bounded_string (out @ [of_nat (length tags)]) tags))))))"

text \<open>A string is read as the range of its bytes, after a check of its length and coding.\<close>

definition read_string_range ::
  "nat \<Rightarrow> nat \<Rightarrow> (bytes, AccountEnvelopeErrorCodeV1, bytes) eff" where
  "read_string_range max_code_points max_bytes =
     bindS (read_u16 PlaintextSchemaInvalid) (\<lambda>len.
     if unat len = 0 \<or> unat len > max_bytes then liftS (Inl PlaintextSchemaInvalid) else
     bindS (read_array PlaintextSchemaInvalid (unat len)) (\<lambda>b.
     bindS (liftS (ok_or (utf8_decode b) PlaintextSchemaInvalid)) (\<lambda>v.
     if length v > max_code_points then liftS (Inl PlaintextSchemaInvalid) else returnS b)))"

definition preview_reader ::
  "(bytes, AccountEnvelopeErrorCodeV1, bytes option \<times> bytes list) eff" where
  "preview_reader =
     bindS (read_u8 PlaintextSchemaInvalid) (\<lambda>t.
     bindS (if t = 0 then returnS None
            else if t = 1 then
              bindS (read_string_range INVITATION_TITLE_MAX_CODE_POINTS INVITATION_TITLE_MAX_BYTES)
                (\<lambda>range. returnS (Some range))
            else liftS (Inl PlaintextSchemaInvalid)) (\<lambda>title_range.
     bindS (read_u8 PlaintextSchemaInvalid) (\<lambda>tag_count.
     if unat tag_count > INVITATION_TAG_MAX_COUNT then liftS (Inl PlaintextSchemaInvalid) else
     bindS (timesS (unat tag_count)
              (read_string_range INVITATION_TAG_MAX_CODE_POINTS INVITATION_TAG_MAX_BYTES)) (\<lambda>tag_ranges.
     bindS is_finished (\<lambda>finished.
     if \<not> finished then liftS (Inl PlaintextSchemaInvalid) else
     returnS (title_range, tag_ranges))))))"

definition decode_canonical_preview ::
  "unicode \<Rightarrow> bytes \<Rightarrow> AccountEnvelopeErrorCodeV1 + ContextInvitationPreviewV1" where
  "decode_canonical_preview U input =
     (if length input > INVITATION_INNER_MAX_BYTES then Inl PlaintextSchemaInvalid else
      bindE (run_reader preview_reader input) (\<lambda>(title_range, tag_ranges).
      bindE (opt_mapE (canonical_str U) title_range) (\<lambda>title.
      bindE (mapE (canonical_str U) tag_ranges) (\<lambda>tags.
      bindE (reject_folded_duplicate_refs tags) (\<lambda>_.
      Inr \<lparr>preview_title = title, preview_tags = tags\<rparr>)))))"

subsection \<open>What the preview decoder accepts\<close>

definition range_ok :: "nat \<Rightarrow> nat \<Rightarrow> bytes \<Rightarrow> bool" where
  "range_ok max_code_points max_bytes b \<longleftrightarrow>
     b \<noteq> [] \<and> length b \<le> max_bytes \<and> (\<exists>t. text_ok t \<and> b = utf8 t \<and> length t \<le> max_code_points)"

definition field_bytes :: "bytes \<Rightarrow> bytes" where
  "field_bytes b = be16 (of_nat (length b)) @ b"

lemma unat_u16_of_nat: "n < 2 ^ 16 \<Longrightarrow> unat (of_nat n :: u16) = n"
  by (simp add: unat_of_nat take_bit_nat_eq_self)

lemma read_string_range_iff:
  assumes "max_bytes < 2 ^ 16"
  shows "read_string_range max_code_points max_bytes s = (Inr b, r) \<longleftrightarrow>
     range_ok max_code_points max_bytes b \<and> s = field_bytes b @ r"
proof
  assume "read_string_range max_code_points max_bytes s = (Inr b, r)"
  then obtain len :: u16 and t where "s = be16 len @ b @ r" "length b = unat len" "unat len \<noteq> 0"
      "unat len \<le> max_bytes" "text_ok t" "b = utf8 t" "length t \<le> max_code_points"
    unfolding read_string_range_def
    by (simp only: cursor_simps result_simps utf8_decode_Some_iff) fastforce
  moreover from this have "of_nat (length b) = len" by simp
  ultimately show "range_ok max_code_points max_bytes b \<and> s = field_bytes b @ r"
    by (auto simp: range_ok_def field_bytes_def)
next
  assume b: "range_ok max_code_points max_bytes b \<and> s = field_bytes b @ r"
  then obtain t where "text_ok t" "b = utf8 t" "length t \<le> max_code_points"
    by (auto simp: range_ok_def)
  moreover have "unat (of_nat (length b) :: u16) = length b"
    using b assms by (intro unat_u16_of_nat) (auto simp: range_ok_def)
  ultimately show "read_string_range max_code_points max_bytes s = (Inr b, r)"
    using b by (simp add: read_string_range_def field_bytes_def range_ok_def cursor_run)
qed

interpretation title_field: exact_reader
  "read_string_range INVITATION_TITLE_MAX_CODE_POINTS INVITATION_TITLE_MAX_BYTES" field_bytes
  "range_ok INVITATION_TITLE_MAX_CODE_POINTS INVITATION_TITLE_MAX_BYTES"
  by unfold_locales (simp add: read_string_range_iff INVITATION_TITLE_MAX_BYTES_def)

interpretation tag_field: exact_reader
  "read_string_range INVITATION_TAG_MAX_CODE_POINTS INVITATION_TAG_MAX_BYTES" field_bytes
  "range_ok INVITATION_TAG_MAX_CODE_POINTS INVITATION_TAG_MAX_BYTES"
  by unfold_locales (simp add: read_string_range_iff INVITATION_TAG_MAX_BYTES_def)

definition text_fits :: "nat \<Rightarrow> nat \<Rightarrow> utext \<Rightarrow> bool" where
  "text_fits max_code_points max_bytes t \<longleftrightarrow>
     length t \<le> max_code_points \<and> length (utf8 t) \<le> max_bytes"

definition title_fits :: "utext \<Rightarrow> bool" where
  "title_fits = text_fits INVITATION_TITLE_MAX_CODE_POINTS INVITATION_TITLE_MAX_BYTES"

definition tag_fits :: "utext \<Rightarrow> bool" where
  "tag_fits = text_fits INVITATION_TAG_MAX_CODE_POINTS INVITATION_TAG_MAX_BYTES"

lemma utf8_inj: "text_ok t \<Longrightarrow> text_ok u \<Longrightarrow> utf8 t = utf8 u \<Longrightarrow> t = u"
  by (metis option.inject utf8_decode_utf8)

lemma range_ok_utf8:
  "text_ok t \<Longrightarrow> t \<noteq> [] \<Longrightarrow> range_ok c m (utf8 t) \<longleftrightarrow> text_fits c m t"
  using utf8_inj [of t] by (auto simp: range_ok_def text_fits_def)

text \<open>The encoding of a preview, and the previews that have one.\<close>

definition preview_bytes :: "ContextInvitationPreviewV1 \<Rightarrow> bytes" where
  "preview_bytes q =
     (case preview_title q of None \<Rightarrow> [0] | Some v \<Rightarrow> [1] @ field_bytes (utf8 v))
       @ [of_nat (length (preview_tags q))] @ concat (map (\<lambda>v. field_bytes (utf8 v)) (preview_tags q))"

definition preview_fits :: "ContextInvitationPreviewV1 \<Rightarrow> bool" where
  "preview_fits q \<longleftrightarrow>
     (\<forall>t. preview_title q = Some t \<longrightarrow> title_fits t) \<and> (\<forall>t \<in> set (preview_tags q). tag_fits t) \<and>
     length (preview_tags q) \<le> INVITATION_TAG_MAX_COUNT \<and>
     distinct (map default_case_fold (preview_tags q))"

definition preview_texts :: "(utext \<Rightarrow> bool) \<Rightarrow> ContextInvitationPreviewV1 \<Rightarrow> bool" where
  "preview_texts P q \<longleftrightarrow>
     (\<forall>t. preview_title q = Some t \<longrightarrow> P t) \<and> (\<forall>t \<in> set (preview_tags q). P t)"

lemma length_field_bytes [simp]: "length (field_bytes b) = 2 + length b"
  by (simp add: field_bytes_def)

lemma preview_bytes_bound:
  assumes "preview_fits q"
  shows "length (preview_bytes q) \<le> 1816"
proof -
  have "length (concat (map (\<lambda>v. field_bytes (utf8 v)) ts)) \<le> length ts * 130"
    if "\<forall>t \<in> set ts. tag_fits t" for ts
    using that by (induction ts) (auto simp: tag_fits_def text_fits_def INVITATION_TAG_MAX_BYTES_def)
  from this [of "preview_tags q"] assms show ?thesis
    by (auto simp: preview_bytes_def preview_fits_def INVITATION_TAG_MAX_COUNT_def title_fits_def
        text_fits_def INVITATION_TITLE_MAX_BYTES_def split: option.splits)
qed

lemma preview_reader_iff:
  "preview_reader s = (Inr (title, tags), r) \<longleftrightarrow>
     r = [] \<and> length tags \<le> INVITATION_TAG_MAX_COUNT \<and>
     (\<forall>b. title = Some b \<longrightarrow> range_ok INVITATION_TITLE_MAX_CODE_POINTS INVITATION_TITLE_MAX_BYTES b) \<and>
     (\<forall>b \<in> set tags. range_ok INVITATION_TAG_MAX_CODE_POINTS INVITATION_TAG_MAX_BYTES b) \<and>
     s = (case title of None \<Rightarrow> [0] | Some b \<Rightarrow> [1] @ field_bytes b)
       @ [of_nat (length tags)] @ concat (map field_bytes tags)"
    (is "?L \<longleftrightarrow> ?R")
proof
  have title: "(if t = 0 then returnS None
            else if t = 1 then
              bindS (read_string_range INVITATION_TITLE_MAX_CODE_POINTS INVITATION_TITLE_MAX_BYTES)
                (\<lambda>range. returnS (Some range))
            else liftS (Inl PlaintextSchemaInvalid)) q = (Inr title, p) \<longleftrightarrow>
      t = (case title of None \<Rightarrow> 0 | Some _ \<Rightarrow> 1) \<and>
      (\<forall>b. title = Some b \<longrightarrow> range_ok INVITATION_TITLE_MAX_CODE_POINTS INVITATION_TITLE_MAX_BYTES b) \<and>
      q = (case title of None \<Rightarrow> [] | Some b \<Rightarrow> field_bytes b) @ p" for t :: byte and q p title
    by (cases title; cases "t = 0"; cases "t = 1") (auto simp: run_bindS_ok_iff title_field.exact)
  {
    assume ?L
    then obtain n :: byte where "length tags = unat n" "unat n \<le> INVITATION_TAG_MAX_COUNT" "r = []"
      and "\<forall>b. title = Some b \<longrightarrow> range_ok INVITATION_TITLE_MAX_CODE_POINTS INVITATION_TITLE_MAX_BYTES b"
      and "\<forall>b \<in> set tags. range_ok INVITATION_TAG_MAX_CODE_POINTS INVITATION_TAG_MAX_BYTES b"
      and "s = (case title of None \<Rightarrow> 0 | Some _ \<Rightarrow> 1) # (case title of None \<Rightarrow> [] | Some b \<Rightarrow> field_bytes b)
         @ n # concat (map field_bytes tags)"
      unfolding preview_reader_def
      by (simp only: cursor_simps title tag_field.times_exact) fastforce
    moreover from this have "of_nat (length tags) = n" by simp
    ultimately show ?R by (cases title) auto
  next
    assume R: ?R
    then have "unat (of_nat (length tags) :: byte) = length tags"
      by (intro unat_of_nat_byte) (simp add: INVITATION_TAG_MAX_COUNT_def)
    moreover have "s = (case title of None \<Rightarrow> 0 | Some _ \<Rightarrow> 1) #
        (case title of None \<Rightarrow> [] | Some b \<Rightarrow> field_bytes b) @ of_nat (length tags) # concat (map field_bytes tags)"
      using R by (cases title) simp_all
    ultimately show ?L
      using R unfolding preview_reader_def
      by (simp only: cursor_simps title tag_field.times_exact) fastforce
  }
qed

text \<open>Canonical previews, and the exactness of the decoder.\<close>

definition preview_ok :: "unicode \<Rightarrow> ContextInvitationPreviewV1 \<Rightarrow> bool" where
  "preview_ok U q \<longleftrightarrow> preview_texts (canonical_text U) q \<and> preview_fits q"

lemma mapE_canonical:
  "mapE (canonical_str U) bs = Inr ts \<longleftrightarrow> bs = map utf8 ts \<and> (\<forall>t \<in> set ts. canonical_text U t)"
  unfolding mapE_Inr_iff canonical_str_Inr_iff
  by (induction ts arbitrary: bs) (auto simp: list_all2_Cons2)

lemma opt_mapE_canonical:
  "opt_mapE (canonical_str U) b = Inr t \<longleftrightarrow>
     b = map_option utf8 t \<and> (\<forall>v. t = Some v \<longrightarrow> canonical_text U v)"
  unfolding opt_mapE_Inr_iff canonical_str_Inr_iff by (cases b; cases t) auto

lemma canonical_range:
  "canonical_text U t \<Longrightarrow>
     range_ok INVITATION_TITLE_MAX_CODE_POINTS INVITATION_TITLE_MAX_BYTES (utf8 t) \<longleftrightarrow> title_fits t"
  "canonical_text U t \<Longrightarrow>
     range_ok INVITATION_TAG_MAX_CODE_POINTS INVITATION_TAG_MAX_BYTES (utf8 t) \<longleftrightarrow> tag_fits t"
  by (simp_all add: range_ok_utf8 canonical_text_def title_fits_def tag_fits_def)

lemma run_preview_reader:
  "run_reader preview_reader s = Inr (title, tags) \<longleftrightarrow> preview_reader s = (Inr (title, tags), [])"
  by (auto simp: run_reader_Inr_iff preview_reader_iff)

lemma decode_canonical_preview_Inr_iff:
  "decode_canonical_preview U input = Inr q \<longleftrightarrow> preview_ok U q \<and> input = preview_bytes q"
proof -
  have "decode_canonical_preview U input = Inr q \<longleftrightarrow>
      length input \<le> INVITATION_INNER_MAX_BYTES \<and>
      preview_reader input = (Inr (map_option utf8 (preview_title q), map utf8 (preview_tags q)), []) \<and>
      preview_texts (canonical_text U) q \<and> distinct (map default_case_fold (preview_tags q))"
    unfolding decode_canonical_preview_def
    by (cases q) (auto simp: bindE_Inr_iff if_Inl_Inr_iff run_preview_reader mapE_canonical
        opt_mapE_canonical reject_folded_duplicates_Inr_iff preview_texts_def)
  also have "\<dots> \<longleftrightarrow> length input \<le> INVITATION_INNER_MAX_BYTES \<and> preview_ok U q \<and> input = preview_bytes q"
    by (cases "preview_title q") (auto simp: preview_reader_iff preview_ok_def preview_texts_def
        preview_fits_def canonical_range preview_bytes_def comp_def
        intro: canonical_range(2) [THEN iffD1, of U])
  also have "\<dots> \<longleftrightarrow> preview_ok U q \<and> input = preview_bytes q"
    using preview_bytes_bound [of q] by (auto simp: preview_ok_def INVITATION_INNER_MAX_BYTES_def)
  finally show ?thesis .
qed

subsection \<open>What the preview encoder writes\<close>

definition normalized_preview ::
  "unicode \<Rightarrow> ContextInvitationPreviewV1 \<Rightarrow> ContextInvitationPreviewV1" where
  "normalized_preview U p =
     (let norm = (\<lambda>t. nfc U (trim_matches is_unicode_17_white_space t)) in
      \<lparr>preview_title = map_option norm (preview_title p), preview_tags = map norm (preview_tags p)\<rparr>)"

definition nonblank :: "utext \<Rightarrow> bool" where
  "nonblank t \<longleftrightarrow> trim_matches is_unicode_17_white_space t \<noteq> []"

lemma normalize_bounded_text_Inr_iff:
  "normalize_bounded_text U t c m = Inr v \<longleftrightarrow>
     nonblank t \<and> v = nfc U (trim_matches is_unicode_17_white_space t) \<and> text_fits c m v"
  by (auto simp: normalize_bounded_text_def nonblank_def text_fits_def Let_def)

lemma mapE_normalize:
  "mapE (\<lambda>t. normalize_bounded_text U t c m) ts = Inr vs \<longleftrightarrow>
     (\<forall>t \<in> set ts. nonblank t) \<and> vs = map (\<lambda>t. nfc U (trim_matches is_unicode_17_white_space t)) ts \<and>
     (\<forall>v \<in> set vs. text_fits c m v)"
  unfolding mapE_Inr_iff normalize_bounded_text_Inr_iff
  by (induction ts arbitrary: vs) (auto simp: list_all2_Cons1)

lemma write_bounded_string_fits:
  "length (utf8 v) < 2 ^ 16 \<Longrightarrow> write_bounded_string out v = Inr (out @ field_bytes (utf8 v))"
  by (simp add: write_bounded_string_def field_bytes_def)

lemma write_all_fits:
  "\<forall>v \<in> set vs. length (utf8 v) < 2 ^ 16 \<Longrightarrow>
   foldE write_bounded_string out vs = Inr (out @ concat (map (\<lambda>v. field_bytes (utf8 v)) vs))"
  by (induction vs arbitrary: out) (simp_all add: write_bounded_string_fits)

lemma estimated_fold:
  "n + length (concat (map (\<lambda>v. field_bytes (utf8 v)) vs)) < 2 ^ 64 \<Longrightarrow>
   foldE (\<lambda>sum v. ok_or (usize_checked_add sum (2 + length (utf8 v))) BoundsExceeded) n vs
     = Inr (n + length (concat (map (\<lambda>v. field_bytes (utf8 v)) vs)))"
  by (induction vs arbitrary: n) (auto simp: usize_checked_add_def)

lemma estimated_size_preview:
  assumes "preview_fits q"
  shows "estimated_size (preview_title q) (preview_tags q) = Inr (length (preview_bytes q))"
  using preview_bytes_bound [OF assms]
  by (cases "preview_title q")
    (auto simp: estimated_size_def preview_bytes_def usize_checked_add_fits estimated_fold [simplified])

lemma canonicalize_and_encode_preview_Inr_iff:
  "canonicalize_and_encode_preview U p = Inr out \<longleftrightarrow>
     preview_texts nonblank p \<and> preview_fits (normalized_preview U p) \<and>
     out = preview_bytes (normalized_preview U p)"
proof -
  define q where "q = normalized_preview U p"
  have rest: "bindE (estimated_size (preview_title q) (preview_tags q)) (\<lambda>estimated.
      if estimated > INVITATION_INNER_MAX_BYTES then Inl BoundsExceeded else
      bindE (case preview_title q of Some v \<Rightarrow> write_bounded_string [1] v | None \<Rightarrow> Inr [0]) (\<lambda>out.
      foldE write_bounded_string (out @ [of_nat (length (preview_tags q))]) (preview_tags q)))
    = Inr (preview_bytes q)" if "preview_fits q"
  proof -
    have "\<forall>v \<in> set (preview_tags q). length (utf8 v) < 2 ^ 16"
      using that by (auto simp: preview_fits_def tag_fits_def text_fits_def INVITATION_TAG_MAX_BYTES_def)
    moreover have "preview_title q = Some v \<Longrightarrow> length (utf8 v) < 2 ^ 16" for v
      using that by (auto simp: preview_fits_def title_fits_def text_fits_def INVITATION_TITLE_MAX_BYTES_def)
    ultimately show ?thesis
      using preview_bytes_bound [OF that] unfolding estimated_size_preview [OF that] bindE_simps
      by (cases "preview_title q") (auto simp: INVITATION_INNER_MAX_BYTES_def
          write_bounded_string_fits write_all_fits preview_bytes_def)
  qed
  have len: "length (preview_tags p) = length (preview_tags q)"
    by (simp add: q_def normalized_preview_def Let_def)
  have title: "opt_mapE (\<lambda>v. normalize_bounded_text U v INVITATION_TITLE_MAX_CODE_POINTS
      INVITATION_TITLE_MAX_BYTES) (preview_title p) = Inr t \<longleftrightarrow>
      (\<forall>v. preview_title p = Some v \<longrightarrow> nonblank v) \<and> t = preview_title q \<and> (\<forall>v. t = Some v \<longrightarrow> title_fits v)" for t
    by (cases "preview_title p"; cases t) (auto simp: opt_mapE_Inr_iff normalize_bounded_text_Inr_iff
        q_def normalized_preview_def Let_def title_fits_def)
  have tags: "mapE (\<lambda>tag. normalize_bounded_text U tag INVITATION_TAG_MAX_CODE_POINTS
      INVITATION_TAG_MAX_BYTES) (preview_tags p) = Inr ts \<longleftrightarrow>
      (\<forall>v \<in> set (preview_tags p). nonblank v) \<and> ts = preview_tags q \<and> (\<forall>v \<in> set ts. tag_fits v)" for ts
    by (simp add: mapE_normalize q_def normalized_preview_def Let_def tag_fits_def)
  show ?thesis
    unfolding canonicalize_and_encode_preview_def len if_Inl_Inr_iff bindE_Inr_iff [of "opt_mapE _ _"]
      bindE_Inr_iff [of "mapE _ _"] bindE_Inr_iff [of "reject_folded_duplicate_refs _"] title tags
      reject_folded_duplicates_def reject_folded_duplicates_Inr_iff
    using rest by (auto simp: preview_texts_def preview_fits_def simp flip: q_def)
qed

section \<open>The header\<close>

definition header_bytes :: "ContextInvitationAuthorityV1 \<Rightarrow> bytes" where
  "header_bytes a =
     [FORMAT_VERSION_V1] @ ia_envelope_id a @ [CONTEXT_INVITATION_PURPOSE_V1]
       @ ia_sender_account_id a @ be64 (ia_sender_generation a)
       @ ia_recipient_account_id a @ be64 (ia_recipient_generation a)
       @ ia_invite_id a @ be64 (ia_authority_attempt a) @ be64 (ia_relay_slot_version a)
       @ be64 (ia_server_created_at_unix_ms a) @ be64 (ia_server_expires_at_unix_ms a)
       @ [padding_class_as_u8 (ia_padding_class a)]"

definition encode_invitation_header ::
  "ContextInvitationAuthorityV1 \<Rightarrow> AccountEnvelopeErrorCodeV1 + bytes" where
  "encode_invitation_header a =
     bindE (validate_invitation_authority a) (\<lambda>_. Inr (header_bytes a))"

definition invitation_header_reader ::
  "(bytes, AccountEnvelopeErrorCodeV1, ContextInvitationAuthorityV1) eff" where
  "invitation_header_reader =
     bindS (read_u8 NonCanonicalEncoding) (\<lambda>version.
     if version \<noteq> FORMAT_VERSION_V1 then liftS (Inl UnsupportedVersion) else
     bindS (read_array NonCanonicalEncoding 16) (\<lambda>envelope.
     bindS (read_u8 NonCanonicalEncoding) (\<lambda>purpose.
     if purpose \<noteq> CONTEXT_INVITATION_PURPOSE_V1 then liftS (Inl NonCanonicalEncoding) else
     bindS (read_array NonCanonicalEncoding 16) (\<lambda>sender.
     bindS (read_u64 NonCanonicalEncoding) (\<lambda>sender_gen.
     bindS (read_array NonCanonicalEncoding 16) (\<lambda>recipient.
     bindS (read_u64 NonCanonicalEncoding) (\<lambda>recipient_gen.
     bindS (read_array NonCanonicalEncoding 16) (\<lambda>invite.
     bindS (read_u64 NonCanonicalEncoding) (\<lambda>attempt.
     bindS (read_u64 NonCanonicalEncoding) (\<lambda>slot.
     bindS (read_u64 NonCanonicalEncoding) (\<lambda>created.
     bindS (read_u64 NonCanonicalEncoding) (\<lambda>expires.
     bindS (read_u8 NonCanonicalEncoding) (\<lambda>raw_padding.
     bindS (liftS (padding_class_from_u8 raw_padding)) (\<lambda>padding.
     let authority = \<lparr>ia_envelope_id = envelope, ia_invite_id = invite,
           ia_sender_account_id = sender, ia_sender_generation = sender_gen,
           ia_recipient_account_id = recipient, ia_recipient_generation = recipient_gen,
           ia_authority_attempt = attempt, ia_relay_slot_version = slot,
           ia_server_created_at_unix_ms = created, ia_server_expires_at_unix_ms = expires,
           ia_padding_class = padding\<rparr> in
     bindS is_finished (\<lambda>finished.
     if \<not> finished \<or> \<not> is_ok (validate_invitation_authority authority)
     then liftS (Inl NonCanonicalEncoding)
     else returnS authority)))))))))))))))"

definition parse_invitation_header ::
  "bytes \<Rightarrow> AccountEnvelopeErrorCodeV1 + ContextInvitationAuthorityV1" where
  "parse_invitation_header input = run_reader invitation_header_reader input"

definition invitation_authority_ok :: "ContextInvitationAuthorityV1 \<Rightarrow> bool" where
  "invitation_authority_ok a \<longleftrightarrow>
     length (ia_envelope_id a) = 16 \<and> length (ia_invite_id a) = 16 \<and>
     length (ia_sender_account_id a) = 16 \<and> length (ia_recipient_account_id a) = 16 \<and>
     validate_invitation_authority a = Inr ()"

lemma length_header_bytes:
  "invitation_authority_ok a \<Longrightarrow> length (header_bytes a) = INVITATION_HEADER_BYTES"
  by (simp add: invitation_authority_ok_def header_bytes_def envelope_sizes)

lemma padding_run [cursor_run]: "padding_class_from_u8 (padding_class_as_u8 k) = Inr k"
  by (simp add: cursor_simps)

lemma invitation_header_reader_iff:
  "invitation_header_reader input = (Inr a, r) \<longleftrightarrow>
     r = [] \<and> invitation_authority_ok a \<and> input = header_bytes a"
proof
  assume "invitation_header_reader input = (Inr a, r)"
  then show "r = [] \<and> invitation_authority_ok a \<and> input = header_bytes a"
    unfolding invitation_header_reader_def Let_def
    by (simp only: cursor_simps if_liftS_Inl_iff)
      (auto simp: invitation_authority_ok_def header_bytes_def is_ok_iff)
next
  assume "r = [] \<and> invitation_authority_ok a \<and> input = header_bytes a"
  then show "invitation_header_reader input = (Inr a, r)"
    by (cases a) (simp add: invitation_header_reader_def invitation_authority_ok_def header_bytes_def
        cursor_run is_ok_def Let_def)
qed

lemma parse_invitation_header_Inr_iff:
  "parse_invitation_header input = Inr a \<longleftrightarrow> invitation_authority_ok a \<and> input = header_bytes a"
  by (auto simp: parse_invitation_header_def run_reader_Inr_iff invitation_header_reader_iff)

section \<open>The envelope\<close>

record ParsedInvitationEnvelopeV1 =
  pi_authority :: ContextInvitationAuthorityV1
  pi_canonical_header :: bytes
  pi_encapsulation :: bytes
  pi_ciphertext :: bytes
  pi_signature :: bytes

definition encode_invitation_envelope ::
  "bytes \<Rightarrow> bytes \<Rightarrow> bytes \<Rightarrow> bytes \<Rightarrow> AccountEnvelopeErrorCodeV1 + bytes" where
  "encode_invitation_envelope header encapsulation ciphertext signature =
     (if length ciphertext \<ge> 2 ^ 16 then Inl BoundsExceeded else
      bindE (ok_or (usize_checked_add INVITATION_HEADER_BYTES
        (KEY_BYTES + 2 + length ciphertext + SIGNATURE_BYTES)) BoundsExceeded) (\<lambda>total.
      if total > INVITATION_CANONICAL_ENVELOPE_MAX_BYTES then Inl BoundsExceeded
      else Inr (header @ encapsulation @ be16 (of_nat (length ciphertext)) @ ciphertext @ signature)))"

definition byte_range :: "bytes \<Rightarrow> nat \<Rightarrow> nat \<Rightarrow> bytes" where
  "byte_range input a b = take (b - a) (drop a input)"

definition parse_invitation_envelope ::
  "bytes \<Rightarrow> AccountEnvelopeErrorCodeV1 + ParsedInvitationEnvelopeV1" where
  "parse_invitation_envelope input =
     (if length input > INVITATION_ENVELOPE_MAX_BYTES then Inl BoundsExceeded
      else if length input > INVITATION_CANONICAL_ENVELOPE_MAX_BYTES
         \<or> length input < INVITATION_HEADER_BYTES + KEY_BYTES + 2 + SIGNATURE_BYTES
      then Inl NonCanonicalEncoding
      else
        let header = byte_range input 0 INVITATION_HEADER_BYTES in
        bindE (parse_invitation_header header) (\<lambda>authority.
        let encapsulation_start = INVITATION_HEADER_BYTES;
            encapsulation_end = encapsulation_start + KEY_BYTES;
            encapsulation = byte_range input encapsulation_start encapsulation_end;
            length_end = encapsulation_end + 2;
            ciphertext_len = unat (word_of_be (byte_range input encapsulation_end length_end) :: u16) in
        if ciphertext_len \<noteq> ciphertext_bytes (ia_padding_class authority) then Inl NonCanonicalEncoding
        else
        bindE (ok_or (usize_checked_add length_end ciphertext_len) NonCanonicalEncoding) (\<lambda>ciphertext_end.
        bindE (ok_or (usize_checked_add ciphertext_end SIGNATURE_BYTES) NonCanonicalEncoding) (\<lambda>signature_end.
        if signature_end \<noteq> length input then Inl NonCanonicalEncoding
        else Inr \<lparr>pi_authority = authority, pi_canonical_header = header,
          pi_encapsulation = encapsulation, pi_ciphertext = byte_range input length_end ciphertext_end,
          pi_signature = byte_range input ciphertext_end signature_end\<rparr>))))"

definition parsed_invitation_ok :: "ParsedInvitationEnvelopeV1 \<Rightarrow> bool" where
  "parsed_invitation_ok p \<longleftrightarrow>
     invitation_authority_ok (pi_authority p) \<and>
     pi_canonical_header p = header_bytes (pi_authority p) \<and>
     length (pi_encapsulation p) = 32 \<and>
     length (pi_ciphertext p) = ciphertext_bytes (ia_padding_class (pi_authority p)) \<and>
     length (pi_signature p) = 64"

definition envelope_bytes :: "ParsedInvitationEnvelopeV1 \<Rightarrow> bytes" where
  "envelope_bytes p =
     pi_canonical_header p @ pi_encapsulation p @ be16 (of_nat (length (pi_ciphertext p)))
       @ pi_ciphertext p @ pi_signature p"

lemma ciphertext_bytes_bound: "ciphertext_bytes k \<le> 2064" "0 < ciphertext_bytes k"
  by (cases k; simp add: ciphertext_bytes_def)+

lemma length_envelope_bytes:
  "parsed_invitation_ok p \<Longrightarrow>
   length (envelope_bytes p) = 213 + ciphertext_bytes (ia_padding_class (pi_authority p))"
  using length_header_bytes [of "pi_authority p"]
  by (simp add: parsed_invitation_ok_def envelope_bytes_def INVITATION_HEADER_BYTES_def)

lemma encode_invitation_envelope_ok:
  assumes "parsed_invitation_ok p"
  shows "encode_invitation_envelope (pi_canonical_header p) (pi_encapsulation p) (pi_ciphertext p)
    (pi_signature p) = Inr (envelope_bytes p)"
  using assms ciphertext_bytes_bound(1) [of "ia_padding_class (pi_authority p)"]
  by (simp add: encode_invitation_envelope_def parsed_invitation_ok_def envelope_bytes_def
      envelope_sizes usize_checked_add_fits)

lemma slice_full [simp]: "length v = n \<Longrightarrow> byte_range (v @ w) 0 n = v" "length v = n \<Longrightarrow> byte_range v 0 n = v"
  by (simp_all add: byte_range_def)

lemma slice_skip:
  "length u = n \<Longrightarrow> n \<le> a \<Longrightarrow> n \<le> b \<Longrightarrow> byte_range (u @ v) a b = byte_range v (a - n) (b - n)"
  by (simp add: byte_range_def)

lemma slice_drop: "a \<le> b \<Longrightarrow> byte_range s a b @ drop b s = drop a s"
  by (simp add: byte_range_def) (metis append_take_drop_id drop_drop le_add_diff_inverse2)

lemma slice_rest [simp]: "byte_range s a (length s) = drop a s"
  by (simp add: byte_range_def)

lemma length_slice: "a \<le> b \<Longrightarrow> b \<le> length s \<Longrightarrow> length (byte_range s a b) = b - a"
  by (simp add: byte_range_def)

lemma be16_word_of_be: "length v = 2 \<Longrightarrow> be16 (word_of_be v) = v"
  by (simp add: be16_def be_bytes_word_of_be)

lemma word_of_be_be16: "word_of_be (be16 w) = w"
  by (simp add: be16_def word_of_be_bytes)

lemma parse_invitation_envelope_Inr_iff:
  "parse_invitation_envelope input = Inr p \<longleftrightarrow> parsed_invitation_ok p \<and> input = envelope_bytes p"
proof
  assume parse: "parse_invitation_envelope input = Inr p"
  let ?len = "unat (word_of_be (byte_range input 147 149) :: u16)"
  from parse have header: "parse_invitation_header (byte_range input 0 115) = Inr (pi_authority p)"
    and p: "pi_canonical_header p = byte_range input 0 115" "pi_encapsulation p = byte_range input 115 147"
      "pi_ciphertext p = byte_range input 149 (149 + ?len)"
      "pi_signature p = byte_range input (149 + ?len) (length input)"
    and len: "?len = ciphertext_bytes (ia_padding_class (pi_authority p))"
    and total: "length input = 213 + ?len"
    by (auto simp: parse_invitation_envelope_def Let_def if_Inl_Inr_iff bindE_Inr_iff ok_or_Inr_iff
        usize_checked_add_def envelope_sizes simp del: One_nat_def split: if_splits)
  have two: "length (byte_range input 147 149) = 2" using total by (simp add: length_slice)
  have ct: "length (pi_ciphertext p) = ?len" using total by (simp add: p length_slice)
  have "be16 (of_nat (length (pi_ciphertext p))) = byte_range input 147 149"
    by (simp add: ct be16_word_of_be [OF two])
  moreover have "byte_range input 0 115 @ byte_range input 115 147 @ byte_range input 147 149
      @ byte_range input 149 (149 + ?len) @ byte_range input (149 + ?len) (length input) = input"
    by (simp add: slice_drop)
  ultimately show "parsed_invitation_ok p \<and> input = envelope_bytes p"
    using header total len ct
    by (simp add: parsed_invitation_ok_def envelope_bytes_def p length_slice parse_invitation_header_Inr_iff)
next
  assume p: "parsed_invitation_ok p \<and> input = envelope_bytes p"
  let ?n = "ciphertext_bytes (ia_padding_class (pi_authority p))"
  have lens: "length (pi_canonical_header p) = 115" "length (pi_encapsulation p) = 32"
    "length (pi_ciphertext p) = ?n" "length (pi_signature p) = 64"
    using p length_header_bytes [of "pi_authority p"]
    by (auto simp: parsed_invitation_ok_def INVITATION_HEADER_BYTES_def)
  have n: "?n \<le> 2064" "unat (of_nat ?n :: u16) = ?n"
    using ciphertext_bytes_bound(1) [of "ia_padding_class (pi_authority p)"]
    by (simp_all add: unat_u16_of_nat)
  have "parse_invitation_header (pi_canonical_header p) = Inr (pi_authority p)"
    using p by (simp add: parsed_invitation_ok_def parse_invitation_header_Inr_iff)
  moreover have "byte_range input 0 115 = pi_canonical_header p" "byte_range input 115 147 = pi_encapsulation p"
    "byte_range input 147 149 = be16 (of_nat ?n)" "byte_range input 149 (149 + ?n) = pi_ciphertext p"
    "byte_range input (149 + ?n) (213 + ?n) = pi_signature p" "length input = 213 + ?n"
    using p lens by (simp_all add: envelope_bytes_def slice_skip)
  ultimately show "parse_invitation_envelope input = Inr p"
    using n by (simp add: parse_invitation_envelope_def Let_def envelope_sizes word_of_be_be16
        usize_checked_add_fits)
qed

end
