(* ===== verification/EnvelopeOps.thy ===== *)
theory EnvelopeOps
  imports EnvelopeCrypto Invitation
begin

text \<open>
  The operations of the account envelope: \<open>rust/src/api/account_envelope/mod.rs\<close>. They are
  stateless; every call draws its randomness from the provider, so an operation takes the number
  of its first draw.
\<close>

section \<open>Private and public bundles\<close>

definition generate_key_bundle_v1 ::
  "crypto \<Rightarrow> nat \<Rightarrow> AccountEnvelopePrivateBundleAuthorityV1 \<Rightarrow> AccountEnvelopeErrorCodeV1 + bytes" where
  "generate_key_bundle_v1 K draw authority =
     bindE (validate_bundle_authority authority) (\<lambda>_.
     bindE (generate_private_bundle K draw authority) (\<lambda>bundle.
     Inr (encode_private_bundle bundle)))"

definition verify_self_signature ::
  "crypto \<Rightarrow> ParsedPublicBundleV1 \<Rightarrow> AccountEnvelopeErrorCodeV1 + unit" where
  "verify_self_signature K parsed =
     verify_domain_signature K BUNDLE_SELF_SIGNATURE_DOMAIN_V1 [px_tbs_bytes parsed]
       (tb_signature_public_key (px_tbs parsed)) (px_self_signature parsed)"

definition decode_and_validate_private_bundle ::
  "crypto \<Rightarrow> nat \<Rightarrow> bytes \<Rightarrow> AccountEnvelopePrivateBundleAuthorityV1 \<Rightarrow> bool
    \<Rightarrow> AccountEnvelopeErrorCodeV1 + DecodedPrivateBundleV1" where
  "decode_and_validate_private_bundle K draw private_bundle expected_authority require_active =
     bindE (decode_private_bundle private_bundle) (\<lambda>decoded.
     if db_authority decoded \<noteq> expected_authority then Inl PrivateBundleInvalid
     else if require_active \<and> db_state decoded \<noteq> ActiveFull then Inl PrivateBundleInvalid
     else bindE (validate_private_bundle_crypto K draw decoded) (\<lambda>_. Inr decoded))"

definition validate_requested_shape :: "PublicBundleTbsV1 \<Rightarrow> AccountEnvelopeErrorCodeV1 + unit" where
  "validate_requested_shape t =
     (let valid = (case tb_activation_kind t of
          Initial \<Rightarrow> tb_generation t = 1 \<and> tb_previous_generation t = 0 \<and> tb_reset_reason t = None
        | Rotation \<Rightarrow> tb_generation t > 1 \<and> tb_previous_generation t = tb_generation t - 1
            \<and> tb_reset_reason t = None
        | ContinuityReset \<Rightarrow> tb_generation t > 1 \<and> tb_previous_generation t = tb_generation t - 1
            \<and> tb_reset_reason t \<noteq> None) in
      if \<not> valid then Inl NonCanonicalEncoding else Inr ())"

definition public_bundle_digest_v1 :: "crypto \<Rightarrow> bytes \<Rightarrow> AccountEnvelopeErrorCodeV1 + bytes" where
  "public_bundle_digest_v1 K bundle =
     bindE (parse_complete_public_bundle bundle) (\<lambda>parsed.
     bindE (verify_self_signature K parsed) (\<lambda>_.
     Inr (sha256 K (BUNDLE_DIGEST_DOMAIN_V1 @ bundle))))"

definition verify_canonical_public_bundle_v1 ::
  "crypto \<Rightarrow> bytes \<Rightarrow> AccountEnvelopeErrorCodeV1 + AccountEnvelopePublicBundleSummaryV1" where
  "verify_canonical_public_bundle_v1 K bundle =
     bindE (parse_complete_public_bundle bundle) (\<lambda>parsed.
     bindE (verify_self_signature K parsed) (\<lambda>_.
     bindE (public_bundle_digest_v1 K bundle) (\<lambda>digest.
     let t = px_tbs parsed in
     Inr \<lparr>sm_account_id = tb_account_id t, sm_generation = tb_generation t,
       sm_hpke_public_key = tb_hpke_public_key t, sm_signature_public_key = tb_signature_public_key t,
       sm_activation_kind = tb_activation_kind t, sm_previous_generation = tb_previous_generation t,
       sm_reset_reason = tb_reset_reason t, sm_digest_sha256 = digest\<rparr>)))"

definition create_self_signed_public_bundle_v1 ::
  "crypto \<Rightarrow> nat \<Rightarrow> bytes \<Rightarrow> u64 \<Rightarrow> AccountEnvelopeActivationKindV1
    \<Rightarrow> AccountEnvelopeResetReasonV1 option \<Rightarrow> u64 \<Rightarrow> AccountEnvelopePrivateBundleAuthorityV1 \<Rightarrow> bytes
    \<Rightarrow> AccountEnvelopeErrorCodeV1 + SelfSignedPublicBundleResultV1" where
  "create_self_signed_public_bundle_v1 K draw account gen kind reason previous expected private_bundle =
     bindE (validate_bundle_authority expected) (\<lambda>_.
     if account \<noteq> ba_account_id expected \<or> gen \<noteq> ba_generation expected then Inl AuthorityMismatch
     else
     bindE (decode_and_validate_private_bundle K draw private_bundle expected True) (\<lambda>decoded.
     let tbs = \<lparr>tb_account_id = account, tb_generation = gen,
           tb_hpke_public_key = db_hpke_public_key decoded,
           tb_signature_public_key = db_signature_public_key decoded, tb_activation_kind = kind,
           tb_previous_generation = previous, tb_reset_reason = reason\<rparr> in
     bindE (validate_requested_shape tbs) (\<lambda>_.
     let tbs_bytes = encode_public_bundle_tbs tbs in
     bindE (ok_or (db_signature_private_key decoded) PrivateBundleInvalid) (\<lambda>sig_private_key.
     bindE (sign_domain_message K BUNDLE_SELF_SIGNATURE_DOMAIN_V1 [tbs_bytes] sig_private_key)
       (\<lambda>self_signature.
     if kind = Rotation
     then Inr (NonPublishableRotationCandidate (encode_rotation_candidate tbs_bytes self_signature))
     else
       let bundle = encode_complete_public_bundle tbs_bytes self_signature None in
       bindE (verify_canonical_public_bundle_v1 K bundle) (\<lambda>_. Inr (CanonicalPublicBundle bundle)))))))"

definition authorize_successor_public_bundle_v1 ::
  "crypto \<Rightarrow> nat \<Rightarrow> AccountEnvelopePrivateBundleAuthorityV1 \<Rightarrow> bytes \<Rightarrow> bytes
    \<Rightarrow> AccountEnvelopeErrorCodeV1 + AuthorizeSuccessorPublicBundleResultV1" where
  "authorize_successor_public_bundle_v1 K draw expected previous_private_bundle candidate_bytes =
     bindE (validate_bundle_authority expected) (\<lambda>_.
     bindE (decode_and_validate_private_bundle K draw previous_private_bundle expected True) (\<lambda>previous.
     bindE (parse_rotation_candidate candidate_bytes) (\<lambda>candidate.
     bindE (verify_self_signature K candidate) (\<lambda>_.
     if tb_account_id (px_tbs candidate) \<noteq> ba_account_id (db_authority previous)
        \<or> tb_previous_generation (px_tbs candidate) \<noteq> ba_generation (db_authority previous)
        \<or> tb_generation (px_tbs candidate) \<noteq> ba_generation (db_authority previous) + 1
     then Inl AuthorityMismatch
     else
     bindE (ok_or (db_signature_private_key previous) PrivateBundleInvalid) (\<lambda>previous_key.
     bindE (sign_domain_message K BUNDLE_TRANSITION_SIGNATURE_DOMAIN_V1
       [px_tbs_bytes candidate, px_self_signature candidate] previous_key) (\<lambda>transition.
     bindE (verify_domain_signature K BUNDLE_TRANSITION_SIGNATURE_DOMAIN_V1
       [px_tbs_bytes candidate, px_self_signature candidate] (db_signature_public_key previous)
       transition) (\<lambda>_.
     let authorized = encode_complete_public_bundle (px_tbs_bytes candidate)
           (px_self_signature candidate) (Some transition) in
     bindE (verify_canonical_public_bundle_v1 K authorized) (\<lambda>_.
     let retired = encode_private_bundle
           (previous\<lparr>db_state := RetiredDecryptOnly, db_signature_private_key := None\<rparr>) in
     Inr \<lparr>authorized_canonical_successor_public_bundle = authorized,
       retired_previous_private_bundle_candidate = retired\<rparr>))))))))"

section \<open>Continuity\<close>

definition continuity_result ::
  "crypto \<Rightarrow> AccountEnvelopeContinuityDispositionV1 \<Rightarrow> bytes
    \<Rightarrow> AccountEnvelopeErrorCodeV1 + VerifyContinuityResponseResultV1" where
  "continuity_result K disposition bundle =
     bindE (verify_canonical_public_bundle_v1 K bundle) (\<lambda>summary.
     Inr \<lparr>vc_disposition = disposition, vc_verified_public_bundle = bundle,
       vc_verified_summary = summary\<rparr>)"

text \<open>
  The loop over the response: \<open>index\<close> and \<open>response_len\<close> are read only by the branch of a reset,
  \<open>previous\<close> and \<open>current_bundle\<close> are the loop variables.
\<close>

fun follow_chain ::
  "crypto \<Rightarrow> nat \<Rightarrow> nat \<Rightarrow> ParsedPublicBundleV1 \<Rightarrow> bytes \<Rightarrow> bytes list
    \<Rightarrow> AccountEnvelopeErrorCodeV1 + VerifyContinuityResponseResultV1" where
  "follow_chain K response_len index previous current_bundle [] =
     continuity_result K RotationChainVerified current_bundle"
| "follow_chain K response_len index previous current_bundle (bundle # bundles) =
     bindE (parse_complete_public_bundle bundle) (\<lambda>current.
     bindE (verify_self_signature K current) (\<lambda>_.
     if tb_account_id (px_tbs current) \<noteq> tb_account_id (px_tbs previous)
        \<or> tb_previous_generation (px_tbs current) \<noteq> tb_generation (px_tbs previous)
        \<or> tb_generation (px_tbs current) \<noteq> tb_generation (px_tbs previous) + 1
     then Inl AuthorityMismatch
     else case tb_activation_kind (px_tbs current) of
       Rotation \<Rightarrow>
         bindE (ok_or (px_transition_signature current) NonCanonicalEncoding) (\<lambda>transition.
         bindE (verify_domain_signature K BUNDLE_TRANSITION_SIGNATURE_DOMAIN_V1
           [px_tbs_bytes current, px_self_signature current]
           (tb_signature_public_key (px_tbs previous)) transition) (\<lambda>_.
         follow_chain K response_len (index + 1) current bundle bundles))
     | ContinuityReset \<Rightarrow>
         if index = 0 \<and> response_len = 1
         then continuity_result K ResetAnchorRequiresAcceptance bundle
         else Inl NonCanonicalEncoding
     | Initial \<Rightarrow> Inl NonCanonicalEncoding))"

definition verify_continuity_from_pin ::
  "crypto \<Rightarrow> bytes \<Rightarrow> bytes list \<Rightarrow> bool
    \<Rightarrow> AccountEnvelopeErrorCodeV1 + VerifyContinuityResponseResultV1" where
  "verify_continuity_from_pin K pinned bundles manual_reanchor_authorized =
     bindE (verify_canonical_public_bundle_v1 K pinned) (\<lambda>pinned_summary.
     if manual_reanchor_authorized then
       (if length bundles \<noteq> 1 then Inl NonCanonicalEncoding else
        let reanchor = hd bundles in
        bindE (verify_canonical_public_bundle_v1 K reanchor) (\<lambda>summary.
        if sm_account_id summary \<noteq> sm_account_id pinned_summary then Inl AuthorityMismatch
        else Inr \<lparr>vc_disposition = ManualReanchorVerified, vc_verified_public_bundle = reanchor,
          vc_verified_summary = summary\<rparr>))
     else if bundles = [] then
       Inr \<lparr>vc_disposition = PinnedUnchanged, vc_verified_public_bundle = pinned,
         vc_verified_summary = pinned_summary\<rparr>
     else if length bundles > CONTINUITY_MAX_LINKS then Inl BoundsExceeded
     else
       bindE (parse_complete_public_bundle pinned) (\<lambda>previous.
       bindE (verify_self_signature K previous) (\<lambda>_.
       follow_chain K (length bundles) 0 previous pinned bundles)))"

definition verify_continuity_response_v1 ::
  "crypto \<Rightarrow> bytes option \<Rightarrow> bytes list \<Rightarrow> bool
    \<Rightarrow> AccountEnvelopeErrorCodeV1 + VerifyContinuityResponseResultV1" where
  "verify_continuity_response_v1 K pinned bundles manual_reanchor_authorized =
     bindE (foldE (\<lambda>total bundle. ok_or (usize_checked_add total (length bundle)) BoundsExceeded)
       0 bundles) (\<lambda>response_bytes.
     if response_bytes > CONTINUITY_MAX_CANONICAL_BYTES then Inl BoundsExceeded
     else case pinned of
       None \<Rightarrow>
         if length bundles \<noteq> 1 \<or> manual_reanchor_authorized then Inl NonCanonicalEncoding
         else continuity_result K FirstObservation (hd bundles)
     | Some pin \<Rightarrow> verify_continuity_from_pin K pin bundles manual_reanchor_authorized)"

section \<open>Invitations\<close>

definition seal_context_invitation_preview_v1 ::
  "unicode \<Rightarrow> crypto \<Rightarrow> nat \<Rightarrow> ContextInvitationAuthorityV1
    \<Rightarrow> AccountEnvelopePrivateBundleAuthorityV1 \<Rightarrow> ContextInvitationPreviewV1 \<Rightarrow> bytes \<Rightarrow> bytes
    \<Rightarrow> AccountEnvelopeErrorCodeV1 + bytes" where
  "seal_context_invitation_preview_v1 U K draw authority expected preview recipient_public_bundle
     sender_private_bundle =
     bindE (validate_invitation_authority authority) (\<lambda>_.
     bindE (validate_bundle_authority expected) (\<lambda>_.
     if ba_account_id expected \<noteq> ia_sender_account_id authority
        \<or> ba_generation expected \<noteq> ia_sender_generation authority
     then Inl AuthorityMismatch
     else
     bindE (decode_and_validate_private_bundle K draw sender_private_bundle expected True) (\<lambda>sender.
     bindE (verify_canonical_public_bundle_v1 K recipient_public_bundle) (\<lambda>recipient.
     if sm_account_id recipient \<noteq> ia_recipient_account_id authority
        \<or> sm_generation recipient \<noteq> ia_recipient_generation authority
     then Inl AuthorityMismatch
     else
     bindE (canonicalize_and_encode_preview U preview) (\<lambda>inner.
     let plain_len = plaintext_bytes (ia_padding_class authority) in
     if length inner > plain_len - 2 then Inl BoundsExceeded
     else if length inner \<ge> 2 ^ 16 then Inl BoundsExceeded
     else
     let plaintext = be16 (of_nat (length inner)) @ inner @ replicate (plain_len - 2 - length inner) 0 in
     bindE (encode_invitation_header authority) (\<lambda>header.
     bindE (hpke_seal_invitation K (draw + 1) (sm_hpke_public_key recipient) header plaintext)
       (\<lambda>(encapsulation, ciphertext).
     if length ciphertext \<noteq> ciphertext_bytes (ia_padding_class authority) then Inl InternalCryptoFailure
     else if length ciphertext \<ge> 2 ^ 16 then Inl BoundsExceeded
     else
     bindE (ok_or (db_signature_private_key sender) PrivateBundleInvalid) (\<lambda>sig_private_key.
     bindE (sign_domain_message K ENVELOPE_SIGNATURE_DOMAIN_V1
       [header, encapsulation, be16 (of_nat (length ciphertext)), ciphertext] sig_private_key)
       (\<lambda>signature.
     encode_invitation_envelope header encapsulation ciphertext signature)))))))))"

definition verify_and_open_context_invitation_preview_v1 ::
  "unicode \<Rightarrow> crypto \<Rightarrow> nat \<Rightarrow> bytes \<Rightarrow> ExpectedContextInvitationAuthorityV1 \<Rightarrow> bytes \<Rightarrow> bytes
    \<Rightarrow> AccountEnvelopeErrorCodeV1 + ContextInvitationPreviewV1" where
  "verify_and_open_context_invitation_preview_v1 U K draw envelope expected recipient_private_bundle
     sender_public_bundle =
     bindE (validate_expected_invitation expected) (\<lambda>_.
     bindE (parse_invitation_envelope envelope) (\<lambda>parsed.
     if pi_authority parsed \<noteq> ea_invitation expected then Inl AuthorityMismatch
     else
     bindE (verify_canonical_public_bundle_v1 K sender_public_bundle) (\<lambda>sender.
     if sm_account_id sender \<noteq> ia_sender_account_id (pi_authority parsed)
        \<or> sm_generation sender \<noteq> ia_sender_generation (pi_authority parsed)
     then Inl AuthorityMismatch
     else
     let expected_recipient = \<lparr>ba_account_id = ia_recipient_account_id (pi_authority parsed),
           ba_generation = ia_recipient_generation (pi_authority parsed),
           ba_root_installation_id = ea_local_root_installation_id expected,
           ba_root_authority_generation = ea_local_root_authority_generation expected\<rparr> in
     bindE (decode_and_validate_private_bundle K draw recipient_private_bundle expected_recipient False)
       (\<lambda>recipient.
     if length (pi_ciphertext parsed) \<ge> 2 ^ 16 then Inl BoundsExceeded
     else
     bindE (verify_domain_signature K ENVELOPE_SIGNATURE_DOMAIN_V1
       [pi_canonical_header parsed, pi_encapsulation parsed,
        be16 (of_nat (length (pi_ciphertext parsed))), pi_ciphertext parsed]
       (sm_signature_public_key sender) (pi_signature parsed)) (\<lambda>_.
     bindE (hpke_open_invitation K (db_hpke_private_key recipient) (pi_canonical_header parsed)
       (pi_encapsulation parsed) (pi_ciphertext parsed)) (\<lambda>plaintext.
     if length plaintext \<noteq> plaintext_bytes (ia_padding_class (pi_authority parsed))
        \<or> length plaintext < 2
     then Inl PlaintextSchemaInvalid
     else
     let inner_len = unat (word_of_be (byte_range plaintext 0 2) :: u16) in
     bindE (ok_or (usize_checked_add 2 inner_len) PlaintextSchemaInvalid) (\<lambda>inner_end.
     if inner_len > INVITATION_INNER_MAX_BYTES \<or> inner_end > length plaintext
        \<or> list_ex (\<lambda>b. b \<noteq> 0) (drop inner_end plaintext)
     then Inl PlaintextSchemaInvalid
     else decode_canonical_preview U (byte_range plaintext 2 inner_end))))))))"

end
