(* ===== verification/EnvelopeLaws.thy ===== *)
theory EnvelopeLaws
  imports EnvelopeOps
begin

text \<open>
  What the operations of the account envelope establish. \<open>published\<close> says that bytes are a
  canonical public bundle with a valid self-signature, \<open>usable\<close> that a private bundle is the
  encoding of keys that work; the operations are characterised by these.
\<close>

section \<open>Public bundles\<close>

definition published :: "crypto \<Rightarrow> bytes \<Rightarrow> ParsedPublicBundleV1 \<Rightarrow> bool" where
  "published K bundle p \<longleftrightarrow>
     parse_complete_public_bundle bundle = Inr p \<and>
     ed25519_verify K (BUNDLE_SELF_SIGNATURE_DOMAIN_V1 @ px_tbs_bytes p)
       (tb_signature_public_key (px_tbs p)) (px_self_signature p)"

definition summary_of :: "crypto \<Rightarrow> bytes \<Rightarrow> PublicBundleTbsV1 \<Rightarrow> AccountEnvelopePublicBundleSummaryV1" where
  "summary_of K bundle t =
     \<lparr>sm_account_id = tb_account_id t, sm_generation = tb_generation t,
       sm_hpke_public_key = tb_hpke_public_key t, sm_signature_public_key = tb_signature_public_key t,
       sm_activation_kind = tb_activation_kind t, sm_previous_generation = tb_previous_generation t,
       sm_reset_reason = tb_reset_reason t,
       sm_digest_sha256 = sha256 K (BUNDLE_DIGEST_DOMAIN_V1 @ bundle)\<rparr>"

lemma summary_of_simps [simp]:
  "sm_account_id (summary_of K b t) = tb_account_id t"
  "sm_generation (summary_of K b t) = tb_generation t"
  "sm_hpke_public_key (summary_of K b t) = tb_hpke_public_key t"
  "sm_signature_public_key (summary_of K b t) = tb_signature_public_key t"
  by (simp_all add: summary_of_def)

lemma parsed_tbs_length: "parsed_ok p \<Longrightarrow> length (px_tbs_bytes p) = 107"
  using length_encode_public_bundle_tbs [of "px_tbs p"]
  by (simp add: parsed_ok_def PUBLIC_BUNDLE_TBS_BYTES_def)

lemma verify_self_signature_iff:
  "parsed_ok p \<Longrightarrow> verify_self_signature K p = Inr u \<longleftrightarrow>
     ed25519_verify K (BUNDLE_SELF_SIGNATURE_DOMAIN_V1 @ px_tbs_bytes p)
       (tb_signature_public_key (px_tbs p)) (px_self_signature p)"
  by (simp add: verify_self_signature_def verify_domain_signature_Inr_iff domain_lengths
      parsed_tbs_length SIGNATURE_TRANSCRIPT_MAX_BYTES_def)

lemma published_parse: "published K b p \<Longrightarrow> parse_complete_public_bundle b = Inr p"
  by (simp add: published_def)

lemma published_ok:
  assumes "published K b p"
  shows "parsed_ok p" "b = encode_parsed p" "shape_ok (px_tbs p) (px_transition_signature p \<noteq> None)"
    "tbs_ok (px_tbs p)" "verify_self_signature K p = Inr ()"
proof -
  show ok: "parsed_ok p" and "b = encode_parsed p" "shape_ok (px_tbs p) (px_transition_signature p \<noteq> None)"
    using assms by (auto simp: published_def parse_complete_public_bundle_Inr_iff)
  then show "tbs_ok (px_tbs p)" "verify_self_signature K p = Inr ()"
    using assms verify_self_signature_iff [OF ok] by (auto simp: parsed_ok_def published_def)
qed

lemma parse_self_signed_iff:
  "(\<exists>p. parse_complete_public_bundle b = Inr p \<and> verify_self_signature K p = Inr () \<and> Q p)
    \<longleftrightarrow> (\<exists>p. published K b p \<and> Q p)"
  using verify_self_signature_iff [of _ K "()"]
  by (auto simp: published_def parse_complete_public_bundle_Inr_iff)

lemma public_bundle_digest_Inr_iff:
  "public_bundle_digest_v1 K b = Inr d \<longleftrightarrow>
     (\<exists>p. published K b p) \<and> d = sha256 K (BUNDLE_DIGEST_DOMAIN_V1 @ b)"
  using parse_self_signed_iff [of b K "\<lambda>_. True"]
  by (auto simp: public_bundle_digest_v1_def bindE_Inr_iff)

lemma verify_canonical_Inr_iff:
  "verify_canonical_public_bundle_v1 K b = Inr s \<longleftrightarrow>
     (\<exists>p. published K b p \<and> s = summary_of K b (px_tbs p))"
proof -
  have "verify_canonical_public_bundle_v1 K b = Inr s \<longleftrightarrow>
      (\<exists>p. parse_complete_public_bundle b = Inr p \<and> verify_self_signature K p = Inr () \<and>
        ((\<exists>p. published K b p) \<and> s = summary_of K b (px_tbs p)))"
    by (auto simp: verify_canonical_public_bundle_v1_def bindE_Inr_iff public_bundle_digest_Inr_iff
        summary_of_def Let_def)
  then show ?thesis unfolding parse_self_signed_iff by blast
qed

section \<open>Continuity\<close>

text \<open>One rotation: the successor is signed by the key of its predecessor.\<close>

definition rotation_link :: "crypto \<Rightarrow> ParsedPublicBundleV1 \<Rightarrow> ParsedPublicBundleV1 \<Rightarrow> bool" where
  "rotation_link K p c \<longleftrightarrow>
     tb_account_id (px_tbs c) = tb_account_id (px_tbs p) \<and>
     tb_activation_kind (px_tbs c) = Rotation \<and>
     tb_previous_generation (px_tbs c) = tb_generation (px_tbs p) \<and>
     unat (tb_generation (px_tbs c)) = unat (tb_generation (px_tbs p)) + 1 \<and>
     (\<exists>s. px_transition_signature c = Some s \<and>
        ed25519_verify K (BUNDLE_TRANSITION_SIGNATURE_DOMAIN_V1 @ px_tbs_bytes c @ px_self_signature c)
          (tb_signature_public_key (px_tbs p)) s)"

fun rotation_chain :: "crypto \<Rightarrow> ParsedPublicBundleV1 \<Rightarrow> bytes list \<Rightarrow> ParsedPublicBundleV1 \<Rightarrow> bool" where
  "rotation_chain K p [] q \<longleftrightarrow> p = q"
| "rotation_chain K p (b # bs) q \<longleftrightarrow> (\<exists>c. published K b c \<and> rotation_link K p c \<and> rotation_chain K c bs q)"

lemma rotation_chain_advances:
  "rotation_chain K p bs q \<Longrightarrow>
     tb_account_id (px_tbs q) = tb_account_id (px_tbs p) \<and>
     unat (tb_generation (px_tbs q)) = unat (tb_generation (px_tbs p)) + length bs"
  by (induction bs arbitrary: p) (auto simp: rotation_link_def)

lemma rotation_chain_published:
  "rotation_chain K p bs q \<Longrightarrow> published K b p \<Longrightarrow> published K (last (b # bs)) q"
  by (induction bs arbitrary: p b) auto

lemma continuity_result_Inr_iff:
  "continuity_result K d b = Inr r \<longleftrightarrow>
     (\<exists>p. published K b p \<and> r = \<lparr>vc_disposition = d, vc_verified_public_bundle = b,
        vc_verified_summary = summary_of K b (px_tbs p)\<rparr>)"
  by (auto simp: continuity_result_def bindE_Inr_iff verify_canonical_Inr_iff)

lemma web_range_succ:
  assumes "in_web_range g"
  shows "h = g + 1 \<longleftrightarrow> unat h = unat g + 1"
proof -
  have "unat g \<le> unat MAX_WEB_SAFE_INTEGER" using assms by (simp add: in_web_range_def word_le_nat_alt)
  also have "\<dots> < 2 ^ 64 - 1" by (simp add: MAX_WEB_SAFE_INTEGER_def)
  finally have "unat g + 1 < 2 ^ 64" by simp
  then have "unat (g + 1) = unat g + 1" by (simp add: unat_add_lem [where 'a = 64, simplified] unat_word_ariths)
  then show ?thesis by (auto simp: word_unat_eq_iff)
qed

text \<open>A reset is a successor that its predecessor did not sign.\<close>

definition reset_link :: "ParsedPublicBundleV1 \<Rightarrow> ParsedPublicBundleV1 \<Rightarrow> bool" where
  "reset_link p c \<longleftrightarrow>
     tb_account_id (px_tbs c) = tb_account_id (px_tbs p) \<and>
     tb_activation_kind (px_tbs c) = ContinuityReset \<and>
     tb_previous_generation (px_tbs c) = tb_generation (px_tbs p) \<and>
     unat (tb_generation (px_tbs c)) = unat (tb_generation (px_tbs p)) + 1"

lemma published_unique: "published K b p \<Longrightarrow> published K b q \<Longrightarrow> p = q"
  by (simp add: published_def)

lemma verify_transition_iff:
  assumes "parsed_ok c"
  shows "verify_domain_signature K BUNDLE_TRANSITION_SIGNATURE_DOMAIN_V1
       [px_tbs_bytes c, px_self_signature c] key s = Inr u \<longleftrightarrow>
     ed25519_verify K (BUNDLE_TRANSITION_SIGNATURE_DOMAIN_V1 @ px_tbs_bytes c @ px_self_signature c) key s"
  using assms parsed_tbs_length [OF assms]
  by (simp add: verify_domain_signature_Inr_iff domain_lengths parsed_ok_def SIGNATURE_TRANSCRIPT_MAX_BYTES_def)

lemma kind_case_iff:
  "(case k of Initial \<Rightarrow> Inl e | Rotation \<Rightarrow> m | ContinuityReset \<Rightarrow> m') = Inr r \<longleftrightarrow>
     k = Rotation \<and> m = Inr r \<or> k = ContinuityReset \<and> m' = Inr r"
  by (cases k) auto

text \<open>One round of the loop, on a published successor of a well-formed predecessor.\<close>

lemma follow_chain_Cons_iff:
  assumes p: "tbs_ok (px_tbs p)"
  shows "follow_chain K n i p cur (b # bs) = Inr r \<longleftrightarrow>
     (\<exists>c. published K b c \<and>
       (rotation_link K p c \<and> follow_chain K n (i + 1) c b bs = Inr r \<or>
        reset_link p c \<and> i = 0 \<and> n = 1 \<and> continuity_result K ResetAnchorRequiresAcceptance b = Inr r))"
proof -
  let ?same = "\<lambda>c. tb_account_id (px_tbs c) = tb_account_id (px_tbs p) \<and>
     tb_previous_generation (px_tbs c) = tb_generation (px_tbs p) \<and>
     tb_generation (px_tbs c) = tb_generation (px_tbs p) + 1"
  have succ: "h = tb_generation (px_tbs p) + 1 \<longleftrightarrow> unat h = unat (tb_generation (px_tbs p)) + 1" for h
    using p web_range_succ by (auto simp: tbs_ok_def)
  have "follow_chain K n i p cur (b # bs) = Inr r \<longleftrightarrow> (\<exists>c. parse_complete_public_bundle b = Inr c \<and>
      verify_self_signature K c = Inr () \<and> (?same c \<and>
        (tb_activation_kind (px_tbs c) = Rotation \<and> (\<exists>s. px_transition_signature c = Some s \<and>
           verify_domain_signature K BUNDLE_TRANSITION_SIGNATURE_DOMAIN_V1
             [px_tbs_bytes c, px_self_signature c] (tb_signature_public_key (px_tbs p)) s = Inr ()) \<and>
           follow_chain K n (i + 1) c b bs = Inr r
        \<or> tb_activation_kind (px_tbs c) = ContinuityReset \<and> i = 0 \<and> n = 1 \<and>
           continuity_result K ResetAnchorRequiresAcceptance b = Inr r)))"
    by (auto simp: bindE_Inr_iff ok_or_Inr_iff if_Inl_Inr_iff kind_case_iff)
  also have "\<dots> \<longleftrightarrow> (\<exists>c. published K b c \<and> (?same c \<and>
        (tb_activation_kind (px_tbs c) = Rotation \<and> (\<exists>s. px_transition_signature c = Some s \<and>
           verify_domain_signature K BUNDLE_TRANSITION_SIGNATURE_DOMAIN_V1
             [px_tbs_bytes c, px_self_signature c] (tb_signature_public_key (px_tbs p)) s = Inr ()) \<and>
           follow_chain K n (i + 1) c b bs = Inr r
        \<or> tb_activation_kind (px_tbs c) = ContinuityReset \<and> i = 0 \<and> n = 1 \<and>
           continuity_result K ResetAnchorRequiresAcceptance b = Inr r)))"
    by (rule parse_self_signed_iff)
  also have "\<dots> \<longleftrightarrow> (\<exists>c. published K b c \<and>
       (rotation_link K p c \<and> follow_chain K n (i + 1) c b bs = Inr r \<or>
        reset_link p c \<and> i = 0 \<and> n = 1 \<and> continuity_result K ResetAnchorRequiresAcceptance b = Inr r))"
    using published_ok(1) verify_transition_iff
    by (intro ex_cong1 conj_cong refl) (auto simp: rotation_link_def reset_link_def succ)
  finally show ?thesis .
qed

lemma follow_chain_Inr_iff:
  assumes "tbs_ok (px_tbs p)" "n = i + length bs"
  shows "follow_chain K n i p cur bs = Inr r \<longleftrightarrow>
     (\<exists>q. rotation_chain K p bs q) \<and> continuity_result K RotationChainVerified (last (cur # bs)) = Inr r
   \<or> (\<exists>b c. bs = [b] \<and> i = 0 \<and> published K b c \<and> reset_link p c \<and>
        continuity_result K ResetAnchorRequiresAcceptance b = Inr r)"
  using assms
proof (induction bs arbitrary: p i cur)
  case (Cons b bs)
  have step: "follow_chain K n (i + 1) c b bs = Inr r \<longleftrightarrow>
      (\<exists>q. rotation_chain K c bs q) \<and> continuity_result K RotationChainVerified (last (b # bs)) = Inr r"
    if "published K b c" for c
    using Cons.IH [of c "i + 1" b] Cons.prems(2) published_ok(4) [OF that] by simp
  define R where "R \<longleftrightarrow> continuity_result K RotationChainVerified (last (b # bs)) = Inr r"
  have "follow_chain K n i p cur (b # bs) = Inr r \<longleftrightarrow> (\<exists>c. published K b c \<and>
      (rotation_link K p c \<and> (\<exists>q. rotation_chain K c bs q) \<and> R \<or>
       reset_link p c \<and> i = 0 \<and> n = 1 \<and> continuity_result K ResetAnchorRequiresAcceptance b = Inr r))"
    unfolding follow_chain_Cons_iff [OF Cons.prems(1)] R_def using step by blast
  also have "\<dots> \<longleftrightarrow> (\<exists>q. rotation_chain K p (b # bs) q) \<and> R
      \<or> (\<exists>b' c. b # bs = [b'] \<and> i = 0 \<and> published K b' c \<and> reset_link p c \<and>
           continuity_result K ResetAnchorRequiresAcceptance b' = Inr r)"
    using Cons.prems(2) by auto
  finally show ?case by (simp add: R_def)
qed (auto intro!: exI)

definition continuity_verdict ::
  "crypto \<Rightarrow> bytes option \<Rightarrow> bytes list \<Rightarrow> bool \<Rightarrow> AccountEnvelopeContinuityDispositionV1 \<Rightarrow> bytes
    \<Rightarrow> ParsedPublicBundleV1 \<Rightarrow> bool" where
  "continuity_verdict K pinned bundles manual disposition verified q \<longleftrightarrow>
     (case pinned of
       None \<Rightarrow> disposition = FirstObservation \<and> \<not> manual \<and> bundles = [verified]
     | Some pin \<Rightarrow> (\<exists>p. published K pin p \<and>
         (case disposition of
           FirstObservation \<Rightarrow> False
         | PinnedUnchanged \<Rightarrow> \<not> manual \<and> bundles = [] \<and> verified = pin
         | RotationChainVerified \<Rightarrow> \<not> manual \<and> bundles \<noteq> [] \<and> length bundles \<le> CONTINUITY_MAX_LINKS \<and>
             verified = last bundles \<and> rotation_chain K p bundles q
         | ResetAnchorRequiresAcceptance \<Rightarrow> \<not> manual \<and> bundles = [verified] \<and> reset_link p q
         | ManualReanchorVerified \<Rightarrow> manual \<and> bundles = [verified] \<and>
             tb_account_id (px_tbs q) = tb_account_id (px_tbs p))))"

lemma from_pin_Inr_iff:
  "verify_continuity_from_pin K pin bundles manual = Inr r \<longleftrightarrow>
     (\<exists>q. published K (vc_verified_public_bundle r) q \<and>
        vc_verified_summary r = summary_of K (vc_verified_public_bundle r) (px_tbs q) \<and>
        continuity_verdict K (Some pin) bundles manual (vc_disposition r) (vc_verified_public_bundle r) q)"
proof (cases "\<exists>p. published K pin p")
  case False
  then show ?thesis
    by (auto simp: verify_continuity_from_pin_def bindE_Inr_iff verify_canonical_Inr_iff continuity_verdict_def)
next
  case True
  then obtain p where p: "published K pin p" by blast
  note pin = published_ok(4,5) [OF p] published_parse [OF p]
  have pinned: "verify_canonical_public_bundle_v1 K pin = Inr s \<longleftrightarrow> s = summary_of K pin (px_tbs p)" for s
    using p published_unique [of K pin] by (auto simp: verify_canonical_Inr_iff)
  have verdict: "continuity_verdict K (Some pin) bundles manual d v q \<longleftrightarrow>
      (case d of
           FirstObservation \<Rightarrow> False
         | PinnedUnchanged \<Rightarrow> \<not> manual \<and> bundles = [] \<and> v = pin
         | RotationChainVerified \<Rightarrow> \<not> manual \<and> bundles \<noteq> [] \<and> length bundles \<le> CONTINUITY_MAX_LINKS \<and>
             v = last bundles \<and> rotation_chain K p bundles q
         | ResetAnchorRequiresAcceptance \<Rightarrow> \<not> manual \<and> bundles = [v] \<and> reset_link p q
         | ManualReanchorVerified \<Rightarrow> manual \<and> bundles = [v] \<and>
             tb_account_id (px_tbs q) = tb_account_id (px_tbs p))" for d v q
    using p published_unique [of K pin] unfolding continuity_verdict_def by auto
  have chain: "(\<exists>q. rotation_chain K p bundles q) \<and> continuity_result K RotationChainVerified (last (pin # bundles)) = Inr r
    \<longleftrightarrow> (\<exists>q. rotation_chain K p bundles q \<and> r = \<lparr>vc_disposition = RotationChainVerified,
        vc_verified_public_bundle = last (pin # bundles),
        vc_verified_summary = summary_of K (last (pin # bundles)) (px_tbs q)\<rparr>)"
    unfolding continuity_result_Inr_iff
    using rotation_chain_published [OF _ p] published_unique [of K "last (pin # bundles)"] by blast
  have result: "verify_continuity_from_pin K pin bundles manual = Inr r \<longleftrightarrow>
      (if manual then \<exists>b q. bundles = [b] \<and> published K b q \<and>
         tb_account_id (px_tbs q) = tb_account_id (px_tbs p) \<and>
         r = \<lparr>vc_disposition = ManualReanchorVerified, vc_verified_public_bundle = b,
           vc_verified_summary = summary_of K b (px_tbs q)\<rparr>
       else if bundles = [] then r = \<lparr>vc_disposition = PinnedUnchanged, vc_verified_public_bundle = pin,
           vc_verified_summary = summary_of K pin (px_tbs p)\<rparr>
       else length bundles \<le> CONTINUITY_MAX_LINKS \<and>
         ((\<exists>q. rotation_chain K p bundles q) \<and> continuity_result K RotationChainVerified (last (pin # bundles)) = Inr r
          \<or> (\<exists>b c. bundles = [b] \<and> published K b c \<and> reset_link p c \<and>
               continuity_result K ResetAnchorRequiresAcceptance b = Inr r)))"
    unfolding verify_continuity_from_pin_def bindE_Inr_iff pinned
    by (auto simp: bindE_Inr_iff if_Inl_Inr_iff pin follow_chain_Inr_iff verify_canonical_Inr_iff
        length_Suc_conv simp del: last.simps) blast
  have reset: "(\<exists>b c. bundles = [b] \<and> published K b c \<and> reset_link p c \<and>
      continuity_result K ResetAnchorRequiresAcceptance b = Inr r)
    \<longleftrightarrow> (\<exists>b q. bundles = [b] \<and> published K b q \<and> reset_link p q \<and>
      r = \<lparr>vc_disposition = ResetAnchorRequiresAcceptance, vc_verified_public_bundle = b,
        vc_verified_summary = summary_of K b (px_tbs q)\<rparr>)"
    unfolding continuity_result_Inr_iff by (blast dest: published_unique)
  obtain d v s where r: "r = \<lparr>vc_disposition = d, vc_verified_public_bundle = v, vc_verified_summary = s\<rparr>"
    by (cases r)
  note result = result [unfolded chain reset, unfolded r]
  consider "manual" | "\<not> manual" "bundles = []" | "\<not> manual" "bundles \<noteq> []" by blast
  then show ?thesis
  proof cases
    case 1
    then show ?thesis unfolding verdict r result by (cases d) auto
  next
    case 2
    have "published K pin q \<longleftrightarrow> q = p" for q using p published_unique by blast
    with 2 show ?thesis unfolding verdict r result by (cases d) auto
  next
    case 3
    then have "rotation_chain K p bundles q \<longleftrightarrow> published K (last bundles) q \<and> rotation_chain K p bundles q" for q
      using rotation_chain_published [of K p bundles q pin] p by auto
    with 3 show ?thesis unfolding verdict r result by (cases d) (auto simp: CONTINUITY_MAX_LINKS_def)
  qed
qed

lemma continuity_Inr_iff:
  "verify_continuity_response_v1 K pinned bundles manual = Inr r \<longleftrightarrow>
     length (concat bundles) \<le> CONTINUITY_MAX_CANONICAL_BYTES \<and>
     (\<exists>q. published K (vc_verified_public_bundle r) q \<and>
        vc_verified_summary r = summary_of K (vc_verified_public_bundle r) (px_tbs q) \<and>
        continuity_verdict K pinned bundles manual (vc_disposition r) (vc_verified_public_bundle r) q)"
proof (cases pinned)
  case None
  then show ?thesis
    by (cases r) (auto simp: verify_continuity_response_v1_def bindE_Inr_iff transcript_fold
        CONTINUITY_MAX_CANONICAL_BYTES_def continuity_result_Inr_iff continuity_verdict_def
        length_Suc_conv if_Inl_Inr_iff)
next
  case (Some pin)
  then show ?thesis
    by (simp add: verify_continuity_response_v1_def bindE_Inr_iff transcript_fold if_Inl_Inr_iff
        CONTINUITY_MAX_CANONICAL_BYTES_def from_pin_Inr_iff) auto
qed

section \<open>Private bundles\<close>

text \<open>The self-test of the keys, which the operations repeat whenever they read a bundle.\<close>

definition keys_match :: "crypto \<Rightarrow> DecodedPrivateBundleV1 \<Rightarrow> bool" where
  "keys_match K b \<longleftrightarrow>
     hpke_pair K (db_hpke_private_key b) (db_hpke_public_key b) \<and>
     (\<forall>k. db_signature_private_key b = Some k \<longrightarrow> signature_pair K k (db_signature_public_key b))"

lemma hpke_pairE:
  assumes "hpke_pair K private_key public_key"
  obtains kem ct where "hpke_seal K draw public_key info aad pt = Some (kem, ct)" "length kem = 32"
    "length ct = length pt + 16" "hpke_open K kem ct private_key info aad = Some pt"
  using assms unfolding hpke_pair_def by blast

lemma keys_match_validate:
  assumes "keys_match K b"
  shows "validate_private_bundle_crypto K draw b = Inr ()"
proof -
  from assms obtain kem ct where
    "hpke_seal K draw (db_hpke_public_key b) KEY_SELF_TEST_INFO_V1 KEY_SELF_TEST_AAD_V1
       KEY_SELF_TEST_PLAINTEXT_V1 = Some (kem, ct)"
    "hpke_open K kem ct (db_hpke_private_key b) KEY_SELF_TEST_INFO_V1 KEY_SELF_TEST_AAD_V1
       = Some KEY_SELF_TEST_PLAINTEXT_V1"
    unfolding keys_match_def by (metis hpke_pairE)
  moreover have "(case db_signature_private_key b of
         None \<Rightarrow> Inr ()
       | Some private_key \<Rightarrow>
           bindE (ok_or (ed25519_sign K KEY_SELF_TEST_INFO_V1 private_key) PrivateBundleInvalid) (\<lambda>signature.
           require (ed25519_verify K KEY_SELF_TEST_INFO_V1 (db_signature_public_key b) signature)
             PrivateBundleInvalid)) = Inr ()"
  proof (cases "db_signature_private_key b")
    case (Some k)
    then obtain s where "ed25519_sign K KEY_SELF_TEST_INFO_V1 k = Some s"
      "ed25519_verify K KEY_SELF_TEST_INFO_V1 (db_signature_public_key b) s"
      using assms unfolding keys_match_def signature_pair_def by blast
    then show ?thesis by (simp add: Some)
  qed simp
  ultimately show ?thesis by (simp add: validate_private_bundle_crypto_def)
qed

lemma decode_and_validate_Inr:
  assumes "decode_and_validate_private_bundle K draw input expected require_active = Inr b"
  shows "private_bundle_ok b" "input = encode_private_bundle b" "db_authority b = expected"
    "require_active \<Longrightarrow> db_state b = ActiveFull \<and> db_signature_private_key b \<noteq> None"
  using assms
  by (auto simp: decode_and_validate_private_bundle_def bindE_Inr_iff if_Inl_Inr_iff
      decode_private_bundle_Inr_iff private_bundle_ok_def state_allows_key_def)

lemma decode_and_validate_run:
  assumes "private_bundle_ok b" "keys_match K b" "require_active \<Longrightarrow> db_state b = ActiveFull"
  shows "decode_and_validate_private_bundle K draw (encode_private_bundle b) (db_authority b) require_active = Inr b"
proof -
  have "decode_private_bundle (encode_private_bundle b) = Inr b"
    using assms(1) by (simp add: decode_private_bundle_Inr_iff)
  then show ?thesis
    using assms by (auto simp: decode_and_validate_private_bundle_def keys_match_validate)
qed

text \<open>A retired bundle: its holder can open, but nothing that needs a signature.\<close>

lemma retired_is_refused:
  assumes "private_bundle_ok b" "db_state b = RetiredDecryptOnly"
  shows "decode_and_validate_private_bundle K draw (encode_private_bundle b) expected True = Inl PrivateBundleInvalid"
proof -
  have "decode_private_bundle (encode_private_bundle b) = Inr b"
    using assms(1) by (simp add: decode_private_bundle_Inr_iff)
  then show ?thesis
    using assms(2) by (simp add: decode_and_validate_private_bundle_def)
qed

end
