(* ===== verification/BundleLaws.thy ===== *)
theory BundleLaws
  imports EnvelopeLaws
begin

text \<open>
  The life of a key bundle: what \<open>create_self_signed_public_bundle_v1\<close> and
  \<open>authorize_successor_public_bundle_v1\<close> return on matching keys, and what their success means.
\<close>

section \<open>Self-signed bundles\<close>

lemma requested_shape_iff:
  "validate_requested_shape t = Inr u \<longleftrightarrow> shape_ok t (tb_activation_kind t = Rotation)"
  by (auto simp: validate_requested_shape_def shape_ok_def validate_bundle_shape_def Let_def
      split: AccountEnvelopeActivationKindV1.splits)

definition requested_tbs ::
  "DecodedPrivateBundleV1 \<Rightarrow> AccountEnvelopeActivationKindV1 \<Rightarrow> AccountEnvelopeResetReasonV1 option \<Rightarrow> u64
    \<Rightarrow> PublicBundleTbsV1" where
  "requested_tbs b kind reason previous =
     \<lparr>tb_account_id = ba_account_id (db_authority b), tb_generation = ba_generation (db_authority b),
       tb_hpke_public_key = db_hpke_public_key b, tb_signature_public_key = db_signature_public_key b,
       tb_activation_kind = kind, tb_previous_generation = previous, tb_reset_reason = reason\<rparr>"

lemma requested_tbs_simps [simp]:
  "tb_account_id (requested_tbs b k q n) = ba_account_id (db_authority b)"
  "tb_generation (requested_tbs b k q n) = ba_generation (db_authority b)"
  "tb_hpke_public_key (requested_tbs b k q n) = db_hpke_public_key b"
  "tb_signature_public_key (requested_tbs b k q n) = db_signature_public_key b"
  "tb_activation_kind (requested_tbs b k q n) = k"
  "tb_previous_generation (requested_tbs b k q n) = n"
  "tb_reset_reason (requested_tbs b k q n) = q"
  by (simp_all add: requested_tbs_def)

lemma previous_in_range:
  fixes g :: u64
  assumes "in_web_range g"
  shows "g - 1 \<le> MAX_WEB_SAFE_INTEGER"
proof -
  have "g \<noteq> 0" "g \<le> MAX_WEB_SAFE_INTEGER" using assms by (auto simp: in_web_range_def)
  then have "unat (g - 1) = unat g - 1" by (metis unat_minus_one)
  with \<open>g \<le> MAX_WEB_SAFE_INTEGER\<close> show ?thesis by (simp add: word_le_nat_alt)
qed

lemma requested_tbs_ok:
  assumes "private_bundle_ok b" "shape_ok (requested_tbs b kind reason previous) (kind = Rotation)"
  shows "tbs_ok (requested_tbs b kind reason previous)"
proof -
  have g: "in_web_range (ba_generation (db_authority b))" and "is_canonical_uuid (ba_account_id (db_authority b))"
    using assms(1) by (auto simp: private_bundle_ok_def bundle_authority_ok_def web_range_iff)
  moreover have "previous = 0 \<or> previous = ba_generation (db_authority b) - 1"
    using assms(2) by (auto simp: shape_ok_def validate_bundle_shape_def Let_def
        split: AccountEnvelopeActivationKindV1.splits if_splits)
  then have "previous \<le> MAX_WEB_SAFE_INTEGER"
    using previous_in_range [OF g] by auto
  ultimately show ?thesis
    using assms(1) by (simp add: tbs_ok_def private_bundle_ok_def bundle_authority_ok_def)
qed

text \<open>What the operation returns on a bundle whose keys match.\<close>

lemma create_self_signed_run:
  assumes b: "private_bundle_ok b" "db_state b = ActiveFull" "keys_match K b"
    and shape: "shape_ok (requested_tbs b kind reason previous) (kind = Rotation)"
  obtains s where
    "parsed_ok \<lparr>px_tbs = requested_tbs b kind reason previous,
       px_tbs_bytes = encode_public_bundle_tbs (requested_tbs b kind reason previous),
       px_self_signature = s, px_transition_signature = None\<rparr>"
    "ed25519_verify K (BUNDLE_SELF_SIGNATURE_DOMAIN_V1 @
       encode_public_bundle_tbs (requested_tbs b kind reason previous)) (db_signature_public_key b) s"
    "create_self_signed_public_bundle_v1 K draw (ba_account_id (db_authority b))
       (ba_generation (db_authority b)) kind reason previous (db_authority b) (encode_private_bundle b)
     = Inr (if kind = Rotation
        then NonPublishableRotationCandidate
          (encode_rotation_candidate (encode_public_bundle_tbs (requested_tbs b kind reason previous)) s)
        else CanonicalPublicBundle
          (encode_complete_public_bundle (encode_public_bundle_tbs (requested_tbs b kind reason previous)) s None))"
proof -
  let ?t = "requested_tbs b kind reason previous"
  let ?m = "encode_public_bundle_tbs ?t"
  have t: "tbs_ok ?t" by (rule requested_tbs_ok [OF b(1) shape])
  obtain k where k: "db_signature_private_key b = Some k"
    using b by (auto simp: private_bundle_ok_def state_allows_key_def)
  have pair: "signature_pair K k (db_signature_public_key b)"
    using b(3) k by (simp add: keys_match_def)
  have "length BUNDLE_SELF_SIGNATURE_DOMAIN_V1 + length (concat [?m]) \<le> SIGNATURE_TRANSCRIPT_MAX_BYTES"
    using length_encode_public_bundle_tbs [OF t]
    by (simp add: domain_lengths PUBLIC_BUNDLE_TBS_BYTES_def SIGNATURE_TRANSCRIPT_MAX_BYTES_def)
  then obtain s where s: "sign_domain_message K BUNDLE_SELF_SIGNATURE_DOMAIN_V1 [?m] k = Inr s" "length s = 64"
    "ed25519_verify K (BUNDLE_SELF_SIGNATURE_DOMAIN_V1 @ ?m) (db_signature_public_key b) s"
    using sign_with_pair [OF pair] by (metis concat.simps append_Nil2)
  let ?p = "\<lparr>px_tbs = ?t, px_tbs_bytes = ?m, px_self_signature = s, px_transition_signature = None\<rparr>"
  have p: "parsed_ok ?p" using t s(2) by (simp add: parsed_ok_def)
  have pub: "published K (encode_complete_public_bundle ?m s None) ?p" if "kind \<noteq> Rotation"
    using that p s(3) shape by (simp add: published_def parse_complete_public_bundle_Inr_iff encode_parsed_def)
  have valid: "validate_bundle_authority (db_authority b) = Inr ()"
    using b(1) by (simp add: private_bundle_ok_def bundle_authority_ok_def)
  have dec: "decode_and_validate_private_bundle K draw (encode_private_bundle b) (db_authority b) True = Inr b"
    by (rule decode_and_validate_run [OF b(1,3)]) (rule b(2))
  have shape': "validate_requested_shape ?t = Inr ()"
    using shape by (simp add: requested_shape_iff)
  have "create_self_signed_public_bundle_v1 K draw (ba_account_id (db_authority b))
       (ba_generation (db_authority b)) kind reason previous (db_authority b) (encode_private_bundle b)
     = Inr (if kind = Rotation then NonPublishableRotationCandidate (encode_rotation_candidate ?m s)
        else CanonicalPublicBundle (encode_complete_public_bundle ?m s None))"
  proof (cases "kind = Rotation")
    case True
    then show ?thesis
      using s(1) shape' by (simp add: create_self_signed_public_bundle_v1_def valid dec k Let_def
          flip: requested_tbs_def)
  next
    case False
    obtain sm where "verify_canonical_public_bundle_v1 K (encode_complete_public_bundle ?m s None) = Inr sm"
      using pub [OF False] verify_canonical_Inr_iff by blast
    with False show ?thesis
      using s(1) shape' by (simp add: create_self_signed_public_bundle_v1_def valid dec k Let_def
          flip: requested_tbs_def)
  qed
  with p s(3) show thesis by (rule that)
qed

lemma create_rotation_run:
  assumes "private_bundle_ok b" "db_state b = ActiveFull" "keys_match K b"
    and "shape_ok (requested_tbs b Rotation None previous) True"
  obtains c cand where "parsed_ok c" "px_transition_signature c = None"
    "px_tbs c = requested_tbs b Rotation None previous"
    "ed25519_verify K (BUNDLE_SELF_SIGNATURE_DOMAIN_V1 @ px_tbs_bytes c)
       (tb_signature_public_key (px_tbs c)) (px_self_signature c)"
    "cand = encode_rotation_candidate (px_tbs_bytes c) (px_self_signature c)"
    "create_self_signed_public_bundle_v1 K draw (ba_account_id (db_authority b))
       (ba_generation (db_authority b)) Rotation None previous (db_authority b) (encode_private_bundle b)
     = Inr (NonPublishableRotationCandidate cand)"
proof -
  let ?t = "requested_tbs b Rotation None previous"
  have shape: "shape_ok ?t (Rotation = Rotation)" using assms(4) by simp
  obtain s where s: "parsed_ok \<lparr>px_tbs = ?t, px_tbs_bytes = encode_public_bundle_tbs ?t,
       px_self_signature = s, px_transition_signature = None\<rparr>"
    "ed25519_verify K (BUNDLE_SELF_SIGNATURE_DOMAIN_V1 @ encode_public_bundle_tbs ?t) (db_signature_public_key b) s"
    "create_self_signed_public_bundle_v1 K draw (ba_account_id (db_authority b))
       (ba_generation (db_authority b)) Rotation None previous (db_authority b) (encode_private_bundle b)
     = Inr (if Rotation = Rotation
        then NonPublishableRotationCandidate (encode_rotation_candidate (encode_public_bundle_tbs ?t) s)
        else CanonicalPublicBundle (encode_complete_public_bundle (encode_public_bundle_tbs ?t) s None))"
    by (rule create_self_signed_run [OF assms(1-3) shape])
  then show thesis
    by (intro that [of "\<lparr>px_tbs = ?t, px_tbs_bytes = encode_public_bundle_tbs ?t,
       px_self_signature = s, px_transition_signature = None\<rparr>"]) simp_all
qed

section \<open>Authorised successors\<close>

text \<open>What success of the authorisation means.\<close>

lemma authorize_successor_Inr:
  assumes "authorize_successor_public_bundle_v1 K draw expected prev cand = Inr r"
  obtains b c s where
    "private_bundle_ok b" "prev = encode_private_bundle b" "db_authority b = expected" "db_state b = ActiveFull"
    "parse_rotation_candidate cand = Inr c"
    "tb_account_id (px_tbs c) = ba_account_id expected"
    "tb_previous_generation (px_tbs c) = ba_generation expected"
    "tb_generation (px_tbs c) = ba_generation expected + 1"
    "ed25519_verify K (BUNDLE_TRANSITION_SIGNATURE_DOMAIN_V1 @ px_tbs_bytes c @ px_self_signature c)
       (db_signature_public_key b) s"
    "published K (authorized_canonical_successor_public_bundle r) (c\<lparr>px_transition_signature := Some s\<rparr>)"
    "retired_previous_private_bundle_candidate r =
       encode_private_bundle (b\<lparr>db_state := RetiredDecryptOnly, db_signature_private_key := None\<rparr>)"
proof -
  from assms obtain b c s k sm where
    dec: "decode_and_validate_private_bundle K draw prev expected True = Inr b"
    and c: "parse_rotation_candidate cand = Inr c"
    and acc: "tb_account_id (px_tbs c) = ba_account_id (db_authority b)"
    "tb_previous_generation (px_tbs c) = ba_generation (db_authority b)"
    "tb_generation (px_tbs c) = ba_generation (db_authority b) + 1"
    and sign: "sign_domain_message K BUNDLE_TRANSITION_SIGNATURE_DOMAIN_V1
       [px_tbs_bytes c, px_self_signature c] k = Inr s"
    and ver: "verify_domain_signature K BUNDLE_TRANSITION_SIGNATURE_DOMAIN_V1
       [px_tbs_bytes c, px_self_signature c] (db_signature_public_key b) s = Inr ()"
    and auth: "verify_canonical_public_bundle_v1 K (authorized_canonical_successor_public_bundle r) = Inr sm"
    and r: "authorized_canonical_successor_public_bundle r = encode_complete_public_bundle (px_tbs_bytes c)
           (px_self_signature c) (Some s)"
    "retired_previous_private_bundle_candidate r =
       encode_private_bundle (b\<lparr>db_state := RetiredDecryptOnly, db_signature_private_key := None\<rparr>)"
    unfolding authorize_successor_public_bundle_v1_def
    by (auto simp: bindE_Inr_iff if_Inl_Inr_iff ok_or_Inr_iff Let_def)
  have ok: "parsed_ok c" "shape_ok (px_tbs c) True" "px_transition_signature c = None"
    using c by (auto simp: parse_rotation_candidate_Inr_iff)
  have "length s = 64" using sign by (simp add: sign_domain_message_Inr_iff)
  then have parse: "parse_complete_public_bundle (authorized_canonical_successor_public_bundle r)
      = Inr (c\<lparr>px_transition_signature := Some s\<rparr>)"
    using ok by (simp add: parse_complete_public_bundle_Inr_iff r encode_parsed_def parsed_ok_def)
  obtain p where p: "published K (authorized_canonical_successor_public_bundle r) p"
    using auth verify_canonical_Inr_iff by blast
  then have "p = c\<lparr>px_transition_signature := Some s\<rparr>" using parse by (simp add: published_def)
  with p have pub: "published K (authorized_canonical_successor_public_bundle r) (c\<lparr>px_transition_signature := Some s\<rparr>)"
    by simp
  note d = decode_and_validate_Inr [OF dec]
  show thesis
    by (rule that [of b c s]) (use d c acc ver pub r ok in \<open>simp_all add: verify_transition_iff\<close>)
qed

lemma candidate_generation:
  assumes "parse_rotation_candidate cand = Inr c" "tb_previous_generation (px_tbs c) = g"
  shows "unat (tb_generation (px_tbs c)) = unat g + 1 \<and> tb_activation_kind (px_tbs c) = Rotation"
proof -
  have "shape_ok (px_tbs c) True" "tb_activation_kind (px_tbs c) = Rotation"
    using assms(1) by (auto simp: parse_rotation_candidate_Inr_iff)
  then have "tb_generation (px_tbs c) > 1" "g = tb_generation (px_tbs c) - 1"
    using shape_ok_generation [of "px_tbs c" True] assms(2) by auto
  then have "unat g = unat (tb_generation (px_tbs c)) - 1" "unat (tb_generation (px_tbs c)) > 1"
    by (metis unat_minus_one word_not_simps(1) less_irrefl, simp add: word_less_nat_alt)
  then show ?thesis using \<open>tb_activation_kind (px_tbs c) = Rotation\<close> by simp
qed

text \<open>The authorised bundle continues the chain of every pin that publishes the retired keys.\<close>

lemma authorized_continues:
  assumes r: "authorize_successor_public_bundle_v1 K draw expected prev cand = Inr r"
    and pin: "published K pin p" "tb_account_id (px_tbs p) = ba_account_id expected"
      "tb_generation (px_tbs p) = ba_generation expected"
    and key: "decode_private_bundle prev = Inr b"
      "tb_signature_public_key (px_tbs p) = db_signature_public_key b"
  shows "\<exists>q. parse_rotation_candidate cand = Inr q \<and>
     verify_continuity_response_v1 K (Some pin) [authorized_canonical_successor_public_bundle r] False
       = Inr \<lparr>vc_disposition = RotationChainVerified,
           vc_verified_public_bundle = authorized_canonical_successor_public_bundle r,
           vc_verified_summary = summary_of K (authorized_canonical_successor_public_bundle r) (px_tbs q)\<rparr>"
proof -
  let ?new = "authorized_canonical_successor_public_bundle r"
  obtain b' c s where
    b': "private_bundle_ok b'" "prev = encode_private_bundle b'" "db_authority b' = expected"
    and c: "parse_rotation_candidate cand = Inr c" "tb_account_id (px_tbs c) = ba_account_id expected"
    "tb_previous_generation (px_tbs c) = ba_generation expected"
    and sig: "ed25519_verify K (BUNDLE_TRANSITION_SIGNATURE_DOMAIN_V1 @ px_tbs_bytes c @ px_self_signature c)
       (db_signature_public_key b') s"
    and pub: "published K ?new (c\<lparr>px_transition_signature := Some s\<rparr>)"
    by (rule authorize_successor_Inr [OF r])
  have "b' = b" using b' key(1) decode_private_bundle_Inr_iff [of prev b'] by simp
  then have "rotation_link K p (c\<lparr>px_transition_signature := Some s\<rparr>)"
    using c sig pin key(2) candidate_generation [OF c(1,3)] by (simp add: rotation_link_def)
  then have "rotation_chain K p [?new] (c\<lparr>px_transition_signature := Some s\<rparr>)"
    using pub by simp
  moreover have "length ?new \<le> PUBLIC_BUNDLE_MAX_BYTES"
    using published_parse [OF pub] by (auto simp: parse_complete_public_bundle_def split: if_splits)
  ultimately show ?thesis
    using pub pin(1) c(1)
    by (auto simp: continuity_Inr_iff continuity_verdict_def CONTINUITY_MAX_LINKS_def
        CONTINUITY_MAX_CANONICAL_BYTES_def PUBLIC_BUNDLE_MAX_BYTES_def intro!: exI)
qed

text \<open>What the operation returns on matching keys of two consecutive generations.\<close>

lemma authorize_successor_run:
  assumes b: "private_bundle_ok b" "db_state b = ActiveFull" "keys_match K b"
    and c: "parsed_ok c" "px_transition_signature c = None" "tb_activation_kind (px_tbs c) = Rotation"
      "shape_ok (px_tbs c) True"
      "ed25519_verify K (BUNDLE_SELF_SIGNATURE_DOMAIN_V1 @ px_tbs_bytes c)
         (tb_signature_public_key (px_tbs c)) (px_self_signature c)"
    and next_gen: "tb_account_id (px_tbs c) = ba_account_id (db_authority b)"
      "tb_generation (px_tbs c) = ba_generation (db_authority b) + 1"
  shows "\<exists>r. authorize_successor_public_bundle_v1 K draw (db_authority b) (encode_private_bundle b)
     (encode_rotation_candidate (px_tbs_bytes c) (px_self_signature c)) = Inr r"
proof -
  obtain k where k: "db_signature_private_key b = Some k"
    using b by (auto simp: private_bundle_ok_def state_allows_key_def)
  have pair: "signature_pair K k (db_signature_public_key b)"
    using b(3) k by (simp add: keys_match_def)
  have cand: "parse_rotation_candidate (encode_rotation_candidate (px_tbs_bytes c) (px_self_signature c)) = Inr c"
    using c by (simp add: parse_rotation_candidate_Inr_iff)
  have prev: "tb_previous_generation (px_tbs c) = ba_generation (db_authority b)"
    using shape_ok_generation [OF c(4)] c(3) next_gen(2) by simp
  have "length BUNDLE_TRANSITION_SIGNATURE_DOMAIN_V1 + length (concat [px_tbs_bytes c, px_self_signature c])
      \<le> SIGNATURE_TRANSCRIPT_MAX_BYTES"
    using c(1) parsed_tbs_length [OF c(1)]
    by (simp add: domain_lengths parsed_ok_def SIGNATURE_TRANSCRIPT_MAX_BYTES_def)
  then obtain s where s: "sign_domain_message K BUNDLE_TRANSITION_SIGNATURE_DOMAIN_V1
       [px_tbs_bytes c, px_self_signature c] k = Inr s" "length s = 64"
    "verify_domain_signature K BUNDLE_TRANSITION_SIGNATURE_DOMAIN_V1
       [px_tbs_bytes c, px_self_signature c] (db_signature_public_key b) s = Inr ()"
    using sign_with_pair [OF pair] by metis
  have "published K (encode_complete_public_bundle (px_tbs_bytes c) (px_self_signature c) (Some s))
      (c\<lparr>px_transition_signature := Some s\<rparr>)"
    using c s(2) by (simp add: published_def parse_complete_public_bundle_Inr_iff encode_parsed_def parsed_ok_def)
  then obtain sm where sm: "verify_canonical_public_bundle_v1 K
      (encode_complete_public_bundle (px_tbs_bytes c) (px_self_signature c) (Some s)) = Inr sm"
    using verify_canonical_Inr_iff by blast
  have valid: "validate_bundle_authority (db_authority b) = Inr ()"
    using b(1) by (simp add: private_bundle_ok_def bundle_authority_ok_def)
  have dec: "decode_and_validate_private_bundle K draw (encode_private_bundle b) (db_authority b) True = Inr b"
    by (rule decode_and_validate_run [OF b(1,3)]) (rule b(2))
  have self: "verify_self_signature K c = Inr ()"
    using c(5) by (simp add: verify_self_signature_iff [OF c(1)])
  show ?thesis
    using next_gen by (simp add: authorize_successor_public_bundle_v1_def valid dec cand self prev k s sm Let_def)
qed

lemma retired_bundle_ok:
  "private_bundle_ok b \<Longrightarrow>
   private_bundle_ok (b\<lparr>db_state := RetiredDecryptOnly, db_signature_private_key := None\<rparr>)"
  by (simp add: private_bundle_ok_def state_allows_key_def)

end
