(* ===== verification/InvitationLaws.thy ===== *)
theory InvitationLaws
  imports EnvelopeLaws
begin

text \<open>
  Sealing and opening an invitation preview: what opening establishes, and that opening what was
  sealed returns the normalised preview exactly when the decoder takes its texts for canonical.
\<close>

section \<open>Errors of the preview decoder\<close>

definition fails_with :: "'e \<Rightarrow> ('s, 'e, 'a) eff \<Rightarrow> bool" where
  "fails_with e m \<longleftrightarrow> (\<forall>s e' t. m s = (Inl e', t) \<longrightarrow> e' = e)"

named_theorems fails_intros \<open>the only error of a reader\<close>

lemma fails_basic [fails_intros]:
  "fails_with e (returnS a)" "fails_with e (liftS (Inl e))" "fails_with e (liftS (ok_or x e))"
  "fails_with e (read_array e n)" "fails_with e is_finished"
  by (auto simp: fails_with_def read_array_def is_finished_def ok_or_Inl_iff split: if_splits)

lemma fails_bindS [fails_intros]:
  "fails_with e m \<Longrightarrow> (\<And>a. fails_with e (f a)) \<Longrightarrow> fails_with e (bindS m f)"
  unfolding fails_with_def by (fastforce simp: bindS_def split: prod.splits sum.splits)

lemma fails_if [fails_intros]:
  "fails_with e m \<Longrightarrow> fails_with e m' \<Longrightarrow> fails_with e (if c then m else m')"
  by simp

lemma fails_timesS [fails_intros]: "fails_with e m \<Longrightarrow> fails_with e (timesS n m)"
  by (induction n) (auto intro!: fails_intros)

lemma fails_read [fails_intros]: "fails_with e (read_u8 e)" "fails_with e (read_u16 e)"
  by (auto simp: read_u8_def read_u16_def intro!: fails_intros)

lemma preview_reader_fails: "fails_with PlaintextSchemaInvalid preview_reader"
  unfolding preview_reader_def read_string_range_def by (intro fails_intros)

lemma canonical_str_Inl: "canonical_str U b = Inl e \<Longrightarrow> e = PlaintextSchemaInvalid"
  by (auto simp: canonical_str_def bindE_Inl_iff ok_or_Inl_iff split: if_splits)

lemma mapE_Inl: "mapE f xs = Inl e \<Longrightarrow> \<exists>x \<in> set xs. f x = Inl e"
  by (induction xs) (auto simp: bindE_Inl_iff)

lemma fold_duplicates_Inl:
  "foldE (\<lambda>folded v.
       let candidate = default_case_fold v in
       if list_ex (\<lambda>existing. existing = candidate) folded then Inl PlaintextSchemaInvalid
       else Inr (folded @ [candidate])) acc values = Inl e \<Longrightarrow> e = PlaintextSchemaInvalid"
  by (induction "values" arbitrary: acc) (auto simp: Let_def split: if_splits)

lemma decode_preview_Inl:
  assumes "decode_canonical_preview U input = Inl e"
  shows "e = PlaintextSchemaInvalid"
proof (cases "run_reader preview_reader input")
  case (Inl e')
  then have "e' = PlaintextSchemaInvalid"
    using preview_reader_fails by (cases "preview_reader input") (auto simp: run_reader_def fails_with_def)
  with Inl assms show ?thesis by (auto simp: decode_canonical_preview_def split: if_splits)
next
  case (Inr ranges)
  then show ?thesis
    using assms
    by (cases "fst ranges") (auto simp: decode_canonical_preview_def bindE_Inl_iff opt_mapE_def
        reject_folded_duplicate_refs_def split: if_splits prod.splits
        dest: canonical_str_Inl mapE_Inl fold_duplicates_Inl)
qed

section \<open>Previews that can be written\<close>

definition unicode_ok :: "unicode \<Rightarrow> bool" where
  "unicode_ok U \<longleftrightarrow> (\<forall>t. text_ok t \<and> t \<noteq> [] \<longrightarrow> text_ok (nfc U t) \<and> nfc U t \<noteq> [])"

lemma normalized_texts:
  assumes "unicode_ok U" "preview_texts text_ok p" "preview_texts nonblank p"
  shows "preview_texts (\<lambda>t. text_ok t \<and> t \<noteq> []) (normalized_preview U p)"
  using assms text_ok_trim
  by (auto simp: preview_texts_def normalized_preview_def Let_def unicode_ok_def nonblank_def)

lemma read_preview_bytes:
  assumes "preview_fits q" "preview_texts (\<lambda>t. text_ok t \<and> t \<noteq> []) q"
  shows "preview_reader (preview_bytes q) = (Inr (map_option utf8 (preview_title q), map utf8 (preview_tags q)), [])"
  using assms range_ok_utf8
  by (cases "preview_title q") (auto simp: preview_reader_iff preview_texts_def preview_fits_def title_fits_def
      tag_fits_def preview_bytes_def comp_def)

lemma map_utf8_inj:
  "\<forall>t \<in> set ts. text_ok t \<Longrightarrow> \<forall>t \<in> set us. text_ok t \<Longrightarrow> map utf8 ts = map utf8 us \<Longrightarrow> ts = us"
proof (induction ts arbitrary: us)
  case (Cons t ts)
  then show ?case by (cases us) (auto dest: utf8_inj)
qed simp

lemma decode_preview_bytes:
  assumes "preview_fits q" "preview_texts (\<lambda>t. text_ok t \<and> t \<noteq> []) q"
  shows "decode_canonical_preview U (preview_bytes q) =
    (if preview_texts (canonical_text U) q then Inr q else Inl PlaintextSchemaInvalid)"
proof (cases "decode_canonical_preview U (preview_bytes q)")
  case (Inl e)
  then have "\<not> preview_ok U q" using decode_canonical_preview_Inr_iff [of U "preview_bytes q" q] by simp
  then show ?thesis using Inl decode_preview_Inl [OF Inl] assms(1) by (simp add: preview_ok_def)
next
  case (Inr q')
  then have q': "preview_ok U q'" "preview_bytes q = preview_bytes q'"
    by (simp_all add: decode_canonical_preview_Inr_iff)
  then have texts: "preview_texts (\<lambda>t. text_ok t \<and> t \<noteq> []) q'"
    by (auto simp: preview_ok_def preview_texts_def canonical_text_def)
  from read_preview_bytes [OF assms] read_preview_bytes [OF _ texts] q'
  have "map_option utf8 (preview_title q) = map_option utf8 (preview_title q')"
    "map utf8 (preview_tags q) = map utf8 (preview_tags q')"
    by (simp_all add: preview_ok_def)
  then have "preview_title q = preview_title q'" "preview_tags q = preview_tags q'"
    using assms(2) texts map_utf8_inj [of "preview_tags q" "preview_tags q'"]
    by (auto simp: preview_texts_def map_option_case split: option.splits dest: utf8_inj)
  then have "q = q'" by simp
  with q' Inr show ?thesis by (simp add: preview_ok_def)
qed

section \<open>Padding\<close>

definition padded :: "nat \<Rightarrow> bytes \<Rightarrow> bytes" where
  "padded n inner = be16 (of_nat (length inner)) @ inner @ replicate (n - 2 - length inner) 0"

lemma length_padded: "length inner + 2 \<le> n \<Longrightarrow> length (padded n inner) = n"
  by (simp add: padded_def)

text \<open>The check of the decoder on the decrypted plaintext accepts padded content only.\<close>

lemma unpad_iff:
  fixes plaintext :: bytes
  assumes "length plaintext = n" "2 \<le> n" "n \<le> 2 ^ 16"
  defines "len \<equiv> unat (word_of_be (byte_range plaintext 0 2) :: u16)"
  shows "2 + len \<le> n \<and> \<not> list_ex (\<lambda>b. b \<noteq> 0) (drop (2 + len) plaintext) \<and>
       byte_range plaintext 2 (2 + len) = inner
    \<longleftrightarrow> length inner + 2 \<le> n \<and> plaintext = padded n inner"
proof
  assume *: "2 + len \<le> n \<and> \<not> list_ex (\<lambda>b. b \<noteq> 0) (drop (2 + len) plaintext) \<and>
       byte_range plaintext 2 (2 + len) = inner"
  then have inner: "length inner = len" using assms(1) by (auto simp: length_slice)
  have "be16 (of_nat (length inner)) = byte_range plaintext 0 2"
    unfolding inner len_def using assms by (simp add: be16_word_of_be length_slice)
  moreover have "drop (2 + len) plaintext = replicate (n - 2 - len) 0"
    using * assms(1) by (intro replicate_eqI) (auto simp: list_ex_iff)
  moreover have "byte_range plaintext 0 2 @ byte_range plaintext 2 (2 + len) @ drop (2 + len) plaintext = plaintext"
    by (simp only: slice_drop le_add1 zero_le drop_0)
  ultimately show "length inner + 2 \<le> n \<and> plaintext = padded n inner"
    using * inner by (simp add: padded_def)
next
  assume p: "length inner + 2 \<le> n \<and> plaintext = padded n inner"
  then have "length inner < 2 ^ 16" using assms(3) by simp
  then have "len = length inner"
    using p by (simp add: len_def padded_def word_of_be_be16 unat_u16_of_nat)
  then show "2 + len \<le> n \<and> \<not> list_ex (\<lambda>b. b \<noteq> 0) (drop (2 + len) plaintext) \<and>
       byte_range plaintext 2 (2 + len) = inner"
    using p by (simp add: padded_def slice_skip list_ex_iff)
qed

section \<open>Opening\<close>

definition signed_envelope :: "ParsedInvitationEnvelopeV1 \<Rightarrow> bytes" where
  "signed_envelope p =
     ENVELOPE_SIGNATURE_DOMAIN_V1 @ pi_canonical_header p @ pi_encapsulation p
       @ be16 (of_nat (length (pi_ciphertext p))) @ pi_ciphertext p"

definition recipient_authority ::
  "ExpectedContextInvitationAuthorityV1 \<Rightarrow> AccountEnvelopePrivateBundleAuthorityV1" where
  "recipient_authority x =
     \<lparr>ba_account_id = ia_recipient_account_id (ea_invitation x),
       ba_generation = ia_recipient_generation (ea_invitation x),
       ba_root_installation_id = ea_local_root_installation_id x,
       ba_root_authority_generation = ea_local_root_authority_generation x\<rparr>"

lemma verify_envelope_iff:
  assumes "parsed_invitation_ok p"
  shows "verify_domain_signature K ENVELOPE_SIGNATURE_DOMAIN_V1
       [pi_canonical_header p, pi_encapsulation p, be16 (of_nat (length (pi_ciphertext p))), pi_ciphertext p]
       key s = Inr u \<longleftrightarrow> ed25519_verify K (signed_envelope p) key s"
  using assms length_header_bytes [of "pi_authority p"]
    ciphertext_bytes_bound(1) [of "ia_padding_class (pi_authority p)"]
  by (simp add: verify_domain_signature_Inr_iff signed_envelope_def parsed_invitation_ok_def domain_lengths
      INVITATION_HEADER_BYTES_def SIGNATURE_TRANSCRIPT_MAX_BYTES_def)

lemma plaintext_bytes_bound: "512 \<le> plaintext_bytes k" "plaintext_bytes k \<le> 2048"
  by (cases k; simp)+

text \<open>The last steps of opening: the checks of the plaintext and the decoder.\<close>

definition open_plaintext ::
  "unicode \<Rightarrow> nat \<Rightarrow> bytes \<Rightarrow> AccountEnvelopeErrorCodeV1 + ContextInvitationPreviewV1" where
  "open_plaintext U n plaintext =
     (if length plaintext \<noteq> n \<or> length plaintext < 2 then Inl PlaintextSchemaInvalid
      else
        let inner_len = unat (word_of_be (byte_range plaintext 0 2) :: u16) in
        bindE (ok_or (usize_checked_add 2 inner_len) PlaintextSchemaInvalid) (\<lambda>inner_end.
        if inner_len > INVITATION_INNER_MAX_BYTES \<or> inner_end > length plaintext
           \<or> list_ex (\<lambda>b. b \<noteq> 0) (drop inner_end plaintext)
        then Inl PlaintextSchemaInvalid
        else decode_canonical_preview U (byte_range plaintext 2 inner_end)))"

lemma open_plaintext_padded:
  assumes "512 \<le> n" "n \<le> 2048" "length inner + 2 \<le> n" "length inner \<le> INVITATION_INNER_MAX_BYTES"
  shows "open_plaintext U n (padded n inner) = decode_canonical_preview U inner"
proof -
  have "length inner < 2 ^ 16" using assms(2,3) by simp
  then have len: "unat (word_of_be (byte_range (padded n inner) 0 2) :: u16) = length inner"
    by (simp add: padded_def word_of_be_be16 unat_u16_of_nat)
  have un: "\<not> list_ex (\<lambda>b. b \<noteq> 0) (drop (2 + length inner) (padded n inner)) \<and>
      byte_range (padded n inner) 2 (2 + length inner) = inner"
    using unpad_iff [of "padded n inner" n inner] assms len by (simp add: length_padded)
  show ?thesis
    using assms un by (simp add: open_plaintext_def len length_padded usize_checked_add_fits)
qed

lemma open_plaintext_Inr_iff:
  assumes "512 \<le> n" "n \<le> 2048"
  shows "open_plaintext U n plaintext = Inr q \<longleftrightarrow>
     preview_ok U q \<and> length (preview_bytes q) + 2 \<le> n \<and> plaintext = padded n (preview_bytes q)"
proof
  assume o: "open_plaintext U n plaintext = Inr q"
  define len where "len = unat (word_of_be (byte_range plaintext 0 2) :: u16)"
  from o have l: "length plaintext = n" and *: "2 + len \<le> n \<and>
      \<not> list_ex (\<lambda>b. b \<noteq> 0) (drop (2 + len) plaintext) \<and> byte_range plaintext 2 (2 + len) = preview_bytes q"
    and q: "preview_ok U q"
    by (auto simp: open_plaintext_def Let_def bindE_Inr_iff ok_or_Inr_iff usize_checked_add_Some_iff
        if_Inl_Inr_iff decode_canonical_preview_Inr_iff simp flip: len_def)
  with unpad_iff [of plaintext n "preview_bytes q"] assms
  show "preview_ok U q \<and> length (preview_bytes q) + 2 \<le> n \<and> plaintext = padded n (preview_bytes q)"
    by (simp flip: len_def)
next
  assume q: "preview_ok U q \<and> length (preview_bytes q) + 2 \<le> n \<and> plaintext = padded n (preview_bytes q)"
  then have "length (preview_bytes q) \<le> INVITATION_INNER_MAX_BYTES"
    using preview_bytes_bound [of q] by (simp add: preview_ok_def INVITATION_INNER_MAX_BYTES_def)
  with q show "open_plaintext U n plaintext = Inr q"
    using open_plaintext_padded [OF assms] by (simp add: decode_canonical_preview_Inr_iff)
qed

lemma open_unfold:
  "verify_and_open_context_invitation_preview_v1 U K draw envelope expected rpriv spub =
     bindE (validate_expected_invitation expected) (\<lambda>_.
     bindE (parse_invitation_envelope envelope) (\<lambda>parsed.
     if pi_authority parsed \<noteq> ea_invitation expected then Inl AuthorityMismatch
     else
     bindE (verify_canonical_public_bundle_v1 K spub) (\<lambda>sender.
     if sm_account_id sender \<noteq> ia_sender_account_id (pi_authority parsed)
        \<or> sm_generation sender \<noteq> ia_sender_generation (pi_authority parsed)
     then Inl AuthorityMismatch
     else
     bindE (decode_and_validate_private_bundle K draw rpriv (recipient_authority expected) False) (\<lambda>recipient.
     if length (pi_ciphertext parsed) \<ge> 2 ^ 16 then Inl BoundsExceeded
     else
     bindE (verify_domain_signature K ENVELOPE_SIGNATURE_DOMAIN_V1
       [pi_canonical_header parsed, pi_encapsulation parsed,
        be16 (of_nat (length (pi_ciphertext parsed))), pi_ciphertext parsed]
       (sm_signature_public_key sender) (pi_signature parsed)) (\<lambda>_.
     bindE (hpke_open_invitation K (db_hpke_private_key recipient) (pi_canonical_header parsed)
       (pi_encapsulation parsed) (pi_ciphertext parsed)) (\<lambda>plaintext.
     open_plaintext U (plaintext_bytes (ia_padding_class (pi_authority parsed))) plaintext))))))"
  unfolding verify_and_open_context_invitation_preview_v1_def open_plaintext_def Let_def
  by (intro arg_cong2 [where f = bindE] refl ext if_cong) (auto simp: recipient_authority_def)

lemma short_ciphertext: "parsed_invitation_ok p \<Longrightarrow> length (pi_ciphertext p) < 2 ^ 16"
  using ciphertext_bytes_bound(1) [of "ia_padding_class (pi_authority p)"]
  by (simp add: parsed_invitation_ok_def)

lemma open_Inr_iff:
  "verify_and_open_context_invitation_preview_v1 U K draw envelope expected rpriv spub = Inr q \<longleftrightarrow>
     validate_expected_invitation expected = Inr () \<and>
     (\<exists>p ps br. parsed_invitation_ok p \<and> envelope = envelope_bytes p \<and> pi_authority p = ea_invitation expected \<and>
        published K spub ps \<and>
        tb_account_id (px_tbs ps) = ia_sender_account_id (ea_invitation expected) \<and>
        tb_generation (px_tbs ps) = ia_sender_generation (ea_invitation expected) \<and>
        decode_and_validate_private_bundle K draw rpriv (recipient_authority expected) False = Inr br \<and>
        ed25519_verify K (signed_envelope p) (tb_signature_public_key (px_tbs ps)) (pi_signature p) \<and>
        (let n = plaintext_bytes (ia_padding_class (ea_invitation expected)) in
         hpke_open K (pi_encapsulation p) (pi_ciphertext p) (db_hpke_private_key br) HPKE_CONTEXT_DOMAIN_V1
           (pi_canonical_header p) = Some (padded n (preview_bytes q)) \<and>
         preview_ok U q \<and> length (preview_bytes q) + 2 \<le> n))"
    (is "?open \<longleftrightarrow> ?valid \<and> (\<exists>p ps br. ?P p ps br)")
proof
  assume ?open
  then obtain p sm br where p: "parse_invitation_envelope envelope = Inr p" and v: ?valid
    and ea: "pi_authority p = ea_invitation expected"
    and sm: "verify_canonical_public_bundle_v1 K spub = Inr sm"
      "sm_account_id sm = ia_sender_account_id (pi_authority p)"
      "sm_generation sm = ia_sender_generation (pi_authority p)"
    and br: "decode_and_validate_private_bundle K draw rpriv (recipient_authority expected) False = Inr br"
    and ver: "verify_domain_signature K ENVELOPE_SIGNATURE_DOMAIN_V1
       [pi_canonical_header p, pi_encapsulation p,
        be16 (of_nat (length (pi_ciphertext p))), pi_ciphertext p]
       (sm_signature_public_key sm) (pi_signature p) = Inr ()"
    and pt: "\<exists>plaintext. hpke_open K (pi_encapsulation p) (pi_ciphertext p) (db_hpke_private_key br)
         HPKE_CONTEXT_DOMAIN_V1 (pi_canonical_header p) = Some plaintext \<and>
       open_plaintext U (plaintext_bytes (ia_padding_class (pi_authority p))) plaintext = Inr q"
    unfolding open_unfold by (auto simp: bindE_Inr_iff if_Inl_Inr_iff hpke_open_invitation_def ok_or_Inr_iff)
  have ok: "parsed_invitation_ok p" "envelope = envelope_bytes p"
    using p by (simp_all add: parse_invitation_envelope_Inr_iff)
  from sm obtain ps where "published K spub ps" "sm = summary_of K spub (px_tbs ps)"
    by (auto simp: verify_canonical_Inr_iff)
  then have "?P p ps br"
    using ok ea sm br ver pt verify_envelope_iff [OF ok(1)] open_plaintext_Inr_iff [OF plaintext_bytes_bound]
    by (auto simp: Let_def)
  with v show "?valid \<and> (\<exists>p ps br. ?P p ps br)" by blast
next
  assume "?valid \<and> (\<exists>p ps br. ?P p ps br)"
  then obtain p ps br where v: ?valid and P: "?P p ps br" by blast
  then have "parse_invitation_envelope envelope = Inr p"
    and "verify_canonical_public_bundle_v1 K spub = Inr (summary_of K spub (px_tbs ps))"
    by (auto simp: parse_invitation_envelope_Inr_iff verify_canonical_Inr_iff)
  moreover have "verify_domain_signature K ENVELOPE_SIGNATURE_DOMAIN_V1
       [pi_canonical_header p, pi_encapsulation p, be16 (of_nat (length (pi_ciphertext p))), pi_ciphertext p]
       (tb_signature_public_key (px_tbs ps)) (pi_signature p) = Inr ()"
    using P verify_envelope_iff [of p] by blast
  moreover have "open_plaintext U (plaintext_bytes (ia_padding_class (ea_invitation expected)))
      (padded (plaintext_bytes (ia_padding_class (ea_invitation expected))) (preview_bytes q)) = Inr q"
    using P by (simp add: open_plaintext_Inr_iff [OF plaintext_bytes_bound] Let_def)
  ultimately show ?open
    using v P short_ciphertext [of p]
    by (simp add: open_unfold Let_def hpke_open_invitation_def)
qed

section \<open>Sealing\<close>

text \<open>The keys and bundles of one exchange, as the sender and the recipient hold them.\<close>

definition exchange ::
  "crypto \<Rightarrow> ContextInvitationAuthorityV1 \<Rightarrow> DecodedPrivateBundleV1 \<Rightarrow> bytes \<Rightarrow> DecodedPrivateBundleV1 \<Rightarrow> bytes \<Rightarrow> bool" where
  "exchange K a bs spub br rpub \<longleftrightarrow>
     invitation_authority_ok a \<and>
     private_bundle_ok bs \<and> keys_match K bs \<and> db_state bs = ActiveFull \<and>
     ba_account_id (db_authority bs) = ia_sender_account_id a \<and>
     ba_generation (db_authority bs) = ia_sender_generation a \<and>
     private_bundle_ok br \<and> keys_match K br \<and>
     ba_account_id (db_authority br) = ia_recipient_account_id a \<and>
     ba_generation (db_authority br) = ia_recipient_generation a \<and>
     (\<exists>ps. published K spub ps \<and> tb_account_id (px_tbs ps) = ia_sender_account_id a \<and>
        tb_generation (px_tbs ps) = ia_sender_generation a \<and>
        tb_signature_public_key (px_tbs ps) = db_signature_public_key bs) \<and>
     (\<exists>pr. published K rpub pr \<and> tb_account_id (px_tbs pr) = ia_recipient_account_id a \<and>
        tb_generation (px_tbs pr) = ia_recipient_generation a \<and>
        tb_hpke_public_key (px_tbs pr) = db_hpke_public_key br)"

text \<open>What sealing returns when the preview fits.\<close>

lemma seal_run:
  assumes x: "exchange K a bs spub br rpub"
    and preview: "preview_texts nonblank preview" "preview_fits (normalized_preview U preview)"
      "length (preview_bytes (normalized_preview U preview)) + 2 \<le> plaintext_bytes (ia_padding_class a)"
  obtains p where
    "seal_context_invitation_preview_v1 U K draw a (db_authority bs) preview rpub (encode_private_bundle bs)
       = Inr (envelope_bytes p)"
    "parsed_invitation_ok p" "pi_authority p = a"
    "ed25519_verify K (signed_envelope p) (db_signature_public_key bs) (pi_signature p)"
    "hpke_open K (pi_encapsulation p) (pi_ciphertext p) (db_hpke_private_key br) HPKE_CONTEXT_DOMAIN_V1
       (pi_canonical_header p)
     = Some (padded (plaintext_bytes (ia_padding_class a)) (preview_bytes (normalized_preview U preview)))"
proof -
  let ?inner = "preview_bytes (normalized_preview U preview)"
  let ?n = "plaintext_bytes (ia_padding_class a)"
  let ?header = "header_bytes a"
  from x have a: "invitation_authority_ok a" and bs: "private_bundle_ok bs" "keys_match K bs" "db_state bs = ActiveFull"
    "ba_account_id (db_authority bs) = ia_sender_account_id a" "ba_generation (db_authority bs) = ia_sender_generation a"
    and br: "keys_match K br" by (simp_all add: exchange_def)
  from x obtain pr where pr: "published K rpub pr" "tb_account_id (px_tbs pr) = ia_recipient_account_id a"
    "tb_generation (px_tbs pr) = ia_recipient_generation a"
    "tb_hpke_public_key (px_tbs pr) = db_hpke_public_key br" by (auto simp: exchange_def)
  have plain: "length (padded ?n ?inner) = ?n" using preview(3) by (rule length_padded)
  obtain kem ct where ct: "hpke_seal K (draw + 1) (db_hpke_public_key br) HPKE_CONTEXT_DOMAIN_V1 ?header (padded ?n ?inner)
      = Some (kem, ct)" "length kem = 32" "length ct = ?n + 16"
    "hpke_open K kem ct (db_hpke_private_key br) HPKE_CONTEXT_DOMAIN_V1 ?header = Some (padded ?n ?inner)"
    using br plain unfolding keys_match_def by (metis hpke_pairE)
  have ct_len: "length ct = ciphertext_bytes (ia_padding_class a)" using ct(3) by (simp add: ciphertext_bytes_def)
  obtain k where k: "db_signature_private_key bs = Some k"
    using bs by (auto simp: private_bundle_ok_def state_allows_key_def)
  have pair: "signature_pair K k (db_signature_public_key bs)" using bs(2) k by (simp add: keys_match_def)
  have short: "length ct < 2 ^ 16" using ct_len ciphertext_bytes_bound(1) [of "ia_padding_class a"] by simp
  let ?parts = "[?header, kem, be16 (of_nat (length ct)), ct]"
  have "length ENVELOPE_SIGNATURE_DOMAIN_V1 + length (concat ?parts) \<le> SIGNATURE_TRANSCRIPT_MAX_BYTES"
    using ct(2) ct_len ciphertext_bytes_bound(1) [of "ia_padding_class a"] length_header_bytes [OF a]
    by (simp add: domain_lengths SIGNATURE_TRANSCRIPT_MAX_BYTES_def INVITATION_HEADER_BYTES_def)
  then obtain s where s: "sign_domain_message K ENVELOPE_SIGNATURE_DOMAIN_V1 ?parts k = Inr s" "length s = 64"
    "ed25519_verify K (ENVELOPE_SIGNATURE_DOMAIN_V1 @ concat ?parts) (db_signature_public_key bs) s"
    using sign_with_pair [OF pair] by metis
  let ?p = "\<lparr>pi_authority = a, pi_canonical_header = ?header, pi_encapsulation = kem, pi_ciphertext = ct,
    pi_signature = s\<rparr>"
  have p: "parsed_invitation_ok ?p" using a ct(2) ct_len s(2) by (simp add: parsed_invitation_ok_def)
  have env: "encode_invitation_envelope ?header kem ct s = Inr (envelope_bytes ?p)"
    using encode_invitation_envelope_ok [OF p] by simp
  have inner: "canonicalize_and_encode_preview U preview = Inr ?inner"
    using preview by (simp add: canonicalize_and_encode_preview_Inr_iff)
  have room: "\<not> length ?inner > ?n - 2" "\<not> length ?inner \<ge> 2 ^ 16"
    using preview(3) plaintext_bytes_bound(2) [of "ia_padding_class a"] by simp_all
  have auth: "validate_invitation_authority a = Inr ()" "encode_invitation_header a = Inr ?header"
    using a by (simp_all add: invitation_authority_ok_def encode_invitation_header_def)
  have valid: "validate_bundle_authority (db_authority bs) = Inr ()"
    using bs(1) by (simp add: private_bundle_ok_def bundle_authority_ok_def)
  have dec: "decode_and_validate_private_bundle K draw (encode_private_bundle bs) (db_authority bs) True = Inr bs"
    by (rule decode_and_validate_run [OF bs(1,2)]) (rule bs(3))
  have rec: "verify_canonical_public_bundle_v1 K rpub = Inr (summary_of K rpub (px_tbs pr))"
    using pr(1) verify_canonical_Inr_iff by blast
  have hpke: "hpke_seal_invitation K (draw + 1) (db_hpke_public_key br) ?header (padded ?n ?inner) = Inr (kem, ct)"
    using ct by (simp add: hpke_seal_invitation_def exact_key_def KEY_BYTES_def)
  have "seal_context_invitation_preview_v1 U K draw a (db_authority bs) preview rpub (encode_private_bundle bs)
       = Inr (envelope_bytes ?p)"
    using short room
    unfolding seal_context_invitation_preview_v1_def auth valid dec rec inner bindE_simps summary_of_simps pr
      Let_def padded_def [symmetric] hpke
    by (simp add: bs k s(1) [unfolded ct_len] env ct_len)
  then show thesis
    by (rule that [of ?p]) (use p s(3) ct(4) in \<open>simp_all add: signed_envelope_def\<close>)
qed

text \<open>Opening what was sealed, up to the decoder.\<close>

lemma open_sealed:
  assumes x: "exchange K a bs spub br rpub"
    and preview: "preview_texts nonblank preview" "preview_fits (normalized_preview U preview)"
      "length (preview_bytes (normalized_preview U preview)) + 2 \<le> plaintext_bytes (ia_padding_class a)"
    and expected: "validate_expected_invitation expected = Inr ()" "ea_invitation expected = a"
      "recipient_authority expected = db_authority br"
  shows "\<exists>envelope. seal_context_invitation_preview_v1 U K draw a (db_authority bs) preview rpub
       (encode_private_bundle bs) = Inr envelope \<and>
     verify_and_open_context_invitation_preview_v1 U K draw' envelope expected (encode_private_bundle br) spub
       = decode_canonical_preview U (preview_bytes (normalized_preview U preview))"
proof -
  let ?inner = "preview_bytes (normalized_preview U preview)"
  let ?n = "plaintext_bytes (ia_padding_class a)"
  obtain p where p: "seal_context_invitation_preview_v1 U K draw a (db_authority bs) preview rpub
       (encode_private_bundle bs) = Inr (envelope_bytes p)" "parsed_invitation_ok p" "pi_authority p = a"
    "ed25519_verify K (signed_envelope p) (db_signature_public_key bs) (pi_signature p)"
    "hpke_open K (pi_encapsulation p) (pi_ciphertext p) (db_hpke_private_key br) HPKE_CONTEXT_DOMAIN_V1
       (pi_canonical_header p) = Some (padded ?n ?inner)"
    by (rule seal_run [OF x preview])
  from x obtain ps where ps: "published K spub ps" "tb_account_id (px_tbs ps) = ia_sender_account_id a"
    "tb_generation (px_tbs ps) = ia_sender_generation a"
    "tb_signature_public_key (px_tbs ps) = db_signature_public_key bs" by (auto simp: exchange_def)
  have br: "private_bundle_ok br" "keys_match K br" using x by (simp_all add: exchange_def)
  have sender: "verify_canonical_public_bundle_v1 K spub = Inr (summary_of K spub (px_tbs ps))"
    using ps(1) verify_canonical_Inr_iff by blast
  have dec: "decode_and_validate_private_bundle K draw' (encode_private_bundle br) (recipient_authority expected) False = Inr br"
    using decode_and_validate_run [OF br] by (simp add: expected(3))
  have env: "parse_invitation_envelope (envelope_bytes p) = Inr p"
    using p(2) by (simp add: parse_invitation_envelope_Inr_iff)
  have ver: "verify_domain_signature K ENVELOPE_SIGNATURE_DOMAIN_V1
       [pi_canonical_header p, pi_encapsulation p, be16 (of_nat (length (pi_ciphertext p))), pi_ciphertext p]
       (db_signature_public_key bs) (pi_signature p) = Inr ()"
    using p(4) verify_envelope_iff [OF p(2)] by blast
  have "length ?inner \<le> INVITATION_INNER_MAX_BYTES"
    using preview_bytes_bound [OF preview(2)] by (simp add: INVITATION_INNER_MAX_BYTES_def)
  then have "open_plaintext U ?n (padded ?n ?inner) = decode_canonical_preview U ?inner"
    using open_plaintext_padded [OF plaintext_bytes_bound preview(3)] by simp
  then have "verify_and_open_context_invitation_preview_v1 U K draw' (envelope_bytes p) expected
      (encode_private_bundle br) spub = decode_canonical_preview U ?inner"
    using short_ciphertext [OF p(2)]
    by (simp add: open_unfold expected(1,2) env p(3,5) sender ps dec ver hpke_open_invitation_def)
  with p(1) show ?thesis by blast
qed

end
