(* ===== verification/EnvelopeBridge.thy ===== *)
theory EnvelopeBridge
  imports EnvelopeOps
begin

text \<open>
  The facade over the account envelope: \<open>rust/src/api/account_envelope/bridge.rs\<close>. Its input types
  have the fields of the core types with byte vectors for fixed arrays, so the same records serve
  for both; the conversions check that a vector is a canonical identifier of 16 bytes. The output
  types repeat the core results field by field.
\<close>

definition exact_uuid :: "bytes \<Rightarrow> AccountEnvelopeErrorCodeV1 + bytes" where
  "exact_uuid v =
     (if length v \<noteq> 16 then Inl AuthorityMismatch
      else if \<not> is_canonical_uuid v then Inl AuthorityMismatch
      else Inr v)"

definition private_authority ::
  "bytes \<Rightarrow> u64 \<Rightarrow> bytes \<Rightarrow> u64 \<Rightarrow> AccountEnvelopeErrorCodeV1 + AccountEnvelopePrivateBundleAuthorityV1" where
  "private_authority account gen root root_gen =
     bindE (exact_uuid account) (\<lambda>account_id.
     bindE (exact_uuid root) (\<lambda>root_id.
     let authority = \<lparr>ba_account_id = account_id, ba_generation = gen,
           ba_root_installation_id = root_id, ba_root_authority_generation = root_gen\<rparr> in
     bindE (validate_bundle_authority authority) (\<lambda>_. Inr authority)))"

definition bundle_authority_try_into_core ::
  "AccountEnvelopePrivateBundleAuthorityV1
    \<Rightarrow> AccountEnvelopeErrorCodeV1 + AccountEnvelopePrivateBundleAuthorityV1" where
  "bundle_authority_try_into_core a =
     private_authority (ba_account_id a) (ba_generation a) (ba_root_installation_id a)
       (ba_root_authority_generation a)"

definition invitation_try_into_core ::
  "ContextInvitationAuthorityV1 \<Rightarrow> AccountEnvelopeErrorCodeV1 + ContextInvitationAuthorityV1" where
  "invitation_try_into_core a =
     bindE (exact_uuid (ia_envelope_id a)) (\<lambda>envelope.
     bindE (exact_uuid (ia_invite_id a)) (\<lambda>invite.
     bindE (exact_uuid (ia_sender_account_id a)) (\<lambda>sender.
     bindE (exact_uuid (ia_recipient_account_id a)) (\<lambda>recipient.
     Inr \<lparr>ia_envelope_id = envelope, ia_invite_id = invite, ia_sender_account_id = sender,
       ia_sender_generation = ia_sender_generation a, ia_recipient_account_id = recipient,
       ia_recipient_generation = ia_recipient_generation a, ia_authority_attempt = ia_authority_attempt a,
       ia_relay_slot_version = ia_relay_slot_version a,
       ia_server_created_at_unix_ms = ia_server_created_at_unix_ms a,
       ia_server_expires_at_unix_ms = ia_server_expires_at_unix_ms a,
       ia_padding_class = ia_padding_class a\<rparr>))))"

definition expected_invitation_try_into_core ::
  "ExpectedContextInvitationAuthorityV1
    \<Rightarrow> AccountEnvelopeErrorCodeV1 + ExpectedContextInvitationAuthorityV1" where
  "expected_invitation_try_into_core x =
     bindE (invitation_try_into_core (ea_invitation x)) (\<lambda>invitation.
     bindE (exact_uuid (ea_local_root_installation_id x)) (\<lambda>root.
     Inr \<lparr>ea_invitation = invitation, ea_local_root_installation_id = root,
       ea_local_root_authority_generation = ea_local_root_authority_generation x\<rparr>))"

definition facade_generate ::
  "crypto \<Rightarrow> nat \<Rightarrow> bytes \<Rightarrow> u64 \<Rightarrow> bytes \<Rightarrow> u64 \<Rightarrow> AccountEnvelopeErrorCodeV1 + bytes" where
  "facade_generate K draw account gen root root_gen =
     bindE (private_authority account gen root root_gen) (\<lambda>authority.
     generate_key_bundle_v1 K draw authority)"

definition facade_create ::
  "crypto \<Rightarrow> nat \<Rightarrow> bytes \<Rightarrow> u64 \<Rightarrow> AccountEnvelopeActivationKindV1
    \<Rightarrow> AccountEnvelopeResetReasonV1 option \<Rightarrow> u64 \<Rightarrow> AccountEnvelopePrivateBundleAuthorityV1 \<Rightarrow> bytes
    \<Rightarrow> AccountEnvelopeErrorCodeV1 + SelfSignedPublicBundleResultV1" where
  "facade_create K draw account gen kind reason previous expected private_bundle =
     bindE (exact_uuid account) (\<lambda>account_id.
     bindE (bundle_authority_try_into_core expected) (\<lambda>authority.
     create_self_signed_public_bundle_v1 K draw account_id gen kind reason previous authority
       private_bundle))"

definition facade_authorize ::
  "crypto \<Rightarrow> nat \<Rightarrow> AccountEnvelopePrivateBundleAuthorityV1 \<Rightarrow> bytes \<Rightarrow> bytes
    \<Rightarrow> AccountEnvelopeErrorCodeV1 + AuthorizeSuccessorPublicBundleResultV1" where
  "facade_authorize K draw expected previous_private_bundle candidate =
     bindE (bundle_authority_try_into_core expected) (\<lambda>authority.
     authorize_successor_public_bundle_v1 K draw authority previous_private_bundle candidate)"

definition facade_verify_continuity ::
  "crypto \<Rightarrow> bytes option \<Rightarrow> bytes list \<Rightarrow> bool
    \<Rightarrow> AccountEnvelopeErrorCodeV1 + VerifyContinuityResponseResultV1" where
  "facade_verify_continuity K pinned bundles manual =
     bindE (verify_continuity_response_v1 K pinned bundles manual) (\<lambda>r.
     Inr \<lparr>vc_disposition = vc_disposition r, vc_verified_public_bundle = vc_verified_public_bundle r,
       vc_verified_summary = vc_verified_summary r\<rparr>)"

definition facade_seal ::
  "unicode \<Rightarrow> crypto \<Rightarrow> nat \<Rightarrow> ContextInvitationAuthorityV1 \<Rightarrow> AccountEnvelopePrivateBundleAuthorityV1
    \<Rightarrow> ContextInvitationPreviewV1 \<Rightarrow> bytes \<Rightarrow> bytes \<Rightarrow> AccountEnvelopeErrorCodeV1 + bytes" where
  "facade_seal U K draw authority expected preview recipient_public_bundle sender_private_bundle =
     bindE (invitation_try_into_core authority) (\<lambda>core_authority.
     bindE (bundle_authority_try_into_core expected) (\<lambda>core_expected.
     seal_context_invitation_preview_v1 U K draw core_authority core_expected preview
       recipient_public_bundle sender_private_bundle))"

definition facade_open ::
  "unicode \<Rightarrow> crypto \<Rightarrow> nat \<Rightarrow> bytes \<Rightarrow> ExpectedContextInvitationAuthorityV1 \<Rightarrow> bytes \<Rightarrow> bytes
    \<Rightarrow> AccountEnvelopeErrorCodeV1 + ContextInvitationPreviewV1" where
  "facade_open U K draw envelope expected recipient_private_bundle sender_public_bundle =
     bindE (expected_invitation_try_into_core expected) (\<lambda>core_expected.
     verify_and_open_context_invitation_preview_v1 U K draw envelope core_expected
       recipient_private_bundle sender_public_bundle)"

section \<open>Conversions\<close>

lemma exact_uuid_Inr_iff: "exact_uuid v = Inr w \<longleftrightarrow> w = v \<and> length v = 16 \<and> is_canonical_uuid v"
  by (auto simp: exact_uuid_def)

lemma exact_uuid_Inl: "exact_uuid v = Inl e \<Longrightarrow> e = AuthorityMismatch"
  by (auto simp: exact_uuid_def split: if_splits)

lemma invitation_try_into_core_Inr:
  "invitation_try_into_core a = Inr b \<Longrightarrow> b = a \<and>
     length (ia_envelope_id a) = 16 \<and> length (ia_invite_id a) = 16 \<and>
     length (ia_sender_account_id a) = 16 \<and> length (ia_recipient_account_id a) = 16"
  by (cases a) (auto simp: invitation_try_into_core_def bindE_Inr_iff exact_uuid_Inr_iff)

lemma bundle_authority_try_into_core_Inr_iff:
  "bundle_authority_try_into_core a = Inr b \<longleftrightarrow> b = a \<and> bundle_authority_ok a"
  by (cases a) (auto simp: bundle_authority_try_into_core_def private_authority_def bindE_Inr_iff
      exact_uuid_Inr_iff bundle_authority_ok_def Let_def web_range_iff)

lemma expected_try_into_core_Inr:
  "expected_invitation_try_into_core x = Inr y \<Longrightarrow> y = x \<and> invitation_try_into_core (ea_invitation x) = Inr (ea_invitation x)"
  by (cases x) (auto simp: expected_invitation_try_into_core_def bindE_Inr_iff exact_uuid_Inr_iff
      dest: invitation_try_into_core_Inr)

end
