(* ===== verification/EnvelopeInstance.thy ===== *)
theory EnvelopeInstance
  imports BundleLaws InvitationLaws EnvelopeBridge
begin

text \<open>
  A concrete provider and a concrete Unicode library that satisfy what the properties of the
  account envelope assume, and the bundles of two accounts, for the witnesses. The signature is a
  sum of the bytes of message and key, and sealing appends the sum of its inputs: enough to
  satisfy the laws of a provider, and nothing else is claimed of them.
\<close>

definition byte_sum :: "bytes \<Rightarrow> byte" where
  "byte_sum m = foldr (+) m 0"

definition sum_tag :: "bytes \<Rightarrow> bytes \<Rightarrow> bytes" where
  "sum_tag m k = replicate 64 (byte_sum (m @ k))"

definition sum_crypto :: crypto where
  "sum_crypto =
     \<lparr>random_vec = \<lambda>draw n. Some (replicate n 3),
      derive_hpke_keypair = \<lambda>ikm. Some (replicate 32 5, replicate 32 5),
      signature_key_gen = \<lambda>draw. Some (replicate 32 2, replicate 32 2),
      ed25519_sign = \<lambda>m k. Some (sum_tag m k),
      ed25519_verify = \<lambda>m k s. s = sum_tag m k,
      hpke_seal = \<lambda>draw key info aad pt.
        Some (replicate 32 7, pt @ replicate 16 (byte_sum (key @ info @ aad))),
      hpke_open = \<lambda>kem ct key info aad.
        (if drop (length ct - 16) ct = replicate 16 (byte_sum (key @ info @ aad))
         then Some (take (length ct - 16) ct) else None),
      sha256 = \<lambda>m. replicate 32 (byte_sum m)\<rparr>"

lemma sum_crypto_signature_pair: "signature_pair sum_crypto k k"
  by (simp add: signature_pair_def sum_crypto_def sum_tag_def)

lemma sum_crypto_hpke_pair: "hpke_pair sum_crypto k k"
  by (simp add: hpke_pair_def sum_crypto_def)

text \<open>Bengali vowel sign AA: never the second part of a composition here, and quick-checks Maybe.\<close>

definition plain_unicode :: unicode where
  "plain_unicode = \<lparr>nfc = \<lambda>t. t, is_nfc_quick = \<lambda>t. if 0x9BE \<in> set t then Maybe else Yes\<rparr>"

lemma plain_unicode_ok: "unicode_ok plain_unicode"
  by (simp add: unicode_ok_def plain_unicode_def)

section \<open>Two accounts\<close>

definition account_uuid :: "byte \<Rightarrow> bytes" where
  "account_uuid n = [n, 0, 0, 0, 0, 0, 0x40, 0, 0x80, 0, 0, 0, 0, 0, 0, 0]"

lemma account_uuid_ok: "n \<noteq> 0 \<Longrightarrow> is_canonical_uuid (account_uuid n)" "length (account_uuid n) = 16"
  by (simp_all add: account_uuid_def is_canonical_uuid_def)

definition bundle_of :: "byte \<Rightarrow> u64 \<Rightarrow> DecodedPrivateBundleV1" where
  "bundle_of n g =
     \<lparr>db_state = ActiveFull,
      db_authority = \<lparr>ba_account_id = account_uuid n, ba_generation = g,
        ba_root_installation_id = account_uuid 9, ba_root_authority_generation = 1\<rparr>,
      db_hpke_private_key = replicate 32 5, db_hpke_public_key = replicate 32 5,
      db_signature_private_key = Some (replicate 32 2), db_signature_public_key = replicate 32 2\<rparr>"

lemma in_web_range_small: "in_web_range 1" "in_web_range 2"
  by (simp_all add: in_web_range_def MAX_WEB_SAFE_INTEGER_def)

lemma all_zero_replicate: "all_zero (replicate n b) \<longleftrightarrow> n = 0 \<or> b = 0"
  by (cases n) (auto simp: all_zero_def list_all_iff)

lemma bundle_of_ok:
  assumes "n \<noteq> 0" "in_web_range g"
  shows "private_bundle_ok (bundle_of n g)" "keys_match sum_crypto (bundle_of n g)"
    "db_state (bundle_of n g) = ActiveFull" "ba_account_id (db_authority (bundle_of n g)) = account_uuid n"
    "ba_generation (db_authority (bundle_of n g)) = g"
    "db_signature_public_key (bundle_of n g) = replicate 32 2"
    "db_hpke_public_key (bundle_of n g) = replicate 32 5"
  using assms account_uuid_ok [of n] account_uuid_ok [of 9] in_web_range_small
  by (simp_all add: private_bundle_ok_def bundle_of_def bundle_authority_ok_def web_range_iff
      all_zero_replicate state_allows_key_def keys_match_def sum_crypto_hpke_pair sum_crypto_signature_pair)

text \<open>The initial public bundle of an account.\<close>

definition initial_tbs :: "byte \<Rightarrow> PublicBundleTbsV1" where
  "initial_tbs n = requested_tbs (bundle_of n 1) Initial None 0"

definition initial_parsed :: "byte \<Rightarrow> ParsedPublicBundleV1" where
  "initial_parsed n =
     \<lparr>px_tbs = initial_tbs n, px_tbs_bytes = encode_public_bundle_tbs (initial_tbs n),
      px_self_signature =
        sum_tag (BUNDLE_SELF_SIGNATURE_DOMAIN_V1 @ encode_public_bundle_tbs (initial_tbs n)) (replicate 32 2),
      px_transition_signature = None\<rparr>"

definition initial_bundle :: "byte \<Rightarrow> bytes" where
  "initial_bundle n = encode_parsed (initial_parsed n)"

lemma initial_shape: "shape_ok (initial_tbs n) False"
  by (simp add: shape_ok_def validate_bundle_shape_def initial_tbs_def requested_tbs_def bundle_of_def)

lemma initial_published:
  assumes "n \<noteq> 0"
  shows "published sum_crypto (initial_bundle n) (initial_parsed n)"
proof -
  have "tbs_ok (initial_tbs n)"
    using requested_tbs_ok [of "bundle_of n 1" Initial None 0] bundle_of_ok [OF assms in_web_range_small(1)]
      initial_shape [of n]
    by (simp add: initial_tbs_def)
  then have "parsed_ok (initial_parsed n)"
    by (simp add: parsed_ok_def initial_parsed_def sum_tag_def)
  then show ?thesis
    using initial_shape [of n] bundle_of_ok(6) [OF assms in_web_range_small(1)]
    by (simp add: published_def parse_complete_public_bundle_Inr_iff initial_bundle_def initial_parsed_def
        sum_crypto_def) (simp add: initial_tbs_def)
qed

lemma initial_fields:
  "tb_account_id (px_tbs (initial_parsed n)) = account_uuid n"
  "tb_generation (px_tbs (initial_parsed n)) = 1"
  "tb_signature_public_key (px_tbs (initial_parsed n)) = replicate 32 2"
  "tb_hpke_public_key (px_tbs (initial_parsed n)) = replicate 32 5"
  by (simp_all add: initial_parsed_def initial_tbs_def bundle_of_def)

text \<open>An invitation from account 1 to account 2.\<close>

definition sample_invitation :: ContextInvitationAuthorityV1 where
  "sample_invitation =
     \<lparr>ia_envelope_id = account_uuid 3, ia_invite_id = account_uuid 4,
      ia_sender_account_id = account_uuid 1, ia_sender_generation = 1,
      ia_recipient_account_id = account_uuid 2, ia_recipient_generation = 1,
      ia_authority_attempt = 1, ia_relay_slot_version = 1,
      ia_server_created_at_unix_ms = 1, ia_server_expires_at_unix_ms = 2, ia_padding_class = Bytes512\<rparr>"

definition sample_expected :: ExpectedContextInvitationAuthorityV1 where
  "sample_expected =
     \<lparr>ea_invitation = sample_invitation, ea_local_root_installation_id = account_uuid 9,
      ea_local_root_authority_generation = 1\<rparr>"

lemma sample_invitation_valid: "validate_invitation_authority sample_invitation = Inr ()"
  using account_uuid_ok(1)
  by (simp add: validate_invitation_authority_def sample_invitation_def MAX_WEB_SAFE_INTEGER_def
      INVITATION_MAX_LIFETIME_MS_def)

lemma sample_expected_ok:
  "validate_expected_invitation sample_expected = Inr ()" "ea_invitation sample_expected = sample_invitation"
  "recipient_authority sample_expected = db_authority (bundle_of 2 1)"
  using account_uuid_ok(1) sample_invitation_valid
  by (simp_all add: validate_expected_invitation_def sample_expected_def MAX_WEB_SAFE_INTEGER_def
      recipient_authority_def bundle_of_def sample_invitation_def)

lemma sample_exchange:
  "exchange sum_crypto sample_invitation (bundle_of 1 1) (initial_bundle 1) (bundle_of 2 1) (initial_bundle 2)"
proof -
  have "invitation_authority_ok sample_invitation"
    using sample_invitation_valid
    by (simp add: invitation_authority_ok_def) (simp add: sample_invitation_def account_uuid_ok)
  moreover have "published sum_crypto (initial_bundle 1) (initial_parsed 1)"
    "published sum_crypto (initial_bundle 2) (initial_parsed 2)"
    by (simp_all add: initial_published)
  moreover have "ia_sender_account_id sample_invitation = account_uuid 1" "ia_sender_generation sample_invitation = 1"
    "ia_recipient_account_id sample_invitation = account_uuid 2" "ia_recipient_generation sample_invitation = 1"
    by (simp_all add: sample_invitation_def)
  ultimately show ?thesis
    unfolding exchange_def using initial_fields bundle_of_ok [of 1 1] bundle_of_ok [of 2 1] in_web_range_small
    by auto
qed

text \<open>Previews: the title ``Hi'' with two tags, and a Bengali title.\<close>

definition plain_preview :: ContextInvitationPreviewV1 where
  "plain_preview = \<lparr>preview_title = Some [0x20, 72, 105], preview_tags = [[65, 98], [67]]\<rparr>"

definition bengali_preview :: ContextInvitationPreviewV1 where
  "bengali_preview = \<lparr>preview_title = Some [0x9AC, 0x9BE, 0x982, 0x9B2, 0x9BE], preview_tags = []\<rparr>"

end
