(* ===== verification/EnvelopeProperties.thy ===== *)
theory EnvelopeProperties
  imports EnvelopeInstance
begin

text \<open>
  The properties of the account envelope, each with a witness on the concrete provider of
  \<open>EnvelopeInstance\<close>.
\<close>

section \<open>Invitations\<close>

lemmas preview_run = preview_texts_def normalized_preview_def nonblank_def trim_matches_def
  is_unicode_17_white_space_def plain_unicode_def canonical_text_def untrimmed_def is_scalar_def

lemmas preview_sizes = preview_fits_def title_fits_def tag_fits_def text_fits_def preview_bytes_def utf8_char_def
  INVITATION_TITLE_MAX_CODE_POINTS_def INVITATION_TITLE_MAX_BYTES_def INVITATION_TAG_MAX_CODE_POINTS_def
  INVITATION_TAG_MAX_BYTES_def INVITATION_TAG_MAX_COUNT_def

text \<open>
  C8: What \<open>seal_context_invitation_preview_v1\<close> accepted, the recipient opens to the normalised
  preview if the quick check of the decoder answers Yes on each of its texts and they have no
  outer white space; otherwise \<open>verify_and_open_context_invitation_preview_v1\<close> refuses the
  envelope with \<open>PlaintextSchemaInvalid\<close>, although it is authentic, unaltered and sealed by this
  library.
\<close>

theorem sealed_preview_opens_iff_quick_check:
  assumes "exchange K a bs spub br rpub" and "unicode_ok U"
    and "preview_texts text_ok preview" "preview_texts nonblank preview"
    and "preview_fits (normalized_preview U preview)"
    and "length (preview_bytes (normalized_preview U preview)) + 2 \<le> plaintext_bytes (ia_padding_class a)"
    and "validate_expected_invitation expected = Inr ()" "ea_invitation expected = a"
    and "recipient_authority expected = db_authority br"
  shows "\<exists>envelope. seal_context_invitation_preview_v1 U K draw a (db_authority bs) preview rpub
       (encode_private_bundle bs) = Inr envelope \<and>
     verify_and_open_context_invitation_preview_v1 U K draw' envelope expected (encode_private_bundle br) spub
       = (if preview_texts (canonical_text U) (normalized_preview U preview)
          then Inr (normalized_preview U preview) else Inl PlaintextSchemaInvalid)"
  using open_sealed [OF assms(1,4-9), of draw draw']
    decode_preview_bytes [OF assms(5) normalized_texts [OF assms(2-4)], of U] by simp

lemma plain_preview_fits:
  "preview_texts text_ok plain_preview" "preview_texts nonblank plain_preview"
  "preview_fits (normalized_preview plain_unicode plain_preview)"
  "length (preview_bytes (normalized_preview plain_unicode plain_preview)) + 2 \<le> 512"
  "preview_texts (canonical_text plain_unicode) (normalized_preview plain_unicode plain_preview)"
proof -
  have "map default_case_fold [[65, 98], [67]] = [[97, 98], [99]]"
    by (simp add: default_case_fold_lookup fold_char_small case_fold_1_def)
  then show "preview_fits (normalized_preview plain_unicode plain_preview)"
    by (simp add: preview_run preview_sizes plain_preview_def)
qed (simp_all add: preview_run preview_sizes plain_preview_def)

lemma bengali_preview_fits:
  "preview_texts text_ok bengali_preview" "preview_texts nonblank bengali_preview"
  "preview_fits (normalized_preview plain_unicode bengali_preview)"
  "length (preview_bytes (normalized_preview plain_unicode bengali_preview)) + 2 \<le> 512"
  "\<not> preview_texts (canonical_text plain_unicode) (normalized_preview plain_unicode bengali_preview)"
  by (simp_all add: preview_run preview_sizes bengali_preview_def)

theorem sealed_preview_opens_iff_quick_check_witness:
  "(\<exists>envelope. seal_context_invitation_preview_v1 plain_unicode sum_crypto 0 sample_invitation
       (db_authority (bundle_of 1 1)) plain_preview (initial_bundle 2) (encode_private_bundle (bundle_of 1 1))
       = Inr envelope \<and>
     verify_and_open_context_invitation_preview_v1 plain_unicode sum_crypto 0 envelope sample_expected
       (encode_private_bundle (bundle_of 2 1)) (initial_bundle 1)
       = Inr \<lparr>preview_title = Some [72, 105], preview_tags = [[65, 98], [67]]\<rparr>) \<and>
   (\<exists>envelope. seal_context_invitation_preview_v1 plain_unicode sum_crypto 0 sample_invitation
       (db_authority (bundle_of 1 1)) bengali_preview (initial_bundle 2) (encode_private_bundle (bundle_of 1 1))
       = Inr envelope \<and>
     verify_and_open_context_invitation_preview_v1 plain_unicode sum_crypto 0 envelope sample_expected
       (encode_private_bundle (bundle_of 2 1)) (initial_bundle 1) = Inl PlaintextSchemaInvalid)"
proof -
  have "plaintext_bytes (ia_padding_class sample_invitation) = 512" by (simp add: sample_invitation_def)
  moreover have "normalized_preview plain_unicode plain_preview
      = \<lparr>preview_title = Some [72, 105], preview_tags = [[65, 98], [67]]\<rparr>"
    by (simp add: preview_run plain_preview_def)
  ultimately show ?thesis
    using sealed_preview_opens_iff_quick_check [OF sample_exchange plain_unicode_ok plain_preview_fits(1-3)
        _ sample_expected_ok, of 0 0] plain_preview_fits(4,5)
      sealed_preview_opens_iff_quick_check [OF sample_exchange plain_unicode_ok bengali_preview_fits(1-3)
        _ sample_expected_ok, of 0 0] bengali_preview_fits(4,5)
    by simp
qed

text \<open>
  C10: A preview that \<open>verify_and_open_context_invitation_preview_v1\<close> returns was signed: the
  key of the sender's published bundle, of the expected account and generation, verifies the
  signature over the canonical header of exactly the expected authority, the encapsulation, the
  length and the ciphertext; the ciphertext decrypts under the recipient's own key with that
  header to the padded canonical encoding of the preview, and the preview is within its bounds.
\<close>

theorem opened_preview_was_signed:
  assumes "verify_and_open_context_invitation_preview_v1 U K draw envelope expected rpriv spub = Inr q"
  shows "\<exists>p ps br. parse_invitation_envelope envelope = Inr p \<and>
     pi_canonical_header p = header_bytes (ea_invitation expected) \<and>
     published K spub ps \<and>
     tb_account_id (px_tbs ps) = ia_sender_account_id (ea_invitation expected) \<and>
     tb_generation (px_tbs ps) = ia_sender_generation (ea_invitation expected) \<and>
     ed25519_verify K (signed_envelope p) (tb_signature_public_key (px_tbs ps)) (pi_signature p) \<and>
     decode_private_bundle rpriv = Inr br \<and> db_authority br = recipient_authority expected \<and>
     hpke_open K (pi_encapsulation p) (pi_ciphertext p) (db_hpke_private_key br) HPKE_CONTEXT_DOMAIN_V1
       (header_bytes (ea_invitation expected))
       = Some (padded (plaintext_bytes (ia_padding_class (ea_invitation expected))) (preview_bytes q)) \<and>
     preview_ok U q"
proof -
  from assms obtain p ps br where *: "parsed_invitation_ok p" "envelope = envelope_bytes p"
    "pi_authority p = ea_invitation expected" "published K spub ps"
    "tb_account_id (px_tbs ps) = ia_sender_account_id (ea_invitation expected)"
    "tb_generation (px_tbs ps) = ia_sender_generation (ea_invitation expected)"
    "decode_and_validate_private_bundle K draw rpriv (recipient_authority expected) False = Inr br"
    "ed25519_verify K (signed_envelope p) (tb_signature_public_key (px_tbs ps)) (pi_signature p)"
    "hpke_open K (pi_encapsulation p) (pi_ciphertext p) (db_hpke_private_key br) HPKE_CONTEXT_DOMAIN_V1
       (pi_canonical_header p)
       = Some (padded (plaintext_bytes (ia_padding_class (ea_invitation expected))) (preview_bytes q))"
    "preview_ok U q"
    by (auto simp: open_Inr_iff Let_def)
  have "pi_canonical_header p = header_bytes (ea_invitation expected)"
    using *(1,3) by (simp add: parsed_invitation_ok_def)
  moreover have "parse_invitation_envelope envelope = Inr p"
    using *(1,2) by (simp add: parse_invitation_envelope_Inr_iff)
  moreover have "decode_private_bundle rpriv = Inr br" "db_authority br = recipient_authority expected"
    using decode_and_validate_Inr [OF *(7)] by (simp_all add: decode_private_bundle_Inr_iff)
  ultimately show ?thesis using * by auto
qed

theorem opened_preview_was_signed_witness:
  "\<exists>envelope p. parse_invitation_envelope envelope = Inr p \<and>
     pi_canonical_header p = header_bytes sample_invitation \<and>
     ed25519_verify sum_crypto (signed_envelope p) (replicate 32 2) (pi_signature p)"
proof -
  obtain envelope where "verify_and_open_context_invitation_preview_v1 plain_unicode sum_crypto 0 envelope
      sample_expected (encode_private_bundle (bundle_of 2 1)) (initial_bundle 1)
      = Inr (normalized_preview plain_unicode plain_preview)"
    using open_sealed [OF sample_exchange plain_preview_fits(2,3) _ sample_expected_ok, of 0 0]
      plain_preview_fits(4,5) decode_preview_bytes [OF plain_preview_fits(3)
        normalized_texts [OF plain_unicode_ok plain_preview_fits(1,2)], of plain_unicode]
    by (auto simp: sample_invitation_def)
  from opened_preview_was_signed [OF this]
  obtain p ps where "parse_invitation_envelope envelope = Inr p" "published sum_crypto (initial_bundle 1) ps"
    "pi_canonical_header p = header_bytes (ea_invitation sample_expected)"
    "ed25519_verify sum_crypto (signed_envelope p) (tb_signature_public_key (px_tbs ps)) (pi_signature p)"
    by blast
  moreover from this have "ps = initial_parsed 1"
    using published_unique initial_published [of 1] by fastforce
  ultimately show ?thesis using initial_fields(3) [of 1] sample_expected_ok(2) by auto
qed

section \<open>Bundles\<close>

text \<open>
  C9: \<open>verify_continuity_response_v1\<close> accepts a response with a result exactly when the verdict of
  the result holds: a first bundle without a pin; the unchanged pin; a chain of at most 32
  rotations from the pin, each of the next generation of the same account and signed by the key
  of its predecessor; a reset bundle alone; or, when authorised, a bundle of the same account. The
  bundle and the summary returned are the verified ones. Nothing else is accepted.
\<close>

theorem continuity_accepts_exactly_the_verdicts:
  "verify_continuity_response_v1 K pinned bundles manual = Inr r \<longleftrightarrow>
     length (concat bundles) \<le> CONTINUITY_MAX_CANONICAL_BYTES \<and>
     (\<exists>q. published K (vc_verified_public_bundle r) q \<and>
        vc_verified_summary r = summary_of K (vc_verified_public_bundle r) (px_tbs q) \<and>
        continuity_verdict K pinned bundles manual (vc_disposition r) (vc_verified_public_bundle r) q)"
  by (rule continuity_Inr_iff)

text \<open>The candidate of generation 2 of account 1, and its authorisation.\<close>

lemma rotation_shape: "shape_ok (requested_tbs (bundle_of n 2) Rotation None 1) True"
  by (simp add: shape_ok_def validate_bundle_shape_def bundle_of_def)

lemma sample_rotation:
  "\<exists>cand r. create_self_signed_public_bundle_v1 sum_crypto 0 (account_uuid 1) 2 Rotation None 1
       (db_authority (bundle_of 1 2)) (encode_private_bundle (bundle_of 1 2))
       = Inr (NonPublishableRotationCandidate cand) \<and>
     authorize_successor_public_bundle_v1 sum_crypto 0 (db_authority (bundle_of 1 1))
       (encode_private_bundle (bundle_of 1 1)) cand = Inr r"
proof -
  let ?t = "requested_tbs (bundle_of 1 2) Rotation None 1"
  note b1 = bundle_of_ok [OF one_neq_zero in_web_range_small(1)]
  note b2 = bundle_of_ok [OF one_neq_zero in_web_range_small(2)]
  obtain c cand where c: "parsed_ok c" "px_transition_signature c = None" "px_tbs c = ?t"
    "ed25519_verify sum_crypto (BUNDLE_SELF_SIGNATURE_DOMAIN_V1 @ px_tbs_bytes c)
       (tb_signature_public_key (px_tbs c)) (px_self_signature c)"
    "cand = encode_rotation_candidate (px_tbs_bytes c) (px_self_signature c)"
    "create_self_signed_public_bundle_v1 sum_crypto 0 (ba_account_id (db_authority (bundle_of 1 2)))
       (ba_generation (db_authority (bundle_of 1 2))) Rotation None 1 (db_authority (bundle_of 1 2))
       (encode_private_bundle (bundle_of 1 2)) = Inr (NonPublishableRotationCandidate cand)"
    by (rule create_rotation_run [OF b2(1,3,2) rotation_shape])
  have "\<exists>r. authorize_successor_public_bundle_v1 sum_crypto 0 (db_authority (bundle_of 1 1))
      (encode_private_bundle (bundle_of 1 1)) (encode_rotation_candidate (px_tbs_bytes c) (px_self_signature c)) = Inr r"
    by (rule authorize_successor_run [OF b1(1,3,2) c(1,2) _ _ c(4)]) (simp_all add: c(3) rotation_shape b1 b2)
  then show ?thesis using c(5,6) b2(4,5) by auto
qed

text \<open>
  Two consecutive generations of one account whose keys match can always be rotated: the
  newer bundle yields a rotation candidate, the older one authorises it, and whoever pinned the
  older public bundle verifies the rotation.
\<close>

theorem rotation_goes_through:
  assumes "private_bundle_ok old" "db_state old = ActiveFull" "keys_match K old"
    and "private_bundle_ok new" "db_state new = ActiveFull" "keys_match K new"
    and "ba_account_id (db_authority new) = ba_account_id (db_authority old)"
    and "ba_generation (db_authority new) = ba_generation (db_authority old) + 1"
    and "published K pin p" "tb_account_id (px_tbs p) = ba_account_id (db_authority old)"
      "tb_generation (px_tbs p) = ba_generation (db_authority old)"
      "tb_signature_public_key (px_tbs p) = db_signature_public_key old"
  shows "\<exists>cand r v.
     create_self_signed_public_bundle_v1 K draw (ba_account_id (db_authority new))
       (ba_generation (db_authority new)) Rotation None (ba_generation (db_authority old)) (db_authority new)
       (encode_private_bundle new) = Inr (NonPublishableRotationCandidate cand) \<and>
     authorize_successor_public_bundle_v1 K draw' (db_authority old) (encode_private_bundle old) cand = Inr r \<and>
     verify_continuity_response_v1 K (Some pin) [authorized_canonical_successor_public_bundle r] False = Inr v \<and>
     vc_disposition v = RotationChainVerified \<and>
     sm_signature_public_key (vc_verified_summary v) = db_signature_public_key new \<and>
     sm_hpke_public_key (vc_verified_summary v) = db_hpke_public_key new"
proof -
  let ?g = "ba_generation (db_authority old)"
  let ?t = "requested_tbs new Rotation None ?g"
  have g: "in_web_range ?g"
    using assms(1) by (simp add: private_bundle_ok_def bundle_authority_ok_def web_range_iff)
  then have "unat (?g + 1) = unat ?g + 1" "unat ?g \<noteq> 0"
    using web_range_succ [OF g, of "?g + 1"] by (auto simp: in_web_range_def unat_eq_0)
  then have "?g + 1 > 1" by (simp add: word_less_nat_alt)
  then have shape: "shape_ok ?t True"
    using assms(8) by (simp add: shape_ok_def validate_bundle_shape_def)
  obtain c cand where c: "parsed_ok c" "px_transition_signature c = None" "px_tbs c = ?t"
    "ed25519_verify K (BUNDLE_SELF_SIGNATURE_DOMAIN_V1 @ px_tbs_bytes c)
       (tb_signature_public_key (px_tbs c)) (px_self_signature c)"
    "cand = encode_rotation_candidate (px_tbs_bytes c) (px_self_signature c)"
    "create_self_signed_public_bundle_v1 K draw (ba_account_id (db_authority new))
       (ba_generation (db_authority new)) Rotation None ?g (db_authority new) (encode_private_bundle new)
     = Inr (NonPublishableRotationCandidate cand)"
    by (rule create_rotation_run [OF assms(4-6) shape])
  have "\<exists>r. authorize_successor_public_bundle_v1 K draw' (db_authority old) (encode_private_bundle old)
      (encode_rotation_candidate (px_tbs_bytes c) (px_self_signature c)) = Inr r"
    by (rule authorize_successor_run [OF assms(1-3) c(1,2) _ _ c(4)]) (simp_all add: c(3) shape assms(7,8))
  then obtain r where r: "authorize_successor_public_bundle_v1 K draw' (db_authority old)
      (encode_private_bundle old) cand = Inr r"
    using c(5) by blast
  have "decode_private_bundle (encode_private_bundle old) = Inr old"
    using assms(1) by (simp add: decode_private_bundle_Inr_iff)
  from authorized_continues [OF r assms(9-11) this assms(12)] obtain q v where
    q: "parse_rotation_candidate cand = Inr q"
    and v: "verify_continuity_response_v1 K (Some pin) [authorized_canonical_successor_public_bundle r] False = Inr v"
      "vc_disposition v = RotationChainVerified"
      "vc_verified_summary v = summary_of K (authorized_canonical_successor_public_bundle r) (px_tbs q)"
    by auto
  have "parse_rotation_candidate cand = Inr c"
    using c shape by (simp add: parse_rotation_candidate_Inr_iff)
  with q have "px_tbs q = ?t" using c(3) by simp
  with v(3) have "sm_signature_public_key (vc_verified_summary v) = db_signature_public_key new"
    "sm_hpke_public_key (vc_verified_summary v) = db_hpke_public_key new" by simp_all
  then show ?thesis using c(6) r v(1,2) by blast
qed

theorem rotation_goes_through_witness:
  "\<exists>cand r v. create_self_signed_public_bundle_v1 sum_crypto 0 (account_uuid 1) 2 Rotation None 1
       (db_authority (bundle_of 1 2)) (encode_private_bundle (bundle_of 1 2))
       = Inr (NonPublishableRotationCandidate cand) \<and>
     authorize_successor_public_bundle_v1 sum_crypto 0 (db_authority (bundle_of 1 1))
       (encode_private_bundle (bundle_of 1 1)) cand = Inr r \<and>
     verify_continuity_response_v1 sum_crypto (Some (initial_bundle 1))
       [authorized_canonical_successor_public_bundle r] False = Inr v"
proof -
  note b1 = bundle_of_ok [OF one_neq_zero in_web_range_small(1)]
  note b2 = bundle_of_ok [OF one_neq_zero in_web_range_small(2)]
  show ?thesis
    using rotation_goes_through [OF b1(1,3,2) b2(1,3,2) _ _ initial_published [OF one_neq_zero], of 0 0]
      b1 b2 initial_fields [of 1] by (simp add: one_add_one) blast
qed

text \<open>
  The retired bundle that \<open>authorize_successor_public_bundle_v1\<close> returns keeps the decryption
  key and loses the signing key: it decodes to the same keys without the private signature key, it
  is still accepted where only decryption is needed, and no operation that signs accepts it.
\<close>

theorem retired_bundle_only_decrypts:
  assumes "authorize_successor_public_bundle_v1 K draw expected prev cand = Inr r"
    and "decode_private_bundle prev = Inr b" "keys_match K b"
    and "retired_previous_private_bundle_candidate r = retired"
  shows "decode_private_bundle retired
       = Inr (b\<lparr>db_state := RetiredDecryptOnly, db_signature_private_key := None\<rparr>) \<and>
     is_ok (decode_and_validate_private_bundle K d retired expected False) \<and>
     \<not> is_ok (authorize_successor_public_bundle_v1 K d e retired c) \<and>
     \<not> is_ok (create_self_signed_public_bundle_v1 K d account gen kind reason previous e retired) \<and>
     \<not> is_ok (seal_context_invitation_preview_v1 U K d a e preview rpub retired)"
proof -
  obtain b' where b': "private_bundle_ok b'" "prev = encode_private_bundle b'" "db_authority b' = expected"
    and ret: "retired_previous_private_bundle_candidate r
       = encode_private_bundle (b'\<lparr>db_state := RetiredDecryptOnly, db_signature_private_key := None\<rparr>)"
    by (rule authorize_successor_Inr [OF assms(1)])
  have "b' = b" using b' assms(2) decode_private_bundle_Inr_iff [of prev b'] by simp
  let ?b = "b\<lparr>db_state := RetiredDecryptOnly, db_signature_private_key := None\<rparr>"
  have ok: "private_bundle_ok ?b" using retired_bundle_ok b'(1) by (simp add: \<open>b' = b\<close>)
  have retired: "retired = encode_private_bundle ?b" using ret assms(4) by (simp add: \<open>b' = b\<close>)
  have "keys_match K ?b" using assms(3) by (simp add: keys_match_def)
  then have "decode_and_validate_private_bundle K d retired expected False = Inr ?b"
    using decode_and_validate_run [OF ok, of K False d] b'(3) by (simp add: retired \<open>b' = b\<close>)
  moreover have "decode_and_validate_private_bundle K d retired e True = Inl PrivateBundleInvalid" for d e
    unfolding retired by (rule retired_is_refused [OF ok]) simp
  ultimately show ?thesis
    using ok by (auto simp: is_ok_iff retired decode_private_bundle_Inr_iff bindE_Inr_iff if_Inl_Inr_iff
        authorize_successor_public_bundle_v1_def create_self_signed_public_bundle_v1_def
        seal_context_invitation_preview_v1_def)
qed

theorem retired_bundle_only_decrypts_witness:
  "\<exists>retired. is_ok (decode_and_validate_private_bundle sum_crypto 0 retired (db_authority (bundle_of 1 1)) False) \<and>
     \<not> is_ok (seal_context_invitation_preview_v1 plain_unicode sum_crypto 0 sample_invitation
       (db_authority (bundle_of 1 1)) plain_preview (initial_bundle 2) retired)"
proof -
  note b1 = bundle_of_ok [OF one_neq_zero in_web_range_small(1)]
  obtain cand r where r: "authorize_successor_public_bundle_v1 sum_crypto 0 (db_authority (bundle_of 1 1))
       (encode_private_bundle (bundle_of 1 1)) cand = Inr r"
    using sample_rotation by blast
  have "decode_private_bundle (encode_private_bundle (bundle_of 1 1)) = Inr (bundle_of 1 1)"
    using b1(1) by (simp add: decode_private_bundle_Inr_iff)
  from retired_bundle_only_decrypts [OF r this b1(2) refl] show ?thesis by blast
qed

text \<open>What generation relies on: the keys it derives work and are not zero.\<close>

definition generator_ok :: "crypto \<Rightarrow> bool" where
  "generator_ok K \<longleftrightarrow>
     (\<forall>ikm private_key public_key. derive_hpke_keypair K ikm = Some (private_key, public_key) \<longrightarrow>
        hpke_pair K private_key public_key \<and> \<not> all_zero private_key \<and> \<not> all_zero public_key) \<and>
     (\<forall>draw private_key public_key. signature_key_gen K draw = Some (private_key, public_key) \<longrightarrow>
        signature_pair K private_key public_key \<and> \<not> all_zero public_key)"

lemma sum_crypto_generator_ok: "generator_ok sum_crypto"
proof -
  have "derive_hpke_keypair sum_crypto ikm = Some (replicate 32 5, replicate 32 5)"
    "signature_key_gen sum_crypto draw = Some (replicate 32 2, replicate 32 2)" for ikm draw
    by (simp_all add: sum_crypto_def)
  then show ?thesis
    by (auto simp: generator_ok_def sum_crypto_signature_pair sum_crypto_hpke_pair all_zero_replicate)
qed

text \<open>
  A bundle from \<open>generate_key_bundle_v1\<close> for generation 1 is usable: \<open>decode_private_bundle\<close>
  reads back an active bundle of the requested authority,
  \<open>create_self_signed_public_bundle_v1\<close> publishes it as the initial bundle, and a first
  observation of that bundle is accepted by \<open>verify_continuity_response_v1\<close>.
\<close>

theorem generated_bundle_can_be_published:
  assumes "generate_key_bundle_v1 K draw authority = Inr private_bundle" and "generator_ok K"
    and "length (ba_account_id authority) = 16" "length (ba_root_installation_id authority) = 16"
    and "ba_generation authority = 1"
  shows "\<exists>b public v. decode_private_bundle private_bundle = Inr b \<and> db_state b = ActiveFull \<and>
     db_authority b = authority \<and>
     create_self_signed_public_bundle_v1 K draw' (ba_account_id authority) 1 Initial None 0 authority
       private_bundle = Inr (CanonicalPublicBundle public) \<and>
     verify_continuity_response_v1 K None [public] False = Inr v \<and> vc_disposition v = FirstObservation \<and>
     sm_signature_public_key (vc_verified_summary v) = db_signature_public_key b"
proof -
  from assms(1) obtain b where valid: "validate_bundle_authority authority = Inr ()"
    and b: "generate_private_bundle K draw authority = Inr b" "private_bundle = encode_private_bundle b"
    by (auto simp: generate_key_bundle_v1_def bindE_Inr_iff)
  then have ok: "private_bundle_ok b" "keys_match K b" "db_state b = ActiveFull" "db_authority b = authority"
    using assms(2-4)
    by (auto simp: generate_private_bundle_def bindE_Inr_iff ok_or_Inr_iff Let_def exact_key_def KEY_BYTES_def
        private_bundle_ok_def bundle_authority_ok_def state_allows_key_def keys_match_def generator_ok_def
        split: prod.splits if_splits)
  let ?t = "requested_tbs b Initial None 0"
  have shape: "shape_ok ?t (Initial = Rotation)"
    using assms(5) by (simp add: shape_ok_def validate_bundle_shape_def ok)
  obtain s where s: "parsed_ok \<lparr>px_tbs = ?t, px_tbs_bytes = encode_public_bundle_tbs ?t,
       px_self_signature = s, px_transition_signature = None\<rparr>" (is "parsed_ok ?p")
    "ed25519_verify K (BUNDLE_SELF_SIGNATURE_DOMAIN_V1 @ encode_public_bundle_tbs ?t) (db_signature_public_key b) s"
    "create_self_signed_public_bundle_v1 K draw' (ba_account_id (db_authority b))
       (ba_generation (db_authority b)) Initial None 0 (db_authority b) (encode_private_bundle b)
     = Inr (if Initial = Rotation
        then NonPublishableRotationCandidate (encode_rotation_candidate (encode_public_bundle_tbs ?t) s)
        else CanonicalPublicBundle (encode_complete_public_bundle (encode_public_bundle_tbs ?t) s None))"
    by (rule create_self_signed_run [OF ok(1,3,2) shape])
  let ?public = "encode_complete_public_bundle (encode_public_bundle_tbs ?t) s None"
  have pub: "published K ?public ?p"
    using s shape by (simp add: published_def parse_complete_public_bundle_Inr_iff encode_parsed_def)
  then have "length ?public \<le> CONTINUITY_MAX_CANONICAL_BYTES"
    using published_parse [OF pub]
    by (auto simp: parse_complete_public_bundle_def PUBLIC_BUNDLE_MAX_BYTES_def CONTINUITY_MAX_CANONICAL_BYTES_def
        split: if_splits)
  with pub have "verify_continuity_response_v1 K None [?public] False
      = Inr \<lparr>vc_disposition = FirstObservation, vc_verified_public_bundle = ?public,
          vc_verified_summary = summary_of K ?public ?t\<rparr>"
    by (auto simp: continuity_Inr_iff continuity_verdict_def intro!: exI [of _ ?p])
  then obtain v where "verify_continuity_response_v1 K None [?public] False = Inr v"
    "vc_disposition v = FirstObservation" "sm_signature_public_key (vc_verified_summary v) = db_signature_public_key b"
    by simp
  moreover have "decode_private_bundle private_bundle = Inr b"
    using ok(1) by (simp add: b(2) decode_private_bundle_Inr_iff)
  moreover have "create_self_signed_public_bundle_v1 K draw' (ba_account_id authority) 1 Initial None 0 authority
      private_bundle = Inr (CanonicalPublicBundle ?public)"
    using s(3) ok(4) assms(5) by (simp add: b(2))
  ultimately show ?thesis using ok(3,4) by blast
qed

theorem generated_bundle_can_be_published_witness:
  "\<exists>private_bundle public v. generate_key_bundle_v1 sum_crypto 0 (db_authority (bundle_of 1 1)) = Inr private_bundle \<and>
     create_self_signed_public_bundle_v1 sum_crypto 0 (account_uuid 1) 1 Initial None 0
       (db_authority (bundle_of 1 1)) private_bundle = Inr (CanonicalPublicBundle public) \<and>
     verify_continuity_response_v1 sum_crypto None [public] False = Inr v"
proof -
  note b1 = bundle_of_ok [OF one_neq_zero in_web_range_small(1)]
  have "random_vec sum_crypto 0 32 = Some (replicate 32 3)"
    "derive_hpke_keypair sum_crypto (replicate 32 3) = Some (replicate 32 5, replicate 32 5)"
    "signature_key_gen sum_crypto (0 + 1) = Some (replicate 32 2, replicate 32 2)"
    by (simp_all add: sum_crypto_def)
  moreover have "validate_private_bundle_crypto sum_crypto (0 + 2) (bundle_of 1 1) = Inr ()"
    by (rule keys_match_validate [OF b1(2)])
  moreover have "\<lparr>db_state = ActiveFull, db_authority = db_authority (bundle_of 1 1),
      db_hpke_private_key = replicate 32 5, db_hpke_public_key = replicate 32 5,
      db_signature_private_key = Some (replicate 32 2), db_signature_public_key = replicate 32 2\<rparr> = bundle_of 1 1"
    by (simp add: bundle_of_def)
  ultimately have "generate_private_bundle sum_crypto 0 (db_authority (bundle_of 1 1)) = Inr (bundle_of 1 1)"
    by (simp add: generate_private_bundle_def exact_key_def KEY_BYTES_def Let_def)
  moreover have auth: "bundle_authority_ok (db_authority (bundle_of 1 1))"
    using b1(1) by (simp add: private_bundle_ok_def)
  ultimately have gen: "generate_key_bundle_v1 sum_crypto 0 (db_authority (bundle_of 1 1))
      = Inr (encode_private_bundle (bundle_of 1 1))"
    by (simp add: generate_key_bundle_v1_def bundle_authority_ok_def)
  then show ?thesis
    using generated_bundle_can_be_published [OF gen sum_crypto_generator_ok _ _ b1(5), of 0] auth b1(4)
    by (auto simp: bundle_authority_ok_def)
qed

section \<open>Encodings\<close>

text \<open>
  C37: The decoders of bundles and envelopes accept exactly the encodings of well-formed values:
  \<open>decode_private_bundle\<close> those of \<open>encode_private_bundle\<close>, \<open>parse_complete_public_bundle\<close> those
  of \<open>encode_complete_public_bundle\<close> over an encoded TBS of the right shape, and
  \<open>parse_invitation_envelope\<close> those of \<open>encode_invitation_envelope\<close>. So every value has one
  accepted encoding, and no accepted byte string can be changed without changing its value.
\<close>

theorem envelope_decoders_are_exact:
  "(decode_private_bundle input = Inr b \<longleftrightarrow> private_bundle_ok b \<and> encode_private_bundle b = input) \<and>
   (parse_complete_public_bundle input = Inr p \<longleftrightarrow>
      parsed_ok p \<and> shape_ok (px_tbs p) (px_transition_signature p \<noteq> None) \<and>
      list_all (\<lambda>s. length s = 64) (case px_transition_signature p of None \<Rightarrow> [] | Some s \<Rightarrow> [s]) \<and>
      encode_complete_public_bundle (encode_public_bundle_tbs (px_tbs p)) (px_self_signature p)
        (px_transition_signature p) = input) \<and>
   (parse_invitation_envelope input = Inr e \<longleftrightarrow>
      parsed_invitation_ok e \<and>
      encode_invitation_envelope (pi_canonical_header e) (pi_encapsulation e) (pi_ciphertext e)
        (pi_signature e) = Inr input)"
proof (intro conjI)
  show "decode_private_bundle input = Inr b \<longleftrightarrow> private_bundle_ok b \<and> encode_private_bundle b = input"
    by (auto simp: decode_private_bundle_Inr_iff)
  show "parse_complete_public_bundle input = Inr p \<longleftrightarrow>
      parsed_ok p \<and> shape_ok (px_tbs p) (px_transition_signature p \<noteq> None) \<and>
      list_all (\<lambda>s. length s = 64) (case px_transition_signature p of None \<Rightarrow> [] | Some s \<Rightarrow> [s]) \<and>
      encode_complete_public_bundle (encode_public_bundle_tbs (px_tbs p)) (px_self_signature p)
        (px_transition_signature p) = input"
    by (cases "px_transition_signature p")
      (auto simp: parse_complete_public_bundle_Inr_iff encode_parsed_def parsed_ok_def)
  show "parse_invitation_envelope input = Inr e \<longleftrightarrow>
      parsed_invitation_ok e \<and>
      encode_invitation_envelope (pi_canonical_header e) (pi_encapsulation e) (pi_ciphertext e)
        (pi_signature e) = Inr input"
    using encode_invitation_envelope_ok [of e] by (auto simp: parse_invitation_envelope_Inr_iff)
qed

text \<open>
  \<open>decode_canonical_preview\<close> accepts exactly the encodings of canonical previews (UTF-8 of
  scalar values, trimmed, quick-checked, within the bounds, no two tags equal after case folding),
  and \<open>canonicalize_and_encode_preview\<close> succeeds exactly on previews that are within the bounds
  after trimming and composition, and writes the encoding of the normalised preview.
\<close>

theorem preview_codec_is_exact:
  "(decode_canonical_preview U input = Inr q \<longleftrightarrow>
      preview_texts (canonical_text U) q \<and> preview_fits q \<and> input = preview_bytes q) \<and>
   (canonicalize_and_encode_preview U p = Inr out \<longleftrightarrow>
      preview_texts nonblank p \<and> preview_fits (normalized_preview U p) \<and>
      out = preview_bytes (normalized_preview U p))"
  by (simp add: decode_canonical_preview_Inr_iff canonicalize_and_encode_preview_Inr_iff preview_ok_def conj_assoc)

end
