(* ===== verification/MlsTypes.thy ===== *)
theory MlsTypes
  imports Prelude
begin

text \<open>
  The data of the public API: \<open>rust/src/api/group_e2ee.rs\<close> (error codes, roster leaves
  and summaries, pending bindings, acceptances, authorities), \<open>rust/src/api/storage.rs\<close>
  (storage rows and batches), \<open>rust/src/api/types.rs\<close> and \<open>rust/src/api/config.rs\<close>
  (ciphersuites, wire format, group configuration). A struct is a record with the source's
  field names (prefixed where two structs share one), an enum is a datatype with the source's
  constructors. The OpenMLS configuration that \<open>to_create_config\<close> builds contains the
  leaf lifetime that OpenMLS derives from the clock, so the clock reading is an argument.
\<close>

section \<open>Error codes\<close>

datatype MlsErrorCode =
    InvalidFrame | UnsupportedContractVersion | UnsupportedProfile | UnsupportedOperation
  | NoncanonicalEncoding | LimitExceeded
  | StorageFormatMismatch | InvalidStorageSnapshot | GroupStateUnavailable | BaseStateMismatch
  | ConfigurationMismatch | GroupMismatch | PreviousEpochMismatch | PreviousRosterMismatch
  | ResultingEpochMismatch | ResultingRosterMismatch | AadMismatch | MessageKindMismatch
  | SenderMismatch | LocalLeafMismatch | InvalidSigner | UnsupportedCredential
  | MlsDecodeRejected | WelcomeRejected | MlsProtocolRejected | ExpectedKeyPackageMismatch
  | PendingCommitExists | PendingCommitMissing | PendingBindingMismatch
  | AcceptanceBindingMismatch | MessageEpochMismatch | MessageRosterMismatch | InactiveGroup
  | FutureMessageEpoch | RequiredCommitEpochMismatch | PastEpochUnavailable | GenerationTooOld
  | Replay | ForwardDistanceExceeded | UnsupportedLocalMetadataVersion | LocalMetadataMissing
  | UnsupportedRetention | WireHashMismatch | ExternalCandidateInvalid
  | ExternalCandidateMismatch | ExternalTargetStateExists | ExternalAcceptanceMismatch
  | ExternalOwnCommit | ExternalDeltaMismatch | ExternalLifecycleMismatch | InternalFailure

text \<open>The \<open>repr(u16)\<close> discriminants, the numbers that cross the native boundary.\<close>

fun error_code :: "MlsErrorCode \<Rightarrow> u16" where
  "error_code InvalidFrame = 1"
| "error_code UnsupportedContractVersion = 2"
| "error_code UnsupportedProfile = 3"
| "error_code UnsupportedOperation = 4"
| "error_code NoncanonicalEncoding = 5"
| "error_code LimitExceeded = 6"
| "error_code StorageFormatMismatch = 10"
| "error_code InvalidStorageSnapshot = 11"
| "error_code GroupStateUnavailable = 12"
| "error_code BaseStateMismatch = 13"
| "error_code ConfigurationMismatch = 20"
| "error_code GroupMismatch = 21"
| "error_code PreviousEpochMismatch = 22"
| "error_code PreviousRosterMismatch = 23"
| "error_code ResultingEpochMismatch = 24"
| "error_code ResultingRosterMismatch = 25"
| "error_code AadMismatch = 26"
| "error_code MessageKindMismatch = 27"
| "error_code SenderMismatch = 28"
| "error_code LocalLeafMismatch = 29"
| "error_code InvalidSigner = 30"
| "error_code UnsupportedCredential = 31"
| "error_code MlsDecodeRejected = 32"
| "error_code WelcomeRejected = 33"
| "error_code MlsProtocolRejected = 34"
| "error_code ExpectedKeyPackageMismatch = 35"
| "error_code PendingCommitExists = 40"
| "error_code PendingCommitMissing = 41"
| "error_code PendingBindingMismatch = 42"
| "error_code AcceptanceBindingMismatch = 43"
| "error_code MessageEpochMismatch = 45"
| "error_code MessageRosterMismatch = 46"
| "error_code InactiveGroup = 47"
| "error_code FutureMessageEpoch = 48"
| "error_code RequiredCommitEpochMismatch = 49"
| "error_code PastEpochUnavailable = 50"
| "error_code GenerationTooOld = 51"
| "error_code Replay = 52"
| "error_code ForwardDistanceExceeded = 53"
| "error_code UnsupportedLocalMetadataVersion = 55"
| "error_code LocalMetadataMissing = 56"
| "error_code UnsupportedRetention = 57"
| "error_code WireHashMismatch = 58"
| "error_code ExternalCandidateInvalid = 60"
| "error_code ExternalCandidateMismatch = 61"
| "error_code ExternalTargetStateExists = 62"
| "error_code ExternalAcceptanceMismatch = 63"
| "error_code ExternalOwnCommit = 64"
| "error_code ExternalDeltaMismatch = 65"
| "error_code ExternalLifecycleMismatch = 66"
| "error_code InternalFailure = 255"

section \<open>Rosters\<close>

record MlsRosterLeafV1 =
  leaf_index :: u32
  credential_identity :: bytes
  signature_public_key :: bytes

record MlsRosterSummaryV1 =
  group_id :: bytes
  epoch :: u64
  leaves :: "MlsRosterLeafV1 list"
  digest_sha256 :: bytes

record MlsExpectedRosterStateV1 =
  es_group_id :: bytes
  es_epoch :: u64
  es_digest_sha256 :: bytes

section \<open>Transitions, pending Commits, acceptances\<close>

record MlsTransitionContext =
  command_id :: bytes
  context_sha256 :: bytes

record MlsPendingCommitBinding =
  pb_group_id :: bytes
  pb_incarnation_id :: bytes
  pb_transition :: MlsTransitionContext
  pb_author :: MlsRosterLeafV1
  pb_previous_state :: MlsExpectedRosterStateV1
  pb_commit_sha256 :: bytes
  pb_aad_sha256 :: bytes
  pb_welcome_sha256 :: "bytes option"
  pb_group_info_sha256 :: "bytes option"

record MlsCommitAcceptance =
  ac_binding :: MlsPendingCommitBinding
  ac_resulting_state :: MlsExpectedRosterStateV1
  ac_preparation_base_group_state_sha256 :: bytes

datatype MlsReceiveKind = Application | Commit | Proposal

datatype MlsProposalType =
    PtAdd | PtRemove | PtUpdate | PtPreSharedKey | PtReinit | PtExternalInit
  | PtGroupContextExtensions | PtCustom

datatype ProcessedMessageType = PmApplication | PmProposal | PmStagedCommit

section \<open>Authorities supplied by the caller\<close>

record MlsAuthorizedKeyPackageV1 =
  key_package_bytes :: bytes
  kp_expected_credential_identity :: bytes
  kp_expected_signature_public_key :: bytes

record MlsAuthorizedRemovalV1 =
  rm_leaf_index :: u32
  rm_expected_credential_identity :: bytes
  rm_expected_signature_public_key :: bytes

record MlsAuthorizedOwnerV1 =
  ow_expected_credential_identity :: bytes
  ow_expected_signature_public_key :: bytes

record MlsAuthorizedSelfV1 =
  sf_leaf_index :: u32
  sf_expected_credential_identity :: bytes
  sf_expected_signature_public_key :: bytes

section \<open>Storage rows and batches\<close>

record MlsStorageEntry =
  entry_key :: bytes
  entry_value :: bytes
  entry_group_id :: "bytes option"

record MlsStorageBatch =
  upserts :: "MlsStorageEntry list"
  deletes :: "bytes list"
  deleted_group_ids :: "bytes list"
  storage_format_version :: u32

definition MLS_STORAGE_FORMAT_VERSION :: u32 where
  "MLS_STORAGE_FORMAT_VERSION = 1"

section \<open>Configuration\<close>

datatype MlsCiphersuite =
    Mls128DhkemX25519Aes128gcmSha256Ed25519
  | Mls128DhkemX25519Chacha20poly1305Sha256Ed25519
  | Mls128DhkemP256Aes128gcmSha256P256

datatype MlsWireFormatPolicy = WfPlaintext | WfCiphertext

datatype Ciphersuite =
    MLS_128_DHKEMX25519_AES128GCM_SHA256_Ed25519
  | MLS_128_DHKEMX25519_CHACHA20POLY1305_SHA256_Ed25519
  | MLS_128_DHKEMP256_AES128GCM_SHA256_P256

datatype WireFormatPolicy = PURE_PLAINTEXT_WIRE_FORMAT_POLICY | PURE_CIPHERTEXT_WIRE_FORMAT_POLICY

fun ciphersuite_to_native :: "MlsCiphersuite \<Rightarrow> Ciphersuite" where
  "ciphersuite_to_native Mls128DhkemX25519Aes128gcmSha256Ed25519 =
     MLS_128_DHKEMX25519_AES128GCM_SHA256_Ed25519"
| "ciphersuite_to_native Mls128DhkemX25519Chacha20poly1305Sha256Ed25519 =
     MLS_128_DHKEMX25519_CHACHA20POLY1305_SHA256_Ed25519"
| "ciphersuite_to_native Mls128DhkemP256Aes128gcmSha256P256 =
     MLS_128_DHKEMP256_AES128GCM_SHA256_P256"

fun wire_format_to_native :: "MlsWireFormatPolicy \<Rightarrow> WireFormatPolicy" where
  "wire_format_to_native WfPlaintext = PURE_PLAINTEXT_WIRE_FORMAT_POLICY"
| "wire_format_to_native WfCiphertext = PURE_CIPHERTEXT_WIRE_FORMAT_POLICY"

record MlsGroupConfig =
  ciphersuite :: MlsCiphersuite
  wire_format_policy :: MlsWireFormatPolicy
  use_ratchet_tree_extension :: bool
  max_past_epochs :: u32
  padding_size :: u32
  sender_ratchet_max_out_of_order :: u32
  sender_ratchet_max_forward_distance :: u32
  number_of_resumption_psks :: u32

definition default_config :: "MlsCiphersuite \<Rightarrow> MlsGroupConfig" where
  "default_config cs = \<lparr>
     ciphersuite = cs,
     wire_format_policy = WfCiphertext,
     use_ratchet_tree_extension = True,
     max_past_epochs = 2,
     padding_size = 0,
     sender_ratchet_max_out_of_order = 5,
     sender_ratchet_max_forward_distance = 1000,
     number_of_resumption_psks = 0\<rparr>"

text \<open>
  \<open>MlsGroupJoinConfig\<close> and \<open>MlsGroupCreateConfig\<close> of OpenMLS, restricted to the fields
  that the builders here set and to the one default that is not a constant: the leaf
  lifetime, whose default is read from the clock (\<open>Lifetime::default\<close>, one hour back and
  84 days ahead of the current second). All other defaults are constants, equal in any two
  configurations.
\<close>

record MlsGroupJoinConfig =
  jc_wire_format_policy :: WireFormatPolicy
  jc_use_ratchet_tree_extension :: bool
  jc_max_past_epochs :: nat
  jc_padding_size :: nat
  jc_number_of_resumption_psks :: nat
  jc_sender_ratchet_configuration :: "u32 \<times> u32"

record Lifetime =
  not_before :: u64
  not_after :: u64

record MlsGroupCreateConfig =
  cc_lifetime :: Lifetime
  cc_ciphersuite :: Ciphersuite
  cc_join_config :: MlsGroupJoinConfig

definition lifetime_default :: "u64 \<Rightarrow> Lifetime" where
  "lifetime_default now = \<lparr>not_before = now - 60 * 60, not_after = now + 60 * 60 * 24 * 28 * 3\<rparr>"

definition to_join_config :: "MlsGroupConfig \<Rightarrow> MlsGroupJoinConfig" where
  "to_join_config c = \<lparr>
     jc_wire_format_policy = wire_format_to_native (wire_format_policy c),
     jc_use_ratchet_tree_extension = use_ratchet_tree_extension c,
     jc_max_past_epochs = unat (max_past_epochs c),
     jc_padding_size = unat (padding_size c),
     jc_number_of_resumption_psks = unat (number_of_resumption_psks c),
     jc_sender_ratchet_configuration =
       (sender_ratchet_max_out_of_order c, sender_ratchet_max_forward_distance c)\<rparr>"

definition to_create_config :: "u64 \<Rightarrow> MlsGroupConfig \<Rightarrow> MlsGroupCreateConfig" where
  "to_create_config now c = \<lparr>
     cc_lifetime = lifetime_default now,
     cc_ciphersuite = ciphersuite_to_native (ciphersuite c),
     cc_join_config = to_join_config c\<rparr>"

lemma to_create_config_eq_iff:
  "to_create_config t c = to_create_config t' c' \<longleftrightarrow> t = t' \<and> c = c'"
proof
  assume eq: "to_create_config t c = to_create_config t' c'"
  have cs: "ciphersuite_to_native a = ciphersuite_to_native b \<Longrightarrow> a = b" for a b
    by (cases a; cases b) simp_all
  have wf: "wire_format_to_native a = wire_format_to_native b \<Longrightarrow> a = b" for a b
    by (cases a; cases b) simp_all
  from eq show "t = t' \<and> c = c'"
    by (cases c; cases c')
      (auto simp: to_create_config_def to_join_config_def lifetime_default_def
        dest: cs wf word_unat_eq_iff [THEN iffD2])
qed simp

end
