(* ===== verification/SnapshotStore.thy ===== *)
theory SnapshotStore
  imports MlsTypes Effects
begin

text \<open>
  \<open>SnapshotStorageProvider\<close> of \<open>rust/src/snapshot_storage.rs\<close>: the rows the caller
  supplied (\<open>initial\<close>) and the rows after the operation's writes (\<open>current\<close>), the opaque
  row access of the package's own metadata, and the diff \<open>into_updates\<close>. A hash map is a
  list of rows with distinct keys; its iteration order is the list order, on which no result
  of this theory depends. Wiping freed values (\<open>zeroize\<close>) has no effect on results and
  is not modelled.

  The locale \<open>kv_store\<close> is the interface through which the package metadata
  (\<open>local_group_state.rs\<close>) uses the provider.
\<close>

record snapshot =
  sp_initial :: rows
  sp_current :: rows

record StorageUpdates =
  up_upserts :: "(bytes \<times> bytes) list"
  up_deletes :: "bytes list"

definition GLOBAL_LABELS :: "bytes list" where
  "GLOBAL_LABELS = map ascii [''KeyPackage'', ''Psk'', ''EncryptionKeyPair'', ''SignatureKeyPair'']"

definition is_global_key :: "bytes \<Rightarrow> bool" where
  "is_global_key k \<longleftrightarrow> list_ex (\<lambda>label. starts_with k label) GLOBAL_LABELS"

definition from_entries :: "(bytes \<times> bytes) list \<Rightarrow> snapshot" where
  "from_entries entries =
     (let initial = fold (\<lambda>(k, v). AList.update k v) entries []
      in \<lparr>sp_initial = initial, sp_current = initial\<rparr>)"

definition opaque_keys_with_prefix :: "snapshot \<Rightarrow> bytes \<Rightarrow> bytes list" where
  "opaque_keys_with_prefix s p = filter (\<lambda>k. starts_with k p) (map fst (sp_current s))"

definition read_opaque :: "snapshot \<Rightarrow> bytes \<Rightarrow> bytes option" where
  "read_opaque s k = map_of (sp_current s) k"

definition write_opaque :: "bytes \<Rightarrow> bytes \<Rightarrow> snapshot \<Rightarrow> snapshot" where
  "write_opaque k v s = s\<lparr>sp_current := AList.update k v (sp_current s)\<rparr>"

definition delete_opaque :: "bytes \<Rightarrow> snapshot \<Rightarrow> snapshot" where
  "delete_opaque k s = s\<lparr>sp_current := AList.delete k (sp_current s)\<rparr>"

definition scoped_row :: "bytes option \<Rightarrow> bytes \<Rightarrow> bytes \<Rightarrow> MlsStorageEntry" where
  "scoped_row gid k v = \<lparr>entry_key = k, entry_value = v,
     entry_group_id = (if is_global_key k then None else gid)\<rparr>"

definition snapshot_entries :: "snapshot \<Rightarrow> bytes \<Rightarrow> MlsStorageEntry list" where
  "snapshot_entries s gid = map (\<lambda>(k, v). scoped_row (Some gid) k v) (sp_current s)"

lemma scoped_row_sel [simp]:
  "entry_key (scoped_row g k v) = k" "entry_value (scoped_row g k v) = v"
  "entry_group_id (scoped_row g k v) = (if is_global_key k then None else g)"
  by (simp_all add: scoped_row_def)

definition into_updates :: "snapshot \<Rightarrow> StorageUpdates" where
  "into_updates s = \<lparr>
     up_upserts = filter (\<lambda>(k, v). map_of (sp_initial s) k \<noteq> Some v) (sp_current s),
     up_deletes = filter (\<lambda>k. map_of (sp_current s) k = None) (map fst (sp_initial s))\<rparr>"

definition kv_write :: "bytes \<Rightarrow> bytes \<Rightarrow> snapshot \<Rightarrow> snapshot" where
  "kv_write k v s = s\<lparr>sp_current := AList.update k v (sp_current s)\<rparr>"

definition kv_read :: "snapshot \<Rightarrow> bytes \<Rightarrow> bytes option" where
  "kv_read s k = map_of (sp_current s) k"

definition kv_delete :: "bytes \<Rightarrow> snapshot \<Rightarrow> snapshot" where
  "kv_delete k s = s\<lparr>sp_current := AList.delete k (sp_current s)\<rparr>"

text \<open>Well-formedness: both row sets are maps. Every operation preserves it.\<close>

definition snapshot_ok :: "snapshot \<Rightarrow> bool" where
  "snapshot_ok s \<longleftrightarrow> rows_ok (sp_initial s) \<and> rows_ok (sp_current s)"

lemma rows_ok_fold_update:
  "rows_ok r \<Longrightarrow> rows_ok (fold (\<lambda>(k, v). AList.update k v) entries r)"
  by (induction entries arbitrary: r) (auto split: prod.splits)

lemma snapshot_ok_from_entries [simp]: "snapshot_ok (from_entries entries)"
  by (simp add: snapshot_ok_def from_entries_def Let_def rows_ok_fold_update)

lemma snapshot_ok_writes [simp]:
  "snapshot_ok s \<Longrightarrow> snapshot_ok (write_opaque k v s)"
  "snapshot_ok s \<Longrightarrow> snapshot_ok (delete_opaque k s)"
  "snapshot_ok s \<Longrightarrow> snapshot_ok (kv_write k v s)"
  "snapshot_ok s \<Longrightarrow> snapshot_ok (kv_delete k s)"
  by (simp_all add: snapshot_ok_def write_opaque_def delete_opaque_def kv_write_def kv_delete_def)

lemma sp_initial_writes [simp]:
  "sp_initial (write_opaque k v s) = sp_initial s"
  "sp_initial (delete_opaque k s) = sp_initial s"
  "sp_initial (kv_write k v s) = sp_initial s"
  "sp_initial (kv_delete k s) = sp_initial s"
  by (simp_all add: write_opaque_def delete_opaque_def kv_write_def kv_delete_def)

lemma kv_reads [row_simps]:
  "kv_read (kv_write k v s) k' = (if k' = k then Some v else kv_read s k')"
  "kv_read (kv_delete k s) k' = (if k' = k then None else kv_read s k')"
  by (simp_all add: kv_read_def kv_write_def kv_delete_def row_simps)

lemma read_opaque_kv [row_simps]:
  "read_opaque (kv_write k v s) k' = (if k' = k then Some v else read_opaque s k')"
  "read_opaque (kv_delete k s) k' = (if k' = k then None else read_opaque s k')"
  by (simp_all add: read_opaque_def kv_write_def kv_delete_def row_simps)

lemma map_of_fold_update:
  "map_of (fold (\<lambda>(k, v). AList.update k v) entries r) = map_of r ++ map_of (rev entries)"
proof (induction entries arbitrary: r)
  case Nil
  then show ?case by simp
next
  case (Cons e entries)
  obtain k v where e: "e = (k, v)" by force
  have "map_of (fold (\<lambda>(k, v). AList.update k v) entries (AList.update k v r))
      = (map_of r)(k \<mapsto> v) ++ map_of (rev entries)"
    using Cons [of "AList.update k v r"] by (simp only: map_of_update)
  also have "\<dots> = map_of r ++ ([k \<mapsto> v] ++ map_of (rev entries))"
    by (rule ext) (simp add: map_add_def split: option.splits)
  finally show ?case by (simp add: e)
qed

lemma map_of_from_entries:
  "distinct (map fst entries) \<Longrightarrow> map_of (sp_current (from_entries entries)) = map_of entries"
  by (simp add: from_entries_def Let_def map_of_fold_update map_of_rev_distinct)

lemma sp_initial_from_entries [simp]:
  "sp_initial (from_entries entries) = sp_current (from_entries entries)"
  by (simp add: from_entries_def Let_def)

section \<open>The row store interface\<close>

text \<open>
  What the package metadata relies on: lookups see the last write or delete of their key
  and nothing else, and the key listing by prefix lists exactly the present keys.
\<close>

locale kv_store =
  fixes rd :: "'s \<Rightarrow> bytes \<Rightarrow> bytes option"
    and wr :: "bytes \<Rightarrow> bytes \<Rightarrow> 's \<Rightarrow> 's"
    and del :: "bytes \<Rightarrow> 's \<Rightarrow> 's"
    and keys :: "'s \<Rightarrow> bytes \<Rightarrow> bytes list"
  assumes rd_wr: "rd (wr k v s) k' = (if k' = k then Some v else rd s k')"
    and rd_del: "rd (del k s) k' = (if k' = k then None else rd s k')"
    and keys_iff: "k \<in> set (keys s p) \<longleftrightarrow> rd s k \<noteq> None \<and> starts_with k p"
begin

text \<open>Writing or clearing an optional row, as the retry rows are written.\<close>

definition put_opt :: "bytes \<Rightarrow> bytes option \<Rightarrow> 's \<Rightarrow> 's" where
  "put_opt k v s = (case v of Some w \<Rightarrow> wr k w s | None \<Rightarrow> del k s)"

lemma rd_put_opt: "rd (put_opt k v s) k' = (if k' = k then v else rd s k')"
  by (simp add: put_opt_def rd_wr rd_del split: option.splits)

lemma rd_put_opts:
  "distinct (map fst kvs) \<Longrightarrow>
   rd (fold (\<lambda>(k, v). put_opt k v) kvs s) k' =
     (case map_of kvs k' of Some v \<Rightarrow> v | None \<Rightarrow> rd s k')"
proof (induction kvs arbitrary: s)
  case Nil
  then show ?case by simp
next
  case (Cons kv kvs)
  obtain k v where kv: "kv = (k, v)" by force
  with Cons.prems have "k \<notin> set (map fst kvs)" by simp
  then have "map_of kvs k = None" by (simp add: map_of_eq_None_iff)
  with Cons kv show ?case by (simp add: rd_put_opt split: option.splits)
qed

lemma rd_dels:
  "rd (fold del ks s) k' = (if k' \<in> set ks then None else rd s k')"
  by (induction ks arbitrary: s) (auto simp: rd_del)

lemma keys_wr:
  "set (keys (wr k v s) p) = set (keys s p) \<union> (if starts_with k p then {k} else {})"
  by (auto simp: keys_iff rd_wr split: if_splits)

lemma keys_del: "set (keys (del k s) p) = set (keys s p) - {k}"
  by (auto simp: keys_iff rd_del split: if_splits)

end

interpretation snapshot_kv: kv_store read_opaque write_opaque delete_opaque opaque_keys_with_prefix
proof unfold_locales
  fix k k' v s p
  show "read_opaque (write_opaque k v s) k' = (if k' = k then Some v else read_opaque s k')"
    by (simp add: read_opaque_def write_opaque_def row_simps)
  show "read_opaque (delete_opaque k s) k' = (if k' = k then None else read_opaque s k')"
    by (simp add: read_opaque_def delete_opaque_def row_simps)
  show "k \<in> set (opaque_keys_with_prefix s p) \<longleftrightarrow> read_opaque s k \<noteq> None \<and> starts_with k p"
    using mem_keys_iff [of k "sp_current s"]
    by (auto simp only: opaque_keys_with_prefix_def read_opaque_def set_filter mem_Collect_eq)
qed

section \<open>The diff\<close>

text \<open>
  Applying updates to a row map as the caller must: the deleted keys go, then the upserts
  are stored (\<open>apply\<close> of the lifecycle tests does exactly this on a \<open>BTreeMap\<close>).
\<close>

definition apply_updates :: "StorageUpdates \<Rightarrow> rows \<Rightarrow> rows" where
  "apply_updates u r =
     fold (\<lambda>(k, v). AList.update k v) (up_upserts u) (fold AList.delete (up_deletes u) r)"

lemma map_of_fold_delete:
  "map_of (fold AList.delete ks r) k = (if k \<in> set ks then None else map_of r k)"
  by (induction ks arbitrary: r) (auto simp: row_simps)

lemma map_of_rev_filter:
  assumes "rows_ok r"
  shows "map_of (rev (filter P r)) k =
    (case map_of r k of Some v \<Rightarrow> if P (k, v) then Some v else None | None \<Rightarrow> None)"
proof -
  have "distinct (map fst (filter P r))"
    using assms by (simp add: rows_ok_def distinct_map_filter)
  then have "map_of (rev (filter P r)) = map_of (filter P r)"
    by (rule map_of_rev_distinct)
  moreover from assms have "map_of (filter P r) k =
    (case map_of r k of Some v \<Rightarrow> if P (k, v) then Some v else None | None \<Rightarrow> None)"
    by (induction r) (auto simp: rows_ok_def map_of_eq_None_iff [symmetric] split: option.splits
        dest: map_of_SomeD)
  ultimately show ?thesis by simp
qed

lemma apply_updates_into_updates:
  assumes "snapshot_ok s"
  shows "map_of (apply_updates (into_updates s) (sp_initial s)) = map_of (sp_current s)"
proof
  fix k
  from assms have ok: "rows_ok (sp_current s)" by (simp add: snapshot_ok_def)
  note mem = mem_keys_iff [of k "sp_initial s"]
  show "map_of (apply_updates (into_updates s) (sp_initial s)) k = map_of (sp_current s) k"
    using mem
    by (simp add: apply_updates_def into_updates_def map_of_fold_update map_add_def
        map_of_rev_filter [OF ok] map_of_fold_delete split: option.splits if_splits)
qed

end
