(* ===== verification/StorageTrait.thy ===== *)
theory StorageTrait
  imports SnapshotStore
begin

text \<open>
  The \<open>StorageProvider\<close> implementation of \<open>rust/src/snapshot_storage.rs\<close>: the storage
  key format \<open>label || serde_json(key) || version_be_u16\<close>, the value and list helpers, and
  one definition per trait method. OpenMLS reaches the rows through these methods only, so
  \<open>storage_call\<close> lists the mutating methods and \<open>exec_calls\<close> runs any sequence of them.

  \<open>serde_json\<close> and the serialised OpenMLS types are third-party code: the record
  \<open>storage_env\<close> holds the functions the provider calls, over an abstract type \<open>'v\<close> of
  serialisable values, with \<open>None\<close> for a serialisation error; \<open>serde_ok\<close> states that
  decoding inverts encoding and that a JSON value determines what it was built from.
\<close>

datatype SnapshotStorageError = Serialization | MissingGroupState

record 'v storage_env =
  current_version :: u16
  to_vec :: "'v \<Rightarrow> bytes option"
  from_slice :: "bytes \<Rightarrow> 'v option"
  to_value :: "'v \<Rightarrow> 'v option"
  pair_value :: "'v \<Rightarrow> 'v \<Rightarrow> 'v"
  list_value :: "bytes list \<Rightarrow> 'v"
  value_list :: "'v \<Rightarrow> bytes list option"
  seq_value :: "'v list \<Rightarrow> 'v"
  value_seq :: "'v \<Rightarrow> 'v list option"
  u32_value :: "u32 \<Rightarrow> 'v"
  gid_value :: "bytes \<Rightarrow> 'v"
  signature_id_value :: "bytes \<Rightarrow> 'v"
  signer_value :: "bytes \<Rightarrow> bytes \<Rightarrow> u16 \<Rightarrow> 'v"

definition serde_ok :: "'v storage_env \<Rightarrow> bool" where
  "serde_ok E \<longleftrightarrow>
     (\<forall>v b. to_vec E v = Some b \<longrightarrow> from_slice E b = Some v) \<and>
     (\<forall>l. value_list E (list_value E l) = Some l) \<and>
     (\<forall>l. value_seq E (seq_value E l) = Some l) \<and>
     (\<forall>a b x. to_value E a = Some x \<longrightarrow> to_value E b = Some x \<longrightarrow> a = b) \<and>
     (\<forall>a b c d. pair_value E a b = pair_value E c d \<longrightarrow> a = c \<and> b = d)"

section \<open>Labels\<close>

definition KEY_PACKAGE_LABEL :: bytes where "KEY_PACKAGE_LABEL = ascii ''KeyPackage''"
definition PSK_LABEL :: bytes where "PSK_LABEL = ascii ''Psk''"
definition ENCRYPTION_KEY_PAIR_LABEL :: bytes where
  "ENCRYPTION_KEY_PAIR_LABEL = ascii ''EncryptionKeyPair''"
definition SIGNATURE_KEY_PAIR_LABEL :: bytes where
  "SIGNATURE_KEY_PAIR_LABEL = ascii ''SignatureKeyPair''"
definition EPOCH_KEY_PAIRS_LABEL :: bytes where "EPOCH_KEY_PAIRS_LABEL = ascii ''EpochKeyPairs''"
definition TREE_LABEL :: bytes where "TREE_LABEL = ascii ''Tree''"
definition GROUP_CONTEXT_LABEL :: bytes where "GROUP_CONTEXT_LABEL = ascii ''GroupContext''"
definition INTERIM_TRANSCRIPT_HASH_LABEL :: bytes where
  "INTERIM_TRANSCRIPT_HASH_LABEL = ascii ''InterimTranscriptHash''"
definition CONFIRMATION_TAG_LABEL :: bytes where
  "CONFIRMATION_TAG_LABEL = ascii ''ConfirmationTag''"
definition JOIN_CONFIG_LABEL :: bytes where "JOIN_CONFIG_LABEL = ascii ''MlsGroupJoinConfig''"
definition OWN_LEAF_NODES_LABEL :: bytes where "OWN_LEAF_NODES_LABEL = ascii ''OwnLeafNodes''"
definition GROUP_STATE_LABEL :: bytes where "GROUP_STATE_LABEL = ascii ''GroupState''"
definition QUEUED_PROPOSAL_LABEL :: bytes where "QUEUED_PROPOSAL_LABEL = ascii ''QueuedProposal''"
definition PROPOSAL_QUEUE_REFS_LABEL :: bytes where
  "PROPOSAL_QUEUE_REFS_LABEL = ascii ''ProposalQueueRefs''"
definition OWN_LEAF_NODE_INDEX_LABEL :: bytes where
  "OWN_LEAF_NODE_INDEX_LABEL = ascii ''OwnLeafNodeIndex''"
definition EPOCH_SECRETS_LABEL :: bytes where "EPOCH_SECRETS_LABEL = ascii ''EpochSecrets''"
definition RESUMPTION_PSK_STORE_LABEL :: bytes where
  "RESUMPTION_PSK_STORE_LABEL = ascii ''ResumptionPsk''"
definition MESSAGE_SECRETS_LABEL :: bytes where "MESSAGE_SECRETS_LABEL = ascii ''MessageSecrets''"

lemmas label_defs =
  KEY_PACKAGE_LABEL_def PSK_LABEL_def ENCRYPTION_KEY_PAIR_LABEL_def SIGNATURE_KEY_PAIR_LABEL_def
  EPOCH_KEY_PAIRS_LABEL_def TREE_LABEL_def GROUP_CONTEXT_LABEL_def
  INTERIM_TRANSCRIPT_HASH_LABEL_def CONFIRMATION_TAG_LABEL_def JOIN_CONFIG_LABEL_def
  OWN_LEAF_NODES_LABEL_def GROUP_STATE_LABEL_def QUEUED_PROPOSAL_LABEL_def
  PROPOSAL_QUEUE_REFS_LABEL_def OWN_LEAF_NODE_INDEX_LABEL_def EPOCH_SECRETS_LABEL_def
  RESUMPTION_PSK_STORE_LABEL_def MESSAGE_SECRETS_LABEL_def

definition GROUP_LABELS :: "bytes list" where
  "GROUP_LABELS = [EPOCH_KEY_PAIRS_LABEL, TREE_LABEL, GROUP_CONTEXT_LABEL,
     INTERIM_TRANSCRIPT_HASH_LABEL, CONFIRMATION_TAG_LABEL, JOIN_CONFIG_LABEL,
     OWN_LEAF_NODES_LABEL, GROUP_STATE_LABEL, QUEUED_PROPOSAL_LABEL, PROPOSAL_QUEUE_REFS_LABEL,
     OWN_LEAF_NODE_INDEX_LABEL, EPOCH_SECRETS_LABEL, RESUMPTION_PSK_STORE_LABEL,
     MESSAGE_SECRETS_LABEL]"

definition ALL_LABELS :: "bytes list" where
  "ALL_LABELS = GLOBAL_LABELS @ GROUP_LABELS"

section \<open>Storage keys\<close>

definition build_key :: "'v storage_env \<Rightarrow> bytes \<Rightarrow> bytes \<Rightarrow> bytes" where
  "build_key E label key_bytes = label @ key_bytes @ be16 (current_version E)"

definition serialize :: "'v storage_env \<Rightarrow> 'v \<Rightarrow> SnapshotStorageError + bytes" where
  "serialize E v = ok_or (to_vec E v) Serialization"

definition deserialize_zeroizing :: "'v storage_env \<Rightarrow> bytes \<Rightarrow> SnapshotStorageError + 'v" where
  "deserialize_zeroizing E b = ok_or (from_slice E b) Serialization"

definition deserialize_list :: "'v storage_env \<Rightarrow> bytes \<Rightarrow> SnapshotStorageError + bytes list" where
  "deserialize_list E b = ok_or (Option.bind (from_slice E b) (value_list E)) Serialization"

definition deserialize_seq :: "'v storage_env \<Rightarrow> bytes \<Rightarrow> SnapshotStorageError + 'v list" where
  "deserialize_seq E b = ok_or (Option.bind (from_slice E b) (value_seq E)) Serialization"

definition build_key_serde ::
  "'v storage_env \<Rightarrow> bytes \<Rightarrow> 'v \<Rightarrow> SnapshotStorageError + bytes" where
  "build_key_serde E label k =
     bindE (serialize E k) (\<lambda>key_bytes. Inr (build_key E label key_bytes))"

definition build_epoch_key ::
  "'v storage_env \<Rightarrow> 'v \<Rightarrow> 'v \<Rightarrow> u32 \<Rightarrow> SnapshotStorageError + bytes" where
  "build_epoch_key E gid ep leaf =
     bindE (serialize E gid) (\<lambda>a.
     bindE (serialize E ep) (\<lambda>b.
     bindE (serialize E (u32_value E leaf)) (\<lambda>c.
     Inr (build_key E EPOCH_KEY_PAIRS_LABEL (a @ b @ c)))))"

section \<open>Value and list helpers\<close>

definition write_val ::
  "'v storage_env \<Rightarrow> bytes \<Rightarrow> 'v \<Rightarrow> 'v \<Rightarrow> (snapshot, SnapshotStorageError, unit) eff" where
  "write_val E label k v =
     bindS (liftS (build_key_serde E label k)) (\<lambda>storage_key.
     bindS (liftS (serialize E v)) (\<lambda>val_bytes.
     modifyS (kv_write storage_key val_bytes)))"

definition read_val ::
  "'v storage_env \<Rightarrow> bytes \<Rightarrow> 'v \<Rightarrow> snapshot \<Rightarrow> SnapshotStorageError + 'v option" where
  "read_val E label k s =
     bindE (build_key_serde E label k) (\<lambda>storage_key.
     case kv_read s storage_key of
       Some b \<Rightarrow> bindE (deserialize_zeroizing E b) (\<lambda>v. Inr (Some v))
     | None \<Rightarrow> Inr None)"

definition delete_val ::
  "'v storage_env \<Rightarrow> bytes \<Rightarrow> 'v \<Rightarrow> (snapshot, SnapshotStorageError, unit) eff" where
  "delete_val E label k =
     bindS (liftS (build_key_serde E label k)) (\<lambda>storage_key. modifyS (kv_delete storage_key))"

definition stored_list ::
  "'v storage_env \<Rightarrow> bytes \<Rightarrow> snapshot \<Rightarrow> SnapshotStorageError + bytes list" where
  "stored_list E storage_key s =
     (case kv_read s storage_key of Some b \<Rightarrow> deserialize_list E b | None \<Rightarrow> Inr [])"

definition append_to_list ::
  "'v storage_env \<Rightarrow> bytes \<Rightarrow> 'v \<Rightarrow> bytes \<Rightarrow> (snapshot, SnapshotStorageError, unit) eff" where
  "append_to_list E label k item =
     bindS (liftS (build_key_serde E label k)) (\<lambda>storage_key.
     bindS (readS (stored_list E storage_key)) (\<lambda>l.
     bindS (liftS (serialize E (list_value E (l @ [item])))) (\<lambda>val_bytes.
     modifyS (kv_write storage_key val_bytes))))"

text \<open>The loop of \<open>read_list\<close>: items are popped from the end, decoded and pushed.\<close>

fun pop_items ::
  "'v storage_env \<Rightarrow> bytes list \<Rightarrow> 'v list \<Rightarrow> SnapshotStorageError + 'v list" where
  "pop_items E [] result = Inr result"
| "pop_items E (item_bytes # rest) result =
     bindE (deserialize_zeroizing E item_bytes) (\<lambda>item. pop_items E rest (result @ [item]))"

definition read_list ::
  "'v storage_env \<Rightarrow> bytes \<Rightarrow> 'v \<Rightarrow> snapshot \<Rightarrow> SnapshotStorageError + 'v list" where
  "read_list E label k s =
     bindE (build_key_serde E label k) (\<lambda>storage_key.
     case kv_read s storage_key of
       Some b \<Rightarrow>
         bindE (deserialize_list E b) (\<lambda>raw_list.
         bindE (pop_items E (rev raw_list) []) (\<lambda>result. Inr (rev result)))
     | None \<Rightarrow> Inr [])"

definition remove_from_list ::
  "'v storage_env \<Rightarrow> bytes \<Rightarrow> 'v \<Rightarrow> bytes \<Rightarrow> (snapshot, SnapshotStorageError, unit) eff" where
  "remove_from_list E label k item =
     bindS (liftS (build_key_serde E label k)) (\<lambda>storage_key.
     bindS (getsS (\<lambda>s. kv_read s storage_key)) (\<lambda>stored.
     case stored of
       None \<Rightarrow> returnS ()
     | Some b \<Rightarrow>
         bindS (liftS (deserialize_list E b)) (\<lambda>l.
         bindS (liftS (serialize E (list_value E (remove1 item l)))) (\<lambda>val_bytes.
         modifyS (kv_write storage_key val_bytes)))))"

end
