(* ===== verification/ProviderMethods.thy ===== *)
theory ProviderMethods
  imports StorageTrait
begin

text \<open>
  The methods of the \<open>StorageProvider\<close> trait as \<open>SnapshotStorageProvider\<close> implements
  them (\<open>rust/src/snapshot_storage.rs\<close>): the writers, readers and deleters of the group
  state and of the installation-global crypto objects, and the proposal queue. Every argument
  is a serialisable value. \<open>storage_call\<close> has one constructor per mutating method.
\<close>

section \<open>Writers\<close>

definition write_mls_join_config ::
  "'v storage_env \<Rightarrow> 'v \<Rightarrow> 'v \<Rightarrow> (snapshot, SnapshotStorageError, unit) eff" where
  "write_mls_join_config E k v = write_val E JOIN_CONFIG_LABEL k v"

definition write_tree ::
  "'v storage_env \<Rightarrow> 'v \<Rightarrow> 'v \<Rightarrow> (snapshot, SnapshotStorageError, unit) eff" where
  "write_tree E k v = write_val E TREE_LABEL k v"

definition write_interim_transcript_hash ::
  "'v storage_env \<Rightarrow> 'v \<Rightarrow> 'v \<Rightarrow> (snapshot, SnapshotStorageError, unit) eff" where
  "write_interim_transcript_hash E k v = write_val E INTERIM_TRANSCRIPT_HASH_LABEL k v"

definition write_context ::
  "'v storage_env \<Rightarrow> 'v \<Rightarrow> 'v \<Rightarrow> (snapshot, SnapshotStorageError, unit) eff" where
  "write_context E k v = write_val E GROUP_CONTEXT_LABEL k v"

definition write_confirmation_tag ::
  "'v storage_env \<Rightarrow> 'v \<Rightarrow> 'v \<Rightarrow> (snapshot, SnapshotStorageError, unit) eff" where
  "write_confirmation_tag E k v = write_val E CONFIRMATION_TAG_LABEL k v"

definition write_group_state ::
  "'v storage_env \<Rightarrow> 'v \<Rightarrow> 'v \<Rightarrow> (snapshot, SnapshotStorageError, unit) eff" where
  "write_group_state E k v = write_val E GROUP_STATE_LABEL k v"

definition write_message_secrets ::
  "'v storage_env \<Rightarrow> 'v \<Rightarrow> 'v \<Rightarrow> (snapshot, SnapshotStorageError, unit) eff" where
  "write_message_secrets E k v = write_val E MESSAGE_SECRETS_LABEL k v"

definition write_resumption_psk_store ::
  "'v storage_env \<Rightarrow> 'v \<Rightarrow> 'v \<Rightarrow> (snapshot, SnapshotStorageError, unit) eff" where
  "write_resumption_psk_store E k v = write_val E RESUMPTION_PSK_STORE_LABEL k v"

definition write_own_leaf_index ::
  "'v storage_env \<Rightarrow> 'v \<Rightarrow> 'v \<Rightarrow> (snapshot, SnapshotStorageError, unit) eff" where
  "write_own_leaf_index E k v = write_val E OWN_LEAF_NODE_INDEX_LABEL k v"

definition write_group_epoch_secrets ::
  "'v storage_env \<Rightarrow> 'v \<Rightarrow> 'v \<Rightarrow> (snapshot, SnapshotStorageError, unit) eff" where
  "write_group_epoch_secrets E k v = write_val E EPOCH_SECRETS_LABEL k v"

definition write_signature_key_pair ::
  "'v storage_env \<Rightarrow> 'v \<Rightarrow> 'v \<Rightarrow> (snapshot, SnapshotStorageError, unit) eff" where
  "write_signature_key_pair E k v = write_val E SIGNATURE_KEY_PAIR_LABEL k v"

definition write_encryption_key_pair ::
  "'v storage_env \<Rightarrow> 'v \<Rightarrow> 'v \<Rightarrow> (snapshot, SnapshotStorageError, unit) eff" where
  "write_encryption_key_pair E k v = write_val E ENCRYPTION_KEY_PAIR_LABEL k v"

definition write_key_package ::
  "'v storage_env \<Rightarrow> 'v \<Rightarrow> 'v \<Rightarrow> (snapshot, SnapshotStorageError, unit) eff" where
  "write_key_package E k v = write_val E KEY_PACKAGE_LABEL k v"

definition write_psk ::
  "'v storage_env \<Rightarrow> 'v \<Rightarrow> 'v \<Rightarrow> (snapshot, SnapshotStorageError, unit) eff" where
  "write_psk E k v = write_val E PSK_LABEL k v"

definition write_encryption_epoch_key_pairs ::
  "'v storage_env \<Rightarrow> 'v \<Rightarrow> 'v \<Rightarrow> u32 \<Rightarrow> 'v list \<Rightarrow> (snapshot, SnapshotStorageError, unit) eff"
where
  "write_encryption_epoch_key_pairs E gid ep leaf key_pairs =
     bindS (liftS (build_epoch_key E gid ep leaf)) (\<lambda>storage_key.
     bindS (liftS (serialize E (seq_value E key_pairs))) (\<lambda>val_bytes.
     modifyS (kv_write storage_key val_bytes)))"

definition append_own_leaf_node ::
  "'v storage_env \<Rightarrow> 'v \<Rightarrow> 'v \<Rightarrow> (snapshot, SnapshotStorageError, unit) eff" where
  "append_own_leaf_node E gid leaf_node =
     bindS (liftS (serialize E leaf_node)) (\<lambda>item.
     append_to_list E OWN_LEAF_NODES_LABEL gid item)"

definition composite_key :: "'v storage_env \<Rightarrow> 'v \<Rightarrow> 'v \<Rightarrow> SnapshotStorageError + 'v" where
  "composite_key E gid r =
     bindE (ok_or (to_value E gid) Serialization) (\<lambda>a.
     bindE (ok_or (to_value E r) Serialization) (\<lambda>b.
     Inr (pair_value E a b)))"

definition queue_proposal ::
  "'v storage_env \<Rightarrow> 'v \<Rightarrow> 'v \<Rightarrow> 'v \<Rightarrow> (snapshot, SnapshotStorageError, unit) eff" where
  "queue_proposal E gid proposal_ref proposal =
     bindS (liftS (composite_key E gid proposal_ref)) (\<lambda>ck.
     bindS (write_val E QUEUED_PROPOSAL_LABEL ck proposal) (\<lambda>_.
     bindS (liftS (serialize E proposal_ref)) (\<lambda>ref_bytes.
     append_to_list E PROPOSAL_QUEUE_REFS_LABEL gid ref_bytes)))"

definition write_serialized_basic_signer ::
  "'v storage_env \<Rightarrow> bytes \<Rightarrow> bytes \<Rightarrow> u16 \<Rightarrow> (snapshot, SnapshotStorageError, unit) eff" where
  "write_serialized_basic_signer E private public scheme =
     write_val E SIGNATURE_KEY_PAIR_LABEL
       (signature_id_value E (public @ ascii ''RustCryptoSignatureKey'' @ be16 scheme))
       (signer_value E private public scheme)"

section \<open>Readers\<close>

definition mls_group_join_config ::
  "'v storage_env \<Rightarrow> 'v \<Rightarrow> snapshot \<Rightarrow> SnapshotStorageError + 'v option" where
  "mls_group_join_config E k s = read_val E JOIN_CONFIG_LABEL k s"

definition tree ::
  "'v storage_env \<Rightarrow> 'v \<Rightarrow> snapshot \<Rightarrow> SnapshotStorageError + 'v option" where
  "tree E k s = read_val E TREE_LABEL k s"

definition group_context ::
  "'v storage_env \<Rightarrow> 'v \<Rightarrow> snapshot \<Rightarrow> SnapshotStorageError + 'v option" where
  "group_context E k s = read_val E GROUP_CONTEXT_LABEL k s"

definition interim_transcript_hash ::
  "'v storage_env \<Rightarrow> 'v \<Rightarrow> snapshot \<Rightarrow> SnapshotStorageError + 'v option" where
  "interim_transcript_hash E k s = read_val E INTERIM_TRANSCRIPT_HASH_LABEL k s"

definition confirmation_tag ::
  "'v storage_env \<Rightarrow> 'v \<Rightarrow> snapshot \<Rightarrow> SnapshotStorageError + 'v option" where
  "confirmation_tag E k s = read_val E CONFIRMATION_TAG_LABEL k s"

definition group_state ::
  "'v storage_env \<Rightarrow> 'v \<Rightarrow> snapshot \<Rightarrow> SnapshotStorageError + 'v option" where
  "group_state E k s = read_val E GROUP_STATE_LABEL k s"

definition message_secrets ::
  "'v storage_env \<Rightarrow> 'v \<Rightarrow> snapshot \<Rightarrow> SnapshotStorageError + 'v option" where
  "message_secrets E k s = read_val E MESSAGE_SECRETS_LABEL k s"

definition resumption_psk_store ::
  "'v storage_env \<Rightarrow> 'v \<Rightarrow> snapshot \<Rightarrow> SnapshotStorageError + 'v option" where
  "resumption_psk_store E k s = read_val E RESUMPTION_PSK_STORE_LABEL k s"

definition own_leaf_index ::
  "'v storage_env \<Rightarrow> 'v \<Rightarrow> snapshot \<Rightarrow> SnapshotStorageError + 'v option" where
  "own_leaf_index E k s = read_val E OWN_LEAF_NODE_INDEX_LABEL k s"

definition group_epoch_secrets ::
  "'v storage_env \<Rightarrow> 'v \<Rightarrow> snapshot \<Rightarrow> SnapshotStorageError + 'v option" where
  "group_epoch_secrets E k s = read_val E EPOCH_SECRETS_LABEL k s"

definition signature_key_pair ::
  "'v storage_env \<Rightarrow> 'v \<Rightarrow> snapshot \<Rightarrow> SnapshotStorageError + 'v option" where
  "signature_key_pair E k s = read_val E SIGNATURE_KEY_PAIR_LABEL k s"

definition encryption_key_pair ::
  "'v storage_env \<Rightarrow> 'v \<Rightarrow> snapshot \<Rightarrow> SnapshotStorageError + 'v option" where
  "encryption_key_pair E k s = read_val E ENCRYPTION_KEY_PAIR_LABEL k s"

definition key_package ::
  "'v storage_env \<Rightarrow> 'v \<Rightarrow> snapshot \<Rightarrow> SnapshotStorageError + 'v option" where
  "key_package E k s = read_val E KEY_PACKAGE_LABEL k s"

definition psk ::
  "'v storage_env \<Rightarrow> 'v \<Rightarrow> snapshot \<Rightarrow> SnapshotStorageError + 'v option" where
  "psk E k s = read_val E PSK_LABEL k s"

definition encryption_epoch_key_pairs ::
  "'v storage_env \<Rightarrow> 'v \<Rightarrow> 'v \<Rightarrow> u32 \<Rightarrow> snapshot \<Rightarrow> SnapshotStorageError + 'v list" where
  "encryption_epoch_key_pairs E gid ep leaf s =
     bindE (build_epoch_key E gid ep leaf) (\<lambda>storage_key.
     case kv_read s storage_key of Some b \<Rightarrow> deserialize_seq E b | None \<Rightarrow> Inr [])"

definition own_leaf_nodes ::
  "'v storage_env \<Rightarrow> 'v \<Rightarrow> snapshot \<Rightarrow> SnapshotStorageError + 'v list" where
  "own_leaf_nodes E gid s = read_list E OWN_LEAF_NODES_LABEL gid s"

definition queued_proposal_refs ::
  "'v storage_env \<Rightarrow> 'v \<Rightarrow> snapshot \<Rightarrow> SnapshotStorageError + 'v list" where
  "queued_proposal_refs E gid s = read_list E PROPOSAL_QUEUE_REFS_LABEL gid s"

definition queued_proposals ::
  "'v storage_env \<Rightarrow> 'v \<Rightarrow> snapshot \<Rightarrow> SnapshotStorageError + ('v \<times> 'v) list" where
  "queued_proposals E gid s =
     bindE (read_list E PROPOSAL_QUEUE_REFS_LABEL gid s) (\<lambda>refs.
     foldE (\<lambda>result prop_ref.
       bindE (composite_key E gid prop_ref) (\<lambda>ck.
       bindE (read_val E QUEUED_PROPOSAL_LABEL ck s) (\<lambda>found.
       Inr (case found of Some proposal \<Rightarrow> result @ [(prop_ref, proposal)] | None \<Rightarrow> result))))
       [] refs)"

definition pending_state_sha256 ::
  "(bytes \<Rightarrow> bytes) \<Rightarrow> 'v storage_env \<Rightarrow> bytes \<Rightarrow> snapshot \<Rightarrow> SnapshotStorageError + bytes" where
  "pending_state_sha256 sha E gid s =
     bindE (build_key_serde E GROUP_STATE_LABEL (gid_value E gid)) (\<lambda>k.
     ok_or (map_option sha (map_of (sp_current s) k)) MissingGroupState)"

section \<open>Deleters\<close>

definition delete_own_leaf_nodes :: "'v storage_env \<Rightarrow> 'v \<Rightarrow> (snapshot, SnapshotStorageError, unit) eff" where
  "delete_own_leaf_nodes E k = delete_val E OWN_LEAF_NODES_LABEL k"

definition delete_group_config :: "'v storage_env \<Rightarrow> 'v \<Rightarrow> (snapshot, SnapshotStorageError, unit) eff" where
  "delete_group_config E k = delete_val E JOIN_CONFIG_LABEL k"

definition delete_tree :: "'v storage_env \<Rightarrow> 'v \<Rightarrow> (snapshot, SnapshotStorageError, unit) eff" where
  "delete_tree E k = delete_val E TREE_LABEL k"

definition delete_confirmation_tag :: "'v storage_env \<Rightarrow> 'v \<Rightarrow> (snapshot, SnapshotStorageError, unit) eff" where
  "delete_confirmation_tag E k = delete_val E CONFIRMATION_TAG_LABEL k"

definition delete_group_state :: "'v storage_env \<Rightarrow> 'v \<Rightarrow> (snapshot, SnapshotStorageError, unit) eff" where
  "delete_group_state E k = delete_val E GROUP_STATE_LABEL k"

definition delete_context :: "'v storage_env \<Rightarrow> 'v \<Rightarrow> (snapshot, SnapshotStorageError, unit) eff" where
  "delete_context E k = delete_val E GROUP_CONTEXT_LABEL k"

definition delete_interim_transcript_hash :: "'v storage_env \<Rightarrow> 'v \<Rightarrow> (snapshot, SnapshotStorageError, unit) eff" where
  "delete_interim_transcript_hash E k = delete_val E INTERIM_TRANSCRIPT_HASH_LABEL k"

definition delete_message_secrets :: "'v storage_env \<Rightarrow> 'v \<Rightarrow> (snapshot, SnapshotStorageError, unit) eff" where
  "delete_message_secrets E k = delete_val E MESSAGE_SECRETS_LABEL k"

definition delete_all_resumption_psk_secrets :: "'v storage_env \<Rightarrow> 'v \<Rightarrow> (snapshot, SnapshotStorageError, unit) eff" where
  "delete_all_resumption_psk_secrets E k = delete_val E RESUMPTION_PSK_STORE_LABEL k"

definition delete_own_leaf_index :: "'v storage_env \<Rightarrow> 'v \<Rightarrow> (snapshot, SnapshotStorageError, unit) eff" where
  "delete_own_leaf_index E k = delete_val E OWN_LEAF_NODE_INDEX_LABEL k"

definition delete_group_epoch_secrets :: "'v storage_env \<Rightarrow> 'v \<Rightarrow> (snapshot, SnapshotStorageError, unit) eff" where
  "delete_group_epoch_secrets E k = delete_val E EPOCH_SECRETS_LABEL k"

definition delete_signature_key_pair :: "'v storage_env \<Rightarrow> 'v \<Rightarrow> (snapshot, SnapshotStorageError, unit) eff" where
  "delete_signature_key_pair E k = delete_val E SIGNATURE_KEY_PAIR_LABEL k"

definition delete_encryption_key_pair :: "'v storage_env \<Rightarrow> 'v \<Rightarrow> (snapshot, SnapshotStorageError, unit) eff" where
  "delete_encryption_key_pair E k = delete_val E ENCRYPTION_KEY_PAIR_LABEL k"

definition delete_key_package :: "'v storage_env \<Rightarrow> 'v \<Rightarrow> (snapshot, SnapshotStorageError, unit) eff" where
  "delete_key_package E k = delete_val E KEY_PACKAGE_LABEL k"

definition delete_psk :: "'v storage_env \<Rightarrow> 'v \<Rightarrow> (snapshot, SnapshotStorageError, unit) eff" where
  "delete_psk E k = delete_val E PSK_LABEL k"

definition delete_encryption_epoch_key_pairs ::
  "'v storage_env \<Rightarrow> 'v \<Rightarrow> 'v \<Rightarrow> u32 \<Rightarrow> (snapshot, SnapshotStorageError, unit) eff" where
  "delete_encryption_epoch_key_pairs E gid ep leaf =
     bindS (liftS (build_epoch_key E gid ep leaf)) (\<lambda>storage_key.
     modifyS (kv_delete storage_key))"

definition remove_proposal ::
  "'v storage_env \<Rightarrow> 'v \<Rightarrow> 'v \<Rightarrow> (snapshot, SnapshotStorageError, unit) eff" where
  "remove_proposal E gid proposal_ref =
     bindS (liftS (composite_key E gid proposal_ref)) (\<lambda>ck.
     bindS (delete_val E QUEUED_PROPOSAL_LABEL ck) (\<lambda>_.
     bindS (liftS (serialize E proposal_ref)) (\<lambda>ref_bytes.
     remove_from_list E PROPOSAL_QUEUE_REFS_LABEL gid ref_bytes)))"

definition delete_queued ::
  "'v storage_env \<Rightarrow> 'v \<Rightarrow> 'v \<Rightarrow> (snapshot, SnapshotStorageError, unit) eff" where
  "delete_queued E gid prop_ref =
     bindS (liftS (composite_key E gid prop_ref)) (\<lambda>ck. delete_val E QUEUED_PROPOSAL_LABEL ck)"

definition clear_proposal_queue ::
  "'v storage_env \<Rightarrow> 'v \<Rightarrow> (snapshot, SnapshotStorageError, unit) eff" where
  "clear_proposal_queue E gid =
     bindS (readS (read_list E PROPOSAL_QUEUE_REFS_LABEL gid)) (\<lambda>refs.
     bindS (eachS (delete_queued E gid) refs) (\<lambda>_.
     delete_val E PROPOSAL_QUEUE_REFS_LABEL gid))"

section \<open>Sequences of method calls\<close>

datatype 'v storage_call =
    WriteMlsJoinConfig 'v 'v
  | WriteTree 'v 'v
  | WriteInterimTranscriptHash 'v 'v
  | WriteContext 'v 'v
  | WriteConfirmationTag 'v 'v
  | WriteGroupState 'v 'v
  | WriteMessageSecrets 'v 'v
  | WriteResumptionPskStore 'v 'v
  | WriteOwnLeafIndex 'v 'v
  | WriteGroupEpochSecrets 'v 'v
  | WriteSignatureKeyPair 'v 'v
  | WriteEncryptionKeyPair 'v 'v
  | WriteKeyPackage 'v 'v
  | WritePsk 'v 'v
  | DeleteOwnLeafNodes 'v
  | DeleteGroupConfig 'v
  | DeleteTree 'v
  | DeleteConfirmationTag 'v
  | DeleteGroupState 'v
  | DeleteContext 'v
  | DeleteInterimTranscriptHash 'v
  | DeleteMessageSecrets 'v
  | DeleteAllResumptionPskSecrets 'v
  | DeleteOwnLeafIndex 'v
  | DeleteGroupEpochSecrets 'v
  | DeleteSignatureKeyPair 'v
  | DeleteEncryptionKeyPair 'v
  | DeleteKeyPackage 'v
  | DeletePsk 'v
  | WriteEncryptionEpochKeyPairs 'v 'v u32 "'v list"
  | AppendOwnLeafNode 'v 'v
  | QueueProposal 'v 'v 'v
  | DeleteEncryptionEpochKeyPairs 'v 'v u32
  | RemoveProposal 'v 'v
  | ClearProposalQueue 'v

fun exec_call ::
  "'v storage_env \<Rightarrow> 'v storage_call \<Rightarrow> (snapshot, SnapshotStorageError, unit) eff" where
  "exec_call E (WriteMlsJoinConfig k v) = write_mls_join_config E k v"
| "exec_call E (WriteTree k v) = write_tree E k v"
| "exec_call E (WriteInterimTranscriptHash k v) = write_interim_transcript_hash E k v"
| "exec_call E (WriteContext k v) = write_context E k v"
| "exec_call E (WriteConfirmationTag k v) = write_confirmation_tag E k v"
| "exec_call E (WriteGroupState k v) = write_group_state E k v"
| "exec_call E (WriteMessageSecrets k v) = write_message_secrets E k v"
| "exec_call E (WriteResumptionPskStore k v) = write_resumption_psk_store E k v"
| "exec_call E (WriteOwnLeafIndex k v) = write_own_leaf_index E k v"
| "exec_call E (WriteGroupEpochSecrets k v) = write_group_epoch_secrets E k v"
| "exec_call E (WriteSignatureKeyPair k v) = write_signature_key_pair E k v"
| "exec_call E (WriteEncryptionKeyPair k v) = write_encryption_key_pair E k v"
| "exec_call E (WriteKeyPackage k v) = write_key_package E k v"
| "exec_call E (WritePsk k v) = write_psk E k v"
| "exec_call E (DeleteOwnLeafNodes k) = delete_own_leaf_nodes E k"
| "exec_call E (DeleteGroupConfig k) = delete_group_config E k"
| "exec_call E (DeleteTree k) = delete_tree E k"
| "exec_call E (DeleteConfirmationTag k) = delete_confirmation_tag E k"
| "exec_call E (DeleteGroupState k) = delete_group_state E k"
| "exec_call E (DeleteContext k) = delete_context E k"
| "exec_call E (DeleteInterimTranscriptHash k) = delete_interim_transcript_hash E k"
| "exec_call E (DeleteMessageSecrets k) = delete_message_secrets E k"
| "exec_call E (DeleteAllResumptionPskSecrets k) = delete_all_resumption_psk_secrets E k"
| "exec_call E (DeleteOwnLeafIndex k) = delete_own_leaf_index E k"
| "exec_call E (DeleteGroupEpochSecrets k) = delete_group_epoch_secrets E k"
| "exec_call E (DeleteSignatureKeyPair k) = delete_signature_key_pair E k"
| "exec_call E (DeleteEncryptionKeyPair k) = delete_encryption_key_pair E k"
| "exec_call E (DeleteKeyPackage k) = delete_key_package E k"
| "exec_call E (DeletePsk k) = delete_psk E k"
| "exec_call E (WriteEncryptionEpochKeyPairs a b c d) = write_encryption_epoch_key_pairs E a b c d"
| "exec_call E (AppendOwnLeafNode a b) = append_own_leaf_node E a b"
| "exec_call E (QueueProposal a b c) = queue_proposal E a b c"
| "exec_call E (DeleteEncryptionEpochKeyPairs a b c) = delete_encryption_epoch_key_pairs E a b c"
| "exec_call E (RemoveProposal a b) = remove_proposal E a b"
| "exec_call E (ClearProposalQueue a) = clear_proposal_queue E a"

text \<open>
  The rows after a sequence of calls, whatever each call returned: a caller that goes on
  after an error is covered too.
\<close>

definition exec_calls :: "'v storage_env \<Rightarrow> 'v storage_call list \<Rightarrow> snapshot \<Rightarrow> snapshot" where
  "exec_calls E calls s = fold (\<lambda>c t. snd (exec_call E c t)) calls s"

lemmas method_defs =
  write_mls_join_config_def write_tree_def write_interim_transcript_hash_def
  write_context_def write_confirmation_tag_def write_group_state_def
  write_message_secrets_def write_resumption_psk_store_def write_own_leaf_index_def
  write_group_epoch_secrets_def write_signature_key_pair_def write_encryption_key_pair_def
  write_key_package_def write_psk_def delete_own_leaf_nodes_def
  delete_group_config_def delete_tree_def delete_confirmation_tag_def
  delete_group_state_def delete_context_def delete_interim_transcript_hash_def
  delete_message_secrets_def delete_all_resumption_psk_secrets_def delete_own_leaf_index_def
  delete_group_epoch_secrets_def delete_signature_key_pair_def delete_encryption_key_pair_def
  delete_key_package_def delete_psk_def write_encryption_epoch_key_pairs_def
  append_own_leaf_node_def queue_proposal_def delete_encryption_epoch_key_pairs_def
  remove_proposal_def delete_queued_def clear_proposal_queue_def

section \<open>What a call can touch\<close>

text \<open>
  \<open>untouched p r\<close>: every row whose key starts with \<open>p\<close> is as \<open>r\<close> says. A method whose
  labels are not comparable with \<open>p\<close> keeps this for every \<open>r\<close>.
\<close>

definition untouched :: "bytes \<Rightarrow> (bytes \<Rightarrow> bytes option) \<Rightarrow> snapshot \<Rightarrow> bool" where
  "untouched p r s \<longleftrightarrow> (\<forall>k. starts_with k p \<longrightarrow> kv_read s k = r k)"

lemma parallel_not_starts_with: "parallel p label \<Longrightarrow> \<not> starts_with (label @ x) p"
  by (metis parallel_append parallel_def starts_with_def append_Nil2)

lemma untouched_kv_write:
  "\<not> starts_with k p \<Longrightarrow> untouched p r s \<Longrightarrow> untouched p r (kv_write k v s)"
  by (auto simp: untouched_def row_simps)

lemma untouched_kv_delete:
  "\<not> starts_with k p \<Longrightarrow> untouched p r s \<Longrightarrow> untouched p r (kv_delete k s)"
  by (auto simp: untouched_def row_simps)

end
