(* ===== verification/ProviderLaws.thy ===== *)
theory ProviderLaws
  imports ProviderMethods
begin

text \<open>
  Laws of the storage provider methods: labels are prefix-free, so keys of different labels
  never collide; values read back as written; the stored lists and the proposal queue behave
  as lists; no method touches the reserved \<open>OpenMlsDart/\<close> rows.
\<close>

section \<open>Labels are prefix-free\<close>

lemma labels_prefix_free:
  assumes "a \<in> set ALL_LABELS" "b \<in> set ALL_LABELS" "prefix a b"
  shows "a = b"
proof -
  have "list_all (\<lambda>a. list_all (\<lambda>b. prefix a b \<longrightarrow> a = b) ALL_LABELS) ALL_LABELS"
    by code_simp
  with assms show ?thesis by (simp add: list_all_iff)
qed

lemma labels_reserved_parallel:
  assumes "a \<in> set ALL_LABELS"
  shows "parallel (ascii ''OpenMlsDart/'') a"
proof -
  have "list_all (\<lambda>a. \<not> prefix (ascii ''OpenMlsDart/'') a \<and> \<not> prefix a (ascii ''OpenMlsDart/''))
    ALL_LABELS"
    by code_simp
  with assms show ?thesis by (simp add: list_all_iff parallel_def)
qed

lemma label_members [simp]:
  "KEY_PACKAGE_LABEL \<in> set ALL_LABELS" "PSK_LABEL \<in> set ALL_LABELS"
  "ENCRYPTION_KEY_PAIR_LABEL \<in> set ALL_LABELS" "SIGNATURE_KEY_PAIR_LABEL \<in> set ALL_LABELS"
  "EPOCH_KEY_PAIRS_LABEL \<in> set ALL_LABELS" "TREE_LABEL \<in> set ALL_LABELS"
  "GROUP_CONTEXT_LABEL \<in> set ALL_LABELS" "INTERIM_TRANSCRIPT_HASH_LABEL \<in> set ALL_LABELS"
  "CONFIRMATION_TAG_LABEL \<in> set ALL_LABELS" "JOIN_CONFIG_LABEL \<in> set ALL_LABELS"
  "OWN_LEAF_NODES_LABEL \<in> set ALL_LABELS" "GROUP_STATE_LABEL \<in> set ALL_LABELS"
  "QUEUED_PROPOSAL_LABEL \<in> set ALL_LABELS" "PROPOSAL_QUEUE_REFS_LABEL \<in> set ALL_LABELS"
  "OWN_LEAF_NODE_INDEX_LABEL \<in> set ALL_LABELS" "EPOCH_SECRETS_LABEL \<in> set ALL_LABELS"
  "RESUMPTION_PSK_STORE_LABEL \<in> set ALL_LABELS" "MESSAGE_SECRETS_LABEL \<in> set ALL_LABELS"
  by (simp_all add: ALL_LABELS_def GROUP_LABELS_def GLOBAL_LABELS_def KEY_PACKAGE_LABEL_def
      PSK_LABEL_def ENCRYPTION_KEY_PAIR_LABEL_def SIGNATURE_KEY_PAIR_LABEL_def)

lemma QUEUED_PROPOSAL_neq_REFS [simp]:
  "QUEUED_PROPOSAL_LABEL \<noteq> PROPOSAL_QUEUE_REFS_LABEL"
  "PROPOSAL_QUEUE_REFS_LABEL \<noteq> QUEUED_PROPOSAL_LABEL"
  by (simp_all add: QUEUED_PROPOSAL_LABEL_def PROPOSAL_QUEUE_REFS_LABEL_def ascii_def)

lemma build_key_inj:
  assumes "l \<in> set ALL_LABELS" "l' \<in> set ALL_LABELS"
  shows "build_key E l a = build_key E l' b \<longleftrightarrow> l = l' \<and> a = b"
proof
  assume eq: "build_key E l a = build_key E l' b"
  then have "prefix l l' \<or> prefix l' l"
    by (simp add: build_key_def append_eq_append_conv2) (auto simp: prefix_def)
  with assms labels_prefix_free have "l = l'" by blast
  with eq show "l = l' \<and> a = b" by (simp add: build_key_def)
qed simp

lemma build_key_serde_Inr_iff [result_simps]:
  "build_key_serde E l k = Inr sk \<longleftrightarrow> (\<exists>b. to_vec E k = Some b \<and> sk = build_key E l b)"
  by (auto simp: build_key_serde_def serialize_def result_simps)

lemma serialize_Inr_iff [result_simps]: "serialize E v = Inr b \<longleftrightarrow> to_vec E v = Some b"
  by (simp add: serialize_def result_simps)

lemma build_epoch_key_Inr:
  "build_epoch_key E g ep lf = Inr sk \<Longrightarrow> \<exists>b. sk = build_key E EPOCH_KEY_PAIRS_LABEL b"
  by (auto simp: build_epoch_key_def result_simps)

lemma serde_okD:
  assumes "serde_ok E"
  shows "to_vec E v = Some b \<Longrightarrow> from_slice E b = Some v"
    and "value_list E (list_value E l) = Some l"
    and "value_seq E (seq_value E vs) = Some vs"
  using assms by (auto simp: serde_ok_def)

lemma to_vec_inj: "serde_ok E \<Longrightarrow> to_vec E v = Some b \<Longrightarrow> to_vec E w = Some b \<Longrightarrow> v = w"
  by (metis serde_okD(1) option.inject)

text \<open>Two serialisable keys under two labels give the same storage key only if they agree.\<close>

lemma storage_key_inj:
  assumes "serde_ok E" "l \<in> set ALL_LABELS" "l' \<in> set ALL_LABELS"
    and "build_key_serde E l k = Inr sk" "build_key_serde E l' k' = Inr sk"
  shows "l = l' \<and> k = k'"
  using assms by (auto simp: result_simps build_key_inj dest: to_vec_inj)

section \<open>Preservation\<close>

text \<open>
  A predicate on snapshots that survives a write and a delete of any key under a label
  survives every method call.
\<close>

definition label_stable :: "'v storage_env \<Rightarrow> (snapshot \<Rightarrow> bool) \<Rightarrow> bool" where
  "label_stable E P \<longleftrightarrow>
     (\<forall>l b v s. l \<in> set ALL_LABELS \<longrightarrow> P s \<longrightarrow>
        P (kv_write (build_key E l b) v s) \<and> P (kv_delete (build_key E l b) s))"

lemma keeps_write_val:
  "label_stable E P \<Longrightarrow> l \<in> set ALL_LABELS \<Longrightarrow> keeps P (write_val E l k v)"
  by (auto simp: keeps_def write_val_def bindS_def label_stable_def build_key_serde_def serialize_def
      split: prod.splits sum.splits simp: bindE_def)

lemma keeps_delete_val:
  "label_stable E P \<Longrightarrow> l \<in> set ALL_LABELS \<Longrightarrow> keeps P (delete_val E l k)"
  by (auto simp: keeps_def delete_val_def bindS_def label_stable_def build_key_serde_def serialize_def
      split: prod.splits sum.splits simp: bindE_def)

lemma keeps_append_to_list:
  "label_stable E P \<Longrightarrow> l \<in> set ALL_LABELS \<Longrightarrow> keeps P (append_to_list E l k item)"
  by (auto simp: keeps_def append_to_list_def bindS_def label_stable_def build_key_serde_def
      serialize_def bindE_def split: prod.splits sum.splits)

lemma keeps_remove_from_list:
  "label_stable E P \<Longrightarrow> l \<in> set ALL_LABELS \<Longrightarrow> keeps P (remove_from_list E l k item)"
  by (auto simp: keeps_def remove_from_list_def bindS_def label_stable_def build_key_serde_def
      serialize_def bindE_def split: prod.splits sum.splits option.splits)

lemma keeps_epoch_key_pairs:
  assumes "label_stable E P"
  shows "keeps P (write_encryption_epoch_key_pairs E g ep lf ks)"
    and "keeps P (delete_encryption_epoch_key_pairs E g ep lf)"
  using assms
  by (auto simp: keeps_def write_encryption_epoch_key_pairs_def delete_encryption_epoch_key_pairs_def
      bindS_def label_stable_def split: prod.splits sum.splits dest!: build_epoch_key_Inr)

lemma keeps_exec_call:
  assumes st: "label_stable E P"
  shows "keeps P (exec_call E c)"
  by (cases c)
    (auto simp: method_defs
      simp del: write_encryption_epoch_key_pairs_def delete_encryption_epoch_key_pairs_def
      intro!: keeps_intros keeps_write_val [OF st] keeps_delete_val [OF st]
      keeps_append_to_list [OF st] keeps_remove_from_list [OF st] keeps_epoch_key_pairs [OF st])

lemma exec_calls_preserve:
  "label_stable E P \<Longrightarrow> P s \<Longrightarrow> P (exec_calls E calls s)"
  by (induction calls arbitrary: s)
    (simp_all add: exec_calls_def keepsD [OF keeps_exec_call])

lemma label_stable_snapshot_ok: "label_stable E snapshot_ok"
  by (simp add: label_stable_def)

lemma label_stable_initial: "label_stable E (\<lambda>s. sp_initial s = r)"
  by (simp add: label_stable_def)

lemma label_stable_untouched:
  "(\<And>l. l \<in> set ALL_LABELS \<Longrightarrow> parallel p l) \<Longrightarrow> label_stable E (untouched p r)"
  unfolding label_stable_def build_key_def
  using parallel_not_starts_with untouched_kv_write untouched_kv_delete by blast

lemma exec_calls_ok [simp]: "snapshot_ok s \<Longrightarrow> snapshot_ok (exec_calls E calls s)"
  by (rule exec_calls_preserve [OF label_stable_snapshot_ok])

lemma exec_calls_initial [simp]: "sp_initial (exec_calls E calls s) = sp_initial s"
  using exec_calls_preserve [OF label_stable_initial] by blast

lemma exec_calls_reserved:
  assumes "starts_with k (ascii ''OpenMlsDart/'')"
  shows "read_opaque (exec_calls E calls s) k = read_opaque s k"
proof -
  have "untouched (ascii ''OpenMlsDart/'') (kv_read s) (exec_calls E calls s)"
    by (rule exec_calls_preserve [OF label_stable_untouched])
      (auto simp: labels_reserved_parallel untouched_def)
  with assms show ?thesis by (simp add: untouched_def kv_read_def read_opaque_def)
qed

section \<open>Values read back as written\<close>

lemma write_val_Inr_iff [result_simps]:
  "write_val E l k v s = (Inr u, t) \<longleftrightarrow>
     (\<exists>kb vb. to_vec E k = Some kb \<and> to_vec E v = Some vb \<and> t = kv_write (build_key E l kb) vb s)"
  by (auto simp: write_val_def result_simps)

lemma delete_val_Inr_iff [result_simps]:
  "delete_val E l k s = (Inr u, t) \<longleftrightarrow>
     (\<exists>kb. to_vec E k = Some kb \<and> t = kv_delete (build_key E l kb) s)"
  by (auto simp: delete_val_def result_simps)

text \<open>A read under one key after a write or delete under another.\<close>

lemma read_val_kv:
  assumes "serde_ok E" "l \<in> set ALL_LABELS" "l' \<in> set ALL_LABELS" "to_vec E k = Some kb"
  shows "l \<noteq> l' \<or> k \<noteq> k' \<Longrightarrow> read_val E l' k' (kv_write (build_key E l kb) b s) = read_val E l' k' s"
    and "l \<noteq> l' \<or> k \<noteq> k' \<Longrightarrow> read_val E l' k' (kv_delete (build_key E l kb) s) = read_val E l' k' s"
  using assms
  by (auto simp: read_val_def build_key_serde_def serialize_def bindE_def ok_or_def row_simps
      build_key_inj split: option.splits sum.splits dest: to_vec_inj)

lemma read_val_after_write:
  assumes "serde_ok E" "l \<in> set ALL_LABELS" "l' \<in> set ALL_LABELS"
    and "write_val E l k v s = (Inr (), t)"
  shows "read_val E l' k' t = (if l = l' \<and> k = k' then Inr (Some v) else read_val E l' k' s)"
proof -
  from assms(4) obtain kb vb where kb: "to_vec E k = Some kb" "to_vec E v = Some vb"
    and t: "t = kv_write (build_key E l kb) vb s"
    by (auto simp: write_val_Inr_iff)
  show ?thesis
  proof (cases "l = l' \<and> k = k'")
    case True
    with kb t show ?thesis
      by (simp add: read_val_def build_key_serde_def serialize_def row_simps
          deserialize_zeroizing_def serde_okD(1) [OF assms(1)])
  next
    case False
    with read_val_kv(1) [OF assms(1-3) kb(1)] t show ?thesis by auto
  qed
qed

lemma read_val_after_delete:
  assumes "serde_ok E" "l \<in> set ALL_LABELS" "l' \<in> set ALL_LABELS"
    and "delete_val E l k s = (Inr (), t)"
  shows "read_val E l' k' t = (if l = l' \<and> k = k' then Inr None else read_val E l' k' s)"
proof -
  from assms(4) obtain kb where kb: "to_vec E k = Some kb"
    and t: "t = kv_delete (build_key E l kb) s"
    by (auto simp: delete_val_Inr_iff)
  show ?thesis
  proof (cases "l = l' \<and> k = k'")
    case True
    with kb t show ?thesis
      by (simp add: read_val_def build_key_serde_def serialize_def row_simps)
  next
    case False
    with read_val_kv(2) [OF assms(1-3) kb(1)] t show ?thesis by auto
  qed
qed

section \<open>Stored lists\<close>

text \<open>The raw items stored under a label and key.\<close>

definition raw_items ::
  "'v storage_env \<Rightarrow> bytes \<Rightarrow> 'v \<Rightarrow> snapshot \<Rightarrow> SnapshotStorageError + bytes list" where
  "raw_items E l k s = bindE (build_key_serde E l k) (\<lambda>sk. stored_list E sk s)"

lemma deserialize_list_serialized:
  "serde_ok E \<Longrightarrow> to_vec E (list_value E items) = Some b \<Longrightarrow> deserialize_list E b = Inr items"
  by (simp add: deserialize_list_def serde_okD)

lemma pop_items_Inr_iff:
  "pop_items E raw acc = Inr vs \<longleftrightarrow>
     (\<exists>ws. vs = acc @ ws \<and> map (from_slice E) raw = map Some ws)"
proof (induction raw arbitrary: acc)
  case Nil
  then show ?case by auto
next
  case (Cons b raw)
  show ?case
  proof (cases "from_slice E b")
    case None
    then show ?thesis by (auto simp: deserialize_zeroizing_def)
  next
    case (Some v)
    then show ?thesis
      by (auto simp: deserialize_zeroizing_def Cons.IH Cons_eq_map_conv)
  qed
qed

lemma read_list_Inr_iff:
  "read_list E l k s = Inr vs \<longleftrightarrow>
     (\<exists>raw. raw_items E l k s = Inr raw \<and> map (from_slice E) raw = map Some vs)"
proof -
  have rv: "map f (rev raw) = map Some ws \<longleftrightarrow> map f raw = map Some (rev ws)" for f :: "bytes \<Rightarrow> _" and raw ws
    by (metis rev_map rev_rev_ident)
  have unrev: "(\<exists>ws. map f (rev raw) = map Some ws \<and> vs = rev ws) \<longleftrightarrow> map f raw = map Some vs"
    for f :: "bytes \<Rightarrow> 'a option" and raw
    by (auto simp: rv intro: exI [of _ "rev vs"])
  show ?thesis
  proof (cases "to_vec E k")
    case None
    then show ?thesis
      by (simp add: read_list_def raw_items_def build_key_serde_def serialize_def)
  next
    case (Some kb)
    then show ?thesis
      by (cases "kv_read s (build_key E l kb)")
        (auto simp: read_list_def raw_items_def stored_list_def build_key_serde_def serialize_def
          bindE_Inr_iff pop_items_Inr_iff simp flip: unrev)
  qed
qed

lemma raw_items_kv:
  assumes "serde_ok E" "l \<in> set ALL_LABELS" "l' \<in> set ALL_LABELS" "to_vec E k = Some kb"
    and "l \<noteq> l' \<or> k \<noteq> k'"
  shows "raw_items E l' k' (kv_write (build_key E l kb) b s) = raw_items E l' k' s"
    and "raw_items E l' k' (kv_delete (build_key E l kb) s) = raw_items E l' k' s"
  using assms
  by (auto simp: raw_items_def stored_list_def build_key_serde_def serialize_def bindE_def ok_or_def
      row_simps build_key_inj split: option.splits sum.splits dest: to_vec_inj)

lemma raw_items_stored:
  assumes "serde_ok E" "to_vec E k = Some kb" "to_vec E (list_value E items) = Some b"
  shows "raw_items E l k (kv_write (build_key E l kb) b s) = Inr items"
  using assms
  by (simp add: raw_items_def stored_list_def build_key_serde_def serialize_def row_simps
      deserialize_list_serialized)

lemma append_to_list_Inr_iff:
  "append_to_list E l k item s = (Inr u, t) \<longleftrightarrow>
     (\<exists>kb items b. to_vec E k = Some kb \<and> raw_items E l k s = Inr items \<and>
        to_vec E (list_value E (items @ [item])) = Some b \<and>
        t = kv_write (build_key E l kb) b s)"
  by (auto simp: append_to_list_def raw_items_def result_simps)

lemma remove_from_list_Inr:
  assumes "remove_from_list E l k item s = (Inr u, t)" "raw_items E l k s = Inr items"
  obtains "t = s" "items = []"
  | kb b where "to_vec E k = Some kb" "to_vec E (list_value E (remove1 item items)) = Some b"
      "t = kv_write (build_key E l kb) b s"
  using assms
  by (auto simp: remove_from_list_def raw_items_def stored_list_def result_simps split: option.splits)

end
