(* ===== verification/StorageBoundary.thy ===== *)
theory StorageBoundary
  imports SnapshotStore
begin

text \<open>
  The operation-scoped storage boundary of \<open>rust/src/api/storage.rs\<close>: validation of the
  caller's rows, the snapshot built from them, and the batch built from the diff. The error
  strings are constructors of \<open>storage_error\<close>. \<open>apply_batch\<close> is what the caller does with a
  batch (README, "Caller-owned transaction boundary", and \<open>apply\<close> in the lifecycle tests).
\<close>

datatype storage_error =
    UnsupportedStorageFormat u32
  | DuplicateStorageKey
  | GlobalRowWithGroupId
  | GroupRowInGlobalOperation
  | RowOfDifferentGroup
  | GroupStateWithoutGroupId

definition validate_row ::
  "bytes option \<Rightarrow> bytes list \<Rightarrow> MlsStorageEntry \<Rightarrow> storage_error + bytes list" where
  "validate_row expected seen_keys e =
     (if entry_key e \<in> set seen_keys then Inl DuplicateStorageKey
      else if is_global_key (entry_key e) then
        (if entry_group_id e \<noteq> None then Inl GlobalRowWithGroupId
         else Inr (entry_key e # seen_keys))
      else
        (case expected of
           None \<Rightarrow> Inl GroupRowInGlobalOperation
         | Some g \<Rightarrow> if entry_group_id e \<noteq> Some g then Inl RowOfDifferentGroup
                     else Inr (entry_key e # seen_keys)))"

definition validate_storage_entries ::
  "MlsStorageEntry list \<Rightarrow> u32 \<Rightarrow> bytes option \<Rightarrow> storage_error + unit" where
  "validate_storage_entries entries version expected =
     (if version \<noteq> MLS_STORAGE_FORMAT_VERSION then Inl (UnsupportedStorageFormat version)
      else bindE (foldE (validate_row expected) [] entries) (\<lambda>_. Inr ()))"

definition provider_from_entries ::
  "MlsStorageEntry list \<Rightarrow> u32 \<Rightarrow> bytes option \<Rightarrow> storage_error + snapshot" where
  "provider_from_entries entries version expected =
     bindE (validate_storage_entries entries version expected) (\<lambda>_.
     Inr (from_entries (map (\<lambda>e. (entry_key e, entry_value e)) entries)))"

definition batch_from_updates ::
  "StorageUpdates \<Rightarrow> bytes option \<Rightarrow> bytes list \<Rightarrow> storage_error + MlsStorageBatch" where
  "batch_from_updates updates gid deleted =
     (if gid = None \<and> list_ex (\<lambda>(k, v). \<not> is_global_key k) (up_upserts updates)
      then Inl GroupStateWithoutGroupId
      else Inr \<lparr>
        upserts = sort_key entry_key
          (map (\<lambda>(k, v). scoped_row gid k v) (up_upserts updates)),
        deletes = sort (up_deletes updates),
        deleted_group_ids = deleted,
        storage_format_version = MLS_STORAGE_FORMAT_VERSION\<rparr>)"

definition batch_from_provider ::
  "snapshot \<Rightarrow> bytes option \<Rightarrow> bytes list \<Rightarrow> storage_error + MlsStorageBatch" where
  "batch_from_provider provider gid deleted = batch_from_updates (into_updates provider) gid deleted"

definition apply_batch :: "MlsStorageBatch \<Rightarrow> MlsStorageEntry list \<Rightarrow> MlsStorageEntry list" where
  "apply_batch b entries =
     map snd (sort_key fst
       (fold (\<lambda>(k, e). AList.update k e) (map (\<lambda>e. (entry_key e, e)) (upserts b))
         (fold AList.delete (deletes b) (map (\<lambda>e. (entry_key e, e)) entries))))"

section \<open>Validation accepts exactly the scoped snapshots\<close>

definition row_scoped :: "bytes option \<Rightarrow> MlsStorageEntry \<Rightarrow> bool" where
  "row_scoped expected e \<longleftrightarrow>
     (if is_global_key (entry_key e) then entry_group_id e = None
      else expected \<noteq> None \<and> entry_group_id e = expected)"

lemma validate_row_Inr_iff:
  "validate_row expected seen e = Inr seen' \<longleftrightarrow>
     entry_key e \<notin> set seen \<and> row_scoped expected e \<and> seen' = entry_key e # seen"
  by (auto simp: validate_row_def row_scoped_def split: option.splits)

lemma foldE_validate_row_Inr_iff:
  "foldE (validate_row expected) seen entries = Inr seen' \<longleftrightarrow>
     (\<forall>e \<in> set entries. row_scoped expected e) \<and> distinct (map entry_key entries) \<and>
     set (map entry_key entries) \<inter> set seen = {} \<and> seen' = rev (map entry_key entries) @ seen"
  by (induction entries arbitrary: seen) (auto simp: validate_row_Inr_iff bindE_Inr_iff)

lemma validate_storage_entries_Inr_iff:
  "validate_storage_entries entries version expected = Inr u \<longleftrightarrow>
     version = MLS_STORAGE_FORMAT_VERSION \<and> distinct (map entry_key entries) \<and>
     (\<forall>e \<in> set entries. row_scoped expected e)"
  by (auto simp: validate_storage_entries_def bindE_Inr_iff foldE_validate_row_Inr_iff)

lemma provider_from_entries_Inr_iff:
  "provider_from_entries entries version expected = Inr s \<longleftrightarrow>
     validate_storage_entries entries version expected = Inr () \<and>
     s = from_entries (map (\<lambda>e. (entry_key e, entry_value e)) entries)"
  by (auto simp: provider_from_entries_def bindE_Inr_iff)

lemma row_scoped_iff:
  "row_scoped (Some g) e \<longleftrightarrow> e = scoped_row (Some g) (entry_key e) (entry_value e)"
  by (cases e) (auto simp: row_scoped_def scoped_row_def)

section \<open>Rows as a map from keys\<close>

definition entries_map :: "MlsStorageEntry list \<Rightarrow> bytes \<Rightarrow> MlsStorageEntry option" where
  "entries_map es = map_of (map (\<lambda>e. (entry_key e, e)) es)"

lemma entries_map_Some_iff:
  "distinct (map entry_key es) \<Longrightarrow> entries_map es k = Some e \<longleftrightarrow> e \<in> set es \<and> entry_key e = k"
  by (subst entries_map_def, subst map_of_eq_Some_iff) (auto simp: comp_def)

lemma entries_map_set_eq:
  "distinct (map entry_key a) \<Longrightarrow> distinct (map entry_key b) \<Longrightarrow>
   entries_map a = entries_map b \<Longrightarrow> set a = set b"
  by (rule set_eqI) (metis entries_map_Some_iff)

lemma entries_map_eqI:
  "distinct (map entry_key a) \<Longrightarrow> distinct (map entry_key b) \<Longrightarrow> set a = set b \<Longrightarrow>
   entries_map a = entries_map b"
  unfolding entries_map_def by (rule map_of_inject_set [THEN iffD2]) (simp_all add: comp_def)

text \<open>The rows of a snapshot, and a snapshot opened on the caller's rows.\<close>

lemma snapshot_entries_keys: "map entry_key (snapshot_entries s g) = map fst (sp_current s)"
  by (simp add: snapshot_entries_def case_prod_unfold comp_def)

lemma distinct_snapshot_entries:
  "snapshot_ok s \<Longrightarrow> distinct (map entry_key (snapshot_entries s g))"
  by (simp add: snapshot_entries_keys snapshot_ok_def rows_ok_def)

lemma entries_map_snapshot:
  "entries_map (snapshot_entries s g) k = map_option (scoped_row (Some g) k) (map_of (sp_current s) k)"
proof -
  have "map_of (map (\<lambda>e. (entry_key e, e)) (map (\<lambda>(k, v). scoped_row (Some g) k v) r)) k
      = map_option (scoped_row (Some g) k) (map_of r k)" for r :: rows
    by (induction r) auto
  then show ?thesis by (simp add: entries_map_def snapshot_entries_def)
qed

lemma snapshot_entries_valid:
  "snapshot_ok s \<Longrightarrow> validate_storage_entries (snapshot_entries s g) 1 (Some g) = Inr ()"
  by (auto simp: validate_storage_entries_Inr_iff MLS_STORAGE_FORMAT_VERSION_def row_scoped_def
      distinct_snapshot_entries) (auto simp: snapshot_entries_def)

lemma map_of_rows_entries:
  "map_of (map (\<lambda>e. (entry_key e, entry_value e)) es) k = map_option entry_value (entries_map es k)"
  by (induction es) (auto simp: entries_map_def)

lemma provider_from_entries_rows:
  assumes "provider_from_entries entries version (Some g) = Inr s"
  shows "entries_map (snapshot_entries s g) = entries_map entries"
proof
  fix k
  from assms have d: "distinct (map entry_key entries)"
    and sc: "\<forall>e \<in> set entries. row_scoped (Some g) e"
    and s: "s = from_entries (map (\<lambda>e. (entry_key e, entry_value e)) entries)"
    by (auto simp: validate_storage_entries_Inr_iff provider_from_entries_Inr_iff)
  have "map_of (sp_current s) k = map_option entry_value (entries_map entries k)"
    unfolding s by (subst map_of_from_entries) (simp_all add: comp_def d map_of_rows_entries)
  moreover have "scoped_row (Some g) k (entry_value e) = e" if "entries_map entries k = Some e" for e
    using that sc d entries_map_Some_iff row_scoped_iff by metis
  ultimately show "entries_map (snapshot_entries s g) k = entries_map entries k"
    by (cases "entries_map entries k") (simp_all add: entries_map_snapshot)
qed

section \<open>Applying a batch\<close>

lemma distinct_fold_delete: "distinct (map fst r) \<Longrightarrow> distinct (map fst (fold AList.delete ks r))"
  by (induction ks arbitrary: r) (simp_all add: distinct_delete)

lemma distinct_fold_update:
  "distinct (map fst r) \<Longrightarrow> distinct (map fst (fold (\<lambda>(k, v). AList.update k v) es r))"
  by (induction es arbitrary: r) (auto simp: distinct_update split: prod.splits)

lemma fold_update_keyed:
  "\<forall>(k, e) \<in> set r. k = entry_key e \<Longrightarrow>
   \<forall>(k, e) \<in> set (fold (\<lambda>(k, e). AList.update k e) (map (\<lambda>e. (entry_key e, e)) es) r). k = entry_key e"
proof (induction es arbitrary: r)
  case Nil
  then show ?case by simp
next
  case (Cons e es)
  have "set (AList.update k v r) \<subseteq> insert (k, v) (set r)" for k v
    by (induction r) auto
  with Cons.prems have "\<forall>(k, x) \<in> set (AList.update (entry_key e) e r). k = entry_key x"
    by fastforce
  from Cons.IH [OF this] show ?case by simp
qed

lemma fold_delete_subset: "set (fold AList.delete ks r) \<subseteq> set r"
proof (induction ks arbitrary: r)
  case (Cons k ks)
  have "set (AList.delete k r) \<subseteq> set r"
    by (auto simp: AList.delete_eq)
  with Cons [of "AList.delete k r"] show ?case by auto
qed simp

lemma entries_map_apply_batch:
  assumes "distinct (map entry_key entries)" "distinct (map entry_key (upserts b))"
  shows "entries_map (apply_batch b entries) k =
      (case entries_map (upserts b) k of Some e \<Rightarrow> Some e
       | None \<Rightarrow> if k \<in> set (deletes b) then None else entries_map entries k)"
    and "distinct (map entry_key (apply_batch b entries))"
proof -
  define r where "r = fold (\<lambda>(k, e). AList.update k e) (map (\<lambda>e. (entry_key e, e)) (upserts b))
    (fold AList.delete (deletes b) (map (\<lambda>e. (entry_key e, e)) entries))"
  have keyed: "\<forall>(k, e) \<in> set r. k = entry_key e"
    unfolding r_def by (rule fold_update_keyed) (use fold_delete_subset in fastforce)
  have d: "distinct (map fst r)"
    unfolding r_def by (intro distinct_fold_update distinct_fold_delete) (simp add: assms(1) comp_def)
  have ap: "apply_batch b entries = map snd (sort_key fst r)"
    by (simp add: apply_batch_def r_def)
  have "map (\<lambda>e. (entry_key e, e)) (map snd (sort_key fst r)) = sort_key fst r"
    using keyed by (auto simp: comp_def intro!: map_idI)
  then have em: "entries_map (apply_batch b entries) = map_of (sort_key fst r)"
    by (simp add: entries_map_def ap)
  have ds: "distinct (map fst (sort_key fst r))"
    using d by (metis distinct_map distinct_sort set_sort)
  then have "map_of (sort_key fst r) = map_of r"
    using d by (intro map_of_inject_set [THEN iffD2]) simp_all
  moreover have "map_of r k = (case entries_map (upserts b) k of Some e \<Rightarrow> Some e
       | None \<Rightarrow> if k \<in> set (deletes b) then None else entries_map entries k)"
    using assms(2)
    by (simp add: r_def map_of_fold_update map_of_fold_delete map_add_def entries_map_def
        map_of_rev_distinct comp_def split: option.splits)
  ultimately show "entries_map (apply_batch b entries) k =
      (case entries_map (upserts b) k of Some e \<Rightarrow> Some e
       | None \<Rightarrow> if k \<in> set (deletes b) then None else entries_map entries k)"
    using em by simp
  have "map entry_key (apply_batch b entries) = map fst (sort_key fst r)"
    using keyed by (auto simp: ap comp_def)
  with ds show "distinct (map entry_key (apply_batch b entries))" by simp
qed

section \<open>Batches of a snapshot\<close>

lemma batch_from_updates_Some:
  "batch_from_updates u (Some g) deleted = Inr \<lparr>
     upserts = sort_key entry_key (map (\<lambda>(k, v). scoped_row (Some g) k v) (up_upserts u)),
     deletes = sort (up_deletes u), deleted_group_ids = deleted,
     storage_format_version = MLS_STORAGE_FORMAT_VERSION\<rparr>"
  by (simp add: batch_from_updates_def)

lemma distinct_up_upserts:
  "snapshot_ok s \<Longrightarrow> distinct (map fst (up_upserts (into_updates s)))"
  by (simp add: into_updates_def snapshot_ok_def rows_ok_def distinct_map_filter)

lemma keys_scoped_rows:
  "map entry_key (map (\<lambda>(k, v). scoped_row g k v) r) = map fst r"
  by (simp add: case_prod_unfold comp_def)

lemma distinct_sort_key_map:
  "distinct (map f xs) \<Longrightarrow> distinct (map f (sort_key g xs))"
  by (simp add: distinct_map)

lemma entries_map_sort_key:
  "distinct (map entry_key es) \<Longrightarrow> entries_map (sort_key entry_key es) = entries_map es"
  by (rule entries_map_eqI) (simp_all add: distinct_sort_key_map)

lemma entries_map_scoped_rows:
  "entries_map (map (\<lambda>(k, v). scoped_row g k v) r) k = map_option (scoped_row g k) (map_of r k)"
  by (induction r) (auto simp: entries_map_def)

lemma batch_upserts:
  assumes "snapshot_ok s" "batch_from_provider s (Some g) deleted = Inr b"
  shows "distinct (map entry_key (upserts b))"
    and "entries_map (upserts b) k =
      (case map_of (sp_current s) k of
         Some v \<Rightarrow> if map_of (sp_initial s) k = Some v then None else Some (scoped_row (Some g) k v)
       | None \<Rightarrow> None)"
    and "set (deletes b) = {k. map_of (sp_initial s) k \<noteq> None \<and> map_of (sp_current s) k = None}"
proof -
  from assms(2) have b: "b = \<lparr>
     upserts = sort_key entry_key (map (\<lambda>(k, v). scoped_row (Some g) k v) (up_upserts (into_updates s))),
     deletes = sort (up_deletes (into_updates s)), deleted_group_ids = deleted,
     storage_format_version = MLS_STORAGE_FORMAT_VERSION\<rparr>"
    by (simp add: batch_from_provider_def batch_from_updates_Some)
  have d: "distinct (map entry_key (map (\<lambda>(k, v). scoped_row (Some g) k v) (up_upserts (into_updates s))))"
    by (simp only: keys_scoped_rows distinct_up_upserts [OF assms(1)])
  then show "distinct (map entry_key (upserts b))"
    by (simp add: b distinct_sort_key_map)
  have ok: "rows_ok (sp_current s)" using assms(1) by (simp add: snapshot_ok_def)
  have "map_of (up_upserts (into_updates s)) k = (case map_of (sp_current s) k of
         Some v \<Rightarrow> if map_of (sp_initial s) k = Some v then None else Some v | None \<Rightarrow> None)"
    using map_of_rev_filter [OF ok, of "\<lambda>(k, v). map_of (sp_initial s) k \<noteq> Some v" k]
      map_of_rev_distinct [OF distinct_up_upserts [OF assms(1)]]
    by (auto simp: into_updates_def split: option.splits)
  then show "entries_map (upserts b) k =
      (case map_of (sp_current s) k of
         Some v \<Rightarrow> if map_of (sp_initial s) k = Some v then None else Some (scoped_row (Some g) k v)
       | None \<Rightarrow> None)"
    by (simp add: b entries_map_sort_key [OF d] entries_map_scoped_rows split: option.splits)
  show "set (deletes b) = {k. map_of (sp_initial s) k \<noteq> None \<and> map_of (sp_current s) k = None}"
  proof (rule set_eqI)
    fix k
    show "k \<in> set (deletes b) \<longleftrightarrow> k \<in> {k. map_of (sp_initial s) k \<noteq> None \<and> map_of (sp_current s) k = None}"
      using mem_keys_iff [of k "sp_initial s"]
      by (simp only: b into_updates_def set_sort set_filter mem_Collect_eq simp_thms
          MlsStorageBatch.simps StorageUpdates.simps)
  qed
qed

text \<open>
  The boundary's central fact: a batch applied to the rows the snapshot was opened on gives
  the rows of the snapshot after the operation.
\<close>

lemma apply_batch_gives_current:
  assumes ok: "snapshot_ok s"
    and open0: "provider_from_entries entries version (Some g) = Inr s0"
    and init: "sp_initial s = sp_initial s0"
    and b: "batch_from_provider s (Some g) deleted = Inr b"
  shows "set (apply_batch b entries) = set (snapshot_entries s g)"
    and "distinct (map entry_key (apply_batch b entries))"
proof -
  from open0 have d: "distinct (map entry_key entries)"
    by (auto simp: validate_storage_entries_Inr_iff provider_from_entries_Inr_iff)
  from open0 have s0: "sp_initial s0 = sp_current s0"
    by (auto simp: provider_from_entries_Inr_iff)
  have em: "entries_map entries k = map_option (scoped_row (Some g) k) (map_of (sp_initial s) k)" for k
    using provider_from_entries_rows [OF open0] entries_map_snapshot [of s0 g k] init s0 by simp
  note bu = batch_upserts [OF ok b]
  have "entries_map (apply_batch b entries) = entries_map (snapshot_entries s g)"
    by (rule ext)
      (simp add: entries_map_apply_batch(1) [OF d bu(1)] bu(2,3) em entries_map_snapshot
        split: option.splits)
  then show "set (apply_batch b entries) = set (snapshot_entries s g)"
    by (rule entries_map_set_eq [OF entries_map_apply_batch(2) [OF d bu(1)]
          distinct_snapshot_entries [OF ok]])
  show "distinct (map entry_key (apply_batch b entries))"
    by (rule entries_map_apply_batch(2) [OF d bu(1)])
qed

text \<open>A batch does not reveal the iteration order of the hash maps.\<close>

lemma batch_order_independent:
  assumes "snapshot_ok s" "snapshot_ok t"
    and "map_of (sp_initial s) = map_of (sp_initial t)" "map_of (sp_current s) = map_of (sp_current t)"
  shows "batch_from_provider s (Some g) deleted = batch_from_provider t (Some g) deleted"
proof -
  have "set (sp_current s) = set (sp_current t)" "set (sp_initial s) = set (sp_initial t)"
    using assms by (simp_all add: snapshot_ok_def rows_set_eq_iff)
  then have ups: "set (up_upserts (into_updates s)) = set (up_upserts (into_updates t))"
    and dels: "set (up_deletes (into_updates s)) = set (up_deletes (into_updates t))"
    using assms(3,4) by (auto simp: into_updates_def)
  have "sort_key entry_key (map (\<lambda>(k, v). scoped_row (Some g) k v) (up_upserts (into_updates s))) =
      sort_key entry_key (map (\<lambda>(k, v). scoped_row (Some g) k v) (up_upserts (into_updates t)))"
    using ups distinct_up_upserts assms(1,2)
    by (intro sort_key_cong_set) (simp_all only: keys_scoped_rows set_map)
  moreover have "sort (up_deletes (into_updates s)) = sort (up_deletes (into_updates t))"
    using dels assms(1,2)
    by (intro sort_key_cong_set) (simp_all add: into_updates_def snapshot_ok_def rows_ok_def)
  ultimately show ?thesis
    by (simp add: batch_from_provider_def batch_from_updates_Some)
qed

end
