(* ===== verification/Roster.thy ===== *)
theory Roster
  imports StorageBoundary
begin

text \<open>
  Rosters and digests of \<open>rust/src/api/group_e2ee.rs\<close>: canonical leaves, the version-1
  roster digest, the group-state digest, comparison with expected states, and the checks of
  authorised removals, self-updates and exact roster deltas. The SHA-256 of the \<open>sha2\<close>
  crate is the parameter \<open>sha\<close>; a digest object updated piecewise is the hash of the
  concatenation. The bytes fed to the hash are definitions of their own
  (\<open>roster_preimage\<close>, \<open>group_state_preimage\<close>), proved injective.
\<close>

datatype roster_error =
    NonAscendingLeaves | DuplicateIdentity | DuplicateSignatureKey
  | EncodingLimit | ExpectedDigestLength | GroupIdDiffers | EpochDiffers | DigestDiffers
  | SignerKeyDiffers | LocalLeafMissing
  | DuplicateRemoval | RemovalNotActive | RemovalAuthorityDiffers
  | EpochOverflow | DeltaHeader | RetainedLeafChanged | UnauthorizedLeaf | LeafCountOverflow
  | NotExactDelta
  | SelfLeafIndexDiffers | SelfLeafNotActive | SelfAuthorityDiffers
  | InvalidRows storage_error
  | NotBasicCredential | AdditionIdentityTaken | AdditionSignatureKeyTaken | KeyPackageUndecodable
  | KeyPackageInvalid | KeyPackageIdentityDiffers | KeyPackageKeyDiffers

section \<open>Canonical leaves\<close>

record leaf_scan =
  previous_index :: "u32 option"
  identities :: "bytes list"
  signature_keys :: "bytes list"

definition scan_leaf :: "leaf_scan \<Rightarrow> MlsRosterLeafV1 \<Rightarrow> roster_error + leaf_scan" where
  "scan_leaf s l =
     (if (case previous_index s of Some i \<Rightarrow> leaf_index l \<le> i | None \<Rightarrow> False) then Inl NonAscendingLeaves
      else if credential_identity l \<in> set (identities s) then Inl DuplicateIdentity
      else if signature_public_key l \<in> set (signature_keys s) then Inl DuplicateSignatureKey
      else Inr \<lparr>previous_index = Some (leaf_index l),
                identities = credential_identity l # identities s,
                signature_keys = signature_public_key l # signature_keys s\<rparr>)"

definition validate_canonical_leaves :: "MlsRosterLeafV1 list \<Rightarrow> roster_error + unit" where
  "validate_canonical_leaves ls =
     bindE (foldE scan_leaf \<lparr>previous_index = None, identities = [], signature_keys = []\<rparr> ls)
       (\<lambda>_. Inr ())"

definition canonical_leaves :: "MlsRosterLeafV1 list \<Rightarrow> bool" where
  "canonical_leaves ls \<longleftrightarrow>
     sorted_wrt (<) (map leaf_index ls) \<and> distinct (map credential_identity ls) \<and>
     distinct (map signature_public_key ls)"

section \<open>Digests\<close>

definition ROSTER_DOMAIN_V1 :: bytes where
  "ROSTER_DOMAIN_V1 = ascii ''openmls_dart/roster-summary/v1'' @ [0]"

definition GROUP_STATE_DOMAIN_V1 :: bytes where
  "GROUP_STATE_DOMAIN_V1 = ascii ''openmls_dart/group-state/v1'' @ [0]"

definition checked_u32 :: "nat \<Rightarrow> roster_error + u32" where
  "checked_u32 n = (if n < 2 ^ 32 then Inr (of_nat n) else Inl EncodingLimit)"

definition hash_len_prefixed :: "bytes \<Rightarrow> bytes \<Rightarrow> roster_error + bytes" where
  "hash_len_prefixed fed v =
     bindE (checked_u32 (length v)) (\<lambda>n. Inr (fed @ be32 n @ v))"

definition feed_leaf :: "bytes \<Rightarrow> MlsRosterLeafV1 \<Rightarrow> roster_error + bytes" where
  "feed_leaf fed l =
     bindE (hash_len_prefixed (fed @ be32 (leaf_index l)) (credential_identity l)) (\<lambda>fed.
     hash_len_prefixed fed (signature_public_key l))"

definition roster_preimage ::
  "bytes \<Rightarrow> u64 \<Rightarrow> MlsRosterLeafV1 list \<Rightarrow> roster_error + bytes" where
  "roster_preimage gid ep ls =
     bindE (hash_len_prefixed ROSTER_DOMAIN_V1 gid) (\<lambda>fed.
     bindE (checked_u32 (length ls)) (\<lambda>n.
     foldE feed_leaf (fed @ be64 ep @ be32 n) ls))"

definition roster_digest ::
  "(bytes \<Rightarrow> bytes) \<Rightarrow> bytes \<Rightarrow> u64 \<Rightarrow> MlsRosterLeafV1 list \<Rightarrow> roster_error + bytes" where
  "roster_digest sha gid ep ls = bindE (roster_preimage gid ep ls) (\<lambda>p. Inr (sha p))"

definition mls_roster_digest_v1 ::
  "(bytes \<Rightarrow> bytes) \<Rightarrow> bytes \<Rightarrow> u64 \<Rightarrow> MlsRosterLeafV1 list \<Rightarrow> roster_error + bytes" where
  "mls_roster_digest_v1 sha gid ep ls =
     bindE (validate_canonical_leaves ls) (\<lambda>_. roster_digest sha gid ep ls)"

definition feed_row :: "bytes \<Rightarrow> MlsStorageEntry \<Rightarrow> roster_error + bytes" where
  "feed_row fed e =
     bindE (hash_len_prefixed fed (entry_key e)) (\<lambda>fed. hash_len_prefixed fed (entry_value e))"

definition group_rows :: "MlsStorageEntry list \<Rightarrow> MlsStorageEntry list" where
  "group_rows entries = sort_key entry_key (filter (\<lambda>e. \<not> is_global_key (entry_key e)) entries)"

definition group_state_preimage ::
  "bytes \<Rightarrow> u32 \<Rightarrow> MlsStorageEntry list \<Rightarrow> roster_error + bytes" where
  "group_state_preimage gid version rows =
     bindE (hash_len_prefixed (GROUP_STATE_DOMAIN_V1 @ be32 version) gid) (\<lambda>fed.
     bindE (checked_u32 (length rows)) (\<lambda>n.
     foldE feed_row (fed @ be32 n) rows))"

definition group_state_digest_from_entries ::
  "(bytes \<Rightarrow> bytes) \<Rightarrow> bytes \<Rightarrow> MlsStorageEntry list \<Rightarrow> u32 \<Rightarrow> roster_error + bytes" where
  "group_state_digest_from_entries sha gid entries version =
     bindE (map_err InvalidRows (validate_storage_entries entries version (Some gid))) (\<lambda>_.
     bindE (group_state_preimage gid version (group_rows entries)) (\<lambda>p. Inr (sha p)))"

definition mls_group_state_digest ::
  "(bytes \<Rightarrow> bytes) \<Rightarrow> bytes \<Rightarrow> MlsStorageEntry list \<Rightarrow> u32 \<Rightarrow> roster_error + bytes" where
  "mls_group_state_digest sha gid entries version =
     group_state_digest_from_entries sha gid entries version"

definition provider_with_base_digest ::
  "(bytes \<Rightarrow> bytes) \<Rightarrow> bytes \<Rightarrow> MlsStorageEntry list \<Rightarrow> u32 \<Rightarrow> roster_error + snapshot \<times> bytes" where
  "provider_with_base_digest sha gid entries version =
     bindE (group_state_digest_from_entries sha gid entries version) (\<lambda>digest.
     bindE (map_err InvalidRows (provider_from_entries entries version (Some gid))) (\<lambda>provider.
     Inr (provider, digest)))"

section \<open>Expected states\<close>

definition validate_expected_roster ::
  "MlsRosterSummaryV1 \<Rightarrow> MlsExpectedRosterStateV1 \<Rightarrow> roster_error + unit" where
  "validate_expected_roster actual expected =
     (if length (es_digest_sha256 expected) \<noteq> 32 then Inl ExpectedDigestLength
      else if group_id actual \<noteq> es_group_id expected then Inl GroupIdDiffers
      else if epoch actual \<noteq> es_epoch expected then Inl EpochDiffers
      else if digest_sha256 actual \<noteq> es_digest_sha256 expected then Inl DigestDiffers
      else Inr ())"

section \<open>Authorities\<close>

definition leaf_matches_owner :: "MlsRosterLeafV1 \<Rightarrow> MlsAuthorizedOwnerV1 \<Rightarrow> bool" where
  "leaf_matches_owner l owner \<longleftrightarrow>
     credential_identity l = ow_expected_credential_identity owner \<and>
     signature_public_key l = ow_expected_signature_public_key owner"

text \<open>
  The removals are collected in a set (\<open>BTreeSet\<close>, here the list of its elements); a leaf
  index is looked up in a hash map built from the previous roster, in which a later leaf of
  the same index would win.
\<close>

definition leaf_by_index :: "MlsRosterLeafV1 list \<Rightarrow> u32 \<Rightarrow> MlsRosterLeafV1 option" where
  "leaf_by_index ls i = map_of (rev (map (\<lambda>l. (leaf_index l, l)) ls)) i"

definition validate_removal ::
  "MlsRosterSummaryV1 \<Rightarrow> u32 list \<Rightarrow> MlsAuthorizedRemovalV1 \<Rightarrow> roster_error + u32 list" where
  "validate_removal previous indices r =
     (if rm_leaf_index r \<in> set indices then Inl DuplicateRemoval
      else case leaf_by_index (leaves previous) (rm_leaf_index r) of
        None \<Rightarrow> Inl RemovalNotActive
      | Some l \<Rightarrow>
          if credential_identity l \<noteq> rm_expected_credential_identity r
             \<or> signature_public_key l \<noteq> rm_expected_signature_public_key r
          then Inl RemovalAuthorityDiffers
          else Inr (rm_leaf_index r # indices))"

definition validate_removals ::
  "MlsRosterSummaryV1 \<Rightarrow> MlsAuthorizedRemovalV1 list \<Rightarrow> roster_error + u32 list" where
  "validate_removals previous removals = foldE (validate_removal previous) [] removals"

definition validate_self_authority ::
  "u32 \<Rightarrow> MlsRosterSummaryV1 \<Rightarrow> MlsAuthorizedSelfV1 \<Rightarrow> roster_error + unit" where
  "validate_self_authority own_leaf_index previous expected =
     (if own_leaf_index \<noteq> sf_leaf_index expected then Inl SelfLeafIndexDiffers
      else case find (\<lambda>l. leaf_index l = sf_leaf_index expected) (leaves previous) of
        None \<Rightarrow> Inl SelfLeafNotActive
      | Some l \<Rightarrow>
          if credential_identity l \<noteq> sf_expected_credential_identity expected
             \<or> signature_public_key l \<noteq> sf_expected_signature_public_key expected
          then Inl SelfAuthorityDiffers else Inr ())"

section \<open>Exact deltas\<close>

type_synonym RequestedAddition = "bytes \<times> bytes"

definition retained_leaves :: "MlsRosterSummaryV1 \<Rightarrow> u32 list \<Rightarrow> MlsRosterLeafV1 list" where
  "retained_leaves previous removals =
     filter (\<lambda>l. leaf_index l \<notin> set removals) (leaves previous)"

definition leaf_authority :: "MlsRosterLeafV1 \<Rightarrow> RequestedAddition" where
  "leaf_authority l = (credential_identity l, signature_public_key l)"

definition matching_additions :: "RequestedAddition list \<Rightarrow> MlsRosterLeafV1 \<Rightarrow> nat list" where
  "matching_additions additions l =
     filter (\<lambda>i. additions ! i = leaf_authority l) [0..<length additions]"

definition delta_leaf ::
  "MlsRosterLeafV1 list \<Rightarrow> RequestedAddition list \<Rightarrow> bool list \<Rightarrow> MlsRosterLeafV1
   \<Rightarrow> roster_error + bool list" where
  "delta_leaf retained additions matched l =
     (case leaf_by_index retained (leaf_index l) of
        Some expected \<Rightarrow> if expected \<noteq> l then Inl RetainedLeafChanged else Inr matched
      | None \<Rightarrow>
          (case matching_additions additions l of
             [i] \<Rightarrow> if matched ! i then Inl UnauthorizedLeaf else Inr (matched[i := True])
           | _ \<Rightarrow> Inl UnauthorizedLeaf))"

definition retained_count :: "MlsRosterLeafV1 list \<Rightarrow> nat" where
  "retained_count retained = length (remdups (map leaf_index retained))"

definition validate_exact_delta ::
  "MlsRosterSummaryV1 \<Rightarrow> MlsRosterSummaryV1 \<Rightarrow> u32 list \<Rightarrow> RequestedAddition list
   \<Rightarrow> roster_error + unit" where
  "validate_exact_delta previous resulting removals additions =
     bindE (ok_or (u64_checked_succ (epoch previous)) EpochOverflow) (\<lambda>expected_epoch.
     if group_id resulting \<noteq> group_id previous \<or> epoch resulting \<noteq> expected_epoch
     then Inl DeltaHeader
     else
       let retained = retained_leaves previous removals in
       bindE (foldE (delta_leaf retained additions) (replicate (length additions) False)
                (leaves resulting)) (\<lambda>matched.
       bindE (ok_or (usize_checked_add (retained_count retained) (length additions))
                LeafCountOverflow) (\<lambda>expected_leaf_count.
       if length (leaves resulting) \<noteq> expected_leaf_count \<or> list_ex (\<lambda>m. \<not> m) matched
       then Inl NotExactDelta else Inr ())))"

section \<open>Canonical leaves, characterised\<close>

definition leaf_admissible :: "leaf_scan \<Rightarrow> MlsRosterLeafV1 \<Rightarrow> bool" where
  "leaf_admissible s l \<longleftrightarrow>
     (\<forall>i. previous_index s = Some i \<longrightarrow> i < leaf_index l) \<and>
     credential_identity l \<notin> set (identities s) \<and>
     signature_public_key l \<notin> set (signature_keys s)"

definition leaf_scanned :: "leaf_scan \<Rightarrow> MlsRosterLeafV1 \<Rightarrow> leaf_scan" where
  "leaf_scanned s l = \<lparr>previous_index = Some (leaf_index l),
     identities = credential_identity l # identities s,
     signature_keys = signature_public_key l # signature_keys s\<rparr>"

lemma scan_leaf_Inr_iff:
  "scan_leaf s l = Inr s' \<longleftrightarrow> leaf_admissible s l \<and> s' = leaf_scanned s l"
  by (auto simp: scan_leaf_def leaf_admissible_def leaf_scanned_def split: option.splits)

lemma foldE_scan_leaf:
  "(\<exists>s'. foldE scan_leaf s ls = Inr s') \<longleftrightarrow>
     canonical_leaves ls \<and> (\<forall>l \<in> set ls. leaf_admissible s l)"
proof (induction ls arbitrary: s)
  case Nil
  then show ?case by (simp add: canonical_leaves_def)
next
  case (Cons l ls)
  have "(\<exists>s'. foldE scan_leaf s (l # ls) = Inr s') \<longleftrightarrow>
      leaf_admissible s l \<and> (\<exists>s'. foldE scan_leaf (leaf_scanned s l) ls = Inr s')"
    by (auto simp: bindE_Inr_iff scan_leaf_Inr_iff)
  also have "\<dots> \<longleftrightarrow> leaf_admissible s l \<and> canonical_leaves ls \<and>
      (\<forall>x \<in> set ls. leaf_admissible (leaf_scanned s l) x)"
    by (simp only: Cons.IH)
  also have "\<dots> \<longleftrightarrow> canonical_leaves (l # ls) \<and> (\<forall>x \<in> set (l # ls). leaf_admissible s x)"
    unfolding canonical_leaves_def leaf_admissible_def leaf_scanned_def
    by (auto simp: image_iff)
  finally show ?case .
qed

lemma validate_canonical_leaves_Inr_iff:
  "validate_canonical_leaves ls = Inr u \<longleftrightarrow> canonical_leaves ls"
proof -
  have "(\<exists>s'. foldE scan_leaf \<lparr>previous_index = None, identities = [], signature_keys = []\<rparr> ls = Inr s')
      \<longleftrightarrow> canonical_leaves ls"
    by (simp add: foldE_scan_leaf leaf_admissible_def)
  then show ?thesis
    by (simp add: validate_canonical_leaves_def bindE_Inr_iff)
qed

lemma canonical_distinct_index: "canonical_leaves ls \<Longrightarrow> distinct (map leaf_index ls)"
  by (simp add: canonical_leaves_def strict_sorted_iff)

lemma leaf_by_index_Some_iff:
  "distinct (map leaf_index ls) \<Longrightarrow> leaf_by_index ls i = Some l \<longleftrightarrow> l \<in> set ls \<and> leaf_index l = i"
  unfolding leaf_by_index_def
  by (subst map_of_rev_distinct) (auto simp: comp_def map_of_eq_Some_iff)

lemma leaf_by_index_None_iff:
  "leaf_by_index ls i = None \<longleftrightarrow> i \<notin> leaf_index ` set ls"
  by (auto simp: leaf_by_index_def map_of_eq_None_iff image_iff)

end
