(* ===== verification/OpenMls.thy ===== *)
theory OpenMls
  imports ProviderLaws Roster
begin

text \<open>
  OpenMLS as the parameter of the lifecycle (\<open>rust/vendor/openmls\<close>, third-party): the record
  \<open>openmls\<close> holds the library calls that the lifecycle makes, over an abstract type \<open>'g\<close> of group
  handles and \<open>'x\<close> of the library's other values (key packages, messages, Welcomes, staged
  Commits, proposals, credentials). A call that is given the provider sees the rows and
  returns the storage methods it invoked (\<open>storage_call\<close>), which the model runs on the rows;
  \<open>None\<close> is its error. Randomness and time are part of the record.

  The package's own code around these calls follows: \<open>api/support.rs\<close>, the signer of
  \<open>api/keys.rs\<close>, and the parts of \<open>api/group_e2ee.rs\<close> that read a group (roster, local
  signer, additions, proposal types).
\<close>

record SerializableSigner =
  ss_private :: bytes
  ss_public :: bytes
  ss_scheme :: u16

datatype 'x content =
    ApplicationMessage bytes | StagedCommitMessage 'x | ProposalMessage 'x
  | ExternalJoinProposalMessage 'x

datatype Sender = Member u32 | External u32 | NewMemberProposal | NewMemberCommit

record 'x processed =
  pr_aad :: bytes
  pr_epoch :: u64
  pr_sender :: Sender
  pr_basic_identity :: "bytes option"
  pr_content :: "'x content"

datatype process_error =
  NoPastEpochData | TooDistantInThePast | TooDistantInTheFuture | SecretReuseError | OtherProcessError

datatype Proposal =
    Add | Remove | Update | PreSharedKey | ReInit | ExternalInit | GroupContextExtensions
  | OtherProposal

text \<open>A Commit bundle: each message with its serialisation, \<open>None\<close> where that fails.\<close>

record commit_bundle =
  bd_commit :: "bytes option"
  bd_welcome :: "bytes option option"
  bd_group_info :: "bytes option option"

record ('v, 'g, 'x) openmls =
  om_signer_json :: "bytes \<Rightarrow> SerializableSigner option"
  om_scheme_known :: "u16 \<Rightarrow> bool"
  om_signature_algorithm :: "Ciphersuite \<Rightarrow> u16"
  om_store_signer :: "SerializableSigner \<Rightarrow> snapshot \<Rightarrow> (unit \<times> 'v storage_call list) option"
  om_credential :: "bytes \<Rightarrow> 'x option"
  om_basic_credential :: "bytes \<Rightarrow> 'x"
  om_message :: "bytes \<Rightarrow> ('x \<times> bytes) option"
  om_protocol_message :: "'x \<Rightarrow> 'x option"
  om_message_group_id :: "'x \<Rightarrow> bytes"
  om_message_epoch :: "'x \<Rightarrow> u64"
  om_welcome :: "'x \<Rightarrow> 'x option"
  om_welcome_refs :: "'x \<Rightarrow> 'v list"
  om_key_package_encoded :: "'v \<Rightarrow> bytes option"
  om_ratchet_tree :: "bytes \<Rightarrow> 'x option"
  om_stage_welcome ::
    "MlsGroupJoinConfig \<Rightarrow> 'x \<Rightarrow> 'x option \<Rightarrow> snapshot \<Rightarrow> ('x \<times> 'v storage_call list) option"
  om_into_group :: "'x \<Rightarrow> snapshot \<Rightarrow> ('g \<times> 'v storage_call list) option"
  om_key_package_in :: "bytes \<Rightarrow> 'x option"
  om_key_package_validate :: "'x \<Rightarrow> 'x option"
  om_key_package_identity :: "'x \<Rightarrow> bytes option"
  om_key_package_signature_key :: "'x \<Rightarrow> bytes"
  om_build_key_package ::
    "Ciphersuite \<Rightarrow> SerializableSigner \<Rightarrow> 'x \<times> bytes \<Rightarrow> snapshot
     \<Rightarrow> (bytes option \<times> 'v storage_call list) option"
  om_load :: "bytes \<Rightarrow> snapshot \<Rightarrow> 'g option"
  om_group_id :: "'g \<Rightarrow> bytes"
  om_epoch :: "'g \<Rightarrow> u64"
  om_members :: "'g \<Rightarrow> (u32 \<times> bytes option \<times> bytes) list"
  om_member_key :: "'g \<Rightarrow> u32 \<Rightarrow> bytes option"
  om_own_leaf_index :: "'g \<Rightarrow> u32"
  om_is_active :: "'g \<Rightarrow> bool"
  om_has_pending :: "'g \<Rightarrow> bool"
  om_configuration :: "'g \<Rightarrow> MlsGroupJoinConfig"
  om_ciphersuite :: "'g \<Rightarrow> Ciphersuite"
  om_set_aad :: "bytes \<Rightarrow> 'g \<Rightarrow> 'g"
  om_new_group ::
    "SerializableSigner \<Rightarrow> MlsGroupCreateConfig \<Rightarrow> bytes \<Rightarrow> 'x \<times> bytes \<Rightarrow> snapshot
     \<Rightarrow> ('g \<times> 'v storage_call list) option"
  om_commit_members ::
    "SerializableSigner \<Rightarrow> 'x list \<Rightarrow> u32 list \<Rightarrow> 'g \<Rightarrow> snapshot
     \<Rightarrow> ((commit_bundle \<times> 'g) \<times> 'v storage_call list) option"
  om_commit_self_update ::
    "SerializableSigner \<Rightarrow> 'g \<Rightarrow> snapshot \<Rightarrow> ((commit_bundle \<times> 'g) \<times> 'v storage_call list) option"
  om_merge_pending_commit :: "'g \<Rightarrow> snapshot \<Rightarrow> ('g \<times> 'v storage_call list) option"
  om_clear_pending_commit :: "'g \<Rightarrow> snapshot \<Rightarrow> ('g \<times> 'v storage_call list) option"
  om_create_message ::
    "SerializableSigner \<Rightarrow> bytes \<Rightarrow> 'g \<Rightarrow> snapshot
     \<Rightarrow> ((bytes option \<times> 'g) \<times> 'v storage_call list) option"
  om_process_message ::
    "'x \<Rightarrow> 'g \<Rightarrow> snapshot \<Rightarrow> process_error + ('x processed \<times> 'g) \<times> 'v storage_call list"
  om_merge_staged_commit :: "'x \<Rightarrow> 'g \<Rightarrow> snapshot \<Rightarrow> ('g \<times> 'v storage_call list) option"
  om_store_pending_proposal :: "'x \<Rightarrow> 'g \<Rightarrow> snapshot \<Rightarrow> ('g \<times> 'v storage_call list) option"
  om_proposal :: "'x \<Rightarrow> Proposal"
  om_delete :: "'g \<Rightarrow> snapshot \<Rightarrow> (unit \<times> 'v storage_call list) option"

section \<open>Signers, credentials, messages, groups\<close>

datatype signer_error = SignerUndecodable | UnknownSignatureScheme

definition deserialize_signer_bytes ::
  "('v, 'g, 'x) openmls \<Rightarrow> bytes \<Rightarrow> signer_error + SerializableSigner" where
  "deserialize_signer_bytes M signer_bytes = ok_or (om_signer_json M signer_bytes) SignerUndecodable"

definition signer_from_bytes ::
  "('v, 'g, 'x) openmls \<Rightarrow> bytes \<Rightarrow> signer_error + SerializableSigner" where
  "signer_from_bytes M signer_bytes =
     bindE (deserialize_signer_bytes M signer_bytes) (\<lambda>skp.
     if \<not> om_scheme_known M (ss_scheme skp) then Inl UnknownSignatureScheme else Inr skp)"

definition build_credential_with_key ::
  "('v, 'g, 'x) openmls \<Rightarrow> bytes \<Rightarrow> bytes \<Rightarrow> bytes option \<Rightarrow> unit + 'x \<times> bytes" where
  "build_credential_with_key M identity signer_public_key credential_bytes =
     bindE (case credential_bytes of
         Some b \<Rightarrow> ok_or (om_credential M b) ()
       | None \<Rightarrow> Inr (om_basic_credential M identity)) (\<lambda>credential.
     Inr (credential, signer_public_key))"

definition mls_message_from_exact_bytes :: "('v, 'g, 'x) openmls \<Rightarrow> bytes \<Rightarrow> unit + 'x" where
  "mls_message_from_exact_bytes M b =
     bindE (ok_or (om_message M b) ()) (\<lambda>(message, rest).
     if rest \<noteq> [] then Inl () else Inr message)"

definition load_group :: "('v, 'g, 'x) openmls \<Rightarrow> bytes \<Rightarrow> snapshot \<Rightarrow> unit + 'g" where
  "load_group M gid provider = ok_or (om_load M gid provider) ()"

section \<open>Reading a group\<close>

definition member_leaf :: "u32 \<times> bytes option \<times> bytes \<Rightarrow> roster_error + MlsRosterLeafV1" where
  "member_leaf m = (case m of (index, identity, signature_key) \<Rightarrow>
     bindE (ok_or identity NotBasicCredential) (\<lambda>i.
     Inr \<lparr>leaf_index = index, credential_identity = i, signature_public_key = signature_key\<rparr>))"

definition roster_from_group ::
  "(bytes \<Rightarrow> bytes) \<Rightarrow> ('v, 'g, 'x) openmls \<Rightarrow> 'g \<Rightarrow> roster_error + MlsRosterSummaryV1" where
  "roster_from_group sha M g =
     bindE (foldE (\<lambda>ls m. bindE (member_leaf m) (\<lambda>l. Inr (ls @ [l]))) [] (om_members M g)) (\<lambda>ls.
     let sorted_leaves = sort_key leaf_index ls in
     bindE (validate_canonical_leaves sorted_leaves) (\<lambda>_.
     bindE (roster_digest sha (om_group_id M g) (om_epoch M g) sorted_leaves) (\<lambda>d.
     Inr \<lparr>group_id = om_group_id M g, epoch = om_epoch M g, leaves = sorted_leaves,
       digest_sha256 = d\<rparr>)))"

definition ensure_signer_public_key :: "SerializableSigner \<Rightarrow> bytes \<Rightarrow> roster_error + unit" where
  "ensure_signer_public_key signer expected_key =
     (if ss_public signer \<noteq> expected_key then Inl SignerKeyDiffers else Inr ())"

definition ensure_local_signer ::
  "('v, 'g, 'x) openmls \<Rightarrow> 'g \<Rightarrow> SerializableSigner \<Rightarrow> roster_error + unit" where
  "ensure_local_signer M g signer =
     bindE (ok_or (om_member_key M g (om_own_leaf_index M g)) LocalLeafMissing) (\<lambda>own.
     ensure_signer_public_key signer own)"

definition ensure_local_signer_public_key ::
  "('v, 'g, 'x) openmls \<Rightarrow> 'g \<Rightarrow> bytes \<Rightarrow> roster_error + unit" where
  "ensure_local_signer_public_key M g signer_public_key =
     bindE (ok_or (om_member_key M g (om_own_leaf_index M g)) LocalLeafMissing) (\<lambda>own.
     if signer_public_key \<noteq> own then Inl SignerKeyDiffers else Inr ())"

text \<open>
  \<open>validate_additions\<close>: the identities and signature keys in use (two hash sets), the
  validated key packages and the requested additions so far.
\<close>

record 'x additions_scan =
  as_identities :: "bytes list"
  as_signature_keys :: "bytes list"
  as_key_packages :: "'x list"
  as_requested :: "RequestedAddition list"

definition validate_addition ::
  "('v, 'g, 'x) openmls \<Rightarrow> 'x additions_scan \<Rightarrow> MlsAuthorizedKeyPackageV1
   \<Rightarrow> roster_error + 'x additions_scan" where
  "validate_addition M s a =
     (if kp_expected_credential_identity a \<in> set (as_identities s) then Inl AdditionIdentityTaken
      else if kp_expected_signature_public_key a \<in> set (as_signature_keys s)
      then Inl AdditionSignatureKeyTaken
      else
        bindE (ok_or (om_key_package_in M (key_package_bytes a)) KeyPackageUndecodable) (\<lambda>kp_in.
        bindE (ok_or (om_key_package_validate M kp_in) KeyPackageInvalid) (\<lambda>kp.
        bindE (ok_or (om_key_package_identity M kp) NotBasicCredential) (\<lambda>identity.
        if identity \<noteq> kp_expected_credential_identity a then Inl KeyPackageIdentityDiffers
        else if om_key_package_signature_key M kp \<noteq> kp_expected_signature_public_key a
        then Inl KeyPackageKeyDiffers
        else Inr \<lparr>
          as_identities = kp_expected_credential_identity a # as_identities s,
          as_signature_keys = kp_expected_signature_public_key a # as_signature_keys s,
          as_key_packages = as_key_packages s @ [kp],
          as_requested = as_requested s
            @ [(kp_expected_credential_identity a, kp_expected_signature_public_key a)]\<rparr>))))"

definition validate_additions ::
  "('v, 'g, 'x) openmls \<Rightarrow> MlsAuthorizedKeyPackageV1 list \<Rightarrow> MlsRosterSummaryV1 \<Rightarrow> u32 list
   \<Rightarrow> roster_error + 'x list \<times> RequestedAddition list" where
  "validate_additions M additions previous removals =
     (let kept = filter (\<lambda>l. leaf_index l \<notin> set removals) (leaves previous) in
      bindE (foldE (validate_addition M)
        \<lparr>as_identities = map credential_identity kept,
         as_signature_keys = map signature_public_key kept,
         as_key_packages = [], as_requested = []\<rparr> additions) (\<lambda>s.
      Inr (as_key_packages s, as_requested s)))"

fun proposal_type :: "Proposal \<Rightarrow> MlsProposalType" where
  "proposal_type Add = PtAdd"
| "proposal_type Remove = PtRemove"
| "proposal_type Update = PtUpdate"
| "proposal_type PreSharedKey = PtPreSharedKey"
| "proposal_type ReInit = PtReinit"
| "proposal_type ExternalInit = PtExternalInit"
| "proposal_type GroupContextExtensions = PtGroupContextExtensions"
| "proposal_type OtherProposal = PtCustom"

section \<open>Rosters read from a group\<close>

lemma foldE_member_leaf:
  "foldE (\<lambda>ls m. bindE (member_leaf m) (\<lambda>l. Inr (ls @ [l]))) acc ms = Inr ls \<longleftrightarrow>
     (\<exists>xs. map member_leaf ms = map Inr xs \<and> ls = acc @ xs)"
proof (induction ms arbitrary: acc)
  case Nil
  then show ?case by auto
next
  case (Cons m ms)
  then show ?case
    by (cases "member_leaf m") (auto simp: Cons_eq_map_conv)
qed

lemma roster_from_group_Inr:
  assumes "roster_from_group sha M g = Inr r"
  shows "group_id r = om_group_id M g" "epoch r = om_epoch M g" "canonical_leaves (leaves r)"
    "mls_roster_digest_v1 sha (group_id r) (epoch r) (leaves r) = Inr (digest_sha256 r)"
    "length (leaves r) < 2 ^ 32"
proof -
  from assms obtain ls d where v: "validate_canonical_leaves (sort_key leaf_index ls) = Inr ()"
    "roster_digest sha (om_group_id M g) (om_epoch M g) (sort_key leaf_index ls) = Inr d"
    and r: "r = \<lparr>group_id = om_group_id M g, epoch = om_epoch M g,
        leaves = sort_key leaf_index ls, digest_sha256 = d\<rparr>"
    by (auto simp: roster_from_group_def Let_def bindE_Inr_iff)
  then show "group_id r = om_group_id M g" "epoch r = om_epoch M g" "canonical_leaves (leaves r)"
    "mls_roster_digest_v1 sha (group_id r) (epoch r) (leaves r) = Inr (digest_sha256 r)"
    by (simp_all add: mls_roster_digest_v1_def flip: validate_canonical_leaves_Inr_iff [of _ "()"])
  then show "length (leaves r) < 2 ^ 32"
    by (auto simp: mls_roster_digest_v1_def roster_digest_def roster_preimage_def bindE_Inr_iff
        checked_u32_def split: if_splits)
qed

end
