(* ===== verification/Cbor.thy ===== *)
theory Cbor
  imports MlsTypes Effects
begin

text \<open>
  The CBOR library (\<open>minicbor\<close>, third-party) as the parameter record \<open>cbor\<close>: the encoder
  methods append the bytes given here to a vector (writing to a vector cannot fail), the
  decoder methods consume a prefix of the remaining input or fail. \<open>cbor_ok\<close> states the
  documented behaviour the metadata codec relies on: a decoder method reads back what the
  encoder method of the same type wrote, the data type of the next item can be inspected, and
  an item head is at most nine bytes long. The locale \<open>codec\<close> is the interface of a
  composite format: reading back what was written, whatever follows it.
\<close>

record cbor =
  cb_array :: "u64 \<Rightarrow> bytes"
  cb_u16 :: "u16 \<Rightarrow> bytes"
  cb_u32 :: "u32 \<Rightarrow> bytes"
  cb_u64 :: "u64 \<Rightarrow> bytes"
  cb_bytes :: "bytes \<Rightarrow> bytes"
  cb_null :: bytes
  cd_array :: "bytes \<Rightarrow> (u64 option \<times> bytes) option"
  cd_u16 :: "bytes \<Rightarrow> (u16 \<times> bytes) option"
  cd_u32 :: "bytes \<Rightarrow> (u32 \<times> bytes) option"
  cd_u64 :: "bytes \<Rightarrow> (u64 \<times> bytes) option"
  cd_bytes :: "bytes \<Rightarrow> (bytes \<times> bytes) option"
  cd_is_null :: "bytes \<Rightarrow> bool option"
  cd_null :: "bytes \<Rightarrow> bytes option"

definition cbor_ok :: "cbor \<Rightarrow> bool" where
  "cbor_ok C \<longleftrightarrow>
     (\<forall>n r. cd_array C (cb_array C n @ r) = Some (Some n, r)) \<and>
     (\<forall>n r. cd_u16 C (cb_u16 C n @ r) = Some (n, r)) \<and>
     (\<forall>n r. cd_u32 C (cb_u32 C n @ r) = Some (n, r)) \<and>
     (\<forall>n r. cd_u64 C (cb_u64 C n @ r) = Some (n, r)) \<and>
     (\<forall>b r. length b < 2 ^ 64 \<longrightarrow> cd_bytes C (cb_bytes C b @ r) = Some (b, r)) \<and>
     (\<forall>r. cd_null C (cb_null C @ r) = Some r) \<and>
     (\<forall>r. cd_is_null C (cb_null C @ r) = Some True) \<and>
     (\<forall>n r. cd_is_null C (cb_array C n @ r) = Some False) \<and>
     (\<forall>b r. cd_is_null C (cb_bytes C b @ r) = Some False) \<and>
     (\<forall>n. length (cb_array C n) \<le> 9) \<and> (\<forall>n. length (cb_u16 C n) \<le> 9) \<and>
     (\<forall>n. length (cb_u32 C n) \<le> 9) \<and> (\<forall>n. length (cb_u64 C n) \<le> 9) \<and>
     (\<forall>b. length (cb_bytes C b) \<le> 9 + length b) \<and> length (cb_null C) \<le> 9"

lemma cbor_okD:
  assumes "cbor_ok C"
  shows "cd_array C (cb_array C n @ r) = Some (Some n, r)"
    and "cd_u16 C (cb_u16 C a @ r) = Some (a, r)"
    and "cd_u32 C (cb_u32 C b @ r) = Some (b, r)"
    and "cd_u64 C (cb_u64 C c @ r) = Some (c, r)"
    and "length v < 2 ^ 64 \<Longrightarrow> cd_bytes C (cb_bytes C v @ r) = Some (v, r)"
    and "cd_null C (cb_null C @ r) = Some r"
    and "cd_is_null C (cb_null C @ r) = Some True"
    and "cd_is_null C (cb_array C n @ r) = Some False"
    and "cd_is_null C (cb_bytes C v @ r) = Some False"
  using assms by (simp_all add: cbor_ok_def)

lemma cbor_sizes:
  assumes "cbor_ok C"
  shows "length (cb_array C n) \<le> 9" "length (cb_u16 C a) \<le> 9" "length (cb_u32 C b) \<le> 9"
    "length (cb_u64 C c) \<le> 9" "length (cb_bytes C v) \<le> 9 + length v" "length (cb_null C) \<le> 9"
  using assms by (simp_all add: cbor_ok_def)

section \<open>Readers\<close>

text \<open>A decoder method as a stateful result over the remaining input; its failure is an error code.\<close>

type_synonym 'a reader = "(bytes, MlsErrorCode, 'a) eff"

definition take_item :: "(bytes \<Rightarrow> ('a \<times> bytes) option) \<Rightarrow> MlsErrorCode \<Rightarrow> 'a reader" where
  "take_item item e =
     (\<lambda>input. case item input of Some (a, rest) \<Rightarrow> (Inr a, rest) | None \<Rightarrow> (Inl e, input))"

definition skip_null :: "cbor \<Rightarrow> MlsErrorCode \<Rightarrow> unit reader" where
  "skip_null C e =
     (\<lambda>input. case cd_null C input of Some rest \<Rightarrow> (Inr (), rest) | None \<Rightarrow> (Inl e, input))"

definition peek_null :: "cbor \<Rightarrow> MlsErrorCode \<Rightarrow> bool reader" where
  "peek_null C e = readS (\<lambda>input. ok_or (cd_is_null C input) e)"

named_theorems read_back \<open>a reader applied to what its writer wrote\<close>

lemma take_item_Some: "item input = Some (a, rest) \<Longrightarrow> take_item item e input = (Inr a, rest)"
  by (simp add: take_item_def)

lemma read_back_items [read_back]:
  assumes "cbor_ok C"
  shows "take_item (cd_array C) e (cb_array C n @ r) = (Inr (Some n), r)"
    and "take_item (cd_u16 C) e (cb_u16 C a @ r) = (Inr a, r)"
    and "take_item (cd_u32 C) e (cb_u32 C b @ r) = (Inr b, r)"
    and "take_item (cd_u64 C) e (cb_u64 C c @ r) = (Inr c, r)"
    and "length v < 2 ^ 64 \<Longrightarrow> take_item (cd_bytes C) e (cb_bytes C v @ r) = (Inr v, r)"
    and "skip_null C e (cb_null C @ r) = (Inr (), r)"
    and "peek_null C e (cb_null C @ r) = (Inr True, cb_null C @ r)"
    and "peek_null C e (cb_array C n @ r) = (Inr False, cb_array C n @ r)"
    and "peek_null C e (cb_bytes C v @ r) = (Inr False, cb_bytes C v @ r)"
  by (simp_all add: take_item_def skip_null_def peek_null_def cbor_okD [OF assms])

section \<open>Composite formats\<close>

locale codec =
  fixes enc :: "'a \<Rightarrow> bytes" and dec :: "(bytes, 'e, 'a) eff" and valid :: "'a \<Rightarrow> bool"
  assumes dec_enc: "valid a \<Longrightarrow> dec (enc a @ r) = (Inr a, r)"
begin

lemma enc_append_inj:
  assumes "valid a" "valid b" "enc a @ r = enc b @ s"
  shows "a = b \<and> r = s"
  using dec_enc [OF assms(1), of r] dec_enc [OF assms(2), of s] unfolding assms(3)
  by (metis Pair_inject sum.inject(2))

lemma enc_inj: "valid a \<Longrightarrow> valid b \<Longrightarrow> enc a = enc b \<Longrightarrow> a = b"
  using enc_append_inj [of a b "[]" "[]"] by simp

lemma times_enc:
  "\<forall>a \<in> set xs. valid a \<Longrightarrow> timesS (length xs) dec (concat (map enc xs) @ r) = (Inr xs, r)"
proof (induction xs)
  case Nil
  then show ?case by simp
next
  case (Cons a xs)
  then have "dec (enc a @ concat (map enc xs) @ r) = (Inr a, concat (map enc xs) @ r)"
    by (simp add: dec_enc)
  with Cons show ?case by simp
qed

lemma length_concat_enc:
  assumes "\<forall>a \<in> set xs. length (enc a) \<le> k"
  shows "length (concat (map enc xs)) \<le> length xs * k"
  using assms by (induction xs) auto

end

end
