(* ===== verification/LocalState.thy ===== *)
theory LocalState
  imports Cbor Roster
begin

text \<open>
  \<open>rust/src/local_group_state.rs\<close>: the package's own metadata of a group (its roster
  history and its pending Commit), kept in caller-owned rows under \<open>OpenMlsDart/1/\<close>. The
  fallible functions return \<open>MlsErrorCode\<close>; \<open>&self\<close> methods take the record, \<open>&mut self\<close>
  methods return the new one; methods on the storage are stateful results over \<open>snapshot\<close>.
  \<open>sha\<close> is the SHA-256 of the \<open>sha2\<close> crate, \<open>C\<close> the CBOR library.
\<close>

definition SCHEMA :: u16 where "SCHEMA = 1"
definition PROFILE :: u16 where "PROFILE = 2"
definition MAX_VALUE :: nat where "MAX_VALUE = 2 * 1024 * 1024"
definition MAX_WIRE :: nat where "MAX_WIRE = 1024 * 1024"
definition MAX_LEAVES :: nat where "MAX_LEAVES = 256"
definition PREFIX :: bytes where "PREFIX = ascii ''OpenMlsDart/1/''"
definition RESERVED :: bytes where "RESERVED = ascii ''OpenMlsDart/''"

record PendingRecord =
  binding :: MlsPendingCommitBinding
  proposed_roster :: MlsRosterSummaryV1
  preparation_base_sha256 :: bytes
  upstream_pending_sha256 :: bytes

record LocalGroupState =
  lg_group_id :: bytes
  lg_incarnation_id :: bytes
  lg_retention :: u32
  lg_join_epoch :: u64
  lg_current :: MlsRosterSummaryV1
  lg_history :: "MlsRosterSummaryV1 list"
  lg_pending :: "PendingRecord option"

definition key :: "bytes \<Rightarrow> string \<Rightarrow> bytes" where
  "key gid name = PREFIX @ ascii name @ be16 (of_nat (length gid)) @ gid"

section \<open>Validation\<close>

definition fixed :: "bytes \<Rightarrow> nat \<Rightarrow> MlsErrorCode + unit" where
  "fixed value len = (if length value = len then Inr () else Inl InvalidStorageSnapshot)"

definition opaque_id :: "bytes \<Rightarrow> MlsErrorCode + unit" where
  "opaque_id value = (if 1 \<le> length value \<and> length value \<le> 128 then Inr () else Inl LimitExceeded)"

definition validate_retention :: "u32 \<Rightarrow> MlsErrorCode + unit" where
  "validate_retention retention =
     (if retention = 2 \<or> retention = 4 then Inr () else Inl UnsupportedRetention)"

definition validate_leaf :: "MlsRosterLeafV1 \<Rightarrow> MlsErrorCode + unit" where
  "validate_leaf leaf =
     bindE (fixed (credential_identity leaf) 45) (\<lambda>_. fixed (signature_public_key leaf) 32)"

definition validate_roster :: "(bytes \<Rightarrow> bytes) \<Rightarrow> MlsRosterSummaryV1 \<Rightarrow> MlsErrorCode + unit" where
  "validate_roster sha roster =
     bindE (fixed (group_id roster) 16) (\<lambda>_.
     bindE (fixed (digest_sha256 roster) 32) (\<lambda>_.
     if leaves roster = [] \<or> length (leaves roster) > MAX_LEAVES then Inl LimitExceeded
     else bindE (eachE validate_leaf (leaves roster)) (\<lambda>_.
     bindE (map_err (\<lambda>_. InvalidStorageSnapshot)
             (mls_roster_digest_v1 sha (group_id roster) (epoch roster) (leaves roster))) (\<lambda>hash.
     if hash \<noteq> digest_sha256 roster then Inl InvalidStorageSnapshot else Inr ()))))"

definition expected :: "MlsRosterSummaryV1 \<Rightarrow> MlsExpectedRosterStateV1" where
  "expected roster = \<lparr>es_group_id = group_id roster, es_epoch = epoch roster,
     es_digest_sha256 = digest_sha256 roster\<rparr>"

definition validate_history_entry ::
  "(bytes \<Rightarrow> bytes) \<Rightarrow> LocalGroupState \<Rightarrow> nat \<Rightarrow> nat \<times> MlsRosterSummaryV1 \<Rightarrow> MlsErrorCode + unit" where
  "validate_history_entry sha s n ir =
     bindE (validate_roster sha (snd ir)) (\<lambda>_.
     if group_id (snd ir) \<noteq> lg_group_id s
        \<or> epoch (snd ir) \<noteq> epoch (lg_current s) - of_nat n + of_nat (fst ir)
     then Inl InvalidStorageSnapshot else Inr ())"

definition validate_pending ::
  "(bytes \<Rightarrow> bytes) \<Rightarrow> LocalGroupState \<Rightarrow> PendingRecord \<Rightarrow> MlsErrorCode + unit" where
  "validate_pending sha s p =
     (let b = binding p in
      bindE (validate_roster sha (proposed_roster p)) (\<lambda>_.
      bindE (opaque_id (command_id (pb_transition b))) (\<lambda>_.
      bindE (fixed (context_sha256 (pb_transition b)) 32) (\<lambda>_.
      bindE (eachE (\<lambda>hash. fixed hash 32)
              [pb_commit_sha256 b, pb_aad_sha256 b, preparation_base_sha256 p,
               upstream_pending_sha256 p]) (\<lambda>_.
      bindE (eachE (\<lambda>hash. fixed hash 32)
              (List.map_filter id [pb_welcome_sha256 b, pb_group_info_sha256 b])) (\<lambda>_.
      if pb_group_id b \<noteq> lg_group_id s \<or> pb_incarnation_id b \<noteq> lg_incarnation_id s
         \<or> pb_previous_state b \<noteq> expected (lg_current s)
         \<or> pb_author b \<notin> set (leaves (lg_current s))
         \<or> group_id (proposed_roster p) \<noteq> lg_group_id s
         \<or> u64_checked_succ (epoch (lg_current s)) \<noteq> Some (epoch (proposed_roster p))
      then Inl PendingBindingMismatch else Inr ()))))))"

definition validate :: "(bytes \<Rightarrow> bytes) \<Rightarrow> LocalGroupState \<Rightarrow> MlsErrorCode + unit" where
  "validate sha s =
     bindE (validate_retention (lg_retention s)) (\<lambda>_.
     bindE (fixed (lg_group_id s) 16) (\<lambda>_.
     bindE (opaque_id (lg_incarnation_id s)) (\<lambda>_.
     bindE (validate_roster sha (lg_current s)) (\<lambda>_.
     if group_id (lg_current s) \<noteq> lg_group_id s \<or> lg_join_epoch s > epoch (lg_current s)
     then Inl InvalidStorageSnapshot
     else
       let n = unat (min (epoch (lg_current s) - lg_join_epoch s) (ucast (lg_retention s))) in
       if length (lg_history s) \<noteq> n then Inl InvalidStorageSnapshot
       else bindE (eachE (validate_history_entry sha s n) (List.enumerate 0 (lg_history s))) (\<lambda>_.
       case lg_pending s of None \<Rightarrow> Inr () | Some p \<Rightarrow> validate_pending sha s p)))))"

section \<open>Construction and advance\<close>

definition new_state ::
  "(bytes \<Rightarrow> bytes) \<Rightarrow> bytes \<Rightarrow> u32 \<Rightarrow> MlsRosterSummaryV1 \<Rightarrow> MlsErrorCode + LocalGroupState" where
  "new_state sha incarnation retention current =
     (let value = \<lparr>lg_group_id = group_id current, lg_incarnation_id = incarnation,
        lg_retention = retention, lg_join_epoch = epoch current, lg_current = current,
        lg_history = [], lg_pending = None\<rparr> in
      bindE (validate sha value) (\<lambda>_. Inr value))"

definition push_history :: "u32 \<Rightarrow> MlsRosterSummaryV1 list \<Rightarrow> MlsRosterSummaryV1 \<Rightarrow> MlsRosterSummaryV1 list" where
  "push_history retention history r =
     (let h = history @ [r] in if length h > unat retention then tl h else h)"

definition advance ::
  "(bytes \<Rightarrow> bytes) \<Rightarrow> LocalGroupState \<Rightarrow> MlsRosterSummaryV1 \<Rightarrow> MlsErrorCode + LocalGroupState" where
  "advance sha s resulting =
     bindE (validate sha s) (\<lambda>_.
     bindE (validate_roster sha resulting) (\<lambda>_.
     if group_id resulting \<noteq> lg_group_id s then Inl GroupMismatch
     else if u64_checked_succ (epoch (lg_current s)) \<noteq> Some (epoch resulting)
     then Inl RequiredCommitEpochMismatch
     else
       let s' = s\<lparr>lg_history := push_history (lg_retention s) (lg_history s) (lg_current s),
                  lg_current := resulting, lg_pending := None\<rparr> in
       bindE (validate sha s') (\<lambda>_. Inr s')))"

definition message_roster ::
  "(bytes \<Rightarrow> bytes) \<Rightarrow> LocalGroupState \<Rightarrow> u64 \<Rightarrow> MlsErrorCode + MlsRosterSummaryV1" where
  "message_roster sha s ep =
     bindE (validate sha s) (\<lambda>_.
     if ep = epoch (lg_current s) then Inr (lg_current s)
     else if ep > epoch (lg_current s) then Inl FutureMessageEpoch
     else ok_or (find (\<lambda>r. epoch r = ep) (lg_history s)) PastEpochUnavailable)"

section \<open>Encoding\<close>

text \<open>Writing to a vector cannot fail, so \<open>encode_error\<close> is never reached.\<close>

definition leaf_encode :: "cbor \<Rightarrow> MlsRosterLeafV1 \<Rightarrow> bytes" where
  "leaf_encode C l = cb_array C 3 @ cb_u32 C (leaf_index l) @ cb_bytes C (credential_identity l)
     @ cb_bytes C (signature_public_key l)"

definition expected_encode :: "cbor \<Rightarrow> MlsExpectedRosterStateV1 \<Rightarrow> bytes" where
  "expected_encode C r = cb_array C 3 @ cb_bytes C (es_group_id r) @ cb_u64 C (es_epoch r)
     @ cb_bytes C (es_digest_sha256 r)"

definition roster_encode :: "cbor \<Rightarrow> MlsRosterSummaryV1 \<Rightarrow> bytes" where
  "roster_encode C r = cb_array C 4 @ cb_bytes C (group_id r) @ cb_u64 C (epoch r)
     @ cb_array C (of_nat (length (leaves r))) @ concat (map (leaf_encode C) (leaves r))
     @ cb_bytes C (digest_sha256 r)"

definition optional_hash_encode :: "cbor \<Rightarrow> bytes option \<Rightarrow> bytes" where
  "optional_hash_encode C v = (case v of Some h \<Rightarrow> cb_bytes C h | None \<Rightarrow> cb_null C)"

definition pending_encode :: "cbor \<Rightarrow> PendingRecord \<Rightarrow> bytes" where
  "pending_encode C p =
     (let b = binding p in
      cb_array C 13 @ cb_bytes C (pb_group_id b) @ cb_bytes C (pb_incarnation_id b)
      @ cb_bytes C (command_id (pb_transition b)) @ cb_bytes C (context_sha256 (pb_transition b))
      @ leaf_encode C (pb_author b) @ expected_encode C (pb_previous_state b)
      @ cb_bytes C (pb_commit_sha256 b) @ cb_bytes C (pb_aad_sha256 b)
      @ optional_hash_encode C (pb_welcome_sha256 b)
      @ optional_hash_encode C (pb_group_info_sha256 b)
      @ roster_encode C (proposed_roster p) @ cb_bytes C (preparation_base_sha256 p)
      @ cb_bytes C (upstream_pending_sha256 p))"

definition optional_pending_encode :: "cbor \<Rightarrow> PendingRecord option \<Rightarrow> bytes" where
  "optional_pending_encode C p = (case p of Some q \<Rightarrow> pending_encode C q | None \<Rightarrow> cb_null C)"

definition encode_fields :: "cbor \<Rightarrow> LocalGroupState \<Rightarrow> bytes" where
  "encode_fields C s =
     cb_array C 9 @ cb_u16 C SCHEMA @ cb_u16 C PROFILE @ cb_bytes C (lg_group_id s)
     @ cb_bytes C (lg_incarnation_id s) @ cb_u32 C (lg_retention s) @ cb_u64 C (lg_join_epoch s)
     @ roster_encode C (lg_current s) @ cb_array C (of_nat (length (lg_history s)))
     @ concat (map (roster_encode C) (lg_history s)) @ optional_pending_encode C (lg_pending s)"

definition encode ::
  "(bytes \<Rightarrow> bytes) \<Rightarrow> cbor \<Rightarrow> LocalGroupState \<Rightarrow> MlsErrorCode + bytes" where
  "encode sha C s =
     bindE (validate sha s) (\<lambda>_.
     let out = encode_fields C s in
     if length out > MAX_VALUE then Inl LimitExceeded else Inr out)"

section \<open>Decoding\<close>

definition item_count :: "cbor \<Rightarrow> nat \<Rightarrow> nat reader" where
  "item_count C mx =
     bindS (take_item (cd_array C) InvalidStorageSnapshot) (\<lambda>n.
     bindS (liftS (ok_or n NoncanonicalEncoding)) (\<lambda>n.
     if unat n > mx then liftS (Inl LimitExceeded) else returnS (unat n)))"

definition array :: "cbor \<Rightarrow> nat \<Rightarrow> unit reader" where
  "array C n = bindS (item_count C n) (\<lambda>m.
     if m = n then returnS () else liftS (Inl InvalidStorageSnapshot))"

definition read_bytes :: "cbor \<Rightarrow> nat \<Rightarrow> nat \<Rightarrow> bytes reader" where
  "read_bytes C mn mx =
     bindS (take_item (cd_bytes C) InvalidStorageSnapshot) (\<lambda>v.
     if length v < mn \<or> length v > mx then liftS (Inl LimitExceeded) else returnS v)"

definition leaf_decode :: "cbor \<Rightarrow> MlsRosterLeafV1 reader" where
  "leaf_decode C =
     bindS (array C 3) (\<lambda>_.
     bindS (take_item (cd_u32 C) InvalidStorageSnapshot) (\<lambda>index.
     bindS (read_bytes C 45 45) (\<lambda>identity.
     bindS (read_bytes C 32 32) (\<lambda>signature_key.
     returnS \<lparr>leaf_index = index, credential_identity = identity,
       signature_public_key = signature_key\<rparr>))))"

definition expected_decode :: "cbor \<Rightarrow> MlsExpectedRosterStateV1 reader" where
  "expected_decode C =
     bindS (array C 3) (\<lambda>_.
     bindS (read_bytes C 16 16) (\<lambda>gid.
     bindS (take_item (cd_u64 C) InvalidStorageSnapshot) (\<lambda>ep.
     bindS (read_bytes C 32 32) (\<lambda>digest.
     returnS \<lparr>es_group_id = gid, es_epoch = ep, es_digest_sha256 = digest\<rparr>))))"

definition roster_decode :: "cbor \<Rightarrow> MlsRosterSummaryV1 reader" where
  "roster_decode C =
     bindS (array C 4) (\<lambda>_.
     bindS (read_bytes C 16 16) (\<lambda>gid.
     bindS (take_item (cd_u64 C) InvalidStorageSnapshot) (\<lambda>ep.
     bindS (item_count C MAX_LEAVES) (\<lambda>n.
     if n = 0 then liftS (Inl LimitExceeded)
     else bindS (timesS n (leaf_decode C)) (\<lambda>ls.
     bindS (read_bytes C 32 32) (\<lambda>digest.
     returnS \<lparr>group_id = gid, epoch = ep, leaves = ls, digest_sha256 = digest\<rparr>))))))"

definition optional_hash_decode :: "cbor \<Rightarrow> bytes option reader" where
  "optional_hash_decode C =
     bindS (peek_null C InvalidStorageSnapshot) (\<lambda>is_null.
     if is_null then bindS (skip_null C InvalidStorageSnapshot) (\<lambda>_. returnS None)
     else bindS (read_bytes C 32 32) (\<lambda>v. returnS (Some v)))"

definition pending_decode :: "cbor \<Rightarrow> PendingRecord reader" where
  "pending_decode C =
     bindS (array C 13) (\<lambda>_.
     bindS (read_bytes C 16 16) (\<lambda>gid.
     bindS (read_bytes C 1 128) (\<lambda>incarnation.
     bindS (read_bytes C 1 128) (\<lambda>command.
     bindS (read_bytes C 32 32) (\<lambda>ctx.
     bindS (leaf_decode C) (\<lambda>author.
     bindS (expected_decode C) (\<lambda>previous.
     bindS (read_bytes C 32 32) (\<lambda>commit_hash.
     bindS (read_bytes C 32 32) (\<lambda>aad_hash.
     bindS (optional_hash_decode C) (\<lambda>welcome_hash.
     bindS (optional_hash_decode C) (\<lambda>info_hash.
     bindS (roster_decode C) (\<lambda>proposed.
     bindS (read_bytes C 32 32) (\<lambda>base.
     bindS (read_bytes C 32 32) (\<lambda>upstream.
     returnS \<lparr>
       binding = \<lparr>pb_group_id = gid, pb_incarnation_id = incarnation,
         pb_transition = \<lparr>command_id = command, context_sha256 = ctx\<rparr>,
         pb_author = author, pb_previous_state = previous, pb_commit_sha256 = commit_hash,
         pb_aad_sha256 = aad_hash, pb_welcome_sha256 = welcome_hash,
         pb_group_info_sha256 = info_hash\<rparr>,
       proposed_roster = proposed, preparation_base_sha256 = base,
       upstream_pending_sha256 = upstream\<rparr>))))))))))))))"

definition optional_pending_decode :: "cbor \<Rightarrow> PendingRecord option reader" where
  "optional_pending_decode C =
     bindS (peek_null C InvalidStorageSnapshot) (\<lambda>is_null.
     if is_null then bindS (skip_null C InvalidStorageSnapshot) (\<lambda>_. returnS None)
     else bindS (pending_decode C) (\<lambda>p. returnS (Some p)))"

definition decode_fields :: "cbor \<Rightarrow> LocalGroupState reader" where
  "decode_fields C =
     bindS (array C 9) (\<lambda>_.
     bindS (take_item (cd_u16 C) InvalidStorageSnapshot) (\<lambda>schema.
     if schema \<noteq> SCHEMA then liftS (Inl UnsupportedLocalMetadataVersion)
     else bindS (take_item (cd_u16 C) InvalidStorageSnapshot) (\<lambda>prof.
     if prof \<noteq> PROFILE then liftS (Inl UnsupportedProfile)
     else bindS (read_bytes C 16 16) (\<lambda>gid.
     bindS (read_bytes C 1 128) (\<lambda>incarnation.
     bindS (take_item (cd_u32 C) InvalidStorageSnapshot) (\<lambda>retention.
     bindS (liftS (validate_retention retention)) (\<lambda>_.
     bindS (take_item (cd_u64 C) InvalidStorageSnapshot) (\<lambda>join_ep.
     bindS (roster_decode C) (\<lambda>current.
     bindS (item_count C (unat retention)) (\<lambda>n.
     bindS (timesS n (roster_decode C)) (\<lambda>history.
     bindS (optional_pending_decode C) (\<lambda>pending.
     returnS \<lparr>lg_group_id = gid, lg_incarnation_id = incarnation, lg_retention = retention,
       lg_join_epoch = join_ep, lg_current = current, lg_history = history,
       lg_pending = pending\<rparr>))))))))))))"

definition decode ::
  "(bytes \<Rightarrow> bytes) \<Rightarrow> cbor \<Rightarrow> bytes \<Rightarrow> MlsErrorCode + LocalGroupState" where
  "decode sha C input =
     (if length input > MAX_VALUE then Inl LimitExceeded
      else case decode_fields C input of
        (Inl e, _) \<Rightarrow> Inl e
      | (Inr s, rest) \<Rightarrow>
          if rest \<noteq> [] then Inl NoncanonicalEncoding
          else bindE (validate sha s) (\<lambda>_.
               bindE (encode sha C s) (\<lambda>out.
               if out \<noteq> input then Inl NoncanonicalEncoding else Inr s)))"

section \<open>Storage rows\<close>

definition validate_wire ::
  "(bytes \<Rightarrow> bytes) \<Rightarrow> bytes option \<Rightarrow> bytes option \<Rightarrow> MlsErrorCode + unit" where
  "validate_wire sha wire hash =
     (case (wire, hash) of
        (None, None) \<Rightarrow> Inr ()
      | (Some w, Some h) \<Rightarrow>
          if w = [] \<or> length w > MAX_WIRE then Inl LimitExceeded
          else if sha w \<noteq> h then Inl PendingBindingMismatch
          else Inr ()
      | _ \<Rightarrow> Inl PendingBindingMismatch)"

definition validate_retry_rows ::
  "(bytes \<Rightarrow> bytes) \<Rightarrow> LocalGroupState \<Rightarrow> snapshot \<Rightarrow> MlsErrorCode + unit" where
  "validate_retry_rows sha s storage =
     (let hashes = (case lg_pending s of
          Some p \<Rightarrow> [Some (pb_commit_sha256 (binding p)), pb_welcome_sha256 (binding p),
                     pb_group_info_sha256 (binding p)]
        | None \<Rightarrow> [None, None, None]) in
      eachE (\<lambda>(name, hash). validate_wire sha (read_opaque storage (key (lg_group_id s) name)) hash)
        (zip [''commit/'', ''welcome/'', ''info/''] hashes))"

definition load_state ::
  "(bytes \<Rightarrow> bytes) \<Rightarrow> cbor \<Rightarrow> snapshot \<Rightarrow> bytes \<Rightarrow> MlsErrorCode + LocalGroupState" where
  "load_state sha C storage gid =
     bindE (fixed gid 16) (\<lambda>_.
     let known = map (key gid) [''state/'', ''commit/'', ''welcome/'', ''info/''] in
     bindE (eachE (\<lambda>row_key.
         if \<not> starts_with row_key PREFIX then Inl UnsupportedLocalMetadataVersion
         else if row_key \<notin> set known then Inl InvalidStorageSnapshot
         else Inr ()) (opaque_keys_with_prefix storage RESERVED)) (\<lambda>_.
     bindE (ok_or (read_opaque storage (key gid ''state/'')) LocalMetadataMissing) (\<lambda>b.
     bindE (decode sha C b) (\<lambda>state.
     if lg_group_id state \<noteq> gid then Inl GroupMismatch
     else bindE (validate_retry_rows sha state storage) (\<lambda>_. Inr state)))))"

definition save ::
  "(bytes \<Rightarrow> bytes) \<Rightarrow> cbor \<Rightarrow> LocalGroupState \<Rightarrow> (snapshot, MlsErrorCode, unit) eff" where
  "save sha C s =
     bindS (liftS (encode sha C s)) (\<lambda>b.
     modifyS (write_opaque (key (lg_group_id s) ''state/'') b))"

definition put_row :: "bytes \<Rightarrow> string \<times> bytes option \<Rightarrow> snapshot \<Rightarrow> snapshot" where
  "put_row gid nw storage =
     (case snd nw of
        Some wire \<Rightarrow> write_opaque (key gid (fst nw)) wire storage
      | None \<Rightarrow> delete_opaque (key gid (fst nw)) storage)"

definition write_retry_rows ::
  "(bytes \<Rightarrow> bytes) \<Rightarrow> LocalGroupState \<Rightarrow> bytes \<Rightarrow> bytes option \<Rightarrow> bytes option
   \<Rightarrow> (snapshot, MlsErrorCode, unit) eff" where
  "write_retry_rows sha s commit_wire welcome info =
     bindS (liftS (validate sha s)) (\<lambda>_.
     bindS (liftS (ok_or (lg_pending s) PendingCommitMissing)) (\<lambda>pending.
     let wires = [(''commit/'', Some commit_wire), (''welcome/'', welcome), (''info/'', info)];
         hashes = [Some (pb_commit_sha256 (binding pending)), pb_welcome_sha256 (binding pending),
                   pb_group_info_sha256 (binding pending)] in
     bindS (liftS (eachE (\<lambda>((_, wire), hash). validate_wire sha wire hash) (zip wires hashes))) (\<lambda>_.
     modifyS (fold (put_row (lg_group_id s)) wires))))"

definition clear_retry_rows :: "LocalGroupState \<Rightarrow> snapshot \<Rightarrow> snapshot" where
  "clear_retry_rows s =
     fold (\<lambda>name. delete_opaque (key (lg_group_id s) name)) [''commit/'', ''welcome/'', ''info/'']"

definition retry_bytes ::
  "(bytes \<Rightarrow> bytes) \<Rightarrow> LocalGroupState \<Rightarrow> snapshot
   \<Rightarrow> MlsErrorCode + bytes \<times> bytes option \<times> bytes option" where
  "retry_bytes sha s storage =
     bindE (validate_retry_rows sha s storage) (\<lambda>_.
     if lg_pending s = None then Inl PendingCommitMissing
     else bindE (ok_or (read_opaque storage (key (lg_group_id s) ''commit/'')) PendingCommitMissing)
       (\<lambda>commit_wire. Inr (commit_wire,
          read_opaque storage (key (lg_group_id s) ''welcome/''),
          read_opaque storage (key (lg_group_id s) ''info/''))))"

end
