(* ===== verification/Runtime.thy ===== *)
theory Runtime
  imports OpenMls LocalState
begin

text \<open>
  The lifecycle core, \<open>rust/src/api/group_e2ee/runtime.rs\<close>: every operation opens the
  caller's rows as a snapshot, checks them against the caller's expected state, runs OpenMLS
  on it, updates the package's metadata and returns one batch. \<open>sha\<close>, \<open>C\<close>, \<open>E\<close> and \<open>M\<close> are
  the SHA-256, CBOR, serialisation and OpenMLS parameters. A clock reading is an argument
  where a configuration is built.
\<close>

record Context =
  cx_group_id :: bytes
  cx_incarnation_id :: bytes
  cx_expected_current :: MlsExpectedRosterStateV1
  cx_expected_base_sha256 :: bytes
  cx_expected_retention :: u32
  cx_entries :: "MlsStorageEntry list"
  cx_storage_format :: u32

record Mutation =
  mu_previous :: MlsRosterSummaryV1
  mu_resulting :: MlsRosterSummaryV1
  mu_resulting_digest :: bytes
  mu_retention :: u32
  mu_batch :: MlsStorageBatch

record Prepared =
  pp_binding :: MlsPendingCommitBinding
  pp_proposed :: MlsRosterSummaryV1
  pp_commit :: bytes
  pp_welcome :: "bytes option"
  pp_group_info :: "bytes option"
  pp_preparation_base :: bytes
  pp_mutation :: Mutation

record 'g Loaded =
  ld_provider :: snapshot
  ld_group :: 'g
  ld_local :: LocalGroupState
  ld_base :: bytes

section \<open>Bounds and comparisons\<close>

definition add_entry_bytes :: "nat \<Rightarrow> MlsStorageEntry \<Rightarrow> MlsErrorCode + nat" where
  "add_entry_bytes n row =
     (if length (entry_key row) > 4096 \<or> length (entry_value row) > 2 * 1024 * 1024
      then Inl LimitExceeded
      else ok_or
        (Option.bind (usize_checked_add n (length (entry_key row))) (\<lambda>v.
         Option.bind (usize_checked_add v (length (entry_value row))) (\<lambda>v.
         usize_checked_add v (case entry_group_id row of None \<Rightarrow> 0 | Some g \<Rightarrow> length g))))
        LimitExceeded)"

definition entry_bytes :: "MlsStorageEntry list \<Rightarrow> MlsErrorCode + nat" where
  "entry_bytes entries =
     (if length entries > 4096 then Inl LimitExceeded
      else bindE (foldE add_entry_bytes 0 entries) (\<lambda>n.
      if n > 6 * 1024 * 1024 then Inl LimitExceeded else Inr n))"

definition bounded_entries :: "MlsStorageEntry list \<Rightarrow> MlsErrorCode + unit" where
  "bounded_entries entries = bindE (entry_bytes entries) (\<lambda>_. Inr ())"

definition add_delete_bytes :: "nat \<Rightarrow> bytes \<Rightarrow> MlsErrorCode + nat" where
  "add_delete_bytes n k =
     (if length k > 4096 then Inl LimitExceeded
      else ok_or (usize_checked_add n (length k)) LimitExceeded)"

definition bounded_batch :: "MlsStorageBatch \<Rightarrow> MlsErrorCode + unit" where
  "bounded_batch b =
     bindE (entry_bytes (upserts b)) (\<lambda>n.
     if length (deletes b) > 4096 \<or> deleted_group_ids b \<noteq> [] then Inl LimitExceeded
     else bindE (foldE add_delete_bytes n (deletes b)) (\<lambda>n.
     if n > 6 * 1024 * 1024 then Inl LimitExceeded else Inr ()))"

definition bounded_aad :: "bytes \<Rightarrow> MlsErrorCode + unit" where
  "bounded_aad aad = (if aad = [] \<or> length aad > 16 * 1024 then Inl LimitExceeded else Inr ())"

definition check_state ::
  "MlsRosterSummaryV1 \<Rightarrow> MlsExpectedRosterStateV1 \<Rightarrow> bool \<Rightarrow> MlsErrorCode + unit" where
  "check_state actual ex resulting =
     (if group_id actual \<noteq> es_group_id ex then Inl GroupMismatch
      else if epoch actual \<noteq> es_epoch ex
      then Inl (if resulting then ResultingEpochMismatch else PreviousEpochMismatch)
      else if digest_sha256 actual \<noteq> es_digest_sha256 ex
      then Inl (if resulting then ResultingRosterMismatch else PreviousRosterMismatch)
      else Inr ())"

definition profile :: "u32 \<Rightarrow> MlsErrorCode + MlsGroupConfig" where
  "profile retention =
     bindE (validate_retention retention) (\<lambda>_.
     Inr ((default_config Mls128DhkemX25519Aes128gcmSha256Ed25519)\<lparr>max_past_epochs := retention\<rparr>))"

definition check_configuration ::
  "('v, 'g, 'x) openmls \<Rightarrow> 'g \<Rightarrow> u32 \<Rightarrow> MlsErrorCode + unit" where
  "check_configuration M g retention =
     bindE (profile retention) (\<lambda>p.
     if om_configuration M g \<noteq> to_join_config p
        \<or> om_ciphersuite M g \<noteq> ciphersuite_to_native (ciphersuite p)
     then Inl ConfigurationMismatch else Inr ())"

section \<open>Opening and closing an operation\<close>

definition id_length_ok :: "bytes \<Rightarrow> bool" where
  "id_length_ok i \<longleftrightarrow> 1 \<le> length i \<and> length i \<le> 128"

definition check_pending ::
  "(bytes \<Rightarrow> bytes) \<Rightarrow> 'v storage_env \<Rightarrow> ('v, 'g, 'x) openmls \<Rightarrow> 'g \<Rightarrow> PendingRecord option
   \<Rightarrow> snapshot \<Rightarrow> MlsErrorCode + unit" where
  "check_pending sha E M g pending provider =
     (case (om_has_pending M g, pending) of
        (False, None) \<Rightarrow> Inr ()
      | (True, Some p) \<Rightarrow>
          bindE (map_err (\<lambda>_. InvalidStorageSnapshot)
                  (pending_state_sha256 sha E (om_group_id M g) provider)) (\<lambda>h.
          if h \<noteq> upstream_pending_sha256 p then Inl PendingBindingMismatch else Inr ())
      | _ \<Rightarrow> Inl InvalidStorageSnapshot)"

definition load ::
  "(bytes \<Rightarrow> bytes) \<Rightarrow> cbor \<Rightarrow> 'v storage_env \<Rightarrow> ('v, 'g, 'x) openmls \<Rightarrow> Context
   \<Rightarrow> MlsErrorCode + 'g Loaded" where
  "load sha C E M cx =
     bindE (bounded_entries (cx_entries cx)) (\<lambda>_.
     if length (cx_group_id cx) \<noteq> 16 \<or> \<not> id_length_ok (cx_incarnation_id cx)
        \<or> length (cx_expected_base_sha256 cx) \<noteq> 32
        \<or> length (es_digest_sha256 (cx_expected_current cx)) \<noteq> 32
     then Inl LimitExceeded
     else if cx_storage_format cx \<noteq> 1 then Inl StorageFormatMismatch
     else
     bindE (validate_retention (cx_expected_retention cx)) (\<lambda>_.
     bindE (map_err (\<lambda>_. InvalidStorageSnapshot)
             (group_state_digest_from_entries sha (cx_group_id cx) (cx_entries cx) 1)) (\<lambda>base.
     if base \<noteq> cx_expected_base_sha256 cx then Inl BaseStateMismatch
     else
     bindE (map_err (\<lambda>_. InvalidStorageSnapshot)
             (provider_from_entries (cx_entries cx) 1 (Some (cx_group_id cx)))) (\<lambda>provider.
     bindE (map_err (\<lambda>_. GroupStateUnavailable) (load_group M (cx_group_id cx) provider)) (\<lambda>g.
     bindE (load_state sha C provider (cx_group_id cx)) (\<lambda>local.
     if lg_incarnation_id local \<noteq> cx_incarnation_id cx then Inl GroupMismatch
     else if lg_retention local \<noteq> cx_expected_retention cx then Inl ConfigurationMismatch
     else
     bindE (check_configuration M g (lg_retention local)) (\<lambda>_.
     bindE (map_err (\<lambda>_. UnsupportedCredential) (roster_from_group sha M g)) (\<lambda>current.
     if current \<noteq> lg_current local then Inl InvalidStorageSnapshot
     else
     bindE (check_state current (cx_expected_current cx) False) (\<lambda>_.
     bindE (check_pending sha E M g (lg_pending local) provider) (\<lambda>_.
     Inr \<lparr>ld_provider = provider, ld_group = g, ld_local = local, ld_base = base\<rparr>))))))))))"

definition state_digest ::
  "(bytes \<Rightarrow> bytes) \<Rightarrow> snapshot \<Rightarrow> bytes \<Rightarrow> MlsErrorCode + bytes" where
  "state_digest sha provider gid =
     (let entries = snapshot_entries provider gid in
      bindE (bounded_entries entries) (\<lambda>_.
      map_err (\<lambda>_. InvalidStorageSnapshot) (group_state_digest_from_entries sha gid entries 1)))"

definition finish ::
  "(bytes \<Rightarrow> bytes) \<Rightarrow> cbor \<Rightarrow> snapshot \<Rightarrow> LocalGroupState \<Rightarrow> MlsRosterSummaryV1
   \<Rightarrow> MlsErrorCode + Mutation" where
  "finish sha C provider local previous =
     (case save sha C local provider of
        (Inl e, _) \<Rightarrow> Inl e
      | (Inr _, provider) \<Rightarrow>
          bindE (state_digest sha provider (lg_group_id local)) (\<lambda>resulting_digest.
          let resulting = lg_current local in
          bindE (map_err (\<lambda>_. InternalFailure)
                  (batch_from_provider provider (Some (group_id resulting)) [])) (\<lambda>batch.
          bindE (bounded_batch batch) (\<lambda>_.
          Inr \<lparr>mu_previous = previous, mu_resulting = resulting,
            mu_resulting_digest = resulting_digest, mu_retention = lg_retention local,
            mu_batch = batch\<rparr>))))"

text \<open>An OpenMLS call on the provider: its result, or \<open>e\<close>, and the rows after its storage calls.\<close>

definition on_provider ::
  "'v storage_env \<Rightarrow> MlsErrorCode \<Rightarrow> ('a \<times> 'v storage_call list) option \<Rightarrow> snapshot
   \<Rightarrow> MlsErrorCode + 'a \<times> snapshot" where
  "on_provider E e result provider =
     (case result of None \<Rightarrow> Inl e | Some (a, calls) \<Rightarrow> Inr (a, exec_calls E calls provider))"


section \<open>Creating a group\<close>

text \<open>
  \<open>create\<close> builds the configuration twice before it compares the two, and a third time for
  OpenMLS; each takes the leaf lifetime from the clock, read at \<open>now\<close>, \<open>now'\<close> and \<open>now''\<close>.
\<close>

definition create ::
  "(bytes \<Rightarrow> bytes) \<Rightarrow> cbor \<Rightarrow> 'v storage_env \<Rightarrow> ('v, 'g, 'x) openmls \<Rightarrow> u64 \<times> u64 \<times> u64
   \<Rightarrow> MlsGroupConfig \<Rightarrow> bytes \<Rightarrow> bytes \<Rightarrow> bytes \<Rightarrow> MlsAuthorizedOwnerV1 \<Rightarrow> bytes option
   \<Rightarrow> MlsStorageEntry list \<Rightarrow> u32 \<Rightarrow> MlsErrorCode + Mutation" where
  "create sha C E M clock config signer_bytes gid incarnation owner credential_bytes entries
     storage_format =
     (case clock of (now, now', now'') \<Rightarrow>
     bindE (bounded_entries entries) (\<lambda>_.
     if length gid \<noteq> 16 \<or> \<not> id_length_ok incarnation \<or> length signer_bytes > 4096
        \<or> length (ow_expected_credential_identity owner) \<noteq> 45
        \<or> length (ow_expected_signature_public_key owner) \<noteq> 32
        \<or> (case credential_bytes of Some b \<Rightarrow> length b > 4096 | None \<Rightarrow> False)
     then Inl LimitExceeded
     else if storage_format \<noteq> 1 then Inl StorageFormatMismatch
     else
     bindE (validate_retention (max_past_epochs config)) (\<lambda>_.
     bindE (profile (max_past_epochs config)) (\<lambda>ex.
     if to_create_config now config \<noteq> to_create_config now' ex then Inl ConfigurationMismatch
     else
     bindE (map_err (\<lambda>_. InvalidStorageSnapshot) (provider_from_entries entries 1 None)) (\<lambda>provider.
     bindE (map_err (\<lambda>_. InvalidSigner) (signer_from_bytes M signer_bytes)) (\<lambda>signer.
     bindE (map_err (\<lambda>_. InvalidSigner)
             (ensure_signer_public_key signer (ow_expected_signature_public_key owner))) (\<lambda>_.
     bindE (map_err (\<lambda>_. UnsupportedCredential)
             (build_credential_with_key M (ow_expected_credential_identity owner)
               (ow_expected_signature_public_key owner) credential_bytes)) (\<lambda>credential.
     bindE (on_provider E InvalidStorageSnapshot (om_store_signer M signer provider) provider)
       (\<lambda>(_, provider).
     bindE (on_provider E MlsProtocolRejected
             (om_new_group M signer (to_create_config now'' config) gid credential provider) provider)
       (\<lambda>(g, provider).
     bindE (map_err (\<lambda>_. UnsupportedCredential) (roster_from_group sha M g)) (\<lambda>current.
     if length (leaves current) \<noteq> 1 \<or> \<not> leaf_matches_owner (leaves current ! 0) owner
     then Inl LocalLeafMismatch
     else
     bindE (new_state sha incarnation (max_past_epochs config) current) (\<lambda>local.
     finish sha C provider local current))))))))))))"

section \<open>Preparing a Commit\<close>

definition addition_bounds :: "MlsAuthorizedKeyPackageV1 \<Rightarrow> MlsErrorCode + unit" where
  "addition_bounds a =
     (if key_package_bytes a = [] \<or> length (key_package_bytes a) > 1024 * 1024
         \<or> length (kp_expected_credential_identity a) \<noteq> 45
         \<or> length (kp_expected_signature_public_key a) \<noteq> 32
      then Inl LimitExceeded else Inr ())"

text \<open>The Commit for the authorised change, staged on the loaded group.\<close>

definition stage_change ::
  "'v storage_env \<Rightarrow> ('v, 'g, 'x) openmls \<Rightarrow> SerializableSigner \<Rightarrow> MlsRosterSummaryV1
   \<Rightarrow> 'x list \<Rightarrow> u32 list \<Rightarrow> MlsAuthorizedSelfV1 option \<Rightarrow> 'g \<Rightarrow> snapshot
   \<Rightarrow> MlsErrorCode + (commit_bundle \<times> 'g) \<times> snapshot" where
  "stage_change E M signer previous keys removal_indices self_authority g provider =
     (case self_authority of
        Some ex \<Rightarrow>
          if keys \<noteq> [] \<or> removal_indices \<noteq> [] then Inl InvalidFrame
          else
          bindE (map_err (\<lambda>_. LocalLeafMismatch)
                  (validate_self_authority (om_own_leaf_index M g) previous ex)) (\<lambda>_.
          on_provider E MlsProtocolRejected (om_commit_self_update M signer g provider) provider)
      | None \<Rightarrow>
          if keys = [] \<and> removal_indices = [] then Inl InvalidFrame
          else on_provider E MlsProtocolRejected
                 (om_commit_members M signer keys (sort removal_indices) g provider) provider)"

text \<open>
  The roster the Commit leads to, from a disposable copy of the rows; the snapshot on which it
  is merged is dropped.
\<close>

definition preview_roster ::
  "(bytes \<Rightarrow> bytes) \<Rightarrow> ('v, 'g, 'x) openmls \<Rightarrow> bytes \<Rightarrow> snapshot
   \<Rightarrow> MlsErrorCode + MlsRosterSummaryV1" where
  "preview_roster sha M gid provider =
     bindE (map_err (\<lambda>_. InternalFailure)
             (provider_from_entries (snapshot_entries provider gid) 1 (Some gid))) (\<lambda>preview.
     bindE (map_err (\<lambda>_. InternalFailure) (load_group M gid preview)) (\<lambda>preview_group.
     bindE (ok_or (om_merge_pending_commit M preview_group preview) MlsProtocolRejected)
       (\<lambda>(preview_group, _).
     map_err (\<lambda>_. UnsupportedCredential) (roster_from_group sha M preview_group))))"

definition serialized :: "bytes option \<Rightarrow> MlsErrorCode + bytes" where
  "serialized m = ok_or m InternalFailure"

definition serialized_opt :: "bytes option option \<Rightarrow> MlsErrorCode + bytes option" where
  "serialized_opt m =
     (case m of None \<Rightarrow> Inr None | Some b \<Rightarrow> bindE (serialized b) (\<lambda>b. Inr (Some b)))"

text \<open>
  The end of \<open>prepare\<close>: the messages, the binding, the pending record, the retry rows and the
  mutation. \<open>base\<close> is the digest of the rows the operation was loaded from.
\<close>

definition prepare_record ::
  "(bytes \<Rightarrow> bytes) \<Rightarrow> cbor \<Rightarrow> 'v storage_env \<Rightarrow> bytes \<Rightarrow> LocalGroupState \<Rightarrow> MlsRosterSummaryV1
   \<Rightarrow> MlsTransitionContext \<Rightarrow> MlsRosterLeafV1 \<Rightarrow> bytes \<Rightarrow> commit_bundle \<Rightarrow> bytes \<Rightarrow> snapshot
   \<Rightarrow> MlsRosterSummaryV1 \<Rightarrow> MlsErrorCode + Prepared" where
  "prepare_record sha C E base local previous transition author aad bd gid provider proposed =
     bindE (serialized (bd_commit bd)) (\<lambda>commit_wire.
     bindE (serialized_opt (bd_welcome bd)) (\<lambda>welcome.
     bindE (serialized_opt (bd_group_info bd)) (\<lambda>info.
     let b = \<lparr>pb_group_id = group_id previous, pb_incarnation_id = lg_incarnation_id local,
                pb_transition = transition, pb_author = author,
                pb_previous_state = expected previous,
                pb_commit_sha256 = sha commit_wire, pb_aad_sha256 = sha aad,
                pb_welcome_sha256 = map_option sha welcome,
                pb_group_info_sha256 = map_option sha info\<rparr> in
     bindE (map_err (\<lambda>_. InvalidStorageSnapshot) (pending_state_sha256 sha E gid provider))
       (\<lambda>upstream.
     let local = local\<lparr>lg_pending := Some \<lparr>binding = b, proposed_roster = proposed,
                   preparation_base_sha256 = base, upstream_pending_sha256 = upstream\<rparr>\<rparr> in
     (case write_retry_rows sha local commit_wire welcome info provider of
        (Inl e, _) \<Rightarrow> Inl e
      | (Inr _, provider) \<Rightarrow>
          bindE (finish sha C provider local previous) (\<lambda>m.
          Inr \<lparr>pp_binding = b, pp_proposed = proposed, pp_commit = commit_wire,
            pp_welcome = welcome, pp_group_info = info, pp_preparation_base = base,
            pp_mutation = m\<rparr>))))))"

text \<open>The middle of \<open>prepare\<close>: authorities, the staged Commit and the roster it leads to.\<close>

definition prepare_change ::
  "(bytes \<Rightarrow> bytes) \<Rightarrow> cbor \<Rightarrow> 'v storage_env \<Rightarrow> ('v, 'g, 'x) openmls \<Rightarrow> 'g Loaded
   \<Rightarrow> SerializableSigner \<Rightarrow> MlsTransitionContext \<Rightarrow> MlsAuthorizedKeyPackageV1 list
   \<Rightarrow> MlsAuthorizedRemovalV1 list \<Rightarrow> bytes \<Rightarrow> MlsAuthorizedSelfV1 option
   \<Rightarrow> MlsErrorCode + Prepared" where
  "prepare_change sha C E M loaded signer transition additions removals aad self_authority =
     (let g = ld_group loaded; local = ld_local loaded; provider = ld_provider loaded;
          previous = lg_current local in
     bindE (ok_or (find (\<lambda>l. leaf_index l = om_own_leaf_index M g) (leaves previous))
             LocalLeafMismatch) (\<lambda>author.
     bindE (map_err (\<lambda>_. SenderMismatch) (validate_removals previous removals)) (\<lambda>removal_indices.
     bindE (map_err (\<lambda>_. MlsProtocolRejected)
             (validate_additions M additions previous removal_indices)) (\<lambda>(keys, requested).
     let g = om_set_aad M aad g in
     bindE (stage_change E M signer previous keys removal_indices self_authority g provider)
       (\<lambda>((bd, g), provider).
     bindE (preview_roster sha M (group_id previous) provider) (\<lambda>proposed.
     bindE (if self_authority \<noteq> None
            then (if leaves proposed \<noteq> leaves previous
                     \<or> u64_checked_succ (epoch previous) \<noteq> Some (epoch proposed)
                  then Inl ResultingRosterMismatch else Inr ())
            else map_err (\<lambda>_. ResultingRosterMismatch)
                   (validate_exact_delta previous proposed removal_indices requested)) (\<lambda>_.
     prepare_record sha C E (ld_base loaded) local previous transition author aad bd
       (om_group_id M g) provider proposed)))))))"

definition prepare ::
  "(bytes \<Rightarrow> bytes) \<Rightarrow> cbor \<Rightarrow> 'v storage_env \<Rightarrow> ('v, 'g, 'x) openmls \<Rightarrow> Context
   \<Rightarrow> bytes \<Rightarrow> MlsTransitionContext \<Rightarrow> MlsAuthorizedKeyPackageV1 list
   \<Rightarrow> MlsAuthorizedRemovalV1 list \<Rightarrow> bytes \<Rightarrow> MlsAuthorizedSelfV1 option
   \<Rightarrow> MlsErrorCode + Prepared" where
  "prepare sha C E M cx signer_bytes transition additions removals aad self_authority =
     bindE (bounded_aad aad) (\<lambda>_.
     if length signer_bytes > 4096 \<or> length additions > 256 \<or> length removals > 256
     then Inl LimitExceeded
     else
     bindE (eachE addition_bounds additions) (\<lambda>_.
     if \<not> id_length_ok (command_id transition) \<or> length (context_sha256 transition) \<noteq> 32
     then Inl LimitExceeded
     else
     bindE (load sha C E M cx) (\<lambda>loaded.
     if \<not> om_is_active M (ld_group loaded) then Inl InactiveGroup
     else if lg_pending (ld_local loaded) \<noteq> None then Inl PendingCommitExists
     else
     bindE (map_err (\<lambda>_. InvalidSigner) (signer_from_bytes M signer_bytes)) (\<lambda>signer.
     if length (leaves (lg_current (ld_local loaded))) - length removals + length additions > 256
     then Inl LimitExceeded
     else
     bindE (map_err (\<lambda>_. InvalidSigner) (ensure_local_signer M (ld_group loaded) signer)) (\<lambda>_.
     prepare_change sha C E M loaded signer transition additions removals aad self_authority)))))"

section \<open>Settling a pending Commit\<close>

definition merge ::
  "(bytes \<Rightarrow> bytes) \<Rightarrow> cbor \<Rightarrow> 'v storage_env \<Rightarrow> ('v, 'g, 'x) openmls \<Rightarrow> Context
   \<Rightarrow> MlsCommitAcceptance \<Rightarrow> MlsErrorCode + Mutation" where
  "merge sha C E M cx acceptance =
     bindE (load sha C E M cx) (\<lambda>loaded.
     let g = ld_group loaded; local = ld_local loaded; provider = ld_provider loaded in
     if \<not> om_is_active M g then Inl InactiveGroup
     else
     bindE (ok_or (lg_pending local) PendingCommitMissing) (\<lambda>pending.
     if ac_binding acceptance \<noteq> binding pending
        \<or> ac_resulting_state acceptance \<noteq> expected (proposed_roster pending)
        \<or> ac_preparation_base_group_state_sha256 acceptance \<noteq> preparation_base_sha256 pending
     then Inl AcceptanceBindingMismatch
     else if om_own_leaf_index M g \<noteq> leaf_index (pb_author (binding pending))
     then Inl LocalLeafMismatch
     else
     let proposed = proposed_roster pending; previous = lg_current local in
     bindE (on_provider E MlsProtocolRejected (om_merge_pending_commit M g provider) provider)
       (\<lambda>(g, provider).
     bindE (map_err (\<lambda>_. UnsupportedCredential) (roster_from_group sha M g)) (\<lambda>resulting.
     if resulting \<noteq> proposed then Inl ResultingRosterMismatch
     else
     bindE (advance sha local resulting) (\<lambda>local.
     finish sha C (clear_retry_rows local provider) local previous)))))"

definition discard ::
  "(bytes \<Rightarrow> bytes) \<Rightarrow> cbor \<Rightarrow> 'v storage_env \<Rightarrow> ('v, 'g, 'x) openmls \<Rightarrow> Context
   \<Rightarrow> MlsPendingCommitBinding \<Rightarrow> MlsErrorCode + Mutation" where
  "discard sha C E M cx b =
     bindE (load sha C E M cx) (\<lambda>loaded.
     let g = ld_group loaded; local = ld_local loaded; provider = ld_provider loaded in
     if \<not> om_is_active M g then Inl InactiveGroup
     else
     bindE (ok_or (lg_pending local) PendingCommitMissing) (\<lambda>pending.
     if b \<noteq> binding pending then Inl PendingBindingMismatch
     else
     bindE (on_provider E InvalidStorageSnapshot (om_clear_pending_commit M g provider) provider)
       (\<lambda>(g, provider).
     let local = local\<lparr>lg_pending := None\<rparr> in
     finish sha C (clear_retry_rows local provider) local (lg_current local))))"

definition inspect_pending ::
  "(bytes \<Rightarrow> bytes) \<Rightarrow> cbor \<Rightarrow> 'v storage_env \<Rightarrow> ('v, 'g, 'x) openmls \<Rightarrow> Context
   \<Rightarrow> MlsErrorCode + Prepared option" where
  "inspect_pending sha C E M cx =
     bindE (load sha C E M cx) (\<lambda>loaded.
     let local = ld_local loaded in
     case lg_pending local of
       None \<Rightarrow> Inr None
     | Some pending \<Rightarrow>
         bindE (retry_bytes sha local (ld_provider loaded)) (\<lambda>(commit_wire, welcome, info).
         Inr (Some \<lparr>pp_binding = binding pending, pp_proposed = proposed_roster pending,
           pp_commit = commit_wire, pp_welcome = welcome, pp_group_info = info,
           pp_preparation_base = preparation_base_sha256 pending,
           pp_mutation = \<lparr>mu_previous = lg_current local, mu_resulting = lg_current local,
             mu_resulting_digest = ld_base loaded, mu_retention = lg_retention local,
             mu_batch = \<lparr>upserts = [], deletes = [], deleted_group_ids = [],
               storage_format_version = 1\<rparr>\<rparr>\<rparr>)))"

section \<open>Sending\<close>

record Sent =
  sn_ciphertext :: bytes
  sn_mutation :: Mutation

definition send ::
  "(bytes \<Rightarrow> bytes) \<Rightarrow> cbor \<Rightarrow> 'v storage_env \<Rightarrow> ('v, 'g, 'x) openmls \<Rightarrow> Context
   \<Rightarrow> bytes \<Rightarrow> bytes \<Rightarrow> bytes \<Rightarrow> MlsErrorCode + Sent" where
  "send sha C E M cx signer_bytes plaintext aad =
     bindE (bounded_aad aad) (\<lambda>_.
     if length signer_bytes > 4096 then Inl LimitExceeded
     else if length plaintext > 256 * 1024 then Inl LimitExceeded
     else
     bindE (load sha C E M cx) (\<lambda>loaded.
     let g = ld_group loaded; local = ld_local loaded; provider = ld_provider loaded in
     if \<not> om_is_active M g then Inl InactiveGroup
     else if lg_pending local \<noteq> None then Inl PendingCommitExists
     else
     bindE (map_err (\<lambda>_. InvalidSigner) (signer_from_bytes M signer_bytes)) (\<lambda>signer.
     bindE (map_err (\<lambda>_. InvalidSigner) (ensure_local_signer M g signer)) (\<lambda>_.
     bindE (on_provider E MlsProtocolRejected
             (om_create_message M signer plaintext (om_set_aad M aad g) provider) provider)
       (\<lambda>((wire, g), provider).
     bindE (serialized wire) (\<lambda>ciphertext.
     if length ciphertext > 1024 * 1024 then Inl LimitExceeded
     else
     bindE (finish sha C provider local (lg_current local)) (\<lambda>m.
     Inr \<lparr>sn_ciphertext = ciphertext, sn_mutation = m\<rparr>)))))))"

end
