(* ===== verification/Receive.thy ===== *)
theory Receive
  imports Runtime
begin

text \<open>
  Receiving (\<open>receive\<close> of \<open>rust/src/api/group_e2ee/runtime.rs\<close>) and joining from a Welcome
  (\<open>join\<close> there, on \<open>join_group_from_welcome_with_storage_typed\<close> of \<open>api/group_e2ee.rs\<close>).
  A strict receive error is its kind; the detail string is not modelled.
\<close>

section \<open>Joining\<close>

datatype StrictReceiveErrorKind =
    SrStorageFormatMismatch | SrInvalidStorageSnapshot | SrGroupStateUnavailable
  | SrConfigurationMismatch | SrGroupMismatch | SrPreviousEpochMismatch | SrPreviousRosterMismatch
  | SrResultingEpochMismatch | SrResultingRosterMismatch | SrAadMismatch | SrMessageKindMismatch
  | SrLocalLeafMismatch | SrInvalidSigner | SrUnsupportedCredential | SrMlsDecodeRejected
  | SrWelcomeRejected | SrMlsProtocolRejected | SrExpectedKeyPackageMismatch | SrInternalFailure

fun map_strict :: "StrictReceiveErrorKind \<Rightarrow> MlsErrorCode" where
  "map_strict SrStorageFormatMismatch = StorageFormatMismatch"
| "map_strict SrInvalidStorageSnapshot = InvalidStorageSnapshot"
| "map_strict SrGroupStateUnavailable = GroupStateUnavailable"
| "map_strict SrConfigurationMismatch = ConfigurationMismatch"
| "map_strict SrGroupMismatch = GroupMismatch"
| "map_strict SrPreviousEpochMismatch = PreviousEpochMismatch"
| "map_strict SrPreviousRosterMismatch = PreviousRosterMismatch"
| "map_strict SrResultingEpochMismatch = ResultingEpochMismatch"
| "map_strict SrResultingRosterMismatch = ResultingRosterMismatch"
| "map_strict SrAadMismatch = AadMismatch"
| "map_strict SrMessageKindMismatch = MessageKindMismatch"
| "map_strict SrLocalLeafMismatch = LocalLeafMismatch"
| "map_strict SrInvalidSigner = InvalidSigner"
| "map_strict SrUnsupportedCredential = UnsupportedCredential"
| "map_strict SrMlsDecodeRejected = MlsDecodeRejected"
| "map_strict SrWelcomeRejected = WelcomeRejected"
| "map_strict SrMlsProtocolRejected = MlsProtocolRejected"
| "map_strict SrExpectedKeyPackageMismatch = ExpectedKeyPackageMismatch"
| "map_strict SrInternalFailure = InternalFailure"

record JoinedGroupState =
  jg_group_id :: bytes
  jg_resulting_roster :: MlsRosterSummaryV1
  jg_storage_batch :: MlsStorageBatch

record StrictJoinedGroupState =
  sj_joined :: JoinedGroupState
  sj_local_leaf :: MlsRosterLeafV1
  sj_consumed_key_package_sha256 :: bytes

definition validate_expected_roster_typed ::
  "MlsRosterSummaryV1 \<Rightarrow> MlsExpectedRosterStateV1 \<Rightarrow> bool \<Rightarrow> StrictReceiveErrorKind + unit" where
  "validate_expected_roster_typed actual ex previous =
     (if length (es_digest_sha256 ex) \<noteq> 32
      then Inl (if previous then SrPreviousRosterMismatch else SrResultingRosterMismatch)
      else if group_id actual \<noteq> es_group_id ex then Inl SrGroupMismatch
      else if epoch actual \<noteq> es_epoch ex
      then Inl (if previous then SrPreviousEpochMismatch else SrResultingEpochMismatch)
      else if digest_sha256 actual \<noteq> es_digest_sha256 ex
      then Inl (if previous then SrPreviousRosterMismatch else SrResultingRosterMismatch)
      else Inr ())"

text \<open>The first KeyPackage named by the Welcome that the snapshot retains.\<close>

fun selected_key_package_sha256 ::
  "(bytes \<Rightarrow> bytes) \<Rightarrow> 'v storage_env \<Rightarrow> ('v, 'g, 'x) openmls \<Rightarrow> snapshot \<Rightarrow> 'v list
   \<Rightarrow> StrictReceiveErrorKind + bytes" where
  "selected_key_package_sha256 sha E M provider [] = Inl SrWelcomeRejected"
| "selected_key_package_sha256 sha E M provider (r # refs) =
     bindE (map_err (\<lambda>_. SrInvalidStorageSnapshot) (key_package E r provider)) (\<lambda>kp.
     case kp of
       Some bundle_value \<Rightarrow>
         bindE (ok_or (om_key_package_encoded M bundle_value) SrInternalFailure) (\<lambda>encoded.
         Inr (sha encoded))
     | None \<Rightarrow> selected_key_package_sha256 sha E M provider refs)"

text \<open>An OpenMLS call on the provider with a strict error.\<close>

definition on_provider_strict ::
  "'v storage_env \<Rightarrow> StrictReceiveErrorKind \<Rightarrow> ('a \<times> 'v storage_call list) option \<Rightarrow> snapshot
   \<Rightarrow> StrictReceiveErrorKind + 'a \<times> snapshot" where
  "on_provider_strict E e result provider =
     (case result of None \<Rightarrow> Inl e | Some (a, calls) \<Rightarrow> Inr (a, exec_calls E calls provider))"

definition join_group_from_welcome_with_storage_typed ::
  "(bytes \<Rightarrow> bytes) \<Rightarrow> 'v storage_env \<Rightarrow> ('v, 'g, 'x) openmls \<Rightarrow> MlsGroupConfig \<Rightarrow> bytes
   \<Rightarrow> bytes option \<Rightarrow> bytes \<Rightarrow> MlsExpectedRosterStateV1 \<Rightarrow> bytes option
   \<Rightarrow> MlsStorageEntry list \<Rightarrow> u32 \<Rightarrow> StrictReceiveErrorKind + StrictJoinedGroupState" where
  "join_group_from_welcome_with_storage_typed sha E M config welcome_bytes tree_bytes signer_bytes
     expected_resulting expected_target entries version =
     (if version \<noteq> MLS_STORAGE_FORMAT_VERSION then Inl SrStorageFormatMismatch
      else
      bindE (map_err (\<lambda>_. SrInvalidStorageSnapshot) (provider_from_entries entries version None))
        (\<lambda>provider.
      bindE (map_err (\<lambda>_. SrInvalidSigner) (deserialize_signer_bytes M signer_bytes)) (\<lambda>signer.
      if \<not> om_scheme_known M (ss_scheme signer) then Inl SrInvalidSigner
      else if ss_scheme signer
          \<noteq> om_signature_algorithm M (ciphersuite_to_native (ciphersuite config))
      then Inl SrConfigurationMismatch
      else
      (case write_serialized_basic_signer E (ss_private signer) (ss_public signer)
              (ss_scheme signer) provider of
        (Inl _, _) \<Rightarrow> Inl SrInternalFailure
      | (Inr _, provider) \<Rightarrow>
      bindE (map_err (\<lambda>_. SrMlsDecodeRejected) (mls_message_from_exact_bytes M welcome_bytes))
        (\<lambda>message.
      bindE (ok_or (om_welcome M message) SrMessageKindMismatch) (\<lambda>welcome.
      bindE (selected_key_package_sha256 sha E M provider (om_welcome_refs M welcome)) (\<lambda>consumed.
      if (case expected_target of
            Some ex \<Rightarrow> length ex \<noteq> 32 \<or> ex \<noteq> consumed | None \<Rightarrow> False)
      then Inl SrExpectedKeyPackageMismatch
      else
      bindE (case tree_bytes of
               None \<Rightarrow> Inr None
             | Some b \<Rightarrow> bindE (ok_or (om_ratchet_tree M b) SrMlsDecodeRejected) (\<lambda>t. Inr (Some t)))
        (\<lambda>tree_in.
      bindE (on_provider_strict E SrWelcomeRejected
              (om_stage_welcome M (to_join_config config) welcome tree_in provider) provider)
        (\<lambda>(staged, provider).
      bindE (on_provider_strict E SrWelcomeRejected (om_into_group M staged provider) provider)
        (\<lambda>(g, provider).
      if om_ciphersuite M g \<noteq> ciphersuite_to_native (ciphersuite config)
         \<or> om_configuration M g \<noteq> to_join_config config
      then Inl SrConfigurationMismatch
      else
      bindE (map_err (\<lambda>_. SrLocalLeafMismatch)
              (ensure_local_signer_public_key M g (ss_public signer))) (\<lambda>_.
      bindE (map_err (\<lambda>_. SrUnsupportedCredential) (roster_from_group sha M g)) (\<lambda>resulting.
      bindE (ok_or (find (\<lambda>l. leaf_index l = om_own_leaf_index M g) (leaves resulting))
              SrLocalLeafMismatch) (\<lambda>local_leaf.
      bindE (validate_expected_roster_typed resulting expected_resulting False) (\<lambda>_.
      bindE (map_err (\<lambda>_. SrInternalFailure)
              (batch_from_provider provider (Some (group_id resulting)) [])) (\<lambda>batch.
      Inr \<lparr>sj_joined = \<lparr>jg_group_id = group_id resulting, jg_resulting_roster = resulting,
             jg_storage_batch = batch\<rparr>,
           sj_local_leaf = local_leaf, sj_consumed_key_package_sha256 = consumed\<rparr>)))))))))))))))"

record JoinInput =
  ji_config :: MlsGroupConfig
  ji_incarnation_id :: bytes
  ji_signer :: bytes
  ji_welcome :: bytes
  ji_welcome_sha256 :: bytes
  ji_tree :: "bytes option"
  ji_resulting :: MlsExpectedRosterStateV1
  ji_local_leaf :: MlsRosterLeafV1
  ji_target_key_package_sha256 :: bytes
  ji_entries :: "MlsStorageEntry list"
  ji_storage_format :: u32

record Joined =
  jn_local_leaf :: MlsRosterLeafV1
  jn_consumed_key_package_sha256 :: bytes
  jn_mutation :: Mutation

text \<open>Importing the verified join's mutation into a provider opened on the original rows.\<close>

definition import_batch :: "MlsStorageBatch \<Rightarrow> snapshot \<Rightarrow> snapshot" where
  "import_batch b provider =
     fold (\<lambda>row. write_opaque (entry_key row) (entry_value row)) (upserts b)
       (fold delete_opaque (deletes b) provider)"

definition join ::
  "(bytes \<Rightarrow> bytes) \<Rightarrow> cbor \<Rightarrow> 'v storage_env \<Rightarrow> ('v, 'g, 'x) openmls \<Rightarrow> u64 \<times> u64
   \<Rightarrow> JoinInput \<Rightarrow> MlsErrorCode + Joined" where
  "join sha C E M clock i =
     bindE (bounded_entries (ji_entries i)) (\<lambda>_.
     if ji_storage_format i \<noteq> 1 then Inl StorageFormatMismatch
     else if ji_welcome i = [] \<or> length (ji_welcome i) > 1024 * 1024
        \<or> (case ji_tree i of Some t \<Rightarrow> length t > 2 * 1024 * 1024 | None \<Rightarrow> False)
        \<or> length (ji_signer i) > 4096 \<or> \<not> id_length_ok (ji_incarnation_id i)
        \<or> length (es_group_id (ji_resulting i)) \<noteq> 16
        \<or> length (es_digest_sha256 (ji_resulting i)) \<noteq> 32
        \<or> length (credential_identity (ji_local_leaf i)) \<noteq> 45
        \<or> length (signature_public_key (ji_local_leaf i)) \<noteq> 32
        \<or> length (ji_welcome_sha256 i) \<noteq> 32
     then Inl LimitExceeded
     else if sha (ji_welcome i) \<noteq> ji_welcome_sha256 i then Inl WireHashMismatch
     else
     bindE (profile (max_past_epochs (ji_config i))) (\<lambda>p.
     if to_create_config (fst clock) p \<noteq> to_create_config (snd clock) (ji_config i)
     then Inl ConfigurationMismatch
     else
     bindE (map_err map_strict
             (join_group_from_welcome_with_storage_typed sha E M (ji_config i) (ji_welcome i)
               (ji_tree i) (ji_signer i) (ji_resulting i) (Some (ji_target_key_package_sha256 i))
               (ji_entries i) 1)) (\<lambda>joined.
     if sj_local_leaf joined \<noteq> ji_local_leaf i then Inl LocalLeafMismatch
     else
     bindE (map_err (\<lambda>_. InvalidStorageSnapshot) (provider_from_entries (ji_entries i) 1 None))
       (\<lambda>provider.
     let provider = import_batch (jg_storage_batch (sj_joined joined)) provider in
     bindE (map_err (\<lambda>_. GroupStateUnavailable)
             (load_group M (jg_group_id (sj_joined joined)) provider)) (\<lambda>g.
     let current = jg_resulting_roster (sj_joined joined) in
     bindE (new_state sha (ji_incarnation_id i) (max_past_epochs (ji_config i)) current) (\<lambda>local.
     bindE (finish sha C provider local current) (\<lambda>m.
     Inr \<lparr>jn_local_leaf = sj_local_leaf joined,
       jn_consumed_key_package_sha256 = sj_consumed_key_package_sha256 joined,
       jn_mutation = m\<rparr>)))))))"

section \<open>Receiving\<close>

record ReceiveInput =
  ri_context :: Context
  ri_kind :: MlsReceiveKind
  ri_wire :: bytes
  ri_wire_sha256 :: bytes
  ri_aad :: bytes
  ri_sender :: MlsRosterLeafV1
  ri_message_state :: MlsExpectedRosterStateV1
  ri_resulting_state :: MlsExpectedRosterStateV1

record Received =
  rv_kind :: MlsReceiveKind
  rv_message_epoch :: u64
  rv_sender :: MlsRosterLeafV1
  rv_plaintext :: "bytes option"
  rv_proposal_type :: "MlsProposalType option"
  rv_mutation :: Mutation

fun process_error_code :: "process_error \<Rightarrow> MlsErrorCode" where
  "process_error_code NoPastEpochData = InvalidStorageSnapshot"
| "process_error_code TooDistantInThePast = GenerationTooOld"
| "process_error_code TooDistantInTheFuture = ForwardDistanceExceeded"
| "process_error_code SecretReuseError = Replay"
| "process_error_code OtherProcessError = MlsProtocolRejected"

text \<open>The match on the requested kind and the content: the new local state and what is returned.\<close>

definition receive_content ::
  "(bytes \<Rightarrow> bytes) \<Rightarrow> 'v storage_env \<Rightarrow> ('v, 'g, 'x) openmls \<Rightarrow> ReceiveInput
   \<Rightarrow> 'x content \<Rightarrow> 'g \<Rightarrow> LocalGroupState \<Rightarrow> snapshot
   \<Rightarrow> MlsErrorCode + bytes option \<times> MlsProposalType option \<times> LocalGroupState \<times> snapshot" where
  "receive_content sha E M i c g local provider =
     (case (ri_kind i, c) of
        (Application, ApplicationMessage b) \<Rightarrow>
          if length b > 256 * 1024 then Inl LimitExceeded
          else Inr (Some b, None, local, provider)
      | (Commit, StagedCommitMessage staged) \<Rightarrow>
          bindE (on_provider E MlsProtocolRejected (om_merge_staged_commit M staged g provider) provider)
            (\<lambda>(g, provider).
          bindE (map_err (\<lambda>_. UnsupportedCredential) (roster_from_group sha M g)) (\<lambda>resulting.
          bindE (check_state resulting (ri_resulting_state i) True) (\<lambda>_.
          bindE (advance sha local resulting) (\<lambda>local.
          Inr (None, None, local, provider)))))
      | (Proposal, ProposalMessage p) \<Rightarrow>
          bindE (on_provider E InvalidStorageSnapshot (om_store_pending_proposal M p g provider)
                  provider) (\<lambda>(g, provider).
          Inr (None, Some (proposal_type (om_proposal M p)), local, provider))
      | _ \<Rightarrow> Inl MessageKindMismatch)"

text \<open>From \<open>process_message\<close> to the end: the processed message against the caller's authority.\<close>

definition receive_process ::
  "(bytes \<Rightarrow> bytes) \<Rightarrow> cbor \<Rightarrow> 'v storage_env \<Rightarrow> ('v, 'g, 'x) openmls \<Rightarrow> ReceiveInput
   \<Rightarrow> 'x \<Rightarrow> 'g Loaded \<Rightarrow> MlsErrorCode + Received" where
  "receive_process sha C E M i message loaded =
     (let local = ld_local loaded; message_epoch = om_message_epoch M message in
     case om_process_message M message (ld_group loaded) (ld_provider loaded) of
       Inl e \<Rightarrow> Inl (process_error_code e)
     | Inr ((pr, g), calls) \<Rightarrow>
         let provider = exec_calls E calls (ld_provider loaded) in
         if pr_aad pr \<noteq> ri_aad i then Inl AadMismatch
         else if pr_epoch pr \<noteq> message_epoch
            \<or> pr_sender pr \<noteq> Member (leaf_index (ri_sender i))
            \<or> pr_basic_identity pr \<noteq> Some (credential_identity (ri_sender i))
         then Inl SenderMismatch
         else
         bindE (receive_content sha E M i (pr_content pr) g local provider)
           (\<lambda>(plaintext, prop, local', provider).
         bindE (finish sha C provider local' (lg_current local)) (\<lambda>m.
         Inr \<lparr>rv_kind = ri_kind i, rv_message_epoch = message_epoch, rv_sender = ri_sender i,
           rv_plaintext = plaintext, rv_proposal_type = prop, rv_mutation = m\<rparr>)))"

definition receive_inner ::
  "(bytes \<Rightarrow> bytes) \<Rightarrow> cbor \<Rightarrow> 'v storage_env \<Rightarrow> ('v, 'g, 'x) openmls \<Rightarrow> ReceiveInput
   \<Rightarrow> MlsErrorCode + Received" where
  "receive_inner sha C E M i =
     bindE (load sha C E M (ri_context i)) (\<lambda>loaded.
     let g = ld_group loaded; local = ld_local loaded in
     if \<not> om_is_active M g then Inl InactiveGroup
     else
     bindE (bounded_aad (ri_aad i)) (\<lambda>_.
     if ri_wire i = [] \<or> length (ri_wire i) > 1024 * 1024 then Inl LimitExceeded
     else if sha (ri_wire i) \<noteq> ri_wire_sha256 i then Inl WireHashMismatch
     else
     bindE (map_err (\<lambda>_. MlsDecodeRejected) (mls_message_from_exact_bytes M (ri_wire i))) (\<lambda>w.
     bindE (ok_or (om_protocol_message M w) MessageKindMismatch) (\<lambda>message.
     if om_message_group_id M message \<noteq> lg_group_id local
        \<or> es_group_id (ri_message_state i) \<noteq> lg_group_id local
     then Inl GroupMismatch
     else
     let message_epoch = om_message_epoch M message in
     if message_epoch \<noteq> es_epoch (ri_message_state i) then Inl MessageEpochMismatch
     else
     let previous = lg_current local in
     bindE (if ri_kind i \<noteq> Application
            then (if message_epoch \<noteq> epoch previous then Inl RequiredCommitEpochMismatch
                  else if lg_pending local \<noteq> None then Inl PendingCommitExists
                  else Inr ())
            else Inr ()) (\<lambda>_.
     bindE (message_roster sha local message_epoch) (\<lambda>historical.
     if digest_sha256 historical \<noteq> es_digest_sha256 (ri_message_state i)
     then Inl MessageRosterMismatch
     else if ri_sender i \<notin> set (leaves historical) then Inl SenderMismatch
     else
     bindE (if ri_kind i \<noteq> Commit then check_state previous (ri_resulting_state i) True
            else Inr ()) (\<lambda>_.
     receive_process sha C E M i message loaded)))))))"

end
