(* ===== verification/Api.thy ===== *)
theory Api
  imports Receive
begin

text \<open>
  The public operations: \<open>rust/src/api/group_e2ee.rs\<close> and \<open>rust/src/api/storage.rs\<close>. Each
  converts the caller's context, runs the lifecycle core and returns \<open>Success\<close> with the result
  fields or \<open>Failure\<close> with the error code. The source has one outcome enum per operation, of
  the same two constructors; here they share one type. \<open>lifecycle_guard\<close> turns a panic of the
  operation (\<open>None\<close>) into \<open>InternalFailure\<close>; the operations of this model do not panic.
\<close>

datatype 'a outcome = Success 'a | Failure MlsErrorCode

definition to_outcome :: "('a \<Rightarrow> 'b) \<Rightarrow> MlsErrorCode + 'a \<Rightarrow> 'b outcome" where
  "to_outcome f r = (case r of Inr a \<Rightarrow> Success (f a) | Inl e \<Rightarrow> Failure e)"

definition lifecycle_guard :: "(MlsErrorCode + 'a) option \<Rightarrow> MlsErrorCode + 'a" where
  "lifecycle_guard r = (case r of None \<Rightarrow> Inl InternalFailure | Some v \<Rightarrow> v)"

record MlsGroupOperationContext =
  oc_group_id :: bytes
  oc_incarnation_id :: bytes
  oc_expected_current_state :: MlsExpectedRosterStateV1
  oc_expected_base_group_state_sha256 :: bytes
  oc_expected_retention :: u32
  oc_storage_entries :: "MlsStorageEntry list"
  oc_storage_format_version :: u32

definition into_context :: "MlsGroupOperationContext \<Rightarrow> Context" where
  "into_context v = \<lparr>cx_group_id = oc_group_id v, cx_incarnation_id = oc_incarnation_id v,
     cx_expected_current = oc_expected_current_state v,
     cx_expected_base_sha256 = oc_expected_base_group_state_sha256 v,
     cx_expected_retention = oc_expected_retention v, cx_entries = oc_storage_entries v,
     cx_storage_format = oc_storage_format_version v\<rparr>"

section \<open>Results\<close>

record CreateGroupWithStorageResult =
  cr_group_id :: bytes
  cr_resulting_roster :: MlsRosterSummaryV1
  cr_resulting_group_state_sha256 :: bytes
  cr_effective_retention :: u32
  cr_storage_batch :: MlsStorageBatch

record JoinGroupWithStorageResult =
  jr_group_id :: bytes
  jr_local_leaf :: MlsRosterLeafV1
  jr_consumed_key_package_sha256 :: bytes
  jr_resulting_roster :: MlsRosterSummaryV1
  jr_resulting_group_state_sha256 :: bytes
  jr_effective_retention :: u32
  jr_storage_batch :: MlsStorageBatch

record PendingCommitWithStorageResult =
  pr_pending_binding :: MlsPendingCommitBinding
  pr_previous_roster :: MlsRosterSummaryV1
  pr_proposed_resulting_roster :: MlsRosterSummaryV1
  pr_commit :: bytes
  pr_welcome :: "bytes option"
  pr_group_info :: "bytes option"
  pr_preparation_base_group_state_sha256 :: bytes
  pr_resulting_group_state_sha256 :: bytes
  pr_effective_retention :: u32
  pr_storage_batch :: MlsStorageBatch

record PendingCommitInfo =
  pi_pending_binding :: MlsPendingCommitBinding
  pi_proposed_resulting_roster :: MlsRosterSummaryV1
  pi_commit :: bytes
  pi_welcome :: "bytes option"
  pi_group_info :: "bytes option"
  pi_preparation_base_group_state_sha256 :: bytes

text \<open>\<open>MergePendingCommitWithStorageResult\<close> and \<open>DiscardPendingCommitWithStorageResult\<close>.\<close>

record SettleResult =
  st_previous_roster :: MlsRosterSummaryV1
  st_resulting_roster :: MlsRosterSummaryV1
  st_resulting_group_state_sha256 :: bytes
  st_effective_retention :: u32
  st_storage_batch :: MlsStorageBatch

record ProcessMessageWithStorageResult =
  ms_message_type :: ProcessedMessageType
  ms_message_epoch :: u64
  ms_authenticated_sender :: MlsRosterLeafV1
  ms_previous_epoch :: u64
  ms_resulting_epoch :: u64
  ms_application_message :: "bytes option"
  ms_proposal_type :: "MlsProposalType option"
  ms_previous_roster :: MlsRosterSummaryV1
  ms_resulting_roster :: MlsRosterSummaryV1
  ms_resulting_group_state_sha256 :: bytes
  ms_effective_retention :: u32
  ms_storage_batch :: MlsStorageBatch

record CreateMessageWithStorageResult =
  cm_ciphertext :: bytes
  cm_resulting_group_state_sha256 :: bytes
  cm_effective_retention :: u32
  cm_storage_batch :: MlsStorageBatch

record CreateKeyPackageWithStorageResult =
  ck_key_package_bytes :: bytes
  ck_storage_batch :: MlsStorageBatch

definition pending_result :: "Prepared \<Rightarrow> PendingCommitWithStorageResult" where
  "pending_result p = \<lparr>pr_pending_binding = pp_binding p,
     pr_previous_roster = mu_previous (pp_mutation p),
     pr_proposed_resulting_roster = pp_proposed p, pr_commit = pp_commit p,
     pr_welcome = pp_welcome p, pr_group_info = pp_group_info p,
     pr_preparation_base_group_state_sha256 = pp_preparation_base p,
     pr_resulting_group_state_sha256 = mu_resulting_digest (pp_mutation p),
     pr_effective_retention = mu_retention (pp_mutation p),
     pr_storage_batch = mu_batch (pp_mutation p)\<rparr>"

definition settle_result :: "Mutation \<Rightarrow> SettleResult" where
  "settle_result m = \<lparr>st_previous_roster = mu_previous m, st_resulting_roster = mu_resulting m,
     st_resulting_group_state_sha256 = mu_resulting_digest m,
     st_effective_retention = mu_retention m, st_storage_batch = mu_batch m\<rparr>"

section \<open>Lifecycle operations\<close>

definition create_group_with_storage ::
  "(bytes \<Rightarrow> bytes) \<Rightarrow> cbor \<Rightarrow> 'v storage_env \<Rightarrow> ('v, 'g, 'x) openmls \<Rightarrow> u64 \<times> u64 \<times> u64
   \<Rightarrow> MlsGroupConfig \<Rightarrow> bytes \<Rightarrow> bytes \<Rightarrow> bytes \<Rightarrow> MlsAuthorizedOwnerV1 \<Rightarrow> bytes option
   \<Rightarrow> MlsStorageEntry list \<Rightarrow> u32 \<Rightarrow> CreateGroupWithStorageResult outcome" where
  "create_group_with_storage sha C E M clock config signer_bytes gid incarnation owner credential
     entries version =
     to_outcome (\<lambda>m. \<lparr>cr_group_id = group_id (mu_resulting m), cr_resulting_roster = mu_resulting m,
         cr_resulting_group_state_sha256 = mu_resulting_digest m,
         cr_effective_retention = mu_retention m, cr_storage_batch = mu_batch m\<rparr>)
       (lifecycle_guard (Some
         (create sha C E M clock config signer_bytes gid incarnation owner credential entries version)))"

definition join_group_from_welcome_with_storage ::
  "(bytes \<Rightarrow> bytes) \<Rightarrow> cbor \<Rightarrow> 'v storage_env \<Rightarrow> ('v, 'g, 'x) openmls \<Rightarrow> u64 \<times> u64
   \<Rightarrow> MlsGroupConfig \<Rightarrow> bytes \<Rightarrow> bytes \<Rightarrow> bytes \<Rightarrow> bytes option \<Rightarrow> bytes
   \<Rightarrow> MlsExpectedRosterStateV1 \<Rightarrow> MlsRosterLeafV1 \<Rightarrow> bytes \<Rightarrow> MlsStorageEntry list \<Rightarrow> u32
   \<Rightarrow> JoinGroupWithStorageResult outcome" where
  "join_group_from_welcome_with_storage sha C E M clock config incarnation welcome welcome_sha256
     ratchet_tree signer resulting local_leaf target entries version =
     to_outcome (\<lambda>j. \<lparr>jr_group_id = group_id (mu_resulting (jn_mutation j)),
         jr_local_leaf = jn_local_leaf j,
         jr_consumed_key_package_sha256 = jn_consumed_key_package_sha256 j,
         jr_resulting_roster = mu_resulting (jn_mutation j),
         jr_resulting_group_state_sha256 = mu_resulting_digest (jn_mutation j),
         jr_effective_retention = mu_retention (jn_mutation j),
         jr_storage_batch = mu_batch (jn_mutation j)\<rparr>)
       (lifecycle_guard (Some (join sha C E M clock \<lparr>ji_config = config,
         ji_incarnation_id = incarnation, ji_signer = signer, ji_welcome = welcome,
         ji_welcome_sha256 = welcome_sha256, ji_tree = ratchet_tree, ji_resulting = resulting,
         ji_local_leaf = local_leaf, ji_target_key_package_sha256 = target,
         ji_entries = entries, ji_storage_format = version\<rparr>)))"

definition add_members_with_storage ::
  "(bytes \<Rightarrow> bytes) \<Rightarrow> cbor \<Rightarrow> 'v storage_env \<Rightarrow> ('v, 'g, 'x) openmls
   \<Rightarrow> MlsGroupOperationContext \<Rightarrow> MlsTransitionContext \<Rightarrow> bytes
   \<Rightarrow> MlsAuthorizedKeyPackageV1 list \<Rightarrow> bytes \<Rightarrow> PendingCommitWithStorageResult outcome" where
  "add_members_with_storage sha C E M cx transition signer additions aad =
     to_outcome pending_result (lifecycle_guard (Some
       (prepare sha C E M (into_context cx) signer transition additions [] aad None)))"

definition remove_members_with_storage ::
  "(bytes \<Rightarrow> bytes) \<Rightarrow> cbor \<Rightarrow> 'v storage_env \<Rightarrow> ('v, 'g, 'x) openmls
   \<Rightarrow> MlsGroupOperationContext \<Rightarrow> MlsTransitionContext \<Rightarrow> bytes
   \<Rightarrow> MlsAuthorizedRemovalV1 list \<Rightarrow> bytes \<Rightarrow> PendingCommitWithStorageResult outcome" where
  "remove_members_with_storage sha C E M cx transition signer removals aad =
     to_outcome pending_result (lifecycle_guard (Some
       (prepare sha C E M (into_context cx) signer transition [] removals aad None)))"

definition swap_members_with_storage ::
  "(bytes \<Rightarrow> bytes) \<Rightarrow> cbor \<Rightarrow> 'v storage_env \<Rightarrow> ('v, 'g, 'x) openmls
   \<Rightarrow> MlsGroupOperationContext \<Rightarrow> MlsTransitionContext \<Rightarrow> bytes
   \<Rightarrow> MlsAuthorizedKeyPackageV1 list \<Rightarrow> MlsAuthorizedRemovalV1 list \<Rightarrow> bytes
   \<Rightarrow> PendingCommitWithStorageResult outcome" where
  "swap_members_with_storage sha C E M cx transition signer additions removals aad =
     to_outcome pending_result (lifecycle_guard (Some
       (prepare sha C E M (into_context cx) signer transition additions removals aad None)))"

definition self_update_with_storage ::
  "(bytes \<Rightarrow> bytes) \<Rightarrow> cbor \<Rightarrow> 'v storage_env \<Rightarrow> ('v, 'g, 'x) openmls
   \<Rightarrow> MlsGroupOperationContext \<Rightarrow> MlsTransitionContext \<Rightarrow> bytes \<Rightarrow> MlsAuthorizedSelfV1
   \<Rightarrow> bytes \<Rightarrow> PendingCommitWithStorageResult outcome" where
  "self_update_with_storage sha C E M cx transition signer self_authority aad =
     to_outcome pending_result (lifecycle_guard (Some
       (prepare sha C E M (into_context cx) signer transition [] [] aad (Some self_authority))))"

definition get_pending_commit_with_storage ::
  "(bytes \<Rightarrow> bytes) \<Rightarrow> cbor \<Rightarrow> 'v storage_env \<Rightarrow> ('v, 'g, 'x) openmls
   \<Rightarrow> MlsGroupOperationContext \<Rightarrow> PendingCommitInfo option outcome" where
  "get_pending_commit_with_storage sha C E M cx =
     to_outcome (map_option (\<lambda>p. \<lparr>pi_pending_binding = pp_binding p,
         pi_proposed_resulting_roster = pp_proposed p, pi_commit = pp_commit p,
         pi_welcome = pp_welcome p, pi_group_info = pp_group_info p,
         pi_preparation_base_group_state_sha256 = pp_preparation_base p\<rparr>))
       (lifecycle_guard (Some (inspect_pending sha C E M (into_context cx))))"

definition merge_pending_commit_with_storage ::
  "(bytes \<Rightarrow> bytes) \<Rightarrow> cbor \<Rightarrow> 'v storage_env \<Rightarrow> ('v, 'g, 'x) openmls
   \<Rightarrow> MlsGroupOperationContext \<Rightarrow> MlsCommitAcceptance \<Rightarrow> SettleResult outcome" where
  "merge_pending_commit_with_storage sha C E M cx acceptance =
     to_outcome settle_result (lifecycle_guard (Some
       (merge sha C E M (into_context cx) acceptance)))"

definition discard_pending_commit_with_storage ::
  "(bytes \<Rightarrow> bytes) \<Rightarrow> cbor \<Rightarrow> 'v storage_env \<Rightarrow> ('v, 'g, 'x) openmls
   \<Rightarrow> MlsGroupOperationContext \<Rightarrow> MlsPendingCommitBinding \<Rightarrow> SettleResult outcome" where
  "discard_pending_commit_with_storage sha C E M cx b =
     to_outcome settle_result (lifecycle_guard (Some (discard sha C E M (into_context cx) b)))"

fun message_type_of :: "MlsReceiveKind \<Rightarrow> ProcessedMessageType" where
  "message_type_of Application = PmApplication"
| "message_type_of Commit = PmStagedCommit"
| "message_type_of Proposal = PmProposal"

definition process_message_with_storage ::
  "(bytes \<Rightarrow> bytes) \<Rightarrow> cbor \<Rightarrow> 'v storage_env \<Rightarrow> ('v, 'g, 'x) openmls
   \<Rightarrow> MlsGroupOperationContext \<Rightarrow> MlsReceiveKind \<Rightarrow> bytes \<Rightarrow> bytes \<Rightarrow> bytes \<Rightarrow> MlsRosterLeafV1
   \<Rightarrow> MlsExpectedRosterStateV1 \<Rightarrow> MlsExpectedRosterStateV1
   \<Rightarrow> ProcessMessageWithStorageResult outcome" where
  "process_message_with_storage sha C E M cx kind wire wire_sha256 aad sender message_state
     resulting_state =
     to_outcome (\<lambda>r. \<lparr>ms_message_type = message_type_of (rv_kind r),
         ms_message_epoch = rv_message_epoch r, ms_authenticated_sender = rv_sender r,
         ms_previous_epoch = epoch (mu_previous (rv_mutation r)),
         ms_resulting_epoch = epoch (mu_resulting (rv_mutation r)),
         ms_application_message = rv_plaintext r, ms_proposal_type = rv_proposal_type r,
         ms_previous_roster = mu_previous (rv_mutation r),
         ms_resulting_roster = mu_resulting (rv_mutation r),
         ms_resulting_group_state_sha256 = mu_resulting_digest (rv_mutation r),
         ms_effective_retention = mu_retention (rv_mutation r),
         ms_storage_batch = mu_batch (rv_mutation r)\<rparr>)
       (lifecycle_guard (Some (receive_inner sha C E M \<lparr>ri_context = into_context cx,
         ri_kind = kind, ri_wire = wire, ri_wire_sha256 = wire_sha256, ri_aad = aad,
         ri_sender = sender, ri_message_state = message_state,
         ri_resulting_state = resulting_state\<rparr>)))"

definition create_message_with_storage ::
  "(bytes \<Rightarrow> bytes) \<Rightarrow> cbor \<Rightarrow> 'v storage_env \<Rightarrow> ('v, 'g, 'x) openmls
   \<Rightarrow> MlsGroupOperationContext \<Rightarrow> bytes \<Rightarrow> bytes \<Rightarrow> bytes
   \<Rightarrow> CreateMessageWithStorageResult outcome" where
  "create_message_with_storage sha C E M cx signer message aad =
     to_outcome (\<lambda>s. \<lparr>cm_ciphertext = sn_ciphertext s,
         cm_resulting_group_state_sha256 = mu_resulting_digest (sn_mutation s),
         cm_effective_retention = mu_retention (sn_mutation s),
         cm_storage_batch = mu_batch (sn_mutation s)\<rparr>)
       (lifecycle_guard (Some (send sha C E M (into_context cx) signer message aad)))"

section \<open>Key packages and group deletion\<close>

definition mls_storage_format_version :: u32 where
  "mls_storage_format_version = MLS_STORAGE_FORMAT_VERSION"

datatype storage_api_error =
    BadEntries storage_error | BadSigner signer_error | BadCredential | OpenMlsRejected
  | NotSerializable | NoGroup

definition create_key_package_with_storage ::
  "'v storage_env \<Rightarrow> ('v, 'g, 'x) openmls \<Rightarrow> MlsCiphersuite \<Rightarrow> bytes \<Rightarrow> bytes \<Rightarrow> bytes
   \<Rightarrow> bytes option \<Rightarrow> MlsStorageEntry list \<Rightarrow> u32
   \<Rightarrow> storage_api_error + CreateKeyPackageWithStorageResult" where
  "create_key_package_with_storage E M cs signer_bytes identity signer_public_key credential_bytes
     entries version =
     bindE (map_err BadEntries (provider_from_entries entries version None)) (\<lambda>provider.
     bindE (map_err BadSigner (signer_from_bytes M signer_bytes)) (\<lambda>signer.
     bindE (map_err (\<lambda>_. BadCredential)
             (build_credential_with_key M identity signer_public_key credential_bytes)) (\<lambda>credential.
     bindE (ok_or (om_build_key_package M (ciphersuite_to_native cs) signer credential provider)
             OpenMlsRejected) (\<lambda>(kp, calls).
     bindE (ok_or kp NotSerializable) (\<lambda>kp_bytes.
     bindE (map_err BadEntries (batch_from_provider (exec_calls E calls provider) None [])) (\<lambda>batch.
     Inr \<lparr>ck_key_package_bytes = kp_bytes, ck_storage_batch = batch\<rparr>))))))"

definition delete_group_with_storage ::
  "'v storage_env \<Rightarrow> ('v, 'g, 'x) openmls \<Rightarrow> bytes \<Rightarrow> MlsStorageEntry list \<Rightarrow> u32
   \<Rightarrow> storage_api_error + MlsStorageBatch" where
  "delete_group_with_storage E M gid entries version =
     bindE (map_err BadEntries (provider_from_entries entries version (Some gid))) (\<lambda>provider.
     bindE (map_err (\<lambda>_. NoGroup) (load_group M gid provider)) (\<lambda>g.
     bindE (ok_or (om_delete M g provider) OpenMlsRejected) (\<lambda>(_, calls).
     map_err BadEntries (batch_from_provider (exec_calls E calls provider) (Some gid) [gid]))))"

lemma to_outcome_Success_iff: "to_outcome f r = Success b \<longleftrightarrow> (\<exists>a. r = Inr a \<and> b = f a)"
  by (auto simp: to_outcome_def split: sum.splits)

lemma to_outcome_Failure_iff: "to_outcome f r = Failure e \<longleftrightarrow> r = Inl e"
  by (auto simp: to_outcome_def split: sum.splits)

lemma lifecycle_guard_Some [simp]: "lifecycle_guard (Some r) = r"
  by (simp add: lifecycle_guard_def)

end
