(* ===== verification/ResyncTypes.thy ===== *)
theory ResyncTypes
  imports MlsTypes
begin

text \<open>
  \<open>rust/src/external_resync/mod.rs\<close>: limits, error codes and data of the external
  resynchronisation. The profile constants that share their name with those of
  \<open>local_group_state.rs\<close> carry the prefix \<open>RS\<close>.
\<close>

section \<open>Limits and errors\<close>

definition RS_PROFILE :: u16 where "RS_PROFILE = 2"
definition MAX_MLS_BYTES :: nat where "MAX_MLS_BYTES = 1024 * 1024"
definition MAX_AAD_BYTES :: nat where "MAX_AAD_BYTES = 16 * 1024"
definition RS_MAX_LEAVES :: nat where "RS_MAX_LEAVES = 256"
definition MAX_TREE_NODES :: nat where "MAX_TREE_NODES = 511"

datatype ResyncError =
    RsInvalidFrame | RsUnsupportedVersion | RsUnsupportedProfile | RsUnsupportedOperation
  | RsNoncanonicalEncoding | RsLimitExceeded | RsHashMismatch | RsGroupMismatch | RsEpochMismatch
  | RsRosterMismatch | RsSignerMismatch | RsIdentityMismatch | RsDeltaMismatch | RsAadMismatch
  | RsDecodeRejected | RsSignatureRejected | RsTreeRejected | RsLifetimeRejected
  | RsProtocolRejected | RsMissingRequiredExtension | RsSuccessorMismatch | RsInternalFailure

fun resync_error_code :: "ResyncError \<Rightarrow> u16" where
  "resync_error_code RsInvalidFrame = 1"
| "resync_error_code RsUnsupportedVersion = 2"
| "resync_error_code RsUnsupportedProfile = 3"
| "resync_error_code RsUnsupportedOperation = 4"
| "resync_error_code RsNoncanonicalEncoding = 5"
| "resync_error_code RsLimitExceeded = 6"
| "resync_error_code RsHashMismatch = 10"
| "resync_error_code RsGroupMismatch = 20"
| "resync_error_code RsEpochMismatch = 21"
| "resync_error_code RsRosterMismatch = 22"
| "resync_error_code RsSignerMismatch = 23"
| "resync_error_code RsIdentityMismatch = 24"
| "resync_error_code RsDeltaMismatch = 25"
| "resync_error_code RsAadMismatch = 26"
| "resync_error_code RsDecodeRejected = 30"
| "resync_error_code RsSignatureRejected = 31"
| "resync_error_code RsTreeRejected = 32"
| "resync_error_code RsLifetimeRejected = 33"
| "resync_error_code RsProtocolRejected = 34"
| "resync_error_code RsMissingRequiredExtension = 35"
| "resync_error_code RsSuccessorMismatch = 36"
| "resync_error_code RsInternalFailure = 255"

lemma resync_error_code_inj: "resync_error_code a = resync_error_code b \<Longrightarrow> a = b"
  by (cases a; cases b) simp_all

lemma resync_error_code_nonzero: "resync_error_code e \<noteq> 0"
  by (cases e) simp_all

section \<open>Data\<close>

record Leaf =
  lf_index :: u32
  lf_identity :: bytes
  lf_signature_key :: bytes

record ExpectedState =
  xs_group_id :: bytes
  xs_epoch :: u64
  xs_roster_sha256 :: bytes

record PublicRoster =
  ro_state :: ExpectedState
  ro_leaves :: "Leaf list"

record SnapshotRequest =
  sq_profile :: u16
  sq_group_info :: bytes
  sq_sha256 :: bytes
  sq_expected :: ExpectedState
  sq_expected_signer :: Leaf

record SuccessorRequest =
  su_base :: SnapshotRequest
  su_commit :: bytes
  su_commit_sha256 :: bytes
  su_expected_aad :: bytes
  su_authorized_old :: Leaf
  su_authorized_new_identity :: bytes
  su_authorized_new_signature_key :: bytes
  su_reported_next_group_info :: bytes
  su_reported_next_sha256 :: bytes

record VerifiedSnapshot =
  vs_profile :: u16
  vs_sha256 :: bytes
  vs_roster :: PublicRoster
  vs_signer :: Leaf

record VerifiedSuccessor =
  vc_previous :: VerifiedSnapshot
  vc_commit_sha256 :: bytes
  vc_aad_sha256 :: bytes
  vc_resulting :: VerifiedSnapshot

end
