(* ===== verification/Preflight.thy ===== *)
theory Preflight
  imports Cursor ResyncTypes
begin

text \<open>
  \<open>rust/src/external_resync/preflight.rs\<close>: the shape scanner that bounds a GroupInfo and an
  external Commit before OpenMLS sees them. A scanner is a reader over the remaining bytes; each
  loop is a recursive function of its own, the counted ones ending at their limit, the two that
  have no counter because every turn consumes input.
\<close>

unbundle bit_operations_syntax

type_synonym 'a scan = "(bytes, ResyncError, 'a) eff"

section \<open>The cursor\<close>

definition cur_take :: "nat \<Rightarrow> bytes scan" where
  "cur_take n = read_array RsDecodeRejected n"

definition cur_byte :: "byte scan" where
  "cur_byte = read_u8 RsDecodeRejected"

definition cur_u16 :: "u16 scan" where
  "cur_u16 = read_u16 RsDecodeRejected"

definition cur_vector :: "nat \<Rightarrow> bytes scan" where
  "cur_vector mx =
     bindS cur_byte (\<lambda>first.
     let tag = unat (drop_bit 6 first) in
     if tag = 3 then liftS (Inl RsDecodeRejected)
     else
       let width = push_bit tag (1 :: nat) in
       bindS (cur_take (width - 1)) (\<lambda>more.
       let n = foldl (\<lambda>n b. push_bit 8 n OR unat b) (unat (first AND 63)) more in
       if width = 2 \<and> n < 64 \<or> width = 4 \<and> n < 16384 then liftS (Inl RsNoncanonicalEncoding)
       else if n > mx then liftS (Inl RsLimitExceeded)
       else cur_take n))"

definition cur_exact :: "nat \<Rightarrow> unit scan" where
  "cur_exact n = bindS (cur_vector n) (\<lambda>v.
     if length v \<noteq> n then liftS (Inl RsDecodeRejected) else returnS ())"

definition cur_finish :: "unit scan" where
  "cur_finish = bindS is_finished (\<lambda>done.
     if done then returnS () else liftS (Inl RsDecodeRejected))"

text \<open>A scanner run on a field of its own; what it leaves unread is dropped.\<close>

definition scan_inside :: "bytes \<Rightarrow> 'a scan \<Rightarrow> 'a scan" where
  "scan_inside b m = liftS (run_reader m b)"

text \<open>A loop over the input that counts its turns and stops with \<open>LimitExceeded\<close> above a limit.\<close>

function while_counted :: "nat \<Rightarrow> unit scan \<Rightarrow> nat \<Rightarrow> unit scan" where
  "while_counted limit body count s =
     (if s = [] then (Inr (), s)
      else if count + 1 > limit then (Inl RsLimitExceeded, s)
      else case body s of
        (Inl e, s') \<Rightarrow> (Inl e, s')
      | (Inr _, s') \<Rightarrow> while_counted limit body (count + 1) s')"
  by pat_completeness auto
termination by (relation "measure (\<lambda>(limit, body, count, s). limit - count)") auto

declare while_counted.simps [simp del]

section \<open>Extensions, leaves and the tree\<close>

definition pf_extension :: "unit scan" where
  "pf_extension = bindS cur_u16 (\<lambda>_. bindS (cur_vector 4096) (\<lambda>_. returnS ()))"

definition pf_extensions :: "unit scan" where
  "pf_extensions = bindS (cur_vector (16 * 1024)) (\<lambda>e. scan_inside e (while_counted 32 pf_extension 0))"

definition pf_capability_list :: "unit scan" where
  "pf_capability_list = bindS (cur_vector 128) (\<lambda>v.
     if length v mod 2 \<noteq> 0 then liftS (Inl RsDecodeRejected) else returnS ())"

definition pf_leaf_source :: "unit scan" where
  "pf_leaf_source = bindS cur_byte (\<lambda>source.
     if source = 1 then bindS (cur_take 16) (\<lambda>_. returnS ())
     else if source = 2 then returnS ()
     else if source = 3 then bindS (cur_vector 32) (\<lambda>_. returnS ())
     else liftS (Inl RsDecodeRejected))"

definition pf_leaf :: "unit scan" where
  "pf_leaf =
     bindS (cur_exact 32) (\<lambda>_.
     bindS (cur_exact 32) (\<lambda>_.
     bindS cur_u16 (\<lambda>credential_type.
     if credential_type \<noteq> 1 then liftS (Inl RsUnsupportedProfile)
     else
       bindS (cur_exact 45) (\<lambda>_.
       bindS (timesS 5 pf_capability_list) (\<lambda>_.
       bindS pf_leaf_source (\<lambda>_.
       bindS pf_extensions (\<lambda>_.
       cur_exact 64)))))))"

text \<open>The indices of a parent's unmerged leaves, four bytes each.\<close>

fun as_chunks4 :: "bytes \<Rightarrow> bytes list" where
  "as_chunks4 (a # b # c # d # r) = [a, b, c, d] # as_chunks4 r"
| "as_chunks4 r = []"

definition pf_parent :: "unit scan" where
  "pf_parent =
     bindS (cur_exact 32) (\<lambda>_.
     bindS (cur_vector 32) (\<lambda>_.
     bindS (cur_vector (RS_MAX_LEAVES * 4)) (\<lambda>unmerged.
     if length unmerged mod 4 \<noteq> 0 then liftS (Inl RsDecodeRejected)
     else liftS (eachE (\<lambda>b. require ((word_of_be b :: u32) < of_nat RS_MAX_LEAVES) RsLimitExceeded)
            (as_chunks4 unmerged)))))"

text \<open>One node; the result is the number of leaves seen so far.\<close>

definition pf_node :: "nat \<Rightarrow> nat scan" where
  "pf_node nleaves = bindS cur_byte (\<lambda>present.
     if present = 0 then returnS nleaves
     else if present = 1 then bindS cur_byte (\<lambda>node_type.
       if node_type = 1 then
         (if nleaves + 1 > RS_MAX_LEAVES then liftS (Inl RsLimitExceeded)
          else bindS pf_leaf (\<lambda>_. returnS (nleaves + 1)))
       else if node_type = 2 then bindS pf_parent (\<lambda>_. returnS nleaves)
       else liftS (Inl RsDecodeRejected))
     else liftS (Inl RsDecodeRejected))"

function pf_nodes :: "nat \<Rightarrow> nat \<Rightarrow> (nat \<times> nat) scan" where
  "pf_nodes count nleaves s =
     (if s = [] then (Inr (count, nleaves), s)
      else if count + 1 > MAX_TREE_NODES then (Inl RsLimitExceeded, s)
      else case pf_node nleaves s of
        (Inl e, s') \<Rightarrow> (Inl e, s')
      | (Inr nleaves', s') \<Rightarrow> pf_nodes (count + 1) nleaves' s')"
  by pat_completeness auto
termination by (relation "measure (\<lambda>(count, nleaves, s). MAX_TREE_NODES - count)") auto

declare pf_nodes.simps [simp del]

definition pf_tree :: "unit scan" where
  "pf_tree =
     bindS (cur_vector MAX_MLS_BYTES) (\<lambda>nodes.
     bindS cur_finish (\<lambda>_.
     bindS (scan_inside nodes (pf_nodes 0 0)) (\<lambda>(count, nleaves).
     if count = 0 \<or> nleaves = 0 then liftS (Inl RsTreeRejected) else returnS ())))"

section \<open>GroupInfo\<close>

text \<open>One extension of the GroupInfo; the result says which of the two are seen now.\<close>

definition gi_extension :: "bool \<times> bool \<Rightarrow> (bool \<times> bool) scan" where
  "gi_extension seen =
     bindS cur_u16 (\<lambda>kind.
     bindS (cur_vector MAX_MLS_BYTES) (\<lambda>body.
     if kind = 2 \<and> \<not> fst seen
     then bindS (scan_inside body pf_tree) (\<lambda>_. returnS (True, snd seen))
     else if kind = 4 \<and> \<not> snd seen
     then bindS (scan_inside body (bindS (cur_exact 32) (\<lambda>_. cur_finish))) (\<lambda>_.
       returnS (fst seen, True))
     else liftS (Inl RsUnsupportedProfile)))"

text \<open>Readers that never grow the input; every loop below ends by this measure.\<close>

named_theorems shrinking \<open>readers that consume input\<close>

lemma read_array_shrinks [shrinking]: "read_array e n s = (Inr v, r) \<Longrightarrow> length s = length r + n"
  by (auto simp: read_array_Inr_iff)

lemma gi_extension_shrinks: "gi_extension seen s = (Inr seen', r) \<Longrightarrow> length r < length s"
  unfolding gi_extension_def cur_vector_def Let_def cur_u16_def cur_byte_def cur_take_def read_u16_def
    read_u8_def scan_inside_def
  by (auto simp: run_bindS_ok_iff if_liftS_Inl_iff returnS_ok_iff liftS_ok_iff split: if_splits dest!: shrinking)

function gi_extensions :: "bool \<times> bool \<Rightarrow> (bool \<times> bool) scan" where
  "gi_extensions seen s =
     (if s = [] then (Inr seen, s)
      else case gi_extension seen s of
        (Inl e, s') \<Rightarrow> (Inl e, s')
      | (Inr seen', s') \<Rightarrow> gi_extensions seen' s')"
  by pat_completeness auto
termination by (relation "measure (\<lambda>(seen, s). length s)") (auto dest: gi_extension_shrinks [OF sym])

declare gi_extensions.simps [simp del]

definition pf_versions :: "u16 list \<Rightarrow> unit scan" where
  "pf_versions vs = eachS (\<lambda>v. bindS cur_u16 (\<lambda>x.
     if x \<noteq> v then liftS (Inl RsUnsupportedProfile) else returnS ())) vs"

definition pf_transcript :: "bytes \<Rightarrow> unit scan" where
  "pf_transcript ep = bindS (cur_vector 32) (\<lambda>transcript.
     if length transcript \<noteq> 32 \<and> \<not> (ep = replicate 8 0 \<and> transcript = [])
     then liftS (Inl RsDecodeRejected) else returnS ())"

definition group_info_scan :: "unit scan" where
  "group_info_scan =
     bindS (pf_versions [1, 4, 1, 1]) (\<lambda>_.
     bindS (cur_exact 16) (\<lambda>_.
     bindS (cur_take 8) (\<lambda>ep.
     bindS (cur_exact 32) (\<lambda>_.
     bindS (pf_transcript ep) (\<lambda>_.
     bindS (cur_vector (16 * 1024)) (\<lambda>context_extensions.
     if context_extensions \<noteq> [] then liftS (Inl RsUnsupportedProfile)
     else
       bindS (cur_vector MAX_MLS_BYTES) (\<lambda>e.
       bindS (scan_inside e (gi_extensions (False, False))) (\<lambda>(seen_tree, seen_pub).
       if \<not> seen_tree \<or> \<not> seen_pub then liftS (Inl RsMissingRequiredExtension)
       else
         bindS (cur_exact 32) (\<lambda>_.
         bindS (cur_take 4) (\<lambda>_.
         bindS (cur_exact 64) (\<lambda>_.
         cur_finish)))))))))))"

definition group_info :: "bytes \<Rightarrow> ResyncError + unit" where
  "group_info b =
     (if b = [] \<or> length b > MAX_MLS_BYTES then Inl RsLimitExceeded
      else run_reader group_info_scan b)"

section \<open>External Commits\<close>

definition pf_recipient :: "unit scan" where
  "pf_recipient = bindS (cur_exact 32) (\<lambda>_. cur_exact 48)"

definition pf_path_node :: "unit scan" where
  "pf_path_node =
     bindS (cur_exact 32) (\<lambda>_.
     bindS (cur_vector MAX_MLS_BYTES) (\<lambda>recipients.
     scan_inside recipients (while_counted RS_MAX_LEAVES pf_recipient 0)))"

definition update_path :: "bytes \<Rightarrow> ResyncError + unit" where
  "update_path b = run_reader (while_counted 8 pf_path_node 0) b"

text \<open>One proposal; \<open>init\<close> and \<open>remove\<close> count the two kinds seen so far.\<close>

definition pf_proposal :: "nat \<times> nat \<Rightarrow> (nat \<times> nat) scan" where
  "pf_proposal counts =
     bindS cur_byte (\<lambda>by_value.
     if by_value \<noteq> 1 then liftS (Inl RsDeltaMismatch)
     else bindS cur_u16 (\<lambda>kind.
       if kind = 6 \<and> fst counts = 0
       then bindS (cur_exact 32) (\<lambda>_. returnS (fst counts + 1, snd counts))
       else if kind = 3 \<and> snd counts = 0
       then bindS (cur_take 4) (\<lambda>_. returnS (fst counts, snd counts + 1))
       else liftS (Inl RsDeltaMismatch)))"

lemma cur_exact_shrinks: "cur_exact n s = (Inr u, r) \<Longrightarrow> length r < length s"
  unfolding cur_exact_def cur_vector_def Let_def cur_byte_def cur_take_def read_u8_def
  by (auto simp: run_bindS_ok_iff if_liftS_Inl_iff returnS_ok_iff liftS_ok_iff split: if_splits dest!: shrinking)

lemma pf_proposal_shrinks: "pf_proposal counts s = (Inr counts', r) \<Longrightarrow> length r < length s"
  unfolding pf_proposal_def cur_byte_def cur_u16_def cur_take_def read_u8_def read_u16_def
  by (auto simp: run_bindS_ok_iff if_liftS_Inl_iff returnS_ok_iff liftS_ok_iff split: if_splits
      dest!: shrinking cur_exact_shrinks)

function pf_proposals :: "nat \<times> nat \<Rightarrow> (nat \<times> nat) scan" where
  "pf_proposals counts s =
     (if s = [] then (Inr counts, s)
      else case pf_proposal counts s of
        (Inl e, s') \<Rightarrow> (Inl e, s')
      | (Inr counts', s') \<Rightarrow> pf_proposals counts' s')"
  by pat_completeness auto
termination by (relation "measure (\<lambda>(counts, s). length s)") (auto dest: pf_proposal_shrinks [OF sym])

declare pf_proposals.simps [simp del]

definition expect_byte :: "byte \<Rightarrow> ResyncError \<Rightarrow> unit scan" where
  "expect_byte b e = bindS cur_byte (\<lambda>x. if x \<noteq> b then liftS (Inl e) else returnS ())"

definition external_commit_scan :: "unit scan" where
  "external_commit_scan =
     bindS (pf_versions [1, 1]) (\<lambda>_.
     bindS (cur_exact 16) (\<lambda>_.
     bindS (cur_take 8) (\<lambda>_.
     bindS (expect_byte 4 RsSignerMismatch) (\<lambda>_.
     bindS (cur_vector MAX_AAD_BYTES) (\<lambda>aad.
     if aad = [] then liftS (Inl RsLimitExceeded)
     else
       bindS (expect_byte 3 RsProtocolRejected) (\<lambda>_.
       bindS (cur_vector 128) (\<lambda>props.
       bindS (scan_inside props (pf_proposals (0, 0))) (\<lambda>(init, remove).
       if init \<noteq> 1 \<or> remove \<noteq> 1 then liftS (Inl RsDeltaMismatch)
       else
         bindS (expect_byte 1 RsProtocolRejected) (\<lambda>_.
         bindS pf_leaf (\<lambda>_.
         bindS (cur_vector MAX_MLS_BYTES) (\<lambda>path.
         bindS (liftS (update_path path)) (\<lambda>_.
         bindS (cur_exact 64) (\<lambda>_.
         bindS (cur_exact 32) (\<lambda>_.
         cur_finish))))))))))))))"

definition external_commit :: "bytes \<Rightarrow> ResyncError + unit" where
  "external_commit b =
     (if b = [] \<or> length b > MAX_MLS_BYTES then Inl RsLimitExceeded
      else run_reader external_commit_scan b)"

end
