(* ===== verification/ResyncPublic.thy ===== *)
theory ResyncPublic
  imports Preflight OpenMls
begin

text \<open>
  \<open>rust/src/external_resync/public.rs\<close>: the public verification of a published GroupInfo and of an
  external Commit that replaces one leaf. The public groups of OpenMLS are the parameter record
  \<open>public_mls\<close> over handles \<open>'p\<close> and library values \<open>'x\<close>. Leaf lifetimes are checked against the
  clock inside OpenMLS: \<open>now i\<close> is the \<open>i\<close>-th reading of the clock in a run.
\<close>

datatype creation_error =
    InvalidGroupInfoSignature | UnknownSender | LeafLifetime | UnsupportedMlsVersion
  | WriteToStorageError | CreationLibraryError | OtherCreationError

datatype queued_proposal = QueuedExternalInit | QueuedRemove u32 | QueuedOther

text \<open>
  \<open>ps_update_path_key\<close> and \<open>ps_queued\<close> read a staged Commit: the signature key of the leaf of its
  path, and its proposals, each with the flag that it is carried by value.
\<close>

record ('p, 'x) public_mls =
  pm_group_info :: "'x \<Rightarrow> 'x option"
  pm_ratchet_tree :: "'x \<Rightarrow> 'x option"
  pm_from_external :: "u64 \<Rightarrow> 'x \<Rightarrow> 'x \<Rightarrow> creation_error + 'p \<times> u32"
  pm_members :: "'p \<Rightarrow> (u32 \<times> bytes option \<times> bytes) list"
  pm_group_id :: "'p \<Rightarrow> bytes"
  pm_epoch :: "'p \<Rightarrow> u64"
  pm_process_message :: "u64 \<Rightarrow> 'x \<Rightarrow> 'p \<Rightarrow> 'x processed option"
  pm_merge_commit :: "'x \<Rightarrow> 'p \<Rightarrow> 'p option"
  pm_group_context :: "'p \<Rightarrow> 'x"
  pm_export_ratchet_tree :: "'p \<Rightarrow> 'x"
  pm_confirmation_tag :: "'p \<Rightarrow> 'x"
  ps_update_path_key :: "'x \<Rightarrow> bytes option"
  ps_queued :: "'x \<Rightarrow> (bool \<times> queued_proposal) list"

section \<open>Hashes, leaves, rosters\<close>

definition check_hash :: "(bytes \<Rightarrow> bytes) \<Rightarrow> bytes \<Rightarrow> bytes \<Rightarrow> ResyncError + unit" where
  "check_hash sha b ex =
     (if length ex \<noteq> 32 then Inl RsLimitExceeded
      else if sha b \<noteq> ex then Inl RsHashMismatch
      else Inr ())"

definition validate_public_leaf :: "Leaf \<Rightarrow> ResyncError + unit" where
  "validate_public_leaf l =
     (if lf_index l \<ge> of_nat RS_MAX_LEAVES \<or> length (lf_identity l) \<noteq> 45
         \<or> length (lf_signature_key l) \<noteq> 32
      then Inl RsLimitExceeded else Inr ())"

record roster_scan =
  rs_leaves :: "Leaf list"
  rs_identities :: "bytes list"
  rs_keys :: "bytes list"

definition scan_member :: "roster_scan \<Rightarrow> u32 \<times> bytes option \<times> bytes \<Rightarrow> ResyncError + roster_scan" where
  "scan_member s m = (case m of (index, identity, key) \<Rightarrow>
     if length (rs_leaves s) \<ge> RS_MAX_LEAVES then Inl RsLimitExceeded
     else
       bindE (ok_or identity RsUnsupportedProfile) (\<lambda>identity.
       let l = \<lparr>lf_index = index, lf_identity = identity, lf_signature_key = key\<rparr> in
       bindE (validate_public_leaf l) (\<lambda>_.
       if lf_identity l \<in> set (rs_identities s) \<or> lf_signature_key l \<in> set (rs_keys s)
       then Inl RsIdentityMismatch
       else Inr \<lparr>rs_leaves = rs_leaves s @ [l], rs_identities = lf_identity l # rs_identities s,
              rs_keys = lf_signature_key l # rs_keys s\<rparr>)))"

definition public_leaf_preimage :: "Leaf \<Rightarrow> bytes" where
  "public_leaf_preimage l =
     be32 (lf_index l) @ len_prefixed (lf_identity l) @ len_prefixed (lf_signature_key l)"

definition public_roster_preimage :: "bytes \<Rightarrow> u64 \<Rightarrow> Leaf list \<Rightarrow> bytes" where
  "public_roster_preimage gid ep ls =
     ROSTER_DOMAIN_V1 @ len_prefixed gid @ be64 ep @ be32 (of_nat (length ls))
       @ concat (map public_leaf_preimage ls)"

definition public_roster ::
  "(bytes \<Rightarrow> bytes) \<Rightarrow> ('p, 'x) public_mls \<Rightarrow> 'p \<Rightarrow> ResyncError + PublicRoster" where
  "public_roster sha P g =
     bindE (foldE scan_member \<lparr>rs_leaves = [], rs_identities = [], rs_keys = []\<rparr> (pm_members P g)) (\<lambda>s.
     let ls = sort_key lf_index (rs_leaves s); gid = pm_group_id P g; ep = pm_epoch P g in
     Inr \<lparr>ro_state = \<lparr>xs_group_id = gid, xs_epoch = ep,
            xs_roster_sha256 = sha (public_roster_preimage gid ep ls)\<rparr>,
          ro_leaves = ls\<rparr>)"

section \<open>Snapshots\<close>

fun creation_error_code :: "creation_error \<Rightarrow> ResyncError" where
  "creation_error_code InvalidGroupInfoSignature = RsSignatureRejected"
| "creation_error_code UnknownSender = RsSignerMismatch"
| "creation_error_code LeafLifetime = RsLifetimeRejected"
| "creation_error_code UnsupportedMlsVersion = RsUnsupportedProfile"
| "creation_error_code WriteToStorageError = RsInternalFailure"
| "creation_error_code CreationLibraryError = RsInternalFailure"
| "creation_error_code OtherCreationError = RsTreeRejected"

definition load_public ::
  "(bytes \<Rightarrow> bytes) \<Rightarrow> ('v, 'g, 'x) openmls \<Rightarrow> ('p, 'x) public_mls \<Rightarrow> u64 \<Rightarrow> bytes \<Rightarrow> bytes
   \<Rightarrow> ResyncError + 'p \<times> VerifiedSnapshot" where
  "load_public sha M P t b expected_hash =
     bindE (Preflight.group_info b) (\<lambda>_.
     bindE (check_hash sha b expected_hash) (\<lambda>_.
     bindE (map_err (\<lambda>_. RsDecodeRejected) (mls_message_from_exact_bytes M b)) (\<lambda>message.
     bindE (ok_or (pm_group_info P message) RsDecodeRejected) (\<lambda>info.
     bindE (ok_or (pm_ratchet_tree P info) RsMissingRequiredExtension) (\<lambda>tree.
     bindE (map_err creation_error_code (pm_from_external P t tree info)) (\<lambda>(g, verified_signer).
     bindE (public_roster sha P g) (\<lambda>r.
     bindE (ok_or (find (\<lambda>l. lf_index l = verified_signer) (ro_leaves r)) RsSignerMismatch) (\<lambda>signer.
     Inr (g, \<lparr>vs_profile = RS_PROFILE, vs_sha256 = expected_hash, vs_roster = r,
              vs_signer = signer\<rparr>)))))))))"

definition expected_public :: "ExpectedState \<Rightarrow> ExpectedState \<Rightarrow> ResyncError + unit" where
  "expected_public actual ex =
     (if length (xs_group_id ex) \<noteq> 16 \<or> length (xs_roster_sha256 ex) \<noteq> 32 then Inl RsLimitExceeded
      else if xs_group_id actual \<noteq> xs_group_id ex then Inl RsGroupMismatch
      else if xs_epoch actual \<noteq> xs_epoch ex then Inl RsEpochMismatch
      else if xs_roster_sha256 actual \<noteq> xs_roster_sha256 ex then Inl RsRosterMismatch
      else Inr ())"

definition snapshot_inner ::
  "(bytes \<Rightarrow> bytes) \<Rightarrow> ('v, 'g, 'x) openmls \<Rightarrow> ('p, 'x) public_mls \<Rightarrow> u64 \<Rightarrow> SnapshotRequest
   \<Rightarrow> ResyncError + 'p \<times> VerifiedSnapshot" where
  "snapshot_inner sha M P t r =
     (if sq_profile r \<noteq> RS_PROFILE then Inl RsUnsupportedProfile
      else
        bindE (validate_public_leaf (sq_expected_signer r)) (\<lambda>_.
        bindE (load_public sha M P t (sq_group_info r) (sq_sha256 r)) (\<lambda>(g, v).
        bindE (expected_public (ro_state (vs_roster v)) (sq_expected r)) (\<lambda>_.
        if vs_signer v \<noteq> sq_expected_signer r then Inl RsSignerMismatch else Inr (g, v)))))"

text \<open>
  A panic of the operation (\<open>None\<close>) becomes \<open>InternalFailure\<close>; the operations of the model do not
  panic.
\<close>

definition catch_unwind :: "(ResyncError + 'a) option \<Rightarrow> ResyncError + 'a" where
  "catch_unwind r = (case r of None \<Rightarrow> Inl RsInternalFailure | Some v \<Rightarrow> v)"

definition validate_snapshot ::
  "(bytes \<Rightarrow> bytes) \<Rightarrow> ('v, 'g, 'x) openmls \<Rightarrow> ('p, 'x) public_mls \<Rightarrow> u64 \<Rightarrow> SnapshotRequest
   \<Rightarrow> ResyncError + VerifiedSnapshot" where
  "validate_snapshot sha M P t r =
     catch_unwind (Some (bindE (snapshot_inner sha M P t r) (\<lambda>(_, v). Inr v)))"

section \<open>External successors\<close>

definition count_proposal ::
  "u32 \<Rightarrow> 'e \<Rightarrow> nat \<times> nat \<Rightarrow> bool \<times> queued_proposal \<Rightarrow> 'e + nat \<times> nat" where
  "count_proposal old_index e counts q =
     (if \<not> fst q then Inl e
      else case snd q of
        QueuedExternalInit \<Rightarrow> Inr (fst counts + 1, snd counts)
      | QueuedRemove v \<Rightarrow> if v = old_index then Inr (fst counts, snd counts + 1) else Inl e
      | QueuedOther \<Rightarrow> Inl e)"

text \<open>Exactly one ExternalInit and one Remove of the authorised leaf, both by value.\<close>

definition exact_proposals :: "u32 \<Rightarrow> 'e \<Rightarrow> (bool \<times> queued_proposal) list \<Rightarrow> 'e + unit" where
  "exact_proposals old_index e qs =
     bindE (foldE (count_proposal old_index e) (0, 0) qs) (\<lambda>(init, remove).
     if init \<noteq> 1 \<or> remove \<noteq> 1 then Inl e else Inr ())"

definition process_external_commit ::
  "('v, 'g, 'x) openmls \<Rightarrow> ('p, 'x) public_mls \<Rightarrow> u64 \<Rightarrow> 'p \<Rightarrow> SuccessorRequest \<Rightarrow> ResyncError + 'x" where
  "process_external_commit M P t g r =
     bindE (map_err (\<lambda>_. RsDecodeRejected) (mls_message_from_exact_bytes M (su_commit r))) (\<lambda>decoded.
     bindE (ok_or (om_protocol_message M decoded) RsProtocolRejected) (\<lambda>message.
     if om_message_group_id M message \<noteq> pm_group_id P g then Inl RsGroupMismatch
     else if om_message_epoch M message \<noteq> pm_epoch P g then Inl RsEpochMismatch
     else
       bindE (ok_or (pm_process_message P t message g) RsProtocolRejected) (\<lambda>processed.
       if pr_aad processed \<noteq> su_expected_aad r then Inl RsAadMismatch
       else if pr_sender processed \<noteq> NewMemberCommit then Inl RsIdentityMismatch
       else
         bindE (ok_or (pr_basic_identity processed) RsUnsupportedProfile) (\<lambda>identity.
         if identity \<noteq> su_authorized_new_identity r then Inl RsIdentityMismatch
         else
           bindE (case pr_content processed of StagedCommitMessage staged \<Rightarrow> Inr staged
                  | _ \<Rightarrow> Inl RsProtocolRejected) (\<lambda>staged.
           bindE (ok_or (ps_update_path_key P staged) RsProtocolRejected) (\<lambda>path_key.
           if path_key \<noteq> su_authorized_new_signature_key r then Inl RsSignerMismatch
           else
             bindE (exact_proposals (lf_index (su_authorized_old r)) RsDeltaMismatch
                     (ps_queued P staged)) (\<lambda>_.
             Inr staged)))))))"

definition check_derived ::
  "PublicRoster \<Rightarrow> PublicRoster \<Rightarrow> SuccessorRequest \<Rightarrow> ResyncError + Leaf" where
  "check_derived previous derived r =
     bindE (ok_or (u64_checked_succ (xs_epoch (ro_state previous))) RsEpochMismatch) (\<lambda>next_epoch.
     if xs_epoch (ro_state derived) \<noteq> next_epoch then Inl RsEpochMismatch
     else if length (ro_leaves derived) \<noteq> length (ro_leaves previous)
        \<or> list_ex (\<lambda>l. l \<notin> set (ro_leaves derived))
            (filter (\<lambda>l. l \<noteq> su_authorized_old r) (ro_leaves previous))
        \<or> su_authorized_old r \<in> set (ro_leaves derived)
     then Inl RsDeltaMismatch
     else ok_or (find (\<lambda>l. lf_identity l = su_authorized_new_identity r
            \<and> lf_signature_key l = su_authorized_new_signature_key r) (ro_leaves derived))
          RsDeltaMismatch)"

definition successor_inner ::
  "(bytes \<Rightarrow> bytes) \<Rightarrow> ('v, 'g, 'x) openmls \<Rightarrow> ('p, 'x) public_mls \<Rightarrow> (nat \<Rightarrow> u64) \<Rightarrow> SuccessorRequest
   \<Rightarrow> ResyncError + VerifiedSuccessor" where
  "successor_inner sha M P now r =
     (if su_expected_aad r = [] \<or> length (su_expected_aad r) > MAX_AAD_BYTES
         \<or> length (su_authorized_new_identity r) \<noteq> 45
         \<or> length (su_authorized_new_signature_key r) \<noteq> 32
      then Inl RsLimitExceeded
      else
        bindE (validate_public_leaf (su_authorized_old r)) (\<lambda>_.
        bindE (snapshot_inner sha M P (now 0) (su_base r)) (\<lambda>(g, previous).
        if su_authorized_old r \<notin> set (ro_leaves (vs_roster previous)) then Inl RsIdentityMismatch
        else if list_ex (\<lambda>l. l \<noteq> su_authorized_old r \<and> lf_identity l = su_authorized_new_identity r
               \<or> lf_signature_key l = su_authorized_new_signature_key r) (ro_leaves (vs_roster previous))
        then Inl RsIdentityMismatch
        else
          bindE (external_commit (su_commit r)) (\<lambda>_.
          bindE (check_hash sha (su_commit r) (su_commit_sha256 r)) (\<lambda>_.
          bindE (process_external_commit M P (now 1) g r) (\<lambda>staged.
          bindE (ok_or (pm_merge_commit P staged g) RsInternalFailure) (\<lambda>g.
          bindE (public_roster sha P g) (\<lambda>derived.
          bindE (check_derived (vs_roster previous) derived r) (\<lambda>new_leaf.
          bindE (load_public sha M P (now 2) (su_reported_next_group_info r)
                  (su_reported_next_sha256 r)) (\<lambda>(next, resulting).
          if vs_signer resulting \<noteq> new_leaf then Inl RsSignerMismatch
          else if vs_roster resulting \<noteq> derived
             \<or> pm_group_context P g \<noteq> pm_group_context P next
             \<or> pm_export_ratchet_tree P g \<noteq> pm_export_ratchet_tree P next
             \<or> pm_confirmation_tag P g \<noteq> pm_confirmation_tag P next
          then Inl RsSuccessorMismatch
          else Inr \<lparr>vc_previous = previous, vc_commit_sha256 = su_commit_sha256 r,
                 vc_aad_sha256 = sha (su_expected_aad r), vc_resulting = resulting\<rparr>)))))))))) "

definition validate_external_successor ::
  "(bytes \<Rightarrow> bytes) \<Rightarrow> ('v, 'g, 'x) openmls \<Rightarrow> ('p, 'x) public_mls \<Rightarrow> (nat \<Rightarrow> u64) \<Rightarrow> SuccessorRequest
   \<Rightarrow> ResyncError + VerifiedSuccessor" where
  "validate_external_successor sha M P now r = catch_unwind (Some (successor_inner sha M P now r))"

end
