(* ===== verification/ResyncCodec.thy ===== *)
theory ResyncCodec
  imports ResyncPublic Cbor
begin

text \<open>
  \<open>rust/src/external_resync/codec.rs\<close>: the framed request and response of the one-shot public
  validator (\<open>KMPV/1\<close>), and \<open>execute\<close>, which answers every input with exactly one frame. \<open>C\<close> is
  the CBOR library; the position of a decoder is what remains of its input.
\<close>

definition VERSION :: u16 where "VERSION = 1"
definition REQUEST_MAX_BYTES :: nat where "REQUEST_MAX_BYTES = 4 * 1024 * 1024"
definition RESULT_MAX_BYTES :: nat where "RESULT_MAX_BYTES = 256 * 1024"
definition HEADER :: nat where "HEADER = 12"
definition KMPV :: bytes where "KMPV = ascii ''KMPV''"

datatype Request = RqSnapshot SnapshotRequest | RqSuccessor SuccessorRequest

section \<open>Decoding\<close>

definition rs_item :: "(bytes \<Rightarrow> ('a \<times> bytes) option) \<Rightarrow> 'a scan" where
  "rs_item item =
     (\<lambda>input. case item input of Some (a, rest) \<Rightarrow> (Inr a, rest) | None \<Rightarrow> (Inl RsInvalidFrame, input))"

definition rs_array :: "cbor \<Rightarrow> u64 \<Rightarrow> unit scan" where
  "rs_array C n = bindS (rs_item (cd_array C)) (\<lambda>k.
     if k \<noteq> Some n then liftS (Inl RsInvalidFrame) else returnS ())"

definition rs_bytes :: "cbor \<Rightarrow> nat \<Rightarrow> nat \<Rightarrow> bytes scan" where
  "rs_bytes C mn mx = bindS (rs_item (cd_bytes C)) (\<lambda>b.
     if length b < mn \<or> length b > mx then liftS (Inl RsLimitExceeded) else returnS b)"

definition rs_leaf :: "cbor \<Rightarrow> Leaf scan" where
  "rs_leaf C =
     bindS (rs_array C 3) (\<lambda>_.
     bindS (rs_item (cd_u32 C)) (\<lambda>index.
     bindS (rs_bytes C 45 45) (\<lambda>identity.
     bindS (rs_bytes C 32 32) (\<lambda>key.
     let l = \<lparr>lf_index = index, lf_identity = identity, lf_signature_key = key\<rparr> in
     bindS (liftS (validate_public_leaf l)) (\<lambda>_.
     returnS l)))))"

definition rs_state :: "cbor \<Rightarrow> ExpectedState scan" where
  "rs_state C =
     bindS (rs_array C 3) (\<lambda>_.
     bindS (rs_bytes C 16 16) (\<lambda>gid.
     bindS (rs_item (cd_u64 C)) (\<lambda>ep.
     bindS (rs_bytes C 32 32) (\<lambda>digest.
     returnS \<lparr>xs_group_id = gid, xs_epoch = ep, xs_roster_sha256 = digest\<rparr>))))"

definition rs_snapshot :: "cbor \<Rightarrow> SnapshotRequest scan" where
  "rs_snapshot C =
     bindS (rs_array C 5) (\<lambda>_.
     bindS (rs_item (cd_u16 C)) (\<lambda>profile.
     bindS (rs_bytes C 1 MAX_MLS_BYTES) (\<lambda>info.
     bindS (rs_bytes C 32 32) (\<lambda>hash.
     bindS (rs_state C) (\<lambda>state.
     bindS (rs_leaf C) (\<lambda>signer.
     returnS \<lparr>sq_profile = profile, sq_group_info = info, sq_sha256 = hash, sq_expected = state,
       sq_expected_signer = signer\<rparr>))))))"

definition rs_successor :: "cbor \<Rightarrow> SuccessorRequest scan" where
  "rs_successor C =
     bindS (rs_array C 9) (\<lambda>_.
     bindS (rs_snapshot C) (\<lambda>base.
     bindS (rs_bytes C 1 MAX_MLS_BYTES) (\<lambda>commit.
     bindS (rs_bytes C 32 32) (\<lambda>commit_hash.
     bindS (rs_bytes C 1 MAX_AAD_BYTES) (\<lambda>aad.
     bindS (rs_leaf C) (\<lambda>old.
     bindS (rs_bytes C 45 45) (\<lambda>new_identity.
     bindS (rs_bytes C 32 32) (\<lambda>new_key.
     bindS (rs_bytes C 1 MAX_MLS_BYTES) (\<lambda>next_info.
     bindS (rs_bytes C 32 32) (\<lambda>next_hash.
     returnS \<lparr>su_base = base, su_commit = commit, su_commit_sha256 = commit_hash,
       su_expected_aad = aad, su_authorized_old = old, su_authorized_new_identity = new_identity,
       su_authorized_new_signature_key = new_key, su_reported_next_group_info = next_info,
       su_reported_next_sha256 = next_hash\<rparr>))))))))))"

section \<open>Encoding\<close>

definition put_leaf :: "cbor \<Rightarrow> Leaf \<Rightarrow> bytes" where
  "put_leaf C l = cb_array C 3 @ cb_u32 C (lf_index l) @ cb_bytes C (lf_identity l)
     @ cb_bytes C (lf_signature_key l)"

definition put_state :: "cbor \<Rightarrow> ExpectedState \<Rightarrow> bytes" where
  "put_state C s = cb_array C 3 @ cb_bytes C (xs_group_id s) @ cb_u64 C (xs_epoch s)
     @ cb_bytes C (xs_roster_sha256 s)"

definition put_snapshot_request :: "cbor \<Rightarrow> SnapshotRequest \<Rightarrow> bytes" where
  "put_snapshot_request C r = cb_array C 5 @ cb_u16 C (sq_profile r) @ cb_bytes C (sq_group_info r)
     @ cb_bytes C (sq_sha256 r) @ put_state C (sq_expected r) @ put_leaf C (sq_expected_signer r)"

definition put_successor_request :: "cbor \<Rightarrow> SuccessorRequest \<Rightarrow> bytes" where
  "put_successor_request C s = cb_array C 9 @ put_snapshot_request C (su_base s)
     @ cb_bytes C (su_commit s) @ cb_bytes C (su_commit_sha256 s) @ cb_bytes C (su_expected_aad s)
     @ put_leaf C (su_authorized_old s) @ cb_bytes C (su_authorized_new_identity s)
     @ cb_bytes C (su_authorized_new_signature_key s) @ cb_bytes C (su_reported_next_group_info s)
     @ cb_bytes C (su_reported_next_sha256 s)"

fun payload :: "cbor \<Rightarrow> Request \<Rightarrow> bytes" where
  "payload C (RqSnapshot s) = put_snapshot_request C s"
| "payload C (RqSuccessor s) = put_successor_request C s"

definition frame :: "byte \<Rightarrow> bool \<Rightarrow> bytes \<Rightarrow> bytes" where
  "frame operation response p =
     KMPV @ be16 VERSION @ [operation, of_bool response] @ be32 (of_nat (length p)) @ p"

fun operation_of :: "Request \<Rightarrow> byte" where
  "operation_of (RqSnapshot s) = 1"
| "operation_of (RqSuccessor s) = 2"

definition encode_request :: "cbor \<Rightarrow> Request \<Rightarrow> ResyncError + bytes" where
  "encode_request C r =
     (let p = payload C r in
      if length p > REQUEST_MAX_BYTES - HEADER then Inl RsLimitExceeded
      else Inr (frame (operation_of r) False p))"

definition rs_request :: "cbor \<Rightarrow> byte \<Rightarrow> Request scan" where
  "rs_request C operation =
     (if operation = 1 then bindS (rs_snapshot C) (\<lambda>s. returnS (RqSnapshot s))
      else if operation = 2 then bindS (rs_successor C) (\<lambda>s. returnS (RqSuccessor s))
      else liftS (Inl RsUnsupportedOperation))"

definition decode_request :: "cbor \<Rightarrow> bytes \<Rightarrow> ResyncError + Request" where
  "decode_request C input =
     (if length input > REQUEST_MAX_BYTES then Inl RsLimitExceeded
      else if length input < HEADER \<or> take 4 input \<noteq> KMPV \<or> input ! 7 \<noteq> 0 then Inl RsInvalidFrame
      else if word_of_be [input ! 4, input ! 5] \<noteq> VERSION then Inl RsUnsupportedVersion
      else
        let n = unat (word_of_be [input ! 8, input ! 9, input ! 10, input ! 11] :: u32) in
        if n \<noteq> length input - HEADER then Inl RsInvalidFrame
        else case rs_request C (input ! 6) (drop HEADER input) of
          (Inl e, _) \<Rightarrow> Inl e
        | (Inr r, rest) \<Rightarrow>
            if rest \<noteq> [] then Inl RsInvalidFrame
            else if payload C r \<noteq> drop HEADER input then Inl RsNoncanonicalEncoding
            else Inr r)"

section \<open>Responses\<close>

definition put_verified :: "cbor \<Rightarrow> VerifiedSnapshot \<Rightarrow> bytes" where
  "put_verified C v = cb_array C 4 @ cb_u16 C (vs_profile v) @ cb_bytes C (vs_sha256 v)
     @ cb_array C 4 @ cb_bytes C (xs_group_id (ro_state (vs_roster v)))
     @ cb_u64 C (xs_epoch (ro_state (vs_roster v)))
     @ cb_bytes C (xs_roster_sha256 (ro_state (vs_roster v)))
     @ cb_array C (of_nat (length (ro_leaves (vs_roster v))))
     @ concat (map (put_leaf C) (ro_leaves (vs_roster v)))
     @ put_leaf C (vs_signer v)"

definition put_successor :: "cbor \<Rightarrow> VerifiedSuccessor \<Rightarrow> bytes" where
  "put_successor C v = cb_array C 4 @ put_verified C (vc_previous v) @ cb_bytes C (vc_commit_sha256 v)
     @ cb_bytes C (vc_aad_sha256 v) @ put_verified C (vc_resulting v)"

definition failure :: "cbor \<Rightarrow> byte \<Rightarrow> bytes \<Rightarrow> ResyncError \<Rightarrow> bytes" where
  "failure C operation digest e =
     frame operation True
       (cb_array C 3 @ cb_bytes C digest @ cb_u16 C (resync_error_code e) @ cb_null C)"

definition respond ::
  "(bytes \<Rightarrow> bytes) \<Rightarrow> cbor \<Rightarrow> ('v, 'g, 'x) openmls \<Rightarrow> ('p, 'x) public_mls \<Rightarrow> (nat \<Rightarrow> u64)
   \<Rightarrow> Request \<Rightarrow> ResyncError + bytes" where
  "respond sha C M P now request =
     (case request of
        RqSnapshot s \<Rightarrow>
          bindE (validate_snapshot sha M P (now 0) s) (\<lambda>v. Inr (put_verified C v))
      | RqSuccessor s \<Rightarrow>
          bindE (validate_external_successor sha M P now s) (\<lambda>v. Inr (put_successor C v)))"

definition run_request ::
  "(bytes \<Rightarrow> bytes) \<Rightarrow> cbor \<Rightarrow> ('v, 'g, 'x) openmls \<Rightarrow> ('p, 'x) public_mls \<Rightarrow> (nat \<Rightarrow> u64)
   \<Rightarrow> byte \<Rightarrow> bytes \<Rightarrow> ResyncError + bytes" where
  "run_request sha C M P now op input =
     bindE (decode_request C input) (\<lambda>request.
     bindE (respond sha C M P now request) (\<lambda>answer.
     let result = frame op True
           (cb_array C 3 @ cb_bytes C (sha input) @ cb_u16 C 0 @ answer) in
     if length result > RESULT_MAX_BYTES then Inl RsLimitExceeded else Inr result))"

definition execute_resync ::
  "(bytes \<Rightarrow> bytes) \<Rightarrow> cbor \<Rightarrow> ('v, 'g, 'x) openmls \<Rightarrow> ('p, 'x) public_mls \<Rightarrow> (nat \<Rightarrow> u64)
   \<Rightarrow> bytes \<Rightarrow> bytes" where
  "execute_resync sha C M P now input =
     (if length input > REQUEST_MAX_BYTES then failure C 0 (replicate 32 0) RsLimitExceeded
      else
        let op = (if 6 < length input then input ! 6 else 0) in
        case catch_unwind (Some (run_request sha C M P now op input)) of
          Inr r \<Rightarrow> r
        | Inl e \<Rightarrow> failure C op (sha input) e)"

text \<open>
  \<open>bin/openmls_public_validator.rs\<close>: the process reads at most one byte more than a request may
  have, so that a longer standard input is refused and not truncated into a valid request; the
  result is what it writes, \<open>None\<close> the exit status 74 of a failed read or write.
\<close>

definition public_validator_main ::
  "(bytes \<Rightarrow> bytes) \<Rightarrow> cbor \<Rightarrow> ('v, 'g, 'x) openmls \<Rightarrow> ('p, 'x) public_mls \<Rightarrow> (nat \<Rightarrow> u64)
   \<Rightarrow> bytes option \<Rightarrow> bool \<Rightarrow> bytes option" where
  "public_validator_main sha C M P now stdin stdout_ok =
     (case stdin of
        None \<Rightarrow> None
      | Some all \<Rightarrow>
          let result = execute_resync sha C M P now (take (REQUEST_MAX_BYTES + 1) all) in
          if stdout_ok then Some result else None)"

end
