(* ===== verification/Candidate.thy ===== *)
theory Candidate
  imports Api ResyncCodec
begin

text \<open>
  The member side of the external resynchronisation: the data of
  \<open>rust/src/api/external_resync.rs\<close>, the conversions and checks at the head of
  \<open>rust/src/api/group_e2ee/runtime/external.rs\<close>, and the inactive candidate of
  \<open>external/candidate.rs\<close>, an opaque envelope that a member keeps between the preparation of an
  external Commit and its acceptance. \<open>load\<close> is the lifecycle's opening of a snapshot.
\<close>

section \<open>Data\<close>

record MlsExternalPreparationV1 =
  ep_candidate_id :: bytes
  ep_incarnation_id :: bytes
  ep_transition :: MlsTransitionContext
  ep_local_lifecycle_context_sha256 :: bytes
  ep_input_group_info :: bytes
  ep_input_group_info_sha256 :: bytes
  ep_expected_previous_state :: MlsExpectedRosterStateV1
  ep_expected_snapshot_signer :: MlsRosterLeafV1
  ep_authorized_old_leaf :: MlsRosterLeafV1
  ep_authorized_new_credential_identity :: bytes
  ep_authorized_new_signature_public_key :: bytes
  ep_aad :: bytes
  ep_retention :: u32

record MlsExternalCommitBindingV1 =
  eb_candidate_id :: bytes
  eb_incarnation_id :: bytes
  eb_transition :: MlsTransitionContext
  eb_previous_state :: MlsExpectedRosterStateV1
  eb_old_leaf :: MlsRosterLeafV1
  eb_author :: MlsRosterLeafV1
  eb_input_group_info_sha256 :: bytes
  eb_commit_sha256 :: bytes
  eb_aad_sha256 :: bytes
  eb_resulting_group_info_sha256 :: bytes

record MlsExternalCommitAcceptanceV1 =
  ea_binding :: MlsExternalCommitBindingV1
  ea_resulting_state :: MlsExpectedRosterStateV1

record ExternalCommitCandidateInfo =
  ci_binding :: MlsExternalCommitBindingV1
  ci_previous_roster :: MlsRosterSummaryV1
  ci_proposed_resulting_roster :: MlsRosterSummaryV1
  ci_commit :: bytes
  ci_group_info :: bytes
  ci_candidate_sha256 :: bytes
  ci_local_lifecycle_context_sha256 :: bytes
  ci_effective_retention :: u32

record PrepareExternalCommitResult =
  pe_candidate_bytes :: bytes
  pe_info :: ExternalCommitCandidateInfo

record MlsExternalTargetContextV1 =
  et_group_id :: bytes
  et_incarnation_id :: bytes
  et_local_lifecycle_context_sha256 :: bytes
  et_storage_entries :: "MlsStorageEntry list"
  et_storage_format_version :: u32

record AcceptExternalCommitResult =
  ae_candidate_sha256 :: bytes
  ae_local_leaf :: MlsRosterLeafV1
  ae_resulting_roster :: MlsRosterSummaryV1
  ae_resulting_group_state_sha256 :: bytes
  ae_effective_retention :: u32
  ae_storage_batch :: MlsStorageBatch

record ProcessExternalCommitResult =
  xr_authenticated_sender :: MlsRosterLeafV1
  xr_previous_roster :: MlsRosterSummaryV1
  xr_resulting_roster :: MlsRosterSummaryV1
  xr_resulting_group_state_sha256 :: bytes
  xr_effective_retention :: u32
  xr_superseded_pending :: "MlsPendingCommitBinding option"
  xr_storage_batch :: MlsStorageBatch

section \<open>Conversions and checks\<close>

definition public_leaf :: "MlsRosterLeafV1 \<Rightarrow> Leaf" where
  "public_leaf l = \<lparr>lf_index = leaf_index l, lf_identity = credential_identity l,
     lf_signature_key = signature_public_key l\<rparr>"

definition local_leaf :: "Leaf \<Rightarrow> MlsRosterLeafV1" where
  "local_leaf l = \<lparr>leaf_index = lf_index l, credential_identity = lf_identity l,
     signature_public_key = lf_signature_key l\<rparr>"

definition local_roster :: "PublicRoster \<Rightarrow> MlsRosterSummaryV1" where
  "local_roster r = \<lparr>group_id = xs_group_id (ro_state r), epoch = xs_epoch (ro_state r),
     leaves = map local_leaf (ro_leaves r), digest_sha256 = xs_roster_sha256 (ro_state r)\<rparr>"

fun public_error :: "ResyncError \<Rightarrow> MlsErrorCode" where
  "public_error RsLimitExceeded = LimitExceeded"
| "public_error RsGroupMismatch = GroupMismatch"
| "public_error RsEpochMismatch = PreviousEpochMismatch"
| "public_error RsRosterMismatch = PreviousRosterMismatch"
| "public_error RsSignerMismatch = SenderMismatch"
| "public_error RsIdentityMismatch = ExternalDeltaMismatch"
| "public_error RsDeltaMismatch = ExternalDeltaMismatch"
| "public_error RsAadMismatch = AadMismatch"
| "public_error RsHashMismatch = WireHashMismatch"
| "public_error RsUnsupportedProfile = UnsupportedProfile"
| "public_error RsInternalFailure = InternalFailure"
| "public_error _ = MlsProtocolRejected"

definition external_id :: "bytes \<Rightarrow> MlsErrorCode + unit" where
  "external_id b = (if \<not> (1 \<le> length b \<and> length b \<le> 128) then Inl LimitExceeded else Inr ())"

definition fixed32 :: "bytes \<Rightarrow> MlsErrorCode + unit" where
  "fixed32 b = (if length b \<noteq> 32 then Inl LimitExceeded else Inr ())"

definition leaf_bounds :: "MlsRosterLeafV1 \<Rightarrow> MlsErrorCode + unit" where
  "leaf_bounds l = map_err public_error (validate_public_leaf (public_leaf l))"

definition validate_binding :: "MlsExternalCommitBindingV1 \<Rightarrow> MlsErrorCode + unit" where
  "validate_binding b =
     bindE (external_id (eb_candidate_id b)) (\<lambda>_.
     bindE (external_id (eb_incarnation_id b)) (\<lambda>_.
     bindE (external_id (command_id (eb_transition b))) (\<lambda>_.
     bindE (eachE fixed32 [context_sha256 (eb_transition b), es_digest_sha256 (eb_previous_state b),
              eb_input_group_info_sha256 b, eb_commit_sha256 b, eb_aad_sha256 b,
              eb_resulting_group_info_sha256 b]) (\<lambda>_.
     if length (es_group_id (eb_previous_state b)) \<noteq> 16 then Inl LimitExceeded
     else bindE (leaf_bounds (eb_old_leaf b)) (\<lambda>_. leaf_bounds (eb_author b))))))"

text \<open>The authorised old leaf is a member, and no leaf but it shares the new identity; the key is new.\<close>

definition replacement_authorised :: "MlsRosterLeafV1 list \<Rightarrow> MlsRosterLeafV1 \<Rightarrow> bytes \<Rightarrow> bytes \<Rightarrow> bool" where
  "replacement_authorised ls old identity signature_key \<longleftrightarrow>
     old \<in> set ls \<and>
     \<not> list_ex (\<lambda>l. signature_public_key l = signature_key \<or> l \<noteq> old \<and> credential_identity l = identity) ls"

definition validate_delta ::
  "(bytes \<Rightarrow> bytes) \<Rightarrow> MlsRosterSummaryV1 \<Rightarrow> MlsRosterSummaryV1 \<Rightarrow> MlsRosterLeafV1 \<Rightarrow> MlsRosterLeafV1
   \<Rightarrow> MlsErrorCode + unit" where
  "validate_delta sha previous resulting old new =
     bindE (leaf_bounds old) (\<lambda>_.
     bindE (leaf_bounds new) (\<lambda>_.
     if \<not> replacement_authorised (leaves previous) old (credential_identity new) (signature_public_key new)
        \<or> length (leaves previous) \<noteq> length (leaves resulting)
        \<or> group_id previous \<noteq> group_id resulting
        \<or> u64_checked_succ (epoch previous) \<noteq> Some (epoch resulting)
        \<or> list_ex (\<lambda>l. l \<notin> set (leaves resulting)) (filter (\<lambda>l. l \<noteq> old) (leaves previous))
        \<or> old \<in> set (leaves resulting)
        \<or> length (filter (\<lambda>l. l = new) (leaves resulting)) \<noteq> 1
     then Inl ExternalDeltaMismatch
     else
       bindE (map_err (\<lambda>_. ExternalDeltaMismatch) (validate_canonical_leaves (leaves resulting))) (\<lambda>_.
       bindE (map_err (\<lambda>_. ExternalDeltaMismatch)
               (roster_digest sha (group_id resulting) (epoch resulting) (leaves resulting))) (\<lambda>d.
       if d \<noteq> digest_sha256 resulting then Inl ResultingRosterMismatch else Inr ()))))"

section \<open>The candidate\<close>

definition MAX_BYTES :: nat where "MAX_BYTES = 12 * 1024 * 1024"

record Candidate =
  ca_candidate_id :: bytes
  ca_incarnation_id :: bytes
  ca_transition :: MlsTransitionContext
  ca_lifecycle :: bytes
  ca_retention :: u32
  ca_proof :: SuccessorRequest
  ca_previous :: MlsRosterSummaryV1
  ca_resulting :: MlsRosterSummaryV1
  ca_private_digest :: bytes
  ca_rows :: "MlsStorageEntry list"

definition candidate_binding ::
  "(bytes \<Rightarrow> bytes) \<Rightarrow> Candidate \<Rightarrow> MlsErrorCode + MlsExternalCommitBindingV1" where
  "candidate_binding sha c =
     bindE (ok_or (find (\<lambda>l. credential_identity l = su_authorized_new_identity (ca_proof c)
              \<and> signature_public_key l = su_authorized_new_signature_key (ca_proof c))
              (leaves (ca_resulting c))) ExternalCandidateInvalid) (\<lambda>author.
     Inr \<lparr>eb_candidate_id = ca_candidate_id c, eb_incarnation_id = ca_incarnation_id c,
       eb_transition = ca_transition c, eb_previous_state = expected (ca_previous c),
       eb_old_leaf = local_leaf (su_authorized_old (ca_proof c)), eb_author = author,
       eb_input_group_info_sha256 = sq_sha256 (su_base (ca_proof c)),
       eb_commit_sha256 = su_commit_sha256 (ca_proof c),
       eb_aad_sha256 = sha (su_expected_aad (ca_proof c)),
       eb_resulting_group_info_sha256 = su_reported_next_sha256 (ca_proof c)\<rparr>)"

definition candidate_info ::
  "(bytes \<Rightarrow> bytes) \<Rightarrow> Candidate \<Rightarrow> bytes \<Rightarrow> MlsErrorCode + ExternalCommitCandidateInfo" where
  "candidate_info sha c candidate_hash =
     bindE (candidate_binding sha c) (\<lambda>b.
     Inr \<lparr>ci_binding = b, ci_previous_roster = ca_previous c,
       ci_proposed_resulting_roster = ca_resulting c, ci_commit = su_commit (ca_proof c),
       ci_group_info = su_reported_next_group_info (ca_proof c),
       ci_candidate_sha256 = candidate_hash,
       ci_local_lifecycle_context_sha256 = ca_lifecycle c,
       ci_effective_retention = ca_retention c\<rparr>)"

section \<open>Encoding\<close>

definition put_roster :: "cbor \<Rightarrow> MlsRosterSummaryV1 \<Rightarrow> bytes" where
  "put_roster C r = cb_array C 4 @ cb_bytes C (group_id r) @ cb_u64 C (epoch r)
     @ cb_bytes C (digest_sha256 r) @ cb_array C (of_nat (length (leaves r)))
     @ concat (map (leaf_encode C) (leaves r))"

definition put_entry :: "cbor \<Rightarrow> MlsStorageEntry \<Rightarrow> bytes" where
  "put_entry C r = cb_array C 2 @ cb_bytes C (entry_key r) @ cb_bytes C (entry_value r)"

definition put_candidate :: "cbor \<Rightarrow> bytes \<Rightarrow> Candidate \<Rightarrow> bytes" where
  "put_candidate C proof_bytes c =
     cb_array C 12 @ cb_u16 C 1 @ cb_bytes C (ca_candidate_id c) @ cb_bytes C (ca_incarnation_id c)
     @ cb_bytes C (command_id (ca_transition c)) @ cb_bytes C (context_sha256 (ca_transition c))
     @ cb_bytes C (ca_lifecycle c) @ cb_u32 C (ca_retention c) @ cb_bytes C proof_bytes
     @ put_roster C (ca_previous c) @ put_roster C (ca_resulting c)
     @ cb_bytes C (ca_private_digest c) @ cb_array C (of_nat (length (ca_rows c)))
     @ concat (map (put_entry C) (ca_rows c))"

definition candidate_encode :: "cbor \<Rightarrow> Candidate \<Rightarrow> MlsErrorCode + bytes" where
  "candidate_encode C c =
     bindE (bounded_entries (ca_rows c)) (\<lambda>_.
     bindE (map_err public_error (encode_request C (RqSuccessor (ca_proof c)))) (\<lambda>proof_bytes.
     let out = put_candidate C proof_bytes c in
     if length out > MAX_BYTES then Inl LimitExceeded else Inr out))"

section \<open>Reading\<close>

definition ca_array :: "cbor \<Rightarrow> u64 \<Rightarrow> unit reader" where
  "ca_array C n = bindS (take_item (cd_array C) ExternalCandidateInvalid) (\<lambda>k.
     if k \<noteq> Some n then liftS (Inl ExternalCandidateInvalid) else returnS ())"

definition ca_bytes :: "cbor \<Rightarrow> nat \<Rightarrow> nat \<Rightarrow> bytes reader" where
  "ca_bytes C mn mx = bindS (take_item (cd_bytes C) ExternalCandidateInvalid) (\<lambda>b.
     if \<not> (mn \<le> length b \<and> length b \<le> mx) then liftS (Inl LimitExceeded) else returnS b)"

definition ca_count :: "cbor \<Rightarrow> nat \<Rightarrow> nat \<Rightarrow> nat reader" where
  "ca_count C mn mx =
     bindS (take_item (cd_array C) ExternalCandidateInvalid) (\<lambda>n.
     bindS (liftS (ok_or n ExternalCandidateInvalid)) (\<lambda>n.
     if \<not> (mn \<le> unat n \<and> unat n \<le> mx) then liftS (Inl LimitExceeded) else returnS (unat n)))"

definition ca_leaf :: "cbor \<Rightarrow> MlsRosterLeafV1 reader" where
  "ca_leaf C =
     bindS (ca_array C 3) (\<lambda>_.
     bindS (take_item (cd_u32 C) ExternalCandidateInvalid) (\<lambda>index.
     bindS (ca_bytes C 45 45) (\<lambda>identity.
     bindS (ca_bytes C 32 32) (\<lambda>signature_key.
     let l = \<lparr>leaf_index = index, credential_identity = identity, signature_public_key = signature_key\<rparr> in
     bindS (liftS (leaf_bounds l)) (\<lambda>_. returnS l)))))"

definition candidate_roster :: "(bytes \<Rightarrow> bytes) \<Rightarrow> cbor \<Rightarrow> MlsRosterSummaryV1 reader" where
  "candidate_roster sha C =
     bindS (ca_array C 4) (\<lambda>_.
     bindS (ca_bytes C 16 16) (\<lambda>gid.
     bindS (take_item (cd_u64 C) ExternalCandidateInvalid) (\<lambda>ep.
     bindS (ca_bytes C 32 32) (\<lambda>digest.
     bindS (ca_count C 1 256) (\<lambda>n.
     bindS (timesS n (ca_leaf C)) (\<lambda>ls.
     bindS (liftS (map_err (\<lambda>_. ExternalCandidateInvalid) (validate_canonical_leaves ls))) (\<lambda>_.
     bindS (liftS (map_err (\<lambda>_. ExternalCandidateInvalid) (roster_digest sha gid ep ls))) (\<lambda>d.
     if d \<noteq> digest then liftS (Inl ExternalCandidateInvalid)
     else returnS \<lparr>group_id = gid, epoch = ep, leaves = ls, digest_sha256 = digest\<rparr>))))))))"

definition row_fields :: "cbor \<Rightarrow> (bytes \<times> bytes) reader" where
  "row_fields C =
     bindS (ca_array C 2) (\<lambda>_.
     bindS (ca_bytes C 1 4096) (\<lambda>k.
     bindS (ca_bytes C 0 (2 * 1024 * 1024)) (\<lambda>v.
     returnS (k, v))))"

text \<open>
  The first pass over the rows, on a copy of the decoder: the sizes are summed before any row is
  kept, and nothing may follow the rows.
\<close>

definition add_row_bytes :: "nat \<Rightarrow> bytes \<times> bytes \<Rightarrow> MlsErrorCode + nat" where
  "add_row_bytes acc kv =
     bindE (ok_or (usize_checked_add acc
              (length (fst kv) + length (snd kv) + (if is_global_key (fst kv) then 0 else 16)))
            LimitExceeded) (\<lambda>sum.
     if sum > 6 * 1024 * 1024 then Inl LimitExceeded else Inr sum)"

fun scan_rows :: "cbor \<Rightarrow> nat \<Rightarrow> nat \<Rightarrow> nat reader" where
  "scan_rows C 0 acc = returnS acc"
| "scan_rows C (Suc n) acc =
     bindS (row_fields C) (\<lambda>kv. bindS (liftS (add_row_bytes acc kv)) (scan_rows C n))"

definition check_rows :: "cbor \<Rightarrow> nat \<Rightarrow> unit reader" where
  "check_rows C n = readS (\<lambda>input.
     case scan_rows C n 0 input of
       (Inl e, _) \<Rightarrow> Inl e
     | (Inr _, rest) \<Rightarrow> if rest \<noteq> [] then Inl ExternalCandidateInvalid else Inr ())"

definition row_reader :: "cbor \<Rightarrow> bytes \<Rightarrow> MlsStorageEntry reader" where
  "row_reader C gid = bindS (row_fields C) (\<lambda>(k, v).
     returnS \<lparr>entry_key = k, entry_value = v,
       entry_group_id = (if is_global_key k then None else Some gid)\<rparr>)"

definition out_of_order :: "MlsStorageEntry list \<Rightarrow> bool" where
  "out_of_order rows \<longleftrightarrow> list_ex (\<lambda>(a, b). entry_key a \<ge> entry_key b) (zip rows (tl rows))"

definition read_proof :: "cbor \<Rightarrow> SuccessorRequest reader" where
  "read_proof C =
     bindS (ca_bytes C 1 REQUEST_MAX_BYTES) (\<lambda>b.
     bindS (liftS (map_err public_error (decode_request C b))) (\<lambda>q.
     case q of RqSuccessor p \<Rightarrow> returnS p | RqSnapshot _ \<Rightarrow> liftS (Inl ExternalCandidateInvalid)))"

definition candidate_fields :: "(bytes \<Rightarrow> bytes) \<Rightarrow> cbor \<Rightarrow> Candidate reader" where
  "candidate_fields sha C =
     bindS (ca_array C 12) (\<lambda>_.
     bindS (take_item (cd_u16 C) ExternalCandidateInvalid) (\<lambda>version.
     if version \<noteq> 1 then liftS (Inl ExternalCandidateInvalid)
     else
     bindS (ca_bytes C 1 128) (\<lambda>candidate_id.
     bindS (ca_bytes C 1 128) (\<lambda>incarnation_id.
     bindS (ca_bytes C 1 128) (\<lambda>command.
     bindS (ca_bytes C 32 32) (\<lambda>ctx.
     bindS (ca_bytes C 32 32) (\<lambda>lifecycle.
     bindS (take_item (cd_u32 C) ExternalCandidateInvalid) (\<lambda>retention.
     bindS (liftS (validate_retention retention)) (\<lambda>_.
     bindS (read_proof C) (\<lambda>prf.
     bindS (candidate_roster sha C) (\<lambda>previous.
     bindS (candidate_roster sha C) (\<lambda>resulting.
     bindS (ca_bytes C 32 32) (\<lambda>private_digest.
     bindS (ca_count C 0 4096) (\<lambda>n.
     bindS (check_rows C n) (\<lambda>_.
     bindS (timesS n (row_reader C (group_id resulting))) (\<lambda>rows.
     if out_of_order rows then liftS (Inl ExternalCandidateInvalid)
     else returnS \<lparr>ca_candidate_id = candidate_id, ca_incarnation_id = incarnation_id,
       ca_transition = \<lparr>command_id = command, context_sha256 = ctx\<rparr>, ca_lifecycle = lifecycle,
       ca_retention = retention, ca_proof = prf, ca_previous = previous, ca_resulting = resulting,
       ca_private_digest = private_digest, ca_rows = rows\<rparr>))))))))))))))))"

definition candidate_context :: "Candidate \<Rightarrow> Context" where
  "candidate_context c = \<lparr>cx_group_id = group_id (ca_resulting c),
     cx_incarnation_id = ca_incarnation_id c, cx_expected_current = expected (ca_resulting c),
     cx_expected_base_sha256 = ca_private_digest c, cx_expected_retention = ca_retention c,
     cx_entries = ca_rows c, cx_storage_format = 1\<rparr>"

definition validate_candidate ::
  "(bytes \<Rightarrow> bytes) \<Rightarrow> cbor \<Rightarrow> 'v storage_env \<Rightarrow> ('v, 'g, 'x) openmls \<Rightarrow> Candidate
   \<Rightarrow> MlsErrorCode + unit" where
  "validate_candidate sha C E M c =
     bindE (candidate_binding sha c) (\<lambda>b.
     bindE (validate_binding b) (\<lambda>_.
     if sq_profile (su_base (ca_proof c)) \<noteq> RS_PROFILE
        \<or> xs_group_id (sq_expected (su_base (ca_proof c))) \<noteq> group_id (ca_previous c)
        \<or> xs_epoch (sq_expected (su_base (ca_proof c))) \<noteq> epoch (ca_previous c)
        \<or> xs_roster_sha256 (sq_expected (su_base (ca_proof c))) \<noteq> digest_sha256 (ca_previous c)
     then Inl ExternalCandidateInvalid
     else if sha (sq_group_info (su_base (ca_proof c))) \<noteq> eb_input_group_info_sha256 b
        \<or> sha (su_commit (ca_proof c)) \<noteq> eb_commit_sha256 b
        \<or> sha (su_reported_next_group_info (ca_proof c)) \<noteq> eb_resulting_group_info_sha256 b
     then Inl ExternalCandidateInvalid
     else
     bindE (bounded_aad (su_expected_aad (ca_proof c))) (\<lambda>_.
     bindE (validate_delta sha (ca_previous c) (ca_resulting c) (eb_old_leaf b) (eb_author b)) (\<lambda>_.
     bindE (load sha C E M (candidate_context c)) (\<lambda>loaded.
     if \<not> om_is_active M (ld_group loaded) \<or> lg_pending (ld_local loaded) \<noteq> None
        \<or> lg_join_epoch (ld_local loaded) \<noteq> epoch (ca_resulting c)
        \<or> om_own_leaf_index M (ld_group loaded) \<noteq> leaf_index (eb_author b)
     then Inl ExternalCandidateInvalid
     else Inr ())))))"

definition read_candidate ::
  "(bytes \<Rightarrow> bytes) \<Rightarrow> cbor \<Rightarrow> 'v storage_env \<Rightarrow> ('v, 'g, 'x) openmls \<Rightarrow> bytes \<Rightarrow> bytes
   \<Rightarrow> MlsErrorCode + Candidate" where
  "read_candidate sha C E M input expected_hash =
     (if input = [] \<or> length input > MAX_BYTES then Inl LimitExceeded
      else
        bindE (fixed32 expected_hash) (\<lambda>_.
        if sha input \<noteq> expected_hash then Inl ExternalCandidateMismatch
        else
          bindE (fst (candidate_fields sha C input)) (\<lambda>c.
          bindE (candidate_encode C c) (\<lambda>out.
          if out \<noteq> input then Inl NoncanonicalEncoding
          else bindE (validate_candidate sha C E M c) (\<lambda>_. Inr c)))))"

end
