(* ===== verification/PreflightLaws.thy ===== *)
theory PreflightLaws
  imports Preflight
begin

text \<open>
  What the cursor reads, as an equivalence: a field is written by \<open>tls_vector\<close>, the shortest
  variable-length encoding of RFC 9420, and \<open>cur_vector\<close> accepts exactly such fields within the
  limit (\<open>cur_vector_Inr_iff\<close>).
\<close>

section \<open>Variable-length vectors\<close>

definition tls_vector :: "bytes \<Rightarrow> bytes" where
  "tls_vector v =
     (let n = length v in
      (if n < 64 then [of_nat n]
       else if n < 16384 then be16 (of_nat (0x4000 + n))
       else be32 (of_nat (0x80000000 + n))) @ v)"

definition header_value :: "bytes \<Rightarrow> nat" where
  "header_value h = foldl (\<lambda>n b. 256 * n + unat b) 0 h"

lemma push_or: "push_bit 8 n OR unat (b :: byte) = 256 * n + unat b"
proof -
  have small: "\<not> bit (unat b) k" if "8 \<le> k" for k
    using that bit_imp_le_length [of b k] by (auto simp: bit_unsigned_iff)
  have "push_bit 8 n AND unat b = 0"
    by (rule bit_eqI) (use small in \<open>auto simp: bit_and_iff bit_push_bit_iff\<close>)
  then have "push_bit 8 n OR unat b = push_bit 8 n + unat b"
    by (simp add: disjunctive_add_eq_or)
  then show ?thesis by (simp add: push_bit_eq_mult)
qed

lemma first_bits: "unat (drop_bit 6 (b :: byte)) = unat b div 64" "unat (b AND 63) = unat b mod 64"
proof -
  have "unat (drop_bit 6 b) = drop_bit 6 (unat b)" by (rule unat_drop_bit_eq)
  then show "unat (drop_bit 6 b) = unat b div 64" by (simp add: drop_bit_eq_div)
  have "b AND 63 = take_bit 6 b" by (simp add: take_bit_eq_mask mask_eq_exp_minus_1)
  moreover have "unat (take_bit 6 b) = take_bit 6 (unat b)" by (simp add: unsigned_take_bit_eq)
  ultimately show "unat (b AND 63) = unat b mod 64" by (simp only: take_bit_eq_mod) simp
qed

lemma be_header:
  assumes "LENGTH('n) = 8 * k" "length h = k"
  shows "h = be_bytes k (of_nat (header_value h) :: 'n::len word)"
  using be_bytes_word_of_be [where 'n = 'n, OF assms] by (simp add: word_of_be_def header_value_def)

lemma be_header_iff:
  assumes n: "LENGTH('n) = 8 * k" and h: "length h = k" and m: "m < 2 ^ LENGTH('n)"
  shows "h = be_bytes k (of_nat m :: 'n::len word) \<longleftrightarrow> header_value h = m"
proof
  assume eq: "h = be_bytes k (of_nat m :: 'n word)"
  have less: "header_value h < 2 ^ LENGTH('n)"
    using foldl_be_less [of h] n h by (simp add: header_value_def power_mult)
  have "(of_nat (header_value h) :: 'n word) = of_nat m"
    using word_of_be_bytes [OF n, of "of_nat m"] eq by (simp add: word_of_be_def header_value_def)
  then have "unat (of_nat (header_value h) :: 'n word) = unat (of_nat m :: 'n word)" by simp
  then show "header_value h = m"
    using less m by (simp add: unat_of_nat take_bit_nat_eq_self)
qed (use be_header [OF n h] in simp)

lemma header_bytes2:
  "m < 2 ^ 16 \<Longrightarrow> [f, x] = be16 (of_nat m) \<longleftrightarrow> 256 * unat f + unat x = m"
  using be_header_iff [where 'n = 16 and k = 2 and h = "[f, x]" and m = m]
  by (simp add: header_value_def be16_def)

lemma header_bytes4:
  "m < 2 ^ 32 \<Longrightarrow> [f, x, y, z] = be32 (of_nat m) \<longleftrightarrow>
    256 * (256 * (256 * unat f + unat x) + unat y) + unat z = m"
  using be_header_iff [where 'n = 32 and k = 4 and h = "[f, x, y, z]" and m = m]
  by (simp add: header_value_def be32_def)

lemma u8_less: "unat (b :: byte) < 256"
  using unsigned_less [of b] by simp

lemma header_split:
  fixes f x y z n :: nat
  assumes "f < 256" "x < 256" "y < 256" "z < 256"
  shows "f div 64 = 0 \<and> n = f mod 64 \<longleftrightarrow> n < 64 \<and> f = n"
    and "f div 64 = 1 \<and> n = 256 * (f mod 64) + x \<longleftrightarrow> n < 16384 \<and> 256 * f + x = 16384 + n"
    and "f div 64 = 2 \<and> n = 256 * (256 * (256 * (f mod 64) + x) + y) + z \<longleftrightarrow>
      n < 2 ^ 30 \<and> 256 * (256 * (256 * f + x) + y) + z = 2147483648 + n"
proof -
  obtain q m where "f = 64 * q + m" "m < 64" "f div 64 = q" "f mod 64 = m"
    by (metis mod_less_divisor mult_div_mod_eq zero_less_numeral)
  moreover have "q = 0 \<or> q = 1 \<or> q = 2 \<or> q = 3" using calculation assms by linarith
  ultimately show "f div 64 = 0 \<and> n = f mod 64 \<longleftrightarrow> n < 64 \<and> f = n"
    "f div 64 = 1 \<and> n = 256 * (f mod 64) + x \<longleftrightarrow> n < 16384 \<and> 256 * f + x = 16384 + n"
    "f div 64 = 2 \<and> n = 256 * (256 * (256 * (f mod 64) + x) + y) + z \<longleftrightarrow>
      n < 2 ^ 30 \<and> 256 * (256 * (256 * f + x) + y) + z = 2147483648 + n"
    using assms by (elim disjE; simp; arith)+
qed

lemma cur_vector_run:
  "cur_vector mx s = (Inr v, r) \<longleftrightarrow>
     (\<exists>first hs. s = first # hs @ v @ r \<and> unat first div 64 \<noteq> 3 \<and>
        length hs = 2 ^ (unat first div 64) - 1 \<and>
        length v = foldl (\<lambda>n b. 256 * n + unat b) (unat first mod 64) hs \<and> length v \<le> mx \<and>
        (2 ^ (unat first div 64) = (2 :: nat) \<longrightarrow> 64 \<le> length v) \<and>
        (2 ^ (unat first div 64) = (4 :: nat) \<longrightarrow> 16384 \<le> length v))"
proof -
  have w: "push_bit t (1 :: nat) = 2 ^ t" for t
    by (simp add: push_bit_eq_mult)
  have "cur_vector mx s = (Inr v, r) \<longleftrightarrow>
     (\<exists>first s1. s = first # s1 \<and> unat first div 64 \<noteq> 3 \<and>
        (\<exists>hs s2. s1 = hs @ s2 \<and> length hs = 2 ^ (unat first div 64) - 1 \<and>
        (let n = foldl (\<lambda>n b. 256 * n + unat b) (unat first mod 64) hs in
          \<not> (2 ^ (unat first div 64) = (2 :: nat) \<and> n < 64 \<or> 2 ^ (unat first div 64) = (4 :: nat) \<and> n < 16384) \<and>
          \<not> n > mx \<and> s2 = v @ r \<and> length v = n)))"
    unfolding cur_vector_def Let_def first_bits push_or w cur_byte_def cur_take_def run_bindS_ok_iff
      read_u8_Inr_iff if_liftS_Inl_iff read_array_Inr_iff
    by blast
  then show ?thesis by (auto simp: Let_def not_less)
qed

text \<open>The header of each width.\<close>

lemma one_byte_header:
  fixes s t :: bytes
  shows "(\<exists>first hs. s = first # hs @ t \<and> unat first div 64 = 0 \<and> length hs = 0 \<and>
      n = foldl (\<lambda>n b. 256 * n + unat b) (unat first mod 64) hs) \<longleftrightarrow> n < 64 \<and> s = [of_nat n] @ t"
  using header_split(1) [OF u8_less u8_less u8_less u8_less]
  by (auto simp: word_unat_eq_iff unat_of_nat take_bit_nat_eq_self)

lemma ex_length1: "(\<exists>hs. Q hs \<and> A \<and> length hs = 1 \<and> R hs) \<longleftrightarrow> (\<exists>x. Q [x] \<and> A \<and> R [x])"
  by (auto simp: length_Suc_conv)

lemma length2: "length h = 2 \<longleftrightarrow> (\<exists>a b. h = [a, b])"
  by (auto simp: numeral_eq_Suc length_Suc_conv)

lemma length3: "length h = 3 \<longleftrightarrow> (\<exists>x y z. h = [x, y, z])"
  by (auto simp: numeral_eq_Suc length_Suc_conv)

lemma length4: "length h = 4 \<longleftrightarrow> (\<exists>f x y z. h = [f, x, y, z])"
  by (auto simp: numeral_eq_Suc length_Suc_conv)

lemma ex_length3:
  "(\<exists>hs. Q hs \<and> A \<and> length hs = 3 \<and> R hs) \<longleftrightarrow> (\<exists>x y z. Q [x, y, z] \<and> A \<and> R [x, y, z])"
  unfolding length3 by (iprover)

lemma two_byte_header:
  fixes s t :: bytes
  shows "(\<exists>first hs. s = first # hs @ t \<and> unat first div 64 = 1 \<and> length hs = 1 \<and>
      n = foldl (\<lambda>n b. 256 * n + unat b) (unat first mod 64) hs) \<longleftrightarrow>
    n < 16384 \<and> s = be16 (of_nat (0x4000 + n)) @ t"
proof -
  have "(\<exists>first hs. s = first # hs @ t \<and> unat first div 64 = 1 \<and> length hs = 1 \<and>
      n = foldl (\<lambda>n b. 256 * n + unat b) (unat first mod 64) hs) \<longleftrightarrow>
    (\<exists>f x. s = [f, x] @ t \<and> (unat f div 64 = 1 \<and> n = 256 * (unat f mod 64) + unat x))"
    unfolding ex_length1 by simp
  also have "\<dots> \<longleftrightarrow> (\<exists>f x. s = [f, x] @ t \<and> n < 16384 \<and> [f, x] = be16 (of_nat (0x4000 + n)))"
    unfolding header_split(2) [OF u8_less u8_less u8_less u8_less]
    using header_bytes2 [of "0x4000 + n"] by (simp cong: conj_cong)
  also have "\<dots> \<longleftrightarrow> n < 16384 \<and> s = be16 (of_nat (0x4000 + n)) @ t"
  proof -
    obtain a b where "be16 (of_nat (0x4000 + n)) = [a, b]"
      using length2 [of "be16 (of_nat (0x4000 + n))"] length_be(1) [of "of_nat (0x4000 + n)"]
      by blast
    then show ?thesis by auto
  qed
  finally show ?thesis .
qed

lemma four_byte_header:
  fixes s t :: bytes
  shows "(\<exists>first hs. s = first # hs @ t \<and> unat first div 64 = 2 \<and> length hs = 3 \<and>
      n = foldl (\<lambda>n b. 256 * n + unat b) (unat first mod 64) hs) \<longleftrightarrow>
    n < 2 ^ 30 \<and> s = be32 (of_nat (0x80000000 + n)) @ t"
proof -
  have "(\<exists>first hs. s = first # hs @ t \<and> unat first div 64 = 2 \<and> length hs = 3 \<and>
      n = foldl (\<lambda>n b. 256 * n + unat b) (unat first mod 64) hs) \<longleftrightarrow>
    (\<exists>f x y z. s = [f, x, y, z] @ t \<and> (unat f div 64 = 2 \<and>
      n = 256 * (256 * (256 * (unat f mod 64) + unat x) + unat y) + unat z))"
    unfolding ex_length3 by simp
  also have "\<dots> \<longleftrightarrow> (\<exists>f x y z. s = [f, x, y, z] @ t \<and> n < 2 ^ 30 \<and>
      [f, x, y, z] = be32 (of_nat (0x80000000 + n)))"
    unfolding header_split(3) [OF u8_less u8_less u8_less u8_less]
    using header_bytes4 [of "0x80000000 + n"] by (simp cong: conj_cong)
  also have "\<dots> \<longleftrightarrow> n < 2 ^ 30 \<and> s = be32 (of_nat (0x80000000 + n)) @ t"
  proof -
    obtain a b c d where "be32 (of_nat (0x80000000 + n)) = [a, b, c, d]"
      using length4 [of "be32 (of_nat (0x80000000 + n))"] length_be(2) [of "of_nat (0x80000000 + n)"]
      by blast
    then show ?thesis by auto
  qed
  finally show ?thesis .
qed

lemma cur_vector_intro:
  assumes "s = first # hs @ v @ r" "unat first div 64 = t" "t \<noteq> 3" "length hs = 2 ^ t - 1"
    "length v = foldl (\<lambda>n b. 256 * n + unat b) (unat first mod 64) hs" "length v \<le> mx"
    "2 ^ t = (2 :: nat) \<Longrightarrow> 64 \<le> length v" "2 ^ t = (4 :: nat) \<Longrightarrow> 16384 \<le> length v"
  shows "cur_vector mx s = (Inr v, r)"
  unfolding cur_vector_run using assms by blast

lemma cur_vector_Inr_iff:
  "cur_vector mx s = (Inr v, r) \<longleftrightarrow> length v \<le> mx \<and> length v < 2 ^ 30 \<and> s = tls_vector v @ r"
proof -
  let ?run = "\<lambda>t k. \<exists>first hs. s = first # hs @ v @ r \<and> unat first div 64 = t \<and> length hs = k \<and>
        length v = foldl (\<lambda>n b. 256 * n + unat b) (unat first mod 64) hs"
  have tag: "unat first div 64 \<in> {0, 1, 2, 3}" for first :: byte
    using u8_less [of first] by auto
  have "cur_vector mx s = (Inr v, r) \<longleftrightarrow> length v \<le> mx \<and>
      (?run 0 0 \<or> ?run 1 1 \<and> 64 \<le> length v \<or> ?run 2 3 \<and> 16384 \<le> length v)" (is "_ \<longleftrightarrow> ?cases")
  proof
    assume "cur_vector mx s = (Inr v, r)"
    then obtain first hs where "s = first # hs @ v @ r" "unat first div 64 \<noteq> 3"
      "length hs = 2 ^ (unat first div 64) - 1" "length v \<le> mx"
      "length v = foldl (\<lambda>n b. 256 * n + unat b) (unat first mod 64) hs"
      "2 ^ (unat first div 64) = (2 :: nat) \<longrightarrow> 64 \<le> length v"
      "2 ^ (unat first div 64) = (4 :: nat) \<longrightarrow> 16384 \<le> length v"
      unfolding cur_vector_run by blast
    with tag [of first] show ?cases by fastforce
  next
    assume c: ?cases
    have "cur_vector mx s = (Inr v, r)" if "?run 0 0" "length v \<le> mx"
      using that by (elim exE conjE) (rule cur_vector_intro [where t = 0], auto)
    moreover have "cur_vector mx s = (Inr v, r)" if "?run 1 1" "length v \<le> mx" "64 \<le> length v"
      using that by (elim exE conjE) (rule cur_vector_intro [where t = 1], auto)
    moreover have "cur_vector mx s = (Inr v, r)" if "?run 2 3" "length v \<le> mx" "16384 \<le> length v"
      using that by (elim exE conjE) (rule cur_vector_intro [where t = 2], auto)
    ultimately show "cur_vector mx s = (Inr v, r)" using c by blast
  qed
  then show ?thesis
    unfolding one_byte_header two_byte_header four_byte_header by (auto simp: tls_vector_def Let_def)
qed

end
