(* ===== verification/ScanLaws.thy ===== *)
theory ScanLaws
  imports PreflightLaws
begin

text \<open>
  The language of a scanner. \<open>scans fin m L\<close>: \<open>m\<close> succeeds on precisely the inputs that start with
  a word of \<open>L\<close>, and consumes that word; with \<open>fin\<close> nothing may be left. The rules of
  \<open>scan_rules\<close> compute the language of a composed scanner; the locale \<open>counted_items\<close> is a counted
  loop over items, the locale \<open>item_pair\<close> a loop that takes two kinds of item once each.
\<close>

named_theorems scan_rules \<open>the language of a composed scanner\<close>

definition scans :: "bool \<Rightarrow> 'a scan \<Rightarrow> bytes set \<Rightarrow> bool" where
  "scans fin m L \<longleftrightarrow>
     (\<forall>s r. (\<exists>v. m s = (Inr v, r)) \<longleftrightarrow> (\<exists>w \<in> L. s = w @ r) \<and> (fin \<longrightarrow> r = []))"

fun seqL :: "bytes set list \<Rightarrow> bytes set" where
  "seqL [] = {[]}"
| "seqL (A # As) = {a @ b | a b. a \<in> A \<and> b \<in> seqL As}"

definition vec :: "nat \<Rightarrow> bytes set \<Rightarrow> bytes set" where
  "vec mx L = {tls_vector v | v. length v \<le> mx \<and> v \<in> L}"

definition list_of :: "nat \<Rightarrow> bytes set \<Rightarrow> bytes set" where
  "list_of n L = {concat ws | ws. length ws \<le> n \<and> set ws \<subseteq> L}"

lemma scansD: "scans fin m L \<Longrightarrow> (\<exists>v. m s = (Inr v, r)) \<longleftrightarrow> (\<exists>w \<in> L. s = w @ r) \<and> (fin \<longrightarrow> r = [])"
  unfolding scans_def by blast

lemma scans_unitD: "scans fin m L \<Longrightarrow> m s = (Inr (), r) \<longleftrightarrow> (\<exists>w \<in> L. s = w @ r) \<and> (fin \<longrightarrow> r = [])"
  using scansD [of fin m L s r] by simp

lemma scans_accepts: "scans True m L \<Longrightarrow> (\<exists>v. run_reader m s = Inr v) \<longleftrightarrow> s \<in> L"
  unfolding run_reader_Inr_iff scans_def by (metis append_Nil2)

lemma scans_accepts_unit: "scans True m L \<Longrightarrow> run_reader m s = Inr () \<longleftrightarrow> s \<in> L"
  using scans_accepts [of m L s] by simp

declare seqL.simps [simp del]

lemma seqL_Nil [simp]: "w \<in> seqL [] \<longleftrightarrow> w = []"
  by (simp add: seqL.simps)

lemma seqL_Cons: "w \<in> seqL (A # As) \<longleftrightarrow> (\<exists>a \<in> A. \<exists>b \<in> seqL As. w = a @ b)"
  by (auto simp: seqL.simps)

lemma seqL_single [simp]: "seqL [A] = A"
  by (auto simp: seqL_Cons)

lemma seqL_Cons_prefix:
  "(\<exists>w \<in> seqL (A # As). s = w @ r) \<longleftrightarrow> (\<exists>a \<in> A. \<exists>q. s = a @ q \<and> (\<exists>w \<in> seqL As. q = w @ r))"
proof
  assume "\<exists>w \<in> seqL (A # As). s = w @ r"
  then obtain a b where "a \<in> A" "b \<in> seqL As" "s = (a @ b) @ r" by (auto simp: seqL_Cons)
  then show "\<exists>a \<in> A. \<exists>q. s = a @ q \<and> (\<exists>w \<in> seqL As. q = w @ r)" by auto
next
  assume "\<exists>a \<in> A. \<exists>q. s = a @ q \<and> (\<exists>w \<in> seqL As. q = w @ r)"
  then obtain a b where "a \<in> A" "b \<in> seqL As" "s = a @ b @ r" by blast
  then show "\<exists>w \<in> seqL (A # As). s = w @ r" by (intro bexI [of _ "a @ b"]) (auto simp: seqL_Cons)
qed

lemma seqL_vec_prefix:
  "(\<exists>w \<in> seqL (vec mx L # As). s = w @ r) \<longleftrightarrow>
     (\<exists>v q. length v \<le> mx \<and> v \<in> L \<and> s = tls_vector v @ q \<and> (\<exists>w \<in> seqL As. q = w @ r))"
  unfolding seqL_Cons_prefix by (auto simp: vec_def)

lemma bindS_vector_iff:
  "mx < 2 ^ 30 \<Longrightarrow> bindS (cur_vector mx) f s = (Inr x, r) \<longleftrightarrow>
    (\<exists>v q. length v \<le> mx \<and> s = tls_vector v @ q \<and> f v q = (Inr x, r))"
proof -
  assume mx: "mx < 2 ^ 30"
  then have "length v \<le> mx \<and> length v < 2 ^ 30 \<and> s = tls_vector v @ q \<longleftrightarrow> length v \<le> mx \<and> s = tls_vector v @ q"
    for v q by linarith
  then show ?thesis unfolding run_bindS_ok_iff cur_vector_Inr_iff by presburger
qed

section \<open>Composition\<close>

lemma scans_bind [scan_rules]:
  assumes "scans False m A" "\<And>v. scans fin (k v) (seqL As)"
  shows "scans fin (bindS m k) (seqL (A # As))"
  unfolding scans_def
proof (intro allI)
  fix s r
  have "(\<exists>v. bindS m k s = (Inr v, r)) \<longleftrightarrow> (\<exists>a q. m s = (Inr a, q) \<and> (\<exists>v. k a q = (Inr v, r)))"
    by (auto simp: run_bindS_ok_iff)
  also have "\<dots> \<longleftrightarrow> (\<exists>q. (\<exists>a. m s = (Inr a, q)) \<and> (\<exists>w \<in> seqL As. q = w @ r) \<and> (fin \<longrightarrow> r = []))"
    using scansD [OF assms(2)] by metis
  also have "\<dots> \<longleftrightarrow> (\<exists>w \<in> seqL (A # As). s = w @ r) \<and> (fin \<longrightarrow> r = [])"
    unfolding scansD [OF assms(1)] seqL_Cons_prefix by blast
  finally show "(\<exists>v. bindS m k s = (Inr v, r)) \<longleftrightarrow> (\<exists>w \<in> seqL (A # As). s = w @ r) \<and> (fin \<longrightarrow> r = [])" .
qed

lemma scans_last: "scans fin m A \<Longrightarrow> scans fin m (seqL [A])"
  by (simp add: scans_def)

lemma scans_return [scan_rules]: "scans False (returnS x) (seqL [])"
  by (auto simp: scans_def)

lemma scans_finish [scan_rules]: "scans True cur_finish (seqL [])"
  by (auto simp: scans_def cur_finish_def cursor_simps)

lemma scans_take [scan_rules]: "scans False (cur_take n) {w. length w = n}"
  by (auto simp: scans_def cur_take_def cursor_simps)

lemma scans_byte [scan_rules]: "scans False (expect_byte b e) {[b]}"
  by (auto simp: scans_def expect_byte_def cur_byte_def cursor_simps)

lemma scans_any_u16 [scan_rules]: "scans False cur_u16 (range be16)"
  by (auto simp: scans_def cur_u16_def cursor_simps)

lemma scans_u16:
  assumes "scans fin m (seqL As)"
  shows "scans fin (bindS cur_u16 (\<lambda>x. if x \<noteq> c then liftS (Inl e) else m)) (seqL ({be16 c} # As))"
proof -
  have "(\<exists>v. bindS cur_u16 (\<lambda>x. if x \<noteq> c then liftS (Inl e) else m) s = (Inr v, r)) \<longleftrightarrow>
      (\<exists>q. s = be16 c @ q \<and> (\<exists>v. m q = (Inr v, r)))" for s r
    unfolding cur_u16_def run_bindS_ok_iff read_u16_Inr_iff if_liftS_Inl_iff by blast
  then show ?thesis
    unfolding scans_def seqL_Cons_prefix scansD [OF assms] by simp blast
qed

lemma scans_vector [scan_rules]: "mx < 2 ^ 30 \<Longrightarrow> scans False (cur_vector mx) (vec mx UNIV)"
  by (auto simp: scans_def cur_vector_Inr_iff vec_def)

lemma scans_vector_if:
  assumes "mx < 2 ^ 30" "scans fin m (seqL As)"
  shows "scans fin (bindS (cur_vector mx) (\<lambda>v. if bad v then liftS (Inl e) else m))
    (seqL (vec mx {v. \<not> bad v} # As))"
  unfolding scans_def seqL_vec_prefix bindS_vector_iff [OF assms(1)] if_liftS_Inl_iff
  using scansD [OF assms(2)] by blast

lemma scans_inside:
  assumes "mx < 2 ^ 30" "scans True m L" "\<And>v. scans fin (k v) (seqL As)"
  shows "scans fin (bindS (cur_vector mx) (\<lambda>e. bindS (scan_inside e m) k)) (seqL (vec mx L # As))"
  unfolding scans_def
proof (intro allI)
  fix s r
  have "(\<exists>v. bindS (cur_vector mx) (\<lambda>e. bindS (scan_inside e m) k) s = (Inr v, r)) \<longleftrightarrow>
      (\<exists>e q a. length e \<le> mx \<and> s = tls_vector e @ q \<and> run_reader m e = Inr a \<and> (\<exists>v. k a q = (Inr v, r)))"
    unfolding bindS_vector_iff [OF assms(1)] by (simp add: run_bindS_ok_iff scan_inside_def) blast
  also have "\<dots> \<longleftrightarrow> (\<exists>e q. length e \<le> mx \<and> s = tls_vector e @ q \<and> e \<in> L \<and>
      (\<exists>w \<in> seqL As. q = w @ r)) \<and> (fin \<longrightarrow> r = [])"
    unfolding scansD [OF assms(3)] scans_accepts [OF assms(2), symmetric] by blast
  also have "\<dots> \<longleftrightarrow> (\<exists>w \<in> seqL (vec mx L # As). s = w @ r) \<and> (fin \<longrightarrow> r = [])"
    unfolding seqL_vec_prefix by blast
  finally show "(\<exists>v. bindS (cur_vector mx) (\<lambda>e. bindS (scan_inside e m) k) s = (Inr v, r)) \<longleftrightarrow>
      (\<exists>w \<in> seqL (vec mx L # As). s = w @ r) \<and> (fin \<longrightarrow> r = [])" .
qed

lemma scans_inside_last:
  assumes "mx < 2 ^ 30" "scans True (m :: unit scan) L"
  shows "scans False (bindS (cur_vector mx) (\<lambda>e. scan_inside e m)) (vec mx L)"
  using scans_accepts_unit [OF assms(2)] assms(1)
  by (auto simp: scans_def run_bindS_ok_iff cur_vector_Inr_iff scan_inside_def vec_def)

lemma scans_exact [scan_rules]: "n < 2 ^ 30 \<Longrightarrow> scans False (cur_exact n) (vec n {v. length v = n})"
  by (auto simp: scans_def cur_exact_def run_bindS_ok_iff cur_vector_Inr_iff if_liftS_Inl_iff vec_def)

section \<open>Loops\<close>

locale counted_items =
  fixes item :: "unit scan" and L :: "bytes set"
  assumes item: "scans False item L" and nonempty: "[] \<notin> L"
begin

lemma while_counted_iff:
  "count \<le> limit \<Longrightarrow> while_counted limit item count s = (Inr (), r) \<longleftrightarrow>
    r = [] \<and> (\<exists>ws. s = concat ws \<and> set ws \<subseteq> L \<and> count + length ws \<le> limit)"
proof (induction "limit - count" arbitrary: count s)
  case 0
  then have c: "count = limit" by simp
  show ?case
  proof (cases "s = []")
    case True
    then show ?thesis
      using while_counted.simps [of limit item count s] c by (auto intro: exI [of _ "[]"])
  next
    case False
    then show ?thesis using while_counted.simps [of limit item count s] c by auto
  qed
next
  case (Suc k)
  show ?case
  proof (cases "s = []")
    case True
    then show ?thesis
      using Suc.prems while_counted.simps [of limit item count s] by (auto intro: exI [of _ "[]"])
  next
    case False
    have "while_counted limit item count s = (Inr (), r) \<longleftrightarrow>
        (\<exists>q. item s = (Inr (), q) \<and> while_counted limit item (count + 1) q = (Inr (), r))"
      using False Suc.hyps(2)
      by (auto simp: while_counted.simps [of limit item count s] split: prod.splits sum.splits)
    also have "\<dots> \<longleftrightarrow> (\<exists>q. (\<exists>w \<in> L. s = w @ q) \<and> r = [] \<and>
        (\<exists>ws. q = concat ws \<and> set ws \<subseteq> L \<and> count + 1 + length ws \<le> limit))"
      unfolding scans_unitD [OF item] using Suc.hyps(1) [of "count + 1"] Suc.hyps(2) by simp
    also have "\<dots> \<longleftrightarrow> r = [] \<and> (\<exists>ws. s = concat ws \<and> set ws \<subseteq> L \<and> count + length ws \<le> limit)"
      (is "?l \<longleftrightarrow> ?r")
    proof
      assume ?l
      then obtain w ws where "w \<in> L" "s = w @ concat ws" "r = []" "set ws \<subseteq> L"
        "count + 1 + length ws \<le> limit" by blast
      then show ?r by (intro conjI exI [of _ "w # ws"]) auto
    next
      assume ?r
      then obtain ws where "r = []" "s = concat ws" "set ws \<subseteq> L" "count + length ws \<le> limit" by blast
      with False show ?l by (cases ws) auto
    qed
    finally show ?thesis .
  qed
qed

lemma scans_counted: "scans True (while_counted limit item 0) (list_of limit L)"
proof -
  have "(\<exists>v. while_counted limit item 0 s = (Inr v, r)) \<longleftrightarrow> (\<exists>w \<in> list_of limit L. s = w @ r) \<and> r = []"
    for s r
    using while_counted_iff [of 0 limit s r] by (auto simp: list_of_def)
  then show ?thesis by (simp add: scans_def)
qed

end

locale item_pair =
  fixes step :: "'c \<Rightarrow> 'c scan" and loop :: "'c \<Rightarrow> 'c scan" and A B :: "bytes set" and c0 cA cB cAB :: 'c
  assumes loop: "loop c s = (if s = [] then (Inr c, s) else
      (case step c s of (Inl e, s') \<Rightarrow> (Inl e, s') | (Inr c', s') \<Rightarrow> loop c' s'))"
    and step0: "step c0 s = (Inr c, r) \<longleftrightarrow>
      c = cA \<and> (\<exists>w \<in> A. s = w @ r) \<or> c = cB \<and> (\<exists>w \<in> B. s = w @ r)"
    and stepA: "step cA s = (Inr c, r) \<longleftrightarrow> c = cAB \<and> (\<exists>w \<in> B. s = w @ r)"
    and stepB: "step cB s = (Inr c, r) \<longleftrightarrow> c = cAB \<and> (\<exists>w \<in> A. s = w @ r)"
    and stepAB: "step cAB s \<noteq> (Inr c, r)"
    and final: "cAB \<noteq> c0" "cAB \<noteq> cA" "cAB \<noteq> cB"
    and nonempty: "[] \<notin> A" "[] \<notin> B"
begin

lemma loop_Inr:
  "loop c s = (Inr c', r) \<longleftrightarrow> s = [] \<and> c' = c \<and> r = [] \<or>
    s \<noteq> [] \<and> (\<exists>c1 s1. step c s = (Inr c1, s1) \<and> loop c1 s1 = (Inr c', r))"
  by (subst loop) (auto split: prod.splits sum.splits)

lemma loop_end: "loop cAB s = (Inr c, r) \<longleftrightarrow> s = [] \<and> c = cAB \<and> r = []"
  using stepAB by (subst loop_Inr) auto

lemma loop_A: "loop cA s = (Inr cAB, r) \<longleftrightarrow> r = [] \<and> s \<in> B"
  using final nonempty by (subst loop_Inr) (auto simp: stepA loop_end)

lemma loop_B: "loop cB s = (Inr cAB, r) \<longleftrightarrow> r = [] \<and> s \<in> A"
  using final nonempty by (subst loop_Inr) (auto simp: stepB loop_end)

lemma loop_pair: "loop c0 s = (Inr cAB, r) \<longleftrightarrow> r = [] \<and> s \<in> seqL [A, B] \<union> seqL [B, A]"
proof -
  have "loop c0 s = (Inr cAB, r) \<longleftrightarrow> s \<noteq> [] \<and> (\<exists>q. (\<exists>w \<in> A. s = w @ q) \<and> loop cA q = (Inr cAB, r) \<or>
      (\<exists>w \<in> B. s = w @ q) \<and> loop cB q = (Inr cAB, r))"
    using final by (subst loop_Inr) (auto simp: step0)
  also have "\<dots> \<longleftrightarrow> r = [] \<and> s \<in> seqL [A, B] \<union> seqL [B, A]"
    unfolding loop_A loop_B using nonempty by (auto simp: seqL_Cons)
  finally show ?thesis .
qed

end

end
