(* ===== verification/PreflightGrammar.thy ===== *)
theory PreflightGrammar
  imports ScanLaws
begin

text \<open>
  The grammar of a GroupInfo and of an external Commit in the profile, as languages of byte
  strings, and the theorem that the scanner accepts exactly these. A language names what RFC 9420
  puts at that place; every bound of the profile is in it.
\<close>

section \<open>Extensions and leaves\<close>

definition field_of :: "nat \<Rightarrow> bytes set" where
  "field_of n = vec n {v. length v = n}"

definition extension_shape :: "bytes set" where
  "extension_shape = seqL [range be16, vec 4096 UNIV]"

definition extensions_shape :: "bytes set" where
  "extensions_shape = vec (16 * 1024) (list_of 32 extension_shape)"

definition capability_shape :: "bytes set" where
  "capability_shape = vec 128 {v. even (length v)}"

definition leaf_source_shape :: "bytes set" where
  "leaf_source_shape = seqL [{[1]}, {w. length w = 16}] \<union> {[2]} \<union> seqL [{[3]}, vec 32 UNIV]"

definition leaf_shape :: "bytes set" where
  "leaf_shape = seqL [field_of 32, field_of 32, {be16 1}, field_of 45,
     seqL (replicate 5 capability_shape), leaf_source_shape, extensions_shape, field_of 64]"

lemma scans_field [scan_rules]: "n < 2 ^ 30 \<Longrightarrow> scans False (cur_exact n) (field_of n)"
  unfolding field_of_def by (rule scans_exact)

lemma limits: "MAX_MLS_BYTES < 2 ^ 30" "MAX_AAD_BYTES < 2 ^ 30" "RS_MAX_LEAVES * 4 < 2 ^ 30"
  "16 * 1024 < (2 :: nat) ^ 30"
  by (simp_all add: MAX_MLS_BYTES_def MAX_AAD_BYTES_def RS_MAX_LEAVES_def)

lemma scans_extension: "scans False pf_extension extension_shape"
  unfolding pf_extension_def extension_shape_def by (rule scan_rules | simp)+

lemma be16_Nil [simp]: "be16 a \<noteq> []" "[] \<noteq> be16 a"
  using length_be(1) [of a] by (metis list.size(3) zero_neq_numeral)+

lemma tls_vector_Nil [simp]: "tls_vector v \<noteq> []" "[] \<noteq> tls_vector v"
  unfolding tls_vector_def Let_def using length_be(2) by (auto split: if_splits)

interpretation gi_exts: counted_items pf_extension extension_shape
  by unfold_locales (rule scans_extension, auto simp: extension_shape_def seqL_Cons)

lemma scans_extensions [scan_rules]: "scans False pf_extensions extensions_shape"
  unfolding pf_extensions_def extensions_shape_def
  by (rule scans_inside_last [OF limits(4) gi_exts.scans_counted])

lemma scans_capability: "scans False pf_capability_list capability_shape"
proof -
  have "scans False pf_capability_list (seqL [vec 128 {v. \<not> length v mod 2 \<noteq> 0}])"
    unfolding pf_capability_list_def by (rule scans_vector_if [OF _ scans_return]) simp
  then show ?thesis by (simp add: capability_shape_def even_iff_mod_2_eq_zero)
qed

lemma scans_times: "scans False m A \<Longrightarrow> scans False (timesS n m) (seqL (replicate n A))"
proof (induction n)
  case (Suc n)
  have "scans False (bindS (timesS n m) (\<lambda>xs. returnS (v # xs))) (seqL [seqL (replicate n A)])" for v
    using Suc by (intro scans_bind scans_return) simp_all
  with Suc.prems show ?case by (simp add: scans_bind)
qed (simp add: scans_return)

lemma bindS_byte_iff: "bindS cur_byte f s = (Inr x, r) \<longleftrightarrow> (\<exists>b q. s = b # q \<and> f b q = (Inr x, r))"
  by (auto simp: run_bindS_ok_iff cur_byte_def read_u8_Inr_iff)

lemma scans_source: "scans False pf_leaf_source leaf_source_shape"
proof -
  let ?m = "\<lambda>b :: byte. if b = 1 then bindS (cur_take 16) (\<lambda>_. returnS ())
    else if b = 2 then returnS ()
    else if b = 3 then bindS (cur_vector 32) (\<lambda>_. returnS ()) else liftS (Inl RsDecodeRejected)"
  have m: "scans False (?m 1) {w. length w = 16}" "scans False (?m 2) (seqL [])"
    "scans False (?m 3) (vec 32 UNIV)"
    using scans_bind [OF scans_take scans_return, of 16 "\<lambda>_. ()"]
      scans_bind [OF scans_vector scans_return, of 32 "\<lambda>_. ()"] scans_return [of "()"] by simp_all
  define run where "run = (\<lambda>b q r. \<exists>v. ?m b q = (Inr v, r))"
  have no: "b = 1 \<or> b = 2 \<or> b = 3" if "run b q r" for b q r
    using that by (auto simp: run_def split: if_splits)
  have run: "run 1 q r \<longleftrightarrow> (\<exists>w \<in> {w. length w = 16}. q = w @ r)" "run 2 q r \<longleftrightarrow> q = r"
    "run 3 q r \<longleftrightarrow> (\<exists>w \<in> vec 32 UNIV. q = w @ r)" for q r
    using scansD [OF m(1), of q r] scansD [OF m(2), of q r] scansD [OF m(3), of q r]
    by (simp_all add: run_def)
  have "(\<exists>v. pf_leaf_source s = (Inr v, r)) \<longleftrightarrow> (\<exists>b q. s = b # q \<and> run b q r)" for s r
    unfolding pf_leaf_source_def bindS_byte_iff run_def by blast
  moreover have "(\<exists>b q. s = b # q \<and> run b q r) \<longleftrightarrow> (\<exists>q. s = 1 # q \<and> run 1 q r) \<or> s = 2 # r
      \<or> (\<exists>q. s = 3 # q \<and> run 3 q r)" for s r
    using no run(2) by blast
  ultimately show ?thesis
    unfolding scans_def leaf_source_shape_def bex_Un seqL_Cons_prefix run(1) run(3)
    by simp
qed

lemma scans_exact_last [scan_rules]: "n < 2 ^ 30 \<Longrightarrow> scans False (cur_exact n) (seqL [field_of n])"
  by (simp add: scans_field)

lemma scans_leaf [scan_rules]: "scans False pf_leaf leaf_shape"
  unfolding pf_leaf_def leaf_shape_def
  by (rule scan_rules scans_u16 scans_times scans_capability scans_source | simp)+

section \<open>The tree\<close>

definition parent_shape :: "bytes set" where
  "parent_shape = seqL [field_of 32, vec 32 UNIV,
     vec (RS_MAX_LEAVES * 4) {v. \<exists>is. v = concat (map be32 is) \<and> (\<forall>i \<in> set is. i < of_nat RS_MAX_LEAVES)}]"

definition leaf_node_shape :: "bytes set" where
  "leaf_node_shape = seqL [{[1, 1]}, leaf_shape]"

definition node_shape :: "bytes set" where
  "node_shape = {[0]} \<union> leaf_node_shape \<union> seqL [{[1, 2]}, parent_shape]"

text \<open>At most 511 nodes, at least one leaf among them and at most 256.\<close>

definition tree_shape :: "bytes set" where
  "tree_shape = {tls_vector (concat ns) | ns. length (concat ns) \<le> MAX_MLS_BYTES \<and>
     set ns \<subseteq> node_shape \<and> length ns \<le> MAX_TREE_NODES \<and>
     0 < length (filter (\<lambda>n. n \<in> leaf_node_shape) ns) \<and>
     length (filter (\<lambda>n. n \<in> leaf_node_shape) ns) \<le> RS_MAX_LEAVES}"

lemma as_chunks4_be32: "as_chunks4 (concat (map be32 is)) = map be32 is"
proof (induction "is")
  case (Cons i "is")
  obtain a b c d where "be32 i = [a, b, c, d]"
    using length4 [of "be32 i"] by auto
  with Cons show ?case by simp
qed simp

lemma chunks_of_be32:
  "length v = 4 * k \<Longrightarrow> \<exists>is. v = concat (map (be32 :: u32 \<Rightarrow> bytes) is)"
proof (induction k arbitrary: v)
  case 0
  then show ?case by (intro exI [of _ "[]"]) simp
next
  case (Suc k)
  then have "length (drop 4 v) = 4 * k" by simp
  from Suc.IH [OF this] obtain "is" where d: "drop 4 v = concat (map (be32 :: u32 \<Rightarrow> bytes) is)"
    by (rule exE)
  have t: "be32 (word_of_be (take 4 v)) = take 4 v"
    using be_bytes_word_of_be [where 'n = 32 and k = 4 and v = "take 4 v"] Suc.prems by (simp add: be32_def)
  have "concat (map be32 (word_of_be (take 4 v) # is)) = take 4 v @ drop 4 v"
    by (simp only: d t list.map concat.simps)
  then have "v = concat (map be32 (word_of_be (take 4 v) # is))" by simp
  then show ?case by (rule exI)
qed

lemma word_of_be32 [simp]: "(word_of_be (be32 i) :: u32) = i"
  unfolding be32_def by (rule word_of_be_bytes) simp

lemma ex_unit: "(\<exists>u :: unit. P u) \<longleftrightarrow> P ()"
  by auto

lemma unmerged_ok:
  "length v mod 4 = 0 \<and> eachE (\<lambda>b. require ((word_of_be b :: u32) < of_nat RS_MAX_LEAVES) e) (as_chunks4 v) = Inr u
    \<longleftrightarrow> (\<exists>is. v = concat (map be32 is) \<and> (\<forall>i \<in> set is. i < of_nat RS_MAX_LEAVES))" (is "?l \<longleftrightarrow> ?r")
proof
  assume ?l
  then obtain "is" where "v = concat (map (be32 :: u32 \<Rightarrow> bytes) is)" using chunks_of_be32 [of v "length v div 4"] by auto
  with \<open>?l\<close> show ?r by (auto simp: as_chunks4_be32 eachE_Inr_iff require_Inr_iff)
next
  assume ?r
  then obtain "is" where "is": "v = concat (map (be32 :: u32 \<Rightarrow> bytes) is)" "\<forall>i \<in> set is. i < of_nat RS_MAX_LEAVES"
    by blast
  then have "length v = 4 * length is" by (simp add: length_concat comp_def sum_list_triv)
  with "is" show ?l by (simp add: as_chunks4_be32 eachE_Inr_iff require_Inr_iff)
qed

lemma scans_vector_check:
  fixes f :: "bytes \<Rightarrow> unit scan"
  assumes "mx < 2 ^ 30" "\<And>v s r. f v s = (Inr (), r) \<longleftrightarrow> r = s \<and> P v"
  shows "scans False (bindS (cur_vector mx) f) (vec mx {v. P v})"
  unfolding scans_def
proof (intro allI)
  fix s r
  have "(\<exists>u. bindS (cur_vector mx) f s = (Inr u, r)) \<longleftrightarrow> (\<exists>v. length v \<le> mx \<and> s = tls_vector v @ r \<and> P v)"
    unfolding ex_unit bindS_vector_iff [OF assms(1)] assms(2) by simp
  also have "\<dots> \<longleftrightarrow> (\<exists>w \<in> vec mx {v. P v}. s = w @ r)"
    by (auto simp: vec_def)
  finally show "(\<exists>u. bindS (cur_vector mx) f s = (Inr u, r)) \<longleftrightarrow>
      (\<exists>w \<in> vec mx {v. P v}. s = w @ r) \<and> (False \<longrightarrow> r = [])" by simp
qed

lemma scans_unmerged:
  "scans False (bindS (cur_vector (RS_MAX_LEAVES * 4)) (\<lambda>unmerged.
     if length unmerged mod 4 \<noteq> 0 then liftS (Inl RsDecodeRejected)
     else liftS (eachE (\<lambda>b. require ((word_of_be b :: u32) < of_nat RS_MAX_LEAVES) RsLimitExceeded)
            (as_chunks4 unmerged))))
    (vec (RS_MAX_LEAVES * 4) {v. \<exists>is. v = concat (map be32 is) \<and> (\<forall>i \<in> set is. i < of_nat RS_MAX_LEAVES)})"
  by (rule scans_vector_check [OF limits(3)]) (auto simp flip: unmerged_ok [of _ RsLimitExceeded "()"])

lemma scans_parent [scan_rules]: "scans False pf_parent parent_shape"
  unfolding pf_parent_def parent_shape_def
  by (rule scans_unmerged [THEN scans_last] scan_rules | simp)+

abbreviation leaf_nodes :: "bytes list \<Rightarrow> nat" where
  "leaf_nodes ns \<equiv> length (filter (\<lambda>n. n \<in> leaf_node_shape) ns)"

lemma node_cases:
  "[0] \<notin> leaf_node_shape" "w \<in> seqL [{[1, 2]}, parent_shape] \<Longrightarrow> w \<notin> leaf_node_shape" "[] \<notin> node_shape"
  by (auto simp: leaf_node_shape_def node_shape_def seqL_Cons)

lemma bind_unit_return:
  "bindS (m :: unit scan) (\<lambda>_. returnS x) s = (Inr y, r) \<longleftrightarrow> m s = (Inr (), r) \<and> y = x"
  by (auto simp: run_bindS_ok_iff)

lemma byte_witness [simp]:
  "\<exists>b :: byte. b \<noteq> 1 \<and> (b \<noteq> 1 \<longrightarrow> b = 0)" "\<exists>b :: byte. b \<noteq> 2 \<and> (b \<noteq> 2 \<longrightarrow> b = 1)"
  by (rule exI [of _ 0], simp) (rule exI [of _ 1], simp)

lemma pf_node_iff:
  assumes "nl \<le> RS_MAX_LEAVES"
  shows "pf_node nl s = (Inr nl', r) \<longleftrightarrow>
    (\<exists>w \<in> node_shape. s = w @ r \<and> nl' = nl + leaf_nodes [w] \<and> nl' \<le> RS_MAX_LEAVES)"
proof -
  have "pf_node nl s = (Inr nl', r) \<longleftrightarrow> s = 0 # r \<and> nl' = nl \<or>
      (\<exists>q. s = 1 # 1 # q \<and> nl + 1 \<le> RS_MAX_LEAVES \<and> pf_leaf q = (Inr (), r) \<and> nl' = nl + 1) \<or>
      (\<exists>q. s = 1 # 2 # q \<and> pf_parent q = (Inr (), r) \<and> nl' = nl)"
    by (auto simp: pf_node_def bindS_byte_iff bind_unit_return returnS_ok_iff split: if_splits)
  also have "\<dots> \<longleftrightarrow> s = 0 # r \<and> nl' = nl \<or>
      (\<exists>w \<in> leaf_shape. s = 1 # 1 # w @ r \<and> nl + 1 \<le> RS_MAX_LEAVES \<and> nl' = nl + 1) \<or>
      (\<exists>w \<in> parent_shape. s = 1 # 2 # w @ r \<and> nl' = nl)"
    unfolding scans_unitD [OF scans_leaf] scans_unitD [OF scans_parent] by auto
  also have "\<dots> \<longleftrightarrow> (\<exists>w \<in> node_shape. s = w @ r \<and> nl' = nl + leaf_nodes [w] \<and> nl' \<le> RS_MAX_LEAVES)"
    (is "_ \<longleftrightarrow> ?r")
  proof -
    have "?r \<longleftrightarrow> s = 0 # r \<and> nl' = nl \<or>
        (\<exists>w \<in> leaf_node_shape. s = w @ r \<and> nl' = nl + 1 \<and> nl' \<le> RS_MAX_LEAVES) \<or>
        (\<exists>w \<in> seqL [{[1, 2]}, parent_shape]. s = w @ r \<and> nl' = nl)"
      using node_cases(1,2) assms unfolding node_shape_def bex_Un by auto
    then show ?thesis by (auto simp: leaf_node_shape_def seqL_Cons)
  qed
  finally show ?thesis .
qed

lemma pf_nodes_iff:
  assumes "c \<le> MAX_TREE_NODES" "nl \<le> RS_MAX_LEAVES"
  shows "pf_nodes c nl s = (Inr (c', nl'), r) \<longleftrightarrow>
    r = [] \<and> (\<exists>ns. s = concat ns \<and> set ns \<subseteq> node_shape \<and> c' = c + length ns \<and> c' \<le> MAX_TREE_NODES \<and>
      nl' = nl + leaf_nodes ns \<and> nl' \<le> RS_MAX_LEAVES)"
  using assms
proof (induction c nl s rule: pf_nodes.induct)
  case (1 c nl s)
  show ?case
  proof (cases "s = []")
    case True
    then have "s = concat ns \<and> set ns \<subseteq> node_shape \<longleftrightarrow> ns = []" for ns
      using node_cases(3) by (cases ns) auto
    then have "(\<exists>ns. s = concat ns \<and> set ns \<subseteq> node_shape \<and> R ns) \<longleftrightarrow> R []" for R
      by metis
    with 1(2,3) show ?thesis
      using pf_nodes.simps [of c nl s] True by auto
  next
    case False
    have run: "pf_nodes c nl s = (Inr (c', nl'), r) \<longleftrightarrow> c + 1 \<le> MAX_TREE_NODES \<and>
        (\<exists>n1 q. pf_node nl s = (Inr n1, q) \<and> pf_nodes (c + 1) n1 q = (Inr (c', nl'), r))"
      using False pf_nodes.simps [of c nl s] by (auto split: prod.splits sum.splits)
    also have "\<dots> \<longleftrightarrow> c + 1 \<le> MAX_TREE_NODES \<and> (\<exists>n1 q w. w \<in> node_shape \<and> s = w @ q \<and>
        n1 = nl + leaf_nodes [w] \<and> n1 \<le> RS_MAX_LEAVES \<and>
        r = [] \<and> (\<exists>ns. q = concat ns \<and> set ns \<subseteq> node_shape \<and> c' = c + 1 + length ns \<and>
          c' \<le> MAX_TREE_NODES \<and> nl' = n1 + leaf_nodes ns \<and> nl' \<le> RS_MAX_LEAVES))"
    proof (rule conj_cong [OF refl], intro ex_cong1)
      fix n1 q
      assume c: "c + 1 \<le> MAX_TREE_NODES"
      show "pf_node nl s = (Inr n1, q) \<and> pf_nodes (c + 1) n1 q = (Inr (c', nl'), r) \<longleftrightarrow>
          (\<exists>w. w \<in> node_shape \<and> s = w @ q \<and> n1 = nl + leaf_nodes [w] \<and> n1 \<le> RS_MAX_LEAVES \<and>
          r = [] \<and> (\<exists>ns. q = concat ns \<and> set ns \<subseteq> node_shape \<and> c' = c + 1 + length ns \<and>
            c' \<le> MAX_TREE_NODES \<and> nl' = n1 + leaf_nodes ns \<and> nl' \<le> RS_MAX_LEAVES))"
      proof (cases "pf_node nl s = (Inr n1, q)")
        case True
        then obtain w where w: "w \<in> node_shape" "s = w @ q" "n1 = nl + leaf_nodes [w]" "n1 \<le> RS_MAX_LEAVES"
          using pf_node_iff [OF 1(3)] by blast
        have "pf_nodes (c + 1) n1 q = (Inr (c', nl'), r) \<longleftrightarrow>
            r = [] \<and> (\<exists>ns. q = concat ns \<and> set ns \<subseteq> node_shape \<and> c' = c + 1 + length ns \<and>
            c' \<le> MAX_TREE_NODES \<and> nl' = n1 + leaf_nodes ns \<and> nl' \<le> RS_MAX_LEAVES)"
          using 1(1) [where x = "Inr n1"] False c True w(4) by simp
        with True w show ?thesis by blast
      next
        case no: False
        then show ?thesis unfolding pf_node_iff [OF 1(3)] by blast
      qed
    qed
    also have "\<dots> \<longleftrightarrow> r = [] \<and> (\<exists>ns. s = concat ns \<and> set ns \<subseteq> node_shape \<and> c' = c + length ns \<and>
        c' \<le> MAX_TREE_NODES \<and> nl' = nl + leaf_nodes ns \<and> nl' \<le> RS_MAX_LEAVES)" (is "?l \<longleftrightarrow> ?r")
    proof
      assume ?l
      then obtain w ns where "w \<in> node_shape" "s = w @ concat ns" "set ns \<subseteq> node_shape" "r = []"
        "c' = c + 1 + length ns" "c' \<le> MAX_TREE_NODES" "nl' = nl + leaf_nodes [w] + leaf_nodes ns"
        "nl' \<le> RS_MAX_LEAVES" by blast
      then show ?r by (intro conjI exI [of _ "w # ns"]) auto
    next
      assume ?r
      then obtain ns where ns: "r = []" "s = concat ns" "set ns \<subseteq> node_shape" "c' = c + length ns"
        "c' \<le> MAX_TREE_NODES" "nl' = nl + leaf_nodes ns" "nl' \<le> RS_MAX_LEAVES" by blast
      with False obtain w ws where "ns = w # ws" by (cases ns) auto
      with ns show ?l
        by (intro conjI exI [of _ "nl + leaf_nodes [w]"] exI [of _ "concat ws"] exI [of _ w] exI [of _ ws]) auto
    qed
    finally show ?thesis .
  qed
qed

lemma pf_tree_iff: "pf_tree s = (Inr (), r) \<longleftrightarrow> s \<in> tree_shape \<and> r = []"
proof -
  have "pf_tree s = (Inr (), r) \<longleftrightarrow> (\<exists>v c nl. length v \<le> MAX_MLS_BYTES \<and> s = tls_vector v \<and> r = [] \<and>
      run_reader (pf_nodes 0 0) v = Inr (c, nl) \<and> c \<noteq> 0 \<and> nl \<noteq> 0)"
    unfolding pf_tree_def bindS_vector_iff [OF limits(1)]
    by (auto simp: run_bindS_ok_iff cur_finish_def cursor_simps scan_inside_def split: if_splits)
  also have "\<dots> \<longleftrightarrow> s \<in> tree_shape \<and> r = []"
    by (auto simp: tree_shape_def run_reader_Inr_iff pf_nodes_iff) force+
  finally show ?thesis .
qed

end
