(* ===== verification/PreflightEquiv.thy ===== *)
theory PreflightEquiv
  imports PreflightGrammar
begin

text \<open>
  The whole messages: the two loops that take a pair of items (the extensions of a GroupInfo, the
  proposals of an external Commit), and the equivalence of \<open>group_info\<close> and \<open>external_commit\<close> with
  their grammars.
\<close>

section \<open>GroupInfo\<close>

definition tree_extension_shape :: "bytes set" where
  "tree_extension_shape = seqL [{be16 2}, vec MAX_MLS_BYTES tree_shape]"

definition external_pub_shape :: "bytes set" where
  "external_pub_shape = seqL [{be16 4}, vec MAX_MLS_BYTES (field_of 32)]"

definition transcript_shape :: "bytes \<Rightarrow> bytes set" where
  "transcript_shape ep = vec 32 {v. length v = 32 \<or> ep = replicate 8 0 \<and> v = []}"

definition epoch_shape :: "bytes set" where
  "epoch_shape = {ep @ w | ep w. length ep = 8 \<and> w \<in> seqL [field_of 32, transcript_shape ep]}"

definition group_info_shape :: "bytes set" where
  "group_info_shape = seqL [
     {be16 1 @ be16 4 @ be16 1 @ be16 1}, field_of 16, epoch_shape, {tls_vector []},
     vec MAX_MLS_BYTES (seqL [tree_extension_shape, external_pub_shape]
       \<union> seqL [external_pub_shape, tree_extension_shape]),
     field_of 32, {w. length w = 4}, field_of 64]"

lemma bindS_u16_iff: "bindS cur_u16 f s = (Inr x, r) \<longleftrightarrow> (\<exists>k q. s = be16 k @ q \<and> f k q = (Inr x, r))"
  by (auto simp: run_bindS_ok_iff cur_u16_def read_u16_Inr_iff)

lemma bind_inside_return:
  assumes "scans True (m :: unit scan) L"
  shows "bindS (scan_inside e m) (\<lambda>_. returnS x) s = (Inr y, r) \<longleftrightarrow> e \<in> L \<and> y = x \<and> r = s"
  using scans_accepts_unit [OF assms, of e] by (auto simp: bind_unit_return scan_inside_def)

lemma scans_tree: "scans True pf_tree tree_shape"
  by (auto simp: scans_def pf_tree_iff)

lemma scans_pub_body: "scans True (bindS (cur_exact 32) (\<lambda>_. cur_finish)) (field_of 32)"
  using scans_bind [OF scans_field scans_finish, of 32] by simp

lemma tagged_vec_prefix:
  "(\<exists>w \<in> seqL [{be16 k}, vec mx L]. s = w @ r) \<longleftrightarrow>
    (\<exists>v. s = be16 k @ tls_vector v @ r \<and> length v \<le> mx \<and> v \<in> L)"
  unfolding seqL_Cons_prefix [of "{be16 k}"] seqL_single by (auto simp: vec_def)

lemma gi_extension_iff:
  "gi_extension seen s = (Inr c, r) \<longleftrightarrow>
    \<not> fst seen \<and> c = (True, snd seen) \<and> (\<exists>w \<in> tree_extension_shape. s = w @ r) \<or>
    \<not> snd seen \<and> c = (fst seen, True) \<and> (\<exists>w \<in> external_pub_shape. s = w @ r)"
proof -
  have "gi_extension seen s = (Inr c, r) \<longleftrightarrow> (\<exists>k body q. s = be16 k @ tls_vector body @ q \<and>
      length body \<le> MAX_MLS_BYTES \<and>
      (k = 2 \<and> \<not> fst seen \<and> body \<in> tree_shape \<and> c = (True, snd seen) \<and> r = q \<or>
       k = 4 \<and> \<not> snd seen \<and> body \<in> field_of 32 \<and> c = (fst seen, True) \<and> r = q))"
    unfolding gi_extension_def bindS_u16_iff bindS_vector_iff [OF limits(1)]
    by (auto simp: bind_inside_return [OF scans_tree] bind_inside_return [OF scans_pub_body] split: if_splits) 
  then show ?thesis
    unfolding tree_extension_shape_def external_pub_shape_def tagged_vec_prefix by blast
qed

interpretation gi_pair: item_pair gi_extension gi_extensions tree_extension_shape external_pub_shape
  "(False, False)" "(True, False)" "(False, True)" "(True, True)"
  by unfold_locales (rule gi_extensions.simps,
    auto simp: gi_extension_iff tree_extension_shape_def external_pub_shape_def seqL_Cons)

lemma gi_extensions_accepts:
  "run_reader (gi_extensions (False, False)) e = Inr (True, True) \<longleftrightarrow>
    e \<in> seqL [tree_extension_shape, external_pub_shape] \<union> seqL [external_pub_shape, tree_extension_shape]"
  unfolding run_reader_Inr_iff gi_pair.loop_pair by simp


lemma scans_versions:
  "scans False (pf_versions vs) {concat (map be16 vs)}"
proof (induction vs)
  case Nil
  then show ?case by (auto simp: pf_versions_def scans_def)
next
  case (Cons v vs)
  have one: "scans False (bindS cur_u16 (\<lambda>x. if x \<noteq> v then liftS (Inl RsUnsupportedProfile) else returnS ()))
      {be16 v}"
    using scans_u16 [OF scans_return, of v RsUnsupportedProfile "()"] by simp
  have "scans False (pf_versions (v # vs)) (seqL [{be16 v}, {concat (map be16 vs)}])"
    unfolding pf_versions_def eachS.simps
    by (rule scans_bind [OF one scans_last [OF Cons.IH [unfolded pf_versions_def]]])
  moreover have "seqL [{be16 v}, {concat (map be16 vs)}] = {concat (map be16 (v # vs))}"
    by (auto simp: seqL_Cons)
  ultimately show ?case by simp
qed

lemma scans_transcript: "scans False (pf_transcript ep) (transcript_shape ep)"
  unfolding pf_transcript_def transcript_shape_def by (rule scans_vector_check) auto

text \<open>The epoch decides which transcript hash is taken.\<close>

lemma scans_epoch_fields:
  "scans False (bindS (cur_take 8) (\<lambda>ep. bindS (cur_exact 32) (\<lambda>_. pf_transcript ep))) epoch_shape"
  unfolding scans_def
proof (intro allI)
  fix s r
  have k: "scans False (bindS (cur_exact 32) (\<lambda>_. pf_transcript ep)) (seqL [field_of 32, transcript_shape ep])" for ep
    by (intro scans_bind scans_field scans_last scans_transcript) simp
  have "(\<exists>v. bindS (cur_take 8) (\<lambda>ep. bindS (cur_exact 32) (\<lambda>_. pf_transcript ep)) s = (Inr v, r))
      \<longleftrightarrow> (\<exists>ep q. s = ep @ q \<and> length ep = 8 \<and>
        (\<exists>v. bindS (cur_exact 32) (\<lambda>_. pf_transcript ep) q = (Inr v, r)))"
    unfolding run_bindS_ok_iff [of "cur_take 8"] unfolding cur_take_def read_array_Inr_iff by blast
  also have "\<dots> \<longleftrightarrow> (\<exists>ep q. s = ep @ q \<and> length ep = 8 \<and> (\<exists>w \<in> seqL [field_of 32, transcript_shape ep]. q = w @ r))"
    unfolding scansD [OF k] by simp
  also have "\<dots> \<longleftrightarrow> (\<exists>w \<in> epoch_shape. s = w @ r)" (is "?l \<longleftrightarrow> ?r")
  proof
    assume ?l
    then obtain ep w where "s = (ep @ w) @ r" "length ep = 8" "w \<in> seqL [field_of 32, transcript_shape ep]"
      by auto
    then show ?r unfolding epoch_shape_def by blast
  next
    assume ?r
    then obtain ep w where "s = ep @ w @ r" "length ep = 8" "w \<in> seqL [field_of 32, transcript_shape ep]"
      unfolding epoch_shape_def by auto
    then show ?l by blast
  qed
  finally show "(\<exists>v. bindS (cur_take 8) (\<lambda>ep. bindS (cur_exact 32) (\<lambda>_. pf_transcript ep)) s = (Inr v, r)) \<longleftrightarrow>
      (\<exists>w \<in> epoch_shape. s = w @ r) \<and> (False \<longrightarrow> r = [])" by simp
qed

lemma scans_epoch:
  assumes "scans fin m (seqL As)"
  shows "scans fin (bindS (cur_take 8) (\<lambda>ep. bindS (cur_exact 32) (\<lambda>_. bindS (pf_transcript ep) (\<lambda>_. m))))
    (seqL (epoch_shape # As))"
  using scans_bind [OF scans_epoch_fields assms] by (simp only: bindS_assoc)

lemma scans_versions4:
  "scans fin m (seqL As) \<Longrightarrow> scans fin (bindS (pf_versions [1, 4, 1, 1]) (\<lambda>_. m))
    (seqL ({be16 1 @ be16 4 @ be16 1 @ be16 1} # As))"
  using scans_bind [OF scans_versions [of "[1, 4, 1, 1]"], of fin "\<lambda>_. m" As] by simp

text \<open>The field of the extensions: both kinds, in either order.\<close>

lemma scans_gi_extensions:
  assumes "scans fin m (seqL As)"
  shows "scans fin (bindS (cur_vector MAX_MLS_BYTES) (\<lambda>e.
      bindS (scan_inside e (gi_extensions (False, False))) (\<lambda>(seen_tree, seen_pub).
      if \<not> seen_tree \<or> \<not> seen_pub then liftS (Inl RsMissingRequiredExtension) else m)))
    (seqL (vec MAX_MLS_BYTES (seqL [tree_extension_shape, external_pub_shape]
       \<union> seqL [external_pub_shape, tree_extension_shape]) # As))"
  unfolding scans_def seqL_vec_prefix bindS_vector_iff [OF limits(1)]
proof (intro allI)
  fix s r
  have inner: "(\<exists>v. bindS (scan_inside e (gi_extensions (False, False))) (\<lambda>(seen_tree, seen_pub).
      if \<not> seen_tree \<or> \<not> seen_pub then liftS (Inl RsMissingRequiredExtension) else m) q = (Inr v, r)) \<longleftrightarrow>
      run_reader (gi_extensions (False, False)) e = Inr (True, True) \<and> (\<exists>v. m q = (Inr v, r))" for e q
    by (cases "run_reader (gi_extensions (False, False)) e")
      (auto simp: run_bindS_ok_iff scan_inside_def split: if_splits)
  show "(\<exists>v e q. length e \<le> MAX_MLS_BYTES \<and> s = tls_vector e @ q \<and>
      bindS (scan_inside e (gi_extensions (False, False))) (\<lambda>(seen_tree, seen_pub).
      if \<not> seen_tree \<or> \<not> seen_pub then liftS (Inl RsMissingRequiredExtension) else m) q = (Inr v, r)) \<longleftrightarrow>
    (\<exists>e q. length e \<le> MAX_MLS_BYTES \<and> e \<in> seqL [tree_extension_shape, external_pub_shape]
       \<union> seqL [external_pub_shape, tree_extension_shape] \<and> s = tls_vector e @ q \<and> (\<exists>w \<in> seqL As. q = w @ r)) \<and>
    (fin \<longrightarrow> r = [])"
    using inner unfolding gi_extensions_accepts scansD [OF assms] by blast
qed

lemma scans_empty_vector:
  assumes "mx < 2 ^ 30" "scans fin m (seqL As)"
  shows "scans fin (bindS (cur_vector mx) (\<lambda>v. if v \<noteq> [] then liftS (Inl e) else m)) (seqL ({tls_vector []} # As))"
proof -
  have "vec mx {v. \<not> v \<noteq> []} = {tls_vector []}" by (auto simp: vec_def)
  then show ?thesis using scans_vector_if [OF assms, of "\<lambda>v. v \<noteq> []" e] by simp
qed

lemma scans_group_info: "scans True group_info_scan group_info_shape"
  unfolding group_info_scan_def group_info_shape_def
  by (rule scans_versions4 scans_epoch scans_empty_vector [OF limits(4)] scans_gi_extensions scan_rules | simp)+

lemma group_info_iff:
  "group_info b = Inr () \<longleftrightarrow> length b \<le> MAX_MLS_BYTES \<and> b \<in> group_info_shape"
proof -
  have "[] \<notin> group_info_shape" by (auto simp: group_info_shape_def seqL_Cons)
  then show ?thesis
    using scans_accepts_unit [OF scans_group_info, of b] by (auto simp: group_info_def)
qed

section \<open>External Commits\<close>

definition recipient_shape :: "bytes set" where
  "recipient_shape = seqL [field_of 32, field_of 48]"

definition path_node_shape :: "bytes set" where
  "path_node_shape = seqL [field_of 32, vec MAX_MLS_BYTES (list_of RS_MAX_LEAVES recipient_shape)]"

definition init_proposal_shape :: "bytes set" where
  "init_proposal_shape = seqL [{[1]}, {be16 6}, field_of 32]"

definition remove_proposal_shape :: "bytes set" where
  "remove_proposal_shape = seqL [{[1]}, {be16 3}, {w. length w = 4}]"

definition external_commit_shape :: "bytes set" where
  "external_commit_shape = seqL [
     {be16 1 @ be16 1}, field_of 16, {w. length w = 8}, {[4]}, vec MAX_AAD_BYTES {v. v \<noteq> []}, {[3]},
     vec 128 (seqL [init_proposal_shape, remove_proposal_shape]
       \<union> seqL [remove_proposal_shape, init_proposal_shape]),
     {[1]}, leaf_shape, vec MAX_MLS_BYTES (list_of 8 path_node_shape), field_of 64, field_of 32]"

lemma field_nonempty [simp]: "[] \<notin> field_of n" "[] \<notin> vec mx L"
  by (auto simp: field_of_def vec_def)

lemma scans_recipient: "scans False pf_recipient recipient_shape"
  unfolding pf_recipient_def recipient_shape_def by (rule scan_rules | simp)+

interpretation recipients: counted_items pf_recipient recipient_shape
  by unfold_locales (rule scans_recipient, auto simp: recipient_shape_def seqL_Cons)

lemma scans_path_node: "scans False pf_path_node path_node_shape"
proof -
  have "scans False (bindS (cur_vector MAX_MLS_BYTES) (\<lambda>recipients.
      scan_inside recipients (while_counted RS_MAX_LEAVES pf_recipient 0)))
    (seqL [vec MAX_MLS_BYTES (list_of RS_MAX_LEAVES recipient_shape)])"
    using scans_inside_last [OF limits(1) recipients.scans_counted] by simp
  then show ?thesis
    unfolding pf_path_node_def path_node_shape_def by (rule scans_bind [OF scans_field, rotated]) simp
qed

interpretation path_nodes: counted_items pf_path_node path_node_shape
  by unfold_locales (rule scans_path_node, auto simp: path_node_shape_def seqL_Cons)

lemma update_path_iff: "update_path p = Inr () \<longleftrightarrow> p \<in> list_of 8 path_node_shape"
  unfolding update_path_def by (rule scans_accepts_unit [OF path_nodes.scans_counted])

lemma u16_witness [simp]: "\<exists>k :: u16. (k = 3 \<longrightarrow> P) \<and> ((k = 3 \<longrightarrow> P) \<longrightarrow> k = 6)"
  by (rule exI [of _ 6]) simp

lemma pf_proposal_iff:
  "pf_proposal cs s = (Inr c, r) \<longleftrightarrow>
    fst cs = 0 \<and> c = (1, snd cs) \<and> (\<exists>w \<in> init_proposal_shape. s = w @ r) \<or>
    snd cs = 0 \<and> c = (fst cs, 1) \<and> (\<exists>w \<in> remove_proposal_shape. s = w @ r)"
proof -
  have "pf_proposal cs s = (Inr c, r) \<longleftrightarrow> (\<exists>k q. s = 1 # be16 k @ q \<and>
      (k = 6 \<and> fst cs = 0 \<and> c = (1, snd cs) \<and> cur_exact 32 q = (Inr (), r) \<or>
       k = 3 \<and> snd cs = 0 \<and> c = (fst cs, 1) \<and> (\<exists>w. length w = 4 \<and> q = w @ r)))"
  proof -
    have t: "bindS (cur_take 4) (\<lambda>_. returnS x) q = (Inr c, r) \<longleftrightarrow> (\<exists>w. length w = 4 \<and> q = w @ r) \<and> c = x" for x q
      by (auto simp: run_bindS_ok_iff cur_take_def read_array_Inr_iff)
    show ?thesis
      unfolding pf_proposal_def bindS_byte_iff if_liftS_Inl_iff bindS_u16_iff
      by (auto simp: t bind_unit_return split: if_splits)
  qed
  also have "\<dots> \<longleftrightarrow> fst cs = 0 \<and> c = (1, snd cs) \<and> (\<exists>q. s = 1 # be16 6 @ q \<and> (\<exists>w \<in> field_of 32. q = w @ r)) \<or>
      snd cs = 0 \<and> c = (fst cs, 1) \<and> (\<exists>q. s = 1 # be16 3 @ q \<and> (\<exists>w. length w = 4 \<and> q = w @ r))"
    using scans_unitD [OF scans_field [of 32]] by auto
  finally show ?thesis
    unfolding init_proposal_shape_def remove_proposal_shape_def seqL_Cons_prefix seqL_single by auto
qed

interpretation proposals: item_pair pf_proposal pf_proposals init_proposal_shape remove_proposal_shape
  "(0, 0)" "(1, 0)" "(0, 1)" "(1, 1)"
  by unfold_locales (rule pf_proposals.simps,
    auto simp: pf_proposal_iff init_proposal_shape_def remove_proposal_shape_def seqL_Cons)

lemma pf_proposals_accepts:
  "run_reader (pf_proposals (0, 0)) e = Inr (1, 1) \<longleftrightarrow>
    e \<in> seqL [init_proposal_shape, remove_proposal_shape] \<union> seqL [remove_proposal_shape, init_proposal_shape]"
  unfolding run_reader_Inr_iff proposals.loop_pair by simp

lemma scans_proposals:
  assumes "scans fin m (seqL As)"
  shows "scans fin (bindS (cur_vector 128) (\<lambda>props.
      bindS (scan_inside props (pf_proposals (0, 0))) (\<lambda>(init, remove).
      if init \<noteq> 1 \<or> remove \<noteq> 1 then liftS (Inl RsDeltaMismatch) else m)))
    (seqL (vec 128 (seqL [init_proposal_shape, remove_proposal_shape]
       \<union> seqL [remove_proposal_shape, init_proposal_shape]) # As))"
  unfolding scans_def seqL_vec_prefix
proof (intro allI)
  fix s r
  have mx: "(128 :: nat) < 2 ^ 30" by simp
  have inner: "(\<exists>v. bindS (scan_inside e (pf_proposals (0, 0))) (\<lambda>(init, remove).
      if init \<noteq> 1 \<or> remove \<noteq> 1 then liftS (Inl RsDeltaMismatch) else m) q = (Inr v, r)) \<longleftrightarrow>
      run_reader (pf_proposals (0, 0)) e = Inr (1, 1) \<and> (\<exists>v. m q = (Inr v, r))" for e q
    by (cases "run_reader (pf_proposals (0, 0)) e")
      (auto simp: run_bindS_ok_iff scan_inside_def split: if_splits)
  show "(\<exists>v. bindS (cur_vector 128) (\<lambda>props.
      bindS (scan_inside props (pf_proposals (0, 0))) (\<lambda>(init, remove).
      if init \<noteq> 1 \<or> remove \<noteq> 1 then liftS (Inl RsDeltaMismatch) else m)) s = (Inr v, r)) \<longleftrightarrow>
    (\<exists>e q. length e \<le> 128 \<and> e \<in> seqL [init_proposal_shape, remove_proposal_shape]
       \<union> seqL [remove_proposal_shape, init_proposal_shape] \<and> s = tls_vector e @ q \<and> (\<exists>w \<in> seqL As. q = w @ r)) \<and>
    (fin \<longrightarrow> r = [])"
    using inner unfolding bindS_vector_iff [OF mx] pf_proposals_accepts scansD [OF assms] by blast
qed

lemma scans_update_path:
  assumes "scans fin m (seqL As)"
  shows "scans fin (bindS (cur_vector MAX_MLS_BYTES) (\<lambda>path. bindS (liftS (update_path path)) (\<lambda>_. m)))
    (seqL (vec MAX_MLS_BYTES (list_of 8 path_node_shape) # As))"
  using scans_inside [OF limits(1) path_nodes.scans_counted, of fin "\<lambda>_. m" As] assms
  unfolding update_path_def scan_inside_def by blast

lemma scans_versions2:
  "scans fin m (seqL As) \<Longrightarrow> scans fin (bindS (pf_versions [1, 1]) (\<lambda>_. m)) (seqL ({be16 1 @ be16 1} # As))"
  using scans_bind [OF scans_versions [of "[1, 1]"], of fin "\<lambda>_. m" As] by simp

lemma scans_external_commit: "scans True external_commit_scan external_commit_shape"
  unfolding external_commit_scan_def external_commit_shape_def
  by (rule scans_versions2 scans_proposals scans_update_path scans_vector_if [OF limits(2)] scan_rules | simp)+

lemma external_commit_iff:
  "external_commit b = Inr () \<longleftrightarrow> length b \<le> MAX_MLS_BYTES \<and> b \<in> external_commit_shape"
proof -
  have "[] \<notin> external_commit_shape" by (auto simp: external_commit_shape_def seqL_Cons)
  then show ?thesis
    using scans_accepts_unit [OF scans_external_commit, of b] by (auto simp: external_commit_def)
qed

end
