(* ===== verification/LocalLaws.thy ===== *)
theory LocalLaws
  imports LocalState RosterLaws
begin

text \<open>
  The laws of \<open>local_group_state.rs\<close>: validation characterised by the predicate
  \<open>local_ok\<close>, preserved by construction and advance; the history as a window over the log of
  all rosters since the join.
\<close>

section \<open>Validity\<close>

definition leaf_ok :: "MlsRosterLeafV1 \<Rightarrow> bool" where
  "leaf_ok l \<longleftrightarrow> length (credential_identity l) = 45 \<and> length (signature_public_key l) = 32"

definition roster_ok :: "(bytes \<Rightarrow> bytes) \<Rightarrow> MlsRosterSummaryV1 \<Rightarrow> bool" where
  "roster_ok sha r \<longleftrightarrow>
     length (group_id r) = 16 \<and> length (digest_sha256 r) = 32 \<and>
     leaves r \<noteq> [] \<and> length (leaves r) \<le> MAX_LEAVES \<and> (\<forall>l \<in> set (leaves r). leaf_ok l) \<and>
     mls_roster_digest_v1 sha (group_id r) (epoch r) (leaves r) = Inr (digest_sha256 r)"

definition pending_ok :: "(bytes \<Rightarrow> bytes) \<Rightarrow> LocalGroupState \<Rightarrow> PendingRecord \<Rightarrow> bool" where
  "pending_ok sha s p \<longleftrightarrow>
     (let b = binding p in
      roster_ok sha (proposed_roster p) \<and>
      1 \<le> length (command_id (pb_transition b)) \<and> length (command_id (pb_transition b)) \<le> 128 \<and>
      length (context_sha256 (pb_transition b)) = 32 \<and>
      length (pb_commit_sha256 b) = 32 \<and> length (pb_aad_sha256 b) = 32 \<and>
      length (preparation_base_sha256 p) = 32 \<and> length (upstream_pending_sha256 p) = 32 \<and>
      (\<forall>h. pb_welcome_sha256 b = Some h \<longrightarrow> length h = 32) \<and>
      (\<forall>h. pb_group_info_sha256 b = Some h \<longrightarrow> length h = 32) \<and>
      pb_group_id b = lg_group_id s \<and> pb_incarnation_id b = lg_incarnation_id s \<and>
      pb_previous_state b = expected (lg_current s) \<and> pb_author b \<in> set (leaves (lg_current s)) \<and>
      group_id (proposed_roster p) = lg_group_id s \<and>
      u64_checked_succ (epoch (lg_current s)) = Some (epoch (proposed_roster p)))"

definition window :: "LocalGroupState \<Rightarrow> nat" where
  "window s = min (unat (epoch (lg_current s)) - unat (lg_join_epoch s)) (unat (lg_retention s))"

definition history_ok :: "(bytes \<Rightarrow> bytes) \<Rightarrow> LocalGroupState \<Rightarrow> bool" where
  "history_ok sha s \<longleftrightarrow>
     length (lg_history s) = window s \<and>
     (\<forall>i < window s. let r = lg_history s ! i in
        roster_ok sha r \<and> group_id r = lg_group_id s \<and>
        unat (epoch r) + window s = unat (epoch (lg_current s)) + i)"

definition local_ok :: "(bytes \<Rightarrow> bytes) \<Rightarrow> LocalGroupState \<Rightarrow> bool" where
  "local_ok sha s \<longleftrightarrow>
     (lg_retention s = 2 \<or> lg_retention s = 4) \<and> length (lg_group_id s) = 16 \<and>
     1 \<le> length (lg_incarnation_id s) \<and> length (lg_incarnation_id s) \<le> 128 \<and>
     roster_ok sha (lg_current s) \<and> group_id (lg_current s) = lg_group_id s \<and>
     lg_join_epoch s \<le> epoch (lg_current s) \<and> history_ok sha s \<and>
     (\<forall>p. lg_pending s = Some p \<longrightarrow> pending_ok sha s p)"

lemma small_checks:
  "fixed v n = Inr u \<longleftrightarrow> length v = n"
  "opaque_id v = Inr u \<longleftrightarrow> 1 \<le> length v \<and> length v \<le> 128"
  "validate_retention t = Inr u \<longleftrightarrow> t = 2 \<or> t = 4"
  "validate_leaf l = Inr u \<longleftrightarrow> leaf_ok l"
  by (auto simp: fixed_def opaque_id_def validate_retention_def validate_leaf_def leaf_ok_def
      bindE_Inr_iff)

lemma validate_roster_Inr_iff: "validate_roster sha r = Inr u \<longleftrightarrow> roster_ok sha r"
  unfolding validate_roster_def roster_ok_def
  by (auto simp: bindE_Inr_iff small_checks map_err_Inr_iff eachE_Inr_iff)

lemma window_word:
  assumes "lg_join_epoch s \<le> epoch (lg_current s)"
  shows "unat (min (epoch (lg_current s) - lg_join_epoch s) (ucast (lg_retention s))) = window s"
proof -
  have "unat (lg_retention s) < 2 ^ 32"
    using unsigned_less [where w = "lg_retention s"] by simp
  then have "unat (lg_retention s) < 2 ^ 64" by simp
  then have u: "unat (ucast (lg_retention s) :: u64) = unat (lg_retention s)"
    by (simp add: unsigned_ucast_eq take_bit_nat_eq_self)
  have "unat (epoch (lg_current s) - lg_join_epoch s)
      = unat (epoch (lg_current s)) - unat (lg_join_epoch s)"
    using assms by (simp add: unat_sub)
  with u show ?thesis
    by (simp add: window_def min_def word_le_nat_alt)
qed

lemma history_epoch:
  fixes e r :: u64
  assumes "n \<le> unat e" "i < n"
  shows "r = e - of_nat n + of_nat i \<longleftrightarrow> unat r + n = unat e + i"
proof -
  have e: "unat e < 2 ^ 64" using unsigned_less [where w = e] by simp
  have n: "unat (of_nat n :: u64) = n" "unat (of_nat i :: u64) = i"
    using assms e by (simp_all add: unat_of_nat take_bit_nat_eq_self)
  have sub: "unat (e - of_nat n) = unat e - n"
    using assms n by (subst unat_sub) (simp_all add: word_le_nat_alt)
  have "unat (e - of_nat n + of_nat i) = unat e - n + i"
    using assms e n sub by (subst unat_add_lem [THEN iffD1]) simp_all
  then show ?thesis
    using assms by (auto simp: word_unat_eq_iff)
qed

lemma history_Inr_iff:
  assumes "lg_join_epoch s \<le> epoch (lg_current s)" "length (lg_history s) = window s"
  shows "eachE (validate_history_entry sha s (window s)) (List.enumerate 0 (lg_history s)) = Inr u \<longleftrightarrow>
    history_ok sha s"
proof -
  have le: "window s \<le> unat (epoch (lg_current s))" by (simp add: window_def)
  have "validate_history_entry sha s (window s) (i, r) = Inr () \<longleftrightarrow>
      roster_ok sha r \<and> group_id r = lg_group_id s \<and>
      epoch r = epoch (lg_current s) - of_nat (window s) + of_nat i" for i r
    by (auto simp: validate_history_entry_def bindE_Inr_iff validate_roster_Inr_iff)
  then show ?thesis
    using assms(2) history_epoch [OF le]
    by (simp add: eachE_Inr_iff in_set_enumerate_eq history_ok_def Let_def all_set_conv_all_nth
        enumerate_eq_zip)
qed

lemma validate_pending_Inr_iff: "validate_pending sha s p = Inr u \<longleftrightarrow> pending_ok sha s p"
  by (auto simp: validate_pending_def pending_ok_def Let_def bindE_Inr_iff small_checks
      validate_roster_Inr_iff eachE_Inr_iff List.map_filter_def split: option.splits if_splits)

lemma validate_Inr_iff: "validate sha s = Inr u \<longleftrightarrow> local_ok sha s"
proof (cases "lg_join_epoch s \<le> epoch (lg_current s)")
  case False
  then show ?thesis
    by (auto simp: validate_def local_ok_def bindE_Inr_iff)
next
  case True
  have "history_ok sha s \<Longrightarrow> length (lg_history s) = window s"
    by (simp add: history_ok_def)
  with True show ?thesis
    by (cases "length (lg_history s) = window s"; cases "lg_pending s")
      (auto simp: validate_def local_ok_def bindE_Inr_iff small_checks validate_roster_Inr_iff
        window_word history_Inr_iff validate_pending_Inr_iff Let_def)
qed


lemma validate_code: "validate sha s = Inr () \<longleftrightarrow> local_ok sha s"
  by (rule validate_Inr_iff)

section \<open>Construction and advance\<close>

lemma retention_cases: "local_ok sha s \<Longrightarrow> unat (lg_retention s) = 2 \<or> unat (lg_retention s) = 4"
  by (auto simp: local_ok_def)

lemma new_state_Inr_iff:
  "new_state sha incarnation retention current = Inr s \<longleftrightarrow>
     (retention = 2 \<or> retention = 4) \<and> roster_ok sha current \<and>
     1 \<le> length incarnation \<and> length incarnation \<le> 128 \<and>
     s = \<lparr>lg_group_id = group_id current, lg_incarnation_id = incarnation,
        lg_retention = retention, lg_join_epoch = epoch current, lg_current = current,
        lg_history = [], lg_pending = None\<rparr>"
  unfolding new_state_def Let_def bindE_Inr_iff validate_Inr_iff
  by (auto simp: local_ok_def history_ok_def window_def roster_ok_def)

definition advanced :: "LocalGroupState \<Rightarrow> MlsRosterSummaryV1 \<Rightarrow> LocalGroupState" where
  "advanced s r = s\<lparr>lg_history := push_history (lg_retention s) (lg_history s) (lg_current s),
     lg_current := r, lg_pending := None\<rparr>"

lemma length_push_history:
  "length h \<le> unat t \<Longrightarrow> length (push_history t h r) = min (Suc (length h)) (unat t)"
  by (simp add: push_history_def Let_def)

lemma nth_push_history:
  assumes "length h \<le> unat t" "i < length (push_history t h r)"
  shows "push_history t h r ! i = (h @ [r]) ! (i + (if length h = unat t then 1 else 0))"
  using assms by (auto simp: push_history_def Let_def nth_tl)

lemma advanced_ok:
  assumes ok: "local_ok sha s" and r: "roster_ok sha r" "group_id r = lg_group_id s"
    and ep: "u64_checked_succ (epoch (lg_current s)) = Some (epoch r)"
  shows "local_ok sha (advanced s r)"
proof -
  from ep have e: "unat (epoch r) = unat (epoch (lg_current s)) + 1"
    by (simp add: u64_checked_succ_Some_iff)
  from ok have j: "unat (lg_join_epoch s) \<le> unat (epoch (lg_current s))"
    by (simp add: local_ok_def word_le_nat_alt)
  from ok have h: "history_ok sha s" "roster_ok sha (lg_current s)" "group_id (lg_current s) = lg_group_id s"
    by (simp_all add: local_ok_def)
  have len: "length (lg_history s) = window s" using h(1) by (simp add: history_ok_def)
  have le: "length (lg_history s) \<le> unat (lg_retention s)" by (simp add: len window_def)
  have w: "window (advanced s r) = min (Suc (window s)) (unat (lg_retention s))"
    using e j by (simp add: window_def advanced_def Suc_diff_le)
  have "history_ok sha (advanced s r)"
    unfolding history_ok_def Let_def
  proof (intro conjI allI impI)
    show "length (lg_history (advanced s r)) = window (advanced s r)"
      using w len le by (simp add: advanced_def length_push_history)
  next
    fix i
    assume i: "i < window (advanced s r)"
    define k where "k = i + (if window s = unat (lg_retention s) then 1 else 0)"
    have nth: "lg_history (advanced s r) ! i = (lg_history s @ [lg_current s]) ! k"
      using i w len le by (simp add: advanced_def nth_push_history length_push_history k_def)
    have k: "k \<le> window s" using i w by (auto simp: k_def window_def split: if_splits)
    have shift: "unat (epoch (lg_current (advanced s r))) + i = unat (epoch (lg_current s)) + k
        + (if window s = unat (lg_retention s) then 0 else 1)"
      using e by (simp add: advanced_def k_def)
    have ws: "window (advanced s r) = window s + (if window s = unat (lg_retention s) then 0 else 1)"
      using w by (auto simp: window_def)
    show "roster_ok sha (lg_history (advanced s r) ! i)"
      "group_id (lg_history (advanced s r) ! i) = lg_group_id (advanced s r)"
      "unat (epoch (lg_history (advanced s r) ! i)) + window (advanced s r)
        = unat (epoch (lg_current (advanced s r))) + i"
      using h k len nth shift ws
      by (cases "k < window s"; simp add: history_ok_def Let_def nth_append advanced_def)+
  qed
  then show ?thesis
    using ok r e j by (simp add: local_ok_def advanced_def word_le_nat_alt)
qed

lemma advance_Inr_iff:
  "advance sha s r = Inr s' \<longleftrightarrow>
     local_ok sha s \<and> roster_ok sha r \<and> group_id r = lg_group_id s \<and>
     u64_checked_succ (epoch (lg_current s)) = Some (epoch r) \<and> s' = advanced s r"
proof -
  have "advance sha s r = Inr s' \<longleftrightarrow>
     local_ok sha s \<and> roster_ok sha r \<and> group_id r = lg_group_id s \<and>
     u64_checked_succ (epoch (lg_current s)) = Some (epoch r) \<and>
     local_ok sha (advanced s r) \<and> s' = advanced s r"
    by (auto simp: advance_def Let_def bindE_Inr_iff validate_Inr_iff validate_roster_Inr_iff
        advanced_def)
  then show ?thesis using advanced_ok by blast
qed

section \<open>The history is a window over the log\<close>

text \<open>
  The specification: the log of all rosters of the group since the join, the current one
  last. \<open>log_abs\<close> says that the stored state is the last roster of the log and the
  \<open>retention\<close> rosters before it.
\<close>

definition take_last :: "nat \<Rightarrow> 'a list \<Rightarrow> 'a list" where
  "take_last n xs = drop (length xs - n) xs"

definition log_abs :: "LocalGroupState \<Rightarrow> MlsRosterSummaryV1 list \<Rightarrow> bool" where
  "log_abs s rs \<longleftrightarrow> rs \<noteq> [] \<and> lg_current s = last rs \<and>
     lg_history s = take_last (unat (lg_retention s)) (butlast rs)"

lemma take_last_push:
  "0 < unat t \<Longrightarrow> push_history t (take_last (unat t) xs) x = take_last (unat t) (xs @ [x])"
  by (auto simp: push_history_def Let_def take_last_def tl_drop drop_Suc [symmetric] Suc_diff_le
      simp del: drop_Suc)

lemma log_abs_new: "new_state sha inc t r = Inr s \<Longrightarrow> log_abs s [r]"
  by (simp add: new_state_Inr_iff log_abs_def take_last_def)

lemma log_abs_advance:
  assumes "advance sha s r = Inr s'" "log_abs s rs"
  shows "log_abs s' (rs @ [r])"
proof -
  from assms(1) have s': "s' = advanced s r" and "local_ok sha s"
    by (simp_all add: advance_Inr_iff)
  then have "0 < unat (lg_retention s)"
    using retention_cases by fastforce
  moreover note s'
  moreover have "rs = butlast rs @ [lg_current s]"
    using assms(2) by (simp add: log_abs_def)
  ultimately show ?thesis
    using assms(2) take_last_push by (simp add: log_abs_def advanced_def)
qed

fun advance_all ::
  "(bytes \<Rightarrow> bytes) \<Rightarrow> LocalGroupState \<Rightarrow> MlsRosterSummaryV1 list \<Rightarrow> MlsErrorCode + LocalGroupState" where
  "advance_all sha s [] = Inr s"
| "advance_all sha s (r # rs) = bindE (advance sha s r) (\<lambda>s'. advance_all sha s' rs)"

lemma log_abs_advance_all:
  "advance_all sha s rs = Inr s' \<Longrightarrow> log_abs s l \<Longrightarrow> log_abs s' (l @ rs)"
proof (induction rs arbitrary: s l)
  case (Cons r rs)
  then obtain t where "advance sha s r = Inr t" "advance_all sha t rs = Inr s'"
    by (auto simp: bindE_Inr_iff)
  with Cons.IH [of t "l @ [r]"] log_abs_advance Cons.prems(2) show ?case by simp
qed simp

text \<open>The epochs of the retained rosters are consecutive and end at the current epoch.\<close>

definition retained_rosters :: "LocalGroupState \<Rightarrow> MlsRosterSummaryV1 list" where
  "retained_rosters s = lg_history s @ [lg_current s]"

lemma history_epochs:
  assumes "local_ok sha s" "r \<in> set (lg_history s)"
  shows "epoch r < epoch (lg_current s)"
    and "unat (epoch (lg_current s)) \<le> unat (epoch r) + unat (lg_retention s)"
    and "lg_join_epoch s \<le> epoch r"
proof -
  from assms have h: "history_ok sha s" by (simp add: local_ok_def)
  from assms(2) obtain i where i: "i < length (lg_history s)" "r = lg_history s ! i"
    by (auto simp: in_set_conv_nth)
  with h have "i < window s" "unat (epoch r) + window s = unat (epoch (lg_current s)) + i"
    by (auto simp: history_ok_def Let_def)
  then show "epoch r < epoch (lg_current s)"
    "unat (epoch (lg_current s)) \<le> unat (epoch r) + unat (lg_retention s)"
    "lg_join_epoch s \<le> epoch r"
    by (auto simp: word_less_nat_alt word_le_nat_alt window_def)
qed

lemma history_epoch_inj:
  assumes "local_ok sha s" "r \<in> set (lg_history s)" "r' \<in> set (lg_history s)" "epoch r = epoch r'"
  shows "r = r'"
proof -
  from assms(1) have h: "history_ok sha s" by (simp add: local_ok_def)
  from assms(2,3) obtain i j where ij: "i < length (lg_history s)" "r = lg_history s ! i"
    "j < length (lg_history s)" "r' = lg_history s ! j"
    by (auto simp: in_set_conv_nth)
  with h have "unat (epoch r) + window s = unat (epoch (lg_current s)) + i"
    "unat (epoch r') + window s = unat (epoch (lg_current s)) + j"
    by (auto simp: history_ok_def Let_def)
  with assms(4) ij show ?thesis by simp
qed

lemma history_covers:
  assumes "local_ok sha s" "ep < epoch (lg_current s)" "lg_join_epoch s \<le> ep"
    and "unat (epoch (lg_current s)) \<le> unat ep + unat (lg_retention s)"
  shows "\<exists>r \<in> set (lg_history s). epoch r = ep"
proof -
  from assms(1) have h: "history_ok sha s" by (simp add: local_ok_def)
  define i where "i = unat ep + window s - unat (epoch (lg_current s))"
  from assms(2-4) have le: "unat (epoch (lg_current s)) \<le> unat ep + window s"
    and lt: "i < window s"
    by (auto simp: i_def window_def word_less_nat_alt word_le_nat_alt)
  from h lt have "unat (epoch (lg_history s ! i)) + window s = unat (epoch (lg_current s)) + i"
    "i < length (lg_history s)"
    by (auto simp: history_ok_def Let_def)
  with le have "unat (epoch (lg_history s ! i)) = unat ep"
    by (simp add: i_def)
  with \<open>i < length (lg_history s)\<close> show ?thesis
    by (metis nth_mem word_unat_eq_iff)
qed

lemma find_unique:
  assumes "\<And>x y. x \<in> set xs \<Longrightarrow> y \<in> set xs \<Longrightarrow> P x \<Longrightarrow> P y \<Longrightarrow> x = y"
  shows "find P xs = Some r \<longleftrightarrow> r \<in> set xs \<and> P r"
proof -
  have "find P xs = None \<longleftrightarrow> (\<forall>x \<in> set xs. \<not> P x)"
    by (auto simp: find_None_iff)
  moreover have "find P xs = Some x \<Longrightarrow> x \<in> set xs \<and> P x" for x
    by (auto simp: find_Some_iff)
  ultimately show ?thesis
    using assms by (cases "find P xs") auto
qed

lemma message_roster_Inr_iff:
  assumes ok: "local_ok sha s"
  shows "message_roster sha s ep = Inr r \<longleftrightarrow> r \<in> set (retained_rosters s) \<and> epoch r = ep"
proof -
  have v: "validate sha s = Inr ()" using ok by (simp add: validate_Inr_iff)
  have f: "find (\<lambda>r. epoch r = ep) (lg_history s) = Some r \<longleftrightarrow>
      r \<in> set (lg_history s) \<and> epoch r = ep"
    by (rule find_unique) (metis history_epoch_inj [OF ok])
  show ?thesis
    using f by (auto simp: message_roster_def v retained_rosters_def ok_or_Inr_iff
        dest: history_epochs(1) [OF ok] order_less_asym)
qed

end
