(* ===== verification/LocalCodec.thy ===== *)
theory LocalCodec
  imports LocalLaws
begin

text \<open>
  The metadata codec of \<open>local_group_state.rs\<close>: every part reads back what it wrote (the
  locale \<open>codec\<close>, interpreted for leaves, expected states, rosters, optional hashes and pending
  records), a valid state always encodes within \<open>MAX_VALUE\<close>, decoding inverts encoding, and
  only the canonical encoding is accepted. The rows in the caller's storage: saving and
  loading, and the retry rows.
\<close>

lemma array_read_back [read_back]:
  assumes "cbor_ok C"
  shows "n < 2 ^ 64 \<Longrightarrow> n \<le> mx \<Longrightarrow> item_count C mx (cb_array C (of_nat n) @ r) = (Inr n, r)"
    and "n < 2 ^ 64 \<Longrightarrow> array C n (cb_array C (of_nat n) @ r) = (Inr (), r)"
proof -
  have u: "n < 2 ^ 64 \<Longrightarrow> unat (of_nat n :: u64) = n"
    by (simp add: unat_of_nat take_bit_nat_eq_self)
  show c: "n < 2 ^ 64 \<Longrightarrow> n \<le> mx \<Longrightarrow> item_count C mx (cb_array C (of_nat n) @ r) = (Inr n, r)" for mx
    using u by (simp add: item_count_def run_bindS read_back_items [OF assms])
  show "n < 2 ^ 64 \<Longrightarrow> array C n (cb_array C (of_nat n) @ r) = (Inr (), r)"
    using c [of n] by (simp add: array_def run_bindS)
qed

lemma array_numeral_read_back [read_back]:
  "cbor_ok C \<Longrightarrow> array C 3 (cb_array C 3 @ r) = (Inr (), r)"
  "cbor_ok C \<Longrightarrow> array C 4 (cb_array C 4 @ r) = (Inr (), r)"
  "cbor_ok C \<Longrightarrow> array C 9 (cb_array C 9 @ r) = (Inr (), r)"
  "cbor_ok C \<Longrightarrow> array C 13 (cb_array C 13 @ r) = (Inr (), r)"
  using array_read_back(2) [of C 3 r] array_read_back(2) [of C 4 r] array_read_back(2) [of C 9 r]
    array_read_back(2) [of C 13 r] by simp_all

lemma read_bytes_read_back [read_back]:
  assumes "cbor_ok C" "mn \<le> length v" "length v \<le> mx" "mx < 2 ^ 64"
  shows "read_bytes C mn mx (cb_bytes C v @ r) = (Inr v, r)"
  using assms by (simp add: read_bytes_def run_bindS read_back_items)

section \<open>Every part reads back what it wrote\<close>

interpretation leaf_codec: codec "leaf_encode C" "leaf_decode C" "\<lambda>l. cbor_ok C \<and> leaf_ok l" for C
  by unfold_locales
    (simp add: leaf_encode_def leaf_decode_def run_bindS read_back leaf_ok_def)

interpretation expected_codec: codec "expected_encode C" "expected_decode C"
  "\<lambda>e. cbor_ok C \<and> length (es_group_id e) = 16 \<and> length (es_digest_sha256 e) = 32" for C
  by unfold_locales
    (simp add: expected_encode_def expected_decode_def run_bindS read_back)

definition roster_shape :: "MlsRosterSummaryV1 \<Rightarrow> bool" where
  "roster_shape r \<longleftrightarrow> length (group_id r) = 16 \<and> length (digest_sha256 r) = 32 \<and>
     leaves r \<noteq> [] \<and> length (leaves r) \<le> MAX_LEAVES \<and> (\<forall>l \<in> set (leaves r). leaf_ok l)"

lemma roster_ok_shape: "roster_ok sha r \<Longrightarrow> roster_shape r"
  by (simp add: roster_ok_def roster_shape_def)

interpretation roster_codec: codec "roster_encode C" "roster_decode C"
  "\<lambda>r. cbor_ok C \<and> roster_shape r" for C
proof unfold_locales
  fix a r
  assume a: "cbor_ok C \<and> roster_shape a"
  then have n: "length (leaves a) \<le> MAX_LEAVES" "length (leaves a) < 2 ^ 64"
    by (auto simp: roster_shape_def MAX_LEAVES_def)
  have "timesS (length (leaves a)) (leaf_decode C) (concat (map (leaf_encode C) (leaves a)) @ x)
      = (Inr (leaves a), x)" for x
    using a by (intro leaf_codec.times_enc) (simp add: roster_shape_def)
  with a n show "roster_decode C (roster_encode C a @ r) = (Inr a, r)"
    by (simp add: roster_encode_def roster_decode_def run_bindS read_back roster_shape_def)
qed

interpretation hash_codec: codec "optional_hash_encode C" "optional_hash_decode C"
  "\<lambda>h. cbor_ok C \<and> (\<forall>v. h = Some v \<longrightarrow> length v = 32)" for C
  by unfold_locales
    (auto simp: optional_hash_encode_def optional_hash_decode_def run_bindS read_back
      split: option.splits)

definition pending_shape :: "PendingRecord \<Rightarrow> bool" where
  "pending_shape p \<longleftrightarrow>
     (let b = binding p in
      length (pb_group_id b) = 16 \<and>
      1 \<le> length (pb_incarnation_id b) \<and> length (pb_incarnation_id b) \<le> 128 \<and>
      1 \<le> length (command_id (pb_transition b)) \<and> length (command_id (pb_transition b)) \<le> 128 \<and>
      length (context_sha256 (pb_transition b)) = 32 \<and> leaf_ok (pb_author b) \<and>
      length (es_group_id (pb_previous_state b)) = 16 \<and>
      length (es_digest_sha256 (pb_previous_state b)) = 32 \<and>
      length (pb_commit_sha256 b) = 32 \<and> length (pb_aad_sha256 b) = 32 \<and>
      (\<forall>h. pb_welcome_sha256 b = Some h \<longrightarrow> length h = 32) \<and>
      (\<forall>h. pb_group_info_sha256 b = Some h \<longrightarrow> length h = 32) \<and>
      roster_shape (proposed_roster p) \<and>
      length (preparation_base_sha256 p) = 32 \<and> length (upstream_pending_sha256 p) = 32)"

lemma pending_ok_shape:
  "local_ok sha s \<Longrightarrow> lg_pending s = Some p \<Longrightarrow> pending_shape p"
  by (auto simp: local_ok_def pending_ok_def pending_shape_def Let_def roster_ok_def roster_shape_def
      expected_def)

interpretation pending_codec: codec "pending_encode C" "pending_decode C"
  "\<lambda>p. cbor_ok C \<and> pending_shape p" for C
  by unfold_locales
    (simp add: pending_encode_def pending_decode_def run_bindS read_back pending_shape_def Let_def
      leaf_codec.dec_enc expected_codec.dec_enc hash_codec.dec_enc roster_codec.dec_enc)

interpretation optional_pending_codec: codec "optional_pending_encode C" "optional_pending_decode C"
  "\<lambda>p. cbor_ok C \<and> (\<forall>q. p = Some q \<longrightarrow> pending_shape q)" for C
proof unfold_locales
  fix a r
  assume a: "cbor_ok C \<and> (\<forall>q. a = Some q \<longrightarrow> pending_shape q)"
  have "peek_null C e (pending_encode C q @ r) = (Inr False, pending_encode C q @ r)" for e q
    using a by (simp add: pending_encode_def Let_def read_back)
  with a show "optional_pending_decode C (optional_pending_encode C a @ r) = (Inr a, r)"
    by (simp add: optional_pending_encode_def optional_pending_decode_def run_bindS read_back
        pending_codec.dec_enc split: option.splits)
qed

section \<open>The whole state\<close>

lemma local_ok_rosters:
  assumes "local_ok sha s"
  shows "roster_shape (lg_current s)" "\<forall>r \<in> set (lg_history s). roster_shape r"
    "length (lg_history s) \<le> unat (lg_retention s)"
proof -
  from assms have h: "history_ok sha s" and c: "roster_ok sha (lg_current s)"
    by (simp_all add: local_ok_def)
  from c show "roster_shape (lg_current s)" by (rule roster_ok_shape)
  from h have "\<forall>r \<in> set (lg_history s). roster_ok sha r"
    by (auto simp: history_ok_def Let_def all_set_conv_all_nth)
  then show "\<forall>r \<in> set (lg_history s). roster_shape r" using roster_ok_shape by blast
  from h show "length (lg_history s) \<le> unat (lg_retention s)"
    by (simp add: history_ok_def window_def)
qed

lemma decode_fields_encode_fields:
  assumes C: "cbor_ok C" and ok: "local_ok sha s"
  shows "decode_fields C (encode_fields C s @ r) = (Inr s, r)"
proof -
  note ros = local_ok_rosters [OF ok]
  have n: "length (lg_history s) < 2 ^ 64"
    using ros(3) retention_cases [OF ok] by auto
  have "timesS (length (lg_history s)) (roster_decode C)
      (concat (map (roster_encode C) (lg_history s)) @ x) = (Inr (lg_history s), x)" for x
    using ros(2) C by (intro roster_codec.times_enc) simp
  moreover have "optional_pending_decode C (optional_pending_encode C (lg_pending s) @ x)
      = (Inr (lg_pending s), x)" for x
    using C pending_ok_shape [OF ok] by (intro optional_pending_codec.dec_enc) simp
  moreover have "validate_retention (lg_retention s) = Inr ()"
    using ok by (simp add: small_checks local_ok_def)
  ultimately show ?thesis
    using C ros n ok
    by (simp add: decode_fields_def encode_fields_def run_bindS read_back roster_codec.dec_enc
        local_ok_def)
qed

subsection \<open>Size\<close>

lemma length_leaf_encode:
  "cbor_ok C \<Longrightarrow> leaf_ok l \<Longrightarrow> length (leaf_encode C l) \<le> 113"
  using cbor_sizes(1) [of C 3] cbor_sizes(3) [of C "leaf_index l"]
    cbor_sizes(5) [of C "credential_identity l"] cbor_sizes(5) [of C "signature_public_key l"]
  by (simp add: leaf_encode_def leaf_ok_def)

lemma length_roster_encode:
  assumes C: "cbor_ok C" and r: "roster_shape r"
  shows "length (roster_encode C r) \<le> 30000"
proof -
  have "length (concat (map (leaf_encode C) (leaves r))) \<le> length (leaves r) * 113"
    using assms length_leaf_encode
    by (intro leaf_codec.length_concat_enc) (simp add: roster_shape_def)
  then have "length (concat (map (leaf_encode C) (leaves r))) \<le> 28928"
    using r by (simp add: roster_shape_def MAX_LEAVES_def)
  then show ?thesis
    using r cbor_sizes(1) [OF C, of 4] cbor_sizes(5) [OF C, of "group_id r"]
      cbor_sizes(4) [OF C, of "epoch r"] cbor_sizes(1) [OF C, of "of_nat (length (leaves r))"]
      cbor_sizes(5) [OF C, of "digest_sha256 r"]
    by (simp add: roster_encode_def roster_shape_def)
qed

lemma length_hash_encode:
  "cbor_ok C \<Longrightarrow> (\<forall>v. h = Some v \<longrightarrow> length v = 32) \<Longrightarrow> length (optional_hash_encode C h) \<le> 41"
  using cbor_sizes(5) [of C "the h"] cbor_sizes(6) [of C]
  by (auto simp: optional_hash_encode_def split: option.splits)

lemma length_bytes_encode:
  "cbor_ok C \<Longrightarrow> length v \<le> n \<Longrightarrow> length (cb_bytes C v) \<le> 9 + n"
  using cbor_sizes(5) [of C v] by simp

lemma length_pending_encode:
  assumes C: "cbor_ok C" and p: "pending_shape p"
  shows "length (pending_encode C p) \<le> 40000"
proof -
  define b where "b = binding p"
  have "length (cb_array C 13) \<le> 9" using cbor_sizes(1) [OF C] .
  moreover have "length (cb_bytes C (pb_group_id b)) \<le> 9 + 128"
    "length (cb_bytes C (pb_incarnation_id b)) \<le> 9 + 128"
    "length (cb_bytes C (command_id (pb_transition b))) \<le> 9 + 128"
    "length (cb_bytes C (context_sha256 (pb_transition b))) \<le> 9 + 128"
    "length (cb_bytes C (pb_commit_sha256 b)) \<le> 9 + 128"
    "length (cb_bytes C (pb_aad_sha256 b)) \<le> 9 + 128"
    "length (cb_bytes C (preparation_base_sha256 p)) \<le> 9 + 128"
    "length (cb_bytes C (upstream_pending_sha256 p)) \<le> 9 + 128"
    using p by (intro length_bytes_encode C; simp add: pending_shape_def Let_def b_def)+
  moreover have "length (optional_hash_encode C (pb_welcome_sha256 b)) \<le> 41"
    "length (optional_hash_encode C (pb_group_info_sha256 b)) \<le> 41"
    using p by (intro length_hash_encode C; simp add: pending_shape_def Let_def b_def)+
  moreover have "length (leaf_encode C (pb_author b)) \<le> 113"
    using p by (intro length_leaf_encode C) (simp add: pending_shape_def Let_def b_def)
  moreover have "length (roster_encode C (proposed_roster p)) \<le> 30000"
    using p by (intro length_roster_encode C) (simp add: pending_shape_def Let_def)
  moreover have "length (expected_encode C (pb_previous_state b)) \<le> 100"
    using p cbor_sizes(1) [OF C, of 3] cbor_sizes(4) [OF C, of "es_epoch (pb_previous_state b)"]
      cbor_sizes(5) [OF C, of "es_group_id (pb_previous_state b)"]
      cbor_sizes(5) [OF C, of "es_digest_sha256 (pb_previous_state b)"]
    by (simp add: expected_encode_def pending_shape_def Let_def b_def)
  ultimately show ?thesis
    by (simp add: pending_encode_def Let_def b_def [symmetric])
qed

lemma length_encode_fields:
  assumes C: "cbor_ok C" and ok: "local_ok sha s"
  shows "length (encode_fields C s) \<le> MAX_VALUE"
proof -
  note ros = local_ok_rosters [OF ok]
  have h4: "length (lg_history s) \<le> 4"
    using ros(3) retention_cases [OF ok] by auto
  have "length (concat (map (roster_encode C) (lg_history s))) \<le> length (lg_history s) * 30000"
    using ros(2) length_roster_encode [OF C] by (intro roster_codec.length_concat_enc) simp
  with h4 have "length (concat (map (roster_encode C) (lg_history s))) \<le> 120000" by simp
  moreover have "length (optional_pending_encode C (lg_pending s)) \<le> 40000"
    using cbor_sizes(6) [OF C] length_pending_encode [OF C] pending_ok_shape [OF ok]
    by (auto simp: optional_pending_encode_def split: option.splits)
  moreover have "length (cb_bytes C (lg_group_id s)) \<le> 9 + 128"
    "length (cb_bytes C (lg_incarnation_id s)) \<le> 9 + 128"
    using ok by (intro length_bytes_encode C; simp add: local_ok_def)+
  moreover have "length (roster_encode C (lg_current s)) \<le> 30000"
    by (rule length_roster_encode [OF C ros(1)])
  ultimately show ?thesis
    using cbor_sizes(1) [OF C, of 9] cbor_sizes(2) [OF C, of SCHEMA] cbor_sizes(2) [OF C, of PROFILE]
      cbor_sizes(3) [OF C, of "lg_retention s"] cbor_sizes(4) [OF C, of "lg_join_epoch s"]
      cbor_sizes(1) [OF C, of "of_nat (length (lg_history s))"]
    by (simp add: encode_fields_def MAX_VALUE_def)
qed

lemma encode_Inr_iff:
  assumes "cbor_ok C"
  shows "encode sha C s = Inr b \<longleftrightarrow> local_ok sha s \<and> b = encode_fields C s"
  by (auto simp: encode_def Let_def bindE_Inr_iff validate_Inr_iff
      dest: length_encode_fields [OF assms])

lemma decode_encode:
  assumes "cbor_ok C" "encode sha C s = Inr b"
  shows "decode sha C b = Inr s"
proof -
  from assms have ok: "local_ok sha s" and b: "b = encode_fields C s"
    by (simp_all add: encode_Inr_iff)
  have v: "validate sha s = Inr ()" using ok by (simp add: validate_Inr_iff)
  show ?thesis
    using length_encode_fields [OF assms(1) ok]
      decode_fields_encode_fields [OF assms(1) ok, of "[]"] assms(2) v
    by (simp add: decode_def b)
qed

lemma decode_canonical:
  assumes "decode sha C b = Inr s"
  shows "local_ok sha s \<and> encode sha C s = Inr b"
  using assms
  by (auto simp: decode_def bindE_Inr_iff validate_Inr_iff split: if_splits prod.splits sum.splits)

end
