(* ===== verification/ResyncCodecLaws.thy ===== *)
theory ResyncCodecLaws
  imports ResyncCodec LocalCodec PreflightLaws
begin

text \<open>
  The validator's codec: each part reads back what it wrote (the locale \<open>codec\<close>, interpreted for
  leaves, states, snapshot and successor requests), what a part accepts satisfies its bounds
  (\<open>leaf_bounds\<close>, \<open>state_bounds\<close>, \<open>snapshot_bounds\<close>, \<open>successor_bounds\<close>), and a frame is decoded
  exactly when it is the frame of the request it decodes to.
\<close>

section \<open>Reading back\<close>

lemma rs_item_back [read_back]:
  assumes "cbor_ok C"
  shows "rs_item (cd_array C) (cb_array C n @ r) = (Inr (Some n), r)"
    and "rs_item (cd_u16 C) (cb_u16 C a @ r) = (Inr a, r)"
    and "rs_item (cd_u32 C) (cb_u32 C b @ r) = (Inr b, r)"
    and "rs_item (cd_u64 C) (cb_u64 C c @ r) = (Inr c, r)"
    and "length v < 2 ^ 64 \<Longrightarrow> rs_item (cd_bytes C) (cb_bytes C v @ r) = (Inr v, r)"
  by (simp_all add: rs_item_def cbor_okD [OF assms])

lemma rs_array_back [read_back]: "cbor_ok C \<Longrightarrow> rs_array C n (cb_array C n @ r) = (Inr (), r)"
  by (simp add: rs_array_def run_bindS read_back)

lemma rs_bytes_back [read_back]:
  "cbor_ok C \<Longrightarrow> mn \<le> length v \<Longrightarrow> length v \<le> mx \<Longrightarrow> mx < 2 ^ 64 \<Longrightarrow>
    rs_bytes C mn mx (cb_bytes C v @ r) = (Inr v, r)"
  by (simp add: rs_bytes_def run_bindS read_back)

definition public_leaf_ok :: "Leaf \<Rightarrow> bool" where
  "public_leaf_ok l \<longleftrightarrow> unat (lf_index l) < RS_MAX_LEAVES \<and> length (lf_identity l) = 45 \<and>
     length (lf_signature_key l) = 32"

definition state_bounds :: "ExpectedState \<Rightarrow> bool" where
  "state_bounds s \<longleftrightarrow> length (xs_group_id s) = 16 \<and> length (xs_roster_sha256 s) = 32"

definition snapshot_bounds :: "SnapshotRequest \<Rightarrow> bool" where
  "snapshot_bounds r \<longleftrightarrow> 1 \<le> length (sq_group_info r) \<and> length (sq_group_info r) \<le> MAX_MLS_BYTES \<and>
     length (sq_sha256 r) = 32 \<and> state_bounds (sq_expected r) \<and> public_leaf_ok (sq_expected_signer r)"

definition successor_bounds :: "SuccessorRequest \<Rightarrow> bool" where
  "successor_bounds s \<longleftrightarrow> snapshot_bounds (su_base s) \<and>
     1 \<le> length (su_commit s) \<and> length (su_commit s) \<le> MAX_MLS_BYTES \<and>
     length (su_commit_sha256 s) = 32 \<and>
     1 \<le> length (su_expected_aad s) \<and> length (su_expected_aad s) \<le> MAX_AAD_BYTES \<and>
     public_leaf_ok (su_authorized_old s) \<and> length (su_authorized_new_identity s) = 45 \<and>
     length (su_authorized_new_signature_key s) = 32 \<and>
     1 \<le> length (su_reported_next_group_info s) \<and>
     length (su_reported_next_group_info s) \<le> MAX_MLS_BYTES \<and>
     length (su_reported_next_sha256 s) = 32"

fun request_bounds :: "Request \<Rightarrow> bool" where
  "request_bounds (RqSnapshot s) = snapshot_bounds s"
| "request_bounds (RqSuccessor s) = successor_bounds s"

lemma validate_public_leaf_Inr_iff [result_simps]:
  "validate_public_leaf l = Inr u \<longleftrightarrow> public_leaf_ok l"
  by (auto simp: validate_public_leaf_def public_leaf_ok_def RS_MAX_LEAVES_def word_less_nat_alt word_le_nat_alt)

lemma mls_limits: "MAX_MLS_BYTES < 2 ^ 64" "MAX_AAD_BYTES < 2 ^ 64"
  by (simp_all add: MAX_MLS_BYTES_def MAX_AAD_BYTES_def)

interpretation rs_leaf_codec: codec "put_leaf C" "rs_leaf C" "\<lambda>l. cbor_ok C \<and> public_leaf_ok l" for C
  by unfold_locales
    (simp add: put_leaf_def rs_leaf_def run_bindS read_back public_leaf_ok_def validate_public_leaf_def
      RS_MAX_LEAVES_def Let_def word_less_nat_alt word_le_nat_alt)

interpretation rs_state_codec: codec "put_state C" "rs_state C" "\<lambda>s. cbor_ok C \<and> state_bounds s" for C
  by unfold_locales (simp add: put_state_def rs_state_def run_bindS read_back state_bounds_def)

interpretation rs_snapshot_codec: codec "put_snapshot_request C" "rs_snapshot C"
  "\<lambda>r. cbor_ok C \<and> snapshot_bounds r" for C
  by unfold_locales
    (simp add: put_snapshot_request_def rs_snapshot_def run_bindS read_back snapshot_bounds_def mls_limits [simplified]
      rs_state_codec.dec_enc rs_leaf_codec.dec_enc)

interpretation rs_successor_codec: codec "put_successor_request C" "rs_successor C"
  "\<lambda>s. cbor_ok C \<and> successor_bounds s" for C
  by unfold_locales
    (simp add: put_successor_request_def rs_successor_def run_bindS read_back successor_bounds_def mls_limits [simplified]
      rs_snapshot_codec.dec_enc rs_leaf_codec.dec_enc)

section \<open>Bounds of what is read\<close>

lemma rs_bytes_bounds: "rs_bytes C mn mx s = (Inr v, r) \<Longrightarrow> mn \<le> length v \<and> length v \<le> mx"
  by (auto simp: rs_bytes_def run_bindS_ok_iff if_liftS_Inl_iff not_less)

lemma rs_leaf_bounds: "rs_leaf C s = (Inr l, r) \<Longrightarrow> public_leaf_ok l"
  by (auto simp: rs_leaf_def run_bindS_ok_iff Let_def validate_public_leaf_Inr_iff)

lemma rs_state_bounds: "rs_state C s = (Inr x, r) \<Longrightarrow> state_bounds x"
  by (auto simp: rs_state_def run_bindS_ok_iff state_bounds_def dest!: rs_bytes_bounds)

lemma rs_snapshot_bounds: "rs_snapshot C s = (Inr x, r) \<Longrightarrow> snapshot_bounds x"
  by (auto simp: rs_snapshot_def run_bindS_ok_iff snapshot_bounds_def
      dest!: rs_bytes_bounds rs_state_bounds rs_leaf_bounds)

lemma rs_successor_bounds: "rs_successor C s = (Inr x, r) \<Longrightarrow> successor_bounds x"
  by (auto simp: rs_successor_def run_bindS_ok_iff successor_bounds_def
      dest!: rs_bytes_bounds rs_snapshot_bounds rs_leaf_bounds)

lemma rs_request_bounds:
  "rs_request C op s = (Inr x, r) \<Longrightarrow> request_bounds x \<and> op = operation_of x"
  by (auto simp: rs_request_def run_bindS_ok_iff split: if_splits
      dest!: rs_snapshot_bounds rs_successor_bounds)

lemma rs_request_back:
  "cbor_ok C \<Longrightarrow> request_bounds x \<Longrightarrow> rs_request C (operation_of x) (payload C x) = (Inr x, [])"
  using rs_snapshot_codec.dec_enc [of C _ "[]"] rs_successor_codec.dec_enc [of C _ "[]"]
  by (cases x) (simp_all add: rs_request_def)

section \<open>Frames\<close>

lemma KMPV_length [simp]: "length KMPV = 4"
  by (simp add: KMPV_def ascii_def)

lemma frame_length: "length (frame op resp p) = HEADER + length p"
  by (simp add: frame_def HEADER_def)

lemma frame_drop: "drop HEADER (frame op resp p) = p"
  by (simp add: frame_def HEADER_def)

lemma take_map_nth: "n \<le> length xs \<Longrightarrow> take n xs = map ((!) xs) [0..<n]"
  by (rule nth_equalityI) simp_all

text \<open>The five parts of a frame by position.\<close>

lemma frame_iff:
  assumes "length p < 2 ^ 32"
  shows "input = frame op False p \<longleftrightarrow>
    length input = HEADER + length p \<and> take 4 input = KMPV \<and> input ! 7 = 0 \<and>
    word_of_be [input ! 4, input ! 5] = VERSION \<and> input ! 6 = op \<and>
    unat (word_of_be [input ! 8, input ! 9, input ! 10, input ! 11] :: u32) = length p \<and>
    drop HEADER input = p" (is "_ \<longleftrightarrow> ?r")
proof
  assume i: "input = frame op False p"
  obtain a b where v: "be16 VERSION = [a, b]" using length2 [of "be16 VERSION"] by auto
  obtain c d e f where n: "be32 (of_nat (length p)) = [c, d, e, f]"
    using length4 [of "be32 (of_nat (length p))"] by auto
  obtain k l m o' where k: "KMPV = [k, l, m, o']" using length4 [of KMPV] by auto
  have "input = [k, l, m, o', a, b, op, 0, c, d, e, f] @ p" by (simp add: i frame_def v n k)
  moreover have "word_of_be [a, b] = VERSION"
    using word_of_be_bytes [where 'n = 16 and k = 2, of VERSION] v by (simp add: be16_def)
  moreover have "(word_of_be [c, d, e, f] :: u32) = of_nat (length p)"
    using word_of_be_bytes [where 'n = 32 and k = 4, of "of_nat (length p)"] n by (simp add: be32_def)
  ultimately show ?r using assms
    by (simp add: k HEADER_def unat_u32_of_nat)
next
  assume r: ?r
  have "input = take 12 input @ p" using r by (metis HEADER_def append_take_drop_id)
  moreover have "take 12 input = take 4 input @ [input ! 4, input ! 5] @ [input ! 6, input ! 7] @
      [input ! 8, input ! 9, input ! 10, input ! 11]"
  proof -
    have "12 \<le> length input" "4 \<le> length input" using r by (simp_all add: HEADER_def)
    then have "take 12 input = map ((!) input) [0..<12]" "take 4 input = map ((!) input) [0..<4]"
      by (simp_all add: take_map_nth)
    moreover have "[0 :: nat..<12] = [0..<4] @ [4, 5, 6, 7, 8, 9, 10, 11]" by code_simp
    ultimately show ?thesis by simp
  qed
  moreover have "[input ! 4, input ! 5] = be16 VERSION"
    using be_bytes_word_of_be [where 'n = 16 and k = 2, of "[input ! 4, input ! 5]"] r by (simp add: be16_def)
  moreover have "[input ! 8, input ! 9, input ! 10, input ! 11] = be32 (of_nat (length p))"
  proof -
    have "(word_of_be [input ! 8, input ! 9, input ! 10, input ! 11] :: u32) = of_nat (length p)"
      using r assms by (simp add: word_unat_eq_iff unat_u32_of_nat)
    then show ?thesis
      using be_bytes_word_of_be [where 'n = 32 and k = 4, of "[input ! 8, input ! 9, input ! 10, input ! 11]"]
      by (simp add: be32_def)
  qed
  ultimately show "input = frame op False p" using r by (simp add: frame_def)
qed

lemma decode_request_iff:
  assumes C: "cbor_ok C"
  shows "decode_request C input = Inr r \<longleftrightarrow> request_bounds r \<and> encode_request C r = Inr input"
proof
  assume d: "decode_request C input = Inr r"
  then have len: "length input \<le> REQUEST_MAX_BYTES" and h: "HEADER \<le> length input" "take 4 input = KMPV"
    "input ! 7 = 0" "word_of_be [input ! 4, input ! 5] = VERSION"
    "unat (word_of_be [input ! 8, input ! 9, input ! 10, input ! 11] :: u32) = length input - HEADER"
    and q: "rs_request C (input ! 6) (drop HEADER input) = (Inr r, [])" and p: "payload C r = drop HEADER input"
    by (auto simp: decode_request_def Let_def not_less split: if_splits prod.splits sum.splits)
  from rs_request_bounds [OF q] have b: "request_bounds r" "input ! 6 = operation_of r" by simp_all
  have n: "length (payload C r) = length input - HEADER" by (simp add: p)
  then have small: "length (payload C r) < 2 ^ 32" using len by (simp add: REQUEST_MAX_BYTES_def)
  have "input = frame (operation_of r) False (payload C r)"
    unfolding frame_iff [OF small] using h n p b by simp
  then have "encode_request C r = Inr input"
    using len h n by (simp add: encode_request_def Let_def)
  with b show "request_bounds r \<and> encode_request C r = Inr input" by simp
next
  assume a: "request_bounds r \<and> encode_request C r = Inr input"
  then have n: "length (payload C r) \<le> REQUEST_MAX_BYTES - HEADER"
    and i: "input = frame (operation_of r) False (payload C r)"
    by (auto simp: encode_request_def Let_def split: if_splits)
  then have small: "length (payload C r) < 2 ^ 32" by (simp add: REQUEST_MAX_BYTES_def)
  note f = i [unfolded frame_iff [OF small]]
  have "length input \<le> REQUEST_MAX_BYTES" "\<not> length input < HEADER"
    using n f by (auto simp: REQUEST_MAX_BYTES_def HEADER_def)
  with f rs_request_back [OF C, of r] a show "decode_request C input = Inr r"
    by (simp add: decode_request_def Let_def)
qed

end
