(* ===== verification/ResyncPublicLaws.thy ===== *)
theory ResyncPublicLaws
  imports Candidate PreflightEquiv ResyncCodecLaws
begin

text \<open>
  What a verified snapshot and a verified successor are: the roster read from a public group is
  bounded, sorted and free of duplicates, its digest is that of the runtime's rosters
  (\<open>public_digest_is_roster_digest\<close>), and a successful verification means that every authority of
  the request was met (\<open>snapshot_verified\<close>, \<open>successor_verified\<close>).
\<close>

section \<open>The roster of a public group\<close>

definition member_of_leaf :: "Leaf \<Rightarrow> u32 \<times> bytes option \<times> bytes" where
  "member_of_leaf l = (lf_index l, Some (lf_identity l), lf_signature_key l)"

definition public_leaves_ok :: "Leaf list \<Rightarrow> bool" where
  "public_leaves_ok ls \<longleftrightarrow> length ls \<le> RS_MAX_LEAVES \<and> (\<forall>l \<in> set ls. public_leaf_ok l) \<and>
     distinct (map lf_identity ls) \<and> distinct (map lf_signature_key ls)"

definition scan_of :: "Leaf list \<Rightarrow> roster_scan" where
  "scan_of ls = \<lparr>rs_leaves = ls, rs_identities = rev (map lf_identity ls),
     rs_keys = rev (map lf_signature_key ls)\<rparr>"

lemma leaf_eta [simp]:
  "\<lparr>lf_index = lf_index l, lf_identity = lf_identity l, lf_signature_key = lf_signature_key l\<rparr> = l"
  by simp

lemma public_leaves_ok_prefix: "public_leaves_ok (ls @ new) \<Longrightarrow> public_leaves_ok ls"
  by (auto simp: public_leaves_ok_def)

lemma scan_member_iff:
  "public_leaves_ok ls \<Longrightarrow> scan_member (scan_of ls) m = Inr s \<longleftrightarrow>
    (\<exists>l. m = member_of_leaf l \<and> public_leaves_ok (ls @ [l]) \<and> s = scan_of (ls @ [l]))"
  by (cases m; cases "fst (snd m)")
    (auto simp: scan_member_def scan_of_def member_of_leaf_def public_leaves_ok_def bindE_Inr_iff
      ok_or_Inr_iff if_Inl_Inr_iff Let_def validate_public_leaf_Inr_iff not_le Suc_le_eq)

lemma scan_members_iff:
  "public_leaves_ok ls \<Longrightarrow> foldE scan_member (scan_of ls) ms = Inr s \<longleftrightarrow>
    (\<exists>new. ms = map member_of_leaf new \<and> public_leaves_ok (ls @ new) \<and> s = scan_of (ls @ new))"
proof (induction ms arbitrary: ls)
  case Nil
  then show ?case by auto
next
  case (Cons m ms)
  have "foldE scan_member (scan_of ls) (m # ms) = Inr s \<longleftrightarrow>
      (\<exists>l. m = member_of_leaf l \<and> public_leaves_ok (ls @ [l]) \<and>
        foldE scan_member (scan_of (ls @ [l])) ms = Inr s)"
    by (auto simp: bindE_Inr_iff scan_member_iff [OF Cons.prems])
  also have "\<dots> \<longleftrightarrow> (\<exists>l. m = member_of_leaf l \<and> public_leaves_ok (ls @ [l]) \<and>
      (\<exists>new. ms = map member_of_leaf new \<and> public_leaves_ok (ls @ [l] @ new) \<and> s = scan_of (ls @ [l] @ new)))"
    using Cons.IH [of "ls @ [_]"] by auto
  also have "\<dots> \<longleftrightarrow> (\<exists>new. m # ms = map member_of_leaf new \<and> public_leaves_ok (ls @ new) \<and> s = scan_of (ls @ new))"
    (is "?l \<longleftrightarrow> ?r")
  proof
    assume ?l
    then obtain l new where "m = member_of_leaf l" "ms = map member_of_leaf new"
      "public_leaves_ok (ls @ l # new)" "s = scan_of (ls @ l # new)" by auto
    then show ?r by (intro exI [of _ "l # new"]) simp
  next
    assume ?r
    then obtain l new where n: "m = member_of_leaf l" "ms = map member_of_leaf new"
      "public_leaves_ok (ls @ l # new)" "s = scan_of (ls @ l # new)" by (auto simp: Cons_eq_map_conv)
    with public_leaves_ok_prefix [of "ls @ [l]" new] show ?l
      by (intro exI [of _ l] conjI exI [of _ new]) simp_all
  qed
  finally show ?case .
qed

lemma public_roster_Inr_iff:
  "public_roster sha P g = Inr R \<longleftrightarrow>
    (\<exists>ls. pm_members P g = map member_of_leaf ls \<and> public_leaves_ok ls \<and>
      ro_leaves R = sort_key lf_index ls \<and>
      ro_state R = \<lparr>xs_group_id = pm_group_id P g, xs_epoch = pm_epoch P g,
        xs_roster_sha256 = sha (public_roster_preimage (pm_group_id P g) (pm_epoch P g) (ro_leaves R))\<rparr>)"
proof -
  have start: "\<lparr>rs_leaves = [], rs_identities = [], rs_keys = []\<rparr> = scan_of []"
    by (simp add: scan_of_def)
  have ok: "public_leaves_ok []" by (simp add: public_leaves_ok_def)
  show ?thesis
    unfolding public_roster_def start bindE_Inr_iff scan_members_iff [OF ok] Let_def
    by (cases R) (auto simp: scan_of_def)
qed

lemma public_leaves_ok_sort:
  "public_leaves_ok (sort_key f ls) \<longleftrightarrow> public_leaves_ok ls"
proof -
  have "distinct (map h (sort_key f ls)) \<longleftrightarrow> distinct (map h ls)" for h :: "Leaf \<Rightarrow> bytes"
    by (metis mset_map mset_sort distinct_count_atmost_1 mset_eq_imp_distinct_iff)
  then show ?thesis by (simp add: public_leaves_ok_def)
qed

lemma public_roster_Inr:
  assumes "public_roster sha P g = Inr R"
  shows "public_leaves_ok (ro_leaves R)" "sorted (map lf_index (ro_leaves R))"
    "set (map member_of_leaf (ro_leaves R)) = set (pm_members P g)"
    "xs_group_id (ro_state R) = pm_group_id P g" "xs_epoch (ro_state R) = pm_epoch P g"
    "xs_roster_sha256 (ro_state R)
      = sha (public_roster_preimage (xs_group_id (ro_state R)) (xs_epoch (ro_state R)) (ro_leaves R))"
  using assms by (auto simp: public_roster_Inr_iff public_leaves_ok_sort)

section \<open>The same digest as the runtime's\<close>

lemma feed_leaf_runtime:
  "public_leaf_ok l \<Longrightarrow> feed_leaf fed (local_leaf l) = Inr (fed @ public_leaf_preimage l)"
  by (simp add: feed_leaf_def local_leaf_def public_leaf_preimage_def hash_len_prefixed_def
      checked_u32_def public_leaf_ok_def len_prefixed_def)

lemma feed_leaves_runtime:
  "\<forall>l \<in> set ls. public_leaf_ok l \<Longrightarrow>
    foldE feed_leaf fed (map local_leaf ls) = Inr (fed @ concat (map public_leaf_preimage ls))"
  by (induction ls arbitrary: fed) (simp_all add: feed_leaf_runtime)

lemma roster_preimage_runtime:
  assumes "public_leaves_ok ls" "length gid < 2 ^ 32"
  shows "roster_preimage gid ep (map local_leaf ls) = Inr (public_roster_preimage gid ep ls)"
  using assms
  by (simp add: roster_preimage_def public_roster_preimage_def hash_len_prefixed_def checked_u32_def
      public_leaves_ok_def RS_MAX_LEAVES_def feed_leaves_runtime len_prefixed_def)

lemma sort_key_map_commute:
  assumes "\<And>x. f (h x) = g x"
  shows "sort_key f (map h xs) = map h (sort_key g xs)"
proof (induction xs)
  case (Cons x xs)
  have "insort_key f (h x) (map h ys) = map h (insort_key g x ys)" for ys
    by (induction ys) (simp_all add: assms)
  with Cons show ?case by simp
qed simp

lemma public_digest_is_roster_digest:
  assumes "public_roster sha P g = Inr R" "length (pm_group_id P g) < 2 ^ 32"
  shows "roster_digest sha (xs_group_id (ro_state R)) (xs_epoch (ro_state R)) (map local_leaf (ro_leaves R))
    = Inr (xs_roster_sha256 (ro_state R))"
  using public_roster_Inr [OF assms(1)] assms(2) by (simp add: roster_digest_def roster_preimage_runtime)

section \<open>Verified snapshots\<close>

text \<open>\<open>b\<close> is a GroupInfo of the profile, under its hash, whose group OpenMLS accepts.\<close>

definition published ::
  "(bytes \<Rightarrow> bytes) \<Rightarrow> ('v, 'g, 'x) openmls \<Rightarrow> ('p, 'x) public_mls \<Rightarrow> u64 \<Rightarrow> bytes \<Rightarrow> 'p \<Rightarrow> VerifiedSnapshot \<Rightarrow> bool" where
  "published sha M P t b g v \<longleftrightarrow>
     length b \<le> MAX_MLS_BYTES \<and> b \<in> group_info_shape \<and>
     vs_sha256 v = sha b \<and> length (sha b) = 32 \<and> vs_profile v = RS_PROFILE \<and>
     (\<exists>message info tree.
        om_message M b = Some (message, []) \<and> pm_group_info P message = Some info \<and>
        pm_ratchet_tree P info = Some tree \<and> pm_from_external P t tree info = Inr (g, lf_index (vs_signer v))) \<and>
     public_roster sha P g = Inr (vs_roster v) \<and> vs_signer v \<in> set (ro_leaves (vs_roster v))"

lemma mls_message_Inr_iff:
  "mls_message_from_exact_bytes M b = Inr x \<longleftrightarrow> om_message M b = Some (x, [])"
  by (auto simp: mls_message_from_exact_bytes_def bindE_Inr_iff ok_or_Inr_iff split: if_splits)

lemma load_public_Inr:
  assumes "load_public sha M P t b h = Inr (g, v)"
  shows "published sha M P t b g v" "vs_sha256 v = h"
proof -
  from assms obtain message info tree i r signer where
    "Preflight.group_info b = Inr ()" "check_hash sha b h = Inr ()" "om_message M b = Some (message, [])"
    "pm_group_info P message = Some info" "pm_ratchet_tree P info = Some tree"
    "pm_from_external P t tree info = Inr (g, i)" "public_roster sha P g = Inr r"
    "find (\<lambda>l. lf_index l = i) (ro_leaves r) = Some signer"
    and v: "v = \<lparr>vs_profile = RS_PROFILE, vs_sha256 = h, vs_roster = r, vs_signer = signer\<rparr>"
    by (auto simp: load_public_def bindE_Inr_iff map_err_Inr_iff ok_or_Inr_iff mls_message_Inr_iff)
  then show "published sha M P t b g v" "vs_sha256 v = h"
    by (auto simp: published_def group_info_iff check_hash_def find_Some_iff split: if_splits)
qed

lemma snapshot_inner_Inr:
  assumes "snapshot_inner sha M P t r = Inr (g, v)"
  shows "published sha M P t (sq_group_info r) g v" "vs_sha256 v = sq_sha256 r"
    "ro_state (vs_roster v) = sq_expected r" "vs_signer v = sq_expected_signer r" "sq_profile r = RS_PROFILE"
    "state_bounds (sq_expected r)"
proof -
  from assms have l: "load_public sha M P t (sq_group_info r) (sq_sha256 r) = Inr (g, v)"
    and e: "expected_public (ro_state (vs_roster v)) (sq_expected r) = Inr ()"
    and s: "vs_signer v = sq_expected_signer r" "sq_profile r = RS_PROFILE"
    by (auto simp: snapshot_inner_def bindE_Inr_iff split: if_splits)
  from load_public_Inr [OF l] show "published sha M P t (sq_group_info r) g v" "vs_sha256 v = sq_sha256 r" .
  from e show "ro_state (vs_roster v) = sq_expected r" "state_bounds (sq_expected r)"
    by (cases "ro_state (vs_roster v)"; cases "sq_expected r"; simp add: expected_public_def state_bounds_def split: if_splits)+
  from s show "vs_signer v = sq_expected_signer r" "sq_profile r = RS_PROFILE" .
qed

lemma validate_snapshot_Inr_iff:
  "validate_snapshot sha M P t r = Inr v \<longleftrightarrow> (\<exists>g. snapshot_inner sha M P t r = Inr (g, v))"
  by (auto simp: validate_snapshot_def catch_unwind_def bindE_Inr_iff)

section \<open>Verified successors\<close>

lemma count_proposal_fold:
  "foldE (count_proposal i e) (a, b) qs = Inr (c, d) \<longleftrightarrow>
    (\<forall>q \<in> set qs. q = (True, QueuedExternalInit) \<or> q = (True, QueuedRemove i)) \<and>
    c = a + length (filter (\<lambda>q. q = (True, QueuedExternalInit)) qs) \<and>
    d = b + length (filter (\<lambda>q. q = (True, QueuedRemove i)) qs)"
proof (induction qs arbitrary: a b)
  case Nil
  then show ?case by auto
next
  case (Cons q qs)
  then show ?case
    by (cases q; cases "snd q") (auto simp: count_proposal_def bindE_Inr_iff split: if_splits)
qed

lemma exact_proposals_iff:
  "exact_proposals i e qs = Inr () \<longleftrightarrow>
    qs = [(True, QueuedExternalInit), (True, QueuedRemove i)] \<or>
    qs = [(True, QueuedRemove i), (True, QueuedExternalInit)]" (is "_ \<longleftrightarrow> ?r")
proof
  assume "exact_proposals i e qs = Inr ()"
  then have all: "\<forall>q \<in> set qs. q = (True, QueuedExternalInit) \<or> q = (True, QueuedRemove i)"
    and n: "length (filter (\<lambda>q. q = (True, QueuedExternalInit)) qs) = 1"
      "length (filter (\<lambda>q. q = (True, QueuedRemove i)) qs) = 1"
    by (auto simp: exact_proposals_def bindE_Inr_iff count_proposal_fold split: if_splits)
  have "filter (\<lambda>q. q = (True, QueuedRemove i)) qs = filter (\<lambda>q. q \<noteq> (True, QueuedExternalInit)) qs"
    using all by (intro filter_cong) auto
  then have "length qs = 2"
    using n sum_length_filter_compl [of "\<lambda>q. q = (True, QueuedExternalInit)" qs] by simp
  then obtain x y where "qs = [x, y]" by (auto simp: numeral_2_eq_2 length_Suc_conv)
  with all n show ?r by (auto split: if_splits)
next
  assume ?r
  then show "exact_proposals i e qs = Inr ()"
    by (auto simp: exact_proposals_def count_proposal_def)
qed

lemma find_leaf_Some: "find p ls = Some l \<Longrightarrow> l \<in> set ls \<and> p l"
  by (auto simp: find_Some_iff)

text \<open>One leaf of the old roster is replaced by a new one, the others stay.\<close>

definition one_leaf_replaced :: "'a list \<Rightarrow> 'a list \<Rightarrow> 'a \<Rightarrow> 'a \<Rightarrow> bool" where
  "one_leaf_replaced old new a b \<longleftrightarrow>
     a \<in> set old \<and> b \<notin> set old \<and> set new = insert b (set old - {a}) \<and> length new = length old"

lemma distinct_leaves: "public_leaves_ok ls \<Longrightarrow> distinct ls"
  by (simp add: public_leaves_ok_def distinct_map)

lemma one_leaf_replacedI:
  assumes "distinct old" "distinct new" "length new = length old"
    and "a \<in> set old" "b \<in> set new" "b \<notin> set old" "set old - {a} \<subseteq> set new"
  shows "one_leaf_replaced old new a b"
proof -
  have "card (set new) = card (set old)"
    using assms(1-3) by (simp add: distinct_card)
  moreover have "card (insert b (set old - {a})) = Suc (card (set old - {a}))"
    using assms(6) by (intro card_insert_disjoint) auto
  moreover have "Suc (card (set old - {a})) = card (set old)"
    using assms(4) by (intro card_Suc_Diff1) simp_all
  moreover have "insert b (set old - {a}) \<subseteq> set new" using assms(5,7) by blast
  ultimately have "insert b (set old - {a}) = set new" by (intro card_subset_eq) simp_all
  with assms show ?thesis by (simp add: one_leaf_replaced_def)
qed

lemma check_derived_Inr:
  assumes "check_derived prev derived r = Inr l"
  shows "unat (xs_epoch (ro_state derived)) = unat (xs_epoch (ro_state prev)) + 1"
    "length (ro_leaves derived) = length (ro_leaves prev)"
    "set (ro_leaves prev) - {su_authorized_old r} \<subseteq> set (ro_leaves derived)"
    "su_authorized_old r \<notin> set (ro_leaves derived)" "l \<in> set (ro_leaves derived)"
    "lf_identity l = su_authorized_new_identity r" "lf_signature_key l = su_authorized_new_signature_key r"
proof -
  from assms obtain e where e: "u64_checked_succ (xs_epoch (ro_state prev)) = Some e"
    "xs_epoch (ro_state derived) = e"
    and d: "length (ro_leaves derived) = length (ro_leaves prev)"
      "\<not> list_ex (\<lambda>l. l \<notin> set (ro_leaves derived)) (filter (\<lambda>l. l \<noteq> su_authorized_old r) (ro_leaves prev))"
      "su_authorized_old r \<notin> set (ro_leaves derived)"
    and f: "find (\<lambda>l. lf_identity l = su_authorized_new_identity r \<and>
      lf_signature_key l = su_authorized_new_signature_key r) (ro_leaves derived) = Some l"
    by (auto simp: check_derived_def bindE_Inr_iff ok_or_Inr_iff split: if_splits)
  from e show "unat (xs_epoch (ro_state derived)) = unat (xs_epoch (ro_state prev)) + 1"
    by (simp add: u64_checked_succ_Some_iff)
  from d show "length (ro_leaves derived) = length (ro_leaves prev)"
    "set (ro_leaves prev) - {su_authorized_old r} \<subseteq> set (ro_leaves derived)"
    "su_authorized_old r \<notin> set (ro_leaves derived)"
    by (auto simp: list_ex_iff)
  from find_leaf_Some [OF f] show "l \<in> set (ro_leaves derived)"
    "lf_identity l = su_authorized_new_identity r" "lf_signature_key l = su_authorized_new_signature_key r"
    by simp_all
qed

lemma process_external_commit_Inr:
  assumes "process_external_commit M P t g r = Inr staged"
  obtains decoded message processed where
    "om_message M (su_commit r) = Some (decoded, [])" "om_protocol_message M decoded = Some message"
    "om_message_group_id M message = pm_group_id P g" "om_message_epoch M message = pm_epoch P g"
    "pm_process_message P t message g = Some processed" "pr_aad processed = su_expected_aad r"
    "pr_sender processed = NewMemberCommit" "pr_basic_identity processed = Some (su_authorized_new_identity r)"
    "pr_content processed = StagedCommitMessage staged"
    "ps_update_path_key P staged = Some (su_authorized_new_signature_key r)"
    "exact_proposals (lf_index (su_authorized_old r)) RsDeltaMismatch (ps_queued P staged) = Inr ()"
  using assms
  by (auto simp: process_external_commit_def bindE_Inr_iff map_err_Inr_iff ok_or_Inr_iff mls_message_Inr_iff
      split: if_splits content.splits)

text \<open>The external Commit as OpenMLS authenticated it, and the group after it.\<close>

definition external_commit_authenticated ::
  "('v, 'g, 'x) openmls \<Rightarrow> ('p, 'x) public_mls \<Rightarrow> u64 \<Rightarrow> SuccessorRequest \<Rightarrow> 'p \<Rightarrow> 'p \<Rightarrow> bool" where
  "external_commit_authenticated M P t r g g' \<longleftrightarrow>
     (\<exists>decoded message processed staged.
        om_message M (su_commit r) = Some (decoded, []) \<and> om_protocol_message M decoded = Some message \<and>
        om_message_group_id M message = pm_group_id P g \<and> om_message_epoch M message = pm_epoch P g \<and>
        pm_process_message P t message g = Some processed \<and> pr_aad processed = su_expected_aad r \<and>
        pr_sender processed = NewMemberCommit \<and> pr_basic_identity processed = Some (su_authorized_new_identity r) \<and>
        pr_content processed = StagedCommitMessage staged \<and>
        ps_update_path_key P staged = Some (su_authorized_new_signature_key r) \<and>
        (ps_queued P staged = [(True, QueuedExternalInit), (True, QueuedRemove (lf_index (su_authorized_old r)))] \<or>
         ps_queued P staged = [(True, QueuedRemove (lf_index (su_authorized_old r))), (True, QueuedExternalInit)]) \<and>
        pm_merge_commit P staged g = Some g')"

definition successor_verified ::
  "(bytes \<Rightarrow> bytes) \<Rightarrow> ('v, 'g, 'x) openmls \<Rightarrow> ('p, 'x) public_mls \<Rightarrow> (nat \<Rightarrow> u64) \<Rightarrow> SuccessorRequest
   \<Rightarrow> VerifiedSuccessor \<Rightarrow> bool" where
  "successor_verified sha M P now r v \<longleftrightarrow>
     (\<exists>g g' next.
        snapshot_inner sha M P (now 0) (su_base r) = Inr (g, vc_previous v) \<and>
        length (su_commit r) \<le> MAX_MLS_BYTES \<and> su_commit r \<in> external_commit_shape \<and>
        vc_commit_sha256 v = sha (su_commit r) \<and> vc_aad_sha256 v = sha (su_expected_aad r) \<and>
        external_commit_authenticated M P (now 1) r g g' \<and>
        published sha M P (now 2) (su_reported_next_group_info r) next (vc_resulting v) \<and>
        vs_sha256 (vc_resulting v) = su_reported_next_sha256 r \<and>
        public_roster sha P g' = Inr (vs_roster (vc_resulting v)) \<and>
        pm_group_context P g' = pm_group_context P next \<and>
        pm_export_ratchet_tree P g' = pm_export_ratchet_tree P next \<and>
        pm_confirmation_tag P g' = pm_confirmation_tag P next)"

lemma successor_inner_Inr:
  assumes "successor_inner sha M P now r = Inr v"
  shows "successor_verified sha M P now r v"
    and "one_leaf_replaced (ro_leaves (vs_roster (vc_previous v))) (ro_leaves (vs_roster (vc_resulting v)))
      (su_authorized_old r) (vs_signer (vc_resulting v))"
    and "unat (xs_epoch (ro_state (vs_roster (vc_resulting v))))
      = unat (xs_epoch (ro_state (vs_roster (vc_previous v)))) + 1"
    and "lf_identity (vs_signer (vc_resulting v)) = su_authorized_new_identity r"
    and "lf_signature_key (vs_signer (vc_resulting v)) = su_authorized_new_signature_key r"
    and "\<forall>l \<in> set (ro_leaves (vs_roster (vc_previous v))). l \<noteq> su_authorized_old r \<longrightarrow>
      lf_identity l \<noteq> su_authorized_new_identity r"
proof -
  from assms obtain g previous staged g' derived new_leaf "next" resulting where
    sn: "snapshot_inner sha M P (now 0) (su_base r) = Inr (g, previous)"
    and old: "su_authorized_old r \<in> set (ro_leaves (vs_roster previous))"
    and fresh: "\<not> list_ex (\<lambda>l. l \<noteq> su_authorized_old r \<and> lf_identity l = su_authorized_new_identity r
         \<or> lf_signature_key l = su_authorized_new_signature_key r) (ro_leaves (vs_roster previous))"
    and ec: "external_commit (su_commit r) = Inr ()"
    and ch: "check_hash sha (su_commit r) (su_commit_sha256 r) = Inr ()"
    and pc: "process_external_commit M P (now 1) g r = Inr staged"
    and mc: "pm_merge_commit P staged g = Some g'"
    and dr: "public_roster sha P g' = Inr derived"
    and cd: "check_derived (vs_roster previous) derived r = Inr new_leaf"
    and ld: "load_public sha M P (now 2) (su_reported_next_group_info r) (su_reported_next_sha256 r)
       = Inr (next, resulting)"
    and sg: "vs_signer resulting = new_leaf" and ro: "vs_roster resulting = derived"
    and same: "pm_group_context P g' = pm_group_context P next"
      "pm_export_ratchet_tree P g' = pm_export_ratchet_tree P next"
      "pm_confirmation_tag P g' = pm_confirmation_tag P next"
    and v: "v = \<lparr>vc_previous = previous, vc_commit_sha256 = su_commit_sha256 r,
       vc_aad_sha256 = sha (su_expected_aad r), vc_resulting = resulting\<rparr>"
    by (auto simp: successor_inner_def bindE_Inr_iff ok_or_Inr_iff split: if_splits)
  note d = check_derived_Inr [OF cd]
  from snapshot_inner_Inr(1) [OF sn] have pr: "public_roster sha P g = Inr (vs_roster previous)"
    by (simp add: published_def)
  have ex: "exact_proposals (lf_index (su_authorized_old r)) RsDeltaMismatch (ps_queued P staged) = Inr ()"
    using pc by (rule process_external_commit_Inr)
  have auth: "external_commit_authenticated M P (now 1) r g g'"
    using pc
    by (rule process_external_commit_Inr)
      (use mc ex in \<open>auto simp: external_commit_authenticated_def exact_proposals_iff\<close>)
  show "successor_verified sha M P now r v"
    unfolding successor_verified_def
    using sn ec ch auth load_public_Inr [OF ld] dr ro same
    by (auto simp: v external_commit_iff check_hash_def split: if_splits)
  show "one_leaf_replaced (ro_leaves (vs_roster (vc_previous v))) (ro_leaves (vs_roster (vc_resulting v)))
      (su_authorized_old r) (vs_signer (vc_resulting v))"
  proof -
    have "new_leaf \<notin> set (ro_leaves (vs_roster previous))"
      using fresh d(7) by (auto simp: list_ex_iff)
    then show ?thesis
      using public_roster_Inr(1) [OF pr] public_roster_Inr(1) [OF dr] d old
      by (simp add: v sg ro one_leaf_replacedI distinct_leaves)
  qed
  show "unat (xs_epoch (ro_state (vs_roster (vc_resulting v))))
      = unat (xs_epoch (ro_state (vs_roster (vc_previous v)))) + 1"
    "lf_identity (vs_signer (vc_resulting v)) = su_authorized_new_identity r"
    "lf_signature_key (vs_signer (vc_resulting v)) = su_authorized_new_signature_key r"
    using d by (simp_all add: v sg ro)
  show "\<forall>l \<in> set (ro_leaves (vs_roster (vc_previous v))). l \<noteq> su_authorized_old r \<longrightarrow>
      lf_identity l \<noteq> su_authorized_new_identity r"
    using fresh by (auto simp: v list_ex_iff)
qed

section \<open>The answers of the validator\<close>

lemma put_leaf_size: "cbor_ok C \<Longrightarrow> public_leaf_ok l \<Longrightarrow> length (put_leaf C l) \<le> 113"
  using cbor_sizes(1) [of C 3] cbor_sizes(3) [of C "lf_index l"] cbor_sizes(5) [of C "lf_identity l"]
    cbor_sizes(5) [of C "lf_signature_key l"]
  by (simp add: put_leaf_def public_leaf_ok_def)

lemma put_leaves_size:
  assumes "cbor_ok C" "public_leaves_ok ls"
  shows "length (concat (map (put_leaf C) ls)) \<le> 256 * 113"
proof -
  have "length (concat (map (put_leaf C) ls)) \<le> length ls * 113"
    using assms put_leaf_size by (induction ls) (force simp: public_leaves_ok_def)+
  with assms(2) show ?thesis by (simp add: public_leaves_ok_def RS_MAX_LEAVES_def)
qed

definition verified_bounds :: "VerifiedSnapshot \<Rightarrow> bool" where
  "verified_bounds v \<longleftrightarrow> length (vs_sha256 v) = 32 \<and> public_leaves_ok (ro_leaves (vs_roster v)) \<and>
     state_bounds (ro_state (vs_roster v)) \<and> public_leaf_ok (vs_signer v)"

lemma put_verified_size:
  assumes C: "cbor_ok C" and v: "verified_bounds v"
  shows "length (put_verified C v) \<le> 30000"
proof -
  let ?s = "ro_state (vs_roster v)"
  note b = v [unfolded verified_bounds_def state_bounds_def]
  show ?thesis
    using cbor_sizes(1) [OF C, of 4] cbor_sizes(2) [OF C, of "vs_profile v"]
      cbor_sizes(5) [OF C, of "vs_sha256 v"] cbor_sizes(5) [OF C, of "xs_group_id ?s"]
      cbor_sizes(4) [OF C, of "xs_epoch ?s"] cbor_sizes(5) [OF C, of "xs_roster_sha256 ?s"]
      cbor_sizes(1) [OF C, of "of_nat (length (ro_leaves (vs_roster v)))"]
      put_leaves_size [OF C, of "ro_leaves (vs_roster v)"] put_leaf_size [OF C, of "vs_signer v"] b
    by (simp add: put_verified_def)
qed

lemma put_successor_size:
  assumes C: "cbor_ok C" and "verified_bounds (vc_previous v)" "verified_bounds (vc_resulting v)"
    and "length (vc_commit_sha256 v) = 32" "length (vc_aad_sha256 v) = 32"
  shows "length (put_successor C v) \<le> 61000"
  using put_verified_size [OF C assms(2)] put_verified_size [OF C assms(3)] cbor_sizes(1) [OF C, of 4]
    cbor_sizes(5) [OF C, of "vc_commit_sha256 v"] cbor_sizes(5) [OF C, of "vc_aad_sha256 v"] assms(4,5)
  by (simp add: put_successor_def)

text \<open>What the code relies on: SHA-256 has 32 bytes, and merging keeps the group.\<close>

definition public_mls_ok :: "(bytes \<Rightarrow> bytes) \<Rightarrow> ('p, 'x) public_mls \<Rightarrow> bool" where
  "public_mls_ok sha P \<longleftrightarrow> (\<forall>b. length (sha b) = 32) \<and>
     (\<forall>staged g g'. pm_merge_commit P staged g = Some g' \<longrightarrow> pm_group_id P g' = pm_group_id P g)"

lemma snapshot_inner_bounds:
  assumes "snapshot_inner sha M P t r = Inr (g, v)"
  shows "verified_bounds v" "length (pm_group_id P g) = 16"
proof -
  note s = snapshot_inner_Inr [OF assms]
  have r: "public_roster sha P g = Inr (vs_roster v)" using s(1) by (simp add: published_def)
  note pr = public_roster_Inr [OF r]
  show "length (pm_group_id P g) = 16" using pr(4) s(3,6) by (simp add: state_bounds_def)
  show "verified_bounds v"
    using s pr(1) by (auto simp: verified_bounds_def published_def public_leaves_ok_def)
qed

lemma successor_bounds_verified:
  assumes ok: "public_mls_ok sha P" and s: "successor_inner sha M P now r = Inr v"
  shows "verified_bounds (vc_previous v)" "verified_bounds (vc_resulting v)"
    "length (vc_commit_sha256 v) = 32" "length (vc_aad_sha256 v) = 32"
proof -
  from successor_inner_Inr(1) [OF s] obtain g g' nx where
    sn: "snapshot_inner sha M P (now 0) (su_base r) = Inr (g, vc_previous v)"
    and au: "external_commit_authenticated M P (now 1) r g g'"
    and pb: "published sha M P (now 2) (su_reported_next_group_info r) nx (vc_resulting v)"
    and ro: "public_roster sha P g' = Inr (vs_roster (vc_resulting v))"
    and h: "vc_commit_sha256 v = sha (su_commit r)" "vc_aad_sha256 v = sha (su_expected_aad r)"
    by (auto simp: successor_verified_def)
  note b = snapshot_inner_bounds [OF sn]
  show "verified_bounds (vc_previous v)" by (rule b(1))
  show "length (vc_commit_sha256 v) = 32" "length (vc_aad_sha256 v) = 32"
    using ok h by (simp_all add: public_mls_ok_def)
  have "pm_group_id P g' = pm_group_id P g"
    using au ok by (auto simp: external_commit_authenticated_def public_mls_ok_def)
  with b(2) public_roster_Inr [OF ro] pb ok show "verified_bounds (vc_resulting v)"
    by (auto simp: verified_bounds_def published_def state_bounds_def public_leaves_ok_def public_mls_ok_def)
qed

lemma respond_size:
  assumes "cbor_ok C" "public_mls_ok sha P" "respond sha C M P now q = Inr a"
  shows "length a \<le> 61000"
proof (cases q)
  case (RqSnapshot s)
  with assms(3) obtain g v where "snapshot_inner sha M P (now 0) s = Inr (g, v)" "a = put_verified C v"
    by (auto simp: respond_def bindE_Inr_iff validate_snapshot_Inr_iff)
  with put_verified_size [OF assms(1) snapshot_inner_bounds(1)] show ?thesis by force
next
  case (RqSuccessor s)
  with assms(3) obtain v where v: "successor_inner sha M P now s = Inr v" and a: "a = put_successor C v"
    by (auto simp: respond_def bindE_Inr_iff validate_external_successor_def catch_unwind_def)
  show ?thesis
    unfolding a by (rule put_successor_size [OF assms(1) successor_bounds_verified [OF assms(2) v]])
qed

text \<open>The answer to an accepted request, and to a refused one.\<close>

definition success :: "(bytes \<Rightarrow> bytes) \<Rightarrow> cbor \<Rightarrow> Request \<Rightarrow> bytes \<Rightarrow> bytes \<Rightarrow> bytes" where
  "success sha C q input a =
     frame (operation_of q) True (cb_array C 3 @ cb_bytes C (sha input) @ cb_u16 C 0 @ a)"

lemma failure_size:
  "cbor_ok C \<Longrightarrow> length d = 32 \<Longrightarrow> length (failure C op d e) \<le> RESULT_MAX_BYTES"
  using cbor_sizes(1) [of C 3] cbor_sizes(5) [of C d] cbor_sizes(2) [of C "resync_error_code e"]
    cbor_sizes(6) [of C]
  by (simp add: failure_def frame_length HEADER_def RESULT_MAX_BYTES_def)

lemma success_size:
  assumes "cbor_ok C" "public_mls_ok sha P" "respond sha C M P now q = Inr a"
  shows "length (success sha C q input a) \<le> RESULT_MAX_BYTES"
  using respond_size [OF assms] assms(2) cbor_sizes(1) [OF assms(1), of 3]
    cbor_sizes(5) [OF assms(1), of "sha input"] cbor_sizes(2) [OF assms(1), of 0]
  by (simp add: success_def frame_length HEADER_def RESULT_MAX_BYTES_def public_mls_ok_def)

lemma decode_request_operation:
  "decode_request C input = Inr q \<Longrightarrow> 6 < length input \<and> length input \<le> REQUEST_MAX_BYTES \<and> input ! 6 = operation_of q"
  by (auto simp: decode_request_def Let_def HEADER_def not_less split: if_splits prod.splits sum.splits
      dest!: rs_request_bounds)

text \<open>What a response repeats of the request: its operation byte and its digest.\<close>

definition echoed_operation :: "bytes \<Rightarrow> byte" where
  "echoed_operation input = (if length input \<le> REQUEST_MAX_BYTES \<and> 6 < length input then input ! 6 else 0)"

definition echoed_digest :: "(bytes \<Rightarrow> bytes) \<Rightarrow> bytes \<Rightarrow> bytes" where
  "echoed_digest sha input = (if length input \<le> REQUEST_MAX_BYTES then sha input else replicate 32 0)"

lemma execute_resync_eq:
  assumes C: "cbor_ok C" and P: "public_mls_ok sha P"
  shows "execute_resync sha C M P now input =
    (case bindE (decode_request C input) (\<lambda>q. bindE (respond sha C M P now q) (\<lambda>a. Inr (q, a))) of
       Inl e \<Rightarrow> failure C (echoed_operation input) (echoed_digest sha input) e
     | Inr (q, a) \<Rightarrow> success sha C q input a)"
proof (cases "decode_request C input")
  case (Inl e)
  then have "length input > REQUEST_MAX_BYTES \<Longrightarrow> e = RsLimitExceeded"
    by (simp add: decode_request_def)
  with Inl show ?thesis
    by (auto simp: execute_resync_def run_request_def catch_unwind_def Let_def echoed_operation_def echoed_digest_def)
next
  case (Inr q)
  note d = decode_request_operation [OF Inr]
  show ?thesis
  proof (cases "respond sha C M P now q")
    case e: (Inl e)
    with d Inr show ?thesis
      by (simp add: execute_resync_def run_request_def catch_unwind_def Let_def echoed_operation_def echoed_digest_def)
  next
    case a: (Inr a)
    with d Inr success_size [OF C P a, of input] show ?thesis
      by (simp add: execute_resync_def run_request_def catch_unwind_def Let_def success_def)
  qed
qed

lemma execute_resync_size:
  assumes "cbor_ok C" "public_mls_ok sha P"
  shows "length (execute_resync sha C M P now input) \<le> RESULT_MAX_BYTES"
proof -
  have "length (echoed_digest sha input) = 32"
    using assms(2) by (simp add: echoed_digest_def public_mls_ok_def)
  then show ?thesis
    unfolding execute_resync_eq [OF assms]
    using success_size [OF assms] failure_size [OF assms(1)]
    by (auto split: sum.splits prod.splits simp: bindE_Inr_iff)
qed

end
