(* ===== verification/LocalRows.thy ===== *)
theory LocalRows
  imports LocalCodec ProviderLaws
begin

text \<open>
  The metadata in the caller's storage. \<open>metadata_rows\<close> is the layout invariant of the
  \<open>OpenMlsDart/\<close> rows: the state row holds the encoding of the state, the retry rows hold
  the wires of the pending Commit, and there is no other reserved row. Loading succeeds
  exactly on it; saving, preparing and clearing establish it; OpenMLS calls keep it. The
  proofs use the store through the locale \<open>kv_store\<close> only.
\<close>

section \<open>Row keys\<close>

definition ROW_NAMES :: "string list" where
  "ROW_NAMES = [''state/'', ''commit/'', ''welcome/'', ''info/'']"

lemma ROW_NAMES_cases: "n \<in> set ROW_NAMES \<Longrightarrow> n = ''state/'' \<or> n = ''commit/'' \<or> n = ''welcome/'' \<or> n = ''info/''"
  by (simp add: ROW_NAMES_def)

lemma ROW_NAMES_mem [simp]:
  "''state/'' \<in> set ROW_NAMES" "''commit/'' \<in> set ROW_NAMES" "''welcome/'' \<in> set ROW_NAMES"
  "''info/'' \<in> set ROW_NAMES"
  by (simp_all add: ROW_NAMES_def)

lemma row_names_parallel:
  assumes "m \<in> set ROW_NAMES" "n \<in> set ROW_NAMES" "prefix (ascii m) (ascii n)"
  shows "m = n"
proof -
  have "list_all (\<lambda>m. list_all (\<lambda>n. prefix (ascii m) (ascii n) \<longrightarrow> m = n) ROW_NAMES) ROW_NAMES"
    by code_simp
  with assms show ?thesis by (simp add: list_all_iff)
qed

lemma key_inj:
  assumes "m \<in> set ROW_NAMES" "n \<in> set ROW_NAMES"
  shows "key g m = key g n \<longleftrightarrow> m = n"
proof
  assume "key g m = key g n"
  then have "prefix (ascii m) (ascii n) \<or> prefix (ascii n) (ascii m)"
    by (auto simp add: key_def append_eq_append_conv2 prefix_def)
  with assms row_names_parallel show "m = n" by blast
qed simp

lemma PREFIX_split: "PREFIX = RESERVED @ ascii ''1/''"
  by code_simp

lemma starts_with_append [simp]: "starts_with (p @ x) p"
  by (simp add: starts_with_def)

lemma key_reserved [simp]: "starts_with (key g n) PREFIX" "starts_with (key g n) RESERVED"
  by (simp_all add: key_def PREFIX_split starts_with_def)

section \<open>The layout\<close>

definition retry_hashes :: "LocalGroupState \<Rightarrow> (string \<times> bytes option) list" where
  "retry_hashes s = zip [''commit/'', ''welcome/'', ''info/'']
     (case lg_pending s of
        Some p \<Rightarrow> [Some (pb_commit_sha256 (binding p)), pb_welcome_sha256 (binding p),
                  pb_group_info_sha256 (binding p)]
      | None \<Rightarrow> [None, None, None])"

definition wire_ok :: "(bytes \<Rightarrow> bytes) \<Rightarrow> bytes option \<Rightarrow> bytes option \<Rightarrow> bool" where
  "wire_ok sha wire hash \<longleftrightarrow>
     hash = map_option sha wire \<and> (\<forall>w. wire = Some w \<longrightarrow> w \<noteq> [] \<and> length w \<le> MAX_WIRE)"

definition only_known_rows :: "bytes \<Rightarrow> (bytes \<Rightarrow> bytes option) \<Rightarrow> bool" where
  "only_known_rows g rd \<longleftrightarrow>
     (\<forall>k. starts_with k RESERVED \<longrightarrow> rd k \<noteq> None \<longrightarrow> k \<in> key g ` set ROW_NAMES)"

definition metadata_rows ::
  "(bytes \<Rightarrow> bytes) \<Rightarrow> cbor \<Rightarrow> LocalGroupState \<Rightarrow> (bytes \<Rightarrow> bytes option) \<Rightarrow> bool" where
  "metadata_rows sha C s rd \<longleftrightarrow>
     rd (key (lg_group_id s) ''state/'') = Some (encode_fields C s) \<and>
     (\<forall>(n, h) \<in> set (retry_hashes s). wire_ok sha (rd (key (lg_group_id s) n)) h) \<and>
     only_known_rows (lg_group_id s) rd"

lemma validate_wire_Inr_iff: "validate_wire sha w h = Inr u \<longleftrightarrow> wire_ok sha w h"
  by (auto simp: validate_wire_def wire_ok_def split: option.splits)

lemma validate_retry_rows_Inr_iff:
  "validate_retry_rows sha s st = Inr u \<longleftrightarrow>
     (\<forall>(n, h) \<in> set (retry_hashes s). wire_ok sha (read_opaque st (key (lg_group_id s) n)) h)"
  by (auto simp: validate_retry_rows_def retry_hashes_def eachE_Inr_iff validate_wire_Inr_iff
      split: option.splits)

lemma load_state_Inr_iff:
  assumes C: "cbor_ok C"
  shows "load_state sha C st gid = Inr s \<longleftrightarrow>
    local_ok sha s \<and> lg_group_id s = gid \<and> metadata_rows sha C s (read_opaque st)"
proof -
  have dec: "decode sha C b = Inr t \<longleftrightarrow> local_ok sha t \<and> b = encode_fields C t" for b t
    using decode_canonical decode_encode [OF C] encode_Inr_iff [OF C] by metis
  have names: "key gid ` set ROW_NAMES = set (map (key gid) [''state/'', ''commit/'', ''welcome/'', ''info/''])"
    by (simp add: ROW_NAMES_def)
  have keys: "(\<forall>k \<in> set (opaque_keys_with_prefix st RESERVED).
       (if \<not> starts_with k PREFIX then Inl UnsupportedLocalMetadataVersion
         else if k \<notin> set (map (key gid) [''state/'', ''commit/'', ''welcome/'', ''info/''])
         then Inl InvalidStorageSnapshot
         else Inr ()) = Inr ()) \<longleftrightarrow>
     (\<forall>k. starts_with k RESERVED \<longrightarrow> read_opaque st k \<noteq> None \<longrightarrow> k \<in> key gid ` set ROW_NAMES)"
    unfolding names by (auto simp: snapshot_kv.keys_iff)
  have gid: "local_ok sha s \<Longrightarrow> length (lg_group_id s) = 16"
    by (simp add: local_ok_def)
  have "load_state sha C st gid = Inr s \<longleftrightarrow>
    length gid = 16 \<and>
    (\<forall>k. starts_with k RESERVED \<longrightarrow> read_opaque st k \<noteq> None \<longrightarrow> k \<in> key gid ` set ROW_NAMES) \<and>
    (\<exists>b t. read_opaque st (key gid ''state/'') = Some b \<and> local_ok sha t \<and> b = encode_fields C t \<and>
       lg_group_id t = gid \<and> validate_retry_rows sha t st = Inr () \<and> t = s)"
    unfolding load_state_def Let_def bindE_Inr_iff eachE_Inr_iff keys ok_or_Inr_iff dec
    by (auto simp: small_checks bindE_Inr_iff dec split: if_splits)
  then show ?thesis
    using gid by (auto simp: validate_retry_rows_Inr_iff metadata_rows_def only_known_rows_def)
qed

lemma metadata_rows_cong:
  assumes "\<And>k. starts_with k RESERVED \<Longrightarrow> rd k = rd' k"
  shows "metadata_rows sha C s rd \<longleftrightarrow> metadata_rows sha C s rd'"
  using assms by (simp add: metadata_rows_def only_known_rows_def)

lemma metadata_rows_exec_calls:
  "metadata_rows sha C s (read_opaque (exec_calls E calls st)) \<longleftrightarrow> metadata_rows sha C s (read_opaque st)"
  by (rule metadata_rows_cong) (simp add: exec_calls_reserved RESERVED_def)

section \<open>Saving, preparing, clearing\<close>

lemma save_ok_iff:
  "cbor_ok C \<Longrightarrow> save sha C s st = (Inr u, st') \<longleftrightarrow>
     local_ok sha s \<and> st' = write_opaque (key (lg_group_id s) ''state/'') (encode_fields C s) st"
  by (auto simp: save_def run_bindS_ok_iff encode_Inr_iff)

lemma put_row_put_opt: "put_row g (n, v) = snapshot_kv.put_opt (key g n) v"
  by (rule ext) (simp add: put_row_def snapshot_kv.put_opt_def split: option.splits)

lemma fold_put_row:
  "fold (put_row g) nws = fold (\<lambda>(k, v). snapshot_kv.put_opt k v) (map (\<lambda>(n, v). (key g n, v)) nws)"
  by (rule ext) (induction nws, auto simp: put_row_put_opt)

lemma read_put_rows:
  assumes "distinct (map fst nws)" "set (map fst nws) \<subseteq> set ROW_NAMES"
  shows "read_opaque (fold (put_row g) nws st) k =
    (case map_of (map (\<lambda>(n, v). (key g n, v)) nws) k of Some v \<Rightarrow> v | None \<Rightarrow> read_opaque st k)"
proof -
  have "inj_on (key g) (set (map fst nws))"
    using assms(2) key_inj by (auto simp: inj_on_def subset_iff)
  then have "distinct (map (key g) (map fst nws))"
    using assms(1) by (simp only: distinct_map)
  then have "distinct (map fst (map (\<lambda>(n, v). (key g n, v)) nws))"
    by (simp add: case_prod_unfold comp_def)
  from snapshot_kv.rd_put_opts [OF this] show ?thesis
    by (simp only: fold_put_row)
qed

definition retry_wires ::
  "bytes \<Rightarrow> bytes option \<Rightarrow> bytes option \<Rightarrow> (string \<times> bytes option) list" where
  "retry_wires c w i = [(''commit/'', Some c), (''welcome/'', w), (''info/'', i)]"

lemma write_retry_rows_ok_iff:
  "write_retry_rows sha s c w i st = (Inr u, st') \<longleftrightarrow>
     local_ok sha s \<and> lg_pending s \<noteq> None \<and>
     (\<forall>((n, wire), (_, h)) \<in> set (zip (retry_wires c w i) (retry_hashes s)). wire_ok sha wire h) \<and>
     st' = fold (put_row (lg_group_id s)) (retry_wires c w i) st"
  by (cases "lg_pending s")
    (auto simp: write_retry_rows_def run_bindS_ok_iff validate_Inr_iff ok_or_Inr_iff eachE_Inr_iff
      validate_wire_Inr_iff Let_def retry_wires_def retry_hashes_def bindE_Inr_iff)


lemma map_of_keyed:
  "n \<in> set ROW_NAMES \<Longrightarrow> set (map fst nws) \<subseteq> set ROW_NAMES \<Longrightarrow>
   map_of (map (\<lambda>(n, v). (key g n, v)) nws) (key g n) = map_of nws n"
proof (induction nws)
  case (Cons nv nws)
  then have "key g (fst nv) = key g n \<longleftrightarrow> fst nv = n"
    by (intro key_inj) simp_all
  with Cons show ?case by (auto simp: case_prod_unfold)
qed simp

lemma retry_wires_names:
  "distinct (map fst (retry_wires c w i))" "set (map fst (retry_wires c w i)) \<subseteq> set ROW_NAMES"
  by (simp_all add: retry_wires_def ROW_NAMES_def)

lemma read_after_write_retry:
  assumes "write_retry_rows sha s c w i st = (Inr u, st')" "n \<in> set ROW_NAMES"
  shows "read_opaque st' (key (lg_group_id s) n) =
    (case map_of (retry_wires c w i) n of Some v \<Rightarrow> v
     | None \<Rightarrow> read_opaque st (key (lg_group_id s) n))"
proof -
  from assms(1) have st': "st' = fold (put_row (lg_group_id s)) (retry_wires c w i) st"
    by (simp only: write_retry_rows_ok_iff)
  show ?thesis
    unfolding st' read_put_rows [OF retry_wires_names] map_of_keyed [OF assms(2) retry_wires_names(2)] ..
qed

lemma only_known_write:
  "only_known_rows g (read_opaque st) \<Longrightarrow> n \<in> set ROW_NAMES \<Longrightarrow>
   only_known_rows g (read_opaque (write_opaque (key g n) v st))"
  by (auto simp: only_known_rows_def snapshot_kv.rd_wr)

lemma only_known_delete:
  "only_known_rows g (read_opaque st) \<Longrightarrow> only_known_rows g (read_opaque (delete_opaque k st))"
  by (auto simp: only_known_rows_def snapshot_kv.rd_del)

lemma only_known_put_rows:
  "only_known_rows g (read_opaque st) \<Longrightarrow> set (map fst nws) \<subseteq> set ROW_NAMES \<Longrightarrow>
   only_known_rows g (read_opaque (fold (put_row g) nws st))"
  by (induction nws arbitrary: st)
    (auto simp: put_row_def only_known_write only_known_delete split: option.splits)

lemma metadata_rows_saved:
  assumes "save sha C s st = (Inr u, st')" "cbor_ok C"
    and "only_known_rows (lg_group_id s) (read_opaque st)"
    and "\<forall>(n, h) \<in> set (retry_hashes s). wire_ok sha (read_opaque st (key (lg_group_id s) n)) h"
  shows "metadata_rows sha C s (read_opaque st')"
proof -
  from assms(1,2) have st': "st' = write_opaque (key (lg_group_id s) ''state/'') (encode_fields C s) st"
    by (simp add: save_ok_iff)
  have other: "(n, h) \<in> set (retry_hashes s) \<Longrightarrow> n \<in> set ROW_NAMES \<and> n \<noteq> ''state/''" for n h
    by (auto simp: retry_hashes_def ROW_NAMES_def split: option.splits)
  have "read_opaque st' (key (lg_group_id s) n) = read_opaque st (key (lg_group_id s) n)"
    if "(n, h) \<in> set (retry_hashes s)" for n h
    using other [OF that] by (simp add: st' snapshot_kv.rd_wr key_inj)
  then show ?thesis
    using assms(3,4) only_known_write [OF assms(3)]
    by (auto simp: metadata_rows_def st' snapshot_kv.rd_wr)
qed

text \<open>Preparing a Commit: the pending record, its wires and the state row.\<close>

lemma prepared_rows:
  assumes C: "cbor_ok C" and known: "only_known_rows (lg_group_id s) (read_opaque st)"
    and w: "write_retry_rows sha s c w i st = (Inr (), st1)"
    and sv: "save sha C s st1 = (Inr (), st2)"
  shows "metadata_rows sha C s (read_opaque st2) \<and> retry_bytes sha s st2 = Inr (c, w, i)"
proof -
  note rd = read_after_write_retry [OF w]
  from w obtain p where p: "lg_pending s = Some p" and st1: "st1 = fold (put_row (lg_group_id s)) (retry_wires c w i) st"
    and ok: "\<forall>((n, wire), (_, h)) \<in> set (zip (retry_wires c w i) (retry_hashes s)). wire_ok sha wire h"
    by (auto simp: write_retry_rows_ok_iff)
  have k1: "only_known_rows (lg_group_id s) (read_opaque st1)"
    unfolding st1 by (rule only_known_put_rows [OF known]) (simp add: retry_wires_def ROW_NAMES_def)
  have "\<forall>(n, h) \<in> set (retry_hashes s). wire_ok sha (read_opaque st1 (key (lg_group_id s) n)) h"
    using ok p by (auto simp: retry_hashes_def rd retry_wires_def)
  with metadata_rows_saved [OF sv C k1] have m: "metadata_rows sha C s (read_opaque st2)" .
  have "read_opaque st2 (key (lg_group_id s) n) = read_opaque st1 (key (lg_group_id s) n)"
    if "n \<in> set ROW_NAMES" "n \<noteq> ''state/''" for n
    using sv C that by (simp add: save_ok_iff snapshot_kv.rd_wr key_inj)
  then have "retry_bytes sha s st2 = Inr (c, w, i)"
    using m p by (simp add: retry_bytes_def validate_retry_rows_Inr_iff bindE_def metadata_rows_def
        rd retry_wires_def split: sum.splits)
      (metis validate_retry_rows_Inr_iff sum.distinct(1))
  with m show ?thesis by simp
qed

text \<open>Merging or discarding: the retry rows go, the new state has no pending Commit.\<close>

lemma read_clear_retry_rows:
  "read_opaque (clear_retry_rows s st) k =
    (if k \<in> key (lg_group_id s) ` {''commit/'', ''welcome/'', ''info/''} then None
     else read_opaque st k)"
  by (simp add: clear_retry_rows_def snapshot_kv.rd_del)

lemma cleared_rows:
  assumes C: "cbor_ok C" and known: "only_known_rows (lg_group_id s) (read_opaque st)"
    and p: "lg_pending s = None" and g: "lg_group_id t = lg_group_id s"
    and sv: "save sha C s (clear_retry_rows t st) = (Inr (), st2)"
  shows "metadata_rows sha C s (read_opaque st2)"
proof (rule metadata_rows_saved [OF sv C])
  show "only_known_rows (lg_group_id s) (read_opaque (clear_retry_rows t st))"
    using known by (auto simp: only_known_rows_def read_clear_retry_rows g)
  show "\<forall>(n, h) \<in> set (retry_hashes s).
      wire_ok sha (read_opaque (clear_retry_rows t st) (key (lg_group_id s) n)) h"
    by (auto simp: retry_hashes_def p read_clear_retry_rows g wire_ok_def)
qed

text \<open>Saving a state whose pending Commit is unchanged keeps the layout.\<close>

lemma resaved_rows:
  assumes C: "cbor_ok C" and m: "metadata_rows sha C s (read_opaque st)"
    and "lg_group_id t = lg_group_id s" "lg_pending t = lg_pending s"
    and sv: "save sha C t st = (Inr (), st2)"
  shows "metadata_rows sha C t (read_opaque st2)"
  using m assms(3,4) by (intro metadata_rows_saved [OF sv C]) (simp_all add: metadata_rows_def retry_hashes_def)

end
