(* ===== verification/RuntimeLaws.thy ===== *)
theory RuntimeLaws
  imports Runtime LocalRows RosterLaws
begin

text \<open>
  Opening and closing an operation. \<open>load\<close> succeeds exactly on rows that are valid, digest to
  the caller's base, hold a consistent group and metadata, and match the caller's expected
  state (\<open>opened\<close>). \<open>finish\<close> returns a batch that, applied to the caller's rows, gives rows
  whose digest is the returned one and whose metadata is the new local state (\<open>committed\<close>).
\<close>

section \<open>Bounds\<close>

definition row_size :: "MlsStorageEntry \<Rightarrow> nat" where
  "row_size e = length (entry_key e) + length (entry_value e)
     + (case entry_group_id e of None \<Rightarrow> 0 | Some g \<Rightarrow> length g)"

definition row_bounded :: "MlsStorageEntry \<Rightarrow> bool" where
  "row_bounded e \<longleftrightarrow> length (entry_key e) \<le> 4096 \<and> length (entry_value e) \<le> 2 * 1024 * 1024"

lemma add_entry_bytes_Inr_iff:
  "add_entry_bytes n e = Inr k \<longleftrightarrow> row_bounded e \<and> k = n + row_size e \<and> k < 2 ^ 64"
proof -
  have "(\<exists>a. (a = x + y \<and> a < m) \<and> (\<exists>b. (b = a + z \<and> b < m) \<and> c = b + w \<and> c < m)) \<longleftrightarrow>
      c = x + (y + z + w) \<and> c < m" for x y z w c m :: nat
    by auto
  then show ?thesis
    by (simp add: add_entry_bytes_def row_bounded_def row_size_def ok_or_Inr_iff bind_eq_Some_conv
      usize_checked_add_Some_iff not_less del: power_numeral_odd power_numeral_even)
qed

lemma foldE_checked_sum:
  assumes "\<And>n x k. f n x = Inr k \<longleftrightarrow> P x \<and> k = n + sz x \<and> k < (m::nat)"
  shows "foldE f n xs = Inr k \<longleftrightarrow>
     (\<forall>x \<in> set xs. P x) \<and> k = n + sum_list (map sz xs) \<and> (xs = [] \<or> k < m)"
proof (induction xs arbitrary: n)
  case (Cons x xs)
  have "foldE f n (x # xs) = Inr k \<longleftrightarrow>
      P x \<and> n + sz x < m \<and> foldE f (n + sz x) xs = Inr k"
    by (auto simp: bindE_Inr_iff assms)
  also have "\<dots> \<longleftrightarrow> (\<forall>y \<in> set (x # xs). P y) \<and> k = n + sum_list (map sz (x # xs)) \<and> k < m"
    unfolding Cons.IH by auto
  finally show ?case by simp
qed auto

lemmas foldE_add_entry_bytes = foldE_checked_sum [where f = add_entry_bytes, OF add_entry_bytes_Inr_iff]

lemma entry_bytes_Inr_iff:
  "entry_bytes es = Inr n \<longleftrightarrow>
     length es \<le> 4096 \<and> (\<forall>e \<in> set es. row_bounded e) \<and> n = sum_list (map row_size es) \<and>
     n \<le> 6 * 1024 * 1024"
  by (auto simp: entry_bytes_def bindE_Inr_iff foldE_add_entry_bytes)

definition rows_bounded :: "MlsStorageEntry list \<Rightarrow> bool" where
  "rows_bounded es \<longleftrightarrow> length es \<le> 4096 \<and> (\<forall>e \<in> set es. row_bounded e) \<and>
     sum_list (map row_size es) \<le> 6 * 1024 * 1024"

lemma bounded_entries_Inr_iff: "bounded_entries es = Inr u \<longleftrightarrow> rows_bounded es"
  by (auto simp: bounded_entries_def bindE_Inr_iff entry_bytes_Inr_iff rows_bounded_def)

lemma rows_bounded_cong:
  assumes "set a = set b" "distinct a" "distinct b"
  shows "rows_bounded a \<longleftrightarrow> rows_bounded b"
proof -
  have m: "mset a = mset b" using assms set_eq_iff_mset_eq_distinct by blast
  have "sum_list (map row_size a) = sum_list (map row_size b)"
    by (metis m mset_map sum_mset_sum_list)
  moreover have "length a = length b" using m by (rule mset_eq_length)
  ultimately show ?thesis using assms(1) by (simp add: rows_bounded_def)
qed

section \<open>Rows as the store reads them\<close>

definition row_of :: "MlsStorageEntry list \<Rightarrow> bytes \<Rightarrow> bytes option" where
  "row_of es k = map_option entry_value (entries_map es k)"

lemma distinct_keys_distinct: "distinct (map f xs) \<Longrightarrow> distinct xs"
  by (simp add: distinct_map)

lemma row_of_opened:
  assumes "provider_from_entries es v g = Inr s"
  shows "read_opaque s = row_of es" "snapshot_ok s" "sp_initial s = sp_current s"
proof -
  from assms have d: "distinct (map entry_key es)"
    and s: "s = from_entries (map (\<lambda>e. (entry_key e, entry_value e)) es)"
    by (auto simp: provider_from_entries_Inr_iff validate_storage_entries_Inr_iff)
  show "read_opaque s = row_of es"
    unfolding s read_opaque_def row_of_def
    by (rule ext, subst map_of_from_entries) (simp_all add: comp_def d map_of_rows_entries)
  show "snapshot_ok s" "sp_initial s = sp_current s" by (simp_all add: s)
qed

lemma row_of_cong:
  "set a = set b \<Longrightarrow> distinct (map entry_key a) \<Longrightarrow> distinct (map entry_key b) \<Longrightarrow> row_of a = row_of b"
  by (rule ext) (simp add: row_of_def entries_map_eqI [of a b])

lemma row_of_snapshot_entries: "row_of (snapshot_entries s g) = read_opaque s"
  by (rule ext) (simp add: row_of_def entries_map_snapshot read_opaque_def option.map_comp comp_def
      option.map_ident)

lemma provider_from_entries_scope:
  assumes "provider_from_entries es v None = Inr s"
  shows "provider_from_entries es v (Some g) = Inr s"
  using assms
  by (auto simp: provider_from_entries_Inr_iff validate_storage_entries_Inr_iff row_scoped_def
      split: if_splits)

section \<open>Comparing states\<close>

lemma check_state_Inr_iff: "check_state r ex b = Inr u \<longleftrightarrow> expected r = ex"
  by (cases ex) (auto simp: check_state_def expected_def)

lemma profile_Inr_iff:
  "profile t = Inr p \<longleftrightarrow> (t = 2 \<or> t = 4) \<and>
     p = (default_config Mls128DhkemX25519Aes128gcmSha256Ed25519)\<lparr>max_past_epochs := t\<rparr>"
  by (auto simp: profile_def bindE_Inr_iff small_checks)

definition configured :: "('v, 'g, 'x) openmls \<Rightarrow> 'g \<Rightarrow> u32 \<Rightarrow> bool" where
  "configured M g t \<longleftrightarrow>
     om_configuration M g =
       to_join_config ((default_config Mls128DhkemX25519Aes128gcmSha256Ed25519)\<lparr>max_past_epochs := t\<rparr>) \<and>
     om_ciphersuite M g = MLS_128_DHKEMX25519_AES128GCM_SHA256_Ed25519"

lemma check_configuration_Inr_iff:
  "check_configuration M g t = Inr u \<longleftrightarrow> (t = 2 \<or> t = 4) \<and> configured M g t"
  by (auto simp: check_configuration_def bindE_Inr_iff profile_Inr_iff configured_def
      default_config_def)

definition pending_agrees ::
  "(bytes \<Rightarrow> bytes) \<Rightarrow> 'v storage_env \<Rightarrow> ('v, 'g, 'x) openmls \<Rightarrow> 'g \<Rightarrow> PendingRecord option
   \<Rightarrow> snapshot \<Rightarrow> bool" where
  "pending_agrees sha E M g pending st \<longleftrightarrow>
     (case pending of
        None \<Rightarrow> \<not> om_has_pending M g
      | Some p \<Rightarrow> om_has_pending M g \<and>
          pending_state_sha256 sha E (om_group_id M g) st = Inr (upstream_pending_sha256 p))"

lemma check_pending_Inr_iff:
  "check_pending sha E M g pending st = Inr u \<longleftrightarrow> pending_agrees sha E M g pending st"
  by (auto simp: check_pending_def pending_agrees_def bindE_Inr_iff map_err_Inr_iff
      split: option.splits bool.splits)

section \<open>Opening\<close>

definition opened ::
  "(bytes \<Rightarrow> bytes) \<Rightarrow> cbor \<Rightarrow> 'v storage_env \<Rightarrow> ('v, 'g, 'x) openmls \<Rightarrow> Context \<Rightarrow> 'g Loaded \<Rightarrow> bool"
where
  "opened sha C E M cx L \<longleftrightarrow>
     rows_bounded (cx_entries cx) \<and> cx_storage_format cx = 1 \<and>
     length (cx_expected_base_sha256 cx) = 32 \<and>
     group_state_digest_from_entries sha (cx_group_id cx) (cx_entries cx) 1
       = Inr (cx_expected_base_sha256 cx) \<and>
     ld_base L = cx_expected_base_sha256 cx \<and>
     provider_from_entries (cx_entries cx) 1 (Some (cx_group_id cx)) = Inr (ld_provider L) \<and>
     om_load M (cx_group_id cx) (ld_provider L) = Some (ld_group L) \<and>
     local_ok sha (ld_local L) \<and> lg_group_id (ld_local L) = cx_group_id cx \<and>
     metadata_rows sha C (ld_local L) (row_of (cx_entries cx)) \<and>
     lg_incarnation_id (ld_local L) = cx_incarnation_id cx \<and>
     lg_retention (ld_local L) = cx_expected_retention cx \<and>
     configured M (ld_group L) (cx_expected_retention cx) \<and>
     roster_from_group sha M (ld_group L) = Inr (lg_current (ld_local L)) \<and>
     expected (lg_current (ld_local L)) = cx_expected_current cx \<and>
     pending_agrees sha E M (ld_group L) (lg_pending (ld_local L)) (ld_provider L)"

lemma load_Inr_iff:
  assumes C: "cbor_ok C"
  shows "load sha C E M cx = Inr L \<longleftrightarrow> opened sha C E M cx L"
proof
  assume "load sha C E M cx = Inr L"
  then obtain base provider g local where
      "rows_bounded (cx_entries cx)" "length (cx_group_id cx) = 16"
      "id_length_ok (cx_incarnation_id cx)" "length (cx_expected_base_sha256 cx) = 32"
      "length (es_digest_sha256 (cx_expected_current cx)) = 32" "cx_storage_format cx = 1"
      "group_state_digest_from_entries sha (cx_group_id cx) (cx_entries cx) 1 = Inr base"
      "base = cx_expected_base_sha256 cx"
      and p: "provider_from_entries (cx_entries cx) 1 (Some (cx_group_id cx)) = Inr provider"
      and rest: "load_group M (cx_group_id cx) provider = Inr g"
      "load_state sha C provider (cx_group_id cx) = Inr local"
      "lg_incarnation_id local = cx_incarnation_id cx" "lg_retention local = cx_expected_retention cx"
      "check_configuration M g (lg_retention local) = Inr ()"
      "roster_from_group sha M g = Inr (lg_current local)"
      "check_state (lg_current local) (cx_expected_current cx) False = Inr ()"
      "check_pending sha E M g (lg_pending local) provider = Inr ()"
      "L = \<lparr>ld_provider = provider, ld_group = g, ld_local = local, ld_base = base\<rparr>"
    by (auto simp: load_def bindE_Inr_iff bounded_entries_Inr_iff map_err_Inr_iff if_Inl_Inr_iff)
  then show "opened sha C E M cx L"
    using row_of_opened(1) [OF p]
    by (simp add: opened_def load_group_def ok_or_Inr_iff load_state_Inr_iff [OF C]
        check_configuration_Inr_iff check_state_Inr_iff check_pending_Inr_iff)
next
  assume o: "opened sha C E M cx L"
  then have p: "provider_from_entries (cx_entries cx) 1 (Some (cx_group_id cx)) = Inr (ld_provider L)"
    by (simp add: opened_def)
  have ok: "local_ok sha (ld_local L)" using o by (simp add: opened_def)
  have ex: "cx_expected_current cx = expected (lg_current (ld_local L))"
    using o by (simp add: opened_def)
  have lens: "length (cx_group_id cx) = 16" "id_length_ok (cx_incarnation_id cx)"
    "length (es_digest_sha256 (cx_expected_current cx)) = 32"
    "cx_expected_retention cx = 2 \<or> cx_expected_retention cx = 4"
    using o ok by (auto simp: opened_def local_ok_def id_length_ok_def roster_ok_def ex)
      (auto simp: expected_def)
  have "load_state sha C (ld_provider L) (cx_group_id cx) = Inr (ld_local L)"
    using o row_of_opened(1) [OF p] by (simp add: load_state_Inr_iff [OF C] opened_def)
  then show "load sha C E M cx = Inr L"
    using o p lens
    by (simp add: load_def opened_def bounded_entries_Inr_iff [where u = "()", THEN iffD2]
        small_checks [where u = "()", THEN iffD2] load_group_def
        check_configuration_Inr_iff [where u = "()", THEN iffD2]
        check_state_Inr_iff [where u = "()", THEN iffD2]
        check_pending_Inr_iff [where u = "()", THEN iffD2])
qed


section \<open>Closing\<close>

text \<open>
  What a mutation promises about the rows \<open>entries\<close> it was computed from: applying the batch
  gives valid rows of the group with the returned digest, within the bounds that the next
  operation checks, whose metadata is \<open>local\<close>, the state the mutation reports.
\<close>

definition committed ::
  "(bytes \<Rightarrow> bytes) \<Rightarrow> cbor \<Rightarrow> MlsStorageEntry list \<Rightarrow> LocalGroupState \<Rightarrow> Mutation \<Rightarrow> bool" where
  "committed sha C entries local m \<longleftrightarrow>
     (let rows = apply_batch (mu_batch m) entries in
      validate_storage_entries rows 1 (Some (lg_group_id local)) = Inr () \<and>
      group_state_digest_from_entries sha (lg_group_id local) rows 1 = Inr (mu_resulting_digest m) \<and>
      rows_bounded rows \<and> local_ok sha local \<and> metadata_rows sha C local (row_of rows) \<and>
      mu_resulting m = lg_current local \<and> mu_retention m = lg_retention local)"

text \<open>The provider at the end of an operation: opened on \<open>entries\<close> of group \<open>g\<close>, then written to.\<close>

definition opened_on :: "MlsStorageEntry list \<Rightarrow> bytes \<Rightarrow> snapshot \<Rightarrow> bool" where
  "opened_on entries g st \<longleftrightarrow> snapshot_ok st \<and>
     (\<exists>s0. provider_from_entries entries 1 (Some g) = Inr s0 \<and> sp_initial st = sp_initial s0)"

lemma opened_on_fresh:
  "provider_from_entries entries 1 (Some g) = Inr s \<Longrightarrow> opened_on entries g s"
  using row_of_opened(2) by (auto simp: opened_on_def)

lemma opened_on_exec_calls: "opened_on entries g st \<Longrightarrow> opened_on entries g (exec_calls E calls st)"
  by (auto simp: opened_on_def)

lemma opened_on_writes:
  "opened_on entries g st \<Longrightarrow> opened_on entries g (write_opaque k v st)"
  "opened_on entries g st \<Longrightarrow> opened_on entries g (delete_opaque k st)"
  by (auto simp: opened_on_def)

lemma opened_on_put_rows: "opened_on entries g st \<Longrightarrow> opened_on entries g (fold (put_row h) nws st)"
  by (induction nws arbitrary: st) (auto simp: put_row_def opened_on_writes split: option.splits)

lemma opened_on_clear: "opened_on entries g st \<Longrightarrow> opened_on entries g (clear_retry_rows s st)"
  by (simp add: clear_retry_rows_def opened_on_writes)

lemmas opened_on_intros = opened_on_fresh opened_on_exec_calls opened_on_writes opened_on_put_rows
  opened_on_clear

text \<open>\<open>finish\<close> after the metadata rows other than the state row have been brought up to date.\<close>

definition rows_ready ::
  "(bytes \<Rightarrow> bytes) \<Rightarrow> LocalGroupState \<Rightarrow> snapshot \<Rightarrow> bool" where
  "rows_ready sha s st \<longleftrightarrow> only_known_rows (lg_group_id s) (read_opaque st) \<and>
     (\<forall>(n, h) \<in> set (retry_hashes s). wire_ok sha (read_opaque st (key (lg_group_id s) n)) h)"

lemma finish_Inr_iff:
  assumes "cbor_ok C"
  shows "finish sha C st s prev = Inr m \<longleftrightarrow>
    local_ok sha s \<and>
    (let st' = write_opaque (key (lg_group_id s) ''state/'') (encode_fields C s) st in
     rows_bounded (snapshot_entries st' (lg_group_id s)) \<and>
     group_state_digest_from_entries sha (lg_group_id s) (snapshot_entries st' (lg_group_id s)) 1
       = Inr (mu_resulting_digest m) \<and>
     batch_from_provider st' (Some (group_id (lg_current s))) [] = Inr (mu_batch m) \<and>
     bounded_batch (mu_batch m) = Inr () \<and>
     m = \<lparr>mu_previous = prev, mu_resulting = lg_current s,
            mu_resulting_digest = mu_resulting_digest m, mu_retention = lg_retention s,
            mu_batch = mu_batch m\<rparr>)"
proof (cases "local_ok sha s")
  case True
  then have "save sha C s st = (Inr (), write_opaque (key (lg_group_id s) ''state/'') (encode_fields C s) st)"
    by (simp add: save_ok_iff [OF assms])
  with True show ?thesis
    by (cases m)
      (auto simp: finish_def state_digest_def Let_def bindE_Inr_iff map_err_Inr_iff
        bounded_entries_Inr_iff)
next
  case False
  then have "fst (save sha C s st) \<noteq> Inr ()"
    using save_ok_iff [OF assms, of sha s st "()"] by (metis prod.collapse)
  then obtain e t where "save sha C s st = (Inl e, t)"
    by (cases "save sha C s st"; cases "fst (save sha C s st)") auto
  with False show ?thesis by (simp add: finish_def)
qed

text \<open>The central fact of the lifecycle: what \<open>finish\<close> returns is committed.\<close>

lemma finish_committed:
  assumes C: "cbor_ok C" and op: "opened_on entries (lg_group_id s) st" and ready: "rows_ready sha s st"
    and fin: "finish sha C st s prev = Inr m"
  shows "committed sha C entries s m \<and> mu_previous m = prev"
proof -
  define g where "g = lg_group_id s"
  define st' where "st' = write_opaque (key g ''state/'') (encode_fields C s) st"
  define rows where "rows = apply_batch (mu_batch m) entries"
  from fin have ok: "local_ok sha s" and rb: "rows_bounded (snapshot_entries st' g)"
    and dig: "group_state_digest_from_entries sha g (snapshot_entries st' g) 1 = Inr (mu_resulting_digest m)"
    and b: "batch_from_provider st' (Some (group_id (lg_current s))) [] = Inr (mu_batch m)"
    and m: "mu_previous m = prev" "mu_resulting m = lg_current s" "mu_retention m = lg_retention s"
    unfolding finish_Inr_iff [OF C] Let_def g_def st'_def
    by (auto dest: arg_cong [where f = mu_previous] arg_cong [where f = mu_resulting]
        arg_cong [where f = mu_retention])
  from ok have gid: "group_id (lg_current s) = g" by (simp add: local_ok_def g_def)
  from op obtain s0 where s0: "provider_from_entries entries 1 (Some g) = Inr s0"
    and st: "snapshot_ok st'" "sp_initial st' = sp_initial s0"
    by (auto simp: opened_on_def g_def st'_def)
  have sv: "save sha C s st = (Inr (), st')"
    using ok by (simp add: save_ok_iff [OF C] st'_def g_def)
  have meta: "metadata_rows sha C s (read_opaque st')"
    by (rule metadata_rows_saved [OF sv C]) (use ready in \<open>simp_all add: rows_ready_def\<close>)
  note ap = apply_batch_gives_current [OF st(1) s0 st(2) b [unfolded gid], folded rows_def]
  note ds = distinct_snapshot_entries [OF st(1), of g]
  have valid: "validate_storage_entries rows 1 (Some g) = Inr ()"
    using snapshot_entries_valid [OF st(1), of g] ap by (auto simp: validate_storage_entries_Inr_iff)
  have "group_state_digest_from_entries sha g rows 1 = Inr (mu_resulting_digest m)"
    using group_state_digest_cong [OF valid snapshot_entries_valid [OF st(1)]] ap(1) dig by simp
  moreover have "rows_bounded rows"
    using rows_bounded_cong [OF ap(1) distinct_keys_distinct [OF ap(2)] distinct_keys_distinct [OF ds]] rb
    by simp
  moreover have "row_of rows = read_opaque st'"
    using row_of_cong [OF ap(1) ap(2) ds] by (simp add: row_of_snapshot_entries)
  ultimately show ?thesis
    using valid ok meta m by (simp add: committed_def Let_def rows_def g_def)
qed

text \<open>
  The batch of a mutation is within the bounds the callers check, deletes no whole group, and
  holds rows of the group and installation-global rows only.
\<close>

lemma finish_batch:
  assumes "cbor_ok C" "finish sha C st s prev = Inr m"
  shows "deleted_group_ids (mu_batch m) = []" "rows_bounded (upserts (mu_batch m))"
    "storage_format_version (mu_batch m) = 1"
    "\<forall>e \<in> set (upserts (mu_batch m)). row_scoped (Some (lg_group_id s)) e"
proof -
  from assms have b: "batch_from_provider (write_opaque (key (lg_group_id s) ''state/'') (encode_fields C s) st)
      (Some (group_id (lg_current s))) [] = Inr (mu_batch m)" and bb: "bounded_batch (mu_batch m) = Inr ()"
    and ok: "local_ok sha s"
    by (simp_all add: finish_Inr_iff Let_def)
  from bb show "deleted_group_ids (mu_batch m) = []" "rows_bounded (upserts (mu_batch m))"
    by (auto simp: bounded_batch_def bindE_Inr_iff entry_bytes_Inr_iff rows_bounded_def if_Inl_Inr_iff)
  from b show "storage_format_version (mu_batch m) = 1"
    by (cases "mu_batch m")
      (auto simp: batch_from_provider_def batch_from_updates_Some MLS_STORAGE_FORMAT_VERSION_def)
  from b ok show "\<forall>e \<in> set (upserts (mu_batch m)). row_scoped (Some (lg_group_id s)) e"
    by (cases "mu_batch m")
      (auto simp: batch_from_provider_def batch_from_updates_Some row_scoped_def local_ok_def)
qed

section \<open>Metadata rows of an opened operation\<close>

lemma metadata_ready: "metadata_rows sha C s (read_opaque st) \<Longrightarrow> rows_ready sha s st"
  by (simp add: metadata_rows_def rows_ready_def)

lemma rows_ready_exec_calls: "rows_ready sha s (exec_calls E calls st) \<longleftrightarrow> rows_ready sha s st"
  using metadata_rows_exec_calls
  by (simp add: rows_ready_def only_known_rows_def exec_calls_reserved [folded RESERVED_def])

lemma rows_ready_same:
  "lg_group_id t = lg_group_id s \<Longrightarrow> lg_pending t = lg_pending s \<Longrightarrow> rows_ready sha t st \<longleftrightarrow> rows_ready sha s st"
  by (simp add: rows_ready_def retry_hashes_def)

lemma rows_ready_cleared:
  assumes "only_known_rows (lg_group_id s) (read_opaque st)" "lg_pending s = None"
    "lg_group_id t = lg_group_id s"
  shows "rows_ready sha s (clear_retry_rows t st)"
  using assms
  by (auto simp: rows_ready_def only_known_rows_def read_clear_retry_rows retry_hashes_def wire_ok_def)

lemma rows_ready_written:
  assumes known: "only_known_rows (lg_group_id s) (read_opaque st)"
    and w: "write_retry_rows sha s c w i st = (Inr (), st1)"
  shows "rows_ready sha s st1"
proof -
  note rd = read_after_write_retry [OF w]
  from w obtain p where p: "lg_pending s = Some p"
    and st1: "st1 = fold (put_row (lg_group_id s)) (retry_wires c w i) st"
    and ok: "\<forall>((n, wire), (_, h)) \<in> set (zip (retry_wires c w i) (retry_hashes s)). wire_ok sha wire h"
    by (auto simp: write_retry_rows_ok_iff)
  have "only_known_rows (lg_group_id s) (read_opaque st1)"
    unfolding st1 by (rule only_known_put_rows [OF known]) (simp add: retry_wires_def ROW_NAMES_def)
  moreover have "\<forall>(n, h) \<in> set (retry_hashes s). wire_ok sha (read_opaque st1 (key (lg_group_id s) n)) h"
    using ok p by (auto simp: retry_hashes_def rd retry_wires_def)
  ultimately show ?thesis by (simp add: rows_ready_def)
qed

lemma on_provider_Inr_iff:
  "on_provider E e r st = Inr (a, st') \<longleftrightarrow> (\<exists>calls. r = Some (a, calls) \<and> st' = exec_calls E calls st)"
  by (auto simp: on_provider_def split: option.splits)

end
