(* ===== verification/DeltaLaws.thy ===== *)
theory DeltaLaws
  imports RosterLaws
begin

text \<open>
  \<open>validate_exact_delta\<close> against its specification \<open>exact_delta\<close>: on canonical rosters the
  check succeeds exactly when the resulting roster keeps every retained leaf unchanged and
  its other leaves carry the authorised additions, each once.
\<close>

definition added_leaves ::
  "MlsRosterLeafV1 list \<Rightarrow> MlsRosterLeafV1 list \<Rightarrow> MlsRosterLeafV1 list" where
  "added_leaves retained ls = filter (\<lambda>l. leaf_index l \<notin> leaf_index ` set retained) ls"

definition exact_delta ::
  "MlsRosterSummaryV1 \<Rightarrow> MlsRosterSummaryV1 \<Rightarrow> u32 list \<Rightarrow> RequestedAddition list \<Rightarrow> bool" where
  "exact_delta previous resulting removals additions \<longleftrightarrow>
     (let retained = retained_leaves previous removals in
      group_id resulting = group_id previous \<and>
      u64_checked_succ (epoch previous) = Some (epoch resulting) \<and>
      set retained \<subseteq> set (leaves resulting) \<and>
      mset (map leaf_authority (added_leaves retained (leaves resulting))) = mset additions)"

section \<open>The loop over the resulting leaves\<close>

lemma matching_additions_singleton:
  assumes "matching_additions adds l = [i]"
  shows "i < length adds \<and> adds ! i = leaf_authority l"
proof -
  have "i \<in> set (matching_additions adds l)" by (simp add: assms)
  then show ?thesis by (auto simp: matching_additions_def)
qed

lemma distinct_set_singleton: "distinct xs \<Longrightarrow> set xs = {i} \<Longrightarrow> xs = [i]"
  by (cases xs; cases "tl xs") auto

lemma matching_additions_distinct:
  assumes "distinct adds" "i < length adds" "adds ! i = leaf_authority l"
  shows "matching_additions adds l = [i]"
proof (rule distinct_set_singleton)
  show "distinct (matching_additions adds l)"
    by (simp add: matching_additions_def)
  show "set (matching_additions adds l) = {i}"
    using assms by (auto simp: matching_additions_def) (metis nth_eq_iff_index_eq)
qed

definition delta_matches ::
  "MlsRosterLeafV1 list \<Rightarrow> RequestedAddition list \<Rightarrow> bool list \<Rightarrow> MlsRosterLeafV1 list \<Rightarrow> bool" where
  "delta_matches retained adds matched ls \<longleftrightarrow>
     (\<forall>l \<in> set ls. leaf_index l \<in> leaf_index ` set retained \<longrightarrow> l \<in> set retained) \<and>
     (\<forall>l \<in> set (added_leaves retained ls).
        \<exists>i. matching_additions adds l = [i] \<and> \<not> matched ! i)"

definition delta_marks ::
  "MlsRosterLeafV1 list \<Rightarrow> RequestedAddition list \<Rightarrow> bool list \<Rightarrow> MlsRosterLeafV1 list \<Rightarrow> bool list" where
  "delta_marks retained adds matched ls =
     map (\<lambda>i. matched ! i \<or> (\<exists>l \<in> set (added_leaves retained ls). matching_additions adds l = [i]))
       [0..<length adds]"

lemma delta_leaf_Inr_iff:
  assumes "distinct (map leaf_index retained)"
  shows "delta_leaf retained adds matched l = Inr matched' \<longleftrightarrow>
     (if leaf_index l \<in> leaf_index ` set retained then l \<in> set retained \<and> matched' = matched
      else \<exists>i. matching_additions adds l = [i] \<and> \<not> matched ! i \<and> matched' = matched[i := True])"
proof (cases "leaf_by_index retained (leaf_index l)")
  case None
  then have "leaf_index l \<notin> leaf_index ` set retained"
    by (simp add: leaf_by_index_None_iff)
  with None show ?thesis
    by (auto simp: delta_leaf_def split: list.splits)
next
  case (Some r)
  then have "r \<in> set retained" "leaf_index r = leaf_index l"
    by (simp_all add: leaf_by_index_Some_iff [OF assms])
  moreover from this have "l \<in> set retained \<longleftrightarrow> r = l"
    using Some leaf_by_index_Some_iff [OF assms] by (metis option.inject)
  ultimately show ?thesis
    using Some by (auto simp: delta_leaf_def image_iff)
qed

lemma delta_marks_step:
  assumes "length matched = length adds" "matching_additions adds l = [i]"
    and "leaf_index l \<notin> leaf_index ` set retained"
  shows "delta_marks retained adds (matched[i := True]) ls = delta_marks retained adds matched (l # ls)"
  using assms matching_additions_singleton [OF assms(2)]
  by (auto simp: delta_marks_def added_leaves_def nth_list_update)

lemma foldE_delta_leaf:
  assumes r: "distinct (map leaf_index retained)"
    and "distinct (map leaf_authority ls)" "length matched = length adds"
  shows "foldE (delta_leaf retained adds) matched ls = Inr matched' \<longleftrightarrow>
     delta_matches retained adds matched ls \<and> matched' = delta_marks retained adds matched ls"
  using assms(2,3)
proof (induction ls arbitrary: matched)
  case Nil
  then show ?case
    using map_nth [of matched] by (auto simp: delta_matches_def delta_marks_def added_leaves_def)
next
  case (Cons l ls)
  show ?case
  proof (cases "leaf_index l \<in> leaf_index ` set retained")
    case True
    then have "added_leaves retained (l # ls) = added_leaves retained ls"
      by (simp add: added_leaves_def)
    with True Cons show ?thesis
      by (auto simp: bindE_Inr_iff delta_leaf_Inr_iff [OF r] delta_matches_def delta_marks_def)
  next
    case False
    then have add: "added_leaves retained (l # ls) = l # added_leaves retained ls"
      by (simp add: added_leaves_def)
    have other: "matching_additions adds x = [i] \<Longrightarrow> matching_additions adds l = [i] \<Longrightarrow> x \<notin> set ls" for x i
      using Cons.prems(1) by (auto dest!: matching_additions_singleton simp: image_iff)
    have "(\<forall>x \<in> set (added_leaves retained ls). \<exists>j. matching_additions adds x = [j] \<and> \<not> matched[i := True] ! j)
      \<longleftrightarrow> (\<forall>x \<in> set (added_leaves retained ls). \<exists>j. matching_additions adds x = [j] \<and> \<not> matched ! j)"
      if "matching_additions adds l = [i]" for i
    proof -
      have "x \<in> set (added_leaves retained ls) \<Longrightarrow> matching_additions adds x = [j] \<Longrightarrow> j \<noteq> i" for x j
        using other that by (auto simp: added_leaves_def)
      then show ?thesis by (metis nth_list_update_neq)
    qed
    with False add Cons show ?thesis
      by (auto simp: bindE_Inr_iff delta_leaf_Inr_iff [OF r] delta_matches_def
          delta_marks_step)
  qed
qed

section \<open>The check is exact\<close>

lemma distinct_leaf_authority: "canonical_leaves ls \<Longrightarrow> distinct (map leaf_authority ls)"
  by (auto simp: canonical_leaves_def leaf_authority_def distinct_map inj_on_def)

lemma retained_count_distinct:
  "distinct (map leaf_index r) \<Longrightarrow> retained_count r = length r"
  by (simp add: retained_count_def distinct_remdups_id)

lemma split_by_retained:
  assumes "distinct (map leaf_index ls)"
    and "\<forall>l \<in> set ls. leaf_index l \<in> leaf_index ` set retained \<longrightarrow> l \<in> set retained"
  shows "length ls = card (set ls \<inter> set retained) + length (added_leaves retained ls)"
proof -
  have "filter (\<lambda>l. leaf_index l \<in> leaf_index ` set retained) ls = filter (\<lambda>l. l \<in> set retained) ls"
    using assms(2) by (intro filter_cong) auto
  moreover have "distinct ls" using assms(1) by (simp add: distinct_map)
  then have "length (filter (\<lambda>l. l \<in> set retained) ls) = card (set ls \<inter> set retained)"
    by (simp add: distinct_length_filter Int_commute Int_def conj_commute)
  ultimately show ?thesis
    using sum_length_filter_compl [of "\<lambda>l. leaf_index l \<in> leaf_index ` set retained" ls]
    by (simp add: added_leaves_def)
qed


lemma delta_marks_all:
  assumes "i < length adds" "list_all (\<lambda>m. m) (delta_marks retained adds (replicate (length adds) False) ls)"
  shows "\<exists>l \<in> set (added_leaves retained ls). matching_additions adds l = [i]"
  using assms by (auto simp: delta_marks_def list_all_iff)

lemma delta_marks_complete:
  assumes marks: "list_all (\<lambda>m. m) (delta_marks retained adds (replicate (length adds) False) ls)"
    and m: "delta_matches retained adds (replicate (length adds) False) ls"
    and d: "distinct (map leaf_authority ls)"
  shows "mset (map leaf_authority (added_leaves retained ls)) = mset adds"
proof -
  have "distinct adds"
  proof (clarsimp simp: distinct_conv_nth)
    fix i j
    assume ij: "i < length adds" "j < length adds" "i \<noteq> j" "adds ! i = adds ! j"
    from delta_marks_all [OF ij(1) marks] obtain l where l: "matching_additions adds l = [i]"
      by blast
    with ij matching_additions_singleton [OF l] have "adds ! j = leaf_authority l" by simp
    with ij have "j \<in> set (matching_additions adds l)" by (simp add: matching_additions_def)
    with l ij show False by simp
  qed
  moreover have "set (map leaf_authority (added_leaves retained ls)) = set adds"
  proof
    show "set (map leaf_authority (added_leaves retained ls)) \<subseteq> set adds"
      using m by (auto simp: delta_matches_def) (metis matching_additions_singleton nth_mem)
    show "set adds \<subseteq> set (map leaf_authority (added_leaves retained ls))"
    proof
      fix a
      assume "a \<in> set adds"
      then obtain i where i: "i < length adds" "a = adds ! i" by (auto simp: in_set_conv_nth)
      from delta_marks_all [OF i(1) marks] i(2)
      show "a \<in> set (map leaf_authority (added_leaves retained ls))"
        using matching_additions_singleton by fastforce
    qed
  qed
  moreover have "distinct (map leaf_authority (added_leaves retained ls))"
    using d by (simp add: added_leaves_def distinct_map_filter)
  ultimately show ?thesis
    by (metis set_eq_iff_mset_eq_distinct)
qed

lemma delta_complete:
  assumes mm: "mset (map leaf_authority (added_leaves retained ls)) = mset adds"
    and d: "distinct (map leaf_authority ls)"
    and ix: "distinct (map leaf_index ls)" and sub: "set retained \<subseteq> set ls"
  shows "delta_matches retained adds (replicate (length adds) False) ls"
    and "list_all (\<lambda>m. m) (delta_marks retained adds (replicate (length adds) False) ls)"
proof -
  have "distinct (map leaf_authority (added_leaves retained ls))"
    using d by (simp add: added_leaves_def distinct_map_filter)
  with mm have da: "distinct adds"
    by (metis mset_eq_imp_distinct_iff)
  have sets: "set adds = leaf_authority ` set (added_leaves retained ls)"
    using mm by (metis set_mset_mset set_map)
  have hit: "matching_additions adds l = [i]"
    if "i < length adds" "adds ! i = leaf_authority l" for i l
    using matching_additions_distinct [OF da that] .
  have keep: "l \<in> set retained" if "l \<in> set ls" "leaf_index l \<in> leaf_index ` set retained" for l
    using that ix sub by (auto simp: distinct_map inj_on_def)
  show "delta_matches retained adds (replicate (length adds) False) ls"
    unfolding delta_matches_def
  proof (intro conjI ballI impI)
    fix l assume "l \<in> set (added_leaves retained ls)"
    with sets have "leaf_authority l \<in> set adds" by blast
    then obtain i where "i < length adds" "adds ! i = leaf_authority l"
      by (auto simp: in_set_conv_nth)
    with hit show "\<exists>i. matching_additions adds l = [i] \<and> \<not> replicate (length adds) False ! i"
      by auto
  qed (use keep in blast)
  show "list_all (\<lambda>m. m) (delta_marks retained adds (replicate (length adds) False) ls)"
    unfolding delta_marks_def list_all_iff
  proof (clarsimp)
    fix i assume i: "i < length adds"
    then have "adds ! i \<in> leaf_authority ` set (added_leaves retained ls)"
      using sets nth_mem by blast
    with hit i show "\<exists>l \<in> set (added_leaves retained ls). matching_additions adds l = [i]"
      by (metis imageE)
  qed
qed

lemma retained_all_present:
  assumes "distinct (map leaf_index ls)" "distinct (map leaf_index retained)"
    and "\<forall>l \<in> set ls. leaf_index l \<in> leaf_index ` set retained \<longrightarrow> l \<in> set retained"
    and "length ls = length retained + length (added_leaves retained ls)"
  shows "set retained \<subseteq> set ls"
proof -
  have "card (set ls \<inter> set retained) = length retained"
    using split_by_retained [OF assms(1,3)] assms(4) by simp
  moreover have "card (set retained) = length retained"
    using assms(2) by (simp add: distinct_card distinct_map)
  ultimately have "set ls \<inter> set retained = set retained"
    by (intro card_subset_eq) auto
  then show ?thesis by blast
qed

lemma retained_distinct:
  "canonical_leaves (leaves previous) \<Longrightarrow> distinct (map leaf_index (retained_leaves previous removals))"
  by (simp add: retained_leaves_def distinct_map_filter canonical_distinct_index)

lemma validate_exact_delta_unfold:
  assumes "canonical_leaves (leaves previous)" "canonical_leaves (leaves resulting)"
  shows "validate_exact_delta previous resulting removals adds = Inr () \<longleftrightarrow>
    (let retained = retained_leaves previous removals; ls = leaves resulting;
         no = replicate (length adds) False in
     group_id resulting = group_id previous \<and>
     u64_checked_succ (epoch previous) = Some (epoch resulting) \<and>
     delta_matches retained adds no ls \<and>
     length retained + length adds < 2 ^ 64 \<and>
     length ls = length retained + length adds \<and>
     list_all (\<lambda>m. m) (delta_marks retained adds no ls))"
  using foldE_delta_leaf [OF retained_distinct [OF assms(1)] distinct_leaf_authority [OF assms(2)]]
  by (auto simp: validate_exact_delta_def Let_def bindE_Inr_iff ok_or_Inr_iff usize_checked_add_def
      retained_count_distinct [OF retained_distinct [OF assms(1)]] list_ex_iff list_all_iff)

lemma validate_exact_delta_Inr_iff:
  assumes p: "canonical_leaves (leaves previous)" and r: "canonical_leaves (leaves resulting)"
    and fits: "length (leaves resulting) < 2 ^ 64"
  shows "validate_exact_delta previous resulting removals adds = Inr () \<longleftrightarrow>
    exact_delta previous resulting removals adds"
proof -
  define rt where "rt = retained_leaves previous removals"
  define ls where "ls = leaves resulting"
  define no where "no = replicate (length adds) False"
  note d = distinct_leaf_authority [OF r, folded ls_def]
  note ix = canonical_distinct_index [OF r, folded ls_def]
  note rx = retained_distinct [OF p, of removals, folded rt_def]
  have "delta_matches rt adds no ls \<and> length rt + length adds < 2 ^ 64 \<and>
      length ls = length rt + length adds \<and> list_all (\<lambda>m. m) (delta_marks rt adds no ls)
    \<longleftrightarrow> set rt \<subseteq> set ls \<and> mset (map leaf_authority (added_leaves rt ls)) = mset adds"
    (is "?L \<longleftrightarrow> ?R")
  proof
    assume L: ?L
    then have m: "mset (map leaf_authority (added_leaves rt ls)) = mset adds"
      using delta_marks_complete d by (simp add: no_def)
    then have "length (added_leaves rt ls) = length adds"
      by (metis size_mset length_map)
    moreover from L have "\<forall>l \<in> set ls. leaf_index l \<in> leaf_index ` set rt \<longrightarrow> l \<in> set rt"
      by (simp add: delta_matches_def)
    ultimately show ?R
      using m L retained_all_present [OF ix rx] by simp
  next
    assume R: ?R
    then have "delta_matches rt adds no ls" "list_all (\<lambda>m. m) (delta_marks rt adds no ls)"
      using delta_complete d ix by (simp_all add: no_def)
    moreover have "length ls = length rt + length adds"
    proof -
      from R have "length (added_leaves rt ls) = length adds"
        by (metis size_mset length_map)
      moreover from R have "card (set ls \<inter> set rt) = length rt"
        using rx by (simp add: Int_absorb1 distinct_card distinct_map)
      ultimately show ?thesis
        using split_by_retained [OF ix, of rt] \<open>delta_matches rt adds no ls\<close>
        by (simp add: delta_matches_def)
    qed
    ultimately show ?L using fits by (simp add: ls_def)
  qed
  then show ?thesis
    by (simp add: validate_exact_delta_unfold [OF p r] exact_delta_def Let_def rt_def ls_def no_def)
qed

section \<open>Removals\<close>

definition removal_authorised :: "MlsRosterSummaryV1 \<Rightarrow> MlsAuthorizedRemovalV1 \<Rightarrow> bool" where
  "removal_authorised previous r \<longleftrightarrow>
     \<lparr>leaf_index = rm_leaf_index r, credential_identity = rm_expected_credential_identity r,
      signature_public_key = rm_expected_signature_public_key r\<rparr> \<in> set (leaves previous)"

lemma validate_removal_Inr_iff:
  assumes "canonical_leaves (leaves previous)"
  shows "validate_removal previous seen r = Inr seen' \<longleftrightarrow>
    rm_leaf_index r \<notin> set seen \<and> removal_authorised previous r \<and> seen' = rm_leaf_index r # seen"
proof -
  note look = leaf_by_index_Some_iff [OF canonical_distinct_index [OF assms]]
  show ?thesis
  proof (cases "leaf_by_index (leaves previous) (rm_leaf_index r)")
    case None
    then have "\<not> removal_authorised previous r"
      by (auto simp: removal_authorised_def leaf_by_index_None_iff image_iff)
    with None show ?thesis by (simp add: validate_removal_def)
  next
    case (Some l)
    then have l: "l \<in> set (leaves previous)" "leaf_index l = rm_leaf_index r"
      by (simp_all add: look)
    have "removal_authorised previous r \<longleftrightarrow>
        credential_identity l = rm_expected_credential_identity r \<and>
        signature_public_key l = rm_expected_signature_public_key r"
    proof
      assume "removal_authorised previous r"
      with Some look show "credential_identity l = rm_expected_credential_identity r \<and>
        signature_public_key l = rm_expected_signature_public_key r"
        unfolding removal_authorised_def
        by (metis MlsRosterLeafV1.select_convs option.inject)
    next
      assume "credential_identity l = rm_expected_credential_identity r \<and>
        signature_public_key l = rm_expected_signature_public_key r"
      then have "l = \<lparr>leaf_index = rm_leaf_index r,
          credential_identity = rm_expected_credential_identity r,
          signature_public_key = rm_expected_signature_public_key r\<rparr>"
        using l(2) by (intro MlsRosterLeafV1.equality) simp_all
      with l(1) show "removal_authorised previous r"
        by (simp add: removal_authorised_def)
    qed
    with Some show ?thesis by (auto simp: validate_removal_def)
  qed
qed

lemma foldE_validate_removal:
  assumes "canonical_leaves (leaves previous)"
  shows "foldE (validate_removal previous) seen rs = Inr ix \<longleftrightarrow>
    (\<forall>r \<in> set rs. removal_authorised previous r) \<and> distinct (map rm_leaf_index rs) \<and>
    set (map rm_leaf_index rs) \<inter> set seen = {} \<and> ix = rev (map rm_leaf_index rs) @ seen"
  by (induction rs arbitrary: seen)
    (auto simp: bindE_Inr_iff validate_removal_Inr_iff [OF assms])

lemma validate_removals_Inr_iff:
  assumes "canonical_leaves (leaves previous)"
  shows "validate_removals previous rs = Inr ix \<longleftrightarrow>
    (\<forall>r \<in> set rs. removal_authorised previous r) \<and> distinct (map rm_leaf_index rs) \<and>
    ix = rev (map rm_leaf_index rs)"
  by (simp add: validate_removals_def foldE_validate_removal [OF assms])

end
