(* ===== verification/Lifecycle.thy ===== *)
theory Lifecycle
  imports RuntimeLaws Receive DeltaLaws
begin

text \<open>
  What each successful lifecycle operation did: the conditions it checked, the local state it
  reports, and that its mutation is \<open>committed\<close> on the caller's rows.
\<close>

named_theorems success_simps \<open>taking a successful result apart\<close>

lemmas [success_simps] = bindE_Inr_iff map_err_Inr_iff ok_or_Inr_iff if_Inl_Inr_iff
  small_checks bounded_entries_Inr_iff check_state_Inr_iff on_provider_Inr_iff

section \<open>The provider of an opened operation\<close>

lemma opened_provider:
  assumes "opened sha C E M cx L"
  shows "opened_on (cx_entries cx) (lg_group_id (ld_local L)) (ld_provider L)"
    and "read_opaque (ld_provider L) = row_of (cx_entries cx)"
    and "rows_ready sha (ld_local L) (ld_provider L)"
    and "only_known_rows (lg_group_id (ld_local L)) (read_opaque (ld_provider L))"
proof -
  from assms have p: "provider_from_entries (cx_entries cx) 1 (Some (cx_group_id cx)) = Inr (ld_provider L)"
    and g: "lg_group_id (ld_local L) = cx_group_id cx"
    and meta: "metadata_rows sha C (ld_local L) (row_of (cx_entries cx))"
    by (simp_all add: opened_def)
  show "opened_on (cx_entries cx) (lg_group_id (ld_local L)) (ld_provider L)"
    using opened_on_fresh [OF p] g by simp
  show rd: "read_opaque (ld_provider L) = row_of (cx_entries cx)" by (rule row_of_opened(1) [OF p])
  show "rows_ready sha (ld_local L) (ld_provider L)"
    using meta rd by (intro metadata_ready) simp
  then show "only_known_rows (lg_group_id (ld_local L)) (read_opaque (ld_provider L))"
    by (simp add: rows_ready_def)
qed

lemma opened_local_ok: "opened sha C E M cx L \<Longrightarrow> local_ok sha (ld_local L)"
  by (simp add: opened_def)

text \<open>OpenMLS rows after an operation: the package's writes do not touch them.\<close>

definition same_openmls_rows :: "(bytes \<Rightarrow> bytes option) \<Rightarrow> (bytes \<Rightarrow> bytes option) \<Rightarrow> bool" where
  "same_openmls_rows a b \<longleftrightarrow> (\<forall>k. \<not> starts_with k RESERVED \<longrightarrow> a k = b k)"

lemma finish_row_of:
  assumes C: "cbor_ok C" and op: "opened_on entries (lg_group_id s) st"
    and fin: "finish sha C st s prev = Inr m"
  shows "row_of (apply_batch (mu_batch m) entries)
    = read_opaque (write_opaque (key (lg_group_id s) ''state/'') (encode_fields C s) st)"
proof -
  define g where "g = lg_group_id s"
  define st' where "st' = write_opaque (key g ''state/'') (encode_fields C s) st"
  from fin have ok: "local_ok sha s"
    and b: "batch_from_provider st' (Some (group_id (lg_current s))) [] = Inr (mu_batch m)"
    by (simp_all add: finish_Inr_iff [OF C] Let_def g_def st'_def)
  from ok have gid: "group_id (lg_current s) = g" by (simp add: local_ok_def g_def)
  from op obtain s0 where s0: "provider_from_entries entries 1 (Some g) = Inr s0"
    and st: "snapshot_ok st'" "sp_initial st' = sp_initial s0"
    by (auto simp: opened_on_def g_def st'_def)
  note ap = apply_batch_gives_current [OF st(1) s0 st(2) b [unfolded gid]]
  show ?thesis
    using row_of_cong [OF ap(1) ap(2) distinct_snapshot_entries [OF st(1), of g]]
    by (simp add: row_of_snapshot_entries flip: g_def st'_def)
qed

lemma finish_rows:
  assumes "cbor_ok C" "opened_on entries (lg_group_id s) st" "finish sha C st s prev = Inr m"
  shows "same_openmls_rows (row_of (apply_batch (mu_batch m) entries)) (read_opaque st)"
  unfolding finish_row_of [OF assms] by (auto simp: same_openmls_rows_def snapshot_kv.rd_wr)

lemma read_opaque_put_row_unreserved:
  "\<not> starts_with k RESERVED \<Longrightarrow> read_opaque (fold (put_row g) nws st) k = read_opaque st k"
  by (induction nws arbitrary: st)
    (auto simp: put_row_def snapshot_kv.rd_wr snapshot_kv.rd_del split: option.splits)

lemma read_opaque_clear_unreserved:
  "\<not> starts_with k RESERVED \<Longrightarrow> read_opaque (clear_retry_rows s st) k = read_opaque st k"
  by (auto simp: read_clear_retry_rows)

section \<open>Sending\<close>

lemma send_Inr:
  assumes C: "cbor_ok C" and ok: "send sha C E M cx signer_bytes plaintext aad = Inr r"
  obtains L signer g calls where
    "opened sha C E M cx L" "om_is_active M (ld_group L)" "lg_pending (ld_local L) = None"
    "om_create_message M signer plaintext (om_set_aad M aad (ld_group L)) (ld_provider L)
       = Some ((Some (sn_ciphertext r), g), calls)"
    "finish sha C (exec_calls E calls (ld_provider L)) (ld_local L) (lg_current (ld_local L))
       = Inr (sn_mutation r)"
    "committed sha C (cx_entries cx) (ld_local L) (sn_mutation r)"
    "mu_previous (sn_mutation r) = lg_current (ld_local L)"
proof -
  from ok obtain L signer g calls where o: "opened sha C E M cx L"
    and *: "om_is_active M (ld_group L)" "lg_pending (ld_local L) = None"
    "om_create_message M signer plaintext (om_set_aad M aad (ld_group L)) (ld_provider L)
       = Some ((Some (sn_ciphertext r), g), calls)"
    and fin: "finish sha C (exec_calls E calls (ld_provider L)) (ld_local L) (lg_current (ld_local L))
       = Inr (sn_mutation r)"
    by (auto simp: send_def Let_def serialized_def load_Inr_iff [OF C] success_simps)
  have "committed sha C (cx_entries cx) (ld_local L) (sn_mutation r) \<and>
      mu_previous (sn_mutation r) = lg_current (ld_local L)"
    using opened_provider [OF o]
    by (intro finish_committed [OF C _ _ fin]) (simp_all add: opened_on_exec_calls rows_ready_exec_calls)
  with o * fin that show thesis by blast
qed

section \<open>Settling\<close>

lemma merge_Inr:
  assumes C: "cbor_ok C" and ok: "merge sha C E M cx acceptance = Inr m"
  obtains L p g calls where
    "opened sha C E M cx L" "om_is_active M (ld_group L)" "lg_pending (ld_local L) = Some p"
    "acceptance = \<lparr>ac_binding = binding p, ac_resulting_state = expected (proposed_roster p),
       ac_preparation_base_group_state_sha256 = preparation_base_sha256 p\<rparr>"
    "om_own_leaf_index M (ld_group L) = leaf_index (pb_author (binding p))"
    "om_merge_pending_commit M (ld_group L) (ld_provider L) = Some (g, calls)"
    "roster_from_group sha M g = Inr (proposed_roster p)"
    "finish sha C (clear_retry_rows (advanced (ld_local L) (proposed_roster p))
       (exec_calls E calls (ld_provider L))) (advanced (ld_local L) (proposed_roster p))
       (lg_current (ld_local L)) = Inr m"
    "committed sha C (cx_entries cx) (advanced (ld_local L) (proposed_roster p)) m"
    "mu_previous m = lg_current (ld_local L)"
    "advance sha (ld_local L) (proposed_roster p) = Inr (advanced (ld_local L) (proposed_roster p))"
proof -
  from ok obtain L p g calls where o: "opened sha C E M cx L"
    and *: "om_is_active M (ld_group L)" "lg_pending (ld_local L) = Some p"
    "ac_binding acceptance = binding p" "ac_resulting_state acceptance = expected (proposed_roster p)"
    "ac_preparation_base_group_state_sha256 acceptance = preparation_base_sha256 p"
    "om_own_leaf_index M (ld_group L) = leaf_index (pb_author (binding p))"
    "om_merge_pending_commit M (ld_group L) (ld_provider L) = Some (g, calls)"
    "roster_from_group sha M g = Inr (proposed_roster p)"
    and adv: "advance sha (ld_local L) (proposed_roster p) = Inr (advanced (ld_local L) (proposed_roster p))"
    and fin: "finish sha C (clear_retry_rows (advanced (ld_local L) (proposed_roster p))
       (exec_calls E calls (ld_provider L))) (advanced (ld_local L) (proposed_roster p))
       (lg_current (ld_local L)) = Inr m"
    by (auto simp: merge_def Let_def load_Inr_iff [OF C] success_simps advance_Inr_iff)
  define s where "s = advanced (ld_local L) (proposed_roster p)"
  have s: "lg_group_id s = lg_group_id (ld_local L)" "lg_pending s = None"
    by (simp_all add: s_def advanced_def)
  have "rows_ready sha s (clear_retry_rows s (exec_calls E calls (ld_provider L)))"
    using opened_provider(4) [OF o] s opened_provider(3) [OF o]
    by (intro rows_ready_cleared)
      (simp_all add: only_known_rows_def exec_calls_reserved [folded RESERVED_def])
  then have "committed sha C (cx_entries cx) s m \<and> mu_previous m = lg_current (ld_local L)"
    using opened_provider(1) [OF o] s fin
    by (intro finish_committed [OF C, of _ _ "clear_retry_rows s (exec_calls E calls (ld_provider L))"])
      (simp_all add: opened_on_clear opened_on_exec_calls s_def)
  moreover have "acceptance = \<lparr>ac_binding = binding p, ac_resulting_state = expected (proposed_roster p),
       ac_preparation_base_group_state_sha256 = preparation_base_sha256 p\<rparr>"
    using *(3-5) by (intro MlsCommitAcceptance.equality) simp_all
  ultimately show thesis
    using that o * adv fin by (simp add: s_def)
qed

lemma discard_Inr:
  assumes C: "cbor_ok C" and ok: "discard sha C E M cx b = Inr m"
  obtains L p g calls where
    "opened sha C E M cx L" "om_is_active M (ld_group L)" "lg_pending (ld_local L) = Some p"
    "b = binding p"
    "om_clear_pending_commit M (ld_group L) (ld_provider L) = Some (g, calls)"
    "finish sha C (clear_retry_rows ((ld_local L)\<lparr>lg_pending := None\<rparr>)
       (exec_calls E calls (ld_provider L))) ((ld_local L)\<lparr>lg_pending := None\<rparr>)
       (lg_current (ld_local L)) = Inr m"
    "committed sha C (cx_entries cx) ((ld_local L)\<lparr>lg_pending := None\<rparr>) m"
    "mu_previous m = lg_current (ld_local L)"
proof -
  from ok obtain L p g calls where o: "opened sha C E M cx L"
    and *: "om_is_active M (ld_group L)" "lg_pending (ld_local L) = Some p" "b = binding p"
    "om_clear_pending_commit M (ld_group L) (ld_provider L) = Some (g, calls)"
    and fin: "finish sha C (clear_retry_rows ((ld_local L)\<lparr>lg_pending := None\<rparr>)
       (exec_calls E calls (ld_provider L))) ((ld_local L)\<lparr>lg_pending := None\<rparr>)
       (lg_current (ld_local L)) = Inr m"
    by (auto simp: discard_def Let_def load_Inr_iff [OF C] success_simps)
  define s where "s = (ld_local L)\<lparr>lg_pending := None\<rparr>"
  have s: "lg_group_id s = lg_group_id (ld_local L)" "lg_pending s = None"
    by (simp_all add: s_def)
  have "rows_ready sha s (clear_retry_rows s (exec_calls E calls (ld_provider L)))"
    using opened_provider(4) [OF o] s
    by (intro rows_ready_cleared)
      (simp_all add: only_known_rows_def exec_calls_reserved [folded RESERVED_def])
  then have "committed sha C (cx_entries cx) s m \<and> mu_previous m = lg_current (ld_local L)"
    using opened_provider(1) [OF o] s fin
    by (intro finish_committed [OF C, of _ _ "clear_retry_rows s (exec_calls E calls (ld_provider L))"])
      (simp_all add: opened_on_clear opened_on_exec_calls s_def)
  then show thesis
    using that o * fin by (simp add: s_def)
qed


lemma inspect_pending_Inr:
  assumes C: "cbor_ok C" and ok: "inspect_pending sha C E M cx = Inr (Some r)"
  obtains L p where
    "opened sha C E M cx L" "lg_pending (ld_local L) = Some p" "pp_binding r = binding p"
    "pp_proposed r = proposed_roster p" "pp_preparation_base r = preparation_base_sha256 p"
    "row_of (cx_entries cx) (key (cx_group_id cx) ''commit/'') = Some (pp_commit r)"
    "row_of (cx_entries cx) (key (cx_group_id cx) ''welcome/'') = pp_welcome r"
    "row_of (cx_entries cx) (key (cx_group_id cx) ''info/'') = pp_group_info r"
    "mu_batch (pp_mutation r) = \<lparr>upserts = [], deletes = [], deleted_group_ids = [],
       storage_format_version = 1\<rparr>"
proof -
  from ok obtain L p c w i where o: "opened sha C E M cx L" and p: "lg_pending (ld_local L) = Some p"
    and rb: "retry_bytes sha (ld_local L) (ld_provider L) = Inr (c, w, i)"
    and r: "r = \<lparr>pp_binding = binding p, pp_proposed = proposed_roster p,
           pp_commit = c, pp_welcome = w, pp_group_info = i,
           pp_preparation_base = preparation_base_sha256 p,
           pp_mutation = \<lparr>mu_previous = lg_current (ld_local L), mu_resulting = lg_current (ld_local L),
             mu_resulting_digest = ld_base L, mu_retention = lg_retention (ld_local L),
             mu_batch = \<lparr>upserts = [], deletes = [], deleted_group_ids = [],
               storage_format_version = 1\<rparr>\<rparr>\<rparr>"
    by (auto simp: inspect_pending_def Let_def load_Inr_iff [OF C] success_simps split: option.splits)
  have g: "lg_group_id (ld_local L) = cx_group_id cx" using o by (simp add: opened_def)
  from rb have "row_of (cx_entries cx) (key (cx_group_id cx) ''commit/'') = Some c"
    "row_of (cx_entries cx) (key (cx_group_id cx) ''welcome/'') = w"
    "row_of (cx_entries cx) (key (cx_group_id cx) ''info/'') = i"
    using opened_provider(2) [OF o] g
    by (auto simp: retry_bytes_def success_simps)
  with o p r that show thesis by simp
qed

section \<open>Preparing\<close>

lemma stage_change_Inr:
  assumes "stage_change E M signer previous keys ix self g st = Inr ((bd, g'), st')"
  obtains calls where "st' = exec_calls E calls st"
    "(self = None \<and> om_commit_members M signer keys (sort ix) g st = Some ((bd, g'), calls) \<and>
       (keys \<noteq> [] \<or> ix \<noteq> [])) \<or>
     (\<exists>ex. self = Some ex \<and> keys = [] \<and> ix = [] \<and>
       validate_self_authority (om_own_leaf_index M g) previous ex = Inr () \<and>
       om_commit_self_update M signer g st = Some ((bd, g'), calls))"
  using assms
  by (auto simp: stage_change_def success_simps split: option.splits)

lemma preview_roster_Inr:
  assumes ok: "preview_roster sha M gid st = Inr r" and st: "snapshot_ok st"
  obtains pv g0 g1 calls where "read_opaque pv = read_opaque st"
    "om_load M gid pv = Some g0" "om_merge_pending_commit M g0 pv = Some (g1, calls)"
    "roster_from_group sha M g1 = Inr r"
proof -
  from ok obtain pv g0 g1 calls where
    p: "provider_from_entries (snapshot_entries st gid) 1 (Some gid) = Inr pv"
    and "om_load M gid pv = Some g0" "om_merge_pending_commit M g0 pv = Some (g1, calls)"
    "roster_from_group sha M g1 = Inr r"
    by (auto simp: preview_roster_def load_group_def success_simps)
  moreover have "read_opaque pv = read_opaque st"
    using row_of_opened(1) [OF p] by (simp add: row_of_snapshot_entries)
  ultimately show thesis using that by blast
qed

text \<open>The change a preparation was authorised to make to the roster.\<close>

definition authorised_change ::
  "MlsRosterSummaryV1 \<Rightarrow> MlsRosterSummaryV1 \<Rightarrow> MlsAuthorizedKeyPackageV1 list
   \<Rightarrow> MlsAuthorizedRemovalV1 list \<Rightarrow> MlsAuthorizedSelfV1 option \<Rightarrow> bool" where
  "authorised_change previous proposed additions removals self \<longleftrightarrow>
     (case self of
        Some _ \<Rightarrow> leaves proposed = leaves previous \<and>
          u64_checked_succ (epoch previous) = Some (epoch proposed)
      | None \<Rightarrow> (\<forall>r \<in> set removals. removal_authorised previous r) \<and>
          distinct (map rm_leaf_index removals) \<and>
          exact_delta previous proposed (map rm_leaf_index removals)
            (map (\<lambda>a. (kp_expected_credential_identity a, kp_expected_signature_public_key a)) additions))"

lemma exact_delta_set_removals:
  "set a = set b \<Longrightarrow> exact_delta p r a adds \<longleftrightarrow> exact_delta p r b adds"
  by (simp add: exact_delta_def retained_leaves_def)

lemma validate_additions_requested:
  assumes "validate_additions M additions previous ix = Inr (keys, requested)"
  shows "requested = map (\<lambda>a. (kp_expected_credential_identity a, kp_expected_signature_public_key a)) additions"
    and "length keys = length additions"
proof -
  have "foldE (validate_addition M) s as = Inr s' \<Longrightarrow>
      as_requested s' = as_requested s
        @ map (\<lambda>a. (kp_expected_credential_identity a, kp_expected_signature_public_key a)) as
      \<and> length (as_key_packages s') = length (as_key_packages s) + length as" for as s s'
    by (induction as arbitrary: s)
      (auto simp: bindE_Inr_iff validate_addition_def ok_or_Inr_iff if_Inl_Inr_iff split: if_splits)
  with assms show "requested = map (\<lambda>a. (kp_expected_credential_identity a, kp_expected_signature_public_key a)) additions"
    "length keys = length additions"
    by (fastforce simp: validate_additions_def Let_def bindE_Inr_iff)+
qed

definition prepared_local :: "LocalGroupState \<Rightarrow> Prepared \<Rightarrow> bytes \<Rightarrow> LocalGroupState" where
  "prepared_local s r up = s\<lparr>lg_pending := Some \<lparr>binding = pp_binding r,
     proposed_roster = pp_proposed r, preparation_base_sha256 = pp_preparation_base r,
     upstream_pending_sha256 = up\<rparr>\<rparr>"

lemma prepare_record_Inr:
  assumes "prepare_record sha C E base local previous transition author aad bd gid st proposed = Inr r"
  obtains up st2 where
    "pending_state_sha256 sha E gid st = Inr up" "pp_proposed r = proposed"
    "pp_preparation_base r = base"
    "pp_binding r = \<lparr>pb_group_id = group_id previous, pb_incarnation_id = lg_incarnation_id local,
       pb_transition = transition, pb_author = author, pb_previous_state = expected previous,
       pb_commit_sha256 = sha (pp_commit r), pb_aad_sha256 = sha aad,
       pb_welcome_sha256 = map_option sha (pp_welcome r),
       pb_group_info_sha256 = map_option sha (pp_group_info r)\<rparr>"
    "write_retry_rows sha (prepared_local local r up) (pp_commit r) (pp_welcome r)
       (pp_group_info r) st = (Inr (), st2)"
    "finish sha C st2 (prepared_local local r up) previous = Inr (pp_mutation r)"
proof -
  define bnd where "bnd c w i = \<lparr>pb_group_id = group_id previous,
     pb_incarnation_id = lg_incarnation_id local, pb_transition = transition, pb_author = author,
     pb_previous_state = expected previous, pb_commit_sha256 = sha c, pb_aad_sha256 = sha aad,
     pb_welcome_sha256 = map_option sha w, pb_group_info_sha256 = map_option sha i\<rparr>" for c w i
  define loc where "loc c w i up = local\<lparr>lg_pending := Some \<lparr>binding = bnd c w i,
     proposed_roster = proposed, preparation_base_sha256 = base,
     upstream_pending_sha256 = up\<rparr>\<rparr>" for c w i up
  from assms obtain c w i up where up: "pending_state_sha256 sha E gid st = Inr up"
    and tail: "(case write_retry_rows sha (loc c w i up) c w i st of
        (Inl e, _) \<Rightarrow> Inl e
      | (Inr _, provider) \<Rightarrow> bindE (finish sha C provider (loc c w i up) previous) (\<lambda>m.
          Inr \<lparr>pp_binding = bnd c w i, pp_proposed = proposed, pp_commit = c, pp_welcome = w,
            pp_group_info = i, pp_preparation_base = base, pp_mutation = m\<rparr>)) = Inr r"
    unfolding prepare_record_def Let_def bindE_Inr_iff map_err_Inr_iff loc_def bnd_def by blast
  obtain res st2 where res: "write_retry_rows sha (loc c w i up) c w i st = (res, st2)"
    by (cases "write_retry_rows sha (loc c w i up) c w i st")
  with tail have res0: "res = Inr ()" by (cases res) simp_all
  with tail res obtain m where m: "finish sha C st2 (loc c w i up) previous = Inr m"
    and r: "r = \<lparr>pp_binding = bnd c w i, pp_proposed = proposed, pp_commit = c, pp_welcome = w,
            pp_group_info = i, pp_preparation_base = base, pp_mutation = m\<rparr>"
    by (auto simp: bindE_Inr_iff)
  have "prepared_local local r up = loc c w i up"
    by (simp add: prepared_local_def loc_def r)
  then show thesis
    by (intro that [OF up]) (use res res0 m r in \<open>simp_all add: bnd_def\<close>)
qed

lemma prepare_change_Inr:
  assumes "prepare_change sha C E M L signer transition additions removals aad self = Inr r"
    and canon: "canonical_leaves (leaves (lg_current (ld_local L)))"
    and ok: "snapshot_ok (ld_provider L)"
  obtains keys ix bd g calls where
    "find (\<lambda>l. leaf_index l = om_own_leaf_index M (ld_group L)) (leaves (lg_current (ld_local L)))
       = Some (pb_author (pp_binding r))"
    "stage_change E M signer (lg_current (ld_local L)) keys ix self
       (om_set_aad M aad (ld_group L)) (ld_provider L) = Inr ((bd, g), exec_calls E calls (ld_provider L))"
    "preview_roster sha M (group_id (lg_current (ld_local L))) (exec_calls E calls (ld_provider L))
       = Inr (pp_proposed r)"
    "authorised_change (lg_current (ld_local L)) (pp_proposed r) additions removals self"
    "prepare_record sha C E (ld_base L) (ld_local L) (lg_current (ld_local L)) transition
       (pb_author (pp_binding r)) aad bd (om_group_id M g) (exec_calls E calls (ld_provider L))
       (pp_proposed r) = Inr r"
proof -
  from assms(1) obtain author ix keys requested bd g st proposed where
    author: "find (\<lambda>l. leaf_index l = om_own_leaf_index M (ld_group L))
      (leaves (lg_current (ld_local L))) = Some author"
    and rem: "validate_removals (lg_current (ld_local L)) removals = Inr ix"
    and adds: "validate_additions M additions (lg_current (ld_local L)) ix = Inr (keys, requested)"
    and stage: "stage_change E M signer (lg_current (ld_local L)) keys ix self
       (om_set_aad M aad (ld_group L)) (ld_provider L) = Inr ((bd, g), st)"
    and prev: "preview_roster sha M (group_id (lg_current (ld_local L))) st = Inr proposed"
    and delta: "(if self \<noteq> None
            then (if leaves proposed \<noteq> leaves (lg_current (ld_local L))
                     \<or> u64_checked_succ (epoch (lg_current (ld_local L))) \<noteq> Some (epoch proposed)
                  then Inl ResultingRosterMismatch else Inr ())
            else map_err (\<lambda>_. ResultingRosterMismatch)
                   (validate_exact_delta (lg_current (ld_local L)) proposed ix requested)) = Inr ()"
    and rc: "prepare_record sha C E (ld_base L) (ld_local L) (lg_current (ld_local L)) transition
       author aad bd (om_group_id M g) st proposed = Inr r"
    unfolding prepare_change_def Let_def bindE_Inr_iff map_err_Inr_iff ok_or_Inr_iff
    by (auto simp: bindE_Inr_iff simp del: not_None_eq)
  from stage_change_Inr [OF stage] obtain calls where st: "st = exec_calls E calls (ld_provider L)"
    by blast
  from rc have r: "pp_proposed r = proposed" "pb_author (pp_binding r) = author"
    by (auto elim: prepare_record_Inr)
  obtain pv g1 where "roster_from_group sha M g1 = Inr proposed"
    using prev ok by (auto simp: st elim: preview_roster_Inr)
  note pr = roster_from_group_Inr [OF this]
  have "authorised_change (lg_current (ld_local L)) proposed additions removals self"
  proof (cases self)
    case (Some ex)
    with delta show ?thesis by (simp add: authorised_change_def if_Inl_Inr_iff)
  next
    case None
    with delta have d: "validate_exact_delta (lg_current (ld_local L)) proposed ix requested = Inr ()"
      by (simp add: map_err_Inr_iff)
    have "exact_delta (lg_current (ld_local L)) proposed ix requested"
      using d validate_exact_delta_Inr_iff [OF canon pr(3)] pr(5) by simp
    moreover from rem have "\<forall>r \<in> set removals. removal_authorised (lg_current (ld_local L)) r"
      "distinct (map rm_leaf_index removals)" "set ix = set (map rm_leaf_index removals)"
      by (auto simp: validate_removals_Inr_iff [OF canon])
    ultimately show ?thesis
      using None validate_additions_requested(1) [OF adds]
      by (simp add: authorised_change_def exact_delta_set_removals [of ix "map rm_leaf_index removals"])
  qed
  with that author stage prev rc st r show thesis by blast
qed

lemma prepare_Inr:
  assumes C: "cbor_ok C"
    and ok: "prepare sha C E M cx signer_bytes transition additions removals aad self = Inr r"
  obtains L signer keys ix bd g calls up st2 where
    "opened sha C E M cx L" "om_is_active M (ld_group L)" "lg_pending (ld_local L) = None"
    "find (\<lambda>l. leaf_index l = om_own_leaf_index M (ld_group L)) (leaves (lg_current (ld_local L)))
       = Some (pb_author (pp_binding r))"
    "stage_change E M signer (lg_current (ld_local L)) keys ix self
       (om_set_aad M aad (ld_group L)) (ld_provider L) = Inr ((bd, g), exec_calls E calls (ld_provider L))"
    "preview_roster sha M (cx_group_id cx) (exec_calls E calls (ld_provider L)) = Inr (pp_proposed r)"
    "authorised_change (lg_current (ld_local L)) (pp_proposed r) additions removals self"
    "pp_binding r = \<lparr>pb_group_id = cx_group_id cx, pb_incarnation_id = cx_incarnation_id cx,
       pb_transition = transition, pb_author = pb_author (pp_binding r),
       pb_previous_state = cx_expected_current cx, pb_commit_sha256 = sha (pp_commit r),
       pb_aad_sha256 = sha aad, pb_welcome_sha256 = map_option sha (pp_welcome r),
       pb_group_info_sha256 = map_option sha (pp_group_info r)\<rparr>"
    "pp_preparation_base r = cx_expected_base_sha256 cx"
    "pending_state_sha256 sha E (om_group_id M g) (exec_calls E calls (ld_provider L)) = Inr up"
    "write_retry_rows sha (prepared_local (ld_local L) r up) (pp_commit r) (pp_welcome r)
       (pp_group_info r) (exec_calls E calls (ld_provider L)) = (Inr (), st2)"
    "finish sha C st2 (prepared_local (ld_local L) r up) (lg_current (ld_local L)) = Inr (pp_mutation r)"
    "committed sha C (cx_entries cx) (prepared_local (ld_local L) r up) (pp_mutation r)"
    "mu_previous (pp_mutation r) = lg_current (ld_local L)"
proof -
  from ok obtain L signer where o: "opened sha C E M cx L"
    and act: "om_is_active M (ld_group L)" "lg_pending (ld_local L) = None"
    and ch: "prepare_change sha C E M L signer transition additions removals aad self = Inr r"
    by (auto simp: prepare_def load_Inr_iff [OF C] success_simps)
  from o have canon: "canonical_leaves (leaves (lg_current (ld_local L)))"
    and prov: "snapshot_ok (ld_provider L)"
    using opened_provider(1) [OF o] roster_from_group_Inr(3)
    by (auto simp: opened_def opened_on_def)
  from o have gid: "group_id (lg_current (ld_local L)) = cx_group_id cx"
    "lg_group_id (ld_local L) = cx_group_id cx" "lg_incarnation_id (ld_local L) = cx_incarnation_id cx"
    "expected (lg_current (ld_local L)) = cx_expected_current cx" "ld_base L = cx_expected_base_sha256 cx"
    by (simp_all add: opened_def local_ok_def)
  obtain keys ix bd g calls where c: 
    "find (\<lambda>l. leaf_index l = om_own_leaf_index M (ld_group L)) (leaves (lg_current (ld_local L)))
       = Some (pb_author (pp_binding r))"
    "stage_change E M signer (lg_current (ld_local L)) keys ix self
       (om_set_aad M aad (ld_group L)) (ld_provider L) = Inr ((bd, g), exec_calls E calls (ld_provider L))"
    "preview_roster sha M (group_id (lg_current (ld_local L))) (exec_calls E calls (ld_provider L))
       = Inr (pp_proposed r)"
    "authorised_change (lg_current (ld_local L)) (pp_proposed r) additions removals self"
    and rc: "prepare_record sha C E (ld_base L) (ld_local L) (lg_current (ld_local L)) transition
       (pb_author (pp_binding r)) aad bd (om_group_id M g) (exec_calls E calls (ld_provider L))
       (pp_proposed r) = Inr r"
    by (rule prepare_change_Inr [OF ch canon prov])
  from rc obtain up st2 where u: "pending_state_sha256 sha E (om_group_id M g)
      (exec_calls E calls (ld_provider L)) = Inr up"
    and base: "pp_preparation_base r = ld_base L"
    and b: "pp_binding r = \<lparr>pb_group_id = group_id (lg_current (ld_local L)),
       pb_incarnation_id = lg_incarnation_id (ld_local L),
       pb_transition = transition, pb_author = pb_author (pp_binding r),
       pb_previous_state = expected (lg_current (ld_local L)),
       pb_commit_sha256 = sha (pp_commit r), pb_aad_sha256 = sha aad,
       pb_welcome_sha256 = map_option sha (pp_welcome r),
       pb_group_info_sha256 = map_option sha (pp_group_info r)\<rparr>"
    and w: "write_retry_rows sha (prepared_local (ld_local L) r up) (pp_commit r) (pp_welcome r)
       (pp_group_info r) (exec_calls E calls (ld_provider L)) = (Inr (), st2)"
    and fin: "finish sha C st2 (prepared_local (ld_local L) r up) (lg_current (ld_local L))
       = Inr (pp_mutation r)"
    by (rule prepare_record_Inr)
  have pl: "lg_group_id (prepared_local (ld_local L) r up) = lg_group_id (ld_local L)"
    by (simp add: prepared_local_def)
  have known: "only_known_rows (lg_group_id (prepared_local (ld_local L) r up))
      (read_opaque (exec_calls E calls (ld_provider L)))"
    using opened_provider(4) [OF o]
    by (simp add: pl only_known_rows_def exec_calls_reserved [folded RESERVED_def])
  have "opened_on (cx_entries cx) (lg_group_id (prepared_local (ld_local L) r up)) st2"
    using w opened_provider(1) [OF o]
    by (simp add: write_retry_rows_ok_iff pl opened_on_put_rows opened_on_exec_calls)
  from finish_committed [OF C this rows_ready_written [OF known w] fin]
  have cm: "committed sha C (cx_entries cx) (prepared_local (ld_local L) r up) (pp_mutation r)"
    "mu_previous (pp_mutation r) = lg_current (ld_local L)" by simp_all
  show thesis
    by (rule that [OF o act c(1,2) c(3) [unfolded gid(1)] c(4) _ _ u w fin cm])
      (use b base gid in simp_all)
qed


section \<open>Receiving\<close>

lemma exec_calls_append: "exec_calls E (a @ b) st = exec_calls E b (exec_calls E a st)"
  by (simp add: exec_calls_def)

lemma exec_calls_Nil [simp]: "exec_calls E [] st = st"
  by (simp add: exec_calls_def)

definition received_as ::
  "(bytes \<Rightarrow> bytes) \<Rightarrow> ('v, 'g, 'x) openmls \<Rightarrow> ReceiveInput \<Rightarrow> 'x content \<Rightarrow> 'g \<Rightarrow> LocalGroupState
   \<Rightarrow> snapshot \<Rightarrow> bytes option \<Rightarrow> MlsProposalType option \<Rightarrow> LocalGroupState \<Rightarrow> 'v storage_call list \<Rightarrow> bool"
where
  "received_as sha M i c g s st plaintext prop s' calls \<longleftrightarrow>
     (case ri_kind i of
        Application \<Rightarrow> \<exists>b. c = ApplicationMessage b \<and> length b \<le> 256 * 1024 \<and>
          plaintext = Some b \<and> prop = None \<and> s' = s \<and> calls = []
      | Commit \<Rightarrow> \<exists>staged g' r. c = StagedCommitMessage staged \<and>
          om_merge_staged_commit M staged g st = Some (g', calls) \<and>
          roster_from_group sha M g' = Inr r \<and> expected r = ri_resulting_state i \<and>
          advance sha s r = Inr s' \<and> plaintext = None \<and> prop = None
      | Proposal \<Rightarrow> \<exists>p g'. c = ProposalMessage p \<and>
          om_store_pending_proposal M p g st = Some (g', calls) \<and>
          plaintext = None \<and> prop = Some (proposal_type (om_proposal M p)) \<and> s' = s)"

lemma receive_content_Inr:
  assumes "receive_content sha E M i c g s st = Inr (plaintext, prop, s', st')"
  obtains calls where "st' = exec_calls E calls st"
    "received_as sha M i c g s st plaintext prop s' calls"
proof (cases "ri_kind i")
  case Application
  with assms have "received_as sha M i c g s st plaintext prop s' []" "st' = st"
    by (auto simp: receive_content_def received_as_def split: content.splits if_splits)
  with that [of "[]"] show thesis by simp
next
  case Commit
  with assms show thesis
    by (auto simp: receive_content_def received_as_def success_simps split: content.splits intro: that)
next
  case Proposal
  with assms show thesis
    by (auto simp: receive_content_def received_as_def success_simps split: content.splits intro: that)
qed

text \<open>What the caller named as authority before the message was opened, checked.\<close>

definition receive_authorised ::
  "(bytes \<Rightarrow> bytes) \<Rightarrow> LocalGroupState \<Rightarrow> ReceiveInput \<Rightarrow> bool" where
  "receive_authorised sha s i \<longleftrightarrow>
     sha (ri_wire i) = ri_wire_sha256 i \<and> 0 < length (ri_wire i) \<and> length (ri_wire i) \<le> 1024 * 1024 \<and>
     0 < length (ri_aad i) \<and> length (ri_aad i) \<le> 16 * 1024 \<and>
     (\<exists>historical \<in> set (retained_rosters s).
        expected historical = ri_message_state i \<and> ri_sender i \<in> set (leaves historical)) \<and>
     (ri_kind i \<noteq> Application \<longrightarrow>
        es_epoch (ri_message_state i) = epoch (lg_current s) \<and> lg_pending s = None) \<and>
     (ri_kind i \<noteq> Commit \<longrightarrow> ri_resulting_state i = expected (lg_current s))"

lemma retained_group:
  assumes "local_ok sha s" "r \<in> set (retained_rosters s)"
  shows "group_id r = lg_group_id s"
  using assms
  by (auto simp: retained_rosters_def local_ok_def history_ok_def Let_def in_set_conv_nth)

lemma receive_process_Inr:
  assumes "receive_process sha C E M i message L = Inr r"
  obtains pr g calls1 calls2 s' where
    "om_process_message M message (ld_group L) (ld_provider L) = Inr ((pr, g), calls1)"
    "pr_aad pr = ri_aad i" "pr_epoch pr = om_message_epoch M message"
    "pr_sender pr = Member (leaf_index (ri_sender i))"
    "pr_basic_identity pr = Some (credential_identity (ri_sender i))"
    "received_as sha M i (pr_content pr) g (ld_local L) (exec_calls E calls1 (ld_provider L))
       (rv_plaintext r) (rv_proposal_type r) s' calls2"
    "finish sha C (exec_calls E (calls1 @ calls2) (ld_provider L)) s' (lg_current (ld_local L))
       = Inr (rv_mutation r)"
    "rv_kind r = ri_kind i" "rv_message_epoch r = om_message_epoch M message" "rv_sender r = ri_sender i"
proof -
  from assms obtain pr g calls1 s' st where *:
    "om_process_message M message (ld_group L) (ld_provider L) = Inr ((pr, g), calls1)"
    "pr_aad pr = ri_aad i" "pr_epoch pr = om_message_epoch M message"
    "pr_sender pr = Member (leaf_index (ri_sender i))"
    "pr_basic_identity pr = Some (credential_identity (ri_sender i))"
    and rc: "receive_content sha E M i (pr_content pr) g (ld_local L)
       (exec_calls E calls1 (ld_provider L)) = Inr (rv_plaintext r, rv_proposal_type r, s', st)"
    and fin: "finish sha C st s' (lg_current (ld_local L)) = Inr (rv_mutation r)"
    and r: "rv_kind r = ri_kind i" "rv_message_epoch r = om_message_epoch M message"
      "rv_sender r = ri_sender i"
    by (auto simp: receive_process_def Let_def success_simps split: sum.splits if_splits)
  from receive_content_Inr [OF rc] obtain calls2 where
    "st = exec_calls E (calls1 @ calls2) (ld_provider L)"
    "received_as sha M i (pr_content pr) g (ld_local L) (exec_calls E calls1 (ld_provider L))
       (rv_plaintext r) (rv_proposal_type r) s' calls2"
    by (auto simp: exec_calls_append)
  with that * fin r show thesis by blast
qed

lemma received_as_local:
  assumes "received_as sha M i c g s st plaintext prop s' calls"
    and "ri_kind i = Commit \<longrightarrow> lg_pending s = None"
  shows "lg_group_id s' = lg_group_id s" "lg_pending s' = lg_pending s"
  using assms by (auto simp: received_as_def advance_Inr_iff advanced_def split: MlsReceiveKind.splits)

lemma receive_Inr:
  assumes C: "cbor_ok C" and ok: "receive_inner sha C E M i = Inr r"
  obtains L message pr g calls1 calls2 s' where
    "opened sha C E M (ri_context i) L" "om_is_active M (ld_group L)"
    "receive_authorised sha (ld_local L) i"
    "om_message_epoch M message = es_epoch (ri_message_state i)"
    "om_message_group_id M message = cx_group_id (ri_context i)"
    "om_process_message M message (ld_group L) (ld_provider L) = Inr ((pr, g), calls1)"
    "pr_aad pr = ri_aad i" "pr_epoch pr = es_epoch (ri_message_state i)"
    "pr_sender pr = Member (leaf_index (ri_sender i))"
    "pr_basic_identity pr = Some (credential_identity (ri_sender i))"
    "received_as sha M i (pr_content pr) g (ld_local L) (exec_calls E calls1 (ld_provider L))
       (rv_plaintext r) (rv_proposal_type r) s' calls2"
    "finish sha C (exec_calls E (calls1 @ calls2) (ld_provider L)) s' (lg_current (ld_local L))
       = Inr (rv_mutation r)"
    "committed sha C (cx_entries (ri_context i)) s' (rv_mutation r)"
    "mu_previous (rv_mutation r) = lg_current (ld_local L)"
    "rv_kind r = ri_kind i" "rv_message_epoch r = es_epoch (ri_message_state i)" "rv_sender r = ri_sender i"
proof -
  from ok obtain L message historical u1 u2 u3 where
    o: "opened sha C E M (ri_context i) L" and act: "om_is_active M (ld_group L)"
    and aad: "bounded_aad (ri_aad i) = Inr u1"
    and wire: "ri_wire i \<noteq> []" "length (ri_wire i) \<le> 1024 * 1024" "sha (ri_wire i) = ri_wire_sha256 i"
    and gid: "om_message_group_id M message = lg_group_id (ld_local L)"
      "es_group_id (ri_message_state i) = lg_group_id (ld_local L)"
    and ep: "om_message_epoch M message = es_epoch (ri_message_state i)"
    and kind: "(if ri_kind i \<noteq> Application
            then (if om_message_epoch M message \<noteq> epoch (lg_current (ld_local L))
                  then Inl RequiredCommitEpochMismatch
                  else if lg_pending (ld_local L) \<noteq> None then Inl PendingCommitExists
                  else Inr ())
            else Inr ()) = Inr u2"
    and hist: "message_roster sha (ld_local L) (om_message_epoch M message) = Inr historical"
      "digest_sha256 historical = es_digest_sha256 (ri_message_state i)"
      "ri_sender i \<in> set (leaves historical)"
    and res: "(if ri_kind i \<noteq> Commit
            then check_state (lg_current (ld_local L)) (ri_resulting_state i) True else Inr ()) = Inr u3"
    and rp: "receive_process sha C E M i message L = Inr r"
    unfolding receive_inner_def Let_def bindE_Inr_iff load_Inr_iff [OF C] if_Inl_Inr_iff
      map_err_Inr_iff ok_or_Inr_iff de_Morgan_disj not_less not_not
    by blast
  have lok: "local_ok sha (ld_local L)" using o by (rule opened_local_ok)
  have h: "historical \<in> set (retained_rosters (ld_local L))" "epoch historical = om_message_epoch M message"
    using hist(1) by (simp_all add: message_roster_Inr_iff [OF lok])
  have "expected historical = ri_message_state i"
    using h retained_group [OF lok h(1)] gid ep hist(2) by (cases "ri_message_state i") (simp add: expected_def)
  with h hist wire aad kind res ep have auth: "receive_authorised sha (ld_local L) i"
    by (auto simp: receive_authorised_def bounded_aad_def check_state_Inr_iff not_less
        split: if_splits)
  from rp obtain pr g calls1 calls2 s' where
    pm: "om_process_message M message (ld_group L) (ld_provider L) = Inr ((pr, g), calls1)"
    and prc: "pr_aad pr = ri_aad i" "pr_epoch pr = om_message_epoch M message"
    "pr_sender pr = Member (leaf_index (ri_sender i))"
    "pr_basic_identity pr = Some (credential_identity (ri_sender i))"
    and ra: "received_as sha M i (pr_content pr) g (ld_local L) (exec_calls E calls1 (ld_provider L))
       (rv_plaintext r) (rv_proposal_type r) s' calls2"
    and fin: "finish sha C (exec_calls E (calls1 @ calls2) (ld_provider L)) s' (lg_current (ld_local L))
       = Inr (rv_mutation r)"
    and r: "rv_kind r = ri_kind i" "rv_message_epoch r = om_message_epoch M message" "rv_sender r = ri_sender i"
    by (rule receive_process_Inr)
  have s': "lg_group_id s' = lg_group_id (ld_local L)" "lg_pending s' = lg_pending (ld_local L)"
    using received_as_local [OF ra] auth by (auto simp: receive_authorised_def)
  have "committed sha C (cx_entries (ri_context i)) s' (rv_mutation r) \<and>
      mu_previous (rv_mutation r) = lg_current (ld_local L)"
    using opened_provider(1,3) [OF o] rows_ready_same [OF s']
    by (intro finish_committed [OF C _ _ fin]) (simp_all add: s' opened_on_exec_calls rows_ready_exec_calls)
  with that [OF o act auth ep _ pm prc(1) _ prc(3,4) ra fin] r ep prc(2) gid(1) o show thesis
    by (simp add: opened_def)
qed


section \<open>Creating\<close>

lemma global_not_reserved: "is_global_key k \<Longrightarrow> \<not> starts_with k RESERVED"
proof
  assume "is_global_key k" "starts_with k RESERVED"
  then obtain l where "l \<in> set ALL_LABELS" "prefix l k" "prefix RESERVED k"
    by (auto simp: is_global_key_def starts_with_def list_ex_iff ALL_LABELS_def)
  then show False
    using labels_reserved_parallel [of l] prefix_same_cases [of l k RESERVED]
    by (auto simp: RESERVED_def parallel_def)
qed

lemma global_rows_unreserved:
  assumes "provider_from_entries entries 1 None = Inr st" "starts_with k RESERVED"
  shows "read_opaque st k = None"
proof -
  have d: "distinct (map entry_key entries)" "\<forall>e \<in> set entries. is_global_key (entry_key e)"
    using assms(1) by (auto simp: provider_from_entries_Inr_iff validate_storage_entries_Inr_iff
        row_scoped_def split: if_splits)
  then have "entries_map entries k = None"
    using assms(2) global_not_reserved entries_map_Some_iff [OF d(1)]
    by (metis not_None_eq)
  then show ?thesis using row_of_opened(1) [OF assms(1)] by (simp add: row_of_def)
qed

lemma rows_ready_initial:
  assumes "\<And>k. starts_with k RESERVED \<Longrightarrow> read_opaque st k = None" "lg_pending s = None"
  shows "rows_ready sha s st"
  using assms by (auto simp: rows_ready_def only_known_rows_def retry_hashes_def wire_ok_def)

lemma create_Inr:
  assumes C: "cbor_ok C"
    and ok: "create sha C E M (now, now', now'') config signer_bytes gid incarnation owner
      credential entries storage_format = Inr m"
  obtains signer cred st1 g calls s where
    "now = now'" "config = (default_config Mls128DhkemX25519Aes128gcmSha256Ed25519)
       \<lparr>max_past_epochs := max_past_epochs config\<rparr>"
    "om_new_group M signer (to_create_config now'' config) gid cred st1 = Some (g, calls)"
    "roster_from_group sha M g = Inr (lg_current s)"
    "length (leaves (lg_current s)) = 1" "leaf_matches_owner (leaves (lg_current s) ! 0) owner"
    "new_state sha incarnation (max_past_epochs config) (lg_current s) = Inr s"
    "finish sha C (exec_calls E calls st1) s (lg_current s) = Inr m"
    "committed sha C entries s m" "mu_previous m = lg_current s"
    "opened_on entries (lg_group_id s) (exec_calls E calls st1)"
proof -
  from ok obtain provider signer cred calls0 g calls current s where
    p: "provider_from_entries entries 1 None = Inr provider"
    and ex: "to_create_config now config = to_create_config now'
      ((default_config Mls128DhkemX25519Aes128gcmSha256Ed25519)\<lparr>max_past_epochs := max_past_epochs config\<rparr>)"
    and grp: "om_new_group M signer (to_create_config now'' config) gid cred
      (exec_calls E calls0 provider) = Some (g, calls)"
    and cur: "roster_from_group sha M g = Inr current"
    and one: "length (leaves current) = 1" "leaf_matches_owner (leaves current ! 0) owner"
    and s: "new_state sha incarnation (max_past_epochs config) current = Inr s"
    and fin: "finish sha C (exec_calls E calls (exec_calls E calls0 provider)) s current = Inr m"
    by (auto simp: create_def success_simps profile_Inr_iff)
  from s have sc: "lg_current s = current" "lg_pending s = None"
    by (simp_all add: new_state_Inr_iff)
  define st where "st = exec_calls E calls (exec_calls E calls0 provider)"
  have op: "opened_on entries (lg_group_id s) st"
    unfolding st_def
    by (intro opened_on_exec_calls opened_on_fresh provider_from_entries_scope p)
  moreover have "rows_ready sha s st"
    using sc global_rows_unreserved [OF p]
    by (intro rows_ready_initial) (simp_all add: st_def exec_calls_reserved [folded RESERVED_def])
  ultimately have "committed sha C entries s m \<and> mu_previous m = current"
    using fin by (intro finish_committed [OF C]) (simp_all add: st_def)
  moreover have "now = now'" "config = (default_config Mls128DhkemX25519Aes128gcmSha256Ed25519)
       \<lparr>max_past_epochs := max_past_epochs config\<rparr>"
    using ex by (simp_all only: to_create_config_eq_iff)
  ultimately show thesis
    by (intro that [of signer cred "exec_calls E calls0 provider" g calls s])
      (use grp cur one s fin sc op in \<open>simp_all add: st_def\<close>)
qed

section \<open>Joining\<close>

lemma read_opaque_import:
  "read_opaque (import_batch b st) k =
    (case map_of (rev (map (\<lambda>e. (entry_key e, entry_value e)) (upserts b))) k of
       Some v \<Rightarrow> Some v
     | None \<Rightarrow> if k \<in> set (deletes b) then None else read_opaque st k)"
proof -
  have w: "read_opaque (fold (\<lambda>row. write_opaque (entry_key row) (entry_value row)) rows t) k =
      (case map_of (rev (map (\<lambda>e. (entry_key e, entry_value e)) rows)) k of
         Some v \<Rightarrow> Some v | None \<Rightarrow> read_opaque t k)" for rows :: "MlsStorageEntry list" and t
    by (induction rows arbitrary: t) (auto simp: snapshot_kv.rd_wr split: option.splits)
  have "read_opaque (fold delete_opaque ks t) k = (if k \<in> set ks then None else read_opaque t k)" for ks t
    by (rule snapshot_kv.rd_dels)
  with w show ?thesis by (simp add: import_batch_def split: option.splits)
qed

text \<open>Importing the batch of a provider opened on the same rows reproduces that provider's rows.\<close>

lemma import_batch_current:
  assumes st: "snapshot_ok st" "sp_initial st = sp_initial p"
    and p: "sp_initial p = sp_current p"
    and b: "batch_from_provider st (Some g) [] = Inr b"
  shows "read_opaque (import_batch b p) k = read_opaque st k"
proof -
  note bu = batch_upserts [OF st(1) b]
  have "map_of (rev (map (\<lambda>e. (entry_key e, entry_value e)) (upserts b))) k
      = map_option entry_value (entries_map (upserts b) k)"
    using bu(1) by (subst map_of_rev_distinct) (simp_all add: comp_def map_of_rows_entries)
  then show ?thesis
    unfolding read_opaque_import
    using st p by (simp add: bu(2,3) read_opaque_def split: option.splits)
qed

lemma import_batch_keeps:
  "opened_on entries g st \<Longrightarrow> opened_on entries g (import_batch b st)"
proof -
  have d: "opened_on entries g t \<Longrightarrow> opened_on entries g (fold delete_opaque ks t)" for ks t
    by (induction ks arbitrary: t) (simp_all add: opened_on_writes)
  have "opened_on entries g t \<Longrightarrow>
      opened_on entries g (fold (\<lambda>row. write_opaque (entry_key row) (entry_value row)) rows t)"
    for rows :: "MlsStorageEntry list" and t
    by (induction rows arbitrary: t) (simp_all add: opened_on_writes)
  then show "opened_on entries g st \<Longrightarrow> opened_on entries g (import_batch b st)"
    using d by (simp add: import_batch_def)
qed

lemma case_result_Inr_iff:
  "(case x of (Inl _, _) \<Rightarrow> Inl e | (Inr _, t) \<Rightarrow> f t) = Inr r \<longleftrightarrow> (\<exists>u t. x = (Inr u, t) \<and> f t = Inr r)"
  by (auto split: prod.splits sum.splits)

lemma on_provider_strict_Inr_iff:
  "on_provider_strict E e x st = Inr (a, st') \<longleftrightarrow> (\<exists>calls. x = Some (a, calls) \<and> st' = exec_calls E calls st)"
  by (auto simp: on_provider_strict_def split: option.splits)

lemma validate_expected_roster_typed_Inr_iff:
  "validate_expected_roster_typed r ex b = Inr u \<longleftrightarrow> length (es_digest_sha256 ex) = 32 \<and> expected r = ex"
  by (cases ex) (auto simp: validate_expected_roster_typed_def expected_def)

lemma keeps_serialized_signer:
  assumes "label_stable E P" "write_serialized_basic_signer E a b c st = (Inr u, t)" "P st"
  shows "P t"
proof -
  have "keeps P (write_serialized_basic_signer E a b c)"
    unfolding write_serialized_basic_signer_def
    by (intro keeps_intros keeps_write_val [OF assms(1)]) simp
  from keepsD [OF this assms(3)] assms(2) show ?thesis by simp
qed

lemma join_typed_Inr:
  assumes "join_group_from_welcome_with_storage_typed sha E M config welcome tree_bytes signer_bytes ex
      target entries version = Inr j"
  obtains p signer message w p1 g st where
    "provider_from_entries entries version None = Inr p"
    "om_signer_json M signer_bytes = Some signer"
    "mls_message_from_exact_bytes M welcome = Inr message" "om_welcome M message = Some w"
    "write_serialized_basic_signer E (ss_private signer) (ss_public signer) (ss_scheme signer) p = (Inr (), p1)"
    "selected_key_package_sha256 sha E M p1 (om_welcome_refs M w) = Inr (sj_consumed_key_package_sha256 j)"
    "\<forall>t. target = Some t \<longrightarrow> t = sj_consumed_key_package_sha256 j"
    "roster_from_group sha M g = Inr (jg_resulting_roster (sj_joined j))"
    "om_ciphersuite M g = ciphersuite_to_native (ciphersuite config)"
    "om_configuration M g = to_join_config config"
    "om_member_key M g (om_own_leaf_index M g) = Some (ss_public signer)"
    "expected (jg_resulting_roster (sj_joined j)) = ex"
    "find (\<lambda>l. leaf_index l = om_own_leaf_index M g) (leaves (jg_resulting_roster (sj_joined j)))
       = Some (sj_local_leaf j)"
    "jg_group_id (sj_joined j) = group_id (jg_resulting_roster (sj_joined j))"
    "\<exists>calls. st = exec_calls E calls p1"
    "batch_from_provider st (Some (group_id (jg_resulting_roster (sj_joined j)))) []
       = Inr (jg_storage_batch (sj_joined j))"
proof -
  from assms obtain p signer p1 u0 message w consumed tree_in staged p2 g st u1 resulting local_leaf u2 batch
    where f: "provider_from_entries entries version None = Inr p"
    "deserialize_signer_bytes M signer_bytes = Inr signer"
    "write_serialized_basic_signer E (ss_private signer) (ss_public signer) (ss_scheme signer) p = (Inr u0, p1)"
    "mls_message_from_exact_bytes M welcome = Inr message" "om_welcome M message = Some w"
    "selected_key_package_sha256 sha E M p1 (om_welcome_refs M w) = Inr consumed"
    "\<not> (case target of Some ex \<Rightarrow> length ex \<noteq> 32 \<or> ex \<noteq> consumed | None \<Rightarrow> False)"
    "on_provider_strict E SrWelcomeRejected
       (om_stage_welcome M (to_join_config config) w tree_in p1) p1 = Inr (staged, p2)"
    "on_provider_strict E SrWelcomeRejected (om_into_group M staged p2) p2 = Inr (g, st)"
    "\<not> (om_ciphersuite M g \<noteq> ciphersuite_to_native (ciphersuite config)
         \<or> om_configuration M g \<noteq> to_join_config config)"
    "ensure_local_signer_public_key M g (ss_public signer) = Inr u1"
    "roster_from_group sha M g = Inr resulting"
    "find (\<lambda>l. leaf_index l = om_own_leaf_index M g) (leaves resulting) = Some local_leaf"
    "validate_expected_roster_typed resulting ex False = Inr u2"
    "batch_from_provider st (Some (group_id resulting)) [] = Inr batch"
    and j: "\<lparr>sj_joined = \<lparr>jg_group_id = group_id resulting, jg_resulting_roster = resulting,
             jg_storage_batch = batch\<rparr>,
           sj_local_leaf = local_leaf, sj_consumed_key_package_sha256 = consumed\<rparr> = j"
    unfolding join_group_from_welcome_with_storage_typed_def case_result_Inr_iff
      bindE_Inr_iff if_Inl_Inr_iff map_err_Inr_iff ok_or_Inr_iff sum.inject split_paired_Ex
      case_prod_conv
    by blast
  show thesis
  proof (rule that [of p signer message w p1 g st])
    show "\<exists>calls. st = exec_calls E calls p1"
      using f(8,9) by (auto simp: on_provider_strict_Inr_iff exec_calls_append [symmetric])
  qed (use f j in \<open>auto simp: deserialize_signer_bytes_def ensure_local_signer_public_key_def success_simps
        validate_expected_roster_typed_Inr_iff\<close>)
qed

lemma join_Inr:
  assumes C: "cbor_ok C" and ok: "join sha C E M clock i = Inr r"
  obtains joined s where
    "sha (ji_welcome i) = ji_welcome_sha256 i" "fst clock = snd clock"
    "ji_config i = (default_config Mls128DhkemX25519Aes128gcmSha256Ed25519)
       \<lparr>max_past_epochs := max_past_epochs (ji_config i)\<rparr>"
    "join_group_from_welcome_with_storage_typed sha E M (ji_config i) (ji_welcome i)
       (ji_tree i) (ji_signer i) (ji_resulting i) (Some (ji_target_key_package_sha256 i))
       (ji_entries i) 1 = Inr joined"
    "sj_local_leaf joined = ji_local_leaf i" "jn_local_leaf r = ji_local_leaf i"
    "jn_consumed_key_package_sha256 r = ji_target_key_package_sha256 i"
    "new_state sha (ji_incarnation_id i) (max_past_epochs (ji_config i))
       (jg_resulting_roster (sj_joined joined)) = Inr s"
    "expected (lg_current s) = ji_resulting i" "ji_local_leaf i \<in> set (leaves (lg_current s))"
    "committed sha C (ji_entries i) s (jn_mutation r)" "mu_previous (jn_mutation r) = lg_current s"
proof -
  from ok obtain joined p0 g s m where
    wire: "sha (ji_welcome i) = ji_welcome_sha256 i"
    and cfg: "to_create_config (fst clock) ((default_config Mls128DhkemX25519Aes128gcmSha256Ed25519)
       \<lparr>max_past_epochs := max_past_epochs (ji_config i)\<rparr>) = to_create_config (snd clock) (ji_config i)"
    and j: "join_group_from_welcome_with_storage_typed sha E M (ji_config i) (ji_welcome i)
       (ji_tree i) (ji_signer i) (ji_resulting i) (Some (ji_target_key_package_sha256 i))
       (ji_entries i) 1 = Inr joined"
    and leaf: "sj_local_leaf joined = ji_local_leaf i"
    and p0: "provider_from_entries (ji_entries i) 1 None = Inr p0"
    and s: "new_state sha (ji_incarnation_id i) (max_past_epochs (ji_config i))
       (jg_resulting_roster (sj_joined joined)) = Inr s"
    and fin: "finish sha C (import_batch (jg_storage_batch (sj_joined joined)) p0) s
       (jg_resulting_roster (sj_joined joined)) = Inr m"
    and r: "r = \<lparr>jn_local_leaf = sj_local_leaf joined,
       jn_consumed_key_package_sha256 = sj_consumed_key_package_sha256 joined, jn_mutation = m\<rparr>"
    by (auto simp: join_def Let_def success_simps profile_Inr_iff)
  obtain p p1 g' st and signer :: SerializableSigner where
    p: "provider_from_entries (ji_entries i) 1 None = Inr p"
    and p1: "write_serialized_basic_signer E (ss_private signer) (ss_public signer) (ss_scheme signer) p = (Inr (), p1)"
    and tgt0: "\<forall>t. Some (ji_target_key_package_sha256 i) = Some t \<longrightarrow> t = sj_consumed_key_package_sha256 joined"
    and ex: "expected (jg_resulting_roster (sj_joined joined)) = ji_resulting i"
    and own: "find (\<lambda>l. leaf_index l = om_own_leaf_index M g') (leaves (jg_resulting_roster (sj_joined joined)))
       = Some (sj_local_leaf joined)"
    and st0: "\<exists>calls. st = exec_calls E calls p1"
    and b: "batch_from_provider st (Some (group_id (jg_resulting_roster (sj_joined joined)))) []
       = Inr (jg_storage_batch (sj_joined joined))"
    by (rule join_typed_Inr [OF j]) (rule that, assumption+)
  from st0 obtain calls where st: "st = exec_calls E calls p1" by blast
  have tgt: "sj_consumed_key_package_sha256 joined = ji_target_key_package_sha256 i"
    using tgt0 [THEN spec, THEN mp, OF refl] by (rule sym)
  from own have fnd: "sj_local_leaf joined \<in> set (leaves (jg_resulting_roster (sj_joined joined)))"
    by (auto simp: find_Some_iff)
  from p p0 have [simp]: "p = p0" by simp
  have p1s: "snapshot_ok p1" "sp_initial p1 = sp_initial p"
    "untouched RESERVED (kv_read p) p1"
    using keeps_serialized_signer [OF label_stable_snapshot_ok p1]
      keeps_serialized_signer [OF label_stable_initial [of E "sp_initial p"] p1]
      keeps_serialized_signer [OF label_stable_untouched [of RESERVED E "kv_read p"] p1]
      row_of_opened(2) [OF p0]
    by (auto simp: labels_reserved_parallel RESERVED_def untouched_def)
  have none: "read_opaque (import_batch (jg_storage_batch (sj_joined joined)) p0) k = None"
    if "starts_with k RESERVED" for k
  proof -
    have "read_opaque (import_batch (jg_storage_batch (sj_joined joined)) p0) k = read_opaque st k"
      using import_batch_current [OF _ _ row_of_opened(3) [OF p0] b] p1s st by simp
    also have "\<dots> = read_opaque p1 k"
      using that by (simp add: st exec_calls_reserved [folded RESERVED_def])
    also have "\<dots> = read_opaque p0 k"
      using that p1s(3) by (simp add: untouched_def kv_read_def read_opaque_def)
    finally show ?thesis using global_rows_unreserved [OF p0 that] by simp
  qed
  from s have sc: "lg_current s = jg_resulting_roster (sj_joined joined)" "lg_pending s = None"
    by (simp_all add: new_state_Inr_iff)
  have "opened_on (ji_entries i) (lg_group_id s) (import_batch (jg_storage_batch (sj_joined joined)) p0)"
    by (intro import_batch_keeps opened_on_fresh provider_from_entries_scope p0)
  moreover have "rows_ready sha s (import_batch (jg_storage_batch (sj_joined joined)) p0)"
    using none sc by (intro rows_ready_initial)
  ultimately have "committed sha C (ji_entries i) s m \<and> mu_previous m = lg_current s"
    using fin sc by (intro finish_committed [OF C]) simp_all
  then have cm: "committed sha C (ji_entries i) s (jn_mutation r)" "mu_previous (jn_mutation r) = lg_current s"
    by (simp_all add: r)
  from cfg have cfg': "(default_config Mls128DhkemX25519Aes128gcmSha256Ed25519)
       \<lparr>max_past_epochs := max_past_epochs (ji_config i)\<rparr> = ji_config i" "fst clock = snd clock"
    by (simp_all only: to_create_config_eq_iff)
  have jn: "jn_local_leaf r = ji_local_leaf i"
    "jn_consumed_key_package_sha256 r = ji_target_key_package_sha256 i"
    "expected (lg_current s) = ji_resulting i" "ji_local_leaf i \<in> set (leaves (lg_current s))"
    using ex tgt fnd leaf r sc by simp_all
  show thesis
    by (rule that [OF wire cfg'(2) cfg'(1) [symmetric] j leaf jn(1,2) s jn(3,4) cm])
qed

end
