(* ===== verification/Continuity.thy ===== *)
theory Continuity
  imports Lifecycle
begin

text \<open>
  Successive operations. The caller applies the batch of a mutation to its rows and names the
  mutation's resulting roster and digest as the expected state of the next operation
  (\<open>next_context\<close>). The documented persistence of OpenMLS (\<open>openmls_ok\<close>) makes the next
  operation open exactly the local state that the mutation reported; so a prepared Commit is
  returned unchanged by \<open>inspect_pending\<close>, and can be merged or discarded from any process
  that holds the rows.
\<close>

section \<open>What OpenMLS persists\<close>

text \<open>What the package reads from a group handle.\<close>

definition same_view :: "('v, 'g, 'x) openmls \<Rightarrow> 'g \<Rightarrow> 'g \<Rightarrow> bool" where
  "same_view M g h \<longleftrightarrow>
     om_group_id M h = om_group_id M g \<and> om_epoch M h = om_epoch M g \<and>
     om_members M h = om_members M g \<and> om_configuration M h = om_configuration M g \<and>
     om_ciphersuite M h = om_ciphersuite M g \<and> om_is_active M h = om_is_active M g \<and>
     om_own_leaf_index M h = om_own_leaf_index M g"

text \<open>
  The group that \<open>load\<close> finds on the rows after \<open>calls\<close> looks like \<open>g\<close>, with a pending Commit
  or without.
\<close>

definition found ::
  "'v storage_env \<Rightarrow> ('v, 'g, 'x) openmls \<Rightarrow> bytes \<Rightarrow> snapshot \<Rightarrow> 'v storage_call list \<Rightarrow> 'g
   \<Rightarrow> bool \<Rightarrow> bool" where
  "found E M gid st calls g pending \<longleftrightarrow>
     (\<exists>h. om_load M gid (exec_calls E calls st) = Some h \<and> same_view M g h \<and>
        om_has_pending M h = pending)"

text \<open>
  The laws. \<open>load\<close> and \<open>merge_pending_commit\<close> see the rows of OpenMLS only, and the group that
  \<open>load\<close> finds has the group id it was asked for; the group found after an operation is the
  group the operation left: the same group after sending, staging a Commit (now pending) or
  clearing one (no longer pending), and the returned group after creating or merging.
\<close>

definition row_frame :: "('v, 'g, 'x) openmls \<Rightarrow> bool" where
  "row_frame M \<longleftrightarrow>
     (\<forall>gid g a b. same_openmls_rows (read_opaque a) (read_opaque b) \<longrightarrow>
        om_load M gid a = om_load M gid b \<and>
        om_merge_pending_commit M g a = om_merge_pending_commit M g b) \<and>
     (\<forall>gid st g. om_load M gid st = Some g \<longrightarrow> om_group_id M g = gid)"

definition sending_persists :: "'v storage_env \<Rightarrow> ('v, 'g, 'x) openmls \<Rightarrow> bool" where
  "sending_persists E M \<longleftrightarrow>
     (\<forall>gid st g signer p aad w g' calls. om_load M gid st = Some g \<longrightarrow>
        om_create_message M signer p (om_set_aad M aad g) st = Some ((w, g'), calls) \<longrightarrow>
        found E M gid st calls g (om_has_pending M g))"

definition staging_persists :: "'v storage_env \<Rightarrow> ('v, 'g, 'x) openmls \<Rightarrow> bool" where
  "staging_persists E M \<longleftrightarrow>
     (\<forall>gid st g signer keys ix aad bd g' calls. om_load M gid st = Some g \<longrightarrow>
        om_commit_members M signer keys ix (om_set_aad M aad g) st = Some ((bd, g'), calls) \<or>
        om_commit_self_update M signer (om_set_aad M aad g) st = Some ((bd, g'), calls) \<longrightarrow>
        om_group_id M g' = gid \<and> found E M gid st calls g True)"

definition settling_persists :: "'v storage_env \<Rightarrow> ('v, 'g, 'x) openmls \<Rightarrow> bool" where
  "settling_persists E M \<longleftrightarrow>
     (\<forall>gid st g g' calls. om_load M gid st = Some g \<longrightarrow>
        (om_clear_pending_commit M g st = Some (g', calls) \<longrightarrow> found E M gid st calls g False) \<and>
        (om_merge_pending_commit M g st = Some (g', calls) \<longrightarrow>
           om_configuration M g' = om_configuration M g \<and> om_ciphersuite M g' = om_ciphersuite M g \<and>
           found E M gid st calls g' False))"

definition creating_persists :: "'v storage_env \<Rightarrow> ('v, 'g, 'x) openmls \<Rightarrow> bool" where
  "creating_persists E M \<longleftrightarrow>
     (\<forall>gid st signer now config cred g calls.
        om_new_group M signer (to_create_config now config) gid cred st = Some (g, calls) \<longrightarrow>
        om_group_id M g = gid \<and> om_configuration M g = to_join_config config \<and>
        om_ciphersuite M g = ciphersuite_to_native (ciphersuite config) \<and>
        found E M gid st calls g False)"

definition openmls_ok ::
  "(bytes \<Rightarrow> bytes) \<Rightarrow> 'v storage_env \<Rightarrow> ('v, 'g, 'x) openmls \<Rightarrow> bool" where
  "openmls_ok sha E M \<longleftrightarrow> (\<forall>b. length (sha b) = 32) \<and> row_frame M \<and> sending_persists E M \<and>
     staging_persists E M \<and> settling_persists E M \<and> creating_persists E M"

lemma openmls_okD:
  assumes "openmls_ok sha E M"
  shows "length (sha b) = 32"
    and "same_openmls_rows (read_opaque a) (read_opaque c) \<Longrightarrow> om_load M gid a = om_load M gid c"
    and "same_openmls_rows (read_opaque a) (read_opaque c) \<Longrightarrow>
       om_merge_pending_commit M g a = om_merge_pending_commit M g c"
    and "om_load M gid st = Some g \<Longrightarrow> om_group_id M g = gid"
  using assms by (simp_all add: openmls_ok_def row_frame_def)

lemma openmls_sendingD: "openmls_ok sha E M \<Longrightarrow> om_load M gid st = Some g \<Longrightarrow>
    om_create_message M signer p (om_set_aad M aad g) st = Some ((w, g'), calls) \<Longrightarrow>
    found E M gid st calls g (om_has_pending M g)"
  by (simp add: openmls_ok_def sending_persists_def)

lemma openmls_stagingD:
  assumes "openmls_ok sha E M" "om_load M gid st = Some g"
    and "om_commit_members M signer keys ix (om_set_aad M aad g) st = Some ((bd, g'), calls) \<or>
      om_commit_self_update M signer (om_set_aad M aad g) st = Some ((bd, g'), calls)"
  shows "om_group_id M g' = gid" "found E M gid st calls g True"
proof -
  from assms(1) have "staging_persists E M" by (simp add: openmls_ok_def)
  from this [unfolded staging_persists_def, rule_format, OF assms(2,3)]
  show "om_group_id M g' = gid" "found E M gid st calls g True" by simp_all
qed

lemma openmls_settlingD:
  assumes "openmls_ok sha E M" "om_load M gid st = Some g"
  shows "om_clear_pending_commit M g st = Some (g', calls) \<Longrightarrow> found E M gid st calls g False"
    and "om_merge_pending_commit M g st = Some (g', calls) \<Longrightarrow>
      om_configuration M g' = om_configuration M g \<and> om_ciphersuite M g' = om_ciphersuite M g \<and>
      found E M gid st calls g' False"
  using assms by (simp_all add: openmls_ok_def settling_persists_def)

lemma openmls_creatingD: "openmls_ok sha E M \<Longrightarrow>
    om_new_group M signer (to_create_config now config) gid cred st = Some (g, calls) \<Longrightarrow>
    om_group_id M g = gid \<and> om_configuration M g = to_join_config config \<and>
    om_ciphersuite M g = ciphersuite_to_native (ciphersuite config) \<and> found E M gid st calls g False"
  unfolding openmls_ok_def creating_persists_def by blast

lemma same_view_roster: "same_view M g h \<Longrightarrow> roster_from_group sha M h = roster_from_group sha M g"
  by (simp add: same_view_def roster_from_group_def)

lemma same_view_configured: "same_view M g h \<Longrightarrow> configured M h t \<longleftrightarrow> configured M g t"
  by (simp add: same_view_def configured_def)

section \<open>The next operation\<close>

definition context_after :: "bytes \<Rightarrow> Mutation \<Rightarrow> MlsStorageEntry list \<Rightarrow> Context" where
  "context_after incarnation m entries = \<lparr>
     cx_group_id = group_id (mu_resulting m), cx_incarnation_id = incarnation,
     cx_expected_current = expected (mu_resulting m),
     cx_expected_base_sha256 = mu_resulting_digest m,
     cx_expected_retention = mu_retention m,
     cx_entries = apply_batch (mu_batch m) entries, cx_storage_format = 1\<rparr>"

text \<open>\<open>continues\<close>: the next operation opens the local state \<open>s\<close>.\<close>

definition continues ::
  "(bytes \<Rightarrow> bytes) \<Rightarrow> cbor \<Rightarrow> 'v storage_env \<Rightarrow> ('v, 'g, 'x) openmls \<Rightarrow> MlsStorageEntry list
   \<Rightarrow> LocalGroupState \<Rightarrow> Mutation \<Rightarrow> bool" where
  "continues sha C E M entries s m \<longleftrightarrow>
     (\<exists>L. load sha C E M (context_after (lg_incarnation_id s) m entries) = Inr L \<and> ld_local L = s \<and>
        ld_base L = mu_resulting_digest m)"

text \<open>The row that the pending binding covers is a row of OpenMLS.\<close>

lemma pending_state_cong:
  assumes "same_openmls_rows (read_opaque a) (read_opaque b)"
  shows "pending_state_sha256 sha E gid a = pending_state_sha256 sha E gid b"
proof -
  have "map_of (sp_current a) k = map_of (sp_current b) k"
    if "build_key_serde E GROUP_STATE_LABEL v = Inr k" for k v
  proof -
    from that obtain r where "k = GROUP_STATE_LABEL @ r"
      by (auto simp: build_key_serde_def build_key_def bindE_Inr_iff)
    moreover have "parallel RESERVED GROUP_STATE_LABEL"
      using labels_reserved_parallel [of GROUP_STATE_LABEL]
      by (simp add: RESERVED_def ALL_LABELS_def GROUP_LABELS_def)
    ultimately have "\<not> starts_with k RESERVED"
      unfolding starts_with_def parallel_def by (metis prefixI prefix_same_cases)
    with assms show ?thesis by (simp add: same_openmls_rows_def read_opaque_def)
  qed
  then show ?thesis
    by (cases "build_key_serde E GROUP_STATE_LABEL (gid_value E gid)")
      (auto simp: pending_state_sha256_def)
qed

lemma reopened:
  assumes C: "cbor_ok C" and M: "openmls_ok sha E M" and cm: "committed sha C entries s m"
    and rows: "same_openmls_rows (row_of (apply_batch (mu_batch m) entries)) (read_opaque st)"
    and h: "om_load M (lg_group_id s) st = Some h" "configured M h (lg_retention s)"
    and r: "roster_from_group sha M h = Inr (lg_current s)"
    and pend: "pending_agrees sha E M h (lg_pending s) st"
  shows "opened sha C E M (context_after (lg_incarnation_id s) m entries)
    \<lparr>ld_provider = from_entries (map (\<lambda>e. (entry_key e, entry_value e)) (apply_batch (mu_batch m) entries)),
     ld_group = h, ld_local = s, ld_base = mu_resulting_digest m\<rparr>"
proof -
  define es where "es = apply_batch (mu_batch m) entries"
  define p where "p = from_entries (map (\<lambda>e. (entry_key e, entry_value e)) es)"
  from cm have cm': "validate_storage_entries es 1 (Some (lg_group_id s)) = Inr ()"
    "group_state_digest_from_entries sha (lg_group_id s) es 1 = Inr (mu_resulting_digest m)"
    "rows_bounded es" "local_ok sha s" "metadata_rows sha C s (row_of es)"
    "mu_resulting m = lg_current s" "mu_retention m = lg_retention s"
    by (simp_all add: committed_def es_def Let_def)
  then have gid: "group_id (mu_resulting m) = lg_group_id s" by (simp add: local_ok_def)
  have p: "provider_from_entries es 1 (Some (lg_group_id s)) = Inr p"
    using cm'(1) by (simp add: provider_from_entries_Inr_iff p_def)
  have same: "same_openmls_rows (read_opaque p) (read_opaque st)"
    using rows row_of_opened(1) [OF p] by (simp add: es_def)
  have "length (mu_resulting_digest m) = 32"
    using cm'(2) openmls_okD(1) [OF M]
    by (auto simp: group_state_digest_Inr_iff)
  moreover have "om_load M (lg_group_id s) p = Some h"
    using openmls_okD(2) [OF M same] h(1) by simp
  moreover have "pending_agrees sha E M h (lg_pending s) p"
    using pend by (simp add: pending_agrees_def pending_state_cong [OF same] split: option.splits)
  ultimately show ?thesis
    using cm' p h(2) r gid
    by (simp add: opened_def context_after_def flip: es_def p_def)
qed

lemma reopened_continues:
  assumes "opened sha C E M (context_after (lg_incarnation_id s) m entries)
      \<lparr>ld_provider = p, ld_group = h, ld_local = s, ld_base = mu_resulting_digest m\<rparr>"
    and C: "cbor_ok C"
  shows "continues sha C E M entries s m"
  using assms(1) unfolding continues_def load_Inr_iff [OF C]
  by (intro exI [of _ "\<lparr>ld_provider = p, ld_group = h, ld_local = s, ld_base = mu_resulting_digest m\<rparr>"]) simp

section \<open>Closing an operation fails only at a size bound\<close>

lemma row_bounded_small: "row_bounded e \<Longrightarrow> row_small e"
  by (simp add: row_bounded_def row_small_def)

lemma bounded_errors:
  "bounded_entries es = Inl e \<Longrightarrow> e = LimitExceeded"
  "bounded_batch b = Inl e \<Longrightarrow> e = LimitExceeded"
proof -
  have add: "foldE add_entry_bytes n es = Inl e \<Longrightarrow> e = LimitExceeded" for n es e
    by (induction es arbitrary: n)
      (auto simp: add_entry_bytes_def ok_or_def bindE_Inl_iff split: if_splits option.splits)
  have del: "foldE add_delete_bytes n ks = Inl e \<Longrightarrow> e = LimitExceeded" for n ks e
    by (induction ks arbitrary: n)
      (auto simp: add_delete_bytes_def ok_or_def bindE_Inl_iff split: if_splits option.splits)
  have rows: "entry_bytes es = Inl e \<Longrightarrow> e = LimitExceeded" for es e
    by (auto simp: entry_bytes_def bindE_Inl_iff dest: add split: if_splits)
  show "bounded_entries es = Inl e \<Longrightarrow> e = LimitExceeded"
    by (auto simp: bounded_entries_def bindE_Inl_iff dest: rows)
  show "bounded_batch b = Inl e \<Longrightarrow> e = LimitExceeded"
    by (auto simp: bounded_batch_def bindE_Inl_iff dest: rows del split: if_splits)
qed

lemma finish_error:
  assumes C: "cbor_ok C" and ok: "local_ok sha s" "snapshot_ok st"
    and fin: "finish sha C st s prev = Inl e"
  shows "e = LimitExceeded"
proof -
  define st' where "st' = write_opaque (key (lg_group_id s) ''state/'') (encode_fields C s) st"
  have sv: "save sha C s st = (Inr (), st')"
    using ok(1) by (simp add: save_ok_iff [OF C] st'_def)
  have st': "snapshot_ok st'" using ok(2) by (simp add: st'_def)
  have gid: "length (lg_group_id s) = 16" using ok(1) by (simp add: local_ok_def)
  have "\<exists>d. group_state_digest_from_entries sha (lg_group_id s) (snapshot_entries st' (lg_group_id s)) 1
      = Inr d" if "rows_bounded (snapshot_entries st' (lg_group_id s))"
    using that snapshot_entries_valid [OF st', of "lg_group_id s"] gid
    by (auto simp: group_state_digest_Inr_iff group_state_preimage_Inr_iff rows_bounded_def group_rows_def
        row_bounded_small intro!: le_less_trans [OF length_filter_le])
  moreover obtain b where "batch_from_provider st' (Some (group_id (lg_current s))) [] = Inr b"
    by (simp add: batch_from_provider_def batch_from_updates_Some)
  ultimately show ?thesis
    using fin sv bounded_errors
    by (auto simp: finish_def state_digest_def Let_def bindE_Inl_iff bindE_Inr_iff map_err_def
        bounded_entries_Inr_iff split: sum.splits)
qed

section \<open>Every operation is followed by the state it reported\<close>

lemma same_openmls_rows_refl [simp]: "same_openmls_rows a a"
  by (simp add: same_openmls_rows_def)

lemma same_openmls_rows_clear:
  "same_openmls_rows a (read_opaque (clear_retry_rows s st)) \<longleftrightarrow> same_openmls_rows a (read_opaque st)"
  by (auto simp: same_openmls_rows_def read_opaque_clear_unreserved)

lemma same_openmls_rows_put:
  "same_openmls_rows a (read_opaque (fold (put_row g) nws st)) \<longleftrightarrow> same_openmls_rows a (read_opaque st)"
  by (auto simp: same_openmls_rows_def read_opaque_put_row_unreserved)

lemma opened_group:
  assumes "opened sha C E M cx L"
  shows "om_load M (lg_group_id (ld_local L)) (ld_provider L) = Some (ld_group L)"
    "configured M (ld_group L) (lg_retention (ld_local L))"
    "roster_from_group sha M (ld_group L) = Inr (lg_current (ld_local L))"
    "lg_pending (ld_local L) = None \<longleftrightarrow> \<not> om_has_pending M (ld_group L)"
    "lg_incarnation_id (ld_local L) = cx_incarnation_id cx"
  using assms by (auto simp: opened_def pending_agrees_def split: option.splits)

text \<open>The common part: the group found on the rows of the closed provider.\<close>

lemma found_continues:
  assumes C: "cbor_ok C" and M: "openmls_ok sha E M" and cm: "committed sha C entries s m"
    and rows: "same_openmls_rows (row_of (apply_batch (mu_batch m) entries)) (read_opaque (exec_calls E calls st))"
    and f: "found E M (lg_group_id s) st calls g pending" "configured M g (lg_retention s)"
      "roster_from_group sha M g = Inr (lg_current s)"
    and pend: "case lg_pending s of None \<Rightarrow> \<not> pending
      | Some p \<Rightarrow> pending \<and> pending_state_sha256 sha E (lg_group_id s) (exec_calls E calls st)
          = Inr (upstream_pending_sha256 p)"
  shows "continues sha C E M entries s m"
proof -
  from f(1) obtain h where h: "om_load M (lg_group_id s) (exec_calls E calls st) = Some h"
    "same_view M g h" "om_has_pending M h = pending"
    by (auto simp: found_def)
  have "pending_agrees sha E M h (lg_pending s) (exec_calls E calls st)"
    using pend h(3) openmls_okD(4) [OF M h(1)]
    by (simp add: pending_agrees_def split: option.splits)
  from reopened_continues [OF reopened [OF C M cm rows h(1) _ _ this] C] show ?thesis
    using f(2,3) same_view_configured [OF h(2)] same_view_roster [OF h(2)] by simp
qed

lemma send_continues:
  assumes C: "cbor_ok C" and M: "openmls_ok sha E M" and L: "load sha C E M cx = Inr L"
    and ok: "send sha C E M cx signer plaintext aad = Inr r"
  shows "continues sha C E M (cx_entries cx) (ld_local L) (sn_mutation r)"
proof -
  obtain L' g calls and skp :: SerializableSigner where
    o': "opened sha C E M cx L'" and np: "lg_pending (ld_local L') = None"
    and cr: "om_create_message M skp plaintext (om_set_aad M aad (ld_group L')) (ld_provider L')
       = Some ((Some (sn_ciphertext r), g), calls)"
    and fin: "finish sha C (exec_calls E calls (ld_provider L')) (ld_local L') (lg_current (ld_local L'))
       = Inr (sn_mutation r)"
    and cm: "committed sha C (cx_entries cx) (ld_local L') (sn_mutation r)"
    by (rule send_Inr [OF C ok]) (rule that, assumption+)
  have LL: "L' = L" using L o' by (simp flip: load_Inr_iff [OF C])
  note o = o' [unfolded LL]
  note og = opened_group [OF o]
  have rows: "same_openmls_rows (row_of (apply_batch (mu_batch (sn_mutation r)) (cx_entries cx)))
      (read_opaque (exec_calls E calls (ld_provider L)))"
    by (rule finish_rows [OF C _ fin [unfolded LL]])
      (rule opened_on_exec_calls [OF opened_provider(1) [OF o]])
  show ?thesis
    by (rule found_continues [OF C M cm [unfolded LL] rows
          openmls_sendingD [OF M og(1) cr [unfolded LL]] og(2,3)])
      (use np og(4) in \<open>simp add: LL\<close>)
qed

lemma discard_continues:
  assumes C: "cbor_ok C" and M: "openmls_ok sha E M" and L: "load sha C E M cx = Inr L"
    and ok: "discard sha C E M cx b = Inr m"
  shows "continues sha C E M (cx_entries cx) ((ld_local L)\<lparr>lg_pending := None\<rparr>) m"
proof -
  obtain L' g calls where
    o': "opened sha C E M cx L'"
    and cl: "om_clear_pending_commit M (ld_group L') (ld_provider L') = Some (g, calls)"
    and fin: "finish sha C (clear_retry_rows ((ld_local L')\<lparr>lg_pending := None\<rparr>)
       (exec_calls E calls (ld_provider L'))) ((ld_local L')\<lparr>lg_pending := None\<rparr>)
       (lg_current (ld_local L')) = Inr m"
    and cm: "committed sha C (cx_entries cx) ((ld_local L')\<lparr>lg_pending := None\<rparr>) m"
    by (rule discard_Inr [OF C ok]) (rule that, assumption+)
  have LL: "L' = L" using L o' by (simp flip: load_Inr_iff [OF C])
  note o = o' [unfolded LL]
  define s where "s = (ld_local L)\<lparr>lg_pending := None\<rparr>"
  have s: "lg_group_id s = lg_group_id (ld_local L)" "lg_retention s = lg_retention (ld_local L)"
    "lg_current s = lg_current (ld_local L)" "lg_pending s = None"
    by (simp_all add: s_def)
  note og = opened_group [OF o, folded s]
  have "same_openmls_rows (row_of (apply_batch (mu_batch m) (cx_entries cx)))
      (read_opaque (clear_retry_rows s (exec_calls E calls (ld_provider L))))"
    by (rule finish_rows [OF C _ fin [unfolded LL, folded s_def]])
      (simp add: opened_on_clear opened_on_exec_calls s opened_provider(1) [OF o])
  then have rows: "same_openmls_rows (row_of (apply_batch (mu_batch m) (cx_entries cx)))
      (read_opaque (exec_calls E calls (ld_provider L)))"
    by (simp only: same_openmls_rows_clear)
  show ?thesis
    unfolding s_def [symmetric]
    by (rule found_continues [OF C M cm [unfolded LL, folded s_def] rows
          openmls_settlingD(1) [OF M og(1) cl [unfolded LL]] og(2,3)]) (simp add: s(4))
qed

lemma merge_continues:
  assumes C: "cbor_ok C" and M: "openmls_ok sha E M" and L: "load sha C E M cx = Inr L"
    and p: "lg_pending (ld_local L) = Some p" and ok: "merge sha C E M cx acceptance = Inr m"
  shows "continues sha C E M (cx_entries cx) (advanced (ld_local L) (proposed_roster p)) m"
proof -
  obtain L' g calls and q :: PendingRecord where
    o': "opened sha C E M cx L'" and q: "lg_pending (ld_local L') = Some q"
    and mg: "om_merge_pending_commit M (ld_group L') (ld_provider L') = Some (g, calls)"
    and r: "roster_from_group sha M g = Inr (proposed_roster q)"
    and fin: "finish sha C (clear_retry_rows (advanced (ld_local L') (proposed_roster q))
       (exec_calls E calls (ld_provider L'))) (advanced (ld_local L') (proposed_roster q))
       (lg_current (ld_local L')) = Inr m"
    and cm: "committed sha C (cx_entries cx) (advanced (ld_local L') (proposed_roster q)) m"
    by (rule merge_Inr [OF C ok]) (rule that, assumption+)
  have LL: "L' = L" using L o' by (simp flip: load_Inr_iff [OF C])
  have qp: "q = p" using q p LL by simp
  note o = o' [unfolded LL]
  define s where "s = advanced (ld_local L) (proposed_roster p)"
  have s: "lg_group_id s = lg_group_id (ld_local L)" "lg_retention s = lg_retention (ld_local L)"
    "lg_current s = proposed_roster p" "lg_pending s = None"
    by (simp_all add: s_def advanced_def)
  note og = opened_group [OF o, folded s(1,2)]
  note st = openmls_settlingD(2) [OF M og(1) mg [unfolded LL]]
  have "same_openmls_rows (row_of (apply_batch (mu_batch m) (cx_entries cx)))
      (read_opaque (clear_retry_rows s (exec_calls E calls (ld_provider L))))"
    by (rule finish_rows [OF C _ fin [unfolded LL qp, folded s_def]])
      (simp add: opened_on_clear opened_on_exec_calls s opened_provider(1) [OF o])
  then have rows: "same_openmls_rows (row_of (apply_batch (mu_batch m) (cx_entries cx)))
      (read_opaque (exec_calls E calls (ld_provider L)))"
    by (simp only: same_openmls_rows_clear)
  have cfg: "configured M g (lg_retention s)" using st og(2) by (simp add: configured_def)
  have ros: "roster_from_group sha M g = Inr (lg_current s)" using r by (simp add: s qp)
  show ?thesis
    unfolding s_def [symmetric]
    by (rule found_continues [OF C M cm [unfolded LL qp, folded s_def] rows
          st [THEN conjunct2, THEN conjunct2] cfg ros]) (simp add: s(4))
qed

text \<open>A successful preparation, on the operation's own rows.\<close>

lemma retry_bytes_cong:
  assumes "read_opaque a = read_opaque b"
  shows "retry_bytes sha s b = Inr x \<longleftrightarrow> retry_bytes sha s a = Inr x"
  by (simp add: retry_bytes_def bindE_Inr_iff validate_retry_rows_Inr_iff assms)

lemma prepare_opened:
  assumes C: "cbor_ok C" and M: "openmls_ok sha E M" and L: "load sha C E M cx = Inr L"
    and ok: "prepare sha C E M cx signer transition additions removals aad self = Inr r"
  obtains g calls up st2 where
    "found E M (cx_group_id cx) (ld_provider L) calls (ld_group L) True"
    "preview_roster sha M (cx_group_id cx) (exec_calls E calls (ld_provider L)) = Inr (pp_proposed r)"
    "pending_state_sha256 sha E (cx_group_id cx) (exec_calls E calls (ld_provider L)) = Inr up"
    "write_retry_rows sha (prepared_local (ld_local L) r up) (pp_commit r) (pp_welcome r)
       (pp_group_info r) (exec_calls E calls (ld_provider L)) = (Inr (), st2)"
    "finish sha C st2 (prepared_local (ld_local L) r up) (lg_current (ld_local L)) = Inr (pp_mutation r)"
    "committed sha C (cx_entries cx) (prepared_local (ld_local L) r up) (pp_mutation r)"
    "same_openmls_rows (row_of (apply_batch (mu_batch (pp_mutation r)) (cx_entries cx)))
       (read_opaque (exec_calls E calls (ld_provider L)))"
    "find (\<lambda>l. leaf_index l = om_own_leaf_index M (ld_group L)) (leaves (lg_current (ld_local L)))
       = Some (pb_author (pp_binding r))"
    "authorised_change (lg_current (ld_local L)) (pp_proposed r) additions removals self"
    "retry_bytes sha (prepared_local (ld_local L) r up)
       (from_entries (map (\<lambda>e. (entry_key e, entry_value e))
          (apply_batch (mu_batch (pp_mutation r)) (cx_entries cx))))
     = Inr (pp_commit r, pp_welcome r, pp_group_info r)"
proof -
  obtain L' keys ix bd g calls up st2 and skp :: SerializableSigner where
    o': "opened sha C E M cx L'"
    and author: "find (\<lambda>l. leaf_index l = om_own_leaf_index M (ld_group L')) (leaves (lg_current (ld_local L')))
       = Some (pb_author (pp_binding r))"
    and sc: "stage_change E M skp (lg_current (ld_local L')) keys ix self
       (om_set_aad M aad (ld_group L')) (ld_provider L') = Inr ((bd, g), exec_calls E calls (ld_provider L'))"
    and pv: "preview_roster sha M (cx_group_id cx) (exec_calls E calls (ld_provider L')) = Inr (pp_proposed r)"
    and auth: "authorised_change (lg_current (ld_local L')) (pp_proposed r) additions removals self"
    and up: "pending_state_sha256 sha E (om_group_id M g) (exec_calls E calls (ld_provider L')) = Inr up"
    and w: "write_retry_rows sha (prepared_local (ld_local L') r up) (pp_commit r) (pp_welcome r)
       (pp_group_info r) (exec_calls E calls (ld_provider L')) = (Inr (), st2)"
    and fin: "finish sha C st2 (prepared_local (ld_local L') r up) (lg_current (ld_local L')) = Inr (pp_mutation r)"
    and cm: "committed sha C (cx_entries cx) (prepared_local (ld_local L') r up) (pp_mutation r)"
    by (rule prepare_Inr [OF C ok]) (rule that, assumption+)
  have LL: "L' = L" using L o' by (simp flip: load_Inr_iff [OF C])
  note o = o' [unfolded LL]
  have gid: "lg_group_id (ld_local L) = cx_group_id cx" using o by (simp add: opened_def)
  obtain calls' where c: "exec_calls E calls (ld_provider L) = exec_calls E calls' (ld_provider L)"
    and st: "om_commit_members M skp keys (sort ix) (om_set_aad M aad (ld_group L)) (ld_provider L)
          = Some ((bd, g), calls') \<or>
        om_commit_self_update M skp (om_set_aad M aad (ld_group L)) (ld_provider L)
          = Some ((bd, g), calls')"
    by (rule stage_change_Inr [OF sc [unfolded LL]]) blast
  note sd = openmls_stagingD [OF M opened_group(1) [OF o] st, unfolded gid]
  have pl: "lg_group_id (prepared_local (ld_local L) r up) = lg_group_id (ld_local L)"
    by (simp add: prepared_local_def)
  have st2: "st2 = fold (put_row (lg_group_id (ld_local L)))
      (retry_wires (pp_commit r) (pp_welcome r) (pp_group_info r)) (exec_calls E calls (ld_provider L))"
    using w by (simp add: LL write_retry_rows_ok_iff pl)
  define s where "s = prepared_local (ld_local L) r up"
  have op: "opened_on (cx_entries cx) (lg_group_id s) st2"
    by (simp add: s_def st2 pl opened_on_put_rows opened_on_exec_calls opened_provider(1) [OF o])
  define st3 where "st3 = write_opaque (key (lg_group_id s) ''state/'') (encode_fields C s) st2"
  note fin' = fin [unfolded LL, folded s_def]
  have row: "row_of (apply_batch (mu_batch (pp_mutation r)) (cx_entries cx)) = read_opaque st3"
    unfolding st3_def by (rule finish_row_of [OF C op fin'])
  have known: "only_known_rows (lg_group_id s) (read_opaque (exec_calls E calls (ld_provider L)))"
    using opened_provider(4) [OF o]
    by (simp add: s_def pl only_known_rows_def exec_calls_reserved [folded RESERVED_def])
  have "save sha C s st2 = (Inr (), st3)"
    using fin' by (simp add: finish_Inr_iff [OF C] save_ok_iff [OF C] st3_def)
  then have "retry_bytes sha s st3 = Inr (pp_commit r, pp_welcome r, pp_group_info r)"
    using prepared_rows [OF C known w [unfolded LL, folded s_def]] by simp
  moreover have "committed sha C (cx_entries cx) s (pp_mutation r)"
    using cm by (simp add: LL s_def)
  then have "provider_from_entries (apply_batch (mu_batch (pp_mutation r)) (cx_entries cx)) 1
      (Some (lg_group_id s)) = Inr (from_entries (map (\<lambda>e. (entry_key e, entry_value e))
        (apply_batch (mu_batch (pp_mutation r)) (cx_entries cx))))"
    by (simp add: committed_def Let_def provider_from_entries_Inr_iff)
  from row_of_opened(1) [OF this] have "read_opaque (from_entries (map (\<lambda>e. (entry_key e, entry_value e))
        (apply_batch (mu_batch (pp_mutation r)) (cx_entries cx)))) = read_opaque st3"
    by (simp only: row)
  ultimately have rb: "retry_bytes sha s (from_entries (map (\<lambda>e. (entry_key e, entry_value e))
          (apply_batch (mu_batch (pp_mutation r)) (cx_entries cx))))
     = Inr (pp_commit r, pp_welcome r, pp_group_info r)"
    by (rule retry_bytes_cong [THEN iffD1, rotated])
  have "same_openmls_rows (row_of (apply_batch (mu_batch (pp_mutation r)) (cx_entries cx))) (read_opaque st2)"
    by (rule finish_rows [OF C op fin'])
  then have rows: "same_openmls_rows (row_of (apply_batch (mu_batch (pp_mutation r)) (cx_entries cx)))
      (read_opaque (exec_calls E calls' (ld_provider L)))"
    by (simp only: st2 same_openmls_rows_put c)
  show thesis
    by (rule that [OF sd(2) pv [unfolded LL c] up [unfolded LL c sd(1)] w [unfolded LL c]
          fin [unfolded LL] cm [unfolded LL] rows author [unfolded LL] auth [unfolded LL]
          rb [unfolded s_def]])
qed

lemma prepare_continues:
  assumes C: "cbor_ok C" and M: "openmls_ok sha E M" and L: "load sha C E M cx = Inr L"
    and ok: "prepare sha C E M cx signer transition additions removals aad self = Inr r"
  obtains up where "continues sha C E M (cx_entries cx) (prepared_local (ld_local L) r up) (pp_mutation r)"
    "committed sha C (cx_entries cx) (prepared_local (ld_local L) r up) (pp_mutation r)"
    "retry_bytes sha (prepared_local (ld_local L) r up)
       (from_entries (map (\<lambda>e. (entry_key e, entry_value e))
          (apply_batch (mu_batch (pp_mutation r)) (cx_entries cx))))
     = Inr (pp_commit r, pp_welcome r, pp_group_info r)"
proof -
  obtain calls up where f: "found E M (cx_group_id cx) (ld_provider L) calls (ld_group L) True"
    and up: "pending_state_sha256 sha E (cx_group_id cx) (exec_calls E calls (ld_provider L)) = Inr up"
    and cm: "committed sha C (cx_entries cx) (prepared_local (ld_local L) r up) (pp_mutation r)"
    and rows: "same_openmls_rows (row_of (apply_batch (mu_batch (pp_mutation r)) (cx_entries cx)))
       (read_opaque (exec_calls E calls (ld_provider L)))"
    and rb: "retry_bytes sha (prepared_local (ld_local L) r up)
       (from_entries (map (\<lambda>e. (entry_key e, entry_value e))
          (apply_batch (mu_batch (pp_mutation r)) (cx_entries cx))))
     = Inr (pp_commit r, pp_welcome r, pp_group_info r)"
    by (rule prepare_opened [OF C M L ok])
  from L have o: "opened sha C E M cx L" by (simp add: load_Inr_iff [OF C])
  then have gid: "lg_group_id (ld_local L) = cx_group_id cx" by (simp add: opened_def)
  have "continues sha C E M (cx_entries cx) (prepared_local (ld_local L) r up) (pp_mutation r)"
    by (rule found_continues [OF C M cm rows])
      (use f up gid opened_group(2,3) [OF o] in \<open>simp_all add: prepared_local_def\<close>)
  with that rb cm show thesis by blast
qed

lemma create_continues:
  assumes C: "cbor_ok C" and M: "openmls_ok sha E M"
    and ok: "create sha C E M (now, now', now'') config signer gid incarnation owner credential
      entries version = Inr m"
  obtains s where "new_state sha incarnation (max_past_epochs config) (mu_resulting m) = Inr s"
    "group_id (mu_resulting m) = gid" "continues sha C E M entries s m"
proof -
  obtain st1 g calls s and cred :: "'c \<times> bytes" and skp :: SerializableSigner where
    cfg: "config = (default_config Mls128DhkemX25519Aes128gcmSha256Ed25519)
       \<lparr>max_past_epochs := max_past_epochs config\<rparr>"
    and ng: "om_new_group M skp (to_create_config now'' config) gid cred st1 = Some (g, calls)"
    and r: "roster_from_group sha M g = Inr (lg_current s)"
    and s: "new_state sha incarnation (max_past_epochs config) (lg_current s) = Inr s"
    and fin: "finish sha C (exec_calls E calls st1) s (lg_current s) = Inr m"
    and cm: "committed sha C entries s m"
    and op: "opened_on entries (lg_group_id s) (exec_calls E calls st1)"
    by (rule create_Inr [OF C ok]) (rule that, assumption+)
  note law = openmls_creatingD [OF M ng]
  from s have sr: "lg_retention s = max_past_epochs config" "lg_pending s = None"
      "lg_group_id s = group_id (lg_current s)"
    by (simp_all add: new_state_Inr_iff local_ok_def) (metis LocalGroupState.select_convs)+
  have gid: "lg_group_id s = gid" using roster_from_group_Inr(1) [OF r] law sr(3) by simp
  have "ciphersuite config = Mls128DhkemX25519Aes128gcmSha256Ed25519"
    by (subst cfg) (simp add: default_config_def)
  then have cg: "configured M g (lg_retention s)"
    using law cfg [symmetric] sr(1) by (simp add: configured_def)
  have f: "found E M (lg_group_id s) st1 calls g False" using law gid by simp
  have "continues sha C E M entries s m"
    by (rule found_continues [OF C M cm finish_rows [OF C op fin] f cg r]) (simp add: sr)
  moreover have "mu_resulting m = lg_current s" using cm by (simp add: committed_def Let_def)
  ultimately show thesis using that s gid sr(3) by simp
qed

section \<open>From preparation to acceptance\<close>

text \<open>
  The prepared Commit is returned by \<open>inspect_pending\<close> as it was prepared, with an empty batch.
\<close>

lemma prepare_inspect:
  assumes C: "cbor_ok C" and M: "openmls_ok sha E M"
    and ok: "prepare sha C E M cx signer transition additions removals aad self = Inr r"
  shows "inspect_pending sha C E M
      (context_after (cx_incarnation_id cx) (pp_mutation r) (cx_entries cx))
    = Inr (Some (r\<lparr>pp_mutation := \<lparr>mu_previous = mu_resulting (pp_mutation r),
        mu_resulting = mu_resulting (pp_mutation r),
        mu_resulting_digest = mu_resulting_digest (pp_mutation r),
        mu_retention = mu_retention (pp_mutation r),
        mu_batch = \<lparr>upserts = [], deletes = [], deleted_group_ids = [],
          storage_format_version = 1\<rparr>\<rparr>\<rparr>))"
proof -
  from ok obtain L where L: "load sha C E M cx = Inr L"
    by (auto simp: prepare_def success_simps)
  then have o: "opened sha C E M cx L" by (simp add: load_Inr_iff [OF C])
  obtain up where ct: "continues sha C E M (cx_entries cx) (prepared_local (ld_local L) r up) (pp_mutation r)"
    and cm: "committed sha C (cx_entries cx) (prepared_local (ld_local L) r up) (pp_mutation r)"
    and rb: "retry_bytes sha (prepared_local (ld_local L) r up)
       (from_entries (map (\<lambda>e. (entry_key e, entry_value e))
          (apply_batch (mu_batch (pp_mutation r)) (cx_entries cx))))
     = Inr (pp_commit r, pp_welcome r, pp_group_info r)"
    by (rule prepare_continues [OF C M L ok])
  have inc: "lg_incarnation_id (prepared_local (ld_local L) r up) = cx_incarnation_id cx"
    using o by (simp add: prepared_local_def opened_def)
  from ct obtain L2 where
    L2: "load sha C E M (context_after (cx_incarnation_id cx) (pp_mutation r) (cx_entries cx)) = Inr L2"
    "ld_local L2 = prepared_local (ld_local L) r up" "ld_base L2 = mu_resulting_digest (pp_mutation r)"
    by (auto simp: continues_def inc)
  then have p2: "ld_provider L2 = from_entries (map (\<lambda>e. (entry_key e, entry_value e))
          (apply_batch (mu_batch (pp_mutation r)) (cx_entries cx)))"
    unfolding load_Inr_iff [OF C] opened_def provider_from_entries_Inr_iff
    by (simp add: context_after_def)
  from cm have "mu_resulting (pp_mutation r) = lg_current (ld_local L)"
      "mu_retention (pp_mutation r) = lg_retention (ld_local L)"
    by (simp_all add: committed_def Let_def prepared_local_def)
  then show ?thesis
    using L2 rb by (simp add: inspect_pending_def Let_def prepared_local_def p2)
qed

text \<open>
  The acceptance that names the prepared Commit merges it: OpenMLS reaches the previewed roster,
  and the only failure left is the size bound on the resulting rows.
\<close>

definition acceptance_of :: "Prepared \<Rightarrow> MlsCommitAcceptance" where
  "acceptance_of r = \<lparr>ac_binding = pp_binding r, ac_resulting_state = expected (pp_proposed r),
     ac_preparation_base_group_state_sha256 = pp_preparation_base r\<rparr>"

lemma finish_resulting: "finish sha C st s prev = Inr m \<Longrightarrow> mu_resulting m = lg_current s"
  by (auto simp: finish_def Let_def bindE_Inr_iff split: prod.splits sum.splits)

lemma advanced_current: "lg_current (advanced s r) = r"
  by (simp add: advanced_def)

lemma prepare_merge:
  assumes C: "cbor_ok C" and M: "openmls_ok sha E M"
    and ok: "prepare sha C E M cx signer transition additions removals aad self = Inr r"
  shows "(\<exists>m. merge sha C E M (context_after (cx_incarnation_id cx) (pp_mutation r) (cx_entries cx))
        (acceptance_of r) = Inr m \<and> mu_resulting m = pp_proposed r) \<or>
    merge sha C E M (context_after (cx_incarnation_id cx) (pp_mutation r) (cx_entries cx))
        (acceptance_of r) = Inl LimitExceeded"
proof -
  from ok obtain L where L: "load sha C E M cx = Inr L" and act: "om_is_active M (ld_group L)"
    by (auto simp: prepare_def success_simps)
  then have o: "opened sha C E M cx L" by (simp add: load_Inr_iff [OF C])
  obtain up where ct: "continues sha C E M (cx_entries cx) (prepared_local (ld_local L) r up) (pp_mutation r)"
    by (rule prepare_continues [OF C M L ok])
  obtain calls where f: "found E M (cx_group_id cx) (ld_provider L) calls (ld_group L) True"
    and pv: "preview_roster sha M (cx_group_id cx) (exec_calls E calls (ld_provider L)) = Inr (pp_proposed r)"
    and rows: "same_openmls_rows (row_of (apply_batch (mu_batch (pp_mutation r)) (cx_entries cx)))
       (read_opaque (exec_calls E calls (ld_provider L)))"
    and author: "find (\<lambda>l. leaf_index l = om_own_leaf_index M (ld_group L)) (leaves (lg_current (ld_local L)))
       = Some (pb_author (pp_binding r))"
    by (rule prepare_opened [OF C M L ok])
  have inc: "lg_incarnation_id (prepared_local (ld_local L) r up) = cx_incarnation_id cx"
    and gid: "group_id (lg_current (ld_local L)) = cx_group_id cx"
    using o by (simp_all add: prepared_local_def opened_def local_ok_def)
  define cx2 where "cx2 = context_after (cx_incarnation_id cx) (pp_mutation r) (cx_entries cx)"
  from ct obtain L2 where L2: "load sha C E M cx2 = Inr L2" "ld_local L2 = prepared_local (ld_local L) r up"
    by (auto simp: continues_def inc cx2_def)
  then have o2: "opened sha C E M cx2 L2" by (simp add: load_Inr_iff [OF C])
  define s where "s = ld_local L2"
  have s: "lg_pending s = Some \<lparr>binding = pp_binding r, proposed_roster = pp_proposed r,
     preparation_base_sha256 = pp_preparation_base r, upstream_pending_sha256 = up\<rparr>" "local_ok sha s"
    "lg_group_id s = cx_group_id cx"
    using L2(2) o o2 by (simp_all add: s_def prepared_local_def opened_def)
  have same: "same_openmls_rows (read_opaque (ld_provider L2)) (read_opaque (exec_calls E calls (ld_provider L)))"
    using rows opened_provider(2) [OF o2] by (simp add: cx2_def context_after_def)
  obtain h where h: "om_load M (cx_group_id cx) (exec_calls E calls (ld_provider L)) = Some h"
    "same_view M (ld_group L) h"
    using f by (auto simp: found_def)
  have hL2: "ld_group L2 = h"
    using opened_group(1) [OF o2] s(3) h(1) openmls_okD(2) [OF M same] by (simp add: s_def)
  obtain pvs g0 g1 calls1 where
    p: "read_opaque pvs = read_opaque (exec_calls E calls (ld_provider L))"
    "om_load M (cx_group_id cx) pvs = Some g0" "om_merge_pending_commit M g0 pvs = Some (g1, calls1)"
    "roster_from_group sha M g1 = Inr (pp_proposed r)"
    by (rule preview_roster_Inr [OF pv])
      (use opened_provider(1) [OF o] in \<open>auto simp: opened_on_def\<close>)
  have same': "same_openmls_rows (read_opaque (ld_provider L2)) (read_opaque pvs)" using same p(1) by simp
  have mg: "om_merge_pending_commit M (ld_group L2) (ld_provider L2) = Some (g1, calls1)"
    using p(2,3) h(1) openmls_okD(2) [OF M same', of "cx_group_id cx"]
      openmls_okD(2) [OF M same, of "cx_group_id cx"] openmls_okD(3) [OF M same'] hL2 by simp
  have adv: "advance sha s (pp_proposed r) = Inr (advanced s (pp_proposed r))"
    using s by (simp add: advance_Inr_iff local_ok_def pending_ok_def Let_def)
  then have ok': "local_ok sha (advanced s (pp_proposed r))" by (simp add: advance_Inr_iff advanced_ok)
  have "om_is_active M (ld_group L2)" "om_own_leaf_index M (ld_group L2) = leaf_index (pb_author (pp_binding r))"
    using act h(2) author by (auto simp: hL2 same_view_def find_Some_iff)
  then have eq: "merge sha C E M cx2 (acceptance_of r) =
      finish sha C (clear_retry_rows (advanced s (pp_proposed r)) (exec_calls E calls1 (ld_provider L2)))
        (advanced s (pp_proposed r)) (lg_current s)"
    using L2(1) s(1) mg p(4) adv
    by (simp add: merge_def acceptance_of_def Let_def ok_or_def on_provider_def flip: s_def)
  have "snapshot_ok (clear_retry_rows (advanced s (pp_proposed r)) (exec_calls E calls1 (ld_provider L2)))"
    using opened_on_clear [OF opened_on_exec_calls [OF opened_provider(1) [OF o2]]]
    by (auto simp: opened_on_def)
  note err = finish_error [OF C ok' this]
  show ?thesis
  proof (cases "merge sha C E M cx2 (acceptance_of r)")
    case (Inl e)
    with eq err have "e = LimitExceeded" by metis
    with Inl show ?thesis by (simp add: cx2_def)
  next
    case (Inr m)
    with eq have "mu_resulting m = pp_proposed r"
      using finish_resulting by (metis advanced_current)
    with Inr show ?thesis by (simp add: cx2_def)
  qed
qed

end
