(* ===== verification/Instances.thy ===== *)
theory Instances
  imports Continuity Cursor
begin

section \<open>Digest\<close>

definition sha0 :: "bytes \<Rightarrow> bytes" where
  "sha0 b = replicate 31 0 @ [foldr (+) b 0]"

lemma length_sha0 [simp]: "length (sha0 b) = 32"
  by (simp add: sha0_def)

section \<open>CBOR with eight-byte heads\<close>

definition be_item :: "byte \<Rightarrow> nat \<Rightarrow> bytes \<Rightarrow> ('n::len word \<times> bytes) option" where
  "be_item tag k b = (if k < length b \<and> hd b = tag
     then Some (word_of_be (take k (tl b)), drop k (tl b)) else None)"

lemma be_item_be_bytes:
  "LENGTH('n) = 8 * k \<Longrightarrow> be_item tag k (tag # be_bytes k (w :: 'n::len word) @ r) = Some (w, r)"
  by (simp add: be_item_def word_of_be_bytes)

definition C0 :: cbor where
  "C0 = \<lparr>
     cb_array = (\<lambda>n. 155 # be64 n),
     cb_u16 = (\<lambda>n. 25 # be16 n),
     cb_u32 = (\<lambda>n. 26 # be32 n),
     cb_u64 = (\<lambda>n. 27 # be64 n),
     cb_bytes = (\<lambda>b. 91 # be64 (of_nat (length b)) @ b),
     cb_null = [246],
     cd_array = (\<lambda>b. map_option (\<lambda>(n, r). (Some n, r)) (be_item 155 8 b)),
     cd_u16 = be_item 25 2,
     cd_u32 = be_item 26 4,
     cd_u64 = be_item 27 8,
     cd_bytes = (\<lambda>b. Option.bind (be_item 91 8 b) (\<lambda>(n :: u64, r).
        if unat n \<le> length r then Some (take (unat n) r, drop (unat n) r) else None)),
     cd_is_null = (\<lambda>b. case b of [] \<Rightarrow> None | t # _ \<Rightarrow> Some (t = 246)),
     cd_null = (\<lambda>b. case b of [] \<Rightarrow> None | t # r \<Rightarrow> if t = 246 then Some r else None)\<rparr>"

lemma cbor_ok_C0: "cbor_ok C0"
proof -
  have "unat (of_nat (length b) :: u64) = length b" if "length b < 2 ^ 64" for b :: bytes
    using that by (simp add: unat_of_nat take_bit_nat_eq_self)
  then show ?thesis
    by (simp add: cbor_ok_def C0_def be16_def be32_def be64_def be_item_be_bytes)
qed

section \<open>Serialisation\<close>

definition seq_enc :: "bytes list \<Rightarrow> bytes" where
  "seq_enc bs = concat (map (\<lambda>b. concat (map (\<lambda>x. [1, x]) b) @ [0]) bs)"

fun seq_dec :: "bytes \<Rightarrow> bytes \<Rightarrow> bytes list option" where
  "seq_dec [] cur = (if cur = [] then Some [] else None)"
| "seq_dec [t] cur = (if t = 0 then Some [cur] else None)"
| "seq_dec (t # x # r) cur =
     (if t = 0 then map_option (Cons cur) (seq_dec (x # r) []) else seq_dec r (cur @ [x]))"

lemma seq_dec_item:
  "seq_dec (concat (map (\<lambda>x. [1, x]) b) @ 0 # r) cur = map_option (Cons (cur @ b)) (seq_dec r [])"
proof (induction b arbitrary: cur)
  case Nil
  show ?case by (cases r) simp_all
qed simp

lemma seq_dec_enc: "seq_dec (seq_enc bs) [] = Some bs"
  by (induction bs) (simp_all add: seq_enc_def seq_dec_item)

definition E0 :: "bytes storage_env" where
  "E0 = \<lparr>
     current_version = 1, to_vec = Some, from_slice = Some, to_value = Some,
     pair_value = (\<lambda>a b. seq_enc [a, b]),
     list_value = seq_enc, value_list = (\<lambda>b. seq_dec b []),
     seq_value = seq_enc, value_seq = (\<lambda>b. seq_dec b []),
     u32_value = be32, gid_value = (\<lambda>b. b), signature_id_value = (\<lambda>b. b),
     signer_value = (\<lambda>a b c. seq_enc [a, b, be16 c])\<rparr>"

lemma seq_enc_inj: "seq_enc a = seq_enc b \<longleftrightarrow> a = b"
  by (metis option.inject seq_dec_enc)

lemma serde_ok_E0: "serde_ok E0"
  by (simp add: serde_ok_def E0_def seq_dec_enc seq_enc_inj)

section \<open>A one-member OpenMLS\<close>

text \<open>
  A group of one member whose persistent state is its epoch and whether a Commit is pending,
  stored in its group state row. A message is its kind, its epoch and its payload; a Commit
  (a self update) advances the epoch. It is small, but it satisfies every law that the
  properties assume, and every operation of the lifecycle succeeds on it.
\<close>

record toy_group =
  tg_id :: bytes
  tg_epoch :: u64
  tg_pending :: bool

definition gid0 :: bytes where "gid0 = replicate 16 54"
definition identity0 :: bytes where "identity0 = replicate 45 7"
definition public0 :: bytes where "public0 = replicate 32 9"
definition aad0 :: bytes where "aad0 = [1]"

definition config0 :: MlsGroupConfig where
  "config0 = (default_config Mls128DhkemX25519Aes128gcmSha256Ed25519)\<lparr>max_past_epochs := 2\<rparr>"

definition toy_key :: "bytes \<Rightarrow> bytes" where
  "toy_key gid = GROUP_STATE_LABEL @ gid @ be16 1"

definition toy_bytes :: "u64 \<Rightarrow> bool \<Rightarrow> bytes" where
  "toy_bytes e pending = (if pending then 1 else 0) # be64 e"

definition toy_parse :: "bytes \<Rightarrow> bytes \<Rightarrow> toy_group option" where
  "toy_parse gid b = (case b of [] \<Rightarrow> None
     | p # e \<Rightarrow> Some \<lparr>tg_id = gid, tg_epoch = word_of_be e, tg_pending = (p \<noteq> 0)\<rparr>)"

definition toy_store :: "toy_group \<Rightarrow> bytes storage_call list" where
  "toy_store g = [WriteGroupState (tg_id g) (toy_bytes (tg_epoch g) (tg_pending g))]"

definition toy_content :: "bytes \<Rightarrow> bytes content" where
  "toy_content x = (case x of
     k # e # p \<Rightarrow> if k = 0 then ApplicationMessage p else if k = 1 then StagedCommitMessage p
       else ProposalMessage p
   | _ \<Rightarrow> ApplicationMessage [])"

definition toy_message_epoch :: "bytes \<Rightarrow> u64" where
  "toy_message_epoch x = (case x of k # e # p \<Rightarrow> ucast e | _ \<Rightarrow> 0)"

definition toy_advance :: "toy_group \<Rightarrow> toy_group" where
  "toy_advance g = g\<lparr>tg_epoch := tg_epoch g + 1, tg_pending := False\<rparr>"

definition M0 :: "(bytes, toy_group, bytes) openmls" where
  "M0 = \<lparr>
     om_signer_json = (\<lambda>b. Some \<lparr>ss_private = b, ss_public = public0, ss_scheme = 2055\<rparr>),
     om_scheme_known = (\<lambda>s. s = 2055),
     om_signature_algorithm = (\<lambda>_. 2055),
     om_store_signer = (\<lambda>s _. Some ((), [WriteSignatureKeyPair (ss_public s) (ss_private s)])),
     om_credential = Some,
     om_basic_credential = (\<lambda>i. i),
     om_message = (\<lambda>b. Some (b, [])),
     om_protocol_message = Some,
     om_message_group_id = (\<lambda>_. gid0),
     om_message_epoch = toy_message_epoch,
     om_welcome = Some,
     om_welcome_refs = (\<lambda>x. [x]),
     om_key_package_encoded = Some,
     om_ratchet_tree = Some,
     om_stage_welcome = (\<lambda>c w _ _. if c = to_join_config config0 then Some (w, []) else None),
     om_into_group = (\<lambda>w _. let g = \<lparr>tg_id = gid0, tg_epoch = 3, tg_pending = False\<rparr> in
        Some (g, toy_store g)),
     om_key_package_in = Some,
     om_key_package_validate = Some,
     om_key_package_identity = (\<lambda>_. Some identity0),
     om_key_package_signature_key = (\<lambda>_. public0),
     om_build_key_package = (\<lambda>_ s _ _. Some (Some (ss_public s), [WriteKeyPackage (ss_public s) (ss_public s)])),
     om_load = (\<lambda>gid st. Option.bind (read_opaque st (toy_key gid)) (toy_parse gid)),
     om_group_id = tg_id,
     om_epoch = tg_epoch,
     om_members = (\<lambda>_. [(0, Some identity0, public0)]),
     om_member_key = (\<lambda>_ i. if i = 0 then Some public0 else None),
     om_own_leaf_index = (\<lambda>_. 0),
     om_is_active = (\<lambda>_. True),
     om_has_pending = tg_pending,
     om_configuration = (\<lambda>_. to_join_config config0),
     om_ciphersuite = (\<lambda>_. MLS_128_DHKEMX25519_AES128GCM_SHA256_Ed25519),
     om_set_aad = (\<lambda>_ g. g),
     om_new_group = (\<lambda>_ c gid _ _.
        if cc_join_config c = to_join_config config0
           \<and> cc_ciphersuite c = MLS_128_DHKEMX25519_AES128GCM_SHA256_Ed25519
        then let g = \<lparr>tg_id = gid, tg_epoch = 0, tg_pending = False\<rparr> in Some (g, toy_store g)
        else None),
     om_commit_members = (\<lambda>_ _ _ _ _. None),
     om_commit_self_update = (\<lambda>_ g _. if tg_pending g then None else
        let g' = g\<lparr>tg_pending := True\<rparr> in
        Some ((\<lparr>bd_commit = Some [1, ucast (tg_epoch g)], bd_welcome = None, bd_group_info = None\<rparr>, g'),
          toy_store g')),
     om_merge_pending_commit = (\<lambda>g _. if tg_pending g
        then Some (toy_advance g, toy_store (toy_advance g)) else None),
     om_clear_pending_commit = (\<lambda>g _. let g' = g\<lparr>tg_pending := False\<rparr> in Some (g', toy_store g')),
     om_create_message = (\<lambda>_ p g _. Some ((Some (0 # ucast (tg_epoch g) # p), g),
        [WriteMessageSecrets (tg_id g) p])),
     om_process_message = (\<lambda>x g _. Inr ((\<lparr>pr_aad = aad0, pr_epoch = toy_message_epoch x,
        pr_sender = Member 0, pr_basic_identity = Some identity0, pr_content = toy_content x\<rparr>, g),
        [WriteMessageSecrets (tg_id g) x])),
     om_merge_staged_commit = (\<lambda>_ g _. Some (toy_advance g, toy_store (toy_advance g))),
     om_store_pending_proposal = (\<lambda>p g _. Some (g, [QueueProposal (tg_id g) p p])),
     om_proposal = (\<lambda>_. Remove),
     om_delete = (\<lambda>g _. Some ((), [DeleteGroupState (tg_id g)]))\<rparr>"

lemma serde_E0_sel [simp]:
  "current_version E0 = 1" "to_vec E0 b = Some b" "from_slice E0 b = Some b"
  "to_value E0 b = Some b" "gid_value E0 b = b" "signature_id_value E0 b = b"
  by (simp_all add: E0_def)

lemma write_val_E0: "write_val E0 label k v st = (Inr (), kv_write (label @ k @ be16 1) v st)"
  by (simp add: write_val_def build_key_serde_def build_key_def serialize_def ok_or_def run_bindS)

lemma exec_toy_store: "exec_calls E0 (toy_store g) st = kv_write (toy_key (tg_id g)) (toy_bytes (tg_epoch g) (tg_pending g)) st"
  by (simp add: exec_calls_def toy_store_def write_group_state_def write_val_E0 toy_key_def)

lemma toy_parse_bytes [simp]: "toy_parse gid (toy_bytes e p) = Some \<lparr>tg_id = gid, tg_epoch = e, tg_pending = p\<rparr>"
  by (simp add: toy_parse_def toy_bytes_def be64_def word_of_be_bytes)

lemma toy_parse_id: "toy_parse gid b = Some g \<Longrightarrow> tg_id g = gid"
  by (auto simp: toy_parse_def split: list.splits)

lemma exec_message_secrets: "exec_calls E0 [WriteMessageSecrets k v] st = kv_write (MESSAGE_SECRETS_LABEL @ k @ be16 1) v st"
  by (simp add: exec_calls_def write_message_secrets_def write_val_E0)

lemma toy_key_not_secrets: "toy_key g \<noteq> MESSAGE_SECRETS_LABEL @ r"
proof -
  have "hd (toy_key g) \<noteq> hd (MESSAGE_SECRETS_LABEL @ r)"
    by (simp add: toy_key_def GROUP_STATE_LABEL_def MESSAGE_SECRETS_LABEL_def ascii_def)
  then show ?thesis by metis
qed

lemma toy_key_unreserved: "\<not> starts_with (toy_key g) RESERVED"
  using parallel_not_starts_with [OF labels_reserved_parallel [of GROUP_STATE_LABEL]]
  by (simp add: toy_key_def RESERVED_def)

lemma openmls_ok_M0: "openmls_ok sha0 E0 M0"
proof -
  have frame: "row_frame M0"
    using toy_key_unreserved toy_parse_id
    by (auto simp: row_frame_def M0_def same_openmls_rows_def bind_eq_Some_conv)
  have send: "sending_persists E0 M0"
    using toy_key_not_secrets
    by (auto simp: sending_persists_def found_def M0_def same_view_def exec_message_secrets row_simps
        split: list.splits)
  have stage: "staging_persists E0 M0"
    by (auto simp: staging_persists_def found_def M0_def same_view_def exec_toy_store row_simps
        bind_eq_Some_conv Let_def dest!: toy_parse_id split: if_splits)
  have settle: "settling_persists E0 M0"
    by (auto simp: settling_persists_def found_def M0_def same_view_def exec_toy_store row_simps
        toy_advance_def bind_eq_Some_conv Let_def dest!: toy_parse_id split: if_splits)
  have new: "creating_persists E0 M0"
    by (auto simp: creating_persists_def found_def M0_def same_view_def exec_toy_store row_simps
        to_create_config_def Let_def split: if_splits)
  from frame send stage settle new show ?thesis by (simp add: openmls_ok_def)
qed

end
