(* ===== verification/ResyncInstance.thy ===== *)
theory ResyncInstance
  imports ResyncPublicLaws Instances
begin

text \<open>
  A concrete external resynchronisation for the witnesses: two published GroupInfos and the
  external Commit between them, written in the grammar of the profile, and the public groups
  \<open>P0\<close> that accept them. The group has two leaves; the Commit gives the second one a new key.
\<close>

section \<open>Wire messages\<close>

definition tls_leaf0 :: bytes where
  "tls_leaf0 = tls_vector (replicate 32 0) @ tls_vector (replicate 32 0) @ be16 1
     @ tls_vector (replicate 45 0) @ concat (replicate 5 (tls_vector [])) @ [2] @ tls_vector []
     @ tls_vector (replicate 64 0)"

definition tls_tree0 :: bytes where
  "tls_tree0 = tls_vector ([1, 1] @ tls_leaf0)"

definition group_info0 :: "byte \<Rightarrow> bytes" where
  "group_info0 x = be16 1 @ be16 4 @ be16 1 @ be16 1 @ tls_vector gid0 @ replicate 8 0
     @ tls_vector (replicate 32 0) @ tls_vector [] @ tls_vector []
     @ tls_vector (be16 2 @ tls_vector tls_tree0 @ be16 4 @ tls_vector (tls_vector (replicate 32 0)))
     @ tls_vector (replicate 32 0) @ replicate 4 0 @ tls_vector (replicate 64 x)"

definition commit0 :: bytes where
  "commit0 = be16 1 @ be16 1 @ tls_vector gid0 @ replicate 8 0 @ [4] @ tls_vector aad0 @ [3]
     @ tls_vector ([1] @ be16 6 @ tls_vector (replicate 32 0) @ [1] @ be16 3 @ replicate 4 0)
     @ [1] @ tls_leaf0 @ tls_vector [] @ tls_vector (replicate 64 0) @ tls_vector (replicate 32 0)"

lemma vec_I: "length v \<le> mx \<Longrightarrow> v \<in> L \<Longrightarrow> tls_vector v \<in> vec mx L"
  by (auto simp: vec_def)

lemma field_I: "length v = n \<Longrightarrow> tls_vector v \<in> field_of n"
  by (simp add: field_of_def vec_I)

lemma seqL_I: "a \<in> A \<Longrightarrow> b \<in> seqL As \<Longrightarrow> a @ b \<in> seqL (A # As)"
  by (auto simp: seqL_Cons)

lemma tls_vector_length: "length (tls_vector v) \<le> 4 + length v"
  by (simp add: tls_vector_def Let_def)

lemma tls_small: "length v < 64 \<Longrightarrow> length (tls_vector v) = 1 + length v"
  by (simp add: tls_vector_def)

lemma tls_medium: "64 \<le> length v \<Longrightarrow> length v < 16384 \<Longrightarrow> length (tls_vector v) = 2 + length v"
  by (simp add: tls_vector_def Let_def)

lemma list_of_Nil: "[] \<in> list_of n L"
  by (auto simp: list_of_def intro: exI [of _ "[]"])

lemma capabilities_shape: "concat (replicate 5 (tls_vector [])) \<in> seqL (replicate 5 capability_shape)"
proof -
  have c: "tls_vector [] \<in> capability_shape" by (simp add: capability_shape_def vec_I)
  have "concat (replicate n (tls_vector [])) \<in> seqL (replicate n capability_shape)" for n
    by (induction n) (simp_all add: seqL_I [OF c])
  then show ?thesis .
qed

lemma tls_leaf0_shape: "tls_leaf0 \<in> leaf_shape"
proof -
  have "[2] \<in> leaf_source_shape" "tls_vector [] \<in> extensions_shape"
    by (simp_all add: leaf_source_shape_def extensions_shape_def vec_I list_of_Nil)
  then show ?thesis
    unfolding tls_leaf0_def leaf_shape_def
    by (intro seqL_I capabilities_shape) (simp_all add: field_I)
qed

lemma tls_leaf0_length: "length tls_leaf0 = 187"
  by (simp add: tls_leaf0_def tls_small tls_medium length_concat sum_list_replicate)

lemma tls_tree0_shape: "tls_tree0 \<in> tree_shape"
proof -
  let ?n = "[1, 1] @ tls_leaf0"
  have leaf: "?n \<in> leaf_node_shape" unfolding leaf_node_shape_def
    by (intro seqL_I) (simp_all add: tls_leaf0_shape)
  then have "set [?n] \<subseteq> node_shape" "leaf_nodes [?n] = 1"
    by (simp_all add: node_shape_def)
  moreover have "length (concat [?n]) \<le> MAX_MLS_BYTES"
    by (simp add: tls_leaf0_length MAX_MLS_BYTES_def)
  moreover have "tls_tree0 = tls_vector (concat [?n])" by (simp add: tls_tree0_def)
  ultimately show ?thesis
    unfolding tree_shape_def mem_Collect_eq
    by (intro exI [of _ "[?n]"]) (simp add: MAX_TREE_NODES_def RS_MAX_LEAVES_def)
qed

lemma tls_tree0_length: "length tls_tree0 = 191"
  by (simp add: tls_tree0_def tls_medium tls_leaf0_length)

lemma gid0_length: "length gid0 = 16"
  by (simp add: gid0_def)

lemma group_info0_accepted: "Preflight.group_info (group_info0 x) = Inr ()"
  unfolding group_info_iff
proof
  show "length (group_info0 x) \<le> MAX_MLS_BYTES"
    by (simp add: group_info0_def tls_small tls_medium tls_tree0_length gid0_length MAX_MLS_BYTES_def)
  have e1: "be16 2 @ tls_vector tls_tree0 \<in> tree_extension_shape"
    unfolding tree_extension_shape_def
    by (intro seqL_I) (simp_all add: vec_I tls_tree0_shape tls_tree0_length MAX_MLS_BYTES_def)
  have e2: "be16 4 @ tls_vector (tls_vector (replicate 32 0)) \<in> external_pub_shape"
    unfolding external_pub_shape_def
    by (intro seqL_I) (simp_all add: vec_I field_I tls_small MAX_MLS_BYTES_def)
  have "(be16 2 @ tls_vector tls_tree0) @ be16 4 @ tls_vector (tls_vector (replicate 32 0))
      \<in> seqL [tree_extension_shape, external_pub_shape]"
    by (rule seqL_I [OF e1]) (simp add: e2)
  then have exts: "tls_vector (be16 2 @ tls_vector tls_tree0 @ be16 4 @ tls_vector (tls_vector (replicate 32 0)))
      \<in> vec MAX_MLS_BYTES (seqL [tree_extension_shape, external_pub_shape]
       \<union> seqL [external_pub_shape, tree_extension_shape])"
    by (intro vec_I) (simp_all add: tls_medium tls_small tls_tree0_length MAX_MLS_BYTES_def)
  have "tls_vector (replicate 32 0) @ tls_vector [] \<in> seqL [field_of 32, transcript_shape (replicate 8 0)]"
    by (intro seqL_I) (simp_all add: field_I transcript_shape_def vec_I)
  then have ep: "replicate 8 0 @ tls_vector (replicate 32 0) @ tls_vector [] \<in> epoch_shape"
    unfolding epoch_shape_def by fastforce
  have "group_info0 x = (be16 1 @ be16 4 @ be16 1 @ be16 1) @ tls_vector gid0 @
      (replicate 8 0 @ tls_vector (replicate 32 0) @ tls_vector []) @ tls_vector [] @
      tls_vector (be16 2 @ tls_vector tls_tree0 @ be16 4 @ tls_vector (tls_vector (replicate 32 0))) @
      tls_vector (replicate 32 0) @ replicate 4 0 @ tls_vector (replicate 64 x)"
    by (simp only: group_info0_def append_assoc)
  also have "\<dots> \<in> group_info_shape"
    unfolding group_info_shape_def
    by (intro seqL_I ep exts) (simp_all add: field_I gid0_length)
  finally show "group_info0 x \<in> group_info_shape" .
qed

lemma commit0_accepted: "external_commit commit0 = Inr ()"
  unfolding external_commit_iff
proof
  show "length commit0 \<le> MAX_MLS_BYTES"
    by (simp add: commit0_def tls_small tls_medium tls_leaf0_length gid0_length aad0_def MAX_MLS_BYTES_def)
  have i: "[1] @ be16 6 @ tls_vector (replicate 32 0) \<in> init_proposal_shape"
    unfolding init_proposal_shape_def by (intro seqL_I) (simp_all add: field_I)
  have r: "[1] @ be16 3 @ replicate 4 0 \<in> remove_proposal_shape"
    unfolding remove_proposal_shape_def by (intro seqL_I) simp_all
  have "([1] @ be16 6 @ tls_vector (replicate 32 0)) @ [1] @ be16 3 @ replicate 4 0
      \<in> seqL [init_proposal_shape, remove_proposal_shape]"
    by (rule seqL_I [OF i]) (use r in simp)
  then have props: "tls_vector ([1] @ be16 6 @ tls_vector (replicate 32 0) @ [1] @ be16 3 @ replicate 4 0)
      \<in> vec 128 (seqL [init_proposal_shape, remove_proposal_shape]
       \<union> seqL [remove_proposal_shape, init_proposal_shape])"
    by (intro vec_I) (simp_all add: tls_small)
  have "commit0 = (be16 1 @ be16 1) @ tls_vector gid0 @ replicate 8 0 @ [4] @ tls_vector aad0 @ [3] @
      tls_vector ([1] @ be16 6 @ tls_vector (replicate 32 0) @ [1] @ be16 3 @ replicate 4 0) @
      [1] @ tls_leaf0 @ tls_vector [] @ tls_vector (replicate 64 0) @ tls_vector (replicate 32 0)"
    by (simp only: commit0_def append_assoc)
  also have "\<dots> \<in> external_commit_shape"
    unfolding external_commit_shape_def
    by (intro seqL_I props tls_leaf0_shape)
      (simp_all add: field_I gid0_length aad0_def vec_I list_of_Nil MAX_AAD_BYTES_def)
  finally show "commit0 \<in> external_commit_shape" .
qed

section \<open>Public groups\<close>

definition stays0 :: Leaf where
  "stays0 = \<lparr>lf_index = 0, lf_identity = replicate 45 5, lf_signature_key = replicate 32 5\<rparr>"

definition old_leaf0 :: Leaf where
  "old_leaf0 = \<lparr>lf_index = 1, lf_identity = identity0, lf_signature_key = replicate 32 6\<rparr>"

definition new_leaf0 :: Leaf where
  "new_leaf0 = \<lparr>lf_index = 1, lf_identity = identity0, lf_signature_key = public0\<rparr>"

definition P0 :: "(u64 \<times> Leaf list, bytes) public_mls" where
  "P0 = \<lparr>
     pm_group_info = Some, pm_ratchet_tree = Some,
     pm_from_external = (\<lambda>t tree info.
        if info = group_info0 0 then Inr ((1, [stays0, old_leaf0]), 0)
        else if info = group_info0 1 then Inr ((2, [stays0, new_leaf0]), 1)
        else Inl InvalidGroupInfoSignature),
     pm_members = (\<lambda>g. map member_of_leaf (snd g)),
     pm_group_id = (\<lambda>_. gid0), pm_epoch = fst,
     pm_process_message = (\<lambda>t m g. Some \<lparr>pr_aad = aad0, pr_epoch = fst g, pr_sender = NewMemberCommit,
        pr_basic_identity = Some identity0, pr_content = StagedCommitMessage m\<rparr>),
     pm_merge_commit = (\<lambda>staged g. Some (fst g + 1, [stays0, new_leaf0])),
     pm_group_context = (\<lambda>g. be64 (fst g)), pm_export_ratchet_tree = (\<lambda>_. tls_tree0),
     pm_confirmation_tag = (\<lambda>_. []),
     ps_update_path_key = (\<lambda>_. Some public0),
     ps_queued = (\<lambda>_. [(True, QueuedExternalInit), (True, QueuedRemove 1)])\<rparr>"

lemma P0_sel [simp]:
  "pm_group_info P0 = Some" "pm_ratchet_tree P0 = Some" "pm_members P0 g = map member_of_leaf (snd g)"
  "pm_group_id P0 g = gid0" "pm_epoch P0 = fst" "pm_merge_commit P0 m g = Some (fst g + 1, [stays0, new_leaf0])"
  "pm_group_context P0 g = be64 (fst g)" "pm_export_ratchet_tree P0 g = tls_tree0" "pm_confirmation_tag P0 g = []"
  "ps_update_path_key P0 m = Some public0"
  "ps_queued P0 m = [(True, QueuedExternalInit), (True, QueuedRemove 1)]"
  "pm_process_message P0 t m g = Some \<lparr>pr_aad = aad0, pr_epoch = fst g, pr_sender = NewMemberCommit,
        pr_basic_identity = Some identity0, pr_content = StagedCommitMessage m\<rparr>"
  by (simp_all add: P0_def)

lemma public_mls_ok_P0: "public_mls_ok sha0 P0"
  by (simp add: public_mls_ok_def)

definition state0 :: "u64 \<Rightarrow> Leaf list \<Rightarrow> ExpectedState" where
  "state0 e ls = \<lparr>xs_group_id = gid0, xs_epoch = e,
     xs_roster_sha256 = sha0 (public_roster_preimage gid0 e ls)\<rparr>"

definition snapshot0 :: SnapshotRequest where
  "snapshot0 = \<lparr>sq_profile = 2, sq_group_info = group_info0 0, sq_sha256 = sha0 (group_info0 0),
     sq_expected = state0 1 [stays0, old_leaf0], sq_expected_signer = stays0\<rparr>"

definition successor0 :: SuccessorRequest where
  "successor0 = \<lparr>su_base = snapshot0, su_commit = commit0, su_commit_sha256 = sha0 commit0,
     su_expected_aad = aad0, su_authorized_old = old_leaf0, su_authorized_new_identity = identity0,
     su_authorized_new_signature_key = public0, su_reported_next_group_info = group_info0 1,
     su_reported_next_sha256 = sha0 (group_info0 1)\<rparr>"

definition verified0 :: "u64 \<Rightarrow> byte \<Rightarrow> Leaf list \<Rightarrow> Leaf \<Rightarrow> VerifiedSnapshot" where
  "verified0 e x ls signer = \<lparr>vs_profile = 2, vs_sha256 = sha0 (group_info0 x),
     vs_roster = \<lparr>ro_state = state0 e ls, ro_leaves = ls\<rparr>, vs_signer = signer\<rparr>"

lemma replicate_neq [simp]: "0 < n \<Longrightarrow> replicate n x = replicate n y \<longleftrightarrow> x = y"
  by (metis replicate_eq_replicate neq0_conv)

lemma group_info0_inj [simp]: "group_info0 x = group_info0 y \<longleftrightarrow> x = y"
  by (auto simp: group_info0_def tls_vector_def)

lemma leaves0_ok: "public_leaves_ok [stays0, old_leaf0]" "public_leaves_ok [stays0, new_leaf0]"
  by (simp_all add: public_leaves_ok_def public_leaf_ok_def stays0_def old_leaf0_def new_leaf0_def
      identity0_def public0_def RS_MAX_LEAVES_def)

lemma sorted0: "sort_key lf_index [stays0, old_leaf0] = [stays0, old_leaf0]"
  "sort_key lf_index [stays0, new_leaf0] = [stays0, new_leaf0]"
  by (simp_all add: stays0_def old_leaf0_def new_leaf0_def)

lemma public_roster0:
  "public_leaves_ok ls \<Longrightarrow> sort_key lf_index ls = ls \<Longrightarrow>
    public_roster sha0 P0 (e, ls) = Inr \<lparr>ro_state = state0 e ls, ro_leaves = ls\<rparr>"
  by (auto simp: public_roster_Inr_iff state0_def)

text \<open>The wire level of an OpenMLS in which every byte string is a message of the group.\<close>

definition wire0 :: "(bytes, 'g, bytes) openmls \<Rightarrow> bool" where
  "wire0 M \<longleftrightarrow> om_message M = (\<lambda>b. Some (b, [])) \<and> om_protocol_message M = Some \<and>
     om_message_group_id M = (\<lambda>_. gid0) \<and> om_message_epoch M = toy_message_epoch"

lemma wire0_M0 [simp]: "wire0 M0"
  by (simp add: wire0_def M0_def)

lemma load_public0:
  assumes "wire0 M"
  shows "load_public sha0 M P0 t (group_info0 0) (sha0 (group_info0 0))
    = Inr ((1, [stays0, old_leaf0]), verified0 1 0 [stays0, old_leaf0] stays0)"
  "load_public sha0 M P0 t (group_info0 1) (sha0 (group_info0 1))
    = Inr ((2, [stays0, new_leaf0]), verified0 2 1 [stays0, new_leaf0] new_leaf0)"
proof -
  have m: "mls_message_from_exact_bytes M b = Inr b" for b
    using assms by (simp add: mls_message_Inr_iff wire0_def)
  have f: "pm_from_external P0 t tree (group_info0 0) = Inr ((1, [stays0, old_leaf0]), 0)"
    "pm_from_external P0 t tree (group_info0 1) = Inr ((2, [stays0, new_leaf0]), 1)" for tree
    by (simp_all add: P0_def)
  show "load_public sha0 M P0 t (group_info0 0) (sha0 (group_info0 0))
    = Inr ((1, [stays0, old_leaf0]), verified0 1 0 [stays0, old_leaf0] stays0)"
    "load_public sha0 M P0 t (group_info0 1) (sha0 (group_info0 1))
    = Inr ((2, [stays0, new_leaf0]), verified0 2 1 [stays0, new_leaf0] new_leaf0)"
    by (simp_all add: load_public_def group_info0_accepted check_hash_def m f
        public_roster0 [OF leaves0_ok(1) sorted0(1)] public_roster0 [OF leaves0_ok(2) sorted0(2)]
        verified0_def RS_PROFILE_def)
      (simp_all add: stays0_def new_leaf0_def)
qed

lemma snapshot_inner0:
  assumes "wire0 M"
  shows "snapshot_inner sha0 M P0 t snapshot0 = Inr ((1, [stays0, old_leaf0]), verified0 1 0 [stays0, old_leaf0] stays0)"
proof -
  have "validate_public_leaf stays0 = Inr ()"
    using leaves0_ok(1) by (simp add: validate_public_leaf_Inr_iff public_leaves_ok_def)
  then show ?thesis
    by (simp add: snapshot_inner_def snapshot0_def RS_PROFILE_def load_public0 [OF assms] expected_public_def
        verified0_def state0_def gid0_length)
qed

lemma be16_1: "be16 1 = [0, 1]"
  by code_simp

lemma successor_inner0:
  assumes "wire0 M"
  shows "successor_inner sha0 M P0 now successor0 = Inr \<lparr>vc_previous = verified0 1 0 [stays0, old_leaf0] stays0,
     vc_commit_sha256 = sha0 commit0, vc_aad_sha256 = sha0 aad0,
     vc_resulting = verified0 2 1 [stays0, new_leaf0] new_leaf0\<rparr>"
proof -
  have old: "validate_public_leaf old_leaf0 = Inr ()"
    using leaves0_ok(1) by (simp add: validate_public_leaf_Inr_iff public_leaves_ok_def)
  have m: "mls_message_from_exact_bytes M b = Inr b" for b
    using assms by (simp add: mls_message_Inr_iff wire0_def)
  have ep: "om_message_epoch M commit0 = 1" "om_message_group_id M commit0 = gid0" "om_protocol_message M commit0 = Some commit0"
    using assms by (simp_all add: wire0_def toy_message_epoch_def commit0_def be16_1)
  have ex: "exact_proposals 1 RsDeltaMismatch [(True, QueuedExternalInit), (True, QueuedRemove 1)] = Inr ()"
    by (simp add: exact_proposals_iff)
  have pc: "process_external_commit M P0 t (1, [stays0, old_leaf0]) successor0 = Inr commit0" for t
    by (simp add: process_external_commit_def successor0_def m ep ex old_leaf0_def)
  have cd: "check_derived (vs_roster (verified0 1 0 [stays0, old_leaf0] stays0))
      \<lparr>ro_state = state0 2 [stays0, new_leaf0], ro_leaves = [stays0, new_leaf0]\<rparr> successor0 = Inr new_leaf0"
    by (simp add: check_derived_def verified0_def successor0_def state0_def u64_checked_succ_def)
      (simp add: stays0_def old_leaf0_def new_leaf0_def identity0_def public0_def)
  have fresh: "\<not> list_ex (\<lambda>l. l \<noteq> old_leaf0 \<and> lf_identity l = identity0 \<or> lf_signature_key l = public0) [stays0, old_leaf0]"
    by (simp add: stays0_def old_leaf0_def identity0_def public0_def)
  show ?thesis
    using old pc cd fresh
    by (simp add: successor_inner_def successor0_def snapshot_inner0 [OF assms] commit0_accepted check_hash_def
        public_roster0 [OF leaves0_ok(2) sorted0(2)] load_public0 [OF assms] aad0_def MAX_AAD_BYTES_def
        identity0_def public0_def)
      (simp add: verified0_def)
qed

end
