(* ===== verification/ResyncProperties.thy ===== *)
theory ResyncProperties
  imports ResyncInstance
begin

text \<open>
  The properties of the external resynchronisation core (\<open>rust/src/external_resync\<close>): the shape
  scanner, the validator's codec, the verification of a successor, and the answers of the one-shot
  validator.
\<close>

text \<open>
  C26: The scanner that runs before OpenMLS accepts exactly a grammar: a GroupInfo passes iff it is
  within 1 MiB and consists of the fields of the profile in their order, each with its exact or
  bounded length in the shortest length encoding, with one ratchet tree of 1 to 511 nodes and 1 to
  256 leaves and one external public key as its only extensions, and nothing behind it.
\<close>

theorem group_info_accepts_the_grammar:
  "Preflight.group_info b = Inr () \<longleftrightarrow> length b \<le> MAX_MLS_BYTES \<and> b \<in> group_info_shape"
  by (rule group_info_iff)

text \<open>
  C27: The same for an external Commit: exactly one ExternalInit and one Remove by value, non-empty
  additional data, the leaf of the new member, a path of at most 8 nodes with at most 256
  ciphertexts each.
\<close>

theorem external_commit_accepts_the_grammar:
  "external_commit b = Inr () \<longleftrightarrow> length b \<le> MAX_MLS_BYTES \<and> b \<in> external_commit_shape"
  by (rule external_commit_iff)

text \<open>
  C25: The validator decodes exactly the canonical frames: an input decodes to a request iff the
  request is within its bounds and the input is its encoding. So encoding reads back, and no two
  inputs stand for the same request.
\<close>

theorem validator_requests_are_canonical:
  assumes "cbor_ok C"
  shows "decode_request C input = Inr r \<longleftrightarrow> request_bounds r \<and> encode_request C r = Inr input"
  by (rule decode_request_iff [OF assms])

theorem validator_requests_are_canonical_witness:
  "\<exists>input. encode_request C0 (RqSnapshot snapshot0) = Inr input \<and>
    decode_request C0 input = Inr (RqSnapshot snapshot0)"
proof -
  have l: "length (group_info0 0) \<le> 1024"
    by (simp add: group_info0_def tls_small tls_medium tls_tree0_length gid0_length)
  have b: "request_bounds (RqSnapshot snapshot0)"
    using group_info0_accepted [of 0] leaves0_ok(1)
    by (auto simp: snapshot0_def snapshot_bounds_def group_info_def state_bounds_def state0_def gid0_length
        public_leaves_ok_def Suc_le_eq split: if_splits)
  have "length (payload C0 (RqSnapshot snapshot0)) \<le> REQUEST_MAX_BYTES - HEADER"
    using l cbor_sizes(1) [OF cbor_ok_C0, of 5] cbor_sizes(2) [OF cbor_ok_C0, of "sq_profile snapshot0"]
      cbor_sizes(5) [OF cbor_ok_C0, of "sq_group_info snapshot0"] cbor_sizes(5) [OF cbor_ok_C0, of "sq_sha256 snapshot0"]
      put_leaf_size [OF cbor_ok_C0, of stays0] leaves0_ok(1) cbor_sizes(1) [OF cbor_ok_C0, of 3]
      cbor_sizes(5) [OF cbor_ok_C0, of gid0] cbor_sizes(4) [OF cbor_ok_C0, of 1]
      cbor_sizes(5) [OF cbor_ok_C0, of "xs_roster_sha256 (sq_expected snapshot0)"]
    by (simp add: put_snapshot_request_def put_state_def REQUEST_MAX_BYTES_def HEADER_def snapshot0_def
        state0_def public_leaves_ok_def gid0_length)
  then obtain input where "encode_request C0 (RqSnapshot snapshot0) = Inr input"
    by (auto simp: encode_request_def Let_def)
  with validator_requests_are_canonical [OF cbor_ok_C0, of input "RqSnapshot snapshot0"] b show ?thesis by blast
qed

text \<open>
  C24: The one-shot validator answers every input with exactly one frame of at most 256 KiB: the
  verified result when the input decodes and verifies, otherwise the failure frame with the error
  code, echoing operation and digest of the request (zeros for an input over 4 MiB); the size limit
  of the result is never what refuses a verified request.
\<close>

theorem validator_answers_every_input:
  assumes "cbor_ok C" "public_mls_ok sha P"
  shows "execute_resync sha C M P now input =
      (case bindE (decode_request C input) (\<lambda>q. bindE (respond sha C M P now q) (\<lambda>a. Inr (q, a))) of
         Inl e \<Rightarrow> failure C (echoed_operation input) (echoed_digest sha input) e
       | Inr (q, a) \<Rightarrow> success sha C q input a) \<and>
    length (execute_resync sha C M P now input) \<le> RESULT_MAX_BYTES"
  using execute_resync_eq [OF assms] execute_resync_size [OF assms] by blast

theorem validator_answers_every_input_witness:
  "execute_resync sha0 C0 M0 P0 (\<lambda>_. 0) [] = failure C0 0 (sha0 []) RsInvalidFrame \<and>
    length (failure C0 0 (sha0 []) RsInvalidFrame) \<le> RESULT_MAX_BYTES"
proof -
  have "decode_request C0 [] = Inl RsInvalidFrame"
    by (simp add: decode_request_def HEADER_def)
  then show ?thesis
    using validator_answers_every_input [OF cbor_ok_C0 public_mls_ok_P0, of M0 "\<lambda>_. 0" "[]"]
    by (auto simp: echoed_operation_def echoed_digest_def REQUEST_MAX_BYTES_def)
qed

text \<open>
  C23: A verified external successor replaces exactly one leaf. The base is a published GroupInfo of
  the expected state and signer; the Commit has the grammar and was authenticated by OpenMLS as a
  new-member Commit over the expected additional data with the authorised identity, key and
  proposals; the reported next GroupInfo is published by the new leaf and describes the very group
  that merging the Commit gives; its epoch is the next one, its roster the old one with the
  authorised leaf replaced by a leaf of the authorised identity and key.
\<close>

theorem verified_successor_replaces_one_leaf:
  assumes "validate_external_successor sha M P now r = Inr v"
  shows "successor_verified sha M P now r v \<and>
    ro_state (vs_roster (vc_previous v)) = sq_expected (su_base r) \<and>
    vs_signer (vc_previous v) = sq_expected_signer (su_base r) \<and>
    one_leaf_replaced (ro_leaves (vs_roster (vc_previous v))) (ro_leaves (vs_roster (vc_resulting v)))
      (su_authorized_old r) (vs_signer (vc_resulting v)) \<and>
    lf_identity (vs_signer (vc_resulting v)) = su_authorized_new_identity r \<and>
    lf_signature_key (vs_signer (vc_resulting v)) = su_authorized_new_signature_key r \<and>
    unat (xs_epoch (ro_state (vs_roster (vc_resulting v))))
      = unat (xs_epoch (ro_state (vs_roster (vc_previous v)))) + 1"
proof -
  have s: "successor_inner sha M P now r = Inr v"
    using assms by (simp add: validate_external_successor_def catch_unwind_def)
  note l = successor_inner_Inr [OF s]
  obtain g where "snapshot_inner sha M P (now 0) (su_base r) = Inr (g, vc_previous v)"
    using l(1) by (auto simp: successor_verified_def)
  then have "ro_state (vs_roster (vc_previous v)) = sq_expected (su_base r)"
    "vs_signer (vc_previous v) = sq_expected_signer (su_base r)"
    by (rule snapshot_inner_Inr)+
  with l show ?thesis by blast
qed

theorem verified_successor_replaces_one_leaf_witness:
  "\<exists>v. validate_external_successor sha0 M0 P0 (\<lambda>_. 0) successor0 = Inr v \<and>
    one_leaf_replaced [stays0, old_leaf0] [stays0, new_leaf0] old_leaf0 new_leaf0"
proof -
  have v: "validate_external_successor sha0 M0 P0 (\<lambda>_. 0) successor0 =
    Inr \<lparr>vc_previous = verified0 1 0 [stays0, old_leaf0] stays0,
     vc_commit_sha256 = sha0 commit0, vc_aad_sha256 = sha0 aad0,
     vc_resulting = verified0 2 1 [stays0, new_leaf0] new_leaf0\<rparr>"
    by (simp add: validate_external_successor_def catch_unwind_def successor_inner0 [OF wire0_M0])
  from verified_successor_replaces_one_leaf [OF v] v show ?thesis
    by (simp add: verified0_def successor0_def)
qed

section \<open>One digest for both sides\<close>

lemma members_to_leaves:
  "map member_leaf (map member_of_leaf ls) = map Inr (map local_leaf ls)"
  by (simp add: member_leaf_def member_of_leaf_def local_leaf_def)

text \<open>
  C28: The public validator and the runtime of a member compute the same roster and the same digest:
  for a public group and a private group with the same identifier, epoch and members, whenever both
  accept the roster they agree on its leaves, in the same order, and on its SHA-256.
\<close>

theorem validator_and_runtime_agree_on_the_roster:
  assumes "public_roster sha P p = Inr R" "roster_from_group sha M g = Inr r"
    and "om_members M g = pm_members P p" "om_group_id M g = pm_group_id P p" "om_epoch M g = pm_epoch P p"
  shows "leaves r = map local_leaf (ro_leaves R) \<and> digest_sha256 r = xs_roster_sha256 (ro_state R) \<and>
    group_id r = xs_group_id (ro_state R) \<and> epoch r = xs_epoch (ro_state R)"
proof -
  from assms(1) obtain ls where ls: "pm_members P p = map member_of_leaf ls" "public_leaves_ok ls"
    "ro_leaves R = sort_key lf_index ls" by (auto simp: public_roster_Inr_iff)
  from assms(2) obtain xs where xs: "map member_leaf (om_members M g) = map Inr xs"
    "leaves r = sort_key leaf_index xs"
    "roster_digest sha (om_group_id M g) (om_epoch M g) (leaves r) = Inr (digest_sha256 r)"
    by (auto simp: roster_from_group_def Let_def bindE_Inr_iff foldE_member_leaf)
  have "map Inr xs = map (Inr :: _ \<Rightarrow> roster_error + _) (map local_leaf ls)"
    using xs(1) unfolding assms(3) ls(1) members_to_leaves by simp
  then have "xs = map local_leaf ls" by (metis inj_map_eq_map inj_Inr)
  then have leaves: "leaves r = map local_leaf (ro_leaves R)"
    unfolding xs(2) ls(3) by (simp add: sort_key_map_commute [of _ local_leaf lf_index] local_leaf_def)
  have "length (pm_group_id P p) < 2 ^ 32"
    using xs(3) assms(4)
    by (auto simp: roster_digest_def roster_preimage_def hash_len_prefixed_def checked_u32_def bindE_Inr_iff
        split: if_splits)
  from public_digest_is_roster_digest [OF assms(1) this] xs(3) public_roster_Inr(4,5) [OF assms(1)]
    roster_from_group_Inr(1,2) [OF assms(2)]
  show ?thesis by (simp add: leaves assms(4,5))
qed

theorem validator_and_runtime_agree_on_the_roster_witness:
  "\<exists>R r. public_roster sha0 P0 (4, [new_leaf0\<lparr>lf_index := 0\<rparr>]) = Inr R \<and>
    roster_from_group sha0 M0 \<lparr>tg_id = gid0, tg_epoch = 4, tg_pending = False\<rparr> = Inr r \<and>
    digest_sha256 r = xs_roster_sha256 (ro_state R)"
proof -
  let ?l = "new_leaf0\<lparr>lf_index := 0\<rparr>" and ?g = "\<lparr>tg_id = gid0, tg_epoch = 4, tg_pending = False\<rparr>"
  have "public_leaves_ok [?l]"
    by (simp add: public_leaves_ok_def public_leaf_ok_def new_leaf0_def identity0_def public0_def RS_MAX_LEAVES_def)
  then have R: "public_roster sha0 P0 (4, [?l]) = Inr \<lparr>ro_state = state0 4 [?l], ro_leaves = [?l]\<rparr>"
    by (rule public_roster0) simp
  have "\<exists>r. roster_from_group sha0 M0 ?g = Inr r"
    by (simp add: roster_from_group_def M0_def member_leaf_def validate_canonical_leaves_def scan_leaf_def
        roster_digest_def roster_preimage_def hash_len_prefixed_def checked_u32_def feed_leaf_def
        gid0_def identity0_def public0_def)
  then obtain r where r: "roster_from_group sha0 M0 ?g = Inr r" by blast
  have "om_members M0 ?g = pm_members P0 (4, [?l])" "om_group_id M0 ?g = pm_group_id P0 (4, [?l])"
    "om_epoch M0 ?g = pm_epoch P0 (4, [?l])"
    by (simp_all add: M0_def member_of_leaf_def new_leaf0_def)
  from validator_and_runtime_agree_on_the_roster [OF R r this] R r show ?thesis by blast
qed

end
