(* ===== verification/ExternalOps.thy ===== *)
theory ExternalOps
  imports Candidate
begin

text \<open>
  The operations of the member side: \<open>export_group_info\<close> of
  \<open>rust/src/api/group_e2ee/runtime.rs\<close>; \<open>prepare\<close>, \<open>inspect\<close>, \<open>accept\<close> and \<open>receive\<close> of
  \<open>runtime/external.rs\<close>; and their public functions. The two further calls of OpenMLS are the
  parameter record \<open>external_mls\<close>: the builder of an external Commit, whose four steps all fail
  with the same error, and the export of a GroupInfo with its serialisation.
\<close>

record ('v, 'g, 'x) external_mls =
  xm_external_commit ::
    "MlsGroupJoinConfig \<Rightarrow> u32 \<Rightarrow> bytes \<Rightarrow> 'x \<Rightarrow> 'x \<times> bytes \<Rightarrow> SerializableSigner \<Rightarrow> snapshot
     \<Rightarrow> (('g \<times> commit_bundle) \<times> 'v storage_call list) option"
  xm_export_group_info :: "SerializableSigner \<Rightarrow> 'g \<Rightarrow> bytes option option"

section \<open>Exporting a GroupInfo\<close>

record ExportGroupInfoWithStorageResult =
  eg_group_info :: bytes
  eg_group_info_sha256 :: bytes
  eg_current_roster :: MlsRosterSummaryV1
  eg_signer :: MlsRosterLeafV1
  eg_base_group_state_sha256 :: bytes
  eg_effective_retention :: u32

fun export_error :: "ResyncError \<Rightarrow> MlsErrorCode" where
  "export_error RsLimitExceeded = LimitExceeded"
| "export_error RsUnsupportedProfile = UnsupportedProfile"
| "export_error RsInternalFailure = InternalFailure"
| "export_error _ = MlsProtocolRejected"

definition export_request :: "bytes \<Rightarrow> bytes \<Rightarrow> MlsRosterSummaryV1 \<Rightarrow> MlsRosterLeafV1 \<Rightarrow> SnapshotRequest" where
  "export_request info info_hash current leaf =
     \<lparr>sq_profile = RS_PROFILE, sq_group_info = info, sq_sha256 = info_hash,
       sq_expected = \<lparr>xs_group_id = group_id current, xs_epoch = epoch current,
         xs_roster_sha256 = digest_sha256 current\<rparr>,
       sq_expected_signer = public_leaf leaf\<rparr>"

definition export_group_info ::
  "(bytes \<Rightarrow> bytes) \<Rightarrow> cbor \<Rightarrow> 'v storage_env \<Rightarrow> ('v, 'g, 'x) openmls \<Rightarrow> ('p, 'x) public_mls
   \<Rightarrow> ('v, 'g, 'x) external_mls \<Rightarrow> u64 \<Rightarrow> Context \<Rightarrow> bytes \<Rightarrow> MlsRosterLeafV1
   \<Rightarrow> MlsErrorCode + ExportGroupInfoWithStorageResult" where
  "export_group_info sha C E M P X t cx signer_bytes expected_local_leaf =
     (if signer_bytes = [] \<or> length signer_bytes > 4096 then Inl LimitExceeded
      else
      bindE (load sha C E M cx) (\<lambda>loaded.
      let g = ld_group loaded; current = lg_current (ld_local loaded) in
      if \<not> om_is_active M g then Inl InactiveGroup
      else if lg_pending (ld_local loaded) \<noteq> None then Inl PendingCommitExists
      else
      bindE (map_err (\<lambda>_. InvalidSigner) (signer_from_bytes M signer_bytes)) (\<lambda>signer.
      bindE (map_err (\<lambda>_. InvalidSigner) (ensure_local_signer M g signer)) (\<lambda>_.
      bindE (ok_or (find (\<lambda>l. leaf_index l = om_own_leaf_index M g) (leaves current))
              LocalLeafMismatch) (\<lambda>leaf.
      if leaf \<noteq> expected_local_leaf then Inl LocalLeafMismatch
      else
      bindE (ok_or (xm_export_group_info X signer g) MlsProtocolRejected) (\<lambda>exported.
      bindE (serialized exported) (\<lambda>info.
      let info_hash = sha info in
      bindE (map_err export_error
              (validate_snapshot sha M P t (export_request info info_hash current leaf))) (\<lambda>_.
      let updates = into_updates (ld_provider loaded) in
      if up_upserts updates \<noteq> [] \<or> up_deletes updates \<noteq> [] then Inl InternalFailure
      else Inr \<lparr>eg_group_info = info, eg_group_info_sha256 = info_hash, eg_current_roster = current,
             eg_signer = expected_local_leaf, eg_base_group_state_sha256 = ld_base loaded,
             eg_effective_retention = lg_retention (ld_local loaded)\<rparr>)))))))) "

section \<open>Preparing a candidate\<close>

definition preparation_base :: "MlsExternalPreparationV1 \<Rightarrow> SnapshotRequest" where
  "preparation_base i = \<lparr>sq_profile = RS_PROFILE, sq_group_info = ep_input_group_info i,
     sq_sha256 = ep_input_group_info_sha256 i,
     sq_expected = \<lparr>xs_group_id = es_group_id (ep_expected_previous_state i),
       xs_epoch = es_epoch (ep_expected_previous_state i),
       xs_roster_sha256 = es_digest_sha256 (ep_expected_previous_state i)\<rparr>,
     sq_expected_signer = public_leaf (ep_expected_snapshot_signer i)\<rparr>"

definition preparation_bounds :: "MlsExternalPreparationV1 \<Rightarrow> bytes \<Rightarrow> MlsErrorCode + unit" where
  "preparation_bounds i signer_bytes =
     bindE (external_id (ep_candidate_id i)) (\<lambda>_.
     bindE (external_id (ep_incarnation_id i)) (\<lambda>_.
     bindE (external_id (command_id (ep_transition i))) (\<lambda>_.
     bindE (fixed32 (context_sha256 (ep_transition i))) (\<lambda>_.
     bindE (fixed32 (ep_local_lifecycle_context_sha256 i)) (\<lambda>_.
     bindE (bounded_aad (ep_aad i)) (\<lambda>_.
     bindE (validate_retention (ep_retention i)) (\<lambda>_.
     if signer_bytes = [] \<or> length signer_bytes > 4096
        \<or> length (ep_authorized_new_credential_identity i) \<noteq> 45
        \<or> length (ep_authorized_new_signature_public_key i) \<noteq> 32
     then Inl LimitExceeded else Inr ())))))))"

text \<open>The Commit, on an empty provider of its own: group, serialised Commit and GroupInfo, provider.\<close>

definition build_external_commit ::
  "'v storage_env \<Rightarrow> ('v, 'g, 'x) openmls \<Rightarrow> ('p, 'x) public_mls \<Rightarrow> ('v, 'g, 'x) external_mls
   \<Rightarrow> MlsExternalPreparationV1 \<Rightarrow> bytes \<Rightarrow> MlsErrorCode + 'g \<times> bytes \<times> bytes \<times> snapshot" where
  "build_external_commit E M P X i signer_bytes =
     bindE (map_err (\<lambda>_. InvalidSigner) (signer_from_bytes M signer_bytes)) (\<lambda>signer.
     bindE (map_err (\<lambda>_. InvalidSigner)
             (ensure_signer_public_key signer (ep_authorized_new_signature_public_key i))) (\<lambda>_.
     bindE (map_err (\<lambda>_. UnsupportedCredential)
             (build_credential_with_key M (ep_authorized_new_credential_identity i)
               (ep_authorized_new_signature_public_key i) None)) (\<lambda>credential.
     bindE (map_err (\<lambda>_. MlsDecodeRejected)
             (mls_message_from_exact_bytes M (ep_input_group_info i))) (\<lambda>message.
     bindE (ok_or (pm_group_info P message) MlsDecodeRejected) (\<lambda>info.
     bindE (map_err (\<lambda>_. InternalFailure) (provider_from_entries [] 1 None)) (\<lambda>provider.
     bindE (profile (ep_retention i)) (\<lambda>p.
     bindE (on_provider E MlsProtocolRejected
             (xm_external_commit X (to_join_config p) (leaf_index (ep_authorized_old_leaf i))
               (ep_aad i) info credential signer provider) provider) (\<lambda>((g, bd), provider).
     if bd_welcome bd \<noteq> None then Inl InternalFailure
     else
     bindE (serialized (bd_commit bd)) (\<lambda>commit_wire.
     bindE (ok_or (bd_group_info bd) MlsProtocolRejected) (\<lambda>next.
     bindE (serialized next) (\<lambda>next.
     Inr (g, commit_wire, next, provider))))))))))))"

definition preparation_proof ::
  "(bytes \<Rightarrow> bytes) \<Rightarrow> MlsExternalPreparationV1 \<Rightarrow> bytes \<Rightarrow> bytes \<Rightarrow> SuccessorRequest" where
  "preparation_proof sha i commit_wire next =
     \<lparr>su_base = preparation_base i, su_commit = commit_wire, su_commit_sha256 = sha commit_wire,
       su_expected_aad = ep_aad i, su_authorized_old = public_leaf (ep_authorized_old_leaf i),
       su_authorized_new_identity = ep_authorized_new_credential_identity i,
       su_authorized_new_signature_key = ep_authorized_new_signature_public_key i,
       su_reported_next_group_info = next, su_reported_next_sha256 = sha next\<rparr>"

text \<open>
  The inactive rows of the candidate: the new local state beside what OpenMLS stored, ordered by
  their keys, with their digest.
\<close>

definition candidate_rows ::
  "(bytes \<Rightarrow> bytes) \<Rightarrow> cbor \<Rightarrow> bytes \<Rightarrow> u32 \<Rightarrow> MlsRosterSummaryV1 \<Rightarrow> snapshot
   \<Rightarrow> MlsErrorCode + bytes \<times> MlsStorageEntry list" where
  "candidate_rows sha C incarnation retention resulting provider =
     bindE (new_state sha incarnation retention resulting) (\<lambda>local.
     case save sha C local provider of
       (Inl e, _) \<Rightarrow> Inl e
     | (Inr _, provider) \<Rightarrow>
         bindE (state_digest sha provider (group_id resulting)) (\<lambda>private_digest.
         let rows = snapshot_entries provider (group_id resulting) in
         bindE (bounded_entries rows) (\<lambda>_.
         Inr (private_digest, sort_key entry_key rows))))"

definition external_prepare ::
  "(bytes \<Rightarrow> bytes) \<Rightarrow> cbor \<Rightarrow> 'v storage_env \<Rightarrow> ('v, 'g, 'x) openmls \<Rightarrow> ('p, 'x) public_mls
   \<Rightarrow> ('v, 'g, 'x) external_mls \<Rightarrow> (nat \<Rightarrow> u64) \<Rightarrow> MlsExternalPreparationV1 \<Rightarrow> bytes
   \<Rightarrow> MlsErrorCode + PrepareExternalCommitResult" where
  "external_prepare sha C E M P X now i signer_bytes =
     bindE (preparation_bounds i signer_bytes) (\<lambda>_.
     bindE (map_err public_error (validate_snapshot sha M P (now 0) (preparation_base i))) (\<lambda>verified.
     let previous = local_roster (vs_roster verified) in
     bindE (leaf_bounds (ep_authorized_old_leaf i)) (\<lambda>_.
     if \<not> replacement_authorised (leaves previous) (ep_authorized_old_leaf i)
          (ep_authorized_new_credential_identity i) (ep_authorized_new_signature_public_key i)
     then Inl ExternalDeltaMismatch
     else
     bindE (build_external_commit E M P X i signer_bytes) (\<lambda>(g, commit_wire, next, provider).
     let prf = preparation_proof sha i commit_wire next in
     bindE (map_err public_error
             (validate_external_successor sha M P (\<lambda>n. now (n + 1)) prf)) (\<lambda>checked.
     bindE (map_err (\<lambda>_. UnsupportedCredential) (roster_from_group sha M g)) (\<lambda>resulting.
     if resulting \<noteq> local_roster (vs_roster (vc_resulting checked)) then Inl ResultingRosterMismatch
     else
     let author = local_leaf (vs_signer (vc_resulting checked)) in
     bindE (validate_delta sha previous resulting (ep_authorized_old_leaf i) author) (\<lambda>_.
     if om_own_leaf_index M g \<noteq> leaf_index author \<or> om_has_pending M g then Inl InternalFailure
     else
     bindE (candidate_rows sha C (ep_incarnation_id i) (ep_retention i) resulting provider)
       (\<lambda>(private_digest, rows).
     let c = \<lparr>ca_candidate_id = ep_candidate_id i, ca_incarnation_id = ep_incarnation_id i,
           ca_transition = ep_transition i, ca_lifecycle = ep_local_lifecycle_context_sha256 i,
           ca_retention = ep_retention i, ca_proof = prf, ca_previous = previous,
           ca_resulting = resulting, ca_private_digest = private_digest, ca_rows = rows\<rparr> in
     bindE (candidate_encode C c) (\<lambda>encoded.
     bindE (candidate_info sha c (sha encoded)) (\<lambda>info.
     Inr \<lparr>pe_candidate_bytes = encoded, pe_info = info\<rparr>))))))))))"

definition external_inspect ::
  "(bytes \<Rightarrow> bytes) \<Rightarrow> cbor \<Rightarrow> 'v storage_env \<Rightarrow> ('v, 'g, 'x) openmls \<Rightarrow> bytes \<Rightarrow> bytes
   \<Rightarrow> MlsErrorCode + ExternalCommitCandidateInfo" where
  "external_inspect sha C E M b expected_hash =
     bindE (read_candidate sha C E M b expected_hash) (\<lambda>c. candidate_info sha c expected_hash)"

section \<open>Accepting a candidate\<close>

definition existing_rows_agree :: "MlsStorageEntry list \<Rightarrow> snapshot \<Rightarrow> MlsErrorCode + unit" where
  "existing_rows_agree rows provider =
     eachE (\<lambda>row. case read_opaque provider (entry_key row) of
         Some existing \<Rightarrow> require (existing = entry_value row) InvalidStorageSnapshot
       | None \<Rightarrow> Inr ()) rows"

definition external_accept ::
  "(bytes \<Rightarrow> bytes) \<Rightarrow> cbor \<Rightarrow> 'v storage_env \<Rightarrow> ('v, 'g, 'x) openmls \<Rightarrow> MlsExternalTargetContextV1
   \<Rightarrow> bytes \<Rightarrow> bytes \<Rightarrow> MlsExternalCommitAcceptanceV1 \<Rightarrow> MlsErrorCode + AcceptExternalCommitResult" where
  "external_accept sha C E M target b expected_hash acceptance =
     bindE (read_candidate sha C E M b expected_hash) (\<lambda>c.
     bindE (validate_binding (ea_binding acceptance)) (\<lambda>_.
     bindE (candidate_binding sha c) (\<lambda>bound.
     if ea_binding acceptance \<noteq> bound \<or> ea_resulting_state acceptance \<noteq> expected (ca_resulting c)
     then Inl ExternalAcceptanceMismatch
     else if et_group_id target \<noteq> group_id (ca_resulting c)
        \<or> et_incarnation_id target \<noteq> ca_incarnation_id c
     then Inl GroupMismatch
     else if et_local_lifecycle_context_sha256 target \<noteq> ca_lifecycle c
     then Inl ExternalLifecycleMismatch
     else if et_storage_format_version target \<noteq> 1 then Inl StorageFormatMismatch
     else
     bindE (bounded_entries (et_storage_entries target)) (\<lambda>_.
     bindE (map_err (\<lambda>_. InvalidStorageSnapshot)
             (validate_storage_entries (et_storage_entries target) 1 (Some (et_group_id target)))) (\<lambda>_.
     if list_ex (\<lambda>r. \<not> is_global_key (entry_key r)) (et_storage_entries target)
     then Inl ExternalTargetStateExists
     else
     bindE (map_err (\<lambda>_. InvalidStorageSnapshot)
             (provider_from_entries (et_storage_entries target) 1 None)) (\<lambda>provider.
     bindE (existing_rows_agree (ca_rows c) provider) (\<lambda>_.
     let provider = fold (\<lambda>row. write_opaque (entry_key row) (entry_value row)) (ca_rows c) provider in
     bindE (state_digest sha provider (et_group_id target)) (\<lambda>resulting_digest.
     if resulting_digest \<noteq> ca_private_digest c then Inl ExternalCandidateInvalid
     else
     bindE (map_err (\<lambda>_. InternalFailure)
             (batch_from_provider provider (Some (et_group_id target)) [])) (\<lambda>batch.
     bindE (bounded_batch batch) (\<lambda>_.
     Inr \<lparr>ae_candidate_sha256 = expected_hash, ae_local_leaf = eb_author (ea_binding acceptance),
       ae_resulting_roster = ca_resulting c, ae_resulting_group_state_sha256 = resulting_digest,
       ae_effective_retention = ca_retention c, ae_storage_batch = batch\<rparr>))))))))))"

section \<open>Receiving an external Commit\<close>

text \<open>The superseded pending Commit is cleared on the current rows.\<close>

definition clear_superseded ::
  "'v storage_env \<Rightarrow> ('v, 'g, 'x) openmls \<Rightarrow> bool \<Rightarrow> 'g Loaded \<Rightarrow> MlsErrorCode + 'g Loaded" where
  "clear_superseded E M superseded loaded =
     (if \<not> superseded then Inr loaded
      else
        bindE (on_provider E InvalidStorageSnapshot
                (om_clear_pending_commit M (ld_group loaded) (ld_provider loaded)) (ld_provider loaded))
          (\<lambda>(g, provider).
        let local = (ld_local loaded)\<lparr>lg_pending := None\<rparr> in
        Inr (loaded\<lparr>ld_group := g, ld_local := local, ld_provider := clear_retry_rows local provider\<rparr>)))"

text \<open>Parsing, processing and checking the Commit: the staged Commit, the group and the provider.\<close>

definition stage_external_commit ::
  "'v storage_env \<Rightarrow> ('v, 'g, 'x) openmls \<Rightarrow> ('p, 'x) public_mls \<Rightarrow> bytes \<Rightarrow> bytes
   \<Rightarrow> MlsExternalCommitBindingV1 \<Rightarrow> MlsRosterSummaryV1 \<Rightarrow> 'g Loaded
   \<Rightarrow> MlsErrorCode + 'x \<times> 'g \<times> snapshot" where
  "stage_external_commit E M P commit_wire aad b previous loaded =
     bindE (map_err public_error (external_commit commit_wire)) (\<lambda>_.
     bindE (map_err (\<lambda>_. MlsDecodeRejected) (mls_message_from_exact_bytes M commit_wire)) (\<lambda>w.
     bindE (ok_or (om_protocol_message M w) MessageKindMismatch) (\<lambda>wire.
     if om_message_group_id M wire \<noteq> group_id previous then Inl GroupMismatch
     else if om_message_epoch M wire \<noteq> epoch previous then Inl RequiredCommitEpochMismatch
     else case om_process_message M wire (ld_group loaded) (ld_provider loaded) of
       Inl _ \<Rightarrow> Inl MlsProtocolRejected
     | Inr ((message, g), calls) \<Rightarrow>
         let provider = exec_calls E calls (ld_provider loaded) in
         if pr_sender message \<noteq> NewMemberCommit then Inl MessageKindMismatch
         else if pr_aad message \<noteq> aad then Inl AadMismatch
         else
         bindE (ok_or (pr_basic_identity message) UnsupportedCredential) (\<lambda>identity.
         if identity \<noteq> credential_identity (eb_author b) then Inl SenderMismatch
         else
         bindE (case pr_content message of StagedCommitMessage staged \<Rightarrow> Inr staged
                | _ \<Rightarrow> Inl MessageKindMismatch) (\<lambda>staged.
         bindE (ok_or (ps_update_path_key P staged) ExternalDeltaMismatch) (\<lambda>path_key.
         if path_key \<noteq> signature_public_key (eb_author b) then Inl SenderMismatch
         else
         bindE (exact_proposals (leaf_index (eb_old_leaf b)) ExternalDeltaMismatch
                 (ps_queued P staged)) (\<lambda>_.
         Inr (staged, g, provider))))))))"

definition external_receive ::
  "(bytes \<Rightarrow> bytes) \<Rightarrow> cbor \<Rightarrow> 'v storage_env \<Rightarrow> ('v, 'g, 'x) openmls \<Rightarrow> ('p, 'x) public_mls
   \<Rightarrow> Context \<Rightarrow> bytes \<Rightarrow> bytes \<Rightarrow> MlsExternalCommitAcceptanceV1 \<Rightarrow> MlsPendingCommitBinding option
   \<Rightarrow> MlsErrorCode + ProcessExternalCommitResult" where
  "external_receive sha C E M P cx commit_wire aad acceptance superseded =
     (let b = ea_binding acceptance in
      if commit_wire = [] \<or> length commit_wire > MAX_MLS_BYTES then Inl LimitExceeded
      else
      bindE (bounded_aad aad) (\<lambda>_.
      bindE (validate_binding b) (\<lambda>_.
      if sha commit_wire \<noteq> eb_commit_sha256 b then Inl WireHashMismatch
      else if sha aad \<noteq> eb_aad_sha256 b then Inl AadMismatch
      else
      bindE (load sha C E M cx) (\<lambda>loaded.
      if \<not> om_is_active M (ld_group loaded) then Inl InactiveGroup
      else
      let previous = lg_current (ld_local loaded) in
      if lg_incarnation_id (ld_local loaded) \<noteq> eb_incarnation_id b then Inl GroupMismatch
      else
      bindE (check_state previous (eb_previous_state b) False) (\<lambda>_.
      if leaf_index (eb_old_leaf b) = om_own_leaf_index M (ld_group loaded) then Inl ExternalOwnCommit
      else if map_option binding (lg_pending (ld_local loaded)) \<noteq> superseded
      then Inl PendingBindingMismatch
      else
      bindE (clear_superseded E M (superseded \<noteq> None) loaded) (\<lambda>loaded.
      bindE (stage_external_commit E M P commit_wire aad b previous loaded) (\<lambda>(staged, g, provider).
      bindE (on_provider E MlsProtocolRejected (om_merge_staged_commit M staged g provider) provider)
        (\<lambda>(g, provider).
      bindE (map_err (\<lambda>_. UnsupportedCredential) (roster_from_group sha M g)) (\<lambda>resulting.
      bindE (validate_delta sha previous resulting (eb_old_leaf b) (eb_author b)) (\<lambda>_.
      bindE (check_state resulting (ea_resulting_state acceptance) True) (\<lambda>_.
      if \<not> om_is_active M g then Inl InactiveGroup
      else
      bindE (advance sha (ld_local loaded) resulting) (\<lambda>local.
      bindE (finish sha C provider local previous) (\<lambda>m.
      Inr \<lparr>xr_authenticated_sender = eb_author b, xr_previous_roster = mu_previous m,
        xr_resulting_roster = mu_resulting m,
        xr_resulting_group_state_sha256 = mu_resulting_digest m,
        xr_effective_retention = mu_retention m, xr_superseded_pending = superseded,
        xr_storage_batch = mu_batch m\<rparr>)))))))))))))"

section \<open>Public functions\<close>

definition export_group_info_with_storage ::
  "(bytes \<Rightarrow> bytes) \<Rightarrow> cbor \<Rightarrow> 'v storage_env \<Rightarrow> ('v, 'g, 'x) openmls \<Rightarrow> ('p, 'x) public_mls
   \<Rightarrow> ('v, 'g, 'x) external_mls \<Rightarrow> u64 \<Rightarrow> MlsGroupOperationContext \<Rightarrow> bytes \<Rightarrow> MlsRosterLeafV1
   \<Rightarrow> ExportGroupInfoWithStorageResult outcome" where
  "export_group_info_with_storage sha C E M P X t cx signer_bytes expected_local_leaf =
     to_outcome id (lifecycle_guard (Some
       (export_group_info sha C E M P X t (into_context cx) signer_bytes expected_local_leaf)))"

definition prepare_external_commit ::
  "(bytes \<Rightarrow> bytes) \<Rightarrow> cbor \<Rightarrow> 'v storage_env \<Rightarrow> ('v, 'g, 'x) openmls \<Rightarrow> ('p, 'x) public_mls
   \<Rightarrow> ('v, 'g, 'x) external_mls \<Rightarrow> (nat \<Rightarrow> u64) \<Rightarrow> MlsExternalPreparationV1 \<Rightarrow> bytes
   \<Rightarrow> PrepareExternalCommitResult outcome" where
  "prepare_external_commit sha C E M P X now i signer_bytes =
     to_outcome id (lifecycle_guard (Some (external_prepare sha C E M P X now i signer_bytes)))"

definition inspect_external_commit_candidate ::
  "(bytes \<Rightarrow> bytes) \<Rightarrow> cbor \<Rightarrow> 'v storage_env \<Rightarrow> ('v, 'g, 'x) openmls \<Rightarrow> bytes \<Rightarrow> bytes
   \<Rightarrow> ExternalCommitCandidateInfo outcome" where
  "inspect_external_commit_candidate sha C E M b expected_hash =
     to_outcome id (lifecycle_guard (Some (external_inspect sha C E M b expected_hash)))"

definition accept_external_commit_with_storage ::
  "(bytes \<Rightarrow> bytes) \<Rightarrow> cbor \<Rightarrow> 'v storage_env \<Rightarrow> ('v, 'g, 'x) openmls \<Rightarrow> MlsExternalTargetContextV1
   \<Rightarrow> bytes \<Rightarrow> bytes \<Rightarrow> MlsExternalCommitAcceptanceV1 \<Rightarrow> AcceptExternalCommitResult outcome" where
  "accept_external_commit_with_storage sha C E M target b expected_hash acceptance =
     to_outcome id (lifecycle_guard (Some (external_accept sha C E M target b expected_hash acceptance)))"

definition process_external_commit_with_storage ::
  "(bytes \<Rightarrow> bytes) \<Rightarrow> cbor \<Rightarrow> 'v storage_env \<Rightarrow> ('v, 'g, 'x) openmls \<Rightarrow> ('p, 'x) public_mls
   \<Rightarrow> MlsGroupOperationContext \<Rightarrow> bytes \<Rightarrow> bytes \<Rightarrow> MlsExternalCommitAcceptanceV1
   \<Rightarrow> MlsPendingCommitBinding option \<Rightarrow> ProcessExternalCommitResult outcome" where
  "process_external_commit_with_storage sha C E M P cx commit_wire expected_aad acceptance superseded =
     to_outcome id (lifecycle_guard (Some
       (external_receive sha C E M P (into_context cx) commit_wire expected_aad acceptance superseded)))"

end
