(* ===== verification/CandidateLaws.thy ===== *)
theory CandidateLaws
  imports Candidate ResyncCodecLaws Lifecycle
begin

text \<open>
  The candidate envelope: each part reads back what it wrote (the locale \<open>codec\<close> again), what a
  part accepts is well formed (\<open>candidate_ok\<close>), and \<open>read_candidate\<close> accepts precisely the
  encodings, with their hash, of the well-formed candidates that pass validation
  (\<open>read_candidate_iff\<close>).
\<close>

section \<open>Reading back\<close>

lemma ca_items_back [read_back]:
  assumes "cbor_ok C"
  shows "ca_array C n (cb_array C n @ r) = (Inr (), r)"
    and "mn \<le> length v \<Longrightarrow> length v \<le> mx \<Longrightarrow> mx < 2 ^ 64 \<Longrightarrow> ca_bytes C mn mx (cb_bytes C v @ r) = (Inr v, r)"
    and "mn \<le> k \<Longrightarrow> k \<le> mx \<Longrightarrow> mx < 2 ^ 64 \<Longrightarrow> ca_count C mn mx (cb_array C (of_nat k) @ r) = (Inr k, r)"
proof -
  show "ca_array C n (cb_array C n @ r) = (Inr (), r)"
    by (simp add: ca_array_def run_bindS read_back_items [OF assms])
  show "mn \<le> length v \<Longrightarrow> length v \<le> mx \<Longrightarrow> mx < 2 ^ 64 \<Longrightarrow> ca_bytes C mn mx (cb_bytes C v @ r) = (Inr v, r)"
    by (simp add: ca_bytes_def run_bindS read_back_items [OF assms])
  assume "mn \<le> k" "k \<le> mx" "mx < 2 ^ 64"
  moreover from this have "unat (of_nat k :: u64) = k"
    by (simp add: unat_of_nat take_bit_nat_eq_self)
  ultimately show "ca_count C mn mx (cb_array C (of_nat k) @ r) = (Inr k, r)"
    by (simp add: ca_count_def run_bindS read_back_items [OF assms])
qed

definition resync_leaf_ok :: "MlsRosterLeafV1 \<Rightarrow> bool" where
  "resync_leaf_ok l \<longleftrightarrow> unat (leaf_index l) < 256 \<and> leaf_ok l"

lemma leaf_bounds_Inr_iff [result_simps]: "leaf_bounds l = Inr u \<longleftrightarrow> resync_leaf_ok l"
  by (simp add: leaf_bounds_def map_err_Inr_iff validate_public_leaf_Inr_iff public_leaf_ok_def
      public_leaf_def resync_leaf_ok_def leaf_ok_def RS_MAX_LEAVES_def)

interpretation ca_leaf_codec: codec "leaf_encode C" "ca_leaf C" "\<lambda>l. cbor_ok C \<and> resync_leaf_ok l" for C
proof unfold_locales
  fix l r
  assume "cbor_ok C \<and> resync_leaf_ok l"
  then show "ca_leaf C (leaf_encode C l @ r) = (Inr l, r)"
    using leaf_bounds_Inr_iff [of l "()"]
    by (cases l) (simp add: leaf_encode_def ca_leaf_def run_bindS read_back resync_leaf_ok_def leaf_ok_def Let_def)
qed

definition resync_roster_ok :: "(bytes \<Rightarrow> bytes) \<Rightarrow> MlsRosterSummaryV1 \<Rightarrow> bool" where
  "resync_roster_ok sha r \<longleftrightarrow> length (group_id r) = 16 \<and> length (digest_sha256 r) = 32 \<and>
     leaves r \<noteq> [] \<and> length (leaves r) \<le> 256 \<and> (\<forall>l \<in> set (leaves r). resync_leaf_ok l) \<and>
     canonical_leaves (leaves r) \<and>
     roster_digest sha (group_id r) (epoch r) (leaves r) = Inr (digest_sha256 r)"

interpretation ca_roster_codec: codec "put_roster C" "candidate_roster sha C"
  "\<lambda>r. cbor_ok C \<and> resync_roster_ok sha r" for C sha
proof unfold_locales
  fix a r
  assume a: "cbor_ok C \<and> resync_roster_ok sha a"
  then have n: "1 \<le> length (leaves a)" "length (leaves a) \<le> 256"
    by (auto simp: resync_roster_ok_def Suc_le_eq)
  have "timesS (length (leaves a)) (ca_leaf C) (concat (map (leaf_encode C) (leaves a)) @ x)
      = (Inr (leaves a), x)" for x
    using a by (intro ca_leaf_codec.times_enc) (simp add: resync_roster_ok_def)
  moreover have "validate_canonical_leaves (leaves a) = Inr ()"
    using a by (simp add: validate_canonical_leaves_Inr_iff resync_roster_ok_def)
  ultimately show "candidate_roster sha C (put_roster C a @ r) = (Inr a, r)"
    using a n by (simp add: put_roster_def candidate_roster_def run_bindS read_back resync_roster_ok_def)
qed

definition row_shape :: "bytes \<Rightarrow> MlsStorageEntry \<Rightarrow> bool" where
  "row_shape g e \<longleftrightarrow> 1 \<le> length (entry_key e) \<and> row_bounded e \<and> row_scoped (Some g) e"

lemma row_fields_back:
  assumes "cbor_ok C" "row_shape g e"
  shows "row_fields C (put_entry C e @ r) = (Inr (entry_key e, entry_value e), r)"
  using assms by (simp add: put_entry_def row_fields_def run_bindS read_back row_shape_def row_bounded_def)

interpretation ca_row_codec: codec "put_entry C" "row_reader C g" "\<lambda>e. cbor_ok C \<and> row_shape g e" for C g
proof unfold_locales
  fix e r
  assume e: "cbor_ok C \<and> row_shape g e"
  then have "entry_group_id e = (if is_global_key (entry_key e) then None else Some g)"
    by (auto simp: row_shape_def row_scoped_def split: if_splits)
  with e show "row_reader C g (put_entry C e @ r) = (Inr e, r)"
    using row_fields_back [of C g e r] by (cases e) (simp add: row_reader_def run_bindS)
qed

section \<open>The pass over the rows\<close>

lemma add_row_bytes_row:
  assumes "length g = 16" "row_scoped (Some g) e"
  shows "add_row_bytes n (entry_key e, entry_value e) = Inr m \<longleftrightarrow>
    m = n + row_size e \<and> m \<le> 6 * 1024 * 1024"
proof -
  have "row_size e = length (entry_key e) + length (entry_value e)
      + (if is_global_key (entry_key e) then 0 else 16)"
    using assms by (auto simp: row_size_def row_scoped_def split: if_splits)
  then show ?thesis
    by (auto simp: add_row_bytes_def bindE_Inr_iff ok_or_Inr_iff usize_checked_add_Some_iff if_Inl_Inr_iff)
qed

lemma scan_rows_back:
  assumes "cbor_ok C" "length g = 16"
  shows "\<forall>e \<in> set rows. row_shape g e \<Longrightarrow> n + sum_list (map row_size rows) \<le> 6 * 1024 * 1024 \<Longrightarrow>
    scan_rows C (length rows) n (concat (map (put_entry C) rows) @ r)
      = (Inr (n + sum_list (map row_size rows)), r)"
proof (induction rows arbitrary: n)
  case (Cons e rows)
  then have e: "row_shape g e" by simp
  have "add_row_bytes n (entry_key e, entry_value e) = Inr (n + row_size e)"
    using Cons.prems e by (subst add_row_bytes_row [OF assms(2)]) (simp_all add: row_shape_def)
  with Cons row_fields_back [OF assms(1) e] show ?case by (simp add: run_bindS add.assoc)
qed simp

lemma times_Cons_iff:
  "timesS (Suc n) m s = (Inr xs, r) \<longleftrightarrow>
    (\<exists>y ys t. xs = y # ys \<and> m s = (Inr y, t) \<and> timesS n m t = (Inr ys, r))"
  by (auto simp: run_bindS_ok_iff returnS_ok_iff)

text \<open>Both passes read the same rows.\<close>

lemma row_fields_bounds:
  "row_fields C s = (Inr (k, v), r) \<Longrightarrow> 1 \<le> length k \<and> length k \<le> 4096 \<and> length v \<le> 2 * 1024 * 1024"
  by (auto simp: row_fields_def ca_bytes_def run_bindS_ok_iff if_liftS_Inl_iff returnS_ok_iff)

lemma row_reader_iff:
  "row_reader C g s = (Inr e, r) \<longleftrightarrow>
    row_fields C s = (Inr (entry_key e, entry_value e), r) \<and> row_scoped (Some g) e"
  by (cases e) (auto simp: row_reader_def run_bindS_ok_iff returnS_ok_iff row_scoped_def)

lemma row_reader_shape: "row_reader C g s = (Inr e, r) \<Longrightarrow> row_shape g e"
  by (auto simp: row_reader_iff row_shape_def row_bounded_def dest: row_fields_bounds)

lemma scan_and_read:
  assumes g: "length g = 16"
  shows "scan_rows C n acc s = (Inr m, t) \<Longrightarrow> timesS n (row_reader C g) s = (Inr rows, r) \<Longrightarrow>
    acc \<le> 6 * 1024 * 1024 \<Longrightarrow>
    length rows = n \<and> t = r \<and> m = acc + sum_list (map row_size rows) \<and> m \<le> 6 * 1024 * 1024 \<and>
    (\<forall>e \<in> set rows. row_shape g e)"
proof (induction n arbitrary: acc s rows)
  case 0
  then show ?case by simp
next
  case (Suc n)
  from Suc.prems(2) obtain e es u where rows: "rows = e # es" "row_reader C g s = (Inr e, u)"
    "timesS n (row_reader C g) u = (Inr es, r)"
    unfolding times_Cons_iff by blast
  then have rf: "row_fields C s = (Inr (entry_key e, entry_value e), u)" "row_scoped (Some g) e"
    by (simp_all add: row_reader_iff)
  from Suc.prems(1) obtain k where k: "add_row_bytes acc (entry_key e, entry_value e) = Inr k"
    "scan_rows C n k u = (Inr m, t)"
    by (auto simp: run_bindS_ok_iff rf(1) liftS_ok_iff)
  from k(1) have k': "k = acc + row_size e" "k \<le> 6 * 1024 * 1024"
    unfolding add_row_bytes_row [OF g rf(2)] by simp_all
  from Suc.IH [OF k(2) rows(3) k'(2)] show ?case
    using rows row_reader_shape [OF rows(2)] k' by simp
qed

lemma out_of_order_iff: "\<not> out_of_order rows \<longleftrightarrow> sorted_wrt (<) (map entry_key rows)"
proof (induction rows)
  case Nil
  then show ?case by (simp add: out_of_order_def)
next
  case (Cons a rows)
  show ?case
  proof (cases rows)
    case Nil
    then show ?thesis by (simp add: out_of_order_def)
  next
    case (Cons b rest)
    have "out_of_order (a # rows) \<longleftrightarrow> entry_key a \<ge> entry_key b \<or> out_of_order rows"
      by (simp add: out_of_order_def Cons)
    with Cons.IH show ?thesis by (auto simp: Cons not_le intro: order.strict_trans)
  qed
qed

section \<open>Well-formed candidates\<close>

definition candidate_ok :: "(bytes \<Rightarrow> bytes) \<Rightarrow> Candidate \<Rightarrow> bool" where
  "candidate_ok sha c \<longleftrightarrow>
     1 \<le> length (ca_candidate_id c) \<and> length (ca_candidate_id c) \<le> 128 \<and>
     1 \<le> length (ca_incarnation_id c) \<and> length (ca_incarnation_id c) \<le> 128 \<and>
     1 \<le> length (command_id (ca_transition c)) \<and> length (command_id (ca_transition c)) \<le> 128 \<and>
     length (context_sha256 (ca_transition c)) = 32 \<and> length (ca_lifecycle c) = 32 \<and>
     (ca_retention c = 2 \<or> ca_retention c = 4) \<and> successor_bounds (ca_proof c) \<and>
     resync_roster_ok sha (ca_previous c) \<and> resync_roster_ok sha (ca_resulting c) \<and>
     length (ca_private_digest c) = 32 \<and> rows_bounded (ca_rows c) \<and>
     (\<forall>e \<in> set (ca_rows c). row_shape (group_id (ca_resulting c)) e) \<and>
     sorted_wrt (<) (map entry_key (ca_rows c))"

lemma ca_bytes_bounds: "ca_bytes C mn mx s = (Inr v, r) \<Longrightarrow> mn \<le> length v \<and> length v \<le> mx"
  by (auto simp: ca_bytes_def run_bindS_ok_iff if_liftS_Inl_iff returnS_ok_iff)

lemma ca_count_bounds: "ca_count C mn mx s = (Inr n, r) \<Longrightarrow> mn \<le> n \<and> n \<le> mx"
  by (auto simp: ca_count_def run_bindS_ok_iff if_liftS_Inl_iff returnS_ok_iff)

lemma ca_leaf_ok: "ca_leaf C s = (Inr l, r) \<Longrightarrow> resync_leaf_ok l"
  by (auto simp: ca_leaf_def run_bindS_ok_iff Let_def liftS_ok_iff leaf_bounds_Inr_iff returnS_ok_iff)

lemma times_all: "timesS n m s = (Inr xs, r) \<Longrightarrow> (\<And>s x r. m s = (Inr x, r) \<Longrightarrow> P x) \<Longrightarrow>
    length xs = n \<and> (\<forall>x \<in> set xs. P x)"
  by (induction n arbitrary: s xs) (auto simp: times_Cons_iff simp del: timesS.simps(2))

lemma candidate_roster_ok: "candidate_roster sha C s = (Inr a, r) \<Longrightarrow> resync_roster_ok sha a"
  by (auto simp: candidate_roster_def run_bindS_ok_iff liftS_ok_iff returnS_ok_iff resync_roster_ok_def
      map_err_Inr_iff if_liftS_Inl_iff
      dest!: ca_bytes_bounds ca_count_bounds times_all [where P = resync_leaf_ok, OF _ ca_leaf_ok]
      simp: validate_canonical_leaves_Inr_iff Suc_le_eq)

section \<open>Reading is exact\<close>

lemma successor_only:
  "(case q of RqSnapshot x \<Rightarrow> liftS (Inl e) | RqSuccessor p \<Rightarrow> returnS p) s = (Inr p', r) \<longleftrightarrow>
    q = RqSuccessor p' \<and> r = s"
  by (cases q) auto

lemma read_proof_iff:
  assumes "cbor_ok C"
  shows "read_proof C s = (Inr p, r) \<longleftrightarrow>
    (\<exists>b. ca_bytes C 1 REQUEST_MAX_BYTES s = (Inr b, r) \<and> successor_bounds p \<and>
       encode_request C (RqSuccessor p) = Inr b)"
  by (auto simp: read_proof_def run_bindS_ok_iff liftS_ok_iff map_err_Inr_iff decode_request_iff [OF assms]
      successor_only)

lemma check_rows_iff:
  "check_rows C n s = (Inr u, r) \<longleftrightarrow> r = s \<and> (\<exists>m. scan_rows C n 0 s = (Inr m, []))"
  by (auto simp: check_rows_def split: prod.splits sum.splits if_splits)

lemma candidate_fields_ok:
  assumes C: "cbor_ok C" and f: "candidate_fields sha C s = (Inr c, r)"
  shows "candidate_ok sha c"
proof -
  from f obtain u1 s1 v s2 cid s3 iid s4 cmd s5 ctx s6 lc s7 t s8 u2 s9 p s10 prev s11 res s12 d s13 n s14 u3 s15 rows s16 where
    raw: "ca_bytes C 1 128 s2 = (Inr cid, s3)" "ca_bytes C 1 128 s3 = (Inr iid, s4)"
    "ca_bytes C 1 128 s4 = (Inr cmd, s5)" "ca_bytes C 32 32 s5 = (Inr ctx, s6)"
    "ca_bytes C 32 32 s6 = (Inr lc, s7)" "validate_retention t = Inr u2"
    "read_proof C s9 = (Inr p, s10)" "candidate_roster sha C s10 = (Inr prev, s11)"
    "candidate_roster sha C s11 = (Inr res, s12)" "ca_bytes C 32 32 s12 = (Inr d, s13)"
    "ca_count C 0 4096 s13 = (Inr n, s14)" "check_rows C n s14 = (Inr u3, s15)"
    "timesS n (row_reader C (group_id res)) s15 = (Inr rows, s16)" "\<not> out_of_order rows"
    "c = \<lparr>ca_candidate_id = cid, ca_incarnation_id = iid,
       ca_transition = \<lparr>command_id = cmd, context_sha256 = ctx\<rparr>, ca_lifecycle = lc,
       ca_retention = t, ca_proof = p, ca_previous = prev, ca_resulting = res,
       ca_private_digest = d, ca_rows = rows\<rparr>"
    unfolding candidate_fields_def run_bindS_ok_iff if_liftS_Inl_iff returnS_ok_iff liftS_ok_iff
    by (elim exE conjE) (rule that, (assumption | erule sym | rule sym, assumption)+)
  note bounds = raw(1-5,10) [THEN ca_bytes_bounds] raw(8,9) [THEN candidate_roster_ok]
    raw(11) [THEN ca_count_bounds]
  from raw(12) obtain m where sc: "s15 = s14" "scan_rows C n 0 s14 = (Inr m, [])"
    by (auto simp: check_rows_iff)
  have "successor_bounds p" using raw(7) by (auto simp: read_proof_iff [OF C])
  have "length (group_id res) = 16" using bounds(8) by (simp add: resync_roster_ok_def)
  from scan_and_read [OF this sc(2) raw(13) [unfolded sc(1)]] bounds(9) have "rows_bounded rows"
      "\<forall>e \<in> set rows. row_shape (group_id res) e"
    by (auto simp: rows_bounded_def row_shape_def)
  with bounds raw(6,14) \<open>successor_bounds p\<close> show ?thesis
    by (simp add: candidate_ok_def out_of_order_iff raw(15) small_checks le_antisym)
qed

lemma candidate_fields_back:
  assumes C: "cbor_ok C" and ok: "candidate_ok sha c"
    and p: "encode_request C (RqSuccessor (ca_proof c)) = Inr b"
  shows "candidate_fields sha C (put_candidate C b c) = (Inr c, [])"
proof -
  let ?g = "group_id (ca_resulting c)" and ?n = "length (ca_rows c)"
  have n: "?n \<le> 4096" and rb: "sum_list (map row_size (ca_rows c)) \<le> 6 * 1024 * 1024"
    and g: "length ?g = 16" and rows: "\<forall>e \<in> set (ca_rows c). row_shape ?g e"
    and ord: "\<not> out_of_order (ca_rows c)"
    using ok by (simp_all add: candidate_ok_def rows_bounded_def resync_roster_ok_def out_of_order_iff)
  have b: "1 \<le> length b" "length b \<le> REQUEST_MAX_BYTES"
    using p by (auto simp: encode_request_def Let_def frame_length HEADER_def REQUEST_MAX_BYTES_def split: if_splits)
  then have pr: "read_proof C (cb_bytes C b @ r) = (Inr (ca_proof c), r)" for r
    using ok p C by (simp add: read_proof_iff candidate_ok_def read_back REQUEST_MAX_BYTES_def)
  have "scan_rows C ?n 0 (concat (map (put_entry C) (ca_rows c))) = (Inr (sum_list (map row_size (ca_rows c))), [])"
    using scan_rows_back [OF C g rows, of 0 "[]"] rb by simp
  then have ch: "check_rows C ?n (concat (map (put_entry C) (ca_rows c)))
      = (Inr (), concat (map (put_entry C) (ca_rows c)))"
    by (simp add: check_rows_iff)
  have tm: "timesS ?n (row_reader C ?g) (concat (map (put_entry C) (ca_rows c))) = (Inr (ca_rows c), [])"
    using ca_row_codec.times_enc [of "ca_rows c" C ?g "[]"] rows C by simp
  have "candidate_fields sha C (put_candidate C b c @ []) = (Inr c, [])"
    unfolding put_candidate_def candidate_fields_def append_assoc
    using ok C n ch tm ord pr
    by (simp add: run_bindS read_back candidate_ok_def ca_roster_codec.dec_enc small_checks [where u = "()", THEN iffD2])
  then show ?thesis by simp
qed

lemma cb_array_nonempty: "cbor_ok C \<Longrightarrow> cb_array C n \<noteq> []"
  using cbor_okD(1) [of C n "cb_array C (n + 1)"] cbor_okD(1) [of C "n + 1" "[]"] by auto

lemma candidate_encode_Inr_iff:
  "candidate_encode C c = Inr out \<longleftrightarrow> rows_bounded (ca_rows c) \<and>
    (\<exists>b. encode_request C (RqSuccessor (ca_proof c)) = Inr b \<and> out = put_candidate C b c \<and>
      length out \<le> MAX_BYTES)"
  by (cases "encode_request C (RqSuccessor (ca_proof c))")
    (auto simp: candidate_encode_def bindE_Inr_iff bounded_entries_Inr_iff Let_def)

lemma read_candidate_iff:
  assumes C: "cbor_ok C"
  shows "read_candidate sha C E M input h = Inr c \<longleftrightarrow>
    length h = 32 \<and> sha input = h \<and> candidate_ok sha c \<and> candidate_encode C c = Inr input \<and>
    validate_candidate sha C E M c = Inr ()"
proof
  assume "read_candidate sha C E M input h = Inr c"
  moreover from this obtain r where "candidate_fields sha C input = (Inr c, r)"
    by (cases "candidate_fields sha C input") (auto simp: read_candidate_def bindE_Inr_iff if_Inl_Inr_iff)
  ultimately show "length h = 32 \<and> sha input = h \<and> candidate_ok sha c \<and>
      candidate_encode C c = Inr input \<and> validate_candidate sha C E M c = Inr ()"
    using candidate_fields_ok [OF C]
    by (auto simp: read_candidate_def bindE_Inr_iff if_Inl_Inr_iff fixed32_def)
next
  assume a: "length h = 32 \<and> sha input = h \<and> candidate_ok sha c \<and>
      candidate_encode C c = Inr input \<and> validate_candidate sha C E M c = Inr ()"
  then obtain b where b: "encode_request C (RqSuccessor (ca_proof c)) = Inr b" "input = put_candidate C b c"
    "length input \<le> MAX_BYTES"
    by (auto simp: candidate_encode_Inr_iff)
  have "input \<noteq> []" using b(2) cb_array_nonempty [OF C] by (simp add: put_candidate_def)
  moreover have "candidate_fields sha C input = (Inr c, [])"
    using candidate_fields_back [OF C _ b(1)] a b(2) by simp
  ultimately show "read_candidate sha C E M input h = Inr c"
    using a b(3) by (simp add: read_candidate_def fixed32_def)
qed

end
