(* ===== verification/ExternalLaws.thy ===== *)
theory ExternalLaws
  imports ExternalOps CandidateLaws ResyncPublicLaws Continuity
begin

text \<open>
  What the successful operations of the member side did: an exported GroupInfo passes the public
  validator as the caller's current state; an accepted external Commit replaced exactly the
  authorised leaf and supersedes only the named pending Commit; an accepted candidate is promoted
  as the rows that were prepared.
\<close>

lemmas [success_simps] = leaf_bounds_Inr_iff mls_message_Inr_iff load_group_def serialized_def
  existing_rows_agree_def require_Inr_iff eachE_Inr_iff

section \<open>The delta of an external Commit\<close>

lemma replacement_authorised_iff:
  "replacement_authorised ls old i k \<longleftrightarrow> old \<in> set ls \<and>
    (\<forall>l \<in> set ls. signature_public_key l \<noteq> k \<and> (l \<noteq> old \<longrightarrow> credential_identity l \<noteq> i))"
  by (auto simp: replacement_authorised_def list_ex_iff)

lemma length_filter_eq_1: "length (filter (\<lambda>l. l = x) xs) = 1 \<Longrightarrow> x \<in> set xs"
  by (induction xs) (auto split: if_splits)

definition external_delta ::
  "(bytes \<Rightarrow> bytes) \<Rightarrow> MlsRosterSummaryV1 \<Rightarrow> MlsRosterSummaryV1 \<Rightarrow> MlsRosterLeafV1 \<Rightarrow> MlsRosterLeafV1 \<Rightarrow> bool"
where
  "external_delta sha previous resulting old new \<longleftrightarrow>
     one_leaf_replaced (leaves previous) (leaves resulting) old new \<and>
     replacement_authorised (leaves previous) old (credential_identity new) (signature_public_key new) \<and>
     group_id resulting = group_id previous \<and>
     u64_checked_succ (epoch previous) = Some (epoch resulting) \<and>
     canonical_leaves (leaves resulting) \<and>
     roster_digest sha (group_id resulting) (epoch resulting) (leaves resulting) = Inr (digest_sha256 resulting)"

lemma canonical_distinct: "canonical_leaves ls \<Longrightarrow> distinct ls"
  using canonical_distinct_index distinct_map by blast

lemma validate_delta_Inr:
  assumes ok: "validate_delta sha previous resulting old new = Inr u" and d: "distinct (leaves previous)"
  shows "external_delta sha previous resulting old new" "resync_leaf_ok old" "resync_leaf_ok new"
proof -
  from ok have *: "replacement_authorised (leaves previous) old (credential_identity new) (signature_public_key new)"
    "length (leaves previous) = length (leaves resulting)" "group_id previous = group_id resulting"
    "u64_checked_succ (epoch previous) = Some (epoch resulting)"
    "set (leaves previous) - {old} \<subseteq> set (leaves resulting)" "old \<notin> set (leaves resulting)"
    "length (filter (\<lambda>l. l = new) (leaves resulting)) = 1" "canonical_leaves (leaves resulting)"
    "roster_digest sha (group_id resulting) (epoch resulting) (leaves resulting) = Inr (digest_sha256 resulting)"
    and l: "resync_leaf_ok old" "resync_leaf_ok new"
    by (auto simp: validate_delta_def success_simps validate_canonical_leaves_Inr_iff list_ex_iff)
  have "new \<notin> set (leaves previous)" using *(1) by (auto simp: replacement_authorised_iff)
  then have "one_leaf_replaced (leaves previous) (leaves resulting) old new"
    using * d canonical_distinct length_filter_eq_1 [OF *(7)]
    by (intro one_leaf_replacedI) (simp_all add: replacement_authorised_iff)
  with * show "external_delta sha previous resulting old new" by (simp add: external_delta_def)
  from l show "resync_leaf_ok old" "resync_leaf_ok new" .
qed

section \<open>Exporting\<close>

lemma export_group_info_Inr:
  assumes C: "cbor_ok C" and ok: "export_group_info sha C E M P X t cx signer leaf = Inr r"
  obtains L v where
    "opened sha C E M cx L" "om_is_active M (ld_group L)" "lg_pending (ld_local L) = None"
    "eg_current_roster r = lg_current (ld_local L)" "eg_signer r = leaf"
    "leaf \<in> set (leaves (lg_current (ld_local L)))" "leaf_index leaf = om_own_leaf_index M (ld_group L)"
    "eg_group_info_sha256 r = sha (eg_group_info r)"
    "eg_base_group_state_sha256 r = cx_expected_base_sha256 cx"
    "eg_effective_retention r = cx_expected_retention cx"
    "validate_snapshot sha M P t (export_request (eg_group_info r) (sha (eg_group_info r))
       (lg_current (ld_local L)) leaf) = Inr v"
proof -
  from ok obtain L v where L: "load sha C E M cx = Inr L"
    and *: "om_is_active M (ld_group L)" "lg_pending (ld_local L) = None"
    "find (\<lambda>l. leaf_index l = om_own_leaf_index M (ld_group L)) (leaves (lg_current (ld_local L))) = Some leaf"
    "validate_snapshot sha M P t (export_request (eg_group_info r) (sha (eg_group_info r))
       (lg_current (ld_local L)) leaf) = Inr v"
    and r: "eg_group_info_sha256 r = sha (eg_group_info r)" "eg_current_roster r = lg_current (ld_local L)"
      "eg_signer r = leaf" "eg_base_group_state_sha256 r = ld_base L"
      "eg_effective_retention r = lg_retention (ld_local L)"
    by (auto simp: export_group_info_def Let_def success_simps)
  from L have o: "opened sha C E M cx L" by (simp add: load_Inr_iff [OF C])
  from *(3) have "leaf \<in> set (leaves (lg_current (ld_local L)))"
      "leaf_index leaf = om_own_leaf_index M (ld_group L)"
    by (auto simp: find_Some_iff)
  moreover have "ld_base L = cx_expected_base_sha256 cx" "lg_retention (ld_local L) = cx_expected_retention cx"
    using o by (simp_all add: opened_def)
  ultimately show thesis using that [OF o *(1,2)] *(4) r by simp
qed

section \<open>Receiving an external Commit\<close>

lemma clear_superseded_Inr:
  "clear_superseded E M s L = Inr L' \<longleftrightarrow>
    (if s then \<exists>g calls. om_clear_pending_commit M (ld_group L) (ld_provider L) = Some (g, calls) \<and>
        L' = L\<lparr>ld_group := g, ld_local := (ld_local L)\<lparr>lg_pending := None\<rparr>,
          ld_provider := clear_retry_rows ((ld_local L)\<lparr>lg_pending := None\<rparr>)
            (exec_calls E calls (ld_provider L))\<rparr>
     else L' = L)"
  by (auto simp: clear_superseded_def success_simps Let_def)

text \<open>The Commit as OpenMLS authenticated it for the member.\<close>

definition member_commit_authenticated ::
  "('v, 'g, 'x) openmls \<Rightarrow> ('p, 'x) public_mls \<Rightarrow> bytes \<Rightarrow> bytes \<Rightarrow> MlsExternalCommitBindingV1
   \<Rightarrow> MlsRosterSummaryV1 \<Rightarrow> 'g \<Rightarrow> snapshot \<Rightarrow> 'x \<Rightarrow> 'g \<Rightarrow> 'v storage_call list \<Rightarrow> bool" where
  "member_commit_authenticated M P w aad b previous g st staged g' calls \<longleftrightarrow>
     (\<exists>message wire processed.
        om_message M w = Some (message, []) \<and> om_protocol_message M message = Some wire \<and>
        om_message_group_id M wire = group_id previous \<and> om_message_epoch M wire = epoch previous \<and>
        om_process_message M wire g st = Inr ((processed, g'), calls) \<and>
        pr_sender processed = NewMemberCommit \<and> pr_aad processed = aad \<and>
        pr_basic_identity processed = Some (credential_identity (eb_author b)) \<and>
        pr_content processed = StagedCommitMessage staged \<and>
        ps_update_path_key P staged = Some (signature_public_key (eb_author b)) \<and>
        (ps_queued P staged = [(True, QueuedExternalInit), (True, QueuedRemove (leaf_index (eb_old_leaf b)))] \<or>
         ps_queued P staged = [(True, QueuedRemove (leaf_index (eb_old_leaf b))), (True, QueuedExternalInit)]))"

lemma staged_commit_only:
  "(case c of StagedCommitMessage s \<Rightarrow> Inr s | _ \<Rightarrow> Inl e) = Inr s' \<longleftrightarrow> c = StagedCommitMessage s'"
  by (cases c) auto

lemma processed_only:
  "(case r of Inl _ \<Rightarrow> Inl e | Inr ((m, g), calls) \<Rightarrow> f m g calls) = Inr x \<longleftrightarrow>
    (\<exists>m g calls. r = Inr ((m, g), calls) \<and> f m g calls = Inr x)"
  by (auto split: sum.splits prod.splits)

lemma stage_external_commit_Inr:
  "stage_external_commit E M P w aad b previous L = Inr (staged, g', st') \<longleftrightarrow>
    length w \<le> MAX_MLS_BYTES \<and> w \<in> external_commit_shape \<and>
    (\<exists>calls. st' = exec_calls E calls (ld_provider L) \<and>
      member_commit_authenticated M P w aad b previous (ld_group L) (ld_provider L) staged g' calls)"
  unfolding stage_external_commit_def member_commit_authenticated_def
  by (auto simp: success_simps external_commit_iff exact_proposals_iff [of _ ExternalDeltaMismatch] Let_def
      staged_commit_only processed_only)

lemma advanced_cleared: "advanced (s\<lparr>lg_pending := None\<rparr>) r = advanced s r"
  by (simp add: advanced_def)

lemma clear_superseded_ready:
  assumes o: "opened sha C E M cx L" and c: "clear_superseded E M (p \<noteq> None) L = Inr L'"
    and p: "map_option binding (lg_pending (ld_local L)) = p"
  shows "ld_local L' = (ld_local L)\<lparr>lg_pending := None\<rparr>"
    and "opened_on (cx_entries cx) (lg_group_id (ld_local L)) (ld_provider L')"
    and "rows_ready sha ((ld_local L)\<lparr>lg_pending := None\<rparr>) (ld_provider L')"
proof -
  define s where "s = (ld_local L)\<lparr>lg_pending := None\<rparr>"
  note op = opened_provider [OF o]
  have known: "only_known_rows (lg_group_id s) (read_opaque (exec_calls E calls (ld_provider L)))" for calls
    using op(4) by (simp add: s_def only_known_rows_def exec_calls_reserved [folded RESERVED_def])
  have rc: "rows_ready sha s (clear_retry_rows s (exec_calls E calls (ld_provider L)))" for calls
    by (rule rows_ready_cleared [OF known]) (simp_all add: s_def)
  have "ld_local L' = s \<and> opened_on (cx_entries cx) (lg_group_id (ld_local L)) (ld_provider L') \<and>
      rows_ready sha s (ld_provider L')"
  proof (cases p)
    case None
    then have "lg_pending (ld_local L) = None" "L' = L" using p c by (simp_all add: clear_superseded_Inr)
    moreover from this have "s = ld_local L" by (simp add: s_def)
    ultimately show ?thesis using op by simp
  next
    case (Some b)
    with c obtain g calls where "L' = L\<lparr>ld_group := g, ld_local := s,
        ld_provider := clear_retry_rows s (exec_calls E calls (ld_provider L))\<rparr>"
      by (auto simp: clear_superseded_Inr s_def)
    with rc show ?thesis by (simp add: opened_on_clear opened_on_exec_calls op(1))
  qed
  then show "ld_local L' = (ld_local L)\<lparr>lg_pending := None\<rparr>"
    "opened_on (cx_entries cx) (lg_group_id (ld_local L)) (ld_provider L')"
    "rows_ready sha ((ld_local L)\<lparr>lg_pending := None\<rparr>) (ld_provider L')"
    by (simp_all add: s_def)
qed

lemma opened_distinct: "opened sha C E M cx L \<Longrightarrow> distinct (leaves (lg_current (ld_local L)))"
  using canonical_distinct roster_from_group_Inr(3) by (metis opened_def)

lemma external_receive_Inr:
  assumes C: "cbor_ok C"
    and ok: "external_receive sha C E M P cx w aad acceptance superseded = Inr r"
  obtains L L' staged g calls g' calls' m where
    "opened sha C E M cx L" "om_is_active M (ld_group L)"
    "lg_incarnation_id (ld_local L) = eb_incarnation_id (ea_binding acceptance)"
    "eb_previous_state (ea_binding acceptance) = expected (lg_current (ld_local L))"
    "leaf_index (eb_old_leaf (ea_binding acceptance)) \<noteq> om_own_leaf_index M (ld_group L)"
    "map_option binding (lg_pending (ld_local L)) = superseded"
    "sha w = eb_commit_sha256 (ea_binding acceptance)" "sha aad = eb_aad_sha256 (ea_binding acceptance)"
    "w \<in> external_commit_shape"
    "clear_superseded E M (superseded \<noteq> None) L = Inr L'"
    "member_commit_authenticated M P w aad (ea_binding acceptance) (lg_current (ld_local L))
       (ld_group L') (ld_provider L') staged g calls"
    "om_merge_staged_commit M staged g (exec_calls E calls (ld_provider L')) = Some (g', calls')"
    "roster_from_group sha M g' = Inr (xr_resulting_roster r)" "om_is_active M g'"
    "external_delta sha (lg_current (ld_local L)) (xr_resulting_roster r)
       (eb_old_leaf (ea_binding acceptance)) (eb_author (ea_binding acceptance))"
    "expected (xr_resulting_roster r) = ea_resulting_state acceptance"
    "xr_previous_roster r = lg_current (ld_local L)"
    "xr_authenticated_sender r = eb_author (ea_binding acceptance)"
    "xr_superseded_pending r = superseded" "xr_storage_batch r = mu_batch m"
    "xr_resulting_group_state_sha256 r = mu_resulting_digest m"
    "committed sha C (cx_entries cx) (advanced (ld_local L) (xr_resulting_roster r)) m"
proof -
  from ok obtain L L' staged g calls g' calls' R s m where L: "load sha C E M cx = Inr L"
    and *: "om_is_active M (ld_group L)"
    "lg_incarnation_id (ld_local L) = eb_incarnation_id (ea_binding acceptance)"
    "eb_previous_state (ea_binding acceptance) = expected (lg_current (ld_local L))"
    "leaf_index (eb_old_leaf (ea_binding acceptance)) \<noteq> om_own_leaf_index M (ld_group L)"
    "map_option binding (lg_pending (ld_local L)) = superseded"
    "sha w = eb_commit_sha256 (ea_binding acceptance)" "sha aad = eb_aad_sha256 (ea_binding acceptance)"
    "w \<in> external_commit_shape"
    "clear_superseded E M (superseded \<noteq> None) L = Inr L'"
    "member_commit_authenticated M P w aad (ea_binding acceptance) (lg_current (ld_local L))
       (ld_group L') (ld_provider L') staged g calls"
    "om_merge_staged_commit M staged g (exec_calls E calls (ld_provider L')) = Some (g', calls')"
    "roster_from_group sha M g' = Inr R" "om_is_active M g'"
    and d: "validate_delta sha (lg_current (ld_local L)) R (eb_old_leaf (ea_binding acceptance))
       (eb_author (ea_binding acceptance)) = Inr ()"
    and ex: "expected R = ea_resulting_state acceptance"
    and adv: "advance sha (ld_local L') R = Inr s"
    and fin: "finish sha C (exec_calls E calls' (exec_calls E calls (ld_provider L'))) s
       (lg_current (ld_local L)) = Inr m"
    and r: "r = \<lparr>xr_authenticated_sender = eb_author (ea_binding acceptance),
        xr_previous_roster = mu_previous m, xr_resulting_roster = mu_resulting m,
        xr_resulting_group_state_sha256 = mu_resulting_digest m, xr_effective_retention = mu_retention m,
        xr_superseded_pending = superseded, xr_storage_batch = mu_batch m\<rparr>"
    by (auto simp: external_receive_def Let_def success_simps stage_external_commit_Inr)
  from L have o: "opened sha C E M cx L" by (simp add: load_Inr_iff [OF C])
  note cl = clear_superseded_ready [OF o *(9,5)]
  have s: "s = advanced (ld_local L) R"
    using adv by (simp add: cl(1) advance_Inr_iff advanced_cleared)
  have sg: "lg_group_id s = lg_group_id (ld_local L)" "lg_pending s = None"
    by (simp_all add: s advanced_def)
  have "rows_ready sha s (ld_provider L')"
    using cl(3) by (subst rows_ready_same [of s "(ld_local L)\<lparr>lg_pending := None\<rparr>"]) (simp_all add: sg)
  then have cm: "committed sha C (cx_entries cx) s m" "mu_previous m = lg_current (ld_local L)"
    using cl(2) sg(1)
    by (atomize (full), intro finish_committed [OF C _ _ fin]) (simp_all add: opened_on_exec_calls rows_ready_exec_calls)
  then have R: "xr_resulting_roster r = R"
    by (simp add: r committed_def Let_def s advanced_def)
  show thesis
    by (rule that [OF o *(1-11)])
      (use * cm R validate_delta_Inr(1) [OF d opened_distinct [OF o]] ex in \<open>simp_all add: r s\<close>)
qed

end
