(* ===== verification/PromotionLaws.thy ===== *)
theory PromotionLaws
  imports ExternalLaws
begin

text \<open>
  The life of a candidate. Accepting it promotes the prepared rows beside the installation-global
  rows of the target, and the member's next operation opens the state of the candidate
  (\<open>accept_promotes\<close>). A prepared candidate is read back from its bytes, so inspecting it returns
  what the preparation returned, and the matching acceptance promotes it (\<open>prepare_reads_back\<close>).
\<close>

section \<open>What OpenMLS persists\<close>

text \<open>
  \<open>load\<close> sees the rows of its group only: neither installation-global rows nor those of the package.
\<close>

definition load_frame :: "('v, 'g, 'x) openmls \<Rightarrow> bool" where
  "load_frame M \<longleftrightarrow>
     (\<forall>gid a b. (\<forall>k. \<not> is_global_key k \<longrightarrow> \<not> starts_with k RESERVED \<longrightarrow> read_opaque a k = read_opaque b k) \<longrightarrow>
        om_load M gid a = om_load M gid b)"

lemma load_frameD:
  "load_frame M \<Longrightarrow> (\<And>k. \<not> is_global_key k \<Longrightarrow> \<not> starts_with k RESERVED \<Longrightarrow> read_opaque a k = read_opaque b k) \<Longrightarrow>
    om_load M gid a = om_load M gid b"
  unfolding load_frame_def by blast

section \<open>Writing rows\<close>

definition write_entries :: "MlsStorageEntry list \<Rightarrow> snapshot \<Rightarrow> snapshot" where
  "write_entries rows st = fold (\<lambda>row. write_opaque (entry_key row) (entry_value row)) rows st"

lemma write_entries_ok [simp]:
  "snapshot_ok st \<Longrightarrow> snapshot_ok (write_entries rows st)"
  "sp_initial (write_entries rows st) = sp_initial st"
  by (induction rows arbitrary: st) (auto simp: write_entries_def)

lemma read_write_entries:
  "distinct (map entry_key rows) \<Longrightarrow> read_opaque (write_entries rows st) k =
    (case row_of rows k of Some v \<Rightarrow> Some v | None \<Rightarrow> read_opaque st k)"
proof (induction rows arbitrary: st)
  case Nil
  then show ?case by (simp add: write_entries_def row_of_def entries_map_def)
next
  case (Cons e rows)
  have "row_of (e # rows) k = (if k = entry_key e then Some (entry_value e) else row_of rows k)"
    by (simp add: row_of_def entries_map_def)
  moreover have "entry_key e = k \<Longrightarrow> row_of rows k = None"
    using Cons.prems by (auto simp: row_of_def entries_map_def map_of_eq_None_iff)
  moreover have "read_opaque (write_entries (e # rows) st) k =
      read_opaque (write_entries rows (write_opaque (entry_key e) (entry_value e) st)) k"
    by (simp add: write_entries_def)
  ultimately show ?case
    using Cons by (auto simp: snapshot_kv.rd_wr split: option.splits)
qed

lemma row_of_mem: "distinct (map entry_key rows) \<Longrightarrow> row_of rows k = Some v \<longleftrightarrow>
    (\<exists>e \<in> set rows. entry_key e = k \<and> entry_value e = v)"
  by (auto simp: row_of_def entries_map_Some_iff)

lemma scoped_row_eq_iff:
  "scoped_row (Some g) (entry_key e) v = e \<longleftrightarrow> v = entry_value e \<and> row_scoped (Some g) e"
  by (cases e) (auto simp: scoped_row_def row_scoped_def)

lemma snapshot_entries_mem:
  "snapshot_ok st \<Longrightarrow> e \<in> set (snapshot_entries st g) \<longleftrightarrow>
    row_scoped (Some g) e \<and> read_opaque st (entry_key e) = Some (entry_value e)"
proof -
  assume ok: "snapshot_ok st"
  have "e \<in> set (snapshot_entries st g) \<longleftrightarrow> entries_map (snapshot_entries st g) (entry_key e) = Some e"
    using entries_map_Some_iff [OF distinct_snapshot_entries [OF ok]] by blast
  also have "\<dots> \<longleftrightarrow> row_scoped (Some g) e \<and> read_opaque st (entry_key e) = Some (entry_value e)"
    by (auto simp: entries_map_snapshot read_opaque_def scoped_row_eq_iff)
  finally show ?thesis .
qed

section \<open>Acceptance\<close>

lemma row_scoped_same:
  "row_scoped (Some g) e \<Longrightarrow> row_scoped (Some g) a \<Longrightarrow> entry_key a = entry_key e \<Longrightarrow>
    entry_value a = entry_value e \<Longrightarrow> a = e"
  by (cases e; cases a) (auto simp: row_scoped_def split: if_splits)

text \<open>The rows after writing scoped rows over others that agree with them.\<close>

lemma snapshot_entries_union:
  assumes ok: "snapshot_ok st'" and d: "distinct (map entry_key a)" "distinct (map entry_key b)"
    and rd: "\<And>k. read_opaque st' k = (case row_of a k of Some v \<Rightarrow> Some v | None \<Rightarrow> row_of b k)"
    and agree: "\<And>e v. e \<in> set a \<Longrightarrow> row_of b (entry_key e) = Some v \<Longrightarrow> v = entry_value e"
    and scoped: "\<forall>e \<in> set a. row_scoped (Some g) e" "\<forall>e \<in> set b. row_scoped (Some g) e"
  shows "set (snapshot_entries st' g) = set a \<union> set b"
proof (intro set_eqI iffI)
  fix e
  assume "e \<in> set (snapshot_entries st' g)"
  then have e: "row_scoped (Some g) e" "read_opaque st' (entry_key e) = Some (entry_value e)"
    by (simp_all add: snapshot_entries_mem [OF ok])
  then have "row_of a (entry_key e) = Some (entry_value e) \<or> row_of b (entry_key e) = Some (entry_value e)"
    by (auto simp: rd split: option.splits)
  then obtain x where "x \<in> set a \<union> set b" "entry_key x = entry_key e" "entry_value x = entry_value e"
    by (auto simp: row_of_mem [OF d(1)] row_of_mem [OF d(2)])
  moreover from this have "x = e" using scoped by (intro row_scoped_same [OF e(1)]) auto
  ultimately show "e \<in> set a \<union> set b" by simp
next
  fix e
  assume e: "e \<in> set a \<union> set b"
  have "read_opaque st' (entry_key e) = Some (entry_value e)"
  proof (cases "e \<in> set a")
    case True
    then have "row_of a (entry_key e) = Some (entry_value e)" by (auto simp: row_of_mem [OF d(1)])
    then show ?thesis by (simp add: rd)
  next
    case False
    with e have b: "row_of b (entry_key e) = Some (entry_value e)" by (auto simp: row_of_mem [OF d(2)])
    show ?thesis
    proof (cases "row_of a (entry_key e)")
      case None
      then show ?thesis by (simp add: rd b)
    next
      case (Some v)
      then obtain x where "x \<in> set a" "entry_key x = entry_key e" "entry_value x = v"
        by (auto simp: row_of_mem [OF d(1)])
      with agree [of x "entry_value e"] b Some show ?thesis by (simp add: rd)
    qed
  qed
  then show "e \<in> set (snapshot_entries st' g)" using e scoped by (auto simp: snapshot_entries_mem [OF ok])
qed

lemma validate_candidate_Inr:
  assumes C: "cbor_ok C" and ok: "validate_candidate sha C E M c = Inr u"
  obtains b L where "candidate_binding sha c = Inr b" "validate_binding b = Inr ()"
    "opened sha C E M (candidate_context c) L" "om_is_active M (ld_group L)"
    "lg_pending (ld_local L) = None" "lg_join_epoch (ld_local L) = epoch (ca_resulting c)"
    "om_own_leaf_index M (ld_group L) = leaf_index (eb_author b)"
    "validate_delta sha (ca_previous c) (ca_resulting c) (eb_old_leaf b) (eb_author b) = Inr ()"
  using ok by (auto simp: validate_candidate_def success_simps load_Inr_iff [OF C])

lemma local_fresh:
  assumes "local_ok sha s" "lg_pending s = None" "lg_join_epoch s = epoch (lg_current s)"
  shows "new_state sha (lg_incarnation_id s) (lg_retention s) (lg_current s) = Inr s"
proof -
  have "lg_history s = []" using assms by (simp add: local_ok_def history_ok_def window_def)
  with assms show ?thesis by (cases s) (auto simp: new_state_Inr_iff local_ok_def)
qed

text \<open>The context of the next operation after a promotion.\<close>

definition promoted_context ::
  "MlsExternalTargetContextV1 \<Rightarrow> AcceptExternalCommitResult \<Rightarrow> Context" where
  "promoted_context T r = \<lparr>cx_group_id = et_group_id T, cx_incarnation_id = et_incarnation_id T,
     cx_expected_current = expected (ae_resulting_roster r),
     cx_expected_base_sha256 = ae_resulting_group_state_sha256 r,
     cx_expected_retention = ae_effective_retention r,
     cx_entries = apply_batch (ae_storage_batch r) (et_storage_entries T), cx_storage_format = 1\<rparr>"

lemma external_accept_Inr:
  assumes "external_accept sha C E M T b h acc = Inr r"
  obtains c st where "read_candidate sha C E M b h = Inr c"
    "candidate_binding sha c = Inr (ea_binding acc)" "ea_resulting_state acc = expected (ca_resulting c)"
    "et_group_id T = group_id (ca_resulting c)" "et_incarnation_id T = ca_incarnation_id c"
    "et_local_lifecycle_context_sha256 T = ca_lifecycle c"
    "\<forall>e \<in> set (et_storage_entries T). is_global_key (entry_key e)"
    "provider_from_entries (et_storage_entries T) 1 None = Inr st"
    "\<forall>e \<in> set (ca_rows c). \<forall>v. read_opaque st (entry_key e) = Some v \<longrightarrow> v = entry_value e"
    "state_digest sha (write_entries (ca_rows c) st) (et_group_id T) = Inr (ca_private_digest c)"
    "batch_from_provider (write_entries (ca_rows c) st) (Some (et_group_id T)) [] = Inr (ae_storage_batch r)"
    "ae_candidate_sha256 r = h" "ae_local_leaf r = eb_author (ea_binding acc)"
    "ae_resulting_roster r = ca_resulting c"
    "ae_resulting_group_state_sha256 r = ca_private_digest c" "ae_effective_retention r = ca_retention c"
proof -
  have rw: "(\<forall>e \<in> S. (case f e of Some v \<Rightarrow> require (v = g e) x | None \<Rightarrow> Inr ()) = Inr ()) \<longleftrightarrow>
      (\<forall>e \<in> S. \<forall>v. f e = Some v \<longrightarrow> v = g e)" for S f g and x :: MlsErrorCode
    by (auto simp: require_Inr_iff split: option.splits)
  from assms show thesis
    using that
    by (auto simp: external_accept_def Let_def success_simps rw list_ex_iff write_entries_def [abs_def])
qed

lemma accept_promotes:
  assumes C: "cbor_ok C" and fr: "load_frame M" and ok: "external_accept sha C E M T b h acc = Inr r"
    and c: "read_candidate sha C E M b h = Inr c"
  shows "set (apply_batch (ae_storage_batch r) (et_storage_entries T))
      = set (ca_rows c) \<union> set (et_storage_entries T)"
    and "\<exists>L. load sha C E M (promoted_context T r) = Inr L \<and> om_is_active M (ld_group L) \<and>
      expected (lg_current (ld_local L)) = expected (ca_resulting c) \<and>
      new_state sha (ca_incarnation_id c) (ca_retention c) (lg_current (ld_local L)) = Inr (ld_local L)"
proof -
  let ?g = "et_group_id T" and ?rows = "apply_batch (ae_storage_batch r) (et_storage_entries T)"
  obtain c' st where c': "read_candidate sha C E M b h = Inr c'" "?g = group_id (ca_resulting c')"
    "et_incarnation_id T = ca_incarnation_id c'"
    "\<forall>e \<in> set (et_storage_entries T). is_global_key (entry_key e)"
    and st: "provider_from_entries (et_storage_entries T) 1 None = Inr st"
    and agree': "\<forall>e \<in> set (ca_rows c'). \<forall>v. read_opaque st (entry_key e) = Some v \<longrightarrow> v = entry_value e"
    "state_digest sha (write_entries (ca_rows c') st) ?g = Inr (ca_private_digest c')"
    "batch_from_provider (write_entries (ca_rows c') st) (Some ?g) [] = Inr (ae_storage_batch r)"
    and r': "ae_resulting_roster r = ca_resulting c'" "ae_resulting_group_state_sha256 r = ca_private_digest c'"
      "ae_effective_retention r = ca_retention c'"
    by (rule external_accept_Inr [OF ok])
  have [simp]: "c' = c" using c c'(1) by simp
  note g = c'(2) [simplified] and glob = c'(4) and agree = agree'(1) [simplified]
    and dig = agree'(2) [simplified] and bt = agree'(3) [simplified] and r = r' [simplified] c'(3) [simplified]
  define st' where "st' = write_entries (ca_rows c) st"
  have cok: "candidate_ok sha c" "validate_candidate sha C E M c = Inr ()"
    using c by (simp_all add: read_candidate_iff [OF C])
  have dist: "distinct (map entry_key (ca_rows c))" and shape: "\<forall>e \<in> set (ca_rows c). row_scoped (Some ?g) e"
    using cok(1) strict_sorted_iff by (auto simp: candidate_ok_def row_shape_def g)
  note st1 = provider_from_entries_scope [OF st, of ?g]
  have vt: "distinct (map entry_key (et_storage_entries T))"
      "\<forall>e \<in> set (et_storage_entries T). row_scoped (Some ?g) e"
    using st1 by (auto simp: provider_from_entries_Inr_iff validate_storage_entries_Inr_iff)
  note so = row_of_opened [OF st1]
  have st'ok: "snapshot_ok st'" "sp_initial st' = sp_initial st" using so by (simp_all add: st'_def)
  note ap = apply_batch_gives_current [OF st'ok(1) st1 st'ok(2) bt [folded st'_def]]
  note ds = distinct_snapshot_entries [OF st'ok(1), of ?g]
  have rd: "read_opaque st' k = (case row_of (ca_rows c) k of Some v \<Rightarrow> Some v
      | None \<Rightarrow> row_of (et_storage_entries T) k)" for k
    unfolding st'_def read_write_entries [OF dist] so(1) ..
  show rows: "set ?rows = set (ca_rows c) \<union> set (et_storage_entries T)"
    unfolding ap(1) by (rule snapshot_entries_union [OF st'ok(1) dist vt(1) rd _ shape vt(2)])
      (use agree in \<open>simp add: so(1)\<close>)
  from cok(2) obtain bd L where o: "opened sha C E M (candidate_context c) L"
    and L: "om_is_active M (ld_group L)" "lg_pending (ld_local L) = None"
      "lg_join_epoch (ld_local L) = epoch (ca_resulting c)"
    by (rule validate_candidate_Inr [OF C]) blast
  have ob: "ld_base L = ca_private_digest c" "length (ca_private_digest c) = 32"
    "provider_from_entries (ca_rows c) 1 (Some ?g) = Inr (ld_provider L)"
    "om_load M ?g (ld_provider L) = Some (ld_group L)" "local_ok sha (ld_local L)"
    "lg_group_id (ld_local L) = ?g" "metadata_rows sha C (ld_local L) (row_of (ca_rows c))"
    "lg_incarnation_id (ld_local L) = ca_incarnation_id c" "lg_retention (ld_local L) = ca_retention c"
    "configured M (ld_group L) (ca_retention c)"
    "roster_from_group sha M (ld_group L) = Inr (lg_current (ld_local L))"
    "expected (lg_current (ld_local L)) = expected (ca_resulting c)"
    "pending_agrees sha E M (ld_group L) (lg_pending (ld_local L)) (ld_provider L)"
    using o g by (simp_all add: opened_def candidate_context_def)
  define p where "p = from_entries (map (\<lambda>e. (entry_key e, entry_value e)) ?rows)"
  have vr: "validate_storage_entries ?rows 1 (Some ?g) = Inr ()"
    using snapshot_entries_valid [OF st'ok(1), of ?g] ap by (auto simp: validate_storage_entries_Inr_iff)
  then have p: "provider_from_entries ?rows 1 (Some ?g) = Inr p"
    by (simp add: provider_from_entries_Inr_iff p_def)
  have rp: "read_opaque p = read_opaque st'"
    using row_of_opened(1) [OF p] row_of_cong [OF ap(1) ap(2) ds] by (simp add: row_of_snapshot_entries)
  have local_rows: "read_opaque p k = row_of (ca_rows c) k" if "\<not> is_global_key k" for k
  proof -
    have "row_of (et_storage_entries T) k = None"
      using that glob row_of_mem [OF vt(1), of k] by (metis option.exhaust)
    then show ?thesis unfolding rp rd by (simp split: option.splits)
  qed
  have reserved: "row_of ?rows k = row_of (ca_rows c) k" if "starts_with k RESERVED" for k
    using local_rows global_not_reserved row_of_opened(1) [OF p] that by metis
  have "om_load M ?g p = om_load M ?g (ld_provider L)"
    by (rule load_frameD [OF fr]) (simp add: local_rows row_of_opened(1) [OF ob(3)])
  moreover have "rows_bounded ?rows" "group_state_digest_from_entries sha ?g ?rows 1 = Inr (ca_private_digest c)"
    using dig rows_bounded_cong [OF ap(1) distinct_keys_distinct [OF ap(2)] distinct_keys_distinct [OF ds]]
      group_state_digest_cong [OF vr snapshot_entries_valid [OF st'ok(1)]] ap(1)
    by (auto simp: state_digest_def Let_def success_simps st'_def)
  moreover have "metadata_rows sha C (ld_local L) (row_of ?rows)"
    using ob(7) by (subst metadata_rows_cong [where rd' = "row_of (ca_rows c)"]) (simp_all add: reserved)
  moreover have "pending_agrees sha E M (ld_group L) (lg_pending (ld_local L)) p"
    using ob(13) L(2) by (simp add: pending_agrees_def)
  ultimately have "opened sha C E M (promoted_context T r) (L\<lparr>ld_provider := p\<rparr>)"
    using ob p by (simp add: opened_def promoted_context_def r)
  moreover have "new_state sha (ca_incarnation_id c) (ca_retention c) (lg_current (ld_local L)) = Inr (ld_local L)"
    using local_fresh [OF ob(5) L(2)] L(3) ob(8,9,12) by (simp add: expected_def)
  ultimately show "\<exists>L. load sha C E M (promoted_context T r) = Inr L \<and> om_is_active M (ld_group L) \<and>
      expected (lg_current (ld_local L)) = expected (ca_resulting c) \<and>
      new_state sha (ca_incarnation_id c) (ca_retention c) (lg_current (ld_local L)) = Inr (ld_local L)"
    using L(1) ob(12) by (intro exI [of _ "L\<lparr>ld_provider := p\<rparr>"]) (simp add: load_Inr_iff [OF C])
qed

text \<open>A target that holds no row accepts the candidate.\<close>

definition empty_target :: "Candidate \<Rightarrow> MlsExternalTargetContextV1" where
  "empty_target c = \<lparr>et_group_id = group_id (ca_resulting c), et_incarnation_id = ca_incarnation_id c,
     et_local_lifecycle_context_sha256 = ca_lifecycle c, et_storage_entries = [],
     et_storage_format_version = 1\<rparr>"

lemma written_from_empty:
  assumes st0: "provider_from_entries [] 1 None = Inr st0" and d: "distinct (map entry_key rows)"
    and v: "\<forall>e \<in> set rows. row_scoped (Some g) e"
  shows "set (snapshot_entries (write_entries rows st0) g) = set rows"
proof -
  note so = row_of_opened [OF st0]
  have "row_of [] k = None" for k by (simp add: row_of_def entries_map_def)
  then show ?thesis
    using snapshot_entries_union [of "write_entries rows st0" rows "[]" g] so d v
    by (simp add: read_write_entries [OF d] split: option.splits)
qed

lemma accept_into_empty:
  assumes C: "cbor_ok C" and c: "read_candidate sha C E M b h = Inr c"
    and bd: "candidate_binding sha c = Inr bnd" "validate_binding bnd = Inr ()"
  shows "\<exists>r. external_accept sha C E M (empty_target c) b h
      \<lparr>ea_binding = bnd, ea_resulting_state = expected (ca_resulting c)\<rparr> = Inr r"
proof -
  let ?g = "group_id (ca_resulting c)"
  have cok: "candidate_ok sha c" "validate_candidate sha C E M c = Inr ()"
    using c by (simp_all add: read_candidate_iff [OF C])
  have dist: "distinct (map entry_key (ca_rows c))" and shape: "\<forall>e \<in> set (ca_rows c). row_scoped (Some ?g) e"
    using cok(1) strict_sorted_iff by (auto simp: candidate_ok_def row_shape_def)
  obtain L where o: "opened sha C E M (candidate_context c) L"
    by (rule validate_candidate_Inr [OF C cok(2)]) blast
  have vr: "validate_storage_entries [] 1 v = Inr ()" for v
    by (simp add: validate_storage_entries_Inr_iff MLS_STORAGE_FORMAT_VERSION_def)
  then obtain st0 where st0: "provider_from_entries [] 1 None = Inr st0"
    by (simp add: provider_from_entries_Inr_iff)
  define st where "st = write_entries (ca_rows c) st0"
  note so = row_of_opened [OF st0]
  have ok: "snapshot_ok st" using so by (simp add: st_def)
  have rows: "set (snapshot_entries st ?g) = set (ca_rows c)"
    unfolding st_def by (rule written_from_empty [OF st0 dist shape])
  note ds = distinct_snapshot_entries [OF ok, of ?g]
  have rb: "rows_bounded (snapshot_entries st ?g)"
    using rows_bounded_cong [OF rows distinct_keys_distinct [OF ds] distinct_keys_distinct [OF dist]] cok(1)
    by (simp add: candidate_ok_def)
  have "group_state_digest_from_entries sha ?g (ca_rows c) 1 = Inr (ca_private_digest c)"
    and "validate_storage_entries (ca_rows c) 1 (Some ?g) = Inr ()"
    using o by (auto simp: opened_def candidate_context_def provider_from_entries_Inr_iff)
  then have dig: "group_state_digest_from_entries sha ?g (snapshot_entries st ?g) 1 = Inr (ca_private_digest c)"
    using group_state_digest_cong [OF snapshot_entries_valid [OF ok]] rows by fastforce
  have be: "bounded_entries (snapshot_entries st ?g) = Inr ()" using rb by (simp add: bounded_entries_Inr_iff)
  have sd: "state_digest sha st ?g = Inr (ca_private_digest c)"
    by (simp add: state_digest_def Let_def be dig)
  obtain bt where bt: "batch_from_provider st (Some ?g) [] = Inr bt"
    by (simp add: batch_from_provider_def batch_from_updates_Some)
  have "sp_initial st = []"
    using st0 by (simp add: st_def provider_from_entries_Inr_iff from_entries_def Let_def)
  then have up: "up_upserts (into_updates st) = sp_current st" "up_deletes (into_updates st) = []"
    by (simp_all add: into_updates_def)
  then have "upserts bt = sort_key entry_key (snapshot_entries st ?g)" "deletes bt = []" "deleted_group_ids bt = []"
    using bt by (auto simp: batch_from_provider_def batch_from_updates_Some snapshot_entries_def)
  moreover have "rows_bounded (sort_key entry_key (snapshot_entries st ?g))"
    using rb distinct_keys_distinct [OF ds]
    by (subst rows_bounded_cong [of _ "snapshot_entries st ?g"]) simp_all
  then have "\<exists>n. entry_bytes (sort_key entry_key (snapshot_entries st ?g)) = Inr n \<and> n \<le> 6 * 1024 * 1024"
    by (auto simp: entry_bytes_Inr_iff rows_bounded_def)
  ultimately have bb: "bounded_batch bt = Inr ()"
    by (auto simp: bounded_batch_def)
  have agree: "existing_rows_agree (ca_rows c) st0 = Inr ()"
    by (simp add: success_simps so(1) row_of_def entries_map_def)
  have b0: "bounded_entries [] = Inr ()" by (simp add: bounded_entries_Inr_iff rows_bounded_def)
  show ?thesis
    using sd bt bb
    by (simp add: external_accept_def c bd empty_target_def b0 vr st0 agree Let_def st_def
        write_entries_def [abs_def])
qed

end
