(* ===== verification/PreparationLaws.thy ===== *)
theory PreparationLaws
  imports PromotionLaws
begin

text \<open>
  A prepared candidate is well formed and passes its own validation, so it is read back from its
  bytes under their hash (\<open>prepare_reads_back\<close>), and the acceptance that names it promotes it into
  a target that holds no row of the group.
\<close>

section \<open>What OpenMLS persists\<close>

text \<open>
  The group after an external Commit to a group of the profile: the requested configuration, the
  cipher suite of the profile, active, and found again by \<open>load\<close> without a pending Commit. The
  members of a public group have distinct indexes.
\<close>

definition external_persists ::
  "'v storage_env \<Rightarrow> ('v, 'g, 'x) openmls \<Rightarrow> ('p, 'x) public_mls \<Rightarrow> ('v, 'g, 'x) external_mls \<Rightarrow> bool" where
  "external_persists E M P X \<longleftrightarrow>
     (\<forall>b message info config i aad credential signer st g bd calls.
        om_message M b = Some (message, []) \<longrightarrow> pm_group_info P message = Some info \<longrightarrow>
        b \<in> group_info_shape \<longrightarrow>
        xm_external_commit X config i aad info credential signer st = Some ((g, bd), calls) \<longrightarrow>
        om_configuration M g = config \<and> om_ciphersuite M g = MLS_128_DHKEMX25519_AES128GCM_SHA256_Ed25519 \<and>
        om_is_active M g \<and> found E M (om_group_id M g) st calls g False)"

definition external_ok ::
  "(bytes \<Rightarrow> bytes) \<Rightarrow> 'v storage_env \<Rightarrow> ('v, 'g, 'x) openmls \<Rightarrow> ('p, 'x) public_mls
   \<Rightarrow> ('v, 'g, 'x) external_mls \<Rightarrow> bool" where
  "external_ok sha E M P X \<longleftrightarrow> public_mls_ok sha P \<and> load_frame M \<and> external_persists E M P X \<and>
     (\<forall>t tree info p i. pm_from_external P t tree info = Inr (p, i) \<longrightarrow> distinct (map fst (pm_members P p)))"

lemma external_okD:
  assumes "external_ok sha E M P X" "om_message M b = Some (message, [])" "pm_group_info P message = Some info"
    "b \<in> group_info_shape" "xm_external_commit X config i aad info credential signer st = Some ((g, bd), calls)"
  shows "om_configuration M g = config \<and> om_ciphersuite M g = MLS_128_DHKEMX25519_AES128GCM_SHA256_Ed25519 \<and>
    om_is_active M g \<and> found E M (om_group_id M g) st calls g False"
proof -
  from assms(1) have "external_persists E M P X" by (simp add: external_ok_def)
  from this [unfolded external_persists_def, rule_format, OF assms(2-5)] show ?thesis by blast
qed

section \<open>The rosters\<close>

lemma local_public_leaf [simp]: "local_leaf (public_leaf l) = l" "public_leaf (local_leaf k) = k"
  by (simp_all add: local_leaf_def public_leaf_def)

lemma local_leaf_ok: "resync_leaf_ok (local_leaf l) \<longleftrightarrow> public_leaf_ok l"
  by (auto simp: resync_leaf_ok_def public_leaf_ok_def local_leaf_def leaf_ok_def RS_MAX_LEAVES_def)

lemma strict_sorted_sort: "distinct (map f xs) \<Longrightarrow> sorted_wrt (<) (map f (sort_key f xs))"
  by (metis distinct_map sorted_sort_key strict_sorted_iff mset_map mset_sort mset_eq_imp_distinct_iff)

lemma local_roster_ok:
  assumes R: "public_roster sha P p = Inr R" and d: "distinct (map fst (pm_members P p))"
    and g: "length (pm_group_id P p) = 16" and ne: "ro_leaves R \<noteq> []" and sha: "\<And>b. length (sha b) = 32"
  shows "resync_roster_ok sha (local_roster R)"
proof -
  from R obtain ls where ls: "pm_members P p = map member_of_leaf ls" "public_leaves_ok ls"
    "ro_leaves R = sort_key lf_index ls"
    and st: "ro_state R = \<lparr>xs_group_id = pm_group_id P p, xs_epoch = pm_epoch P p,
        xs_roster_sha256 = sha (public_roster_preimage (pm_group_id P p) (pm_epoch P p) (ro_leaves R))\<rparr>"
    by (auto simp: public_roster_Inr_iff)
  have ok: "public_leaves_ok (ro_leaves R)" using ls by (simp add: public_leaves_ok_sort)
  have "distinct (map lf_index ls)" using d by (simp add: ls(1) member_of_leaf_def comp_def)
  then have "sorted_wrt (<) (map lf_index (ro_leaves R))" unfolding ls(3) by (rule strict_sorted_sort)
  then have "canonical_leaves (map local_leaf (ro_leaves R))"
    using ok by (simp add: canonical_leaves_def public_leaves_ok_def local_leaf_def comp_def)
  moreover have "roster_digest sha (xs_group_id (ro_state R)) (xs_epoch (ro_state R)) (map local_leaf (ro_leaves R))
      = Inr (xs_roster_sha256 (ro_state R))"
    by (rule public_digest_is_roster_digest [OF R]) (simp add: g)
  ultimately show ?thesis
    using ok ne g sha
    by (simp add: resync_roster_ok_def local_roster_def st public_leaves_ok_def local_leaf_ok RS_MAX_LEAVES_def)
qed

section \<open>What a preparation did\<close>

lemma build_external_commit_Inr:
  assumes "build_external_commit E M P X i signer_bytes = Inr (g, w, nx, st)"
  obtains message info p credential signer bd calls st0 where
    "om_message M (ep_input_group_info i) = Some (message, [])" "pm_group_info P message = Some info"
    "profile (ep_retention i) = Inr p" "provider_from_entries [] 1 None = Inr st0"
    "xm_external_commit X (to_join_config p) (leaf_index (ep_authorized_old_leaf i)) (ep_aad i) info
       credential signer st0 = Some ((g, bd), calls)"
    "st = exec_calls E calls st0"
  using assms by (auto simp: build_external_commit_def success_simps)

lemma stored_case:
  "(case m of (Inl e, _) \<Rightarrow> Inl e | (Inr _, s) \<Rightarrow> f s) = Inr x \<longleftrightarrow> (\<exists>u s. m = (Inr u, s) \<and> f s = Inr x)"
  by (auto split: prod.splits sum.splits)

lemma candidate_rows_Inr:
  assumes C: "cbor_ok C"
    and ok: "candidate_rows sha C inc ret r st = Inr (d, rows)" and st: "snapshot_ok st"
  obtains s st' where "new_state sha inc ret r = Inr s"
    "st' = write_opaque (key (lg_group_id s) ''state/'') (encode_fields C s) st"
    "save sha C s st = (Inr (), st')" "snapshot_ok st'"
    "group_state_digest_from_entries sha (group_id r) (snapshot_entries st' (group_id r)) 1 = Inr d"
    "rows = sort_key entry_key (snapshot_entries st' (group_id r))"
    "rows_bounded (snapshot_entries st' (group_id r))"
proof -
  from ok obtain s st' where *: "new_state sha inc ret r = Inr s" "save sha C s st = (Inr (), st')"
    "group_state_digest_from_entries sha (group_id r) (snapshot_entries st' (group_id r)) 1 = Inr d"
    "rows = sort_key entry_key (snapshot_entries st' (group_id r))"
    "rows_bounded (snapshot_entries st' (group_id r))"
    by (auto simp: candidate_rows_def success_simps state_digest_def Let_def stored_case)
  moreover from *(2) have "st' = write_opaque (key (lg_group_id s) ''state/'') (encode_fields C s) st"
    by (simp add: save_ok_iff [OF C])
  ultimately show thesis using that st by simp
qed

lemma external_prepare_Inr:
  assumes "external_prepare sha C E M P X now i signer_bytes = Inr r"
  obtains verified g w nx st checked c where
    "preparation_bounds i signer_bytes = Inr ()"
    "validate_snapshot sha M P (now 0) (preparation_base i) = Inr verified"
    "build_external_commit E M P X i signer_bytes = Inr (g, w, nx, st)"
    "validate_external_successor sha M P (\<lambda>n. now (n + 1)) (preparation_proof sha i w nx) = Inr checked"
    "roster_from_group sha M g = Inr (ca_resulting c)"
    "ca_resulting c = local_roster (vs_roster (vc_resulting checked))"
    "validate_delta sha (ca_previous c) (ca_resulting c) (ep_authorized_old_leaf i)
       (local_leaf (vs_signer (vc_resulting checked))) = Inr ()"
    "om_own_leaf_index M g = lf_index (vs_signer (vc_resulting checked))" "\<not> om_has_pending M g"
    "candidate_rows sha C (ep_incarnation_id i) (ep_retention i) (ca_resulting c) st
       = Inr (ca_private_digest c, ca_rows c)"
    "ca_candidate_id c = ep_candidate_id i" "ca_incarnation_id c = ep_incarnation_id i"
    "ca_transition c = ep_transition i" "ca_lifecycle c = ep_local_lifecycle_context_sha256 i"
    "ca_retention c = ep_retention i" "ca_proof c = preparation_proof sha i w nx"
    "ca_previous c = local_roster (vs_roster verified)"
    "candidate_encode C c = Inr (pe_candidate_bytes r)"
    "candidate_info sha c (sha (pe_candidate_bytes r)) = Inr (pe_info r)"
proof -
  from assms obtain verified g w nx st checked R d rows enc info where
    *: "preparation_bounds i signer_bytes = Inr ()"
    "validate_snapshot sha M P (now 0) (preparation_base i) = Inr verified"
    "build_external_commit E M P X i signer_bytes = Inr (g, w, nx, st)"
    "validate_external_successor sha M P (\<lambda>n. now (n + 1)) (preparation_proof sha i w nx) = Inr checked"
    "roster_from_group sha M g = Inr R" "R = local_roster (vs_roster (vc_resulting checked))"
    "validate_delta sha (local_roster (vs_roster verified)) R (ep_authorized_old_leaf i)
       (local_leaf (vs_signer (vc_resulting checked))) = Inr ()"
    "om_own_leaf_index M g = lf_index (vs_signer (vc_resulting checked))" "\<not> om_has_pending M g"
    "candidate_rows sha C (ep_incarnation_id i) (ep_retention i) R st = Inr (d, rows)"
    and c: "candidate_encode C \<lparr>ca_candidate_id = ep_candidate_id i, ca_incarnation_id = ep_incarnation_id i,
           ca_transition = ep_transition i, ca_lifecycle = ep_local_lifecycle_context_sha256 i,
           ca_retention = ep_retention i, ca_proof = preparation_proof sha i w nx,
           ca_previous = local_roster (vs_roster verified),
           ca_resulting = R, ca_private_digest = d, ca_rows = rows\<rparr> = Inr enc"
    "candidate_info sha \<lparr>ca_candidate_id = ep_candidate_id i, ca_incarnation_id = ep_incarnation_id i,
           ca_transition = ep_transition i, ca_lifecycle = ep_local_lifecycle_context_sha256 i,
           ca_retention = ep_retention i, ca_proof = preparation_proof sha i w nx,
           ca_previous = local_roster (vs_roster verified),
           ca_resulting = R, ca_private_digest = d, ca_rows = rows\<rparr> (sha enc) = Inr info"
    and r: "r = \<lparr>pe_candidate_bytes = enc, pe_info = info\<rparr>"
    unfolding external_prepare_def Let_def
    by (auto simp: bindE_Inr_iff map_err_Inr_iff if_Inl_Inr_iff local_leaf_def split: prod.splits)
  show thesis
    by (rule that [where c = "\<lparr>ca_candidate_id = ep_candidate_id i, ca_incarnation_id = ep_incarnation_id i,
           ca_transition = ep_transition i, ca_lifecycle = ep_local_lifecycle_context_sha256 i,
           ca_retention = ep_retention i, ca_proof = preparation_proof sha i w nx,
           ca_previous = local_roster (vs_roster verified),
           ca_resulting = R, ca_private_digest = d, ca_rows = rows\<rparr>", OF *(1-4)])
      (use * c in \<open>simp_all add: r\<close>)
qed

section \<open>The candidate is well formed\<close>

lemma preparation_bounds_Inr:
  assumes "preparation_bounds i signer = Inr u"
  shows "1 \<le> length (ep_candidate_id i) \<and> length (ep_candidate_id i) \<le> 128"
    "1 \<le> length (ep_incarnation_id i) \<and> length (ep_incarnation_id i) \<le> 128"
    "1 \<le> length (command_id (ep_transition i)) \<and> length (command_id (ep_transition i)) \<le> 128"
    "length (context_sha256 (ep_transition i)) = 32" "length (ep_local_lifecycle_context_sha256 i) = 32"
    "1 \<le> length (ep_aad i) \<and> length (ep_aad i) \<le> MAX_AAD_BYTES"
    "ep_retention i = 2 \<or> ep_retention i = 4"
  using assms
  by (auto simp: preparation_bounds_def success_simps external_id_def fixed32_def bounded_aad_def
      MAX_AAD_BYTES_def Suc_le_eq split: if_splits)

lemma published_nonempty: "published sha M P t b g v \<Longrightarrow> b \<noteq> []"
  using group_info_iff [of "[]"] by (auto simp: published_def Preflight.group_info_def)

text \<open>The rosters and the request of a verified successor, as bounds.\<close>

lemma successor_request_bounds:
  assumes s: "successor_inner sha M P now r = Inr v" and sha: "\<And>b. length (sha b) = 32"
    and ok: "public_mls_ok sha P"
  shows "successor_bounds r"
proof -
  from s have b: "r_aad \<noteq> [] \<and> length r_aad \<le> MAX_AAD_BYTES" if "r_aad = su_expected_aad r" for r_aad
    using that by (auto simp: successor_inner_def split: if_splits)
  from s have l: "length (su_authorized_new_identity r) = 45"
    "length (su_authorized_new_signature_key r) = 32" "public_leaf_ok (su_authorized_old r)"
    and ec: "external_commit (su_commit r) = Inr ()"
    and ch: "check_hash sha (su_commit r) (su_commit_sha256 r) = Inr ()"
    by (auto simp: successor_inner_def bindE_Inr_iff validate_public_leaf_Inr_iff split: if_splits)
  from successor_inner_Inr(1) [OF s] obtain g g' nx where
    sn: "snapshot_inner sha M P (now 0) (su_base r) = Inr (g, vc_previous v)"
    and pb: "published sha M P (now 2) (su_reported_next_group_info r) nx (vc_resulting v)"
    "vs_sha256 (vc_resulting v) = su_reported_next_sha256 r"
    by (auto simp: successor_verified_def)
  note si = snapshot_inner_Inr [OF sn]
  have "public_leaf_ok (sq_expected_signer (su_base r))"
    using sn by (auto simp: snapshot_inner_def bindE_Inr_iff validate_public_leaf_Inr_iff split: if_splits)
  moreover have "su_commit r \<noteq> []" "length (su_commit r) \<le> MAX_MLS_BYTES"
    using ec by (auto simp: external_commit_def split: if_splits)
  moreover have "sq_sha256 (su_base r) = sha (sq_group_info (su_base r))"
    using si(1,2) by (simp add: published_def)
  moreover have "su_reported_next_sha256 r = sha (su_reported_next_group_info r)"
    using pb by (simp add: published_def)
  ultimately show ?thesis
    using l b published_nonempty [OF si(1)] published_nonempty [OF pb(1)] si(1,6) pb(1) sha ch
    by (auto simp: successor_bounds_def snapshot_bounds_def Suc_le_eq published_def check_hash_def
        split: if_splits)
qed

definition has_row :: "bytes \<Rightarrow> snapshot \<Rightarrow> bool" where
  "has_row k st \<longleftrightarrow> read_opaque st k \<noteq> None"

lemma label_stable_no_empty_key: "label_stable E (\<lambda>s. \<not> has_row [] s)"
proof -
  have "build_key E l b \<noteq> [] \<and> [] \<noteq> build_key E l b" if "l \<in> set ALL_LABELS" for l b
  proof -
    have "list_all (\<lambda>l. l \<noteq> []) ALL_LABELS" by code_simp
    with that show ?thesis by (auto simp: build_key_def list_all_iff)
  qed
  then show ?thesis
    by (auto simp: label_stable_def has_row_def read_opaque_def kv_write_def kv_delete_def row_simps)
qed

lemma prepared_rows_shape:
  assumes st0: "provider_from_entries [] 1 None = Inr st0"
    and st': "st' = write_opaque (key g ''state/'') v (exec_calls E calls st0)"
    and rb: "rows_bounded (snapshot_entries st' h)"
  shows "\<forall>e \<in> set (snapshot_entries st' h). row_shape h e"
proof
  fix e
  assume e: "e \<in> set (snapshot_entries st' h)"
  have ok: "snapshot_ok st'" using row_of_opened(2) [OF st0] by (simp add: st')
  have "\<not> has_row [] st0"
    by (simp add: has_row_def row_of_opened(1) [OF st0] row_of_def entries_map_def)
  then have "\<not> has_row [] (exec_calls E calls st0)"
    using exec_calls_preserve [OF label_stable_no_empty_key] by metis
  then have "read_opaque st' [] = None"
    by (simp add: st' has_row_def snapshot_kv.rd_wr key_def PREFIX_def ascii_def)
  then have "entry_key e \<noteq> []" using e snapshot_entries_mem [OF ok] by (metis option.distinct(1))
  moreover have "row_scoped (Some h) e" using e snapshot_entries_mem [OF ok] by blast
  moreover have "row_bounded e" using rb e by (simp add: rows_bounded_def)
  ultimately show "row_shape h e" by (simp add: row_shape_def Suc_le_eq)
qed

lemma candidate_rows_opened:
  assumes C: "cbor_ok C" and X: "external_ok sha E M P X"
    and st0: "provider_from_entries [] 1 None = Inr st0"
    and rows: "candidate_rows sha C inc ret r (exec_calls E calls st0) = Inr (d, rows)"
    and g: "roster_from_group sha M g = Inr r"
    and f: "found E M (om_group_id M g) st0 calls g False"
    and cfg: "configured M g ret"
  obtains L where
    "rows_bounded rows" "\<forall>e \<in> set rows. row_shape (group_id r) e" "sorted_wrt (<) (map entry_key rows)"
    "length d = 32" "new_state sha inc ret r = Inr (ld_local L)" "same_view M g (ld_group L)"
    "opened sha C E M \<lparr>cx_group_id = group_id r, cx_incarnation_id = inc,
       cx_expected_current = expected r, cx_expected_base_sha256 = d, cx_expected_retention = ret,
       cx_entries = rows, cx_storage_format = 1\<rparr> L"
proof -
  let ?st1 = "exec_calls E calls st0" and ?gid = "group_id r"
  note so = row_of_opened [OF st0]
  from candidate_rows_Inr [OF C rows exec_calls_ok [OF so(2)]] obtain s st' where
    s: "new_state sha inc ret r = Inr s" and sv: "save sha C s ?st1 = (Inr (), st')"
    and st': "st' = write_opaque (key (lg_group_id s) ''state/'') (encode_fields C s) ?st1"
    and ok: "snapshot_ok st'"
    and dig: "group_state_digest_from_entries sha ?gid (snapshot_entries st' ?gid) 1 = Inr d"
    and rw: "rows = sort_key entry_key (snapshot_entries st' ?gid)"
    and rb: "rows_bounded (snapshot_entries st' ?gid)" by metis
  from s have sr: "lg_retention s = ret" "lg_pending s = None" "lg_group_id s = ?gid" "lg_incarnation_id s = inc"
      "lg_current s = r" "local_ok sha s"
    by (auto simp: new_state_def bindE_Inr_iff validate_Inr_iff Let_def)
  note ds = distinct_snapshot_entries [OF ok, of ?gid]
  have set_rows: "set rows = set (snapshot_entries st' ?gid)" by (simp add: rw)
  have sorted: "sorted_wrt (<) (map entry_key rows)" unfolding rw by (rule strict_sorted_sort [OF ds])
  then have dr: "distinct (map entry_key rows)" using strict_sorted_iff by blast
  have rbr: "rows_bounded rows"
    using rows_bounded_cong [OF set_rows distinct_keys_distinct [OF dr] distinct_keys_distinct [OF ds]] rb by simp
  have shape: "\<forall>e \<in> set rows. row_shape ?gid e"
    using prepared_rows_shape [OF st0 st' rb] set_rows by simp
  have vr: "validate_storage_entries rows 1 (Some ?gid) = Inr ()"
    using dr shape by (simp add: validate_storage_entries_Inr_iff row_shape_def MLS_STORAGE_FORMAT_VERSION_def)
  then obtain p where p: "provider_from_entries rows 1 (Some ?gid) = Inr p"
    by (simp add: provider_from_entries_Inr_iff)
  have rp: "read_opaque p = read_opaque st'" "row_of rows = read_opaque st'"
    using row_of_opened(1) [OF p] row_of_cong [OF set_rows dr ds] by (simp_all add: row_of_snapshot_entries)
  have digr: "group_state_digest_from_entries sha ?gid rows 1 = Inr d"
    using group_state_digest_cong [OF vr snapshot_entries_valid [OF ok]] set_rows dig by simp
  have d32: "length d = 32"
    using digr X by (auto simp: group_state_digest_Inr_iff external_ok_def public_mls_ok_def)
  have gid: "om_group_id M g = ?gid" using roster_from_group_Inr(1) [OF g] by simp
  from f obtain h where h: "om_load M ?gid ?st1 = Some h" "same_view M g h" "\<not> om_has_pending M h"
    by (auto simp: found_def gid)
  have "om_load M ?gid p = om_load M ?gid ?st1"
    by (rule load_frameD [of M]) (use X in \<open>auto simp: external_ok_def rp st' snapshot_kv.rd_wr\<close>)
  moreover have "metadata_rows sha C s (row_of rows)"
  proof -
    have none: "read_opaque ?st1 k = None" if "starts_with k RESERVED" for k
      using that so(1) by (simp add: exec_calls_reserved [folded RESERVED_def] row_of_def entries_map_def)
    have "only_known_rows (lg_group_id s) (read_opaque ?st1)" by (simp add: only_known_rows_def none)
    moreover have "\<forall>(n, w) \<in> set (retry_hashes s). wire_ok sha (read_opaque ?st1 (key (lg_group_id s) n)) w"
      by (auto simp: retry_hashes_def sr(2) none wire_ok_def)
    ultimately show ?thesis unfolding rp(2) by (rule metadata_rows_saved [OF sv C])
  qed
  ultimately have "opened sha C E M \<lparr>cx_group_id = ?gid, cx_incarnation_id = inc,
       cx_expected_current = expected r, cx_expected_base_sha256 = d, cx_expected_retention = ret,
       cx_entries = rows, cx_storage_format = 1\<rparr>
     \<lparr>ld_provider = p, ld_group = h, ld_local = s, ld_base = d\<rparr>"
    using rbr d32 digr p h sr cfg same_view_configured [OF h(2)] same_view_roster [OF h(2)] g
    by (simp add: opened_def pending_agrees_def)
  from that [OF rbr shape sorted d32 _ _ this] s h(2) show thesis by simp
qed

lemma find_unique_key:
  "distinct (map f xs) \<Longrightarrow> x \<in> set xs \<Longrightarrow> P x \<Longrightarrow> (\<And>y. P y \<Longrightarrow> f y = f x) \<Longrightarrow> find P xs = Some x"
proof (induction xs)
  case (Cons a xs)
  have d: "distinct (map f xs)" "f a \<notin> f ` set xs" using Cons.prems(1) by simp_all
  show ?case
  proof (cases "a = x")
    case False
    then have x: "x \<in> set xs" using Cons.prems(2) by simp
    then have "f a \<noteq> f x" using d(2) by (metis imageI)
    then have "\<not> P a" using Cons.prems(4) by blast
    moreover have "find P xs = Some x" by (rule Cons.IH [OF d(1) x Cons.prems(3,4)])
    ultimately show ?thesis by simp
  next
    case True
    with Cons.prems(3) show ?thesis by simp
  qed
qed simp

lemma prepare_candidate:
  assumes C: "cbor_ok C" and X: "external_ok sha E M P X"
    and ok: "external_prepare sha C E M P X now i signer_bytes = Inr r"
  obtains c b where "candidate_ok sha c" "candidate_encode C c = Inr (pe_candidate_bytes r)"
    "candidate_info sha c (sha (pe_candidate_bytes r)) = Inr (pe_info r)"
    "candidate_binding sha c = Inr b" "validate_binding b = Inr ()" "validate_candidate sha C E M c = Inr ()"
proof -
  obtain verified g w nx st checked c where pb: "preparation_bounds i signer_bytes = Inr ()"
    and vs: "validate_snapshot sha M P (now 0) (preparation_base i) = Inr verified"
    and bd: "build_external_commit E M P X i signer_bytes = Inr (g, w, nx, st)"
    and vx: "validate_external_successor sha M P (\<lambda>n. now (n + 1)) (preparation_proof sha i w nx) = Inr checked"
    and R: "roster_from_group sha M g = Inr (ca_resulting c)"
      "ca_resulting c = local_roster (vs_roster (vc_resulting checked))"
    and vd: "validate_delta sha (ca_previous c) (ca_resulting c) (ep_authorized_old_leaf i)
       (local_leaf (vs_signer (vc_resulting checked))) = Inr ()"
    and own: "om_own_leaf_index M g = lf_index (vs_signer (vc_resulting checked))"
    and cr: "candidate_rows sha C (ep_incarnation_id i) (ep_retention i) (ca_resulting c) st
       = Inr (ca_private_digest c, ca_rows c)"
    and c: "ca_candidate_id c = ep_candidate_id i" "ca_incarnation_id c = ep_incarnation_id i"
      "ca_transition c = ep_transition i" "ca_lifecycle c = ep_local_lifecycle_context_sha256 i"
      "ca_retention c = ep_retention i" "ca_proof c = preparation_proof sha i w nx"
      "ca_previous c = local_roster (vs_roster verified)"
    and enc: "candidate_encode C c = Inr (pe_candidate_bytes r)"
      "candidate_info sha c (sha (pe_candidate_bytes r)) = Inr (pe_info r)"
    by (rule external_prepare_Inr [OF ok])
  note bounds = preparation_bounds_Inr [OF pb]
  have sha: "length (sha b) = 32" and pm: "public_mls_ok sha P" for b
    using X by (simp_all add: external_ok_def public_mls_ok_def)
  have dm: "distinct (map fst (pm_members P p))" if "published sha M P t b p v" for t b p v
    using X that unfolding external_ok_def published_def by blast
  let ?pr = "preparation_proof sha i w nx" and ?author = "local_leaf (vs_signer (vc_resulting checked))"
  from vx have si: "successor_inner sha M P (\<lambda>n. now (n + 1)) ?pr = Inr checked"
    by (simp add: validate_external_successor_def catch_unwind_def)
  note sx = successor_inner_Inr [OF si]
  from sx(1) obtain g1 g2 nxt where pub: "published sha M P (now (2 + 1)) nx nxt (vc_resulting checked)"
    and rs: "public_roster sha P g2 = Inr (vs_roster (vc_resulting checked))"
    by (auto simp: successor_verified_def preparation_proof_def)
  from vs obtain p0 where sn: "snapshot_inner sha M P (now 0) (preparation_base i) = Inr (p0, verified)"
    by (auto simp: validate_snapshot_Inr_iff)
  note s0 = snapshot_inner_Inr [OF sn]
  have gid0: "length (pm_group_id P p0) = 16" by (rule snapshot_inner_bounds(2) [OF sn])
  have r0: "public_roster sha P p0 = Inr (vs_roster verified)" using s0(1) by (simp add: published_def)
  have prev: "resync_roster_ok sha (ca_previous c)"
    unfolding c(7) by (rule local_roster_ok [OF r0 dm [OF s0(1)] gid0 _ sha]) (use s0(1) in \<open>auto simp: published_def\<close>)
  have dd: "distinct (leaves (ca_previous c))"
    using prev canonical_distinct by (simp add: resync_roster_ok_def)
  note del = validate_delta_Inr [OF vd dd]
  have rn: "public_roster sha P nxt = Inr (vs_roster (vc_resulting checked))"
    using pub by (simp add: published_def)
  have "pm_group_id P nxt = group_id (ca_resulting c)"
    using public_roster_Inr(4) [OF rn] by (simp add: R(2) local_roster_def)
  also have "\<dots> = pm_group_id P p0"
    using del(1) public_roster_Inr(4) [OF r0] by (simp add: external_delta_def c(7) local_roster_def)
  finally have res: "resync_roster_ok sha (ca_resulting c)"
    unfolding R(2) using pub gid0 by (intro local_roster_ok [OF rn dm [OF pub] _ _ sha]) (auto simp: published_def)
  obtain message info p credential signer bdl calls st0 where
    bi: "om_message M (ep_input_group_info i) = Some (message, [])" "pm_group_info P message = Some info"
    "profile (ep_retention i) = Inr p" "provider_from_entries [] 1 None = Inr st0"
    "xm_external_commit X (to_join_config p) (leaf_index (ep_authorized_old_leaf i)) (ep_aad i) info
       credential signer st0 = Some ((g, bdl), calls)" "st = exec_calls E calls st0"
    by (rule build_external_commit_Inr [OF bd])
  have shape: "ep_input_group_info i \<in> group_info_shape"
    using s0(1) by (simp add: published_def preparation_base_def)
  have law: "om_configuration M g = to_join_config p"
      "om_ciphersuite M g = MLS_128_DHKEMX25519_AES128GCM_SHA256_Ed25519" "om_is_active M g"
      "found E M (om_group_id M g) st0 calls g False"
    using external_okD [OF X bi(1,2) shape bi(5)] by simp_all
  have cfg: "configured M g (ep_retention i)" using law(1,2) bi(3) by (simp add: configured_def profile_Inr_iff)
  obtain L where L: "rows_bounded (ca_rows c)" "\<forall>e \<in> set (ca_rows c). row_shape (group_id (ca_resulting c)) e"
    "sorted_wrt (<) (map entry_key (ca_rows c))" "length (ca_private_digest c) = 32"
    "new_state sha (ep_incarnation_id i) (ep_retention i) (ca_resulting c) = Inr (ld_local L)"
    "same_view M g (ld_group L)"
    "opened sha C E M \<lparr>cx_group_id = group_id (ca_resulting c), cx_incarnation_id = ep_incarnation_id i,
       cx_expected_current = expected (ca_resulting c), cx_expected_base_sha256 = ca_private_digest c,
       cx_expected_retention = ep_retention i, cx_entries = ca_rows c, cx_storage_format = 1\<rparr> L"
    by (rule candidate_rows_opened [OF C X bi(4) cr [unfolded bi(6)] R(1) law(4) cfg])
  have cok: "candidate_ok sha c"
    using bounds prev res L successor_request_bounds [OF si sha pm] by (simp add: candidate_ok_def c)
  have author: "find (\<lambda>l. credential_identity l = su_authorized_new_identity (ca_proof c) \<and>
      signature_public_key l = su_authorized_new_signature_key (ca_proof c)) (leaves (ca_resulting c)) = Some ?author"
  proof (rule find_unique_key [where f = signature_public_key])
    show "distinct (map signature_public_key (leaves (ca_resulting c)))"
      using res by (simp add: resync_roster_ok_def canonical_leaves_def)
    show "?author \<in> set (leaves (ca_resulting c))" using pub by (simp add: R(2) local_roster_def published_def)
  qed (use sx(4,5) in \<open>simp_all add: c(6) local_leaf_def\<close>)
  define b where "b = \<lparr>eb_candidate_id = ca_candidate_id c, eb_incarnation_id = ca_incarnation_id c,
       eb_transition = ca_transition c, eb_previous_state = expected (ca_previous c),
       eb_old_leaf = ep_authorized_old_leaf i, eb_author = ?author,
       eb_input_group_info_sha256 = sha (ep_input_group_info i), eb_commit_sha256 = sha w,
       eb_aad_sha256 = sha (ep_aad i), eb_resulting_group_info_sha256 = sha nx\<rparr>"
  have "sq_sha256 (preparation_base i) = sha (ep_input_group_info i)"
    using s0(1,2) by (simp add: published_def preparation_base_def)
  then have bind: "candidate_binding sha c = Inr b"
    using author by (simp add: candidate_binding_def b_def c(6) preparation_proof_def)
  have vb: "validate_binding b = Inr ()"
    using bounds sha prev leaf_bounds_Inr_iff [THEN iffD2, OF del(2), of "()"]
      leaf_bounds_Inr_iff [THEN iffD2, OF del(3), of "()"]
    by (simp add: validate_binding_def b_def external_id_def fixed32_def c resync_roster_ok_def expected_def)
  have "validate_candidate sha C E M c = Inr ()"
  proof -
    have st: "ro_state (vs_roster verified) = sq_expected (preparation_base i)" by (rule s0(3))
    have "load sha C E M (candidate_context c) = Inr L"
      using L(7) by (simp add: load_Inr_iff [OF C] candidate_context_def c)
    moreover have "lg_pending (ld_local L) = None" "lg_join_epoch (ld_local L) = epoch (ca_resulting c)"
      using L(5) by (auto simp: new_state_Inr_iff)
    moreover have "om_is_active M (ld_group L)" "om_own_leaf_index M (ld_group L) = leaf_index ?author"
      using L(6) law(3) own by (simp_all add: same_view_def local_leaf_def)
    moreover have "bounded_aad (ep_aad i) = Inr ()"
      using bounds(6) by (auto simp: bounded_aad_def MAX_AAD_BYTES_def)
    ultimately show ?thesis
      using vb vd st s0(5)
      by (simp add: validate_candidate_def bind b_def c preparation_proof_def local_roster_def expected_def)
        (simp add: preparation_base_def)
  qed
  with that cok enc bind vb show thesis by blast
qed

lemma prepare_reads_back:
  assumes C: "cbor_ok C" and X: "external_ok sha E M P X"
    and ok: "external_prepare sha C E M P X now i signer_bytes = Inr r"
  obtains c b where "read_candidate sha C E M (pe_candidate_bytes r) (sha (pe_candidate_bytes r)) = Inr c"
    "candidate_info sha c (sha (pe_candidate_bytes r)) = Inr (pe_info r)" "candidate_binding sha c = Inr b"
    "validate_binding b = Inr ()"
proof -
  obtain c b where c: "candidate_ok sha c" "candidate_encode C c = Inr (pe_candidate_bytes r)"
    "candidate_info sha c (sha (pe_candidate_bytes r)) = Inr (pe_info r)"
    "candidate_binding sha c = Inr b" "validate_binding b = Inr ()" "validate_candidate sha C E M c = Inr ()"
    by (rule prepare_candidate [OF C X ok])
  have "read_candidate sha C E M (pe_candidate_bytes r) (sha (pe_candidate_bytes r)) = Inr c"
    using c X by (simp add: read_candidate_iff [OF C] external_ok_def public_mls_ok_def)
  with that c show thesis by blast
qed

end
