(* ===== verification/Protocol.thy ===== *)
theory Protocol
  imports Lifecycle
begin

text \<open>
  The caller's database over time. A step is one successful lifecycle operation on the current
  rows followed by the application of its batch, the compare-and-apply protocol of the README.
  Whatever OpenMLS does, the metadata rows of every reachable database decode to a valid local
  state, whose current roster and history are the end of the log of all rosters since the group
  was created or joined, and the log's epochs follow each other one by one.
\<close>

section \<open>Steps\<close>

inductive lifecycle_step ::
  "(bytes \<Rightarrow> bytes) \<Rightarrow> cbor \<Rightarrow> 'v storage_env \<Rightarrow> ('v, 'g, 'x) openmls
   \<Rightarrow> MlsStorageEntry list \<Rightarrow> Mutation \<Rightarrow> MlsStorageEntry list \<Rightarrow> bool"
  for sha C E M where
  step_send: "send sha C E M cx signer plaintext aad = Inr r \<Longrightarrow>
     lifecycle_step sha C E M (cx_entries cx) (sn_mutation r)
       (apply_batch (mu_batch (sn_mutation r)) (cx_entries cx))"
| step_prepare: "prepare sha C E M cx signer transition additions removals aad self = Inr p \<Longrightarrow>
     lifecycle_step sha C E M (cx_entries cx) (pp_mutation p)
       (apply_batch (mu_batch (pp_mutation p)) (cx_entries cx))"
| step_merge: "merge sha C E M cx acceptance = Inr m \<Longrightarrow>
     lifecycle_step sha C E M (cx_entries cx) m (apply_batch (mu_batch m) (cx_entries cx))"
| step_discard: "discard sha C E M cx b = Inr m \<Longrightarrow>
     lifecycle_step sha C E M (cx_entries cx) m (apply_batch (mu_batch m) (cx_entries cx))"
| step_receive: "receive_inner sha C E M i = Inr v \<Longrightarrow>
     lifecycle_step sha C E M (cx_entries (ri_context i)) (rv_mutation v)
       (apply_batch (mu_batch (rv_mutation v)) (cx_entries (ri_context i)))"

inductive lifecycle_start ::
  "(bytes \<Rightarrow> bytes) \<Rightarrow> cbor \<Rightarrow> 'v storage_env \<Rightarrow> ('v, 'g, 'x) openmls
   \<Rightarrow> Mutation \<Rightarrow> MlsStorageEntry list \<Rightarrow> bool"
  for sha C E M where
  start_create: "create sha C E M clock config signer gid incarnation owner credential entries version
       = Inr m \<Longrightarrow> lifecycle_start sha C E M m (apply_batch (mu_batch m) entries)"
| start_join: "join sha C E M clock2 i = Inr j \<Longrightarrow>
     lifecycle_start sha C E M (jn_mutation j)
       (apply_batch (mu_batch (jn_mutation j)) (ji_entries i))"

text \<open>The log grows when a mutation changes the roster.\<close>

definition log_after :: "MlsRosterSummaryV1 list \<Rightarrow> Mutation \<Rightarrow> MlsRosterSummaryV1 list" where
  "log_after rs m = (if mu_resulting m = mu_previous m then rs else rs @ [mu_resulting m])"

inductive reachable_rows ::
  "(bytes \<Rightarrow> bytes) \<Rightarrow> cbor \<Rightarrow> 'v storage_env \<Rightarrow> ('v, 'g, 'x) openmls
   \<Rightarrow> MlsStorageEntry list \<Rightarrow> MlsRosterSummaryV1 list \<Rightarrow> bool"
  for sha C E M where
  reachable_start: "lifecycle_start sha C E M m rows \<Longrightarrow>
     reachable_rows sha C E M rows [mu_resulting m]"
| reachable_step: "reachable_rows sha C E M rows rs \<Longrightarrow> lifecycle_step sha C E M rows m rows' \<Longrightarrow>
     reachable_rows sha C E M rows' (log_after rs m)"

inductive_cases reachable_rowsE: "reachable_rows sha C E M rows rs"

inductive_simps lifecycle_start_iff: "lifecycle_start sha C E M m rows"

section \<open>What a step does to the local state\<close>

definition successive :: "MlsRosterSummaryV1 \<Rightarrow> MlsRosterSummaryV1 \<Rightarrow> bool" where
  "successive a b \<longleftrightarrow> group_id b = group_id a \<and> u64_checked_succ (epoch a) = Some (epoch b)"

text \<open>
  \<open>evolves s s'\<close>: the local state after an operation is the one before it up to the pending
  Commit, or has advanced by one roster.
\<close>

definition evolves :: "(bytes \<Rightarrow> bytes) \<Rightarrow> LocalGroupState \<Rightarrow> LocalGroupState \<Rightarrow> bool" where
  "evolves sha s s' \<longleftrightarrow>
     (\<exists>p. s' = s\<lparr>lg_pending := p\<rparr>) \<or>
     (\<exists>r. advance sha s r = Inr s' \<and> s' = advanced s r)"

lemma received_as_evolves:
  "received_as sha M i c g s st plaintext prop s' calls \<Longrightarrow> evolves sha s s'"
  by (auto simp: received_as_def evolves_def advance_Inr_iff split: MlsReceiveKind.splits
      intro: exI [of _ "lg_pending s"])

lemma step_evolves:
  fixes M :: "('v, 'g, 'x) openmls"
  assumes "lifecycle_step sha C E M rows m rows'" and C: "cbor_ok C"
  shows "\<exists>s s'. local_ok sha s \<and> metadata_rows sha C s (row_of rows) \<and> evolves sha s s' \<and>
    committed sha C rows s' m \<and> rows' = apply_batch (mu_batch m) rows \<and> mu_previous m = lg_current s"
  using assms(1)
proof cases
  case (step_send cx signer plaintext aad r)
  obtain L where "opened sha C E M cx L" "committed sha C (cx_entries cx) (ld_local L) (sn_mutation r)"
    "mu_previous (sn_mutation r) = lg_current (ld_local L)"
    by (rule send_Inr [OF C step_send(4)]) (rule that, assumption+)
  with step_send show ?thesis
    by (intro exI [of _ "ld_local L"])
      (auto simp: opened_def evolves_def intro: exI [of _ "lg_pending (ld_local L)"])
next
  case (step_prepare cx signer transition additions removals aad self p)
  obtain L up where "opened sha C E M cx L"
    "committed sha C (cx_entries cx) (prepared_local (ld_local L) p up) (pp_mutation p)"
    "mu_previous (pp_mutation p) = lg_current (ld_local L)"
    by (rule prepare_Inr [OF C step_prepare(4)]) (rule that, assumption+)
  with step_prepare show ?thesis
    by (intro exI [of _ "ld_local L"] exI [of _ "prepared_local (ld_local L) p up"])
      (auto simp: opened_def evolves_def prepared_local_def)
next
  case (step_merge cx acceptance)
  obtain L and p :: PendingRecord where "opened sha C E M cx L"
    "committed sha C (cx_entries cx) (advanced (ld_local L) (proposed_roster p)) m"
    "mu_previous m = lg_current (ld_local L)"
    "advance sha (ld_local L) (proposed_roster p) = Inr (advanced (ld_local L) (proposed_roster p))"
    by (rule merge_Inr [OF C step_merge(3)]) (rule that, assumption+)
  with step_merge show ?thesis
    by (intro exI [of _ "ld_local L"] exI [of _ "advanced (ld_local L) (proposed_roster p)"])
      (auto simp: opened_def evolves_def)
next
  case (step_discard cx b)
  obtain L where "opened sha C E M cx L"
    "committed sha C (cx_entries cx) ((ld_local L)\<lparr>lg_pending := None\<rparr>) m"
    "mu_previous m = lg_current (ld_local L)"
    by (rule discard_Inr [OF C step_discard(3)]) (rule that, assumption+)
  with step_discard show ?thesis
    by (intro exI [of _ "ld_local L"] exI [of _ "(ld_local L)\<lparr>lg_pending := None\<rparr>"])
      (auto simp: opened_def evolves_def)
next
  case (step_receive i v)
  obtain L g calls1 calls2 s' and pr :: "'x processed" where "opened sha C E M (ri_context i) L"
    "received_as sha M i (pr_content pr) g (ld_local L) (exec_calls E calls1 (ld_provider L))
       (rv_plaintext v) (rv_proposal_type v) s' calls2"
    "committed sha C (cx_entries (ri_context i)) s' (rv_mutation v)"
    "mu_previous (rv_mutation v) = lg_current (ld_local L)"
    by (rule receive_Inr [OF C step_receive(4)]) (rule that, assumption+)
  with step_receive show ?thesis
    by (intro exI [of _ "ld_local L"] exI [of _ s'])
      (auto simp: opened_def intro: received_as_evolves)
qed

lemma start_committed:
  assumes "lifecycle_start sha C E M m rows" and C: "cbor_ok C"
  shows "\<exists>s entries. new_state sha (lg_incarnation_id s) (lg_retention s) (mu_resulting m) = Inr s \<and>
    committed sha C entries s m \<and> rows = apply_batch (mu_batch m) entries"
  using assms(1)
proof cases
  case (start_create clock config signer gid incarnation owner credential entries version)
  obtain t t' t'' where clock: "clock = (t, t', t'')" by (cases clock)
  obtain s where s: "new_state sha incarnation (max_past_epochs config) (lg_current s) = Inr s"
    and c: "committed sha C entries s m"
    by (rule create_Inr [OF C start_create(2) [unfolded clock]]) (rule that, assumption+)
  from s have "lg_incarnation_id s = incarnation" "lg_retention s = max_past_epochs config"
    by (simp_all add: new_state_Inr_iff) (metis LocalGroupState.select_convs(2,3))+
  with s c start_create(1) show ?thesis
    by (intro exI [of _ s] exI [of _ entries]) (simp add: committed_def Let_def)
next
  case (start_join clock2 i j)
  obtain s and joined :: StrictJoinedGroupState where s: "new_state sha (ji_incarnation_id i) (max_past_epochs (ji_config i))
       (jg_resulting_roster (sj_joined joined)) = Inr s"
    and c: "committed sha C (ji_entries i) s (jn_mutation j)"
    by (rule join_Inr [OF C start_join(3)]) (rule that, assumption+)
  from s have "lg_incarnation_id s = ji_incarnation_id i" "lg_retention s = max_past_epochs (ji_config i)"
    "lg_current s = jg_resulting_roster (sj_joined joined)"
    by (simp_all add: new_state_Inr_iff)
  with s c start_join(1,2) show ?thesis
    by (intro exI [of _ s] exI [of _ "ji_entries i"]) (simp add: committed_def Let_def)
qed

lemma metadata_unique:
  assumes "cbor_ok C" "local_ok sha s" "local_ok sha t"
    and "metadata_rows sha C s rd" "metadata_rows sha C t rd" "lg_group_id s = lg_group_id t"
  shows "s = t"
proof -
  have "encode_fields C s = encode_fields C t"
    using assms(4-6) by (simp add: metadata_rows_def)
  with assms(1-3) show ?thesis
    by (metis decode_encode encode_Inr_iff sum.inject(2))
qed

text \<open>The rows determine the group they belong to, hence the whole local state.\<close>

lemma metadata_group_unique:
  assumes "metadata_rows sha C s rd" "metadata_rows sha C t rd" "local_ok sha s" "local_ok sha t"
  shows "lg_group_id s = lg_group_id t"
proof -
  from assms(1,2) have "key (lg_group_id s) ''state/'' \<in> key (lg_group_id t) ` set ROW_NAMES"
    unfolding metadata_rows_def only_known_rows_def by (metis key_reserved(2) option.distinct(1))
  then obtain n where "key (lg_group_id s) ''state/'' = key (lg_group_id t) n" by blast
  moreover have "length (lg_group_id s) = length (lg_group_id t)"
    using assms(3,4) by (simp add: local_ok_def)
  ultimately show ?thesis by (simp add: key_def)
qed

section \<open>The invariant of the caller's database\<close>

definition successive_log :: "MlsRosterSummaryV1 list \<Rightarrow> bool" where
  "successive_log rs \<longleftrightarrow> (\<forall>i. Suc i < length rs \<longrightarrow> successive (rs ! i) (rs ! Suc i))"

definition database_ok ::
  "(bytes \<Rightarrow> bytes) \<Rightarrow> cbor \<Rightarrow> MlsStorageEntry list \<Rightarrow> LocalGroupState \<Rightarrow> bool" where
  "database_ok sha C rows s \<longleftrightarrow> local_ok sha s \<and> metadata_rows sha C s (row_of rows) \<and>
     validate_storage_entries rows 1 (Some (lg_group_id s)) = Inr () \<and> rows_bounded rows"

lemma committed_database_ok:
  "committed sha C entries s m \<Longrightarrow> database_ok sha C (apply_batch (mu_batch m) entries) s"
  by (simp add: committed_def database_ok_def Let_def)

lemma database_state_unique:
  assumes "cbor_ok C" "database_ok sha C rows s" "local_ok sha t" "metadata_rows sha C t (row_of rows)"
  shows "s = t"
  using assms metadata_unique metadata_group_unique unfolding database_ok_def by blast

lemma successive_log_snoc:
  assumes "successive_log rs" "rs \<noteq> []" "successive (last rs) r"
  shows "successive_log (rs @ [r])"
proof -
  have "successive ((rs @ [r]) ! i) ((rs @ [r]) ! Suc i)" if "i < length rs" for i
  proof (cases "Suc i = length rs")
    case True
    then have "last rs = rs ! i" using assms(2) by (simp add: last_conv_nth flip: True)
    with True that assms(3) show ?thesis by (simp add: nth_append)
  next
    case False
    with that assms(1) show ?thesis by (simp add: successive_log_def nth_append)
  qed
  then show ?thesis by (simp add: successive_log_def)
qed

lemma evolves_log:
  assumes ev: "evolves sha s s'" and rs: "log_abs s rs" "successive_log rs"
    and ok: "local_ok sha s" and m: "mu_previous m = lg_current s" "mu_resulting m = lg_current s'"
  shows "log_abs s' (log_after rs m) \<and> successive_log (log_after rs m)"
  using ev unfolding evolves_def
proof (elim disjE exE conjE)
  fix p assume "s' = s\<lparr>lg_pending := p\<rparr>"
  with rs m show ?thesis by (simp add: log_after_def log_abs_def)
next
  fix r assume adv: "advance sha s r = Inr s'" and s': "s' = advanced s r"
  then have suc: "successive (lg_current s) r"
    using ok by (auto simp: advance_Inr_iff successive_def local_ok_def)
  then have "r \<noteq> lg_current s"
    by (auto simp: successive_def u64_checked_succ_def split: if_splits)
  moreover have "lg_current s' = r" by (simp add: s' advanced_def)
  ultimately have "log_after rs m = rs @ [r]" using m by (simp add: log_after_def)
  moreover have "successive (last rs) r" "rs \<noteq> []" using suc rs(1) by (simp_all add: log_abs_def)
  ultimately show ?thesis using log_abs_advance [OF adv rs(1)] successive_log_snoc rs(2) by simp
qed

lemma reachable_database:
  assumes "reachable_rows sha C E M rows rs" and C: "cbor_ok C"
  shows "\<exists>s. database_ok sha C rows s \<and> log_abs s rs \<and> successive_log rs"
  using assms(1)
proof induction
  case (reachable_start m rows)
  from start_committed [OF reachable_start C] obtain s entries where
    "new_state sha (lg_incarnation_id s) (lg_retention s) (mu_resulting m) = Inr s"
    "committed sha C entries s m" "rows = apply_batch (mu_batch m) entries" by blast
  then have "database_ok sha C rows s" "log_abs s [mu_resulting m]"
    using committed_database_ok log_abs_new by blast+
  then show ?case by (auto simp: successive_log_def)
next
  case (reachable_step rows rs m rows')
  then obtain s where s: "database_ok sha C rows s" "log_abs s rs" "successive_log rs" by blast
  from step_evolves [OF reachable_step.hyps(2) C] obtain t t' where
    t: "local_ok sha t" "metadata_rows sha C t (row_of rows)" "evolves sha t t'"
    "committed sha C rows t' m" "rows' = apply_batch (mu_batch m) rows" "mu_previous m = lg_current t"
    by blast
  have "t = s" using database_state_unique [OF C s(1) t(1,2)] by simp
  moreover have "mu_resulting m = lg_current t'" using t(4) by (simp add: committed_def Let_def)
  ultimately have "log_abs t' (log_after rs m) \<and> successive_log (log_after rs m)"
    using evolves_log t s by blast
  moreover have "database_ok sha C rows' t'" using committed_database_ok [OF t(4)] t(5) by simp
  ultimately show ?case by blast
qed

end
