(* ===== verification/Runs.thy ===== *)
theory Runs
  imports Instances Protocol Api
begin

text \<open>
  The lifecycle on the instance of \<open>Instances\<close>: a database of a group at epoch 3 without and
  with a pending self update, and the successful run of every operation. These are the
  concrete inputs of the witnesses.
\<close>

section \<open>Small stores finish\<close>

definition small :: "nat \<Rightarrow> (bytes \<times> bytes) list \<Rightarrow> bool" where
  "small n r \<longleftrightarrow> length r \<le> n \<and> (\<forall>(k, v) \<in> set r. length k \<le> 1000 \<and> length v \<le> 50000)"

lemma small_Nil [simp]: "small n []"
  by (simp add: small_def)

lemma set_update_subset: "set (AList.update k v r) \<subseteq> insert (k, v) (set r)"
  by (induction r) auto

lemma length_update: "length (AList.update k v r) \<le> Suc (length r)"
  by (induction r) auto

lemma small_update:
  "small n r \<Longrightarrow> length k \<le> 1000 \<Longrightarrow> length v \<le> 50000 \<Longrightarrow> small (Suc n) (AList.update k v r)"
  using set_update_subset [of k v r] length_update [of k v r] by (fastforce simp: small_def)

lemma small_delete: "small n r \<Longrightarrow> small n (AList.delete k r)"
  by (auto simp: small_def AList.delete_eq intro: le_trans [OF length_filter_le])

lemma small_mono: "small m r \<Longrightarrow> m \<le> n \<Longrightarrow> small n r"
  by (simp add: small_def)

lemma small_filter: "small n r \<Longrightarrow> small n (filter P r)"
  by (auto simp: small_def intro: le_trans [OF length_filter_le])

lemma small_sizes:
  assumes "small n r" "length g = 16"
  shows "sum_list (map (row_size \<circ> (\<lambda>(k, v). scoped_row (Some g) k v)) r) \<le> n * 51016"
proof -
  have "sum_list (map (row_size \<circ> (\<lambda>(k, v). scoped_row (Some g) k v)) r) \<le> length r * 51016"
    using assms
  proof (induction r)
    case (Cons kv r)
    then have "small n r" by (auto simp: small_def)
    with Cons show ?case by (cases kv) (auto simp: small_def row_size_def)
  qed simp
  also have "\<dots> \<le> n * 51016" using assms(1) by (simp add: small_def)
  finally show ?thesis .
qed

lemma small_rows_bounded:
  assumes "small 40 r" "length g = 16"
  shows "rows_bounded (map (\<lambda>(k, v). scoped_row (Some g) k v) r)"
    and "rows_bounded (sort_key entry_key (map (\<lambda>(k, v). scoped_row (Some g) k v) r))"
    and "sum_list (map row_size (sort_key entry_key (map (\<lambda>(k, v). scoped_row (Some g) k v) r)))
      \<le> 40 * 51016"
proof -
  define es where "es = map (\<lambda>(k, v). scoped_row (Some g) k v) r"
  have s: "sum_list (map row_size es) \<le> 40 * 51016"
    using small_sizes [OF assms] by (simp add: es_def comp_def)
  moreover have m: "sum_list (map row_size (sort_key entry_key es)) = sum_list (map row_size es)"
    by (metis mset_map mset_sort sum_mset_sum_list)
  moreover have "\<forall>e \<in> set es. row_bounded e" "length es \<le> 40"
    using assms(1) by (auto simp: es_def small_def row_bounded_def)
  ultimately show "rows_bounded es" "rows_bounded (sort_key entry_key es)"
    "sum_list (map row_size (sort_key entry_key es)) \<le> 40 * 51016"
    by (simp_all add: rows_bounded_def)
qed

lemma bounded_digest:
  assumes v: "validate_storage_entries es 1 (Some g) = Inr ()" and "length g = 16" "rows_bounded es"
  shows "\<exists>d. group_state_digest_from_entries sha g es 1 = Inr d"
proof -
  have "length (group_rows es) \<le> 4096" "\<forall>e \<in> set (group_rows es). row_small e"
    using assms(3) by (auto simp: rows_bounded_def group_rows_def row_bounded_small
        intro: le_trans [OF length_filter_le])
  then show ?thesis
    using v assms(2) by (auto simp: group_state_digest_Inr_iff group_state_preimage_Inr_iff)
qed

lemmas foldE_add_delete_bytes = foldE_checked_sum [where f = add_delete_bytes
  and P = "\<lambda>k. length k \<le> 4096" and sz = length and m = "2 ^ 64"]

lemma add_delete_bytes_Inr_iff:
  "add_delete_bytes n k = Inr m \<longleftrightarrow> length k \<le> 4096 \<and> m = n + length k \<and> m < 2 ^ 64"
  by (auto simp: add_delete_bytes_def ok_or_Inr_iff usize_checked_add_Some_iff)

lemma small_finishes:
  assumes C: "cbor_ok C" and ok: "local_ok sha s" "snapshot_ok st"
    and small: "small 39 (sp_current st)" "small 39 (sp_initial st)"
    and enc: "length (encode_fields C s) \<le> 50000"
  shows "\<exists>m. finish sha C st s prev = Inr m"
proof -
  define g where "g = lg_group_id s"
  have g: "length g = 16" "group_id (lg_current s) = g" using ok(1) by (simp_all add: local_ok_def g_def)
  define st' where "st' = write_opaque (key g ''state/'') (encode_fields C s) st"
  have sv: "save sha C s st = (Inr (), st')"
    using ok(1) by (simp add: save_ok_iff [OF C] st'_def g_def)
  have st': "snapshot_ok st'" using ok(2) by (simp add: st'_def)
  have "length (key g ''state/'') \<le> 1000"
    by (simp add: key_def PREFIX_def ascii_def g)
  then have sm: "small 40 (sp_current st')"
    using small_update [OF small(1) _ enc] by (simp add: st'_def write_opaque_def)
  have rb: "rows_bounded (snapshot_entries st' g)"
    using small_rows_bounded(1) [OF sm g(1)] by (simp add: snapshot_entries_def)
  then obtain d where d: "group_state_digest_from_entries sha g (snapshot_entries st' g) 1 = Inr d"
    using bounded_digest [OF snapshot_entries_valid [OF st']] g(1) by auto
  obtain b where b: "batch_from_provider st' (Some g) [] = Inr b"
    by (simp add: batch_from_provider_def batch_from_updates_Some)
  then have bs: "upserts b = sort_key entry_key (map (\<lambda>(k, v). scoped_row (Some g) k v)
        (up_upserts (into_updates st')))" "deletes b = sort (up_deletes (into_updates st'))"
      "deleted_group_ids b = []"
    by (auto simp: batch_from_provider_def batch_from_updates_Some)
  have "small 40 (up_upserts (into_updates st'))"
    using sm by (simp add: into_updates_def small_filter)
  note ub = small_rows_bounded(2,3) [OF this g(1), folded bs(1)]
  have si: "small 39 (sp_initial st')" using small(2) by (simp add: st'_def)
  have dl: "length (deletes b) \<le> 39" "\<forall>k \<in> set (deletes b). length k \<le> 1000"
    using si by (auto simp: bs(2) into_updates_def small_def intro: le_trans [OF length_filter_le])
  have ds: "sum_list (map length (deletes b)) \<le> 39 * 1000"
    using sum_list_mono [of "deletes b" length "\<lambda>_. 1000"] dl by (simp add: sum_list_triv)
  have "bounded_batch b = Inr ()"
    using ub dl ds bs(3)
    by (auto simp: bounded_batch_def bindE_Inr_iff entry_bytes_Inr_iff rows_bounded_def
        foldE_add_delete_bytes [OF add_delete_bytes_Inr_iff])
  then show ?thesis
    using sv rb d b g
    by (auto simp: finish_def state_digest_def Let_def bindE_Inr_iff map_err_Inr_iff
        bounded_entries_Inr_iff ex_in_conv simp flip: g_def)
qed

section \<open>The group\<close>

definition leaf0 :: MlsRosterLeafV1 where
  "leaf0 = \<lparr>leaf_index = 0, credential_identity = identity0, signature_public_key = public0\<rparr>"

definition roster0 :: "u64 \<Rightarrow> MlsRosterSummaryV1" where
  "roster0 e = \<lparr>group_id = gid0, epoch = e, leaves = [leaf0],
     digest_sha256 = sha0 (ROSTER_DOMAIN_V1 @ len_prefixed gid0 @ be64 e @ be32 1 @ leaf_bytes leaf0)\<rparr>"

lemma lengths0 [simp]: "length gid0 = 16" "length identity0 = 45" "length public0 = 32" "length aad0 = 1"
  by (simp_all add: gid0_def identity0_def public0_def aad0_def)

lemma roster0_sel [simp]:
  "group_id (roster0 e) = gid0" "epoch (roster0 e) = e" "leaves (roster0 e) = [leaf0]"
  by (simp_all add: roster0_def)

lemma leaf0_sel [simp]: "leaf_index leaf0 = 0" "credential_identity leaf0 = identity0"
  "signature_public_key leaf0 = public0"
  by (simp_all add: leaf0_def)

lemma roster_digest0: "mls_roster_digest_v1 sha0 gid0 e [leaf0] = Inr (digest_sha256 (roster0 e))"
proof -
  have "validate_canonical_leaves [leaf0] = Inr ()"
    by (simp add: validate_canonical_leaves_Inr_iff canonical_leaves_def)
  moreover have "roster_preimage gid0 e [leaf0]
      = Inr (ROSTER_DOMAIN_V1 @ len_prefixed gid0 @ be64 e @ be32 1 @ leaf_bytes leaf0)"
    by (simp add: roster_preimage_Inr_iff leaf_small_def)
  ultimately show ?thesis
    by (simp add: mls_roster_digest_v1_def roster_digest_def roster0_def)
qed

lemma roster_ok0: "roster_ok sha0 (roster0 e)"
  using roster_digest0 by (simp add: roster_ok_def leaf_ok_def MAX_LEAVES_def) (simp add: roster0_def)

lemma roster_M0: "tg_id g = gid0 \<Longrightarrow> roster_from_group sha0 M0 g = Inr (roster0 (tg_epoch g))"
  using roster_digest0 [of "tg_epoch g"]
  by (simp add: roster_from_group_def M0_def member_leaf_def ok_or_def Let_def mls_roster_digest_v1_def
      bindE_Inr_iff roster0_def flip: leaf0_def)

definition transition0 :: MlsTransitionContext where
  "transition0 = \<lparr>command_id = [1], context_sha256 = replicate 32 0\<rparr>"

definition pending0 :: "bytes \<Rightarrow> PendingRecord" where
  "pending0 base = \<lparr>
     binding = \<lparr>pb_group_id = gid0, pb_incarnation_id = [1], pb_transition = transition0,
       pb_author = leaf0, pb_previous_state = expected (roster0 3),
       pb_commit_sha256 = sha0 [1, 3], pb_aad_sha256 = sha0 aad0, pb_welcome_sha256 = None,
       pb_group_info_sha256 = None\<rparr>,
     proposed_roster = roster0 4, preparation_base_sha256 = base,
     upstream_pending_sha256 = sha0 (toy_bytes 3 True)\<rparr>"

definition local0 :: "PendingRecord option \<Rightarrow> LocalGroupState" where
  "local0 p = \<lparr>lg_group_id = gid0, lg_incarnation_id = [1], lg_retention = 2, lg_join_epoch = 3,
     lg_current = roster0 3, lg_history = [], lg_pending = p\<rparr>"

definition base0 :: bytes where "base0 = replicate 32 0"

lemma local_ok0: "local_ok sha0 (local0 None)"
  "length base = 32 \<Longrightarrow> local_ok sha0 (local0 (Some (pending0 base)))"
  by (simp_all add: local_ok_def local0_def roster_ok0 history_ok_def window_def pending_ok_def
      pending0_def transition0_def Let_def u64_checked_succ_Some_iff)

lemma length_base0 [simp]: "length base0 = 32"
  by (simp add: base0_def)

lemma encode0_small:
  "length (encode_fields C0 (local0 None)) \<le> 50000"
  "length base = 32 \<Longrightarrow> length (encode_fields C0 (local0 (Some (pending0 base)))) \<le> 50000"
  "length (encode_fields C0 (advanced (local0 (Some (pending0 base0))) (roster0 4))) \<le> 50000"
  by (simp_all add: encode_fields_def local0_def C0_def roster_encode_def leaf_encode_def
      optional_pending_encode_def pending_encode_def pending0_def expected_encode_def
      optional_hash_encode_def transition0_def base0_def expected_def roster0_def advanced_def
      push_history_def)

section \<open>The databases\<close>

definition database0 :: "(bytes \<times> bytes) list" where
  "database0 = [(toy_key gid0, toy_bytes 3 False),
     (key gid0 ''state/'', encode_fields C0 (local0 None))]"

definition database1 :: "(bytes \<times> bytes) list" where
  "database1 = [(toy_key gid0, toy_bytes 3 True),
     (key gid0 ''state/'', encode_fields C0 (local0 (Some (pending0 base0)))),
     (key gid0 ''commit/'', [1, 3])]"

definition entries_of :: "(bytes \<times> bytes) list \<Rightarrow> MlsStorageEntry list" where
  "entries_of kvs = map (\<lambda>(k, v). scoped_row (Some gid0) k v) kvs"

definition digest_of :: "MlsStorageEntry list \<Rightarrow> bytes" where
  "digest_of es = (case group_state_digest_from_entries sha0 gid0 es 1 of Inr d \<Rightarrow> d | Inl _ \<Rightarrow> [])"

definition context_of :: "(bytes \<times> bytes) list \<Rightarrow> Context" where
  "context_of kvs = \<lparr>cx_group_id = gid0, cx_incarnation_id = [1],
     cx_expected_current = expected (roster0 3), cx_expected_base_sha256 = digest_of (entries_of kvs),
     cx_expected_retention = 2, cx_entries = entries_of kvs, cx_storage_format = 1\<rparr>"

definition loaded_of :: "(bytes \<times> bytes) list \<Rightarrow> PendingRecord option \<Rightarrow> toy_group Loaded" where
  "loaded_of kvs p = \<lparr>ld_provider = from_entries kvs,
     ld_group = \<lparr>tg_id = gid0, tg_epoch = 3, tg_pending = (p \<noteq> None)\<rparr>,
     ld_local = local0 p, ld_base = digest_of (entries_of kvs)\<rparr>"

lemma toy_key_neq_key [simp]: "toy_key g \<noteq> key h n" "key h n \<noteq> toy_key g"
  using toy_key_unreserved key_reserved(2) by metis+

lemma databases_distinct: "distinct (map fst database0)" "distinct (map fst database1)"
  by (simp_all add: database0_def database1_def key_inj)

lemma small_databases: "small 3 database0" "small 3 database1"
  using encode0_small
  by (simp_all add: small_def database0_def database1_def toy_key_def GROUP_STATE_LABEL_def ascii_def
      toy_bytes_def key_def PREFIX_def)

lemma entries_of_provider:
  assumes d: "distinct (map fst kvs)"
  shows "provider_from_entries (entries_of kvs) 1 (Some gid0) = Inr (from_entries kvs)"
    and "row_of (entries_of kvs) = map_of kvs"
proof -
  define st where "st = \<lparr>sp_initial = kvs, sp_current = kvs\<rparr>"
  have es: "entries_of kvs = snapshot_entries st gid0"
    by (simp add: entries_of_def snapshot_entries_def st_def)
  have ok: "snapshot_ok st" using d by (simp add: st_def snapshot_ok_def rows_ok_def)
  have "map (\<lambda>e. (entry_key e, entry_value e)) (entries_of kvs) = kvs"
    by (simp add: entries_of_def comp_def case_prod_unfold)
  then show "provider_from_entries (entries_of kvs) 1 (Some gid0) = Inr (from_entries kvs)"
    using snapshot_entries_valid [OF ok, of gid0] by (simp add: provider_from_entries_Inr_iff es)
  show "row_of (entries_of kvs) = map_of kvs"
    by (simp add: es row_of_snapshot_entries read_opaque_def st_def fun_eq_iff)
qed

lemma opened_database:
  assumes d: "distinct (map fst kvs)" and small: "small 3 kvs" and ok: "local_ok sha0 (local0 p)"
    and grp: "map_of kvs (toy_key gid0) = Some (toy_bytes 3 (p \<noteq> None))"
    and meta: "metadata_rows sha0 C0 (local0 p) (map_of kvs)"
    and pend: "\<forall>q. p = Some q \<longrightarrow> upstream_pending_sha256 q = sha0 (toy_bytes 3 True)"
  shows "opened sha0 C0 E0 M0 (context_of kvs) (loaded_of kvs p)"
proof -
  note pr = entries_of_provider [OF d]
  have rd: "read_opaque (from_entries kvs) = map_of kvs"
    using row_of_opened(1) [OF pr(1)] pr(2) by simp
  have rb: "rows_bounded (entries_of kvs)"
    using small_rows_bounded(1) [of kvs gid0] small_mono [OF small] by (simp add: entries_of_def)
  have "validate_storage_entries (entries_of kvs) 1 (Some gid0) = Inr ()"
    using pr(1) by (simp add: provider_from_entries_Inr_iff)
  then obtain b where b: "group_state_digest_from_entries sha0 gid0 (entries_of kvs) 1 = Inr b"
    using bounded_digest rb by fastforce
  then have db: "digest_of (entries_of kvs) = b" by (simp add: digest_of_def)
  have lb: "length b = 32" using b by (auto simp: group_state_digest_Inr_iff)
  have ld: "om_load M0 gid0 (from_entries kvs) = Some (ld_group (loaded_of kvs p))"
    using grp by (simp add: M0_def loaded_of_def rd)
  have "configured M0 g 2" for g by (simp add: configured_def M0_def config0_def)
  moreover have "pending_agrees sha0 E0 M0 (ld_group (loaded_of kvs p)) p (from_entries kvs)"
    using pend grp rd
    by (auto simp: pending_agrees_def M0_def loaded_of_def pending_state_sha256_def read_opaque_def
        build_key_serde_def build_key_def serialize_def toy_key_def fun_eq_iff split: option.splits)
  moreover have "lg_group_id (local0 p) = gid0" "lg_incarnation_id (local0 p) = [1]"
    "lg_retention (local0 p) = 2" "lg_current (local0 p) = roster0 3" "lg_pending (local0 p) = p"
    by (simp_all add: local0_def)
  ultimately show ?thesis
    using rb b db lb pr ok meta ld roster_M0 [of "ld_group (loaded_of kvs p)"]
    by (simp add: opened_def context_of_def) (simp add: loaded_of_def)
qed

lemma load0: "load sha0 C0 E0 M0 (context_of database0) = Inr (loaded_of database0 None)"
  unfolding load_Inr_iff [OF cbor_ok_C0]
  by (rule opened_database [OF databases_distinct(1) small_databases(1) local_ok0(1)])
    (auto simp: database0_def metadata_rows_def only_known_rows_def retry_hashes_def wire_ok_def key_inj
      local0_def toy_key_unreserved split: if_splits)

lemma load1: "load sha0 C0 E0 M0 (context_of database1) = Inr (loaded_of database1 (Some (pending0 base0)))"
  unfolding load_Inr_iff [OF cbor_ok_C0]
  by (rule opened_database [OF databases_distinct(2) small_databases(2) local_ok0(2) [OF length_base0]])
    (auto simp: database1_def metadata_rows_def only_known_rows_def retry_hashes_def wire_ok_def key_inj
      local0_def pending0_def MAX_WIRE_def toy_key_unreserved split: if_splits)

section \<open>The operations succeed\<close>

lemma M0_sel:
  "om_signer_json M0 = (\<lambda>b. Some \<lparr>ss_private = b, ss_public = public0, ss_scheme = 2055\<rparr>)"
  "om_scheme_known M0 = (\<lambda>s. s = 2055)"
  "om_signature_algorithm M0 = (\<lambda>_. 2055)"
  "om_store_signer M0 = (\<lambda>s _. Some ((), [WriteSignatureKeyPair (ss_public s) (ss_private s)]))"
  "om_credential M0 = Some"
  "om_basic_credential M0 = (\<lambda>i. i)"
  "om_message M0 = (\<lambda>b. Some (b, []))"
  "om_protocol_message M0 = Some"
  "om_message_group_id M0 = (\<lambda>_. gid0)"
  "om_message_epoch M0 = toy_message_epoch"
  "om_welcome M0 = Some"
  "om_welcome_refs M0 = (\<lambda>x. [x])"
  "om_key_package_encoded M0 = Some"
  "om_ratchet_tree M0 = Some"
  "om_stage_welcome M0 = (\<lambda>c w _ _. if c = to_join_config config0 then Some (w, []) else None)"
  "om_into_group M0 = (\<lambda>w _. let g = \<lparr>tg_id = gid0, tg_epoch = 3, tg_pending = False\<rparr> in
        Some (g, toy_store g))"
  "om_key_package_in M0 = Some"
  "om_key_package_validate M0 = Some"
  "om_key_package_identity M0 = (\<lambda>_. Some identity0)"
  "om_key_package_signature_key M0 = (\<lambda>_. public0)"
  "om_build_key_package M0 = (\<lambda>_ s _ _. Some (Some (ss_public s), [WriteKeyPackage (ss_public s) (ss_public s)]))"
  "om_load M0 = (\<lambda>gid st. Option.bind (read_opaque st (toy_key gid)) (toy_parse gid))"
  "om_group_id M0 = tg_id"
  "om_epoch M0 = tg_epoch"
  "om_members M0 = (\<lambda>_. [(0, Some identity0, public0)])"
  "om_member_key M0 = (\<lambda>_ i. if i = 0 then Some public0 else None)"
  "om_own_leaf_index M0 = (\<lambda>_. 0)"
  "om_is_active M0 = (\<lambda>_. True)"
  "om_has_pending M0 = tg_pending"
  "om_configuration M0 = (\<lambda>_. to_join_config config0)"
  "om_ciphersuite M0 = (\<lambda>_. MLS_128_DHKEMX25519_AES128GCM_SHA256_Ed25519)"
  "om_set_aad M0 = (\<lambda>_ g. g)"
  "om_new_group M0 = (\<lambda>_ c gid _ _.
        if cc_join_config c = to_join_config config0
           \<and> cc_ciphersuite c = MLS_128_DHKEMX25519_AES128GCM_SHA256_Ed25519
        then let g = \<lparr>tg_id = gid, tg_epoch = 0, tg_pending = False\<rparr> in Some (g, toy_store g)
        else None)"
  "om_commit_members M0 = (\<lambda>_ _ _ _ _. None)"
  "om_commit_self_update M0 = (\<lambda>_ g _. if tg_pending g then None else
        let g' = g\<lparr>tg_pending := True\<rparr> in
        Some ((\<lparr>bd_commit = Some [1, ucast (tg_epoch g)], bd_welcome = None, bd_group_info = None\<rparr>, g'),
          toy_store g'))"
  "om_merge_pending_commit M0 = (\<lambda>g _. if tg_pending g
        then Some (toy_advance g, toy_store (toy_advance g)) else None)"
  "om_clear_pending_commit M0 = (\<lambda>g _. let g' = g\<lparr>tg_pending := False\<rparr> in Some (g', toy_store g'))"
  "om_create_message M0 = (\<lambda>_ p g _. Some ((Some (0 # ucast (tg_epoch g) # p), g),
        [WriteMessageSecrets (tg_id g) p]))"
  "om_process_message M0 = (\<lambda>x g _. Inr ((\<lparr>pr_aad = aad0, pr_epoch = toy_message_epoch x,
        pr_sender = Member 0, pr_basic_identity = Some identity0, pr_content = toy_content x\<rparr>, g),
        [WriteMessageSecrets (tg_id g) x]))"
  "om_merge_staged_commit M0 = (\<lambda>_ g _. Some (toy_advance g, toy_store (toy_advance g)))"
  "om_store_pending_proposal M0 = (\<lambda>p g _. Some (g, [QueueProposal (tg_id g) p p]))"
  "om_proposal M0 = (\<lambda>_. Remove)"
  "om_delete M0 = (\<lambda>g _. Some ((), [DeleteGroupState (tg_id g)]))"
  by (simp_all add: M0_def)


lemma small_fold_update:
  "small m r \<Longrightarrow> small n kvs \<Longrightarrow> small (m + length kvs) (fold (\<lambda>(k, v). AList.update k v) kvs r)"
proof (induction kvs arbitrary: m r)
  case (Cons kv kvs)
  obtain k v where kv: "kv = (k, v)" by force
  from Cons.prems kv have "small (Suc m) (AList.update k v r)" "small n kvs"
    using small_update by (auto simp: small_def [of n])
  from Cons.IH [OF this] kv show ?case by simp
qed simp

lemma small_from_entries:
  "small 10 kvs \<Longrightarrow> small 10 (sp_current (from_entries kvs))"
  using small_fold_update [of 0 "[]" 10 kvs] small_mono [of "length kvs" _ 10]
  by (simp add: from_entries_def Let_def) (simp add: small_def)

lemma small_kv_write: "small n (sp_current st) \<Longrightarrow> length k \<le> 1000 \<Longrightarrow> length v \<le> 50000 \<Longrightarrow>
    small (Suc n) (sp_current (kv_write k v st))"
  by (simp add: kv_write_def small_update)

lemma small_write_opaque: "small n (sp_current st) \<Longrightarrow> length k \<le> 1000 \<Longrightarrow> length v \<le> 50000 \<Longrightarrow>
    small (Suc n) (sp_current (write_opaque k v st))"
  by (simp add: write_opaque_def small_update)

lemma small_delete_opaque: "small n (sp_current st) \<Longrightarrow> small n (sp_current (delete_opaque k st))"
  by (simp add: delete_opaque_def small_delete)

lemma small_clear: "small n (sp_current st) \<Longrightarrow> small n (sp_current (clear_retry_rows s st))"
  by (simp add: clear_retry_rows_def small_delete_opaque)

lemma length_keys0 [simp]: "length (toy_key gid0) \<le> 1000" "length (key gid0 n) \<le> 32 + length n"
  "length (toy_bytes e p) = 9"
  by (simp_all add: toy_key_def GROUP_STATE_LABEL_def ascii_def key_def PREFIX_def toy_bytes_def)

lemma loaded_sel [simp]:
  "ld_provider (loaded_of kvs p) = from_entries kvs"
  "ld_group (loaded_of kvs p) = \<lparr>tg_id = gid0, tg_epoch = 3, tg_pending = (p \<noteq> None)\<rparr>"
  "ld_local (loaded_of kvs p) = local0 p"
  by (simp_all add: loaded_of_def)

lemma signer0:
  "signer_from_bytes M0 b = Inr \<lparr>ss_private = b, ss_public = public0, ss_scheme = 2055\<rparr>"
  by (simp add: signer_from_bytes_def deserialize_signer_bytes_def M0_def ok_or_def)

lemma small_databases10:
  "small 10 (sp_current (from_entries database0))" "small 10 (sp_current (from_entries database1))"
  using small_from_entries small_mono [OF small_databases(1)] small_mono [OF small_databases(2)] by simp_all

lemma small_initial: "small n (sp_current (from_entries kvs)) \<Longrightarrow> n \<le> 39 \<Longrightarrow>
    small 39 (sp_initial (from_entries kvs))"
  by (simp add: small_mono)

lemma send0: "\<exists>r. send sha0 C0 E0 M0 (context_of database0) [] [5] aad0 = Inr r"
proof -
  define st where "st = exec_calls E0 [WriteMessageSecrets gid0 [5]] (from_entries database0)"
  have "small 11 (sp_current st)"
    unfolding st_def exec_message_secrets
    using small_kv_write [OF small_databases10(1), of "MESSAGE_SECRETS_LABEL @ gid0 @ be16 1" "[5]"]
    by (simp add: MESSAGE_SECRETS_LABEL_def ascii_def)
  then have "\<exists>m. finish sha0 C0 st (local0 None) (roster0 3) = Inr m"
    using small_mono [of 11 _ 39] small_mono [OF small_databases10(1), of 39]
    by (intro small_finishes [OF cbor_ok_C0 local_ok0(1) _ _ _ encode0_small(1)])
      (simp_all add: st_def)
  moreover have "lg_current (local0 None) = roster0 3" "lg_pending (local0 None) = None"
    by (simp_all add: local0_def)
  ultimately show ?thesis
    using load0
    by (auto simp: send_def bounded_aad_def aad0_def signer0 Let_def ensure_local_signer_def
        ensure_signer_public_key_def ok_or_def on_provider_def serialized_def st_def M0_sel)
qed

definition self0 :: MlsAuthorizedSelfV1 where
  "self0 = \<lparr>sf_leaf_index = 0, sf_expected_credential_identity = identity0,
     sf_expected_signature_public_key = public0\<rparr>"

text \<open>Preparing the self update.\<close>

definition staged0 :: snapshot where
  "staged0 = kv_write (toy_key gid0) (toy_bytes 3 True) (from_entries database0)"

lemma snapshot_ok_staged0 [simp]: "snapshot_ok staged0"
  by (simp add: staged0_def)

lemma read_staged0: "read_opaque staged0 (toy_key gid0) = Some (toy_bytes 3 True)"
  by (simp add: staged0_def row_simps)

lemma stage0:
  "stage_change E0 M0 s (roster0 3) [] [] (Some self0)
     \<lparr>tg_id = gid0, tg_epoch = 3, tg_pending = False\<rparr> (from_entries database0)
   = Inr ((\<lparr>bd_commit = Some [1, 3], bd_welcome = None, bd_group_info = None\<rparr>,
       \<lparr>tg_id = gid0, tg_epoch = 3, tg_pending = True\<rparr>), staged0)"
  by (simp add: stage_change_def M0_sel Let_def on_provider_def exec_toy_store staged0_def
      validate_self_authority_def self0_def leaf_by_index_def ok_or_def)

lemma preview0: "preview_roster sha0 M0 gid0 staged0 = Inr (roster0 4)"
proof -
  obtain pv where pv: "provider_from_entries (snapshot_entries staged0 gid0) 1 (Some gid0) = Inr pv"
    using snapshot_entries_valid [OF snapshot_ok_staged0] by (simp add: provider_from_entries_Inr_iff)
  have "read_opaque pv (toy_key gid0) = Some (toy_bytes 3 True)"
    using row_of_opened(1) [OF pv] read_staged0 by (simp add: row_of_snapshot_entries)
  then show ?thesis
    using roster_M0 [of "\<lparr>tg_id = gid0, tg_epoch = 4, tg_pending = False\<rparr>"] pv
    by (simp add: preview_roster_def load_group_def M0_sel ok_or_def toy_advance_def)
qed

lemma small_staged0: "small 11 (sp_current staged0)" "small 39 (sp_initial staged0)"
  using small_kv_write [OF small_databases10(1), of "toy_key gid0" "toy_bytes 3 True"]
    small_mono [OF small_databases10(1), of 39]
  by (simp_all add: staged0_def)

lemma retry0:
  assumes "length base = 32"
  shows "write_retry_rows sha0 (local0 (Some (pending0 base))) [1, 3] None None staged0
    = (Inr (), fold (put_row gid0) (retry_wires [1, 3] None None) staged0)"
proof -
  have "lg_group_id (local0 p) = gid0" for p by (simp add: local0_def)
  then show ?thesis
    using local_ok0(2) [OF assms]
    by (subst write_retry_rows_ok_iff)
      (simp add: local0_def retry_wires_def retry_hashes_def wire_ok_def pending0_def MAX_WIRE_def)
qed

lemma finish_retry0:
  assumes "length base = 32"
  shows "\<exists>m. finish sha0 C0 (fold (put_row gid0) (retry_wires [1, 3] None None) staged0)
    (local0 (Some (pending0 base))) (roster0 3) = Inr m"
proof -
  define st where "st = fold (put_row gid0) (retry_wires [1, 3] None None) staged0"
  have st: "st = delete_opaque (key gid0 ''info/'') (delete_opaque (key gid0 ''welcome/'')
      (write_opaque (key gid0 ''commit/'') [1, 3] staged0))"
    by (simp add: st_def retry_wires_def put_row_def)
  have "length (key gid0 ''commit/'') \<le> 1000"
    using length_keys0(2) [of "''commit/''"] by simp
  then have "small 12 (sp_current st)"
    using small_write_opaque [OF small_staged0(1), of "key gid0 ''commit/''" "[1, 3]"]
    by (simp add: st small_delete_opaque)
  then show ?thesis
    using small_staged0(2) small_mono [of 12 _ 39]
    by (intro small_finishes [OF cbor_ok_C0 local_ok0(2) [OF assms] _ _ _ encode0_small(2) [OF assms]])
      (simp_all add: st flip: st_def)
qed

lemma upstream0: "pending_state_sha256 sha0 E0 gid0 staged0 = Inr (sha0 (toy_bytes 3 True))"
  using read_staged0
  by (simp add: pending_state_sha256_def read_opaque_def build_key_serde_def build_key_def serialize_def
      toy_key_def ok_or_def)

lemma validate_none0: "validate_removals r [] = Inr []" "validate_additions M0 [] r [] = Inr ([], [])"
  by (simp_all add: validate_removals_def validate_additions_def Let_def)

lemma prepare0:
  "\<exists>r. prepare sha0 C0 E0 M0 (context_of database0) [] transition0 [] [] aad0 (Some self0) = Inr r"
proof -
  define b where "b = digest_of (entries_of database0)"
  have b: "length b = 32"
    using load0 by (simp add: load_Inr_iff [OF cbor_ok_C0] opened_def b_def context_of_def)
  obtain m where m: "finish sha0 C0 (fold (put_row gid0) (retry_wires [1, 3] None None) staged0)
    (local0 (Some (pending0 b))) (roster0 3) = Inr m"
    using finish_retry0 [OF b] by blast
  have s: "lg_current (local0 None) = roster0 3" "lg_incarnation_id (local0 None) = [1]"
    "lg_pending (local0 None) = None"
    by (simp_all add: local0_def)
  have p: "local0 None\<lparr>lg_pending := Some (pending0 b)\<rparr> = local0 (Some (pending0 b))"
    by (simp add: local0_def)
  have rec: "\<exists>r. prepare_record sha0 C0 E0 b (local0 None) (roster0 3) transition0 leaf0 aad0
      \<lparr>bd_commit = Some [1, 3], bd_welcome = None, bd_group_info = None\<rparr> gid0 staged0 (roster0 4) = Inr r"
    using retry0 [OF b] m
    by (simp add: prepare_record_def serialized_def serialized_opt_def ok_or_def upstream0 Let_def s
        p [unfolded pending0_def] pending0_def)
  have "\<exists>r. prepare_change sha0 C0 E0 M0 (loaded_of database0 None) \<lparr>ss_private = [], ss_public = public0,
      ss_scheme = 2055\<rparr> transition0 [] [] aad0 (Some self0) = Inr r"
  proof -
    have "u64_checked_succ 3 = Some 4" by (simp add: u64_checked_succ_Some_iff)
    moreover have "om_own_leaf_index M0 = (\<lambda>_. 0)" "om_group_id M0 = tg_id" "om_set_aad M0 = (\<lambda>_ g. g)"
      by (simp_all add: M0_sel)
    moreover have "ld_base (loaded_of database0 None) = b" by (simp add: loaded_of_def b_def)
    ultimately show ?thesis
      using rec stage0 preview0
      by (simp add: prepare_change_def Let_def s ok_or_def validate_none0)
  qed
  then show ?thesis
    using load0
    by (simp add: prepare_def bounded_aad_def id_length_ok_def transition0_def signer0
        ensure_local_signer_def ensure_signer_public_key_def ok_or_def M0_sel s aad0_def)
qed

text \<open>Settling the pending self update of \<open>database1\<close>.\<close>

definition acceptance0 :: MlsCommitAcceptance where
  "acceptance0 = \<lparr>ac_binding = binding (pending0 base0),
     ac_resulting_state = expected (roster0 4), ac_preparation_base_group_state_sha256 = base0\<rparr>"

lemma settle_finishes:
  assumes "local_ok sha0 s" "length (encode_fields C0 s) \<le> 50000"
  shows "\<exists>m. finish sha0 C0 (clear_retry_rows s (kv_write (toy_key gid0) (toy_bytes e False)
    (from_entries database1))) s prev = Inr m"
proof -
  have "small 11 (sp_current (kv_write (toy_key gid0) (toy_bytes e False) (from_entries database1)))"
    using small_kv_write [OF small_databases10(2), of "toy_key gid0" "toy_bytes e False"] by simp
  then show ?thesis
    using small_mono [OF small_databases10(2), of 39] small_mono [of 11 _ 39] assms
    by (intro small_finishes [OF cbor_ok_C0]) (simp_all add: small_clear clear_retry_rows_def small_delete_opaque)
qed

lemma advance1: "advance sha0 (local0 (Some (pending0 base0))) (roster0 4)
    = Inr (advanced (local0 (Some (pending0 base0))) (roster0 4))"
  using local_ok0(2) [of base0]
  by (simp add: advance_Inr_iff roster_ok0) (simp add: local0_def u64_checked_succ_Some_iff)

lemma merge1: "\<exists>m. merge sha0 C0 E0 M0 (context_of database1) acceptance0 = Inr m"
proof -
  have ok: "local_ok sha0 (advanced (local0 (Some (pending0 base0))) (roster0 4))"
    using advance1 advance_Inr_iff advanced_ok by metis
  obtain m where m: "finish sha0 C0 (clear_retry_rows (advanced (local0 (Some (pending0 base0))) (roster0 4))
      (kv_write (toy_key gid0) (toy_bytes 4 False) (from_entries database1)))
      (advanced (local0 (Some (pending0 base0))) (roster0 4)) (roster0 3) = Inr m"
    using settle_finishes [OF ok encode0_small(3)] by blast
  have s: "lg_current (local0 p) = roster0 3" "lg_pending (local0 p) = p" for p
    by (simp_all add: local0_def)
  have f: "proposed_roster (pending0 base0) = roster0 4" "preparation_base_sha256 (pending0 base0) = base0"
    "leaf_index (pb_author (binding (pending0 base0))) = 0"
    by (simp_all add: pending0_def)
  show ?thesis
    using load1 advance1 m roster_M0 [of "\<lparr>tg_id = gid0, tg_epoch = 4, tg_pending = False\<rparr>"]
    by (simp add: merge_def Let_def s f acceptance0_def ok_or_def M0_sel on_provider_def toy_advance_def
        exec_toy_store)
qed

lemma discard1: "\<exists>m. discard sha0 C0 E0 M0 (context_of database1) (binding (pending0 base0)) = Inr m"
proof -
  have "local0 (Some p)\<lparr>lg_pending := None\<rparr> = local0 None" for p
    by (simp add: local0_def)
  moreover obtain m where "finish sha0 C0 (clear_retry_rows (local0 None)
      (kv_write (toy_key gid0) (toy_bytes 3 False) (from_entries database1))) (local0 None) (roster0 3) = Inr m"
    using settle_finishes [OF local_ok0(1) encode0_small(1)] by blast
  moreover have "lg_current (local0 p) = roster0 3" "lg_pending (local0 p) = p" for p
    by (simp_all add: local0_def)
  ultimately show ?thesis
    using load1
    by (simp add: discard_def Let_def ok_or_def M0_sel on_provider_def exec_toy_store)
qed

text \<open>Receiving an application message of the current epoch.\<close>

definition incoming0 :: ReceiveInput where
  "incoming0 = \<lparr>ri_context = context_of database0, ri_kind = Application, ri_wire = [0, 3, 5],
     ri_wire_sha256 = sha0 [0, 3, 5], ri_aad = aad0, ri_sender = leaf0,
     ri_message_state = expected (roster0 3), ri_resulting_state = expected (roster0 3)\<rparr>"

lemma incoming0_sel [simp]:
  "ri_context incoming0 = context_of database0" "ri_kind incoming0 = Application"
  "ri_wire incoming0 = [0, 3, 5]" "ri_wire_sha256 incoming0 = sha0 [0, 3, 5]" "ri_aad incoming0 = aad0"
  "ri_sender incoming0 = leaf0" "ri_message_state incoming0 = expected (roster0 3)"
  "ri_resulting_state incoming0 = expected (roster0 3)"
  by (simp_all add: incoming0_def)

lemma receive0: "\<exists>r. receive_inner sha0 C0 E0 M0 incoming0 = Inr r"
proof -
  define st where "st = exec_calls E0 [WriteMessageSecrets gid0 [0, 3, 5]] (from_entries database0)"
  have "small 11 (sp_current st)"
    unfolding st_def exec_message_secrets
    using small_kv_write [OF small_databases10(1), of "MESSAGE_SECRETS_LABEL @ gid0 @ be16 1" "[0, 3, 5]"]
    by (simp add: MESSAGE_SECRETS_LABEL_def ascii_def)
  then have "\<exists>m. finish sha0 C0 st (local0 None) (roster0 3) = Inr m"
    using small_mono [of 11 _ 39] small_mono [OF small_databases10(1), of 39]
    by (intro small_finishes [OF cbor_ok_C0 local_ok0(1) _ _ _ encode0_small(1)])
      (simp_all add: st_def)
  then have "\<exists>r. receive_process sha0 C0 E0 M0 incoming0 [0, 3, 5] (loaded_of database0 None) = Inr r"
    by (auto simp: receive_process_def Let_def M0_sel st_def receive_content_def toy_content_def
        toy_message_epoch_def local0_def [of None])
  moreover have "message_roster sha0 (local0 None) 3 = Inr (roster0 3)"
    unfolding message_roster_Inr_iff [OF local_ok0(1)] by (simp add: retained_rosters_def local0_def)
  moreover have "lg_current (local0 None) = roster0 3" "lg_group_id (local0 None) = gid0"
    by (simp_all add: local0_def)
  moreover have "toy_message_epoch [0, 3, 5] = 3" by (simp add: toy_message_epoch_def)
  moreover have "check_state (roster0 3) (expected (roster0 3)) True = Inr ()"
    by (simp add: check_state_Inr_iff)
  moreover have "es_group_id (expected (roster0 3)) = gid0" "es_epoch (expected (roster0 3)) = 3"
    "es_digest_sha256 (expected (roster0 3)) = digest_sha256 (roster0 3)"
    by (simp_all add: expected_def)
  ultimately show ?thesis
    using load0
    by (simp add: receive_inner_def Let_def bounded_aad_def mls_message_from_exact_bytes_def ok_or_def M0_sel
        aad0_def [symmetric]) (simp add: aad0_def)
qed

text \<open>Creating and joining.\<close>

definition owner0 :: MlsAuthorizedOwnerV1 where
  "owner0 = \<lparr>ow_expected_credential_identity = identity0, ow_expected_signature_public_key = public0\<rparr>"

definition fresh0 :: "u64 \<Rightarrow> LocalGroupState" where
  "fresh0 e = \<lparr>lg_group_id = gid0, lg_incarnation_id = [1], lg_retention = 2, lg_join_epoch = e,
     lg_current = roster0 e, lg_history = [], lg_pending = None\<rparr>"

lemma local_ok_fresh0: "local_ok sha0 (fresh0 e)"
  by (simp add: local_ok_def fresh0_def roster_ok0 history_ok_def window_def)

lemma encode_fresh0: "length (encode_fields C0 (fresh0 e)) \<le> 50000"
  by (simp add: encode_fields_def fresh0_def C0_def roster_encode_def leaf_encode_def
      optional_pending_encode_def roster0_def)

lemma new_state0: "new_state sha0 [1] 2 (roster0 e) = Inr (fresh0 e)"
  using local_ok_fresh0 [of e] by (simp add: new_state_def Let_def validate_Inr_iff bindE_Inr_iff fresh0_def)

lemma to_join_config0: "to_join_config config0 = cc_join_config (to_create_config t config0)"
  by (simp add: to_create_config_def)

lemma create0: "\<exists>m. create sha0 C0 E0 M0 (t, t, t) config0 [] gid0 [1] owner0 None [] 1 = Inr m"
proof -
  define st1 where "st1 = exec_calls E0 [WriteSignatureKeyPair public0 []] (from_entries [])"
  define st where "st = kv_write (toy_key gid0) (toy_bytes 0 False) st1"
  have st1: "st1 = kv_write (SIGNATURE_KEY_PAIR_LABEL @ public0 @ be16 1) [] (from_entries [])"
    by (simp add: st1_def exec_calls_def write_signature_key_pair_def write_val_E0)
  have "small 0 (sp_current (from_entries []))" by (simp add: from_entries_def)
  from small_kv_write [OF this, of "SIGNATURE_KEY_PAIR_LABEL @ public0 @ be16 1" "[]"]
  have "small 1 (sp_current st1)" by (simp add: st1 SIGNATURE_KEY_PAIR_LABEL_def ascii_def)
  from small_kv_write [OF this, of "toy_key gid0" "toy_bytes 0 False"]
  have "small 39 (sp_current st)" by (simp add: st_def small_mono)
  moreover have "small 39 (sp_initial st)" by (simp add: st_def st1 from_entries_def)
  ultimately obtain m where m: "finish sha0 C0 st (fresh0 0) (roster0 0) = Inr m"
    using small_finishes [OF cbor_ok_C0 local_ok_fresh0 _ _ _ encode_fresh0]
    by (metis snapshot_ok_from_entries snapshot_ok_writes(3) st1 st_def)
  have pr: "profile 2 = Inr config0"
    by (simp add: profile_Inr_iff config0_def)
  have "provider_from_entries [] 1 None = Inr (from_entries [])"
    by (simp add: provider_from_entries_Inr_iff validate_storage_entries_Inr_iff MLS_STORAGE_FORMAT_VERSION_def)
  moreover have "bounded_entries [] = Inr ()" by (simp add: bounded_entries_Inr_iff rows_bounded_def)
  moreover have "max_past_epochs config0 = 2" "ciphersuite config0 = Mls128DhkemX25519Aes128gcmSha256Ed25519"
    by (simp_all add: config0_def default_config_def)
  ultimately show ?thesis
    using m pr roster_M0 [of "\<lparr>tg_id = gid0, tg_epoch = 0, tg_pending = False\<rparr>"] new_state0 [of 0]
    by (simp add: create_def id_length_ok_def owner0_def signer0 validate_retention_def
        ensure_signer_public_key_def build_credential_with_key_def on_provider_def M0_sel to_create_config_def
        exec_toy_store leaf_matches_owner_def Let_def st_def st1_def)
qed

definition package_key0 :: bytes where "package_key0 = KEY_PACKAGE_LABEL @ [4] @ be16 1"

definition package0 :: "MlsStorageEntry list" where
  "package0 = [\<lparr>entry_key = package_key0, entry_value = [6], entry_group_id = None\<rparr>]"

definition join_input0 :: JoinInput where
  "join_input0 = \<lparr>ji_config = config0, ji_incarnation_id = [1], ji_signer = [], ji_welcome = [4],
     ji_welcome_sha256 = sha0 [4], ji_tree = None, ji_resulting = expected (roster0 3),
     ji_local_leaf = leaf0, ji_target_key_package_sha256 = sha0 [6], ji_entries = package0,
     ji_storage_format = 1\<rparr>"

text \<open>The store at the end of the typed join.\<close>

definition signer_key0 :: bytes where
  "signer_key0 = SIGNATURE_KEY_PAIR_LABEL @ (public0 @ ascii ''RustCryptoSignatureKey'' @ be16 2055) @ be16 1"

definition joining0 :: snapshot where
  "joining0 = kv_write signer_key0 (signer_value E0 [] public0 2055) (from_entries [(package_key0, [6])])"

definition joined0 :: snapshot where
  "joined0 = kv_write (toy_key gid0) (toy_bytes 3 False) joining0"

lemma package_provider0: "provider_from_entries package0 1 None = Inr (from_entries [(package_key0, [6])])"
proof -
  have "is_global_key package_key0"
    by (simp add: is_global_key_def GLOBAL_LABELS_def package_key0_def KEY_PACKAGE_LABEL_def starts_with_def)
  then show ?thesis
    by (simp add: provider_from_entries_Inr_iff validate_storage_entries_Inr_iff package0_def
        row_scoped_def MLS_STORAGE_FORMAT_VERSION_def)
qed

lemma signer_written0:
  "write_serialized_basic_signer E0 [] public0 2055 (from_entries [(package_key0, [6])]) = (Inr (), joining0)"
  by (simp add: write_serialized_basic_signer_def write_val_E0 joining0_def signer_key0_def)

lemma selected0: "selected_key_package_sha256 sha0 E0 M0 joining0 [[4]] = Inr (sha0 [6])"
proof -
  have "hd signer_key0 \<noteq> hd package_key0"
    by (simp add: signer_key0_def package_key0_def SIGNATURE_KEY_PAIR_LABEL_def KEY_PACKAGE_LABEL_def ascii_def)
  then have "package_key0 \<noteq> signer_key0" by metis
  then have "kv_read joining0 package_key0 = Some [6]"
    by (simp add: joining0_def row_simps) (simp add: kv_read_def from_entries_def Let_def)
  then show ?thesis
    by (simp add: key_package_def read_val_def build_key_serde_def build_key_def serialize_def
        deserialize_zeroizing_def ok_or_def M0_sel package_key0_def)
qed

lemma small_joined0: "small 3 (sp_current joined0)" "small 39 (sp_initial joined0)"
  "snapshot_ok joined0"
proof -
  have "small 1 (sp_current (from_entries [(package_key0, [6])]))"
    by (simp add: from_entries_def Let_def small_def package_key0_def KEY_PACKAGE_LABEL_def ascii_def)
  moreover have "length signer_key0 \<le> 1000" "length (signer_value E0 [] public0 2055) \<le> 50000"
    by (simp_all add: signer_key0_def SIGNATURE_KEY_PAIR_LABEL_def ascii_def E0_def seq_enc_def public0_def
        length_concat comp_def sum_list_triv sum_list_replicate)
  ultimately have i: "small 39 (sp_initial joined0)" and "small 2 (sp_current joining0)"
    using small_kv_write [of 1 "from_entries [(package_key0, [6])]" signer_key0 "signer_value E0 [] public0 2055"]
    by (simp_all add: joined0_def joining0_def small_mono numeral_2_eq_2)
  from small_kv_write [OF this(2), of "toy_key gid0" "toy_bytes 3 False"]
  show "small 3 (sp_current joined0)" by (simp add: joined0_def numeral_3_eq_3)
  from i show "small 39 (sp_initial joined0)" "snapshot_ok joined0"
    by (simp_all add: joined0_def joining0_def)
qed

lemma typed_join0:
  "\<exists>b. batch_from_provider joined0 (Some gid0) [] = Inr b \<and>
    join_group_from_welcome_with_storage_typed sha0 E0 M0 config0 [4] None [] (expected (roster0 3))
      (Some (sha0 [6])) package0 1
    = Inr \<lparr>sj_joined = \<lparr>jg_group_id = gid0, jg_resulting_roster = roster0 3, jg_storage_batch = b\<rparr>,
        sj_local_leaf = leaf0, sj_consumed_key_package_sha256 = sha0 [6]\<rparr>"
proof -
  obtain b where b: "batch_from_provider joined0 (Some gid0) [] = Inr b"
    by (simp add: batch_from_provider_def batch_from_updates_Some)
  have "ciphersuite config0 = Mls128DhkemX25519Aes128gcmSha256Ed25519"
    by (simp add: config0_def default_config_def)
  moreover have "validate_expected_roster_typed (roster0 3) (expected (roster0 3)) False = Inr ()"
    by (simp add: validate_expected_roster_typed_Inr_iff expected_def roster0_def)
  moreover have "exec_calls E0 (toy_store \<lparr>tg_id = gid0, tg_epoch = 3, tg_pending = False\<rparr>) joining0 = joined0"
    by (simp add: exec_toy_store joined0_def)
  ultimately show ?thesis
    using package_provider0 signer_written0 selected0 b
      roster_M0 [of "\<lparr>tg_id = gid0, tg_epoch = 3, tg_pending = False\<rparr>"]
    by (simp add: join_group_from_welcome_with_storage_typed_def MLS_STORAGE_FORMAT_VERSION_def
        deserialize_signer_bytes_def ok_or_def M0_sel mls_message_from_exact_bytes_def
        on_provider_strict_def Let_def ensure_local_signer_public_key_def)
qed

lemma small_import:
  assumes "small m (sp_current st)" "small n (map (\<lambda>e. (entry_key e, entry_value e)) (upserts b))"
  shows "small (m + length (upserts b)) (sp_current (import_batch b st))"
proof -
  have d: "small m (sp_current (fold delete_opaque ks st))" for ks
    using assms(1) by (induction ks arbitrary: st) (simp_all add: small_delete_opaque)
  have "small k (sp_current t) \<Longrightarrow> small n (map (\<lambda>e. (entry_key e, entry_value e)) rows) \<Longrightarrow>
      small (k + length rows) (sp_current (fold (\<lambda>row. write_opaque (entry_key row) (entry_value row)) rows t))"
    for k t and rows :: "MlsStorageEntry list"
  proof (induction rows arbitrary: k t)
    case (Cons row rows)
    then have "small (Suc k) (sp_current (write_opaque (entry_key row) (entry_value row) t))"
      and "small n (map (\<lambda>e. (entry_key e, entry_value e)) rows)"
      by (auto intro: small_write_opaque simp: small_def [of n])
    from Cons.IH [OF this] show ?case by simp
  qed simp
  from this [OF d assms(2)] show ?thesis by (simp add: import_batch_def)
qed

lemma join0: "\<exists>j. join sha0 C0 E0 M0 (t, t) join_input0 = Inr j"
proof -
  obtain b where b: "batch_from_provider joined0 (Some gid0) [] = Inr b"
    and tj: "join_group_from_welcome_with_storage_typed sha0 E0 M0 config0 [4] None [] (expected (roster0 3))
      (Some (sha0 [6])) package0 1
    = Inr \<lparr>sj_joined = \<lparr>jg_group_id = gid0, jg_resulting_roster = roster0 3, jg_storage_batch = b\<rparr>,
        sj_local_leaf = leaf0, sj_consumed_key_package_sha256 = sha0 [6]\<rparr>"
    using typed_join0 by blast
  define p where "p = from_entries [(package_key0, [6])]"
  define st where "st = import_batch b p"
  have rd: "read_opaque st k = read_opaque joined0 k" for k
    unfolding st_def
    by (rule import_batch_current [OF small_joined0(3) _ _ b]) (simp_all add: p_def joined0_def joining0_def)
  have ld: "load_group M0 gid0 st = Inr \<lparr>tg_id = gid0, tg_epoch = 3, tg_pending = False\<rparr>"
    by (simp add: load_group_def M0_sel rd ok_or_def) (simp add: joined0_def row_simps)
  from b have ups: "upserts b = sort_key entry_key (map (\<lambda>(k, v). scoped_row (Some gid0) k v)
        (up_upserts (into_updates joined0)))"
    by (auto simp: batch_from_provider_def batch_from_updates_Some)
  have "small 3 (up_upserts (into_updates joined0))"
    using small_joined0(1) by (simp add: into_updates_def small_filter)
  then have ub: "length (upserts b) \<le> 3" "small 3 (map (\<lambda>e. (entry_key e, entry_value e)) (upserts b))"
    by (auto simp: ups small_def)
  have op: "opened_on package0 gid0 p"
    using opened_on_fresh [OF provider_from_entries_scope [OF package_provider0]] by (simp add: p_def)
  from import_batch_keeps [OF op, of b] have ok: "snapshot_ok st" by (simp add: st_def opened_on_def)
  have ini: "sp_initial (import_batch c q) = sp_initial q" for c q
  proof -
    have "sp_initial (fold delete_opaque ks q) = sp_initial q" for ks
      by (induction ks arbitrary: q) simp_all
    moreover have "sp_initial (fold (\<lambda>row. write_opaque (entry_key row) (entry_value row)) rows t)
        = sp_initial t" for rows :: "MlsStorageEntry list" and t
      by (induction rows arbitrary: t) simp_all
    ultimately show ?thesis by (simp add: import_batch_def)
  qed
  have "small 1 (sp_current p)"
    by (simp add: p_def from_entries_def Let_def small_def package_key0_def KEY_PACKAGE_LABEL_def ascii_def)
  from small_import [OF this ub(2)] have "small 39 (sp_current st)"
    using ub(1) by (simp add: st_def small_mono)
  moreover have "small 39 (sp_initial st)"
    using small_joined0(2) by (simp add: st_def ini p_def joined0_def joining0_def)
  ultimately obtain m where m: "finish sha0 C0 st (fresh0 3) (roster0 3) = Inr m"
    using small_finishes [OF cbor_ok_C0 local_ok_fresh0 ok _ _ encode_fresh0] by blast
  have "rows_bounded package0"
    by (simp add: rows_bounded_def package0_def row_bounded_def row_size_def package_key0_def
        KEY_PACKAGE_LABEL_def ascii_def)
  moreover have "profile 2 = Inr config0" "max_past_epochs config0 = 2"
    by (simp_all add: profile_Inr_iff config0_def)
  moreover have "length (es_group_id (expected (roster0 3))) = 16" "length (es_digest_sha256 (expected (roster0 3))) = 32"
    by (simp_all add: expected_def roster0_def)
  ultimately show ?thesis
    using tj m ld new_state0 [of 3] package_provider0
    by (simp add: join_def join_input0_def bounded_entries_Inr_iff [where u = "()", THEN iffD2]
        id_length_ok_def Let_def flip: p_def st_def)
qed

end
