(* ===== verification/ExternalInstance.thy ===== *)
theory ExternalInstance
  imports ResyncInstance PreparationLaws Runs
begin

text \<open>
  The member side of the resynchronisation of \<open>ResyncInstance\<close>: the leaf of index 1 prepares the
  external Commit and promotes its candidate, and the member of index 0 receives the Commit. The
  group of \<open>Instances\<close> gets the two leaves, which depend on its epoch.
\<close>

section \<open>A two-member OpenMLS\<close>

definition members_at :: "u64 \<Rightarrow> Leaf list" where
  "members_at e = (if e = 1 then [stays0, old_leaf0] else [stays0, new_leaf0])"

definition M1 :: "u32 \<Rightarrow> (bytes, toy_group, bytes) openmls" where
  "M1 own = M0\<lparr>
     om_members := (\<lambda>g. map member_of_leaf (members_at (tg_epoch g))),
     om_own_leaf_index := (\<lambda>_. own),
     om_member_key := (\<lambda>g i. map_option lf_signature_key (find (\<lambda>l. lf_index l = i) (members_at (tg_epoch g)))),
     om_process_message := (\<lambda>x g _. Inr ((\<lparr>pr_aad = aad0, pr_epoch = toy_message_epoch x,
        pr_sender = NewMemberCommit, pr_basic_identity = Some identity0,
        pr_content = StagedCommitMessage x\<rparr>, g), [WriteMessageSecrets (tg_id g) x]))\<rparr>"

definition group_at :: "u64 \<Rightarrow> toy_group" where
  "group_at e = \<lparr>tg_id = gid0, tg_epoch = e, tg_pending = False\<rparr>"

definition X0 :: "(bytes, toy_group, bytes) external_mls" where
  "X0 = \<lparr>
     xm_external_commit = (\<lambda>config _ _ _ _ _ _.
        if config = to_join_config config0
        then Some ((group_at 2, \<lparr>bd_commit = Some commit0, bd_welcome = None,
          bd_group_info = Some (Some (group_info0 1))\<rparr>), toy_store (group_at 2))
        else None),
     xm_export_group_info = (\<lambda>_ _. Some (Some (group_info0 1)))\<rparr>"

lemma M1_sel [simp]:
  "om_members (M1 own) = (\<lambda>g. map member_of_leaf (members_at (tg_epoch g)))"
  "om_own_leaf_index (M1 own) = (\<lambda>_. own)"
  "om_process_message (M1 own) = (\<lambda>x g _. Inr ((\<lparr>pr_aad = aad0, pr_epoch = toy_message_epoch x,
        pr_sender = NewMemberCommit, pr_basic_identity = Some identity0,
        pr_content = StagedCommitMessage x\<rparr>, g), [WriteMessageSecrets (tg_id g) x]))"
  "om_member_key (M1 own) = (\<lambda>g i. map_option lf_signature_key (find (\<lambda>l. lf_index l = i) (members_at (tg_epoch g))))"
  "om_message (M1 own) = (\<lambda>b. Some (b, []))" "om_protocol_message (M1 own) = Some"
  "om_message_group_id (M1 own) = (\<lambda>_. gid0)" "om_message_epoch (M1 own) = toy_message_epoch"
  "om_signer_json (M1 own) = (\<lambda>b. Some \<lparr>ss_private = b, ss_public = public0, ss_scheme = 2055\<rparr>)"
  "om_scheme_known (M1 own) = (\<lambda>s. s = 2055)"
  "om_basic_credential (M1 own) = (\<lambda>i. i)"
  "om_group_id (M1 own) = tg_id" "om_epoch (M1 own) = tg_epoch" "om_is_active (M1 own) = (\<lambda>_. True)"
  "om_has_pending (M1 own) = tg_pending"
  "om_configuration (M1 own) = (\<lambda>_. to_join_config config0)"
  "om_ciphersuite (M1 own) = (\<lambda>_. MLS_128_DHKEMX25519_AES128GCM_SHA256_Ed25519)"
  "om_load (M1 own) = (\<lambda>gid st. Option.bind (read_opaque st (toy_key gid)) (toy_parse gid))"
  "om_merge_staged_commit (M1 own) = (\<lambda>_ g _. Some (toy_advance g, toy_store (toy_advance g)))"
  by (simp_all add: M1_def M0_sel)

lemma wire0_M1 [simp]: "wire0 (M1 own)"
  by (simp add: wire0_def)

lemma signer1: "signer_from_bytes (M1 own) b = Inr \<lparr>ss_private = b, ss_public = public0, ss_scheme = 2055\<rparr>"
  by (simp add: signer_from_bytes_def deserialize_signer_bytes_def ok_or_def)

lemma profile0: "profile 2 = Inr config0"
  by (simp add: profile_Inr_iff config0_def)

lemma configured1: "configured (M1 own) g 2"
  by (simp add: configured_def config0_def)

lemma toy_key_not_global: "\<not> is_global_key (toy_key g)"
proof -
  have "list_all (\<lambda>l. \<not> prefix l GROUP_STATE_LABEL \<and> \<not> prefix GROUP_STATE_LABEL l) GLOBAL_LABELS"
    by code_simp
  then have "l \<in> set GLOBAL_LABELS \<Longrightarrow> \<not> starts_with (toy_key g) l" for l
    unfolding toy_key_def list_all_iff using parallel_not_starts_with [of l GROUP_STATE_LABEL] by (simp add: parallel_def)
  then show ?thesis by (auto simp: is_global_key_def list_ex_iff)
qed

lemma external_ok0: "external_ok sha0 E0 (M1 own) P0 X0"
proof -
  have "load_frame (M1 own)"
    unfolding load_frame_def M1_sel by (metis toy_key_not_global toy_key_unreserved)
  moreover have "external_persists E0 (M1 own) P0 X0"
    by (auto simp: external_persists_def X0_def found_def same_view_def exec_toy_store row_simps group_at_def
        split: if_splits)
  moreover have "pm_from_external P0 t tree info = Inr (p, i) \<Longrightarrow> distinct (map fst (pm_members P0 p))" for t tree info p i
    by (auto simp: P0_def member_of_leaf_def stays0_def old_leaf0_def new_leaf0_def split: if_splits)
  ultimately show ?thesis
    by (simp add: external_ok_def public_mls_ok_P0)
qed

section \<open>The rosters\<close>

definition public_at :: "u64 \<Rightarrow> PublicRoster" where
  "public_at e = \<lparr>ro_state = state0 e (members_at e), ro_leaves = members_at e\<rparr>"

definition roster_at :: "u64 \<Rightarrow> MlsRosterSummaryV1" where
  "roster_at e = local_roster (public_at e)"

lemma members_at_ok:
  "public_leaves_ok (members_at e)" "sort_key lf_index (members_at e) = members_at e" "members_at e \<noteq> []"
  "length (members_at e) = 2" "map lf_index (members_at e) = [0, 1]"
  using leaves0_ok sorted0 by (simp_all add: members_at_def stays0_def old_leaf0_def new_leaf0_def)

lemma roster_at_ok: "resync_roster_ok sha0 (roster_at e)"
  unfolding roster_at_def
proof (rule local_roster_ok [where P = P0 and p = "(e, members_at e)"])
  show "public_roster sha0 P0 (e, members_at e) = Inr (public_at e)"
    unfolding public_at_def by (rule public_roster0 [OF members_at_ok(1,2)])
qed (use members_at_ok in \<open>simp_all add: public_at_def member_of_leaf_def comp_def gid0_length\<close>)

lemma roster_at_sel [simp]:
  "group_id (roster_at e) = gid0" "epoch (roster_at e) = e" "leaves (roster_at e) = map local_leaf (members_at e)"
  by (simp_all add: roster_at_def local_roster_def public_at_def state0_def)

lemma canonical_at: "validate_canonical_leaves (map local_leaf (members_at e)) = Inr ()"
  using roster_at_ok [of e] by (simp add: validate_canonical_leaves_Inr_iff resync_roster_ok_def)

lemma roster_ok_at: "roster_ok sha0 (roster_at e)"
  using roster_at_ok [of e]
  by (simp add: resync_roster_ok_def roster_ok_def resync_leaf_ok_def mls_roster_digest_v1_def MAX_LEAVES_def
      canonical_at)

lemma roster_M1: "tg_id g = gid0 \<Longrightarrow> roster_from_group sha0 (M1 own) g = Inr (roster_at (tg_epoch g))"
proof -
  assume g: "tg_id g = gid0"
  have m: "foldE (\<lambda>ls m. bindE (member_leaf m) (\<lambda>l. Inr (ls @ [l]))) a (map member_of_leaf ls) =
      Inr (a @ map local_leaf ls)" for a ls
    by (induction ls arbitrary: a) (simp_all add: member_leaf_def member_of_leaf_def local_leaf_def ok_or_def)
  have "sort_key leaf_index (map local_leaf (members_at e)) = map local_leaf (members_at e)" for e
    by (simp add: sort_key_map_commute [of _ local_leaf lf_index] local_leaf_def members_at_ok)
  then show ?thesis
    using roster_at_ok [of "tg_epoch g"] g roster_at_sel [of "tg_epoch g"]
    by (cases "roster_at (tg_epoch g)")
      (simp add: roster_from_group_def m canonical_at Let_def resync_roster_ok_def)
qed

section \<open>The rows of a member\<close>

definition local_at :: "u64 \<Rightarrow> LocalGroupState" where
  "local_at e = \<lparr>lg_group_id = gid0, lg_incarnation_id = [1], lg_retention = 2, lg_join_epoch = e,
     lg_current = roster_at e, lg_history = [], lg_pending = None\<rparr>"

lemma new_state_at: "new_state sha0 [1] 2 (roster_at e) = Inr (local_at e)"
  by (simp add: new_state_Inr_iff roster_ok_at local_at_def)

lemma local_ok_at: "local_ok sha0 (local_at e)"
  by (simp add: local_ok_def local_at_def roster_ok_at history_ok_def window_def gid0_length)

lemma leaf_lengths_at:
  "l \<in> set (members_at e) \<Longrightarrow> length (lf_identity l) = 45 \<and> length (lf_signature_key l) = 32"
  using members_at_ok(1) by (simp add: public_leaves_ok_def public_leaf_ok_def)

lemma cbor_C0_length [simp]:
  "length (cb_array C0 n) = 9" "length (cb_u16 C0 h) = 3" "length (cb_u32 C0 w) = 5" "length (cb_u64 C0 n) = 9"
  "length (cb_bytes C0 b) = 9 + length b" "length (cb_null C0) = 1"
  by (simp_all add: C0_def)

lemma length_digest_at [simp]: "length (digest_sha256 (roster_at e)) = 32"
  using roster_at_ok [of e] by (simp add: resync_roster_ok_def)

lemma leaf_encode_length:
  "length (leaf_encode C0 l) = 32 + length (credential_identity l) + length (signature_public_key l)"
  by (simp add: leaf_encode_def)

lemma leaves_at_length: "length (concat (map (leaf_encode C0) (map local_leaf (members_at e)))) = 218"
  by (simp add: members_at_def leaf_encode_length local_leaf_def stays0_def old_leaf0_def new_leaf0_def)

lemma encode_at: "length (encode_fields C0 s) \<le> 50000"
  if "s = local_at e \<or> s = advanced (local_at e) (roster_at f)"
proof -
  have "length (roster_encode C0 (roster_at e)) \<le> 1000" for e
    using leaves_at_length [of e] by (simp add: roster_encode_def gid0_length)
  from this [of e] this [of f] show ?thesis using that
    by (auto simp: encode_fields_def local_at_def optional_pending_encode_def advanced_def push_history_def
        gid0_length)
qed

text \<open>The rows that a new member writes: its OpenMLS group and its local state.\<close>

definition store_at :: "u64 \<Rightarrow> snapshot" where
  "store_at e = exec_calls E0 (toy_store (group_at e)) (from_entries [])"

definition rows_at :: "u64 \<Rightarrow> bytes \<times> MlsStorageEntry list" where
  "rows_at e = projr (candidate_rows sha0 C0 [1] 2 (roster_at e) (store_at e))"

lemma empty_provider: "provider_from_entries [] 1 None = Inr (from_entries [])"
  by (simp add: provider_from_entries_Inr_iff validate_storage_entries_Inr_iff MLS_STORAGE_FORMAT_VERSION_def)

lemma scoped_row_fields [simp]:
  "entry_key (scoped_row g k v) = k" "entry_value (scoped_row g k v) = v"
  by (simp_all add: scoped_row_def)

lemma rows_at: "candidate_rows sha0 C0 [1] 2 (roster_at e) (store_at e) = Inr (rows_at e)"
  and rows_at_small: "small 2 (map (\<lambda>r. (entry_key r, entry_value r)) (snd (rows_at e)))"
proof -
  let ?st = "write_opaque (key gid0 ''state/'') (encode_fields C0 (local_at e)) (store_at e)"
  have "small 0 (sp_current (from_entries []))" by (simp add: from_entries_def)
  from small_kv_write [OF this, of "toy_key gid0" "toy_bytes e False"]
  have "small 1 (sp_current (store_at e))" by (simp add: store_at_def exec_toy_store group_at_def)
  from small_write_opaque [OF this _ encode_at [of "local_at e" e e], of "key gid0 ''state/''"]
  have sm: "small 2 (sp_current ?st)" using length_keys0(2) [of "''state/''"] by (simp add: numeral_2_eq_2)
  have ok: "snapshot_ok ?st" by (simp add: store_at_def)
  have rb: "rows_bounded (snapshot_entries ?st gid0)"
    using small_rows_bounded(1) [OF small_mono [OF sm] gid0_length] by (simp add: snapshot_entries_def)
  then have be: "bounded_entries (snapshot_entries ?st gid0) = Inr ()" by (simp add: bounded_entries_Inr_iff)
  from rb obtain d where d: "group_state_digest_from_entries sha0 gid0 (snapshot_entries ?st gid0) 1 = Inr d"
    using bounded_digest [OF snapshot_entries_valid [OF ok] gid0_length] by blast
  have "save sha0 C0 (local_at e) (store_at e) = (Inr (), ?st)"
    using local_ok_at [of e] by (simp add: save_ok_iff [OF cbor_ok_C0] local_at_def)
  then have *: "candidate_rows sha0 C0 [1] 2 (roster_at e) (store_at e) =
      Inr (d, sort_key entry_key (snapshot_entries ?st gid0))"
    using be d by (simp add: candidate_rows_def new_state_at state_digest_def Let_def)
  then show "candidate_rows sha0 C0 [1] 2 (roster_at e) (store_at e) = Inr (rows_at e)"
    by (simp add: rows_at_def)
  from sm show "small 2 (map (\<lambda>r. (entry_key r, entry_value r)) (snd (rows_at e)))"
    by (auto simp: rows_at_def * small_def snapshot_entries_def)
qed

definition context_at :: "u64 \<Rightarrow> Context" where
  "context_at e = \<lparr>cx_group_id = gid0, cx_incarnation_id = [1], cx_expected_current = expected (roster_at e),
     cx_expected_base_sha256 = fst (rows_at e), cx_expected_retention = 2, cx_entries = snd (rows_at e),
     cx_storage_format = 1\<rparr>"

lemma group_at_found: "found E0 (M1 own) (om_group_id (M1 own) (group_at e)) (from_entries []) (toy_store (group_at e)) (group_at e) False"
  by (simp add: found_def same_view_def exec_toy_store row_simps group_at_def)

lemma load_at:
  obtains L where "load sha0 C0 E0 (M1 own) (context_at e) = Inr L" "ld_group L = group_at e"
    "ld_local L = local_at e" "small 2 (sp_current (ld_provider L))" "small 2 (sp_initial (ld_provider L))"
    "snapshot_ok (ld_provider L)"
proof -
  have g: "roster_from_group sha0 (M1 own) (group_at e) = Inr (roster_at e)"
    using roster_M1 [of "group_at e"] by (simp add: group_at_def)
  from candidate_rows_opened [OF cbor_ok_C0 external_ok0 empty_provider _ g group_at_found configured1,
      where inc = "[1]" and d = "fst (rows_at e)" and rows = "snd (rows_at e)"] rows_at [of e]
  obtain L where L: "new_state sha0 [1] 2 (roster_at e) = Inr (ld_local L)" "same_view (M1 own) (group_at e) (ld_group L)"
    "opened sha0 C0 E0 (M1 own) (context_at e) L"
    by (auto simp: store_at_def context_at_def)
  then have l: "ld_local L = local_at e" by (simp add: new_state_at)
  have "\<not> tg_pending (ld_group L)" using L(3) l by (simp add: opened_def pending_agrees_def local_at_def)
  then have gr: "ld_group L = group_at e"
    using L(2) by (cases "ld_group L") (simp add: same_view_def group_at_def)
  have pv: "ld_provider L = from_entries (map (\<lambda>r. (entry_key r, entry_value r)) (snd (rows_at e)))"
    using L(3) by (auto simp: opened_def context_at_def provider_from_entries_Inr_iff)
  have "small 2 (sp_current (ld_provider L))"
    using small_fold_update [OF small_Nil [of 0] rows_at_small [of e]] rows_at_small [of e]
    unfolding pv by (simp add: from_entries_def Let_def small_def)
  moreover from this have "small 2 (sp_initial (ld_provider L))" unfolding pv by (simp add: from_entries_def Let_def)
  moreover have "snapshot_ok (ld_provider L)" unfolding pv by simp
  ultimately show thesis using that L(3) l gr by (simp add: load_Inr_iff [OF cbor_ok_C0])
qed

section \<open>The operations succeed\<close>

definition preparation0 :: MlsExternalPreparationV1 where
  "preparation0 = \<lparr>ep_candidate_id = [2],
     ep_incarnation_id = [1],
     ep_transition = transition0,
     ep_local_lifecycle_context_sha256 = replicate 32 0,
     ep_input_group_info = group_info0 0,
     ep_input_group_info_sha256 = sha0 (group_info0 0),
     ep_expected_previous_state = expected (roster_at 1),
     ep_expected_snapshot_signer = local_leaf stays0,
     ep_authorized_old_leaf = local_leaf old_leaf0,
     ep_authorized_new_credential_identity = identity0,
     ep_authorized_new_signature_public_key = public0,
     ep_aad = aad0,
     ep_retention = 2\<rparr>"

lemma preparation_base0: "preparation_base preparation0 = snapshot0"
  by (simp add: preparation_base_def preparation0_def snapshot0_def RS_PROFILE_def expected_def)
    (simp add: roster_at_def local_roster_def public_at_def state0_def members_at_def)

lemma preparation_proof0: "preparation_proof sha0 preparation0 commit0 (group_info0 1) = successor0"
  by (simp add: preparation_proof_def preparation_base0) (simp add: preparation0_def successor0_def)

lemma build0: "build_external_commit E0 (M1 own) P0 X0 preparation0 [1] =
    Inr (group_at 2, commit0, group_info0 1, store_at 2)"
  by (simp add: build_external_commit_def signer1 preparation0_def ensure_signer_public_key_def
      build_credential_with_key_def mls_message_from_exact_bytes_def ok_or_def empty_provider profile0
      on_provider_def X0_def serialized_def store_at_def)

lemma leaves_at_2:
  "leaf_index (local_leaf l) = lf_index l" "credential_identity (local_leaf l) = lf_identity l"
  "signature_public_key (local_leaf l) = lf_signature_key l"
  by (simp_all add: local_leaf_def)

lemma delta0: "validate_delta sha0 (roster_at 1) (roster_at 2) (local_leaf old_leaf0) (local_leaf new_leaf0) = Inr ()"
proof -
  have m: "members_at 1 = [stays0, old_leaf0]" "members_at 2 = [stays0, new_leaf0]"
    by (simp_all add: members_at_def)
  have n: "local_leaf stays0 \<noteq> local_leaf old_leaf0" "local_leaf stays0 \<noteq> local_leaf new_leaf0"
    "local_leaf new_leaf0 \<noteq> local_leaf old_leaf0"
    by (simp_all add: local_leaf_def stays0_def old_leaf0_def new_leaf0_def public0_def)
  have ok: "resync_leaf_ok (local_leaf old_leaf0)" "resync_leaf_ok (local_leaf new_leaf0)"
    using leaves0_ok by (simp_all add: public_leaves_ok_def local_leaf_ok)
  have r: "replacement_authorised (map local_leaf (members_at 1)) (local_leaf old_leaf0) identity0 public0"
    by (simp add: replacement_authorised_def m leaves_at_2 stays0_def old_leaf0_def identity0_def public0_def)
  have d: "roster_digest sha0 gid0 2 (map local_leaf (members_at 2)) = Inr (digest_sha256 (roster_at 2))"
    using roster_at_ok [of 2] by (simp add: resync_roster_ok_def)
  have i: "credential_identity (local_leaf new_leaf0) = identity0" "signature_public_key (local_leaf new_leaf0) = public0"
    by (simp_all add: leaves_at_2 new_leaf0_def)
  show ?thesis
    using r d canonical_at [of 2] n n(1,2) [symmetric] n(3) [symmetric]
    by (simp add: validate_delta_def leaf_bounds_Inr_iff [THEN iffD2, OF ok(1), of "()"]
        leaf_bounds_Inr_iff [THEN iffD2, OF ok(2), of "()"] i m u64_checked_succ_def)
qed

lemma delta0_authorised:
  "replacement_authorised (leaves (roster_at 1)) (local_leaf old_leaf0) identity0 public0"
  by (simp add: replacement_authorised_def members_at_def leaves_at_2 stays0_def old_leaf0_def identity0_def public0_def)

definition candidate0 :: Candidate where
  "candidate0 = \<lparr>ca_candidate_id = [2], ca_incarnation_id = [1], ca_transition = transition0,
     ca_lifecycle = replicate 32 0, ca_retention = 2, ca_proof = successor0, ca_previous = roster_at 1,
     ca_resulting = roster_at 2, ca_private_digest = fst (rows_at 2), ca_rows = snd (rows_at 2)\<rparr>"

definition binding0 :: MlsExternalCommitBindingV1 where
  "binding0 = \<lparr>eb_candidate_id = [2], eb_incarnation_id = [1], eb_transition = transition0,
     eb_previous_state = expected (roster_at 1), eb_old_leaf = local_leaf old_leaf0,
     eb_author = local_leaf new_leaf0, eb_input_group_info_sha256 = sha0 (group_info0 0),
     eb_commit_sha256 = sha0 commit0, eb_aad_sha256 = sha0 aad0,
     eb_resulting_group_info_sha256 = sha0 (group_info0 1)\<rparr>"

lemma candidate_binding0: "candidate_binding sha0 candidate0 = Inr binding0"
  by (simp add: candidate_binding_def candidate0_def successor0_def snapshot0_def binding0_def members_at_def
      leaves_at_2 ok_or_def)
    (simp add: stays0_def new_leaf0_def identity0_def public0_def)

lemma lengths_wire0: "length (group_info0 x) \<le> 1024" "length commit0 \<le> 1024"
  by (simp_all add: group_info0_def commit0_def tls_small tls_medium tls_tree0_length tls_leaf0_length gid0_length)

lemma leaf_lengths0:
  "length (lf_identity stays0) = 45" "length (lf_signature_key stays0) = 32"
  "length (lf_identity old_leaf0) = 45" "length (lf_signature_key old_leaf0) = 32"
  by (simp_all add: stays0_def old_leaf0_def)

lemma payload0: "length (payload C0 (RqSuccessor successor0)) \<le> 10000"
  using lengths_wire0(1) [of 0] lengths_wire0(1) [of 1] lengths_wire0(2) leaf_lengths0
  by (simp add: put_successor_request_def put_snapshot_request_def put_state_def put_leaf_def successor0_def
      snapshot0_def state0_def)

lemma put_rows_length:
  assumes "small n (map (\<lambda>r. (entry_key r, entry_value r)) rows)"
  shows "length (concat (map (put_entry C0) rows)) \<le> length rows * 60000"
  using assms
proof (induction rows)
  case (Cons r rows)
  then have "length (entry_key r) \<le> 1000" "length (entry_value r) \<le> 50000"
    and "length (concat (map (put_entry C0) rows)) \<le> length rows * 60000"
    by (auto simp: small_def)
  then show ?case unfolding list.map concat.simps length_append by (simp add: put_entry_def [of C0 r])
qed simp

lemma encode_candidate0: "\<exists>b. candidate_encode C0 candidate0 = Inr b"
proof -
  obtain L where "load sha0 C0 E0 (M1 1) (context_at 2) = Inr L" by (rule load_at)
  then have rb: "rows_bounded (snd (rows_at 2))"
    by (simp add: load_Inr_iff [OF cbor_ok_C0] opened_def context_at_def)
  obtain p where p: "encode_request C0 (RqSuccessor successor0) = Inr p" "length p \<le> 20000"
    using payload0 by (auto simp: encode_request_def Let_def REQUEST_MAX_BYTES_def HEADER_def frame_length)
  have rs: "length (put_roster C0 (roster_at e)) \<le> 1000" for e
    using leaves_at_length [of e] by (simp add: put_roster_def gid0_length)
  have "length (snd (rows_at 2)) \<le> 2" using rows_at_small [of 2] by (simp add: small_def)
  then have "length (concat (map (put_entry C0) (snd (rows_at 2)))) \<le> 120000"
    using put_rows_length [OF rows_at_small [of 2]] by simp
  moreover have "length (fst (rows_at 2)) = 32"
    using \<open>load _ _ _ _ _ = _\<close> by (simp add: load_Inr_iff [OF cbor_ok_C0] opened_def context_at_def)
  ultimately have "length (put_candidate C0 p candidate0) \<le> MAX_BYTES"
    using p(2) rs [of 1] rs [of 2]
    by (simp add: put_candidate_def candidate0_def transition0_def MAX_BYTES_def)
  then show ?thesis
    using rb p(1) by (intro exI [of _ "put_candidate C0 p candidate0"])
      (simp add: candidate_encode_Inr_iff, simp add: candidate0_def)
qed

lemma external_prepare0: "\<exists>r. external_prepare sha0 C0 E0 (M1 1) P0 X0 (\<lambda>_. 0) preparation0 [1] = Inr r"
proof -
  obtain b where b: "candidate_encode C0 candidate0 = Inr b" using encode_candidate0 by blast
  have pb: "preparation_bounds preparation0 [1] = Inr ()"
    by (simp add: preparation_bounds_def preparation0_def external_id_def fixed32_def transition0_def bounded_aad_def
        aad0_def validate_retention_def identity0_def public0_def)
  have vs: "validate_snapshot sha0 (M1 1) P0 0 snapshot0 = Inr (verified0 1 0 [stays0, old_leaf0] stays0)"
    by (simp add: validate_snapshot_def catch_unwind_def snapshot_inner0)
  have vx: "validate_external_successor sha0 (M1 1) P0 (\<lambda>_. 0) successor0 = Inr \<lparr>vc_previous = verified0 1 0 [stays0, old_leaf0] stays0,
     vc_commit_sha256 = sha0 commit0, vc_aad_sha256 = sha0 aad0,
     vc_resulting = verified0 2 1 [stays0, new_leaf0] new_leaf0\<rparr>"
    by (simp add: validate_external_successor_def catch_unwind_def successor_inner0)
  have r1: "local_roster (vs_roster (verified0 1 0 [stays0, old_leaf0] stays0)) = roster_at 1"
    and r2: "local_roster (vs_roster (verified0 2 1 [stays0, new_leaf0] new_leaf0)) = roster_at 2"
    and a: "vs_signer (verified0 2 1 [stays0, new_leaf0] new_leaf0) = new_leaf0"
    by (simp_all add: roster_at_def public_at_def verified0_def members_at_def)
  have old: "leaf_bounds (local_leaf old_leaf0) = Inr ()"
    using leaves0_ok by (simp add: leaf_bounds_Inr_iff local_leaf_ok public_leaves_ok_def)
  have g: "roster_from_group sha0 (M1 1) (group_at 2) = Inr (roster_at 2)"
    using roster_M1 [of "group_at 2"] by (simp add: group_at_def)
  have p: "ep_authorized_old_leaf preparation0 = local_leaf old_leaf0"
    "ep_authorized_new_credential_identity preparation0 = identity0"
    "ep_authorized_new_signature_public_key preparation0 = public0"
    "ep_incarnation_id preparation0 = [1]" "ep_retention preparation0 = 2" "ep_candidate_id preparation0 = [2]"
    "ep_transition preparation0 = transition0" "ep_local_lifecycle_context_sha256 preparation0 = replicate 32 0"
    by (simp_all add: preparation0_def)
  have i: "leaf_index (local_leaf new_leaf0) = 1" "\<not> tg_pending (group_at 2)"
    by (simp_all add: local_leaf_def new_leaf0_def group_at_def)
  have rw: "candidate_rows sha0 C0 [1] 2 (roster_at 2) (store_at 2) = Inr (fst (rows_at 2), snd (rows_at 2))"
    using rows_at [of 2] by simp
  obtain info where info: "candidate_info sha0 candidate0 (sha0 b) = Inr info"
    by (simp add: candidate_info_def candidate_binding0)
  show ?thesis
    using b info
    by (simp add: external_prepare_def pb preparation_base0 preparation_proof0 vs vx r1 r2 a old p
        delta0_authorised build0 g delta0 i rw Let_def candidate0_def split_beta del: roster_at_sel)
qed

text \<open>The member of index 0 receives the Commit.\<close>

definition acceptance1 :: MlsExternalCommitAcceptanceV1 where
  "acceptance1 = \<lparr>ea_binding = binding0, ea_resulting_state = expected (roster_at 2)\<rparr>"

lemma validate_binding0: "validate_binding binding0 = Inr ()"
proof -
  have "leaf_bounds (local_leaf old_leaf0) = Inr ()" "leaf_bounds (local_leaf new_leaf0) = Inr ()"
    using leaves0_ok by (simp_all add: leaf_bounds_Inr_iff local_leaf_ok public_leaves_ok_def)
  then show ?thesis
    by (simp add: validate_binding_def binding0_def external_id_def fixed32_def transition0_def expected_def
        gid0_length)
qed

lemma stage0_external:
  assumes "ld_group L = group_at 1"
  shows "stage_external_commit E0 (M1 0) P0 commit0 aad0 binding0 (roster_at 1) L =
    Inr (commit0, group_at 1, exec_calls E0 [WriteMessageSecrets gid0 commit0] (ld_provider L))"
proof -
  have "toy_message_epoch commit0 = 1" by (simp add: toy_message_epoch_def commit0_def be16_1)
  moreover have "exact_proposals 1 ExternalDeltaMismatch [(True, QueuedExternalInit), (True, QueuedRemove 1)] = Inr ()"
    by (simp add: exact_proposals_iff)
  ultimately show ?thesis
    by (simp add: stage_external_commit_def commit0_accepted mls_message_from_exact_bytes_def ok_or_def Let_def
        assms binding0_def leaves_at_2) (simp add: new_leaf0_def old_leaf0_def group_at_def ok_or_def)
qed

lemma external_receive0:
  "\<exists>r. external_receive sha0 C0 E0 (M1 0) P0 (context_at 1) commit0 aad0 acceptance1 None = Inr r"
proof -
  obtain L where L: "load sha0 C0 E0 (M1 0) (context_at 1) = Inr L" "ld_group L = group_at 1"
    "ld_local L = local_at 1" "small 2 (sp_current (ld_provider L))" "small 2 (sp_initial (ld_provider L))"
    "snapshot_ok (ld_provider L)" by (rule load_at)
  define st where "st = exec_calls E0 (toy_store (group_at 2)) (exec_calls E0 [WriteMessageSecrets gid0 commit0] (ld_provider L))"
  have adv: "advance sha0 (local_at 1) (roster_at 2) = Inr (advanced (local_at 1) (roster_at 2))"
    by (simp add: advance_Inr_iff local_ok_at roster_ok_at) (simp add: local_at_def u64_checked_succ_def)
  then have ok: "local_ok sha0 (advanced (local_at 1) (roster_at 2))"
    by (simp add: advance_Inr_iff advanced_ok)
  have "small 3 (sp_current (exec_calls E0 [WriteMessageSecrets gid0 commit0] (ld_provider L)))"
    unfolding exec_message_secrets
    using small_kv_write [OF L(4), of "MESSAGE_SECRETS_LABEL @ gid0 @ be16 1" commit0] lengths_wire0(2)
    by (simp add: MESSAGE_SECRETS_LABEL_def ascii_def gid0_length)
  from small_kv_write [OF this, of "toy_key gid0" "toy_bytes 2 False"]
  have "small 39 (sp_current st)" by (simp add: st_def exec_toy_store group_at_def small_mono)
  moreover have "small 39 (sp_initial st)" using L(5) by (simp add: st_def small_mono)
  moreover have "snapshot_ok st" using L(6) by (simp add: st_def)
  ultimately obtain m where m: "finish sha0 C0 st (advanced (local_at 1) (roster_at 2)) (roster_at 1) = Inr m"
    using small_finishes [OF cbor_ok_C0 ok _ _ _ encode_at [of _ 1 2]] by blast
  have r: "roster_from_group sha0 (M1 0) (toy_advance (group_at 1)) = Inr (roster_at 2)"
    using roster_M1 [of "toy_advance (group_at 1)"] by (simp add: toy_advance_def group_at_def)
  have ta: "toy_advance (group_at 1) = group_at 2" by (simp add: toy_advance_def group_at_def)
  have b: "eb_commit_sha256 binding0 = sha0 commit0" "eb_aad_sha256 binding0 = sha0 aad0"
    "eb_incarnation_id binding0 = [1]" "eb_previous_state binding0 = expected (roster_at 1)"
    "eb_old_leaf binding0 = local_leaf old_leaf0" "eb_author binding0 = local_leaf new_leaf0"
    by (simp_all add: binding0_def)
  have l: "lg_incarnation_id (local_at 1) = [1]" "lg_current (local_at 1) = roster_at 1" "lg_pending (local_at 1) = None"
    by (simp_all add: local_at_def)
  have c: "check_state (roster_at e) (expected (roster_at e)) f = Inr ()" for e f
    by (simp add: check_state_Inr_iff)
  have "commit0 \<noteq> []" "length commit0 \<le> MAX_MLS_BYTES"
    using lengths_wire0(2) by (simp_all add: commit0_def MAX_MLS_BYTES_def)
  moreover have "bounded_aad aad0 = Inr ()" by (simp add: bounded_aad_def aad0_def)
  moreover have "leaf_index (local_leaf old_leaf0) \<noteq> 0" by (simp add: local_leaf_def old_leaf0_def)
  ultimately show ?thesis
    using adv m r
    by (simp add: external_receive_def acceptance1_def validate_binding0 b L(1,2,3) l c clear_superseded_def
        stage0_external [OF L(2)] on_provider_def delta0 Let_def ta st_def del: roster_at_sel)
qed

text \<open>The new member exports a GroupInfo of the group that it joined.\<close>

lemma no_updates:
  assumes "snapshot_ok st" "sp_initial st = sp_current st"
  shows "up_upserts (into_updates st) = [] \<and> up_deletes (into_updates st) = []"
proof -
  have "map_of (sp_current st) k = Some v" if "(k, v) \<in> set (sp_current st)" for k v
    using assms(1) that by (simp add: snapshot_ok_def rows_ok_def)
  moreover have "map_of (sp_current st) k \<noteq> None" if "k \<in> fst ` set (sp_current st)" for k
    using that by (simp add: map_of_eq_None_iff)
  ultimately show ?thesis
    using assms(2) by (auto simp: into_updates_def filter_empty_conv)
qed

lemma export0:
  "\<exists>r. export_group_info sha0 C0 E0 (M1 1) P0 X0 0 (context_at 2) [1] (local_leaf new_leaf0) = Inr r"
proof -
  obtain L where L: "load sha0 C0 E0 (M1 1) (context_at 2) = Inr L" "ld_group L = group_at 2"
    "ld_local L = local_at 2" "small 2 (sp_current (ld_provider L))" "small 2 (sp_initial (ld_provider L))"
    "snapshot_ok (ld_provider L)" by (rule load_at)
  have "provider_from_entries (snd (rows_at 2)) 1 (Some gid0) = Inr (ld_provider L)"
    using L(1) by (simp add: load_Inr_iff [OF cbor_ok_C0] opened_def context_at_def)
  from row_of_opened(2,3) [OF this] have up: "up_upserts (into_updates (ld_provider L)) = []"
    "up_deletes (into_updates (ld_provider L)) = []" by (simp_all add: no_updates)
  have ms: "members_at 2 = [stays0, new_leaf0]" by (simp add: members_at_def)
  have rq: "export_request (group_info0 1) (sha0 (group_info0 1)) (roster_at 2) (local_leaf new_leaf0) =
      \<lparr>sq_profile = 2, sq_group_info = group_info0 1, sq_sha256 = sha0 (group_info0 1),
       sq_expected = state0 2 [stays0, new_leaf0], sq_expected_signer = new_leaf0\<rparr>"
    by (simp add: export_request_def RS_PROFILE_def)
      (simp add: roster_at_def local_roster_def public_at_def state0_def members_at_def)
  have nl: "validate_public_leaf new_leaf0 = Inr ()"
    using leaves0_ok(2) by (simp add: validate_public_leaf_Inr_iff public_leaves_ok_def)
  have vs: "\<exists>v. validate_snapshot sha0 (M1 1) P0 0 (export_request (group_info0 1) (sha0 (group_info0 1))
      (roster_at 2) (local_leaf new_leaf0)) = Inr v"
    unfolding rq
    by (simp add: validate_snapshot_def catch_unwind_def snapshot_inner_def load_public0 [OF wire0_M1] nl RS_PROFILE_def
        expected_public_def verified0_def state0_def gid0_length)
  have l: "lg_current (local_at 2) = roster_at 2" "lg_pending (local_at 2) = None"
    by (simp_all add: local_at_def)
  have k: "lf_index stays0 = 0" "lf_index new_leaf0 = 1" "lf_signature_key new_leaf0 = public0"
    by (simp_all add: stays0_def new_leaf0_def)
  have es: "ensure_local_signer (M1 1) (group_at 2) \<lparr>ss_private = [1], ss_public = public0, ss_scheme = 2055\<rparr> = Inr ()"
    by (simp add: ensure_local_signer_def ensure_signer_public_key_def group_at_def ms k ok_or_def)
  show ?thesis
    using vs
    by (auto simp: export_group_info_def L(1,2,3) l Let_def signer1 es ok_or_def ms leaves_at_2 k X0_def
        serialized_def up)
qed

end
