(* ===== verification/ExternalProperties.thy ===== *)
theory ExternalProperties
  imports ExternalInstance
begin

text \<open>
  The properties of the member side of the external resynchronisation: the candidate's codec, the
  way from a preparation to a promoted group, and what receiving an external Commit and exporting a
  GroupInfo guarantee.
\<close>

text \<open>
  C21: Reading a candidate is exact. The reader accepts an input exactly when it has the expected
  32-byte hash, is the encoding of a well-formed candidate (identifiers, digests, rosters, rows in
  strict key order and within their bounds), and the candidate passes its own validation: a valid
  binding, the hashes of its proof, the authorised delta, and rows that open as an active group
  without a pending Commit whose own leaf is the author.
\<close>

theorem candidate_reading_is_exact:
  assumes "cbor_ok C"
  shows "read_candidate sha C E M input h = Inr c \<longleftrightarrow>
    length h = 32 \<and> sha input = h \<and> candidate_ok sha c \<and> candidate_encode C c = Inr input \<and>
    validate_candidate sha C E M c = Inr ()"
  by (rule read_candidate_iff [OF assms])

theorem candidate_reading_is_exact_witness:
  "\<exists>input c. candidate_encode C0 c = Inr input \<and> read_candidate sha0 C0 E0 (M1 1) input (sha0 input) = Inr c"
proof -
  obtain r where r: "external_prepare sha0 C0 E0 (M1 1) P0 X0 (\<lambda>_. 0) preparation0 [1] = Inr r"
    using external_prepare0 by blast
  obtain c where "read_candidate sha0 C0 E0 (M1 1) (pe_candidate_bytes r) (sha0 (pe_candidate_bytes r)) = Inr c"
    by (rule prepare_reads_back [OF cbor_ok_C0 external_ok0 r])
  then show ?thesis by (auto simp: candidate_reading_is_exact [OF cbor_ok_C0])
qed

text \<open>
  C19: A prepared candidate can always be used. Inspecting its bytes under their hash returns the
  information of the preparation, and the acceptance that names its binding and resulting state
  promotes it into a target of the same group, incarnation and lifecycle that holds no row.
\<close>

theorem prepared_candidate_is_promoted:
  assumes "cbor_ok C" "external_ok sha E M P X"
    and "external_prepare sha C E M P X now i signer = Inr r"
  shows "external_inspect sha C E M (pe_candidate_bytes r) (sha (pe_candidate_bytes r)) = Inr (pe_info r) \<and>
    (\<exists>a. external_accept sha C E M
      \<lparr>et_group_id = group_id (ci_proposed_resulting_roster (pe_info r)),
       et_incarnation_id = eb_incarnation_id (ci_binding (pe_info r)),
       et_local_lifecycle_context_sha256 = ci_local_lifecycle_context_sha256 (pe_info r),
       et_storage_entries = [], et_storage_format_version = 1\<rparr>
      (pe_candidate_bytes r) (sha (pe_candidate_bytes r))
      \<lparr>ea_binding = ci_binding (pe_info r),
       ea_resulting_state = expected (ci_proposed_resulting_roster (pe_info r))\<rparr> = Inr a)"
proof -
  obtain c b where c: "read_candidate sha C E M (pe_candidate_bytes r) (sha (pe_candidate_bytes r)) = Inr c"
    "candidate_info sha c (sha (pe_candidate_bytes r)) = Inr (pe_info r)" "candidate_binding sha c = Inr b"
    "validate_binding b = Inr ()"
    by (rule prepare_reads_back [OF assms])
  have "Inr (pe_info r) = candidate_info sha c (sha (pe_candidate_bytes r))" using c(2) ..
  then have i: "ci_binding (pe_info r) = b" "ci_proposed_resulting_roster (pe_info r) = ca_resulting c"
    "ci_local_lifecycle_context_sha256 (pe_info r) = ca_lifecycle c"
    using c(3) by (simp_all add: candidate_info_def)
  moreover have "eb_incarnation_id b = ca_incarnation_id c"
    using c(3) by (auto simp: candidate_binding_def bindE_Inr_iff)
  ultimately show ?thesis
    using c accept_into_empty [OF assms(1) c(1,3,4)] by (simp add: external_inspect_def empty_target_def)
qed

theorem prepared_candidate_is_promoted_witness:
  "\<exists>r a. external_prepare sha0 C0 E0 (M1 1) P0 X0 (\<lambda>_. 0) preparation0 [1] = Inr r \<and>
    external_inspect sha0 C0 E0 (M1 1) (pe_candidate_bytes r) (sha0 (pe_candidate_bytes r)) = Inr (pe_info r) \<and>
    external_accept sha0 C0 E0 (M1 1)
      \<lparr>et_group_id = group_id (ci_proposed_resulting_roster (pe_info r)),
       et_incarnation_id = eb_incarnation_id (ci_binding (pe_info r)),
       et_local_lifecycle_context_sha256 = ci_local_lifecycle_context_sha256 (pe_info r),
       et_storage_entries = [], et_storage_format_version = 1\<rparr>
      (pe_candidate_bytes r) (sha0 (pe_candidate_bytes r))
      \<lparr>ea_binding = ci_binding (pe_info r),
       ea_resulting_state = expected (ci_proposed_resulting_roster (pe_info r))\<rparr> = Inr a"
proof -
  obtain r where r: "external_prepare sha0 C0 E0 (M1 1) P0 X0 (\<lambda>_. 0) preparation0 [1] = Inr r"
    using external_prepare0 by blast
  from prepared_candidate_is_promoted [OF cbor_ok_C0 external_ok0 r] r show ?thesis by blast
qed

text \<open>
  C18: Accepting a candidate promotes exactly that candidate. The acceptance carries its binding and
  its resulting state; applying the returned batch to the target leaves the candidate's rows and the
  global rows that were there; and the next operation opens them as an active group at the accepted
  state whose local state is a fresh one: it joined at that epoch, without history and without a
  pending Commit.
\<close>

theorem accepted_candidate_opens:
  assumes "cbor_ok C" "load_frame M" "external_accept sha C E M T b h acc = Inr r"
  shows "\<exists>c L. read_candidate sha C E M b h = Inr c \<and> candidate_binding sha c = Inr (ea_binding acc) \<and>
      set (apply_batch (ae_storage_batch r) (et_storage_entries T)) = set (ca_rows c) \<union> set (et_storage_entries T) \<and>
      load sha C E M (promoted_context T r) = Inr L \<and> om_is_active M (ld_group L) \<and>
      expected (lg_current (ld_local L)) = ea_resulting_state acc \<and>
      new_state sha (et_incarnation_id T) (ae_effective_retention r) (lg_current (ld_local L)) = Inr (ld_local L)"
proof -
  obtain c st where c: "read_candidate sha C E M b h = Inr c" "candidate_binding sha c = Inr (ea_binding acc)"
    "ea_resulting_state acc = expected (ca_resulting c)" "et_incarnation_id T = ca_incarnation_id c"
    "ae_effective_retention r = ca_retention c"
    by (rule external_accept_Inr [OF assms(3)])
  from accept_promotes [OF assms c(1)] c show ?thesis by auto
qed

theorem accepted_candidate_opens_witness:
  "\<exists>T b h acc r L. external_accept sha0 C0 E0 (M1 1) T b h acc = Inr r \<and>
    load sha0 C0 E0 (M1 1) (promoted_context T r) = Inr L \<and> expected (lg_current (ld_local L)) = ea_resulting_state acc"
proof -
  obtain r where r: "external_prepare sha0 C0 E0 (M1 1) P0 X0 (\<lambda>_. 0) preparation0 [1] = Inr r"
    using external_prepare0 by blast
  obtain c b where c: "read_candidate sha0 C0 E0 (M1 1) (pe_candidate_bytes r) (sha0 (pe_candidate_bytes r)) = Inr c"
    "candidate_binding sha0 c = Inr b" "validate_binding b = Inr ()"
    by (rule prepare_reads_back [OF cbor_ok_C0 external_ok0 r])
  obtain a where a: "external_accept sha0 C0 E0 (M1 1) (empty_target c) (pe_candidate_bytes r) (sha0 (pe_candidate_bytes r))
      \<lparr>ea_binding = b, ea_resulting_state = expected (ca_resulting c)\<rparr> = Inr a"
    using accept_into_empty [OF cbor_ok_C0 c] by blast
  have "load_frame (M1 1)" using external_ok0 [of 1] by (simp add: external_ok_def)
  from accepted_candidate_opens [OF cbor_ok_C0 this a] a show ?thesis by blast
qed

text \<open>
  C20: A member accepts an external Commit only if everything about it was authorised. The wire has
  the grammar of the profile and the hashes of the binding; the open group is of the binding's
  incarnation and previous state and the replaced leaf is not the member's own; the pending Commit,
  if there is one, is the one that the caller names as superseded; OpenMLS authenticated the Commit
  as a new member's, with the author's identity and key and exactly the two proposals that replace
  the old leaf; and the resulting roster, at the accepted state, is the previous one with that leaf
  replaced by the author's. What is saved is the advanced local state without a pending Commit.
\<close>

theorem external_commit_is_authorised:
  assumes "cbor_ok C" "external_receive sha C E M P cx w aad acceptance superseded = Inr r"
  shows "\<exists>L L' staged g calls m. opened sha C E M cx L \<and>
    sha w = eb_commit_sha256 (ea_binding acceptance) \<and> sha aad = eb_aad_sha256 (ea_binding acceptance) \<and>
    w \<in> external_commit_shape \<and>
    lg_incarnation_id (ld_local L) = eb_incarnation_id (ea_binding acceptance) \<and>
    expected (lg_current (ld_local L)) = eb_previous_state (ea_binding acceptance) \<and>
    leaf_index (eb_old_leaf (ea_binding acceptance)) \<noteq> om_own_leaf_index M (ld_group L) \<and>
    map_option binding (lg_pending (ld_local L)) = superseded \<and>
    clear_superseded E M (superseded \<noteq> None) L = Inr L' \<and>
    member_commit_authenticated M P w aad (ea_binding acceptance) (lg_current (ld_local L))
      (ld_group L') (ld_provider L') staged g calls \<and>
    external_delta sha (lg_current (ld_local L)) (xr_resulting_roster r)
      (eb_old_leaf (ea_binding acceptance)) (eb_author (ea_binding acceptance)) \<and>
    expected (xr_resulting_roster r) = ea_resulting_state acceptance \<and>
    xr_storage_batch r = mu_batch m \<and>
    committed sha C (cx_entries cx) (advanced (ld_local L) (xr_resulting_roster r)) m"
proof (rule external_receive_Inr [OF assms])
  fix L L' staged g calls g' calls' m
  assume "opened sha C E M cx L" "sha w = eb_commit_sha256 (ea_binding acceptance)"
    "sha aad = eb_aad_sha256 (ea_binding acceptance)" "w \<in> external_commit_shape"
    "lg_incarnation_id (ld_local L) = eb_incarnation_id (ea_binding acceptance)"
    "eb_previous_state (ea_binding acceptance) = expected (lg_current (ld_local L))"
    "leaf_index (eb_old_leaf (ea_binding acceptance)) \<noteq> om_own_leaf_index M (ld_group L)"
    "map_option binding (lg_pending (ld_local L)) = superseded"
    "clear_superseded E M (superseded \<noteq> None) L = Inr L'"
    "member_commit_authenticated M P w aad (ea_binding acceptance) (lg_current (ld_local L))
       (ld_group L') (ld_provider L') staged g calls"
    "external_delta sha (lg_current (ld_local L)) (xr_resulting_roster r)
       (eb_old_leaf (ea_binding acceptance)) (eb_author (ea_binding acceptance))"
    "expected (xr_resulting_roster r) = ea_resulting_state acceptance" "xr_storage_batch r = mu_batch m"
    "committed sha C (cx_entries cx) (advanced (ld_local L) (xr_resulting_roster r)) m"
  then show ?thesis by (intro exI [of _ L] exI [of _ L'] exI [of _ staged] exI [of _ g] exI [of _ calls]
      exI [of _ m] conjI) simp_all
qed

theorem external_commit_is_authorised_witness:
  "\<exists>r L. external_receive sha0 C0 E0 (M1 0) P0 (context_at 1) commit0 aad0 acceptance1 None = Inr r \<and>
    opened sha0 C0 E0 (M1 0) (context_at 1) L \<and>
    external_delta sha0 (lg_current (ld_local L)) (xr_resulting_roster r) (local_leaf old_leaf0) (local_leaf new_leaf0)"
proof -
  obtain r where r: "external_receive sha0 C0 E0 (M1 0) P0 (context_at 1) commit0 aad0 acceptance1 None = Inr r"
    using external_receive0 by blast
  have "eb_old_leaf (ea_binding acceptance1) = local_leaf old_leaf0" "eb_author (ea_binding acceptance1) = local_leaf new_leaf0"
    by (simp_all add: acceptance1_def binding0_def)
  with external_commit_is_authorised [OF cbor_ok_C0 r] r show ?thesis by auto
qed

text \<open>
  C22: An exported GroupInfo describes the open group. The member is active and has no pending
  Commit, the leaf it signs for is its own and the one the caller expects, and the bytes pass the
  public validator as the current state of the group, so that another device can prepare an
  external Commit from them.
\<close>

theorem exported_group_info_is_current:
  assumes "cbor_ok C" "export_group_info sha C E M P X t cx signer leaf = Inr r"
  shows "\<exists>L v. opened sha C E M cx L \<and> om_is_active M (ld_group L) \<and> lg_pending (ld_local L) = None \<and>
    leaf \<in> set (leaves (lg_current (ld_local L))) \<and> leaf_index leaf = om_own_leaf_index M (ld_group L) \<and>
    eg_group_info_sha256 r = sha (eg_group_info r) \<and> eg_current_roster r = lg_current (ld_local L) \<and>
    eg_base_group_state_sha256 r = cx_expected_base_sha256 cx \<and>
    validate_snapshot sha M P t (export_request (eg_group_info r) (sha (eg_group_info r))
       (lg_current (ld_local L)) leaf) = Inr v"
  by (rule export_group_info_Inr [OF assms]) blast

theorem exported_group_info_is_current_witness:
  "\<exists>r L. export_group_info sha0 C0 E0 (M1 1) P0 X0 0 (context_at 2) [1] (local_leaf new_leaf0) = Inr r \<and>
    opened sha0 C0 E0 (M1 1) (context_at 2) L \<and> eg_current_roster r = lg_current (ld_local L)"
proof -
  obtain r where r: "export_group_info sha0 C0 E0 (M1 1) P0 X0 0 (context_at 2) [1] (local_leaf new_leaf0) = Inr r"
    using export0 by blast
  from exported_group_info_is_current [OF cbor_ok_C0 r] r show ?thesis by blast
qed

end
