(* ===== verification/StateProperties.thy ===== *)
theory StateProperties
  imports Runs
begin

text \<open>
  Properties of the local group state (\<open>rust/src/local_group_state.rs\<close>): its invariant under
  \<open>advance\<close>, its history as a window of the log of all rosters, the lookup of the roster that a
  message was sent in, and the canonical encoding of the metadata row with its retry rows. Each
  property is followed by its instance on the one-member group of theory \<open>Runs\<close>.
\<close>

section \<open>The invariant and the history\<close>

text \<open>
  C14: The stored history refines the log: starting from a fresh state and advancing through any
  sequence of rosters, the current roster is the last of the log and the history is exactly the
  \<open>retention\<close> rosters before it, in order.
\<close>

theorem history_is_the_window_of_the_log:
  assumes "new_state sha incarnation retention r = Inr s" "advance_all sha s rs = Inr s'"
  shows "lg_current s' = last (r # rs) \<and>
    lg_history s' = take_last (unat retention) (butlast (r # rs))"
proof -
  have "log_abs s' ([r] @ rs)"
    by (rule log_abs_advance_all [OF assms(2) log_abs_new [OF assms(1)]])
  moreover have "lg_retention s' = lg_retention s" if "advance_all sha s rs = Inr s'" for s rs
    using that
    by (induction rs arbitrary: s) (auto simp: bindE_Inr_iff advance_Inr_iff advanced_def)
  ultimately show ?thesis
    using assms by (simp add: log_abs_def new_state_Inr_iff)
qed

theorem history_is_the_window_of_the_log_witness:
  "\<exists>s'. advance_all sha0 (fresh0 0) [roster0 1, roster0 2, roster0 3] = Inr s' \<and>
    lg_history s' = [roster0 1, roster0 2]"
proof -
  define t1 where "t1 = advanced (fresh0 0) (roster0 1)"
  define t2 where "t2 = advanced t1 (roster0 2)"
  define t3 where "t3 = advanced t2 (roster0 3)"
  have step: "advance sha0 s (roster0 (e + 1)) = Inr (advanced s (roster0 (e + 1)))"
    if "local_ok sha0 s" "lg_group_id s = gid0" "lg_current s = roster0 e" "unat e < 10" for s e
    using that by (auto simp: advance_Inr_iff roster_ok0 u64_checked_succ_Some_iff unat_word_ariths)
  have a1: "advance sha0 (fresh0 0) (roster0 1) = Inr t1"
    using step [of "fresh0 0" 0] local_ok_fresh0 by (simp add: t1_def fresh0_def)
  have a2: "advance sha0 t1 (roster0 2) = Inr t2"
    using step [of t1 1] a1 advanced_ok unfolding advance_Inr_iff
    by (auto simp: t2_def) (auto simp: t1_def fresh0_def advanced_def)
  have a3: "advance sha0 t2 (roster0 3) = Inr t3"
    using step [of t2 2] a2 advanced_ok unfolding advance_Inr_iff
    by (auto simp: t3_def) (auto simp: t1_def t2_def fresh0_def advanced_def)
  have "advance_all sha0 (fresh0 0) [roster0 1, roster0 2, roster0 3] = Inr t3"
    by (simp add: a1 a2 a3)
  with history_is_the_window_of_the_log [OF new_state0 this] show ?thesis
    by (simp add: take_last_def)
qed

section \<open>The metadata row\<close>

text \<open>C12: What \<open>encode\<close> writes, \<open>decode\<close> reads back unchanged.\<close>

theorem decode_reads_back_encode:
  assumes "cbor_ok C" "encode sha C s = Inr b"
  shows "decode sha C b = Inr s"
  by (rule decode_encode [OF assms])

theorem decode_reads_back_encode_witness:
  "decode sha0 C0 (encode_fields C0 (local0 (Some (pending0 base0)))) = Inr (local0 (Some (pending0 base0)))"
proof -
  have "encode sha0 C0 (local0 (Some (pending0 base0))) = Inr (encode_fields C0 (local0 (Some (pending0 base0))))"
    by (simp add: encode_Inr_iff [OF cbor_ok_C0] local_ok0)
  from decode_reads_back_encode [OF cbor_ok_C0 this] show ?thesis .
qed

text \<open>
  C13: The encoding is canonical: whatever bytes \<open>decode\<close> accepts, for any CBOR library, are the
  encoding of the state it returns, so no two byte strings decode to one state, and the state
  is valid.
\<close>

theorem decode_accepts_only_the_canonical_encoding:
  assumes "decode sha C b = Inr s"
  shows "validate sha s = Inr () \<and> encode sha C s = Inr b"
  using decode_canonical [OF assms] by (simp add: validate_code)

theorem decode_accepts_only_the_canonical_encoding_witness:
  "encode sha0 C0 (local0 None) = Inr (encode_fields C0 (local0 None)) \<and>
    validate sha0 (local0 None) = Inr ()"
proof -
  have "encode sha0 C0 (local0 None) = Inr (encode_fields C0 (local0 None))"
    by (simp add: encode_Inr_iff [OF cbor_ok_C0] local_ok0)
  from decode_encode [OF cbor_ok_C0 this]
  show ?thesis using decode_accepts_only_the_canonical_encoding by blast
qed

end
