(* ===== verification/ProposalQueue.thy ===== *)
theory ProposalQueue
  imports ProviderLaws
begin

text \<open>
  The proposal queue of the storage provider refines a list of (reference, proposal) pairs
  per group. The concrete queue is spread over a row of encoded references
  (\<open>ProposalQueueRefs\<close>) and one row per proposal (\<open>QueuedProposal\<close>, under the pair of the
  group and the reference); \<open>queue_abs\<close> is the simulation relation.
\<close>

definition find_proposal ::
  "'v storage_env \<Rightarrow> 'v \<Rightarrow> 'v \<Rightarrow> snapshot \<Rightarrow> SnapshotStorageError + 'v option" where
  "find_proposal E gid r s = bindE (composite_key E gid r) (\<lambda>ck. read_val E QUEUED_PROPOSAL_LABEL ck s)"

definition queue_abs :: "'v storage_env \<Rightarrow> 'v \<Rightarrow> snapshot \<Rightarrow> ('v \<times> 'v) list \<Rightarrow> bool" where
  "queue_abs E gid s q \<longleftrightarrow>
     distinct (map fst q) \<and>
     (\<exists>raw. raw_items E PROPOSAL_QUEUE_REFS_LABEL gid s = Inr raw \<and>
        map (\<lambda>rp. to_vec E (fst rp)) q = map Some raw) \<and>
     (\<forall>r p. (r, p) \<in> set q \<longrightarrow> find_proposal E gid r s = Inr (Some p))"

lemma serde_ok_pair:
  assumes "serde_ok E"
  shows "to_value E a = Some x \<Longrightarrow> to_value E b = Some x \<Longrightarrow> a = b"
    and "pair_value E a b = pair_value E c d \<longleftrightarrow> a = c \<and> b = d"
  using assms unfolding serde_ok_def by blast+

lemma composite_key_inj:
  "serde_ok E \<Longrightarrow> composite_key E g r = Inr ck \<Longrightarrow> composite_key E g' r' = Inr ck \<Longrightarrow> g = g' \<and> r = r'"
  by (auto simp: composite_key_def result_simps serde_ok_pair(2) dest: serde_ok_pair(1))

text \<open>Looking a proposal up after another row changed.\<close>

lemma find_proposal_after_write:
  assumes "serde_ok E" "composite_key E g r = Inr ck"
    and "write_val E QUEUED_PROPOSAL_LABEL ck p s = (Inr (), t)"
  shows "find_proposal E g' r' t = (if g' = g \<and> r' = r then Inr (Some p) else find_proposal E g' r' s)"
  using assms composite_key_inj [OF assms(1)]
  by (cases "composite_key E g' r'")
    (auto simp: find_proposal_def read_val_after_write [OF assms(1) _ _ assms(3)])

lemma find_proposal_after_delete:
  assumes "serde_ok E" "composite_key E g r = Inr ck"
    and "delete_val E QUEUED_PROPOSAL_LABEL ck s = (Inr (), t)"
  shows "find_proposal E g' r' t = (if g' = g \<and> r' = r then Inr None else find_proposal E g' r' s)"
  using assms composite_key_inj [OF assms(1)]
  by (cases "composite_key E g' r'")
    (auto simp: find_proposal_def read_val_after_delete [OF assms(1) _ _ assms(3)])

lemma find_proposal_refs_row:
  assumes "serde_ok E" "to_vec E k = Some kb"
  shows "find_proposal E g r (kv_write (build_key E PROPOSAL_QUEUE_REFS_LABEL kb) b s) = find_proposal E g r s"
    and "find_proposal E g r (kv_delete (build_key E PROPOSAL_QUEUE_REFS_LABEL kb) s) = find_proposal E g r s"
  by (auto simp: find_proposal_def bindE_def read_val_kv [OF assms(1) _ _ assms(2)] split: sum.splits)

lemma raw_refs_proposal_row:
  assumes "serde_ok E"
  shows "write_val E QUEUED_PROPOSAL_LABEL ck p s = (Inr u, t) \<Longrightarrow>
      raw_items E PROPOSAL_QUEUE_REFS_LABEL g t = raw_items E PROPOSAL_QUEUE_REFS_LABEL g s"
    and "delete_val E QUEUED_PROPOSAL_LABEL ck s = (Inr u, t) \<Longrightarrow>
      raw_items E PROPOSAL_QUEUE_REFS_LABEL g t = raw_items E PROPOSAL_QUEUE_REFS_LABEL g s"
  by (auto simp: result_simps raw_items_kv [OF assms])

section \<open>Reading the queue\<close>

lemma queue_abs_refs:
  assumes "serde_ok E" "queue_abs E g s q"
  shows "queued_proposal_refs E g s = Inr (map fst q)"
proof -
  from assms(2) obtain raw where raw: "raw_items E PROPOSAL_QUEUE_REFS_LABEL g s = Inr raw"
    "map (\<lambda>rp. to_vec E (fst rp)) q = map Some raw"
    by (auto simp: queue_abs_def)
  from raw(2) have "map (from_slice E) raw = map Some (map fst q)"
    by (induction q arbitrary: raw) (auto simp: serde_okD(1) [OF assms(1)] Cons_eq_map_conv)
  with raw(1) show ?thesis
    by (simp add: queued_proposal_refs_def read_list_Inr_iff)
qed

lemma foldE_found:
  assumes "\<forall>r p. (r, p) \<in> set q \<longrightarrow> find_proposal E g r s = Inr (Some p)"
  shows "foldE (\<lambda>result prop_ref.
       bindE (composite_key E g prop_ref) (\<lambda>ck.
       bindE (read_val E QUEUED_PROPOSAL_LABEL ck s) (\<lambda>found.
       Inr (case found of Some proposal \<Rightarrow> result @ [(prop_ref, proposal)] | None \<Rightarrow> result))))
       acc (map fst q) = Inr (acc @ q)"
  using assms
proof (induction q arbitrary: acc)
  case Nil
  then show ?case by simp
next
  case (Cons rp q)
  obtain r p where rp: "rp = (r, p)" by force
  with Cons.prems obtain ck where "composite_key E g r = Inr ck"
    "read_val E QUEUED_PROPOSAL_LABEL ck s = Inr (Some p)"
    by (auto simp: find_proposal_def result_simps)
  with Cons rp show ?case by simp
qed

lemma queue_abs_proposals:
  assumes "serde_ok E" "queue_abs E g s q"
  shows "queued_proposals E g s = Inr q"
proof -
  from assms(2) have "\<forall>r p. (r, p) \<in> set q \<longrightarrow> find_proposal E g r s = Inr (Some p)"
    by (simp add: queue_abs_def)
  from foldE_found [OF this] queue_abs_refs [OF assms] show ?thesis
    by (simp add: queued_proposals_def queued_proposal_refs_def)
qed

section \<open>The operations\<close>

datatype 'v queue_op = Enqueue 'v 'v 'v | Remove 'v 'v | Clear 'v

fun concrete_op :: "'v storage_env \<Rightarrow> 'v queue_op \<Rightarrow> (snapshot, SnapshotStorageError, unit) eff" where
  "concrete_op E (Enqueue g r p) = queue_proposal E g r p"
| "concrete_op E (Remove g r) = remove_proposal E g r"
| "concrete_op E (Clear g) = clear_proposal_queue E g"

fun abstract_op :: "'v queue_op \<Rightarrow> ('v \<Rightarrow> ('v \<times> 'v) list) \<Rightarrow> ('v \<Rightarrow> ('v \<times> 'v) list)" where
  "abstract_op (Enqueue g r p) A = A(g := A g @ [(r, p)])"
| "abstract_op (Remove g r) A = A(g := filter (\<lambda>x. fst x \<noteq> r) (A g))"
| "abstract_op (Clear g) A = A(g := [])"

text \<open>OpenMLS queues a reference once: it is the hash of the proposal.\<close>

fun fresh_op :: "'v queue_op \<Rightarrow> ('v \<Rightarrow> ('v \<times> 'v) list) \<Rightarrow> bool" where
  "fresh_op (Enqueue g r p) A \<longleftrightarrow> r \<notin> fst ` set (A g)"
| "fresh_op _ A \<longleftrightarrow> True"

lemma enqueue_refines:
  assumes E: "serde_ok E" and A: "\<And>g. queue_abs E g s (A g)"
    and fresh: "r \<notin> fst ` set (A g)" and run: "queue_proposal E g r p s = (Inr (), t)"
  shows "queue_abs E g' t ((A(g := A g @ [(r, p)])) g')"
proof -
  from run obtain ck s1 rb where ck: "composite_key E g r = Inr ck"
    and w: "write_val E QUEUED_PROPOSAL_LABEL ck p s = (Inr (), s1)"
    and rb: "to_vec E r = Some rb"
    and ap: "append_to_list E PROPOSAL_QUEUE_REFS_LABEL g rb s1 = (Inr (), t)"
    by (auto simp: queue_proposal_def result_simps)
  from ap obtain kb items b where kb: "to_vec E g = Some kb"
    and items: "raw_items E PROPOSAL_QUEUE_REFS_LABEL g s1 = Inr items"
    and b: "to_vec E (list_value E (items @ [rb])) = Some b"
    and t: "t = kv_write (build_key E PROPOSAL_QUEUE_REFS_LABEL kb) b s1"
    by (auto simp: append_to_list_Inr_iff)
  have raw: "raw_items E PROPOSAL_QUEUE_REFS_LABEL h t =
      (if h = g then Inr (items @ [rb]) else raw_items E PROPOSAL_QUEUE_REFS_LABEL h s)" for h
    using raw_items_stored [OF E kb b] raw_items_kv(1) [OF E _ _ kb]
      raw_refs_proposal_row(1) [OF E w] t by auto
  have find: "find_proposal E h r' t =
      (if h = g \<and> r' = r then Inr (Some p) else find_proposal E h r' s)" for h r'
    using find_proposal_after_write [OF E ck w] find_proposal_refs_row(1) [OF E kb] t by simp
  from items raw_refs_proposal_row(1) [OF E w]
  have items': "raw_items E PROPOSAL_QUEUE_REFS_LABEL g s = Inr items" by simp
  have notin: "(r, x) \<notin> set (A g)" for x
    using fresh by force
  show ?thesis
    using A [of g'] A [of g] fresh notin rb items' by (auto simp: queue_abs_def raw find)
qed

lemma map_filter_remove1:
  assumes "distinct (map fst q)" "map (\<lambda>x. f (fst x)) q = map Some raw" "f r = Some rb"
    and "\<And>a b c. f a = Some c \<Longrightarrow> f b = Some c \<Longrightarrow> a = b"
  shows "map (\<lambda>x. f (fst x)) (filter (\<lambda>x. fst x \<noteq> r) q) = map Some (remove1 rb raw)"
  using assms(1,2)
proof (induction q arbitrary: raw)
  case Nil
  then show ?case by simp
next
  case (Cons x q)
  then obtain c cs where raw: "raw = c # cs" "f (fst x) = Some c"
    "map (\<lambda>x. f (fst x)) q = map Some cs"
    by (auto simp: Cons_eq_map_conv)
  show ?case
  proof (cases "fst x = r")
    case True
    with Cons.prems(1) have "filter (\<lambda>x. fst x \<noteq> r) q = q"
      by (auto simp: filter_id_conv image_iff)
    with True raw assms(3) show ?thesis by simp
  next
    case False
    with assms(3,4) raw(2) have "c \<noteq> rb" by blast
    with False Cons raw show ?thesis by simp
  qed
qed

lemma remove_refines:
  assumes E: "serde_ok E" and A: "\<And>g. queue_abs E g s (A g)"
    and run: "remove_proposal E g r s = (Inr (), t)"
  shows "queue_abs E g' t ((A(g := filter (\<lambda>x. fst x \<noteq> r) (A g))) g')"
proof -
  from run obtain ck s1 rb where ck: "composite_key E g r = Inr ck"
    and d: "delete_val E QUEUED_PROPOSAL_LABEL ck s = (Inr (), s1)"
    and rb: "to_vec E r = Some rb"
    and rm: "remove_from_list E PROPOSAL_QUEUE_REFS_LABEL g rb s1 = (Inr (), t)"
    by (auto simp: remove_proposal_def result_simps)
  from A [of g] obtain raw where raw: "raw_items E PROPOSAL_QUEUE_REFS_LABEL g s = Inr raw"
    "map (\<lambda>x. to_vec E (fst x)) (A g) = map Some raw" and dist: "distinct (map fst (A g))"
    by (auto simp: queue_abs_def)
  with raw_refs_proposal_row(2) [OF E d]
  have raw1: "raw_items E PROPOSAL_QUEUE_REFS_LABEL g s1 = Inr raw" by simp
  have refs: "raw_items E PROPOSAL_QUEUE_REFS_LABEL h t =
      (if h = g then Inr (remove1 rb raw) else raw_items E PROPOSAL_QUEUE_REFS_LABEL h s)
    \<and> find_proposal E h r' t = find_proposal E h r' s1" for h r'
    using rm raw1
  proof (cases rule: remove_from_list_Inr)
    case 1
    then show ?thesis using raw1 raw_refs_proposal_row(2) [OF E d] by simp
  next
    case (2 kb b)
    then show ?thesis
      using raw_items_stored [OF E 2(1,2)] raw_items_kv(1) [OF E _ _ 2(1)]
        raw_refs_proposal_row(2) [OF E d] find_proposal_refs_row(1) [OF E 2(1)] by auto
  qed
  have find: "find_proposal E h r' t =
      (if h = g \<and> r' = r then Inr None else find_proposal E h r' s)" for h r'
    using find_proposal_after_delete [OF E ck d] refs by simp
  have filtered: "map (\<lambda>x. to_vec E (fst x)) (filter (\<lambda>x. fst x \<noteq> r) (A g)) = map Some (remove1 rb raw)"
    by (rule map_filter_remove1 [where f = "to_vec E", OF dist raw(2) rb to_vec_inj [OF E]])
  have raws: "raw_items E PROPOSAL_QUEUE_REFS_LABEL h t =
      (if h = g then Inr (remove1 rb raw) else raw_items E PROPOSAL_QUEUE_REFS_LABEL h s)" for h
    using refs by blast
  show ?thesis
    using A [of g'] A [of g] filtered
    by (auto simp: queue_abs_def raws find distinct_map_filter)
qed

lemma eachS_delete_refs:
  assumes E: "serde_ok E" and run: "eachS (delete_queued E g) refs s = (Inr (), t)"
  shows "raw_items E PROPOSAL_QUEUE_REFS_LABEL h t = raw_items E PROPOSAL_QUEUE_REFS_LABEL h s
    \<and> (h \<noteq> g \<longrightarrow> find_proposal E h r' t = find_proposal E h r' s)"
  using run
proof (induction refs arbitrary: s)
  case Nil
  then show ?case by simp
next
  case (Cons r refs)
  then obtain s1 where one: "delete_queued E g r s = (Inr (), s1)"
    and rest: "eachS (delete_queued E g) refs s1 = (Inr (), t)"
    by (auto simp only: eachS_Cons_ok)
  from one obtain ck where ck: "composite_key E g r = Inr ck"
    and d: "delete_val E QUEUED_PROPOSAL_LABEL ck s = (Inr (), s1)"
    by (auto simp: delete_queued_def run_bindS_ok_iff)
  from Cons.IH [OF rest] show ?case
    using raw_refs_proposal_row(2) [OF E d] find_proposal_after_delete [OF E ck d] by auto
qed

lemma clear_refines:
  assumes E: "serde_ok E" and A: "\<And>g. queue_abs E g s (A g)"
    and run: "clear_proposal_queue E g s = (Inr (), t)"
  shows "queue_abs E g' t ((A(g := [])) g')"
proof -
  from run obtain refs s1 where each: "eachS (delete_queued E g) refs s = (Inr (), s1)"
    and del: "delete_val E PROPOSAL_QUEUE_REFS_LABEL g s1 = (Inr (), t)"
    by (auto simp: clear_proposal_queue_def run_bindS_ok_iff)
  from del obtain kb where kb: "to_vec E g = Some kb"
    and t: "t = kv_delete (build_key E PROPOSAL_QUEUE_REFS_LABEL kb) s1"
    by (auto simp: result_simps)
  have "raw_items E PROPOSAL_QUEUE_REFS_LABEL g t = Inr []"
    using kb t by (simp add: raw_items_def stored_list_def build_key_serde_def serialize_def row_simps)
  moreover have "h \<noteq> g \<Longrightarrow> raw_items E PROPOSAL_QUEUE_REFS_LABEL h t = raw_items E PROPOSAL_QUEUE_REFS_LABEL h s
      \<and> find_proposal E h r' t = find_proposal E h r' s" for h r'
    using eachS_delete_refs [OF E each] raw_items_kv(2) [OF E _ _ kb]
      find_proposal_refs_row(2) [OF E kb] t by auto
  ultimately show ?thesis
    using A [of g'] by (auto simp: queue_abs_def)
qed

lemma queue_op_refines:
  assumes "serde_ok E" "\<And>g. queue_abs E g s (A g)" "fresh_op c A"
    and "concrete_op E c s = (Inr (), t)"
  shows "queue_abs E g t (abstract_op c A g)"
  using assms
  by (cases c)
    (auto simp del: fun_upd_apply intro: enqueue_refines remove_refines clear_refines)

fun run_concrete :: "'v storage_env \<Rightarrow> 'v queue_op list \<Rightarrow> (snapshot, SnapshotStorageError, unit) eff" where
  "run_concrete E [] = returnS ()"
| "run_concrete E (c # cs) = bindS (concrete_op E c) (\<lambda>_. run_concrete E cs)"

fun run_abstract :: "'v queue_op list \<Rightarrow> ('v \<Rightarrow> ('v \<times> 'v) list) \<Rightarrow> ('v \<Rightarrow> ('v \<times> 'v) list)" where
  "run_abstract [] A = A"
| "run_abstract (c # cs) A = run_abstract cs (abstract_op c A)"

fun fresh_ops :: "'v queue_op list \<Rightarrow> ('v \<Rightarrow> ('v \<times> 'v) list) \<Rightarrow> bool" where
  "fresh_ops [] A \<longleftrightarrow> True"
| "fresh_ops (c # cs) A \<longleftrightarrow> fresh_op c A \<and> fresh_ops cs (abstract_op c A)"

lemma run_refines:
  assumes "serde_ok E" "\<And>g. queue_abs E g s (A g)" "fresh_ops cs A"
    and "run_concrete E cs s = (Inr (), t)"
  shows "queue_abs E g t (run_abstract cs A g)"
  using assms(2-)
proof (induction cs arbitrary: s A)
  case Nil
  then show ?case by simp
next
  case (Cons c cs)
  then obtain s1 where one: "concrete_op E c s = (Inr (), s1)"
    and rest: "run_concrete E cs s1 = (Inr (), t)"
    by (auto simp: result_simps)
  from Cons.prems have "\<And>g. queue_abs E g s1 (abstract_op c A g)"
    using queue_op_refines [OF assms(1) _ _ one] by simp
  with Cons.IH [OF this _ rest] Cons.prems show ?case by simp
qed

lemma queue_abs_empty:
  "to_vec E g = Some kb \<Longrightarrow> queue_abs E g (from_entries []) []"
  by (simp add: queue_abs_def raw_items_def stored_list_def build_key_serde_def serialize_def
      kv_read_def from_entries_def Let_def)

end
