(* ===== verification/StorageProperties.thy ===== *)
theory StorageProperties
  imports Runs DeltaLaws ProposalQueue
begin

text \<open>
  Properties of the storage provider (\<open>rust/src/snapshot_storage.rs\<close>), of the boundary to the
  caller's database (\<open>rust/src/api/storage.rs\<close>) and of the digests and authority checks of
  \<open>rust/src/api/group_e2ee.rs\<close>. The laws of \<open>serde_json\<close> that some of them assume
  (\<open>serde_ok\<close>) hold for the instance \<open>E0\<close>, on which each is evaluated.
\<close>

section \<open>The storage provider\<close>

text \<open>
  C16: The proposal queue refines a finite map from groups to ordered lists of references and
  proposals: after any successful sequence of enqueue, remove and clear operations on an empty
  store, in which no reference is enqueued twice, \<open>queued_proposals\<close> of each group returns
  exactly the abstract queue, in order.
\<close>

theorem proposal_queue_refines_lists:
  assumes "serde_ok E" "\<forall>g. to_vec E g \<noteq> None" "fresh_ops cs (\<lambda>_. [])"
    and "run_concrete E cs (from_entries []) = (Inr (), t)"
  shows "queued_proposals E g t = Inr (run_abstract cs (\<lambda>_. []) g)"
proof -
  have "queue_abs E g (from_entries []) []" for g
    using assms(2) queue_abs_empty [of E g] by blast
  from run_refines [OF assms(1) this assms(3,4)] show ?thesis
    by (rule queue_abs_proposals [OF assms(1)])
qed

lemma queue_run0:
  "fst (run_concrete E0 [Enqueue [1] [2] [3], Enqueue [1] [4] [5], Remove [1] [2]] (from_entries [])) = Inr ()"
  by code_simp

theorem proposal_queue_refines_lists_witness:
  "\<exists>t. run_concrete E0 [Enqueue [1] [2] [3], Enqueue [1] [4] [5], Remove [1] [2]] (from_entries []) = (Inr (), t) \<and>
    queued_proposals E0 [1] t = Inr [([4], [5])] \<and> queued_proposals E0 [7] t = Inr []"
proof -
  obtain t where t: "run_concrete E0 [Enqueue [1] [2] [3], Enqueue [1] [4] [5], Remove [1] [2]]
      (from_entries []) = (Inr (), t)"
    using queue_run0 by (metis prod.collapse)
  have "\<forall>g. to_vec E0 g \<noteq> None" by (simp add: E0_def)
  from proposal_queue_refines_lists [OF serde_ok_E0 this _ t] t show ?thesis by simp
qed

text \<open>
  When two keys of epoch key pairs of one group coincide: \<open>build_epoch_key\<close> concatenates the
  serialised epoch and leaf index with no separator. Epochs of one leaf are told apart, but with
  decimal numbers epoch 1 of leaf 11 and epoch 11 of leaf 1 share a key.
\<close>

lemma epoch_keys_coincide_iff:
  assumes "to_vec E g = Some gb" "to_vec E e = Some eb" "to_vec E e' = Some eb'"
    and "to_vec E (u32_value E l) = Some lb" "to_vec E (u32_value E l') = Some lb'"
  shows "build_epoch_key E g e l = build_epoch_key E g e' l' \<longleftrightarrow> eb @ lb = eb' @ lb'"
  using assms by (simp add: build_epoch_key_def serialize_def ok_or_def build_key_def)

lemma epoch_keys_of_one_leaf:
  assumes "serde_ok E" "build_epoch_key E g e l = Inr k" "build_epoch_key E g e' l = Inr k"
  shows "e = e'"
proof -
  from assms(2,3) obtain eb eb' where "to_vec E e = Some eb" "to_vec E e' = Some eb'" "eb = eb'"
    by (auto simp: build_epoch_key_def result_simps build_key_def)
  with to_vec_inj [OF assms(1)] show ?thesis by simp
qed

lemma epoch_keys_are_ambiguous:
  assumes "to_vec E g = Some gb"
    and "to_vec E e1 = Some (ascii ''1'')" "to_vec E e11 = Some (ascii ''11'')"
    and "to_vec E (u32_value E 1) = Some (ascii ''1'')" "to_vec E (u32_value E 11) = Some (ascii ''11'')"
  shows "build_epoch_key E g e1 11 = build_epoch_key E g e11 1"
  using assms by (simp add: epoch_keys_coincide_iff ascii_def)

section \<open>The boundary to the caller's database\<close>

text \<open>
  C15: Compare and apply is exact: applying the batch of an operation to the rows it was opened on
  gives exactly the rows that the provider holds after the operation, each once, and they are a
  valid snapshot of the same group.
\<close>

theorem applied_batch_gives_the_new_rows:
  assumes "provider_from_entries entries version (Some g) = Inr p"
    and "batch_from_provider (exec_calls E calls p) (Some g) deleted = Inr b"
  shows "set (apply_batch b entries) = set (snapshot_entries (exec_calls E calls p) g) \<and>
    validate_storage_entries (apply_batch b entries) 1 (Some g) = Inr ()"
proof -
  have ok: "snapshot_ok (exec_calls E calls p)" by (rule exec_calls_ok [OF row_of_opened(2) [OF assms(1)]])
  note ab = apply_batch_gives_current [OF ok assms(1) exec_calls_initial assms(2)]
  have "validate_storage_entries (snapshot_entries (exec_calls E calls p) g) 1 (Some g) = Inr ()"
    using snapshot_entries_valid [OF ok] .
  with ab show ?thesis by (simp add: validate_storage_entries_Inr_iff)
qed

theorem applied_batch_gives_the_new_rows_witness:
  "\<exists>b. batch_from_provider (exec_calls E0 [WriteGroupState gid0 [9]] (from_entries database0)) (Some gid0) []
      = Inr b \<and>
    validate_storage_entries (apply_batch b (entries_of database0)) 1 (Some gid0) = Inr () \<and>
    set (apply_batch b (entries_of database0)) =
      set (snapshot_entries (exec_calls E0 [WriteGroupState gid0 [9]] (from_entries database0)) gid0)"
proof -
  obtain b where b: "batch_from_provider (exec_calls E0 [WriteGroupState gid0 [9]] (from_entries database0))
      (Some gid0) [] = Inr b"
    by (simp add: batch_from_provider_def batch_from_updates_Some)
  from applied_batch_gives_the_new_rows [OF entries_of_provider(1) [OF databases_distinct(1)] b] b
  show ?thesis by blast
qed

section \<open>Digests and authority\<close>

text \<open>
  C17: The delta check decides what it is meant to: for two rosters in canonical form it succeeds
  if and only if group and epoch follow, every leaf that was not removed is unchanged, and the
  new leaves are exactly the requested additions, each once.
\<close>

theorem delta_check_is_exact:
  assumes "canonical_leaves (leaves previous)" "canonical_leaves (leaves resulting)"
    and "length (leaves resulting) < 2 ^ 64"
  shows "validate_exact_delta previous resulting removals additions = Inr () \<longleftrightarrow>
    exact_delta previous resulting removals additions"
  by (rule validate_exact_delta_Inr_iff [OF assms])

definition member0 :: "u32 \<Rightarrow> byte \<Rightarrow> MlsRosterLeafV1" where
  "member0 i x = \<lparr>leaf_index = i, credential_identity = [x], signature_public_key = [x]\<rparr>"

theorem delta_check_is_exact_witness:
  "validate_exact_delta
     ((roster0 3)\<lparr>leaves := [member0 0 10, member0 1 11]\<rparr>)
     ((roster0 4)\<lparr>leaves := [member0 0 10, member0 1 12]\<rparr>) [1] [([12], [12])] = Inr ()"
proof -
  have c: "canonical_leaves [member0 0 10, member0 1 x]" if "x \<noteq> 10" for x
    using that by (auto simp: canonical_leaves_def member0_def)
  have "exact_delta ((roster0 3)\<lparr>leaves := [member0 0 10, member0 1 11]\<rparr>)
     ((roster0 4)\<lparr>leaves := [member0 0 10, member0 1 12]\<rparr>) [1] [([12], [12])]"
    by (simp add: exact_delta_def retained_leaves_def added_leaves_def member0_def leaf_authority_def
        u64_checked_succ_Some_iff)
  with c show ?thesis by (subst delta_check_is_exact) simp_all
qed

end
