(* ===== verification/NativePreflight.thy ===== *)
theory NativePreflight
  imports MlsTypes Cursor
begin

unbundle bit_operations_syntax

text \<open>
  The structural preflight of the native receive contract, \<open>preflight_cbor\<close> and \<open>CborPreflight\<close> of
  \<open>rust/src/native_receive_v2.rs\<close>: before any value is decoded, a scanner walks over the whole
  payload and accepts a subset of CBOR only, with heads in their shortest form, map keys in strict
  order and bounds on depth, items and lengths. Its state is the remaining input (\<open>input\<close> from
  \<open>position\<close> on) and the number of items seen. A position never exceeds the length of the input, so
  that the checked additions on it cannot fail and have no counterpart here.
\<close>

definition PREFLIGHT_MAX_DEPTH :: nat where "PREFLIGHT_MAX_DEPTH = 6"
definition PREFLIGHT_MAX_ITEMS :: nat where "PREFLIGHT_MAX_ITEMS = 32768"
definition PREFLIGHT_MAX_MAP_ENTRIES :: nat where "PREFLIGHT_MAX_MAP_ENTRIES = 32"
definition NATIVE_RECEIVE_STORAGE_MAX_BYTES :: nat where
  "NATIVE_RECEIVE_STORAGE_MAX_BYTES = 6 * 1024 * 1024"
definition NATIVE_RECEIVE_STORAGE_MAX_ENTRIES :: nat where "NATIVE_RECEIVE_STORAGE_MAX_ENTRIES = 4096"

record CborPreflight =
  cp_rest :: bytes
  cp_items :: nat

type_synonym 'a preflight = "(CborPreflight, MlsErrorCode, 'a) eff"

definition pc_bytes :: "nat \<Rightarrow> bytes preflight" where
  "pc_bytes n = (\<lambda>s. if n \<le> length (cp_rest s)
     then (Inr (take n (cp_rest s)), s\<lparr>cp_rest := drop n (cp_rest s)\<rparr>)
     else (Inl InvalidFrame, s))"

definition pc_byte :: "byte preflight" where
  "pc_byte = bindS (pc_bytes 1) (\<lambda>b. returnS (hd b))"

definition pc_advance :: "nat \<Rightarrow> unit preflight" where
  "pc_advance n = bindS (pc_bytes n) (\<lambda>_. returnS ())"

definition pc_argument :: "byte \<Rightarrow> u64 preflight" where
  "pc_argument additional =
     (if additional < 24 then returnS (ucast additional)
      else if additional = 24 then
        bindS pc_byte (\<lambda>value.
        if value < 24 then liftS (Inl NoncanonicalEncoding) else returnS (ucast value))
      else if additional = 25 then
        bindS (pc_bytes 2) (\<lambda>b. let value = word_of_be b :: u16 in
        if value \<le> 255 then liftS (Inl NoncanonicalEncoding) else returnS (ucast value))
      else if additional = 26 then
        bindS (pc_bytes 4) (\<lambda>b. let value = word_of_be b :: u32 in
        if value \<le> 65535 then liftS (Inl NoncanonicalEncoding) else returnS (ucast value))
      else if additional = 27 then
        bindS (pc_bytes 8) (\<lambda>b. let value = word_of_be b :: u64 in
        if value \<le> 4294967295 then liftS (Inl NoncanonicalEncoding) else returnS value)
      else liftS (Inl NoncanonicalEncoding))"

definition container_length :: "byte \<Rightarrow> nat \<Rightarrow> nat preflight" where
  "container_length additional maximum =
     bindS (pc_argument additional) (\<lambda>n.
     if unat n > maximum then liftS (Inl LimitExceeded) else returnS (unat n))"

definition count_one :: "unit preflight" where
  "count_one = (\<lambda>s. case usize_checked_add (cp_items s) 1 of
       None \<Rightarrow> (Inl LimitExceeded, s)
     | Some n \<Rightarrow> (if n > PREFLIGHT_MAX_ITEMS then Inl LimitExceeded else Inr (), s\<lparr>cp_items := n\<rparr>))"

text \<open>
  \<open>value\<close> with the loops over the elements of an array and the entries of a map. The recursion of
  the code ends because the depth is bounded; that is the measure here.
\<close>

function (sequential) pc_value :: "nat \<Rightarrow> unit preflight"
  and pc_elements :: "nat \<Rightarrow> nat \<Rightarrow> unit preflight"
  and pc_entries :: "nat \<Rightarrow> nat \<Rightarrow> u64 option \<Rightarrow> unit preflight" where
  "pc_value depth =
     (if depth > PREFLIGHT_MAX_DEPTH then liftS (Inl LimitExceeded)
      else
        bindS count_one (\<lambda>_.
        bindS pc_byte (\<lambda>initial.
        let major = drop_bit 5 initial; additional = initial AND 0x1f in
        if major = 0 then bindS (pc_argument additional) (\<lambda>_. returnS ())
        else if major = 2 then
          bindS (pc_argument additional) (\<lambda>n.
          if unat n > NATIVE_RECEIVE_STORAGE_MAX_BYTES then liftS (Inl LimitExceeded)
          else pc_advance (unat n))
        else if major = 4 then
          bindS (container_length additional NATIVE_RECEIVE_STORAGE_MAX_ENTRIES) (\<lambda>n.
          pc_elements n (depth + 1))
        else if major = 5 then
          bindS (container_length additional PREFLIGHT_MAX_MAP_ENTRIES) (\<lambda>n.
          pc_entries n (depth + 1) None)
        else if major = 7 \<and> (additional = 20 \<or> additional = 21 \<or> additional = 22) then returnS ()
        else liftS (Inl NoncanonicalEncoding))))"
| "pc_elements 0 depth = returnS ()"
| "pc_elements (Suc n) depth = bindS (pc_value depth) (\<lambda>_. pc_elements n depth)"
| "pc_entries 0 depth previous = returnS ()"
| "pc_entries (Suc n) depth previous =
     bindS pc_byte (\<lambda>initial.
     if drop_bit 5 initial \<noteq> 0 then liftS (Inl NoncanonicalEncoding)
     else
       bindS (pc_argument (initial AND 0x1f)) (\<lambda>key.
       if (case previous of Some p \<Rightarrow> key \<le> p | None \<Rightarrow> False) then liftS (Inl NoncanonicalEncoding)
       else
         bindS count_one (\<lambda>_.
         bindS (pc_value depth) (\<lambda>_.
         pc_entries n depth (Some key)))))"
  by pat_completeness auto

termination
  by (relation "inv_image (less_than <*lex*> less_than) (\<lambda>x. case x of
       Inl depth \<Rightarrow> (2 * (7 - depth), 0)
     | Inr (Inl (n, depth)) \<Rightarrow> (2 * (7 - depth) + 1, n)
     | Inr (Inr (n, depth, p)) \<Rightarrow> (2 * (7 - depth) + 1, n))")
    (auto simp: PREFLIGHT_MAX_DEPTH_def)

declare pc_value.simps [simp del]

definition preflight_cbor :: "bytes \<Rightarrow> MlsErrorCode + unit" where
  "preflight_cbor input =
     (case pc_value 0 \<lparr>cp_rest = input, cp_items = 0\<rparr> of
        (Inl e, _) \<Rightarrow> Inl e
      | (Inr _, s) \<Rightarrow> if cp_rest s \<noteq> [] then Inl NoncanonicalEncoding else Inr ())"

end
