(* ===== verification/NativeCodec.thy ===== *)
theory NativeCodec
  imports NativePreflight Cbor LocalState
begin

text \<open>
  Frames and payloads of the native receive contract: the data of
  \<open>rust/src/native_receive_v2.rs\<close>, the twelve-byte header, the encoders and the decoders of
  requests. \<open>ncbor\<close> adds to \<open>cbor\<close> the methods of \<open>minicbor\<close> that this file uses. An encoder
  returns the bytes it appends to the payload; what it wrote before an error is dropped with the
  payload. A decoder is a reader over the remaining payload. Wiping values on drop is not modelled.
\<close>

section \<open>Constants and data\<close>

definition NATIVE_RECEIVE_CONTRACT_VERSION :: u16 where "NATIVE_RECEIVE_CONTRACT_VERSION = 2"
definition NATIVE_RECEIVE_PROFILE_V2 :: u16 where "NATIVE_RECEIVE_PROFILE_V2 = 2"
definition NATIVE_RECEIVE_REQUEST_MAX_BYTES :: nat where
  "NATIVE_RECEIVE_REQUEST_MAX_BYTES = 12 * 1024 * 1024"
definition NATIVE_RECEIVE_RESULT_MAX_BYTES :: nat where
  "NATIVE_RECEIVE_RESULT_MAX_BYTES = 8 * 1024 * 1024"
definition NATIVE_RECEIVE_STORAGE_KEY_MAX_BYTES :: nat where "NATIVE_RECEIVE_STORAGE_KEY_MAX_BYTES = 4096"
definition NATIVE_RECEIVE_STORAGE_VALUE_MAX_BYTES :: nat where
  "NATIVE_RECEIVE_STORAGE_VALUE_MAX_BYTES = 2 * 1024 * 1024"
definition NATIVE_RECEIVE_MLS_MESSAGE_MAX_BYTES :: nat where
  "NATIVE_RECEIVE_MLS_MESSAGE_MAX_BYTES = 1024 * 1024"
definition NATIVE_RECEIVE_RATCHET_TREE_MAX_BYTES :: nat where
  "NATIVE_RECEIVE_RATCHET_TREE_MAX_BYTES = 2 * 1024 * 1024"
definition NATIVE_RECEIVE_AAD_MAX_BYTES :: nat where "NATIVE_RECEIVE_AAD_MAX_BYTES = 16 * 1024"
definition NATIVE_RECEIVE_SIGNER_MAX_BYTES :: nat where "NATIVE_RECEIVE_SIGNER_MAX_BYTES = 4096"
definition NATIVE_RECEIVE_PLAINTEXT_MAX_BYTES :: nat where "NATIVE_RECEIVE_PLAINTEXT_MAX_BYTES = 256 * 1024"
definition NATIVE_RECEIVE_ROSTER_MAX_LEAVES :: nat where "NATIVE_RECEIVE_ROSTER_MAX_LEAVES = 256"

definition FRAME_HEADER_BYTES :: nat where "FRAME_HEADER_BYTES = 12"
definition FRAME_MAGIC :: bytes where "FRAME_MAGIC = ascii ''KMLS''"
definition PROFILE_GROUP_ID_BYTES :: nat where "PROFILE_GROUP_ID_BYTES = 16"
definition PROFILE_CREDENTIAL_IDENTITY_BYTES :: nat where "PROFILE_CREDENTIAL_IDENTITY_BYTES = 45"
definition PROFILE_SIGNATURE_PUBLIC_KEY_BYTES :: nat where "PROFILE_SIGNATURE_PUBLIC_KEY_BYTES = 32"
definition SHA256_BYTES :: nat where "SHA256_BYTES = 32"

datatype NativeReceiveOperationV2 = OpApplication | OpCommit | OpWelcome

fun operation_as_u8 :: "NativeReceiveOperationV2 \<Rightarrow> byte" where
  "operation_as_u8 OpApplication = 1"
| "operation_as_u8 OpCommit = 2"
| "operation_as_u8 OpWelcome = 3"

definition operation_from_u8 :: "byte \<Rightarrow> MlsErrorCode + NativeReceiveOperationV2" where
  "operation_from_u8 v =
     (if v = 1 then Inr OpApplication
      else if v = 2 then Inr OpCommit
      else if v = 3 then Inr OpWelcome
      else Inl UnsupportedOperation)"

record NativeLeafAuthorityV2 =
  nl_leaf_index :: u32
  nl_credential_identity :: bytes
  nl_signature_public_key :: bytes

record NativeExpectedRosterStateV2 =
  nx_group_id :: bytes
  nx_epoch :: u64
  nx_digest_sha256 :: bytes

record NativeRosterSummaryV2 =
  nr_group_id :: bytes
  nr_epoch :: u64
  nr_leaves :: "NativeLeafAuthorityV2 list"
  nr_digest_sha256 :: bytes

record NativeStorageEntryV2 =
  ns_key :: bytes
  ns_value :: bytes
  ns_group_id :: "bytes option"

record NativeStorageSnapshotV2 =
  sn_storage_format_version :: u32
  sn_entries :: "NativeStorageEntryV2 list"

record NativeStorageBatchV2 =
  nb_storage_format_version :: u32
  nb_upserts :: "NativeStorageEntryV2 list"
  nb_deletes :: "bytes list"
  nb_deleted_group_ids :: "bytes list"

record ProcessRequest =
  pq_operation :: NativeReceiveOperationV2
  pq_profile_id :: u16
  pq_group_id :: bytes
  pq_message_bytes :: bytes
  pq_expected_aad :: bytes
  pq_expected_sender :: NativeLeafAuthorityV2
  pq_expected_previous_state :: NativeExpectedRosterStateV2
  pq_expected_resulting_state :: NativeExpectedRosterStateV2
  pq_expected_base_group_state_sha256 :: bytes
  pq_storage :: NativeStorageSnapshotV2
  pq_expected_message_state :: NativeExpectedRosterStateV2
  pq_expected_retention :: u32
  pq_expected_message_sha256 :: bytes
  pq_incarnation_id :: bytes

record WelcomeRequest =
  wq_profile_id :: u16
  wq_welcome_bytes :: bytes
  wq_ratchet_tree_bytes :: "bytes option"
  wq_signer_bytes :: bytes
  wq_expected_local_leaf :: NativeLeafAuthorityV2
  wq_expected_resulting_state :: NativeExpectedRosterStateV2
  wq_expected_target_key_package_sha256 :: bytes
  wq_storage :: NativeStorageSnapshotV2
  wq_retention :: u32
  wq_incarnation_id :: bytes
  wq_expected_welcome_sha256 :: bytes

datatype NativeReceiveRequestV2 = ReqProcess ProcessRequest | ReqWelcome WelcomeRequest

section \<open>The CBOR library\<close>

datatype cbor_type = TyNull | TyBytes | TyOther

record ncbor =
  nc :: cbor
  cb_map :: "u64 \<Rightarrow> bytes"
  cb_u8 :: "byte \<Rightarrow> bytes"
  cb_bool :: "bool \<Rightarrow> bytes"
  cd_map :: "bytes \<Rightarrow> (u64 option \<times> bytes) option"
  cd_u8 :: "bytes \<Rightarrow> (byte \<times> bytes) option"
  cd_type :: "bytes \<Rightarrow> cbor_type option"

section \<open>Checks\<close>

definition validate_result_range :: "bytes \<Rightarrow> nat \<Rightarrow> nat \<Rightarrow> MlsErrorCode + unit" where
  "validate_result_range v mn mx =
     (if length v < mn \<or> length v > mx then Inl LimitExceeded else Inr ())"

definition validate_exact_result_bytes :: "bytes \<Rightarrow> nat \<Rightarrow> MlsErrorCode + unit" where
  "validate_exact_result_bytes v n = (if length v = n then Inr () else Inl InternalFailure)"

definition validate_result_bytes :: "bytes \<Rightarrow> nat \<Rightarrow> MlsErrorCode + unit" where
  "validate_result_bytes v mx = validate_result_range v 0 mx"

definition validate_profile :: "u16 \<Rightarrow> MlsErrorCode + unit" where
  "validate_profile p = (if p = NATIVE_RECEIVE_PROFILE_V2 then Inr () else Inl UnsupportedProfile)"

fun repeated_neighbour :: "bytes list \<Rightarrow> bool" where
  "repeated_neighbour (a # b # r) = (a = b \<or> repeated_neighbour (b # r))"
| "repeated_neighbour _ = False"

definition add_lengths :: "nat \<Rightarrow> nat \<Rightarrow> nat \<Rightarrow> nat \<Rightarrow> MlsErrorCode + nat" where
  "add_lengths acc a b c =
     ok_or (Option.bind (usize_checked_add acc a) (\<lambda>n.
            Option.bind (usize_checked_add n b) (\<lambda>n. usize_checked_add n c))) LimitExceeded"

definition option_length :: "bytes option \<Rightarrow> nat" where
  "option_length g = (case g of Some b \<Rightarrow> length b | None \<Rightarrow> 0)"

definition add_entry_size :: "nat \<Rightarrow> NativeStorageEntryV2 \<Rightarrow> MlsErrorCode + nat" where
  "add_entry_size current e =
     bindE (validate_result_range (ns_key e) 1 NATIVE_RECEIVE_STORAGE_KEY_MAX_BYTES) (\<lambda>_.
     bindE (validate_result_range (ns_value e) 0 NATIVE_RECEIVE_STORAGE_VALUE_MAX_BYTES) (\<lambda>_.
     bindE (case ns_group_id e of
              Some g \<Rightarrow> validate_exact_result_bytes g PROFILE_GROUP_ID_BYTES
            | None \<Rightarrow> Inr ()) (\<lambda>_.
     add_lengths current (length (ns_key e)) (length (ns_value e)) (option_length (ns_group_id e)))))"

section \<open>Frames\<close>

record DecodedHeader =
  dh_operation :: byte
  dh_payload :: bytes

definition decode_header :: "bytes \<Rightarrow> nat \<Rightarrow> MlsErrorCode + DecodedHeader" where
  "decode_header frame mx =
     (if length frame > mx then Inl LimitExceeded
      else if length frame < FRAME_HEADER_BYTES \<or> take 4 frame \<noteq> FRAME_MAGIC then Inl InvalidFrame
      else
        let version = word_of_be [frame ! 4, frame ! 5] :: u16 in
        if version \<noteq> NATIVE_RECEIVE_CONTRACT_VERSION then Inl UnsupportedContractVersion
        else if frame ! 7 \<noteq> 0 then Inl InvalidFrame
        else
          let payload_len = unat (word_of_be [frame ! 8, frame ! 9, frame ! 10, frame ! 11] :: u32) in
          if payload_len \<noteq> length frame - FRAME_HEADER_BYTES then Inl InvalidFrame
          else Inr \<lparr>dh_operation = frame ! 6, dh_payload = drop FRAME_HEADER_BYTES frame\<rparr>)"

definition encode_frame_with_max :: "byte \<Rightarrow> bytes \<Rightarrow> nat \<Rightarrow> MlsErrorCode + bytes" where
  "encode_frame_with_max operation payload mx =
     bindE (ok_or (usize_checked_add FRAME_HEADER_BYTES (length payload)) LimitExceeded) (\<lambda>frame_len.
     if frame_len > mx then Inl LimitExceeded
     else if length payload \<ge> 2 ^ 32 then Inl LimitExceeded
     else Inr (FRAME_MAGIC @ be16 NATIVE_RECEIVE_CONTRACT_VERSION @ [operation] @ [0]
       @ be32 (of_nat (length payload)) @ payload))"

definition native_encode_frame :: "byte \<Rightarrow> bytes \<Rightarrow> MlsErrorCode + bytes" where
  "native_encode_frame operation payload =
     encode_frame_with_max operation payload NATIVE_RECEIVE_RESULT_MAX_BYTES"

section \<open>Encoders\<close>

definition native_encode_leaf :: "ncbor \<Rightarrow> NativeLeafAuthorityV2 \<Rightarrow> MlsErrorCode + bytes" where
  "native_encode_leaf N l =
     bindE (validate_exact_result_bytes (nl_credential_identity l) PROFILE_CREDENTIAL_IDENTITY_BYTES) (\<lambda>_.
     bindE (validate_exact_result_bytes (nl_signature_public_key l) PROFILE_SIGNATURE_PUBLIC_KEY_BYTES) (\<lambda>_.
     Inr (cb_map N 3 @ cb_u8 N 0 @ cb_u32 (nc N) (nl_leaf_index l)
       @ cb_u8 N 1 @ cb_bytes (nc N) (nl_credential_identity l)
       @ cb_u8 N 2 @ cb_bytes (nc N) (nl_signature_public_key l))))"

definition encode_pair_leaf :: "ncbor \<Rightarrow> byte \<Rightarrow> NativeLeafAuthorityV2 \<Rightarrow> MlsErrorCode + bytes" where
  "encode_pair_leaf N k l = bindE (native_encode_leaf N l) (\<lambda>b. Inr (cb_u8 N k @ b))"

definition encode_expected_roster ::
  "ncbor \<Rightarrow> NativeExpectedRosterStateV2 \<Rightarrow> MlsErrorCode + bytes" where
  "encode_expected_roster N r =
     bindE (validate_exact_result_bytes (nx_group_id r) PROFILE_GROUP_ID_BYTES) (\<lambda>_.
     bindE (validate_exact_result_bytes (nx_digest_sha256 r) SHA256_BYTES) (\<lambda>_.
     Inr (cb_map N 3 @ cb_u8 N 0 @ cb_bytes (nc N) (nx_group_id r)
       @ cb_u8 N 1 @ cb_u64 (nc N) (nx_epoch r)
       @ cb_u8 N 2 @ cb_bytes (nc N) (nx_digest_sha256 r))))"

fun unordered_leaves :: "NativeLeafAuthorityV2 list \<Rightarrow> bool" where
  "unordered_leaves (a # b # r) = (nl_leaf_index a \<ge> nl_leaf_index b \<or> unordered_leaves (b # r))"
| "unordered_leaves _ = False"

definition native_encode_roster :: "ncbor \<Rightarrow> NativeRosterSummaryV2 \<Rightarrow> MlsErrorCode + bytes" where
  "native_encode_roster N r =
     bindE (validate_exact_result_bytes (nr_group_id r) PROFILE_GROUP_ID_BYTES) (\<lambda>_.
     bindE (validate_exact_result_bytes (nr_digest_sha256 r) SHA256_BYTES) (\<lambda>_.
     if nr_leaves r = [] \<or> length (nr_leaves r) > NATIVE_RECEIVE_ROSTER_MAX_LEAVES then Inl LimitExceeded
     else if unordered_leaves (nr_leaves r) then Inl InternalFailure
     else
       bindE (mapE (native_encode_leaf N) (nr_leaves r)) (\<lambda>ls.
       Inr (cb_map N 4 @ cb_u8 N 0 @ cb_bytes (nc N) (nr_group_id r)
         @ cb_u8 N 1 @ cb_u64 (nc N) (nr_epoch r)
         @ cb_u8 N 2 @ cb_array (nc N) (of_nat (length (nr_leaves r)))
         @ concat ls
         @ cb_u8 N 3 @ cb_bytes (nc N) (nr_digest_sha256 r)))))"

definition encode_pair_roster :: "ncbor \<Rightarrow> byte \<Rightarrow> NativeRosterSummaryV2 \<Rightarrow> MlsErrorCode + bytes" where
  "encode_pair_roster N k r = bindE (native_encode_roster N r) (\<lambda>b. Inr (cb_u8 N k @ b))"

definition encode_optional_bytes :: "ncbor \<Rightarrow> bytes option \<Rightarrow> bytes" where
  "encode_optional_bytes N b = (case b of Some v \<Rightarrow> cb_bytes (nc N) v | None \<Rightarrow> cb_null (nc N))"

definition encode_storage_entry :: "ncbor \<Rightarrow> NativeStorageEntryV2 \<Rightarrow> bytes" where
  "encode_storage_entry N e =
     cb_map N 3 @ cb_u8 N 0 @ cb_bytes (nc N) (ns_key e)
       @ cb_u8 N 1 @ cb_bytes (nc N) (ns_value e)
       @ cb_u8 N 2 @ encode_optional_bytes N (ns_group_id e)"

definition add_scoped_size ::
  "bytes option \<Rightarrow> nat \<Rightarrow> NativeStorageEntryV2 \<Rightarrow> MlsErrorCode + nat" where
  "add_scoped_size scope acc e =
     bindE (add_entry_size acc e) (\<lambda>acc.
     let is_global = is_global_key (ns_key e) in
     if is_global \<and> ns_group_id e \<noteq> None \<or> \<not> is_global \<and> ns_group_id e \<noteq> scope
     then Inl InvalidStorageSnapshot else Inr acc)"

definition encode_storage_snapshot ::
  "ncbor \<Rightarrow> NativeStorageSnapshotV2 \<Rightarrow> bytes option \<Rightarrow> MlsErrorCode + bytes" where
  "encode_storage_snapshot N s scope =
     (if sn_storage_format_version s \<noteq> 1
         \<or> length (sn_entries s) > NATIVE_RECEIVE_STORAGE_MAX_ENTRIES
      then Inl StorageFormatMismatch
      else
        let entries = sort_key ns_key (sn_entries s) in
        if repeated_neighbour (map ns_key entries) then Inl InvalidStorageSnapshot
        else
          bindE (foldE (add_scoped_size scope) 0 entries) (\<lambda>size_sum.
          if size_sum > NATIVE_RECEIVE_STORAGE_MAX_BYTES then Inl LimitExceeded
          else Inr (cb_map N 2 @ cb_u8 N 0 @ cb_u32 (nc N) (sn_storage_format_version s)
            @ cb_u8 N 1 @ cb_array (nc N) (of_nat (length entries))
            @ concat (map (encode_storage_entry N) entries))))"

definition encode_process_payload :: "ncbor \<Rightarrow> nat \<Rightarrow> ProcessRequest \<Rightarrow> MlsErrorCode + bytes" where
  "encode_process_payload N minimum_aad r =
     (if pq_operation r = OpWelcome then Inl UnsupportedOperation
      else
        bindE (validate_profile (pq_profile_id r)) (\<lambda>_.
        bindE (validate_exact_result_bytes (pq_group_id r) PROFILE_GROUP_ID_BYTES) (\<lambda>_.
        bindE (validate_result_range (pq_message_bytes r) 1 NATIVE_RECEIVE_MLS_MESSAGE_MAX_BYTES) (\<lambda>_.
        bindE (validate_result_range (pq_expected_aad r) minimum_aad NATIVE_RECEIVE_AAD_MAX_BYTES) (\<lambda>_.
        bindE (validate_exact_result_bytes (pq_expected_base_group_state_sha256 r) SHA256_BYTES) (\<lambda>_.
        bindE (native_encode_leaf N (pq_expected_sender r)) (\<lambda>sender.
        bindE (encode_expected_roster N (pq_expected_previous_state r)) (\<lambda>previous.
        bindE (encode_expected_roster N (pq_expected_resulting_state r)) (\<lambda>resulting.
        bindE (encode_storage_snapshot N (pq_storage r) (Some (pq_group_id r))) (\<lambda>storage.
        bindE (encode_expected_roster N (pq_expected_message_state r)) (\<lambda>message.
        bindE (validate_retention (pq_expected_retention r)) (\<lambda>_.
        bindE (validate_exact_result_bytes (pq_expected_message_sha256 r) SHA256_BYTES) (\<lambda>_.
        bindE (validate_result_range (pq_incarnation_id r) 1 128) (\<lambda>_.
        Inr (cb_map N 13 @ cb_u8 N 0 @ cb_u16 (nc N) (pq_profile_id r)
          @ cb_u8 N 1 @ cb_bytes (nc N) (pq_group_id r)
          @ cb_u8 N 2 @ cb_bytes (nc N) (pq_message_bytes r)
          @ cb_u8 N 3 @ cb_bytes (nc N) (pq_expected_aad r)
          @ cb_u8 N 4 @ sender @ cb_u8 N 5 @ previous @ cb_u8 N 6 @ resulting
          @ cb_u8 N 7 @ cb_bytes (nc N) (pq_expected_base_group_state_sha256 r)
          @ cb_u8 N 8 @ storage @ cb_u8 N 9 @ message
          @ cb_u8 N 10 @ cb_u32 (nc N) (pq_expected_retention r)
          @ cb_u8 N 11 @ cb_bytes (nc N) (pq_expected_message_sha256 r)
          @ cb_u8 N 12 @ cb_bytes (nc N) (pq_incarnation_id r))))))))))))))))"

definition encode_welcome_payload :: "ncbor \<Rightarrow> WelcomeRequest \<Rightarrow> MlsErrorCode + bytes" where
  "encode_welcome_payload N r =
     bindE (validate_profile (wq_profile_id r)) (\<lambda>_.
     bindE (validate_result_range (wq_welcome_bytes r) 1 NATIVE_RECEIVE_MLS_MESSAGE_MAX_BYTES) (\<lambda>_.
     bindE (case wq_ratchet_tree_bytes r of
              Some t \<Rightarrow> validate_result_range t 1 NATIVE_RECEIVE_RATCHET_TREE_MAX_BYTES
            | None \<Rightarrow> Inr ()) (\<lambda>_.
     bindE (validate_result_range (wq_signer_bytes r) 1 NATIVE_RECEIVE_SIGNER_MAX_BYTES) (\<lambda>_.
     bindE (validate_exact_result_bytes (wq_expected_target_key_package_sha256 r) SHA256_BYTES) (\<lambda>_.
     bindE (native_encode_leaf N (wq_expected_local_leaf r)) (\<lambda>local.
     bindE (encode_expected_roster N (wq_expected_resulting_state r)) (\<lambda>resulting.
     bindE (encode_storage_snapshot N (wq_storage r) None) (\<lambda>storage.
     bindE (validate_retention (wq_retention r)) (\<lambda>_.
     bindE (validate_result_range (wq_incarnation_id r) 1 128) (\<lambda>_.
     bindE (validate_exact_result_bytes (wq_expected_welcome_sha256 r) SHA256_BYTES) (\<lambda>_.
     Inr (cb_map N 11 @ cb_u8 N 0 @ cb_u16 (nc N) (wq_profile_id r)
       @ cb_u8 N 1 @ cb_bytes (nc N) (wq_welcome_bytes r)
       @ cb_u8 N 2 @ encode_optional_bytes N (wq_ratchet_tree_bytes r)
       @ cb_u8 N 3 @ cb_bytes (nc N) (wq_signer_bytes r)
       @ cb_u8 N 4 @ local @ cb_u8 N 5 @ resulting
       @ cb_u8 N 6 @ cb_bytes (nc N) (wq_expected_target_key_package_sha256 r)
       @ cb_u8 N 7 @ storage
       @ cb_u8 N 8 @ cb_u32 (nc N) (wq_retention r)
       @ cb_u8 N 9 @ cb_bytes (nc N) (wq_incarnation_id r)
       @ cb_u8 N 10 @ cb_bytes (nc N) (wq_expected_welcome_sha256 r)))))))))))))"

definition encode_native_receive_request_v2_with_aad_minimum ::
  "ncbor \<Rightarrow> NativeReceiveRequestV2 \<Rightarrow> nat \<Rightarrow> MlsErrorCode + bytes" where
  "encode_native_receive_request_v2_with_aad_minimum N request minimum_aad =
     bindE (case request of
              ReqProcess r \<Rightarrow> bindE (encode_process_payload N minimum_aad r)
                (\<lambda>payload. Inr (pq_operation r, payload))
            | ReqWelcome r \<Rightarrow> bindE (encode_welcome_payload N r) (\<lambda>payload. Inr (OpWelcome, payload)))
       (\<lambda>(operation, payload).
     encode_frame_with_max (operation_as_u8 operation) payload NATIVE_RECEIVE_REQUEST_MAX_BYTES)"

definition encode_native_receive_request_v2 :: "ncbor \<Rightarrow> NativeReceiveRequestV2 \<Rightarrow> MlsErrorCode + bytes" where
  "encode_native_receive_request_v2 N request =
     encode_native_receive_request_v2_with_aad_minimum N request 1"

section \<open>Decoders\<close>

definition native_item :: "(bytes \<Rightarrow> ('a \<times> bytes) option) \<Rightarrow> 'a reader" where
  "native_item item = take_item item NoncanonicalEncoding"

definition native_type :: "ncbor \<Rightarrow> cbor_type reader" where
  "native_type N = readS (\<lambda>input. ok_or (cd_type N input) NoncanonicalEncoding)"

definition native_null :: "ncbor \<Rightarrow> unit reader" where
  "native_null N = skip_null (nc N) NoncanonicalEncoding"

definition expect_map :: "ncbor \<Rightarrow> nat \<Rightarrow> unit reader" where
  "expect_map N n =
     bindS (native_item (cd_map N)) (\<lambda>m.
     bindS (liftS (ok_or m NoncanonicalEncoding)) (\<lambda>m.
     if m = of_nat n then returnS () else liftS (Inl NoncanonicalEncoding)))"

definition expect_array_max :: "ncbor \<Rightarrow> nat \<Rightarrow> nat reader" where
  "expect_array_max N mx =
     bindS (native_item (cd_array (nc N))) (\<lambda>m.
     bindS (liftS (ok_or m NoncanonicalEncoding)) (\<lambda>m.
     if unat m > mx then liftS (Inl LimitExceeded) else returnS (unat m)))"

definition expect_key :: "ncbor \<Rightarrow> byte \<Rightarrow> unit reader" where
  "expect_key N k =
     bindS (native_item (cd_u8 N)) (\<lambda>actual.
     if actual = k then returnS () else liftS (Inl NoncanonicalEncoding))"

definition decode_bounded_bytes :: "ncbor \<Rightarrow> nat \<Rightarrow> nat \<Rightarrow> bytes reader" where
  "decode_bounded_bytes N mn mx =
     bindS (native_item (cd_bytes (nc N))) (\<lambda>v.
     if length v < mn \<or> length v > mx then liftS (Inl LimitExceeded) else returnS v)"

definition decode_exact_bytes :: "ncbor \<Rightarrow> nat \<Rightarrow> bytes reader" where
  "decode_exact_bytes N n = decode_bounded_bytes N n n"

definition native_decode_leaf :: "ncbor \<Rightarrow> NativeLeafAuthorityV2 reader" where
  "native_decode_leaf N =
     bindS (expect_map N 3) (\<lambda>_.
     bindS (expect_key N 0) (\<lambda>_.
     bindS (native_item (cd_u32 (nc N))) (\<lambda>i.
     bindS (expect_key N 1) (\<lambda>_.
     bindS (decode_exact_bytes N PROFILE_CREDENTIAL_IDENTITY_BYTES) (\<lambda>c.
     bindS (expect_key N 2) (\<lambda>_.
     bindS (decode_exact_bytes N PROFILE_SIGNATURE_PUBLIC_KEY_BYTES) (\<lambda>k.
     returnS \<lparr>nl_leaf_index = i, nl_credential_identity = c, nl_signature_public_key = k\<rparr>)))))))"

definition decode_expected_roster :: "ncbor \<Rightarrow> NativeExpectedRosterStateV2 reader" where
  "decode_expected_roster N =
     bindS (expect_map N 3) (\<lambda>_.
     bindS (expect_key N 0) (\<lambda>_.
     bindS (decode_exact_bytes N PROFILE_GROUP_ID_BYTES) (\<lambda>g.
     bindS (expect_key N 1) (\<lambda>_.
     bindS (native_item (cd_u64 (nc N))) (\<lambda>e.
     bindS (expect_key N 2) (\<lambda>_.
     bindS (decode_exact_bytes N SHA256_BYTES) (\<lambda>d.
     returnS \<lparr>nx_group_id = g, nx_epoch = e, nx_digest_sha256 = d\<rparr>)))))))"

definition decode_storage_entry :: "ncbor \<Rightarrow> NativeStorageEntryV2 reader" where
  "decode_storage_entry N =
     bindS (expect_map N 3) (\<lambda>_.
     bindS (expect_key N 0) (\<lambda>_.
     bindS (decode_bounded_bytes N 1 NATIVE_RECEIVE_STORAGE_KEY_MAX_BYTES) (\<lambda>k.
     bindS (expect_key N 1) (\<lambda>_.
     bindS (decode_bounded_bytes N 0 NATIVE_RECEIVE_STORAGE_VALUE_MAX_BYTES) (\<lambda>v.
     bindS (expect_key N 2) (\<lambda>_.
     bindS (native_type N) (\<lambda>t.
     bindS (case t of
              TyNull \<Rightarrow> bindS (native_null N) (\<lambda>_. returnS None)
            | TyBytes \<Rightarrow> bindS (decode_exact_bytes N PROFILE_GROUP_ID_BYTES) (\<lambda>g. returnS (Some g))
            | TyOther \<Rightarrow> liftS (Inl NoncanonicalEncoding)) (\<lambda>g.
     returnS \<lparr>ns_key = k, ns_value = v, ns_group_id = g\<rparr>))))))))"

text \<open>
  The rows are read twice: a first pass over borrowed slices, on a copy of the decoder, adds up the
  sizes; the second builds the rows and adds them up again.
\<close>

definition scan_storage_entry :: "ncbor \<Rightarrow> bytes option \<Rightarrow> nat \<Rightarrow> nat reader" where
  "scan_storage_entry N scope acc =
     bindS (expect_map N 3) (\<lambda>_.
     bindS (expect_key N 0) (\<lambda>_.
     bindS (native_item (cd_bytes (nc N))) (\<lambda>k.
     bindS (liftS (validate_result_range k 1 NATIVE_RECEIVE_STORAGE_KEY_MAX_BYTES)) (\<lambda>_.
     bindS (expect_key N 1) (\<lambda>_.
     bindS (native_item (cd_bytes (nc N))) (\<lambda>v.
     bindS (liftS (validate_result_range v 0 NATIVE_RECEIVE_STORAGE_VALUE_MAX_BYTES)) (\<lambda>_.
     bindS (expect_key N 2) (\<lambda>_.
     bindS (native_type N) (\<lambda>t.
     bindS (case t of
              TyNull \<Rightarrow> bindS (native_null N) (\<lambda>_. returnS 0)
            | TyBytes \<Rightarrow>
                bindS (native_item (cd_bytes (nc N))) (\<lambda>g.
                bindS (liftS (validate_exact_result_bytes g PROFILE_GROUP_ID_BYTES)) (\<lambda>_.
                if scope \<noteq> Some g then liftS (Inl InvalidStorageSnapshot) else returnS (length g)))
            | TyOther \<Rightarrow> liftS (Inl NoncanonicalEncoding)) (\<lambda>group_bytes.
     bindS (liftS (add_lengths acc (length k) (length v) group_bytes)) (\<lambda>acc.
     if acc > NATIVE_RECEIVE_STORAGE_MAX_BYTES then liftS (Inl LimitExceeded) else returnS acc)))))))))))"

fun scan_storage_entries :: "ncbor \<Rightarrow> bytes option \<Rightarrow> nat \<Rightarrow> nat \<Rightarrow> unit reader" where
  "scan_storage_entries N scope 0 acc = returnS ()"
| "scan_storage_entries N scope (Suc n) acc =
     bindS (scan_storage_entry N scope acc) (\<lambda>acc. scan_storage_entries N scope n acc)"

fun read_storage_entries :: "ncbor \<Rightarrow> bytes option \<Rightarrow> nat \<Rightarrow> nat \<Rightarrow> NativeStorageEntryV2 list reader" where
  "read_storage_entries N scope 0 acc = returnS []"
| "read_storage_entries N scope (Suc n) acc =
     bindS (decode_storage_entry N) (\<lambda>e.
     bindS (liftS (add_lengths acc (length (ns_key e)) (length (ns_value e)) (option_length (ns_group_id e))))
       (\<lambda>acc.
     if acc > NATIVE_RECEIVE_STORAGE_MAX_BYTES then liftS (Inl LimitExceeded)
     else if ns_group_id e \<noteq> None \<and> ns_group_id e \<noteq> scope then liftS (Inl InvalidStorageSnapshot)
     else
       bindS (read_storage_entries N scope n acc) (\<lambda>es. returnS (e # es))))"

definition decode_storage_snapshot :: "ncbor \<Rightarrow> bytes option \<Rightarrow> NativeStorageSnapshotV2 reader" where
  "decode_storage_snapshot N scope =
     bindS (expect_map N 2) (\<lambda>_.
     bindS (expect_key N 0) (\<lambda>_.
     bindS (native_item (cd_u32 (nc N))) (\<lambda>version.
     if version \<noteq> 1 then liftS (Inl StorageFormatMismatch)
     else
       bindS (expect_key N 1) (\<lambda>_.
       bindS (expect_array_max N NATIVE_RECEIVE_STORAGE_MAX_ENTRIES) (\<lambda>n.
       bindS (readS (\<lambda>input. fst (scan_storage_entries N scope n 0 input))) (\<lambda>_.
       bindS (read_storage_entries N scope n 0) (\<lambda>entries.
       let entries = sort_key ns_key entries in
       if repeated_neighbour (map ns_key entries) then liftS (Inl InvalidStorageSnapshot)
       else returnS \<lparr>sn_storage_format_version = version, sn_entries = entries\<rparr>)))))))"

definition decode_process_request :: "ncbor \<Rightarrow> NativeReceiveOperationV2 \<Rightarrow> NativeReceiveRequestV2 reader" where
  "decode_process_request N operation =
     bindS (expect_map N 13) (\<lambda>_.
     bindS (expect_key N 0) (\<lambda>_.
     bindS (native_item (cd_u16 (nc N))) (\<lambda>profile_id.
     bindS (liftS (validate_profile profile_id)) (\<lambda>_.
     bindS (expect_key N 1) (\<lambda>_.
     bindS (decode_exact_bytes N PROFILE_GROUP_ID_BYTES) (\<lambda>gid.
     bindS (expect_key N 2) (\<lambda>_.
     bindS (decode_bounded_bytes N 1 NATIVE_RECEIVE_MLS_MESSAGE_MAX_BYTES) (\<lambda>message.
     bindS (expect_key N 3) (\<lambda>_.
     bindS (decode_bounded_bytes N 1 NATIVE_RECEIVE_AAD_MAX_BYTES) (\<lambda>aad.
     bindS (expect_key N 4) (\<lambda>_.
     bindS (native_decode_leaf N) (\<lambda>sender.
     bindS (expect_key N 5) (\<lambda>_.
     bindS (decode_expected_roster N) (\<lambda>previous.
     bindS (expect_key N 6) (\<lambda>_.
     bindS (decode_expected_roster N) (\<lambda>resulting.
     bindS (expect_key N 7) (\<lambda>_.
     bindS (decode_exact_bytes N SHA256_BYTES) (\<lambda>base.
     bindS (expect_key N 8) (\<lambda>_.
     bindS (decode_storage_snapshot N (Some gid)) (\<lambda>storage.
     bindS (expect_key N 9) (\<lambda>_.
     bindS (decode_expected_roster N) (\<lambda>message_state.
     bindS (expect_key N 10) (\<lambda>_.
     bindS (native_item (cd_u32 (nc N))) (\<lambda>retention.
     bindS (liftS (validate_retention retention)) (\<lambda>_.
     bindS (expect_key N 11) (\<lambda>_.
     bindS (decode_exact_bytes N SHA256_BYTES) (\<lambda>message_sha256.
     bindS (expect_key N 12) (\<lambda>_.
     bindS (decode_bounded_bytes N 1 128) (\<lambda>incarnation.
     returnS (ReqProcess \<lparr>pq_operation = operation, pq_profile_id = profile_id, pq_group_id = gid,
       pq_message_bytes = message, pq_expected_aad = aad, pq_expected_sender = sender,
       pq_expected_previous_state = previous, pq_expected_resulting_state = resulting,
       pq_expected_base_group_state_sha256 = base, pq_storage = storage,
       pq_expected_message_state = message_state, pq_expected_retention = retention,
       pq_expected_message_sha256 = message_sha256, pq_incarnation_id = incarnation\<rparr>))))))))))))))))))))))))))))))"

definition decode_optional_tree :: "ncbor \<Rightarrow> bytes option reader" where
  "decode_optional_tree N =
     bindS (native_type N) (\<lambda>t.
     case t of
       TyNull \<Rightarrow> bindS (native_null N) (\<lambda>_. returnS None)
     | TyBytes \<Rightarrow> bindS (decode_bounded_bytes N 1 NATIVE_RECEIVE_RATCHET_TREE_MAX_BYTES) (\<lambda>v. returnS (Some v))
     | TyOther \<Rightarrow> liftS (Inl NoncanonicalEncoding))"

definition decode_welcome_request :: "ncbor \<Rightarrow> NativeReceiveRequestV2 reader" where
  "decode_welcome_request N =
     bindS (expect_map N 11) (\<lambda>_.
     bindS (expect_key N 0) (\<lambda>_.
     bindS (native_item (cd_u16 (nc N))) (\<lambda>profile_id.
     bindS (liftS (validate_profile profile_id)) (\<lambda>_.
     bindS (expect_key N 1) (\<lambda>_.
     bindS (decode_bounded_bytes N 1 NATIVE_RECEIVE_MLS_MESSAGE_MAX_BYTES) (\<lambda>welcome.
     bindS (expect_key N 2) (\<lambda>_.
     bindS (decode_optional_tree N) (\<lambda>ratchet_tree.
     bindS (expect_key N 3) (\<lambda>_.
     bindS (decode_bounded_bytes N 1 NATIVE_RECEIVE_SIGNER_MAX_BYTES) (\<lambda>signer.
     bindS (expect_key N 4) (\<lambda>_.
     bindS (native_decode_leaf N) (\<lambda>local.
     bindS (expect_key N 5) (\<lambda>_.
     bindS (decode_expected_roster N) (\<lambda>resulting.
     bindS (expect_key N 6) (\<lambda>_.
     bindS (decode_exact_bytes N SHA256_BYTES) (\<lambda>target.
     bindS (expect_key N 7) (\<lambda>_.
     bindS (decode_storage_snapshot N None) (\<lambda>storage.
     bindS (expect_key N 8) (\<lambda>_.
     bindS (native_item (cd_u32 (nc N))) (\<lambda>retention.
     bindS (liftS (validate_retention retention)) (\<lambda>_.
     bindS (expect_key N 9) (\<lambda>_.
     bindS (decode_bounded_bytes N 1 128) (\<lambda>incarnation.
     bindS (expect_key N 10) (\<lambda>_.
     bindS (decode_exact_bytes N SHA256_BYTES) (\<lambda>welcome_sha256.
     returnS (ReqWelcome \<lparr>wq_profile_id = profile_id, wq_welcome_bytes = welcome,
       wq_ratchet_tree_bytes = ratchet_tree, wq_signer_bytes = signer, wq_expected_local_leaf = local,
       wq_expected_resulting_state = resulting, wq_expected_target_key_package_sha256 = target,
       wq_storage = storage, wq_retention = retention, wq_incarnation_id = incarnation,
       wq_expected_welcome_sha256 = welcome_sha256\<rparr>))))))))))))))))))))))))))"

definition decode_native_receive_request_v2 :: "ncbor \<Rightarrow> bytes \<Rightarrow> MlsErrorCode + NativeReceiveRequestV2" where
  "decode_native_receive_request_v2 N frame =
     bindE (decode_header frame NATIVE_RECEIVE_REQUEST_MAX_BYTES) (\<lambda>header.
     bindE (operation_from_u8 (dh_operation header)) (\<lambda>operation.
     bindE (preflight_cbor (dh_payload header)) (\<lambda>_.
     case (case operation of
             OpApplication \<Rightarrow> decode_process_request N operation
           | OpCommit \<Rightarrow> decode_process_request N operation
           | OpWelcome \<Rightarrow> decode_welcome_request N) (dh_payload header) of
       (Inl e, _) \<Rightarrow> Inl e
     | (Inr request, rest) \<Rightarrow> if rest \<noteq> [] then Inl NoncanonicalEncoding else Inr request)))"

end
