(* ===== verification/NativeExecute.thy ===== *)
theory NativeExecute
  imports NativeCodec Receive
begin

text \<open>
  Execution of a native receive frame (\<open>execute_native_receive_v2\<close> of
  \<open>rust/src/native_receive_v2.rs\<close>): decode, run the receive or the join of the runtime on the rows in
  the request, and encode the outcome, or the failure, in an answer frame. A panic is the value
  \<open>None\<close> of \<open>execute_request\<close>; the only one this crate can raise is its \<open>unreachable!\<close>.
\<close>

datatype NativeReceiveSuccessV2 =
    ResApplication NativeLeafAuthorityV2 NativeRosterSummaryV2 NativeRosterSummaryV2 bytes u64 bytes
      NativeStorageBatchV2 u32
  | ResCommit u64 NativeLeafAuthorityV2 NativeRosterSummaryV2 NativeRosterSummaryV2 bytes
      NativeStorageBatchV2 u32
  | ResWelcome NativeLeafAuthorityV2 NativeRosterSummaryV2 bytes bytes NativeStorageBatchV2 u32

fun success_operation :: "NativeReceiveSuccessV2 \<Rightarrow> NativeReceiveOperationV2" where
  "success_operation (ResApplication _ _ _ _ _ _ _ _) = OpApplication"
| "success_operation (ResCommit _ _ _ _ _ _ _) = OpCommit"
| "success_operation (ResWelcome _ _ _ _ _ _) = OpWelcome"

record NativeReceiveOutcomeV2 =
  no_state_applied :: bool
  no_result :: "NativeReceiveSuccessV2 option"
  no_error :: "MlsErrorCode option"

definition outcome_success :: "NativeReceiveSuccessV2 \<Rightarrow> NativeReceiveOutcomeV2" where
  "outcome_success r = \<lparr>no_state_applied = False, no_result = Some r, no_error = None\<rparr>"

definition outcome_failure :: "MlsErrorCode \<Rightarrow> NativeReceiveOutcomeV2" where
  "outcome_failure e = \<lparr>no_state_applied = False, no_result = None, no_error = Some e\<rparr>"

section \<open>Conversions\<close>

definition native_leaf_into_mls :: "NativeLeafAuthorityV2 \<Rightarrow> MlsRosterLeafV1" where
  "native_leaf_into_mls l = \<lparr>leaf_index = nl_leaf_index l,
     credential_identity = nl_credential_identity l, signature_public_key = nl_signature_public_key l\<rparr>"

definition native_expected_into_mls :: "NativeExpectedRosterStateV2 \<Rightarrow> MlsExpectedRosterStateV1" where
  "native_expected_into_mls r = \<lparr>es_group_id = nx_group_id r, es_epoch = nx_epoch r,
     es_digest_sha256 = nx_digest_sha256 r\<rparr>"

definition native_storage_entry_into_mls :: "NativeStorageEntryV2 \<Rightarrow> MlsStorageEntry" where
  "native_storage_entry_into_mls e = \<lparr>entry_key = ns_key e, entry_value = ns_value e,
     entry_group_id = ns_group_id e\<rparr>"

definition mls_leaf_into_native :: "MlsRosterLeafV1 \<Rightarrow> NativeLeafAuthorityV2" where
  "mls_leaf_into_native l = \<lparr>nl_leaf_index = leaf_index l,
     nl_credential_identity = credential_identity l, nl_signature_public_key = signature_public_key l\<rparr>"

definition mls_roster_into_native :: "MlsRosterSummaryV1 \<Rightarrow> NativeRosterSummaryV2" where
  "mls_roster_into_native r = \<lparr>nr_group_id = group_id r, nr_epoch = epoch r,
     nr_leaves = map mls_leaf_into_native (leaves r), nr_digest_sha256 = digest_sha256 r\<rparr>"

definition mls_batch_into_native :: "MlsStorageBatch \<Rightarrow> NativeStorageBatchV2" where
  "mls_batch_into_native b = \<lparr>nb_storage_format_version = storage_format_version b,
     nb_upserts = map (\<lambda>e. \<lparr>ns_key = entry_key e, ns_value = entry_value e,
       ns_group_id = entry_group_id e\<rparr>) (upserts b),
     nb_deletes = deletes b, nb_deleted_group_ids = deleted_group_ids b\<rparr>"

section \<open>Execution\<close>

definition process_context :: "ProcessRequest \<Rightarrow> Context" where
  "process_context r = \<lparr>
     cx_group_id = pq_group_id r,
     cx_incarnation_id = pq_incarnation_id r,
     cx_expected_current = native_expected_into_mls (pq_expected_previous_state r),
     cx_expected_base_sha256 = pq_expected_base_group_state_sha256 r,
     cx_expected_retention = pq_expected_retention r,
     cx_entries = map native_storage_entry_into_mls (sn_entries (pq_storage r)),
     cx_storage_format = sn_storage_format_version (pq_storage r)\<rparr>"

definition process_input :: "MlsReceiveKind \<Rightarrow> ProcessRequest \<Rightarrow> ReceiveInput" where
  "process_input kind r = \<lparr>
     ri_context = process_context r,
     ri_kind = kind,
     ri_wire = pq_message_bytes r,
     ri_wire_sha256 = pq_expected_message_sha256 r,
     ri_aad = pq_expected_aad r,
     ri_sender = native_leaf_into_mls (pq_expected_sender r),
     ri_message_state = native_expected_into_mls (pq_expected_message_state r),
     ri_resulting_state = native_expected_into_mls (pq_expected_resulting_state r)\<rparr>"

definition execute_process ::
  "(bytes \<Rightarrow> bytes) \<Rightarrow> ncbor \<Rightarrow> 'v storage_env \<Rightarrow> ('v, 'g, 'x) openmls \<Rightarrow> ProcessRequest
   \<Rightarrow> (MlsErrorCode + NativeReceiveSuccessV2) option" where
  "execute_process sha N E M r =
     (case (case pq_operation r of
              OpApplication \<Rightarrow> Inr Application
            | OpCommit \<Rightarrow> Inr Commit
            | OpWelcome \<Rightarrow> Inl UnsupportedOperation) of
        Inl e \<Rightarrow> Some (Inl e)
      | Inr kind \<Rightarrow>
      (case receive_inner sha (nc N) E M (process_input kind r) of
         Inl e \<Rightarrow> Some (Inl e)
       | Inr result \<Rightarrow>
           let m = rv_mutation result;
             sender = mls_leaf_into_native (rv_sender result);
             previous_roster = mls_roster_into_native (mu_previous m);
             resulting_roster = mls_roster_into_native (mu_resulting m);
             resulting_digest = mu_resulting_digest m;
             retention = mu_retention m;
             batch = mls_batch_into_native (mu_batch m) in
           case kind of
             Application \<Rightarrow> Some (Inr (ResApplication sender previous_roster resulting_roster resulting_digest
               (rv_message_epoch result)
               (case rv_plaintext result of Some p \<Rightarrow> p | None \<Rightarrow> []) batch retention))
           | Commit \<Rightarrow> Some (Inr (ResCommit (rv_message_epoch result) sender previous_roster
               resulting_roster resulting_digest batch retention))
           | Proposal \<Rightarrow> None))"

definition welcome_input :: "MlsGroupConfig \<Rightarrow> WelcomeRequest \<Rightarrow> JoinInput" where
  "welcome_input config r = \<lparr>
     ji_config = config,
     ji_incarnation_id = wq_incarnation_id r,
     ji_signer = wq_signer_bytes r,
     ji_welcome = wq_welcome_bytes r,
     ji_welcome_sha256 = wq_expected_welcome_sha256 r,
     ji_tree = wq_ratchet_tree_bytes r,
     ji_resulting = native_expected_into_mls (wq_expected_resulting_state r),
     ji_local_leaf = native_leaf_into_mls (wq_expected_local_leaf r),
     ji_target_key_package_sha256 = wq_expected_target_key_package_sha256 r,
     ji_entries = map native_storage_entry_into_mls (sn_entries (wq_storage r)),
     ji_storage_format = sn_storage_format_version (wq_storage r)\<rparr>"

definition execute_welcome ::
  "(bytes \<Rightarrow> bytes) \<Rightarrow> ncbor \<Rightarrow> 'v storage_env \<Rightarrow> ('v, 'g, 'x) openmls \<Rightarrow> u64 \<times> u64 \<Rightarrow> WelcomeRequest
   \<Rightarrow> (MlsErrorCode + NativeReceiveSuccessV2) option" where
  "execute_welcome sha N E M clock r =
     Some (bindE (profile (wq_retention r)) (\<lambda>config.
       bindE (join sha (nc N) E M clock (welcome_input config r)) (\<lambda>result.
       let m = jn_mutation result in
       Inr (ResWelcome (mls_leaf_into_native (jn_local_leaf result)) (mls_roster_into_native (mu_resulting m))
         (mu_resulting_digest m) (jn_consumed_key_package_sha256 result)
         (mls_batch_into_native (mu_batch m)) (mu_retention m)))))"

definition execute_request ::
  "(bytes \<Rightarrow> bytes) \<Rightarrow> ncbor \<Rightarrow> 'v storage_env \<Rightarrow> ('v, 'g, 'x) openmls \<Rightarrow> u64 \<times> u64
   \<Rightarrow> NativeReceiveRequestV2 \<Rightarrow> (MlsErrorCode + NativeReceiveSuccessV2) option" where
  "execute_request sha N E M clock request =
     (case request of
        ReqProcess r \<Rightarrow> execute_process sha N E M r
      | ReqWelcome r \<Rightarrow> execute_welcome sha N E M clock r)"

section \<open>Answers\<close>

definition encode_storage_batch :: "ncbor \<Rightarrow> NativeStorageBatchV2 \<Rightarrow> MlsErrorCode + bytes" where
  "encode_storage_batch N b =
     (if nb_storage_format_version b \<noteq> 1
         \<or> length (nb_upserts b) > NATIVE_RECEIVE_STORAGE_MAX_ENTRIES
         \<or> length (nb_deletes b) > NATIVE_RECEIVE_STORAGE_MAX_ENTRIES
         \<or> length (nb_deleted_group_ids b) > 8
      then Inl LimitExceeded
      else
        bindE (foldE add_entry_size 0 (nb_upserts b)) (\<lambda>acc.
        bindE (foldE (\<lambda>acc k.
                 bindE (validate_result_range k 1 NATIVE_RECEIVE_STORAGE_KEY_MAX_BYTES) (\<lambda>_.
                 ok_or (usize_checked_add acc (length k)) LimitExceeded)) acc (nb_deletes b)) (\<lambda>acc.
        bindE (foldE (\<lambda>acc g.
                 bindE (validate_exact_result_bytes g PROFILE_GROUP_ID_BYTES) (\<lambda>_.
                 ok_or (usize_checked_add acc (length g)) LimitExceeded)) acc (nb_deleted_group_ids b)) (\<lambda>acc.
        if acc > NATIVE_RECEIVE_STORAGE_MAX_BYTES then Inl LimitExceeded
        else Inr (cb_map N 4 @ cb_u8 N 0 @ cb_u32 (nc N) (nb_storage_format_version b)
          @ cb_u8 N 1 @ cb_array (nc N) (of_nat (length (nb_upserts b)))
          @ concat (map (encode_storage_entry N) (nb_upserts b))
          @ cb_u8 N 2 @ cb_array (nc N) (of_nat (length (nb_deletes b)))
          @ concat (map (cb_bytes (nc N)) (nb_deletes b))
          @ cb_u8 N 3 @ cb_array (nc N) (of_nat (length (nb_deleted_group_ids b)))
          @ concat (map (cb_bytes (nc N)) (nb_deleted_group_ids b)))))))"

fun encode_success :: "ncbor \<Rightarrow> NativeReceiveSuccessV2 \<Rightarrow> MlsErrorCode + bytes" where
  "encode_success N (ResApplication sender previous resulting digest message_epoch plaintext batch retention) =
     bindE (validate_result_bytes plaintext NATIVE_RECEIVE_PLAINTEXT_MAX_BYTES) (\<lambda>_.
     bindE (validate_exact_result_bytes digest SHA256_BYTES) (\<lambda>_.
     bindE (encode_pair_leaf N 0 sender) (\<lambda>sender.
     bindE (encode_pair_roster N 1 previous) (\<lambda>previous.
     bindE (encode_pair_roster N 2 resulting) (\<lambda>resulting.
     bindE (encode_storage_batch N batch) (\<lambda>batch.
     bindE (validate_retention retention) (\<lambda>_.
     Inr (cb_map N 8 @ sender @ previous @ resulting
       @ cb_u8 N 3 @ cb_bytes (nc N) digest @ cb_u8 N 4 @ cb_bytes (nc N) plaintext
       @ cb_u8 N 5 @ batch @ cb_u8 N 6 @ cb_u64 (nc N) message_epoch
       @ cb_u8 N 7 @ cb_u32 (nc N) retention))))))))"
| "encode_success N (ResCommit message_epoch sender previous resulting digest batch retention) =
     bindE (validate_exact_result_bytes digest SHA256_BYTES) (\<lambda>_.
     bindE (encode_pair_leaf N 0 sender) (\<lambda>sender.
     bindE (encode_pair_roster N 1 previous) (\<lambda>previous.
     bindE (encode_pair_roster N 2 resulting) (\<lambda>resulting.
     bindE (encode_storage_batch N batch) (\<lambda>batch.
     bindE (validate_retention retention) (\<lambda>_.
     Inr (cb_map N 7 @ sender @ previous @ resulting
       @ cb_u8 N 3 @ cb_bytes (nc N) digest
       @ cb_u8 N 4 @ batch @ cb_u8 N 5 @ cb_u64 (nc N) message_epoch
       @ cb_u8 N 6 @ cb_u32 (nc N) retention)))))))"
| "encode_success N (ResWelcome local_leaf resulting digest consumed batch retention) =
     bindE (validate_exact_result_bytes digest SHA256_BYTES) (\<lambda>_.
     bindE (validate_exact_result_bytes consumed SHA256_BYTES) (\<lambda>_.
     bindE (encode_pair_leaf N 0 local_leaf) (\<lambda>local_leaf.
     bindE (encode_pair_roster N 1 resulting) (\<lambda>resulting.
     bindE (encode_storage_batch N batch) (\<lambda>batch.
     bindE (validate_retention retention) (\<lambda>_.
     Inr (cb_map N 6 @ local_leaf @ resulting
       @ cb_u8 N 2 @ cb_bytes (nc N) digest @ cb_u8 N 3 @ cb_bytes (nc N) consumed
       @ cb_u8 N 4 @ batch @ cb_u8 N 5 @ cb_u32 (nc N) retention)))))))"

definition operation_byte :: "NativeReceiveOperationV2 option \<Rightarrow> byte" where
  "operation_byte operation = (case operation of Some v \<Rightarrow> operation_as_u8 v | None \<Rightarrow> 0)"

definition encode_native_receive_outcome_v2 ::
  "ncbor \<Rightarrow> NativeReceiveOperationV2 option \<Rightarrow> NativeReceiveOutcomeV2 \<Rightarrow> MlsErrorCode + bytes" where
  "encode_native_receive_outcome_v2 N operation outcome =
     (if no_state_applied outcome \<or> (no_result outcome \<noteq> None) = (no_error outcome \<noteq> None)
      then Inl InternalFailure
      else
        let actual_operation =
          (case no_result outcome of Some r \<Rightarrow> Some (success_operation r) | None \<Rightarrow> operation) in
        bindE (case no_result outcome of
                 Some result \<Rightarrow>
                   bindE (encode_success N result) (\<lambda>b.
                   Inr (cb_map N 3 @ cb_u8 N 0 @ cb_u16 (nc N) NATIVE_RECEIVE_CONTRACT_VERSION
                     @ cb_u8 N 1 @ cb_bool N False @ cb_u8 N 2 @ b))
               | None \<Rightarrow>
                   bindE (ok_or (no_error outcome) InternalFailure) (\<lambda>error.
                   Inr (cb_map N 3 @ cb_u8 N 0 @ cb_u16 (nc N) NATIVE_RECEIVE_CONTRACT_VERSION
                     @ cb_u8 N 1 @ cb_bool N False @ cb_u8 N 3 @ cb_map N 1 @ cb_u8 N 3
                     @ cb_u16 (nc N) (error_code error)))) (\<lambda>payload.
        native_encode_frame (operation_byte actual_operation) payload))"

definition operation_hint :: "bytes \<Rightarrow> NativeReceiveOperationV2 option" where
  "operation_hint frame =
     (if 6 < length frame
      then (case operation_from_u8 (frame ! 6) of Inr v \<Rightarrow> Some v | Inl _ \<Rightarrow> None) else None)"

definition encode_failure_fallback :: "NativeReceiveOperationV2 option \<Rightarrow> bytes" where
  "encode_failure_fallback operation =
     (let payload = [0xa3, 0x00, 0x02, 0x01, 0xf4, 0x03, 0xa1, 0x03, 0x18, 0xff] in
      FRAME_MAGIC @ be16 NATIVE_RECEIVE_CONTRACT_VERSION @ [operation_byte operation] @ [0]
        @ be32 (of_nat (length payload)) @ payload)"

definition encode_native_receive_failure_v2 ::
  "ncbor \<Rightarrow> NativeReceiveOperationV2 option \<Rightarrow> MlsErrorCode \<Rightarrow> bytes" where
  "encode_native_receive_failure_v2 N operation error =
     (case encode_native_receive_outcome_v2 N operation (outcome_failure error) of
        Inr frame \<Rightarrow> frame
      | Inl _ \<Rightarrow> encode_failure_fallback operation)"

definition outcome_of :: "(MlsErrorCode + NativeReceiveSuccessV2) option \<Rightarrow> NativeReceiveOutcomeV2" where
  "outcome_of r =
     (case r of
        Some (Inr result) \<Rightarrow> outcome_success result
      | Some (Inl error) \<Rightarrow> outcome_failure error
      | None \<Rightarrow> outcome_failure InternalFailure)"

definition execute_native_receive_v2 ::
  "(bytes \<Rightarrow> bytes) \<Rightarrow> ncbor \<Rightarrow> 'v storage_env \<Rightarrow> ('v, 'g, 'x) openmls \<Rightarrow> u64 \<times> u64 \<Rightarrow> bytes \<Rightarrow> bytes" where
  "execute_native_receive_v2 sha N E M clock frame =
     (let operation = operation_hint frame;
        outcome = outcome_of
          (case decode_native_receive_request_v2 N frame of
             Inl e \<Rightarrow> Some (Inl e)
           | Inr request \<Rightarrow> execute_request sha N E M clock request) in
      case encode_native_receive_outcome_v2 N operation outcome of
        Inr answer \<Rightarrow> answer
      | Inl error \<Rightarrow>
          (case encode_native_receive_outcome_v2 N operation (outcome_failure error) of
             Inr answer \<Rightarrow> answer
           | Inl _ \<Rightarrow> encode_failure_fallback operation))"

end
