(* ===== verification/NativeGrammar.thy ===== *)
theory NativeGrammar
  imports NativePreflight
begin

text \<open>
  The language of the preflight: items of the subset in their shortest encoding (\<open>put_item\<close>), nested
  at most six deep, of at most 32768 items, map keys in strict order (\<open>preflight_iff\<close>).
\<close>

section \<open>Items\<close>

datatype cbor_item =
    CUint u64
  | CBytes bytes
  | CArray "cbor_item list"
  | CMap "(u64 \<times> cbor_item) list"
  | CFalse | CTrue | CNull

text \<open>The shortest head: the five additional bits and the bytes that follow.\<close>

definition cbor_arg :: "u64 \<Rightarrow> byte \<times> bytes" where
  "cbor_arg n =
     (if n < 24 then (ucast n, [])
      else if n < 256 then (24, [ucast n])
      else if n < 65536 then (25, be16 (ucast n))
      else if n < 4294967296 then (26, be32 (ucast n))
      else (27, be64 n))"

definition cbor_head :: "byte \<Rightarrow> u64 \<Rightarrow> bytes" where
  "cbor_head major n = (push_bit 5 major + fst (cbor_arg n)) # snd (cbor_arg n)"

fun put_item :: "cbor_item \<Rightarrow> bytes" where
  "put_item (CUint n) = cbor_head 0 n"
| "put_item (CBytes b) = cbor_head 2 (of_nat (length b)) @ b"
| "put_item (CArray xs) = cbor_head 4 (of_nat (length xs)) @ concat (map put_item xs)"
| "put_item (CMap es) = cbor_head 5 (of_nat (length es)) @
     concat (map (\<lambda>(k, v). cbor_head 0 k @ put_item v) es)"
| "put_item CFalse = [0xf4]"
| "put_item CTrue = [0xf5]"
| "put_item CNull = [0xf6]"

definition put_pair :: "u64 \<times> cbor_item \<Rightarrow> bytes" where
  "put_pair = (\<lambda>(k, v). cbor_head 0 k @ put_item v)"

text \<open>The number of items, keys included, and the shape of an item at a given depth.\<close>

fun items :: "cbor_item \<Rightarrow> nat" where
  "items (CArray xs) = Suc (sum_list (map items xs))"
| "items (CMap es) = Suc (sum_list (map (\<lambda>(k, v). Suc (items v)) es))"
| "items _ = 1"

fun fits :: "nat \<Rightarrow> cbor_item \<Rightarrow> bool" where
  "fits d (CArray xs) = (d \<le> 6 \<and> length xs \<le> 4096 \<and> (\<forall>x \<in> set xs. fits (Suc d) x))"
| "fits d (CMap es) = (d \<le> 6 \<and> length es \<le> 32 \<and> sorted_wrt (<) (map fst es) \<and>
     (\<forall>e \<in> set es. fits (Suc d) (snd e)))"
| "fits d (CBytes b) = (d \<le> 6 \<and> length b \<le> 6 * 1024 * 1024)"
| "fits d _ = (d \<le> 6)"

lemma fits_depth: "fits d t \<Longrightarrow> d \<le> 6"
  by (cases t) auto

lemma items_pos: "0 < items t"
  by (cases t) auto

section \<open>Heads\<close>

lemma unat_less: "unat (w :: 'n::len word) < 2 ^ LENGTH('n)"
  by (rule unsigned_less)

lemma word_small_ucast:
  "(n :: u64) < 2 ^ 8 \<Longrightarrow> unat (ucast n :: byte) = unat n"
  "n < 2 ^ 16 \<Longrightarrow> unat (ucast n :: u16) = unat n"
  "n < 2 ^ 32 \<Longrightarrow> unat (ucast n :: u32) = unat n"
  by (simp_all add: unsigned_ucast_eq take_bit_nat_eq_self word_less_nat_alt)

lemma byte_split: "push_bit 5 (drop_bit 5 i) + (i AND 0x1f) = (i :: byte)"
proof -
  have "i AND 0x1f = take_bit 5 i" by (simp add: take_bit_eq_mask mask_eq_exp_minus_1)
  then show ?thesis by (simp add: bits_ident)
qed

lemma byte_parts:
  assumes "(m :: byte) < 8" "(a :: byte) < 32"
  shows "drop_bit 5 (push_bit 5 m + a) = m" "(push_bit 5 m + a) AND 0x1f = a"
proof -
  have u: "unat (push_bit 5 m + a) = 32 * unat m + unat a"
    using assms by (simp add: word_less_nat_alt unat_word_ariths push_bit_eq_mult)
  have "unat (drop_bit 5 (push_bit 5 m + a)) = unat m"
    using assms by (simp add: unat_drop_bit_eq drop_bit_eq_div u word_less_nat_alt unat_div_distrib)
  then show "drop_bit 5 (push_bit 5 m + a) = m" by (simp add: word_unat_eq_iff)
  have "(push_bit 5 m + a) AND 0x1f = take_bit 5 (push_bit 5 m + a)"
    by (simp add: take_bit_eq_mask mask_eq_exp_minus_1)
  also have "\<dots> = a"
    using assms by (simp add: word_unat_eq_iff unsigned_take_bit_eq take_bit_eq_mod u word_less_nat_alt unat_mod_distrib)
  finally show "(push_bit 5 m + a) AND 0x1f = a" .
qed

lemma drop_bit_5_less: "drop_bit 5 (i :: byte) < 8"
  using unat_less [of i] by (simp add: word_less_nat_alt unat_drop_bit_eq drop_bit_eq_div unat_div_distrib)

lemma cbor_arg_less: "fst (cbor_arg n) < 32"
proof -
  have "n < 24 \<Longrightarrow> (ucast n :: byte) < 32"
    by (simp add: word_less_nat_alt unsigned_ucast_eq take_bit_eq_mod)
  then show ?thesis by (simp add: cbor_arg_def)
qed

lemma head_parts:
  assumes "(m :: byte) < 8"
  shows "drop_bit 5 (push_bit 5 m + fst (cbor_arg n)) = m"
    "(push_bit 5 m + fst (cbor_arg n)) AND 0x1f = fst (cbor_arg n)"
  using byte_parts [OF assms cbor_arg_less] by simp_all

section \<open>The steps of the scanner\<close>

lemma pc_bytes_iff: "pc_bytes n (s) = (Inr b, t) \<longleftrightarrow>
    length b = n \<and> cp_rest s = b @ cp_rest t \<and> cp_items t = cp_items s"
  by (cases s; cases t) (auto simp: pc_bytes_def)

lemma pc_byte_iff: "pc_byte s = (Inr b, t) \<longleftrightarrow> cp_rest s = b # cp_rest t \<and> cp_items t = cp_items s"
  by (cases t) (auto simp: pc_byte_def run_bindS_ok_iff pc_bytes_iff length_Suc_conv)

lemma pc_advance_iff: "pc_advance n s = (Inr u, t) \<longleftrightarrow>
    (\<exists>b. length b = n \<and> cp_rest s = b @ cp_rest t \<and> cp_items t = cp_items s)"
  by (auto simp: pc_advance_def run_bindS_ok_iff pc_bytes_iff)

lemma count_one_iff: "count_one s = (Inr u, t) \<longleftrightarrow>
    cp_rest t = cp_rest s \<and> cp_items t = Suc (cp_items s) \<and> cp_items t \<le> PREFLIGHT_MAX_ITEMS"
  by (cases s; cases t)
    (auto simp: count_one_def usize_checked_add_def PREFLIGHT_MAX_ITEMS_def split: if_splits)

lemma word_of_be_ex:
  assumes "LENGTH('n) = 8 * k"
  shows "(\<exists>b. length b = k \<and> s = b @ r \<and> P (word_of_be b :: 'n::len word)) \<longleftrightarrow> (\<exists>v. s = be_bytes k v @ r \<and> P v)"
    (is "?L \<longleftrightarrow> ?R")
proof
  assume ?L
  then obtain b where b: "length b = k" "s = b @ r" "P (word_of_be b :: 'n word)" by blast
  have "be_bytes k (word_of_be b :: 'n word) = b" by (rule be_bytes_word_of_be [OF assms b(1)])
  with b show ?R by metis
next
  assume ?R
  then obtain v :: "'n word" where "s = be_bytes k v @ r" "P v" by blast
  then show ?L using word_of_be_bytes [OF assms, of v] by (intro exI [of _ "be_bytes k v"]) simp
qed

lemma ucast_less:
  "n < 24 \<Longrightarrow> (ucast (n :: byte) :: u64) < 24" "(ucast (n :: byte) :: u64) < 256"
  "(ucast (v :: u16) :: u64) < 65536" "(ucast (w :: u32) :: u64) < 4294967296"
  using unat_less [of n] unat_less [of v] unat_less [of w]
  by (simp_all add: word_less_nat_alt unsigned_ucast_eq take_bit_nat_eq_self)

lemma ucast_back:
  "(ucast (ucast (n :: byte) :: u64) :: byte) = n"
  "(ucast (ucast (v :: u16) :: u64) :: u16) = v" "(ucast (ucast (w :: u32) :: u64) :: u32) = w"
  by (simp_all add: ucast_up_ucast_id is_up)

lemma ucast_forth:
  "(n :: u64) < 256 \<Longrightarrow> (ucast (ucast n :: byte) :: u64) = n"
  "n < 65536 \<Longrightarrow> (ucast (ucast n :: u16) :: u64) = n"
  "n < 4294967296 \<Longrightarrow> (ucast (ucast n :: u32) :: u64) = n"
  by (simp_all add: word_unat_eq_iff word_less_nat_alt unsigned_ucast_eq unsigned_take_bit_eq take_bit_nat_eq_self)

lemma ucast_mono:
  "(ucast (n :: byte) :: u64) < 24 \<longleftrightarrow> n < 24" "(ucast (v :: u16) :: u64) \<le> 255 \<longleftrightarrow> v \<le> 255"
  "(ucast (w :: u32) :: u64) \<le> 65535 \<longleftrightarrow> w \<le> 65535"
  using unat_less [of n] unat_less [of v] unat_less [of w]
  by (simp_all add: word_less_nat_alt word_le_nat_alt unsigned_ucast_eq take_bit_nat_eq_self)

lemma cbor_arg_iff:
  "a = fst (cbor_arg n) \<and> R = snd (cbor_arg n) @ q \<longleftrightarrow>
    a < 24 \<and> n = ucast a \<and> R = q \<or>
    a = 24 \<and> \<not> n < 24 \<and> n < 256 \<and> R = ucast n # q \<or>
    a = 25 \<and> \<not> n < 256 \<and> n < 65536 \<and> R = be16 (ucast n) @ q \<or>
    a = 26 \<and> \<not> n < 65536 \<and> n < 4294967296 \<and> R = be32 (ucast n) @ q \<or>
    a = 27 \<and> \<not> n < 4294967296 \<and> R = be64 n @ q"
proof -
  have small: "(ucast n :: byte) < 24 \<and> ucast (ucast n :: byte) = n" if "n < 24"
    using that ucast_forth(1) [of n] ucast_mono(1) [of "ucast n"] by (simp add: word_less_nat_alt)
  have mono: "n < 24 \<Longrightarrow> n < 256" "n < 256 \<Longrightarrow> n < 65536" "n < 65536 \<Longrightarrow> n < 4294967296"
    by (simp_all add: word_less_nat_alt)
  consider "n < 24" | "\<not> n < 24" "n < 256" | "\<not> n < 256" "n < 65536" | "\<not> n < 65536" "n < 4294967296"
    | "\<not> n < 4294967296" by blast
  then show ?thesis
  proof cases
    case 1
    with small mono show ?thesis by (auto simp: cbor_arg_def ucast_back)
  next
    case 2
    with mono show ?thesis by (auto simp: cbor_arg_def ucast_less)
  next
    case 3
    with mono show ?thesis by (auto simp: cbor_arg_def ucast_less)
  next
    case 4
    with mono show ?thesis by (auto simp: cbor_arg_def ucast_less)
  next
    case 5
    with mono show ?thesis by (auto simp: cbor_arg_def ucast_less)
  qed
qed

lemma wide_arguments:
  "(\<exists>b. length b = 2 \<and> R = b @ q \<and> \<not> word_of_be b \<le> (255 :: u16) \<and> n = ucast (word_of_be b :: u16)) \<longleftrightarrow>
    \<not> n < 256 \<and> n < 65536 \<and> R = be16 (ucast n) @ q"
  "(\<exists>b. length b = 4 \<and> R = b @ q \<and> \<not> word_of_be b \<le> (65535 :: u32) \<and> n = ucast (word_of_be b :: u32)) \<longleftrightarrow>
    \<not> n < 65536 \<and> n < 4294967296 \<and> R = be32 (ucast n) @ q"
  "(\<exists>b. length b = 8 \<and> R = b @ q \<and> \<not> word_of_be b \<le> (4294967295 :: u64) \<and> n = (word_of_be b :: u64)) \<longleftrightarrow>
    \<not> n < 4294967296 \<and> R = be64 n @ q"
proof -
  have le: "\<not> (v :: u16) \<le> 255 \<longleftrightarrow> \<not> (ucast v :: u64) < 256"
    "\<not> (w :: u32) \<le> 65535 \<longleftrightarrow> \<not> (ucast w :: u64) < 65536" "\<not> (x :: u64) \<le> 4294967295 \<longleftrightarrow> \<not> x < 4294967296"
    for v w x
    using unat_less [of v] unat_less [of w]
    by (simp_all add: word_less_nat_alt word_le_nat_alt unsigned_ucast_eq take_bit_nat_eq_self) linarith+
  have "(\<exists>b. length b = 2 \<and> R = b @ q \<and> \<not> word_of_be b \<le> (255 :: u16) \<and> n = ucast (word_of_be b :: u16)) \<longleftrightarrow>
      (\<exists>v. R = be_bytes 2 v @ q \<and> \<not> v \<le> (255 :: u16) \<and> n = ucast v)"
    by (rule word_of_be_ex [where P = "\<lambda>v :: u16. \<not> v \<le> 255 \<and> n = ucast v"]) simp
  also have "\<dots> \<longleftrightarrow> \<not> n < 256 \<and> n < 65536 \<and> R = be16 (ucast n) @ q"
    unfolding be16_def le by (auto simp: ucast_back ucast_forth ucast_less)
  finally show "(\<exists>b. length b = 2 \<and> R = b @ q \<and> \<not> word_of_be b \<le> (255 :: u16) \<and> n = ucast (word_of_be b :: u16)) \<longleftrightarrow>
    \<not> n < 256 \<and> n < 65536 \<and> R = be16 (ucast n) @ q" .
  have "(\<exists>b. length b = 4 \<and> R = b @ q \<and> \<not> word_of_be b \<le> (65535 :: u32) \<and> n = ucast (word_of_be b :: u32)) \<longleftrightarrow>
      (\<exists>v. R = be_bytes 4 v @ q \<and> \<not> v \<le> (65535 :: u32) \<and> n = ucast v)"
    by (rule word_of_be_ex [where P = "\<lambda>v :: u32. \<not> v \<le> 65535 \<and> n = ucast v"]) simp
  also have "\<dots> \<longleftrightarrow> \<not> n < 65536 \<and> n < 4294967296 \<and> R = be32 (ucast n) @ q"
    unfolding be32_def le by (auto simp: ucast_back ucast_forth ucast_less)
  finally show "(\<exists>b. length b = 4 \<and> R = b @ q \<and> \<not> word_of_be b \<le> (65535 :: u32) \<and> n = ucast (word_of_be b :: u32)) \<longleftrightarrow>
    \<not> n < 65536 \<and> n < 4294967296 \<and> R = be32 (ucast n) @ q" .
  have "(\<exists>b. length b = 8 \<and> R = b @ q \<and> \<not> word_of_be b \<le> (4294967295 :: u64) \<and> n = (word_of_be b :: u64)) \<longleftrightarrow>
      (\<exists>v. R = be_bytes 8 v @ q \<and> \<not> v \<le> (4294967295 :: u64) \<and> n = v)"
    by (rule word_of_be_ex [where P = "\<lambda>v :: u64. \<not> v \<le> 4294967295 \<and> n = v"]) simp
  also have "\<dots> \<longleftrightarrow> \<not> n < 4294967296 \<and> R = be64 n @ q"
    unfolding be64_def le by (auto simp: ucast_back ucast_forth ucast_less)
  finally show "(\<exists>b. length b = 8 \<and> R = b @ q \<and> \<not> word_of_be b \<le> (4294967295 :: u64) \<and> n = (word_of_be b :: u64)) \<longleftrightarrow>
    \<not> n < 4294967296 \<and> R = be64 n @ q" .
qed

lemma bytes_then_iff:
  "bindS (pc_bytes k) (\<lambda>b. if P b then liftS (Inl e) else returnS (f b)) s = (Inr n, t) \<longleftrightarrow>
    (\<exists>b. length b = k \<and> cp_rest s = b @ cp_rest t \<and> \<not> P b \<and> n = f b) \<and> cp_items t = cp_items s"
  by (auto simp: run_bindS_ok_iff pc_bytes_iff)

lemma byte_then_iff:
  "bindS pc_byte (\<lambda>b. if P b then liftS (Inl e) else returnS (f b)) s = (Inr n, t) \<longleftrightarrow>
    (\<exists>b. cp_rest s = b # cp_rest t \<and> \<not> P b \<and> n = f b) \<and> cp_items t = cp_items s"
  by (auto simp: run_bindS_ok_iff pc_byte_iff)

lemma pc_argument_iff:
  "pc_argument a s = (Inr n, t) \<longleftrightarrow>
    a = fst (cbor_arg n) \<and> cp_rest s = snd (cbor_arg n) @ cp_rest t \<and> cp_items t = cp_items s"
proof -
  have byte: "(\<exists>v. cp_rest s = v # cp_rest t \<and> \<not> v < 24 \<and> n = ucast (v :: byte)) \<longleftrightarrow>
      \<not> n < 24 \<and> n < 256 \<and> cp_rest s = ucast n # cp_rest t"
    using ucast_forth(1) [of n] ucast_mono(1) by (metis ucast_back(1) ucast_less(2))
  have eq: "s = t \<longleftrightarrow> cp_rest s = cp_rest t \<and> cp_items t = cp_items s" by (cases s; cases t) auto
  note arg = cbor_arg_iff [of a n "cp_rest s" "cp_rest t"]
  consider "a < 24" | "a = 24" | "a = 25" | "a = 26" | "a = 27" | "\<not> a < 24" "a \<notin> {24, 25, 26, 27}" by blast
  then show ?thesis
  proof cases
    case 1
    then have "a \<noteq> 24 \<and> a \<noteq> 25 \<and> a \<noteq> 26 \<and> a \<noteq> 27" by auto
    with 1 have "pc_argument a = returnS (ucast a)" by (simp add: pc_argument_def)
    with 1 \<open>a \<noteq> 24 \<and> _\<close> arg eq show ?thesis by auto
  next
    case 2
    then have "pc_argument a = bindS pc_byte (\<lambda>v. if v < 24 then liftS (Inl NoncanonicalEncoding) else returnS (ucast v))"
      by (simp add: pc_argument_def)
    with 2 arg show ?thesis by (auto simp: byte_then_iff byte)
  next
    case 3
    then have "pc_argument a = bindS (pc_bytes 2) (\<lambda>b. if (word_of_be b :: u16) \<le> 255
        then liftS (Inl NoncanonicalEncoding) else returnS (ucast (word_of_be b :: u16)))"
      by (simp add: pc_argument_def Let_def)
    with 3 arg show ?thesis by (auto simp: bytes_then_iff wide_arguments)
  next
    case 4
    then have "pc_argument a = bindS (pc_bytes 4) (\<lambda>b. if (word_of_be b :: u32) \<le> 65535
        then liftS (Inl NoncanonicalEncoding) else returnS (ucast (word_of_be b :: u32)))"
      by (simp add: pc_argument_def Let_def)
    with 4 arg show ?thesis by (auto simp: bytes_then_iff wide_arguments)
  next
    case 5
    then have "pc_argument a = bindS (pc_bytes 8) (\<lambda>b. if (word_of_be b :: u64) \<le> 4294967295
        then liftS (Inl NoncanonicalEncoding) else returnS (word_of_be b :: u64))"
      by (simp add: pc_argument_def Let_def)
    with 5 arg show ?thesis by (auto simp: bytes_then_iff wide_arguments)
  next
    case 6
    then have "pc_argument a = liftS (Inl NoncanonicalEncoding)" by (simp add: pc_argument_def)
    with 6 arg show ?thesis by auto
  qed
qed

lemma container_length_iff: "container_length a mx s = (Inr k, t) \<longleftrightarrow>
    (\<exists>n. pc_argument a s = (Inr n, t) \<and> unat n \<le> mx \<and> k = unat n)"
  unfolding container_length_def run_bindS_ok_iff if_liftS_Inl_iff returnS_ok_iff by (auto simp: not_less)

section \<open>The scanner accepts the items\<close>

text \<open>A state as the rest of the input and the count, and what reading a head means.\<close>

lemma head_iff:
  assumes "m < 8"
  shows "(\<exists>i s'. pc_byte s = (Inr i, s') \<and> drop_bit 5 i = m \<and> pc_argument (i AND 0x1f) s' = (Inr n, t)) \<longleftrightarrow>
    cp_rest s = cbor_head m n @ cp_rest t \<and> cp_items t = cp_items s"
proof
  assume "\<exists>i s'. pc_byte s = (Inr i, s') \<and> drop_bit 5 i = m \<and> pc_argument (i AND 0x1f) s' = (Inr n, t)"
  then obtain i :: byte and s' :: CborPreflight where *: "cp_rest s = i # cp_rest s'" "cp_items s' = cp_items s" "drop_bit 5 i = m"
    "i AND 0x1f = fst (cbor_arg n)" "cp_rest s' = snd (cbor_arg n) @ cp_rest t" "cp_items t = cp_items s'"
    unfolding pc_byte_iff pc_argument_iff by blast
  then have "i = push_bit 5 m + fst (cbor_arg n)" using byte_split [of i] by simp
  with * show "cp_rest s = cbor_head m n @ cp_rest t \<and> cp_items t = cp_items s" by (simp add: cbor_head_def)
next
  assume a: "cp_rest s = cbor_head m n @ cp_rest t \<and> cp_items t = cp_items s"
  let ?i = "push_bit 5 m + fst (cbor_arg n)" and ?s = "s\<lparr>cp_rest := snd (cbor_arg n) @ cp_rest t\<rparr>"
  have "pc_byte s = (Inr ?i, ?s)" using a by (simp add: pc_byte_iff cbor_head_def)
  moreover have "pc_argument (?i AND 0x1f) ?s = (Inr n, t)"
    using a by (simp add: pc_argument_iff head_parts(2) [OF assms])
  ultimately show "\<exists>i s'. pc_byte s = (Inr i, s') \<and> drop_bit 5 i = m \<and> pc_argument (i AND 0x1f) s' = (Inr n, t)"
    using head_parts(1) [OF assms] by blast
qed

definition accepted :: "bytes \<Rightarrow> nat \<Rightarrow> CborPreflight \<Rightarrow> CborPreflight \<Rightarrow> bool" where
  "accepted b k s t \<longleftrightarrow> cp_rest s = b @ cp_rest t \<and> cp_items t = cp_items s + k \<and>
     (k = 0 \<or> cp_items t \<le> PREFLIGHT_MAX_ITEMS)"

lemma accepted_append:
  "accepted (b @ c) (k + l) s t \<longleftrightarrow> (\<exists>m. accepted b k s m \<and> accepted c l m t)"
proof
  assume "accepted (b @ c) (k + l) s t"
  then show "\<exists>m. accepted b k s m \<and> accepted c l m t"
    by (intro exI [of _ "\<lparr>cp_rest = c @ cp_rest t, cp_items = cp_items s + k\<rparr>"]) (auto simp: accepted_def)
qed (auto simp: accepted_def)

lemma accepted_Nil: "accepted [] 0 s t \<longleftrightarrow> s = t"
  by (cases s; cases t) (auto simp: accepted_def)

definition counted :: "CborPreflight \<Rightarrow> CborPreflight" where
  "counted s = s\<lparr>cp_items := Suc (cp_items s)\<rparr>"

lemma counted_sel [simp]: "cp_rest (counted s) = cp_rest s" "cp_items (counted s) = Suc (cp_items s)"
  by (simp_all add: counted_def)

lemma count_one_counted: "count_one s = (Inr u, t) \<longleftrightarrow> t = counted s \<and> Suc (cp_items s) \<le> PREFLIGHT_MAX_ITEMS"
  by (cases s; cases t) (auto simp: count_one_iff counted_def)

lemma accepted_head:
  "accepted (h @ c) (Suc l) s t \<longleftrightarrow> Suc (cp_items s) \<le> PREFLIGHT_MAX_ITEMS \<and>
    (\<exists>m. (cp_rest (counted s) = h @ cp_rest m \<and> cp_items m = cp_items (counted s)) \<and> accepted c l m t)"
proof
  assume "accepted (h @ c) (Suc l) s t"
  then show "Suc (cp_items s) \<le> PREFLIGHT_MAX_ITEMS \<and>
    (\<exists>m. (cp_rest (counted s) = h @ cp_rest m \<and> cp_items m = cp_items (counted s)) \<and> accepted c l m t)"
    by (auto simp: accepted_def intro!: exI [of _ "\<lparr>cp_rest = c @ cp_rest t, cp_items = Suc (cp_items s)\<rparr>"])
qed (auto simp: accepted_def)

lemma branch_iff:
  assumes "m < 8"
  shows "(\<exists>i s'. pc_byte s = (Inr i, s') \<and> drop_bit 5 i = m \<and> (\<exists>n t. pc_argument (i AND 0x1f) s' = (Inr n, t) \<and> Q n t)) \<longleftrightarrow>
    (\<exists>n t. (cp_rest s = cbor_head m n @ cp_rest t \<and> cp_items t = cp_items s) \<and> Q n t)"
  unfolding head_iff [OF assms, symmetric] by blast

lemma simple_iff:
  "(\<exists>i. pc_byte s = (Inr i, t) \<and> drop_bit 5 i = 7 \<and> (i AND 0x1f = 20 \<or> i AND 0x1f = 21 \<or> i AND 0x1f = 22)) \<longleftrightarrow>
    (\<exists>b \<in> {0xf4, 0xf5, 0xf6}. cp_rest s = [b] @ cp_rest t \<and> cp_items t = cp_items s)"
proof -
  have "(drop_bit 5 i = 7 \<and> (i AND 0x1f = 20 \<or> i AND 0x1f = 21 \<or> i AND 0x1f = 22)) \<longleftrightarrow> i \<in> {0xf4, 0xf5, 0xf6}" for i :: byte
  proof
    assume "drop_bit 5 i = 7 \<and> (i AND 0x1f = 20 \<or> i AND 0x1f = 21 \<or> i AND 0x1f = 22)"
    then show "i \<in> {0xf4, 0xf5, 0xf6}" using byte_split [of i] by (auto simp: push_bit_eq_mult)
  next
    assume "i \<in> {0xf4, 0xf5, 0xf6}"
    then show "drop_bit 5 i = 7 \<and> (i AND 0x1f = 20 \<or> i AND 0x1f = 21 \<or> i AND 0x1f = 22)"
      by auto
  qed
  then show ?thesis by (auto simp: pc_byte_iff)
qed

text \<open>The value of each kind.\<close>

definition scan_kind :: "nat \<Rightarrow> byte \<Rightarrow> unit preflight" where
  "scan_kind depth initial =
     (let major = drop_bit 5 initial; additional = initial AND 0x1f in
      if major = 0 then bindS (pc_argument additional) (\<lambda>_. returnS ())
      else if major = 2 then
        bindS (pc_argument additional) (\<lambda>n.
        if unat n > NATIVE_RECEIVE_STORAGE_MAX_BYTES then liftS (Inl LimitExceeded)
        else pc_advance (unat n))
      else if major = 4 then
        bindS (container_length additional NATIVE_RECEIVE_STORAGE_MAX_ENTRIES) (\<lambda>n.
        pc_elements n (depth + 1))
      else if major = 5 then
        bindS (container_length additional PREFLIGHT_MAX_MAP_ENTRIES) (\<lambda>n.
        pc_entries n (depth + 1) None)
      else if major = 7 \<and> (additional = 20 \<or> additional = 21 \<or> additional = 22) then returnS ()
      else liftS (Inl NoncanonicalEncoding))"

lemma pc_value_scan: "pc_value depth =
    (if depth > PREFLIGHT_MAX_DEPTH then liftS (Inl LimitExceeded)
     else bindS count_one (\<lambda>_. bindS pc_byte (scan_kind depth)))"
  unfolding pc_value.simps scan_kind_def [abs_def] ..

lemma bytes_scan_iff:
  "bindS (pc_argument a) (\<lambda>n. if unat n > mx then liftS (Inl e) else pc_advance (unat n)) s = (Inr u, t) \<longleftrightarrow>
    (\<exists>n m. pc_argument a s = (Inr n, m) \<and> unat n \<le> mx \<and> pc_advance (unat n) m = (Inr u, t))"
  unfolding run_bindS_ok_iff if_liftS_Inl_iff by (auto simp: not_less)

lemma container_scan_iff:
  "bindS (container_length a mx) f s = (Inr u, t) \<longleftrightarrow>
    (\<exists>n m. pc_argument a s = (Inr n, m) \<and> unat n \<le> mx \<and> f (unat n) m = (Inr u, t))"
  by (auto simp: run_bindS_ok_iff container_length_iff)

lemma scan_kind_iff:
  "scan_kind depth i s = (Inr u, t) \<longleftrightarrow>
    drop_bit 5 i = 0 \<and> (\<exists>n m. pc_argument (i AND 0x1f) s = (Inr n, m) \<and> m = t) \<or>
    drop_bit 5 i = 2 \<and> (\<exists>n m. pc_argument (i AND 0x1f) s = (Inr n, m) \<and>
      unat n \<le> NATIVE_RECEIVE_STORAGE_MAX_BYTES \<and> pc_advance (unat n) m = (Inr (), t)) \<or>
    drop_bit 5 i = 4 \<and> (\<exists>n m. pc_argument (i AND 0x1f) s = (Inr n, m) \<and>
      unat n \<le> NATIVE_RECEIVE_STORAGE_MAX_ENTRIES \<and> pc_elements (unat n) (Suc depth) m = (Inr (), t)) \<or>
    drop_bit 5 i = 5 \<and> (\<exists>n m. pc_argument (i AND 0x1f) s = (Inr n, m) \<and>
      unat n \<le> PREFLIGHT_MAX_MAP_ENTRIES \<and> pc_entries (unat n) (Suc depth) None m = (Inr (), t)) \<or>
    drop_bit 5 i = 7 \<and> (i AND 0x1f = 20 \<or> i AND 0x1f = 21 \<or> i AND 0x1f = 22) \<and> s = t"
proof -
  define major where "major = drop_bit 5 i"
  define a where "a = i AND 0x1f"
  have k: "scan_kind depth i =
     (if major = 0 then bindS (pc_argument a) (\<lambda>_. returnS ())
      else if major = 2 then bindS (pc_argument a) (\<lambda>n.
        if unat n > NATIVE_RECEIVE_STORAGE_MAX_BYTES then liftS (Inl LimitExceeded) else pc_advance (unat n))
      else if major = 4 then bindS (container_length a NATIVE_RECEIVE_STORAGE_MAX_ENTRIES) (\<lambda>n. pc_elements n (Suc depth))
      else if major = 5 then bindS (container_length a PREFLIGHT_MAX_MAP_ENTRIES) (\<lambda>n. pc_entries n (Suc depth) None)
      else if major = 7 \<and> (a = 20 \<or> a = 21 \<or> a = 22) then returnS () else liftS (Inl NoncanonicalEncoding))"
    by (simp add: scan_kind_def Let_def major_def a_def)
  have r: "bindS (pc_argument a) (\<lambda>_. returnS ()) s = (Inr (), t) \<longleftrightarrow> (\<exists>n m. pc_argument a s = (Inr n, m) \<and> m = t)"
    by (auto simp: run_bindS_ok_iff)
  show ?thesis
    unfolding k major_def [symmetric] a_def [symmetric] by (simp add: r bytes_scan_iff container_scan_iff)
qed

lemma pc_value_cases:
  "pc_value depth s = (Inr u, t) \<longleftrightarrow> depth \<le> 6 \<and> Suc (cp_items s) \<le> PREFLIGHT_MAX_ITEMS \<and>
    ((\<exists>n. cp_rest (counted s) = cbor_head 0 n @ cp_rest t \<and> cp_items t = cp_items (counted s)) \<or>
     (\<exists>n m. (cp_rest (counted s) = cbor_head 2 n @ cp_rest m \<and> cp_items m = cp_items (counted s)) \<and>
        unat n \<le> NATIVE_RECEIVE_STORAGE_MAX_BYTES \<and> pc_advance (unat n) m = (Inr (), t)) \<or>
     (\<exists>n m. (cp_rest (counted s) = cbor_head 4 n @ cp_rest m \<and> cp_items m = cp_items (counted s)) \<and>
        unat n \<le> NATIVE_RECEIVE_STORAGE_MAX_ENTRIES \<and> pc_elements (unat n) (Suc depth) m = (Inr (), t)) \<or>
     (\<exists>n m. (cp_rest (counted s) = cbor_head 5 n @ cp_rest m \<and> cp_items m = cp_items (counted s)) \<and>
        unat n \<le> PREFLIGHT_MAX_MAP_ENTRIES \<and> pc_entries (unat n) (Suc depth) None m = (Inr (), t)) \<or>
     (\<exists>b \<in> {0xf4, 0xf5, 0xf6}. cp_rest (counted s) = [b] @ cp_rest t \<and> cp_items t = cp_items (counted s)))"
proof (cases "depth \<le> 6")
  case False
  then show ?thesis by (simp add: pc_value_scan PREFLIGHT_MAX_DEPTH_def)
next
  case True
  have m: "(0 :: byte) < 8" "(2 :: byte) < 8" "(4 :: byte) < 8" "(5 :: byte) < 8" by simp_all
  from True have "pc_value depth s = (Inr u, t) \<longleftrightarrow> Suc (cp_items s) \<le> PREFLIGHT_MAX_ITEMS \<and>
      (\<exists>i m. pc_byte (counted s) = (Inr i, m) \<and> scan_kind depth i m = (Inr u, t))"
    by (auto simp: pc_value_scan PREFLIGHT_MAX_DEPTH_def run_bindS_ok_iff count_one_counted)
  also have "(\<exists>i m. pc_byte (counted s) = (Inr i, m) \<and> scan_kind depth i m = (Inr u, t)) \<longleftrightarrow>
     (\<exists>i m. pc_byte (counted s) = (Inr i, m) \<and> drop_bit 5 i = 0 \<and> (\<exists>n k. pc_argument (i AND 0x1f) m = (Inr n, k) \<and> k = t)) \<or>
     (\<exists>i m. pc_byte (counted s) = (Inr i, m) \<and> drop_bit 5 i = 2 \<and> (\<exists>n k. pc_argument (i AND 0x1f) m = (Inr n, k) \<and>
        unat n \<le> NATIVE_RECEIVE_STORAGE_MAX_BYTES \<and> pc_advance (unat n) k = (Inr (), t))) \<or>
     (\<exists>i m. pc_byte (counted s) = (Inr i, m) \<and> drop_bit 5 i = 4 \<and> (\<exists>n k. pc_argument (i AND 0x1f) m = (Inr n, k) \<and>
        unat n \<le> NATIVE_RECEIVE_STORAGE_MAX_ENTRIES \<and> pc_elements (unat n) (Suc depth) k = (Inr (), t))) \<or>
     (\<exists>i m. pc_byte (counted s) = (Inr i, m) \<and> drop_bit 5 i = 5 \<and> (\<exists>n k. pc_argument (i AND 0x1f) m = (Inr n, k) \<and>
        unat n \<le> PREFLIGHT_MAX_MAP_ENTRIES \<and> pc_entries (unat n) (Suc depth) None k = (Inr (), t))) \<or>
     (\<exists>i. pc_byte (counted s) = (Inr i, t) \<and> drop_bit 5 i = 7 \<and> (i AND 0x1f = 20 \<or> i AND 0x1f = 21 \<or> i AND 0x1f = 22))"
    unfolding scan_kind_iff by blast
  finally show ?thesis
    unfolding simple_iff branch_iff [OF m(1)] branch_iff [OF m(2)] branch_iff [OF m(3)] branch_iff [OF m(4)]
    using True by blast
qed

lemma count_key_iff:
  "(\<exists>m. (cp_rest s = h @ cp_rest m \<and> cp_items m = cp_items s) \<and>
     (\<exists>k. count_one m = (Inr (), k) \<and> Q k)) \<longleftrightarrow> (\<exists>k. accepted h 1 s k \<and> Q k)"
proof
  assume "\<exists>k. accepted h 1 s k \<and> Q k"
  then obtain k where "accepted h 1 s k" "Q k" by blast
  then show "\<exists>m. (cp_rest s = h @ cp_rest m \<and> cp_items m = cp_items s) \<and> (\<exists>k. count_one m = (Inr (), k) \<and> Q k)"
    by (intro exI [of _ "k\<lparr>cp_items := cp_items s\<rparr>"]) (auto simp: accepted_def count_one_iff intro!: exI [of _ k])
next
  assume "\<exists>m. (cp_rest s = h @ cp_rest m \<and> cp_items m = cp_items s) \<and> (\<exists>k. count_one m = (Inr (), k) \<and> Q k)"
  then obtain m k where "cp_rest s = h @ cp_rest m" "cp_items m = cp_items s" "count_one m = (Inr (), k)" "Q k" by blast
  then show "\<exists>k. accepted h 1 s k \<and> Q k" by (intro exI [of _ k]) (simp add: accepted_def count_one_iff)
qed

definition follows :: "u64 option \<Rightarrow> u64 \<Rightarrow> bool" where
  "follows previous key = (case previous of Some p \<Rightarrow> p < key | None \<Rightarrow> True)"

lemma pc_entries_Suc:
  "pc_entries (Suc n) depth previous s = (Inr u, t) \<longleftrightarrow>
    (\<exists>key m v. follows previous key \<and> accepted (cbor_head 0 key) 1 s m \<and>
       pc_value depth m = (Inr (), v) \<and> pc_entries n depth (Some key) v = (Inr (), t))"
proof -
  have f: "\<not> (case previous of Some p \<Rightarrow> key \<le> p | None \<Rightarrow> False) \<longleftrightarrow> follows previous key" for key
    by (auto simp: follows_def not_le split: option.split)
  have m: "(0 :: byte) < 8" by simp
  have "pc_entries (Suc n) depth previous s = (Inr u, t) \<longleftrightarrow>
      (\<exists>i m. pc_byte s = (Inr i, m) \<and> drop_bit 5 i = 0 \<and> (\<exists>key k. pc_argument (i AND 0x1f) m = (Inr key, k) \<and>
        (follows previous key \<and> (\<exists>c. count_one k = (Inr (), c) \<and>
          (\<exists>v. pc_value depth c = (Inr (), v) \<and> pc_entries n depth (Some key) v = (Inr (), t))))))"
    unfolding pc_entries.simps run_bindS_ok_iff if_liftS_Inl_iff f not_not by simp
  also have "\<dots> \<longleftrightarrow> (\<exists>key. follows previous key \<and> (\<exists>m. (cp_rest s = cbor_head 0 key @ cp_rest m \<and> cp_items m = cp_items s) \<and>
        (\<exists>c. count_one m = (Inr (), c) \<and>
          (\<exists>v. pc_value depth c = (Inr (), v) \<and> pc_entries n depth (Some key) v = (Inr (), t)))))"
    unfolding branch_iff [OF m] by blast
  finally show ?thesis unfolding count_key_iff by blast
qed

definition reads :: "nat \<Rightarrow> bool" where
  "reads d \<longleftrightarrow> (\<forall>s t. pc_value d s = (Inr (), t) \<longleftrightarrow> (\<exists>x. fits d x \<and> accepted (put_item x) (items x) s t))"

lemma elements_iff:
  assumes "reads d"
  shows "pc_elements n d s = (Inr (), t) \<longleftrightarrow> (\<exists>xs. length xs = n \<and> (\<forall>x \<in> set xs. fits d x) \<and>
    accepted (concat (map put_item xs)) (sum_list (map items xs)) s t)"
proof (induction n arbitrary: s)
  case 0
  show ?case by (auto simp: accepted_Nil)
next
  case (Suc n)
  have v: "pc_value d s = (Inr (), m) \<longleftrightarrow> (\<exists>x. fits d x \<and> accepted (put_item x) (items x) s m)" for s m
    using assms by (simp add: reads_def)
  have "pc_elements (Suc n) d s = (Inr (), t) \<longleftrightarrow>
      (\<exists>m. pc_value d s = (Inr (), m) \<and> pc_elements n d m = (Inr (), t))"
    by (simp add: run_bindS_ok_iff)
  also have "\<dots> \<longleftrightarrow> (\<exists>x m. (fits d x \<and> accepted (put_item x) (items x) s m) \<and>
      (\<exists>xs. length xs = n \<and> (\<forall>x \<in> set xs. fits d x) \<and>
        accepted (concat (map put_item xs)) (sum_list (map items xs)) m t))"
    unfolding v Suc.IH by blast
  also have "\<dots> \<longleftrightarrow> (\<exists>x xs. length xs = n \<and> fits d x \<and> (\<forall>x \<in> set xs. fits d x) \<and>
      accepted (put_item x @ concat (map put_item xs)) (items x + sum_list (map items xs)) s t)"
    unfolding accepted_append by blast
  also have "\<dots> \<longleftrightarrow> (\<exists>xs. length xs = Suc n \<and> (\<forall>x \<in> set xs. fits d x) \<and>
      accepted (concat (map put_item xs)) (sum_list (map items xs)) s t)"
    (is "?L \<longleftrightarrow> ?R")
  proof
    assume ?L
    then obtain x xs where "length xs = n" "fits d x" "\<forall>x \<in> set xs. fits d x"
      "accepted (put_item x @ concat (map put_item xs)) (items x + sum_list (map items xs)) s t" by blast
    then show ?R by (intro exI [of _ "x # xs"]) simp
  next
    assume ?R
    then obtain xs where xs: "length xs = Suc n" "\<forall>x \<in> set xs. fits d x"
      "accepted (concat (map put_item xs)) (sum_list (map items xs)) s t" by blast
    then obtain x xs' where "xs = x # xs'" by (cases xs) auto
    with xs show ?L by (intro exI [of _ x] exI [of _ xs']) simp
  qed
  finally show ?case .
qed

lemma entries_iff:
  assumes "reads d"
  shows "pc_entries n d p s = (Inr (), t) \<longleftrightarrow> (\<exists>es. length es = n \<and> (\<forall>e \<in> set es. fits d (snd e)) \<and>
    (\<forall>k \<in> set (map fst es). follows p k) \<and> sorted_wrt (<) (map fst es) \<and>
    accepted (concat (map put_pair es)) (sum_list (map (\<lambda>(k, v). Suc (items v)) es)) s t)"
proof (induction n arbitrary: s p)
  case 0
  show ?case by (auto simp: accepted_Nil)
next
  case (Suc n)
  have v: "pc_value d s = (Inr (), m) \<longleftrightarrow> (\<exists>x. fits d x \<and> accepted (put_item x) (items x) s m)" for s m
    using assms by (simp add: reads_def)
  have f: "follows (Some k) k' \<longleftrightarrow> k < k'" for k k' by (simp add: follows_def)
  have "pc_entries (Suc n) d p s = (Inr (), t) \<longleftrightarrow> (\<exists>k x. follows p k \<and> fits d x \<and>
      (\<exists>m. accepted (cbor_head 0 k) 1 s m \<and> (\<exists>v. accepted (put_item x) (items x) m v \<and>
      (\<exists>es. length es = n \<and> (\<forall>e \<in> set es. fits d (snd e)) \<and>
        (\<forall>k' \<in> set (map fst es). k < k') \<and> sorted_wrt (<) (map fst es) \<and>
        accepted (concat (map put_pair es)) (sum_list (map (\<lambda>(k, v). Suc (items v)) es)) v t))))"
    unfolding pc_entries_Suc Suc.IH v f by blast
  also have "\<dots> \<longleftrightarrow> (\<exists>k x es. length es = n \<and> follows p k \<and> fits d x \<and> (\<forall>e \<in> set es. fits d (snd e)) \<and>
        (\<forall>k' \<in> set (map fst es). k < k') \<and> sorted_wrt (<) (map fst es) \<and>
      accepted (cbor_head 0 k @ put_item x @ concat (map put_pair es))
        (1 + (items x + sum_list (map (\<lambda>(k, v). Suc (items v)) es))) s t)"
    unfolding accepted_append by blast
  also have "\<dots> \<longleftrightarrow> (\<exists>es. length es = Suc n \<and> (\<forall>e \<in> set es. fits d (snd e)) \<and>
    (\<forall>k \<in> set (map fst es). follows p k) \<and> sorted_wrt (<) (map fst es) \<and>
    accepted (concat (map put_pair es)) (sum_list (map (\<lambda>(k, v). Suc (items v)) es)) s t)"
    (is "?L \<longleftrightarrow> ?R")
  proof
    assume ?L
    then obtain k x es where "length es = n" "follows p k" "fits d x" "\<forall>e \<in> set es. fits d (snd e)"
        "\<forall>k' \<in> set (map fst es). k < k'" "sorted_wrt (<) (map fst es)"
      "accepted (cbor_head 0 k @ put_item x @ concat (map put_pair es))
        (1 + (items x + sum_list (map (\<lambda>(k, v). Suc (items v)) es))) s t" by blast
    then show ?R
      by (intro exI [of _ "(k, x) # es"]) (auto simp: put_pair_def follows_def split: option.splits)
  next
    assume ?R
    then obtain es where es: "length es = Suc n" "\<forall>e \<in> set es. fits d (snd e)"
      "\<forall>k \<in> set (map fst es). follows p k" "sorted_wrt (<) (map fst es)"
      "accepted (concat (map put_pair es)) (sum_list (map (\<lambda>(k, v). Suc (items v)) es)) s t" by blast
    then obtain k x es' where "es = (k, x) # es'" by (cases es) auto
    with es show ?L by (intro exI [of _ k] exI [of _ x] exI [of _ es']) (auto simp: put_pair_def)
  qed
  finally show ?case .
qed

text \<open>A head and what follows it, for each kind; lengths are below the bounds, so that they are themselves.\<close>

lemma count_word: "n \<le> 6 * 1024 * 1024 \<Longrightarrow> unat (of_nat n :: u64) = n"
  by (simp add: unat_of_nat)

lemma length_arg:
  assumes "mx \<le> 6 * 1024 * 1024" and E: "\<And>n m. E n m \<longleftrightarrow> (\<exists>xs. length xs = n \<and> R xs m)"
  shows "(\<exists>(w :: u64) m. A w m \<and> unat w \<le> mx \<and> E (unat w) m) \<longleftrightarrow>
    (\<exists>xs. length xs \<le> mx \<and> (\<exists>m. A (of_nat (length xs)) m \<and> R xs m))"
proof
  assume "\<exists>(w :: u64) m. A w m \<and> unat w \<le> mx \<and> E (unat w) m"
  then obtain w m xs where "A w m" "unat w \<le> mx" "length xs = unat w" "R xs m" unfolding E by blast
  then show "\<exists>xs. length xs \<le> mx \<and> (\<exists>m. A (of_nat (length xs)) m \<and> R xs m)"
    by (intro exI [of _ xs]) auto
next
  assume "\<exists>xs. length xs \<le> mx \<and> (\<exists>m. A (of_nat (length xs)) m \<and> R xs m)"
  then obtain xs m where *: "length xs \<le> mx" "A (of_nat (length xs)) m" "R xs m" by blast
  with assms(1) have "unat (of_nat (length xs) :: u64) = length xs" by (intro count_word) simp
  with * show "\<exists>(w :: u64) m. A w m \<and> unat w \<le> mx \<and> E (unat w) m"
    unfolding E by (intro exI [of _ "of_nat (length xs)"] exI [of _ m]) auto
qed

lemma ex_item: "(\<exists>x. P x) \<longleftrightarrow> (\<exists>n. P (CUint n)) \<or> (\<exists>b. P (CBytes b)) \<or> (\<exists>xs. P (CArray xs)) \<or>
    (\<exists>es. P (CMap es)) \<or> P CFalse \<or> P CTrue \<or> P CNull"
proof
  assume "\<exists>x. P x"
  then obtain x where "P x" ..
  then show "(\<exists>n. P (CUint n)) \<or> (\<exists>b. P (CBytes b)) \<or> (\<exists>xs. P (CArray xs)) \<or>
    (\<exists>es. P (CMap es)) \<or> P CFalse \<or> P CTrue \<or> P CNull" by (cases x) auto
qed auto

lemma reads_all: "reads d"
proof (induction "7 - d" arbitrary: d)
  case 0
  then show ?case by (auto simp: reads_def pc_value_cases dest: fits_depth)
next
  case (Suc k)
  then have d: "d \<le> 6" and IH: "reads (Suc d)" by auto
  note el = elements_iff [OF IH] and en = entries_iff [OF IH]
  define ok where "ok s = (Suc (cp_items s) \<le> PREFLIGHT_MAX_ITEMS)" for s :: CborPreflight
  define at where "at h s m = (cp_rest (counted s) = h @ cp_rest m \<and> cp_items m = cp_items (counted s))"
    for h and s m :: CborPreflight
  have ah: "accepted (h @ c) (Suc l) s t \<longleftrightarrow> ok s \<and> (\<exists>m. at h s m \<and> accepted c l m t)" for h c l s t
    unfolding ok_def at_def by (rule accepted_head)
  have a1: "accepted h (Suc 0) s t \<longleftrightarrow> ok s \<and> at h s t" for h s t
    using ah [of h "[]" 0 s t] by (simp add: accepted_Nil)
  have ab: "(\<exists>m. at h s m \<and> accepted b 0 m t) \<longleftrightarrow> at (h @ b) s t" for h b s t
    by (auto simp: at_def accepted_def intro: exI [of _ "t\<lparr>cp_rest := b @ cp_rest t\<rparr>"])
  have adv: "pc_advance n m = (Inr (), t) \<longleftrightarrow> (\<exists>b. length b = n \<and> accepted b 0 m t)" for n m t
    by (simp add: pc_advance_iff accepted_def)
  show ?case
    unfolding reads_def
  proof (intro allI)
    fix s t
    have "pc_value d s = (Inr (), t) \<longleftrightarrow> ok s \<and>
      ((\<exists>n. at (cbor_head 0 n) s t) \<or>
       (\<exists>n m. at (cbor_head 2 n) s m \<and> unat n \<le> 6 * 1024 * 1024 \<and> (\<exists>b. length b = unat n \<and> accepted b 0 m t)) \<or>
       (\<exists>n m. at (cbor_head 4 n) s m \<and> unat n \<le> 4096 \<and> pc_elements (unat n) (Suc d) m = (Inr (), t)) \<or>
       (\<exists>n m. at (cbor_head 5 n) s m \<and> unat n \<le> 32 \<and> pc_entries (unat n) (Suc d) None m = (Inr (), t)) \<or>
       (\<exists>b \<in> {0xf4, 0xf5, 0xf6}. at [b] s t))"
      unfolding pc_value_cases at_def ok_def adv NATIVE_RECEIVE_STORAGE_MAX_BYTES_def
        NATIVE_RECEIVE_STORAGE_MAX_ENTRIES_def PREFLIGHT_MAX_MAP_ENTRIES_def using d by simp
    also have "\<dots> \<longleftrightarrow> (\<exists>x. fits d x \<and> accepted (put_item x) (items x) s t)"
    proof -
      note bytes_arg = length_arg [where mx = 6291456 and E = "\<lambda>n m. \<exists>b. length b = n \<and> accepted b 0 m t"
          and R = "\<lambda>b m. accepted b 0 m t" and A = "\<lambda>w. at (cbor_head 2 w) s"]
      note array_arg = length_arg [where mx = 4096 and A = "\<lambda>w. at (cbor_head 4 w) s", OF _ el]
      note map_arg = length_arg [where mx = 32 and A = "\<lambda>w. at (cbor_head 5 w) s", OF _ en]
      show ?thesis
        using d by (simp add: bytes_arg array_arg map_arg ex_item ah a1 ab put_pair_def [symmetric] follows_def) blast
    qed
    finally show "pc_value d s = (Inr (), t) \<longleftrightarrow> (\<exists>x. fits d x \<and> accepted (put_item x) (items x) s t)" .
  qed
qed

lemma preflight_iff:
  "preflight_cbor input = Inr () \<longleftrightarrow> (\<exists>x. input = put_item x \<and> fits 0 x \<and> items x \<le> PREFLIGHT_MAX_ITEMS)"
proof -
  have "preflight_cbor input = Inr () \<longleftrightarrow>
      (\<exists>t. pc_value 0 \<lparr>cp_rest = input, cp_items = 0\<rparr> = (Inr (), t) \<and> cp_rest t = [])"
    by (auto simp: preflight_cbor_def split: prod.splits sum.splits)
  also have "\<dots> \<longleftrightarrow> (\<exists>x. fits 0 x \<and> (\<exists>t. accepted (put_item x) (items x) \<lparr>cp_rest = input, cp_items = 0\<rparr> t \<and> cp_rest t = []))"
    using reads_all [of 0] unfolding reads_def by blast
  also have "\<dots> \<longleftrightarrow> (\<exists>x. input = put_item x \<and> fits 0 x \<and> items x \<le> PREFLIGHT_MAX_ITEMS)"
  proof -
    have "(\<exists>t. accepted (put_item x) (items x) \<lparr>cp_rest = input, cp_items = 0\<rparr> t \<and> cp_rest t = []) \<longleftrightarrow>
        input = put_item x \<and> items x \<le> PREFLIGHT_MAX_ITEMS" for x
      using items_pos [of x]
      by (auto simp: accepted_def intro!: exI [of _ "\<lparr>cp_rest = [], cp_items = items x\<rparr>"])
    then show ?thesis by auto
  qed
  finally show ?thesis .
qed

end
