(* ===== verification/NativeTokens.thy ===== *)
theory NativeTokens
  imports NativeGrammar NativeCodec
begin

text \<open>
  What the native receive codec relies on in \<open>minicbor\<close> (\<open>ncbor_ok\<close>), and a calculus for its
  decoders. A token is an item without its contents; on the tokens of the preflight's language an
  encoder method writes the shortest form, and a decoder method accepts exactly the tokens of its
  type. \<open>tokspec m R\<close> says that the decoder \<open>m\<close> returns \<open>v\<close> just when the next tokens are some
  \<open>us\<close> with \<open>R v us\<close>; it composes (\<open>tokspec_bind\<close>), in both directions at once.
\<close>

section \<open>Tokens\<close>

datatype cbor_tok = TUint u64 | TBytes bytes | TArr u64 | TMap u64 | TBool bool | TNull

fun put_tok :: "cbor_tok \<Rightarrow> bytes" where
  "put_tok (TUint n) = cbor_head 0 n"
| "put_tok (TBytes b) = cbor_head 2 (of_nat (length b)) @ b"
| "put_tok (TArr n) = cbor_head 4 n"
| "put_tok (TMap n) = cbor_head 5 n"
| "put_tok (TBool b) = [if b then 0xf5 else 0xf4]"
| "put_tok TNull = [0xf6]"

definition puts :: "cbor_tok list \<Rightarrow> bytes" where
  "puts ts = concat (map put_tok ts)"

lemma puts_simps [simp]: "puts [] = []" "puts (t # ts) = put_tok t @ puts ts"
  "puts (ts @ us) = puts ts @ puts us"
  by (simp_all add: puts_def)

fun tok_ok :: "cbor_tok \<Rightarrow> bool" where
  "tok_ok (TBytes b) = (length b < 2 ^ 64)"
| "tok_ok _ = True"

lemma put_tok_Nil [simp]: "put_tok t \<noteq> []"
  by (cases t) (simp_all add: cbor_head_def)

lemma puts_Nil_iff [simp]: "puts ts = [] \<longleftrightarrow> ts = []"
  by (cases ts) simp_all

fun flat :: "cbor_item \<Rightarrow> cbor_tok list" where
  "flat (CUint n) = [TUint n]"
| "flat (CBytes b) = [TBytes b]"
| "flat (CArray xs) = TArr (of_nat (length xs)) # concat (map flat xs)"
| "flat (CMap es) = TMap (of_nat (length es)) # concat (map (\<lambda>(k, v). TUint k # flat v) es)"
| "flat CFalse = [TBool False]"
| "flat CTrue = [TBool True]"
| "flat CNull = [TNull]"

lemma puts_concat: "puts (concat xss) = concat (map puts xss)"
  by (induction xss) simp_all

lemma puts_flat: "puts (flat x) = put_item x"
proof (induction x)
  case (CArray xs)
  then have "map (puts \<circ> flat) xs = map put_item xs" by simp
  then show ?case unfolding flat.simps put_item.simps puts_simps put_tok.simps puts_concat map_map by metis
next
  case (CMap es)
  then have "map (puts \<circ> (\<lambda>(k, v). TUint k # flat v)) es = map (\<lambda>(k, v). cbor_head 0 k @ put_item v) es"
    by auto
  then show ?case unfolding flat.simps put_item.simps puts_simps put_tok.simps puts_concat map_map by metis
qed simp_all

lemma flat_ok: "fits d x \<Longrightarrow> list_all tok_ok (flat x)"
proof (induction x arbitrary: d)
  case (CArray xs)
  then show ?case by (force simp: list_all_iff)
next
  case (CMap es)
  then show ?case by (force simp: list_all_iff)
qed auto

section \<open>The laws\<close>

definition tok_word :: "nat \<Rightarrow> cbor_tok \<Rightarrow> 'n::len word option" where
  "tok_word k t = (case t of TUint n \<Rightarrow> if unat n < 2 ^ k then Some (ucast n) else None | _ \<Rightarrow> None)"

definition tok_bytes :: "cbor_tok \<Rightarrow> bytes option" where
  "tok_bytes t = (case t of TBytes b \<Rightarrow> Some b | _ \<Rightarrow> None)"

definition tok_array :: "cbor_tok \<Rightarrow> u64 option option" where
  "tok_array t = (case t of TArr n \<Rightarrow> Some (Some n) | _ \<Rightarrow> None)"

definition tok_map :: "cbor_tok \<Rightarrow> u64 option option" where
  "tok_map t = (case t of TMap n \<Rightarrow> Some (Some n) | _ \<Rightarrow> None)"

definition tok_type :: "cbor_tok \<Rightarrow> cbor_type" where
  "tok_type t = (case t of TNull \<Rightarrow> TyNull | TBytes _ \<Rightarrow> TyBytes | _ \<Rightarrow> TyOther)"

definition decodes :: "(bytes \<Rightarrow> ('a \<times> bytes) option) \<Rightarrow> (cbor_tok \<Rightarrow> 'a option) \<Rightarrow> bool" where
  "decodes item sel \<longleftrightarrow> item [] = None \<and>
     (\<forall>t r. tok_ok t \<longrightarrow> item (put_tok t @ r) = map_option (\<lambda>v. (v, r)) (sel t))"

definition ncbor_ok :: "ncbor \<Rightarrow> bool" where
  "ncbor_ok N \<longleftrightarrow> cbor_ok (nc N) \<and>
     (\<forall>n. cb_array (nc N) n = put_tok (TArr n)) \<and> (\<forall>n. cb_map N n = put_tok (TMap n)) \<and>
     (\<forall>n. cb_u8 N n = put_tok (TUint (ucast n))) \<and> (\<forall>n. cb_u16 (nc N) n = put_tok (TUint (ucast n))) \<and>
     (\<forall>n. cb_u32 (nc N) n = put_tok (TUint (ucast n))) \<and> (\<forall>n. cb_u64 (nc N) n = put_tok (TUint n)) \<and>
     (\<forall>b. length b < 2 ^ 64 \<longrightarrow> cb_bytes (nc N) b = put_tok (TBytes b)) \<and>
     (\<forall>b. cb_bool N b = put_tok (TBool b)) \<and> cb_null (nc N) = put_tok TNull \<and>
     decodes (cd_array (nc N)) tok_array \<and> decodes (cd_map N) tok_map \<and>
     decodes (cd_u8 N) (tok_word 8) \<and> decodes (cd_u16 (nc N)) (tok_word 16) \<and>
     decodes (cd_u32 (nc N)) (tok_word 32) \<and> decodes (cd_u64 (nc N)) (tok_word 64) \<and>
     decodes (cd_bytes (nc N)) tok_bytes \<and>
     cd_type N [] = None \<and> (\<forall>t r. tok_ok t \<longrightarrow> cd_type N (put_tok t @ r) = Some (tok_type t)) \<and>
     cd_null (nc N) [] = None \<and>
     (\<forall>t r. tok_ok t \<longrightarrow> cd_null (nc N) (put_tok t @ r) = (if t = TNull then Some r else None))"

lemma ncbor_enc:
  assumes "ncbor_ok N"
  shows "cb_array (nc N) n = put_tok (TArr n)" "cb_map N n = put_tok (TMap n)"
    "cb_u8 N a = put_tok (TUint (ucast a))" "cb_u16 (nc N) b = put_tok (TUint (ucast b))"
    "cb_u32 (nc N) c = put_tok (TUint (ucast c))" "cb_u64 (nc N) n = put_tok (TUint n)"
    "length v < 2 ^ 64 \<Longrightarrow> cb_bytes (nc N) v = put_tok (TBytes v)"
    "cb_bool N p = put_tok (TBool p)" "cb_null (nc N) = put_tok TNull"
  using assms by (simp_all add: ncbor_ok_def)

section \<open>Decoders over tokens\<close>

definition tokspec :: "'a reader \<Rightarrow> ('a \<Rightarrow> cbor_tok list \<Rightarrow> bool) \<Rightarrow> bool" where
  "tokspec m R \<longleftrightarrow> (\<forall>ts v s. list_all tok_ok ts \<longrightarrow>
     (m (puts ts) = (Inr v, s) \<longleftrightarrow> (\<exists>us rest. ts = us @ rest \<and> s = puts rest \<and> R v us)))"

named_theorems tok_rules \<open>what the decoders read, in tokens\<close>

lemma tokspecI:
  assumes "\<And>ts v s. list_all tok_ok ts \<Longrightarrow>
    m (puts ts) = (Inr v, s) \<longleftrightarrow> (\<exists>us rest. ts = us @ rest \<and> s = puts rest \<and> R v us)"
  shows "tokspec m R"
  using assms by (simp add: tokspec_def)

lemma tokspecD:
  "tokspec m R \<Longrightarrow> list_all tok_ok ts \<Longrightarrow>
    m (puts ts) = (Inr v, s) \<longleftrightarrow> (\<exists>us rest. ts = us @ rest \<and> s = puts rest \<and> R v us)"
  by (simp add: tokspec_def)

lemma tokspec_return: "tokspec (returnS a) (\<lambda>v us. v = a \<and> us = [])"
  by (rule tokspecI) auto

lemma tokspec_fail: "tokspec (liftS (Inl e)) (\<lambda>v us. False)"
  by (rule tokspecI) auto

lemma tokspec_lift: "tokspec (liftS r) (\<lambda>v us. r = Inr v \<and> us = [])"
  by (rule tokspecI) auto

lemma tokspec_bind:
  assumes m: "tokspec m R" and f: "\<And>a us. R a us \<Longrightarrow> tokspec (f a) (S a)"
  shows "tokspec (bindS m f) (\<lambda>v us. \<exists>a u1 u2. us = u1 @ u2 \<and> R a u1 \<and> S a v u2)"
proof (rule tokspecI)
  fix ts v s
  assume ok: "list_all tok_ok ts"
  show "bindS m f (puts ts) = (Inr v, s) \<longleftrightarrow>
    (\<exists>us rest. ts = us @ rest \<and> s = puts rest \<and> (\<exists>a u1 u2. us = u1 @ u2 \<and> R a u1 \<and> S a v u2))"
    (is "?L \<longleftrightarrow> ?R")
  proof
    assume ?L
    then obtain a s1 where 1: "m (puts ts) = (Inr a, s1)" and 2: "f a s1 = (Inr v, s)"
      by (auto simp: run_bindS_ok_iff)
    from 1 obtain u1 r1 where u1: "ts = u1 @ r1" "s1 = puts r1" "R a u1"
      using tokspecD [OF m ok] by blast
    with ok have "list_all tok_ok r1" by simp
    from tokspecD [OF f [OF u1(3)] this] 2 u1(2) obtain u2 r2 where "r1 = u2 @ r2" "s = puts r2" "S a v u2"
      by blast
    with u1 show ?R by (intro exI [of _ "u1 @ u2"] exI [of _ r2]) auto
  next
    assume ?R
    then obtain a u1 u2 rest where *: "ts = u1 @ u2 @ rest" "s = puts rest" "R a u1" "S a v u2" by auto
    then have ok2: "list_all tok_ok (u2 @ rest)" using ok by simp
    have "m (puts ts) = (Inr a, puts (u2 @ rest))" using tokspecD [OF m ok] * by blast
    moreover have "f a (puts (u2 @ rest)) = (Inr v, s)"
      using tokspecD [OF f [OF *(3)] ok2] * by blast
    ultimately show ?L by simp
  qed
qed

lemma tokspec_cong: "tokspec m R \<Longrightarrow> (\<And>v us. R v us \<longleftrightarrow> R' v us) \<Longrightarrow> tokspec m R'"
  by (simp add: tokspec_def)

lemma tokspec_if:
  "(c \<Longrightarrow> tokspec m R) \<Longrightarrow> (\<not> c \<Longrightarrow> tokspec m' R') \<Longrightarrow>
    tokspec (if c then m else m') (\<lambda>v us. c \<and> R v us \<or> \<not> c \<and> R' v us)"
  by simp

text \<open>A decoder that is one token, or a literal token, and then the rest.\<close>

lemma tokspec_item:
  assumes "decodes item sel" "\<And>t v. tok_ok t \<Longrightarrow> sel t = Some v \<longleftrightarrow> P v \<and> t = mk v"
  shows "tokspec (native_item item) (\<lambda>v us. us = [mk v] \<and> P v)"
proof (rule tokspecI)
  fix ts v s
  assume ok: "list_all tok_ok ts"
  show "native_item item (puts ts) = (Inr v, s) \<longleftrightarrow>
      (\<exists>us rest. ts = us @ rest \<and> s = puts rest \<and> us = [mk v] \<and> P v)"
  proof (cases ts)
    case Nil
    with assms(1) show ?thesis by (simp add: native_item_def take_item_def decodes_def)
  next
    case (Cons t r)
    with ok have t: "tok_ok t" by simp
    with assms(1) have "item (put_tok t @ puts r) = map_option (\<lambda>v. (v, puts r)) (sel t)"
      by (simp add: decodes_def)
    then have "native_item item (puts ts) = (Inr v, s) \<longleftrightarrow> sel t = Some v \<and> s = puts r"
      using Cons by (auto simp: native_item_def take_item_def split: option.splits)
    also have "\<dots> \<longleftrightarrow> P v \<and> t = mk v \<and> s = puts r" using assms(2) [OF t] by simp
    finally show ?thesis using Cons by auto
  qed
qed

lemma tok_word_iff:
  "tok_word 8 t = Some (a :: byte) \<longleftrightarrow> t = TUint (ucast a)"
  "tok_word 16 t = Some (b :: u16) \<longleftrightarrow> t = TUint (ucast b)"
  "tok_word 32 t = Some (c :: u32) \<longleftrightarrow> t = TUint (ucast c)"
  "tok_word 64 t = Some (d :: u64) \<longleftrightarrow> t = TUint d"
proof -
  show "tok_word 8 t = Some (a :: byte) \<longleftrightarrow> t = TUint (ucast a)"
    using ucast_less(2) [of a]
    by (cases t) (auto simp: tok_word_def word_less_nat_alt ucast_back ucast_forth)
  show "tok_word 16 t = Some (b :: u16) \<longleftrightarrow> t = TUint (ucast b)"
    using ucast_less(3) [of b]
    by (cases t) (auto simp: tok_word_def word_less_nat_alt ucast_back ucast_forth)
  show "tok_word 32 t = Some (c :: u32) \<longleftrightarrow> t = TUint (ucast c)"
    using ucast_less(4) [of c]
    by (cases t) (auto simp: tok_word_def word_less_nat_alt ucast_back ucast_forth)
  show "tok_word 64 t = Some (d :: u64) \<longleftrightarrow> t = TUint d"
    using unat_less [where 'n = 64] by (cases t) (auto simp: tok_word_def)
qed

lemma read_items [tok_rules]:
  assumes "ncbor_ok N"
  shows "tokspec (native_item (cd_u8 N)) (\<lambda>v us. us = [TUint (ucast v)])"
    "tokspec (native_item (cd_u16 (nc N))) (\<lambda>v us. us = [TUint (ucast v)])"
    "tokspec (native_item (cd_u32 (nc N))) (\<lambda>v us. us = [TUint (ucast v)])"
    "tokspec (native_item (cd_u64 (nc N))) (\<lambda>v us. us = [TUint v])"
    "tokspec (native_item (cd_bytes (nc N))) (\<lambda>v us. us = [TBytes v])"
  by (rule tokspec_item [where P = "\<lambda>_. True", of _ "tok_word 8", simplified]
        tokspec_item [where P = "\<lambda>_. True", of _ "tok_word 16", simplified]
        tokspec_item [where P = "\<lambda>_. True", of _ "tok_word 32", simplified]
        tokspec_item [where P = "\<lambda>_. True", of _ "tok_word 64", simplified]
        tokspec_item [where P = "\<lambda>_. True", of _ tok_bytes, simplified],
      use assms in \<open>simp add: ncbor_ok_def\<close>,
      simp add: tok_word_iff tok_bytes_def split: cbor_tok.split)+

lemma tok_head_iff:
  "tok_map t = Some v \<longleftrightarrow> v \<noteq> None \<and> t = TMap (the v)"
  "tok_array t = Some v \<longleftrightarrow> v \<noteq> None \<and> t = TArr (the v)"
  by (cases t; cases v; auto simp: tok_map_def tok_array_def)+

lemma read_heads:
  assumes "ncbor_ok N"
  shows "tokspec (native_item (cd_map N)) (\<lambda>v us. us = [TMap (the v)] \<and> v \<noteq> None)"
    "tokspec (native_item (cd_array (nc N))) (\<lambda>v us. us = [TArr (the v)] \<and> v \<noteq> None)"
  by (rule tokspec_item [where sel = tok_map] tokspec_item [where sel = tok_array],
      use assms in \<open>simp add: ncbor_ok_def\<close>,
      rule tok_head_iff)+

lemma read_null [tok_rules]:
  assumes "ncbor_ok N"
  shows "tokspec (native_null N) (\<lambda>v us. us = [TNull])"
proof (rule tokspecI)
  fix ts v s
  assume ok: "list_all tok_ok ts"
  then show "native_null N (puts ts) = (Inr v, s) \<longleftrightarrow> (\<exists>us rest. ts = us @ rest \<and> s = puts rest \<and> us = [TNull])"
    using assms by (cases ts) (auto simp: native_null_def skip_null_def ncbor_ok_def split: option.splits)
qed

lemma native_type_run:
  assumes "ncbor_ok N" "list_all tok_ok ts"
  shows "native_type N (puts ts) =
    (case ts of [] \<Rightarrow> Inl NoncanonicalEncoding | t # _ \<Rightarrow> Inr (tok_type t), puts ts)"
  using assms by (cases ts) (simp_all add: native_type_def ncbor_ok_def)

lemma tok_type_iff: "tok_type t = TyNull \<longleftrightarrow> t = TNull" "tok_type t = TyBytes \<longleftrightarrow> (\<exists>b. t = TBytes b)"
  by (cases t; simp add: tok_type_def)+

text \<open>The two ways a null or a byte string is told apart: by all types, or null from the rest.\<close>

lemma tokspec_type:
  assumes N: "ncbor_ok N" and A: "tokspec A RA" and B: "tokspec B RB"
    and RA: "\<And>v us. RA v us \<Longrightarrow> \<exists>r. us = TNull # r" and RB: "\<And>v us. RB v us \<Longrightarrow> \<exists>b r. us = TBytes b # r"
  shows "tokspec (bindS (native_type N) (\<lambda>t. case t of TyNull \<Rightarrow> A | TyBytes \<Rightarrow> B | TyOther \<Rightarrow> liftS (Inl e)))
    (\<lambda>v us. RA v us \<or> RB v us)"
proof (rule tokspecI)
  fix ts v s
  assume ok: "list_all tok_ok ts"
  note A = tokspecD [OF A ok, of v s] and B = tokspecD [OF B ok, of v s]
  show "bindS (native_type N) (\<lambda>t. case t of TyNull \<Rightarrow> A | TyBytes \<Rightarrow> B | TyOther \<Rightarrow> liftS (Inl e)) (puts ts) = (Inr v, s)
    \<longleftrightarrow> (\<exists>us rest. ts = us @ rest \<and> s = puts rest \<and> (RA v us \<or> RB v us))"
  proof (cases ts)
    case Nil
    moreover have "\<not> RA v []" "\<not> RB v []" using RA [of v "[]"] RB [of v "[]"] by auto
    moreover have "native_type N [] = (Inl NoncanonicalEncoding, [])"
      using native_type_run [OF N ok] \<open>ts = []\<close> by simp
    ultimately show ?thesis by (simp add: run_bindS)
  next
    case (Cons t r)
    then have run: "native_type N (puts ts) = (Inr (tok_type t), puts ts)"
      using native_type_run [OF N ok] Cons by simp
    have nA: "\<not> RA v us" if "t \<noteq> TNull" "ts = us @ rest" for us rest
    proof
      assume "RA v us"
      from RA [OF this] obtain r' where "us = TNull # r'" ..
      with that Cons show False by simp
    qed
    have nB: "\<not> RB v us" if "\<nexists>b. t = TBytes b" "ts = us @ rest" for us rest
    proof
      assume "RB v us"
      from RB [OF this] obtain b r' where "us = TBytes b # r'" by blast
      with that Cons show False by simp
    qed
    show ?thesis
    proof (cases "tok_type t")
      case TyNull
      then have "\<nexists>b. t = TBytes b" by (simp add: tok_type_iff)
      from nB [OF this] have "(\<exists>us rest. ts = us @ rest \<and> s = puts rest \<and> (RA v us \<or> RB v us)) \<longleftrightarrow>
        (\<exists>us rest. ts = us @ rest \<and> s = puts rest \<and> RA v us)" by blast
      with run TyNull A show ?thesis by (simp add: run_bindS)
    next
      case TyBytes
      then have "t \<noteq> TNull" by (auto simp: tok_type_iff)
      from nA [OF this] have "(\<exists>us rest. ts = us @ rest \<and> s = puts rest \<and> (RA v us \<or> RB v us)) \<longleftrightarrow>
        (\<exists>us rest. ts = us @ rest \<and> s = puts rest \<and> RB v us)" by blast
      with run TyBytes B show ?thesis by (simp add: run_bindS)
    next
      case TyOther
      then have "t \<noteq> TNull" "\<nexists>b. t = TBytes b" by (auto simp: tok_type_def)
      from nA [OF this(1)] nB [OF this(2)] have "\<not> (\<exists>us rest. ts = us @ rest \<and> s = puts rest \<and> (RA v us \<or> RB v us))"
        by blast
      with run TyOther show ?thesis by (simp add: run_bindS)
    qed
  qed
qed

section \<open>The steps of the codec\<close>

lemma read_steps [tok_rules]:
  assumes N: "ncbor_ok N"
  shows "n < 2 ^ 64 \<Longrightarrow> tokspec (expect_map N n) (\<lambda>v us. us = [TMap (of_nat n)])"
    "tokspec (expect_key N k) (\<lambda>v us. us = [TUint (ucast k)])"
    "tokspec (decode_bounded_bytes N mn mx) (\<lambda>v us. us = [TBytes v] \<and> mn \<le> length v \<and> length v \<le> mx)"
    "tokspec (decode_exact_bytes N l) (\<lambda>v us. us = [TBytes v] \<and> length v = l)"
    "tokspec (expect_array_max N mx) (\<lambda>v us. us = [TArr (of_nat v)] \<and> v \<le> mx \<and> v < 2 ^ 64)"
proof -
  note basic = tokspec_bind read_items [OF N] read_heads [OF N] tokspec_if tokspec_return tokspec_fail tokspec_lift
  show "n < 2 ^ 64 \<Longrightarrow> tokspec (expect_map N n) (\<lambda>v us. us = [TMap (of_nat n)])"
    unfolding expect_map_def by (rule tokspec_cong, (rule basic)+) (auto simp: ok_or_Inr_iff)
  show "tokspec (expect_key N k) (\<lambda>v us. us = [TUint (ucast k)])"
    unfolding expect_key_def by (rule tokspec_cong, (rule basic)+) auto
  show b: "tokspec (decode_bounded_bytes N mn mx) (\<lambda>v us. us = [TBytes v] \<and> mn \<le> length v \<and> length v \<le> mx)" for mn mx
    unfolding decode_bounded_bytes_def by (rule tokspec_cong, (rule basic)+) (auto simp: not_less)
  show "tokspec (decode_exact_bytes N l) (\<lambda>v us. us = [TBytes v] \<and> length v = l)"
    unfolding decode_exact_bytes_def by (rule tokspec_cong [OF b]) auto
  have "(\<exists>a u2. us = TArr (the a) # u2 \<and> (\<exists>y. a = Some y) \<and>
        (\<exists>n. a = Some n \<and> u2 = [] \<and> unat n \<le> mx \<and> v = unat n)) \<longleftrightarrow>
      us = [TArr (of_nat v)] \<and> v \<le> mx \<and> v < 2 ^ 64" (is "?L \<longleftrightarrow> ?R") for v us
  proof
    assume ?R
    then show ?L by (intro exI [of _ "Some (of_nat v)"]) (simp add: unat_of_nat take_bit_nat_eq_self)
  next
    assume ?L
    then show ?R using unat_less [where 'n = 64] by auto
  qed
  then show "tokspec (expect_array_max N mx) (\<lambda>v us. us = [TArr (of_nat v)] \<and> v \<le> mx \<and> v < 2 ^ 64)"
    unfolding expect_array_max_def
    by - (rule tokspec_cong, (rule basic)+, simp add: ok_or_Inr_iff not_less)
qed

end
