(* ===== verification/NativeRequest.thy ===== *)
theory NativeRequest
  imports NativeTokens
begin

text \<open>
  The language of the native receive requests: each part of a request as an item, with the shape
  that makes it valid, and what each decoder reads. From these the decoder of requests is an exact
  inverse of the encoder, up to the order in which a caller wrote the rows.
\<close>

section \<open>Parts as items\<close>

definition native_leaf_item :: "NativeLeafAuthorityV2 \<Rightarrow> cbor_item" where
  "native_leaf_item l = CMap [(0, CUint (ucast (nl_leaf_index l))),
     (1, CBytes (nl_credential_identity l)), (2, CBytes (nl_signature_public_key l))]"

definition native_leaf_shape :: "NativeLeafAuthorityV2 \<Rightarrow> bool" where
  "native_leaf_shape l \<longleftrightarrow> length (nl_credential_identity l) = 45 \<and> length (nl_signature_public_key l) = 32"

definition native_expected_item :: "NativeExpectedRosterStateV2 \<Rightarrow> cbor_item" where
  "native_expected_item r = CMap [(0, CBytes (nx_group_id r)), (1, CUint (nx_epoch r)),
     (2, CBytes (nx_digest_sha256 r))]"

definition native_expected_shape :: "NativeExpectedRosterStateV2 \<Rightarrow> bool" where
  "native_expected_shape r \<longleftrightarrow> length (nx_group_id r) = 16 \<and> length (nx_digest_sha256 r) = 32"

definition option_item :: "bytes option \<Rightarrow> cbor_item" where
  "option_item b = (case b of Some v \<Rightarrow> CBytes v | None \<Rightarrow> CNull)"

definition native_entry_item :: "NativeStorageEntryV2 \<Rightarrow> cbor_item" where
  "native_entry_item e = CMap [(0, CBytes (ns_key e)), (1, CBytes (ns_value e)),
     (2, option_item (ns_group_id e))]"

definition native_entry_shape :: "NativeStorageEntryV2 \<Rightarrow> bool" where
  "native_entry_shape e \<longleftrightarrow> 1 \<le> length (ns_key e) \<and> length (ns_key e) \<le> 4096 \<and>
     length (ns_value e) \<le> 2 * 1024 * 1024 \<and> (\<forall>g. ns_group_id e = Some g \<longrightarrow> length g = 16)"

lemmas native_consts = PROFILE_GROUP_ID_BYTES_def PROFILE_CREDENTIAL_IDENTITY_BYTES_def
  PROFILE_SIGNATURE_PUBLIC_KEY_BYTES_def SHA256_BYTES_def NATIVE_RECEIVE_STORAGE_KEY_MAX_BYTES_def
  NATIVE_RECEIVE_STORAGE_VALUE_MAX_BYTES_def NATIVE_RECEIVE_MLS_MESSAGE_MAX_BYTES_def
  NATIVE_RECEIVE_AAD_MAX_BYTES_def NATIVE_RECEIVE_RATCHET_TREE_MAX_BYTES_def
  NATIVE_RECEIVE_SIGNER_MAX_BYTES_def NATIVE_RECEIVE_STORAGE_MAX_ENTRIES_def

lemmas tok_basic = tokspec_bind tokspec_if tokspec_return tokspec_fail tokspec_lift

lemma read_leaf:
  assumes N: "ncbor_ok N"
  shows "tokspec (native_decode_leaf N) (\<lambda>l us. us = flat (native_leaf_item l) \<and> native_leaf_shape l)"
  unfolding native_decode_leaf_def
  by (rule tokspec_cong, (rule tok_basic tok_rules [OF N] | simp; fail)+)
    (case_tac v, auto simp: native_leaf_item_def native_leaf_shape_def native_consts)

lemma read_expected:
  assumes N: "ncbor_ok N"
  shows "tokspec (decode_expected_roster N) (\<lambda>r us. us = flat (native_expected_item r) \<and> native_expected_shape r)"
  unfolding decode_expected_roster_def
  by (rule tokspec_cong, (rule tok_basic tok_rules [OF N] | simp; fail)+)
    (case_tac v, auto simp: native_expected_item_def native_expected_shape_def native_consts)

section \<open>Rows\<close>

definition optional_group :: "ncbor \<Rightarrow> bytes option reader" where
  "optional_group N = bindS (native_type N) (\<lambda>t. case t of
       TyNull \<Rightarrow> bindS (native_null N) (\<lambda>_. returnS None)
     | TyBytes \<Rightarrow> bindS (decode_exact_bytes N PROFILE_GROUP_ID_BYTES) (\<lambda>g. returnS (Some g))
     | TyOther \<Rightarrow> liftS (Inl NoncanonicalEncoding))"

definition optional_group_bytes :: "ncbor \<Rightarrow> bytes option \<Rightarrow> nat reader" where
  "optional_group_bytes N scope = bindS (native_type N) (\<lambda>t. case t of
       TyNull \<Rightarrow> bindS (native_null N) (\<lambda>_. returnS 0)
     | TyBytes \<Rightarrow>
         bindS (native_item (cd_bytes (nc N))) (\<lambda>g.
         bindS (liftS (validate_exact_result_bytes g PROFILE_GROUP_ID_BYTES)) (\<lambda>_.
         if scope \<noteq> Some g then liftS (Inl InvalidStorageSnapshot) else returnS (length g)))
     | TyOther \<Rightarrow> liftS (Inl NoncanonicalEncoding))"

lemma decode_storage_entry_alt: "decode_storage_entry N =
     bindS (expect_map N 3) (\<lambda>_.
     bindS (expect_key N 0) (\<lambda>_.
     bindS (decode_bounded_bytes N 1 NATIVE_RECEIVE_STORAGE_KEY_MAX_BYTES) (\<lambda>k.
     bindS (expect_key N 1) (\<lambda>_.
     bindS (decode_bounded_bytes N 0 NATIVE_RECEIVE_STORAGE_VALUE_MAX_BYTES) (\<lambda>v.
     bindS (expect_key N 2) (\<lambda>_.
     bindS (optional_group N) (\<lambda>g.
     returnS \<lparr>ns_key = k, ns_value = v, ns_group_id = g\<rparr>)))))))"
  by (simp add: decode_storage_entry_def optional_group_def bindS_assoc)

lemma scan_storage_entry_alt: "scan_storage_entry N scope acc =
     bindS (expect_map N 3) (\<lambda>_.
     bindS (expect_key N 0) (\<lambda>_.
     bindS (native_item (cd_bytes (nc N))) (\<lambda>k.
     bindS (liftS (validate_result_range k 1 NATIVE_RECEIVE_STORAGE_KEY_MAX_BYTES)) (\<lambda>_.
     bindS (expect_key N 1) (\<lambda>_.
     bindS (native_item (cd_bytes (nc N))) (\<lambda>v.
     bindS (liftS (validate_result_range v 0 NATIVE_RECEIVE_STORAGE_VALUE_MAX_BYTES)) (\<lambda>_.
     bindS (expect_key N 2) (\<lambda>_.
     bindS (optional_group_bytes N scope) (\<lambda>group_bytes.
     bindS (liftS (add_lengths acc (length k) (length v) group_bytes)) (\<lambda>acc.
     if acc > NATIVE_RECEIVE_STORAGE_MAX_BYTES then liftS (Inl LimitExceeded) else returnS acc))))))))))"
  by (simp add: scan_storage_entry_def optional_group_bytes_def bindS_assoc)

lemma read_optional_group [tok_rules]:
  assumes N: "ncbor_ok N"
  shows "tokspec (optional_group N) (\<lambda>g us. us = flat (option_item g) \<and> (\<forall>b. g = Some b \<longrightarrow> length b = 16))"
  unfolding optional_group_def
  by (rule tokspec_cong, rule tokspec_type [OF N], (rule tok_basic tok_rules [OF N] | simp; fail)+)
    (auto simp: option_item_def native_consts split: option.splits)

lemma validate_ok_iff:
  "validate_result_range v mn mx = Inr u \<longleftrightarrow> mn \<le> length v \<and> length v \<le> mx"
  "validate_exact_result_bytes v n = Inr u \<longleftrightarrow> length v = n"
  "validate_result_bytes v mx = Inr u \<longleftrightarrow> length v \<le> mx"
  by (auto simp: validate_result_range_def validate_exact_result_bytes_def validate_result_bytes_def)

lemma add_lengths_iff: "add_lengths acc a b c = Inr n \<longleftrightarrow> n = acc + a + b + c \<and> n < 2 ^ 64"
  by (auto simp: add_lengths_def ok_or_Inr_iff usize_checked_add_def bind_eq_Some_conv)

lemma read_optional_group_bytes [tok_rules]:
  assumes N: "ncbor_ok N"
  shows "tokspec (optional_group_bytes N scope) (\<lambda>n us. \<exists>g. us = flat (option_item g) \<and> n = option_length g \<and>
    (\<forall>b. g = Some b \<longrightarrow> length b = 16 \<and> scope = g))"
  unfolding optional_group_bytes_def
  by (rule tokspec_cong, rule tokspec_type [OF N], (rule tok_basic tok_rules [OF N] | simp; fail)+)
    (auto simp: option_item_def option_length_def native_consts validate_ok_iff split: option.splits)

lemma read_entry:
  assumes N: "ncbor_ok N"
  shows "tokspec (decode_storage_entry N) (\<lambda>e us. us = flat (native_entry_item e) \<and> native_entry_shape e)"
  unfolding decode_storage_entry_alt
  by (rule tokspec_cong, (rule tok_basic tok_rules [OF N] | simp; fail)+)
    (case_tac v, auto simp: native_entry_item_def native_entry_shape_def native_consts)

definition entry_size :: "NativeStorageEntryV2 \<Rightarrow> nat" where
  "entry_size e = length (ns_key e) + length (ns_value e) + option_length (ns_group_id e)"

definition scoped_to :: "bytes option \<Rightarrow> NativeStorageEntryV2 \<Rightarrow> bool" where
  "scoped_to scope e \<longleftrightarrow> ns_group_id e = None \<or> ns_group_id e = scope"

lemma scan_entry:
  assumes N: "ncbor_ok N"
  shows "tokspec (scan_storage_entry N scope acc) (\<lambda>n us. \<exists>e. us = flat (native_entry_item e) \<and> native_entry_shape e \<and>
    scoped_to scope e \<and> n = acc + entry_size e \<and> n \<le> NATIVE_RECEIVE_STORAGE_MAX_BYTES)"
proof -
  have inj: "flat (option_item g) = flat (option_item h) \<longleftrightarrow> g = h" for g h
    by (auto simp: option_item_def split: option.splits)
  have m: "n \<le> NATIVE_RECEIVE_STORAGE_MAX_BYTES \<Longrightarrow> n < 18446744073709551616" for n
    by (simp add: NATIVE_RECEIVE_STORAGE_MAX_BYTES_def)
  have "tokspec (scan_storage_entry N scope acc) (\<lambda>n us. \<exists>k v g.
      us = flat (CMap [(0, CBytes k), (1, CBytes v), (2, option_item g)]) \<and>
      Suc 0 \<le> length k \<and> length k \<le> 4096 \<and> length v \<le> 2097152 \<and> (\<forall>b. g = Some b \<longrightarrow> length b = 16 \<and> scope = g) \<and>
      n = acc + length k + length v + option_length g \<and> n \<le> NATIVE_RECEIVE_STORAGE_MAX_BYTES)"
    unfolding scan_storage_entry_alt
    by (rule tokspec_cong, (rule tok_basic tok_rules [OF N] | simp; fail)+)
      (auto simp: native_consts validate_ok_iff add_lengths_iff m not_less inj cong: conj_cong)
  moreover have "(\<exists>k v g. us = flat (CMap [(0, CBytes k), (1, CBytes v), (2, option_item g)]) \<and>
      Suc 0 \<le> length k \<and> length k \<le> 4096 \<and> length v \<le> 2097152 \<and> (\<forall>b. g = Some b \<longrightarrow> length b = 16 \<and> scope = g) \<and>
      n = acc + length k + length v + option_length g \<and> n \<le> NATIVE_RECEIVE_STORAGE_MAX_BYTES) \<longleftrightarrow>
    (\<exists>e. us = flat (native_entry_item e) \<and> native_entry_shape e \<and>
      scoped_to scope e \<and> n = acc + entry_size e \<and> n \<le> NATIVE_RECEIVE_STORAGE_MAX_BYTES)" (is "?L \<longleftrightarrow> ?R") for us n
  proof
    assume ?L
    then obtain k v g where "us = flat (CMap [(0, CBytes k), (1, CBytes v), (2, option_item g)])"
      "Suc 0 \<le> length k \<and> length k \<le> 4096 \<and> length v \<le> 2097152 \<and> (\<forall>b. g = Some b \<longrightarrow> length b = 16 \<and> scope = g) \<and>
      n = acc + length k + length v + option_length g \<and> n \<le> NATIVE_RECEIVE_STORAGE_MAX_BYTES" by blast
    then show ?R
      by (intro exI [of _ "\<lparr>ns_key = k, ns_value = v, ns_group_id = g\<rparr>"])
        (cases g; simp add: native_entry_item_def native_entry_shape_def scoped_to_def entry_size_def)
  next
    assume ?R
    then obtain e where "us = flat (native_entry_item e)" "native_entry_shape e" "scoped_to scope e"
      "n = acc + entry_size e" "n \<le> NATIVE_RECEIVE_STORAGE_MAX_BYTES" by blast
    then show ?L
      by (intro exI [of _ "ns_key e"] exI [of _ "ns_value e"] exI [of _ "ns_group_id e"])
        (auto simp: native_entry_item_def native_entry_shape_def scoped_to_def entry_size_def)
  qed
  ultimately show ?thesis by (rule tokspec_cong)
qed

definition rows_read :: "bytes option \<Rightarrow> nat \<Rightarrow> nat \<Rightarrow> NativeStorageEntryV2 list \<Rightarrow> cbor_tok list \<Rightarrow> bool" where
  "rows_read scope n acc es us \<longleftrightarrow> us = concat (map (flat \<circ> native_entry_item) es) \<and> length es = n \<and>
     (\<forall>e \<in> set es. native_entry_shape e \<and> scoped_to scope e) \<and>
     (es = [] \<or> acc + sum_list (map entry_size es) \<le> NATIVE_RECEIVE_STORAGE_MAX_BYTES)"

lemma rows_read_Cons: "rows_read scope (Suc n) acc xs us \<longleftrightarrow> (\<exists>e es u1 u2. xs = e # es \<and> us = u1 @ u2 \<and>
    u1 = flat (native_entry_item e) \<and> native_entry_shape e \<and> scoped_to scope e \<and>
    acc + entry_size e \<le> NATIVE_RECEIVE_STORAGE_MAX_BYTES \<and> rows_read scope n (acc + entry_size e) es u2)"
  by (cases xs) (auto simp: rows_read_def)

lemma read_entries:
  assumes N: "ncbor_ok N"
  shows "tokspec (read_storage_entries N scope n acc) (rows_read scope n acc)"
proof (induction n arbitrary: acc)
  case 0
  show ?case by (auto simp: tokspec_def rows_read_def)
next
  case (Suc n)
  have m: "n < 18446744073709551616 \<and> n \<le> NATIVE_RECEIVE_STORAGE_MAX_BYTES \<and> P \<longleftrightarrow>
      n \<le> NATIVE_RECEIVE_STORAGE_MAX_BYTES \<and> P" for n P
    by (auto simp: NATIVE_RECEIVE_STORAGE_MAX_BYTES_def)
  show ?case
    unfolding read_storage_entries.simps
    by (rule tokspec_cong, (rule tok_basic read_entry [OF N] Suc.IH)+)
      (simp add: rows_read_Cons add_lengths_iff m not_less scoped_to_def entry_size_def add.assoc, blast)
qed

lemma scan_entries:
  assumes N: "ncbor_ok N"
  shows "tokspec (scan_storage_entries N scope n acc) (\<lambda>u us. \<exists>es. rows_read scope n acc es us)"
proof (induction n arbitrary: acc)
  case 0
  show ?case by (auto simp: tokspec_def rows_read_def)
next
  case (Suc n)
  show ?case
    unfolding scan_storage_entries.simps
    by (rule tokspec_cong, (rule tok_basic scan_entry [OF N] Suc.IH)+) (simp add: rows_read_Cons, blast)
qed

lemma scan_then_read:
  assumes N: "ncbor_ok N"
  shows "tokspec (bindS (readS (\<lambda>input. fst (scan_storage_entries N scope n acc input)))
    (\<lambda>_. read_storage_entries N scope n acc)) (rows_read scope n acc)"
proof (rule tokspecI)
  fix ts v s
  assume ok: "list_all tok_ok ts"
  note r = tokspecD [OF read_entries [OF N] ok] and c = tokspecD [OF scan_entries [OF N] ok]
  have "fst (scan_storage_entries N scope n acc (puts ts)) = Inr ()"
    if "read_storage_entries N scope n acc (puts ts) = (Inr v, s)"
    using that unfolding r using c [of scope n acc "()" s] by (metis fst_conv)
  then have "bindS (readS (\<lambda>input. fst (scan_storage_entries N scope n acc input)))
      (\<lambda>_. read_storage_entries N scope n acc) (puts ts) = (Inr v, s) \<longleftrightarrow>
    read_storage_entries N scope n acc (puts ts) = (Inr v, s)"
    by (cases "fst (scan_storage_entries N scope n acc (puts ts))") (auto simp: run_bindS)
  with r show "bindS (readS (\<lambda>input. fst (scan_storage_entries N scope n acc input)))
      (\<lambda>_. read_storage_entries N scope n acc) (puts ts) = (Inr v, s) \<longleftrightarrow>
    (\<exists>us rest. ts = us @ rest \<and> s = puts rest \<and> rows_read scope n acc v us)" by simp
qed

lemma repeated_neighbour_iff: "sorted ks \<Longrightarrow> repeated_neighbour ks \<longleftrightarrow> \<not> distinct ks"
proof (induction ks rule: repeated_neighbour.induct)
  case (1 a b r)
  then have "a \<in> set (b # r) \<longleftrightarrow> a = b" by (force dest: order.antisym)
  with 1 show ?case by auto
qed simp_all

lemma repeated_rows: "repeated_neighbour (map ns_key (sort_key ns_key rows)) \<longleftrightarrow> \<not> distinct (map ns_key rows)"
  by (simp add: repeated_neighbour_iff distinct_map)

definition snapshot_item :: "NativeStorageEntryV2 list \<Rightarrow> cbor_item" where
  "snapshot_item rows = CMap [(0, CUint 1), (1, CArray (map native_entry_item rows))]"

definition rows_shape :: "bytes option \<Rightarrow> NativeStorageEntryV2 list \<Rightarrow> bool" where
  "rows_shape scope rows \<longleftrightarrow> length rows \<le> 4096 \<and> distinct (map ns_key rows) \<and>
     (\<forall>e \<in> set rows. native_entry_shape e \<and> scoped_to scope e) \<and>
     sum_list (map entry_size rows) \<le> NATIVE_RECEIVE_STORAGE_MAX_BYTES"

definition snapshot_of :: "NativeStorageEntryV2 list \<Rightarrow> NativeStorageSnapshotV2" where
  "snapshot_of rows = \<lparr>sn_storage_format_version = 1, sn_entries = sort_key ns_key rows\<rparr>"

lemma decode_storage_snapshot_alt: "decode_storage_snapshot N scope =
     bindS (expect_map N 2) (\<lambda>_.
     bindS (expect_key N 0) (\<lambda>_.
     bindS (native_item (cd_u32 (nc N))) (\<lambda>version.
     if version \<noteq> 1 then liftS (Inl StorageFormatMismatch)
     else
       bindS (expect_key N 1) (\<lambda>_.
       bindS (expect_array_max N NATIVE_RECEIVE_STORAGE_MAX_ENTRIES) (\<lambda>n.
       bindS (bindS (readS (\<lambda>input. fst (scan_storage_entries N scope n 0 input)))
         (\<lambda>_. read_storage_entries N scope n 0)) (\<lambda>entries.
       if repeated_neighbour (map ns_key (sort_key ns_key entries)) then liftS (Inl InvalidStorageSnapshot)
       else returnS \<lparr>sn_storage_format_version = version, sn_entries = sort_key ns_key entries\<rparr>))))))"
  unfolding decode_storage_snapshot_def bindS_assoc Let_def ..

lemma read_snapshot:
  assumes N: "ncbor_ok N"
  shows "tokspec (decode_storage_snapshot N scope) (\<lambda>s us. \<exists>rows. us = flat (snapshot_item rows) \<and>
    s = snapshot_of rows \<and> rows_shape scope rows)"
proof -
  have f: "concat (map flat (map native_entry_item rows)) = concat (map (flat \<circ> native_entry_item) rows)" for rows
    by simp
  have z: "rows = [] \<or> sum_list (map entry_size rows) \<le> NATIVE_RECEIVE_STORAGE_MAX_BYTES \<longleftrightarrow>
     sum_list (map entry_size rows) \<le> NATIVE_RECEIVE_STORAGE_MAX_BYTES" for rows
    by (cases rows) simp_all
  have one: "(ucast (1 :: u32) :: u64) = 1" by simp
  show ?thesis
    unfolding decode_storage_snapshot_alt
    by (rule tokspec_cong, (rule scan_then_read [OF N] | rule tok_basic tok_rules [OF N] | simp; fail)+)
      (simp add: rows_read_def z repeated_rows snapshot_item_def snapshot_of_def rows_shape_def native_consts,
        rule iffI, clarsimp, blast, clarsimp, rule_tac x = "length rows" in exI, simp, rule_tac x = rows in exI, simp)
qed

section \<open>Requests\<close>

definition process_item :: "ProcessRequest \<Rightarrow> NativeStorageEntryV2 list \<Rightarrow> cbor_item" where
  "process_item r rows = CMap [(0, CUint (ucast (pq_profile_id r))), (1, CBytes (pq_group_id r)),
     (2, CBytes (pq_message_bytes r)), (3, CBytes (pq_expected_aad r)),
     (4, native_leaf_item (pq_expected_sender r)), (5, native_expected_item (pq_expected_previous_state r)),
     (6, native_expected_item (pq_expected_resulting_state r)),
     (7, CBytes (pq_expected_base_group_state_sha256 r)), (8, snapshot_item rows),
     (9, native_expected_item (pq_expected_message_state r)), (10, CUint (ucast (pq_expected_retention r))),
     (11, CBytes (pq_expected_message_sha256 r)), (12, CBytes (pq_incarnation_id r))]"

definition process_shape :: "ProcessRequest \<Rightarrow> bool" where
  "process_shape r \<longleftrightarrow> pq_profile_id r = 2 \<and> length (pq_group_id r) = 16 \<and>
     1 \<le> length (pq_message_bytes r) \<and> length (pq_message_bytes r) \<le> 1024 * 1024 \<and>
     1 \<le> length (pq_expected_aad r) \<and> length (pq_expected_aad r) \<le> 16 * 1024 \<and>
     native_leaf_shape (pq_expected_sender r) \<and> native_expected_shape (pq_expected_previous_state r) \<and>
     native_expected_shape (pq_expected_resulting_state r) \<and>
     length (pq_expected_base_group_state_sha256 r) = 32 \<and>
     native_expected_shape (pq_expected_message_state r) \<and>
     validate_retention (pq_expected_retention r) = Inr () \<and>
     length (pq_expected_message_sha256 r) = 32 \<and>
     1 \<le> length (pq_incarnation_id r) \<and> length (pq_incarnation_id r) \<le> 128"

definition welcome_item :: "WelcomeRequest \<Rightarrow> NativeStorageEntryV2 list \<Rightarrow> cbor_item" where
  "welcome_item r rows = CMap [(0, CUint (ucast (wq_profile_id r))), (1, CBytes (wq_welcome_bytes r)),
     (2, option_item (wq_ratchet_tree_bytes r)), (3, CBytes (wq_signer_bytes r)),
     (4, native_leaf_item (wq_expected_local_leaf r)), (5, native_expected_item (wq_expected_resulting_state r)),
     (6, CBytes (wq_expected_target_key_package_sha256 r)), (7, snapshot_item rows),
     (8, CUint (ucast (wq_retention r))), (9, CBytes (wq_incarnation_id r)),
     (10, CBytes (wq_expected_welcome_sha256 r))]"

definition welcome_shape :: "WelcomeRequest \<Rightarrow> bool" where
  "welcome_shape r \<longleftrightarrow> wq_profile_id r = 2 \<and>
     1 \<le> length (wq_welcome_bytes r) \<and> length (wq_welcome_bytes r) \<le> 1024 * 1024 \<and>
     (\<forall>t. wq_ratchet_tree_bytes r = Some t \<longrightarrow> 1 \<le> length t \<and> length t \<le> 2 * 1024 * 1024) \<and>
     1 \<le> length (wq_signer_bytes r) \<and> length (wq_signer_bytes r) \<le> 4096 \<and>
     native_leaf_shape (wq_expected_local_leaf r) \<and> native_expected_shape (wq_expected_resulting_state r) \<and>
     length (wq_expected_target_key_package_sha256 r) = 32 \<and>
     validate_retention (wq_retention r) = Inr () \<and>
     1 \<le> length (wq_incarnation_id r) \<and> length (wq_incarnation_id r) \<le> 128 \<and>
     length (wq_expected_welcome_sha256 r) = 32"

lemma ucast_inj:
  "(ucast (a :: byte) :: u64) = ucast b \<longleftrightarrow> a = b" "(ucast (c :: u16) :: u64) = ucast d \<longleftrightarrow> c = d"
  "(ucast (e :: u32) :: u64) = ucast f \<longleftrightarrow> e = f"
  using ucast_back by metis+

lemma validate_profile_iff: "validate_profile p = Inr u \<longleftrightarrow> p = 2"
  by (simp add: validate_profile_def NATIVE_RECEIVE_PROFILE_V2_def)

lemma read_tree [tok_rules]:
  assumes N: "ncbor_ok N"
  shows "tokspec (decode_optional_tree N) (\<lambda>t us. us = flat (option_item t) \<and>
    (\<forall>b. t = Some b \<longrightarrow> 1 \<le> length b \<and> length b \<le> 2 * 1024 * 1024))"
  unfolding decode_optional_tree_def
  by (rule tokspec_cong, rule tokspec_type [OF N], (rule tok_basic tok_rules [OF N] | simp; fail)+)
    (auto simp: option_item_def native_consts split: option.splits)

lemmas tok_parts = read_leaf read_expected read_snapshot

lemma read_process:
  assumes N: "ncbor_ok N"
  shows "tokspec (decode_process_request N operation) (\<lambda>q us. \<exists>r rows. q = ReqProcess r \<and>
    us = flat (process_item r rows) \<and> pq_operation r = operation \<and> pq_storage r = snapshot_of rows \<and>
    rows_shape (Some (pq_group_id r)) rows \<and> process_shape r)"
  unfolding decode_process_request_def
  apply (rule tokspec_cong, (rule tok_basic tok_rules [OF N] tok_parts [OF N] | simp; fail)+)
  apply (simp add: native_consts validate_profile_iff process_item_def process_shape_def ucast_inj)
  apply (rule iffI)
  subgoal by clarsimp blast
  subgoal by clarsimp ((rule exI conjI refl | assumption | simp; fail)+)
  done

lemma read_welcome:
  assumes N: "ncbor_ok N"
  shows "tokspec (decode_welcome_request N) (\<lambda>q us. \<exists>r rows. q = ReqWelcome r \<and>
    us = flat (welcome_item r rows) \<and> wq_storage r = snapshot_of rows \<and>
    rows_shape None rows \<and> welcome_shape r)"
  unfolding decode_welcome_request_def
  apply (rule tokspec_cong, (rule tok_basic tok_rules [OF N] tok_parts [OF N] | simp; fail)+)
  apply (simp add: native_consts validate_profile_iff welcome_item_def welcome_shape_def ucast_inj)
  apply (rule iffI)
  subgoal by clarsimp blast
  subgoal by clarsimp ((rule exI conjI refl | assumption | simp; fail)+)
  done

end
