(* ===== verification/NativeRoundTrip.thy ===== *)
theory NativeRoundTrip
  imports NativeRequest
begin

text \<open>
  Whole requests: the frames that the decoder accepts (\<open>native_request_iff\<close>), and that it reads back
  what the encoder wrote.
\<close>

section \<open>Frames\<close>

definition versioned_frame :: "u16 \<Rightarrow> byte \<Rightarrow> bytes \<Rightarrow> bytes" where
  "versioned_frame v operation payload =
     FRAME_MAGIC @ be16 v @ [operation] @ [0] @ be32 (of_nat (length payload)) @ payload"

definition native_frame :: "byte \<Rightarrow> bytes \<Rightarrow> bytes" where
  "native_frame operation payload = FRAME_MAGIC @ be16 NATIVE_RECEIVE_CONTRACT_VERSION @ [operation] @ [0]
     @ be32 (of_nat (length payload)) @ payload"

lemma native_frame_versioned: "native_frame = versioned_frame NATIVE_RECEIVE_CONTRACT_VERSION"
  by (simp add: fun_eq_iff native_frame_def versioned_frame_def)

lemma length_versioned_frame: "length (versioned_frame v operation payload) = 12 + length payload"
  by (simp add: versioned_frame_def FRAME_MAGIC_def ascii_def be16_def be32_def)

lemma length_native_frame: "length (native_frame operation payload) = 12 + length payload"
  by (simp add: native_frame_def FRAME_MAGIC_def ascii_def be16_def be32_def)

lemma encode_frame_iff:
  assumes "mx < 2 ^ 32"
  shows "encode_frame_with_max operation payload mx = Inr frame \<longleftrightarrow>
    frame = native_frame operation payload \<and> length frame \<le> mx"
proof -
  have "encode_frame_with_max operation payload mx =
      (if 12 + length payload > mx then Inl LimitExceeded else Inr (native_frame operation payload))"
    if "12 + length payload < 2 ^ 64"
    using that assms by (simp add: encode_frame_with_max_def usize_checked_add_def FRAME_HEADER_BYTES_def native_frame_def)
  moreover have "encode_frame_with_max operation payload mx = Inl LimitExceeded"
    if "\<not> 12 + length payload < 2 ^ 64"
    using that by (simp add: encode_frame_with_max_def usize_checked_add_def FRAME_HEADER_BYTES_def)
  ultimately show ?thesis
    using assms by (cases "12 + length payload < 2 ^ 64") (auto simp: length_native_frame)
qed

lemma twelve_bytes:
  assumes "12 \<le> length (frame :: bytes)"
  obtains a0 a1 a2 a3 a4 a5 a6 a7 a8 a9 a10 a11 r where
    "frame = [a0, a1, a2, a3, a4, a5, a6, a7, a8, a9, a10, a11] @ r"
proof -
  have "length (take 12 frame) = Suc (Suc (Suc (Suc (Suc (Suc (Suc (Suc (Suc (Suc (Suc (Suc 0)))))))))))"
    using assms by simp
  then obtain a0 a1 a2 a3 a4 a5 a6 a7 a8 a9 a10 a11 where
    "take 12 frame = [a0, a1, a2, a3, a4, a5, a6, a7, a8, a9, a10, a11]"
    unfolding length_Suc_conv by auto
  then show thesis using that [of a0 a1 a2 a3 a4 a5 a6 a7 a8 a9 a10 a11 "drop 12 frame"]
    by (metis append_take_drop_id)
qed

lemma frame_parts: "versioned_frame v operation payload ! 6 = operation"
  "drop 12 (versioned_frame v operation payload) = payload"
  "take 4 (versioned_frame v operation payload) = FRAME_MAGIC"
  "drop 6 (versioned_frame v operation payload) = drop 6 (versioned_frame v' operation payload)"
  by (simp_all add: versioned_frame_def FRAME_MAGIC_def ascii_def be16_def be32_def nth_append drop_append)

lemma frame_fields_iff:
  assumes "12 \<le> length input" "length input < 2 ^ 32"
  shows "take 4 input = FRAME_MAGIC \<and> word_of_be [input ! 4, input ! 5] = (v :: u16) \<and> input ! 7 = 0 \<and>
      unat (word_of_be [input ! 8, input ! 9, input ! 10, input ! 11] :: u32) = length input - 12 \<longleftrightarrow>
    input = versioned_frame v (input ! 6) (drop 12 input)"
proof -
  from assms(1) obtain a0 a1 a2 a3 a4 a5 a6 a7 a8 a9 a10 a11 r where
    f: "input = [a0, a1, a2, a3, a4, a5, a6, a7, a8, a9, a10, a11] @ r" by (rule twelve_bytes)
  with assms(2) have r: "length r < 2 ^ 32" by simp
  have w: "word_of_be b = w \<longleftrightarrow> b = be_bytes k w" if "LENGTH('n) = 8 * k" "length b = k" for b and w :: "'n::len word" and k
    using be_bytes_word_of_be [OF that] word_of_be_bytes [OF that(1), of w] by metis
  have ver: "word_of_be [a4, a5] = v \<longleftrightarrow> [a4, a5] = be16 v"
    unfolding be16_def by (rule w) simp_all
  have len: "unat (word_of_be [a8, a9, a10, a11] :: u32) = length r \<longleftrightarrow> [a8, a9, a10, a11] = be32 (of_nat (length r))"
  proof -
    have "unat (of_nat (length r) :: u32) = length r" using r by (simp add: unat_of_nat take_bit_nat_eq_self)
    then have "unat (word_of_be [a8, a9, a10, a11] :: u32) = length r \<longleftrightarrow>
        word_of_be [a8, a9, a10, a11] = (of_nat (length r) :: u32)"
      by (metis word_unat_eq_iff)
    then show ?thesis unfolding be32_def by (simp add: w)
  qed
  have "versioned_frame v a6 r = FRAME_MAGIC @ be16 v @ [a6] @ [0] @ be32 (of_nat (length r)) @ r"
    by (simp add: versioned_frame_def)
  moreover have "length FRAME_MAGIC = 4" by (simp add: FRAME_MAGIC_def ascii_def)
  moreover have "input = [a0, a1, a2, a3] @ [a4, a5] @ [a6] @ [a7] @ [a8, a9, a10, a11] @ r" using f by simp
  ultimately have "input = versioned_frame v a6 r \<longleftrightarrow> [a0, a1, a2, a3] = FRAME_MAGIC \<and> [a4, a5] = be16 v \<and> a7 = 0 \<and>
      [a8, a9, a10, a11] = be32 (of_nat (length r))"
    by (simp add: append_eq_append_conv length_be del: append_Cons)
  then show ?thesis unfolding ver [symmetric] len [symmetric] f by (simp add: numeral_eq_Suc)
qed

lemma decode_header_iff:
  assumes "mx < 2 ^ 32"
  shows "decode_header frame mx = Inr h \<longleftrightarrow>
    frame = native_frame (dh_operation h) (dh_payload h) \<and> length frame \<le> mx"
proof (cases "12 \<le> length frame \<and> length frame \<le> mx")
  case False
  then show ?thesis by (auto simp: decode_header_def FRAME_HEADER_BYTES_def length_native_frame)
next
  case True
  with assms have l: "12 \<le> length frame" "length frame < 2 ^ 32" by simp_all
  have "decode_header frame mx = Inr h \<longleftrightarrow> (take 4 frame = FRAME_MAGIC \<and>
      word_of_be [frame ! 4, frame ! 5] = NATIVE_RECEIVE_CONTRACT_VERSION \<and> frame ! 7 = 0 \<and>
      unat (word_of_be [frame ! 8, frame ! 9, frame ! 10, frame ! 11] :: u32) = length frame - 12) \<and>
      h = \<lparr>dh_operation = frame ! 6, dh_payload = drop 12 frame\<rparr>"
    using True by (auto simp: decode_header_def FRAME_HEADER_BYTES_def Let_def)
  also have "\<dots> \<longleftrightarrow> frame = native_frame (frame ! 6) (drop 12 frame) \<and>
      h = \<lparr>dh_operation = frame ! 6, dh_payload = drop 12 frame\<rparr>"
    unfolding frame_fields_iff [OF l] native_frame_versioned ..
  also have "\<dots> \<longleftrightarrow> frame = native_frame (dh_operation h) (dh_payload h)"
    using frame_parts [of NATIVE_RECEIVE_CONTRACT_VERSION "dh_operation h" "dh_payload h"]
    by (cases h) (auto simp: native_frame_versioned)
  finally show ?thesis using True by simp
qed

section \<open>Requests\<close>

fun request_operation :: "NativeReceiveRequestV2 \<Rightarrow> NativeReceiveOperationV2" where
  "request_operation (ReqProcess r) = pq_operation r"
| "request_operation (ReqWelcome r) = OpWelcome"

fun request_storage :: "NativeReceiveRequestV2 \<Rightarrow> NativeStorageSnapshotV2" where
  "request_storage (ReqProcess r) = pq_storage r"
| "request_storage (ReqWelcome r) = wq_storage r"

fun request_scope :: "NativeReceiveRequestV2 \<Rightarrow> bytes option" where
  "request_scope (ReqProcess r) = Some (pq_group_id r)"
| "request_scope (ReqWelcome r) = None"

fun request_shape :: "NativeReceiveRequestV2 \<Rightarrow> bool" where
  "request_shape (ReqProcess r) \<longleftrightarrow> pq_operation r \<noteq> OpWelcome \<and> process_shape r"
| "request_shape (ReqWelcome r) \<longleftrightarrow> welcome_shape r"

fun request_item :: "NativeReceiveRequestV2 \<Rightarrow> NativeStorageEntryV2 list \<Rightarrow> cbor_item" where
  "request_item (ReqProcess r) = process_item r"
| "request_item (ReqWelcome r) = welcome_item r"

text \<open>The preflight has room for every request: seven items a row, and six levels.\<close>

lemma entry_items: "items (native_entry_item e) = 7"
  by (simp add: native_entry_item_def option_item_def split: option.split)

lemma part_items: "items (native_leaf_item l) = 7" "items (native_expected_item x) = 7"
  "items (snapshot_item rows) = 5 + 1 + 7 * length rows - 1" "items (option_item b) = 1"
  by (simp_all add: native_leaf_item_def native_expected_item_def snapshot_item_def entry_items option_item_def
      comp_def sum_list_triv split: option.split)

lemma request_items: "length rows \<le> 4096 \<Longrightarrow> items (request_item q rows) \<le> PREFLIGHT_MAX_ITEMS"
  by (cases q) (simp_all add: process_item_def welcome_item_def part_items PREFLIGHT_MAX_ITEMS_def)

lemma part_fits:
  "d \<le> 4 \<Longrightarrow> native_leaf_shape l \<Longrightarrow> fits d (native_leaf_item l)"
  "d \<le> 4 \<Longrightarrow> native_expected_shape x \<Longrightarrow> fits d (native_expected_item x)"
  "d \<le> 4 \<Longrightarrow> native_entry_shape e \<Longrightarrow> fits d (native_entry_item e)"
  by (auto simp: native_leaf_item_def native_expected_item_def native_entry_item_def native_leaf_shape_def
      native_expected_shape_def native_entry_shape_def option_item_def split: option.split)

lemma snapshot_fits: "rows_shape scope rows \<Longrightarrow> fits 1 (snapshot_item rows)"
  by (auto simp: snapshot_item_def rows_shape_def numeral_eq_Suc part_fits)

lemma request_fits: "request_shape q \<Longrightarrow> rows_shape scope rows \<Longrightarrow> fits 0 (request_item q rows)"
  using snapshot_fits [of scope rows]
  by (cases q) (auto simp: process_item_def welcome_item_def process_shape_def welcome_shape_def part_fits
      option_item_def split: option.split)

definition request_frame :: "NativeReceiveRequestV2 \<Rightarrow> NativeStorageEntryV2 list \<Rightarrow> bytes" where
  "request_frame q rows = native_frame (operation_as_u8 (request_operation q)) (put_item (request_item q rows))"

lemma operation_iff: "operation_from_u8 b = Inr op \<longleftrightarrow> b = operation_as_u8 op"
  by (cases op) (auto simp: operation_from_u8_def)

lemma read_whole:
  assumes "tokspec m R" "fits 0 x"
  shows "m (put_item x) = (Inr v, []) \<longleftrightarrow> R v (flat x)"
proof -
  have "[] = puts rest \<longleftrightarrow> rest = []" for rest by (metis puts_Nil_iff)
  then show ?thesis using tokspecD [OF assms(1) flat_ok [OF assms(2)], of v "[]"] by (simp add: puts_flat)
qed

lemma put_item_flat: "flat x = flat y \<Longrightarrow> put_item x = put_item y"
  by (metis puts_flat)

theorem native_request_iff:
  assumes N: "ncbor_ok N"
  shows "decode_native_receive_request_v2 N frame = Inr q \<longleftrightarrow>
    (\<exists>rows. request_storage q = snapshot_of rows \<and> rows_shape (request_scope q) rows \<and> request_shape q \<and>
       frame = request_frame q rows \<and> length frame \<le> NATIVE_RECEIVE_REQUEST_MAX_BYTES)"
proof -
  define body where "body op = (case op of OpApplication \<Rightarrow> decode_process_request N op
    | OpCommit \<Rightarrow> decode_process_request N op | OpWelcome \<Rightarrow> decode_welcome_request N)" for op
  have body: "tokspec (body op) (\<lambda>q us. \<exists>rows. request_storage q = snapshot_of rows \<and> rows_shape (request_scope q) rows \<and>
      request_shape q \<and> request_operation q = op \<and> us = flat (request_item q rows))" for op
  proof (cases op)
    case OpWelcome
    show ?thesis unfolding body_def OpWelcome NativeReceiveOperationV2.case
      apply (rule tokspec_cong [OF read_welcome [OF N]])
      apply (rename_tac v us)
      apply (case_tac v)
      by auto
  qed (simp add: body_def, rule tokspec_cong [OF read_process [OF N]], case_tac v, auto)+
  have mx: "NATIVE_RECEIVE_REQUEST_MAX_BYTES < 2 ^ 32" by (simp add: NATIVE_RECEIVE_REQUEST_MAX_BYTES_def)
  have "decode_native_receive_request_v2 N frame = Inr q \<longleftrightarrow>
      (\<exists>h op. decode_header frame NATIVE_RECEIVE_REQUEST_MAX_BYTES = Inr h \<and>
         operation_from_u8 (dh_operation h) = Inr op \<and> preflight_cbor (dh_payload h) = Inr () \<and>
         body op (dh_payload h) = (Inr q, []))"
  proof -
    have "(case r of (Inl e, _) \<Rightarrow> Inl e | (Inr request, rest) \<Rightarrow>
        if rest \<noteq> [] then Inl NoncanonicalEncoding else Inr request) = Inr q \<longleftrightarrow> r = (Inr q, [])"
      for r :: "(MlsErrorCode + NativeReceiveRequestV2) \<times> bytes"
      by (auto split: prod.splits sum.splits)
    then show ?thesis
      by (simp add: decode_native_receive_request_v2_def bindE_Inr_iff body_def)
  qed
  also have "\<dots> \<longleftrightarrow> (\<exists>payload op x. frame = native_frame (operation_as_u8 op) payload \<and>
      length frame \<le> NATIVE_RECEIVE_REQUEST_MAX_BYTES \<and>
      payload = put_item x \<and> fits 0 x \<and> items x \<le> PREFLIGHT_MAX_ITEMS \<and> body op payload = (Inr q, []))"
  proof -
    have "(\<exists>(h :: DecodedHeader) op. (frame = native_frame (dh_operation h) (dh_payload h) \<and> length frame \<le> m) \<and>
         dh_operation h = operation_as_u8 op \<and> P (dh_payload h) \<and> Q op (dh_payload h)) \<longleftrightarrow>
      (\<exists>payload op. frame = native_frame (operation_as_u8 op) payload \<and> length frame \<le> m \<and>
         P payload \<and> Q op payload)" (is "?L \<longleftrightarrow> ?R") for m P Q
    proof
      assume ?R
      then obtain payload op where "frame = native_frame (operation_as_u8 op) payload" "length frame \<le> m"
        "P payload" "Q op payload" by blast
      then show ?L by (intro exI [of _ "\<lparr>dh_operation = operation_as_u8 op, dh_payload = payload\<rparr>"]) auto
    next
      assume ?L
      then obtain h :: DecodedHeader and op where "frame = native_frame (dh_operation h) (dh_payload h)"
        "length frame \<le> m" "dh_operation h = operation_as_u8 op" "P (dh_payload h)" "Q op (dh_payload h)" by blast
      then show ?R by (intro exI [of _ "dh_payload h"] exI [of _ op]) simp
    qed
    note this [of NATIVE_RECEIVE_REQUEST_MAX_BYTES "\<lambda>p. \<exists>x. p = put_item x \<and> fits 0 x \<and> items x \<le> PREFLIGHT_MAX_ITEMS"
        "\<lambda>op p. body op p = (Inr q, [])"]
    also have "(\<exists>payload op. frame = native_frame (operation_as_u8 op) payload \<and>
        length frame \<le> NATIVE_RECEIVE_REQUEST_MAX_BYTES \<and>
        (\<exists>x. payload = put_item x \<and> fits 0 x \<and> items x \<le> PREFLIGHT_MAX_ITEMS) \<and> body op payload = (Inr q, [])) \<longleftrightarrow>
      (\<exists>payload op x. frame = native_frame (operation_as_u8 op) payload \<and>
        length frame \<le> NATIVE_RECEIVE_REQUEST_MAX_BYTES \<and>
        payload = put_item x \<and> fits 0 x \<and> items x \<le> PREFLIGHT_MAX_ITEMS \<and> body op payload = (Inr q, []))"
      by blast
    finally show ?thesis unfolding decode_header_iff [OF mx] operation_iff preflight_iff by simp
  qed
  also have "\<dots> \<longleftrightarrow> (\<exists>op x rows. frame = native_frame (operation_as_u8 op) (put_item x) \<and>
      length frame \<le> NATIVE_RECEIVE_REQUEST_MAX_BYTES \<and> fits 0 x \<and> items x \<le> PREFLIGHT_MAX_ITEMS \<and>
      request_storage q = snapshot_of rows \<and> rows_shape (request_scope q) rows \<and>
      request_shape q \<and> request_operation q = op \<and> flat x = flat (request_item q rows))"
    using read_whole [OF body] by blast
  also have "\<dots> \<longleftrightarrow> (\<exists>rows. request_storage q = snapshot_of rows \<and> rows_shape (request_scope q) rows \<and> request_shape q \<and>
       frame = request_frame q rows \<and> length frame \<le> NATIVE_RECEIVE_REQUEST_MAX_BYTES)"
    (is "?L \<longleftrightarrow> ?R")
  proof
    assume ?L
    then show ?R unfolding request_frame_def using put_item_flat by metis
  next
    assume ?R
    then obtain rows where rows: "request_storage q = snapshot_of rows" "rows_shape (request_scope q) rows"
      "request_shape q" "frame = request_frame q rows" "length frame \<le> NATIVE_RECEIVE_REQUEST_MAX_BYTES" by blast
    then have "fits 0 (request_item q rows)" by (intro request_fits)
    moreover from rows(2) have "items (request_item q rows) \<le> PREFLIGHT_MAX_ITEMS"
      by (intro request_items) (simp add: rows_shape_def)
    ultimately have "fits 0 (request_item q rows)" "items (request_item q rows) \<le> PREFLIGHT_MAX_ITEMS"
      by simp_all
    with rows show ?L unfolding request_frame_def by blast
  qed
  finally show ?thesis .
qed

section \<open>The encoder\<close>

lemma encode_parts:
  assumes N: "ncbor_ok N"
  shows "native_encode_leaf N l = Inr b \<longleftrightarrow> native_leaf_shape l \<and> b = put_item (native_leaf_item l)"
    "encode_expected_roster N x = Inr b \<longleftrightarrow> native_expected_shape x \<and> b = put_item (native_expected_item x)"
    "(\<And>v. g = Some v \<Longrightarrow> length v < 2 ^ 64) \<Longrightarrow> encode_optional_bytes N g = put_item (option_item g)"
    "native_entry_shape e \<Longrightarrow> encode_storage_entry N e = put_item (native_entry_item e)"
proof -
  show "native_encode_leaf N l = Inr b \<longleftrightarrow> native_leaf_shape l \<and> b = put_item (native_leaf_item l)"
    by (auto simp: native_encode_leaf_def bindE_Inr_iff validate_ok_iff native_leaf_shape_def native_leaf_item_def
        native_consts ncbor_enc [OF N])
  show "encode_expected_roster N x = Inr b \<longleftrightarrow> native_expected_shape x \<and> b = put_item (native_expected_item x)"
    by (auto simp: encode_expected_roster_def bindE_Inr_iff validate_ok_iff native_expected_shape_def
        native_expected_item_def native_consts ncbor_enc [OF N])
  show o: "(\<And>v. g = Some v \<Longrightarrow> length v < 2 ^ 64) \<Longrightarrow> encode_optional_bytes N g = put_item (option_item g)" for g
    by (auto simp: encode_optional_bytes_def option_item_def ncbor_enc [OF N] split: option.split)
  show "native_entry_shape e \<Longrightarrow> encode_storage_entry N e = put_item (native_entry_item e)"
    using o [of "ns_group_id e"]
    by (auto simp: encode_storage_entry_def native_entry_item_def native_entry_shape_def ncbor_enc [OF N])
qed

lemma add_entry_size_iff: "add_entry_size acc e = Inr n \<longleftrightarrow>
    native_entry_shape e \<and> n = acc + entry_size e \<and> n < 2 ^ 64"
  by (auto simp: add_entry_size_def bindE_Inr_iff validate_ok_iff add_lengths_iff native_entry_shape_def
      native_consts entry_size_def split: option.splits)

lemma add_scoped_size_ok:
  "add_scoped_size scope acc e = Inr n \<Longrightarrow> native_entry_shape e \<and> scoped_to scope e \<and> n = acc + entry_size e"
  by (auto simp: add_scoped_size_def bindE_Inr_iff add_entry_size_iff scoped_to_def Let_def split: if_splits)

lemma fold_scoped_size:
  "foldE (add_scoped_size scope) acc es = Inr n \<Longrightarrow>
    (\<forall>e \<in> set es. native_entry_shape e \<and> scoped_to scope e) \<and> n = acc + sum_list (map entry_size es)"
proof (induction es arbitrary: acc)
  case (Cons e es)
  then obtain m where "add_scoped_size scope acc e = Inr m" "foldE (add_scoped_size scope) m es = Inr n"
    by (auto simp: bindE_Inr_iff)
  with Cons.IH add_scoped_size_ok show ?case by force
qed simp

lemma encode_snapshot_ok:
  assumes N: "ncbor_ok N" and e: "encode_storage_snapshot N s scope = Inr b"
  defines "rows \<equiv> sort_key ns_key (sn_entries s)"
  shows "rows_shape scope rows" "b = put_item (snapshot_item rows)" "snapshot_of rows = s\<lparr>sn_entries := rows\<rparr>"
proof -
  from e have v: "sn_storage_format_version s = 1" "length rows \<le> 4096"
    by (auto simp: encode_storage_snapshot_def rows_def native_consts split: if_splits)
  with e obtain n where n: "foldE (add_scoped_size scope) 0 rows = Inr n" "n \<le> NATIVE_RECEIVE_STORAGE_MAX_BYTES"
    "\<not> repeated_neighbour (map ns_key rows)"
    "b = cb_map N 2 @ cb_u8 N 0 @ cb_u32 (nc N) 1 @ cb_u8 N 1 @ cb_array (nc N) (of_nat (length rows))
      @ concat (map (encode_storage_entry N) rows)"
    by (auto simp: encode_storage_snapshot_def rows_def Let_def bindE_Inr_iff split: if_splits)
  note f = fold_scoped_size [OF n(1)]
  from n(3) have "distinct (map ns_key rows)"
    by (simp add: rows_def repeated_rows) (simp add: distinct_map)
  with f n(2) v(2) show "rows_shape scope rows" by (simp add: rows_shape_def)
  have m: "map (encode_storage_entry N) rows = map (put_item \<circ> native_entry_item) rows"
    using f encode_parts(4) [OF N] by simp
  show "b = put_item (snapshot_item rows)"
    unfolding n(4) m by (simp add: snapshot_item_def ncbor_enc [OF N])
  show "snapshot_of rows = s\<lparr>sn_entries := rows\<rparr>"
    using v(1) by (cases s) (simp add: snapshot_of_def rows_def sort_key_id_if_sorted)
qed

text \<open>A request with its rows in the order of the keys, as the encoder writes them.\<close>

definition sorted_rows :: "NativeReceiveRequestV2 \<Rightarrow> NativeStorageEntryV2 list" where
  "sorted_rows q = sort_key ns_key (sn_entries (request_storage q))"

fun canonical_request :: "NativeReceiveRequestV2 \<Rightarrow> NativeReceiveRequestV2" where
  "canonical_request (ReqProcess r) =
     ReqProcess (r\<lparr>pq_storage := (pq_storage r)\<lparr>sn_entries := sorted_rows (ReqProcess r)\<rparr>\<rparr>)"
| "canonical_request (ReqWelcome r) =
     ReqWelcome (r\<lparr>wq_storage := (wq_storage r)\<lparr>sn_entries := sorted_rows (ReqWelcome r)\<rparr>\<rparr>)"

lemma encode_process_ok:
  assumes N: "ncbor_ok N" and e: "encode_process_payload N 1 r = Inr b"
  shows "b = put_item (process_item r (sorted_rows (ReqProcess r)))" "process_shape r" "pq_operation r \<noteq> OpWelcome"
    "rows_shape (Some (pq_group_id r)) (sorted_rows (ReqProcess r))"
    "snapshot_of (sorted_rows (ReqProcess r)) = (pq_storage r)\<lparr>sn_entries := sorted_rows (ReqProcess r)\<rparr>"
proof -
  from e obtain st where st: "encode_storage_snapshot N (pq_storage r) (Some (pq_group_id r)) = Inr st"
    and rest: "pq_operation r \<noteq> OpWelcome" "process_shape r"
      "b = cb_map N 13 @ cb_u8 N 0 @ cb_u16 (nc N) (pq_profile_id r)
          @ cb_u8 N 1 @ cb_bytes (nc N) (pq_group_id r)
          @ cb_u8 N 2 @ cb_bytes (nc N) (pq_message_bytes r)
          @ cb_u8 N 3 @ cb_bytes (nc N) (pq_expected_aad r)
          @ cb_u8 N 4 @ put_item (native_leaf_item (pq_expected_sender r))
          @ cb_u8 N 5 @ put_item (native_expected_item (pq_expected_previous_state r))
          @ cb_u8 N 6 @ put_item (native_expected_item (pq_expected_resulting_state r))
          @ cb_u8 N 7 @ cb_bytes (nc N) (pq_expected_base_group_state_sha256 r)
          @ cb_u8 N 8 @ st @ cb_u8 N 9 @ put_item (native_expected_item (pq_expected_message_state r))
          @ cb_u8 N 10 @ cb_u32 (nc N) (pq_expected_retention r)
          @ cb_u8 N 11 @ cb_bytes (nc N) (pq_expected_message_sha256 r)
          @ cb_u8 N 12 @ cb_bytes (nc N) (pq_incarnation_id r)"
    by (auto simp: encode_process_payload_def bindE_Inr_iff validate_ok_iff validate_profile_iff
        encode_parts [OF N] process_shape_def native_consts split: if_splits)
  note snap = encode_snapshot_ok [OF N st]
  have rows: "sorted_rows (ReqProcess r) = sort_key ns_key (sn_entries (pq_storage r))"
    by (simp add: sorted_rows_def)
  have sizes: "length (pq_group_id r) < 2 ^ 64" "length (pq_message_bytes r) < 2 ^ 64" "length (pq_expected_aad r) < 2 ^ 64"
    "length (pq_expected_base_group_state_sha256 r) < 2 ^ 64" "length (pq_expected_message_sha256 r) < 2 ^ 64"
    "length (pq_incarnation_id r) < 2 ^ 64"
    using rest(2) by (simp_all add: process_shape_def)
  show "b = put_item (process_item r (sorted_rows (ReqProcess r)))"
    unfolding rest(3) snap(2) rows by (simp add: process_item_def ncbor_enc [OF N] sizes [THEN ncbor_enc(7) [OF N]])
  show "process_shape r" "pq_operation r \<noteq> OpWelcome" using rest by simp_all
  show "rows_shape (Some (pq_group_id r)) (sorted_rows (ReqProcess r))"
    "snapshot_of (sorted_rows (ReqProcess r)) = (pq_storage r)\<lparr>sn_entries := sorted_rows (ReqProcess r)\<rparr>"
    unfolding rows using snap by simp_all
qed

lemma encode_welcome_ok:
  assumes N: "ncbor_ok N" and e: "encode_welcome_payload N r = Inr b"
  shows "b = put_item (welcome_item r (sorted_rows (ReqWelcome r)))" "welcome_shape r"
    "rows_shape None (sorted_rows (ReqWelcome r))"
    "snapshot_of (sorted_rows (ReqWelcome r)) = (wq_storage r)\<lparr>sn_entries := sorted_rows (ReqWelcome r)\<rparr>"
proof -
  from e obtain st where st: "encode_storage_snapshot N (wq_storage r) None = Inr st"
    and rest: "welcome_shape r"
      "b = cb_map N 11 @ cb_u8 N 0 @ cb_u16 (nc N) (wq_profile_id r)
       @ cb_u8 N 1 @ cb_bytes (nc N) (wq_welcome_bytes r)
       @ cb_u8 N 2 @ encode_optional_bytes N (wq_ratchet_tree_bytes r)
       @ cb_u8 N 3 @ cb_bytes (nc N) (wq_signer_bytes r)
       @ cb_u8 N 4 @ put_item (native_leaf_item (wq_expected_local_leaf r))
       @ cb_u8 N 5 @ put_item (native_expected_item (wq_expected_resulting_state r))
       @ cb_u8 N 6 @ cb_bytes (nc N) (wq_expected_target_key_package_sha256 r)
       @ cb_u8 N 7 @ st
       @ cb_u8 N 8 @ cb_u32 (nc N) (wq_retention r)
       @ cb_u8 N 9 @ cb_bytes (nc N) (wq_incarnation_id r)
       @ cb_u8 N 10 @ cb_bytes (nc N) (wq_expected_welcome_sha256 r)"
    by (auto simp: encode_welcome_payload_def bindE_Inr_iff validate_ok_iff validate_profile_iff
        encode_parts(1,2) [OF N] welcome_shape_def native_consts split: option.splits)
  note snap = encode_snapshot_ok [OF N st]
  have rows: "sorted_rows (ReqWelcome r) = sort_key ns_key (sn_entries (wq_storage r))"
    by (simp add: sorted_rows_def)
  have sizes: "length (wq_welcome_bytes r) < 2 ^ 64" "length (wq_signer_bytes r) < 2 ^ 64"
    "length (wq_expected_target_key_package_sha256 r) < 2 ^ 64" "length (wq_incarnation_id r) < 2 ^ 64"
    "length (wq_expected_welcome_sha256 r) < 2 ^ 64"
    using rest(1) by (simp_all add: welcome_shape_def)
  have t: "encode_optional_bytes N (wq_ratchet_tree_bytes r) = put_item (option_item (wq_ratchet_tree_bytes r))"
    using rest(1) by (intro encode_parts(3) [OF N]) (auto simp: welcome_shape_def)
  show "b = put_item (welcome_item r (sorted_rows (ReqWelcome r)))"
    unfolding rest(2) snap(2) rows t by (simp add: welcome_item_def ncbor_enc [OF N] sizes [THEN ncbor_enc(7) [OF N]])
  show "welcome_shape r" using rest by simp
  show "rows_shape None (sorted_rows (ReqWelcome r))"
    "snapshot_of (sorted_rows (ReqWelcome r)) = (wq_storage r)\<lparr>sn_entries := sorted_rows (ReqWelcome r)\<rparr>"
    unfolding rows using snap by simp_all
qed

theorem encode_then_decode:
  assumes N: "ncbor_ok N" and e: "encode_native_receive_request_v2 N q = Inr frame"
  shows "decode_native_receive_request_v2 N frame = Inr (canonical_request q)"
proof -
  have mx: "NATIVE_RECEIVE_REQUEST_MAX_BYTES < 2 ^ 32" by (simp add: NATIVE_RECEIVE_REQUEST_MAX_BYTES_def)
  note defs = encode_native_receive_request_v2_def encode_native_receive_request_v2_with_aad_minimum_def
  show ?thesis
  proof (cases q)
    case (ReqProcess r)
    with e obtain b where b: "encode_process_payload N 1 r = Inr b"
      "frame = native_frame (operation_as_u8 (pq_operation r)) b" "length frame \<le> NATIVE_RECEIVE_REQUEST_MAX_BYTES"
      by (auto simp: defs bindE_Inr_iff encode_frame_iff [OF mx])
    note ok = encode_process_ok [OF N b(1)]
    show ?thesis
      unfolding native_request_iff [OF N] ReqProcess
      using ok b by (intro exI [of _ "sorted_rows (ReqProcess r)"])
        (simp add: request_frame_def process_shape_def process_item_def)
  next
    case (ReqWelcome r)
    with e obtain b where b: "encode_welcome_payload N r = Inr b"
      "frame = native_frame (operation_as_u8 OpWelcome) b" "length frame \<le> NATIVE_RECEIVE_REQUEST_MAX_BYTES"
      by (auto simp: defs bindE_Inr_iff encode_frame_iff [OF mx])
    note ok = encode_welcome_ok [OF N b(1)]
    show ?thesis
      unfolding native_request_iff [OF N] ReqWelcome
      using ok b by (intro exI [of _ "sorted_rows (ReqWelcome r)"])
        (simp add: request_frame_def welcome_shape_def welcome_item_def)
  qed
qed

end
