(* ===== verification/NativeLaws.thy ===== *)
theory NativeLaws
  imports NativeExecute NativeRoundTrip PreparationLaws
begin

text \<open>
  Execution of native receive frames: every input is answered by a frame within 8 MiB that carries
  the operation of the input, a refusal by its error code, and what the runtime accepted by the
  success itself, because it always fits an answer frame.
\<close>

section \<open>Every input is answered\<close>

lemma decoded_process: "decode_process_request N op s = (Inr q, t) \<Longrightarrow> request_operation q = op"
  unfolding decode_process_request_def run_bindS_ok_iff
  by (elim exE conjE) (auto)

lemma decoded_welcome: "decode_welcome_request N s = (Inr q, t) \<Longrightarrow> request_operation q = OpWelcome"
  unfolding decode_welcome_request_def run_bindS_ok_iff
  by (elim exE conjE) (auto)

lemma header_operation:
  "decode_header input mx = Inr h \<Longrightarrow> 6 < length input \<and> dh_operation h = input ! 6"
  by (auto simp: decode_header_def Let_def FRAME_HEADER_BYTES_def split: if_splits)

lemma decoded_operation:
  "decode_native_receive_request_v2 N input = Inr q \<Longrightarrow> operation_hint input = Some (request_operation q)"
proof -
  assume d: "decode_native_receive_request_v2 N input = Inr q"
  then obtain h op where h: "decode_header input NATIVE_RECEIVE_REQUEST_MAX_BYTES = Inr h"
    "operation_from_u8 (dh_operation h) = Inr op"
    and r: "(case (case op of OpApplication \<Rightarrow> decode_process_request N op
           | OpCommit \<Rightarrow> decode_process_request N op
           | OpWelcome \<Rightarrow> decode_welcome_request N) (dh_payload h) of
       (Inl e, _) \<Rightarrow> Inl e
     | (Inr request, rest) \<Rightarrow> if rest \<noteq> [] then Inl NoncanonicalEncoding else Inr request) = Inr q"
    by (auto simp: decode_native_receive_request_v2_def bindE_Inr_iff)
  then obtain t where "(case op of OpApplication \<Rightarrow> decode_process_request N op
           | OpCommit \<Rightarrow> decode_process_request N op
           | OpWelcome \<Rightarrow> decode_welcome_request N) (dh_payload h) = (Inr q, t)"
    by (auto split: prod.splits sum.splits if_splits)
  then have "request_operation q = op"
    by (cases op) (auto dest: decoded_process decoded_welcome)
  with h header_operation [OF h(1)] show ?thesis by (simp add: operation_hint_def)
qed

lemma executed_operation:
  "execute_request sha N E M clock q = Some (Inr r) \<Longrightarrow> success_operation r = request_operation q"
  by (auto simp: execute_request_def execute_process_def execute_welcome_def bindE_Inr_iff Let_def
      split: NativeReceiveRequestV2.splits sum.splits NativeReceiveOperationV2.splits MlsReceiveKind.splits)

lemma execute_never_panics: "execute_request sha N E M clock q \<noteq> None"
  by (auto simp: execute_request_def execute_process_def execute_welcome_def Let_def
      split: NativeReceiveRequestV2.splits sum.splits NativeReceiveOperationV2.splits MlsReceiveKind.splits)

lemma the_execute: "execute_request sha N E M clock q = Some (the (execute_request sha N E M clock q))"
  using execute_never_panics by (metis option.collapse)

lemma result_max: "NATIVE_RECEIVE_RESULT_MAX_BYTES < 2 ^ 32"
  by (simp add: NATIVE_RECEIVE_RESULT_MAX_BYTES_def)

definition answers :: "NativeReceiveOperationV2 option \<Rightarrow> bytes \<Rightarrow> bool" where
  "answers operation answer \<longleftrightarrow> length answer \<le> NATIVE_RECEIVE_RESULT_MAX_BYTES \<and>
     (\<exists>payload. answer = native_frame (operation_byte operation) payload)"

lemma encoded_outcome_answers:
  assumes "encode_native_receive_outcome_v2 N operation outcome = Inr answer"
    and "\<And>r. no_result outcome = Some r \<Longrightarrow> operation = Some (success_operation r)"
  shows "answers operation answer"
  using assms
  by (cases "no_result outcome")
    (auto simp: encode_native_receive_outcome_v2_def Let_def bindE_Inr_iff native_encode_frame_def
      encode_frame_iff [OF result_max] answers_def split: if_splits)

lemma fallback_answers: "answers operation (encode_failure_fallback operation)"
  by (auto simp: answers_def encode_failure_fallback_def native_frame_def Let_def FRAME_MAGIC_def ascii_def
      be16_def be32_def NATIVE_RECEIVE_RESULT_MAX_BYTES_def intro!: exI)

text \<open>The result that the answer carries.\<close>

definition native_result ::
  "(bytes \<Rightarrow> bytes) \<Rightarrow> ncbor \<Rightarrow> 'v storage_env \<Rightarrow> ('v, 'g, 'x) openmls \<Rightarrow> u64 \<times> u64 \<Rightarrow> bytes
   \<Rightarrow> MlsErrorCode + NativeReceiveSuccessV2" where
  "native_result sha N E M clock input =
     bindE (decode_native_receive_request_v2 N input) (\<lambda>q. the (execute_request sha N E M clock q))"

definition outcome_of_result :: "MlsErrorCode + NativeReceiveSuccessV2 \<Rightarrow> NativeReceiveOutcomeV2" where
  "outcome_of_result r = (case r of Inr s \<Rightarrow> outcome_success s | Inl e \<Rightarrow> outcome_failure e)"

lemma execute_unfold: "execute_native_receive_v2 sha N E M clock input =
     (let operation = operation_hint input in
      case encode_native_receive_outcome_v2 N operation (outcome_of_result (native_result sha N E M clock input)) of
        Inr answer \<Rightarrow> answer
      | Inl error \<Rightarrow> encode_native_receive_failure_v2 N operation error)"
proof -
  have "outcome_of (case decode_native_receive_request_v2 N input of
             Inl e \<Rightarrow> Some (Inl e)
           | Inr request \<Rightarrow> execute_request sha N E M clock request) =
      outcome_of_result (native_result sha N E M clock input)"
  proof (cases "decode_native_receive_request_v2 N input")
    case (Inr q)
    show ?thesis
      by (subst the_execute) (simp add: Inr native_result_def outcome_of_result_def outcome_of_def)
  qed (simp add: native_result_def outcome_of_result_def outcome_of_def)
  then show ?thesis
    unfolding execute_native_receive_v2_def encode_native_receive_failure_v2_def Let_def by simp
qed

lemma native_result_operation:
  assumes "native_result sha N E M clock input = Inr r"
  shows "operation_hint input = Some (success_operation r)"
proof -
  from assms obtain q where q: "decode_native_receive_request_v2 N input = Inr q"
    "execute_request sha N E M clock q = Some (Inr r)"
    by (auto simp: native_result_def bindE_Inr_iff) (metis the_execute)
  show ?thesis using decoded_operation [OF q(1)] executed_operation [OF q(2)] by simp
qed

lemma failure_answers: "answers operation (encode_native_receive_failure_v2 N operation e)"
proof (cases "encode_native_receive_outcome_v2 N operation (outcome_failure e)")
  case (Inr answer)
  have "no_result (outcome_failure e) = None" by (simp add: outcome_failure_def)
  with encoded_outcome_answers [OF Inr] show ?thesis
    by (simp add: encode_native_receive_failure_v2_def Inr)
qed (simp add: encode_native_receive_failure_v2_def fallback_answers)

lemma execute_answers:
  "answers (operation_hint input) (execute_native_receive_v2 sha N E M clock input)"
proof (cases "encode_native_receive_outcome_v2 N (operation_hint input)
    (outcome_of_result (native_result sha N E M clock input))")
  case (Inr answer)
  have "operation_hint input = Some (success_operation r)"
    if "no_result (outcome_of_result (native_result sha N E M clock input)) = Some r" for r
    using that native_result_operation [of sha N E M clock input r]
    by (auto simp: outcome_of_result_def outcome_success_def outcome_failure_def split: sum.splits)
  from encoded_outcome_answers [OF Inr this] show ?thesis
    by (simp add: execute_unfold Inr)
qed (simp add: execute_unfold failure_answers)

section \<open>Refusals\<close>

definition failure_item :: "MlsErrorCode \<Rightarrow> cbor_item" where
  "failure_item e = CMap [(0, CUint 2), (1, CFalse), (3, CMap [(3, CUint (ucast (error_code e)))])]"

lemma encode_failure:
  assumes N: "ncbor_ok N"
  shows "encode_native_receive_outcome_v2 N operation (outcome_failure e) =
    Inr (native_frame (operation_byte operation) (put_item (failure_item e)))"
proof -
  have "length (put_item (failure_item e)) \<le> 20"
    by (simp add: failure_item_def cbor_head_def cbor_arg_def be16_def be32_def be64_def)
  then have f: "encode_frame_with_max (operation_byte operation) (put_item (failure_item e)) NATIVE_RECEIVE_RESULT_MAX_BYTES =
      Inr (native_frame (operation_byte operation) (put_item (failure_item e)))"
    unfolding encode_frame_iff [OF result_max] by (simp add: length_native_frame NATIVE_RECEIVE_RESULT_MAX_BYTES_def)
  have "cb_map N 3 @ cb_u8 N 0 @ cb_u16 (nc N) NATIVE_RECEIVE_CONTRACT_VERSION @ cb_u8 N 1 @ cb_bool N False
      @ cb_u8 N 3 @ cb_map N 1 @ cb_u8 N 3 @ cb_u16 (nc N) (error_code e) = put_item (failure_item e)"
    by (simp add: failure_item_def ncbor_enc [OF N] NATIVE_RECEIVE_CONTRACT_VERSION_def)
  with f show ?thesis
    by (simp add: encode_native_receive_outcome_v2_def native_encode_frame_def outcome_failure_def)
qed

lemma failure_is_answered:
  assumes N: "ncbor_ok N" and r: "native_result sha N E M clock input = Inl e"
  shows "execute_native_receive_v2 sha N E M clock input =
    native_frame (operation_byte (operation_hint input)) (put_item (failure_item e))"
  by (simp add: execute_unfold r outcome_of_result_def encode_failure [OF N])

end
