(* ===== verification/NativeAnswers.thy ===== *)
theory NativeAnswers
  imports NativeLaws
begin

text \<open>
  What the runtime accepts always fits an answer frame: the rosters, the digest and the batch of a
  received message are within every bound that the encoder of answers checks, so that no verified
  transition is lost at the native boundary.
\<close>

section \<open>Rosters\<close>

lemma unordered_iff: "unordered_leaves ls \<longleftrightarrow> \<not> sorted_wrt (<) (map nl_leaf_index ls)"
proof (induction ls rule: unordered_leaves.induct)
  case (1 a b r)
  have "sorted_wrt (<) (map nl_leaf_index (a # b # r)) \<longleftrightarrow>
      nl_leaf_index a < nl_leaf_index b \<and> sorted_wrt (<) (map nl_leaf_index (b # r))"
    by (auto intro: order.strict_trans)
  with 1 show ?case by (auto simp: not_less)
qed simp_all

lemma cbor_head_length: "length (cbor_head m n) \<le> 9"
  by (simp add: cbor_head_def cbor_arg_def be16_def be32_def be64_def)

lemma leaf_answer:
  assumes N: "ncbor_ok N" and l: "leaf_ok l"
  shows "native_encode_leaf N (mls_leaf_into_native l) = Inr (put_item (native_leaf_item (mls_leaf_into_native l)))"
    "length (put_item (native_leaf_item (mls_leaf_into_native l))) \<le> 140"
proof -
  show "native_encode_leaf N (mls_leaf_into_native l) = Inr (put_item (native_leaf_item (mls_leaf_into_native l)))"
    using l by (simp add: encode_parts [OF N] native_leaf_shape_def mls_leaf_into_native_def leaf_ok_def)
  show "length (put_item (native_leaf_item (mls_leaf_into_native l))) \<le> 140"
    using l cbor_head_length [of 5 3] cbor_head_length [of 0 0] cbor_head_length [of 0 1] cbor_head_length [of 0 2]
      cbor_head_length [of 0 "ucast (leaf_index l)"] cbor_head_length [of 2 45] cbor_head_length [of 2 32]
    by (simp add: native_leaf_item_def mls_leaf_into_native_def leaf_ok_def)
qed

lemma mapE_all: "(\<And>x. x \<in> set xs \<Longrightarrow> f x = Inr (g x)) \<Longrightarrow> mapE f xs = Inr (map g xs)"
  by (induction xs) simp_all

lemma length_concat_bound: "(\<And>b. b \<in> set bs \<Longrightarrow> length b \<le> k) \<Longrightarrow> length (concat bs) \<le> length bs * k"
  by (induction bs) (auto simp: add_mono)

lemma roster_answer:
  assumes N: "ncbor_ok N" and r: "roster_ok sha r"
  shows "\<exists>b. native_encode_roster N (mls_roster_into_native r) = Inr b \<and> length b \<le> 40000"
proof -
  define ls where "ls = map mls_leaf_into_native (leaves r)"
  from r have shape: "length (group_id r) = 16" "length (digest_sha256 r) = 32" "leaves r \<noteq> []"
    "length (leaves r) \<le> 256" "\<forall>l \<in> set (leaves r). leaf_ok l"
    and d: "mls_roster_digest_v1 sha (group_id r) (epoch r) (leaves r) = Inr (digest_sha256 r)"
    by (auto simp: roster_ok_def MAX_LEAVES_def)
  from d have "sorted_wrt (<) (map leaf_index (leaves r))"
    by (auto simp: mls_roster_digest_v1_def bindE_Inr_iff validate_canonical_leaves_Inr_iff canonical_leaves_def)
  then have ord: "\<not> unordered_leaves ls"
    by (simp add: unordered_iff ls_def comp_def mls_leaf_into_native_def)
  have m: "mapE (native_encode_leaf N) ls = Inr (map (put_item \<circ> native_leaf_item) ls)"
    using shape(5) leaf_answer(1) [OF N] by (intro mapE_all) (auto simp: ls_def)
  have len: "length (concat (map (put_item \<circ> native_leaf_item) ls)) \<le> length ls * 140"
    using shape(5) leaf_answer(2) [OF N]
    by (intro order.trans [OF length_concat_bound [where k = 140]]) (auto simp: ls_def)
  let ?b = "cb_map N 4 @ cb_u8 N 0 @ cb_bytes (nc N) (group_id r) @ cb_u8 N 1 @ cb_u64 (nc N) (epoch r)
         @ cb_u8 N 2 @ cb_array (nc N) (of_nat (length ls)) @ concat (map (put_item \<circ> native_leaf_item) ls)
         @ cb_u8 N 3 @ cb_bytes (nc N) (digest_sha256 r)"
  have "native_encode_roster N (mls_roster_into_native r) = Inr ?b"
    using shape ord m
    by (simp add: native_encode_roster_def mls_roster_into_native_def ls_def [symmetric] native_consts
        validate_exact_result_bytes_def NATIVE_RECEIVE_ROSTER_MAX_LEAVES_def) (simp add: ls_def)
  moreover have "length ?b \<le> 40000"
    using len shape(1,2,4) cbor_head_length [of 5 4] cbor_head_length [of 0 0] cbor_head_length [of 0 1]
      cbor_head_length [of 0 2] cbor_head_length [of 0 3] cbor_head_length [of 2 16] cbor_head_length [of 2 32]
      cbor_head_length [of 0 "epoch r"] cbor_head_length [of 4 "of_nat (length ls)"]
    by (simp add: ncbor_enc [OF N] ls_def)
  ultimately show ?thesis by blast
qed

section \<open>Batches\<close>

definition native_row :: "MlsStorageEntry \<Rightarrow> NativeStorageEntryV2" where
  "native_row e = \<lparr>ns_key = entry_key e, ns_value = entry_value e, ns_group_id = entry_group_id e\<rparr>"

lemma native_row_size: "entry_size (native_row e) = row_size e"
  by (simp add: entry_size_def native_row_def row_size_def option_length_def)

lemma native_row_shape: "native_entry_shape (native_row e) \<longleftrightarrow>
    entry_key e \<noteq> [] \<and> row_bounded e \<and> (\<forall>g. entry_group_id e = Some g \<longrightarrow> length g = 16)"
  by (auto simp: native_entry_shape_def native_row_def row_bounded_def Suc_le_eq)

lemma entry_answer:
  assumes "native_entry_shape e"
  shows "length (put_item (native_entry_item e)) \<le> entry_size e + 70"
proof -
  have "length (put_item (option_item (ns_group_id e))) \<le> 9 + option_length (ns_group_id e)"
    using cbor_head_length [of 2] by (auto simp: option_item_def option_length_def split: option.split)
  then show ?thesis
    using cbor_head_length [of 5 3] cbor_head_length [of 0 0] cbor_head_length [of 0 1] cbor_head_length [of 0 2]
      cbor_head_length [of 2 "of_nat (length (ns_key e))"] cbor_head_length [of 2 "of_nat (length (ns_value e))"]
    by (simp add: native_entry_item_def entry_size_def)
qed

lemma sum_bound: "(\<And>x. x \<in> set xs \<Longrightarrow> length (f x) \<le> g x + k) \<Longrightarrow>
    length (concat (map f xs)) \<le> sum_list (map g xs) + length xs * k"
  by (induction xs) (auto simp: algebra_simps add_mono, smt (verit) add_le_mono add.assoc add.commute add.left_commute)

definition batch_bounds :: "MlsStorageBatch \<Rightarrow> bool" where
  "batch_bounds b \<longleftrightarrow> storage_format_version b = 1 \<and> length (upserts b) \<le> 4096 \<and> length (deletes b) \<le> 4096 \<and>
     deleted_group_ids b = [] \<and> (\<forall>e \<in> set (upserts b). native_entry_shape (native_row e)) \<and>
     (\<forall>k \<in> set (deletes b). 1 \<le> length k \<and> length k \<le> 4096) \<and>
     sum_list (map row_size (upserts b)) + sum_list (map length (deletes b)) \<le> NATIVE_RECEIVE_STORAGE_MAX_BYTES"

lemma fold_entry_sizes: "foldE add_entry_size n xs = Inr k \<longleftrightarrow>
     (\<forall>x \<in> set xs. native_entry_shape x) \<and> k = n + sum_list (map entry_size xs) \<and> (xs = [] \<or> k < 2 ^ 64)"
  by (rule foldE_checked_sum [OF add_entry_size_iff])

lemma fold_delete_sizes:
  "foldE (\<lambda>acc k. bindE (validate_result_range k 1 NATIVE_RECEIVE_STORAGE_KEY_MAX_BYTES) (\<lambda>_.
      ok_or (usize_checked_add acc (length k)) LimitExceeded)) n xs = Inr k \<longleftrightarrow>
    (\<forall>x \<in> set xs. 1 \<le> length x \<and> length x \<le> 4096) \<and> k = n + sum_list (map length xs) \<and> (xs = [] \<or> k < 2 ^ 64)"
proof (rule foldE_checked_sum [where P = "\<lambda>x. 1 \<le> length x \<and> length x \<le> 4096"])
  show "bindE (validate_result_range x 1 NATIVE_RECEIVE_STORAGE_KEY_MAX_BYTES) (\<lambda>_.
      ok_or (usize_checked_add n (length x)) LimitExceeded) = Inr k \<longleftrightarrow>
    (1 \<le> length x \<and> length x \<le> 4096) \<and> k = n + length x \<and> k < 2 ^ 64" for n k and x :: bytes
    by (auto simp: bindE_Inr_iff validate_ok_iff native_consts ok_or_Inr_iff usize_checked_add_def)
qed

lemma batch_answer:
  assumes N: "ncbor_ok N" and b: "batch_bounds b"
  shows "\<exists>p. encode_storage_batch N (mls_batch_into_native b) = Inr p \<and> length p \<le> NATIVE_RECEIVE_STORAGE_MAX_BYTES + 400000"
proof -
  define ups where "ups = map native_row (upserts b)"
  have nb: "mls_batch_into_native b = \<lparr>nb_storage_format_version = 1, nb_upserts = ups, nb_deletes = deletes b,
      nb_deleted_group_ids = []\<rparr>"
    using b by (simp add: mls_batch_into_native_def batch_bounds_def ups_def native_row_def)
  define n where "n = sum_list (map entry_size ups)"
  define m where "m = n + sum_list (map length (deletes b))"
  have m: "m \<le> NATIVE_RECEIVE_STORAGE_MAX_BYTES" "m < 2 ^ 64" "n < 2 ^ 64"
    using b by (auto simp: batch_bounds_def m_def n_def ups_def comp_def native_row_size NATIVE_RECEIVE_STORAGE_MAX_BYTES_def)
  have sh: "\<forall>e \<in> set ups. native_entry_shape e" using b by (auto simp: ups_def batch_bounds_def)
  have f1: "foldE add_entry_size 0 ups = Inr n"
    using sh m by (simp add: fold_entry_sizes n_def)
  have f2: "foldE (\<lambda>acc k. bindE (validate_result_range k 1 NATIVE_RECEIVE_STORAGE_KEY_MAX_BYTES) (\<lambda>_.
      ok_or (usize_checked_add acc (length k)) LimitExceeded)) n (deletes b) = Inr m"
    unfolding fold_delete_sizes using b m by (simp add: m_def batch_bounds_def)
  let ?p = "cb_map N 4 @ cb_u8 N 0 @ cb_u32 (nc N) 1 @ cb_u8 N 1 @ cb_array (nc N) (of_nat (length ups))
     @ concat (map (encode_storage_entry N) ups) @ cb_u8 N 2 @ cb_array (nc N) (of_nat (length (deletes b)))
     @ concat (map (cb_bytes (nc N)) (deletes b)) @ cb_u8 N 3 @ cb_array (nc N) 0"
  have l: "length ups \<le> 4096" "length (deletes b) \<le> 4096" using b by (auto simp: batch_bounds_def ups_def)
  have "encode_storage_batch N (mls_batch_into_native b) = Inr ?p"
    unfolding encode_storage_batch_def nb using l m(1)
    by (simp add: f1 f2 NATIVE_RECEIVE_STORAGE_MAX_ENTRIES_def del: One_nat_def)
  moreover have "length (concat (map (encode_storage_entry N) ups)) \<le> n + length ups * 70"
    unfolding n_def using sh entry_answer encode_parts(4) [OF N] by (intro sum_bound) auto
  moreover have "length (concat (map (cb_bytes (nc N)) (deletes b))) \<le> sum_list (map length (deletes b)) + length (deletes b) * 9"
    using b cbor_head_length [of 2] by (intro sum_bound) (auto simp: batch_bounds_def ncbor_enc [OF N])
  ultimately show ?thesis
    using m(1) l cbor_head_length [of 5 4] cbor_head_length [of 0 0] cbor_head_length [of 0 1]
      cbor_head_length [of 0 2] cbor_head_length [of 0 3] cbor_head_length [of 4 "of_nat (length ups)"]
      cbor_head_length [of 4 "of_nat (length (deletes b))"] cbor_head_length [of 4 0]
    by (intro exI [of _ ?p]) (simp add: ncbor_enc [OF N] m_def)
qed

section \<open>What the runtime returns\<close>

text \<open>No row of a group has the empty key, and none gets it.\<close>

lemma updates_keys:
  assumes "\<not> has_row [] st" "[] \<notin> fst ` set (sp_initial st)"
    and b: "batch_from_provider st (Some g) [] = Inr b" and ok: "snapshot_ok st"
  shows "\<forall>e \<in> set (upserts b). entry_key e \<noteq> []" "[] \<notin> set (deletes b)"
proof -
  have "(k, v) \<in> set (sp_current st) \<Longrightarrow> k \<noteq> []" for k v
    using assms(1) weak_map_of_SomeI by (fastforce simp: has_row_def read_opaque_def)
  then show "\<forall>e \<in> set (upserts b). entry_key e \<noteq> []"
    using b by (auto simp: batch_from_provider_def batch_from_updates_Some into_updates_def scoped_row_def)
  show "[] \<notin> set (deletes b)"
    using b assms(2) by (auto simp: batch_from_provider_def batch_from_updates_Some into_updates_def)
qed

lemma finish_bounds:
  assumes C: "cbor_ok C" and sha: "\<And>b. length (sha b) = 32"
    and fin: "finish sha C st s prev = Inr m" and ok: "snapshot_ok st"
    and st: "\<not> has_row [] st" "[] \<notin> fst ` set (sp_initial st)"
  shows "batch_bounds (mu_batch m)" "roster_ok sha (mu_resulting m)" "mu_previous m = prev"
    "length (mu_resulting_digest m) = 32" "validate_retention (mu_retention m) = Inr ()"
proof -
  let ?st = "write_opaque (key (lg_group_id s) ''state/'') (encode_fields C s) st"
  from fin have lo: "local_ok sha s" and b: "batch_from_provider ?st (Some (group_id (lg_current s))) [] = Inr (mu_batch m)"
    and bb: "bounded_batch (mu_batch m) = Inr ()"
    and dig: "group_state_digest_from_entries sha (lg_group_id s) (snapshot_entries ?st (lg_group_id s)) 1 = Inr (mu_resulting_digest m)"
    and m: "mu_previous m = prev" "mu_resulting m = lg_current s" "mu_retention m = lg_retention s"
    unfolding finish_Inr_iff [OF C] Let_def
    by (auto dest: arg_cong [where f = mu_previous] arg_cong [where f = mu_resulting]
        arg_cong [where f = mu_retention])
  show "mu_previous m = prev" by (rule m)
  show "roster_ok sha (mu_resulting m)" "validate_retention (mu_retention m) = Inr ()"
    using lo m by (auto simp: local_ok_def small_checks)
  from dig obtain p where "sha p = mu_resulting_digest m"
    by (auto simp: group_state_digest_from_entries_def bindE_Inr_iff)
  then show "length (mu_resulting_digest m) = 32" using sha [of p] by simp
  note fb = finish_batch [OF C fin]
  have keys: "\<forall>e \<in> set (upserts (mu_batch m)). entry_key e \<noteq> []" "[] \<notin> set (deletes (mu_batch m))"
    using updates_keys [OF _ _ b] st ok
    by (auto simp: has_row_def snapshot_kv.rd_wr key_def PREFIX_def ascii_def)
  have sc: "\<forall>e \<in> set (upserts (mu_batch m)). entry_group_id e = None \<or> entry_group_id e = Some (lg_group_id s)"
    using fb(4) by (auto simp: row_scoped_def split: if_splits)
  have g: "length (lg_group_id s) = 16" using lo by (simp add: local_ok_def)
  have del: "length (deletes (mu_batch m)) \<le> 4096" "\<forall>k \<in> set (deletes (mu_batch m)). length k \<le> 4096"
    "sum_list (map row_size (upserts (mu_batch m))) + sum_list (map length (deletes (mu_batch m))) \<le> 6 * 1024 * 1024"
  proof -
    have "add_delete_bytes n k = Inr j \<longleftrightarrow> length k \<le> 4096 \<and> j = n + length k \<and> j < 2 ^ 64" for n k j
      by (auto simp: add_delete_bytes_def ok_or_Inr_iff usize_checked_add_def)
    note f = foldE_checked_sum [where f = add_delete_bytes, OF this]
    from bb obtain n where "entry_bytes (upserts (mu_batch m)) = Inr n" "length (deletes (mu_batch m)) \<le> 4096"
      "\<exists>j. foldE add_delete_bytes n (deletes (mu_batch m)) = Inr j \<and> j \<le> 6 * 1024 * 1024"
      by (auto simp: bounded_batch_def bindE_Inr_iff split: if_splits)
    then show "length (deletes (mu_batch m)) \<le> 4096" "\<forall>k \<in> set (deletes (mu_batch m)). length k \<le> 4096"
      "sum_list (map row_size (upserts (mu_batch m))) + sum_list (map length (deletes (mu_batch m))) \<le> 6 * 1024 * 1024"
      by (auto simp: f entry_bytes_Inr_iff)
  qed
  show "batch_bounds (mu_batch m)"
    unfolding batch_bounds_def native_row_shape
    using fb(1-3) keys sc g del by (fastforce simp: rows_bounded_def Suc_le_eq NATIVE_RECEIVE_STORAGE_MAX_BYTES_def)
qed

fun process_success :: "MlsReceiveKind \<Rightarrow> Received \<Rightarrow> NativeReceiveSuccessV2" where
  "process_success Application r = ResApplication (mls_leaf_into_native (rv_sender r))
     (mls_roster_into_native (mu_previous (rv_mutation r))) (mls_roster_into_native (mu_resulting (rv_mutation r)))
     (mu_resulting_digest (rv_mutation r)) (rv_message_epoch r)
     (case rv_plaintext r of Some p \<Rightarrow> p | None \<Rightarrow> []) (mls_batch_into_native (mu_batch (rv_mutation r)))
     (mu_retention (rv_mutation r))"
| "process_success _ r = ResCommit (rv_message_epoch r) (mls_leaf_into_native (rv_sender r))
     (mls_roster_into_native (mu_previous (rv_mutation r))) (mls_roster_into_native (mu_resulting (rv_mutation r)))
     (mu_resulting_digest (rv_mutation r)) (mls_batch_into_native (mu_batch (rv_mutation r)))
     (mu_retention (rv_mutation r))"

lemma received_bounds:
  assumes C: "cbor_ok C" and sha: "\<And>b. length (sha b) = 32"
    and ok: "receive_inner sha C E M i = Inr r" and keys: "\<forall>e \<in> set (cx_entries (ri_context i)). entry_key e \<noteq> []"
  shows "batch_bounds (mu_batch (rv_mutation r))" "roster_ok sha (mu_resulting (rv_mutation r))"
    "roster_ok sha (mu_previous (rv_mutation r))" "length (mu_resulting_digest (rv_mutation r)) = 32"
    "validate_retention (mu_retention (rv_mutation r)) = Inr ()" "rv_sender r = ri_sender i"
    "ri_kind i = Application \<Longrightarrow> \<exists>p. rv_plaintext r = Some p \<and> length p \<le> 256 * 1024"
proof -
  obtain L c g calls1 calls2 s' where
    L: "opened sha C E M (ri_context i) L"
    and as: "received_as sha M i c g (ld_local L) (exec_calls E calls1 (ld_provider L))
       (rv_plaintext r) (rv_proposal_type r) s' calls2"
    and fin: "finish sha C (exec_calls E (calls1 @ calls2) (ld_provider L)) s' (lg_current (ld_local L))
       = Inr (rv_mutation r)"
    and prev: "mu_previous (rv_mutation r) = lg_current (ld_local L)" and sender: "rv_sender r = ri_sender i"
    by (rule receive_Inr [OF C ok]) (rule that, assumption+)
  let ?p = "exec_calls E (calls1 @ calls2) (ld_provider L)"
  from L have pr: "provider_from_entries (cx_entries (ri_context i)) 1 (Some (cx_group_id (ri_context i))) = Inr (ld_provider L)"
    and lo: "local_ok sha (ld_local L)" by (simp_all add: opened_def)
  note ro = row_of_opened [OF pr]
  have none: "\<not> has_row [] (ld_provider L)"
    using keys by (auto simp: has_row_def ro(1) row_of_def entries_map_def map_of_eq_None_iff)
  from none have "\<not> has_row [] ?p" using exec_calls_preserve [OF label_stable_no_empty_key] by metis
  moreover have "[] \<notin> fst ` set (sp_initial ?p)"
  proof -
    have "sp_initial (ld_provider L) = sp_current (ld_provider L)"
      using pr by (auto simp: provider_from_entries_Inr_iff from_entries_def Let_def)
    with none show ?thesis by (simp add: has_row_def read_opaque_def map_of_eq_None_iff)
  qed
  moreover have "snapshot_ok ?p" using ro(2) by simp
  ultimately show "batch_bounds (mu_batch (rv_mutation r))" "roster_ok sha (mu_resulting (rv_mutation r))"
    "length (mu_resulting_digest (rv_mutation r)) = 32" "validate_retention (mu_retention (rv_mutation r)) = Inr ()"
    using finish_bounds [OF C sha fin] by blast+
  show "roster_ok sha (mu_previous (rv_mutation r))" using lo by (simp add: prev local_ok_def)
  show "rv_sender r = ri_sender i" by (rule sender)
  show "\<exists>p. rv_plaintext r = Some p \<and> length p \<le> 256 * 1024" if "ri_kind i = Application"
    using as that by (auto simp: received_as_def)
qed

section \<open>A verified transition is answered\<close>

lemma commit_encodes:
  assumes N: "ncbor_ok N" and leaf: "leaf_ok s" and ro: "roster_ok sha p'" "roster_ok sha q'"
    and bb: "batch_bounds b'" and d: "length d = 32" and ret: "validate_retention ret = Inr ()"
  shows "\<exists>b. encode_success N (ResCommit ep (mls_leaf_into_native s) (mls_roster_into_native p')
      (mls_roster_into_native q') d (mls_batch_into_native b') ret) = Inr b \<and> length b \<le> 7 * 1024 * 1024"
proof -
  note leaf = leaf_answer [OF N leaf]
  note heads = cbor_head_length [of 5] cbor_head_length [of 0] cbor_head_length [of 2]
  obtain p where p: "native_encode_roster N (mls_roster_into_native p') = Inr p" "length p \<le> 40000"
    using roster_answer [OF N ro(1)] by blast
  obtain q where q: "native_encode_roster N (mls_roster_into_native q') = Inr q" "length q \<le> 40000"
    using roster_answer [OF N ro(2)] by blast
  obtain b where b: "encode_storage_batch N (mls_batch_into_native b') = Inr b"
    "length b \<le> NATIVE_RECEIVE_STORAGE_MAX_BYTES + 400000"
    using batch_answer [OF N bb] by blast
  let ?l = "put_item (native_leaf_item (mls_leaf_into_native s))"
  let ?b = "cb_map N 7 @ (cb_u8 N 0 @ ?l) @ (cb_u8 N 1 @ p) @ (cb_u8 N 2 @ q)
     @ cb_u8 N 3 @ cb_bytes (nc N) d @ cb_u8 N 4 @ b @ cb_u8 N 5 @ cb_u64 (nc N) ep
     @ cb_u8 N 6 @ cb_u32 (nc N) ret"
  have "encode_success N (ResCommit ep (mls_leaf_into_native s) (mls_roster_into_native p')
      (mls_roster_into_native q') d (mls_batch_into_native b') ret) = Inr ?b"
    using leaf(1) p(1) q(1) b(1) d ret
    by (simp add: validate_exact_result_bytes_def native_consts encode_pair_leaf_def encode_pair_roster_def)
  moreover have "length ?b \<le> 7 * 1024 * 1024"
    using leaf(2) p(2) q(2) b(2) d heads(1) [of 7] heads(2) [of 0] heads(2) [of 1] heads(2) [of 2] heads(2) [of 3]
      heads(2) [of 4] heads(2) [of 5] heads(2) [of 6] heads(2) [of ep] heads(2) [of "ucast ret"] heads(3) [of 32]
    by (simp add: ncbor_enc [OF N] NATIVE_RECEIVE_STORAGE_MAX_BYTES_def)
  ultimately show ?thesis by blast
qed

lemma process_success_encodes:
  assumes N: "ncbor_ok N" and sha: "\<And>b. length (sha b) = 32"
    and ok: "receive_inner sha (nc N) E M (process_input kind r) = Inr result"
    and keys: "\<forall>e \<in> set (sn_entries (pq_storage r)). ns_key e \<noteq> []"
    and sender: "native_leaf_shape (pq_expected_sender r)" and kind: "kind \<noteq> Proposal"
  shows "\<exists>b. encode_success N (process_success kind result) = Inr b \<and> length b \<le> 7 * 1024 * 1024"
proof -
  have C: "cbor_ok (nc N)" using N by (simp add: ncbor_ok_def)
  have "\<forall>e \<in> set (cx_entries (ri_context (process_input kind r))). entry_key e \<noteq> []"
    using keys by (simp add: process_input_def process_context_def native_storage_entry_into_mls_def)
  note rb = received_bounds [OF C sha ok this]
  define m where "m = rv_mutation result"
  have "leaf_ok (rv_sender result)"
    using sender by (simp add: rb(6) process_input_def native_leaf_into_mls_def native_leaf_shape_def leaf_ok_def)
  note leaf = leaf_answer [OF N this]
  obtain p where p: "native_encode_roster N (mls_roster_into_native (mu_previous m)) = Inr p" "length p \<le> 40000"
    using roster_answer [OF N rb(3)] by (auto simp: m_def)
  obtain q where q: "native_encode_roster N (mls_roster_into_native (mu_resulting m)) = Inr q" "length q \<le> 40000"
    using roster_answer [OF N rb(2)] by (auto simp: m_def)
  obtain b where b: "encode_storage_batch N (mls_batch_into_native (mu_batch m)) = Inr b"
    "length b \<le> NATIVE_RECEIVE_STORAGE_MAX_BYTES + 400000"
    using batch_answer [OF N rb(1)] by (auto simp: m_def)
  have d: "length (mu_resulting_digest m) = 32" and ret: "validate_retention (mu_retention m) = Inr ()"
    using rb(4,5) by (simp_all add: m_def)
  note heads = cbor_head_length [of 5] cbor_head_length [of 0] cbor_head_length [of 2]
  show ?thesis
  proof (cases kind)
    case Application
    have "ri_kind (process_input kind r) = Application" by (simp add: process_input_def Application)
    from rb(7) [OF this] obtain t where t: "rv_plaintext result = Some t" "length t \<le> 256 * 1024" by blast
    let ?l = "put_item (native_leaf_item (mls_leaf_into_native (rv_sender result)))"
    let ?b = "cb_map N 8 @ (cb_u8 N 0 @ ?l) @ (cb_u8 N 1 @ p) @ (cb_u8 N 2 @ q)
       @ cb_u8 N 3 @ cb_bytes (nc N) (mu_resulting_digest m) @ cb_u8 N 4 @ cb_bytes (nc N) t
       @ cb_u8 N 5 @ b @ cb_u8 N 6 @ cb_u64 (nc N) (rv_message_epoch result)
       @ cb_u8 N 7 @ cb_u32 (nc N) (mu_retention m)"
    have "encode_success N (process_success kind result) = Inr ?b"
      using leaf(1) p(1) q(1) b(1) d ret t
      by (simp add: Application m_def [symmetric] validate_result_bytes_def validate_result_range_def
          validate_exact_result_bytes_def native_consts NATIVE_RECEIVE_PLAINTEXT_MAX_BYTES_def
          encode_pair_leaf_def encode_pair_roster_def)
    moreover have "length ?b \<le> 7 * 1024 * 1024"
      using leaf(2) p(2) q(2) b(2) d t(2) heads(1) [of 8] heads(2) [of 0] heads(2) [of 1] heads(2) [of 2] heads(2) [of 3]
        heads(2) [of 4] heads(2) [of 5] heads(2) [of 6] heads(2) [of 7] heads(2) [of "rv_message_epoch result"]
        heads(2) [of "ucast (mu_retention m)"] heads(3) [of 32] heads(3) [of "of_nat (length t)"]
      by (simp add: ncbor_enc [OF N] NATIVE_RECEIVE_STORAGE_MAX_BYTES_def)
    ultimately show ?thesis by blast
  next
    case Commit
    then show ?thesis
      using commit_encodes [OF N _ rb(3,2,1,4,5)] rb(6) sender
      by (simp add: process_input_def native_leaf_into_mls_def native_leaf_shape_def leaf_ok_def)
  qed (use kind in simp)
qed

definition receive_kind :: "NativeReceiveOperationV2 \<Rightarrow> MlsReceiveKind" where
  "receive_kind operation = (case operation of OpApplication \<Rightarrow> Application | _ \<Rightarrow> Commit)"

lemma execute_process_ok:
  assumes "pq_operation r \<noteq> OpWelcome"
  shows "execute_process sha N E M r =
    Some (map_sum id (process_success (receive_kind (pq_operation r)))
      (receive_inner sha (nc N) E M (process_input (receive_kind (pq_operation r)) r)))"
  using assms
  by (cases "pq_operation r")
    (auto simp: execute_process_def receive_kind_def Let_def split: sum.split)

definition success_answer :: "ncbor \<Rightarrow> NativeReceiveOperationV2 \<Rightarrow> bytes \<Rightarrow> bytes" where
  "success_answer N operation b = native_frame (operation_as_u8 operation)
     (put_tok (TMap 3) @ put_tok (TUint 0) @ put_tok (TUint 2) @ put_tok (TUint 1) @ put_tok (TBool False)
       @ put_tok (TUint 2) @ b)"

theorem native_receive_is_receive:
  assumes N: "ncbor_ok N" and sha: "\<And>b. length (sha b) = 32"
    and f: "encode_native_receive_request_v2 N (ReqProcess r) = Inr input"
  defines "r' \<equiv> r\<lparr>pq_storage := (pq_storage r)\<lparr>sn_entries := sorted_rows (ReqProcess r)\<rparr>\<rparr>"
    and "kind \<equiv> receive_kind (pq_operation r)"
  shows "case receive_inner sha (nc N) E M (process_input kind r') of
      Inl e \<Rightarrow> execute_native_receive_v2 sha N E M clock input =
        native_frame (operation_as_u8 (pq_operation r)) (put_item (failure_item e))
    | Inr result \<Rightarrow> \<exists>b. encode_success N (process_success kind result) = Inr b \<and>
        execute_native_receive_v2 sha N E M clock input = success_answer N (pq_operation r) b"
proof -
  have d: "decode_native_receive_request_v2 N input = Inr (ReqProcess r')"
    using encode_then_decode [OF N f] by (simp add: r'_def)
  from d obtain rows where "pq_storage r' = snapshot_of rows" and rs: "rows_shape (Some (pq_group_id r')) rows"
    and sh: "pq_operation r \<noteq> OpWelcome" "process_shape r'"
    unfolding native_request_iff [OF N] by (auto simp: r'_def)
  then have keys: "\<forall>e \<in> set (sn_entries (pq_storage r')). ns_key e \<noteq> []"
    by (auto simp: snapshot_of_def rows_shape_def native_entry_shape_def)
  have op: "pq_operation r' = pq_operation r" by (simp add: r'_def)
  have hint: "operation_hint input = Some (pq_operation r)"
    using decoded_operation [OF d] by (simp add: op)
  have res: "native_result sha N E M clock input =
      map_sum id (process_success kind) (receive_inner sha (nc N) E M (process_input kind r'))"
    using sh(1) by (simp add: native_result_def d execute_request_def execute_process_ok op kind_def)
  show ?thesis
  proof (cases "receive_inner sha (nc N) E M (process_input kind r')")
    case (Inl e)
    then show ?thesis
      using failure_is_answered [OF N, of sha E M clock input e] by (simp add: res hint operation_byte_def)
  next
    case (Inr result)
    have "kind \<noteq> Proposal" by (simp add: kind_def receive_kind_def split: NativeReceiveOperationV2.split)
    from process_success_encodes [OF N sha Inr keys _ this] sh(2) obtain b where
      b: "encode_success N (process_success kind result) = Inr b" "length b \<le> 7 * 1024 * 1024"
      by (auto simp: process_shape_def)
    have op': "success_operation (process_success kind result) = pq_operation r"
      using sh(1) by (cases "pq_operation r") (auto simp: kind_def receive_kind_def)
    let ?p = "cb_map N 3 @ cb_u8 N 0 @ cb_u16 (nc N) NATIVE_RECEIVE_CONTRACT_VERSION
                     @ cb_u8 N 1 @ cb_bool N False @ cb_u8 N 2 @ b"
    have "length ?p \<le> 7 * 1024 * 1024 + 100"
      using b(2) cbor_head_length [of 5 3] cbor_head_length [of 0 0] cbor_head_length [of 0 1] cbor_head_length [of 0 2]
      by (simp add: ncbor_enc [OF N] NATIVE_RECEIVE_CONTRACT_VERSION_def)
    then have fr: "encode_frame_with_max (operation_as_u8 (pq_operation r)) ?p NATIVE_RECEIVE_RESULT_MAX_BYTES
        = Inr (native_frame (operation_as_u8 (pq_operation r)) ?p)"
      unfolding encode_frame_iff [OF result_max] by (simp add: length_native_frame NATIVE_RECEIVE_RESULT_MAX_BYTES_def)
    have "encode_native_receive_outcome_v2 N (Some (pq_operation r)) (outcome_success (process_success kind result)) =
        Inr (native_frame (operation_as_u8 (pq_operation r)) ?p)"
      using fr b(1)
      by (simp add: encode_native_receive_outcome_v2_def outcome_success_def native_encode_frame_def op' operation_byte_def)
    moreover have "native_frame (operation_as_u8 (pq_operation r)) ?p = success_answer N (pq_operation r) b"
      by (simp add: success_answer_def ncbor_enc [OF N] NATIVE_RECEIVE_CONTRACT_VERSION_def)
    ultimately show ?thesis
      using b(1) by (simp add: Inr execute_unfold res hint outcome_of_result_def)
  qed
qed

end
