(* ===== verification/NativeInstance.thy ===== *)
theory NativeInstance
  imports NativeAnswers Instances
begin

text \<open>
  A concrete CBOR library with heads in their shortest form, for which the laws of the native codec
  hold, and concrete requests.
\<close>

definition head_of :: "bytes \<Rightarrow> (byte \<times> u64 \<times> bytes) option" where
  "head_of b = (case bindS pc_byte (\<lambda>i. bindS (pc_argument (i AND 0x1f)) (\<lambda>n. returnS (drop_bit 5 i, n)))
      \<lparr>cp_rest = b, cp_items = 0\<rparr> of
    (Inr (m, n), s) \<Rightarrow> Some (m, n, cp_rest s) | (Inl _, _) \<Rightarrow> None)"

lemma head_of_head:
  assumes "m < 8"
  shows "head_of (cbor_head m n @ r) = Some (m, n, r)"
proof -
  let ?s = "\<lparr>cp_rest = cbor_head m n @ r, cp_items = 0\<rparr>" and ?t = "\<lparr>cp_rest = r, cp_items = 0\<rparr>"
  obtain i s' where "pc_byte ?s = (Inr i, s')" "drop_bit 5 i = m" "pc_argument (i AND 0x1f) s' = (Inr n, ?t)"
    using head_iff [OF assms, of ?s n ?t] by auto
  then show ?thesis by (simp add: head_of_def)
qed

lemma head_of_Nil: "head_of [] = None"
  by (simp add: head_of_def pc_byte_def pc_bytes_def run_bindS)

lemma head_of_simple: "head_of (0xf4 # r) = Some (7, 20, r)" "head_of (0xf5 # r) = Some (7, 21, r)"
  "head_of (0xf6 # r) = Some (7, 22, r)"
  using head_of_head [of 7 20 r] head_of_head [of 7 21 r] head_of_head [of 7 22 r]
  by (simp_all add: cbor_head_def cbor_arg_def)

definition word_item :: "nat \<Rightarrow> bytes \<Rightarrow> ('n::len word \<times> bytes) option" where
  "word_item k b = (case head_of b of
     Some (m, n, r) \<Rightarrow> if m = 0 \<and> unat n < 2 ^ k then Some (ucast n, r) else None | None \<Rightarrow> None)"

definition length_item :: "byte \<Rightarrow> bytes \<Rightarrow> (u64 option \<times> bytes) option" where
  "length_item major b = (case head_of b of
     Some (m, n, r) \<Rightarrow> if m = major then Some (Some n, r) else None | None \<Rightarrow> None)"

definition bytes_item :: "bytes \<Rightarrow> (bytes \<times> bytes) option" where
  "bytes_item b = (case head_of b of
     Some (m, n, r) \<Rightarrow> if m = 2 \<and> unat n \<le> length r then Some (take (unat n) r, drop (unat n) r) else None
   | None \<Rightarrow> None)"

definition null_item :: "bytes \<Rightarrow> bytes option" where
  "null_item b = (case head_of b of
     Some (m, n, r) \<Rightarrow> if m = 7 \<and> n = 22 then Some r else None | None \<Rightarrow> None)"

definition N1 :: ncbor where
  "N1 = \<lparr>
     nc = \<lparr>
       cb_array = cbor_head 4, cb_u16 = (\<lambda>n. cbor_head 0 (ucast n)), cb_u32 = (\<lambda>n. cbor_head 0 (ucast n)),
       cb_u64 = cbor_head 0, cb_bytes = (\<lambda>b. cbor_head 2 (of_nat (length b)) @ b), cb_null = [0xf6],
       cd_array = length_item 4, cd_u16 = word_item 16, cd_u32 = word_item 32, cd_u64 = word_item 64,
       cd_bytes = bytes_item,
       cd_is_null = (\<lambda>b. map_option (\<lambda>(m, n, r). m = 7 \<and> n = 22) (head_of b)),
       cd_null = null_item\<rparr>,
     cb_map = cbor_head 5, cb_u8 = (\<lambda>n. cbor_head 0 (ucast n)), cb_bool = (\<lambda>b. [if b then 0xf5 else 0xf4]),
     cd_map = length_item 5, cd_u8 = word_item 8,
     cd_type = (\<lambda>b. map_option (\<lambda>(m, n, r).
       if m = 7 \<and> n = 22 then TyNull else if m = 2 then TyBytes else TyOther) (head_of b))\<rparr>"

lemma head_of_tok:
  "tok_ok t \<Longrightarrow> head_of (put_tok t @ r) = Some (case t of
     TUint n \<Rightarrow> (0, n, r) | TBytes b \<Rightarrow> (2, of_nat (length b), b @ r) | TArr n \<Rightarrow> (4, n, r) | TMap n \<Rightarrow> (5, n, r)
   | TBool b \<Rightarrow> (7, if b then 21 else 20, r) | TNull \<Rightarrow> (7, 22, r))"
  by (cases t) (simp_all add: head_of_head head_of_simple)

lemma length_word: "length (b :: bytes) < 2 ^ 64 \<Longrightarrow> unat (of_nat (length b) :: u64) = length b"
  by (simp add: unat_of_nat take_bit_nat_eq_self)

lemma decodes_word: "decodes (word_item k) (tok_word k)"
  by (auto simp: decodes_def word_item_def tok_word_def head_of_Nil head_of_tok split: cbor_tok.split)

lemma decodes_rest: "decodes (length_item 4) tok_array" "decodes (length_item 5) tok_map" "decodes bytes_item tok_bytes"
  by (auto simp: decodes_def length_item_def bytes_item_def tok_array_def tok_map_def tok_bytes_def
      head_of_Nil head_of_tok length_word split: cbor_tok.split)

lemma decodes_put: "decodes item sel \<Longrightarrow> tok_ok t \<Longrightarrow> sel t = Some v \<Longrightarrow> item (put_tok t @ r) = Some (v, r)"
  by (simp add: decodes_def)

lemma word_put:
  "word_item 16 (cbor_head 0 (ucast (a :: u16)) @ r) = Some (a, r)"
  "word_item 32 (cbor_head 0 (ucast (b :: u32)) @ r) = Some (b, r)"
  "word_item 64 (cbor_head 0 c @ r) = Some (c :: u64, r)"
  using decodes_put [OF decodes_word, of "TUint (ucast a)" 16 a r] decodes_put [OF decodes_word, of "TUint (ucast b)" 32 b r]
    decodes_put [OF decodes_word, of "TUint c" 64 c r]
  by (simp_all add: tok_word_iff)

lemma cbor_ok_N1: "cbor_ok (nc N1)"
  using decodes_put [OF decodes_rest(3), of "TBytes b" b for b]
  by (auto simp: cbor_ok_def N1_def word_put length_item_def head_of_head head_of_simple null_item_def
      cbor_head_length tok_bytes_def)

lemma ncbor_ok_N1: "ncbor_ok N1"
  using cbor_ok_N1
  by (auto simp: ncbor_ok_def N1_def null_item_def head_of_Nil head_of_tok tok_type_def decodes_word decodes_rest
      split: cbor_tok.split)

section \<open>A concrete request\<close>

definition leaf1 :: NativeLeafAuthorityV2 where
  "leaf1 = \<lparr>nl_leaf_index = 7, nl_credential_identity = replicate 45 1, nl_signature_public_key = replicate 32 2\<rparr>"

definition state1 :: "u64 \<Rightarrow> NativeExpectedRosterStateV2" where
  "state1 e = \<lparr>nx_group_id = replicate 16 3, nx_epoch = e, nx_digest_sha256 = replicate 32 4\<rparr>"

definition row1 :: "byte \<Rightarrow> NativeStorageEntryV2" where
  "row1 k = \<lparr>ns_key = [k], ns_value = [], ns_group_id = Some (replicate 16 3)\<rparr>"

definition request1 :: ProcessRequest where
  "request1 = \<lparr>pq_operation = OpCommit, pq_profile_id = 2, pq_group_id = replicate 16 3,
     pq_message_bytes = [1, 2, 3], pq_expected_aad = [9], pq_expected_sender = leaf1,
     pq_expected_previous_state = state1 5, pq_expected_resulting_state = state1 6,
     pq_expected_base_group_state_sha256 = replicate 32 5,
     pq_storage = \<lparr>sn_storage_format_version = 1, sn_entries = [row1 120, row1 121]\<rparr>,
     pq_expected_message_state = state1 5, pq_expected_retention = 2,
     pq_expected_message_sha256 = replicate 32 6, pq_incarnation_id = [1]\<rparr>"

lemma request1_shape: "process_shape request1"
  by (simp add: request1_def process_shape_def native_leaf_shape_def native_expected_shape_def leaf1_def state1_def
      small_checks)

lemma rows1: "rows_shape (Some (replicate 16 3)) [row1 120, row1 121]"
  by (simp add: rows_shape_def row1_def native_entry_shape_def scoped_to_def entry_size_def option_length_def
      NATIVE_RECEIVE_STORAGE_MAX_BYTES_def)

lemma row1_not_global: "\<not> is_global_key [120]" "\<not> is_global_key [121]"
  by code_simp+

lemma sorted1: "sort_key ns_key [row1 120, row1 121] = [row1 120, row1 121]"
  by (simp add: row1_def)

lemma fold1: "foldE (add_scoped_size (Some (replicate 16 3))) 0 [row1 120, row1 121] = Inr 34"
  by (simp add: add_scoped_size_def add_entry_size_def row1_def row1_not_global validate_result_range_def
      validate_exact_result_bytes_def native_consts add_lengths_def usize_checked_add_def option_length_def)

lemma snapshot1: "encode_storage_snapshot N1 (pq_storage request1) (Some (replicate 16 3)) =
    Inr (put_item (snapshot_item [row1 120, row1 121]))"
proof -
  have "encode_storage_entry N1 (row1 k) = put_item (native_entry_item (row1 k))" for k
    by (rule encode_parts(4) [OF ncbor_ok_N1]) (simp add: row1_def native_entry_shape_def)
  then show ?thesis
    using fold1 by (simp add: encode_storage_snapshot_def request1_def sorted1 row1_def [THEN arg_cong, of ns_key]
      NATIVE_RECEIVE_STORAGE_MAX_ENTRIES_def NATIVE_RECEIVE_STORAGE_MAX_BYTES_def snapshot_item_def ncbor_enc [OF ncbor_ok_N1])
qed

definition frame1 :: bytes where
  "frame1 = request_frame (ReqProcess request1) [row1 120, row1 121]"

lemma length_frame1: "length frame1 \<le> NATIVE_RECEIVE_REQUEST_MAX_BYTES"
  by (simp add: frame1_def request_frame_def length_native_frame process_item_def native_leaf_item_def
      native_expected_item_def snapshot_item_def native_entry_item_def option_item_def request1_def row1_def
      leaf1_def state1_def cbor_head_def cbor_arg_def NATIVE_RECEIVE_REQUEST_MAX_BYTES_def)

lemma encode1: "encode_native_receive_request_v2 N1 (ReqProcess request1) = Inr frame1"
proof -
  note N = ncbor_ok_N1
  have l: "native_encode_leaf N1 leaf1 = Inr (put_item (native_leaf_item leaf1))"
    "encode_expected_roster N1 (state1 e) = Inr (put_item (native_expected_item (state1 e)))" for e
    by (simp_all add: encode_parts [OF N] native_leaf_shape_def leaf1_def native_expected_shape_def state1_def)
  have "encode_process_payload N1 1 request1 = Inr (put_item (process_item request1 [row1 120, row1 121]))"
    using snapshot1 l
    by (simp add: encode_process_payload_def process_item_def request1_def validate_profile_iff validate_ok_iff
        native_consts ncbor_enc [OF N] small_checks validate_profile_def validate_exact_result_bytes_def
        validate_result_range_def NATIVE_RECEIVE_PROFILE_V2_def validate_retention_def)
  moreover have "NATIVE_RECEIVE_REQUEST_MAX_BYTES < 2 ^ 32" by (simp add: NATIVE_RECEIVE_REQUEST_MAX_BYTES_def)
  ultimately show ?thesis
    using length_frame1
    by (simp add: encode_native_receive_request_v2_def encode_native_receive_request_v2_with_aad_minimum_def
        encode_frame_iff frame1_def request_frame_def request1_def)
qed

end
