(* ===== verification/NativeProperties.thy ===== *)
theory NativeProperties
  imports NativeInstance
begin

text \<open>
  What the native receive contract guarantees: which payloads the preflight lets through, which
  frames are requests, and how every frame is answered.
\<close>

text \<open>
  C31: The structural preflight of the native receive boundary (\<open>preflight_cbor\<close>) lets through
  exactly one language: one data item of the profile's subset of CBOR in its shortest encoding, with
  map keys in strictly ascending order, nested at most six deep, of at most 32768 items with map keys
  counted, arrays of at most 4096 elements, maps of at most 32 entries and byte strings of at most
  6 MiB, and nothing after it.
\<close>

theorem preflight_accepts_the_grammar:
  "preflight_cbor input = Inr () \<longleftrightarrow>
     (\<exists>x. input = put_item x \<and> fits 0 x \<and> items x \<le> PREFLIGHT_MAX_ITEMS)"
  by (rule preflight_iff)

text \<open>
  C30: The decoder of native requests is exact: a frame decodes to a request just when it is the
  frame of that request (header, operation, profile, every field at its key and of its size) with its
  storage rows in some order, the rows being within their bounds, without a repeated key, of the
  request's own group or of none, and at most 6 MiB together; the request holds them sorted by key.
  Two frames that decode to the same request differ in the order of the rows only.
\<close>

theorem native_request_decoding_is_exact:
  assumes "ncbor_ok N"
  shows "decode_native_receive_request_v2 N input = Inr q \<longleftrightarrow>
    (\<exists>rows. request_storage q = snapshot_of rows \<and> rows_shape (request_scope q) rows \<and> request_shape q \<and>
       input = request_frame q rows \<and> length input \<le> NATIVE_RECEIVE_REQUEST_MAX_BYTES)"
  by (rule native_request_iff [OF assms])

theorem native_request_decoding_is_exact_witness:
  "decode_native_receive_request_v2 N1 frame1 = Inr (ReqProcess request1)"
proof -
  have "request_storage (ReqProcess request1) = snapshot_of [row1 120, row1 121]"
    by (simp add: request1_def snapshot_of_def row1_def)
  moreover have "rows_shape (request_scope (ReqProcess request1)) [row1 120, row1 121]"
    using rows1 by (simp add: request1_def)
  moreover have "request_shape (ReqProcess request1)"
    using request1_shape by (simp add: request1_def)
  ultimately show ?thesis
    unfolding native_request_decoding_is_exact [OF ncbor_ok_N1]
    using length_frame1 frame1_def by blast
qed

text \<open>
  C40: Every request that the encoder accepts is read back by the decoder as it was, with its rows
  sorted by key. In particular the encoder never writes a frame that the preflight turns down: its
  bounds on depth and on the number of items leave room for 4096 rows.
\<close>

theorem native_request_round_trip:
  assumes "ncbor_ok N" "encode_native_receive_request_v2 N q = Inr input"
  shows "decode_native_receive_request_v2 N input = Inr (canonical_request q)"
  by (rule encode_then_decode [OF assms])

theorem native_request_round_trip_witness:
  "decode_native_receive_request_v2 N1 frame1 = Inr (canonical_request (ReqProcess request1))"
  by (rule native_request_round_trip [OF ncbor_ok_N1 encode1])

text \<open>
  C32: Whatever bytes cross the native boundary, \<open>execute_native_receive_v2\<close> answers them by a well-formed
  frame of this contract version within 8 MiB that carries the operation of the input, or 0 where the
  operation byte of the input is missing or none of the three: for every CBOR library, storage and OpenMLS. So an answer to a
  request never claims another operation, also when the answer is the fixed fallback.
\<close>

theorem every_native_frame_is_answered:
  "length (execute_native_receive_v2 sha N E M clock input) \<le> NATIVE_RECEIVE_RESULT_MAX_BYTES \<and>
   (\<exists>payload. execute_native_receive_v2 sha N E M clock input =
      native_frame (operation_byte (operation_hint input)) payload)"
  using execute_answers [of input sha N E M clock] by (simp add: answers_def)

text \<open>
  C29: The native receive of a message or a Commit is the receive of the runtime. For the frame of a
  request, the runtime is called with exactly the request's fields and its rows; if it refuses, the
  answer carries its error code, and if it accepts, the answer is a success that carries the sender,
  both rosters, the digest, the batch and the retention of its result. No accepted
  transition is lost at the boundary: its rosters, plaintext and batch are always within the bounds of
  an answer, and the answer always within the 8 MiB of a frame.
\<close>

theorem native_receive_matches_the_runtime:
  assumes "ncbor_ok N" "\<And>b. length (sha b) = 32"
    and "encode_native_receive_request_v2 N (ReqProcess r) = Inr input"
  shows "let r' = r\<lparr>pq_storage := (pq_storage r)\<lparr>sn_entries := sorted_rows (ReqProcess r)\<rparr>\<rparr>;
      kind = receive_kind (pq_operation r) in
    case receive_inner sha (nc N) E M (process_input kind r') of
      Inl e \<Rightarrow> execute_native_receive_v2 sha N E M clock input =
        native_frame (operation_as_u8 (pq_operation r)) (put_item (failure_item e))
    | Inr result \<Rightarrow> \<exists>b. encode_success N (process_success kind result) = Inr b \<and>
        execute_native_receive_v2 sha N E M clock input = success_answer N (pq_operation r) b"
  unfolding Let_def by (rule native_receive_is_receive [OF assms])

theorem native_receive_matches_the_runtime_witness:
  "let r' = request1\<lparr>pq_storage := (pq_storage request1)\<lparr>sn_entries := sorted_rows (ReqProcess request1)\<rparr>\<rparr>;
      kind = receive_kind (pq_operation request1) in
    case receive_inner sha0 (nc N1) E0 M0 (process_input kind r') of
      Inl e \<Rightarrow> execute_native_receive_v2 sha0 N1 E0 M0 (0, 0) frame1 =
        native_frame (operation_as_u8 (pq_operation request1)) (put_item (failure_item e))
    | Inr result \<Rightarrow> \<exists>b. encode_success N1 (process_success kind result) = Inr b \<and>
        execute_native_receive_v2 sha0 N1 E0 M0 (0, 0) frame1 = success_answer N1 (pq_operation request1) b"
  by (rule native_receive_matches_the_runtime [OF ncbor_ok_N1 length_sha0 encode1])

end
