(* ===== verification/NativeV3.thy ===== *)
theory NativeV3
  imports NativeExecute ExternalOps
begin

text \<open>
  The third version of the native receive, \<open>rust/src/native_receive_v3.rs\<close>: the member requests of the
  second version under a new frame version, and two requests of its own, the receipt of an external
  Commit and the inspection of a pending Commit. The names of the source that other modules use too
  have the prefix \<open>n3\<close>.
\<close>

section \<open>Requests\<close>

definition NATIVE_RECEIVE_CONTRACT_VERSION_3 :: u16 where "NATIVE_RECEIVE_CONTRACT_VERSION_3 = 3"
definition EXTERNAL_COMMIT_OPERATION :: byte where "EXTERNAL_COMMIT_OPERATION = 4"
definition INSPECT_PENDING_OPERATION :: byte where "INSPECT_PENDING_OPERATION = 5"
definition N3_HEADER :: nat where "N3_HEADER = 12"

record NativeInspectPendingRequestV3 =
  ip_profile_id :: u16
  ip_group_id :: bytes
  ip_incarnation_id :: bytes
  ip_expected_current :: MlsExpectedRosterStateV1
  ip_expected_base_group_state_sha256 :: bytes
  ip_expected_retention :: u32
  ip_storage :: NativeStorageSnapshotV2

record NativeExternalReceiveRequestV3 =
  er_profile_id :: u16
  er_group_id :: bytes
  er_incarnation_id :: bytes
  er_commit :: bytes
  er_expected_aad :: bytes
  er_expected_base_group_state_sha256 :: bytes
  er_expected_retention :: u32
  er_acceptance :: MlsExternalCommitAcceptanceV1
  er_expected_superseded_pending :: "MlsPendingCommitBinding option"
  er_storage :: NativeStorageSnapshotV2

datatype NativeReceiveRequestV3 =
    Member3 NativeReceiveRequestV2
  | External3 NativeExternalReceiveRequestV3
  | InspectPending3 NativeInspectPendingRequestV3

datatype N3Success =
    SuMember NativeReceiveSuccessV2
  | SuPending "MlsPendingCommitBinding option"
  | SuExternal NativeReceiveSuccessV2 "MlsPendingCommitBinding option"

section \<open>Frames\<close>

definition n3_header :: "bytes \<Rightarrow> MlsErrorCode + (byte \<times> bytes)" where
  "n3_header input =
     (if length input > NATIVE_RECEIVE_REQUEST_MAX_BYTES then Inl LimitExceeded
      else if length input < N3_HEADER \<or> take 4 input \<noteq> FRAME_MAGIC then Inl InvalidFrame
      else if (word_of_be [input ! 4, input ! 5] :: u16) \<noteq> 3 then Inl UnsupportedContractVersion
      else if input ! 7 \<noteq> 0
        \<or> unat (word_of_be (take 4 (drop 8 input)) :: u32) \<noteq> length input - N3_HEADER then Inl InvalidFrame
      else if \<not> (1 \<le> input ! 6 \<and> input ! 6 \<le> 5) then Inl UnsupportedOperation
      else Inr (input ! 6, drop N3_HEADER input))"

definition n3_frame :: "byte \<Rightarrow> bytes \<Rightarrow> nat \<Rightarrow> MlsErrorCode + bytes" where
  "n3_frame op content mx =
     (if length content > mx - N3_HEADER then Inl LimitExceeded
      else Inr (FRAME_MAGIC @ be16 3 @ [op, 0] @ be32 (of_nat (length content)) @ content))"

section \<open>Validation\<close>

definition n3_id :: "bytes \<Rightarrow> MlsErrorCode + unit" where
  "n3_id b = validate_result_range b 1 128"

definition n3_leaf :: "MlsRosterLeafV1 \<Rightarrow> MlsErrorCode + unit" where
  "n3_leaf l =
     (if leaf_index l > 255 then Inl LimitExceeded
      else
        bindE (validate_exact_result_bytes (credential_identity l) 45) (\<lambda>_.
        validate_exact_result_bytes (signature_public_key l) 32))"

definition n3_state :: "MlsExpectedRosterStateV1 \<Rightarrow> MlsErrorCode + unit" where
  "n3_state s =
     bindE (validate_exact_result_bytes (es_group_id s) 16) (\<lambda>_.
     validate_exact_result_bytes (es_digest_sha256 s) 32)"

definition n3_validate_pending :: "MlsPendingCommitBinding \<Rightarrow> MlsErrorCode + unit" where
  "n3_validate_pending p =
     bindE (validate_exact_result_bytes (pb_group_id p) 16) (\<lambda>_.
     bindE (n3_id (pb_incarnation_id p)) (\<lambda>_.
     bindE (n3_id (command_id (pb_transition p))) (\<lambda>_.
     bindE (validate_exact_result_bytes (context_sha256 (pb_transition p)) 32) (\<lambda>_.
     bindE (n3_leaf (pb_author p)) (\<lambda>_.
     bindE (n3_state (pb_previous_state p)) (\<lambda>_.
     bindE (eachE (\<lambda>h. validate_exact_result_bytes h 32) [pb_commit_sha256 p, pb_aad_sha256 p]) (\<lambda>_.
     eachE (\<lambda>h. case h of Some v \<Rightarrow> validate_exact_result_bytes v 32 | None \<Rightarrow> Inr ())
       [pb_welcome_sha256 p, pb_group_info_sha256 p])))))))"

definition n3_validate :: "(bytes \<Rightarrow> bytes) \<Rightarrow> NativeExternalReceiveRequestV3 \<Rightarrow> MlsErrorCode + unit" where
  "n3_validate sha r =
     bindE (validate_profile (er_profile_id r)) (\<lambda>_.
     bindE (validate_retention (er_expected_retention r)) (\<lambda>_.
     bindE (validate_exact_result_bytes (er_group_id r) 16) (\<lambda>_.
     bindE (n3_id (er_incarnation_id r)) (\<lambda>_.
     bindE (validate_exact_result_bytes (er_expected_base_group_state_sha256 r) 32) (\<lambda>_.
     bindE (validate_result_range (er_commit r) 1 NATIVE_RECEIVE_MLS_MESSAGE_MAX_BYTES) (\<lambda>_.
     bindE (validate_result_range (er_expected_aad r) 1 NATIVE_RECEIVE_AAD_MAX_BYTES) (\<lambda>_.
     let b = ea_binding (er_acceptance r); resulting = ea_resulting_state (er_acceptance r) in
     bindE (n3_id (eb_candidate_id b)) (\<lambda>_.
     bindE (n3_id (command_id (eb_transition b))) (\<lambda>_.
     bindE (validate_exact_result_bytes (context_sha256 (eb_transition b)) 32) (\<lambda>_.
     bindE (n3_state (eb_previous_state b)) (\<lambda>_.
     bindE (n3_state resulting) (\<lambda>_.
     bindE (n3_leaf (eb_old_leaf b)) (\<lambda>_.
     bindE (n3_leaf (eb_author b)) (\<lambda>_.
     bindE (eachE (\<lambda>h. validate_exact_result_bytes h 32)
       [eb_input_group_info_sha256 b, eb_resulting_group_info_sha256 b, eb_commit_sha256 b, eb_aad_sha256 b]) (\<lambda>_.
     if eb_incarnation_id b \<noteq> er_incarnation_id r
        \<or> es_group_id (eb_previous_state b) \<noteq> er_group_id r
        \<or> es_group_id resulting \<noteq> er_group_id r
     then Inl GroupMismatch
     else if u64_checked_succ (es_epoch (eb_previous_state b)) \<noteq> Some (es_epoch resulting)
     then Inl ResultingEpochMismatch
     else if sha (er_commit r) \<noteq> eb_commit_sha256 b then Inl WireHashMismatch
     else if sha (er_expected_aad r) \<noteq> eb_aad_sha256 b then Inl AadMismatch
     else
       (case er_expected_superseded_pending r of
          None \<Rightarrow> Inr ()
        | Some p \<Rightarrow>
            bindE (n3_validate_pending p) (\<lambda>_.
            if pb_group_id p \<noteq> er_group_id r \<or> pb_incarnation_id p \<noteq> er_incarnation_id r
               \<or> pb_previous_state p \<noteq> eb_previous_state b
            then Inl PendingBindingMismatch else Inr ())))))))))))))))))"

definition validate_inspection :: "NativeInspectPendingRequestV3 \<Rightarrow> MlsErrorCode + unit" where
  "validate_inspection r =
     bindE (validate_profile (ip_profile_id r)) (\<lambda>_.
     bindE (validate_retention (ip_expected_retention r)) (\<lambda>_.
     bindE (validate_exact_result_bytes (ip_group_id r) 16) (\<lambda>_.
     bindE (n3_id (ip_incarnation_id r)) (\<lambda>_.
     bindE (n3_state (ip_expected_current r)) (\<lambda>_.
     bindE (validate_exact_result_bytes (ip_expected_base_group_state_sha256 r) 32) (\<lambda>_.
     if ip_group_id r \<noteq> es_group_id (ip_expected_current r) then Inl GroupMismatch else Inr ()))))))"

section \<open>Encoders\<close>

definition put_state_v3 :: "ncbor \<Rightarrow> MlsExpectedRosterStateV1 \<Rightarrow> MlsErrorCode + bytes" where
  "put_state_v3 N s = encode_expected_roster N
     \<lparr>nx_group_id = es_group_id s, nx_epoch = es_epoch s, nx_digest_sha256 = es_digest_sha256 s\<rparr>"

definition put_leaf_v3 :: "ncbor \<Rightarrow> MlsRosterLeafV1 \<Rightarrow> MlsErrorCode + bytes" where
  "put_leaf_v3 N l = native_encode_leaf N (mls_leaf_into_native l)"

definition put_optional_hash :: "ncbor \<Rightarrow> bytes option \<Rightarrow> bytes" where
  "put_optional_hash N h = (case h of Some v \<Rightarrow> cb_bytes (nc N) v | None \<Rightarrow> cb_null (nc N))"

definition put_pending :: "ncbor \<Rightarrow> MlsPendingCommitBinding option \<Rightarrow> MlsErrorCode + bytes" where
  "put_pending N pending =
     (case pending of
        None \<Rightarrow> Inr (cb_null (nc N))
      | Some p \<Rightarrow>
          bindE (n3_validate_pending p) (\<lambda>_.
          bindE (put_leaf_v3 N (pb_author p)) (\<lambda>author.
          bindE (put_state_v3 N (pb_previous_state p)) (\<lambda>previous.
          Inr (cb_map N 10 @ cb_u8 N 0 @ cb_bytes (nc N) (pb_group_id p)
            @ cb_u8 N 1 @ cb_bytes (nc N) (pb_incarnation_id p)
            @ cb_u8 N 2 @ cb_bytes (nc N) (command_id (pb_transition p))
            @ cb_u8 N 3 @ cb_bytes (nc N) (context_sha256 (pb_transition p))
            @ cb_u8 N 4 @ author @ cb_u8 N 5 @ previous
            @ cb_u8 N 6 @ cb_bytes (nc N) (pb_commit_sha256 p)
            @ cb_u8 N 7 @ cb_bytes (nc N) (pb_aad_sha256 p)
            @ cb_u8 N 8 @ put_optional_hash N (pb_welcome_sha256 p)
            @ cb_u8 N 9 @ put_optional_hash N (pb_group_info_sha256 p))))))"

definition put_acceptance :: "ncbor \<Rightarrow> MlsExternalCommitAcceptanceV1 \<Rightarrow> MlsErrorCode + bytes" where
  "put_acceptance N a =
     (let b = ea_binding a in
      bindE (put_state_v3 N (eb_previous_state b)) (\<lambda>previous.
      bindE (put_state_v3 N (ea_resulting_state a)) (\<lambda>resulting.
      bindE (put_leaf_v3 N (eb_old_leaf b)) (\<lambda>old_leaf.
      bindE (put_leaf_v3 N (eb_author b)) (\<lambda>author.
      Inr (cb_map N 11 @ cb_u8 N 0 @ cb_bytes (nc N) (eb_candidate_id b)
        @ cb_u8 N 1 @ cb_bytes (nc N) (command_id (eb_transition b))
        @ cb_u8 N 2 @ cb_bytes (nc N) (context_sha256 (eb_transition b))
        @ cb_u8 N 3 @ previous @ cb_u8 N 4 @ resulting @ cb_u8 N 5 @ old_leaf @ cb_u8 N 6 @ author
        @ concat (map (\<lambda>(k, v). cb_u8 N k @ cb_bytes (nc N) v)
            [(7, eb_input_group_info_sha256 b), (8, eb_resulting_group_info_sha256 b),
             (9, eb_commit_sha256 b), (10, eb_aad_sha256 b)])))))))"

definition encode_inspection :: "ncbor \<Rightarrow> NativeInspectPendingRequestV3 \<Rightarrow> MlsErrorCode + bytes" where
  "encode_inspection N r =
     bindE (put_state_v3 N (ip_expected_current r)) (\<lambda>current.
     bindE (encode_storage_snapshot N (ip_storage r) (Some (ip_group_id r))) (\<lambda>storage.
     Inr (cb_map N 7 @ cb_u8 N 0 @ cb_u16 (nc N) (ip_profile_id r)
       @ cb_u8 N 1 @ cb_bytes (nc N) (ip_group_id r)
       @ cb_u8 N 2 @ cb_bytes (nc N) (ip_incarnation_id r)
       @ cb_u8 N 3 @ current
       @ cb_u8 N 4 @ cb_bytes (nc N) (ip_expected_base_group_state_sha256 r)
       @ cb_u8 N 5 @ cb_u32 (nc N) (ip_expected_retention r)
       @ cb_u8 N 6 @ storage)))"

definition encode_external :: "ncbor \<Rightarrow> NativeExternalReceiveRequestV3 \<Rightarrow> MlsErrorCode + bytes" where
  "encode_external N r =
     bindE (put_acceptance N (er_acceptance r)) (\<lambda>acceptance.
     bindE (put_pending N (er_expected_superseded_pending r)) (\<lambda>superseded.
     bindE (encode_storage_snapshot N (er_storage r) (Some (er_group_id r))) (\<lambda>storage.
     Inr (cb_map N 10 @ cb_u8 N 0 @ cb_u16 (nc N) (er_profile_id r)
       @ cb_u8 N 1 @ cb_bytes (nc N) (er_group_id r)
       @ cb_u8 N 2 @ cb_bytes (nc N) (er_incarnation_id r)
       @ cb_u8 N 3 @ cb_bytes (nc N) (er_commit r)
       @ cb_u8 N 4 @ cb_bytes (nc N) (er_expected_aad r)
       @ cb_u8 N 5 @ cb_bytes (nc N) (er_expected_base_group_state_sha256 r)
       @ cb_u8 N 6 @ cb_u32 (nc N) (er_expected_retention r)
       @ cb_u8 N 7 @ acceptance @ cb_u8 N 8 @ superseded @ cb_u8 N 9 @ storage))))"

definition n3_encode_request ::
  "(bytes \<Rightarrow> bytes) \<Rightarrow> ncbor \<Rightarrow> NativeReceiveRequestV3 \<Rightarrow> bool \<Rightarrow> MlsErrorCode + bytes" where
  "n3_encode_request sha N request check =
     (case request of
        InspectPending3 r \<Rightarrow>
          bindE (if check then validate_inspection r else Inr ()) (\<lambda>_.
          bindE (encode_inspection N r) (\<lambda>content.
          n3_frame INSPECT_PENDING_OPERATION content NATIVE_RECEIVE_REQUEST_MAX_BYTES))
      | Member3 r \<Rightarrow>
          bindE (encode_native_receive_request_v2 N r) (\<lambda>fr.
          Inr (take 4 fr @ be16 3 @ drop 6 fr))
      | External3 r \<Rightarrow>
          bindE (if check then n3_validate sha r else Inr ()) (\<lambda>_.
          bindE (encode_external N r) (\<lambda>content.
          n3_frame 4 content NATIVE_RECEIVE_REQUEST_MAX_BYTES)))"

definition encode_native_receive_request_v3 ::
  "(bytes \<Rightarrow> bytes) \<Rightarrow> ncbor \<Rightarrow> NativeReceiveRequestV3 \<Rightarrow> MlsErrorCode + bytes" where
  "encode_native_receive_request_v3 sha N request = n3_encode_request sha N request True"

section \<open>Decoders\<close>

definition get_state :: "ncbor \<Rightarrow> MlsExpectedRosterStateV1 reader" where
  "get_state N = bindS (decode_expected_roster N) (\<lambda>s. returnS (native_expected_into_mls s))"

definition get_leaf :: "ncbor \<Rightarrow> MlsRosterLeafV1 reader" where
  "get_leaf N = bindS (native_decode_leaf N) (\<lambda>l. returnS (native_leaf_into_mls l))"

definition get_id :: "ncbor \<Rightarrow> bytes reader" where
  "get_id N = decode_bounded_bytes N 1 128"

definition get_hash :: "ncbor \<Rightarrow> bytes reader" where
  "get_hash N = decode_exact_bytes N 32"

definition n3_optional_hash :: "ncbor \<Rightarrow> bytes option reader" where
  "n3_optional_hash N =
     bindS (native_type N) (\<lambda>t.
     if t = TyNull then bindS (native_null N) (\<lambda>_. returnS None)
     else bindS (get_hash N) (\<lambda>h. returnS (Some h)))"

definition get_some_pending :: "ncbor \<Rightarrow> MlsPendingCommitBinding reader" where
  "get_some_pending N =
     bindS (expect_map N 10) (\<lambda>_.
     bindS (expect_key N 0) (\<lambda>_.
     bindS (decode_exact_bytes N 16) (\<lambda>gid.
     bindS (expect_key N 1) (\<lambda>_.
     bindS (get_id N) (\<lambda>incarnation.
     bindS (expect_key N 2) (\<lambda>_.
     bindS (get_id N) (\<lambda>command.
     bindS (expect_key N 3) (\<lambda>_.
     bindS (get_hash N) (\<lambda>context.
     bindS (expect_key N 4) (\<lambda>_.
     bindS (get_leaf N) (\<lambda>author.
     bindS (expect_key N 5) (\<lambda>_.
     bindS (get_state N) (\<lambda>previous.
     bindS (expect_key N 6) (\<lambda>_.
     bindS (get_hash N) (\<lambda>commit.
     bindS (expect_key N 7) (\<lambda>_.
     bindS (get_hash N) (\<lambda>aad.
     bindS (expect_key N 8) (\<lambda>_.
     bindS (n3_optional_hash N) (\<lambda>welcome.
     bindS (expect_key N 9) (\<lambda>_.
     bindS (n3_optional_hash N) (\<lambda>info.
     returnS \<lparr>pb_group_id = gid, pb_incarnation_id = incarnation,
       pb_transition = \<lparr>command_id = command, context_sha256 = context\<rparr>, pb_author = author,
       pb_previous_state = previous, pb_commit_sha256 = commit, pb_aad_sha256 = aad,
       pb_welcome_sha256 = welcome, pb_group_info_sha256 = info\<rparr>)))))))))))))))))))))"

definition get_pending :: "ncbor \<Rightarrow> MlsPendingCommitBinding option reader" where
  "get_pending N =
     bindS (native_type N) (\<lambda>t.
     if t = TyNull then bindS (native_null N) (\<lambda>_. returnS None)
     else bindS (get_some_pending N) (\<lambda>p. returnS (Some p)))"

definition get_acceptance :: "ncbor \<Rightarrow> bytes \<Rightarrow> MlsExternalCommitAcceptanceV1 reader" where
  "get_acceptance N incarnation =
     bindS (expect_map N 11) (\<lambda>_.
     bindS (expect_key N 0) (\<lambda>_.
     bindS (get_id N) (\<lambda>candidate.
     bindS (expect_key N 1) (\<lambda>_.
     bindS (get_id N) (\<lambda>command.
     bindS (expect_key N 2) (\<lambda>_.
     bindS (get_hash N) (\<lambda>context.
     bindS (expect_key N 3) (\<lambda>_.
     bindS (get_state N) (\<lambda>previous.
     bindS (expect_key N 4) (\<lambda>_.
     bindS (get_state N) (\<lambda>resulting.
     bindS (expect_key N 5) (\<lambda>_.
     bindS (get_leaf N) (\<lambda>old_leaf.
     bindS (expect_key N 6) (\<lambda>_.
     bindS (get_leaf N) (\<lambda>author.
     bindS (expect_key N 7) (\<lambda>_.
     bindS (get_hash N) (\<lambda>input_info.
     bindS (expect_key N 8) (\<lambda>_.
     bindS (get_hash N) (\<lambda>resulting_info.
     bindS (expect_key N 9) (\<lambda>_.
     bindS (get_hash N) (\<lambda>commit.
     bindS (expect_key N 10) (\<lambda>_.
     bindS (get_hash N) (\<lambda>aad.
     returnS \<lparr>ea_binding = \<lparr>eb_candidate_id = candidate, eb_incarnation_id = incarnation,
         eb_transition = \<lparr>command_id = command, context_sha256 = context\<rparr>,
         eb_previous_state = previous, eb_old_leaf = old_leaf, eb_author = author,
         eb_input_group_info_sha256 = input_info, eb_commit_sha256 = commit, eb_aad_sha256 = aad,
         eb_resulting_group_info_sha256 = resulting_info\<rparr>,
       ea_resulting_state = resulting\<rparr>)))))))))))))))))))))))"

text \<open>The public authority is checked before the rows are copied.\<close>

definition empty_snapshot :: NativeStorageSnapshotV2 where
  "empty_snapshot = \<lparr>sn_storage_format_version = 0, sn_entries = []\<rparr>"

definition decode_external :: "(bytes \<Rightarrow> bytes) \<Rightarrow> ncbor \<Rightarrow> NativeReceiveRequestV3 reader" where
  "decode_external sha N =
     bindS (expect_map N 10) (\<lambda>_.
     bindS (expect_key N 0) (\<lambda>_.
     bindS (native_item (cd_u16 (nc N))) (\<lambda>profile_id.
     bindS (expect_key N 1) (\<lambda>_.
     bindS (decode_exact_bytes N 16) (\<lambda>gid.
     bindS (expect_key N 2) (\<lambda>_.
     bindS (get_id N) (\<lambda>incarnation.
     bindS (expect_key N 3) (\<lambda>_.
     bindS (decode_bounded_bytes N 1 NATIVE_RECEIVE_MLS_MESSAGE_MAX_BYTES) (\<lambda>commit.
     bindS (expect_key N 4) (\<lambda>_.
     bindS (decode_bounded_bytes N 1 NATIVE_RECEIVE_AAD_MAX_BYTES) (\<lambda>aad.
     bindS (expect_key N 5) (\<lambda>_.
     bindS (get_hash N) (\<lambda>base.
     bindS (expect_key N 6) (\<lambda>_.
     bindS (native_item (cd_u32 (nc N))) (\<lambda>retention.
     bindS (expect_key N 7) (\<lambda>_.
     bindS (get_acceptance N incarnation) (\<lambda>acceptance.
     bindS (expect_key N 8) (\<lambda>_.
     bindS (get_pending N) (\<lambda>superseded.
     let r = \<lparr>er_profile_id = profile_id, er_group_id = gid, er_incarnation_id = incarnation,
       er_commit = commit, er_expected_aad = aad, er_expected_base_group_state_sha256 = base,
       er_expected_retention = retention, er_acceptance = acceptance,
       er_expected_superseded_pending = superseded, er_storage = empty_snapshot\<rparr> in
     bindS (liftS (n3_validate sha r)) (\<lambda>_.
     bindS (expect_key N 9) (\<lambda>_.
     bindS (decode_storage_snapshot N (Some (er_group_id r))) (\<lambda>storage.
     returnS (External3 (r\<lparr>er_storage := storage\<rparr>))))))))))))))))))))))))"

definition decode_inspection :: "ncbor \<Rightarrow> NativeReceiveRequestV3 reader" where
  "decode_inspection N =
     bindS (expect_map N 7) (\<lambda>_.
     bindS (expect_key N 0) (\<lambda>_.
     bindS (native_item (cd_u16 (nc N))) (\<lambda>profile_id.
     bindS (expect_key N 1) (\<lambda>_.
     bindS (decode_exact_bytes N 16) (\<lambda>gid.
     bindS (expect_key N 2) (\<lambda>_.
     bindS (get_id N) (\<lambda>incarnation.
     bindS (expect_key N 3) (\<lambda>_.
     bindS (get_state N) (\<lambda>current.
     bindS (expect_key N 4) (\<lambda>_.
     bindS (get_hash N) (\<lambda>base.
     bindS (expect_key N 5) (\<lambda>_.
     bindS (native_item (cd_u32 (nc N))) (\<lambda>retention.
     let r = \<lparr>ip_profile_id = profile_id, ip_group_id = gid, ip_incarnation_id = incarnation,
       ip_expected_current = current, ip_expected_base_group_state_sha256 = base,
       ip_expected_retention = retention, ip_storage = empty_snapshot\<rparr> in
     bindS (liftS (validate_inspection r)) (\<lambda>_.
     bindS (expect_key N 6) (\<lambda>_.
     bindS (decode_storage_snapshot N (Some (ip_group_id r))) (\<lambda>storage.
     returnS (InspectPending3 (r\<lparr>ip_storage := storage\<rparr>))))))))))))))))))"

definition decode_member :: "ncbor \<Rightarrow> byte \<Rightarrow> NativeReceiveRequestV3 reader" where
  "decode_member N op =
     bindS (if op = 3 then decode_welcome_request N
            else decode_process_request N (if op = 1 then OpApplication else OpCommit)) (\<lambda>r.
     returnS (Member3 r))"

definition decode_native_receive_request_v3 ::
  "(bytes \<Rightarrow> bytes) \<Rightarrow> ncbor \<Rightarrow> bytes \<Rightarrow> MlsErrorCode + NativeReceiveRequestV3" where
  "decode_native_receive_request_v3 sha N input =
     bindE (n3_header input) (\<lambda>(op, content).
     bindE (preflight_cbor content) (\<lambda>_.
     case (if op = 4 then decode_external sha N
           else if op = 5 then decode_inspection N
           else decode_member N op) content of
       (Inl e, _) \<Rightarrow> Inl e
     | (Inr request, rest) \<Rightarrow> if rest \<noteq> [] then Inl NoncanonicalEncoding else Inr request))"

section \<open>Execution\<close>

definition inspection_context :: "NativeInspectPendingRequestV3 \<Rightarrow> Context" where
  "inspection_context r = \<lparr>
     cx_group_id = ip_group_id r, cx_incarnation_id = ip_incarnation_id r,
     cx_expected_current = ip_expected_current r,
     cx_expected_base_sha256 = ip_expected_base_group_state_sha256 r,
     cx_expected_retention = ip_expected_retention r,
     cx_entries = map native_storage_entry_into_mls (sn_entries (ip_storage r)),
     cx_storage_format = sn_storage_format_version (ip_storage r)\<rparr>"

definition external_context :: "NativeExternalReceiveRequestV3 \<Rightarrow> Context" where
  "external_context r = \<lparr>
     cx_group_id = er_group_id r, cx_incarnation_id = er_incarnation_id r,
     cx_expected_current = eb_previous_state (ea_binding (er_acceptance r)),
     cx_expected_base_sha256 = er_expected_base_group_state_sha256 r,
     cx_expected_retention = er_expected_retention r,
     cx_entries = map native_storage_entry_into_mls (sn_entries (er_storage r)),
     cx_storage_format = sn_storage_format_version (er_storage r)\<rparr>"

definition external_success :: "ProcessExternalCommitResult \<Rightarrow> N3Success" where
  "external_success x = SuExternal
     (ResCommit (epoch (xr_previous_roster x)) (mls_leaf_into_native (xr_authenticated_sender x))
       (mls_roster_into_native (xr_previous_roster x)) (mls_roster_into_native (xr_resulting_roster x))
       (xr_resulting_group_state_sha256 x) (mls_batch_into_native (xr_storage_batch x))
       (xr_effective_retention x))
     (xr_superseded_pending x)"

definition n3_execute ::
  "(bytes \<Rightarrow> bytes) \<Rightarrow> ncbor \<Rightarrow> 'v storage_env \<Rightarrow> ('v, 'g, 'x) openmls \<Rightarrow> ('p, 'x) public_mls \<Rightarrow> u64 \<times> u64
   \<Rightarrow> NativeReceiveRequestV3 \<Rightarrow> (MlsErrorCode + N3Success) option" where
  "n3_execute sha N E M P clock request =
     (case request of
        Member3 r \<Rightarrow> map_option (map_sum id SuMember) (execute_request sha N E M clock r)
      | InspectPending3 r \<Rightarrow> Some
          (bindE (inspect_pending sha (nc N) E M (inspection_context r)) (\<lambda>p.
           Inr (SuPending (map_option pp_binding p))))
      | External3 r \<Rightarrow> Some
          (bindE (external_receive sha (nc N) E M P (external_context r) (er_commit r) (er_expected_aad r)
              (er_acceptance r) (er_expected_superseded_pending r)) (\<lambda>result.
           Inr (external_success result))))"

section \<open>Answers\<close>

definition n3_encode_result :: "ncbor \<Rightarrow> byte \<Rightarrow> MlsErrorCode + N3Success \<Rightarrow> MlsErrorCode + bytes" where
  "n3_encode_result N op result =
     bindE (case result of
              Inr (SuPending pending) \<Rightarrow>
                bindE (put_pending N pending) (\<lambda>b. Inr (cb_u8 N 2 @ cb_map N 1 @ cb_u8 N 0 @ b))
            | Inr (SuMember r) \<Rightarrow> bindE (encode_success N r) (\<lambda>b. Inr (cb_u8 N 2 @ b))
            | Inr (SuExternal transition superseded) \<Rightarrow>
                bindE (encode_success N transition) (\<lambda>b.
                bindE (put_pending N superseded) (\<lambda>p.
                Inr (cb_u8 N 2 @ cb_map N 2 @ cb_u8 N 0 @ b @ cb_u8 N 1 @ p)))
            | Inl error \<Rightarrow> Inr (cb_u8 N 3 @ cb_map N 1 @ cb_u8 N 3 @ cb_u16 (nc N) (error_code error)))
       (\<lambda>body.
     n3_frame op (cb_map N 3 @ cb_u8 N 0 @ cb_u16 (nc N) 3 @ cb_u8 N 1 @ cb_bool N False @ body)
       NATIVE_RECEIVE_RESULT_MAX_BYTES)"

definition encode_native_receive_failure_v3 :: "ncbor \<Rightarrow> byte \<Rightarrow> MlsErrorCode \<Rightarrow> bytes" where
  "encode_native_receive_failure_v3 N op error =
     (case n3_encode_result N (if 1 \<le> op \<and> op \<le> 5 then op else 0) (Inl error) of
        Inr out \<Rightarrow> out
      | Inl _ \<Rightarrow> FRAME_MAGIC @ [0, 3, 0, 0, 0, 0, 0, 0x0a]
          @ [0xa3, 0, 3, 1, 0xf4, 3, 0xa1, 3, 0x18, 0xff])"

definition operation_v3 :: "bytes \<Rightarrow> byte" where
  "operation_v3 input =
     (if 6 < length input \<and> 1 \<le> input ! 6 \<and> input ! 6 \<le> 5 then input ! 6 else 0)"

definition execute_native_receive_v3 ::
  "(bytes \<Rightarrow> bytes) \<Rightarrow> ncbor \<Rightarrow> 'v storage_env \<Rightarrow> ('v, 'g, 'x) openmls \<Rightarrow> ('p, 'x) public_mls \<Rightarrow> u64 \<times> u64
   \<Rightarrow> bytes \<Rightarrow> bytes" where
  "execute_native_receive_v3 sha N E M P clock input =
     (let op = operation_v3 input;
        result = (case decode_native_receive_request_v3 sha N input of
            Inl e \<Rightarrow> Inl e
          | Inr request \<Rightarrow> (case n3_execute sha N E M P clock request of
              Some r \<Rightarrow> r
            | None \<Rightarrow> Inl InternalFailure)) in
      case n3_encode_result N op result of
        Inr out \<Rightarrow> out
      | Inl error \<Rightarrow> encode_native_receive_failure_v3 N op error)"

end
