(* ===== verification/NativeV3Request.thy ===== *)
theory NativeV3Request
  imports NativeV3 NativeRoundTrip
begin

text \<open>
  The language of the requests of the third version: its parts as items, what each decoder reads, the
  frames that are requests, and that the decoder reads back what the encoder wrote.
\<close>

section \<open>Parts as items\<close>

definition state_native :: "MlsExpectedRosterStateV1 \<Rightarrow> NativeExpectedRosterStateV2" where
  "state_native s = \<lparr>nx_group_id = es_group_id s, nx_epoch = es_epoch s, nx_digest_sha256 = es_digest_sha256 s\<rparr>"

lemma state_native_inv: "native_expected_into_mls (state_native s) = s" "state_native (native_expected_into_mls x) = x"
  by (simp_all add: state_native_def native_expected_into_mls_def)

lemma leaf_native_inv: "native_leaf_into_mls (mls_leaf_into_native l) = l" "mls_leaf_into_native (native_leaf_into_mls n) = n"
  by (simp_all add: native_leaf_into_mls_def mls_leaf_into_native_def)

lemma state_native_eq: "s = native_expected_into_mls x \<longleftrightarrow> x = state_native s"
  and leaf_native_eq: "l = native_leaf_into_mls n \<longleftrightarrow> n = mls_leaf_into_native l"
  using state_native_inv leaf_native_inv by metis+

definition state_item :: "MlsExpectedRosterStateV1 \<Rightarrow> cbor_item" where
  "state_item s = native_expected_item (state_native s)"

definition state_shape :: "MlsExpectedRosterStateV1 \<Rightarrow> bool" where
  "state_shape s \<longleftrightarrow> length (es_group_id s) = 16 \<and> length (es_digest_sha256 s) = 32"

definition leaf_item :: "MlsRosterLeafV1 \<Rightarrow> cbor_item" where
  "leaf_item l = native_leaf_item (mls_leaf_into_native l)"

definition leaf_sizes :: "MlsRosterLeafV1 \<Rightarrow> bool" where
  "leaf_sizes l \<longleftrightarrow> length (credential_identity l) = 45 \<and> length (signature_public_key l) = 32"

lemma native_shapes: "native_expected_shape (state_native s) = state_shape s"
  "native_leaf_shape (mls_leaf_into_native l) = leaf_sizes l"
  by (simp_all add: native_expected_shape_def state_native_def state_shape_def native_leaf_shape_def
      mls_leaf_into_native_def leaf_sizes_def)

lemma read_mls_parts [tok_rules]:
  assumes N: "ncbor_ok N"
  shows "tokspec (get_state N) (\<lambda>s us. us = flat (state_item s) \<and> state_shape s)"
    "tokspec (get_leaf N) (\<lambda>l us. us = flat (leaf_item l) \<and> leaf_sizes l)"
    "tokspec (get_id N) (\<lambda>v us. us = [TBytes v] \<and> 1 \<le> length v \<and> length v \<le> 128)"
    "tokspec (get_hash N) (\<lambda>v us. us = [TBytes v] \<and> length v = 32)"
proof -
  show "tokspec (get_state N) (\<lambda>s us. us = flat (state_item s) \<and> state_shape s)"
    unfolding get_state_def
    by (rule tokspec_cong, (rule tok_basic read_expected [OF N])+)
      (auto simp: state_native_eq state_item_def native_shapes)
  show "tokspec (get_leaf N) (\<lambda>l us. us = flat (leaf_item l) \<and> leaf_sizes l)"
    unfolding get_leaf_def
    by (rule tokspec_cong, (rule tok_basic read_leaf [OF N])+)
      (auto simp: leaf_native_eq leaf_item_def native_shapes)
  show "tokspec (get_id N) (\<lambda>v us. us = [TBytes v] \<and> 1 \<le> length v \<and> length v \<le> 128)"
    "tokspec (get_hash N) (\<lambda>v us. us = [TBytes v] \<and> length v = 32)"
    unfolding get_id_def get_hash_def by (rule read_steps [OF N])+
qed

text \<open>Null from anything else.\<close>

lemma tokspec_null:
  assumes N: "ncbor_ok N" and A: "tokspec A RA" and B: "tokspec B RB"
    and RA: "\<And>v us. RA v us \<Longrightarrow> \<exists>r. us = TNull # r" and RB: "\<And>v us. RB v us \<Longrightarrow> \<exists>t r. us = t # r \<and> t \<noteq> TNull"
  shows "tokspec (bindS (native_type N) (\<lambda>t. if t = TyNull then A else B)) (\<lambda>v us. RA v us \<or> RB v us)"
proof (rule tokspecI)
  fix ts v s
  assume ok: "list_all tok_ok ts"
  note A = tokspecD [OF A ok, of v s] and B = tokspecD [OF B ok, of v s]
  have nA: "\<not> RA v us" if "\<And>r. ts \<noteq> TNull # r" "ts = us @ rest" for us rest
    using RA [of v us] that by (metis append_Cons)
  have nB: "\<not> RB v us" if "ts = [] \<or> (\<exists>r. ts = TNull # r)" "ts = us @ rest" for us rest
    using RB [of v us] that by (metis append_Cons list.distinct(1) list.inject)
  show "bindS (native_type N) (\<lambda>t. if t = TyNull then A else B) (puts ts) = (Inr v, s)
    \<longleftrightarrow> (\<exists>us rest. ts = us @ rest \<and> s = puts rest \<and> (RA v us \<or> RB v us))"
  proof (cases ts)
    case Nil
    then show ?thesis using native_type_run [OF N ok] nA nB by (simp add: run_bindS)
  next
    case (Cons t r)
    then have run: "native_type N (puts ts) = (Inr (tok_type t), puts ts)"
      using native_type_run [OF N ok] by simp
    show ?thesis
    proof (cases "t = TNull")
      case True
      with Cons have "ts = [] \<or> (\<exists>r. ts = TNull # r)" by simp
      from nB [OF this] run A True show ?thesis by (simp add: run_bindS tok_type_iff) blast
    next
      case False
      with Cons have "\<And>r. ts \<noteq> TNull # r" by simp
      from nA [OF this] run B False show ?thesis by (simp add: run_bindS tok_type_iff) blast
    qed
  qed
qed

lemma read_optional_hash [tok_rules]:
  assumes N: "ncbor_ok N"
  shows "tokspec (n3_optional_hash N) (\<lambda>h us. us = flat (option_item h) \<and> (\<forall>b. h = Some b \<longrightarrow> length b = 32))"
  unfolding n3_optional_hash_def
  by (rule tokspec_cong, rule tokspec_null [OF N], (rule tok_basic tok_rules [OF N] | simp; fail)+)
    (auto simp: option_item_def split: option.splits)

section \<open>Pending Commits and acceptances\<close>

definition some_pending_item :: "MlsPendingCommitBinding \<Rightarrow> cbor_item" where
  "some_pending_item p = CMap [(0, CBytes (pb_group_id p)), (1, CBytes (pb_incarnation_id p)),
     (2, CBytes (command_id (pb_transition p))), (3, CBytes (context_sha256 (pb_transition p))),
     (4, leaf_item (pb_author p)), (5, state_item (pb_previous_state p)), (6, CBytes (pb_commit_sha256 p)),
     (7, CBytes (pb_aad_sha256 p)), (8, option_item (pb_welcome_sha256 p)),
     (9, option_item (pb_group_info_sha256 p))]"

definition pending_item :: "MlsPendingCommitBinding option \<Rightarrow> cbor_item" where
  "pending_item p = (case p of None \<Rightarrow> CNull | Some p \<Rightarrow> some_pending_item p)"

definition pending_sizes :: "MlsPendingCommitBinding \<Rightarrow> bool" where
  "pending_sizes p \<longleftrightarrow> length (pb_group_id p) = 16 \<and>
     1 \<le> length (pb_incarnation_id p) \<and> length (pb_incarnation_id p) \<le> 128 \<and>
     1 \<le> length (command_id (pb_transition p)) \<and> length (command_id (pb_transition p)) \<le> 128 \<and>
     length (context_sha256 (pb_transition p)) = 32 \<and> leaf_sizes (pb_author p) \<and>
     state_shape (pb_previous_state p) \<and> length (pb_commit_sha256 p) = 32 \<and> length (pb_aad_sha256 p) = 32 \<and>
     (\<forall>h. pb_welcome_sha256 p = Some h \<longrightarrow> length h = 32) \<and> (\<forall>h. pb_group_info_sha256 p = Some h \<longrightarrow> length h = 32)"

definition n3_pending_shape :: "MlsPendingCommitBinding \<Rightarrow> bool" where
  "n3_pending_shape p \<longleftrightarrow> pending_sizes p \<and> leaf_index (pb_author p) \<le> 255"

lemma n3_checks: "n3_id b = Inr u \<longleftrightarrow> 1 \<le> length b \<and> length b \<le> 128"
  "n3_leaf l = Inr u \<longleftrightarrow> leaf_sizes l \<and> leaf_index l \<le> 255" "n3_state s = Inr u \<longleftrightarrow> state_shape s"
  by (auto simp: n3_id_def n3_leaf_def n3_state_def bindE_Inr_iff validate_ok_iff leaf_sizes_def state_shape_def
      not_less split: if_splits)

lemma n3_validate_pending_iff: "n3_validate_pending p = Inr u \<longleftrightarrow> n3_pending_shape p"
  by (auto simp: n3_validate_pending_def bindE_Inr_iff validate_ok_iff n3_checks n3_pending_shape_def pending_sizes_def
      split: option.splits)

lemma read_some_pending:
  assumes N: "ncbor_ok N"
  shows "tokspec (get_some_pending N) (\<lambda>p us. us = flat (some_pending_item p) \<and> pending_sizes p)"
  unfolding get_some_pending_def
  apply (rule tokspec_cong, (rule tok_basic tok_rules [OF N] | simp; fail)+)
  apply (simp add: some_pending_item_def pending_sizes_def)
  apply (rule iffI)
  subgoal by clarsimp
  apply (rename_tac v us, case_tac v, rename_tac a b c d e f g h i, case_tac c)
  apply clarsimp
  done

lemma read_pending [tok_rules]:
  assumes N: "ncbor_ok N"
  shows "tokspec (get_pending N) (\<lambda>p us. us = flat (pending_item p) \<and> (\<forall>b. p = Some b \<longrightarrow> pending_sizes b))"
  unfolding get_pending_def
  by (rule tokspec_cong, rule tokspec_null [OF N],
      (rule tok_basic tok_rules [OF N] read_some_pending [OF N] | simp add: some_pending_item_def; fail)+)
    (auto simp: pending_item_def some_pending_item_def split: option.splits)

definition acceptance_item :: "MlsExternalCommitAcceptanceV1 \<Rightarrow> cbor_item" where
  "acceptance_item a = (let b = ea_binding a in CMap [(0, CBytes (eb_candidate_id b)),
     (1, CBytes (command_id (eb_transition b))), (2, CBytes (context_sha256 (eb_transition b))),
     (3, state_item (eb_previous_state b)), (4, state_item (ea_resulting_state a)),
     (5, leaf_item (eb_old_leaf b)), (6, leaf_item (eb_author b)),
     (7, CBytes (eb_input_group_info_sha256 b)), (8, CBytes (eb_resulting_group_info_sha256 b)),
     (9, CBytes (eb_commit_sha256 b)), (10, CBytes (eb_aad_sha256 b))])"

definition acceptance_sizes :: "MlsExternalCommitAcceptanceV1 \<Rightarrow> bool" where
  "acceptance_sizes a \<longleftrightarrow> (let b = ea_binding a in
     1 \<le> length (eb_candidate_id b) \<and> length (eb_candidate_id b) \<le> 128 \<and>
     1 \<le> length (command_id (eb_transition b)) \<and> length (command_id (eb_transition b)) \<le> 128 \<and>
     length (context_sha256 (eb_transition b)) = 32 \<and>
     state_shape (eb_previous_state b) \<and> state_shape (ea_resulting_state a) \<and>
     leaf_sizes (eb_old_leaf b) \<and> leaf_sizes (eb_author b) \<and>
     length (eb_input_group_info_sha256 b) = 32 \<and> length (eb_resulting_group_info_sha256 b) = 32 \<and>
     length (eb_commit_sha256 b) = 32 \<and> length (eb_aad_sha256 b) = 32)"

lemma read_acceptance:
  assumes N: "ncbor_ok N"
  shows "tokspec (get_acceptance N incarnation) (\<lambda>a us. us = flat (acceptance_item a) \<and> acceptance_sizes a \<and>
    eb_incarnation_id (ea_binding a) = incarnation)"
  unfolding get_acceptance_def
  apply (rule tokspec_cong, (rule tok_basic tok_rules [OF N] | simp; fail)+)
  apply (simp add: acceptance_item_def acceptance_sizes_def Let_def)
  apply (rule iffI)
  subgoal by clarsimp
  apply (rename_tac v us, case_tac v, rename_tac a b, case_tac a, rename_tac c d e f g h i j k l, case_tac e)
  apply clarsimp
  done

section \<open>Requests\<close>

definition external_item :: "NativeExternalReceiveRequestV3 \<Rightarrow> NativeStorageEntryV2 list \<Rightarrow> cbor_item" where
  "external_item r rows = CMap [(0, CUint (ucast (er_profile_id r))), (1, CBytes (er_group_id r)),
     (2, CBytes (er_incarnation_id r)), (3, CBytes (er_commit r)), (4, CBytes (er_expected_aad r)),
     (5, CBytes (er_expected_base_group_state_sha256 r)), (6, CUint (ucast (er_expected_retention r))),
     (7, acceptance_item (er_acceptance r)), (8, pending_item (er_expected_superseded_pending r)),
     (9, snapshot_item rows)]"

definition external_shape :: "(bytes \<Rightarrow> bytes) \<Rightarrow> NativeExternalReceiveRequestV3 \<Rightarrow> bool" where
  "external_shape sha r \<longleftrightarrow> (let a = er_acceptance r; b = ea_binding a in
     er_profile_id r = 2 \<and> validate_retention (er_expected_retention r) = Inr () \<and>
     length (er_group_id r) = 16 \<and> 1 \<le> length (er_incarnation_id r) \<and> length (er_incarnation_id r) \<le> 128 \<and>
     length (er_expected_base_group_state_sha256 r) = 32 \<and>
     1 \<le> length (er_commit r) \<and> length (er_commit r) \<le> 1024 * 1024 \<and>
     1 \<le> length (er_expected_aad r) \<and> length (er_expected_aad r) \<le> 16 * 1024 \<and>
     acceptance_sizes a \<and> leaf_index (eb_old_leaf b) \<le> 255 \<and> leaf_index (eb_author b) \<le> 255 \<and>
     eb_incarnation_id b = er_incarnation_id r \<and> es_group_id (eb_previous_state b) = er_group_id r \<and>
     es_group_id (ea_resulting_state a) = er_group_id r \<and>
     u64_checked_succ (es_epoch (eb_previous_state b)) = Some (es_epoch (ea_resulting_state a)) \<and>
     sha (er_commit r) = eb_commit_sha256 b \<and> sha (er_expected_aad r) = eb_aad_sha256 b \<and>
     (\<forall>p. er_expected_superseded_pending r = Some p \<longrightarrow> n3_pending_shape p \<and> pb_group_id p = er_group_id r \<and>
        pb_incarnation_id p = er_incarnation_id r \<and> pb_previous_state p = eb_previous_state b))"

lemma n3_validate_iff: "n3_validate sha r = Inr u \<longleftrightarrow> external_shape sha r"
  unfolding n3_validate_def external_shape_def acceptance_sizes_def Let_def
  by (simp add: bindE_Inr_iff validate_ok_iff n3_checks validate_profile_iff native_consts n3_validate_pending_iff
      split: option.split) fastforce

definition inspection_item :: "NativeInspectPendingRequestV3 \<Rightarrow> NativeStorageEntryV2 list \<Rightarrow> cbor_item" where
  "inspection_item r rows = CMap [(0, CUint (ucast (ip_profile_id r))), (1, CBytes (ip_group_id r)),
     (2, CBytes (ip_incarnation_id r)), (3, state_item (ip_expected_current r)),
     (4, CBytes (ip_expected_base_group_state_sha256 r)), (5, CUint (ucast (ip_expected_retention r))),
     (6, snapshot_item rows)]"

definition inspection_shape :: "NativeInspectPendingRequestV3 \<Rightarrow> bool" where
  "inspection_shape r \<longleftrightarrow> ip_profile_id r = 2 \<and> validate_retention (ip_expected_retention r) = Inr () \<and>
     length (ip_group_id r) = 16 \<and> 1 \<le> length (ip_incarnation_id r) \<and> length (ip_incarnation_id r) \<le> 128 \<and>
     state_shape (ip_expected_current r) \<and> length (ip_expected_base_group_state_sha256 r) = 32 \<and>
     es_group_id (ip_expected_current r) = ip_group_id r"

lemma validate_inspection_iff: "validate_inspection r = Inr u \<longleftrightarrow> inspection_shape r"
  by (auto simp: validate_inspection_def inspection_shape_def bindE_Inr_iff validate_ok_iff n3_checks
      validate_profile_iff)

lemma ucast_two: "(ucast (a :: u16) :: u64) = 2 \<longleftrightarrow> a = 2"
  using ucast_inj(2) [of a 2] by simp

lemma read_inspection:
  assumes N: "ncbor_ok N"
  shows "tokspec (decode_inspection N) (\<lambda>q us. \<exists>r rows. q = InspectPending3 r \<and>
    us = flat (inspection_item r rows) \<and> ip_storage r = snapshot_of rows \<and>
    rows_shape (Some (ip_group_id r)) rows \<and> inspection_shape r)"
  unfolding decode_inspection_def Let_def
  apply (rule tokspec_cong, (rule tok_basic tok_rules [OF N] tok_parts [OF N] | simp; fail)+)
  apply (simp add: validate_inspection_iff)
  apply (simp add: inspection_shape_def inspection_item_def)
  apply (rule iffI)
  subgoal by clarsimp blast
  subgoal for v us
    apply clarsimp
    apply (rename_tac r rows, case_tac r)
    apply (clarsimp simp: ucast_two)
    apply (rule exI conjI refl | assumption | simp; fail)+
    done
  done

lemma read_external:
  assumes N: "ncbor_ok N"
  shows "tokspec (decode_external sha N) (\<lambda>q us. \<exists>r rows. q = External3 r \<and>
    us = flat (external_item r rows) \<and> er_storage r = snapshot_of rows \<and>
    rows_shape (Some (er_group_id r)) rows \<and> external_shape sha r)"
  unfolding decode_external_def Let_def
  apply (rule tokspec_cong, (rule tok_basic tok_rules [OF N] tok_parts [OF N] read_acceptance [OF N] | simp; fail)+)
  apply (simp add: n3_validate_iff)
  apply (simp add: external_shape_def external_item_def native_consts Let_def)
  apply (rule iffI)
  subgoal by clarsimp blast
  subgoal for v us
    apply clarsimp
    apply (rename_tac r rows, case_tac r)
    apply (clarsimp simp: ucast_two)
    apply (rule exI conjI refl | assumption | simp; fail | simp add: n3_pending_shape_def; fail)+
    done
  done

end
