(* ===== verification/NativeV3RoundTrip.thy ===== *)
theory NativeV3RoundTrip
  imports NativeV3Request
begin

text \<open>
  Whole requests of the third version: the frames that the decoder accepts, and that it reads back
  what the encoder wrote.
\<close>

section \<open>Frames\<close>

lemma n3_header_iff:
  "n3_header input = Inr (op, content) \<longleftrightarrow>
    input = versioned_frame 3 op content \<and> length input \<le> NATIVE_RECEIVE_REQUEST_MAX_BYTES \<and> 1 \<le> op \<and> op \<le> 5"
proof (cases "12 \<le> length input \<and> length input \<le> NATIVE_RECEIVE_REQUEST_MAX_BYTES")
  case False
  then show ?thesis by (auto simp: n3_header_def N3_HEADER_def length_versioned_frame)
next
  case True
  then have l: "12 \<le> length input" "length input < 2 ^ 32"
    by (simp_all add: NATIVE_RECEIVE_REQUEST_MAX_BYTES_def)
  have four: "take 4 (drop 8 input) = [input ! 8, input ! 9, input ! 10, input ! 11]"
    using l(1) by (simp add: list_eq_iff_nth_eq) (auto simp: less_Suc_eq numeral_eq_Suc nth_append)
  have "n3_header input = Inr (op, content) \<longleftrightarrow> (take 4 input = FRAME_MAGIC \<and>
      word_of_be [input ! 4, input ! 5] = (3 :: u16) \<and> input ! 7 = 0 \<and>
      unat (word_of_be [input ! 8, input ! 9, input ! 10, input ! 11] :: u32) = length input - 12) \<and>
      op = input ! 6 \<and> content = drop 12 input \<and> 1 \<le> op \<and> op \<le> 5"
    using True by (auto simp: n3_header_def N3_HEADER_def four)
  also have "\<dots> \<longleftrightarrow> input = versioned_frame 3 op content \<and> 1 \<le> op \<and> op \<le> 5"
    unfolding frame_fields_iff [OF l] using frame_parts [of 3 op content] by auto
  finally show ?thesis using True by simp
qed

lemma n3_frame_iff: "12 \<le> mx \<Longrightarrow> n3_frame op content mx = Inr out \<longleftrightarrow>
    out = versioned_frame 3 op content \<and> length out \<le> mx"
  by (auto simp: n3_frame_def N3_HEADER_def versioned_frame_def FRAME_MAGIC_def ascii_def be16_def be32_def)

section \<open>Requests\<close>

fun request3_operation :: "NativeReceiveRequestV3 \<Rightarrow> byte" where
  "request3_operation (Member3 q) = operation_as_u8 (request_operation q)"
| "request3_operation (External3 r) = 4"
| "request3_operation (InspectPending3 r) = 5"

fun request3_storage :: "NativeReceiveRequestV3 \<Rightarrow> NativeStorageSnapshotV2" where
  "request3_storage (Member3 q) = request_storage q"
| "request3_storage (External3 r) = er_storage r"
| "request3_storage (InspectPending3 r) = ip_storage r"

fun request3_scope :: "NativeReceiveRequestV3 \<Rightarrow> bytes option" where
  "request3_scope (Member3 q) = request_scope q"
| "request3_scope (External3 r) = Some (er_group_id r)"
| "request3_scope (InspectPending3 r) = Some (ip_group_id r)"

fun request3_shape :: "(bytes \<Rightarrow> bytes) \<Rightarrow> NativeReceiveRequestV3 \<Rightarrow> bool" where
  "request3_shape sha (Member3 q) \<longleftrightarrow> request_shape q"
| "request3_shape sha (External3 r) \<longleftrightarrow> external_shape sha r"
| "request3_shape sha (InspectPending3 r) \<longleftrightarrow> inspection_shape r"

fun request3_item :: "NativeReceiveRequestV3 \<Rightarrow> NativeStorageEntryV2 list \<Rightarrow> cbor_item" where
  "request3_item (Member3 q) = request_item q"
| "request3_item (External3 r) = external_item r"
| "request3_item (InspectPending3 r) = inspection_item r"

definition request3_frame :: "NativeReceiveRequestV3 \<Rightarrow> NativeStorageEntryV2 list \<Rightarrow> bytes" where
  "request3_frame q rows = versioned_frame 3 (request3_operation q) (put_item (request3_item q rows))"

lemma part3_items: "items (leaf_item l) = 7" "items (state_item s) = 7" "items (acceptance_item a) = 47"
  "items (pending_item p) \<le> 33"
  by (simp_all add: leaf_item_def state_item_def part_items acceptance_item_def Let_def pending_item_def
      some_pending_item_def split: option.split)

lemma request3_items: "length rows \<le> 4096 \<Longrightarrow> items (request3_item q rows) \<le> PREFLIGHT_MAX_ITEMS"
proof (cases q)
  case (External3 r)
  assume "length rows \<le> 4096"
  with External3 part3_items(4) [of "er_expected_superseded_pending r"] show ?thesis
    by (simp add: external_item_def part_items part3_items(1-3) PREFLIGHT_MAX_ITEMS_def)
qed (simp_all add: request_items [unfolded PREFLIGHT_MAX_ITEMS_def] inspection_item_def part_items part3_items PREFLIGHT_MAX_ITEMS_def)

lemma part3_fits:
  "d \<le> 4 \<Longrightarrow> leaf_sizes l \<Longrightarrow> fits d (leaf_item l)"
  "d \<le> 4 \<Longrightarrow> state_shape s \<Longrightarrow> fits d (state_item s)"
  "d \<le> 4 \<Longrightarrow> (\<And>h. b = Some h \<Longrightarrow> length h = 32) \<Longrightarrow> fits d (option_item b)"
  "d \<le> 3 \<Longrightarrow> pending_sizes p \<Longrightarrow> fits d (some_pending_item p)"
  "d \<le> 3 \<Longrightarrow> acceptance_sizes a \<Longrightarrow> fits d (acceptance_item a)"
proof -
  show l: "d \<le> 4 \<Longrightarrow> leaf_sizes l \<Longrightarrow> fits d (leaf_item l)" for d l
    by (simp add: leaf_item_def part_fits native_shapes)
  show s: "d \<le> 4 \<Longrightarrow> state_shape s \<Longrightarrow> fits d (state_item s)" for d s
    by (simp add: state_item_def part_fits native_shapes)
  show o: "d \<le> 4 \<Longrightarrow> (\<And>h. b = Some h \<Longrightarrow> length h = 32) \<Longrightarrow> fits d (option_item b)" for d b
    by (auto simp: option_item_def split: option.split)
  show "d \<le> 3 \<Longrightarrow> pending_sizes p \<Longrightarrow> fits d (some_pending_item p)"
    by (simp add: some_pending_item_def pending_sizes_def l s o)
  show "d \<le> 3 \<Longrightarrow> acceptance_sizes a \<Longrightarrow> fits d (acceptance_item a)"
    by (simp add: acceptance_item_def acceptance_sizes_def Let_def l s)
qed

lemma pending_fits: "d \<le> 3 \<Longrightarrow> (\<And>b. p = Some b \<Longrightarrow> pending_sizes b) \<Longrightarrow> fits d (pending_item p)"
  by (auto simp: pending_item_def part3_fits split: option.split)

lemma request3_fits: "request3_shape sha q \<Longrightarrow> rows_shape scope rows \<Longrightarrow> fits 0 (request3_item q rows)"
proof (cases q)
  case (External3 r)
  assume r: "request3_shape sha q" "rows_shape scope rows"
  have "fits 1 (pending_item (er_expected_superseded_pending r))"
    using r(1) by (intro pending_fits) (auto simp: External3 external_shape_def n3_pending_shape_def Let_def)
  with r External3 snapshot_fits [OF r(2)] part3_fits(5) [of 1 "er_acceptance r"] show ?thesis
    by (simp add: external_item_def external_shape_def Let_def)
next
  case (InspectPending3 r)
  assume r: "request3_shape sha q" "rows_shape scope rows"
  with InspectPending3 snapshot_fits [OF r(2)] show ?thesis
    by (simp add: inspection_item_def inspection_shape_def part3_fits)
qed (simp_all add: request_fits)

definition body3 :: "(bytes \<Rightarrow> bytes) \<Rightarrow> ncbor \<Rightarrow> byte \<Rightarrow> NativeReceiveRequestV3 reader" where
  "body3 sha N op = (if op = 4 then decode_external sha N
    else if op = 5 then decode_inspection N else decode_member N op)"

definition reads3 :: "(bytes \<Rightarrow> bytes) \<Rightarrow> byte \<Rightarrow> NativeReceiveRequestV3 \<Rightarrow> cbor_tok list \<Rightarrow> bool" where
  "reads3 sha op q us \<longleftrightarrow> (\<exists>rows. request3_storage q = snapshot_of rows \<and> rows_shape (request3_scope q) rows \<and>
     request3_shape sha q \<and> request3_operation q = op \<and> us = flat (request3_item q rows))"

lemma member_operation: "operation_as_u8 x \<noteq> 4" "operation_as_u8 x \<noteq> 5"
  "operation_as_u8 x = 1 \<longleftrightarrow> x = OpApplication" "operation_as_u8 x = 2 \<longleftrightarrow> x = OpCommit"
  "operation_as_u8 x = 3 \<longleftrightarrow> x = OpWelcome" "1 \<le> operation_as_u8 x" "operation_as_u8 x \<le> 5"
  by (cases x; simp)+

lemma reads3_member:
  "reads3 sha (operation_as_u8 x) q us \<longleftrightarrow> (\<exists>r rows. q = Member3 r \<and> request_storage r = snapshot_of rows \<and>
     rows_shape (request_scope r) rows \<and> request_shape r \<and> request_operation r = x \<and> us = flat (request_item r rows))"
proof (cases q)
  case (Member3 r)
  have "operation_as_u8 a = operation_as_u8 b \<longleftrightarrow> a = b" for a b by (cases a; cases b) simp_all
  then show ?thesis by (simp add: reads3_def Member3)
qed (simp_all add: reads3_def member_operation(1,2) [THEN not_sym])

lemma read_body3:
  assumes N: "ncbor_ok N" and op: "1 \<le> op" "op \<le> 5"
  shows "tokspec (body3 sha N op) (reads3 sha op)"
proof -
  have "unat op = 1 \<or> unat op = 2 \<or> unat op = 3 \<or> unat op = 4 \<or> unat op = 5"
    using op by (simp add: word_le_nat_alt) linarith
  then consider "op = 1" | "op = 2" | "op = 3" | "op = 4" | "op = 5"
    by (auto simp: word_unat_eq_iff)
  then show ?thesis
  proof cases
    case 1
    have "reads3 sha 1 = reads3 sha (operation_as_u8 OpApplication)" by simp
    note eq = this reads3_member
    show ?thesis unfolding 1 body3_def decode_member_def
      apply simp
      apply (rule tokspec_cong, (rule tok_basic read_process [OF N])+)
      apply (simp add: eq del: operation_as_u8.simps)
      apply (rule iffI)
      subgoal by auto
      subgoal by (clarsimp, rename_tac r rows, case_tac r) auto
      done
  next
    case 2
    have "reads3 sha 2 = reads3 sha (operation_as_u8 OpCommit)" by simp
    note eq = this reads3_member
    show ?thesis unfolding 2 body3_def decode_member_def
      apply simp
      apply (rule tokspec_cong, (rule tok_basic read_process [OF N])+)
      apply (simp add: eq del: operation_as_u8.simps)
      apply (rule iffI)
      subgoal by auto
      subgoal by (clarsimp, rename_tac r rows, case_tac r) auto
      done
  next
    case 3
    have "reads3 sha 3 = reads3 sha (operation_as_u8 OpWelcome)" by simp
    note eq = this reads3_member
    show ?thesis unfolding 3 body3_def decode_member_def
      apply simp
      apply (rule tokspec_cong, (rule tok_basic read_welcome [OF N])+)
      apply (simp add: eq del: operation_as_u8.simps)
      apply (rule iffI)
      subgoal by auto
      subgoal by (clarsimp, rename_tac r rows, case_tac r) auto
      done
  next
    case 4
    show ?thesis unfolding 4 body3_def
      apply simp
      apply (rule tokspec_cong [OF read_external [OF N]])
      apply (rename_tac v us, case_tac v)
      by (auto simp: reads3_def member_operation)
  next
    case 5
    show ?thesis unfolding 5 body3_def
      apply simp
      apply (rule tokspec_cong [OF read_inspection [OF N]])
      apply (rename_tac v us, case_tac v)
      by (auto simp: reads3_def member_operation)
  qed
qed

theorem n3_request_iff:
  assumes N: "ncbor_ok N"
  shows "decode_native_receive_request_v3 sha N input = Inr q \<longleftrightarrow>
    (\<exists>rows. request3_storage q = snapshot_of rows \<and> rows_shape (request3_scope q) rows \<and> request3_shape sha q \<and>
       input = request3_frame q rows \<and> length input \<le> NATIVE_RECEIVE_REQUEST_MAX_BYTES)"
    (is "_ \<longleftrightarrow> ?R")
proof -
  have "(case r of (Inl e, _) \<Rightarrow> Inl e | (Inr request, rest) \<Rightarrow>
      if rest \<noteq> [] then Inl NoncanonicalEncoding else Inr request) = Inr q \<longleftrightarrow> r = (Inr q, [])"
    for r :: "(MlsErrorCode + NativeReceiveRequestV3) \<times> bytes"
    by (auto split: prod.splits sum.splits)
  then have d: "decode_native_receive_request_v3 sha N input = Inr q \<longleftrightarrow>
      (\<exists>op content. n3_header input = Inr (op, content) \<and> preflight_cbor content = Inr () \<and>
         body3 sha N op content = (Inr q, []))"
    by (auto simp: decode_native_receive_request_v3_def bindE_Inr_iff body3_def [symmetric])
  show ?thesis
  proof
    assume "decode_native_receive_request_v3 sha N input = Inr q"
    then obtain op x where op: "1 \<le> op" "op \<le> 5" and l: "length input \<le> NATIVE_RECEIVE_REQUEST_MAX_BYTES"
      and f: "input = versioned_frame 3 op (put_item x)" and x: "fits 0 x"
      and b: "body3 sha N op (put_item x) = (Inr q, [])"
      unfolding d n3_header_iff preflight_iff by blast
    from b read_whole [OF read_body3 [OF N op] x] have "reads3 sha op q (flat x)" by simp
    then obtain rows where "request3_storage q = snapshot_of rows" "rows_shape (request3_scope q) rows"
      "request3_shape sha q" "request3_operation q = op" "flat x = flat (request3_item q rows)"
      by (auto simp: reads3_def)
    with f l put_item_flat [of x] show ?R by (auto simp: request3_frame_def)
  next
    assume ?R
    then obtain rows where rows: "request3_storage q = snapshot_of rows" "rows_shape (request3_scope q) rows"
      "request3_shape sha q" and f: "input = request3_frame q rows"
      and l: "length input \<le> NATIVE_RECEIVE_REQUEST_MAX_BYTES" by blast
    let ?x = "request3_item q rows"
    have fit: "fits 0 ?x" by (rule request3_fits [OF rows(3,2)])
    have "items ?x \<le> PREFLIGHT_MAX_ITEMS" using rows(2) by (intro request3_items) (simp add: rows_shape_def)
    moreover have op: "1 \<le> request3_operation q" "request3_operation q \<le> 5"
      by (cases q; simp add: member_operation)+
    moreover have "body3 sha N (request3_operation q) (put_item ?x) = (Inr q, [])"
      unfolding read_whole [OF read_body3 [OF N op] fit] reads3_def using rows by blast
    ultimately show "decode_native_receive_request_v3 sha N input = Inr q"
      unfolding d n3_header_iff preflight_iff using f l fit by (auto simp: request3_frame_def)
  qed
qed

section \<open>The encoder\<close>

lemma encode_parts3:
  assumes N: "ncbor_ok N"
  shows "put_state_v3 N s = Inr b \<longleftrightarrow> state_shape s \<and> b = put_item (state_item s)"
    "put_leaf_v3 N l = Inr b \<longleftrightarrow> leaf_sizes l \<and> b = put_item (leaf_item l)"
    "(\<And>v. h = Some v \<Longrightarrow> length v = 32) \<Longrightarrow> put_optional_hash N h = put_item (option_item h)"
    "put_pending N p = Inr b \<longleftrightarrow> (\<forall>q. p = Some q \<longrightarrow> n3_pending_shape q) \<and> b = put_item (pending_item p)"
proof -
  show s: "put_state_v3 N s = Inr b \<longleftrightarrow> state_shape s \<and> b = put_item (state_item s)" for s b
    by (simp add: put_state_v3_def state_native_def [symmetric] encode_parts [OF N] native_shapes state_item_def)
  show l: "put_leaf_v3 N l = Inr b \<longleftrightarrow> leaf_sizes l \<and> b = put_item (leaf_item l)" for l b
    by (simp add: put_leaf_v3_def encode_parts [OF N] native_shapes leaf_item_def)
  show o: "put_optional_hash N h = put_item (option_item h)" if "\<And>v. h = Some v \<Longrightarrow> length v = 32" for h
    using that by (auto simp: put_optional_hash_def option_item_def ncbor_enc [OF N] split: option.split)
  have some: "put_pending N (Some q) = Inr b \<longleftrightarrow> n3_pending_shape q \<and> b = put_item (some_pending_item q)" for q
  proof (cases "n3_pending_shape q")
    case True
    then have sizes: "pending_sizes q" by (simp add: n3_pending_shape_def)
    then have "put_optional_hash N (pb_welcome_sha256 q) = put_item (option_item (pb_welcome_sha256 q))"
      "put_optional_hash N (pb_group_info_sha256 q) = put_item (option_item (pb_group_info_sha256 q))"
      by (auto simp: pending_sizes_def intro!: o)
    with True sizes show ?thesis
      by (auto simp: put_pending_def bindE_Inr_iff n3_validate_pending_iff s l some_pending_item_def pending_sizes_def
          ncbor_enc [OF N])
  qed (simp add: put_pending_def bindE_Inr_iff n3_validate_pending_iff)
  show "put_pending N p = Inr b \<longleftrightarrow> (\<forall>q. p = Some q \<longrightarrow> n3_pending_shape q) \<and> b = put_item (pending_item p)"
    using some by (cases p) (auto simp: pending_item_def put_pending_def ncbor_enc [OF N])
qed

lemma encode_acceptance:
  assumes N: "ncbor_ok N" and a: "acceptance_sizes a"
  shows "put_acceptance N a = Inr (put_item (acceptance_item a))"
proof -
  note ok = encode_parts3(1,2) [OF N, THEN iffD2, OF conjI, OF _ refl]
  show ?thesis
    using a by (simp add: put_acceptance_def acceptance_sizes_def Let_def ok acceptance_item_def ncbor_enc [OF N])
qed

definition sorted_rows3 :: "NativeReceiveRequestV3 \<Rightarrow> NativeStorageEntryV2 list" where
  "sorted_rows3 q = sort_key ns_key (sn_entries (request3_storage q))"

fun canonical_request3 :: "NativeReceiveRequestV3 \<Rightarrow> NativeReceiveRequestV3" where
  "canonical_request3 (Member3 q) = Member3 (canonical_request q)"
| "canonical_request3 (External3 r) =
     External3 (r\<lparr>er_storage := (er_storage r)\<lparr>sn_entries := sorted_rows3 (External3 r)\<rparr>\<rparr>)"
| "canonical_request3 (InspectPending3 r) =
     InspectPending3 (r\<lparr>ip_storage := (ip_storage r)\<lparr>sn_entries := sorted_rows3 (InspectPending3 r)\<rparr>\<rparr>)"

lemma encode_external_ok:
  assumes N: "ncbor_ok N" and sh: "external_shape sha r" and e: "encode_external N r = Inr b"
  defines "rows \<equiv> sorted_rows3 (External3 r)"
  shows "b = put_item (external_item r rows)" "rows_shape (Some (er_group_id r)) rows"
    "snapshot_of rows = (er_storage r)\<lparr>sn_entries := rows\<rparr>"
proof -
  have rows: "rows = sort_key ns_key (sn_entries (er_storage r))" by (simp add: rows_def sorted_rows3_def)
  from sh have a: "acceptance_sizes (er_acceptance r)" by (simp add: external_shape_def Let_def)
  from e obtain st where st: "encode_storage_snapshot N (er_storage r) (Some (er_group_id r)) = Inr st"
    and b: "b = cb_map N 10 @ cb_u8 N 0 @ cb_u16 (nc N) (er_profile_id r)
       @ cb_u8 N 1 @ cb_bytes (nc N) (er_group_id r) @ cb_u8 N 2 @ cb_bytes (nc N) (er_incarnation_id r)
       @ cb_u8 N 3 @ cb_bytes (nc N) (er_commit r) @ cb_u8 N 4 @ cb_bytes (nc N) (er_expected_aad r)
       @ cb_u8 N 5 @ cb_bytes (nc N) (er_expected_base_group_state_sha256 r)
       @ cb_u8 N 6 @ cb_u32 (nc N) (er_expected_retention r)
       @ cb_u8 N 7 @ put_item (acceptance_item (er_acceptance r))
       @ cb_u8 N 8 @ put_item (pending_item (er_expected_superseded_pending r)) @ cb_u8 N 9 @ st"
    by (auto simp: encode_external_def bindE_Inr_iff encode_acceptance [OF N a] encode_parts3 [OF N])
  note snap = encode_snapshot_ok [OF N st]
  show "rows_shape (Some (er_group_id r)) rows" "snapshot_of rows = (er_storage r)\<lparr>sn_entries := rows\<rparr>"
    unfolding rows using snap by simp_all
  have "length (er_group_id r) < 2 ^ 64" "length (er_incarnation_id r) < 2 ^ 64" "length (er_commit r) < 2 ^ 64"
    "length (er_expected_aad r) < 2 ^ 64" "length (er_expected_base_group_state_sha256 r) < 2 ^ 64"
    using sh by (simp_all add: external_shape_def Let_def)
  note sizes = this [THEN ncbor_enc(7) [OF N]]
  show "b = put_item (external_item r rows)"
    unfolding b snap(2) rows by (simp add: external_item_def ncbor_enc [OF N] sizes)
qed

lemma encode_inspection_ok:
  assumes N: "ncbor_ok N" and sh: "inspection_shape r" and e: "encode_inspection N r = Inr b"
  defines "rows \<equiv> sorted_rows3 (InspectPending3 r)"
  shows "b = put_item (inspection_item r rows)" "rows_shape (Some (ip_group_id r)) rows"
    "snapshot_of rows = (ip_storage r)\<lparr>sn_entries := rows\<rparr>"
proof -
  have rows: "rows = sort_key ns_key (sn_entries (ip_storage r))" by (simp add: rows_def sorted_rows3_def)
  from e obtain st where st: "encode_storage_snapshot N (ip_storage r) (Some (ip_group_id r)) = Inr st"
    and b: "b = cb_map N 7 @ cb_u8 N 0 @ cb_u16 (nc N) (ip_profile_id r)
       @ cb_u8 N 1 @ cb_bytes (nc N) (ip_group_id r) @ cb_u8 N 2 @ cb_bytes (nc N) (ip_incarnation_id r)
       @ cb_u8 N 3 @ put_item (state_item (ip_expected_current r))
       @ cb_u8 N 4 @ cb_bytes (nc N) (ip_expected_base_group_state_sha256 r)
       @ cb_u8 N 5 @ cb_u32 (nc N) (ip_expected_retention r) @ cb_u8 N 6 @ st"
    by (auto simp: encode_inspection_def bindE_Inr_iff encode_parts3 [OF N])
  note snap = encode_snapshot_ok [OF N st]
  show "rows_shape (Some (ip_group_id r)) rows" "snapshot_of rows = (ip_storage r)\<lparr>sn_entries := rows\<rparr>"
    unfolding rows using snap by simp_all
  have "length (ip_group_id r) < 2 ^ 64" "length (ip_incarnation_id r) < 2 ^ 64"
    "length (ip_expected_base_group_state_sha256 r) < 2 ^ 64"
    using sh by (simp_all add: inspection_shape_def)
  note sizes = this [THEN ncbor_enc(7) [OF N]]
  show "b = put_item (inspection_item r rows)"
    unfolding b snap(2) rows by (simp add: inspection_item_def ncbor_enc [OF N] sizes)
qed

theorem encode_then_decode3:
  assumes N: "ncbor_ok N" and e: "encode_native_receive_request_v3 sha N q = Inr input"
  shows "decode_native_receive_request_v3 sha N input = Inr (canonical_request3 q)"
proof -
  have mx: "12 \<le> NATIVE_RECEIVE_REQUEST_MAX_BYTES" by (simp add: NATIVE_RECEIVE_REQUEST_MAX_BYTES_def)
  note defs = encode_native_receive_request_v3_def n3_encode_request_def bindE_Inr_iff
  show ?thesis
  proof (cases q)
    case (Member3 r)
    with e obtain fr where fr: "encode_native_receive_request_v2 N r = Inr fr" "input = take 4 fr @ be16 3 @ drop 6 fr"
      by (auto simp: defs)
    from encode_then_decode [OF N fr(1)] obtain rows where rows:
      "request_storage (canonical_request r) = snapshot_of rows"
      "rows_shape (request_scope (canonical_request r)) rows" "request_shape (canonical_request r)"
      and f: "fr = request_frame (canonical_request r) rows" and l: "length fr \<le> NATIVE_RECEIVE_REQUEST_MAX_BYTES"
      unfolding native_request_iff [OF N] by blast
    have "take 4 (versioned_frame v op c) @ be16 3 @ drop 6 (versioned_frame v op c) = versioned_frame 3 op c" for v op c
      by (simp add: frame_parts) (simp add: versioned_frame_def FRAME_MAGIC_def ascii_def be16_def)
    with fr(2) f have i: "input = request3_frame (Member3 (canonical_request r)) rows"
      by (simp add: request_frame_def request3_frame_def native_frame_versioned)
    then have "length input = length fr"
      by (simp add: f request_frame_def request3_frame_def native_frame_versioned length_versioned_frame)
    with rows i l show ?thesis unfolding n3_request_iff [OF N] Member3 by auto
  next
    case (External3 r)
    with e obtain b where sh: "external_shape sha r" and b: "encode_external N r = Inr b"
      "input = versioned_frame 3 4 b" "length input \<le> NATIVE_RECEIVE_REQUEST_MAX_BYTES"
      by (auto simp: defs n3_validate_iff n3_frame_iff [OF mx])
    note ok = encode_external_ok [OF N sh b(1)]
    show ?thesis
      unfolding n3_request_iff [OF N] External3
      using ok b sh by (intro exI [of _ "sorted_rows3 (External3 r)"])
        (simp add: request3_frame_def external_shape_def external_item_def Let_def)
  next
    case (InspectPending3 r)
    with e obtain b where sh: "inspection_shape r" and b: "encode_inspection N r = Inr b"
      "input = versioned_frame 3 5 b" "length input \<le> NATIVE_RECEIVE_REQUEST_MAX_BYTES"
      by (auto simp: defs validate_inspection_iff n3_frame_iff [OF mx] INSPECT_PENDING_OPERATION_def)
    note ok = encode_inspection_ok [OF N sh b(1)]
    show ?thesis
      unfolding n3_request_iff [OF N] InspectPending3
      using ok b sh by (intro exI [of _ "sorted_rows3 (InspectPending3 r)"])
        (simp add: request3_frame_def inspection_shape_def inspection_item_def)
  qed
qed

end
