(* ===== verification/NativeV3Laws.thy ===== *)
theory NativeV3Laws
  imports NativeV3RoundTrip NativeAnswers ExternalLaws
begin

text \<open>
  Execution of the frames of the third version: every input is answered, and the answer is that of
  the runtime, for the receipt of an external Commit and for the inspection of a pending Commit.
\<close>

section \<open>Every input is answered\<close>

definition answered :: "byte \<Rightarrow> bytes \<Rightarrow> bool" where
  "answered op out \<longleftrightarrow> length out \<le> NATIVE_RECEIVE_RESULT_MAX_BYTES \<and> (\<exists>content. out = versioned_frame 3 op content)"

lemma result_frame: "12 \<le> NATIVE_RECEIVE_RESULT_MAX_BYTES"
  by (simp add: NATIVE_RECEIVE_RESULT_MAX_BYTES_def)

lemma encode_result_answers: "n3_encode_result N op r = Inr out \<Longrightarrow> answered op out"
  by (auto simp: n3_encode_result_def bindE_Inr_iff n3_frame_iff [OF result_frame] answered_def)

lemma operation_v3_range: "operation_v3 input = 0 \<or> 1 \<le> operation_v3 input \<and> operation_v3 input \<le> 5"
  by (simp add: operation_v3_def)

lemma failure_v3_answers:
  assumes "op = 0 \<or> 1 \<le> op \<and> op \<le> 5"
  shows "answered op (encode_native_receive_failure_v3 N op e) \<or> answered 0 (encode_native_receive_failure_v3 N op e)"
proof (cases "n3_encode_result N (if 1 \<le> op \<and> op \<le> 5 then op else 0) (Inl e)")
  case (Inr out)
  with encode_result_answers [OF Inr] assms show ?thesis by (auto simp: encode_native_receive_failure_v3_def)
next
  case (Inl x)
  let ?c = "[0xa3, 0, 3, 1, 0xf4, 3, 0xa1, 3, 0x18, 0xff] :: bytes"
  have f: "FRAME_MAGIC @ [0, 3, 0, 0, 0, 0, 0, 0x0a] @ ?c = versioned_frame 3 0 ?c"
    by (simp add: versioned_frame_def FRAME_MAGIC_def ascii_def be16_def be32_def be_bytes_def upt_rec)
  have "answered 0 (encode_native_receive_failure_v3 N op e)"
    unfolding encode_native_receive_failure_v3_def Inl sum.case f answered_def length_versioned_frame
    by (intro conjI exI, rule order.trans [of _ 22]) (simp_all add: NATIVE_RECEIVE_RESULT_MAX_BYTES_def)
  then show ?thesis ..
qed

definition v3_result ::
  "(bytes \<Rightarrow> bytes) \<Rightarrow> ncbor \<Rightarrow> 'v storage_env \<Rightarrow> ('v, 'g, 'x) openmls \<Rightarrow> ('p, 'x) public_mls \<Rightarrow> u64 \<times> u64
   \<Rightarrow> bytes \<Rightarrow> MlsErrorCode + N3Success" where
  "v3_result sha N E M P clock input =
     (case decode_native_receive_request_v3 sha N input of
        Inl e \<Rightarrow> Inl e
      | Inr request \<Rightarrow> (case n3_execute sha N E M P clock request of Some r \<Rightarrow> r | None \<Rightarrow> Inl InternalFailure))"

lemma execute_v3_unfold: "execute_native_receive_v3 sha N E M P clock input =
     (case n3_encode_result N (operation_v3 input) (v3_result sha N E M P clock input) of
        Inr out \<Rightarrow> out
      | Inl e \<Rightarrow> encode_native_receive_failure_v3 N (operation_v3 input) e)"
  by (simp add: execute_native_receive_v3_def v3_result_def Let_def)

lemma execute_v3_answers:
  "answered (operation_v3 input) (execute_native_receive_v3 sha N E M P clock input) \<or>
   answered 0 (execute_native_receive_v3 sha N E M P clock input)"
  using failure_v3_answers [OF operation_v3_range]
  by (auto simp: execute_v3_unfold encode_result_answers split: sum.split)

section \<open>Failures\<close>

definition failure3_item :: "MlsErrorCode \<Rightarrow> cbor_item" where
  "failure3_item e = CMap [(0, CUint 3), (1, CFalse), (3, CMap [(3, CUint (ucast (error_code e)))])]"

lemma encode_failure3:
  assumes N: "ncbor_ok N"
  shows "n3_encode_result N op (Inl e) = Inr (versioned_frame 3 op (put_item (failure3_item e)))"
proof -
  have "length (put_item (failure3_item e)) \<le> 20"
    by (simp add: failure3_item_def cbor_head_def cbor_arg_def be16_def be32_def be64_def)
  then have "n3_frame op (put_item (failure3_item e)) NATIVE_RECEIVE_RESULT_MAX_BYTES =
      Inr (versioned_frame 3 op (put_item (failure3_item e)))"
    unfolding n3_frame_iff [OF result_frame] by (simp add: length_versioned_frame NATIVE_RECEIVE_RESULT_MAX_BYTES_def)
  then show ?thesis by (simp add: n3_encode_result_def failure3_item_def ncbor_enc [OF N])
qed

lemma execute_v3_failure:
  assumes N: "ncbor_ok N"
    and "n3_encode_result N (operation_v3 input) (v3_result sha N E M P clock input) = Inl e \<or>
      v3_result sha N E M P clock input = Inl e"
  shows "execute_native_receive_v3 sha N E M P clock input =
    versioned_frame 3 (operation_v3 input) (put_item (failure3_item e))"
  using assms(2) operation_v3_range [of input]
  by (auto simp: execute_v3_unfold encode_failure3 [OF N] encode_native_receive_failure_v3_def)

lemma operation_v3_frame: "op = 0 \<or> 1 \<le> op \<and> op \<le> 5 \<Longrightarrow> operation_v3 (versioned_frame 3 op content) = op"
  by (auto simp: operation_v3_def frame_parts length_versioned_frame)

text \<open>A success whose body fits a frame.\<close>

definition success3_answer :: "byte \<Rightarrow> bytes \<Rightarrow> bytes" where
  "success3_answer op b = versioned_frame 3 op
     (put_tok (TMap 3) @ put_tok (TUint 0) @ put_tok (TUint 3) @ put_tok (TUint 1) @ put_tok (TBool False)
       @ put_tok (TUint 2) @ b)"

lemma success3_frame:
  assumes N: "ncbor_ok N" and b: "length b \<le> 7 * 1024 * 1024 + 10000"
  shows "n3_frame op (cb_map N 3 @ cb_u8 N 0 @ cb_u16 (nc N) 3 @ cb_u8 N 1 @ cb_bool N False @ cb_u8 N 2 @ b)
       NATIVE_RECEIVE_RESULT_MAX_BYTES = Inr (success3_answer op b)"
proof -
  have "length (success3_answer op b) \<le> NATIVE_RECEIVE_RESULT_MAX_BYTES"
    using b cbor_head_length [of 5 3] cbor_head_length [of 0 0] cbor_head_length [of 0 1]
      cbor_head_length [of 0 2] cbor_head_length [of 0 3]
    by (simp add: success3_answer_def length_versioned_frame NATIVE_RECEIVE_RESULT_MAX_BYTES_def)
  then show ?thesis
    unfolding n3_frame_iff [OF result_frame] by (simp add: success3_answer_def ncbor_enc [OF N])
qed

lemma pending_length:
  assumes "\<And>q. p = Some q \<Longrightarrow> pending_sizes q"
  shows "length (put_item (pending_item p)) \<le> 2000"
proof (cases p)
  case None
  then show ?thesis by (simp add: pending_item_def)
next
  case (Some q)
  then have q: "pending_sizes q" using assms by simp
  have o: "length (put_item (option_item h)) \<le> 41" if "\<And>v. h = Some v \<Longrightarrow> length v = 32" for h
    using that cbor_head_length [of 2 32] by (auto simp: option_item_def split: option.split)
  have l: "length (put_item (leaf_item l)) \<le> 140" if "leaf_sizes l" for l
    using that cbor_head_length [of 5 3] cbor_head_length [of 0 0] cbor_head_length [of 0 1] cbor_head_length [of 0 2]
      cbor_head_length [of 0 "ucast (leaf_index l)"] cbor_head_length [of 2 45] cbor_head_length [of 2 32]
    by (simp add: leaf_item_def native_leaf_item_def mls_leaf_into_native_def leaf_sizes_def)
  have s: "length (put_item (state_item s)) \<le> 120" if "state_shape s" for s
    using that cbor_head_length [of 5 3] cbor_head_length [of 0 0] cbor_head_length [of 0 1] cbor_head_length [of 0 2]
      cbor_head_length [of 0 "es_epoch s"] cbor_head_length [of 2 16] cbor_head_length [of 2 32]
    by (simp add: state_item_def native_expected_item_def state_native_def state_shape_def)
  have k: "length (cbor_head 0 n) \<le> 9" "length (cbor_head 2 n) \<le> 9" "length (cbor_head 5 n) \<le> 9" for n
    by (rule cbor_head_length)+
  have "length (put_item (option_item (pb_welcome_sha256 q))) \<le> 41" "length (put_item (option_item (pb_group_info_sha256 q))) \<le> 41"
    "length (put_item (leaf_item (pb_author q))) \<le> 140" "length (put_item (state_item (pb_previous_state q))) \<le> 120"
    using q by (auto intro!: o l s simp: pending_sizes_def)
  then show ?thesis
    using q k(1) [of 0] k(1) [of 1] k(1) [of 2] k(1) [of 3] k(1) [of 4] k(1) [of 5] k(1) [of 6] k(1) [of 7] k(1) [of 8] k(1) [of 9]
      k(2) [of "of_nat (length (pb_incarnation_id q))"] k(2) [of "of_nat (length (command_id (pb_transition q)))"]
      k(2) [of 16] k(2) [of 32] k(3) [of 10]
    by (simp add: Some pending_item_def some_pending_item_def pending_sizes_def)
qed

section \<open>What the receipt of an external Commit returns\<close>

text \<open>No row has the empty key, neither before nor now.\<close>

definition keyed :: "snapshot \<Rightarrow> bool" where
  "keyed st \<longleftrightarrow> \<not> has_row [] st \<and> [] \<notin> fst ` set (sp_initial st) \<and> snapshot_ok st"

lemma keyed_fresh:
  assumes pr: "provider_from_entries es 1 g = Inr st" and keys: "\<forall>e \<in> set es. entry_key e \<noteq> []"
  shows "keyed st"
proof -
  note ro = row_of_opened [OF pr]
  have none: "\<not> has_row [] st"
    using keys by (auto simp: has_row_def ro(1) row_of_def entries_map_def map_of_eq_None_iff)
  then have "[] \<notin> fst ` set (sp_initial st)"
    using ro(3) by (simp add: has_row_def read_opaque_def map_of_eq_None_iff)
  with none ro(2) show ?thesis by (simp add: keyed_def)
qed

lemma keyed_exec_calls: "keyed st \<Longrightarrow> keyed (exec_calls E calls st)"
  using exec_calls_preserve [OF label_stable_no_empty_key] by (auto simp: keyed_def)

lemma keyed_clear: "keyed st \<Longrightarrow> keyed (clear_retry_rows s st)"
  by (auto simp: keyed_def has_row_def clear_retry_rows_def snapshot_kv.rd_del)

lemma finish_keyed:
  assumes "cbor_ok C" "\<And>b. length (sha b) = 32" "finish sha C st s prev = Inr m" "keyed st"
  shows "batch_bounds (mu_batch m)" "roster_ok sha (mu_resulting m)" "mu_previous m = prev"
    "length (mu_resulting_digest m) = 32" "validate_retention (mu_retention m) = Inr ()"
  using finish_bounds [OF assms(1-3)] assms(4) by (simp_all add: keyed_def)

lemma external_bounds:
  assumes C: "cbor_ok C" and sha: "\<And>b. length (sha b) = 32"
    and ok: "external_receive sha C E M P cx w aad acceptance superseded = Inr r"
    and keys: "\<forall>e \<in> set (cx_entries cx). entry_key e \<noteq> []"
  shows "batch_bounds (xr_storage_batch r)" "roster_ok sha (xr_resulting_roster r)"
    "roster_ok sha (xr_previous_roster r)" "length (xr_resulting_group_state_sha256 r) = 32"
    "validate_retention (xr_effective_retention r) = Inr ()"
    "xr_authenticated_sender r = eb_author (ea_binding acceptance)" "xr_superseded_pending r = superseded"
proof -
  from ok obtain L L' staged g calls g' calls' s m where L: "load sha C E M cx = Inr L"
    and cl: "clear_superseded E M (superseded \<noteq> None) L = Inr L'"
    and st: "member_commit_authenticated M P w aad (ea_binding acceptance) (lg_current (ld_local L))
       (ld_group L') (ld_provider L') staged g calls"
    and fin: "finish sha C (exec_calls E calls' (exec_calls E calls (ld_provider L'))) s
       (lg_current (ld_local L)) = Inr m"
    and r: "r = \<lparr>xr_authenticated_sender = eb_author (ea_binding acceptance),
        xr_previous_roster = mu_previous m, xr_resulting_roster = mu_resulting m,
        xr_resulting_group_state_sha256 = mu_resulting_digest m, xr_effective_retention = mu_retention m,
        xr_superseded_pending = superseded, xr_storage_batch = mu_batch m\<rparr>"
    by (auto simp: external_receive_def Let_def success_simps stage_external_commit_Inr)
  from L have o: "opened sha C E M cx L" by (simp add: load_Inr_iff [OF C])
  then have k: "keyed (ld_provider L)" and lo: "local_ok sha (ld_local L)"
    using keys by (auto simp: opened_def intro: keyed_fresh)
  have "keyed (ld_provider L')"
    using cl k by (auto simp: clear_superseded_def success_simps Let_def keyed_clear keyed_exec_calls split: if_splits)
  then have "keyed (exec_calls E calls' (exec_calls E calls (ld_provider L')))" by (simp add: keyed_exec_calls)
  note fb = finish_keyed [OF C sha fin this]
  show "batch_bounds (xr_storage_batch r)" "roster_ok sha (xr_resulting_roster r)"
    "roster_ok sha (xr_previous_roster r)" "length (xr_resulting_group_state_sha256 r) = 32"
    "validate_retention (xr_effective_retention r) = Inr ()"
    "xr_authenticated_sender r = eb_author (ea_binding acceptance)" "xr_superseded_pending r = superseded"
    using fb lo by (simp_all add: r local_ok_def)
qed

section \<open>External Commits\<close>

theorem external_is_external_receive:
  assumes N: "ncbor_ok N" and sha: "\<And>b. length (sha b) = 32"
    and f: "encode_native_receive_request_v3 sha N (External3 r) = Inr input"
  defines "r' \<equiv> r\<lparr>er_storage := (er_storage r)\<lparr>sn_entries := sorted_rows3 (External3 r)\<rparr>\<rparr>"
  shows "case external_receive sha (nc N) E M P (external_context r') (er_commit r) (er_expected_aad r)
      (er_acceptance r) (er_expected_superseded_pending r) of
      Inl e \<Rightarrow> execute_native_receive_v3 sha N E M P clock input = versioned_frame 3 4 (put_item (failure3_item e))
    | Inr x \<Rightarrow> \<exists>b. encode_success N (ResCommit (epoch (xr_previous_roster x))
          (mls_leaf_into_native (eb_author (ea_binding (er_acceptance r))))
          (mls_roster_into_native (xr_previous_roster x)) (mls_roster_into_native (xr_resulting_roster x))
          (xr_resulting_group_state_sha256 x) (mls_batch_into_native (xr_storage_batch x))
          (xr_effective_retention x)) = Inr b \<and>
        execute_native_receive_v3 sha N E M P clock input = success3_answer 4
          (put_tok (TMap 2) @ put_tok (TUint 0) @ b @ put_tok (TUint 1)
            @ put_item (pending_item (er_expected_superseded_pending r)))"
proof -
  have C: "cbor_ok (nc N)" using N by (simp add: ncbor_ok_def)
  have d: "decode_native_receive_request_v3 sha N input = Inr (External3 r')"
    using encode_then_decode3 [OF N f] by (simp add: r'_def)
  from d obtain rows where "er_storage r' = snapshot_of rows" "rows_shape (Some (er_group_id r')) rows"
    and sh: "external_shape sha r'" and i: "input = request3_frame (External3 r') rows"
    unfolding n3_request_iff [OF N] by auto
  then have keys: "\<forall>e \<in> set (cx_entries (external_context r')). entry_key e \<noteq> []"
    by (auto simp: external_context_def native_storage_entry_into_mls_def snapshot_of_def rows_shape_def
        native_entry_shape_def)
  have op: "operation_v3 input = 4" by (simp add: i request3_frame_def operation_v3_frame)
  have fields: "er_commit r' = er_commit r" "er_expected_aad r' = er_expected_aad r"
    "er_acceptance r' = er_acceptance r" "er_expected_superseded_pending r' = er_expected_superseded_pending r"
    by (simp_all add: r'_def)
  have res: "v3_result sha N E M P clock input = bindE (external_receive sha (nc N) E M P (external_context r')
      (er_commit r) (er_expected_aad r) (er_acceptance r) (er_expected_superseded_pending r))
      (\<lambda>x. Inr (external_success x))"
    by (simp add: v3_result_def d n3_execute_def fields)
  show ?thesis
  proof (cases "external_receive sha (nc N) E M P (external_context r') (er_commit r) (er_expected_aad r)
      (er_acceptance r) (er_expected_superseded_pending r)")
    case (Inl e)
    then show ?thesis
      using execute_v3_failure [OF N, of input sha E M P clock e] by (simp add: res op)
  next
    case (Inr x)
    note xb = external_bounds [OF C sha Inr keys]
    have "leaf_ok (eb_author (ea_binding (er_acceptance r)))"
      using sh by (simp add: external_shape_def Let_def acceptance_sizes_def fields leaf_sizes_def leaf_ok_def)
    from commit_encodes [OF N this xb(3,2,1,4,5), of "epoch (xr_previous_roster x)"] obtain b where
      b: "encode_success N (ResCommit (epoch (xr_previous_roster x))
          (mls_leaf_into_native (eb_author (ea_binding (er_acceptance r))))
          (mls_roster_into_native (xr_previous_roster x)) (mls_roster_into_native (xr_resulting_roster x))
          (xr_resulting_group_state_sha256 x) (mls_batch_into_native (xr_storage_batch x))
          (xr_effective_retention x)) = Inr b" "length b \<le> 7 * 1024 * 1024" by blast
    let ?p = "er_expected_superseded_pending r"
    have p: "put_pending N ?p = Inr (put_item (pending_item ?p))"
      using sh by (auto simp: encode_parts3 [OF N] external_shape_def Let_def fields)
    have pl: "length (put_item (pending_item ?p)) \<le> 2000"
      using sh by (intro pending_length) (auto simp: external_shape_def Let_def fields n3_pending_shape_def)
    let ?b = "cb_map N 2 @ cb_u8 N 0 @ b @ cb_u8 N 1 @ put_item (pending_item ?p)"
    have "length ?b \<le> 7 * 1024 * 1024 + 10000"
      using b(2) pl cbor_head_length [of 5 2] cbor_head_length [of 0 0] cbor_head_length [of 0 1]
      by (simp add: ncbor_enc [OF N])
    then have "n3_encode_result N 4 (Inr (external_success x)) = Inr (success3_answer 4 ?b)"
      using success3_frame [OF N, of ?b 4] b(1) p
      by (simp add: n3_encode_result_def external_success_def xb(6,7))
    then have "execute_native_receive_v3 sha N E M P clock input = success3_answer 4 ?b"
      by (simp add: execute_v3_unfold op res Inr)
    with b(1) show ?thesis by (simp add: Inr ncbor_enc [OF N])
  qed
qed

section \<open>Pending Commits\<close>

theorem inspection_is_inspect_pending:
  assumes N: "ncbor_ok N" and f: "encode_native_receive_request_v3 sha N (InspectPending3 r) = Inr input"
  defines "r' \<equiv> r\<lparr>ip_storage := (ip_storage r)\<lparr>sn_entries := sorted_rows3 (InspectPending3 r)\<rparr>\<rparr>"
  shows "execute_native_receive_v3 sha N E M P clock input =
    (case inspect_pending sha (nc N) E M (inspection_context r') of
      Inl e \<Rightarrow> versioned_frame 3 5 (put_item (failure3_item e))
    | Inr None \<Rightarrow> success3_answer 5 (put_item (CMap [(0, CNull)]))
    | Inr (Some p) \<Rightarrow>
        if leaf_index (pb_author (pp_binding p)) \<le> 255
        then success3_answer 5 (put_item (CMap [(0, some_pending_item (pp_binding p))]))
        else versioned_frame 3 5 (put_item (failure3_item LimitExceeded)))"
proof -
  have C: "cbor_ok (nc N)" using N by (simp add: ncbor_ok_def)
  have d: "decode_native_receive_request_v3 sha N input = Inr (InspectPending3 r')"
    using encode_then_decode3 [OF N f] by (simp add: r'_def)
  from d obtain rows where i: "input = request3_frame (InspectPending3 r') rows"
    unfolding n3_request_iff [OF N] by auto
  have op: "operation_v3 input = 5" by (simp add: i request3_frame_def operation_v3_frame)
  have res: "v3_result sha N E M P clock input = bindE (inspect_pending sha (nc N) E M (inspection_context r'))
      (\<lambda>p. Inr (SuPending (map_option pp_binding p)))"
    by (simp add: v3_result_def d n3_execute_def)
  have enc: "n3_encode_result N 5 (Inr (SuPending q)) = Inr (success3_answer 5 (put_item (CMap [(0, pending_item q)])))"
    if q: "\<And>b. q = Some b \<Longrightarrow> n3_pending_shape b" for q
  proof -
    have p: "put_pending N q = Inr (put_item (pending_item q))"
      using q by (auto simp: encode_parts3 [OF N])
    have "length (put_item (pending_item q)) \<le> 2000"
      using q by (intro pending_length) (simp add: n3_pending_shape_def)
    then have "length (cb_map N 1 @ cb_u8 N 0 @ put_item (pending_item q)) \<le> 7 * 1024 * 1024 + 10000"
      using cbor_head_length [of 5 1] cbor_head_length [of 0 0] by (simp add: ncbor_enc [OF N])
    from success3_frame [OF N this, of 5] show ?thesis
      by (simp add: n3_encode_result_def p) (simp add: ncbor_enc [OF N])
  qed
  show ?thesis
  proof (cases "inspect_pending sha (nc N) E M (inspection_context r')")
    case (Inl e)
    then show ?thesis
      using execute_v3_failure [OF N, of input sha E M P clock e] by (simp add: res op)
  next
    case (Inr found)
    show ?thesis
    proof (cases found)
      case None
      then show ?thesis using enc [of None] by (simp add: execute_v3_unfold op res Inr pending_item_def)
    next
      case (Some p)
      from inspect_pending_Inr [OF C Inr [unfolded Some]] obtain L q where L: "opened sha (nc N) E M (inspection_context r') L"
        and q: "lg_pending (ld_local L) = Some q" "pp_binding p = binding q" by metis
      then have lo: "local_ok sha (ld_local L)" and po: "pending_ok sha (ld_local L) q"
        by (auto simp: opened_def local_ok_def)
      have "pending_sizes (pp_binding p)"
        using lo po by (auto simp: q(2) pending_ok_def local_ok_def Let_def pending_sizes_def expected_def
            state_shape_def roster_ok_def leaf_sizes_def leaf_ok_def)
      show ?thesis
      proof (cases "leaf_index (pb_author (pp_binding p)) \<le> 255")
        case True
        with \<open>pending_sizes (pp_binding p)\<close> have "n3_pending_shape (pp_binding p)" by (simp add: n3_pending_shape_def)
        then show ?thesis using enc [of "Some (pp_binding p)"] True Some
          by (simp add: execute_v3_unfold op res Inr pending_item_def)
      next
        case False
        have "n3_validate_pending (pp_binding p) = Inl LimitExceeded"
          using \<open>pending_sizes (pp_binding p)\<close> False
          by (simp add: n3_validate_pending_def pending_sizes_def n3_id_def validate_result_range_def
              validate_exact_result_bytes_def n3_leaf_def not_le)
        then have "n3_encode_result N 5 (Inr (SuPending (Some (pp_binding p)))) = Inl LimitExceeded"
          by (simp add: n3_encode_result_def put_pending_def)
        then show ?thesis
          using execute_v3_failure [OF N, of input sha E M P clock LimitExceeded] False Some by (simp add: res op Inr)
      qed
    qed
  qed
qed

section \<open>Member requests in both versions\<close>

lemma encode_frame_cases:
  assumes "mx < 2 ^ 32"
  shows "encode_frame_with_max op content mx =
    (if 12 + length content \<le> mx then Inr (native_frame op content) else Inl LimitExceeded)"
proof (cases "encode_frame_with_max op content mx")
  case (Inl e)
  then have "e = LimitExceeded"
    by (auto simp: encode_frame_with_max_def bindE_Inl_iff ok_or_Inl_iff split: if_splits)
  then show ?thesis using Inl encode_frame_iff [OF assms, of op content "native_frame op content"]
    by (simp add: length_native_frame)
next
  case (Inr fr)
  with encode_frame_iff [OF assms, of op content fr] have "fr = native_frame op content" "length fr \<le> mx" by blast+
  with Inr show ?thesis by (simp add: length_native_frame)
qed

definition same_answer :: "byte \<Rightarrow> bytes \<Rightarrow> bytes \<Rightarrow> bool" where
  "same_answer op a2 a3 \<longleftrightarrow>
     (\<exists>e. a2 = native_frame op (put_item (failure_item e)) \<and> a3 = versioned_frame 3 op (put_item (failure3_item e))) \<or>
     (\<exists>b. a2 = native_frame op (put_tok (TMap 3) @ put_tok (TUint 0) @ put_tok (TUint 2) @ put_tok (TUint 1)
            @ put_tok (TBool False) @ put_tok (TUint 2) @ b) \<and> a3 = success3_answer op b)"

theorem member_versions_agree:
  assumes N: "ncbor_ok N" and f: "encode_native_receive_request_v2 N q = Inr f2"
  shows "\<exists>f3. encode_native_receive_request_v3 sha N (Member3 q) = Inr f3 \<and>
    same_answer (operation_as_u8 (request_operation q))
      (execute_native_receive_v2 sha N E M clock f2) (execute_native_receive_v3 sha N E M P clock f3)"
proof -
  define q' where "q' = canonical_request q"
  define op where "op = request_operation q"
  have op': "request_operation q' = op" by (cases q) (simp_all add: q'_def op_def)
  define f3 where "f3 = take 4 f2 @ be16 3 @ drop 6 f2"
  have e3: "encode_native_receive_request_v3 sha N (Member3 q) = Inr f3"
    by (simp add: encode_native_receive_request_v3_def n3_encode_request_def f f3_def)
  have d2: "decode_native_receive_request_v2 N f2 = Inr q'" using encode_then_decode [OF N f] by (simp add: q'_def)
  have d3: "decode_native_receive_request_v3 sha N f3 = Inr (Member3 q')"
    using encode_then_decode3 [OF N e3] by (simp add: q'_def)
  from d3 obtain rows where "f3 = request3_frame (Member3 q') rows"
    unfolding n3_request_iff [OF N] by blast
  then have o3: "operation_v3 f3 = operation_as_u8 op"
    using member_operation(6,7) [of op] by (simp add: request3_frame_def operation_v3_frame op')
  have o2: "operation_hint f2 = Some op" using decoded_operation [OF d2] by (simp add: op')
  define R where "R = the (execute_request sha N E M clock q')"
  have ex: "execute_request sha N E M clock q' = Some R" unfolding R_def by (rule the_execute)
  have R2: "native_result sha N E M clock f2 = R" by (simp add: native_result_def d2 ex)
  have R3: "v3_result sha N E M P clock f3 = map_sum id SuMember R" by (simp add: v3_result_def d3 n3_execute_def ex)
  have fail: "same_answer (operation_as_u8 op) (execute_native_receive_v2 sha N E M clock f2)
      (execute_native_receive_v3 sha N E M P clock f3)"
    if "R = Inl e \<or> (\<exists>s. R = Inr s \<and> encode_native_receive_outcome_v2 N (Some op) (outcome_success s) = Inl e \<and>
        n3_encode_result N (operation_as_u8 op) (Inr (SuMember s)) = Inl e)" for e
  proof -
    have "execute_native_receive_v2 sha N E M clock f2 = native_frame (operation_as_u8 op) (put_item (failure_item e))"
      using that by (auto simp: execute_unfold R2 o2 outcome_of_result_def encode_failure [OF N]
          encode_native_receive_failure_v2_def operation_byte_def)
    moreover have "execute_native_receive_v3 sha N E M P clock f3 = versioned_frame 3 (operation_as_u8 op) (put_item (failure3_item e))"
      using that execute_v3_failure [OF N, of f3 sha E M P clock e] by (auto simp: R3 o3)
    ultimately show ?thesis by (auto simp: same_answer_def)
  qed
  have "same_answer (operation_as_u8 op) (execute_native_receive_v2 sha N E M clock f2)
      (execute_native_receive_v3 sha N E M P clock f3)"
  proof (cases R)
    case (Inl e)
    then show ?thesis by (intro fail) simp
  next
    case (Inr s)
    have s: "success_operation s = op" using executed_operation ex Inr op' by metis
    show ?thesis
    proof (cases "encode_success N s")
      case (Inl e)
      with Inr show ?thesis
        by (intro fail [of e]) (simp add: encode_native_receive_outcome_v2_def outcome_success_def n3_encode_result_def)
    next
      case b: (Inr b)
      let ?p = "\<lambda>v. put_tok (TMap 3) @ put_tok (TUint 0) @ put_tok (TUint v) @ put_tok (TUint 1)
            @ put_tok (TBool False) @ put_tok (TUint 2) @ b"
      have len: "length (?p 3) = length (?p 2)" by (simp add: cbor_head_def cbor_arg_def)
      have 2: "encode_native_receive_outcome_v2 N (Some op) (outcome_success s) =
          (if 12 + length (?p 2) \<le> NATIVE_RECEIVE_RESULT_MAX_BYTES then Inr (native_frame (operation_as_u8 op) (?p 2))
           else Inl LimitExceeded)"
        by (simp add: encode_native_receive_outcome_v2_def outcome_success_def b s native_encode_frame_def
            operation_byte_def ncbor_enc [OF N] NATIVE_RECEIVE_CONTRACT_VERSION_def encode_frame_cases [OF result_max])
      have 3: "n3_encode_result N (operation_as_u8 op) (Inr (SuMember s)) =
          (if 12 + length (?p 2) \<le> NATIVE_RECEIVE_RESULT_MAX_BYTES then Inr (success3_answer (operation_as_u8 op) b)
           else Inl LimitExceeded)"
        using len by (auto simp: n3_encode_result_def b n3_frame_def N3_HEADER_def ncbor_enc [OF N] success3_answer_def
            versioned_frame_def NATIVE_RECEIVE_RESULT_MAX_BYTES_def)
      show ?thesis
      proof (cases "12 + length (?p 2) \<le> NATIVE_RECEIVE_RESULT_MAX_BYTES")
        case True
        have "execute_native_receive_v2 sha N E M clock f2 = native_frame (operation_as_u8 op) (?p 2)"
          using 2 True by (simp add: execute_unfold R2 Inr o2 outcome_of_result_def)
        moreover have "execute_native_receive_v3 sha N E M P clock f3 = success3_answer (operation_as_u8 op) b"
          using 3 True by (simp add: execute_v3_unfold R3 Inr o3)
        ultimately show ?thesis by (auto simp: same_answer_def)
      next
        case False
        then show ?thesis using 2 3 Inr by (intro fail [of LimitExceeded]) simp
      qed
    qed
  qed
  with e3 show ?thesis by (auto simp: op_def)
qed

end
