(* ===== verification/NativeV3Properties.thy ===== *)
theory NativeV3Properties
  imports NativeV3Laws NativeInstance ExternalInstance
begin

text \<open>
  What the third version of the native receive guarantees, and the concrete requests on which its
  properties are tried.
\<close>

section \<open>Concrete requests\<close>

definition ext_state :: "u64 \<Rightarrow> MlsExpectedRosterStateV1" where
  "ext_state e = \<lparr>es_group_id = replicate 16 3, es_epoch = e, es_digest_sha256 = replicate 32 4\<rparr>"

definition ext_leaf :: "u32 \<Rightarrow> MlsRosterLeafV1" where
  "ext_leaf i = \<lparr>leaf_index = i, credential_identity = replicate 45 1, signature_public_key = replicate 32 2\<rparr>"

definition ext_acceptance :: MlsExternalCommitAcceptanceV1 where
  "ext_acceptance = \<lparr>ea_binding = \<lparr>eb_candidate_id = [1], eb_incarnation_id = [1],
       eb_transition = \<lparr>command_id = [2], context_sha256 = replicate 32 5\<rparr>,
       eb_previous_state = ext_state 5, eb_old_leaf = ext_leaf 7, eb_author = ext_leaf 7,
       eb_input_group_info_sha256 = replicate 32 6, eb_commit_sha256 = sha0 [1, 2, 3],
       eb_aad_sha256 = sha0 [9], eb_resulting_group_info_sha256 = replicate 32 7\<rparr>,
     ea_resulting_state = ext_state 6\<rparr>"

definition ext_pending :: MlsPendingCommitBinding where
  "ext_pending = \<lparr>pb_group_id = replicate 16 3, pb_incarnation_id = [1],
     pb_transition = \<lparr>command_id = [3], context_sha256 = replicate 32 8\<rparr>, pb_author = ext_leaf 4,
     pb_previous_state = ext_state 5, pb_commit_sha256 = replicate 32 9, pb_aad_sha256 = replicate 32 10,
     pb_welcome_sha256 = Some (replicate 32 11), pb_group_info_sha256 = None\<rparr>"

definition ext_request :: NativeExternalReceiveRequestV3 where
  "ext_request = \<lparr>er_profile_id = 2, er_group_id = replicate 16 3, er_incarnation_id = [1],
     er_commit = [1, 2, 3], er_expected_aad = [9], er_expected_base_group_state_sha256 = replicate 32 5,
     er_expected_retention = 2, er_acceptance = ext_acceptance,
     er_expected_superseded_pending = Some ext_pending, er_storage = pq_storage request1\<rparr>"

definition inspect_request :: NativeInspectPendingRequestV3 where
  "inspect_request = \<lparr>ip_profile_id = 2, ip_group_id = replicate 16 3, ip_incarnation_id = [1],
     ip_expected_current = ext_state 5, ip_expected_base_group_state_sha256 = replicate 32 5,
     ip_expected_retention = 2, ip_storage = pq_storage request1\<rparr>"

lemmas ext_defs = ext_state_def ext_leaf_def ext_acceptance_def ext_pending_def ext_request_def inspect_request_def

lemma ext_pending_shape: "n3_pending_shape ext_pending"
  by (simp add: ext_defs n3_pending_shape_def pending_sizes_def leaf_sizes_def state_shape_def)

lemma ext_request_shape: "external_shape sha0 ext_request"
proof -
  have "acceptance_sizes ext_acceptance"
    by (simp add: acceptance_sizes_def ext_acceptance_def ext_leaf_def ext_state_def leaf_sizes_def state_shape_def)
  then show ?thesis using ext_pending_shape
    by (simp add: external_shape_def ext_request_def)
      (simp add: ext_acceptance_def ext_pending_def ext_state_def ext_leaf_def small_checks u64_checked_succ_def)
qed

lemma inspect_request_shape: "inspection_shape inspect_request"
  by (simp add: inspection_shape_def inspect_request_def ext_state_def state_shape_def small_checks)

definition ext_frame :: bytes where
  "ext_frame = request3_frame (External3 ext_request) [row1 120, row1 121]"

definition inspect_frame :: bytes where
  "inspect_frame = request3_frame (InspectPending3 inspect_request) [row1 120, row1 121]"

lemmas put_defs = native_leaf_item_def native_expected_item_def snapshot_item_def native_entry_item_def option_item_def
  leaf_item_def state_item_def state_native_def mls_leaf_into_native_def row1_def cbor_head_def cbor_arg_def

lemma length_ext_frame: "length ext_frame \<le> NATIVE_RECEIVE_REQUEST_MAX_BYTES"
  by (simp add: ext_frame_def request3_frame_def length_versioned_frame external_item_def acceptance_item_def
      pending_item_def some_pending_item_def ext_defs put_defs NATIVE_RECEIVE_REQUEST_MAX_BYTES_def)

lemma length_inspect_frame: "length inspect_frame \<le> NATIVE_RECEIVE_REQUEST_MAX_BYTES"
  by (simp add: inspect_frame_def request3_frame_def length_versioned_frame inspection_item_def
      ext_defs put_defs NATIVE_RECEIVE_REQUEST_MAX_BYTES_def)

lemma encode_inspect_frame: "encode_native_receive_request_v3 sha0 N1 (InspectPending3 inspect_request) = Inr inspect_frame"
proof -
  note N = ncbor_ok_N1
  have mx: "12 \<le> NATIVE_RECEIVE_REQUEST_MAX_BYTES" by (simp add: NATIVE_RECEIVE_REQUEST_MAX_BYTES_def)
  have s: "put_state_v3 N1 (ext_state 5) = Inr (put_item (state_item (ext_state 5)))"
    by (simp add: encode_parts3 [OF N] ext_state_def state_shape_def)
  have "encode_inspection N1 inspect_request = Inr (put_item (inspection_item inspect_request [row1 120, row1 121]))"
    using snapshot1 s by (simp add: encode_inspection_def inspection_item_def inspect_request_def ncbor_enc [OF N])
  then show ?thesis
    using inspect_request_shape length_inspect_frame
    by (simp add: encode_native_receive_request_v3_def n3_encode_request_def bindE_Inr_iff validate_inspection_iff
        n3_frame_iff [OF mx] inspect_frame_def request3_frame_def INSPECT_PENDING_OPERATION_def)
qed

lemma encode_ext_frame: "encode_native_receive_request_v3 sha0 N1 (External3 ext_request) = Inr ext_frame"
proof -
  note N = ncbor_ok_N1
  have mx: "12 \<le> NATIVE_RECEIVE_REQUEST_MAX_BYTES" by (simp add: NATIVE_RECEIVE_REQUEST_MAX_BYTES_def)
  have "acceptance_sizes ext_acceptance"
    using ext_request_shape by (simp add: external_shape_def ext_request_def Let_def)
  note a = encode_acceptance [OF N this]
  have p: "put_pending N1 (Some ext_pending) = Inr (put_item (pending_item (Some ext_pending)))"
    by (simp add: encode_parts3 [OF N] ext_pending_shape)
  have "encode_external N1 ext_request = Inr (put_item (external_item ext_request [row1 120, row1 121]))"
    using snapshot1 a p by (simp add: encode_external_def external_item_def ext_request_def ncbor_enc [OF N])
  then show ?thesis
    using ext_request_shape length_ext_frame
    by (simp add: encode_native_receive_request_v3_def n3_encode_request_def bindE_Inr_iff n3_validate_iff
        n3_frame_iff [OF mx] ext_frame_def request3_frame_def)
qed

section \<open>Properties\<close>

text \<open>
  C34: The decoder of the third version is exact: a frame decodes to a request (of a member, for an
  external Commit, or for a pending Commit) just when it is the frame of that request with its rows in
  some order. For an external Commit this includes that the request is consistent: one group and
  incarnation, consecutive epochs, the digests of the Commit and of its additional data, and a
  superseded Commit that was prepared on the same state.
\<close>

theorem native_v3_decoding_is_exact:
  assumes "ncbor_ok N"
  shows "decode_native_receive_request_v3 sha N input = Inr q \<longleftrightarrow>
    (\<exists>rows. request3_storage q = snapshot_of rows \<and> rows_shape (request3_scope q) rows \<and> request3_shape sha q \<and>
       input = request3_frame q rows \<and> length input \<le> NATIVE_RECEIVE_REQUEST_MAX_BYTES)"
  by (rule n3_request_iff [OF assms])

theorem native_v3_decoding_is_exact_witness:
  "decode_native_receive_request_v3 sha0 N1 ext_frame = Inr (External3 ext_request)"
proof -
  have "request3_storage (External3 ext_request) = snapshot_of [row1 120, row1 121]"
    by (simp add: ext_request_def request1_def snapshot_of_def row1_def)
  moreover have "rows_shape (request3_scope (External3 ext_request)) [row1 120, row1 121]"
    using rows1 by (simp add: ext_request_def)
  moreover have "request3_shape sha0 (External3 ext_request)" using ext_request_shape by simp
  ultimately show ?thesis
    unfolding native_v3_decoding_is_exact [OF ncbor_ok_N1]
    using length_ext_frame ext_frame_def by blast
qed

text \<open>
  C33: The receipt of an external Commit over the native boundary is the receipt of the runtime
  (\<open>external_receive\<close>). For the frame of a request the runtime is called with exactly the request's
  fields and its rows; a refusal is answered by its error code, and a success by the author, both
  rosters, the digest, the batch, the retention and the superseded Commit of the result. An accepted
  external Commit always fits an answer frame.
\<close>

theorem native_external_receive_matches_the_runtime:
  assumes "ncbor_ok N" "\<And>b. length (sha b) = 32"
    and "encode_native_receive_request_v3 sha N (External3 r) = Inr input"
  shows "let r' = r\<lparr>er_storage := (er_storage r)\<lparr>sn_entries := sorted_rows3 (External3 r)\<rparr>\<rparr> in
    case external_receive sha (nc N) E M P (external_context r') (er_commit r) (er_expected_aad r)
      (er_acceptance r) (er_expected_superseded_pending r) of
      Inl e \<Rightarrow> execute_native_receive_v3 sha N E M P clock input = versioned_frame 3 4 (put_item (failure3_item e))
    | Inr x \<Rightarrow> \<exists>b. encode_success N (ResCommit (epoch (xr_previous_roster x))
          (mls_leaf_into_native (eb_author (ea_binding (er_acceptance r))))
          (mls_roster_into_native (xr_previous_roster x)) (mls_roster_into_native (xr_resulting_roster x))
          (xr_resulting_group_state_sha256 x) (mls_batch_into_native (xr_storage_batch x))
          (xr_effective_retention x)) = Inr b \<and>
        execute_native_receive_v3 sha N E M P clock input = success3_answer 4
          (put_tok (TMap 2) @ put_tok (TUint 0) @ b @ put_tok (TUint 1)
            @ put_item (pending_item (er_expected_superseded_pending r)))"
  unfolding Let_def by (rule external_is_external_receive [OF assms])

theorem native_external_receive_matches_the_runtime_witness:
  "let r' = ext_request\<lparr>er_storage := (er_storage ext_request)\<lparr>sn_entries := sorted_rows3 (External3 ext_request)\<rparr>\<rparr> in
    case external_receive sha0 (nc N1) E0 (M1 0) P0 (external_context r') (er_commit ext_request)
      (er_expected_aad ext_request) (er_acceptance ext_request) (er_expected_superseded_pending ext_request) of
      Inl e \<Rightarrow> execute_native_receive_v3 sha0 N1 E0 (M1 0) P0 (0, 0) ext_frame =
        versioned_frame 3 4 (put_item (failure3_item e))
    | Inr x \<Rightarrow> \<exists>b. encode_success N1 (ResCommit (epoch (xr_previous_roster x))
          (mls_leaf_into_native (eb_author (ea_binding (er_acceptance ext_request))))
          (mls_roster_into_native (xr_previous_roster x)) (mls_roster_into_native (xr_resulting_roster x))
          (xr_resulting_group_state_sha256 x) (mls_batch_into_native (xr_storage_batch x))
          (xr_effective_retention x)) = Inr b \<and>
        execute_native_receive_v3 sha0 N1 E0 (M1 0) P0 (0, 0) ext_frame = success3_answer 4
          (put_tok (TMap 2) @ put_tok (TUint 0) @ b @ put_tok (TUint 1)
            @ put_item (pending_item (er_expected_superseded_pending ext_request)))"
  by (rule native_external_receive_matches_the_runtime [OF ncbor_ok_N1 length_sha0 encode_ext_frame])

text \<open>
  C35: The native inspection answers what \<open>inspect_pending\<close> finds: its error code, null where no Commit
  is pending, and otherwise the binding of the pending Commit. A binding that the runtime returns
  passes every check of the answer but one: the author's leaf index must be at most 255, and a
  greater one is answered by LimitExceeded.
\<close>

theorem native_inspection_reports_the_pending_commit:
  assumes "ncbor_ok N" "encode_native_receive_request_v3 sha N (InspectPending3 r) = Inr input"
  shows "execute_native_receive_v3 sha N E M P clock input =
    (let r' = r\<lparr>ip_storage := (ip_storage r)\<lparr>sn_entries := sorted_rows3 (InspectPending3 r)\<rparr>\<rparr> in
     case inspect_pending sha (nc N) E M (inspection_context r') of
      Inl e \<Rightarrow> versioned_frame 3 5 (put_item (failure3_item e))
    | Inr None \<Rightarrow> success3_answer 5 (put_item (CMap [(0, CNull)]))
    | Inr (Some p) \<Rightarrow>
        if leaf_index (pb_author (pp_binding p)) \<le> 255
        then success3_answer 5 (put_item (CMap [(0, some_pending_item (pp_binding p))]))
        else versioned_frame 3 5 (put_item (failure3_item LimitExceeded)))"
  unfolding Let_def by (rule inspection_is_inspect_pending [OF assms])

theorem native_inspection_reports_the_pending_commit_witness:
  "execute_native_receive_v3 sha0 N1 E0 M0 P0 (0, 0) inspect_frame =
    (let r' = inspect_request\<lparr>ip_storage := (ip_storage inspect_request)\<lparr>sn_entries :=
         sorted_rows3 (InspectPending3 inspect_request)\<rparr>\<rparr> in
     case inspect_pending sha0 (nc N1) E0 M0 (inspection_context r') of
      Inl e \<Rightarrow> versioned_frame 3 5 (put_item (failure3_item e))
    | Inr None \<Rightarrow> success3_answer 5 (put_item (CMap [(0, CNull)]))
    | Inr (Some p) \<Rightarrow>
        if leaf_index (pb_author (pp_binding p)) \<le> 255
        then success3_answer 5 (put_item (CMap [(0, some_pending_item (pp_binding p))]))
        else versioned_frame 3 5 (put_item (failure3_item LimitExceeded)))"
  by (rule native_inspection_reports_the_pending_commit [OF ncbor_ok_N1 encode_inspect_frame])

text \<open>
  C36: A member request gives the same answer in both versions: for every request that the second
  version encodes, the third encodes it too, and the two answers are the same error or the same
  result, under the operation of the request, and differ in the version numbers only.
\<close>

theorem member_requests_agree_in_both_versions:
  assumes "ncbor_ok N" "encode_native_receive_request_v2 N q = Inr f2"
  shows "\<exists>f3. encode_native_receive_request_v3 sha N (Member3 q) = Inr f3 \<and>
    same_answer (operation_as_u8 (request_operation q))
      (execute_native_receive_v2 sha N E M clock f2) (execute_native_receive_v3 sha N E M P clock f3)"
  by (rule member_versions_agree [OF assms])

theorem member_requests_agree_in_both_versions_witness:
  "\<exists>f3. encode_native_receive_request_v3 sha0 N1 (Member3 (ReqProcess request1)) = Inr f3 \<and>
    same_answer (operation_as_u8 (request_operation (ReqProcess request1)))
      (execute_native_receive_v2 sha0 N1 E0 M0 (0, 0) frame1)
      (execute_native_receive_v3 sha0 N1 E0 M0 P0 (0, 0) f3)"
  by (rule member_requests_agree_in_both_versions [OF ncbor_ok_N1 encode1])

text \<open>
  Whatever bytes reach the third version, the answer is a well-formed frame of this version within
  8 MiB that carries the operation of the input or 0, for every CBOR library, storage and OpenMLS.
\<close>


theorem every_v3_frame_is_answered:
  "length (execute_native_receive_v3 sha N E M P clock input) \<le> NATIVE_RECEIVE_RESULT_MAX_BYTES \<and>
   (\<exists>op content. (op = operation_v3 input \<or> op = 0) \<and>
      execute_native_receive_v3 sha N E M P clock input = versioned_frame 3 op content)"
  using execute_v3_answers [of input sha N E M P clock] by (auto simp: answered_def)

end
