(* ===== verification/Spec2Isabelle.thy ===== *)
theory Spec2Isabelle
  imports EnvelopeProperties ResyncProperties ExternalProperties StateProperties StorageProperties NativeProperties NativeV3Properties
begin

text \<open>
  A model of the Rust core of \<open>openmls_dart\<close> (\<open>rust/src/\<close>): bindings of OpenMLS for Dart in which
  the caller, not the library, owns the database. Every operation takes the caller's rows and an
  expected state, works on a snapshot of the rows in memory and returns a batch of upserts and
  deletes which the caller applies under a compare-and-apply guard.

  \<^bold>\<open>The parts and their theories.\<close> In the order of the imports:

  \<^item> \<open>Prelude\<close>, \<open>Effects\<close>: results as sums (\<open>bindE\<close> for \<open>?\<close>, \<open>map_err\<close>, \<open>ok_or\<close>, loops as
    \<open>foldE\<close> and \<open>eachE\<close>), stateful results as functions of the snapshot, words and big-endian
    bytes, maps as association lists, and the collections \<open>success_simps\<close>, \<open>result_simps\<close>,
    \<open>keeps_intros\<close>, \<open>row_simps\<close>, \<open>read_back\<close> that carry the later proofs.
  \<^item> \<open>MlsTypes\<close>: the records and enums of \<open>api/group_e2ee.rs\<close>, \<open>api/types.rs\<close>, \<open>api/config.rs\<close>
    and \<open>api/storage.rs\<close>. Vectors of bytes are \<open>8 word list\<close>, \<open>u32\<close> and \<open>u64\<close> are words.
  \<^item> \<open>SnapshotStore\<close>, \<open>StorageTrait\<close>, \<open>ProviderMethods\<close>: \<open>snapshot_storage.rs\<close>. A snapshot is
    the pair of the initial and the current key/value map; each method of the OpenMLS storage
    trait is a definition of the same name. The locale \<open>kv_store\<close> is the row interface that the
    metadata of the package is written against; the snapshot interprets it (\<open>snapshot_kv\<close>).
    \<open>ProviderLaws\<close> shows that labels are prefix-free, keys injective and reads see writes;
    \<open>ProposalQueue\<close> is the refinement of the queue rows to lists.
  \<^item> \<open>StorageBoundary\<close>: \<open>api/storage.rs\<close>, the validation of the caller's rows and the batch of
    an operation; \<open>apply_batch\<close> is the caller's part, as the README describes it.
  \<^item> \<open>Roster\<close>, \<open>RosterLaws\<close>, \<open>DeltaLaws\<close>: digests and authority checks of \<open>api/group_e2ee.rs\<close>.
  \<^item> \<open>Cbor\<close>, \<open>LocalState\<close>: \<open>local_group_state.rs\<close>, the metadata that the package keeps about a
    group, its canonical CBOR encoding and its retry rows; \<open>LocalLaws\<close>, \<open>LocalCodec\<close> and
    \<open>LocalRows\<close> characterise validation, encoding and rows.
  \<^item> \<open>OpenMls\<close>: the interface to the vendored OpenMLS, as a record of functions, and the code
    that calls it directly (signers, credentials, rosters, additions).
  \<^item> \<open>Runtime\<close>, \<open>Receive\<close>: \<open>api/group_e2ee/runtime.rs\<close>, the lifecycle operations \<open>create\<close>, \<open>join\<close>,
    \<open>prepare\<close>, \<open>merge\<close>, \<open>discard\<close>, \<open>inspect_pending\<close>, \<open>send\<close> and \<open>receive_inner\<close>, with \<open>load\<close>
    before and \<open>finish\<close> after each. \<open>RuntimeLaws\<close> characterises \<open>load\<close> (\<open>opened\<close>) and \<open>finish\<close>
    (\<open>committed\<close>); \<open>Lifecycle\<close> has one lemma per operation that says what its success means.
  \<^item> \<open>Api\<close>: the public functions around the core and the outcome values they return.
  \<^item> \<open>Protocol\<close>: the caller's database over time, as an inductive step relation, and its
    invariant. \<open>Continuity\<close>: what OpenMLS persists (\<open>openmls_ok\<close>), and that after each operation
    the next one opens the state that was reported.
  \<^item> \<open>Instances\<close>, \<open>Runs\<close>: a CBOR library, a serialiser and a one-member OpenMLS that satisfy the
    assumed laws, and one successful run of every operation on them; the witnesses use them.
  \<^item> \<open>StateProperties\<close>, \<open>StorageProperties\<close> and this theory state the properties of these parts.

  The account envelope (\<open>api/account_envelope/\<close>) is a second, stateless component: key bundles of an
  account, their rotation, and sealed invitation previews between accounts.

  \<^item> \<open>Cursor\<close>: readers over the remaining input and the integers they read; the locale
    \<open>exact_reader\<close> (a reader accepts precisely the encodings of the valid values) is interpreted by
    the text fields of the preview.
  \<^item> \<open>EnvelopeTypes\<close>, \<open>EnvelopeCodec\<close>: \<open>types.rs\<close> and \<open>codec.rs\<close>. Every decoder is shown to accept
    exactly the encodings of the well-formed values.
  \<^item> \<open>CaseFoldTable\<close>, \<open>EnvelopeText\<close>, \<open>Invitation\<close>: \<open>unicode17_casefold.rs\<close> and \<open>invitation.rs\<close>:
    the folding table (as data, in ascending order), UTF-8 and the binary search of the standard
    library, normalisation, the preview, the header and the envelope.
  \<^item> \<open>EnvelopeCrypto\<close>, \<open>EnvelopeOps\<close>, \<open>EnvelopeBridge\<close>: \<open>crypto.rs\<close>, \<open>mod.rs\<close> and \<open>bridge.rs\<close>, the
    operations over the provider of the parameter record \<open>crypto\<close>.
  \<^item> \<open>EnvelopeLaws\<close> (published bundles, chains of rotations, the verdict on a response),
    \<open>BundleLaws\<close> (creation and authorisation), \<open>InvitationLaws\<close> (sealing and opening),
    \<open>EnvelopeInstance\<close> (a concrete provider for the witnesses), \<open>EnvelopeProperties\<close>.

  The external resynchronisation (\<open>external_resync/\<close>) lets a server check, without private state, a
  published GroupInfo and an external Commit by which a member replaces its own leaf.

  \<^item> \<open>ResyncTypes\<close>: \<open>mod.rs\<close>, limits, error codes, requests and results.
  \<^item> \<open>Preflight\<close>: \<open>preflight.rs\<close>, the scanner that bounds a message before OpenMLS parses it.
    \<open>PreflightLaws\<close>, \<open>ScanLaws\<close>, \<open>PreflightGrammar\<close>, \<open>PreflightEquiv\<close>: the language of byte strings
    each scanner accepts, computed by the rules \<open>scan_rules\<close> and the locales \<open>counted_items\<close> and
    \<open>item_pair\<close> for its loops.
  \<^item> \<open>ResyncPublic\<close>, \<open>ResyncPublicLaws\<close>: \<open>public.rs\<close>, the verification of a snapshot and of a
    successor over the public groups of OpenMLS (record \<open>public_mls\<close>), and what a success means.
  \<^item> \<open>ResyncCodec\<close>, \<open>ResyncCodecLaws\<close>: \<open>codec.rs\<close> and \<open>bin/openmls_public_validator.rs\<close>, framed requests
    and answers; the locale \<open>codec\<close> of \<open>Cbor\<close> is interpreted for every part of a request.
  \<^item> \<open>ResyncInstance\<close> (two published GroupInfos and the Commit between them), \<open>ResyncProperties\<close>.
  \<^item> \<open>Candidate\<close>, \<open>ExternalOps\<close>: the member side, \<open>api/external_resync.rs\<close>,
    \<open>runtime/external.rs\<close> and \<open>external/candidate.rs\<close>: a member that lost its state \<open>prepare\<close>s an
    external Commit on an empty provider, keeps the inactive candidate, and \<open>accept\<close> promotes it
    when the server has accepted the Commit; the others \<open>receive\<close> it; \<open>export_group_info\<close> of
    \<open>runtime.rs\<close> publishes what it starts from.
  \<^item> \<open>CandidateLaws\<close> (the candidate's codec is exact), \<open>ExternalLaws\<close> (what a successful export or
    receipt means), \<open>PromotionLaws\<close> (an accepted candidate is opened by the next operation),
    \<open>PreparationLaws\<close> (a prepared candidate is well formed and can be accepted),
    \<open>ExternalInstance\<close> (a two-member group for the witnesses), \<open>ExternalProperties\<close>.

  The native receive (\<open>native_receive_v2.rs\<close>, \<open>native_receive_v3.rs\<close>) lets the code of a platform receive a message while the
  application is not running: one framed CBOR request in, one framed answer out.

  \<^item> \<open>NativePreflight\<close>, \<open>NativeGrammar\<close>: the structural scanner over the payload (\<open>preflight_cbor\<close>,
    \<open>CborPreflight\<close>), and the language of CBOR items (\<open>put_item\<close>, \<open>fits\<close>, \<open>items\<close>) it accepts.
  \<^item> \<open>NativeCodec\<close>: frames, requests, storage snapshots, their encoders and decoders;
    \<open>NativeTokens\<close>: the decoders as readers of tokens, with one rule per step (\<open>tok_rules\<close>);
    \<open>NativeRequest\<close>, \<open>NativeRoundTrip\<close>: the frames that are requests, and that the encoder writes
    such frames, which pass the preflight.
  \<^item> \<open>NativeExecute\<close>: the execution over \<open>Runtime\<close> and \<open>Receive\<close>, and the answers;
    \<open>NativeLaws\<close> bounds the parts of an answer, \<open>NativeAnswers\<close> relates an answer to the result of the
    runtime; \<open>NativeInstance\<close> (a CBOR library and a request for the witnesses), \<open>NativeProperties\<close>.
  \<^item> \<open>NativeV3\<close>: \<open>native_receive_v3.rs\<close>, the same frames under a new version, with the receipt of an
    external Commit (over \<open>ExternalOps\<close>) and the inspection of a pending Commit (over \<open>Runtime\<close>);
    \<open>NativeV3Request\<close>, \<open>NativeV3RoundTrip\<close>: its requests as items and its exact decoder;
    \<open>NativeV3Laws\<close>, \<open>NativeV3Properties\<close>: its answers are those of the runtime, and those of the
    second version for the requests they share.

  \<^bold>\<open>What is a parameter.\<close> OpenMLS (record \<open>openmls\<close>), \<open>serde_json\<close> (record \<open>storage_env\<close>), the
  CBOR library \<open>minicbor\<close> (record \<open>cbor\<close>, for the native receive \<open>ncbor\<close>), SHA-256 (\<open>sha\<close>) and the clock; the cryptographic provider
  of the account envelope (record \<open>crypto\<close>), \<open>unicode_normalization\<close> (record \<open>unicode\<close>) the
  public groups of OpenMLS (record \<open>public_mls\<close>) and its external Commits (record \<open>external_mls\<close>). Where a property needs
  something of them it says so: \<open>serde_ok\<close> (serialisation is injective and reads back), \<open>cbor_ok\<close>
  (items read back, an encoding has at most nine bytes of header), \<open>ncbor_ok\<close> (the encoders write the shortest form of RFC 8949, and a decoder
  reads an item just when it has its type), \<open>openmls_ok\<close> (a digest has 32
  bytes; OpenMLS reads its own rows only and finds again what it stored), \<open>signature_pair\<close> and
  \<open>hpke_pair\<close> (what one key makes the other accepts), \<open>unicode_ok\<close> (composition keeps strings), \<open>external_ok\<close> (the group after an external Commit is stored
  and found again). OpenMLS changes the
  snapshot through the storage trait only, so an OpenMLS function returns the list of its
  storage calls and the model executes them.

  \<^bold>\<open>Bounds and termination.\<close> The loops of the code are structural recursions or folds, apart from the
  decoding of UTF-8 (the input shrinks), the binary search (the window shrinks) and the loops of
  the scanners (a counter reaches its limit, or the input shrinks), and the recursion of the CBOR preflight (the
  depth grows to its bound); no fuel is used. The bounds of the native receive leave room for what they
  must carry: a request of 4096 rows has at most 7 items a row and 32768 are allowed, it is nested less
  than six deep, and an answer stays below 7 MiB of the 8 MiB of a frame. \<open>usize\<close> is \<open>nat\<close> with the overflow checks of the code written out at 64 bits; epochs and
  leaf indexes are words of their width. A panic is not modelled as a value, since no modelled
  function panics; \<open>lifecycle_guard\<close> keeps the place where one would become \<open>InternalFailure\<close>.

  \<^bold>\<open>Not modelled.\<close> Zeroisation of secrets and the mutex around the rows (a method runs under the
  lock as a whole); the functions compiled only for tests and fixtures (\<open>legacy_\<close>\<open>...\<close>); the generated bridge
  \<open>frb_generated.rs\<close>; module declarations, initialisation and input/output glue; the vendored
  OpenMLS itself and the code in other languages. The first version of the
  native receive (\<open>native_receive_v1.rs\<close>, compiled for tests and fixtures only) and the JNI and C bindings
  around the later ones are not modelled.
\<close>

section \<open>The caller's database over time\<close>

text \<open>
  C1: Whatever sequence of successful operations a caller runs (\<open>create\<close> or \<open>join\<close>, then \<open>send\<close>,
  \<open>prepare\<close>, \<open>merge\<close>, \<open>discard\<close> and \<open>receive\<close> in any order), each on its current rows and
  followed by the application of the returned batch, the rows are always a valid snapshot of
  one group whose metadata decodes to a valid local state; the current roster and the retained
  history of that state are the end of the log of all rosters since the group was created or
  joined, and consecutive rosters of the log are of the same group with consecutive epochs.
\<close>

theorem reachable_database_invariant:
  assumes "cbor_ok C" "reachable_rows sha C E M rows rs"
  shows "\<exists>s. database_ok sha C rows s \<and> log_abs s rs \<and> successive_log rs"
  by (rule reachable_database [OF assms(2,1)])

lemma reachable0: "\<exists>rows rs. reachable_rows sha0 C0 E0 M0 rows rs"
  using create0 [of 0] by (meson reachable_start start_create)

theorem reachable_database_invariant_witness:
  "\<exists>rows rs s. reachable_rows sha0 C0 E0 M0 rows rs \<and> database_ok sha0 C0 rows s \<and>
    log_abs s rs \<and> successive_log rs"
  using reachable0 reachable_database_invariant [OF cbor_ok_C0] by metis

section \<open>A pending Commit from preparation to acceptance\<close>

text \<open>
  C2: A prepared Commit survives in the caller's rows: after the batch of \<open>prepare\<close> has been
  applied, \<open>inspect_pending\<close> opened on the new rows returns the same binding, proposed roster,
  Commit, Welcome, GroupInfo and preparation base, with an empty batch.
\<close>

theorem prepared_commit_is_retrievable:
  assumes "cbor_ok C" "openmls_ok sha E M"
    and "prepare sha C E M cx signer transition additions removals aad self = Inr r"
  shows "inspect_pending sha C E M
      (context_after (cx_incarnation_id cx) (pp_mutation r) (cx_entries cx))
    = Inr (Some (r\<lparr>pp_mutation := \<lparr>mu_previous = mu_resulting (pp_mutation r),
        mu_resulting = mu_resulting (pp_mutation r),
        mu_resulting_digest = mu_resulting_digest (pp_mutation r),
        mu_retention = mu_retention (pp_mutation r),
        mu_batch = \<lparr>upserts = [], deletes = [], deleted_group_ids = [],
          storage_format_version = 1\<rparr>\<rparr>\<rparr>))"
  by (rule prepare_inspect [OF assms])

theorem prepared_commit_is_retrievable_witness:
  "\<exists>r p. prepare sha0 C0 E0 M0 (context_of database0) [] transition0 [] [] aad0 (Some self0) = Inr r \<and>
    inspect_pending sha0 C0 E0 M0 (context_after [1] (pp_mutation r) (entries_of database0)) = Inr (Some p) \<and>
    pp_commit p = pp_commit r \<and> pp_binding p = pp_binding r"
proof -
  obtain r where r: "prepare sha0 C0 E0 M0 (context_of database0) [] transition0 [] [] aad0 (Some self0) = Inr r"
    using prepare0 by blast
  from prepared_commit_is_retrievable [OF cbor_ok_C0 openmls_ok_M0 r] r show ?thesis
    by (auto simp: context_of_def)
qed

text \<open>
  C3: A prepared Commit can be accepted: \<open>merge\<close> with the acceptance that names the prepared
  Commit, on the rows after \<open>prepare\<close>, reaches the previewed roster; the only error it can
  return is the size bound on the resulting rows.
\<close>

theorem prepared_commit_can_be_merged:
  assumes "cbor_ok C" "openmls_ok sha E M"
    and "prepare sha C E M cx signer transition additions removals aad self = Inr r"
  shows "(\<exists>m. merge sha C E M (context_after (cx_incarnation_id cx) (pp_mutation r) (cx_entries cx))
        (acceptance_of r) = Inr m \<and> mu_resulting m = pp_proposed r) \<or>
    merge sha C E M (context_after (cx_incarnation_id cx) (pp_mutation r) (cx_entries cx))
        (acceptance_of r) = Inl LimitExceeded"
  by (rule prepare_merge [OF assms])

theorem prepared_commit_can_be_merged_witness:
  "\<exists>r. prepare sha0 C0 E0 M0 (context_of database0) [] transition0 [] [] aad0 (Some self0) = Inr r \<and>
    (\<forall>e. merge sha0 C0 E0 M0 (context_after [1] (pp_mutation r) (entries_of database0)) (acceptance_of r)
      = Inl e \<longrightarrow> e = LimitExceeded)"
proof -
  obtain r where r: "prepare sha0 C0 E0 M0 (context_of database0) [] transition0 [] [] aad0 (Some self0) = Inr r"
    using prepare0 by blast
  from prepared_commit_can_be_merged [OF cbor_ok_C0 openmls_ok_M0 r] r show ?thesis
    by (auto simp: context_of_def)
qed

text \<open>
  C4: A successful \<open>merge\<close> settled exactly the Commit the rows hold pending: the acceptance
  named its binding, its resulting state and its preparation base; OpenMLS reached exactly the
  proposed roster; the new local state has that roster as current, the previous one in its
  history and nothing pending, and the mutation is committed on the caller's rows.
\<close>

theorem merge_settles_the_accepted_commit:
  assumes "cbor_ok C" "merge sha C E M cx acceptance = Inr m"
  shows "\<exists>L p g calls. opened sha C E M cx L \<and> lg_pending (ld_local L) = Some p \<and>
    acceptance = \<lparr>ac_binding = binding p, ac_resulting_state = expected (proposed_roster p),
       ac_preparation_base_group_state_sha256 = preparation_base_sha256 p\<rparr> \<and>
    om_own_leaf_index M (ld_group L) = leaf_index (pb_author (binding p)) \<and>
    om_merge_pending_commit M (ld_group L) (ld_provider L) = Some (g, calls) \<and>
    roster_from_group sha M g = Inr (proposed_roster p) \<and>
    committed sha C (cx_entries cx) (advanced (ld_local L) (proposed_roster p)) m \<and>
    mu_previous m = lg_current (ld_local L)"
  by (rule merge_Inr [OF assms]) blast

theorem merge_settles_the_accepted_commit_witness:
  "\<exists>m s. merge sha0 C0 E0 M0 (context_of database1) acceptance0 = Inr m \<and>
    committed sha0 C0 (entries_of database1) s m \<and> lg_current s = mu_resulting m"
proof -
  obtain m where m: "merge sha0 C0 E0 M0 (context_of database1) acceptance0 = Inr m"
    using merge1 by blast
  from merge_settles_the_accepted_commit [OF cbor_ok_C0 m] m show ?thesis
    by (auto simp: context_of_def committed_def Let_def)
qed

text \<open>
  A successful \<open>discard\<close> dropped exactly the pending Commit whose binding the caller named:
  roster, history, retention and incarnation are unchanged, nothing is pending any more, and
  the mutation is committed on the caller's rows.
\<close>

theorem discard_drops_only_the_named_commit:
  assumes "cbor_ok C" "discard sha C E M cx b = Inr m"
  shows "\<exists>L p. opened sha C E M cx L \<and> lg_pending (ld_local L) = Some p \<and> b = binding p \<and>
    committed sha C (cx_entries cx) ((ld_local L)\<lparr>lg_pending := None\<rparr>) m \<and>
    mu_previous m = lg_current (ld_local L) \<and> mu_resulting m = lg_current (ld_local L)"
proof -
  obtain L and p :: PendingRecord where "opened sha C E M cx L" "lg_pending (ld_local L) = Some p"
    "b = binding p" "committed sha C (cx_entries cx) ((ld_local L)\<lparr>lg_pending := None\<rparr>) m"
    "mu_previous m = lg_current (ld_local L)"
    by (rule discard_Inr [OF assms]) (rule that, assumption+)
  then show ?thesis by (auto simp: committed_def Let_def)
qed

theorem discard_drops_only_the_named_commit_witness:
  "\<exists>m. discard sha0 C0 E0 M0 (context_of database1) (binding (pending0 base0)) = Inr m \<and>
    mu_resulting m = mu_previous m"
proof -
  obtain m where m: "discard sha0 C0 E0 M0 (context_of database1) (binding (pending0 base0)) = Inr m"
    using discard1 by blast
  from discard_drops_only_the_named_commit [OF cbor_ok_C0 m] m show ?thesis by auto
qed

text \<open>
  C5: A successful \<open>prepare\<close> made exactly the authorised change: nothing was pending, the author
  is the local leaf of the current roster, the previewed roster is the current one with the
  authorised removals and additions and nothing else (or the same leaves at the next epoch for a
  self update), the binding records the group, the transition, the caller's expected state and
  the digests of the returned messages, and the mutation is committed with the Commit pending.
\<close>

theorem prepare_makes_the_authorised_change:
  assumes "cbor_ok C" "prepare sha C E M cx signer transition additions removals aad self = Inr r"
  shows "\<exists>L up. opened sha C E M cx L \<and> om_is_active M (ld_group L) \<and> lg_pending (ld_local L) = None \<and>
    find (\<lambda>l. leaf_index l = om_own_leaf_index M (ld_group L)) (leaves (lg_current (ld_local L)))
       = Some (pb_author (pp_binding r)) \<and>
    authorised_change (lg_current (ld_local L)) (pp_proposed r) additions removals self \<and>
    pp_binding r = \<lparr>pb_group_id = cx_group_id cx, pb_incarnation_id = cx_incarnation_id cx,
       pb_transition = transition, pb_author = pb_author (pp_binding r),
       pb_previous_state = cx_expected_current cx, pb_commit_sha256 = sha (pp_commit r),
       pb_aad_sha256 = sha aad, pb_welcome_sha256 = map_option sha (pp_welcome r),
       pb_group_info_sha256 = map_option sha (pp_group_info r)\<rparr> \<and>
    pp_preparation_base r = cx_expected_base_sha256 cx \<and>
    committed sha C (cx_entries cx) (prepared_local (ld_local L) r up) (pp_mutation r) \<and>
    mu_previous (pp_mutation r) = lg_current (ld_local L)"
  by (rule prepare_Inr [OF assms]) blast

theorem prepare_makes_the_authorised_change_witness:
  "\<exists>r. prepare sha0 C0 E0 M0 (context_of database0) [] transition0 [] [] aad0 (Some self0) = Inr r \<and>
    pb_group_id (pp_binding r) = gid0 \<and> pb_commit_sha256 (pp_binding r) = sha0 (pp_commit r)"
proof -
  obtain r where r: "prepare sha0 C0 E0 M0 (context_of database0) [] transition0 [] [] aad0 (Some self0) = Inr r"
    using prepare0 by blast
  from prepare_makes_the_authorised_change [OF cbor_ok_C0 r] have
    "pp_binding r = \<lparr>pb_group_id = gid0, pb_incarnation_id = [1],
       pb_transition = transition0, pb_author = pb_author (pp_binding r),
       pb_previous_state = expected (roster0 3), pb_commit_sha256 = sha0 (pp_commit r),
       pb_aad_sha256 = sha0 aad0, pb_welcome_sha256 = map_option sha0 (pp_welcome r),
       pb_group_info_sha256 = map_option sha0 (pp_group_info r)\<rparr>"
    by (auto simp: context_of_def)
  from this [THEN arg_cong [where f = pb_group_id]] this [THEN arg_cong [where f = pb_commit_sha256]] r
  show ?thesis by auto
qed

section \<open>Creating, joining, sending and receiving\<close>

text \<open>
  A successful \<open>create\<close> used one of the two accepted configurations, asked OpenMLS for the
  group with exactly that configuration and id, and found one leaf there, the authorised owner;
  the mutation is committed on the caller's rows with a fresh local state of that roster.
\<close>

theorem create_opens_a_group_of_the_owner:
  assumes "cbor_ok C"
    and "create sha C E M (now, now', now'') config signer gid incarnation owner credential
      entries version = Inr m"
  shows "\<exists>s sg cred st1 g calls. (max_past_epochs config = 2 \<or> max_past_epochs config = 4) \<and>
    config = (default_config Mls128DhkemX25519Aes128gcmSha256Ed25519)
      \<lparr>max_past_epochs := max_past_epochs config\<rparr> \<and>
    om_new_group M sg (to_create_config now'' config) gid cred st1 = Some (g, calls) \<and>
    roster_from_group sha M g = Inr (mu_resulting m) \<and>
    length (leaves (mu_resulting m)) = 1 \<and> leaf_matches_owner (leaves (mu_resulting m) ! 0) owner \<and>
    new_state sha incarnation (max_past_epochs config) (mu_resulting m) = Inr s \<and>
    committed sha C entries s m \<and> mu_previous m = mu_resulting m"
proof -
  obtain sg cred st1 g calls and s :: LocalGroupState where c:
    "config = (default_config Mls128DhkemX25519Aes128gcmSha256Ed25519)
       \<lparr>max_past_epochs := max_past_epochs config\<rparr>"
    "om_new_group M sg (to_create_config now'' config) gid cred st1 = Some (g, calls)"
    "roster_from_group sha M g = Inr (lg_current s)"
    "length (leaves (lg_current s)) = 1" "leaf_matches_owner (leaves (lg_current s) ! 0) owner"
    "new_state sha incarnation (max_past_epochs config) (lg_current s) = Inr s"
    "committed sha C entries s m" "mu_previous m = lg_current s"
    by (rule create_Inr [OF assms]) (rule that, assumption+)
  from c(7) have r: "mu_resulting m = lg_current s" by (simp add: committed_def Let_def)
  have "max_past_epochs config = 2 \<or> max_past_epochs config = 4"
    using assms(2) by (auto simp: create_def bindE_Inr_iff if_Inl_Inr_iff profile_Inr_iff)
  with c show ?thesis unfolding r by blast
qed

theorem create_opens_a_group_of_the_owner_witness:
  "\<exists>m. create sha0 C0 E0 M0 (7, 7, 7) config0 [] gid0 [1] owner0 None [] 1 = Inr m \<and>
    length (leaves (mu_resulting m)) = 1 \<and> leaf_matches_owner (leaves (mu_resulting m) ! 0) owner0"
proof -
  obtain m where m: "create sha0 C0 E0 M0 (7, 7, 7) config0 [] gid0 [1] owner0 None [] 1 = Inr m"
    using create0 by blast
  from create_opens_a_group_of_the_owner [OF cbor_ok_C0 m] m show ?thesis by blast
qed

text \<open>
  C39: A group cannot be created across a tick of the clock: \<open>create\<close> compares two OpenMLS
  configurations that each read the system clock, so the very arguments for which it succeeds
  are refused with \<open>ConfigurationMismatch\<close> when the second reading differs from the first.
\<close>

theorem create_fails_when_the_clock_ticks:
  assumes "cbor_ok C"
    and "create sha C E M (now, now', now'') config signer gid incarnation owner credential
      entries version = Inr m"
    and "later \<noteq> now"
  shows "create sha C E M (now, later, later') config signer gid incarnation owner credential
      entries version = Inl ConfigurationMismatch"
proof -
  from assms(2) have pr: "profile (max_past_epochs config) = Inr
      ((default_config Mls128DhkemX25519Aes128gcmSha256Ed25519)\<lparr>max_past_epochs := max_past_epochs config\<rparr>)"
    by (auto simp: create_def bindE_Inr_iff if_Inl_Inr_iff profile_Inr_iff)
  have "to_create_config now config \<noteq> to_create_config later ex" for ex
    using assms(3) by (simp add: to_create_config_eq_iff)
  with assms(2) pr show ?thesis
    by (auto simp: create_def bindE_Inr_iff if_Inl_Inr_iff)
qed

theorem create_fails_when_the_clock_ticks_witness:
  "create sha0 C0 E0 M0 (7, 8, 8) config0 [] gid0 [1] owner0 None [] 1 = Inl ConfigurationMismatch"
proof -
  obtain m where m: "create sha0 C0 E0 M0 (7, 7, 7) config0 [] gid0 [1] owner0 None [] 1 = Inr m"
    using create0 by blast
  from create_fails_when_the_clock_ticks [OF cbor_ok_C0 m, of 8 8] show ?thesis by simp
qed

text \<open>
  C38: A successful \<open>join\<close> consumed exactly the key package the caller named, for exactly the
  Welcome whose digest it gave; the resulting roster is the expected one, contains the expected
  local leaf, and the mutation is committed on the caller's rows with a fresh local state.
\<close>

theorem join_reaches_the_expected_state:
  assumes "cbor_ok C" "join sha C E M clock i = Inr r"
  shows "sha (ji_welcome i) = ji_welcome_sha256 i \<and>
    jn_consumed_key_package_sha256 r = ji_target_key_package_sha256 i \<and>
    jn_local_leaf r = ji_local_leaf i \<and>
    expected (mu_resulting (jn_mutation r)) = ji_resulting i \<and>
    ji_local_leaf i \<in> set (leaves (mu_resulting (jn_mutation r))) \<and>
    (\<exists>s. new_state sha (ji_incarnation_id i) (max_past_epochs (ji_config i))
       (mu_resulting (jn_mutation r)) = Inr s \<and> committed sha C (ji_entries i) s (jn_mutation r))"
proof -
  obtain joined and s :: LocalGroupState where "sha (ji_welcome i) = ji_welcome_sha256 i"
    "jn_local_leaf r = ji_local_leaf i"
    "jn_consumed_key_package_sha256 r = ji_target_key_package_sha256 i"
    "new_state sha (ji_incarnation_id i) (max_past_epochs (ji_config i))
       (jg_resulting_roster (sj_joined (joined :: StrictJoinedGroupState))) = Inr s"
    "expected (lg_current s) = ji_resulting i" "ji_local_leaf i \<in> set (leaves (lg_current s))"
    "committed sha C (ji_entries i) s (jn_mutation r)"
    by (rule join_Inr [OF assms]) (rule that, assumption+)
  moreover from this have "mu_resulting (jn_mutation r) = lg_current s"
    "lg_current s = jg_resulting_roster (sj_joined joined)"
    by (simp_all add: committed_def Let_def new_state_Inr_iff)
  ultimately show ?thesis by auto
qed

theorem join_reaches_the_expected_state_witness:
  "\<exists>j. join sha0 C0 E0 M0 (7, 7) join_input0 = Inr j \<and>
    jn_consumed_key_package_sha256 j = sha0 [6] \<and> leaf0 \<in> set (leaves (mu_resulting (jn_mutation j)))"
proof -
  obtain j where j: "join sha0 C0 E0 M0 (7, 7) join_input0 = Inr j"
    using join0 by blast
  from join_reaches_the_expected_state [OF cbor_ok_C0 j] j show ?thesis
    by (auto simp: join_input0_def)
qed

text \<open>
  C6: A received message is accepted only when the digest of its wire is the authorised one, its
  sender is a leaf of a retained roster whose state the caller named, and OpenMLS authenticated
  that leaf, identity, epoch and additional data; a Commit is taken only at the current epoch,
  with nothing pending, and only into the roster the caller named; the result is committed.
\<close>

theorem receive_accepts_only_authorised_messages:
  assumes "cbor_ok C" "receive_inner sha C E M i = Inr r"
  shows "\<exists>L message pr g calls1 calls2 s'. opened sha C E M (ri_context i) L \<and>
    receive_authorised sha (ld_local L) i \<and>
    om_process_message M message (ld_group L) (ld_provider L) = Inr ((pr, g), calls1) \<and>
    om_message_group_id M message = cx_group_id (ri_context i) \<and>
    pr_aad pr = ri_aad i \<and> pr_epoch pr = es_epoch (ri_message_state i) \<and>
    pr_sender pr = Member (leaf_index (ri_sender i)) \<and>
    pr_basic_identity pr = Some (credential_identity (ri_sender i)) \<and>
    received_as sha M i (pr_content pr) g (ld_local L) (exec_calls E calls1 (ld_provider L))
       (rv_plaintext r) (rv_proposal_type r) s' calls2 \<and>
    committed sha C (cx_entries (ri_context i)) s' (rv_mutation r) \<and>
    mu_previous (rv_mutation r) = lg_current (ld_local L)"
  by (rule receive_Inr [OF assms]) blast

theorem receive_accepts_only_authorised_messages_witness:
  "\<exists>r. receive_inner sha0 C0 E0 M0 incoming0 = Inr r \<and> rv_plaintext r \<noteq> None"
proof -
  obtain r where r: "receive_inner sha0 C0 E0 M0 incoming0 = Inr r" using receive0 by blast
  from receive_accepts_only_authorised_messages [OF cbor_ok_C0 r] r show ?thesis
    by (auto simp: received_as_def)
qed

text \<open>
  A successful \<open>send\<close> encrypted the given plaintext for the stored group with the given
  additional data, while nothing was pending, and changed no roster: the local state it commits
  is the one it loaded, and the mutation's previous and resulting rosters are the current one.
\<close>

theorem send_keeps_the_group_state:
  assumes "cbor_ok C" "send sha C E M cx signer plaintext aad = Inr r"
  shows "\<exists>L sg g calls. opened sha C E M cx L \<and> om_is_active M (ld_group L) \<and>
    lg_pending (ld_local L) = None \<and>
    om_create_message M sg plaintext (om_set_aad M aad (ld_group L)) (ld_provider L)
      = Some ((Some (sn_ciphertext r), g), calls) \<and>
    committed sha C (cx_entries cx) (ld_local L) (sn_mutation r) \<and>
    mu_previous (sn_mutation r) = lg_current (ld_local L) \<and>
    mu_resulting (sn_mutation r) = lg_current (ld_local L)"
proof -
  obtain L g calls and sg :: SerializableSigner where "opened sha C E M cx L" "om_is_active M (ld_group L)"
    "lg_pending (ld_local L) = None"
    "om_create_message M sg plaintext (om_set_aad M aad (ld_group L)) (ld_provider L)
      = Some ((Some (sn_ciphertext r), g), calls)"
    "committed sha C (cx_entries cx) (ld_local L) (sn_mutation r)"
    "mu_previous (sn_mutation r) = lg_current (ld_local L)"
    by (rule send_Inr [OF assms]) (rule that, assumption+)
  moreover from this have "mu_resulting (sn_mutation r) = lg_current (ld_local L)"
    by (simp add: committed_def Let_def)
  ultimately show ?thesis by blast
qed

theorem send_keeps_the_group_state_witness:
  "\<exists>r. send sha0 C0 E0 M0 (context_of database0) [] [5] aad0 = Inr r \<and>
    mu_resulting (sn_mutation r) = mu_previous (sn_mutation r)"
proof -
  obtain r where r: "send sha0 C0 E0 M0 (context_of database0) [] [5] aad0 = Inr r"
    using send0 by blast
  from send_keeps_the_group_state [OF cbor_ok_C0 r] r show ?thesis by auto
qed

section \<open>One operation after another\<close>

text \<open>
  C7: The next operation opens the state that the previous one reported: after the batch of a
  send, prepare, merge or discard has been applied, \<open>load\<close> on the new rows with the reported
  roster and digest succeeds and finds the unchanged, prepared, advanced or cleared local state.
\<close>

theorem next_operation_opens_the_reported_state:
  assumes "cbor_ok C" "openmls_ok sha E M" "load sha C E M cx = Inr L"
  shows "(\<forall>signer plaintext aad r. send sha C E M cx signer plaintext aad = Inr r \<longrightarrow>
      continues sha C E M (cx_entries cx) (ld_local L) (sn_mutation r)) \<and>
    (\<forall>signer transition additions removals aad self r.
      prepare sha C E M cx signer transition additions removals aad self = Inr r \<longrightarrow>
      (\<exists>up. continues sha C E M (cx_entries cx) (prepared_local (ld_local L) r up) (pp_mutation r))) \<and>
    (\<forall>acceptance p m. merge sha C E M cx acceptance = Inr m \<longrightarrow> lg_pending (ld_local L) = Some p \<longrightarrow>
      continues sha C E M (cx_entries cx) (advanced (ld_local L) (proposed_roster p)) m) \<and>
    (\<forall>b m. discard sha C E M cx b = Inr m \<longrightarrow>
      continues sha C E M (cx_entries cx) ((ld_local L)\<lparr>lg_pending := None\<rparr>) m)"
proof (intro conjI allI impI)
  fix signer transition additions removals aad self r
  assume r: "prepare sha C E M cx signer transition additions removals aad self = Inr r"
  show "\<exists>up. continues sha C E M (cx_entries cx) (prepared_local (ld_local L) r up) (pp_mutation r)"
    by (rule prepare_continues [OF assms r]) blast
qed (use send_continues [OF assms] merge_continues [OF assms] discard_continues [OF assms] in blast)+

theorem next_operation_opens_the_reported_state_witness:
  "\<exists>m. merge sha0 C0 E0 M0 (context_of database1) acceptance0 = Inr m \<and>
    continues sha0 C0 E0 M0 (entries_of database1)
      (advanced (local0 (Some (pending0 base0))) (proposed_roster (pending0 base0))) m"
proof -
  obtain m where m: "merge sha0 C0 E0 M0 (context_of database1) acceptance0 = Inr m"
    using merge1 by blast
  have "lg_pending (ld_local (loaded_of database1 (Some (pending0 base0)))) = Some (pending0 base0)"
    by (simp add: loaded_of_def local0_def)
  with next_operation_opens_the_reported_state [OF cbor_ok_C0 openmls_ok_M0 load1] m
  have "continues sha0 C0 E0 M0 (cx_entries (context_of database1)) (advanced
      (ld_local (loaded_of database1 (Some (pending0 base0)))) (proposed_roster (pending0 base0))) m"
    by blast
  with m show ?thesis by (auto simp: context_of_def loaded_of_def)
qed

section \<open>What is refused\<close>

text \<open>
  C11: Optimistic concurrency: whenever the rows can be opened under their real digest, every other
  32-byte base digest is refused. \<open>load\<close>, \<open>merge\<close>, \<open>discard\<close>, \<open>inspect_pending\<close> and \<open>receive_inner\<close>
  answer \<open>BaseStateMismatch\<close>; \<open>send\<close>, \<open>prepare\<close>, \<open>export_group_info\<close> and \<open>external_receive\<close>, which
  check some of their arguments before, never succeed. These are all the operations of the runtime that
  open the stored group of a caller.
\<close>

theorem stale_base_is_refused:
  assumes "cbor_ok C" "load sha C E M cx = Inr L" "length b = 32" "b \<noteq> cx_expected_base_sha256 cx"
  defines "stale \<equiv> cx\<lparr>cx_expected_base_sha256 := b\<rparr>"
  shows "load sha C E M stale = Inl BaseStateMismatch \<and>
    merge sha C E M stale acceptance = Inl BaseStateMismatch \<and>
    discard sha C E M stale bd = Inl BaseStateMismatch \<and>
    inspect_pending sha C E M stale = Inl BaseStateMismatch \<and>
    receive_inner sha C E M (i\<lparr>ri_context := stale\<rparr>) = Inl BaseStateMismatch \<and>
    \<not> (\<exists>r. send sha C E M stale signer plaintext aad = Inr r) \<and>
    \<not> (\<exists>r. prepare sha C E M stale signer transition additions removals aad self = Inr r) \<and>
    \<not> (\<exists>r. export_group_info sha C E M P X now stale signer own = Inr r) \<and>
    \<not> (\<exists>r. external_receive sha C E M P stale wire aad external superseded = Inr r)"
proof -
  have l: "load sha C E M stale = Inl BaseStateMismatch"
    using assms(2-4) by (auto simp: load_def stale_def bindE_Inr_iff if_Inl_Inr_iff map_err_Inr_iff)
  then have "merge sha C E M stale acceptance = Inl BaseStateMismatch \<and>
      discard sha C E M stale bd = Inl BaseStateMismatch \<and>
      inspect_pending sha C E M stale = Inl BaseStateMismatch \<and>
      receive_inner sha C E M (i\<lparr>ri_context := stale\<rparr>) = Inl BaseStateMismatch"
    by (simp add: merge_def discard_def inspect_pending_def receive_inner_def)
  moreover from l have "send sha C E M stale signer plaintext aad \<noteq> Inr r"
    "prepare sha C E M stale signer transition additions removals aad self \<noteq> Inr r'" for r r'
    by (auto simp: send_def prepare_def bindE_Inr_iff if_Inl_Inr_iff)
  moreover from l have "export_group_info sha C E M P X now stale signer own \<noteq> Inr r"
    "external_receive sha C E M P stale wire aad external superseded \<noteq> Inr r'" for r r'
    by (auto simp: export_group_info_def external_receive_def Let_def bindE_Inr_iff if_Inl_Inr_iff)
  ultimately show ?thesis using l by blast
qed

theorem stale_base_is_refused_witness:
  "load sha0 C0 E0 M0 ((context_of database0)\<lparr>cx_expected_base_sha256 :=
     map (\<lambda>x. x + 1) (digest_of (entries_of database0))\<rparr>) = Inl BaseStateMismatch"
proof -
  have "length (digest_of (entries_of database0)) = 32"
    using load0 by (simp add: load_Inr_iff [OF cbor_ok_C0] opened_def context_of_def)
  moreover from this have "map (\<lambda>x. x + 1) (digest_of (entries_of database0)) \<noteq> digest_of (entries_of database0)"
    by (cases "digest_of (entries_of database0)") auto
  ultimately show ?thesis
    by (intro stale_base_is_refused [OF cbor_ok_C0 load0, THEN conjunct1]) (simp_all add: context_of_def)
qed

text \<open>
  The batch of \<open>delete_group_with_storage\<close> names the deleted group but leaves the package's
  own metadata rows to the caller: neither its upserts nor its deletes touch a row under
  \<open>OpenMlsDart/\<close>, so those rows go only because the caller honours \<open>deleted_group_ids\<close>.
\<close>

theorem delete_leaves_metadata_to_the_caller:
  assumes "delete_group_with_storage E M gid entries version = Inr b"
    and "starts_with k RESERVED"
  shows "deleted_group_ids b = [gid] \<and> k \<notin> set (deletes b) \<and> k \<notin> entry_key ` set (upserts b)"
proof -
  from assms(1) obtain p calls where p: "provider_from_entries entries version (Some gid) = Inr p"
    and b: "batch_from_provider (exec_calls E calls p) (Some gid) [gid] = Inr b"
    by (auto simp: delete_group_with_storage_def bindE_Inr_iff map_err_Inr_iff)
  have ok: "snapshot_ok (exec_calls E calls p)" and init: "sp_initial (exec_calls E calls p) = sp_current p"
    using opened_on_exec_calls [OF opened_on_fresh, of entries gid p E calls] p row_of_opened(3) [OF p]
      provider_from_entries_Inr_iff
    by (auto simp: opened_on_def)
  note bu = batch_upserts [OF ok b]
  have "map_of (sp_current (exec_calls E calls p)) k = map_of (sp_current p) k"
    using exec_calls_reserved [of k E calls p] assms(2) by (simp add: RESERVED_def read_opaque_def)
  then have "k \<notin> set (deletes b)" "entries_map (upserts b) k = None"
    using row_of_opened(3) [OF p] by (auto simp: bu(2,3) split: option.splits)
  moreover have "deleted_group_ids b = [gid]"
    using b by (auto simp: batch_from_provider_def batch_from_updates_Some)
  ultimately show ?thesis
    by (force simp: entries_map_def map_of_eq_None_iff)
qed

theorem delete_leaves_metadata_to_the_caller_witness:
  "\<exists>b. delete_group_with_storage E0 M0 gid0 (entries_of database0) 1 = Inr b \<and>
    deleted_group_ids b = [gid0] \<and> key gid0 ''state/'' \<notin> set (deletes b)"
proof -
  have "\<exists>g. om_load M0 gid0 (from_entries database0) = Some g"
    using load0 by (auto simp: load_Inr_iff [OF cbor_ok_C0] opened_def context_of_def loaded_of_def)
  then obtain b where b: "delete_group_with_storage E0 M0 gid0 (entries_of database0) 1 = Inr b"
    using entries_of_provider(1) [OF databases_distinct(1)]
    by (auto simp: delete_group_with_storage_def load_group_def ok_or_def M0_sel
        batch_from_provider_def batch_from_updates_Some)
  from delete_leaves_metadata_to_the_caller [OF b key_reserved(2) [of gid0 "''state/''"]] b
  show ?thesis by blast
qed

end
